(* ===== verification/Roosty_Prelude.thy ===== *)
theory Roosty_Prelude
  imports Main
begin

text \<open>
  Shared vocabulary of the development.

  Roosty keeps all of its durable state in PostgreSQL, and the code under
  \<^verbatim>\<open>src/crates/db\<close> is a collection of SQL statements (raw or built with
  SeaORM) run against it. A table is modelled as the list of its rows; the list order stands
  for the physical row order, about which nothing is assumed. This theory holds

  \<^item> the SQL statement forms the code uses, as functions on such lists: \<open>tbl_insert\<close>
    (\<open>INSERT\<close>, failing on a unique index), \<open>tbl_insert_nothing\<close>
    (\<open>ON CONFLICT DO NOTHING\<close>), \<open>tbl_upsert\<close> (\<open>ON CONFLICT DO UPDATE\<close>),
    \<open>tbl_update\<close>, \<open>tbl_delete\<close>, \<open>tbl_order\<close> (\<open>ORDER BY\<close>); \<open>SELECT\<close> with
    a filter is \<open>filter\<close> or \<open>List.find\<close>;
  \<^item> the error type of \<^verbatim>\<open>src/crates/core\<close> and the result type of fallible code;
  \<^item> the interface \<open>unique_table\<close> of a table whose unique indexes are respected, with the
    lemmas that every statement form keeps them so, and its extension \<open>keyed_table\<close> by a
    key column;
  \<^item> reachability of a step relation and the interface \<open>invariant_system\<close>.
\<close>

named_theorems tbl \<open>unfolding of the statement forms\<close>
named_theorems rows \<open>membership facts of the statement forms\<close>

subsection \<open>Results\<close>

text \<open>
  Database failures the modelled statements can raise. An instant, a counter or a row outside
  of what the column accepts is a failure too, and so is a Rust panic, which unwinds the
  request without committing anything.
\<close>

datatype db_err =
    UniqueViolation
  | ForeignKeyViolation
  | CheckViolation
  | NumericOutOfRange
  | CardinalityViolation
  | RecordNotFound string

datatype account_relationship_error =
    SelfFollow
  | FollowTargetNotFound
  | FollowBlocked
  | SelfModeration
  | ModerationTargetNotFound

datatype roosty_error =
    Configuration string
  | Database db_err
  | FederationDiscovery string
  | AccountRelationship account_relationship_error
  | InvalidInput string
  | StatusVisibilityParse
  | Io string
  | Serialization string
  | NotImplemented string
  | Panic string

type_synonym 'a result = "roosty_error + 'a"

definition bind_res :: "'e + 'a \<Rightarrow> ('a \<Rightarrow> 'e + 'b) \<Rightarrow> 'e + 'b" where
  "bind_res m f = (case m of Inl e \<Rightarrow> Inl e | Inr x \<Rightarrow> f x)"

lemma bind_res_simps [simp]:
  "bind_res (Inl e) f = Inl e"
  "bind_res (Inr x) f = f x"
  by (simp_all add: bind_res_def)

lemma bind_res_Inr_iff: "bind_res m f = Inr y \<longleftrightarrow> (\<exists>x. m = Inr x \<and> f x = Inr y)"
  by (cases m) auto

lemma bind_res_Inl_iff:
  "bind_res m f = Inl e \<longleftrightarrow> m = Inl e \<or> (\<exists>x. m = Inr x \<and> f x = Inl e)"
  by (cases m) auto

text \<open>Collecting the results of a list, up to the first error.\<close>

primrec map_res :: "('a \<Rightarrow> 'e + 'b) \<Rightarrow> 'a list \<Rightarrow> 'e + 'b list" where
  "map_res f [] = Inr []"
| "map_res f (x # xs) = bind_res (f x) (\<lambda>y. bind_res (map_res f xs) (\<lambda>ys. Inr (y # ys)))"

lemma map_res_Inr:
  assumes "\<And>x. x \<in> set xs \<Longrightarrow> \<exists>y. f x = Inr y"
  shows "\<exists>ys. map_res f xs = Inr ys"
  using assms
proof (induction xs)
  case (Cons x xs)
  then obtain y ys where "f x = Inr y" "map_res f xs = Inr ys" by (metis list.set_intros(1,2))
  then show ?case by simp
qed simp

lemma map_res_map: "(\<And>x. x \<in> set xs \<Longrightarrow> f x = Inr (g x)) \<Longrightarrow> map_res f xs = Inr (map g xs)"
  by (induction xs) simp_all

lemma map_res_nth: "map_res f xs = Inr ys \<Longrightarrow> list_all2 (\<lambda>x y. f x = Inr y) xs ys"
  by (induction xs arbitrary: ys) (auto simp: bind_res_Inr_iff)

definition db_result :: "db_err + 'a \<Rightarrow> 'a result" where
  "db_result m = (case m of Inl e \<Rightarrow> Inl (Database e) | Inr x \<Rightarrow> Inr x)"

lemma db_result_Inr_iff [simp]: "db_result m = Inr x \<longleftrightarrow> m = Inr x"
  by (cases m) (auto simp: db_result_def)

lemma db_result_simps [simp]:
  "db_result (Inl e) = Inl (Database e)"
  "db_result (Inr x) = Inr x"
  by (simp_all add: db_result_def)

subsection \<open>Statement forms\<close>

type_synonym 'r conflict = "'r \<Rightarrow> 'r \<Rightarrow> bool"

definition tbl_update :: "('r \<Rightarrow> bool) \<Rightarrow> ('r \<Rightarrow> 'r) \<Rightarrow> 'r list \<Rightarrow> 'r list" where
  "tbl_update p f t = map (\<lambda>r. if p r then f r else r) t"

definition tbl_delete :: "('r \<Rightarrow> bool) \<Rightarrow> 'r list \<Rightarrow> 'r list" where
  "tbl_delete p t = filter (\<lambda>r. \<not> p r) t"

definition tbl_insert :: "'r conflict \<Rightarrow> 'r \<Rightarrow> 'r list \<Rightarrow> db_err + 'r list" where
  "tbl_insert conflict r t =
     (if list_ex (conflict r) t then Inl UniqueViolation else Inr (t @ [r]))"

definition tbl_insert_nothing :: "'r conflict \<Rightarrow> 'r \<Rightarrow> 'r list \<Rightarrow> 'r list \<times> bool" where
  "tbl_insert_nothing conflict r t =
     (if list_ex (conflict r) t then (t, False) else (t @ [r], True))"

text \<open>\<open>ON CONFLICT (target) DO NOTHING\<close>: only a clash on the target is passed over.\<close>

definition tbl_insert_unless ::
  "'r conflict \<Rightarrow> 'r conflict \<Rightarrow> 'r \<Rightarrow> 'r list \<Rightarrow> db_err + 'r list \<times> bool" where
  "tbl_insert_unless target conflict r t =
     (if list_ex (target r) t then Inr (t, False)
      else case tbl_insert conflict r t of Inl e \<Rightarrow> Inl e | Inr t' \<Rightarrow> Inr (t', True))"

text \<open>
  \<open>INSERT ... ON CONFLICT (target) DO UPDATE\<close>: a row with the same conflict target is
  changed by \<open>merge\<close>, and the changed row must not clash with any other row; without such
  a row the new one is inserted, and a clash on another unique index fails.
\<close>

definition tbl_upsert ::
  "'r conflict \<Rightarrow> 'r conflict \<Rightarrow> ('r \<Rightarrow> 'r) \<Rightarrow> 'r \<Rightarrow> 'r list \<Rightarrow> db_err + 'r list" where
  "tbl_upsert target conflict merge r t =
     (if list_ex (target r) t
      then (if list_ex (\<lambda>x. target r x \<and>
                 list_ex (\<lambda>y. \<not> target r y \<and> conflict (merge x) y) t) t
            then Inl UniqueViolation
            else Inr (tbl_update (target r) merge t))
      else tbl_insert conflict r t)"

text \<open>
  \<open>UPDATE\<close> of unique columns: the changed rows must not clash with the others.
\<close>

definition tbl_update_checked ::
  "'r conflict \<Rightarrow> ('r \<Rightarrow> bool) \<Rightarrow> ('r \<Rightarrow> 'r) \<Rightarrow> 'r list \<Rightarrow> db_err + 'r list" where
  "tbl_update_checked conflict p f t =
     (if list_ex (\<lambda>x. p x \<and> list_ex (\<lambda>y. \<not> p y \<and> conflict (f x) y) t) t
      then Inl UniqueViolation
      else Inr (tbl_update p f t))"

definition tbl_order :: "('r \<Rightarrow> 'k::linorder) \<Rightarrow> 'r list \<Rightarrow> 'r list" where
  "tbl_order k t = sort_key k t"

definition rows_affected :: "('r \<Rightarrow> bool) \<Rightarrow> 'r list \<Rightarrow> nat" where
  "rows_affected p t = length (filter p t)"

declare tbl_update_def [tbl] tbl_delete_def [tbl] tbl_insert_def [tbl]
  tbl_insert_nothing_def [tbl] tbl_insert_unless_def [tbl] tbl_upsert_def [tbl] tbl_update_checked_def [tbl]
  tbl_order_def [tbl] rows_affected_def [tbl]

subsection \<open>Membership\<close>

lemma set_tbl_update [rows]:
  "set (tbl_update p f t) = {r \<in> set t. \<not> p r} \<union> f ` {r \<in> set t. p r}"
  by (auto simp: tbl_update_def)

lemma set_tbl_delete [rows, simp]: "set (tbl_delete p t) = {r \<in> set t. \<not> p r}"
  by (auto simp: tbl_delete_def)

lemma tbl_insert_Inr [rows]:
  "tbl_insert c r t = Inr t' \<longleftrightarrow> (\<forall>x \<in> set t. \<not> c r x) \<and> t' = t @ [r]"
  by (auto simp: tbl_insert_def list_ex_iff)

lemma tbl_insert_unless_Inr [rows]:
  "tbl_insert_unless target c r t = Inr (t', b) \<longleftrightarrow>
     (if \<exists>x \<in> set t. target r x then t' = t \<and> \<not> b else (\<forall>x \<in> set t. \<not> c r x) \<and> t' = t @ [r] \<and> b)"
  by (auto simp: tbl_insert_unless_def tbl_insert_def list_ex_iff split: if_splits)

lemma set_tbl_order [rows, simp]: "set (tbl_order k t) = set t"
  by (simp add: tbl_order_def)

lemma tbl_insert_nothing_set:
  "set (fst (tbl_insert_nothing c r t)) =
     (if snd (tbl_insert_nothing c r t) then insert r (set t) else set t)"
  by (simp add: tbl_insert_nothing_def)

lemma tbl_insert_nothing_snd [simp]:
  "snd (tbl_insert_nothing c r t) \<longleftrightarrow> (\<forall>x \<in> set t. \<not> c r x)"
  by (simp add: tbl_insert_nothing_def list_ex_iff)

lemma tbl_update_id: "(\<And>r. r \<in> set t \<Longrightarrow> \<not> p r) \<Longrightarrow> tbl_update p f t = t"
  by (auto simp: tbl_update_def intro: map_idI)

lemma tbl_delete_id: "(\<And>r. r \<in> set t \<Longrightarrow> \<not> p r) \<Longrightarrow> tbl_delete p t = t"
  by (auto simp: tbl_delete_def)

lemma rows_affected_pos: "0 < rows_affected p t \<longleftrightarrow> (\<exists>r \<in> set t. p r)"
  by (auto simp: rows_affected_def filter_empty_conv)

lemma rows_affected_zero: "rows_affected p t = 0 \<longleftrightarrow> (\<forall>r \<in> set t. \<not> p r)"
  by (auto simp: rows_affected_def filter_empty_conv)

lemma length_tbl_update [simp]: "length (tbl_update p f t) = length t"
  by (simp add: tbl_update_def)

lemma tbl_update_append [simp]:
  "tbl_update p f (s @ t) = tbl_update p f s @ tbl_update p f t"
  by (simp add: tbl_update_def)

lemma find_append:
  "List.find p (xs @ ys) = (case List.find p xs of None \<Rightarrow> List.find p ys | Some a \<Rightarrow> Some a)"
  by (induction xs) auto

lemma find_Some_mem: "List.find p t = Some r \<Longrightarrow> r \<in> set t \<and> p r"
  by (auto simp: find_Some_iff)

lemma find_None_all: "List.find p t = None \<longleftrightarrow> (\<forall>r \<in> set t. \<not> p r)"
  by (auto simp: find_None_iff)

lemma find_not_None: "List.find p t \<noteq> None \<longleftrightarrow> (\<exists>r \<in> set t. p r)"
  by (auto simp: find_None_iff)

lemma find_ex_Some [simp]: "(\<exists>y. List.find p t = Some y) \<longleftrightarrow> (\<exists>r \<in> set t. p r)"
  using find_not_None [of p t] by auto

lemma filter_only:
  assumes "distinct t" and "j \<in> set t" and "p j" and "\<And>r. r \<in> set t \<Longrightarrow> p r \<Longrightarrow> r = j"
  shows "filter p t = [j]"
  using assms
proof (induction t)
  case (Cons a t)
  show ?case
  proof (cases "a = j")
    case True
    then have "\<not> p r" if "r \<in> set t" for r using Cons.prems(1) Cons.prems(4) [of r] that by auto
    then have "filter p t = []" by (simp add: filter_empty_conv)
    then show ?thesis using True Cons.prems(3) by simp
  next
    case False
    then have "\<not> p a" using Cons.prems(4) [of a] by auto
    moreover have "filter p t = [j]"
    proof (rule Cons.IH)
      show "j \<in> set t" using Cons.prems(2) False by simp
      show "r = j" if "r \<in> set t" "p r" for r using Cons.prems(4) [of r] that by simp
    qed (use Cons.prems(1,3) in simp_all)
    ultimately show ?thesis by simp
  qed
qed simp

lemma rows_affected_split:
  "rows_affected p t + rows_affected (\<lambda>r. \<not> p r) t = length t"
  by (simp add: rows_affected_def sum_length_filter_compl)

lemma length_tbl_delete: "length t = length (tbl_delete p t) + length (filter p t)"
  by (simp add: tbl_delete_def sum_length_filter_compl add.commute)

lemma distinct_filter_mem_length:
  assumes "distinct (map k t)" 
  shows "length (filter (\<lambda>r. k r \<in> set ks) t) \<le> length ks"
proof -
  have "length (filter (\<lambda>r. k r \<in> set ks) t) = card (set (map k (filter (\<lambda>r. k r \<in> set ks) t)))"
    using distinct_map_filter [OF assms, of "\<lambda>r. k r \<in> set ks"] by (metis distinct_card length_map)
  also have "\<dots> \<le> card (set ks)" by (rule card_mono) auto
  also have "\<dots> \<le> length ks" by (rule card_length)
  finally show ?thesis .
qed

subsection \<open>Tables with unique indexes\<close>

text \<open>
  \<open>conflict a b\<close> says that two rows agree on the columns of some unique index.
  A table respects its indexes when no two of its rows do.
\<close>

definition tbl_ok :: "'r conflict \<Rightarrow> 'r list \<Rightarrow> bool" where
  "tbl_ok conflict t = sorted_wrt (\<lambda>a b. \<not> conflict a b) t"

lemma tbl_ok_Nil [simp]: "tbl_ok c []"
  by (simp add: tbl_ok_def)

lemma tbl_ok_Cons [simp]: "tbl_ok c (r # t) \<longleftrightarrow> (\<forall>x \<in> set t. \<not> c r x) \<and> tbl_ok c t"
  by (auto simp: tbl_ok_def)

lemma tbl_ok_append:
  "tbl_ok c (s @ t) \<longleftrightarrow> tbl_ok c s \<and> tbl_ok c t \<and> (\<forall>x \<in> set s. \<forall>y \<in> set t. \<not> c x y)"
  by (auto simp: tbl_ok_def sorted_wrt_append)

lemma tbl_ok_filter: "tbl_ok c t \<Longrightarrow> tbl_ok c (filter p t)"
  by (induction t) auto

locale unique_table =
  fixes conflict :: "'r \<Rightarrow> 'r \<Rightarrow> bool"
  assumes conflict_sym: "conflict a b \<Longrightarrow> conflict b a"
begin

lemma conflict_eq:
  "tbl_ok conflict t \<Longrightarrow> a \<in> set t \<Longrightarrow> b \<in> set t \<Longrightarrow> conflict a b \<Longrightarrow> a = b"
  by (induction t) (auto dest: conflict_sym)

lemma ok_delete: "tbl_ok conflict t \<Longrightarrow> tbl_ok conflict (tbl_delete p t)"
  by (simp add: tbl_delete_def tbl_ok_filter)

lemma ok_insert: "tbl_insert conflict r t = Inr t' \<Longrightarrow> tbl_ok conflict t \<Longrightarrow> tbl_ok conflict t'"
  by (auto simp: tbl_insert_Inr tbl_ok_append dest: conflict_sym)

lemma ok_insert_nothing:
  "tbl_ok conflict t \<Longrightarrow> tbl_ok conflict (fst (tbl_insert_nothing conflict r t))"
  by (auto simp: tbl_insert_nothing_def tbl_ok_append list_ex_iff dest: conflict_sym)

lemma ok_insert_unless:
  "tbl_insert_unless target conflict r t = Inr (t', b) \<Longrightarrow> tbl_ok conflict t \<Longrightarrow> tbl_ok conflict t'"
  by (auto simp: tbl_insert_unless_def split: if_splits sum.splits intro: ok_insert)

lemma ok_update:
  assumes "tbl_ok conflict t"
    and "\<And>a b. a \<in> set t \<Longrightarrow> b \<in> set t \<Longrightarrow> p a \<Longrightarrow> conflict (f a) (if p b then f b else b) \<Longrightarrow>
           conflict a b"
  shows "tbl_ok conflict (tbl_update p f t)"
  using assms
proof (induction t)
  case Nil
  then show ?case by (simp add: tbl_update_def)
next
  case (Cons r t)
  have r_t: "\<not> conflict r x" if "x \<in> set t" for x
    using Cons.prems(1) that by simp
  have head: "\<not> conflict (if p r then f r else r) (if p x then f x else x)" if "x \<in> set t" for x
  proof (cases "p r")
    case True
    then show ?thesis using Cons.prems(2) [of r x] r_t [OF that] that by auto
  next
    case False
    show ?thesis
    proof (cases "p x")
      case True
      then show ?thesis
        using False Cons.prems(2) [of x r] r_t [OF that] that by (auto dest: conflict_sym)
    next
      case False
      then show ?thesis using \<open>\<not> p r\<close> r_t [OF that] by simp
    qed
  qed
  have "tbl_ok conflict (tbl_update p f t)"
    using Cons.prems by (intro Cons.IH) auto
  moreover have "tbl_update p f (r # t) = (if p r then f r else r) # tbl_update p f t"
    by (simp add: tbl_update_def)
  moreover have "\<not> conflict (if p r then f r else r) y" if y: "y \<in> set (tbl_update p f t)" for y
  proof -
    obtain x where "x \<in> set t" and "y = (if p x then f x else x)"
      using y unfolding tbl_update_def by auto
    then show ?thesis using head [of x] by simp
  qed
  ultimately show ?case by simp
qed

lemma ok_update_same_keys:
  assumes "tbl_ok conflict t" and "\<And>a b. conflict (f a) b \<longleftrightarrow> conflict a b"
  shows "tbl_ok conflict (tbl_update p f t)"
proof (rule ok_update [OF assms(1)])
  fix a b
  assume "conflict (f a) (if p b then f b else b)"
  then have "conflict a (if p b then f b else b)"
    using assms(2) by simp
  then have "conflict (if p b then f b else b) a" by (rule conflict_sym)
  then have "conflict b a" using assms(2) by (simp split: if_splits)
  then show "conflict a b" by (rule conflict_sym)
qed

lemma ok_upsert:
  assumes "tbl_upsert target conflict merge r t = Inr t'" and "tbl_ok conflict t"
    and "\<And>a b. target a b \<Longrightarrow> conflict a b"
    and "\<And>a b c. target a b \<Longrightarrow> target a c \<Longrightarrow> target b c"
  shows "tbl_ok conflict t'"
proof (cases "list_ex (target r) t")
  case False
  then show ?thesis using assms(1,2) ok_insert by (simp add: tbl_upsert_def)
next
  case True
  then have t': "t' = tbl_update (target r) merge t"
    and clean: "\<And>x y. x \<in> set t \<Longrightarrow> target r x \<Longrightarrow> y \<in> set t \<Longrightarrow> \<not> target r y \<Longrightarrow>
                  \<not> conflict (merge x) y"
    using assms(1) by (auto simp: tbl_upsert_def list_ex_iff split: if_splits)
  show ?thesis
    unfolding t'
  proof (rule ok_update [OF assms(2)])
    fix a b
    assume *: "a \<in> set t" "b \<in> set t" "target r a"
      "conflict (merge a) (if target r b then merge b else b)"
    show "conflict a b"
    proof (cases "target r b")
      case True
      then have "target a b" by (rule assms(4) [OF *(3)])
      then show ?thesis by (rule assms(3))
    next
      case False
      then show ?thesis using clean [OF *(1,3,2)] *(4) by simp
    qed
  qed
qed

lemma ok_update_checked:
  assumes "tbl_update_checked conflict p f t = Inr t'" and "tbl_ok conflict t"
    and "\<And>a b. a \<in> set t \<Longrightarrow> b \<in> set t \<Longrightarrow> p a \<Longrightarrow> p b \<Longrightarrow> conflict a b"
  shows "tbl_ok conflict t'"
proof -
  have t': "t' = tbl_update p f t"
    and clean: "\<And>x y. x \<in> set t \<Longrightarrow> p x \<Longrightarrow> y \<in> set t \<Longrightarrow> \<not> p y \<Longrightarrow> \<not> conflict (f x) y"
    using assms(1) by (auto simp: tbl_update_checked_def list_ex_iff split: if_splits)
  show ?thesis
    unfolding t'
  proof (rule ok_update [OF assms(2)])
    fix a b
    assume "a \<in> set t" "b \<in> set t" "p a" "conflict (f a) (if p b then f b else b)"
    then show "conflict a b"
      using clean [of a b] assms(3) by (cases "p b") auto
  qed
qed

end

locale keyed_table = unique_table conflict
  for conflict :: "'r \<Rightarrow> 'r \<Rightarrow> bool" +
  fixes key :: "'r \<Rightarrow> 'k"
  assumes key_conflict: "key a = key b \<Longrightarrow> conflict a b"
begin

lemma key_unique: "tbl_ok conflict t \<Longrightarrow> r \<in> set t \<Longrightarrow> s \<in> set t \<Longrightarrow> key r = key s \<Longrightarrow> r = s"
  by (induction t) (auto dest: key_conflict conflict_sym)

lemma key_distinct: "tbl_ok conflict t \<Longrightarrow> distinct (map key t)"
  by (induction t) (auto dest: key_conflict)

lemma find_key:
  assumes "tbl_ok conflict t"
  shows "List.find (\<lambda>r. key r = k) t = Some r \<longleftrightarrow> r \<in> set t \<and> key r = k"
proof
  assume "List.find (\<lambda>r. key r = k) t = Some r"
  then show "r \<in> set t \<and> key r = k" by (rule find_Some_mem)
next
  assume r: "r \<in> set t \<and> key r = k"
  then obtain s where s: "List.find (\<lambda>r. key r = k) t = Some s"
    using find_None_all [of "\<lambda>r. key r = k" t] by (cases "List.find (\<lambda>r. key r = k) t") auto
  then have "s \<in> set t \<and> key s = k" by (rule find_Some_mem)
  then have "s = r" using key_unique [OF assms] r by auto
  then show "List.find (\<lambda>r. key r = k) t = Some r" using s by simp
qed

lemma rows_affected_key:
  assumes "tbl_ok conflict t"
  shows "rows_affected (\<lambda>r. key r = k \<and> q r) t \<le> 1"
  using assms
proof (induction t)
  case Nil
  then show ?case by (simp add: rows_affected_def)
next
  case (Cons a t)
  have "rows_affected (\<lambda>r. key r = k \<and> q r) t = 0" if "key a = k"
    using Cons.prems that key_conflict [of a] by (auto simp: rows_affected_zero)
  then show ?case using Cons by (auto simp: rows_affected_def)
qed

end

subsection \<open>Reachable states\<close>

inductive reachable :: "('s \<Rightarrow> bool) \<Rightarrow> ('s \<Rightarrow> 's \<Rightarrow> bool) \<Rightarrow> 's \<Rightarrow> bool" for init step where
  reach_init: "init s \<Longrightarrow> reachable init step s"
| reach_step: "reachable init step s \<Longrightarrow> step s t \<Longrightarrow> reachable init step t"

locale invariant_system =
  fixes init :: "'s \<Rightarrow> bool" and step :: "'s \<Rightarrow> 's \<Rightarrow> bool" and inv :: "'s \<Rightarrow> bool"
  assumes inv_init: "init s \<Longrightarrow> inv s"
    and inv_step: "step s t \<Longrightarrow> inv s \<Longrightarrow> inv t"
begin

lemma reachable_inv: "reachable init step s \<Longrightarrow> inv s"
  by (induction rule: reachable.induct) (auto intro: inv_init inv_step)

lemma run_inv: "step\<^sup>*\<^sup>* s t \<Longrightarrow> inv s \<Longrightarrow> inv t"
  by (induction rule: rtranclp_induct) (auto intro: inv_step)

end

subsection \<open>Sorted deduplication\<close>

text \<open>Rust's \<open>sort_unstable\<close> followed by \<open>dedup\<close>.\<close>

definition sort_dedup :: "'a::linorder list \<Rightarrow> 'a list" where
  "sort_dedup xs = remdups_adj (sort xs)"

lemma set_sort_dedup [simp]: "set (sort_dedup xs) = set xs"
  by (simp add: sort_dedup_def)

lemma sorted_distinct_remdups_adj: "sorted xs \<Longrightarrow> distinct (remdups_adj xs)"
  by (induction xs rule: remdups_adj.induct) (auto simp: order.antisym)

lemma distinct_sort_dedup [simp]: "distinct (sort_dedup xs)"
  by (simp add: sort_dedup_def sorted_distinct_remdups_adj)

lemma sort_dedup_Nil [simp]: "sort_dedup xs = [] \<longleftrightarrow> xs = []"
  by (metis set_empty set_sort_dedup)

lemma length_sort_dedup: "length (sort_dedup xs) = card (set xs)"
  by (metis distinct_card distinct_sort_dedup set_sort_dedup)

lemma sort_dedup_unique_length:
  "length (sort_dedup xs) = length xs \<longleftrightarrow> distinct xs"
  by (metis card_distinct distinct_card length_sort_dedup)

end
