(* ===== verification/Roosty_Text.thy ===== *)
theory Roosty_Text
  imports Roosty_Prelude
begin

text \<open>
  Rust text. User text is a list of Unicode scalar values (\<open>ustring\<close>), as
  \<open>str::chars\<close> yields them; identifiers that are only compared stay \<open>string\<close>. The
  functions are the methods of \<open>str\<close> the modelled code calls: \<open>char::is_whitespace\<close>,
  \<open>trim\<close>, \<open>trim_end\<close>, \<open>find\<close>, \<open>split_inclusive\<close>.
\<close>

type_synonym ustring = "nat list"

definition utext :: "string \<Rightarrow> ustring" where
  "utext s = map of_char s"

text \<open>The Unicode property \<open>White_Space\<close>.\<close>

definition is_whitespace :: "nat \<Rightarrow> bool" where
  "is_whitespace c \<longleftrightarrow>
     9 \<le> c \<and> c \<le> 13 \<or> c = 32 \<or> c = 133 \<or> c = 160 \<or> c = 5760 \<or> 8192 \<le> c \<and> c \<le> 8202 \<or>
     c = 8232 \<or> c = 8233 \<or> c = 8239 \<or> c = 8287 \<or> c = 12288"

definition trim_start :: "ustring \<Rightarrow> ustring" where
  "trim_start s = dropWhile is_whitespace s"

definition trim_end :: "ustring \<Rightarrow> ustring" where
  "trim_end s = rev (dropWhile is_whitespace (rev s))"

definition trim :: "ustring \<Rightarrow> ustring" where
  "trim s = trim_end (trim_start s)"

fun is_prefix :: "ustring \<Rightarrow> ustring \<Rightarrow> bool" where
  "is_prefix [] s = True"
| "is_prefix (p # ps) [] = False"
| "is_prefix (p # ps) (c # s) = (p = c \<and> is_prefix ps s)"

text \<open>\<open>str::find\<close>: the offset of the first occurrence.\<close>

fun find_sub :: "ustring \<Rightarrow> ustring \<Rightarrow> nat option" where
  "find_sub p [] = (if is_prefix p [] then Some 0 else None)"
| "find_sub p (c # s) = (if is_prefix p (c # s) then Some 0 else map_option Suc (find_sub p s))"

definition contains_sub :: "ustring \<Rightarrow> ustring \<Rightarrow> bool" where
  "contains_sub p s \<longleftrightarrow> find_sub p s \<noteq> None"

text \<open>\<open>split_inclusive(char::is_whitespace)\<close>: pieces ending with their separator.\<close>

fun split_ws :: "ustring \<Rightarrow> ustring \<Rightarrow> ustring list" where
  "split_ws acc [] = (if acc = [] then [] else [rev acc])"
| "split_ws acc (c # s) =
     (if is_whitespace c then rev (c # acc) # split_ws [] s else split_ws (c # acc) s)"

definition split_inclusive_ws :: "ustring \<Rightarrow> ustring list" where
  "split_inclusive_ws s = split_ws [] s"

text \<open>
  \<open>split_whitespace\<close>, \<open>lines\<close> (which also drops the carriage return of a line end),
  \<open>strip_prefix\<close> and \<open>join\<close>.
\<close>

definition split_whitespace :: "ustring \<Rightarrow> ustring list" where
  "split_whitespace s = filter (\<lambda>w. w \<noteq> []) (map trim_end (split_inclusive_ws s))"

definition strip_cr :: "ustring \<Rightarrow> ustring" where
  "strip_cr s = (if s \<noteq> [] \<and> last s = 13 then butlast s else s)"

fun split_lines :: "ustring \<Rightarrow> ustring \<Rightarrow> ustring list" where
  "split_lines acc [] = (if acc = [] then [] else [rev acc])"
| "split_lines acc (c # s) = (if c = 10 then strip_cr (rev acc) # split_lines [] s else split_lines (c # acc) s)"

definition str_lines :: "ustring \<Rightarrow> ustring list" where
  "str_lines s = split_lines [] s"

definition strip_prefix :: "ustring \<Rightarrow> ustring \<Rightarrow> ustring option" where
  "strip_prefix p s = (if is_prefix p s then Some (drop (length p) s) else None)"

fun join :: "ustring \<Rightarrow> ustring list \<Rightarrow> ustring" where
  "join sep [] = []"
| "join sep [w] = w"
| "join sep (w # ws) = w @ sep @ join sep ws"

text \<open>\<open>str::split\<close> with a single character: always at least one piece.\<close>

fun split_char :: "nat \<Rightarrow> ustring \<Rightarrow> ustring list" where
  "split_char c [] = [[]]"
| "split_char c (x # s) =
     (if x = c then [] # split_char c s
      else case split_char c s of [] \<Rightarrow> [[x]] | w # ws \<Rightarrow> (x # w) # ws)"

text \<open>\<open>str::split_once\<close> with a character.\<close>

definition split_once :: "nat \<Rightarrow> ustring \<Rightarrow> (ustring \<times> ustring) option" where
  "split_once c s =
     (if c \<in> set s then Some (takeWhile (\<lambda>x. x \<noteq> c) s, tl (dropWhile (\<lambda>x. x \<noteq> c) s)) else None)"

text \<open>\<open>str::len\<close>, the length in bytes, and \<open>char::is_ascii_alphanumeric\<close>.\<close>

definition utf8_len :: "nat \<Rightarrow> nat" where
  "utf8_len c = (if c < 128 then 1 else if c < 2048 then 2 else if c < 65536 then 3 else 4)"

definition str_len :: "ustring \<Rightarrow> nat" where
  "str_len s = sum_list (map utf8_len s)"

definition is_ascii_alphanumeric :: "nat \<Rightarrow> bool" where
  "is_ascii_alphanumeric c \<longleftrightarrow> 48 \<le> c \<and> c \<le> 57 \<or> 65 \<le> c \<and> c \<le> 90 \<or> 97 \<le> c \<and> c \<le> 122"

subsection \<open>Facts\<close>

lemma is_prefix_iff: "is_prefix p s \<longleftrightarrow> (\<exists>t. s = p @ t)"
  by (induction p s rule: is_prefix.induct) auto

lemma contains_sub_iff: "contains_sub p s \<longleftrightarrow> (\<exists>a b. s = a @ p @ b)"
proof (induction s)
  case Nil
  then show ?case by (auto simp: contains_sub_def is_prefix_iff)
next
  case (Cons c s)
  have "contains_sub p (c # s) \<longleftrightarrow> is_prefix p (c # s) \<or> contains_sub p s"
    by (auto simp: contains_sub_def)
  also have "\<dots> \<longleftrightarrow> (\<exists>b. c # s = p @ b) \<or> (\<exists>a b. s = a @ p @ b)"
    using Cons.IH by (simp add: is_prefix_iff)
  also have "\<dots> \<longleftrightarrow> (\<exists>a b. c # s = a @ p @ b)"
  proof
    assume "(\<exists>b. c # s = p @ b) \<or> (\<exists>a b. s = a @ p @ b)"
    then show "\<exists>a b. c # s = a @ p @ b"
      by (metis append_Cons append_Nil)
  next
    assume "\<exists>a b. c # s = a @ p @ b"
    then obtain a b where ab: "c # s = a @ p @ b" by blast
    then show "(\<exists>b. c # s = p @ b) \<or> (\<exists>a b. s = a @ p @ b)"
      by (cases a) auto
  qed
  finally show ?case .
qed

lemma find_sub_prefix_free:
  "find_sub p s = Some n \<Longrightarrow> p \<noteq> [] \<Longrightarrow> \<not> contains_sub p (take (n + length p - 1) s)"
proof (induction s arbitrary: n)
  case Nil
  then show ?case by (auto simp: contains_sub_def is_prefix_iff split: if_splits)
next
  case (Cons c s)
  show ?case
  proof (cases "is_prefix p (c # s)")
    case True
    then have "n = 0" using Cons.prems by simp
    moreover have "\<not> contains_sub p (take (length p - 1) (c # s))"
    proof
      assume "contains_sub p (take (length p - 1) (c # s))"
      then obtain a b where "take (length p - 1) (c # s) = a @ p @ b"
        by (auto simp: contains_sub_iff)
      then have "length p \<le> length (take (length p - 1) (c # s))"
        by (metis le_add2 length_append le_add1 order_trans)
      then show False using Cons.prems(2) by (cases p) auto
    qed
    ultimately show ?thesis by simp
  next
    case False
    with Cons.prems obtain m where m: "find_sub p s = Some m" and n: "n = Suc m" by auto
    from Cons.IH [OF m Cons.prems(2)]
    have IH: "\<not> contains_sub p (take (m + length p - 1) s)" .
    have take: "take (n + length p - 1) (c # s) = c # take (m + length p - 1) s"
      using Cons.prems(2) n by (cases p) auto
    show ?thesis
    proof
      assume "contains_sub p (take (n + length p - 1) (c # s))"
      then obtain a b where ab: "c # take (m + length p - 1) s = a @ p @ b"
        unfolding take by (auto simp: contains_sub_iff)
      then show False
      proof (cases a)
        case Nil
        then have "is_prefix p (c # s)"
          using ab by (auto simp: is_prefix_iff)
            (metis append.assoc append_Cons append_take_drop_id)
        then show False using False by simp
      next
        case (Cons d a')
        then have "take (m + length p - 1) s = a' @ p @ b" using ab by simp
        then show False using IH by (auto simp: contains_sub_iff)
      qed
    qed
  qed
qed

lemma concat_split_ws: "concat (split_ws acc s) = rev acc @ s"
  by (induction acc s rule: split_ws.induct) auto

lemma split_ws_pieces:
  assumes "\<forall>c \<in> set acc. \<not> is_whitespace c" and "w \<in> set (split_ws acc s)"
  shows "\<forall>c \<in> set (butlast w). \<not> is_whitespace c"
  using assms
proof (induction acc s rule: split_ws.induct)
  case (1 acc)
  then show ?case by (cases acc) (auto split: if_splits)
next
  case (2 acc c s)
  show ?case
  proof (cases "is_whitespace c")
    case True
    then consider "w = rev (c # acc)" | "w \<in> set (split_ws [] s)"
      using "2.prems"(2) by auto
    then show ?thesis
    proof cases
      case 1
      then show ?thesis using "2.prems"(1) by simp
    next
      case 2
      then show ?thesis using "2.IH"(1) [OF True] by simp
    qed
  next
    case False
    have "\<forall>d \<in> set (c # acc). \<not> is_whitespace d"
      using "2.prems"(1) False by simp
    moreover have "w \<in> set (split_ws (c # acc) s)"
      using "2.prems"(2) unfolding split_ws.simps(2) if_not_P [OF False] .
    ultimately show ?thesis by (rule "2.IH"(2) [OF False])
  qed
qed

lemma trim_ends:
  assumes "trim s \<noteq> []"
  shows "\<not> is_whitespace (hd (trim s))" and "\<not> is_whitespace (last (trim s))"
proof -
  let ?d = "dropWhile is_whitespace s"
  have t: "trim s = rev (dropWhile is_whitespace (rev ?d))"
    by (simp add: trim_def trim_end_def trim_start_def)
  have ne: "dropWhile is_whitespace (rev ?d) \<noteq> []" using assms t by auto
  show "\<not> is_whitespace (last (trim s))"
    using hd_dropWhile [OF ne] ne by (simp add: t last_rev)
  have ned: "?d \<noteq> []"
  proof
    assume "?d = []"
    then show False using ne by (auto dest: set_dropWhileD)
  qed
  obtain pre where pre: "?d = trim s @ pre"
    by (metis t rev_append rev_rev_ident takeWhile_dropWhile_id)
  then have "hd (trim s) = hd ?d" using assms by (metis hd_append2)
  then show "\<not> is_whitespace (hd (trim s))"
    using hd_dropWhile [OF ned] by simp
qed

lemma trim_id:
  assumes "s = [] \<or> \<not> is_whitespace (hd s) \<and> \<not> is_whitespace (last s)"
  shows "trim s = s"
proof (cases "s = []")
  case True
  then show ?thesis by (simp add: trim_def trim_start_def trim_end_def)
next
  case False
  then have "dropWhile is_whitespace s = s" and "dropWhile is_whitespace (rev s) = rev s"
    using assms by (simp_all add: dropWhile_eq_self_iff hd_rev)
  then have "trim_start s = s" and "trim_end s = s"
    by (simp_all add: trim_start_def trim_end_def)
  then show ?thesis by (simp add: trim_def)
qed

lemma trim_idem [simp]: "trim (trim s) = trim s"
  by (rule trim_id) (use trim_ends in blast)

lemma contains_sub_append: "contains_sub p s \<Longrightarrow> contains_sub p (s @ t)"
  unfolding contains_sub_iff by (metis append.assoc)

lemma contains_sub_take: "contains_sub p (take n s) \<Longrightarrow> contains_sub p s"
  using contains_sub_append [of p "take n s" "drop n s"] by simp

lemma contains_sub_trim_end: "contains_sub p (trim_end s) \<Longrightarrow> contains_sub p s"
proof -
  assume "contains_sub p (trim_end s)"
  then have "contains_sub p (trim_end s @ rev (takeWhile is_whitespace (rev s)))"
    by (rule contains_sub_append)
  moreover have "trim_end s @ rev (takeWhile is_whitespace (rev s)) = s"
    unfolding trim_end_def rev_append [symmetric] by simp
  ultimately show ?thesis by simp
qed

lemma contains_sub_separated:
  assumes "contains_sub p (w @ c # r)" and "c \<notin> set p" and "p \<noteq> []"
  shows "contains_sub p w \<or> contains_sub p r"
proof -
  obtain a b where "a @ (p @ b) = w @ (c # r)" using assms(1) by (auto simp: contains_sub_iff)
  then obtain us where "a = w @ us \<and> us @ p @ b = c # r \<or> a @ us = w \<and> p @ b = us @ c # r"
    unfolding append_eq_append_conv2 by blast
  then consider (right) "us @ p @ b = c # r" | (left) "a @ us = w" "p @ b = us @ c # r" by blast
  then show ?thesis
  proof cases
    case right
    then show ?thesis using assms(2,3) by (cases us; cases p) (auto simp: contains_sub_iff)
  next
    case left
    then obtain vs where "p = us @ vs \<and> vs @ b = c # r \<or> p @ vs = us \<and> b = vs @ c # r"
      unfolding append_eq_append_conv2 by blast
    then have "p @ vs = us"
      using assms(2) by (cases vs) auto
    then show ?thesis using left(1) by (auto simp: contains_sub_iff)
  qed
qed

definition ends_ws :: "ustring \<Rightarrow> bool" where
  "ends_ws w \<longleftrightarrow> w \<noteq> [] \<and> is_whitespace (last w)"

lemma split_ws_ends: "w \<in> set (butlast (split_ws acc s)) \<Longrightarrow> ends_ws w"
  by (induction acc s rule: split_ws.induct) (auto simp: ends_ws_def split: if_splits)

lemma contains_sub_concat:
  assumes "contains_sub p (concat ws)" and "\<forall>w \<in> set (butlast ws). ends_ws w"
    and "\<forall>c \<in> set p. \<not> is_whitespace c" and "p \<noteq> []"
  shows "\<exists>w \<in> set ws. contains_sub p w"
  using assms(1,2)
proof (induction ws)
  case Nil
  then show ?case using assms(4) by (auto simp: contains_sub_iff)
next
  case (Cons w ws)
  show ?case
  proof (cases "ws = []")
    case True
    then show ?thesis using Cons.prems(1) by simp
  next
    case False
    then have "ends_ws w" using Cons.prems(2) by simp
    then obtain v c where w: "w = v @ [c]" "is_whitespace c"
      unfolding ends_ws_def by (metis append_butlast_last_id)
    then have "contains_sub p v \<or> contains_sub p (concat ws)"
      using Cons.prems(1) assms(3,4) contains_sub_separated [of p v c "concat ws"] by auto
    then show ?thesis
      using Cons.IH Cons.prems(2) False w(1) contains_sub_append by auto
  qed
qed

lemma find_sub_take_free:
  assumes "find_sub p s = Some n" and "p \<noteq> []"
  shows "\<not> contains_sub p (take n s)"
proof
  assume "contains_sub p (take n s)"
  moreover have "n \<le> n + length p - 1" using assms(2) by (cases p) auto
  then have "take n s = take n (take (n + length p - 1) s)" by (simp add: min_def)
  ultimately show False
    using find_sub_prefix_free [OF assms] contains_sub_take by metis
qed

lemma split_char_ne [simp]: "split_char c s \<noteq> []"
  by (cases s) (auto split: list.splits)

lemma split_char_append: "split_char c (a @ c # b) = split_char c a @ split_char c b"
  by (induction a) (auto split: list.splits)

lemma split_char_no_sep: "c \<notin> set s \<Longrightarrow> split_char c s = [s]"
  by (induction s) auto

end
