(* ===== verification/Roosty_Schema.thy ===== *)
theory Roosty_Schema
  imports Roosty_Text Complex_Main
begin

text \<open>
  The tables of \<^verbatim>\<open>src/crates/db/src/entity\<close> the modelled operations read and write:
  one record per entity, with its columns in declaration order, the enumerations of
  \<^verbatim>\<open>src/crates/db/src/lib.rs\<close> stored in them, the unique indexes of
  \<^verbatim>\<open>src/crates/migration/src\<close> as conflict relations, and the state \<open>db\<close> holding
  every table. Identifiers (\<open>uuid\<close>) are natural numbers, compared as PostgreSQL compares
  UUIDs. Instants are integers counting microseconds, the resolution of \<open>timestamptz\<close>.
\<close>

type_synonym uuid = nat
type_synonym instant = int

definition seconds :: "int \<Rightarrow> int" where
  "seconds s = s * 1000000"

text \<open>JSON documents (\<open>serde_json::Value\<close>), as far as the stored payloads use them.\<close>

datatype json =
    JNull
  | JBool bool
  | JNum int
  | JStr string
  | JArr "json list"
  | JObj "(string \<times> json) list"

subsection \<open>Enumerations\<close>

datatype status_visibility = Public | Unlisted | Private | Direct

datatype quote_approval_policy = QuotePublic | QuoteFollowers | QuoteNobody

datatype list_replies_policy = RepliesFollowed | RepliesList | RepliesNone

datatype actor_type = Person | Service | Application | Group

datatype remote_follow_state = Pending | Accepted

datatype inbox_activity_type =
    IFollow | IAccept | IReject | ICreate | IUpdate | IDelete | ILike | IAnnounce | IUndo
  | IMove | IBlock | IAdd | IRemove | IFlag | IQuoteRequest

datatype inbox_activity_outcome = OutcomeAccepted | OutcomeIgnored

datatype local_notification_type =
    NMention | NFavourite | NFollow | NFollowRequest | NReblog | NStatus | NUpdate | NQuote
  | NQuotedUpdate | NPoll | NAdminReport

datatype pkce_code_challenge_method = PkceNone | PkceS256

datatype notification_policy_action = PolicyAccept | PolicyFilter | PolicyDrop

datatype notification_request_state = ReqPending | ReqMerging | ReqDismissed

datatype domain_block_severity = Noop | Silence | Suspend

datatype push_policy = PushAll | PushFollowed | PushFollower | PushNone

subsection \<open>Rows\<close>

record job_row =
  job_id :: uuid
  job_kind :: string
  job_payload :: json
  job_deduplication_key :: "string option"
  job_run_after :: instant
  job_attempts :: int
  job_locked_at :: "instant option"
  job_locked_by :: "string option"
  job_claim_id :: "uuid option"
  job_last_error :: "ustring option"
  job_created_at :: instant
  job_completed_at :: "instant option"
  job_permanently_failed_at :: "instant option"

record local_account_row =
  la_id :: uuid
  la_username :: ustring
  la_email :: ustring
  la_password_hash :: string
  la_is_admin :: bool
  la_display_name :: ustring
  la_note :: ustring
  la_locked :: bool
  la_bot :: bool
  la_discoverable :: bool
  la_indexable :: bool
  la_default_visibility :: status_visibility
  la_default_sensitive :: bool
  la_default_language :: "string option"
  la_default_quote_policy :: quote_approval_policy
  la_profile_fields :: json
  la_avatar_file_path :: "string option"
  la_header_file_path :: "string option"
  la_limited_at :: "instant option"
  la_suspended_at :: "instant option"
  la_data_purged_at :: "instant option"
  la_last_status_at :: "instant option"
  la_created_at :: instant
  la_updated_at :: instant

record remote_actor_row =
  ra_id :: uuid
  ra_activitypub_id :: string
  ra_username :: string
  ra_domain :: string
  ra_invalid_handle :: bool
  ra_actor_type :: actor_type
  ra_display_name :: ustring
  ra_summary :: ustring
  ra_emojis :: json
  ra_inbox_url :: string
  ra_shared_inbox_url :: "string option"
  ra_followers_url :: "string option"
  ra_featured_url :: "string option"
  ra_featured_tags_url :: "string option"
  ra_public_key_id :: string
  ra_public_key_pem :: string
  ra_fetched_at :: instant
  ra_expires_at :: instant
  ra_profile_created_at :: "instant option"
  ra_deleted_at :: "instant option"
  ra_moved_to_remote_actor_id :: "uuid option"
  ra_limited_at :: "instant option"
  ra_suspended_at :: "instant option"
  ra_data_purged_at :: "instant option"
  ra_discoverable :: "bool option"
  ra_indexable :: bool
  ra_last_status_at :: "instant option"
  ra_created_at :: instant
  ra_updated_at :: instant

record local_follow_row =
  lf_id :: uuid
  lf_follower_account_id :: uuid
  lf_followed_account_id :: uuid
  lf_show_reblogs :: bool
  lf_notify :: bool
  lf_created_at :: instant
  lf_updated_at :: instant

record local_account_block_row =
  lab_id :: uuid
  lab_account_id :: uuid
  lab_target_account_id :: uuid
  lab_created_at :: instant
  lab_updated_at :: instant

record local_account_mute_row =
  lam_id :: uuid
  lam_account_id :: uuid
  lam_target_account_id :: uuid
  lam_notifications :: bool
  lam_expires_at :: "instant option"
  lam_created_at :: instant
  lam_updated_at :: instant

record local_remote_account_block_row =
  lrb_id :: uuid
  lrb_local_account_id :: uuid
  lrb_remote_actor_id :: uuid
  lrb_activity_id :: string
  lrb_created_at :: instant
  lrb_updated_at :: instant

record remote_local_account_block_row =
  rlb_id :: uuid
  rlb_remote_actor_id :: uuid
  rlb_local_account_id :: uuid
  rlb_activity_id :: string
  rlb_created_at :: instant
  rlb_updated_at :: instant

record local_remote_account_mute_row =
  lrm_id :: uuid
  lrm_local_account_id :: uuid
  lrm_remote_actor_id :: uuid
  lrm_notifications :: bool
  lrm_expires_at :: "instant option"
  lrm_created_at :: instant
  lrm_updated_at :: instant

record remote_follow_row =
  rf_id :: uuid
  rf_remote_actor_id :: uuid
  rf_local_account_id :: uuid
  rf_activity_id :: string
  rf_activity :: json
  rf_state :: remote_follow_state
  rf_created_at :: instant
  rf_updated_at :: instant

record remote_following_row =
  rg_id :: uuid
  rg_local_account_id :: uuid
  rg_remote_actor_id :: uuid
  rg_activity_id :: string
  rg_state :: remote_follow_state
  rg_show_reblogs :: bool
  rg_notify :: bool
  rg_deactivated_at :: "instant option"
  rg_created_at :: instant
  rg_updated_at :: instant

record local_list_row =
  ll_id :: uuid
  ll_account_id :: uuid
  ll_title :: ustring
  ll_replies_policy :: list_replies_policy
  ll_exclusive :: bool
  ll_created_at :: instant
  ll_updated_at :: instant

record list_local_member_row =
  llm_id :: uuid
  llm_list_id :: uuid
  llm_account_id :: uuid
  llm_created_at :: instant

record list_remote_member_row =
  lrem_id :: uuid
  lrem_list_id :: uuid
  lrem_remote_actor_id :: uuid
  lrem_created_at :: instant

record processed_inbox_activity_row =
  pia_activity_id :: string
  pia_remote_actor_id :: uuid
  pia_payload_digest :: "nat list option"
  pia_activity_type :: "inbox_activity_type option"
  pia_outcome :: "inbox_activity_outcome option"
  pia_processed_at :: instant

record local_notification_row =
  ln_id :: uuid
  ln_account_id :: uuid
  ln_notification_type :: local_notification_type
  ln_actor_account_id :: "uuid option"
  ln_remote_actor_id :: "uuid option"
  ln_status_id :: "uuid option"
  ln_remote_status_id :: "uuid option"
  ln_group_id :: "uuid option"
  ln_filtered :: bool
  ln_notification_request_id :: "uuid option"
  ln_report_id :: "uuid option"
  ln_created_at :: instant
  ln_dismissed_at :: "instant option"

record push_subscription_row =
  ps_id :: uuid
  ps_access_token_id :: uuid
  ps_account_id :: uuid
  ps_endpoint :: string
  ps_p256dh :: "nat list"
  ps_auth :: "nat list"
  ps_standard :: bool
  ps_policy :: push_policy
  ps_alerts :: json
  ps_access_token_ciphertext :: "nat list"
  ps_access_token_nonce :: "nat list"
  ps_created_at :: instant
  ps_updated_at :: instant

record local_status_row =
  ls_id :: uuid
  ls_account_id :: uuid
  ls_content :: ustring
  ls_visibility :: status_visibility
  ls_sensitive :: bool
  ls_spoiler_text :: ustring
  ls_language :: "string option"
  ls_in_reply_to_id :: "uuid option"
  ls_in_reply_to_remote_status_id :: "uuid option"
  ls_conversation_id :: "uuid option"
  ls_created_at :: instant
  ls_updated_at :: instant
  ls_deleted_at :: "instant option"
  ls_quote_approval_policy :: quote_approval_policy

record remote_status_row =
  rs_id :: uuid
  rs_activitypub_id :: string
  rs_remote_actor_id :: uuid
  rs_content :: ustring
  rs_visibility :: status_visibility
  rs_published_at :: instant
  rs_updated_at :: instant
  rs_deleted_at :: "instant option"
  rs_in_reply_to :: "string option"
  rs_in_reply_to_local_status_id :: "uuid option"
  rs_in_reply_to_remote_status_id :: "uuid option"
  rs_conversation_id :: "uuid option"
  rs_object :: json
  rs_created_at :: instant
  rs_quote_automatic_policy :: json
  rs_quote_manual_policy :: json

record status_remote_mention_row =
  srm_status_id :: uuid
  srm_remote_actor_id :: uuid
  srm_created_at :: instant

record status_poll_row =
  sp_id :: uuid
  sp_local_status_id :: "uuid option"
  sp_remote_status_id :: "uuid option"
  sp_multiple :: bool
  sp_hide_totals :: bool
  sp_expires_at :: "instant option"
  sp_closed_at :: "instant option"
  sp_notifications_sent_at :: "instant option"
  sp_voters_count :: "int option"
  sp_created_at :: instant
  sp_updated_at :: instant

record status_poll_option_row =
  spo_poll_id :: uuid
  spo_position :: int
  spo_title :: ustring
  spo_votes_count :: int

record status_poll_vote_row =
  spv_id :: uuid
  spv_poll_id :: uuid
  spv_choice_position :: int
  spv_local_account_id :: "uuid option"
  spv_remote_actor_id :: "uuid option"
  spv_activitypub_id :: "string option"
  spv_created_at :: instant

record scheduled_status_poll_row =
  ssp_scheduled_status_id :: uuid
  ssp_multiple :: bool
  ssp_hide_totals :: bool
  ssp_expires_in :: int

record scheduled_status_poll_option_row =
  sspo_scheduled_status_id :: uuid
  sspo_position :: int
  sspo_title :: ustring

record status_local_recipient_row =
  slr_status_id :: uuid
  slr_account_id :: uuid
  slr_created_at :: instant

record remote_status_local_recipient_row =
  rslr_remote_status_id :: uuid
  rslr_account_id :: uuid
  rslr_created_at :: instant

record oauth_application_row =
  oap_id :: uuid
  oap_client_id :: string
  oap_client_secret_hash :: string
  oap_name :: ustring
  oap_redirect_uri :: ustring
  oap_scopes :: ustring
  oap_website :: "ustring option"
  oap_created_at :: instant

record oauth_authorization_code_row =
  oac_id :: uuid
  oac_code_hash :: string
  oac_account_id :: uuid
  oac_application_id :: uuid
  oac_redirect_uri :: ustring
  oac_scopes :: ustring
  oac_code_challenge :: ustring
  oac_code_challenge_method :: pkce_code_challenge_method
  oac_expires_at :: instant
  oac_consumed_at :: "instant option"
  oac_created_at :: instant

record oauth_access_token_row =
  oat_id :: uuid
  oat_token_hash :: string
  oat_account_id :: "uuid option"
  oat_application_id :: uuid
  oat_scopes :: ustring
  oat_issued_at :: instant
  oat_expires_at :: "instant option"
  oat_revoked_at :: "instant option"

record registration_attempt_row =
  rat_id :: uuid
  rat_client_id :: string
  rat_attempted_at :: instant

record local_notification_policy_row =
  lnp_account_id :: uuid
  lnp_for_not_following :: notification_policy_action
  lnp_for_not_followers :: notification_policy_action
  lnp_for_new_accounts :: notification_policy_action
  lnp_for_private_mentions :: notification_policy_action
  lnp_for_limited_accounts :: notification_policy_action
  lnp_updated_at :: instant

record federation_domain_block_row =
  fdb_id :: uuid
  fdb_domain :: string
  fdb_severity :: domain_block_severity
  fdb_reject_media :: bool
  fdb_reject_reports :: bool
  fdb_private_comment :: "ustring option"
  fdb_public_comment :: "ustring option"
  fdb_obfuscate :: bool
  fdb_created_at :: instant
  fdb_updated_at :: instant

record local_notification_request_row =
  nrq_id :: uuid
  nrq_account_id :: uuid
  nrq_actor_account_id :: "uuid option"
  nrq_remote_actor_id :: "uuid option"
  nrq_last_status_id :: "uuid option"
  nrq_last_remote_status_id :: "uuid option"
  nrq_state :: notification_request_state
  nrq_created_at :: instant
  nrq_updated_at :: instant

record local_notification_permission_row =
  npm_id :: uuid
  npm_account_id :: uuid
  npm_actor_account_id :: "uuid option"
  npm_remote_actor_id :: "uuid option"
  npm_created_at :: instant

record notification_group_state_row =
  ngs_account_id :: uuid
  ngs_notification_type :: local_notification_type
  ngs_target_kind :: string
  ngs_target_id :: uuid
  ngs_group_id :: uuid
  ngs_started_at :: instant
  ngs_updated_at :: instant

record status_local_mention_row =
  slm_status_id :: uuid
  slm_account_id :: uuid
  slm_active :: bool
  slm_created_at :: instant
  slm_updated_at :: instant

text \<open>
  Interactions with statuses. Favourites, bookmarks and boosts of local statuses by local
  accounts have the pair as primary key and an identifier of their own for cursors.
\<close>

record local_status_favourite_row =
  lsf_id :: uuid
  lsf_account_id :: uuid
  lsf_status_id :: uuid
  lsf_created_at :: instant

record remote_status_favourite_row =
  rsf_id :: uuid
  rsf_remote_actor_id :: uuid
  rsf_local_status_id :: uuid
  rsf_activity_id :: string
  rsf_created_at :: instant

record local_remote_status_favourite_row =
  lrf_id :: uuid
  lrf_local_account_id :: uuid
  lrf_remote_status_id :: uuid
  lrf_activity_id :: string
  lrf_created_at :: instant

record local_status_bookmark_row =
  lsb_id :: uuid
  lsb_account_id :: uuid
  lsb_status_id :: uuid
  lsb_created_at :: instant

record local_status_reblog_row =
  lsr_id :: uuid
  lsr_account_id :: uuid
  lsr_status_id :: uuid
  lsr_created_at :: instant

record local_remote_status_reblog_row =
  lrr_id :: uuid
  lrr_local_account_id :: uuid
  lrr_remote_status_id :: uuid
  lrr_activity_id :: string
  lrr_created_at :: instant

record remote_status_reblog_row =
  rsr_id :: uuid
  rsr_remote_actor_id :: uuid
  rsr_local_status_id :: "uuid option"
  rsr_remote_status_id :: "uuid option"
  rsr_activity_id :: string
  rsr_created_at :: instant

record status_trend_metric_row =
  stm_local_status_id :: "uuid option"
  stm_remote_status_id :: "uuid option"
  stm_favourites_count :: int
  stm_reblogs_count :: int
  stm_published_at :: instant
  stm_score :: real
  stm_expires_at :: "instant option"
  stm_updated_at :: instant

record trend_dirty_row =
  tdy_kind :: string
  tdy_target_id :: uuid
  tdy_touched_at :: instant

subsection \<open>The database\<close>

record db =
  t_job :: "job_row list"
  t_local_account :: "local_account_row list"
  t_remote_actor :: "remote_actor_row list"
  t_local_follow :: "local_follow_row list"
  t_local_account_block :: "local_account_block_row list"
  t_local_account_mute :: "local_account_mute_row list"
  t_local_remote_account_block :: "local_remote_account_block_row list"
  t_remote_local_account_block :: "remote_local_account_block_row list"
  t_local_remote_account_mute :: "local_remote_account_mute_row list"
  t_remote_follow :: "remote_follow_row list"
  t_remote_following :: "remote_following_row list"
  t_local_list :: "local_list_row list"
  t_list_local_member :: "list_local_member_row list"
  t_list_remote_member :: "list_remote_member_row list"
  t_processed_inbox_activity :: "processed_inbox_activity_row list"
  t_local_notification :: "local_notification_row list"
  t_push_subscription :: "push_subscription_row list"
  t_local_status :: "local_status_row list"
  t_remote_status :: "remote_status_row list"
  t_status_remote_mention :: "status_remote_mention_row list"
  t_status_poll :: "status_poll_row list"
  t_status_poll_option :: "status_poll_option_row list"
  t_status_poll_vote :: "status_poll_vote_row list"
  t_scheduled_status_poll :: "scheduled_status_poll_row list"
  t_scheduled_status_poll_option :: "scheduled_status_poll_option_row list"
  t_status_local_recipient :: "status_local_recipient_row list"
  t_remote_status_local_recipient :: "remote_status_local_recipient_row list"
  t_oauth_application :: "oauth_application_row list"
  t_oauth_authorization_code :: "oauth_authorization_code_row list"
  t_oauth_access_token :: "oauth_access_token_row list"
  t_registration_attempt :: "registration_attempt_row list"
  t_local_notification_policy :: "local_notification_policy_row list"
  t_federation_domain_block :: "federation_domain_block_row list"
  t_notification_request :: "local_notification_request_row list"
  t_notification_permission :: "local_notification_permission_row list"
  t_notification_group_state :: "notification_group_state_row list"
  t_status_local_mention :: "status_local_mention_row list"
  t_local_status_favourite :: "local_status_favourite_row list"
  t_remote_status_favourite :: "remote_status_favourite_row list"
  t_local_remote_status_favourite :: "local_remote_status_favourite_row list"
  t_local_status_bookmark :: "local_status_bookmark_row list"
  t_local_status_reblog :: "local_status_reblog_row list"
  t_local_remote_status_reblog :: "local_remote_status_reblog_row list"
  t_remote_status_reblog :: "remote_status_reblog_row list"
  t_status_trend_metric :: "status_trend_metric_row list"
  t_trend_dirty :: "trend_dirty_row list"

definition empty_db :: db where
  "empty_db = \<lparr> t_job = [], t_local_account = [], t_remote_actor = [], t_local_follow = [],
     t_local_account_block = [], t_local_account_mute = [], t_local_remote_account_block = [],
     t_remote_local_account_block = [], t_local_remote_account_mute = [], t_remote_follow = [],
     t_remote_following = [], t_local_list = [], t_list_local_member = [],
     t_list_remote_member = [], t_processed_inbox_activity = [], t_local_notification = [],
     t_push_subscription = [], t_local_status = [], t_remote_status = [],
     t_status_remote_mention = [], t_status_poll = [], t_status_poll_option = [],
     t_status_poll_vote = [], t_scheduled_status_poll = [],
     t_scheduled_status_poll_option = [], t_status_local_recipient = [],
     t_remote_status_local_recipient = [], t_oauth_application = [], t_oauth_authorization_code = [],
     t_oauth_access_token = [], t_registration_attempt = [], t_local_notification_policy = [],
     t_federation_domain_block = [], t_notification_request = [], t_notification_permission = [],
     t_notification_group_state = [], t_status_local_mention = [], t_local_status_favourite = [],
     t_remote_status_favourite = [], t_local_remote_status_favourite = [],
     t_local_status_bookmark = [], t_local_status_reblog = [], t_local_remote_status_reblog = [],
     t_remote_status_reblog = [], t_status_trend_metric = [], t_trend_dirty = [] \<rparr>"

subsection \<open>Unique indexes\<close>

text \<open>Equality of a nullable column in a unique index: \<open>NULL\<close> equals nothing.\<close>

definition sql_eq :: "'a option \<Rightarrow> 'a option \<Rightarrow> bool" where
  "sql_eq x y \<longleftrightarrow> x \<noteq> None \<and> x = y"

lemma sql_eq_sym: "sql_eq x y \<longleftrightarrow> sql_eq y x"
  by (auto simp: sql_eq_def)

lemma sql_eq_iff: "sql_eq x y \<longleftrightarrow> (\<exists>v. x = Some v \<and> y = Some v)"
  by (auto simp: sql_eq_def)

lemma sql_eq_simps [simp]:
  "\<not> sql_eq None y" "\<not> sql_eq x None" "sql_eq (Some a) (Some b) \<longleftrightarrow> a = b"
  by (auto simp: sql_eq_def)

text \<open>
  \<open>job_deduplication_key_idx\<close> is partial: it covers rows with a key that are not completed.
\<close>

definition job_active_key :: "job_row \<Rightarrow> (string \<times> string) option" where
  "job_active_key j =
     (case job_deduplication_key j of
        Some k \<Rightarrow> if job_completed_at j = None then Some (job_kind j, k) else None
      | None \<Rightarrow> None)"

definition job_dedup_conflict :: "job_row \<Rightarrow> job_row \<Rightarrow> bool" where
  "job_dedup_conflict a b \<longleftrightarrow> sql_eq (job_active_key a) (job_active_key b)"

definition job_conflict :: "job_row \<Rightarrow> job_row \<Rightarrow> bool" where
  "job_conflict a b \<longleftrightarrow> job_id a = job_id b \<or> job_dedup_conflict a b"

definition lf_key :: "local_follow_row \<Rightarrow> uuid \<times> uuid" where
  "lf_key r = (lf_follower_account_id r, lf_followed_account_id r)"

definition lf_conflict :: "local_follow_row \<Rightarrow> local_follow_row \<Rightarrow> bool" where
  "lf_conflict a b \<longleftrightarrow> lf_id a = lf_id b \<or> lf_key a = lf_key b"

definition lab_key :: "local_account_block_row \<Rightarrow> uuid \<times> uuid" where
  "lab_key r = (lab_account_id r, lab_target_account_id r)"

definition lab_conflict :: "local_account_block_row \<Rightarrow> local_account_block_row \<Rightarrow> bool" where
  "lab_conflict a b \<longleftrightarrow> lab_id a = lab_id b \<or> lab_key a = lab_key b"

definition lam_key :: "local_account_mute_row \<Rightarrow> uuid \<times> uuid" where
  "lam_key r = (lam_account_id r, lam_target_account_id r)"

definition lam_conflict :: "local_account_mute_row \<Rightarrow> local_account_mute_row \<Rightarrow> bool" where
  "lam_conflict a b \<longleftrightarrow> lam_id a = lam_id b \<or> lam_key a = lam_key b"

definition lrb_key :: "local_remote_account_block_row \<Rightarrow> uuid \<times> uuid" where
  "lrb_key r = (lrb_local_account_id r, lrb_remote_actor_id r)"

definition lrb_conflict ::
  "local_remote_account_block_row \<Rightarrow> local_remote_account_block_row \<Rightarrow> bool" where
  "lrb_conflict a b \<longleftrightarrow>
     lrb_id a = lrb_id b \<or> lrb_key a = lrb_key b \<or> lrb_activity_id a = lrb_activity_id b"

definition rlb_key :: "remote_local_account_block_row \<Rightarrow> uuid \<times> uuid" where
  "rlb_key r = (rlb_remote_actor_id r, rlb_local_account_id r)"

definition rlb_conflict ::
  "remote_local_account_block_row \<Rightarrow> remote_local_account_block_row \<Rightarrow> bool" where
  "rlb_conflict a b \<longleftrightarrow>
     rlb_id a = rlb_id b \<or> rlb_key a = rlb_key b \<or> rlb_activity_id a = rlb_activity_id b"

definition lrm_key :: "local_remote_account_mute_row \<Rightarrow> uuid \<times> uuid" where
  "lrm_key r = (lrm_local_account_id r, lrm_remote_actor_id r)"

definition lrm_conflict ::
  "local_remote_account_mute_row \<Rightarrow> local_remote_account_mute_row \<Rightarrow> bool" where
  "lrm_conflict a b \<longleftrightarrow> lrm_id a = lrm_id b \<or> lrm_key a = lrm_key b"

definition rf_key :: "remote_follow_row \<Rightarrow> uuid \<times> uuid" where
  "rf_key r = (rf_remote_actor_id r, rf_local_account_id r)"

definition rf_conflict :: "remote_follow_row \<Rightarrow> remote_follow_row \<Rightarrow> bool" where
  "rf_conflict a b \<longleftrightarrow>
     rf_id a = rf_id b \<or> rf_key a = rf_key b \<or> rf_activity_id a = rf_activity_id b"

definition rg_key :: "remote_following_row \<Rightarrow> uuid \<times> uuid" where
  "rg_key r = (rg_local_account_id r, rg_remote_actor_id r)"

definition rg_conflict :: "remote_following_row \<Rightarrow> remote_following_row \<Rightarrow> bool" where
  "rg_conflict a b \<longleftrightarrow>
     rg_id a = rg_id b \<or> rg_key a = rg_key b \<or> rg_activity_id a = rg_activity_id b"

definition ll_conflict :: "local_list_row \<Rightarrow> local_list_row \<Rightarrow> bool" where
  "ll_conflict a b \<longleftrightarrow> ll_id a = ll_id b"

definition llm_conflict :: "list_local_member_row \<Rightarrow> list_local_member_row \<Rightarrow> bool" where
  "llm_conflict a b \<longleftrightarrow>
     llm_id a = llm_id b \<or> (llm_list_id a = llm_list_id b \<and> llm_account_id a = llm_account_id b)"

definition lrem_conflict :: "list_remote_member_row \<Rightarrow> list_remote_member_row \<Rightarrow> bool" where
  "lrem_conflict a b \<longleftrightarrow>
     lrem_id a = lrem_id b \<or>
     (lrem_list_id a = lrem_list_id b \<and> lrem_remote_actor_id a = lrem_remote_actor_id b)"

definition pia_conflict ::
  "processed_inbox_activity_row \<Rightarrow> processed_inbox_activity_row \<Rightarrow> bool" where
  "pia_conflict a b \<longleftrightarrow> pia_activity_id a = pia_activity_id b"

text \<open>
  The unique event indexes of \<open>local_notification\<close>. A unique index never matches on a
  \<open>NULL\<close> column, except where the index coalesces it.
\<close>

definition ln_conflict :: "local_notification_row \<Rightarrow> local_notification_row \<Rightarrow> bool" where
  "ln_conflict a b \<longleftrightarrow>
     ln_id a = ln_id b \<or>
     ln_account_id a = ln_account_id b \<and> ln_notification_type a = ln_notification_type b \<and>
     (ln_notification_type a = NAdminReport \<and> sql_eq (ln_report_id a) (ln_report_id b)
      \<or> ln_notification_type a \<noteq> NAdminReport \<and>
        sql_eq (ln_actor_account_id a) (ln_actor_account_id b) \<and> ln_status_id a = ln_status_id b
      \<or> sql_eq (ln_remote_status_id a) (ln_remote_status_id b) \<and>
        sql_eq (ln_remote_actor_id a) (ln_remote_actor_id b)
      \<or> ln_notification_type a \<noteq> NAdminReport \<and>
        sql_eq (ln_remote_actor_id a) (ln_remote_actor_id b) \<and>
        ln_status_id a = None \<and> ln_status_id b = None \<and>
        ln_remote_status_id a = None \<and> ln_remote_status_id b = None)"

definition sp_conflict :: "status_poll_row \<Rightarrow> status_poll_row \<Rightarrow> bool" where
  "sp_conflict a b \<longleftrightarrow>
     sp_id a = sp_id b \<or>
     sql_eq (sp_local_status_id a) (sp_local_status_id b) \<or>
     sql_eq (sp_remote_status_id a) (sp_remote_status_id b)"

definition spo_key :: "status_poll_option_row \<Rightarrow> uuid \<times> int" where
  "spo_key r = (spo_poll_id r, spo_position r)"

definition spo_conflict :: "status_poll_option_row \<Rightarrow> status_poll_option_row \<Rightarrow> bool" where
  "spo_conflict a b \<longleftrightarrow> spo_key a = spo_key b"

definition spv_conflict :: "status_poll_vote_row \<Rightarrow> status_poll_vote_row \<Rightarrow> bool" where
  "spv_conflict a b \<longleftrightarrow>
     spv_id a = spv_id b \<or>
     spv_poll_id a = spv_poll_id b \<and> spv_choice_position a = spv_choice_position b \<and>
       (sql_eq (spv_local_account_id a) (spv_local_account_id b)
        \<or> sql_eq (spv_remote_actor_id a) (spv_remote_actor_id b))
     \<or> sql_eq (spv_activitypub_id a) (spv_activitypub_id b)"

definition ssp_conflict ::
  "scheduled_status_poll_row \<Rightarrow> scheduled_status_poll_row \<Rightarrow> bool" where
  "ssp_conflict a b \<longleftrightarrow> ssp_scheduled_status_id a = ssp_scheduled_status_id b"

definition sspo_conflict ::
  "scheduled_status_poll_option_row \<Rightarrow> scheduled_status_poll_option_row \<Rightarrow> bool" where
  "sspo_conflict a b \<longleftrightarrow>
     sspo_scheduled_status_id a = sspo_scheduled_status_id b \<and> sspo_position a = sspo_position b"

definition ps_conflict :: "push_subscription_row \<Rightarrow> push_subscription_row \<Rightarrow> bool" where
  "ps_conflict a b \<longleftrightarrow> ps_id a = ps_id b \<or> ps_access_token_id a = ps_access_token_id b"

definition oap_conflict :: "oauth_application_row \<Rightarrow> oauth_application_row \<Rightarrow> bool" where
  "oap_conflict a b \<longleftrightarrow> oap_id a = oap_id b \<or> oap_client_id a = oap_client_id b"

definition oac_conflict :: "oauth_authorization_code_row \<Rightarrow> oauth_authorization_code_row \<Rightarrow> bool" where
  "oac_conflict a b \<longleftrightarrow> oac_id a = oac_id b \<or> oac_code_hash a = oac_code_hash b"

definition oat_conflict :: "oauth_access_token_row \<Rightarrow> oauth_access_token_row \<Rightarrow> bool" where
  "oat_conflict a b \<longleftrightarrow> oat_id a = oat_id b \<or> oat_token_hash a = oat_token_hash b"

definition rat_conflict :: "registration_attempt_row \<Rightarrow> registration_attempt_row \<Rightarrow> bool" where
  "rat_conflict a b \<longleftrightarrow> rat_id a = rat_id b"

definition la_conflict :: "local_account_row \<Rightarrow> local_account_row \<Rightarrow> bool" where
  "la_conflict a b \<longleftrightarrow>
     la_id a = la_id b \<or> la_username a = la_username b \<or> la_email a = la_email b"

definition lnp_conflict :: "local_notification_policy_row \<Rightarrow> local_notification_policy_row \<Rightarrow> bool" where
  "lnp_conflict a b \<longleftrightarrow> lnp_account_id a = lnp_account_id b"

definition fdb_conflict :: "federation_domain_block_row \<Rightarrow> federation_domain_block_row \<Rightarrow> bool" where
  "fdb_conflict a b \<longleftrightarrow> fdb_id a = fdb_id b \<or> fdb_domain a = fdb_domain b"

text \<open>
  The indexes of notification requests are partial: they cover the requests that are still
  active. Two dismissed requests of one sender may stand beside each other.
\<close>

definition nrq_active :: "local_notification_request_row \<Rightarrow> bool" where
  "nrq_active r \<longleftrightarrow> nrq_state r \<noteq> ReqDismissed"

definition nrq_active_conflict ::
  "local_notification_request_row \<Rightarrow> local_notification_request_row \<Rightarrow> bool" where
  "nrq_active_conflict a b \<longleftrightarrow>
     nrq_active a \<and> nrq_active b \<and> nrq_account_id a = nrq_account_id b \<and>
     (sql_eq (nrq_actor_account_id a) (nrq_actor_account_id b)
      \<or> sql_eq (nrq_remote_actor_id a) (nrq_remote_actor_id b))"

definition nrq_conflict ::
  "local_notification_request_row \<Rightarrow> local_notification_request_row \<Rightarrow> bool" where
  "nrq_conflict a b \<longleftrightarrow> nrq_id a = nrq_id b \<or> nrq_active_conflict a b"

definition npm_pair_conflict ::
  "local_notification_permission_row \<Rightarrow> local_notification_permission_row \<Rightarrow> bool" where
  "npm_pair_conflict a b \<longleftrightarrow>
     npm_account_id a = npm_account_id b \<and>
     (sql_eq (npm_actor_account_id a) (npm_actor_account_id b)
      \<or> sql_eq (npm_remote_actor_id a) (npm_remote_actor_id b))"

definition npm_conflict ::
  "local_notification_permission_row \<Rightarrow> local_notification_permission_row \<Rightarrow> bool" where
  "npm_conflict a b \<longleftrightarrow> npm_id a = npm_id b \<or> npm_pair_conflict a b"

definition ngs_key :: "notification_group_state_row \<Rightarrow> uuid \<times> local_notification_type \<times> string \<times> uuid" where
  "ngs_key r = (ngs_account_id r, ngs_notification_type r, ngs_target_kind r, ngs_target_id r)"

definition ngs_conflict :: "notification_group_state_row \<Rightarrow> notification_group_state_row \<Rightarrow> bool" where
  "ngs_conflict a b \<longleftrightarrow> ngs_key a = ngs_key b"

definition lsf_key :: "local_status_favourite_row \<Rightarrow> uuid \<times> uuid" where
  "lsf_key r = (lsf_account_id r, lsf_status_id r)"

definition lsf_conflict :: "local_status_favourite_row \<Rightarrow> local_status_favourite_row \<Rightarrow> bool" where
  "lsf_conflict a b \<longleftrightarrow> lsf_key a = lsf_key b \<or> lsf_id a = lsf_id b"

definition rsf_conflict :: "remote_status_favourite_row \<Rightarrow> remote_status_favourite_row \<Rightarrow> bool" where
  "rsf_conflict a b \<longleftrightarrow>
     rsf_id a = rsf_id b \<or> rsf_activity_id a = rsf_activity_id b \<or>
     (rsf_remote_actor_id a = rsf_remote_actor_id b \<and> rsf_local_status_id a = rsf_local_status_id b)"

definition lrf_conflict ::
  "local_remote_status_favourite_row \<Rightarrow> local_remote_status_favourite_row \<Rightarrow> bool" where
  "lrf_conflict a b \<longleftrightarrow>
     lrf_id a = lrf_id b \<or> lrf_activity_id a = lrf_activity_id b \<or>
     (lrf_local_account_id a = lrf_local_account_id b \<and> lrf_remote_status_id a = lrf_remote_status_id b)"

definition lsb_key :: "local_status_bookmark_row \<Rightarrow> uuid \<times> uuid" where
  "lsb_key r = (lsb_account_id r, lsb_status_id r)"

definition lsb_conflict :: "local_status_bookmark_row \<Rightarrow> local_status_bookmark_row \<Rightarrow> bool" where
  "lsb_conflict a b \<longleftrightarrow> lsb_key a = lsb_key b \<or> lsb_id a = lsb_id b"

definition lsr_key :: "local_status_reblog_row \<Rightarrow> uuid \<times> uuid" where
  "lsr_key r = (lsr_account_id r, lsr_status_id r)"

definition lsr_conflict :: "local_status_reblog_row \<Rightarrow> local_status_reblog_row \<Rightarrow> bool" where
  "lsr_conflict a b \<longleftrightarrow> lsr_key a = lsr_key b \<or> lsr_id a = lsr_id b"

definition lrr_conflict ::
  "local_remote_status_reblog_row \<Rightarrow> local_remote_status_reblog_row \<Rightarrow> bool" where
  "lrr_conflict a b \<longleftrightarrow>
     lrr_id a = lrr_id b \<or> lrr_activity_id a = lrr_activity_id b \<or>
     (lrr_local_account_id a = lrr_local_account_id b \<and> lrr_remote_status_id a = lrr_remote_status_id b)"

definition rsr_conflict :: "remote_status_reblog_row \<Rightarrow> remote_status_reblog_row \<Rightarrow> bool" where
  "rsr_conflict a b \<longleftrightarrow>
     rsr_id a = rsr_id b \<or> rsr_activity_id a = rsr_activity_id b \<or>
     rsr_remote_actor_id a = rsr_remote_actor_id b \<and>
       (sql_eq (rsr_local_status_id a) (rsr_local_status_id b)
        \<or> sql_eq (rsr_remote_status_id a) (rsr_remote_status_id b))"

text \<open>\<open>UNIQUE NULLS NOT DISTINCT\<close> compares \<open>NULL\<close> as a value.\<close>

definition stm_key :: "status_trend_metric_row \<Rightarrow> uuid option \<times> uuid option" where
  "stm_key r = (stm_local_status_id r, stm_remote_status_id r)"

definition stm_conflict :: "status_trend_metric_row \<Rightarrow> status_trend_metric_row \<Rightarrow> bool" where
  "stm_conflict a b \<longleftrightarrow> stm_key a = stm_key b"

definition tdy_key :: "trend_dirty_row \<Rightarrow> string \<times> uuid" where
  "tdy_key r = (tdy_kind r, tdy_target_id r)"

definition tdy_conflict :: "trend_dirty_row \<Rightarrow> trend_dirty_row \<Rightarrow> bool" where
  "tdy_conflict a b \<longleftrightarrow> tdy_key a = tdy_key b"

text \<open>Each conflict relation is symmetric, and its key columns are unique.\<close>

interpretation job_tbl: keyed_table job_conflict job_id
  by unfold_locales (auto simp: job_conflict_def job_dedup_conflict_def sql_eq_sym)

interpretation lf_tbl: keyed_table lf_conflict lf_key
  by unfold_locales (auto simp: lf_conflict_def)

interpretation lab_tbl: keyed_table lab_conflict lab_key
  by unfold_locales (auto simp: lab_conflict_def)

interpretation lam_tbl: keyed_table lam_conflict lam_key
  by unfold_locales (auto simp: lam_conflict_def)

interpretation lrb_tbl: keyed_table lrb_conflict lrb_key
  by unfold_locales (auto simp: lrb_conflict_def)

interpretation rlb_tbl: keyed_table rlb_conflict rlb_key
  by unfold_locales (auto simp: rlb_conflict_def)

interpretation lrm_tbl: keyed_table lrm_conflict lrm_key
  by unfold_locales (auto simp: lrm_conflict_def)

interpretation rf_tbl: keyed_table rf_conflict rf_key
  by unfold_locales (auto simp: rf_conflict_def)

interpretation rg_tbl: keyed_table rg_conflict rg_key
  by unfold_locales (auto simp: rg_conflict_def)

interpretation ll_tbl: keyed_table ll_conflict ll_id
  by unfold_locales (auto simp: ll_conflict_def)

interpretation llm_tbl: unique_table llm_conflict
  by unfold_locales (auto simp: llm_conflict_def)

interpretation lrem_tbl: unique_table lrem_conflict
  by unfold_locales (auto simp: lrem_conflict_def)

interpretation pia_tbl: keyed_table pia_conflict pia_activity_id
  by unfold_locales (auto simp: pia_conflict_def)

lemma ln_conflict_sym: "ln_conflict a b \<Longrightarrow> ln_conflict b a"
  unfolding ln_conflict_def
  using sql_eq_sym [of "ln_report_id a"] sql_eq_sym [of "ln_actor_account_id a"]
    sql_eq_sym [of "ln_remote_status_id a"] sql_eq_sym [of "ln_remote_actor_id a"]
  by metis

interpretation ln_tbl: keyed_table ln_conflict ln_id
  by unfold_locales (auto intro: ln_conflict_sym, simp add: ln_conflict_def)

interpretation sp_tbl: keyed_table sp_conflict sp_id
  by unfold_locales (auto simp: sp_conflict_def sql_eq_sym)

interpretation spo_tbl: keyed_table spo_conflict spo_key
  by unfold_locales (auto simp: spo_conflict_def)

interpretation spv_tbl: keyed_table spv_conflict spv_id
  by unfold_locales (auto simp: spv_conflict_def sql_eq_sym)

interpretation ps_tbl: keyed_table ps_conflict ps_id
  by unfold_locales (auto simp: ps_conflict_def)

interpretation oap_tbl: keyed_table oap_conflict oap_id
  by unfold_locales (auto simp: oap_conflict_def)

interpretation oac_tbl: keyed_table oac_conflict oac_id
  by unfold_locales (auto simp: oac_conflict_def)

interpretation oat_tbl: keyed_table oat_conflict oat_id
  by unfold_locales (auto simp: oat_conflict_def)

interpretation rat_tbl: keyed_table rat_conflict rat_id
  by unfold_locales (auto simp: rat_conflict_def)

interpretation la_tbl: keyed_table la_conflict la_id
  by unfold_locales (auto simp: la_conflict_def)

interpretation lnp_tbl: keyed_table lnp_conflict lnp_account_id
  by unfold_locales (auto simp: lnp_conflict_def)

interpretation fdb_tbl: keyed_table fdb_conflict fdb_id
  by unfold_locales (auto simp: fdb_conflict_def)

interpretation nrq_tbl: keyed_table nrq_conflict nrq_id
  by unfold_locales (auto simp: nrq_conflict_def nrq_active_conflict_def sql_eq_sym)

interpretation npm_tbl: keyed_table npm_conflict npm_id
  by unfold_locales (auto simp: npm_conflict_def npm_pair_conflict_def sql_eq_sym)

interpretation ngs_tbl: keyed_table ngs_conflict ngs_key
  by unfold_locales (auto simp: ngs_conflict_def)

interpretation lsf_tbl: keyed_table lsf_conflict lsf_key
  by unfold_locales (auto simp: lsf_conflict_def)

interpretation rsf_tbl: keyed_table rsf_conflict rsf_id
  by unfold_locales (auto simp: rsf_conflict_def)

interpretation lrf_tbl: keyed_table lrf_conflict lrf_id
  by unfold_locales (auto simp: lrf_conflict_def)

interpretation lsb_tbl: keyed_table lsb_conflict lsb_key
  by unfold_locales (auto simp: lsb_conflict_def)

interpretation lsr_tbl: keyed_table lsr_conflict lsr_key
  by unfold_locales (auto simp: lsr_conflict_def)

interpretation lrr_tbl: keyed_table lrr_conflict lrr_id
  by unfold_locales (auto simp: lrr_conflict_def)

interpretation rsr_tbl: keyed_table rsr_conflict rsr_id
  by unfold_locales (auto simp: rsr_conflict_def sql_eq_sym)

interpretation stm_tbl: keyed_table stm_conflict stm_key
  by unfold_locales (auto simp: stm_conflict_def)

interpretation tdy_tbl: keyed_table tdy_conflict tdy_key
  by unfold_locales (auto simp: tdy_conflict_def)

lemmas conflict_defs =
  job_conflict_def lf_conflict_def lab_conflict_def lam_conflict_def lrb_conflict_def
  rlb_conflict_def lrm_conflict_def rf_conflict_def rg_conflict_def ll_conflict_def
  llm_conflict_def lrem_conflict_def pia_conflict_def sp_conflict_def spo_conflict_def
  spv_conflict_def

lemmas key_defs =
  lf_key_def lab_key_def lam_key_def lrb_key_def rlb_key_def lrm_key_def rf_key_def rg_key_def
  spo_key_def

subsection \<open>Bounded arithmetic of stored values\<close>

text \<open>
  The \<^verbatim>\<open>time\<close> crate represents instants up to the end of the year 9999; adding a duration
  that leaves this range panics. \<open>now\<close> is never before 1970.
\<close>

definition max_instant :: instant where
  "max_instant = 253402300799999999"

definition checked_add_seconds :: "instant \<Rightarrow> int \<Rightarrow> instant result" where
  "checked_add_seconds now s =
     (if now + seconds s \<le> max_instant then Inr (now + seconds s)
      else Inl (Panic ''resulting value is out of range''))"

definition i64_max :: int where "i64_max = 9223372036854775807"
definition i32_max :: int where "i32_max = 2147483647"
definition u64_max :: nat where "u64_max = 18446744073709551615"

text \<open>The cast \<open>as i32\<close> of a \<open>u32\<close>.\<close>

definition u32_as_i32 :: "nat \<Rightarrow> int" where
  "u32_as_i32 n =
     (let m = int n mod 4294967296 in if m < 2147483648 then m else m - 4294967296)"

lemma u32_as_i32_inj:
  "n < 4294967296 \<Longrightarrow> m < 4294967296 \<Longrightarrow> u32_as_i32 n = u32_as_i32 m \<longleftrightarrow> n = m"
  by (auto simp: u32_as_i32_def Let_def split: if_splits)

lemma u32_as_i32_small [simp]: "n < 2147483648 \<Longrightarrow> u32_as_i32 n = int n"
  by (simp add: u32_as_i32_def)

end
