(* ===== verification/Roosty_Jobs.thy ===== *)
theory Roosty_Jobs
  imports Roosty_Schema "HOL-Library.Product_Lexorder"
begin

text \<open>
  The durable job queue of \<^verbatim>\<open>src/crates/db/src/lib.rs\<close> (lines 6551-6600 and
  21000-21653): enqueueing with deduplication, claiming with a lease, the three outcomes of a
  claimed job, retention cleanup, the retry schedule, and the administrator's view of it.

  \<open>pg_now\<close> is PostgreSQL's \<open>now()\<close> and \<open>now\<close> the clock of the calling process;
  no relation between the two is assumed. Identifiers drawn with \<open>Uuid::now_v7()\<close> are
  arguments. \<open>locked\<close> holds of the rows that concurrent transactions have locked, which
  \<open>FOR UPDATE SKIP LOCKED\<close> passes over. A statement that has been executed outside of a
  transaction stays executed when decoding its result fails, so \<open>claim_due_job\<close> returns
  the new state beside its result.
\<close>

subsection \<open>Job kinds\<close>

datatype job_kind =
    FederationFollowResponse
  | FederationStatusDelivery
  | FederationQuoteDelivery
  | FederationFollowDelivery
  | FederationFavouriteDelivery
  | FederationReblogDelivery
  | FederationActorUpdateDelivery
  | FederationModerationDelivery
  | FederationRemoteMediaFetch
  | FederationFeaturedRefresh
  | FederationFeaturedTagsRefresh
  | FederationThreadResolve
  | FederationRepliesFetch
  | FederationReplyFetch
  | WebPushDelivery
  | NotificationRequestMerge
  | NotificationRequestCleanup
  | AccountPurge
  | DomainModerationReconcile
  | ScheduledStatusPublish
  | PollExpiration
  | PollUpdate
  | FederationPollVoteDelivery
  | TrendMaintenance
  | AccountSuggestionMaintenance
  | PreviewCardFetch
  | PreviewCardBackfill
  | ActorKeyMaintenance
  | RemoteActorMigration

primrec job_kind_as_str :: "job_kind \<Rightarrow> string" where
  "job_kind_as_str FederationFollowResponse = ''federation_follow_response''"
| "job_kind_as_str FederationStatusDelivery = ''federation_status_delivery''"
| "job_kind_as_str FederationQuoteDelivery = ''federation_quote_delivery''"
| "job_kind_as_str FederationFollowDelivery = ''federation_follow_delivery''"
| "job_kind_as_str FederationFavouriteDelivery = ''federation_favourite_delivery''"
| "job_kind_as_str FederationReblogDelivery = ''federation_reblog_delivery''"
| "job_kind_as_str FederationActorUpdateDelivery = ''federation_actor_update_delivery''"
| "job_kind_as_str FederationModerationDelivery = ''federation_moderation_delivery''"
| "job_kind_as_str FederationRemoteMediaFetch = ''federation_remote_media_fetch''"
| "job_kind_as_str FederationFeaturedRefresh = ''federation_featured_refresh''"
| "job_kind_as_str FederationFeaturedTagsRefresh = ''federation_featured_tags_refresh''"
| "job_kind_as_str FederationThreadResolve = ''federation_thread_resolve''"
| "job_kind_as_str FederationRepliesFetch = ''federation_replies_fetch''"
| "job_kind_as_str FederationReplyFetch = ''federation_reply_fetch''"
| "job_kind_as_str WebPushDelivery = ''web_push_delivery''"
| "job_kind_as_str NotificationRequestMerge = ''notification_request_merge''"
| "job_kind_as_str NotificationRequestCleanup = ''notification_request_cleanup''"
| "job_kind_as_str AccountPurge = ''account_purge''"
| "job_kind_as_str DomainModerationReconcile = ''domain_moderation_reconcile''"
| "job_kind_as_str ScheduledStatusPublish = ''scheduled_status_publish''"
| "job_kind_as_str PollExpiration = ''poll_expiration''"
| "job_kind_as_str PollUpdate = ''poll_update''"
| "job_kind_as_str FederationPollVoteDelivery = ''federation_poll_vote_delivery''"
| "job_kind_as_str TrendMaintenance = ''trend_maintenance''"
| "job_kind_as_str AccountSuggestionMaintenance = ''account_suggestion_maintenance''"
| "job_kind_as_str PreviewCardFetch = ''preview_card_fetch''"
| "job_kind_as_str PreviewCardBackfill = ''preview_card_backfill''"
| "job_kind_as_str ActorKeyMaintenance = ''actor_key_maintenance''"
| "job_kind_as_str RemoteActorMigration = ''remote_actor_migration''"

text \<open>\<open>JobKind::iter()\<close> and the generated \<open>FromStr\<close>.\<close>

definition job_kind_iter :: "job_kind list" where
  "job_kind_iter =
    [FederationFollowResponse, FederationStatusDelivery, FederationQuoteDelivery,
     FederationFollowDelivery, FederationFavouriteDelivery, FederationReblogDelivery,
     FederationActorUpdateDelivery, FederationModerationDelivery, FederationRemoteMediaFetch,
     FederationFeaturedRefresh, FederationFeaturedTagsRefresh, FederationThreadResolve,
     FederationRepliesFetch, FederationReplyFetch, WebPushDelivery, NotificationRequestMerge,
     NotificationRequestCleanup, AccountPurge, DomainModerationReconcile,
     ScheduledStatusPublish, PollExpiration, PollUpdate, FederationPollVoteDelivery,
     TrendMaintenance, AccountSuggestionMaintenance, PreviewCardFetch, PreviewCardBackfill,
     ActorKeyMaintenance, RemoteActorMigration]"

definition job_kind_from_str :: "string \<Rightarrow> job_kind option" where
  "job_kind_from_str s = List.find (\<lambda>k. job_kind_as_str k = s) job_kind_iter"

subsection \<open>Requests and claims\<close>

record new_job =
  nj_kind :: job_kind
  nj_payload :: json
  nj_deduplication_key :: "string option"
  nj_run_after :: instant

record claimed_job =
  cj_id :: uuid
  cj_claim_id :: uuid
  cj_kind :: job_kind
  cj_payload :: json
  cj_attempts :: nat
  cj_created_at :: instant

record job_cleanup_outcome =
  jco_successful :: nat
  jco_permanently_failed :: nat

definition job_cleanup_total :: "job_cleanup_outcome \<Rightarrow> nat" where
  "job_cleanup_total o' = jco_successful o' + jco_permanently_failed o'"

subsection \<open>Enqueueing\<close>

definition new_job_row :: "uuid \<Rightarrow> instant \<Rightarrow> new_job \<Rightarrow> job_row" where
  "new_job_row new_id pg_now nj =
     \<lparr> job_id = new_id, job_kind = job_kind_as_str (nj_kind nj), job_payload = nj_payload nj,
       job_deduplication_key = nj_deduplication_key nj, job_run_after = nj_run_after nj,
       job_attempts = 0, job_locked_at = None, job_locked_by = None, job_claim_id = None,
       job_last_error = None, job_created_at = pg_now, job_completed_at = None,
       job_permanently_failed_at = None \<rparr>"

definition enqueue_job_on_connection ::
  "uuid \<Rightarrow> instant \<Rightarrow> new_job \<Rightarrow> db \<Rightarrow> (db \<times> uuid) result" where
  "enqueue_job_on_connection new_id pg_now nj d =
     (let row = new_job_row new_id pg_now nj;
          returned = (case List.find (job_dedup_conflict row) (t_job d) of
                        Some j \<Rightarrow> job_id j | None \<Rightarrow> new_id)
      in bind_res
           (db_result (tbl_upsert job_dedup_conflict job_conflict
              (\<lambda>j. j\<lparr>job_deduplication_key := nj_deduplication_key nj\<rparr>) row (t_job d)))
           (\<lambda>jobs. Inr (d\<lparr>t_job := jobs\<rparr>, returned)))"

definition enqueue_job_in_transaction ::
  "uuid \<Rightarrow> instant \<Rightarrow> new_job \<Rightarrow> db \<Rightarrow> (db \<times> uuid) result" where
  "enqueue_job_in_transaction new_id pg_now nj d = enqueue_job_on_connection new_id pg_now nj d"

definition enqueue_job ::
  "uuid \<Rightarrow> instant \<Rightarrow> job_kind \<Rightarrow> json \<Rightarrow> string option \<Rightarrow> instant \<Rightarrow> db \<Rightarrow> (db \<times> uuid) result"
where
  "enqueue_job new_id pg_now kind payload deduplication_key run_after d =
     enqueue_job_on_connection new_id pg_now
       \<lparr> nj_kind = kind, nj_payload = payload, nj_deduplication_key = deduplication_key,
         nj_run_after = run_after \<rparr> d"

subsection \<open>Claiming\<close>

definition job_due :: "instant \<Rightarrow> instant \<Rightarrow> job_row \<Rightarrow> bool" where
  "job_due pg_now expired_before j \<longleftrightarrow>
     job_completed_at j = None \<and> job_run_after j \<le> pg_now \<and>
     (case job_locked_at j of None \<Rightarrow> True | Some l \<Rightarrow> l < expired_before)"

definition lock_job :: "instant \<Rightarrow> string \<Rightarrow> uuid \<Rightarrow> job_row \<Rightarrow> job_row" where
  "lock_job pg_now worker_id claim_id j =
     j\<lparr>job_locked_at := Some pg_now, job_locked_by := Some worker_id,
       job_claim_id := Some claim_id\<rparr>"

definition claimed_job_from_row :: "uuid \<Rightarrow> job_row \<Rightarrow> claimed_job result" where
  "claimed_job_from_row claim_id j =
     (case job_kind_from_str (job_kind j) of
        None \<Rightarrow> Inl (Database (RecordNotFound ''job kind''))
      | Some kind \<Rightarrow>
          if job_attempts j < 0
          then Inl (InvalidInput ''stored job attempts must not be negative'')
          else Inr \<lparr> cj_id = job_id j, cj_claim_id = claim_id, cj_kind = kind,
                     cj_payload = job_payload j, cj_attempts = nat (job_attempts j),
                     cj_created_at = job_created_at j \<rparr>)"

text \<open>The shared \<open>UPDATE ... WHERE id IN (SELECT ... LIMIT 1)\<close>, on the ordered candidates.\<close>

definition claim_first ::
  "job_row list \<Rightarrow> instant \<Rightarrow> string \<Rightarrow> uuid \<Rightarrow> db \<Rightarrow> db \<times> claimed_job option result" where
  "claim_first candidates pg_now worker_id claim_id d =
     (case candidates of
        [] \<Rightarrow> (d, Inr None)
      | j # _ \<Rightarrow>
          (d\<lparr>t_job := tbl_update (\<lambda>r. job_id r = job_id j) (lock_job pg_now worker_id claim_id)
                        (t_job d)\<rparr>,
           bind_res (claimed_job_from_row claim_id j) (\<lambda>c. Inr (Some c))))"

definition claim_candidates :: "(uuid \<Rightarrow> bool) \<Rightarrow> instant \<Rightarrow> instant \<Rightarrow> db \<Rightarrow> job_row list" where
  "claim_candidates locked pg_now expired_before d =
     tbl_order (\<lambda>j. (job_run_after j, job_created_at j))
       (filter (\<lambda>j. job_due pg_now expired_before j \<and>
                    job_kind j \<in> set (map job_kind_as_str job_kind_iter) \<and>
                    \<not> locked (job_id j)) (t_job d))"

definition claim_due_job ::
  "(uuid \<Rightarrow> bool) \<Rightarrow> instant \<Rightarrow> instant \<Rightarrow> uuid \<Rightarrow> string \<Rightarrow> int \<Rightarrow> db \<Rightarrow>
     db \<times> claimed_job option result" where
  "claim_due_job locked now pg_now claim_id worker_id claim_ttl d =
     claim_first (claim_candidates locked pg_now (now - claim_ttl) d)
       pg_now worker_id claim_id d"

definition claim_due_job_by_key ::
  "(uuid \<Rightarrow> bool) \<Rightarrow> instant \<Rightarrow> instant \<Rightarrow> uuid \<Rightarrow> string \<Rightarrow> job_kind \<Rightarrow> string \<Rightarrow> int \<Rightarrow> db \<Rightarrow>
     db \<times> claimed_job option result" where
  "claim_due_job_by_key locked now pg_now claim_id worker_id kind deduplication_key claim_ttl d =
     claim_first
       (filter (\<lambda>j. job_due pg_now (now - claim_ttl) j \<and> job_kind j = job_kind_as_str kind \<and>
                    job_deduplication_key j = Some deduplication_key \<and>
                    \<not> locked (job_id j)) (t_job d))
       pg_now worker_id claim_id d"

subsection \<open>Outcomes\<close>

definition next_retry_at :: "instant \<Rightarrow> nat \<Rightarrow> instant" where
  "next_retry_at now attempts = now + seconds (min (2 ^ min attempts 12) 3600)"

definition job_has_exceeded_max_age :: "instant \<Rightarrow> instant \<Rightarrow> int \<Rightarrow> bool" where
  "job_has_exceeded_max_age now created_at max_age \<longleftrightarrow> max_age \<le> now - created_at"

definition holds_lease :: "claimed_job \<Rightarrow> job_row \<Rightarrow> bool" where
  "holds_lease c j \<longleftrightarrow> job_id j = cj_id c \<and> job_claim_id j = Some (cj_claim_id c)"

definition release :: "job_row \<Rightarrow> job_row" where
  "release j = j\<lparr>job_locked_at := None, job_locked_by := None, job_claim_id := None\<rparr>"

definition mark_job_completed :: "instant \<Rightarrow> claimed_job \<Rightarrow> db \<Rightarrow> db \<times> bool" where
  "mark_job_completed pg_now c d =
     (d\<lparr>t_job := tbl_update (holds_lease c) (\<lambda>j. release (j\<lparr>job_completed_at := Some pg_now\<rparr>))
                   (t_job d)\<rparr>,
      rows_affected (holds_lease c) (t_job d) = 1)"

definition mark_job_failed ::
  "instant \<Rightarrow> claimed_job \<Rightarrow> ustring \<Rightarrow> db \<Rightarrow> (db \<times> instant option) result" where
  "mark_job_failed now c error d =
     (let run_after = next_retry_at now (cj_attempts c)
      in if list_ex (\<lambda>j. holds_lease c j \<and> job_attempts j = i32_max) (t_job d)
         then Inl (Database NumericOutOfRange)
         else Inr (d\<lparr>t_job := tbl_update (holds_lease c)
                       (\<lambda>j. release (j\<lparr>job_attempts := job_attempts j + 1,
                                       job_last_error := Some error,
                                       job_run_after := run_after\<rparr>)) (t_job d)\<rparr>,
                   if rows_affected (holds_lease c) (t_job d) = 1 then Some run_after
                   else None))"

definition mark_job_permanently_failed ::
  "instant \<Rightarrow> claimed_job \<Rightarrow> ustring \<Rightarrow> db \<Rightarrow> db \<times> bool" where
  "mark_job_permanently_failed pg_now c error d =
     (d\<lparr>t_job := tbl_update (holds_lease c)
                   (\<lambda>j. release (j\<lparr>job_last_error := Some error,
                                   job_completed_at := Some pg_now,
                                   job_permanently_failed_at := Some pg_now\<rparr>)) (t_job d)\<rparr>,
      rows_affected (holds_lease c) (t_job d) = 1)"

subsection \<open>Other writers\<close>

text \<open>
  The statements elsewhere that retire jobs that are not completed (a deleted actor, a
  suspended domain, a cancelled schedule) or change their due time (a rescheduled status, a
  coalesced poll update). All but \<open>cancel_account_purge\<close> also drop the lease: a purge that a
  worker is running when it is cancelled is completed and still carries that worker's lease.
\<close>

definition retire_job :: "instant \<Rightarrow> ustring option \<Rightarrow> job_row \<Rightarrow> job_row" where
  "retire_job now error j =
     release (j\<lparr>job_completed_at := Some now,
                job_last_error := (case error of None \<Rightarrow> job_last_error j | Some e \<Rightarrow> Some e)\<rparr>)"

definition retire_jobs :: "instant \<Rightarrow> ustring option \<Rightarrow> (job_row \<Rightarrow> bool) \<Rightarrow> db \<Rightarrow> db" where
  "retire_jobs now error p d =
     d\<lparr>t_job := tbl_update (\<lambda>j. job_completed_at j = None \<and> p j) (retire_job now error) (t_job d)\<rparr>"

definition reschedule_jobs :: "(job_row \<Rightarrow> instant) \<Rightarrow> (job_row \<Rightarrow> bool) \<Rightarrow> db \<Rightarrow> db" where
  "reschedule_jobs run_after p d =
     d\<lparr>t_job := tbl_update (\<lambda>j. job_completed_at j = None \<and> p j)
                  (\<lambda>j. j\<lparr>job_run_after := run_after j\<rparr>) (t_job d)\<rparr>"

definition json_field :: "string \<Rightarrow> json \<Rightarrow> json option" where
  "json_field k j = (case j of JObj fs \<Rightarrow> map_of fs k | _ \<Rightarrow> None)"

definition cancel_account_purge :: "string \<Rightarrow> instant \<Rightarrow> db \<Rightarrow> db" where
  "cancel_account_purge account_id_string now d =
     d\<lparr>t_job := tbl_update
         (\<lambda>j. job_kind j = ''account_purge'' \<and> job_completed_at j = None \<and>
              json_field ''account_id'' (job_payload j) = Some (JStr account_id_string))
         (\<lambda>j. j\<lparr>job_completed_at := Some now,
                 job_last_error := Some (utext ''cancelled after unsuspend'')\<rparr>) (t_job d)\<rparr>"

subsection \<open>Retention\<close>

text \<open>Comparison with a nullable column: \<open>NULL\<close> satisfies none.\<close>

definition opt_le :: "instant option \<Rightarrow> instant \<Rightarrow> bool" where
  "opt_le x t = (case x of None \<Rightarrow> False | Some v \<Rightarrow> v \<le> t)"

definition retention_elapsed :: "instant \<Rightarrow> instant \<Rightarrow> job_row \<Rightarrow> bool" where
  "retention_elapsed successful_before permanently_failed_before j \<longleftrightarrow>
     job_permanently_failed_at j = None \<and> opt_le (job_completed_at j) successful_before \<or>
     opt_le (job_permanently_failed_at j) permanently_failed_before"

definition finished_at :: "job_row \<Rightarrow> instant" where
  "finished_at j =
     (case job_permanently_failed_at j of
        Some t \<Rightarrow> t
      | None \<Rightarrow> (case job_completed_at j of Some t \<Rightarrow> t | None \<Rightarrow> 0))"

definition cleanup_expired_jobs ::
  "(uuid \<Rightarrow> bool) \<Rightarrow> instant \<Rightarrow> int \<Rightarrow> int \<Rightarrow> nat \<Rightarrow> db \<Rightarrow> (db \<times> job_cleanup_outcome) result" where
  "cleanup_expired_jobs locked now successful_retention permanently_failed_retention batch_size d =
     (if successful_retention \<le> 0 \<or> permanently_failed_retention \<le> 0
      then Inl (InvalidInput ''job retention durations must be positive'')
      else if batch_size = 0 \<or> i64_max < int batch_size
      then Inl (InvalidInput ''job cleanup batch size must be positive'')
      else
        let candidates = take batch_size (tbl_order (\<lambda>j. (finished_at j, job_id j))
              (filter (\<lambda>j. retention_elapsed (now - successful_retention)
                              (now - permanently_failed_retention) j \<and> \<not> locked (job_id j))
                (t_job d)));
            doomed = (\<lambda>j. job_id j \<in> set (map job_id candidates));
            deleted = filter doomed (t_job d)
        in Inr (d\<lparr>t_job := tbl_delete doomed (t_job d)\<rparr>,
                \<lparr> jco_successful = rows_affected (\<lambda>j. job_permanently_failed_at j = None) deleted,
                  jco_permanently_failed =
                    rows_affected (\<lambda>j. job_permanently_failed_at j \<noteq> None) deleted \<rparr>))"

subsection \<open>Administrator view\<close>

record admin_job_summary =
  ajs_due :: nat
  ajs_in_progress :: nat
  ajs_scheduled_retries :: nat
  ajs_permanently_failed :: nat
  ajs_oldest_due_at :: "instant option"

definition summary_due :: "instant \<Rightarrow> job_row \<Rightarrow> bool" where
  "summary_due pg_now j \<longleftrightarrow>
     job_completed_at j = None \<and> job_locked_at j = None \<and> job_run_after j \<le> pg_now"

definition admin_job_summary :: "instant \<Rightarrow> db \<Rightarrow> admin_job_summary" where
  "admin_job_summary pg_now d =
     \<lparr> ajs_due = rows_affected (summary_due pg_now) (t_job d),
       ajs_in_progress =
         rows_affected (\<lambda>j. job_completed_at j = None \<and> job_locked_at j \<noteq> None) (t_job d),
       ajs_scheduled_retries =
         rows_affected (\<lambda>j. job_completed_at j = None \<and> job_locked_at j = None \<and>
                            0 < job_attempts j \<and> pg_now < job_run_after j) (t_job d),
       ajs_permanently_failed =
         rows_affected (\<lambda>j. job_permanently_failed_at j \<noteq> None) (t_job d),
       ajs_oldest_due_at =
         (case map job_run_after (filter (summary_due pg_now) (t_job d)) of
            [] \<Rightarrow> None
          | t # ts \<Rightarrow> Some (fold min ts t)) \<rparr>"

definition https_prefix :: ustring where "https_prefix = utext ''https://''"
definition http_prefix :: ustring where "http_prefix = utext ''http://''"

definition redact_part :: "ustring \<Rightarrow> ustring" where
  "redact_part part =
     (case (case find_sub https_prefix part of
              Some n \<Rightarrow> Some n
            | None \<Rightarrow> find_sub http_prefix part) of
        None \<Rightarrow> part
      | Some start \<Rightarrow> take start part @ utext ''[redacted-url] '')"

definition sanitize_admin_job_error :: "ustring \<Rightarrow> ustring" where
  "sanitize_admin_job_error error =
     take 500 (trim_end (concat (map redact_part (split_inclusive_ws error))))"

record admin_job_diagnostic =
  ajd_id :: uuid
  ajd_kind :: job_kind
  ajd_attempts :: nat
  ajd_run_after :: instant
  ajd_locked_at :: "instant option"
  ajd_last_error :: "ustring option"
  ajd_created_at :: instant
  ajd_completed_at :: "instant option"
  ajd_permanently_failed_at :: "instant option"

definition admin_job_diagnostic_from_row :: "job_row \<Rightarrow> admin_job_diagnostic result" where
  "admin_job_diagnostic_from_row j =
     (case job_kind_from_str (job_kind j) of
        None \<Rightarrow> Inl (Database (RecordNotFound ''job kind''))
      | Some kind \<Rightarrow>
          if job_attempts j < 0
          then Inl (InvalidInput ''stored job attempts must not be negative'')
          else Inr \<lparr> ajd_id = job_id j, ajd_kind = kind, ajd_attempts = nat (job_attempts j),
                     ajd_run_after = job_run_after j, ajd_locked_at = job_locked_at j,
                     ajd_last_error = map_option sanitize_admin_job_error (job_last_error j),
                     ajd_created_at = job_created_at j, ajd_completed_at = job_completed_at j,
                     ajd_permanently_failed_at = job_permanently_failed_at j \<rparr>)"

fun collect_results :: "('e + 'a) list \<Rightarrow> 'e + 'a list" where
  "collect_results [] = Inr []"
| "collect_results (r # rs) =
     bind_res r (\<lambda>x. bind_res (collect_results rs) (\<lambda>xs. Inr (x # xs)))"

definition admin_job_diagnostics ::
  "nat \<Rightarrow> uuid option \<Rightarrow> db \<Rightarrow> admin_job_diagnostic list result" where
  "admin_job_diagnostics limit max_id d =
     collect_results (map admin_job_diagnostic_from_row
       (take (min limit 100) (rev (tbl_order job_id
         (filter (\<lambda>j. (job_completed_at j = None \<or> job_permanently_failed_at j \<noteq> None) \<and>
                      (case max_id of None \<Rightarrow> True | Some m \<Rightarrow> job_id j < m)) (t_job d))))))"

end
