(* ===== verification/Roosty_Job_Queue.thy ===== *)
theory Roosty_Job_Queue
  imports Roosty_Jobs
begin

text \<open>
  What the job queue promises. The queue as a step relation \<open>job_step\<close> over the database
  and the set of claim identities drawn so far (a ghost component: \<open>Uuid::now_v7()\<close> never
  repeats one), its invariant \<open>job_inv\<close>, the interface \<open>lease_queue\<close> with its
  interpretation on these steps, and the abstract life cycle \<open>phase_step\<close> of one job that
  every step refines.
\<close>

subsection \<open>Kinds\<close>

lemma job_kind_iter_complete: "k \<in> set job_kind_iter"
  by (cases k) (simp_all add: job_kind_iter_def)

lemma job_kind_as_str_inj: "job_kind_as_str a = job_kind_as_str b \<Longrightarrow> a = b"
  by (cases a; cases b) simp_all

lemma job_kind_roundtrip [simp]: "job_kind_from_str (job_kind_as_str k) = Some k"
proof -
  obtain k' where k': "job_kind_from_str (job_kind_as_str k) = Some k'"
    using job_kind_iter_complete [of k] find_None_all [of "\<lambda>x. job_kind_as_str x = job_kind_as_str k"]
    unfolding job_kind_from_str_def by (cases "List.find (\<lambda>x. job_kind_as_str x = job_kind_as_str k) job_kind_iter") auto
  then have "job_kind_as_str k' = job_kind_as_str k"
    unfolding job_kind_from_str_def by (auto dest: find_Some_mem)
  then show ?thesis using k' job_kind_as_str_inj by auto
qed

lemma job_kind_from_str_Some: "job_kind_from_str s = Some k \<longleftrightarrow> s = job_kind_as_str k"
  by (auto simp: job_kind_from_str_def dest: find_Some_mem)
     (use job_kind_roundtrip in \<open>simp add: job_kind_from_str_def\<close>)

subsection \<open>Row invariant\<close>

definition job_row_ok :: "job_row \<Rightarrow> bool" where
  "job_row_ok j \<longleftrightarrow>
     (job_claim_id j = None \<longleftrightarrow> job_locked_at j = None) \<and>
     (job_claim_id j = None \<longleftrightarrow> job_locked_by j = None) \<and>
     (job_completed_at j \<noteq> None \<and> job_claim_id j \<noteq> None \<longrightarrow>
        job_kind j = ''account_purge'' \<and> job_last_error j = Some (utext ''cancelled after unsuspend'')) \<and>
     (job_permanently_failed_at j \<noteq> None \<longrightarrow> job_completed_at j \<noteq> None \<and> job_claim_id j = None) \<and>
     0 \<le> job_attempts j"

definition job_inv :: "uuid set \<Rightarrow> db \<Rightarrow> bool" where
  "job_inv used d \<longleftrightarrow>
     tbl_ok job_conflict (t_job d) \<and>
     (\<forall>j \<in> set (t_job d). job_row_ok j) \<and>
     (\<forall>j \<in> set (t_job d). \<forall>c. job_claim_id j = Some c \<longrightarrow> c \<in> used) \<and>
     (\<forall>j \<in> set (t_job d). \<forall>k \<in> set (t_job d).
        job_id j \<noteq> job_id k \<longrightarrow> \<not> sql_eq (job_claim_id j) (job_claim_id k))"

lemma job_inv_empty: "job_inv {} empty_db"
  by (simp add: job_inv_def empty_db_def)

lemma job_inv_mono: "job_inv used d \<Longrightarrow> used \<subseteq> used' \<Longrightarrow> job_inv used' d"
  unfolding job_inv_def by blast

lemma job_invD:
  assumes "job_inv used d"
  shows "tbl_ok job_conflict (t_job d)"
    and "j \<in> set (t_job d) \<Longrightarrow> job_row_ok j"
    and "j \<in> set (t_job d) \<Longrightarrow> job_claim_id j = Some c \<Longrightarrow> c \<in> used"
    and "j \<in> set (t_job d) \<Longrightarrow> k \<in> set (t_job d) \<Longrightarrow> job_claim_id j = Some c \<Longrightarrow>
           job_claim_id k = Some c \<Longrightarrow> job_id j = job_id k"
  using assms unfolding job_inv_def sql_eq_iff by blast+

lemma job_conflict_update:
  assumes "\<And>j. job_id (f j) = job_id j"
    and "\<And>j. job_active_key (f j) = None \<or> job_active_key (f j) = job_active_key j"
    and "tbl_ok job_conflict t"
  shows "tbl_ok job_conflict (tbl_update p f t)"
proof (rule job_tbl.ok_update [OF assms(3)])
  fix a b
  assume "p a" "job_conflict (f a) (if p b then f b else b)"
  moreover have "job_active_key (f a) = None \<or> job_active_key (f a) = job_active_key a"
    and "job_active_key (f b) = None \<or> job_active_key (f b) = job_active_key b"
    by (rule assms(2))+
  ultimately show "job_conflict a b"
    by (auto simp: job_conflict_def job_dedup_conflict_def assms(1) split: if_splits)
qed

text \<open>Any statement that changes rows without handing out a claim keeps the invariant.\<close>

lemma job_inv_update:
  assumes "job_inv used d"
    and "\<And>j. job_id (f j) = job_id j"
    and "\<And>j. job_active_key (f j) = None \<or> job_active_key (f j) = job_active_key j"
    and "\<And>j. j \<in> set (t_job d) \<Longrightarrow> p j \<Longrightarrow> job_row_ok (f j)"
    and "\<And>j. job_claim_id (f j) = None \<or> job_claim_id (f j) = job_claim_id j"
  shows "job_inv used (d\<lparr>t_job := tbl_update p f (t_job d)\<rparr>)"
proof -
  have ok: "tbl_ok job_conflict (tbl_update p f (t_job d))"
    using assms(1-3) by (auto simp: job_inv_def intro: job_conflict_update)
  have from_old: "\<exists>k \<in> set (t_job d). job_id k = job_id j \<and>
      (job_claim_id j = None \<or> job_claim_id j = job_claim_id k)"
    if j: "j \<in> set (tbl_update p f (t_job d))" for j
  proof -
    obtain k where "k \<in> set (t_job d)" and "j = k \<or> j = f k"
      using j by (auto simp: set_tbl_update)
    then show ?thesis using assms(2) [of k] assms(5) [of k] by auto
  qed
  have "\<not> sql_eq (job_claim_id j) (job_claim_id k)"
    if jk: "j \<in> set (tbl_update p f (t_job d))" "k \<in> set (tbl_update p f (t_job d))"
      "job_id j \<noteq> job_id k" for j k
  proof -
    obtain j' k' where "j' \<in> set (t_job d)" "k' \<in> set (t_job d)"
      and id: "job_id j' = job_id j" "job_id k' = job_id k"
      and cl: "job_claim_id j = None \<or> job_claim_id j = job_claim_id j'"
        "job_claim_id k = None \<or> job_claim_id k = job_claim_id k'"
      using from_old [OF jk(1)] from_old [OF jk(2)] by blast
    then have "\<not> sql_eq (job_claim_id j') (job_claim_id k')"
      using assms(1) jk(3) unfolding job_inv_def by metis
    then show ?thesis using cl by auto
  qed
  moreover have "c \<in> used" if "j \<in> set (tbl_update p f (t_job d))" "job_claim_id j = Some c" for j c
    using from_old [OF that(1)] that(2) assms(1) by (auto simp: job_inv_def)
  moreover have "job_row_ok j" if "j \<in> set (tbl_update p f (t_job d))" for j
    using that assms(1,4) by (auto simp: job_inv_def set_tbl_update)
  ultimately show ?thesis using ok unfolding job_inv_def by (simp add: Ball_def)
qed

subsection \<open>Enqueueing\<close>

lemma new_job_row_ok [simp]: "job_row_ok (new_job_row i n nj)"
  by (simp add: job_row_ok_def new_job_row_def)

lemma new_job_row_simps [simp]:
  "job_id (new_job_row i n nj) = i"
  "job_claim_id (new_job_row i n nj) = None"
  "job_completed_at (new_job_row i n nj) = None"
  "job_active_key (new_job_row i n nj) =
     map_option (\<lambda>k. (job_kind_as_str (nj_kind nj), k)) (nj_deduplication_key nj)"
  by (simp_all add: new_job_row_def job_active_key_def split: option.split)

lemma job_dedup_same_key:
  "job_dedup_conflict (new_job_row i n nj) j \<Longrightarrow>
     job_deduplication_key j = nj_deduplication_key nj \<and> job_kind j = job_kind_as_str (nj_kind nj)
     \<and> job_completed_at j = None \<and> nj_deduplication_key nj \<noteq> None"
  by (cases "job_deduplication_key j"; cases "job_completed_at j"; cases "nj_deduplication_key nj")
     (simp_all add: job_dedup_conflict_def job_active_key_def new_job_row_def)

text \<open>
  The conflict action writes the key the row already has, so a reused job is unchanged.
\<close>

lemma enqueue_cases:
  assumes "enqueue_job_on_connection i n nj d = Inr (d', returned)"
  shows "(\<exists>j \<in> set (t_job d). job_dedup_conflict (new_job_row i n nj) j \<and> returned = job_id j) \<and> d' = d
       \<or> (\<forall>j \<in> set (t_job d). \<not> job_conflict (new_job_row i n nj) j) \<and> returned = i \<and>
         d' = d\<lparr>t_job := t_job d @ [new_job_row i n nj]\<rparr>"
proof (cases "list_ex (job_dedup_conflict (new_job_row i n nj)) (t_job d)")
  case True
  let ?f = "\<lambda>j. j\<lparr>job_deduplication_key := nj_deduplication_key nj\<rparr>"
  have same: "?f j = j" if "job_dedup_conflict (new_job_row i n nj) j" for j
    using job_dedup_same_key [OF that] by (cases j) simp
  then have "tbl_update (job_dedup_conflict (new_job_row i n nj)) ?f (t_job d) = t_job d"
    by (auto simp: tbl_update_def intro: map_idI)
  moreover obtain j where "List.find (job_dedup_conflict (new_job_row i n nj)) (t_job d) = Some j"
    using True by (cases "List.find (job_dedup_conflict (new_job_row i n nj)) (t_job d)")
      (auto simp: find_None_all list_ex_iff)
  ultimately show ?thesis
    using assms True
    by (auto simp: enqueue_job_on_connection_def tbl_upsert_def Let_def
        dest: find_Some_mem split: if_splits)
next
  case False
  then have "List.find (job_dedup_conflict (new_job_row i n nj)) (t_job d) = None"
    by (auto simp: find_None_all list_ex_iff)
  then show ?thesis
    using assms False
    by (auto simp: enqueue_job_on_connection_def tbl_upsert_def tbl_insert_def Let_def list_ex_iff
        split: if_splits)
qed

lemma enqueue_inv:
  assumes "enqueue_job_on_connection i n nj d = Inr (d', returned)" and "job_inv used d"
  shows "job_inv used d'"
  using enqueue_cases [OF assms(1)]
proof (elim disjE conjE)
  assume "d' = d"
  then show ?thesis using assms(2) by simp
next
  assume "\<forall>j \<in> set (t_job d). \<not> job_conflict (new_job_row i n nj) j"
  then have "\<forall>j \<in> set (t_job d). \<not> job_conflict j (new_job_row i n nj)"
    using job_tbl.conflict_sym by blast
  moreover assume "d' = d\<lparr>t_job := t_job d @ [new_job_row i n nj]\<rparr>"
  ultimately show ?thesis using assms(2) by (auto simp: job_inv_def tbl_ok_append)
qed

lemma enqueue_frame:
  assumes "enqueue_job_on_connection i n nj d = Inr (d', returned)"
  shows "d' = d\<lparr>t_job := t_job d'\<rparr>" and "set (t_job d) \<subseteq> set (t_job d')"
  using enqueue_cases [OF assms] by auto

subsection \<open>Claiming\<close>

lemma lock_job_simps [simp]:
  "job_id (lock_job n w c j) = job_id j"
  "job_claim_id (lock_job n w c j) = Some c"
  "job_completed_at (lock_job n w c j) = job_completed_at j"
  "job_active_key (lock_job n w c j) = job_active_key j"
  by (cases "job_deduplication_key j"; cases "job_completed_at j";
      simp add: lock_job_def job_active_key_def)+

lemma claim_first_inv:
  assumes "claim_first cands n w c d = (d', r)" and "job_inv used d" and "c \<notin> used"
    and "set cands \<subseteq> {j \<in> set (t_job d). job_completed_at j = None}"
  shows "job_inv (insert c used) d'"
proof (cases cands)
  case Nil
  then show ?thesis using assms job_inv_mono [OF assms(2)] by (auto simp: claim_first_def)
next
  case (Cons j js)
  let ?p = "\<lambda>r. job_id r = job_id j"
  let ?t = "tbl_update ?p (lock_job n w c) (t_job d)"
  have j: "j \<in> set (t_job d)" "job_completed_at j = None" using assms(4) Cons by auto
  have d': "d' = d\<lparr>t_job := ?t\<rparr>" using assms(1) Cons by (auto simp: claim_first_def)
  have only: "r = j" if "r \<in> set (t_job d)" "?p r" for r
    using job_tbl.key_unique [OF _ that(1) j(1)] that(2) assms(2) by (simp add: job_inv_def)
  then have mem: "set ?t = {r \<in> set (t_job d). \<not> ?p r} \<union> {lock_job n w c j}"
    using j(1) by (auto simp: set_tbl_update)
  have "tbl_ok job_conflict ?t"
    using assms(2) by (intro job_conflict_update) (auto simp: job_inv_def)
  moreover have "\<forall>r \<in> set ?t. job_row_ok r"
    using assms(2) j by (auto simp: mem job_inv_def job_row_ok_def lock_job_def)
  moreover have "\<forall>r \<in> set ?t. \<forall>c'. job_claim_id r = Some c' \<longrightarrow> c' \<in> insert c used"
    using assms(2) by (auto simp: mem job_inv_def lock_job_def)
  moreover have "\<not> sql_eq (job_claim_id r) (job_claim_id s)"
    if rs: "r \<in> set ?t" "s \<in> set ?t" "job_id r \<noteq> job_id s" for r s
  proof -
    have fresh: "job_claim_id k \<noteq> Some c" if "k \<in> set (t_job d)" for k
      using assms(2,3) that by (auto simp: job_inv_def)
    consider "r = lock_job n w c j" "s \<in> set (t_job d)"
      | "r \<in> set (t_job d)" "s = lock_job n w c j" | "r \<in> set (t_job d)" "s \<in> set (t_job d)"
      using rs mem by auto
    then show ?thesis
    proof cases
      case 3
      then show ?thesis using rs(3) assms(2) unfolding job_inv_def by blast
    qed (use fresh in \<open>auto simp: sql_eq_iff\<close>)
  qed
  ultimately show ?thesis unfolding d' job_inv_def by (simp add: Ball_def)
qed

lemma claim_candidates_due:
  "j \<in> set (claim_candidates locked n e d) \<longleftrightarrow>
     j \<in> set (t_job d) \<and> job_due n e j \<and>
     job_kind j \<in> set (map job_kind_as_str job_kind_iter) \<and> \<not> locked (job_id j)"
  by (auto simp: claim_candidates_def)

lemma claim_due_job_inv:
  assumes "claim_due_job locked now n c w ttl d = (d', r)" and "job_inv used d" and "c \<notin> used"
  shows "job_inv (insert c used) d'"
proof (rule claim_first_inv [OF _ assms(2,3)])
  show "claim_first (claim_candidates locked n (now - ttl) d) n w c d = (d', r)"
    using assms(1) by (simp add: claim_due_job_def)
qed (auto simp: claim_candidates_due job_due_def)

lemma claim_due_job_by_key_inv:
  assumes "claim_due_job_by_key locked now n c w k key ttl d = (d', r)"
    and "job_inv used d" and "c \<notin> used"
  shows "job_inv (insert c used) d'"
  by (rule claim_first_inv [OF assms(1) [unfolded claim_due_job_by_key_def] assms(2,3)])
     (auto simp: job_due_def)

subsection \<open>Outcomes\<close>

lemma release_simps [simp]:
  "job_id (release j) = job_id j" "job_claim_id (release j) = None"
  "job_locked_at (release j) = None" "job_locked_by (release j) = None"
  "job_completed_at (release j) = job_completed_at j"
  "job_permanently_failed_at (release j) = job_permanently_failed_at j"
  "job_attempts (release j) = job_attempts j" "job_active_key (release j) = job_active_key j"
  "job_run_after (release j) = job_run_after j" "job_last_error (release j) = job_last_error j"
  by (cases "job_deduplication_key j"; cases "job_completed_at j";
      simp add: release_def job_active_key_def)+

lemma active_key_completed [simp]:
  "job_completed_at j = Some t \<Longrightarrow> job_active_key j = None"
  by (simp add: job_active_key_def split: option.split)

lemma active_key_frame [simp]:
  "job_active_key (j\<lparr>job_attempts := a, job_last_error := e, job_run_after := r\<rparr>) = job_active_key j"
  by (cases "job_deduplication_key j"; cases "job_completed_at j"; simp add: job_active_key_def)

lemma holds_lease_claim: "holds_lease c j \<Longrightarrow> job_claim_id j = Some (cj_claim_id c)"
  by (simp add: holds_lease_def)

lemma mark_job_completed_inv:
  assumes "job_inv used d"
  shows "job_inv used (fst (mark_job_completed n c d))"
  unfolding mark_job_completed_def fst_conv
  by (rule job_inv_update [OF assms]) (use assms in \<open>auto simp: job_row_ok_def job_inv_def\<close>)

lemma mark_job_permanently_failed_inv:
  assumes "job_inv used d"
  shows "job_inv used (fst (mark_job_permanently_failed n c e d))"
  unfolding mark_job_permanently_failed_def fst_conv
  by (rule job_inv_update [OF assms]) (use assms in \<open>auto simp: job_row_ok_def job_inv_def\<close>)

lemma mark_job_failed_inv:
  assumes "job_inv used d" and "mark_job_failed now c e d = Inr (d', r)"
  shows "job_inv used d'"
proof -
  have d': "d' = d\<lparr>t_job := tbl_update (holds_lease c)
      (\<lambda>j. release (j\<lparr>job_attempts := job_attempts j + 1, job_last_error := Some e,
             job_run_after := next_retry_at now (cj_attempts c)\<rparr>)) (t_job d)\<rparr>"
    using assms(2) by (auto simp: mark_job_failed_def Let_def split: if_splits)
  show ?thesis
    unfolding d'
    by (rule job_inv_update [OF assms(1)])
       (use assms(1) in \<open>auto simp: job_row_ok_def job_inv_def holds_lease_def\<close>)
qed

subsection \<open>Cleanup\<close>

lemma job_inv_delete:
  "job_inv used d \<Longrightarrow> job_inv used (d\<lparr>t_job := tbl_delete p (t_job d)\<rparr>)"
  by (auto simp: job_inv_def intro: job_tbl.ok_delete)

lemma cleanup_deletes:
  assumes "cleanup_expired_jobs locked now sr fr b d = Inr (d', out)"
  shows "\<exists>p. d' = d\<lparr>t_job := tbl_delete p (t_job d)\<rparr> \<and>
     (\<forall>j \<in> set (t_job d). tbl_ok job_conflict (t_job d) \<longrightarrow> p j \<longrightarrow>
        retention_elapsed (now - sr) (now - fr) j)"
proof -
  let ?cands = "take b (tbl_order (\<lambda>j. (finished_at j, job_id j))
      (filter (\<lambda>j. retention_elapsed (now - sr) (now - fr) j \<and> \<not> locked (job_id j)) (t_job d)))"
  let ?p = "\<lambda>j. job_id j \<in> set (map job_id ?cands)"
  have "d' = d\<lparr>t_job := tbl_delete ?p (t_job d)\<rparr>"
    using assms by (auto simp: cleanup_expired_jobs_def Let_def split: if_splits)
  moreover have "retention_elapsed (now - sr) (now - fr) j"
    if j: "j \<in> set (t_job d)" "tbl_ok job_conflict (t_job d)" "?p j" for j
  proof -
    obtain k where "k \<in> set ?cands" "job_id k = job_id j" using j(3) by auto
    then have "k \<in> set (t_job d)" "retention_elapsed (now - sr) (now - fr) k"
      by (auto dest!: in_set_takeD)
    then show ?thesis
      using job_tbl.key_unique [OF j(2) \<open>k \<in> set (t_job d)\<close> j(1)] \<open>job_id k = job_id j\<close> by simp
  qed
  ultimately show ?thesis by blast
qed

lemma cleanup_inv:
  "cleanup_expired_jobs locked now sr fr b d = Inr (d', out) \<Longrightarrow> job_inv used d \<Longrightarrow> job_inv used d'"
  using cleanup_deletes job_inv_delete by blast


subsection \<open>Other writers\<close>

lemma retire_job_simps [simp]:
  "job_id (retire_job now err j) = job_id j" "job_claim_id (retire_job now err j) = None"
  "job_completed_at (retire_job now err j) = Some now" "job_active_key (retire_job now err j) = None"
  "job_permanently_failed_at (retire_job now err j) = job_permanently_failed_at j"
  by (simp_all add: retire_job_def)

lemma retire_jobs_inv: "job_inv used d \<Longrightarrow> job_inv used (retire_jobs now err p d)"
  unfolding retire_jobs_def
  by (rule job_inv_update) (auto simp: job_inv_def job_row_ok_def retire_job_def)

lemma active_key_run_after [simp]: "job_active_key (j\<lparr>job_run_after := r\<rparr>) = job_active_key j"
  by (cases "job_deduplication_key j"; cases "job_completed_at j"; simp add: job_active_key_def)

lemma reschedule_jobs_inv: "job_inv used d \<Longrightarrow> job_inv used (reschedule_jobs ra p d)"
  unfolding reschedule_jobs_def
  by (rule job_inv_update) (auto simp: job_inv_def job_row_ok_def)

lemma cancel_account_purge_inv: "job_inv used d \<Longrightarrow> job_inv used (cancel_account_purge s now d)"
  unfolding cancel_account_purge_def
  by (rule job_inv_update) (auto simp: job_inv_def job_row_ok_def)

subsection \<open>The queue as a step relation\<close>

text \<open>
  Every operation of the queue, the other writers of its table, and any operation that leaves
  the table alone.
\<close>

inductive job_step :: "db \<times> uuid set \<Rightarrow> db \<times> uuid set \<Rightarrow> bool" where
  enqueue: "enqueue_job_on_connection i n nj d = Inr (d', returned) \<Longrightarrow> job_step (d, u) (d', u)"
| claim: "c \<notin> u \<Longrightarrow> claim_due_job locked now n c w ttl d = (d', r) \<Longrightarrow>
    job_step (d, u) (d', insert c u)"
| claim_by_key: "c \<notin> u \<Longrightarrow> claim_due_job_by_key locked now n c w k key ttl d = (d', r) \<Longrightarrow>
    job_step (d, u) (d', insert c u)"
| complete: "mark_job_completed n cj d = (d', accepted) \<Longrightarrow> job_step (d, u) (d', u)"
| fail: "mark_job_failed now cj e d = Inr (d', retry) \<Longrightarrow> job_step (d, u) (d', u)"
| permanently_fail: "mark_job_permanently_failed n cj e d = (d', accepted) \<Longrightarrow>
    job_step (d, u) (d', u)"
| cleanup: "cleanup_expired_jobs locked now sr fr b d = Inr (d', out) \<Longrightarrow> job_step (d, u) (d', u)"
| retire: "job_step (d, u) (retire_jobs now err p d, u)"
| reschedule: "job_step (d, u) (reschedule_jobs ra p d, u)"
| cancel_purge: "job_step (d, u) (cancel_account_purge s now d, u)"
| elsewhere: "t_job d' = t_job d \<Longrightarrow> job_step (d, u) (d', u)"

definition job_init :: "db \<times> uuid set \<Rightarrow> bool" where
  "job_init s \<longleftrightarrow> t_job (fst s) = [] \<and> snd s = {}"

definition job_sys_inv :: "db \<times> uuid set \<Rightarrow> bool" where
  "job_sys_inv s \<longleftrightarrow> job_inv (snd s) (fst s)"

lemma job_step_inv: "job_step s t \<Longrightarrow> job_sys_inv s \<Longrightarrow> job_sys_inv t"
proof (induction rule: job_step.induct)
  case (complete n cj d d' accepted u)
  then show ?case using mark_job_completed_inv [of u d n cj] by (simp add: job_sys_inv_def)
next
  case (permanently_fail n cj e d d' accepted u)
  then show ?case
    using mark_job_permanently_failed_inv [of u d n cj e] by (simp add: job_sys_inv_def)
next
  case (elsewhere d' d u)
  then show ?case by (simp add: job_sys_inv_def job_inv_def)
qed (auto simp: job_sys_inv_def
      intro: enqueue_inv claim_due_job_inv claim_due_job_by_key_inv mark_job_failed_inv cleanup_inv
        retire_jobs_inv reschedule_jobs_inv cancel_account_purge_inv)

interpretation job_sys: invariant_system job_init job_step job_sys_inv
proof unfold_locales
  show "job_sys_inv s" if "job_init s" for s
    using that by (simp add: job_init_def job_sys_inv_def job_inv_def)
qed (rule job_step_inv)

subsection \<open>Leases\<close>

text \<open>
  The contract a worker relies on: a claim that has been lost never comes back, so no outcome
  reported for it later takes effect.
\<close>

locale lease_queue =
  fixes inv :: "'s \<Rightarrow> bool" and step :: "'s \<Rightarrow> 's \<Rightarrow> bool"
    and issued :: "'c \<Rightarrow> 's \<Rightarrow> bool" and held :: "'c \<Rightarrow> 's \<Rightarrow> bool"
  assumes inv_kept: "step s t \<Longrightarrow> inv s \<Longrightarrow> inv t"
    and issued_kept: "step s t \<Longrightarrow> issued c s \<Longrightarrow> issued c t"
    and lost_kept: "step s t \<Longrightarrow> inv s \<Longrightarrow> issued c s \<Longrightarrow> \<not> held c s \<Longrightarrow> \<not> held c t"
begin

lemma lost_forever:
  assumes "step\<^sup>*\<^sup>* s t" and "inv s" and "issued c s" and "\<not> held c s"
  shows "\<not> held c t"
proof -
  from assms have "inv t \<and> issued c t \<and> \<not> held c t"
    by (induction rule: rtranclp_induct) (auto intro: inv_kept issued_kept dest: lost_kept)
  then show ?thesis by blast
qed

end

definition claim_issued :: "uuid \<Rightarrow> db \<times> uuid set \<Rightarrow> bool" where
  "claim_issued c s \<longleftrightarrow> c \<in> snd s"

definition claim_held :: "uuid \<Rightarrow> db \<times> uuid set \<Rightarrow> bool" where
  "claim_held c s \<longleftrightarrow> (\<exists>j \<in> set (t_job (fst s)). job_claim_id j = Some c)"

lemma claim_first_claims:
  assumes "claim_first cands n w c0 d = (d', r)"
    and "j \<in> set (t_job d')" and "job_claim_id j = Some c"
  shows "c = c0 \<or> (\<exists>k \<in> set (t_job d). job_claim_id k = Some c)"
  using assms by (cases cands) (auto simp: claim_first_def set_tbl_update)

lemma job_step_claims:
  assumes "job_step s t" and "c \<in> snd s"
    and "j \<in> set (t_job (fst t))" and "job_claim_id j = Some c"
  shows "\<exists>k \<in> set (t_job (fst s)). job_claim_id k = Some c"
  using assms
proof (induction rule: job_step.induct)
  case (enqueue i n nj d d' returned u)
  then show ?case using enqueue_cases [OF enqueue(1)] by auto
next
  case (claim c0 u locked now n w ttl d d' r)
  then show ?case
    using claim_first_claims [OF claim(2) [unfolded claim_due_job_def]] by auto
next
  case (claim_by_key c0 u locked now n w k key ttl d d' r)
  then show ?case
    using claim_first_claims [OF claim_by_key(2) [unfolded claim_due_job_by_key_def]] by auto
next
  case (complete n cj d d' accepted u)
  then show ?case by (auto simp: mark_job_completed_def set_tbl_update)
next
  case (fail now cj e d d' retry u)
  then show ?case by (auto simp: mark_job_failed_def Let_def set_tbl_update split: if_splits)
next
  case (permanently_fail n cj e d d' accepted u)
  then show ?case by (auto simp: mark_job_permanently_failed_def set_tbl_update)
next
  case (cleanup locked now sr fr b d d' out u)
  then show ?case using cleanup_deletes [OF cleanup(1)] by auto
next
  case (retire d u now err p)
  then show ?case by (auto simp: retire_jobs_def set_tbl_update)
next
  case (reschedule d u ra p)
  then show ?case by (auto simp: reschedule_jobs_def set_tbl_update)
next
  case (cancel_purge d u s now)
  then show ?case by (auto simp: cancel_account_purge_def set_tbl_update)
qed auto

lemma job_step_used: "job_step s t \<Longrightarrow> snd s \<subseteq> snd t"
  by (induction rule: job_step.induct) auto

interpretation job_leases: lease_queue job_sys_inv job_step claim_issued claim_held
proof unfold_locales
  show "claim_issued c t" if "job_step s t" "claim_issued c s" for s t c
    using job_step_used [OF that(1)] that(2) by (auto simp: claim_issued_def)
  show "\<not> claim_held c t"
    if "job_step s t" "claim_issued c s" "\<not> claim_held c s" for s t c
    using that job_step_claims [of s t c] by (auto simp: claim_issued_def claim_held_def)
qed (rule job_step_inv)

text \<open>An outcome reported without the lease changes nothing.\<close>

lemma stale_outcomes:
  assumes "\<not> claim_held (cj_claim_id c) (d, u)"
  shows "mark_job_completed n c d = (d, False)"
    and "mark_job_failed now c e d = Inr (d, None)"
    and "mark_job_permanently_failed n c e d = (d, False)"
proof -
  have none: "\<not> holds_lease c j" if "j \<in> set (t_job d)" for j
    using assms that by (auto simp: claim_held_def holds_lease_def)
  then have "rows_affected (holds_lease c) (t_job d) = 0"
    by (simp add: rows_affected_zero)
  moreover have "\<not> list_ex (\<lambda>j. holds_lease c j \<and> job_attempts j = i32_max) (t_job d)"
    using none by (auto simp: list_ex_iff)
  ultimately show "mark_job_completed n c d = (d, False)"
    and "mark_job_failed now c e d = Inr (d, None)"
    and "mark_job_permanently_failed n c e d = (d, False)"
    by (simp_all add: mark_job_completed_def mark_job_failed_def mark_job_permanently_failed_def
        tbl_update_id none Let_def)
qed

lemma stale_outcomes_forever:
  assumes "reachable job_init job_step (d, u)" and "cj_claim_id c \<in> u"
    and "\<not> claim_held (cj_claim_id c) (d, u)" and "job_step\<^sup>*\<^sup>* (d, u) (d', u')"
  shows "mark_job_completed n c d' = (d', False)"
    and "mark_job_failed now c e d' = Inr (d', None)"
    and "mark_job_permanently_failed n c e d' = (d', False)"
proof -
  have "job_sys_inv (d, u)" by (rule job_sys.reachable_inv [OF assms(1)])
  then have "\<not> claim_held (cj_claim_id c) (d', u')"
    using job_leases.lost_forever [OF assms(4) _ _ assms(3)] assms(2)
    by (simp add: claim_issued_def)
  then show "mark_job_completed n c d' = (d', False)"
    and "mark_job_failed now c e d' = Inr (d', None)"
    and "mark_job_permanently_failed n c e d' = (d', False)"
    by (rule stale_outcomes)+
qed

text \<open>A row holding the lease is the only one carrying its claim identity.\<close>

lemma claim_row_unique:
  assumes "job_inv u d" and "j \<in> set (t_job d)" and "k \<in> set (t_job d)"
    and "job_claim_id j = Some c" and "job_claim_id k = Some c"
  shows "j = k"
  using job_invD(4) [OF assms] job_tbl.key_unique [OF job_invD(1) [OF assms(1)] assms(2,3)] by blast

lemma settled_not_held:
  assumes "job_inv u d" and "rows_affected (holds_lease c) (t_job d) = 1"
    and "\<And>j. job_claim_id (f j) = None"
  shows "\<not> claim_held (cj_claim_id c) (d\<lparr>t_job := tbl_update (holds_lease c) f (t_job d)\<rparr>, u)"
proof -
  obtain j where j: "j \<in> set (t_job d)" "holds_lease c j"
    using assms(2) rows_affected_pos [of "holds_lease c" "t_job d"] by auto
  have "holds_lease c k" if "k \<in> set (t_job d)" "job_claim_id k = Some (cj_claim_id c)" for k
    using claim_row_unique [OF assms(1) that(1) j(1) that(2)] j(2) by (simp add: holds_lease_def)
  then show ?thesis using assms(3) by (auto simp: claim_held_def set_tbl_update)
qed

text \<open>Whichever outcome is accepted, the lease is gone afterwards.\<close>

lemma accepted_outcome_not_held:
  assumes "job_inv u d"
  shows "mark_job_completed n c d = (d', True) \<Longrightarrow> \<not> claim_held (cj_claim_id c) (d', u)"
    and "mark_job_failed now c e d = Inr (d', Some t) \<Longrightarrow> \<not> claim_held (cj_claim_id c) (d', u)"
    and "mark_job_permanently_failed n c e d = (d', True) \<Longrightarrow>
           \<not> claim_held (cj_claim_id c) (d', u)"
proof -
  note settled = settled_not_held [OF assms]
  show "\<not> claim_held (cj_claim_id c) (d', u)" if "mark_job_completed n c d = (d', True)"
    using that settled [of c "\<lambda>j. release (j\<lparr>job_completed_at := Some n\<rparr>)"]
    by (auto simp: mark_job_completed_def)
  show "\<not> claim_held (cj_claim_id c) (d', u)" if "mark_job_failed now c e d = Inr (d', Some t)"
    using that settled [of c "\<lambda>j. release (j\<lparr>job_attempts := job_attempts j + 1,
        job_last_error := Some e, job_run_after := next_retry_at now (cj_attempts c)\<rparr>)"]
    by (auto simp: mark_job_failed_def Let_def split: if_splits)
  show "\<not> claim_held (cj_claim_id c) (d', u)"
    if "mark_job_permanently_failed n c e d = (d', True)"
    using that settled [of c "\<lambda>j. release (j\<lparr>job_last_error := Some e,
        job_completed_at := Some n, job_permanently_failed_at := Some n\<rparr>)"]
    by (auto simp: mark_job_permanently_failed_def)
qed

lemma accepted_outcome_issued:
  assumes "job_inv u d" and "rows_affected (holds_lease c) (t_job d) = 1"
  shows "cj_claim_id c \<in> u"
  using assms(2) rows_affected_pos [of "holds_lease c" "t_job d"] job_invD(3) [OF assms(1)]
  by (auto simp: holds_lease_def)


subsection \<open>What a claim returns\<close>

definition known_kind :: "job_row \<Rightarrow> bool" where
  "known_kind j \<longleftrightarrow> (\<exists>k. job_kind j = job_kind_as_str k)"

lemma known_kind_iff: "job_kind j \<in> job_kind_as_str ` set job_kind_iter \<longleftrightarrow> known_kind j"
  using job_kind_iter_complete by (auto simp: known_kind_def)

definition claim_of :: "uuid \<Rightarrow> job_row \<Rightarrow> claimed_job" where
  "claim_of c j =
     \<lparr> cj_id = job_id j, cj_claim_id = c, cj_kind = the (job_kind_from_str (job_kind j)),
       cj_payload = job_payload j, cj_attempts = nat (job_attempts j),
       cj_created_at = job_created_at j \<rparr>"

lemma claim_of_simps [simp]: "cj_id (claim_of c j) = job_id j" "cj_claim_id (claim_of c j) = c"
  by (simp_all add: claim_of_def)

lemma claimed_job_from_row_ok:
  "job_row_ok j \<Longrightarrow> known_kind j \<Longrightarrow> claimed_job_from_row c j = Inr (claim_of c j)"
  by (auto simp: claimed_job_from_row_def claim_of_def known_kind_def job_row_ok_def)

lemma hd_sort_key_le:
  assumes "sort_key k xs = y # ys" and "x \<in> set xs"
  shows "k y \<le> k x"
proof -
  have "sorted (map k (y # ys))" using assms(1) sorted_sort_key [of k xs] by simp
  moreover have "x \<in> set (y # ys)" using assms by (metis set_sort)
  ultimately show ?thesis by auto
qed

lemma claim_due_job_cases:
  assumes "job_inv u d" and "claim_due_job locked now n c w ttl d = (d', r)"
  shows "r = Inr None \<and> d' = d \<and>
           (\<forall>j \<in> set (t_job d). \<not> (job_due n (now - ttl) j \<and> known_kind j \<and> \<not> locked (job_id j)))
       \<or> (\<exists>j \<in> set (t_job d). job_due n (now - ttl) j \<and> known_kind j \<and> \<not> locked (job_id j) \<and>
           r = Inr (Some (claim_of c j)) \<and>
           d' = d\<lparr>t_job := tbl_update (\<lambda>k. k = j) (lock_job n w c) (t_job d)\<rparr> \<and>
           (\<forall>k \<in> set (t_job d). job_due n (now - ttl) k \<and> known_kind k \<and> \<not> locked (job_id k) \<longrightarrow>
              (job_run_after j, job_created_at j) \<le> (job_run_after k, job_created_at k)))"
proof (cases "claim_candidates locked n (now - ttl) d")
  case Nil
  then have "\<not> (job_due n (now - ttl) j \<and> known_kind j \<and> \<not> locked (job_id j))"
    if "j \<in> set (t_job d)" for j
    using claim_candidates_due [of j locked n "now - ttl" d] that by (auto simp: known_kind_iff)
  then show ?thesis using assms(2) Nil by (auto simp: claim_due_job_def claim_first_def)
next
  case (Cons j js)
  then have j: "j \<in> set (t_job d)" "job_due n (now - ttl) j" "known_kind j" "\<not> locked (job_id j)"
    using claim_candidates_due [of j locked n "now - ttl" d] by (auto simp: known_kind_iff)
  have "(job_id k = job_id j) = (k = j)" if "k \<in> set (t_job d)" for k
    using job_tbl.key_unique [OF job_invD(1) [OF assms(1)] that j(1)] by auto
  then have "tbl_update (\<lambda>k. job_id k = job_id j) f (t_job d) = tbl_update (\<lambda>k. k = j) f (t_job d)" for f
    by (auto simp: tbl_update_def)
  moreover have "(job_run_after j, job_created_at j) \<le> (job_run_after k, job_created_at k)"
    if "k \<in> set (t_job d)" "job_due n (now - ttl) k" "known_kind k" "\<not> locked (job_id k)" for k
    using that hd_sort_key_le [of "\<lambda>j. (job_run_after j, job_created_at j)" _ j js k] Cons
    by (auto simp: claim_candidates_def tbl_order_def known_kind_iff)
  ultimately show ?thesis
    using assms(2) Cons j claimed_job_from_row_ok [OF job_invD(2) [OF assms(1) j(1)] j(3)]
    by (intro disjI2 bexI [OF _ j(1)]) (auto simp: claim_due_job_def claim_first_def)
qed

lemma locked_row_after_claim:
  assumes "job_inv u d" and "claim_due_job locked now n c w ttl d = (d', Inr (Some cj))"
    and "k \<in> set (t_job d')" and "job_id k = cj_id cj"
  shows "job_locked_at k = Some n \<and> job_claim_id k = Some (cj_claim_id cj)"
proof -
  obtain j where j: "j \<in> set (t_job d)" "cj = claim_of c j"
      "d' = d\<lparr>t_job := tbl_update (\<lambda>k. k = j) (lock_job n w c) (t_job d)\<rparr>"
    using claim_due_job_cases [OF assms(1,2)] by auto
  have "k = lock_job n w c j"
    using assms(3,4) j job_tbl.key_unique [OF job_invD(1) [OF assms(1)] _ j(1)]
    by (auto simp: set_tbl_update)
  then show ?thesis using j(2) by (simp add: lock_job_def)
qed

lemma claim_first_spares:
  assumes "job_inv u d" and "claim_first cands n w c d = (d', r)"
    and "set cands \<subseteq> set (t_job d)" and "j \<notin> set cands" and "j \<in> set (t_job d)"
  shows "j \<in> set (t_job d') \<and> (\<forall>cj. r = Inr (Some cj) \<longrightarrow> cj_id cj \<noteq> job_id j)"
proof (cases cands)
  case Nil
  then show ?thesis using assms by (auto simp: claim_first_def)
next
  case (Cons k ks)
  then have "job_id j \<noteq> job_id k"
    using job_tbl.key_unique [OF job_invD(1) [OF assms(1)] assms(5), of k] assms(3,4) by auto
  then show ?thesis
    using assms(2,5) Cons
    by (auto simp: claim_first_def set_tbl_update claimed_job_from_row_def bind_res_Inr_iff
        split: option.splits if_splits)
qed

lemma taken_over_not_held:
  assumes "job_inv u d" and "claim_due_job locked now n c' w ttl d = (d1, Inr (Some cj))"
    and "cj_claim_id c \<in> u" and "c' \<notin> u" and "j \<in> set (t_job d)" and "holds_lease c j"
    and "cj_id cj = cj_id c"
  shows "\<not> claim_held (cj_claim_id c) (d1, u')"
proof -
  obtain k where k: "k \<in> set (t_job d)" "cj = claim_of c' k"
      "d1 = d\<lparr>t_job := tbl_update (\<lambda>i. i = k) (lock_job n w c') (t_job d)\<rparr>"
    using claim_due_job_cases [OF assms(1,2)] by auto
  have "k = j"
    using job_tbl.key_unique [OF job_invD(1) [OF assms(1)] k(1) assms(5)] k(2) assms(6,7)
    by (simp add: holds_lease_def)
  moreover have "i = j" if "i \<in> set (t_job d)" "job_claim_id i = Some (cj_claim_id c)" for i
    using claim_row_unique [OF assms(1) that(1) assms(5) that(2)] assms(6)
    by (simp add: holds_lease_def)
  moreover have "cj_claim_id c \<noteq> c'" using assms(3,4) by auto
  ultimately show ?thesis using k(3) by (auto simp: claim_held_def set_tbl_update)
qed

subsection \<open>The life cycle of a job\<close>

text \<open>
  The phases of a job. \<open>Cancelled c\<close> is a purge that was cancelled while the worker with claim
  \<open>c\<close> had it; the worker's own report is still accepted and settles it.
\<close>

datatype job_phase = Waiting | Leased uuid | Cancelled uuid | Succeeded | Dead

definition job_phase :: "job_row \<Rightarrow> job_phase" where
  "job_phase j =
     (if job_permanently_failed_at j \<noteq> None then Dead
      else if job_completed_at j \<noteq> None
      then (case job_claim_id j of None \<Rightarrow> Succeeded | Some c \<Rightarrow> Cancelled c)
      else (case job_claim_id j of None \<Rightarrow> Waiting | Some c \<Rightarrow> Leased c))"

inductive phase_step :: "job_phase \<Rightarrow> job_phase \<Rightarrow> bool" where
  lease: "phase_step Waiting (Leased c)"
| take_over: "phase_step (Leased c) (Leased c')"
| retry: "phase_step (Leased c) Waiting"
| succeed: "phase_step (Leased c) Succeeded"
| give_up: "phase_step (Leased c) Dead"
| cancel: "phase_step Waiting Succeeded"
| cancel_leased: "phase_step (Leased c) (Cancelled c)"
| settle_cancelled: "phase_step (Cancelled c) Succeeded"
| give_up_cancelled: "phase_step (Cancelled c) Dead"

inductive_simps phase_step_final [simp]: "phase_step Succeeded p" "phase_step Dead p"

text \<open>
  What one operation may do to a stored job: its identity, its kind, its payload and its key
  stay, its phase moves along the life cycle, and a settled job does not change at all.
\<close>

definition job_follows :: "job_row \<Rightarrow> job_row \<Rightarrow> bool" where
  "job_follows j j' \<longleftrightarrow>
     job_id j' = job_id j \<and> job_kind j' = job_kind j \<and> job_payload j' = job_payload j \<and>
     job_deduplication_key j' = job_deduplication_key j \<and> job_created_at j' = job_created_at j \<and>
     phase_step\<^sup>=\<^sup>= (job_phase j) (job_phase j') \<and>
     (job_phase j \<in> {Succeeded, Dead} \<longrightarrow> j' = j)"

lemma job_follows_refl [simp]: "job_follows j j"
  by (simp add: job_follows_def)

lemma release_frame [simp]:
  "job_kind (release j) = job_kind j" "job_payload (release j) = job_payload j"
  "job_deduplication_key (release j) = job_deduplication_key j"
  "job_created_at (release j) = job_created_at j"
  by (simp_all add: release_def)

lemma update_refines:
  assumes "\<And>k. k \<in> set (t_job d) \<Longrightarrow> p k \<Longrightarrow> job_follows k (f k)" and "j \<in> set (t_job d)"
  shows "\<exists>j' \<in> set (tbl_update p f (t_job d)). job_follows j j'"
proof (intro bexI)
  let ?j' = "if p j then f j else j"
  show "?j' \<in> set (tbl_update p f (t_job d))" using assms(2) by (auto simp: tbl_update_def)
  show "job_follows j ?j'" using assms by simp
qed

text \<open>The phases of a job that a worker may claim, and of one a worker reports on.\<close>

lemma open_phase:
  assumes "job_row_ok j" and "job_completed_at j = None"
  shows "job_phase j = (case job_claim_id j of None \<Rightarrow> Waiting | Some c \<Rightarrow> Leased c)"
  using assms by (auto simp: job_phase_def job_row_ok_def)

lemma leased_phase:
  assumes "job_row_ok j" and "holds_lease c j"
  shows "job_phase j = Leased (cj_claim_id c) \<or> job_phase j = Cancelled (cj_claim_id c)"
  using assms by (auto simp: job_phase_def job_row_ok_def holds_lease_def)

lemma due_follows:
  assumes "job_row_ok j" and "job_completed_at j = None"
  shows "job_follows j (lock_job n w c j)"
proof -
  have "job_permanently_failed_at j = None" using assms by (auto simp: job_row_ok_def)
  then show ?thesis
    using assms(2) by (cases "job_claim_id j")
      (auto simp: job_follows_def job_phase_def lock_job_def intro: phase_step.intros)
qed

lemma claim_first_refines:
  assumes "claim_first cands n w c d = (d', r)" and "job_inv u d" and "j \<in> set (t_job d)"
    and "set cands \<subseteq> {j \<in> set (t_job d). job_completed_at j = None}"
  shows "\<exists>j' \<in> set (t_job d'). job_follows j j'"
proof (cases cands)
  case Nil
  then show ?thesis using assms(1,3) by (auto simp: claim_first_def intro!: bexI [of _ j])
next
  case (Cons k ks)
  have d': "d' = d\<lparr>t_job := tbl_update (\<lambda>r. job_id r = job_id k) (lock_job n w c) (t_job d)\<rparr>"
    using assms(1) Cons by (auto simp: claim_first_def)
  have k: "k \<in> set (t_job d)" "job_completed_at k = None" using assms(4) Cons by auto
  have "job_follows i (lock_job n w c i)"
    if "i \<in> set (t_job d)" "job_id i = job_id k" for i
    using job_tbl.key_unique [OF job_invD(1) [OF assms(2)] that(1) k(1) that(2)] k(2)
      due_follows [OF job_invD(2) [OF assms(2) that(1)]] by simp
  then show ?thesis
    unfolding d' using update_refines [of d _ "lock_job n w c", OF _ assms(3)] by auto
qed

lemma settle_refines:
  assumes "job_inv u d"
    and "\<And>k. k \<in> set (t_job d) \<Longrightarrow> holds_lease c k \<Longrightarrow> job_row_ok k \<Longrightarrow> job_follows k (f k)"
    and "j \<in> set (t_job d)"
  shows "\<exists>j' \<in> set (tbl_update (holds_lease c) f (t_job d)). job_follows j j'"
  by (rule update_refines [OF _ assms(3)]) (rule assms(2), auto dest: job_invD(2) [OF assms(1)])

text \<open>The phases the three outcomes and the other writers lead to.\<close>

lemma completed_follows:
  assumes "holds_lease c k" and "job_row_ok k"
  shows "job_follows k (release (k\<lparr>job_completed_at := Some n\<rparr>))"
  using leased_phase [OF assms(2,1)] assms
  by (auto simp: job_follows_def job_phase_def job_row_ok_def holds_lease_def
      intro: phase_step.intros split: if_splits)

lemma retried_follows:
  assumes "holds_lease c k" and "job_row_ok k"
  shows "job_follows k
     (release (k\<lparr>job_attempts := a, job_last_error := e, job_run_after := r\<rparr>))"
  using leased_phase [OF assms(2,1)] assms
  by (auto simp: job_follows_def job_phase_def job_row_ok_def holds_lease_def
      intro: phase_step.intros split: if_splits)

lemma dead_follows:
  assumes "holds_lease c k" and "job_row_ok k"
  shows "job_follows k (release (k\<lparr>job_last_error := e,
     job_completed_at := Some n, job_permanently_failed_at := Some n\<rparr>))"
  using leased_phase [OF assms(2,1)]
  by (auto simp: job_follows_def job_phase_def intro: phase_step.intros split: if_splits)

lemma retire_follows:
  assumes "job_row_ok k" and "job_completed_at k = None"
  shows "job_follows k (retire_job now err k)"
proof -
  have "job_permanently_failed_at k = None" using assms by (auto simp: job_row_ok_def)
  then show ?thesis
    using assms(2) by (cases "job_claim_id k")
      (auto simp: job_follows_def job_phase_def retire_job_def intro: phase_step.intros)
qed

lemma reschedule_follows:
  assumes "job_row_ok k" and "job_completed_at k = None"
  shows "job_follows k (k\<lparr>job_run_after := r\<rparr>)"
  using assms open_phase [OF assms]
  by (auto simp: job_follows_def job_phase_def split: option.splits if_splits)

lemma cancel_follows:
  assumes "job_row_ok k" and "job_completed_at k = None"
  shows "job_follows k (k\<lparr>job_completed_at := Some now, job_last_error := e\<rparr>)"
proof -
  have "job_permanently_failed_at k = None" using assms by (auto simp: job_row_ok_def)
  then show ?thesis
    using assms(2) by (cases "job_claim_id k")
      (auto simp: job_follows_def job_phase_def intro: phase_step.intros)
qed

lemma elapsed_phase:
  "retention_elapsed a b j \<Longrightarrow> job_phase j = Succeeded \<or> job_phase j = Dead \<or> (\<exists>c. job_phase j = Cancelled c)"
  by (auto simp: retention_elapsed_def opt_le_def job_phase_def split: option.splits)

lemma job_step_refines_phase:
  assumes "job_step s t" and "job_sys_inv s" and "j \<in> set (t_job (fst s))"
  shows "(\<exists>j' \<in> set (t_job (fst t)). job_follows j j') \<or>
         (\<forall>j' \<in> set (t_job (fst t)). job_id j' \<noteq> job_id j) \<and>
         (job_phase j = Succeeded \<or> job_phase j = Dead \<or> (\<exists>c. job_phase j = Cancelled c))"
  using assms
proof (induction rule: job_step.induct)
  case (enqueue i n nj d d' returned u)
  then show ?case
    using enqueue_frame(2) [OF enqueue(1)] by (intro disjI1 bexI [of _ j]) auto
next
  case (claim c u locked now n w ttl d d' r)
  have "set (claim_candidates locked n (now - ttl) d) \<subseteq> {j \<in> set (t_job d). job_completed_at j = None}"
    by (auto simp: claim_candidates_due job_due_def)
  then show ?case
    using claim_first_refines [OF claim(2) [unfolded claim_due_job_def], of u j] claim.prems
    by (simp add: job_sys_inv_def)
next
  case (claim_by_key c u locked now n w k key ttl d d' r)
  then show ?case
    using claim_first_refines [OF claim_by_key(2) [unfolded claim_due_job_by_key_def], of u j]
    by (auto simp: job_sys_inv_def job_due_def)
next
  case (complete n cj d d' accepted u)
  let ?f = "\<lambda>j. release (j\<lparr>job_completed_at := Some n\<rparr>)"
  have d': "d' = d\<lparr>t_job := tbl_update (holds_lease cj) ?f (t_job d)\<rparr>"
    using complete(1) by (auto simp: mark_job_completed_def)
  show ?case
    using settle_refines [of u d cj ?f j, OF _ completed_follows] complete.prems
    by (simp add: d' job_sys_inv_def)
next
  case (fail now cj e d d' retry u)
  let ?f = "\<lambda>j. release (j\<lparr>job_attempts := job_attempts j + 1, job_last_error := Some e,
      job_run_after := next_retry_at now (cj_attempts cj)\<rparr>)"
  have d': "d' = d\<lparr>t_job := tbl_update (holds_lease cj) ?f (t_job d)\<rparr>"
    using fail(1) by (auto simp: mark_job_failed_def Let_def split: if_splits)
  show ?case
    using settle_refines [of u d cj ?f j, OF _ retried_follows] fail.prems
    by (simp add: d' job_sys_inv_def)
next
  case (permanently_fail n cj e d d' accepted u)
  let ?f = "\<lambda>j. release (j\<lparr>job_last_error := Some e, job_completed_at := Some n,
      job_permanently_failed_at := Some n\<rparr>)"
  have d': "d' = d\<lparr>t_job := tbl_update (holds_lease cj) ?f (t_job d)\<rparr>"
    using permanently_fail(1) by (auto simp: mark_job_permanently_failed_def)
  show ?case
    using settle_refines [of u d cj ?f j, OF _ dead_follows] permanently_fail.prems
    by (simp add: d' job_sys_inv_def)
next
  case (cleanup locked now sr fr b d d' out u)
  obtain p where p: "d' = d\<lparr>t_job := tbl_delete p (t_job d)\<rparr>"
    and el: "\<forall>j \<in> set (t_job d). tbl_ok job_conflict (t_job d) \<longrightarrow> p j \<longrightarrow>
        retention_elapsed (now - sr) (now - fr) j"
    using cleanup_deletes [OF cleanup(1)] by blast
  have ok: "tbl_ok job_conflict (t_job d)" and j: "j \<in> set (t_job d)"
    using cleanup.prems by (simp_all add: job_sys_inv_def job_inv_def)
  show ?case
  proof (cases "p j")
    case True
    then have "retention_elapsed (now - sr) (now - fr) j" using el ok j by blast
    moreover have "job_id j' \<noteq> job_id j" if "j' \<in> set (t_job d')" for j'
      using that True job_tbl.key_unique [OF ok _ j] by (auto simp: p)
    ultimately show ?thesis using elapsed_phase by simp
  next
    case False
    then show ?thesis using p j by (auto intro!: bexI [of _ j])
  qed
next
  case (retire d u now err p)
  then show ?case
    using update_refines [of d "\<lambda>j. job_completed_at j = None \<and> p j" "retire_job now err" j]
      retire_follows job_invD(2) by (simp add: retire_jobs_def job_sys_inv_def)
next
  case (reschedule d u ra p)
  then show ?case
    using update_refines [of d "\<lambda>j. job_completed_at j = None \<and> p j" "\<lambda>j. j\<lparr>job_run_after := ra j\<rparr>" j]
      reschedule_follows job_invD(2) by (simp add: reschedule_jobs_def job_sys_inv_def)
next
  case (cancel_purge d u s now)
  then show ?case
    using update_refines [of d "\<lambda>j. job_kind j = ''account_purge'' \<and> job_completed_at j = None \<and>
        json_field ''account_id'' (job_payload j) = Some (JStr s)"
        "\<lambda>j. j\<lparr>job_completed_at := Some now, job_last_error := Some (utext ''cancelled after unsuspend'')\<rparr>" j]
      cancel_follows job_invD(2) by (simp add: cancel_account_purge_def job_sys_inv_def)
next
  case (elsewhere d' d u)
  then show ?case by (intro disjI1 bexI [of _ j]) auto
qed

subsection \<open>Retry schedule and retention\<close>

lemma next_retry_at_bounds:
  "now + seconds 1 \<le> next_retry_at now a \<and> next_retry_at now a \<le> now + seconds 3600"
  by (simp add: next_retry_at_def seconds_def)

lemma cleanup_spec:
  assumes "job_inv u d"
    and "cleanup_expired_jobs locked now sr fr b d = Inr (d', out)"
  shows "length (t_job d) = length (t_job d') + job_cleanup_total out \<and>
         job_cleanup_total out \<le> b \<and>
         (\<forall>j. j \<in> set (t_job d') \<longrightarrow> j \<in> set (t_job d)) \<and>
         (\<forall>j \<in> set (t_job d). j \<notin> set (t_job d') \<longrightarrow>
            \<not> locked (job_id j) \<and> (\<exists>f. job_completed_at j = Some f) \<and>
            retention_elapsed (now - sr) (now - fr) j)"
proof -
  let ?el = "\<lambda>j. retention_elapsed (now - sr) (now - fr) j \<and> \<not> locked (job_id j)"
  let ?cands = "take b (tbl_order (\<lambda>j. (finished_at j, job_id j)) (filter ?el (t_job d)))"
  let ?p = "\<lambda>j. job_id j \<in> set (map job_id ?cands)"
  have t': "t_job d' = tbl_delete ?p (t_job d)"
    and out: "job_cleanup_total out = length (filter ?p (t_job d))"
    using assms(2) rows_affected_split [of "\<lambda>j. job_permanently_failed_at j = None"]
    by (auto simp: cleanup_expired_jobs_def Let_def job_cleanup_total_def split: if_splits)
  have "length (filter ?p (t_job d)) \<le> length (map job_id ?cands)"
    by (rule distinct_filter_mem_length [OF job_tbl.key_distinct [OF job_invD(1) [OF assms(1)]]])
  then have "length (filter ?p (t_job d)) \<le> b" by simp
  moreover have el: "?el j" if j: "j \<in> set (t_job d)" "?p j" for j
  proof -
    obtain k where "k \<in> set ?cands" "job_id k = job_id j" using j(2) by auto
    then have k: "k \<in> set (t_job d)" "?el k" "job_id k = job_id j" by (auto dest!: in_set_takeD)
    then have "k = j"
      using job_tbl.key_unique [OF job_invD(1) [OF assms(1)] k(1) j(1)] by blast
    then show ?thesis using k(2) by simp
  qed
  moreover have fin: "\<exists>f. job_completed_at j = Some f"
    if "j \<in> set (t_job d)" "retention_elapsed (now - sr) (now - fr) j" for j
    using that job_invD(2) [OF assms(1) that(1)]
    by (auto simp: retention_elapsed_def opt_le_def job_row_ok_def split: option.splits)
  moreover have "length (t_job d) = length (t_job d') + job_cleanup_total out"
    using length_tbl_delete [of "t_job d" ?p] by (simp only: t' out)
  moreover have "?p j" if "j \<in> set (t_job d)" "j \<notin> set (t_job d')" for j
    using that unfolding t' set_tbl_delete by blast
  moreover have "\<forall>j. j \<in> set (t_job d') \<longrightarrow> j \<in> set (t_job d)"
    unfolding t' set_tbl_delete by blast
  ultimately show ?thesis unfolding out by blast
qed

subsection \<open>Redaction\<close>

lemma prefix_not_empty [simp]: "https_prefix \<noteq> []" "http_prefix \<noteq> []"
  by (simp_all add: https_prefix_def http_prefix_def utext_def)

lemma redacted_free:
  assumes "\<not> contains_sub p (take n s)" and "p = https_prefix \<or> p = http_prefix"
  shows "\<not> contains_sub p (take n s @ utext ''[redacted-url] '')"
proof
  assume "contains_sub p (take n s @ utext ''[redacted-url] '')"
  moreover have "utext ''[redacted-url] '' = 91 # utext ''redacted-url] ''" by (simp add: utext_def)
  moreover have "91 \<notin> set https_prefix" "91 \<notin> set http_prefix" "https_prefix \<noteq> []"
      "http_prefix \<noteq> []" by (simp_all add: https_prefix_def http_prefix_def utext_def)
  ultimately have "contains_sub p (utext ''redacted-url] '')"
    using assms contains_sub_separated [of p "take n s" 91] by auto
  moreover have "\<not> contains_sub https_prefix (utext ''redacted-url] '')"
      "\<not> contains_sub http_prefix (utext ''redacted-url] '')"
    by (simp_all add: https_prefix_def http_prefix_def utext_def contains_sub_def)
  ultimately show False using assms(2) by auto
qed

lemma redact_part_https: "\<not> contains_sub https_prefix (redact_part s)"
proof (cases "find_sub https_prefix s")
  case None
  then have none: "\<not> contains_sub https_prefix s" by (simp add: contains_sub_def)
  show ?thesis
  proof (cases "find_sub http_prefix s")
    case None
    then show ?thesis using none \<open>find_sub https_prefix s = None\<close> by (simp add: redact_part_def)
  next
    case (Some n)
    have "\<not> contains_sub https_prefix (take n s)" using none contains_sub_take by blast
    then show ?thesis
      using Some \<open>find_sub https_prefix s = None\<close> redacted_free [of https_prefix n s]
      by (simp add: redact_part_def)
  qed
next
  case (Some n)
  then show ?thesis using find_sub_take_free [OF Some] redacted_free [of https_prefix n s]
    by (simp add: redact_part_def)
qed

lemma redact_part_http:
  assumes "\<not> contains_sub https_prefix s"
  shows "\<not> contains_sub http_prefix (redact_part s)"
proof (cases "find_sub http_prefix s")
  case None
  then show ?thesis using assms by (simp add: redact_part_def contains_sub_def)
next
  case (Some n)
  then show ?thesis
    using assms find_sub_take_free [OF Some] redacted_free [of http_prefix n s]
    by (simp add: redact_part_def contains_sub_def [of https_prefix])
qed

lemma redact_part_ends: "ends_ws s \<Longrightarrow> ends_ws (redact_part s)"
proof -
  have "utext ''[redacted-url] '' \<noteq> [] \<and> is_whitespace (last (utext ''[redacted-url] ''))"
    by (simp add: utext_def is_whitespace_def)
  then show "ends_ws s \<Longrightarrow> ends_ws (redact_part s)"
    by (simp add: redact_part_def ends_ws_def split: option.splits)
qed

lemma sanitize_no_https: "\<not> contains_sub https_prefix (sanitize_admin_job_error e)"
proof
  let ?ws = "map redact_part (split_inclusive_ws e)"
  assume *: "contains_sub https_prefix (sanitize_admin_job_error e)"
  have "contains_sub https_prefix (concat ?ws)"
    by (rule contains_sub_trim_end [OF contains_sub_take [OF * [unfolded sanitize_admin_job_error_def]]])
  moreover have "\<forall>w \<in> set (butlast ?ws). ends_ws w"
  proof
    fix w
    assume "w \<in> set (butlast ?ws)"
    then obtain v where "v \<in> set (butlast (split_ws [] e))" "w = redact_part v"
      unfolding split_inclusive_ws_def map_butlast [symmetric] by auto
    then show "ends_ws w" using split_ws_ends redact_part_ends by blast
  qed
  moreover have "\<forall>c \<in> set https_prefix. \<not> is_whitespace c"
    by (simp add: https_prefix_def utext_def is_whitespace_def)
  ultimately obtain w where "w \<in> set ?ws" "contains_sub https_prefix w"
    using contains_sub_concat [OF _ _ _ prefix_not_empty(1)] by blast
  then show False using redact_part_https by auto
qed

end
