(* ===== verification/Roosty_Job_Properties.thy ===== *)
theory Roosty_Job_Properties
  imports Roosty_Job_Queue
begin

text \<open>
  The properties of the job queue: the invariant of every reachable state, deduplication,
  what a claim returns, leases, the retry schedule, retention, and the redaction of error
  texts shown to administrators.
\<close>

text \<open>
  C1: In every reachable state of the queue the deduplication index is respected: two rows
  that are not completed and share a kind and a deduplication key are the same job. A lease is
  recorded in all of its three columns or in none; a completed job carries no lease, unless it
  is an account purge that was cancelled while a worker had it; permanent failures count as
  completed and carry no lease; and a claim identity occurs on one row only.
\<close>

theorem job_queue_invariant:
  assumes "reachable job_init job_step (d, u)"
    and "j \<in> set (t_job d)" and "k \<in> set (t_job d)"
  shows "(job_kind j = job_kind k \<and> job_deduplication_key j = Some key \<and>
            job_deduplication_key k = Some key \<and> job_completed_at j = None \<and>
            job_completed_at k = None \<longrightarrow> j = k) \<and>
         (job_id j = job_id k \<longrightarrow> j = k) \<and>
         (job_claim_id j = Some c \<and> job_claim_id k = Some c \<longrightarrow> j = k) \<and>
         job_row_ok j"
proof -
  have inv: "job_inv u d"
    using job_sys.reachable_inv [OF assms(1)] by (simp add: job_sys_inv_def)
  have "j = k" if "job_kind j = job_kind k \<and> job_deduplication_key j = Some key \<and>
      job_deduplication_key k = Some key \<and> job_completed_at j = None \<and> job_completed_at k = None"
    using that job_tbl.conflict_eq [OF job_invD(1) [OF inv] assms(2,3)]
    by (simp add: job_conflict_def job_dedup_conflict_def job_active_key_def)
  then show ?thesis
    using job_tbl.key_unique [OF job_invD(1) [OF inv] assms(2,3)]
      claim_row_unique [OF inv assms(2,3)] job_invD(2) [OF inv assms(2)] by blast
qed

text \<open>A small run used by the witnesses: one job enqueued, claimed, and claimed again.\<close>

definition demo_job :: new_job where
  "demo_job = \<lparr> nj_kind = PollExpiration, nj_payload = JNull, nj_deduplication_key = Some ''p'',
     nj_run_after = 0 \<rparr>"

definition demo_row :: job_row where
  "demo_row = new_job_row 1 0 demo_job"

definition demo_db :: db where
  "demo_db = empty_db\<lparr>t_job := [demo_row]\<rparr>"

definition demo_leased :: db where
  "demo_leased = empty_db\<lparr>t_job := [lock_job 5 ''w'' 7 demo_row]\<rparr>"

definition demo_claim :: claimed_job where
  "demo_claim = \<lparr> cj_id = 1, cj_claim_id = 7, cj_kind = PollExpiration, cj_payload = JNull,
     cj_attempts = 0, cj_created_at = 0 \<rparr>"

lemma demo_init: "reachable job_init job_step (empty_db, {})"
  by (rule reach_init) (simp add: job_init_def empty_db_def)

lemma demo_enqueue: "enqueue_job_on_connection 1 0 demo_job empty_db = Inr (demo_db, 1)"
  by (simp add: enqueue_job_on_connection_def tbl_upsert_def tbl_insert_def demo_db_def
      demo_row_def empty_db_def Let_def)

lemma demo_reachable: "reachable job_init job_step (demo_db, {})"
  by (rule reach_step [OF demo_init]) (rule job_step.enqueue [OF demo_enqueue])

lemma demo_claiming:
  "claim_due_job (\<lambda>_. False) 5 5 7 ''w'' 100 demo_db = (demo_leased, Inr (Some demo_claim))"
  by code_simp

lemma demo_leased_reachable: "reachable job_init job_step (demo_leased, {7})"
proof (rule reach_step [OF demo_reachable])
  have "job_step (demo_db, {}) (demo_leased, insert 7 {})"
    by (rule job_step.claim [OF _ demo_claiming]) simp
  then show "job_step (demo_db, {}) (demo_leased, {7})" by simp
qed

theorem job_queue_invariant_witness:
  "job_row_ok demo_row \<and> job_kind demo_row = ''poll_expiration''"
proof -
  have "demo_row \<in> set (t_job demo_db)" by (simp add: demo_db_def)
  then show ?thesis
    using job_queue_invariant [OF demo_reachable, of demo_row demo_row]
    by (simp add: demo_row_def demo_job_def new_job_row_def)
qed

text \<open>
  C2: Enqueueing with a deduplication key leaves exactly one job of that kind and key that is
  not completed, and returns its identifier: an active one is reused unchanged, whatever the
  new payload and due time are, and otherwise the new row is appended.
\<close>

theorem enqueue_deduplicates:
  assumes "reachable job_init job_step (d, u)"
    and "nj_deduplication_key nj = Some key"
    and "enqueue_job_on_connection i n nj d = Inr (d', returned)"
  shows "(\<exists>j. filter (\<lambda>r. job_active_key r = Some (job_kind_as_str (nj_kind nj), key)) (t_job d') = [j]
              \<and> job_id j = returned) \<and>
         (d' = d \<or> d' = d\<lparr>t_job := t_job d @ [new_job_row i n nj]\<rparr> \<and> returned = i)"
proof -
  let ?key = "Some (job_kind_as_str (nj_kind nj), key)"
  have inv: "job_inv u d"
    using job_sys.reachable_inv [OF assms(1)] by (simp add: job_sys_inv_def)
  then have ok': "tbl_ok job_conflict (t_job d')"
    using enqueue_inv [OF assms(3)] job_invD(1) by blast
  have key: "job_active_key (new_job_row i n nj) = ?key" using assms(2) by simp
  have "\<exists>j \<in> set (t_job d'). job_active_key j = ?key \<and> job_id j = returned"
    using enqueue_cases [OF assms(3)]
  proof (elim disjE conjE bexE)
    fix j
    assume "j \<in> set (t_job d)" "job_dedup_conflict (new_job_row i n nj) j" "returned = job_id j"
      "d' = d"
    then show ?thesis using key by (auto simp: job_dedup_conflict_def sql_eq_iff)
  next
    assume "returned = i" "d' = d\<lparr>t_job := t_job d @ [new_job_row i n nj]\<rparr>"
    then show ?thesis using key by (intro bexI [of _ "new_job_row i n nj"]) simp_all
  qed
  then obtain j where j: "j \<in> set (t_job d')" "job_active_key j = ?key" "job_id j = returned"
    by blast
  have only: "r = j" if "r \<in> set (t_job d')" "job_active_key r = ?key" for r
    using job_tbl.conflict_eq [OF ok' that(1) j(1)] that(2) j(2)
    by (simp add: job_conflict_def job_dedup_conflict_def)
  have "distinct (t_job d')" using job_tbl.key_distinct [OF ok'] by (simp add: distinct_map)
  then have "filter (\<lambda>r. job_active_key r = ?key) (t_job d') = [j]"
    using j(1,2) by (rule filter_only) (rule only)
  then show ?thesis using enqueue_cases [OF assms(3)] j(3) by auto
qed

theorem enqueue_deduplicates_witness:
  "\<exists>j. filter (\<lambda>r. job_active_key r = Some (''poll_expiration'', ''p'')) (t_job demo_db) = [j]
       \<and> job_id j = 1"
  using enqueue_deduplicates [OF demo_init _ demo_enqueue, of "''p''"] by (simp add: demo_job_def)

text \<open>
  C3: A claim either finds nothing that is due, of a known kind and not locked by another
  transaction, and then changes nothing; or it leases the candidate that is first by due time
  and creation time, writes the lease on this row only, and returns the job as it is stored.
\<close>

theorem claim_takes_earliest_due:
  assumes "reachable job_init job_step (d, u)"
    and "claim_due_job locked now n c w ttl d = (d', r)"
  shows "r = Inr None \<and> d' = d \<and>
           (\<forall>j \<in> set (t_job d). \<not> (job_due n (now - ttl) j \<and> known_kind j \<and> \<not> locked (job_id j)))
       \<or> (\<exists>j \<in> set (t_job d). job_due n (now - ttl) j \<and> known_kind j \<and> \<not> locked (job_id j) \<and>
           r = Inr (Some (claim_of c j)) \<and>
           d' = d\<lparr>t_job := tbl_update (\<lambda>k. k = j) (lock_job n w c) (t_job d)\<rparr> \<and>
           (\<forall>k \<in> set (t_job d). job_due n (now - ttl) k \<and> known_kind k \<and> \<not> locked (job_id k) \<longrightarrow>
              (job_run_after j, job_created_at j) \<le> (job_run_after k, job_created_at k)))"
  using claim_due_job_cases [OF _ assms(2)] job_sys.reachable_inv [OF assms(1)]
  by (simp add: job_sys_inv_def)

theorem claim_takes_earliest_due_witness:
  "demo_leased = demo_db\<lparr>t_job := tbl_update (\<lambda>k. k = demo_row) (lock_job 5 ''w'' 7) [demo_row]\<rparr>"
  using claim_takes_earliest_due [OF demo_reachable demo_claiming] by (simp add: demo_db_def)

text \<open>
  A lease that has not expired is never handed to another worker: whichever claim
  operation runs, the row stays as it is and the claim returned is for a different job.
\<close>

lemma live_lease_not_stolen:
  assumes "reachable job_init job_step (d, u)"
    and "claim_due_job locked now n c w ttl d = (d', r) \<or>
         claim_due_job_by_key locked now n c w kind key ttl d = (d', r)"
    and "j \<in> set (t_job d)" and "job_locked_at j = Some l" and "now - ttl \<le> l"
  shows "j \<in> set (t_job d') \<and> (\<forall>cj. r = Inr (Some cj) \<longrightarrow> cj_id cj \<noteq> job_id j)"
proof -
  have inv: "job_inv u d"
    using job_sys.reachable_inv [OF assms(1)] by (simp add: job_sys_inv_def)
  have "\<not> job_due n (now - ttl) j" using assms(4,5) by (simp add: job_due_def)
  then have "\<exists>cands. claim_first cands n w c d = (d', r) \<and> set cands \<subseteq> set (t_job d) \<and> j \<notin> set cands"
    using assms(2)
  proof (elim disjE)
    assume "claim_due_job locked now n c w ttl d = (d', r)"
    then show ?thesis
      using \<open>\<not> job_due n (now - ttl) j\<close>
      by (intro exI [of _ "claim_candidates locked n (now - ttl) d"])
         (auto simp: claim_due_job_def claim_candidates_due)
  qed (auto simp: claim_due_job_by_key_def)
  then obtain cands where cands: "claim_first cands n w c d = (d', r)"
      "set cands \<subseteq> set (t_job d)" "j \<notin> set cands" by blast
  show ?thesis by (rule claim_first_spares [OF inv cands assms(3)])
qed

text \<open>
  C4: Each claim settles at most once. After an outcome of a claim has been accepted
  (success, failure with a retry, or permanent failure), every outcome reported for the same
  claim is refused and changes nothing, however the queue has moved on in between.
\<close>

theorem claim_settles_at_most_once:
  assumes "reachable job_init job_step (d, u)"
    and "mark_job_completed n c d = (d1, True) \<or>
         mark_job_failed now c e d = Inr (d1, Some t) \<or>
         mark_job_permanently_failed n c e d = (d1, True)"
    and "job_step\<^sup>*\<^sup>* (d1, u) (d2, u2)"
  shows "mark_job_completed n' c d2 = (d2, False) \<and>
         mark_job_failed now' c e' d2 = Inr (d2, None) \<and>
         mark_job_permanently_failed n' c e' d2 = (d2, False)"
proof -
  have inv: "job_inv u d"
    using job_sys.reachable_inv [OF assms(1)] by (simp add: job_sys_inv_def)
  have reach: "reachable job_init job_step (d1, u)"
    using assms(2) by (auto intro: reach_step [OF assms(1)] job_step.intros)
  have gone: "\<not> claim_held (cj_claim_id c) (d1, u)"
    using assms(2) accepted_outcome_not_held [OF inv] by blast
  have "rows_affected (holds_lease c) (t_job d) = 1"
    using assms(2)
    by (auto simp: mark_job_completed_def mark_job_failed_def mark_job_permanently_failed_def
        Let_def split: if_splits)
  then have "cj_claim_id c \<in> u" by (rule accepted_outcome_issued [OF inv])
  then show ?thesis using stale_outcomes_forever [OF reach _ gone assms(3)] by blast
qed

definition demo_done :: db where
  "demo_done = fst (mark_job_completed 6 demo_claim demo_leased)"

lemma demo_complete: "mark_job_completed 6 demo_claim demo_leased = (demo_done, True)"
proof -
  have "snd (mark_job_completed 6 demo_claim demo_leased) = True" by code_simp
  then show ?thesis by (simp add: demo_done_def prod_eq_iff)
qed

theorem claim_settles_at_most_once_witness:
  "mark_job_failed 9 demo_claim [] demo_done = Inr (demo_done, None)"
  using claim_settles_at_most_once [OF demo_leased_reachable, of 6 demo_claim demo_done] demo_complete
  by blast

text \<open>
  When a worker overruns its lease and another worker takes the job over, nothing the
  first worker reports later has any effect.
\<close>

lemma taken_over_claim_is_stale:
  assumes "reachable job_init job_step (d, u)" and "cj_claim_id c \<in> u" and "c' \<notin> u"
    and "j \<in> set (t_job d)" and "holds_lease c j"
    and "claim_due_job locked now n c' w ttl d = (d1, Inr (Some cj))" and "cj_id cj = cj_id c"
    and "job_step\<^sup>*\<^sup>* (d1, insert c' u) (d2, u2)"
  shows "mark_job_completed n' c d2 = (d2, False) \<and>
         mark_job_failed now' c e' d2 = Inr (d2, None) \<and>
         mark_job_permanently_failed n' c e' d2 = (d2, False)"
proof -
  have inv: "job_inv u d"
    using job_sys.reachable_inv [OF assms(1)] by (simp add: job_sys_inv_def)
  have reach: "reachable job_init job_step (d1, insert c' u)"
    by (rule reach_step [OF assms(1)], rule job_step.claim [OF assms(3,6)])
  have "\<not> claim_held (cj_claim_id c) (d1, insert c' u)"
    by (rule taken_over_not_held [OF inv assms(6) _ _ assms(4,5,7)]) (use assms(2,3) in auto)
  then show ?thesis using stale_outcomes_forever [OF reach _ _ assms(8)] assms(2) by blast
qed

definition demo_taken :: db where
  "demo_taken = empty_db\<lparr>t_job := [lock_job 500 ''v'' 8 demo_row]\<rparr>"

lemma demo_taking:
  "claim_due_job (\<lambda>_. False) 500 500 8 ''v'' 100 demo_leased =
     (demo_taken, Inr (Some (demo_claim\<lparr>cj_claim_id := 8\<rparr>)))"
  by code_simp

text \<open>
  C5: Every operation of the queue, and every other statement that writes its table, moves each
  job along its life cycle and changes neither its kind, its payload nor its key: a waiting job
  is leased or retired; a leased job is taken over, retried, succeeds, is given up, or is
  cancelled under its worker, whose report then settles it. A job that succeeded or was given up
  never changes again, and only finished jobs are ever deleted.
\<close>

theorem job_steps_refine_life_cycle:
  assumes "reachable job_init job_step s" and "job_step s t" and "j \<in> set (t_job (fst s))"
  shows "(\<exists>j' \<in> set (t_job (fst t)).
            job_id j' = job_id j \<and> job_kind j' = job_kind j \<and> job_payload j' = job_payload j \<and>
            job_deduplication_key j' = job_deduplication_key j \<and>
            phase_step\<^sup>=\<^sup>= (job_phase j) (job_phase j') \<and>
            (job_phase j \<in> {Succeeded, Dead} \<longrightarrow> j' = j)) \<or>
         (\<forall>j' \<in> set (t_job (fst t)). job_id j' \<noteq> job_id j) \<and>
         (job_phase j = Succeeded \<or> job_phase j = Dead \<or> (\<exists>c. job_phase j = Cancelled c))"
  using job_step_refines_phase [OF assms(2) job_sys.reachable_inv [OF assms(1)] assms(3)]
  unfolding job_follows_def by blast

lemma demo_complete_step: "job_step (demo_leased, {7}) (demo_done, {7})"
  by (rule job_step.complete [OF demo_complete])

theorem job_steps_refine_life_cycle_witness:
  "\<exists>j' \<in> set (t_job demo_done). job_id j' = 1 \<and> phase_step\<^sup>=\<^sup>= (Leased 7) (job_phase j')"
  using job_steps_refine_life_cycle [OF demo_leased_reachable demo_complete_step,
      of "lock_job 5 ''w'' 7 demo_row"]
  by (auto simp: demo_leased_def job_phase_def lock_job_def demo_row_def new_job_row_def)

text \<open>
  A reported failure is recorded once on the leased row: one more attempt, the error, no
  lease, and a due time between one second and one hour after the failure. The job cannot be
  claimed before that time and is due again from it on, unless it is a purge that was cancelled
  in the meantime.
\<close>

lemma failure_schedules_retry:
  assumes "reachable job_init job_step (d, u)"
    and "mark_job_failed now c e d = Inr (d', Some t)"
  shows "t = now + seconds (min (2 ^ min (cj_attempts c) 12) 3600) \<and>
         now + seconds 1 \<le> t \<and> t \<le> now + seconds 3600 \<and>
         (\<exists>j \<in> set (t_job d). \<exists>j' \<in> set (t_job d').
            holds_lease c j \<and> job_id j' = job_id j \<and> job_attempts j' = job_attempts j + 1 \<and>
            job_last_error j' = Some e \<and> job_run_after j' = t \<and> job_claim_id j' = None \<and>
            (\<forall>n expired. job_due n expired j' \<longleftrightarrow> job_completed_at j = None \<and> t \<le> n))"
proof -
  have inv: "job_inv u d"
    using job_sys.reachable_inv [OF assms(1)] by (simp add: job_sys_inv_def)
  let ?f = "\<lambda>j. release (j\<lparr>job_attempts := job_attempts j + 1, job_last_error := Some e,
      job_run_after := next_retry_at now (cj_attempts c)\<rparr>)"
  have d': "t_job d' = tbl_update (holds_lease c) ?f (t_job d)"
    and one: "rows_affected (holds_lease c) (t_job d) = 1"
    and t: "t = next_retry_at now (cj_attempts c)"
    using assms(2) by (auto simp: mark_job_failed_def Let_def split: if_splits)
  obtain j where j: "j \<in> set (t_job d)" "holds_lease c j"
    using one rows_affected_pos [of "holds_lease c" "t_job d"] by auto
  have "?f j \<in> set (t_job d')" using j by (auto simp: d' set_tbl_update)
  moreover have "job_due n expired (?f j) \<longleftrightarrow> job_completed_at j = None \<and> t \<le> n" for n expired
    by (simp add: job_due_def t)
  ultimately have "\<exists>j \<in> set (t_job d). \<exists>j' \<in> set (t_job d').
            holds_lease c j \<and> job_id j' = job_id j \<and> job_attempts j' = job_attempts j + 1 \<and>
            job_last_error j' = Some e \<and> job_run_after j' = t \<and> job_claim_id j' = None \<and>
            (\<forall>n expired. job_due n expired j' \<longleftrightarrow> job_completed_at j = None \<and> t \<le> n)"
    using j by (intro bexI [OF _ j(1)] bexI [of _ "?f j"]) (simp_all add: t)
  then show ?thesis using next_retry_at_bounds [of now "cj_attempts c"] t
    by (simp add: next_retry_at_def)
qed

text \<open>
  Retention cleanup deletes finished jobs only, each past its own retention and not locked
  by another transaction, at most a batch of them; every other job stays as it is, and the
  counts it returns add up to the number of rows deleted.
\<close>

lemma cleanup_deletes_expired_only:
  assumes "reachable job_init job_step (d, u)"
    and "cleanup_expired_jobs locked now sr fr b d = Inr (d', out)"
  shows "length (t_job d) = length (t_job d') + job_cleanup_total out \<and>
         job_cleanup_total out \<le> b \<and>
         (\<forall>j. j \<in> set (t_job d') \<longrightarrow> j \<in> set (t_job d)) \<and>
         (\<forall>j \<in> set (t_job d). j \<notin> set (t_job d') \<longrightarrow>
            \<not> locked (job_id j) \<and> (\<exists>f. job_completed_at j = Some f) \<and>
            retention_elapsed (now - sr) (now - fr) j)"
  by (rule cleanup_spec [OF _ assms(2)])
     (use job_sys.reachable_inv [OF assms(1)] in \<open>simp add: job_sys_inv_def\<close>)

lemma demo_done_reachable: "reachable job_init job_step (demo_done, {7})"
  by (rule reach_step [OF demo_leased_reachable demo_complete_step])

text \<open>
  The text shown to administrators has at most 500 characters and contains no
  \<open>https\<close> URL, whatever the stored error is.
\<close>

lemma sanitized_error_has_no_https_url:
  "length (sanitize_admin_job_error e) \<le> 500 \<and>
   \<not> contains_sub https_prefix (sanitize_admin_job_error e)"
  using sanitize_no_https by (simp add: sanitize_admin_job_error_def)

text \<open>
  The redaction looks for \<open>https\<close> first and cuts there, so an \<open>http\<close> URL that
  precedes an \<open>https\<close> URL in the same word is shown: redaction of \<open>http\<close> URLs holds
  for words that have no \<open>https\<close> URL, and fails in general.
\<close>

lemma http_url_before_https_leaks:
  "(\<forall>part. \<not> contains_sub https_prefix part \<longrightarrow> \<not> contains_sub http_prefix (redact_part part)) \<and>
   sanitize_admin_job_error (utext ''http://a/t,https://b'') =
     utext ''http://a/t,[redacted-url]''"
proof
  show "\<forall>part. \<not> contains_sub https_prefix part \<longrightarrow> \<not> contains_sub http_prefix (redact_part part)"
    using redact_part_http by blast
  show "sanitize_admin_job_error (utext ''http://a/t,https://b'') =
     utext ''http://a/t,[redacted-url]''"
    by (simp add: sanitize_admin_job_error_def split_inclusive_ws_def redact_part_def utext_def
        https_prefix_def http_prefix_def is_whitespace_def trim_end_def)
qed

end
