(* ===== verification/Roosty_Pagination.thy ===== *)
theory Roosty_Pagination
  imports Roosty_Schema
begin

text \<open>
  Cursor pagination of \<^verbatim>\<open>src/crates/db/src/lib.rs\<close>: the cursor filters, the
  one-row-too-many limit that detects further pages, lookups of accounts by identifier, and
  the merged local and remote relationship pages. The interface \<open>paged_collection\<close> states
  what a page is; a client that follows \<open>last_cursor\<close> until \<open>has_more\<close> is false then
  sees every entry exactly once, newest first.
\<close>

record collection_cursor =
  cc_max_id :: "uuid option"
  cc_since_id :: "uuid option"
  cc_min_id :: "uuid option"

record 'a collection_page =
  cp_items :: "'a list"
  cp_first_cursor :: "uuid option"
  cp_last_cursor :: "uuid option"
  cp_has_more :: bool

definition no_cursor :: collection_cursor where
  "no_cursor = \<lparr> cc_max_id = None, cc_since_id = None, cc_min_id = None \<rparr>"

definition page_query_limit :: "nat \<Rightarrow> nat" where
  "page_query_limit limit = min (limit + 1) u64_max"

definition trim_to_page :: "'a list \<Rightarrow> nat \<Rightarrow> 'a list \<times> bool" where
  "trim_to_page items limit =
     (let has_more = limit < length items
      in (if has_more then take limit items else items, has_more))"

definition collection_cursor_matches :: "uuid \<Rightarrow> collection_cursor \<Rightarrow> bool" where
  "collection_cursor_matches i cursor \<longleftrightarrow>
     (case cc_max_id cursor of None \<Rightarrow> True | Some m \<Rightarrow> i < m) \<and>
     (case cc_since_id cursor of None \<Rightarrow> True | Some m \<Rightarrow> m < i) \<and>
     (case cc_min_id cursor of None \<Rightarrow> True | Some m \<Rightarrow> m < i)"

definition apply_collection_cursor ::
  "('r \<Rightarrow> uuid) \<Rightarrow> collection_cursor \<Rightarrow> 'r list \<Rightarrow> 'r list" where
  "apply_collection_cursor idf cursor rows =
     filter (\<lambda>r. case cc_min_id cursor of None \<Rightarrow> True | Some m \<Rightarrow> m < idf r)
       (filter (\<lambda>r. case cc_since_id cursor of None \<Rightarrow> True | Some m \<Rightarrow> m < idf r)
         (filter (\<lambda>r. case cc_max_id cursor of None \<Rightarrow> True | Some m \<Rightarrow> idf r < m) rows))"

text \<open>\<open>ORDER BY id DESC\<close>, and Rust's stable \<open>sort_by_key(|e| Reverse(e.id))\<close>.\<close>

definition order_by_desc :: "('r \<Rightarrow> uuid) \<Rightarrow> 'r list \<Rightarrow> 'r list" where
  "order_by_desc idf rows = sort_key (\<lambda>r. - int (idf r)) rows"

text \<open>The common shape of a cursor query: filters, order, limit, and the trimming of its result.\<close>

definition query_page ::
  "('r \<Rightarrow> uuid) \<Rightarrow> collection_cursor \<Rightarrow> nat \<Rightarrow> 'r list \<Rightarrow> 'r list \<times> bool" where
  "query_page idf cursor limit rows =
     trim_to_page (take (page_query_limit limit)
       (order_by_desc idf (apply_collection_cursor idf cursor rows))) limit"

definition first_of :: "('r \<Rightarrow> uuid) \<Rightarrow> 'r list \<Rightarrow> uuid option" where
  "first_of idf rows = (case rows of [] \<Rightarrow> None | r # _ \<Rightarrow> Some (idf r))"

definition last_of :: "('r \<Rightarrow> uuid) \<Rightarrow> 'r list \<Rightarrow> uuid option" where
  "last_of idf rows = (if rows = [] then None else Some (idf (last rows)))"

subsection \<open>Accounts by identifier\<close>

definition find_local_account_by_id :: "db \<Rightarrow> uuid \<Rightarrow> local_account_row option" where
  "find_local_account_by_id d i = List.find (\<lambda>a. la_id a = i) (t_local_account d)"

definition find_remote_actor_by_id :: "db \<Rightarrow> uuid \<Rightarrow> remote_actor_row option" where
  "find_remote_actor_by_id d i = List.find (\<lambda>a. ra_id a = i) (t_remote_actor d)"

text \<open>
  The models are collected in a hash map and removed from it in the order of the requested
  identifiers: an identifier requested twice is answered once.
\<close>

fun remove_in_order :: "('r \<Rightarrow> uuid) \<Rightarrow> uuid list \<Rightarrow> 'r list \<Rightarrow> 'r list" where
  "remove_in_order idf [] m = []"
| "remove_in_order idf (i # is) m =
     (case List.find (\<lambda>r. idf r = i) m of
        None \<Rightarrow> remove_in_order idf is m
      | Some r \<Rightarrow> r # remove_in_order idf is (tbl_delete (\<lambda>r. idf r = i) m))"

definition local_accounts_by_id :: "db \<Rightarrow> uuid list \<Rightarrow> local_account_row list" where
  "local_accounts_by_id d ids =
     (if ids = [] then []
      else remove_in_order la_id ids (filter (\<lambda>a. la_id a \<in> set ids) (t_local_account d)))"

definition remote_actors_by_id :: "db \<Rightarrow> uuid list \<Rightarrow> remote_actor_row list" where
  "remote_actors_by_id d ids =
     (if ids = [] then []
      else remove_in_order ra_id ids (filter (\<lambda>a. ra_id a \<in> set ids) (t_remote_actor d)))"

subsection \<open>Merged relationship pages\<close>

datatype follow_collection_account = CLocal local_account_row | CRemote remote_actor_row

record follow_collection_entry =
  fce_id :: uuid
  fce_account :: follow_collection_account

definition local_entries ::
  "db \<Rightarrow> collection_cursor \<Rightarrow> ('l \<Rightarrow> uuid \<times> uuid) \<Rightarrow> 'l list \<Rightarrow> follow_collection_entry list" where
  "local_entries d cursor local_id local =
     List.map_filter (\<lambda>f. case local_id f of (i, a) \<Rightarrow>
       if collection_cursor_matches i cursor
       then map_option (\<lambda>acc. \<lparr> fce_id = i, fce_account = CLocal acc \<rparr>) (find_local_account_by_id d a)
       else None) local"

definition remote_entries ::
  "db \<Rightarrow> collection_cursor \<Rightarrow> ('m \<Rightarrow> uuid \<times> uuid) \<Rightarrow> 'm list \<Rightarrow> follow_collection_entry list" where
  "remote_entries d cursor remote_id remote =
     List.map_filter (\<lambda>f. case remote_id f of (i, a) \<Rightarrow>
       if collection_cursor_matches i cursor
       then map_option (\<lambda>act. \<lparr> fce_id = i, fce_account = CRemote act \<rparr>) (find_remote_actor_by_id d a)
       else None) remote"

definition follow_collection_page ::
  "db \<Rightarrow> 'l list \<Rightarrow> 'm list \<Rightarrow> nat \<Rightarrow> collection_cursor \<Rightarrow> ('l \<Rightarrow> uuid \<times> uuid) \<Rightarrow>
     ('m \<Rightarrow> uuid \<times> uuid) \<Rightarrow> follow_collection_entry collection_page" where
  "follow_collection_page d local remote limit cursor local_id remote_id =
     (let entries = local_entries d cursor local_id local @ remote_entries d cursor remote_id remote;
          (items, has_more) = trim_to_page (order_by_desc fce_id entries) limit
      in \<lparr> cp_items = items, cp_first_cursor = first_of fce_id items,
           cp_last_cursor = last_of fce_id items, cp_has_more = has_more \<rparr>)"

fun match_relationships ::
  "(uuid \<times> uuid) list \<Rightarrow> local_account_row list \<Rightarrow> follow_collection_entry list" where
  "match_relationships [] m = []"
| "match_relationships ((i, a) # rs) m =
     (case List.find (\<lambda>acc. la_id acc = a) m of
        None \<Rightarrow> match_relationships rs m
      | Some acc \<Rightarrow> \<lparr> fce_id = i, fce_account = CLocal acc \<rparr> #
                     match_relationships rs (tbl_delete (\<lambda>acc. la_id acc = a) m))"

definition local_relationship_collection_page ::
  "db \<Rightarrow> (uuid \<times> uuid) list \<Rightarrow> bool \<Rightarrow> follow_collection_entry collection_page" where
  "local_relationship_collection_page d relationships has_more =
     \<lparr> cp_items = match_relationships relationships
                     (local_accounts_by_id d (map snd relationships)),
       cp_first_cursor = first_of fst relationships,
       cp_last_cursor = last_of fst relationships,
       cp_has_more = has_more \<rparr>"

subsection \<open>Facts about ordered pages\<close>

lemma apply_collection_cursor_eq [simp]:
  "apply_collection_cursor idf cursor rows =
     filter (\<lambda>r. collection_cursor_matches (idf r) cursor) rows"
  by (auto simp: apply_collection_cursor_def collection_cursor_matches_def intro: filter_cong)

lemma set_order_by_desc [simp]: "set (order_by_desc idf rows) = set rows"
  by (simp add: order_by_desc_def)

lemma length_order_by_desc [simp]: "length (order_by_desc idf rows) = length rows"
  by (simp add: order_by_desc_def)

lemma filter_order_by_desc: "filter p (order_by_desc idf rows) = order_by_desc idf (filter p rows)"
  by (simp add: order_by_desc_def filter_sort)

lemma distinct_order_by_desc:
  "distinct (map idf (order_by_desc idf rows)) \<longleftrightarrow> distinct (map idf rows)"
  by (simp add: order_by_desc_def distinct_map)

lemma order_by_desc_strict:
  assumes "distinct (map idf rows)"
  shows "sorted_wrt (\<lambda>a b. idf b < idf a) (order_by_desc idf rows)"
proof -
  have "sorted (map (\<lambda>r. - int (idf r)) (order_by_desc idf rows))"
    by (simp add: order_by_desc_def)
  then have "sorted_wrt (\<lambda>a b. idf b \<le> idf a) (order_by_desc idf rows)"
    by (simp add: sorted_map)
  moreover have "sorted_wrt (\<lambda>a b. idf b \<noteq> idf a) (order_by_desc idf rows)"
    using assms distinct_order_by_desc [of idf rows]
    by (auto simp: distinct_conv_nth sorted_wrt_iff_nth_less)
  ultimately show ?thesis
    by (simp add: sorted_wrt_iff_nth_less order.strict_iff_order)
qed

lemma trim_to_page_eq: "trim_to_page items limit = (take limit items, limit < length items)"
  by (simp add: trim_to_page_def Let_def)

lemma query_page_eq:
  assumes "limit < u64_max"
  shows "query_page idf cursor limit rows =
     (let all = order_by_desc idf (filter (\<lambda>r. collection_cursor_matches (idf r) cursor) rows)
      in (take limit all, limit < length all))"
  using assms by (auto simp: query_page_def trim_to_page_eq page_query_limit_def Let_def min_def)

text \<open>Continuing after the last entry of a page yields exactly the entries not yet returned.\<close>

lemma strict_cut:
  assumes "sorted_wrt (\<lambda>a b. idf b < idf a) s" and "0 < n" and "n \<le> length s"
  shows "filter (\<lambda>r. idf r < (idf (last (take n s)) :: uuid)) s = drop n s"
proof -
  let ?l = "last (take n s)"
  have l: "?l = s ! (n - 1)" using assms(2,3) by (subst last_conv_nth) (auto simp: min_def)
  have less: "idf (s ! j) < idf (s ! i)" if "i < j" "j < length s" for i j
    using assms(1) that by (simp add: sorted_wrt_iff_nth_less)
  have keep: "idf r < idf ?l" if "r \<in> set (drop n s)" for r
  proof -
    obtain j where "j < length s - n" "r = s ! (n + j)"
      using \<open>r \<in> set (drop n s)\<close> by (auto simp: in_set_conv_nth)
    then show ?thesis using less [of "n - 1" "n + j"] l assms(2) by simp
  qed
  have cut: "\<not> idf r < idf ?l" if r: "r \<in> set (take n s)" for r
  proof -
    obtain i where "i < n" "r = s ! i" using r assms(3) by (auto simp: in_set_conv_nth)
    then have "idf ?l \<le> idf r"
      using less [of i "n - 1"] l assms(3) by (cases "i = n - 1") (simp_all add: less_imp_le)
    then show ?thesis by simp
  qed
  have "filter (\<lambda>r. idf r < idf ?l) (take n s @ drop n s) = drop n s"
    unfolding filter_append using keep cut by (simp add: filter_empty_conv del: append_take_drop_id)
  then show ?thesis by simp
qed

text \<open>
  A client that follows the cursors, as long as a page says that there are more; \<open>None\<close> when it
  has not come to the last page after the given number of pages.
\<close>

primrec walk_pages ::
  "nat \<Rightarrow> (collection_cursor \<Rightarrow> 'e collection_page) \<Rightarrow> collection_cursor \<Rightarrow> 'e list option" where
  "walk_pages 0 page cursor = None"
| "walk_pages (Suc n) page cursor =
     (let p = page cursor
      in if cp_has_more p
         then map_option (\<lambda>rest. cp_items p @ rest)
                (walk_pages n page (cursor\<lparr>cc_max_id := cp_last_cursor p\<rparr>))
         else Some (cp_items p))"

text \<open>
  The contract of a cursor collection: its entries have distinct identifiers, and a page holds
  the first entries, newest first, that the cursor admits, with the cursor of its last entry
  and whether there are more.
\<close>

locale paged_collection =
  fixes ok :: "'s \<Rightarrow> bool" and entries :: "'s \<Rightarrow> 'e list" and ident :: "'e \<Rightarrow> uuid"
    and page :: "'s \<Rightarrow> nat \<Rightarrow> collection_cursor \<Rightarrow> 'e collection_page"
  assumes ids_distinct: "ok s \<Longrightarrow> distinct (map ident (entries s))"
    and page_items: "ok s \<Longrightarrow> limit < u64_max \<Longrightarrow> cp_items (page s limit cursor) =
      take limit (order_by_desc ident
        (filter (\<lambda>e. collection_cursor_matches (ident e) cursor) (entries s)))"
    and page_more: "ok s \<Longrightarrow> limit < u64_max \<Longrightarrow> cp_has_more (page s limit cursor) \<longleftrightarrow>
      limit < length (filter (\<lambda>e. collection_cursor_matches (ident e) cursor) (entries s))"
    and page_last: "ok s \<Longrightarrow> limit < u64_max \<Longrightarrow>
      cp_last_cursor (page s limit cursor) = last_of ident (cp_items (page s limit cursor))"
begin

definition visible :: "'s \<Rightarrow> collection_cursor \<Rightarrow> 'e list" where
  "visible s cursor =
     order_by_desc ident (filter (\<lambda>e. collection_cursor_matches (ident e) cursor) (entries s))"

lemma visible_strict: "ok s \<Longrightarrow> sorted_wrt (\<lambda>a b. ident b < ident a) (visible s cursor)"
  unfolding visible_def by (rule order_by_desc_strict) (rule distinct_map_filter [OF ids_distinct])

lemma visible_next:
  assumes "ok s" and "0 < limit" and "limit < u64_max" and "cp_has_more (page s limit cursor)"
  shows "visible s (cursor\<lparr>cc_max_id := cp_last_cursor (page s limit cursor)\<rparr>) =
    drop limit (visible s cursor)"
proof -
  have len: "limit < length (visible s cursor)"
    using assms page_more by (simp add: visible_def)
  let ?l = "last (take limit (visible s cursor))"
  have items: "cp_items (page s limit cursor) = take limit (visible s cursor)"
    using assms page_items by (simp add: visible_def)
  then have last: "cp_last_cursor (page s limit cursor) = Some (ident ?l)"
    using assms(2) len page_last [OF assms(1,3)] by (auto simp: last_of_def)
  have "?l \<in> set (take limit (visible s cursor))"
    by (rule last_in_set) (use assms(2) len in auto)
  then have "?l \<in> set (visible s cursor)" by (rule in_set_takeD)
  then have "collection_cursor_matches (ident ?l) cursor" by (simp add: visible_def)
  then have "collection_cursor_matches i (cursor\<lparr>cc_max_id := Some (ident ?l)\<rparr>) \<longleftrightarrow>
      collection_cursor_matches i cursor \<and> i < ident ?l" for i
    by (auto simp: collection_cursor_matches_def split: option.splits)
  then have "visible s (cursor\<lparr>cc_max_id := Some (ident ?l)\<rparr>) =
      filter (\<lambda>e. ident e < ident ?l) (visible s cursor)"
    by (simp add: visible_def filter_order_by_desc)
  also have "\<dots> = drop limit (visible s cursor)"
    using visible_strict [OF assms(1)] assms(2) len by (intro strict_cut) auto
  finally show ?thesis by (simp add: last)
qed

lemma walk_visible:
  assumes "ok s" and "0 < limit" and "limit < u64_max" and "length (visible s cursor) \<le> Suc n"
  shows "walk_pages (Suc n) (page s limit) cursor = Some (visible s cursor)"
  using assms(4)
proof (induction n arbitrary: cursor)
  case 0
  then show ?case using assms page_items page_more by (simp add: visible_def)
next
  case (Suc n)
  have items: "cp_items (page s limit cursor) = take limit (visible s cursor)"
    using assms page_items by (simp add: visible_def)
  show ?case
  proof (cases "cp_has_more (page s limit cursor)")
    case True
    let ?next = "cursor\<lparr>cc_max_id := cp_last_cursor (page s limit cursor)\<rparr>"
    have next_eq: "visible s ?next = drop limit (visible s cursor)"
      by (rule visible_next [OF assms(1-3) True])
    have "walk_pages (Suc n) (page s limit) ?next = Some (visible s ?next)"
      using Suc.prems assms(2) next_eq by (intro Suc.IH) simp
    then show ?thesis
      using True items next_eq unfolding walk_pages.simps(2) [of "Suc n"] Let_def
      by (simp del: walk_pages.simps)
  next
    case False
    then have "length (visible s cursor) \<le> limit"
      using assms page_more by (simp add: visible_def)
    then show ?thesis using False items by simp
  qed
qed

end

subsection \<open>Merged pages satisfy the contract\<close>

text \<open>The entries of a merged page before the cursor is applied.\<close>

definition all_entries ::
  "db \<Rightarrow> 'l list \<Rightarrow> 'm list \<Rightarrow> ('l \<Rightarrow> uuid \<times> uuid) \<Rightarrow> ('m \<Rightarrow> uuid \<times> uuid) \<Rightarrow>
     follow_collection_entry list" where
  "all_entries d local remote local_id remote_id =
     local_entries d no_cursor local_id local @ remote_entries d no_cursor remote_id remote"

lemma no_cursor_matches [simp]: "collection_cursor_matches i no_cursor"
  by (simp add: collection_cursor_matches_def no_cursor_def)

lemma local_entries_cursor:
  "local_entries d cursor local_id local =
     filter (\<lambda>e. collection_cursor_matches (fce_id e) cursor) (local_entries d no_cursor local_id local)"
  by (induction local) (auto simp: local_entries_def List.map_filter_simps split: option.splits prod.splits)

lemma remote_entries_cursor:
  "remote_entries d cursor remote_id remote =
     filter (\<lambda>e. collection_cursor_matches (fce_id e) cursor) (remote_entries d no_cursor remote_id remote)"
  by (induction remote) (auto simp: remote_entries_def List.map_filter_simps split: option.splits prod.splits)

lemma follow_collection_page_spec:
  fixes d local remote limit cursor local_id remote_id
  defines "vis \<equiv> filter (\<lambda>e. collection_cursor_matches (fce_id e) cursor)
      (all_entries d local remote local_id remote_id)"
    and "page \<equiv> follow_collection_page d local remote limit cursor local_id remote_id"
  shows "cp_items page = take limit (order_by_desc fce_id vis)"
    and "cp_has_more page \<longleftrightarrow> limit < length vis"
    and "cp_last_cursor page = last_of fce_id (cp_items page)"
proof -
  have vis: "local_entries d cursor local_id local @ remote_entries d cursor remote_id remote = vis"
    using local_entries_cursor [of d cursor local_id local]
      remote_entries_cursor [of d cursor remote_id remote]
    by (simp add: all_entries_def vis_def)
  show "cp_items page = take limit (order_by_desc fce_id vis)"
    and "cp_has_more page \<longleftrightarrow> limit < length vis"
    and "cp_last_cursor page = last_of fce_id (cp_items page)"
    unfolding page_def follow_collection_page_def Let_def vis trim_to_page_eq by simp_all
qed

interpretation merged: paged_collection
  "\<lambda>(d, local, remote). distinct (map fce_id (all_entries d local remote local_id remote_id))"
  "\<lambda>(d, local, remote). all_entries d local remote local_id remote_id"
  fce_id
  "\<lambda>(d, local, remote) limit cursor. follow_collection_page d local remote limit cursor local_id remote_id"
  for local_id remote_id
  by unfold_locales (auto simp: follow_collection_page_spec)

text \<open>
  Walking a merged page by its cursors returns every entry exactly once, newest first.
\<close>

lemma follow_collection_walk:
  assumes "distinct (map fce_id (all_entries d local remote local_id remote_id))"
    and "0 < limit" and "limit < u64_max"
    and "max 1 (length (all_entries d local remote local_id remote_id)) \<le> n"
  shows "walk_pages n
      (\<lambda>cursor. follow_collection_page d local remote limit cursor local_id remote_id) no_cursor =
    Some (order_by_desc fce_id (all_entries d local remote local_id remote_id))"
proof -
  obtain k where "n = Suc k" using assms(4) by (cases n) auto
  then show ?thesis
    using merged.walk_visible [of local_id remote_id "(d, local, remote)" limit no_cursor k] assms
    by (simp add: merged.visible_def del: walk_pages.simps)
qed

subsection \<open>Lookups by identifier\<close>

lemma remove_in_order_mem: "r \<in> set (remove_in_order idf is m) \<Longrightarrow> r \<in> set m \<and> idf r \<in> set is"
proof (induction idf "is" m rule: remove_in_order.induct)
  case (2 idf i "is" m)
  then show ?case by (auto split: option.splits dest: find_Some_mem)
qed simp

end
