(* ===== verification/Roosty_Lists.thy ===== *)
theory Roosty_Lists
  imports Roosty_Pagination "HOL-Library.Product_Lexorder"
begin

text \<open>
  Private lists of \<^verbatim>\<open>src/crates/db/src/lib.rs\<close> (lines 18650-19040): lists of an
  owner, their local and remote members, and the merged cursor page of members. A list may
  only contain accounts its owner follows; this theory has the operations, and
  \<open>Roosty_Relation_Invariants\<close> shows which operations keep that promise.
\<close>

subsection \<open>Foreign keys\<close>

definition fk_local :: "db \<Rightarrow> uuid \<Rightarrow> bool" where
  "fk_local d i \<longleftrightarrow> list_ex (\<lambda>a. la_id a = i) (t_local_account d)"

definition fk_remote :: "db \<Rightarrow> uuid \<Rightarrow> bool" where
  "fk_remote d i \<longleftrightarrow> list_ex (\<lambda>a. ra_id a = i) (t_remote_actor d)"

text \<open>
  A row that passes the unique indexes is then checked against its foreign keys.
\<close>

definition with_fk :: "bool \<Rightarrow> db_err + 'a \<Rightarrow> 'a result" where
  "with_fk fk ins =
     (case ins of
        Inl e \<Rightarrow> Inl (Database e)
      | Inr t \<Rightarrow> if fk then Inr t else Inl (Database ForeignKeyViolation))"

lemma with_fk_Inr [simp]: "with_fk fk ins = Inr t \<longleftrightarrow> fk \<and> ins = Inr t"
  by (auto simp: with_fk_def split: sum.splits)

subsection \<open>Lists\<close>

definition owned_list_ids :: "db \<Rightarrow> uuid \<Rightarrow> uuid list" where
  "owned_list_ids d owner = map ll_id (filter (\<lambda>l. ll_account_id l = owner) (t_local_list d))"

definition remove_local_account_from_owned_lists :: "uuid \<Rightarrow> uuid \<Rightarrow> db \<Rightarrow> db" where
  "remove_local_account_from_owned_lists owner member d =
     d\<lparr>t_list_local_member :=
         tbl_delete (\<lambda>m. llm_account_id m = member \<and> llm_list_id m \<in> set (owned_list_ids d owner))
           (t_list_local_member d)\<rparr>"

definition remove_remote_account_from_owned_lists :: "uuid \<Rightarrow> uuid \<Rightarrow> db \<Rightarrow> db" where
  "remove_remote_account_from_owned_lists owner member d =
     d\<lparr>t_list_remote_member :=
         tbl_delete (\<lambda>m. lrem_remote_actor_id m = member \<and>
                         lrem_list_id m \<in> set (owned_list_ids d owner))
           (t_list_remote_member d)\<rparr>"

definition local_lists_for_account :: "db \<Rightarrow> uuid \<Rightarrow> local_list_row list" where
  "local_lists_for_account d account =
     tbl_order (\<lambda>l. (ll_created_at l, ll_id l))
       (filter (\<lambda>l. ll_account_id l = account) (t_local_list d))"

definition find_owned_local_list :: "db \<Rightarrow> uuid \<Rightarrow> uuid \<Rightarrow> local_list_row option" where
  "find_owned_local_list d account list_id =
     List.find (\<lambda>l. ll_id l = list_id \<and> ll_account_id l = account) (t_local_list d)"

text \<open>\<open>CHECK (length(btrim(title)) > 0)\<close>; \<open>btrim\<close> strips spaces only.\<close>

definition list_title_ok :: "ustring \<Rightarrow> bool" where
  "list_title_ok title \<longleftrightarrow> list_ex (\<lambda>c. c \<noteq> 32) title"

definition create_local_list ::
  "uuid \<Rightarrow> instant \<Rightarrow> uuid \<Rightarrow> ustring \<Rightarrow> list_replies_policy \<Rightarrow> bool \<Rightarrow> db \<Rightarrow>
     (db \<times> local_list_row) result" where
  "create_local_list new_id pg_now account title policy exclusive d =
     (let row = \<lparr> ll_id = new_id, ll_account_id = account, ll_title = title,
                  ll_replies_policy = policy, ll_exclusive = exclusive,
                  ll_created_at = pg_now, ll_updated_at = pg_now \<rparr>
      in if \<not> list_title_ok title then Inl (Database CheckViolation)
         else bind_res (with_fk (fk_local d account) (tbl_insert ll_conflict row (t_local_list d)))
                (\<lambda>t. Inr (d\<lparr>t_local_list := t\<rparr>, row)))"

definition update_local_list ::
  "instant \<Rightarrow> uuid \<Rightarrow> uuid \<Rightarrow> ustring \<Rightarrow> list_replies_policy \<Rightarrow> bool \<Rightarrow> db \<Rightarrow>
     (db \<times> local_list_row option) result" where
  "update_local_list now account list_id title policy exclusive d =
     (case find_owned_local_list d account list_id of
        None \<Rightarrow> Inr (d, None)
      | Some l \<Rightarrow>
          if \<not> list_title_ok title then Inl (Database CheckViolation) else
          let l' = l\<lparr>ll_title := title, ll_replies_policy := policy, ll_exclusive := exclusive,
                     ll_updated_at := now\<rparr>
          in Inr (d\<lparr>t_local_list := tbl_update (\<lambda>r. ll_id r = ll_id l)
                  (\<lambda>r. r\<lparr>ll_title := title, ll_replies_policy := policy,
                          ll_exclusive := exclusive, ll_updated_at := now\<rparr>) (t_local_list d)\<rparr>,
              Some l'))"

text \<open>Deleting a list deletes its memberships: both foreign keys cascade.\<close>

definition delete_local_list :: "uuid \<Rightarrow> uuid \<Rightarrow> db \<Rightarrow> db \<times> bool" where
  "delete_local_list account list_id d =
     (let p = (\<lambda>l. ll_id l = list_id \<and> ll_account_id l = account);
          gone = map ll_id (filter p (t_local_list d))
      in (d\<lparr>t_local_list := tbl_delete p (t_local_list d),
            t_list_local_member :=
              tbl_delete (\<lambda>m. llm_list_id m \<in> set gone) (t_list_local_member d),
            t_list_remote_member :=
              tbl_delete (\<lambda>m. lrem_list_id m \<in> set gone) (t_list_remote_member d)\<rparr>,
          rows_affected p (t_local_list d) = 1))"

definition local_lists_containing_account :: "db \<Rightarrow> uuid \<Rightarrow> uuid \<Rightarrow> local_list_row list" where
  "local_lists_containing_account d owner member =
     (let ids = map llm_list_id (filter (\<lambda>m. llm_account_id m = member) (t_list_local_member d)) @
                map lrem_list_id (filter (\<lambda>m. lrem_remote_actor_id m = member) (t_list_remote_member d))
      in if ids = [] then []
         else tbl_order (\<lambda>l. (ll_created_at l, ll_id l))
                (filter (\<lambda>l. ll_account_id l = owner \<and> ll_id l \<in> set ids) (t_local_list d)))"

subsection \<open>Members\<close>

datatype list_member_reference = LocalMember uuid uuid | RemoteMember uuid uuid

primrec list_member_cursor :: "list_member_reference \<Rightarrow> uuid" where
  "list_member_cursor (LocalMember c _) = c"
| "list_member_cursor (RemoteMember c _) = c"

datatype list_account = LocalListAccount local_account_row | RemoteListAccount remote_actor_row

definition limited :: "nat option \<Rightarrow> 'a list \<Rightarrow> 'a list" where
  "limited limit xs = (case limit of None \<Rightarrow> xs | Some n \<Rightarrow> take n xs)"

definition list_references ::
  "db \<Rightarrow> uuid \<Rightarrow> nat option \<Rightarrow> collection_cursor \<Rightarrow> list_member_reference list" where
  "list_references d list_id limit cursor =
     (let query_limit = map_option page_query_limit limit;
          local_rows = limited query_limit (order_by_desc llm_id
            (apply_collection_cursor llm_id cursor
              (filter (\<lambda>m. llm_list_id m = list_id) (t_list_local_member d))));
          remote_rows = limited query_limit (order_by_desc lrem_id
            (apply_collection_cursor lrem_id cursor
              (filter (\<lambda>m. lrem_list_id m = list_id) (t_list_remote_member d))))
      in order_by_desc list_member_cursor
           (map (\<lambda>m. LocalMember (llm_id m) (llm_account_id m)) local_rows @
            map (\<lambda>m. RemoteMember (lrem_id m) (lrem_remote_actor_id m)) remote_rows))"

definition list_member_account :: "db \<Rightarrow> list_member_reference \<Rightarrow> list_account option" where
  "list_member_account d m =
     (case m of
        LocalMember _ i \<Rightarrow> map_option LocalListAccount (find_local_account_by_id d i)
      | RemoteMember _ i \<Rightarrow> map_option RemoteListAccount (find_remote_actor_by_id d i))"

definition local_list_accounts ::
  "db \<Rightarrow> uuid \<Rightarrow> uuid \<Rightarrow> nat option \<Rightarrow> collection_cursor \<Rightarrow> list_account collection_page option" where
  "local_list_accounts d owner list_id limit cursor =
     (case find_owned_local_list d owner list_id of
        None \<Rightarrow> None
      | Some _ \<Rightarrow>
          let all = list_references d list_id limit cursor;
              references = limited limit all
          in Some \<lparr> cp_items = List.map_filter (list_member_account d) references,
                    cp_first_cursor = first_of list_member_cursor references,
                    cp_last_cursor = last_of list_member_cursor references,
                    cp_has_more = (case limit of None \<Rightarrow> False | Some n \<Rightarrow> n < length all) \<rparr>)"

datatype add_list_accounts_result = Added | ListNotFound | AccountNotFollowed | AlreadyPresent

definition follows_locally :: "db \<Rightarrow> uuid \<Rightarrow> uuid \<Rightarrow> bool" where
  "follows_locally d a b \<longleftrightarrow> (\<exists>f \<in> set (t_local_follow d). lf_key f = (a, b))"

definition rg_active :: "remote_following_row \<Rightarrow> bool" where
  "rg_active g \<longleftrightarrow> rg_state g = Accepted \<and> rg_deactivated_at g = None"

definition follows_remotely :: "db \<Rightarrow> uuid \<Rightarrow> uuid \<Rightarrow> bool" where
  "follows_remotely d a r \<longleftrightarrow> (\<exists>g \<in> set (t_remote_following d). rg_key g = (a, r) \<and> rg_active g)"

text \<open>
  The insertion loop over the set of requested accounts, with an identifier drawn for each.
  \<open>ids\<close> is the iteration order of the hash set.
\<close>

fun insert_list_members ::
  "instant \<Rightarrow> uuid \<Rightarrow> uuid set \<Rightarrow> (uuid \<times> uuid) list \<Rightarrow> db \<Rightarrow> db result" where
  "insert_list_members pg_now list_id local_followed [] d = Inr d"
| "insert_list_members pg_now list_id local_followed ((new_id, i) # rest) d =
     bind_res
       (if i \<in> local_followed
        then bind_res
               (with_fk (fk_local d i)
                 (tbl_insert llm_conflict
                   \<lparr> llm_id = new_id, llm_list_id = list_id, llm_account_id = i,
                     llm_created_at = pg_now \<rparr> (t_list_local_member d)))
               (\<lambda>t. Inr (d\<lparr>t_list_local_member := t\<rparr>))
        else bind_res
               (with_fk (fk_remote d i)
                 (tbl_insert lrem_conflict
                   \<lparr> lrem_id = new_id, lrem_list_id = list_id, lrem_remote_actor_id = i,
                     lrem_created_at = pg_now \<rparr> (t_list_remote_member d)))
               (\<lambda>t. Inr (d\<lparr>t_list_remote_member := t\<rparr>)))
       (insert_list_members pg_now list_id local_followed rest)"

definition add_local_list_accounts ::
  "(uuid \<Rightarrow> uuid) \<Rightarrow> instant \<Rightarrow> uuid \<Rightarrow> uuid \<Rightarrow> uuid list \<Rightarrow> db \<Rightarrow>
     (db \<times> add_list_accounts_result) result" where
  "add_local_list_accounts new_id pg_now owner list_id account_ids d =
     (if find_owned_local_list d owner list_id = None then Inr (d, ListNotFound)
      else
        let ids = remdups account_ids;
            local_followed = lf_followed_account_id `
              {f \<in> set (t_local_follow d). lf_follower_account_id f = owner \<and>
                 lf_followed_account_id f \<in> set ids};
            remote_followed = rg_remote_actor_id `
              {g \<in> set (t_remote_following d). rg_local_account_id g = owner \<and>
                 rg_remote_actor_id g \<in> set ids \<and> rg_state g = Accepted \<and>
                 rg_deactivated_at g = None}
        in if list_ex (\<lambda>i. i \<notin> local_followed \<and> i \<notin> remote_followed) ids
           then Inr (d, AccountNotFollowed)
           else if 0 < rows_affected (\<lambda>m. llm_list_id m = list_id \<and> llm_account_id m \<in> set ids)
                         (t_list_local_member d) +
                       rows_affected (\<lambda>m. lrem_list_id m = list_id \<and>
                                          lrem_remote_actor_id m \<in> set ids)
                         (t_list_remote_member d)
           then Inr (d, AlreadyPresent)
           else bind_res
                  (insert_list_members pg_now list_id local_followed
                    (map (\<lambda>i. (new_id i, i)) ids) d)
                  (\<lambda>d'. Inr (d', Added)))"

definition remove_local_list_accounts :: "uuid \<Rightarrow> uuid \<Rightarrow> uuid list \<Rightarrow> db \<Rightarrow> db \<times> bool" where
  "remove_local_list_accounts owner list_id account_ids d =
     (if find_owned_local_list d owner list_id = None then (d, False)
      else
        (d\<lparr>t_list_local_member :=
             tbl_delete (\<lambda>m. llm_list_id m = list_id \<and> llm_account_id m \<in> set account_ids)
               (t_list_local_member d),
           t_list_remote_member :=
             tbl_delete (\<lambda>m. lrem_list_id m = list_id \<and> lrem_remote_actor_id m \<in> set account_ids)
               (t_list_remote_member d)\<rparr>,
         True))"

end
