(* ===== verification/Roosty_Relations.thy ===== *)
theory Roosty_Relations
  imports Roosty_Lists
begin

text \<open>
  Relations between local accounts (\<^verbatim>\<open>src/crates/db/src/lib.rs\<close>, lines 8544-9000 and
  9539-9556): follows, blocks and mutes, and the visibility decisions built on them. Each
  operation is one transaction of its handler and is modelled as one state change; the two
  halves of \<open>follow_local_account\<close>, its checks and its write, are separate definitions,
  since the handler takes no lock between them.
\<close>

subsection \<open>Queries\<close>

definition find_local_follow :: "db \<Rightarrow> uuid \<Rightarrow> uuid \<Rightarrow> local_follow_row option" where
  "find_local_follow d follower followed =
     List.find (\<lambda>f. lf_key f = (follower, followed)) (t_local_follow d)"

definition local_follow_relationship :: "db \<Rightarrow> uuid \<Rightarrow> uuid \<Rightarrow> local_follow_row option" where
  "local_follow_relationship d follower followed = find_local_follow d follower followed"

definition local_follower_ids_for_account :: "db \<Rightarrow> uuid \<Rightarrow> bool \<Rightarrow> uuid list" where
  "local_follower_ids_for_account d account include_reblog_muted =
     map lf_follower_account_id
       (filter (\<lambda>f. lf_followed_account_id f = account \<and>
                    (include_reblog_muted \<or> lf_show_reblogs f)) (t_local_follow d))"

definition local_notified_follower_ids_for_account :: "db \<Rightarrow> uuid \<Rightarrow> uuid list" where
  "local_notified_follower_ids_for_account d account =
     map lf_follower_account_id
       (filter (\<lambda>f. lf_followed_account_id f = account \<and> lf_notify f) (t_local_follow d))"

definition local_account_blocks :: "db \<Rightarrow> uuid \<Rightarrow> uuid \<Rightarrow> bool" where
  "local_account_blocks d account target \<longleftrightarrow>
     List.find (\<lambda>b. lab_key b = (account, target)) (t_local_account_block d) \<noteq> None"

definition local_accounts_are_blocked :: "db \<Rightarrow> uuid \<Rightarrow> uuid \<Rightarrow> bool" where
  "local_accounts_are_blocked d first second =
     (if first = second then False
      else List.find (\<lambda>b. lab_account_id b = first \<and> lab_target_account_id b = second \<or>
                          lab_account_id b = second \<and> lab_target_account_id b = first)
             (t_local_account_block d) \<noteq> None)"

text \<open>\<open>expires_at IS NULL OR expires_at > now\<close>.\<close>

definition unexpired :: "instant \<Rightarrow> instant option \<Rightarrow> bool" where
  "unexpired now e = (case e of None \<Rightarrow> True | Some t \<Rightarrow> now < t)"

definition active_local_account_mute ::
  "instant \<Rightarrow> db \<Rightarrow> uuid \<Rightarrow> uuid \<Rightarrow> local_account_mute_row option" where
  "active_local_account_mute now d account target =
     List.find (\<lambda>m. lam_key m = (account, target) \<and> unexpired now (lam_expires_at m))
       (t_local_account_mute d)"

definition local_account_is_hidden_for_viewer :: "instant \<Rightarrow> db \<Rightarrow> uuid \<Rightarrow> uuid \<Rightarrow> bool" where
  "local_account_is_hidden_for_viewer now d viewer target \<longleftrightarrow>
     local_accounts_are_blocked d viewer target \<or>
     active_local_account_mute now d viewer target \<noteq> None"

definition local_account_allows_notification :: "instant \<Rightarrow> db \<Rightarrow> uuid \<Rightarrow> uuid \<Rightarrow> bool" where
  "local_account_allows_notification now d recipient actor =
     (if local_accounts_are_blocked d recipient actor then False
      else \<not> (case active_local_account_mute now d recipient actor of
                 None \<Rightarrow> False | Some m \<Rightarrow> lam_notifications m))"

definition blocked_local_account_ids_for_account :: "db \<Rightarrow> uuid \<Rightarrow> uuid list" where
  "blocked_local_account_ids_for_account d account =
     map (\<lambda>b. if lab_account_id b = account then lab_target_account_id b else lab_account_id b)
       (filter (\<lambda>b. lab_account_id b = account \<or> lab_target_account_id b = account)
         (t_local_account_block d))"

definition hidden_local_account_ids_for_account :: "instant \<Rightarrow> db \<Rightarrow> uuid \<Rightarrow> uuid list" where
  "hidden_local_account_ids_for_account now d account =
     sort_dedup
       (blocked_local_account_ids_for_account d account @
        map lam_target_account_id
          (filter (\<lambda>m. lam_account_id m = account \<and> unexpired now (lam_expires_at m))
            (t_local_account_mute d)))"

definition muted_local_accounts_for_account ::
  "instant \<Rightarrow> db \<Rightarrow> uuid \<Rightarrow> nat \<Rightarrow> collection_cursor \<Rightarrow> local_account_row collection_page" where
  "muted_local_accounts_for_account now d account limit cursor =
     (let (rows, has_more) = query_page lam_id cursor limit
            (filter (\<lambda>m. lam_account_id m = account \<and> unexpired now (lam_expires_at m))
              (t_local_account_mute d))
      in \<lparr> cp_items = local_accounts_by_id d (map lam_target_account_id rows),
           cp_first_cursor = first_of lam_id rows, cp_last_cursor = last_of lam_id rows,
           cp_has_more = has_more \<rparr>)"

definition blocked_local_accounts_for_account ::
  "db \<Rightarrow> uuid \<Rightarrow> nat \<Rightarrow> collection_cursor \<Rightarrow> local_account_row collection_page" where
  "blocked_local_accounts_for_account d account limit cursor =
     (let (rows, has_more) = query_page lab_id cursor limit
            (filter (\<lambda>b. lab_account_id b = account) (t_local_account_block d))
      in \<lparr> cp_items = local_accounts_by_id d (map lab_target_account_id rows),
           cp_first_cursor = first_of lab_id rows, cp_last_cursor = last_of lab_id rows,
           cp_has_more = has_more \<rparr>)"

subsection \<open>Following\<close>

definition follow_checks :: "uuid \<Rightarrow> uuid \<Rightarrow> db \<Rightarrow> unit result" where
  "follow_checks follower followed d =
     (if follower = followed then Inl (AccountRelationship SelfFollow)
      else if find_local_account_by_id d followed = None
      then Inl (AccountRelationship FollowTargetNotFound)
      else if local_accounts_are_blocked d follower followed
      then Inl (AccountRelationship FollowBlocked)
      else Inr ())"

definition follow_write ::
  "uuid \<Rightarrow> instant \<Rightarrow> uuid \<Rightarrow> uuid \<Rightarrow> bool \<Rightarrow> bool \<Rightarrow> db \<Rightarrow> (db \<times> local_follow_row) result" where
  "follow_write new_id now follower followed show_reblogs notify d =
     (case find_local_follow d follower followed of
        Some f \<Rightarrow>
          let upd = (\<lambda>r. r\<lparr>lf_show_reblogs := show_reblogs, lf_notify := notify,
                            lf_updated_at := now\<rparr>)
          in Inr (d\<lparr>t_local_follow := tbl_update (\<lambda>r. lf_key r = lf_key f) upd (t_local_follow d)\<rparr>,
                  upd f)
      | None \<Rightarrow>
          let row = \<lparr> lf_id = new_id, lf_follower_account_id = follower,
                      lf_followed_account_id = followed, lf_show_reblogs = show_reblogs,
                      lf_notify = notify, lf_created_at = now, lf_updated_at = now \<rparr>
          in bind_res (with_fk (fk_local d follower \<and> fk_local d followed)
                         (tbl_insert lf_conflict row (t_local_follow d)))
               (\<lambda>t. Inr (d\<lparr>t_local_follow := t\<rparr>, row)))"

definition follow_local_account ::
  "uuid \<Rightarrow> instant \<Rightarrow> uuid \<Rightarrow> uuid \<Rightarrow> bool \<Rightarrow> bool \<Rightarrow> db \<Rightarrow> (db \<times> local_follow_row) result" where
  "follow_local_account new_id now follower followed show_reblogs notify d =
     bind_res (follow_checks follower followed d)
       (\<lambda>_. follow_write new_id now follower followed show_reblogs notify d)"

definition unfollow_local_account :: "uuid \<Rightarrow> uuid \<Rightarrow> db \<Rightarrow> db" where
  "unfollow_local_account follower followed d =
     (let d = remove_local_account_from_owned_lists follower followed d
      in case find_local_follow d follower followed of
           Some f \<Rightarrow> d\<lparr>t_local_follow := tbl_delete (\<lambda>r. lf_key r = lf_key f) (t_local_follow d)\<rparr>
         | None \<Rightarrow> d)"

subsection \<open>Blocking and muting\<close>

definition ensure_local_relation_target :: "uuid \<Rightarrow> uuid \<Rightarrow> db \<Rightarrow> unit result" where
  "ensure_local_relation_target account target d =
     (if account = target then Inl (AccountRelationship SelfModeration)
      else if find_local_account_by_id d target = None
      then Inl (AccountRelationship ModerationTargetNotFound)
      else Inr ())"

definition insert_local_block :: "uuid \<Rightarrow> instant \<Rightarrow> uuid \<Rightarrow> uuid \<Rightarrow> db \<Rightarrow> db result" where
  "insert_local_block new_id now account target d =
     (if local_account_blocks d account target then Inr d
      else bind_res
             (with_fk (fk_local d account \<and> fk_local d target)
               (tbl_insert lab_conflict
                 \<lparr> lab_id = new_id, lab_account_id = account, lab_target_account_id = target,
                   lab_created_at = now, lab_updated_at = now \<rparr> (t_local_account_block d)))
             (\<lambda>t. Inr (d\<lparr>t_local_account_block := t\<rparr>)))"

definition delete_local_follows :: "uuid \<Rightarrow> uuid \<Rightarrow> db \<Rightarrow> db" where
  "delete_local_follows follower followed d =
     d\<lparr>t_local_follow :=
         tbl_delete (\<lambda>f. lf_follower_account_id f = follower \<and> lf_followed_account_id f = followed)
           (t_local_follow d)\<rparr>"

definition block_local_account :: "uuid \<Rightarrow> instant \<Rightarrow> uuid \<Rightarrow> uuid \<Rightarrow> db \<Rightarrow> db result" where
  "block_local_account new_id now account target d =
     bind_res (ensure_local_relation_target account target d) (\<lambda>_.
     bind_res (insert_local_block new_id now account target d) (\<lambda>d.
       Inr (remove_local_account_from_owned_lists target account
             (remove_local_account_from_owned_lists account target
               (delete_local_follows target account (delete_local_follows account target d))))))"

definition unblock_local_account :: "uuid \<Rightarrow> uuid \<Rightarrow> db \<Rightarrow> db" where
  "unblock_local_account account target d =
     (case List.find (\<lambda>b. lab_key b = (account, target)) (t_local_account_block d) of
        Some b \<Rightarrow> d\<lparr>t_local_account_block :=
                     tbl_delete (\<lambda>r. lab_key r = lab_key b) (t_local_account_block d)\<rparr>
      | None \<Rightarrow> d)"

definition mute_expiry :: "instant \<Rightarrow> nat \<Rightarrow> instant option result" where
  "mute_expiry now duration_seconds =
     (if duration_seconds = 0 then Inr None
      else if i64_max < int duration_seconds
      then Inl (InvalidInput ''mute duration is too large'')
      else bind_res (checked_add_seconds now (int duration_seconds)) (\<lambda>t. Inr (Some t)))"

definition mute_local_account ::
  "uuid \<Rightarrow> instant \<Rightarrow> uuid \<Rightarrow> uuid \<Rightarrow> bool \<Rightarrow> nat \<Rightarrow> db \<Rightarrow> (db \<times> local_account_mute_row) result" where
  "mute_local_account new_id now account target notifications duration_seconds d =
     bind_res (ensure_local_relation_target account target d) (\<lambda>_.
     bind_res (mute_expiry now duration_seconds) (\<lambda>expires_at.
       case List.find (\<lambda>m. lam_key m = (account, target)) (t_local_account_mute d) of
         Some m \<Rightarrow>
           let upd = (\<lambda>r. r\<lparr>lam_notifications := notifications, lam_expires_at := expires_at,
                             lam_updated_at := now\<rparr>)
           in Inr (d\<lparr>t_local_account_mute :=
                       tbl_update (\<lambda>r. lam_key r = lam_key m) upd (t_local_account_mute d)\<rparr>, upd m)
       | None \<Rightarrow>
           let row = \<lparr> lam_id = new_id, lam_account_id = account, lam_target_account_id = target,
                       lam_notifications = notifications, lam_expires_at = expires_at,
                       lam_created_at = now, lam_updated_at = now \<rparr>
           in bind_res (with_fk (fk_local d account \<and> fk_local d target)
                          (tbl_insert lam_conflict row (t_local_account_mute d)))
                (\<lambda>t. Inr (d\<lparr>t_local_account_mute := t\<rparr>, row))))"

definition unmute_local_account :: "uuid \<Rightarrow> uuid \<Rightarrow> db \<Rightarrow> db" where
  "unmute_local_account account target d =
     (case List.find (\<lambda>m. lam_key m = (account, target)) (t_local_account_mute d) of
        Some m \<Rightarrow> d\<lparr>t_local_account_mute :=
                     tbl_delete (\<lambda>r. lam_key r = lam_key m) (t_local_account_mute d)\<rparr>
      | None \<Rightarrow> d)"

end
