(* ===== verification/Roosty_Remote.thy ===== *)
theory Roosty_Remote
  imports Roosty_Relations Roosty_Job_Queue
begin

text \<open>
  Relations between local accounts and remote actors (\<^verbatim>\<open>src/crates/db/src/lib.rs\<close>):
  inbound follows (6621-6919), outbound follows and actor moves (2780-3010, 3813-3880),
  relationship collections (3070-3256, 9486-9536), blocks and mutes in both directions
  (9006-9483), and the inbox replay register (6926-6985). Operations on one pair are
  serialized by an advisory lock, so each is one state change. Delivery jobs are written in
  the same transaction. \<open>id_string\<close> is \<open>Uuid::to_string\<close>.
\<close>

subsection \<open>Queries\<close>

definition find_local_remote_account_block ::
  "db \<Rightarrow> uuid \<Rightarrow> uuid \<Rightarrow> local_remote_account_block_row option" where
  "find_local_remote_account_block d account actor =
     List.find (\<lambda>b. lrb_key b = (account, actor)) (t_local_remote_account_block d)"

definition remote_actor_blocks_local_account :: "db \<Rightarrow> uuid \<Rightarrow> uuid \<Rightarrow> bool" where
  "remote_actor_blocks_local_account d actor account \<longleftrightarrow>
     List.find (\<lambda>b. rlb_key b = (actor, account)) (t_remote_local_account_block d) \<noteq> None"

definition local_remote_accounts_are_blocked :: "db \<Rightarrow> uuid \<Rightarrow> uuid \<Rightarrow> bool" where
  "local_remote_accounts_are_blocked d account actor \<longleftrightarrow>
     find_local_remote_account_block d account actor \<noteq> None \<or>
     List.find (\<lambda>b. rlb_key b = (actor, account)) (t_remote_local_account_block d) \<noteq> None"

definition active_local_remote_account_mute ::
  "instant \<Rightarrow> db \<Rightarrow> uuid \<Rightarrow> uuid \<Rightarrow> local_remote_account_mute_row option" where
  "active_local_remote_account_mute now d account actor =
     List.find (\<lambda>m. lrm_key m = (account, actor) \<and> unexpired now (lrm_expires_at m))
       (t_local_remote_account_mute d)"

definition blocked_remote_actor_ids_for_local_account ::
  "db \<Rightarrow> uuid \<Rightarrow> uuid list \<Rightarrow> uuid set" where
  "blocked_remote_actor_ids_for_local_account d account actor_ids =
     (if actor_ids = [] then {}
      else set (map lrb_remote_actor_id
                  (filter (\<lambda>b. lrb_local_account_id b = account \<and>
                               lrb_remote_actor_id b \<in> set actor_ids)
                    (t_local_remote_account_block d)) @
                map rlb_remote_actor_id
                  (filter (\<lambda>b. rlb_local_account_id b = account \<and>
                               rlb_remote_actor_id b \<in> set actor_ids)
                    (t_remote_local_account_block d))))"

definition remote_account_is_hidden_for_viewer :: "instant \<Rightarrow> db \<Rightarrow> uuid \<Rightarrow> uuid \<Rightarrow> bool" where
  "remote_account_is_hidden_for_viewer now d viewer actor \<longleftrightarrow>
     find_local_remote_account_block d viewer actor \<noteq> None \<or>
     active_local_remote_account_mute now d viewer actor \<noteq> None"

definition hidden_remote_actor_ids_for_account :: "instant \<Rightarrow> db \<Rightarrow> uuid \<Rightarrow> uuid list" where
  "hidden_remote_actor_ids_for_account now d account =
     sort_dedup
       (map lrb_remote_actor_id
          (filter (\<lambda>b. lrb_local_account_id b = account) (t_local_remote_account_block d)) @
        map lrm_remote_actor_id
          (filter (\<lambda>m. lrm_local_account_id m = account \<and> unexpired now (lrm_expires_at m))
            (t_local_remote_account_mute d)))"

definition remote_account_allows_notification :: "instant \<Rightarrow> db \<Rightarrow> uuid \<Rightarrow> uuid \<Rightarrow> bool" where
  "remote_account_allows_notification now d recipient actor =
     (if local_remote_accounts_are_blocked d recipient actor then False
      else \<not> (case active_local_remote_account_mute now d recipient actor of
                 None \<Rightarrow> False | Some m \<Rightarrow> lrm_notifications m))"

definition find_remote_local_block_by_activity :: "db \<Rightarrow> uuid \<Rightarrow> string \<Rightarrow> uuid option" where
  "find_remote_local_block_by_activity d actor activity_id =
     map_option rlb_local_account_id
       (List.find (\<lambda>b. rlb_remote_actor_id b = actor \<and> rlb_activity_id b = activity_id)
         (t_remote_local_account_block d))"

definition remote_actor_follows_local_account :: "db \<Rightarrow> uuid \<Rightarrow> uuid \<Rightarrow> bool" where
  "remote_actor_follows_local_account d actor account \<longleftrightarrow>
     list_ex (\<lambda>f. rf_remote_actor_id f = actor \<and> rf_local_account_id f = account \<and>
                  rf_state f = Accepted) (t_remote_follow d)"

definition local_private_status_visible_to_remote_actor ::
  "db \<Rightarrow> local_status_row \<Rightarrow> uuid \<Rightarrow> bool" where
  "local_private_status_visible_to_remote_actor d status actor =
     (if ls_visibility status \<noteq> Private
      then ls_visibility status = Public \<or> ls_visibility status = Unlisted
      else if List.find (\<lambda>f. rf_remote_actor_id f = actor \<and>
                             rf_local_account_id f = ls_account_id status \<and>
                             rf_state f = Accepted) (t_remote_follow d) \<noteq> None
      then True
      else List.find (\<lambda>m. srm_status_id m = ls_id status \<and> srm_remote_actor_id m = actor)
             (t_status_remote_mention d) \<noteq> None)"

definition find_remote_following :: "db \<Rightarrow> uuid \<Rightarrow> uuid \<Rightarrow> remote_following_row option" where
  "find_remote_following d account actor =
     List.find (\<lambda>g. rg_local_account_id g = account \<and> rg_remote_actor_id g = actor \<and>
                    rg_deactivated_at g = None) (t_remote_following d)"

subsection \<open>Relationship collections\<close>

definition followers_for_local_account ::
  "db \<Rightarrow> uuid \<Rightarrow> nat \<Rightarrow> collection_cursor \<Rightarrow> follow_collection_entry collection_page" where
  "followers_for_local_account d account limit cursor =
     follow_collection_page d
       (filter (\<lambda>f. lf_followed_account_id f = account) (t_local_follow d))
       (filter (\<lambda>f. rf_local_account_id f = account \<and> rf_state f = Accepted) (t_remote_follow d))
       limit cursor
       (\<lambda>f. (lf_id f, lf_follower_account_id f)) (\<lambda>f. (rf_id f, rf_remote_actor_id f))"

definition following_for_local_account ::
  "db \<Rightarrow> uuid \<Rightarrow> nat \<Rightarrow> collection_cursor \<Rightarrow> follow_collection_entry collection_page" where
  "following_for_local_account d account limit cursor =
     follow_collection_page d
       (filter (\<lambda>f. lf_follower_account_id f = account) (t_local_follow d))
       (filter (\<lambda>g. rg_local_account_id g = account \<and> rg_state g = Accepted) (t_remote_following d))
       limit cursor
       (\<lambda>f. (lf_id f, lf_followed_account_id f)) (\<lambda>g. (rg_id g, rg_remote_actor_id g))"

definition blocked_accounts_for_account ::
  "db \<Rightarrow> uuid \<Rightarrow> nat \<Rightarrow> collection_cursor \<Rightarrow> follow_collection_entry collection_page" where
  "blocked_accounts_for_account d account limit cursor =
     follow_collection_page d
       (filter (\<lambda>b. lab_account_id b = account) (t_local_account_block d))
       (filter (\<lambda>b. lrb_local_account_id b = account) (t_local_remote_account_block d))
       limit cursor
       (\<lambda>b. (lab_id b, lab_target_account_id b)) (\<lambda>b. (lrb_id b, lrb_remote_actor_id b))"

definition muted_accounts_for_account ::
  "instant \<Rightarrow> db \<Rightarrow> uuid \<Rightarrow> nat \<Rightarrow> collection_cursor \<Rightarrow> follow_collection_entry collection_page" where
  "muted_accounts_for_account now d account limit cursor =
     follow_collection_page d
       (filter (\<lambda>m. lam_account_id m = account \<and> unexpired now (lam_expires_at m))
         (t_local_account_mute d))
       (filter (\<lambda>m. lrm_local_account_id m = account \<and> unexpired now (lrm_expires_at m))
         (t_local_remote_account_mute d))
       limit cursor
       (\<lambda>m. (lam_id m, lam_target_account_id m)) (\<lambda>m. (lrm_id m, lrm_remote_actor_id m))"

definition followers_for_remote_account ::
  "db \<Rightarrow> uuid \<Rightarrow> nat \<Rightarrow> collection_cursor \<Rightarrow> follow_collection_entry collection_page" where
  "followers_for_remote_account d actor limit cursor =
     (let (rows, has_more) = query_page rg_id cursor limit
            (filter (\<lambda>g. rg_remote_actor_id g = actor \<and> rg_state g = Accepted \<and>
                         rg_deactivated_at g = None) (t_remote_following d))
      in local_relationship_collection_page d
           (map (\<lambda>g. (rg_id g, rg_local_account_id g)) rows) has_more)"

definition following_for_remote_account ::
  "db \<Rightarrow> uuid \<Rightarrow> nat \<Rightarrow> collection_cursor \<Rightarrow> follow_collection_entry collection_page" where
  "following_for_remote_account d actor limit cursor =
     (let (rows, has_more) = query_page rf_id cursor limit
            (filter (\<lambda>f. rf_remote_actor_id f = actor \<and> rf_state f = Accepted) (t_remote_follow d))
      in local_relationship_collection_page d
           (map (\<lambda>f. (rf_id f, rf_local_account_id f)) rows) has_more)"

definition pending_remote_follows :: "db \<Rightarrow> uuid \<Rightarrow> remote_follow_row list" where
  "pending_remote_follows d account =
     order_by_desc rf_id
       (filter (\<lambda>f. rf_local_account_id f = account \<and> rf_state f = Pending) (t_remote_follow d))"

fun take_actors :: "uuid list \<Rightarrow> remote_actor_row list \<Rightarrow> remote_actor_row list result" where
  "take_actors [] m = Inr []"
| "take_actors (i # is) m =
     (case List.find (\<lambda>a. ra_id a = i) m of
        None \<Rightarrow> Inl (InvalidInput ''remote follow actor is missing'')
      | Some a \<Rightarrow> bind_res (take_actors is (tbl_delete (\<lambda>a. ra_id a = i) m)) (\<lambda>as. Inr (a # as)))"

definition pending_remote_follow_requests ::
  "db \<Rightarrow> uuid \<Rightarrow> nat \<Rightarrow> collection_cursor \<Rightarrow> remote_actor_row collection_page result" where
  "pending_remote_follow_requests d account limit cursor =
     (let (rows, has_more) = query_page rf_id cursor limit
            (filter (\<lambda>f. rf_local_account_id f = account \<and> rf_state f = Pending) (t_remote_follow d));
          actor_ids = map rf_remote_actor_id rows
      in bind_res
           (take_actors actor_ids (filter (\<lambda>a. ra_id a \<in> set actor_ids) (t_remote_actor d)))
           (\<lambda>actors. Inr \<lparr> cp_items = actors, cp_first_cursor = first_of rf_id rows,
                            cp_last_cursor = last_of rf_id rows, cp_has_more = has_more \<rparr>))"

subsection \<open>Inbound follows\<close>

record remote_follow_response_job =
  rfj_kind :: job_kind
  rfj_payload :: json
  rfj_deduplication_key :: string

definition insert_response_job ::
  "uuid \<Rightarrow> instant \<Rightarrow> instant \<Rightarrow> remote_follow_response_job \<Rightarrow> db \<Rightarrow> db result" where
  "insert_response_job job_new_id pg_now now rj d =
     bind_res
       (enqueue_job_in_transaction job_new_id pg_now
         \<lparr> nj_kind = rfj_kind rj, nj_payload = rfj_payload rj,
           nj_deduplication_key = Some (rfj_deduplication_key rj), nj_run_after = now \<rparr> d)
       (\<lambda>(d', _). Inr d')"

definition rf_same_pair :: "remote_follow_row \<Rightarrow> remote_follow_row \<Rightarrow> bool" where
  "rf_same_pair a b \<longleftrightarrow> rf_key a = rf_key b"

definition upsert_follow_row ::
  "instant \<Rightarrow> remote_follow_row \<Rightarrow> db \<Rightarrow> db result" where
  "upsert_follow_row updated_at row d =
     bind_res
       (with_fk (fk_remote d (rf_remote_actor_id row) \<and> fk_local d (rf_local_account_id row))
         (tbl_upsert rf_same_pair rf_conflict
           (\<lambda>f. f\<lparr>rf_activity_id := rf_activity_id row, rf_activity := rf_activity row,
                  rf_state := rf_state row, rf_updated_at := updated_at\<rparr>)
           row (t_remote_follow d)))
       (\<lambda>t. Inr (d\<lparr>t_remote_follow := t\<rparr>))"

definition upsert_remote_follow ::
  "uuid \<Rightarrow> instant \<Rightarrow> uuid \<Rightarrow> uuid \<Rightarrow> string \<Rightarrow> json \<Rightarrow> remote_follow_state \<Rightarrow> db \<Rightarrow> db result" where
  "upsert_remote_follow new_id pg_now actor account activity_id activity state d =
     upsert_follow_row pg_now
       \<lparr> rf_id = new_id, rf_remote_actor_id = actor, rf_local_account_id = account,
         rf_activity_id = activity_id, rf_activity = activity, rf_state = state,
         rf_created_at = pg_now, rf_updated_at = pg_now \<rparr> d"

definition upsert_processed_remote_follow_with_response_job ::
  "uuid \<Rightarrow> uuid \<Rightarrow> instant \<Rightarrow> instant \<Rightarrow> uuid \<Rightarrow> uuid \<Rightarrow> string \<Rightarrow> json \<Rightarrow>
     remote_follow_response_job \<Rightarrow> db \<Rightarrow> (db \<times> bool) result" where
  "upsert_processed_remote_follow_with_response_job new_id job_new_id pg_now now actor account
       activity_id activity rj d =
     (if local_remote_accounts_are_blocked d account actor then Inr (d, False)
      else bind_res
        (upsert_follow_row now
          \<lparr> rf_id = new_id, rf_remote_actor_id = actor, rf_local_account_id = account,
            rf_activity_id = activity_id, rf_activity = activity, rf_state = Accepted,
            rf_created_at = now, rf_updated_at = now \<rparr> d)
        (\<lambda>d. bind_res (insert_response_job job_new_id pg_now now rj d) (\<lambda>d. Inr (d, True))))"

definition upsert_processed_pending_remote_follow ::
  "uuid \<Rightarrow> instant \<Rightarrow> uuid \<Rightarrow> uuid \<Rightarrow> string \<Rightarrow> json \<Rightarrow> db \<Rightarrow> (db \<times> bool) result" where
  "upsert_processed_pending_remote_follow new_id now actor account activity_id activity d =
     (if local_remote_accounts_are_blocked d account actor then Inr (d, False)
      else bind_res
        (upsert_follow_row now
          \<lparr> rf_id = new_id, rf_remote_actor_id = actor, rf_local_account_id = account,
            rf_activity_id = activity_id, rf_activity = activity, rf_state = Pending,
            rf_created_at = now, rf_updated_at = now \<rparr> d)
        (\<lambda>d. Inr (d, True)))"

definition pending_request :: "uuid \<Rightarrow> uuid \<Rightarrow> string \<Rightarrow> remote_follow_row \<Rightarrow> bool" where
  "pending_request account actor activity_id f \<longleftrightarrow>
     rf_local_account_id f = account \<and> rf_remote_actor_id f = actor \<and>
     rf_activity_id f = activity_id \<and> rf_state f = Pending"

definition accept_remote_follow_with_response_job ::
  "uuid \<Rightarrow> instant \<Rightarrow> instant \<Rightarrow> uuid \<Rightarrow> uuid \<Rightarrow> string \<Rightarrow> remote_follow_response_job \<Rightarrow> db \<Rightarrow>
     (db \<times> bool) result" where
  "accept_remote_follow_with_response_job job_new_id pg_now now account actor activity_id rj d =
     (case List.find (pending_request account actor activity_id) (t_remote_follow d) of
        None \<Rightarrow> Inr (d, False)
      | Some f \<Rightarrow>
          bind_res
            (insert_response_job job_new_id pg_now now rj
              (d\<lparr>t_remote_follow := tbl_update (\<lambda>r. rf_id r = rf_id f)
                   (\<lambda>r. r\<lparr>rf_state := Accepted, rf_updated_at := now\<rparr>) (t_remote_follow d)\<rparr>))
            (\<lambda>d. Inr (d, True)))"

definition delete_remote_follow_by_activity :: "uuid \<Rightarrow> string \<Rightarrow> db \<Rightarrow> db" where
  "delete_remote_follow_by_activity actor activity_id d =
     d\<lparr>t_remote_follow :=
         tbl_delete (\<lambda>f. rf_remote_actor_id f = actor \<and> rf_activity_id f = activity_id)
           (t_remote_follow d)\<rparr>"

definition process_remote_undo_follow :: "uuid \<Rightarrow> string \<Rightarrow> db \<Rightarrow> db \<times> bool" where
  "process_remote_undo_follow actor original_activity_id d =
     (d\<lparr>t_remote_follow :=
          tbl_delete (\<lambda>f. rf_remote_actor_id f = actor \<and> rf_activity_id f = original_activity_id)
            (t_remote_follow d)\<rparr>,
      True)"

definition delete_remote_follow_with_response_job ::
  "uuid \<Rightarrow> instant \<Rightarrow> instant \<Rightarrow> uuid \<Rightarrow> uuid \<Rightarrow> string \<Rightarrow> remote_follow_response_job \<Rightarrow> db \<Rightarrow>
     (db \<times> bool) result" where
  "delete_remote_follow_with_response_job job_new_id pg_now now account actor activity_id rj d =
     (case List.find (pending_request account actor activity_id) (t_remote_follow d) of
        None \<Rightarrow> Inr (d, False)
      | Some f \<Rightarrow>
          bind_res
            (insert_response_job job_new_id pg_now now rj
              (d\<lparr>t_remote_follow := tbl_delete (\<lambda>r. rf_id r = rf_id f) (t_remote_follow d)\<rparr>))
            (\<lambda>d. Inr (d, True)))"

subsection \<open>Outbound follows\<close>

definition enqueue_only :: "uuid \<Rightarrow> instant \<Rightarrow> new_job \<Rightarrow> db \<Rightarrow> db result" where
  "enqueue_only job_new_id pg_now job d =
     bind_res (enqueue_job_in_transaction job_new_id pg_now job d) (\<lambda>(d', _). Inr d')"

definition new_following_row ::
  "uuid \<Rightarrow> instant \<Rightarrow> uuid \<Rightarrow> uuid \<Rightarrow> string \<Rightarrow> bool \<Rightarrow> bool \<Rightarrow> remote_following_row" where
  "new_following_row new_id pg_now account actor activity_id show_reblogs notify =
     \<lparr> rg_id = new_id, rg_local_account_id = account, rg_remote_actor_id = actor,
       rg_activity_id = activity_id, rg_state = Pending, rg_show_reblogs = show_reblogs,
       rg_notify = notify, rg_deactivated_at = None, rg_created_at = pg_now,
       rg_updated_at = pg_now \<rparr>"

definition create_remote_following ::
  "uuid \<Rightarrow> instant \<Rightarrow> uuid \<Rightarrow> uuid \<Rightarrow> string \<Rightarrow> bool \<Rightarrow> bool \<Rightarrow> db \<Rightarrow> db result" where
  "create_remote_following new_id pg_now account actor activity_id show_reblogs notify d =
     bind_res
       (with_fk (fk_local d account \<and> fk_remote d actor)
         (tbl_insert rg_conflict
           (new_following_row new_id pg_now account actor activity_id show_reblogs notify)
           (t_remote_following d)))
       (\<lambda>t. Inr (d\<lparr>t_remote_following := t\<rparr>))"

definition create_remote_following_with_job ::
  "uuid \<Rightarrow> uuid \<Rightarrow> instant \<Rightarrow> instant \<Rightarrow> uuid \<Rightarrow> uuid \<Rightarrow> string \<Rightarrow> bool \<Rightarrow> bool \<Rightarrow> new_job \<Rightarrow> db \<Rightarrow>
     db result" where
  "create_remote_following_with_job new_id job_new_id pg_now now account actor activity_id
       show_reblogs notify job d =
     (if local_remote_accounts_are_blocked d account actor
      then Inl (AccountRelationship FollowBlocked)
      else case List.find (\<lambda>g. rg_local_account_id g = account \<and> rg_remote_actor_id g = actor)
                  (t_remote_following d) of
        Some g \<Rightarrow>
          if rg_deactivated_at g = None
          then Inr (d\<lparr>t_remote_following := tbl_update (\<lambda>r. rg_id r = rg_id g)
                 (\<lambda>r. r\<lparr>rg_show_reblogs := show_reblogs, rg_notify := notify,
                         rg_updated_at := now\<rparr>) (t_remote_following d)\<rparr>)
          else bind_res
                 (db_result (tbl_update_checked rg_conflict (\<lambda>r. rg_id r = rg_id g)
                   (\<lambda>r. r\<lparr>rg_activity_id := activity_id, rg_state := Pending,
                           rg_show_reblogs := show_reblogs, rg_notify := notify,
                           rg_deactivated_at := None, rg_updated_at := now\<rparr>)
                   (t_remote_following d)))
                 (\<lambda>t. enqueue_only job_new_id pg_now job (d\<lparr>t_remote_following := t\<rparr>))
      | None \<Rightarrow>
          bind_res
            (create_remote_following new_id pg_now account actor activity_id show_reblogs notify d)
            (enqueue_only job_new_id pg_now job))"

definition accept_remote_following :: "instant \<Rightarrow> uuid \<Rightarrow> string \<Rightarrow> db \<Rightarrow> db \<times> bool" where
  "accept_remote_following pg_now actor activity_id d =
     (let p = (\<lambda>g. rg_remote_actor_id g = actor \<and> rg_activity_id g = activity_id)
      in (d\<lparr>t_remote_following := tbl_update p
              (\<lambda>g. g\<lparr>rg_state := Accepted, rg_updated_at := pg_now\<rparr>) (t_remote_following d)\<rparr>,
          rows_affected p (t_remote_following d) = 1))"

definition reject_remote_following :: "uuid \<Rightarrow> string \<Rightarrow> db \<Rightarrow> db \<times> bool" where
  "reject_remote_following actor activity_id d =
     (let p = (\<lambda>g. rg_remote_actor_id g = actor \<and> rg_activity_id g = activity_id)
      in (d\<lparr>t_remote_following := tbl_delete p (t_remote_following d)\<rparr>,
          rows_affected p (t_remote_following d) = 1))"

definition delete_remote_following ::
  "uuid \<Rightarrow> uuid \<Rightarrow> db \<Rightarrow> db \<times> remote_following_row option" where
  "delete_remote_following account actor d =
     (case List.find (\<lambda>g. rg_local_account_id g = account \<and> rg_remote_actor_id g = actor)
             (t_remote_following d) of
        None \<Rightarrow> (d, None)
      | Some g \<Rightarrow>
          let d = remove_remote_account_from_owned_lists account actor d
          in (d\<lparr>t_remote_following := tbl_delete (\<lambda>r. rg_id r = rg_id g) (t_remote_following d)\<rparr>,
              Some g))"

definition delete_remote_following_with_job ::
  "uuid \<Rightarrow> instant \<Rightarrow> uuid \<Rightarrow> uuid \<Rightarrow> new_job \<Rightarrow> db \<Rightarrow>
     (db \<times> remote_following_row option) result" where
  "delete_remote_following_with_job job_new_id pg_now account actor job d =
     (case delete_remote_following account actor d of
        (d', None) \<Rightarrow> Inr (d', None)
      | (d', Some g) \<Rightarrow>
          bind_res (enqueue_only job_new_id pg_now job d') (\<lambda>d'. Inr (d', Some g)))"

subsection \<open>Actor moves\<close>

definition remote_actor_move_following_batch ::
  "db \<Rightarrow> uuid \<Rightarrow> nat \<Rightarrow> remote_following_row list" where
  "remote_actor_move_following_batch d actor limit =
     take limit (tbl_order rg_id
       (filter (\<lambda>g. rg_remote_actor_id g = actor \<and> rg_state g = Accepted \<and>
                    rg_deactivated_at g = None) (t_remote_following d)))"

definition lrem_same_member :: "list_remote_member_row \<Rightarrow> list_remote_member_row \<Rightarrow> bool" where
  "lrem_same_member a b \<longleftrightarrow>
     lrem_list_id a = lrem_list_id b \<and> lrem_remote_actor_id a = lrem_remote_actor_id b"

text \<open>The loop that copies list memberships to the replacement actor.\<close>

fun copy_memberships ::
  "(uuid \<Rightarrow> uuid) \<Rightarrow> uuid \<Rightarrow> list_remote_member_row list \<Rightarrow> list_remote_member_row list \<Rightarrow>
     db_err + list_remote_member_row list" where
  "copy_memberships new_id target [] t = Inr t"
| "copy_memberships new_id target (m # ms) t =
     bind_res
       (tbl_insert_unless lrem_same_member lrem_conflict
         \<lparr> lrem_id = new_id (lrem_id m), lrem_list_id = lrem_list_id m,
           lrem_remote_actor_id = target, lrem_created_at = lrem_created_at m \<rparr> t)
       (\<lambda>(t, _). copy_memberships new_id target ms t)"

definition move_target ::
  "uuid \<Rightarrow> uuid \<Rightarrow> instant \<Rightarrow> remote_following_row \<Rightarrow> uuid \<Rightarrow> bool \<Rightarrow> (string \<times> new_job) option \<Rightarrow>
     db \<Rightarrow> db result" where
  "move_target new_id job_new_id pg_now following target allow_target target_follow d =
     (if allow_target \<and>
         find_remote_following d (rg_local_account_id following) target = None
      then case target_follow of
             None \<Rightarrow> Inl (InvalidInput ''remote actor migration Follow is missing'')
           | Some (activity_id, job) \<Rightarrow>
               bind_res
                 (create_remote_following new_id pg_now (rg_local_account_id following) target
                   activity_id (rg_show_reblogs following) (rg_notify following) d)
                 (enqueue_only job_new_id pg_now job)
      else Inr d)"

definition move_memberships ::
  "(uuid \<Rightarrow> uuid) \<Rightarrow> remote_following_row \<Rightarrow> uuid \<Rightarrow> bool \<Rightarrow> db \<Rightarrow> db result" where
  "move_memberships member_new_id following target allow_target d =
     (if allow_target
      then bind_res
             (db_result (copy_memberships member_new_id target
               (filter (\<lambda>m. lrem_remote_actor_id m = rg_remote_actor_id following \<and>
                            lrem_list_id m \<in> set (owned_list_ids d (rg_local_account_id following)))
                 (t_list_remote_member d))
               (t_list_remote_member d)))
             (\<lambda>t. Inr (d\<lparr>t_list_remote_member := t\<rparr>))
      else Inr d)"

definition migrate_remote_following_for_actor_move ::
  "uuid \<Rightarrow> (uuid \<Rightarrow> uuid) \<Rightarrow> uuid \<Rightarrow> uuid \<Rightarrow> instant \<Rightarrow> instant \<Rightarrow> remote_following_row \<Rightarrow> uuid \<Rightarrow>
     bool \<Rightarrow> (string \<times> new_job) option \<Rightarrow> new_job \<Rightarrow> db \<Rightarrow> (db \<times> bool) result" where
  "migrate_remote_following_for_actor_move new_id member_new_id job_id1 job_id2 pg_now now
       following target allow_target target_follow undo_job d =
     (case List.find (\<lambda>g. rg_local_account_id g = rg_local_account_id following \<and>
                          rg_remote_actor_id g = rg_remote_actor_id following \<and>
                          rg_activity_id g = rg_activity_id following \<and>
                          rg_state g = Accepted \<and> rg_deactivated_at g = None)
             (t_remote_following d) of
        None \<Rightarrow> Inr (d, False)
      | Some source \<Rightarrow>
          if Option.bind (find_remote_actor_by_id d (rg_remote_actor_id following))
               ra_moved_to_remote_actor_id \<noteq> Some target
          then Inr (d, False)
          else
            bind_res (move_target new_id job_id1 pg_now following target allow_target target_follow d)
              (\<lambda>d.
            bind_res (move_memberships member_new_id following target allow_target d)
              (\<lambda>d.
                let d = remove_remote_account_from_owned_lists (rg_local_account_id following)
                          (rg_remote_actor_id following) d;
                    d = d\<lparr>t_remote_following := tbl_update (\<lambda>r. rg_id r = rg_id source)
                            (\<lambda>r. r\<lparr>rg_deactivated_at := Some now, rg_updated_at := now\<rparr>)
                            (t_remote_following d)\<rparr>
                in bind_res (enqueue_only job_id2 pg_now undo_job d) (\<lambda>d. Inr (d, True)))))"

text \<open>
  One iteration of the loop of \<open>migrate_remote_actor_relationships\<close> in
  \<^verbatim>\<open>src/crates/server/src/federation.rs\<close>: the policy decision, the prepared follow,
  and the move. \<open>domain_allowed\<close> and \<open>domain_suspended\<close> are the configured allow list and
  the stored domain policy for the target's domain, \<open>prepared\<close> and \<open>undo_job\<close> the activities
  prepared for delivery.
\<close>

definition migrate_one ::
  "uuid \<Rightarrow> (uuid \<Rightarrow> uuid) \<Rightarrow> uuid \<Rightarrow> uuid \<Rightarrow> instant \<Rightarrow> instant \<Rightarrow> bool \<Rightarrow> bool \<Rightarrow> string \<times> new_job \<Rightarrow>
     new_job \<Rightarrow> remote_following_row \<Rightarrow> remote_actor_row \<Rightarrow> db \<Rightarrow> (db \<times> bool) result" where
  "migrate_one new_id member_new_id job_id1 job_id2 pg_now now domain_allowed domain_suspended
       prepared undo_job following target d =
     (let target_allowed = domain_allowed \<and> ra_deleted_at target = None \<and>
            ra_suspended_at target = None \<and> \<not> domain_suspended \<and>
            \<not> local_remote_accounts_are_blocked d (rg_local_account_id following) (ra_id target);
          target_follow =
            (if target_allowed \<and>
                find_remote_following d (rg_local_account_id following) (ra_id target) = None
             then Some prepared else None)
      in migrate_remote_following_for_actor_move new_id member_new_id job_id1 job_id2 pg_now now
           following (ra_id target) target_allowed target_follow undo_job d)"

subsection \<open>Blocks and mutes\<close>

definition dismiss_notifications :: "instant \<Rightarrow> (local_notification_row \<Rightarrow> bool) \<Rightarrow> db \<Rightarrow> db" where
  "dismiss_notifications now p d =
     d\<lparr>t_local_notification := tbl_update (\<lambda>n. p n \<and> ln_dismissed_at n = None)
         (\<lambda>n. n\<lparr>ln_dismissed_at := Some now\<rparr>) (t_local_notification d)\<rparr>"

definition delete_followings :: "uuid \<Rightarrow> uuid \<Rightarrow> db \<Rightarrow> db" where
  "delete_followings account actor d =
     d\<lparr>t_remote_following :=
         tbl_delete (\<lambda>g. rg_local_account_id g = account \<and> rg_remote_actor_id g = actor)
           (t_remote_following d)\<rparr>"

definition delete_remote_follows :: "uuid \<Rightarrow> uuid \<Rightarrow> db \<Rightarrow> db" where
  "delete_remote_follows account actor d =
     d\<lparr>t_remote_follow :=
         tbl_delete (\<lambda>f. rf_local_account_id f = account \<and> rf_remote_actor_id f = actor)
           (t_remote_follow d)\<rparr>"

text \<open>
  The conflict target of the insert is the pair; a clash on the activity identity fails.
\<close>

definition lrb_same_pair ::
  "local_remote_account_block_row \<Rightarrow> local_remote_account_block_row \<Rightarrow> bool" where
  "lrb_same_pair a b \<longleftrightarrow> lrb_key a = lrb_key b"

definition insert_remote_block ::
  "uuid \<Rightarrow> instant \<Rightarrow> uuid \<Rightarrow> uuid \<Rightarrow> string \<Rightarrow> db \<Rightarrow> (db \<times> bool) result" where
  "insert_remote_block new_id now account actor activity_id d =
     bind_res
       (db_result (tbl_insert_unless lrb_same_pair lrb_conflict
         \<lparr> lrb_id = new_id, lrb_local_account_id = account, lrb_remote_actor_id = actor,
           lrb_activity_id = activity_id, lrb_created_at = now, lrb_updated_at = now \<rparr>
         (t_local_remote_account_block d)))
       (\<lambda>(t, inserted).
         if inserted \<and> \<not> (fk_local d account \<and> fk_remote d actor)
         then Inl (Database ForeignKeyViolation)
         else Inr (d\<lparr>t_local_remote_account_block := t\<rparr>, inserted))"

definition block_remote_account ::
  "uuid \<Rightarrow> uuid \<Rightarrow> instant \<Rightarrow> instant \<Rightarrow> uuid \<Rightarrow> uuid \<Rightarrow> string \<Rightarrow> new_job \<Rightarrow> db \<Rightarrow>
     (db \<times> bool) result" where
  "block_remote_account new_id job_new_id pg_now now account actor activity_id job d =
     (if find_remote_actor_by_id d actor = None
      then Inl (AccountRelationship ModerationTargetNotFound)
      else
        bind_res (insert_remote_block new_id now account actor activity_id d) (\<lambda>(d, inserted).
          let d = delete_followings account actor d;
              d = remove_remote_account_from_owned_lists account actor d;
              d = delete_remote_follows account actor d;
              d = dismiss_notifications now
                    (\<lambda>n. ln_account_id n = account \<and> ln_remote_actor_id n = Some actor) d
          in if inserted
             then bind_res (enqueue_only job_new_id pg_now job d) (\<lambda>d. Inr (d, True))
             else Inr (d, False)))"

definition unblock_remote_account ::
  "uuid \<Rightarrow> instant \<Rightarrow> uuid \<Rightarrow> uuid \<Rightarrow> new_job \<Rightarrow> db \<Rightarrow> (db \<times> bool) result" where
  "unblock_remote_account job_new_id pg_now account actor job d =
     (let p = (\<lambda>b. lrb_key b = (account, actor));
          d' = d\<lparr>t_local_remote_account_block := tbl_delete p (t_local_remote_account_block d)\<rparr>
      in if rows_affected p (t_local_remote_account_block d) = 1
         then bind_res (enqueue_only job_new_id pg_now job d') (\<lambda>d. Inr (d, True))
         else Inr (d', False))"

definition mute_remote_account ::
  "uuid \<Rightarrow> instant \<Rightarrow> uuid \<Rightarrow> uuid \<Rightarrow> bool \<Rightarrow> nat \<Rightarrow> db \<Rightarrow>
     (db \<times> local_remote_account_mute_row) result" where
  "mute_remote_account new_id now account actor notifications duration_seconds d =
     (if find_remote_actor_by_id d actor = None
      then Inl (AccountRelationship ModerationTargetNotFound)
      else
        bind_res (mute_expiry now duration_seconds) (\<lambda>expires_at.
          case List.find (\<lambda>m. lrm_key m = (account, actor)) (t_local_remote_account_mute d) of
            Some m \<Rightarrow>
              let upd = (\<lambda>r. r\<lparr>lrm_notifications := notifications, lrm_expires_at := expires_at,
                                lrm_updated_at := now\<rparr>)
              in Inr (d\<lparr>t_local_remote_account_mute :=
                         tbl_update (\<lambda>r. lrm_key r = lrm_key m) upd (t_local_remote_account_mute d)\<rparr>,
                      upd m)
          | None \<Rightarrow>
              let row = \<lparr> lrm_id = new_id, lrm_local_account_id = account,
                          lrm_remote_actor_id = actor, lrm_notifications = notifications,
                          lrm_expires_at = expires_at, lrm_created_at = now,
                          lrm_updated_at = now \<rparr>
              in bind_res (with_fk (fk_local d account \<and> fk_remote d actor)
                             (tbl_insert lrm_conflict row (t_local_remote_account_mute d)))
                   (\<lambda>t. Inr (d\<lparr>t_local_remote_account_mute := t\<rparr>, row))))"

definition unmute_remote_account :: "uuid \<Rightarrow> uuid \<Rightarrow> db \<Rightarrow> db" where
  "unmute_remote_account account actor d =
     d\<lparr>t_local_remote_account_mute :=
         tbl_delete (\<lambda>m. lrm_key m = (account, actor)) (t_local_remote_account_mute d)\<rparr>"

definition process_remote_block ::
  "uuid \<Rightarrow> instant \<Rightarrow> uuid \<Rightarrow> uuid \<Rightarrow> string \<Rightarrow> db \<Rightarrow> (db \<times> bool) result" where
  "process_remote_block new_id pg_now actor account activity_id d =
     (let row = \<lparr> rlb_id = new_id, rlb_remote_actor_id = actor, rlb_local_account_id = account,
                  rlb_activity_id = activity_id, rlb_created_at = pg_now, rlb_updated_at = pg_now \<rparr>;
          (t, inserted) = tbl_insert_nothing rlb_conflict row (t_remote_local_account_block d)
      in if inserted \<and> \<not> (fk_remote d actor \<and> fk_local d account)
         then Inl (Database ForeignKeyViolation)
         else
           let d = d\<lparr>t_remote_local_account_block := t\<rparr>;
               d = delete_remote_follows account actor d;
               d = delete_followings account actor d;
               d = remove_remote_account_from_owned_lists account actor d;
               d = dismiss_notifications pg_now
                     (\<lambda>n. ln_account_id n = account \<and> ln_remote_actor_id n = Some actor) d
           in Inr (d, inserted))"

definition process_remote_undo_block :: "uuid \<Rightarrow> uuid \<Rightarrow> string \<Rightarrow> db \<Rightarrow> db \<times> bool" where
  "process_remote_undo_block actor account activity_id d =
     (let p = (\<lambda>b. rlb_remote_actor_id b = actor \<and> rlb_local_account_id b = account \<and>
                   rlb_activity_id b = activity_id)
      in (d\<lparr>t_remote_local_account_block := tbl_delete p (t_remote_local_account_block d)\<rparr>,
          rows_affected p (t_remote_local_account_block d) = 1))"

subsection \<open>Domain suspension\<close>

text \<open>\<open>str::strip_suffix\<close> on domain names.\<close>

definition strip_suffix :: "string \<Rightarrow> string \<Rightarrow> string option" where
  "strip_suffix s suffix =
     (if length suffix \<le> length s \<and> drop (length s - length suffix) s = suffix
      then Some (take (length s - length suffix) s) else None)"

definition domain_covered :: "string list \<Rightarrow> string \<Rightarrow> bool" where
  "domain_covered domains domain \<longleftrightarrow>
     list_ex (\<lambda>blocked. domain = blocked \<or>
        (case strip_suffix domain blocked of
           None \<Rightarrow> False
         | Some prefix \<Rightarrow> prefix \<noteq> [] \<and> last prefix = CHR ''.'')) domains"

text \<open>
  \<open>payload->>'remote_actor_id' = ANY($1)\<close> and \<open>payload->'remote_actor_ids' ?| $1\<close>: the
  text of a string field, and strings that are elements of an array (or keys of an object).
\<close>

definition payload_targets :: "string list \<Rightarrow> json \<Rightarrow> bool" where
  "payload_targets ids payload \<longleftrightarrow>
     (case json_field ''remote_actor_id'' payload of
        Some (JStr s) \<Rightarrow> s \<in> set ids | _ \<Rightarrow> False) \<or>
     (case json_field ''remote_actor_ids'' payload of
        Some (JArr js) \<Rightarrow> list_ex (\<lambda>j. case j of JStr s \<Rightarrow> s \<in> set ids | _ \<Rightarrow> False) js
      | Some (JObj fs) \<Rightarrow> list_ex (\<lambda>(k, _). k \<in> set ids) fs
      | Some (JStr s) \<Rightarrow> s \<in> set ids
      | _ \<Rightarrow> False)"

definition reconcile_suspended_remote_domains ::
  "(uuid \<Rightarrow> string) \<Rightarrow> instant \<Rightarrow> string list \<Rightarrow> db \<Rightarrow> db \<times> nat" where
  "reconcile_suspended_remote_domains id_string now domains d =
     (if domains = [] then (d, 0)
      else
        let actor_ids = map ra_id (filter (\<lambda>a. domain_covered domains (ra_domain a)) (t_remote_actor d))
        in if actor_ids = [] then (d, 0)
           else
             let d' = d\<lparr>t_remote_follow :=
                          tbl_delete (\<lambda>f. rf_remote_actor_id f \<in> set actor_ids) (t_remote_follow d),
                        t_remote_following :=
                          tbl_delete (\<lambda>g. rg_remote_actor_id g \<in> set actor_ids) (t_remote_following d),
                        t_list_remote_member :=
                          tbl_delete (\<lambda>m. lrem_remote_actor_id m \<in> set actor_ids)
                            (t_list_remote_member d)\<rparr>;
                 d' = dismiss_notifications now
                        (\<lambda>n. case ln_remote_actor_id n of None \<Rightarrow> False | Some a \<Rightarrow> a \<in> set actor_ids) d'
             in (retire_jobs now (Some (utext ''remote domain suspended''))
                   (\<lambda>j. payload_targets (map id_string actor_ids) (job_payload j)) d',
                 length actor_ids))"

subsection \<open>Suspended accounts, suspended actors and deleted actors\<close>

text \<open>
  What a suspended local account loses (7916-7932), what the suspension of one actor removes
  (7954-7998), and what the deletion of an actor by its own server does to the relations, the
  notifications and the jobs that concern it (the tombstone of 3303-3311 and the statements of
  3353-3370). The deletion takes no list membership with it.
\<close>

definition sever_relations :: "uuid \<Rightarrow> db \<Rightarrow> db" where
  "sever_relations i d = d\<lparr>
     t_local_follow := tbl_delete (\<lambda>r. lf_follower_account_id r = i \<or> lf_followed_account_id r = i) (t_local_follow d),
     t_remote_follow := tbl_delete (\<lambda>r. rf_local_account_id r = i) (t_remote_follow d),
     t_remote_following := tbl_delete (\<lambda>r. rg_local_account_id r = i) (t_remote_following d),
     t_local_account_block := tbl_delete (\<lambda>r. lab_account_id r = i \<or> lab_target_account_id r = i) (t_local_account_block d),
     t_local_account_mute := tbl_delete (\<lambda>r. lam_account_id r = i \<or> lam_target_account_id r = i) (t_local_account_mute d),
     t_local_remote_account_block := tbl_delete (\<lambda>r. lrb_local_account_id r = i) (t_local_remote_account_block d),
     t_local_remote_account_mute := tbl_delete (\<lambda>r. lrm_local_account_id r = i) (t_local_remote_account_mute d),
     t_remote_local_account_block := tbl_delete (\<lambda>r. rlb_local_account_id r = i) (t_remote_local_account_block d)\<rparr>"

definition sever_lists :: "uuid \<Rightarrow> db \<Rightarrow> db" where
  "sever_lists i d =
     (let owned = map ll_id (filter (\<lambda>l. ll_account_id l = i) (t_local_list d))
      in d\<lparr>t_list_local_member := tbl_delete (\<lambda>r. llm_account_id r = i \<or> llm_list_id r \<in> set owned) (t_list_local_member d),
           t_list_remote_member := tbl_delete (\<lambda>r. lrem_list_id r \<in> set owned) (t_list_remote_member d),
           t_local_list := tbl_delete (\<lambda>l. ll_account_id l = i) (t_local_list d)\<rparr>)"

definition purge_remote_actor_cache :: "instant \<Rightarrow> uuid \<Rightarrow> db \<Rightarrow> db" where
  "purge_remote_actor_cache now i d =
     dismiss_notifications now (\<lambda>n. ln_remote_actor_id n = Some i) (d\<lparr>
       t_remote_follow := tbl_delete (\<lambda>r. rf_remote_actor_id r = i) (t_remote_follow d),
       t_remote_following := tbl_delete (\<lambda>r. rg_remote_actor_id r = i) (t_remote_following d),
       t_list_remote_member := tbl_delete (\<lambda>r. lrem_remote_actor_id r = i) (t_list_remote_member d),
       t_local_remote_account_block := tbl_delete (\<lambda>r. lrb_remote_actor_id r = i) (t_local_remote_account_block d),
       t_local_remote_account_mute := tbl_delete (\<lambda>r. lrm_remote_actor_id r = i) (t_local_remote_account_mute d),
       t_remote_local_account_block := tbl_delete (\<lambda>r. rlb_remote_actor_id r = i) (t_remote_local_account_block d),
       t_remote_status := tbl_update (\<lambda>s. rs_remote_actor_id s = i) (\<lambda>s. s\<lparr>rs_deleted_at := Some now\<rparr>) (t_remote_status d)\<rparr>)"

definition delete_actor_relations :: "(uuid \<Rightarrow> string) \<Rightarrow> instant \<Rightarrow> uuid \<Rightarrow> db \<Rightarrow> db" where
  "delete_actor_relations id_string now r d =
     (if find_remote_actor_by_id d r = None then d
      else retire_jobs now (Some (utext ''remote actor deleted''))
       (\<lambda>j. json_field ''remote_actor_id'' (job_payload j) = Some (JStr (id_string r)) \<and>
            json_field ''remote_actor_ids'' (job_payload j) = None)
       (d\<lparr>t_remote_actor := tbl_update (\<lambda>a. ra_id a = r) (\<lambda>a. a\<lparr>ra_deleted_at := Some now, ra_updated_at := now\<rparr>)
            (t_remote_actor d),
          t_local_notification := tbl_delete (\<lambda>n. ln_remote_actor_id n = Some r) (t_local_notification d),
          t_remote_follow := tbl_delete (\<lambda>f. rf_remote_actor_id f = r) (t_remote_follow d),
          t_remote_following := tbl_delete (\<lambda>g. rg_remote_actor_id g = r) (t_remote_following d)\<rparr>))"

subsection \<open>Inbox replay register\<close>

datatype inbox_replay_result = New | Duplicate | Conflict

record inbox_activity_metadata =
  iam_activity_id :: string
  iam_remote_actor_id :: uuid
  iam_payload_digest :: "nat list"
  iam_activity_type :: inbox_activity_type
  iam_outcome :: inbox_activity_outcome

definition classify_inbox_activity ::
  "inbox_activity_metadata \<Rightarrow> db \<Rightarrow> inbox_replay_result option" where
  "classify_inbox_activity m d =
     (case List.find (\<lambda>r. pia_activity_id r = iam_activity_id m) (t_processed_inbox_activity d) of
        None \<Rightarrow> None
      | Some e \<Rightarrow>
          if pia_remote_actor_id e \<noteq> iam_remote_actor_id m then Some Conflict
          else case pia_payload_digest e of
                 None \<Rightarrow> Some Duplicate
               | Some digest \<Rightarrow>
                   if digest = iam_payload_digest m \<and>
                      pia_activity_type e = Some (iam_activity_type m)
                   then Some Duplicate else Some Conflict)"

definition register_inbox_activity ::
  "instant \<Rightarrow> inbox_activity_metadata \<Rightarrow> db \<Rightarrow> (db \<times> inbox_replay_result) result" where
  "register_inbox_activity now m d =
     (let row = \<lparr> pia_activity_id = iam_activity_id m, pia_remote_actor_id = iam_remote_actor_id m,
                  pia_payload_digest = Some (iam_payload_digest m),
                  pia_activity_type = Some (iam_activity_type m),
                  pia_outcome = Some (iam_outcome m), pia_processed_at = now \<rparr>;
          (t, inserted) = tbl_insert_nothing pia_conflict row (t_processed_inbox_activity d)
      in if inserted
         then if fk_remote d (iam_remote_actor_id m)
              then Inr (d\<lparr>t_processed_inbox_activity := t\<rparr>, New)
              else Inl (Database ForeignKeyViolation)
         else case classify_inbox_activity m d of
                None \<Rightarrow> Inl (InvalidInput ''inbox replay marker disappeared'')
              | Some r \<Rightarrow> Inr (d, r))"

definition record_processed_inbox_activity ::
  "instant \<Rightarrow> string \<Rightarrow> uuid \<Rightarrow> db \<Rightarrow> (db \<times> bool) result" where
  "record_processed_inbox_activity pg_now activity_id actor d =
     (let row = \<lparr> pia_activity_id = activity_id, pia_remote_actor_id = actor,
                  pia_payload_digest = None, pia_activity_type = None, pia_outcome = None,
                  pia_processed_at = pg_now \<rparr>;
          (t, inserted) = tbl_insert_nothing pia_conflict row (t_processed_inbox_activity d)
      in if inserted \<and> \<not> fk_remote d actor then Inl (Database ForeignKeyViolation)
         else Inr (d\<lparr>t_processed_inbox_activity := t\<rparr>, inserted))"

subsection \<open>Covered domains\<close>

lemma strip_suffix_Some: "strip_suffix s suf = Some p \<longleftrightarrow> s = p @ suf"
proof
  assume "strip_suffix s suf = Some p"
  then have "drop (length s - length suf) s = suf" "take (length s - length suf) s = p"
    by (auto simp: strip_suffix_def split: if_splits)
  then show "s = p @ suf" by (metis append_take_drop_id)
qed (simp add: strip_suffix_def)

lemma domain_covered_iff:
  "domain_covered ds x \<longleftrightarrow> (\<exists>b \<in> set ds. x = b \<or> (\<exists>p. x = p @ ''.'' @ b))"
proof -
  have "(case strip_suffix x b of None \<Rightarrow> False | Some prefix \<Rightarrow> prefix \<noteq> [] \<and> last prefix = CHR ''.'') \<longleftrightarrow>
      (\<exists>q. strip_suffix x b = Some (q @ ''.''))" for b
    by (cases "strip_suffix x b") (auto, metis append_butlast_last_id)
  then show ?thesis by (simp add: domain_covered_def list_ex_iff strip_suffix_Some)
qed

end
