(* ===== verification/Roosty_Relation_Invariants.thy ===== *)
theory Roosty_Relation_Invariants
  imports Roosty_Remote
begin

text \<open>
  Follows and blocks exclude each other. The interface \<open>severing_relation\<close> says what
  linking and blocking operations promise about one another; it is interpreted for relations
  between local accounts and for relations with remote actors, in both directions. The step
  relation \<open>rel_step\<close> collects every operation of the previous theories that changes a
  relation, and its reachable states keep follows and blocks apart. List memberships rest on
  follows; every operation but one keeps that.
\<close>

subsection \<open>The contract of a relation that can be severed\<close>

locale severing_relation =
  fixes linked blocked :: "'s \<Rightarrow> 'p \<Rightarrow> bool" and link block :: "'p \<Rightarrow> 's \<Rightarrow> 's \<Rightarrow> bool"
  assumes link_guard: "link p s t \<Longrightarrow> \<not> blocked s p"
    and link_adds: "link p s t \<Longrightarrow> linked t q \<Longrightarrow> linked s q \<or> q = p"
    and link_keeps: "link p s t \<Longrightarrow> blocked t q \<Longrightarrow> blocked s q"
    and block_severs: "block p s t \<Longrightarrow> \<not> linked t p"
    and block_drops: "block p s t \<Longrightarrow> linked t q \<Longrightarrow> linked s q"
    and block_adds: "block p s t \<Longrightarrow> blocked t q \<Longrightarrow> blocked s q \<or> q = p"
begin

definition separated :: "'s \<Rightarrow> bool" where
  "separated s \<longleftrightarrow> (\<forall>p. \<not> (linked s p \<and> blocked s p))"

definition shrinks :: "'s \<Rightarrow> 's \<Rightarrow> bool" where
  "shrinks s t \<longleftrightarrow> (\<forall>p. linked t p \<longrightarrow> linked s p) \<and> (\<forall>p. blocked t p \<longrightarrow> blocked s p)"

lemma link_separated: "link p s t \<Longrightarrow> separated s \<Longrightarrow> separated t"
  unfolding separated_def by (metis link_guard link_adds link_keeps)

lemma block_separated: "block p s t \<Longrightarrow> separated s \<Longrightarrow> separated t"
  unfolding separated_def by (metis block_severs block_drops block_adds)

lemma shrinks_separated: "shrinks s t \<Longrightarrow> separated s \<Longrightarrow> separated t"
  unfolding separated_def shrinks_def by blast

lemma guarded_separated:
  assumes "\<And>q. linked t q \<Longrightarrow> linked s q \<or> \<not> blocked s q" and "\<And>q. blocked t q \<Longrightarrow> blocked s q"
    and "separated s"
  shows "separated t"
  using assms unfolding separated_def by blast

lemma separated_not_both: "separated s \<Longrightarrow> blocked s p \<Longrightarrow> \<not> linked s p"
  unfolding separated_def by blast

end

subsection \<open>Relations between local accounts\<close>

definition local_linked :: "db \<Rightarrow> uuid set \<Rightarrow> bool" where
  "local_linked d p \<longleftrightarrow>
     (\<exists>f \<in> set (t_local_follow d). {lf_follower_account_id f, lf_followed_account_id f} = p)"

definition local_blocked :: "db \<Rightarrow> uuid set \<Rightarrow> bool" where
  "local_blocked d p \<longleftrightarrow>
     (\<exists>b \<in> set (t_local_account_block d). {lab_account_id b, lab_target_account_id b} = p)"

definition local_link :: "uuid set \<Rightarrow> db \<Rightarrow> db \<Rightarrow> bool" where
  "local_link p d d' \<longleftrightarrow> (\<exists>new_id now a b sr nf row. p = {a, b} \<and>
     follow_local_account new_id now a b sr nf d = Inr (d', row))"

definition local_block :: "uuid set \<Rightarrow> db \<Rightarrow> db \<Rightarrow> bool" where
  "local_block p d d' \<longleftrightarrow> (\<exists>new_id now a b. p = {a, b} \<and>
     block_local_account new_id now a b d = Inr d')"

lemma local_accounts_are_blocked_iff:
  "local_accounts_are_blocked d a b \<longleftrightarrow> a \<noteq> b \<and> local_blocked d {a, b}"
  by (auto simp: local_accounts_are_blocked_def local_blocked_def find_not_None doubleton_eq_iff)

lemma follow_checks_ok:
  "follow_checks a b d = Inr u \<longleftrightarrow>
     a \<noteq> b \<and> find_local_account_by_id d b \<noteq> None \<and> \<not> local_accounts_are_blocked d a b"
  by (auto simp: follow_checks_def)

lemma follow_write_cases:
  assumes "follow_write new_id now a b sr nf d = Inr (d', row)"
  shows "d' = d\<lparr>t_local_follow := t_local_follow d'\<rparr>"
    and "lf_key row = (a, b) \<and> lf_show_reblogs row = sr \<and> lf_notify row = nf"
    and "row \<in> set (t_local_follow d')"
    and "f \<in> set (t_local_follow d') \<Longrightarrow> lf_key f = (a, b) \<or> f \<in> set (t_local_follow d)"
    and "lf_key ` set (t_local_follow d') = insert (a, b) (lf_key ` set (t_local_follow d))"
proof -
  let ?upd = "\<lambda>r. r\<lparr>lf_show_reblogs := sr, lf_notify := nf, lf_updated_at := now\<rparr>"
  have key: "lf_key (?upd r) = lf_key r" for r by (simp add: lf_key_def)
  consider (new) "t_local_follow d' = t_local_follow d @ [row]" "lf_key row = (a, b)"
      "d' = d\<lparr>t_local_follow := t_local_follow d'\<rparr>" "lf_show_reblogs row = sr" "lf_notify row = nf"
    | (old) f where "f \<in> set (t_local_follow d)" "lf_key f = (a, b)" "row = ?upd f"
      "t_local_follow d' = tbl_update (\<lambda>r. lf_key r = (a, b)) ?upd (t_local_follow d)"
      "d' = d\<lparr>t_local_follow := t_local_follow d'\<rparr>"
  proof (cases "find_local_follow d a b")
    case None
    then show ?thesis using assms
      by (intro new) (auto simp: follow_write_def Let_def bind_res_Inr_iff tbl_insert_Inr lf_key_def)
  next
    case (Some f)
    then have f: "f \<in> set (t_local_follow d)" "lf_key f = (a, b)"
      using find_Some_mem [of _ "t_local_follow d" f] by (auto simp: find_local_follow_def)
    then show ?thesis using assms Some by (intro old [of f]) (auto simp: follow_write_def Let_def)
  qed
  note cases = this
  show "d' = d\<lparr>t_local_follow := t_local_follow d'\<rparr>" by (rule cases) simp_all
  show "lf_key row = (a, b) \<and> lf_show_reblogs row = sr \<and> lf_notify row = nf"
    by (rule cases) (simp_all add: lf_key_def)
  show "row \<in> set (t_local_follow d')" by (rule cases) (auto simp: set_tbl_update)
  show "lf_key f = (a, b) \<or> f \<in> set (t_local_follow d)" if "f \<in> set (t_local_follow d')"
    using that by (rule_tac cases) (auto simp: set_tbl_update lf_key_def)
  show "lf_key ` set (t_local_follow d') = insert (a, b) (lf_key ` set (t_local_follow d))"
  proof (rule cases)
    fix f
    assume f: "f \<in> set (t_local_follow d)" "lf_key f = (a, b)"
      and t: "t_local_follow d' = tbl_update (\<lambda>r. lf_key r = (a, b)) ?upd (t_local_follow d)"
    have "lf_key ` set (t_local_follow d') = lf_key ` set (t_local_follow d)"
      unfolding t tbl_update_def set_map image_image by (rule image_cong) (simp_all add: key)
    then show ?thesis using f by force
  qed simp
qed

lemma follow_local_account_cases:
  assumes "follow_local_account new_id now a b sr nf d = Inr (d', row)"
  shows "a \<noteq> b" "\<not> local_accounts_are_blocked d a b"
    "follow_write new_id now a b sr nf d = Inr (d', row)"
  using assms by (auto simp: follow_local_account_def bind_res_Inr_iff follow_checks_ok)

lemma remove_from_lists_tables [simp]:
  "t_local_follow (remove_local_account_from_owned_lists a b d) = t_local_follow d"
  "t_local_account_block (remove_local_account_from_owned_lists a b d) = t_local_account_block d"
  "t_remote_follow (remove_local_account_from_owned_lists a b d) = t_remote_follow d"
  "t_remote_following (remove_local_account_from_owned_lists a b d) = t_remote_following d"
  "t_local_remote_account_block (remove_local_account_from_owned_lists a b d) = t_local_remote_account_block d"
  "t_remote_local_account_block (remove_local_account_from_owned_lists a b d) = t_remote_local_account_block d"
  "t_local_list (remove_local_account_from_owned_lists a b d) = t_local_list d"
  "t_list_remote_member (remove_local_account_from_owned_lists a b d) = t_list_remote_member d"
  "t_local_follow (remove_remote_account_from_owned_lists a b d) = t_local_follow d"
  "t_local_account_block (remove_remote_account_from_owned_lists a b d) = t_local_account_block d"
  "t_remote_follow (remove_remote_account_from_owned_lists a b d) = t_remote_follow d"
  "t_remote_following (remove_remote_account_from_owned_lists a b d) = t_remote_following d"
  "t_local_remote_account_block (remove_remote_account_from_owned_lists a b d) = t_local_remote_account_block d"
  "t_remote_local_account_block (remove_remote_account_from_owned_lists a b d) = t_remote_local_account_block d"
  "t_local_list (remove_remote_account_from_owned_lists a b d) = t_local_list d"
  "t_list_local_member (remove_remote_account_from_owned_lists a b d) = t_list_local_member d"
  by (simp_all add: remove_local_account_from_owned_lists_def remove_remote_account_from_owned_lists_def)

lemma insert_local_block_cases:
  assumes "insert_local_block new_id now a b d = Inr d'"
  shows "d' = d\<lparr>t_local_account_block := t_local_account_block d'\<rparr> \<and>
    lab_key ` set (t_local_account_block d') = insert (a, b) (lab_key ` set (t_local_account_block d))"
proof (cases "local_account_blocks d a b")
  case True
  then have "\<exists>r \<in> set (t_local_account_block d). lab_key r = (a, b)"
    by (simp add: local_account_blocks_def find_not_None)
  then have "lab_key ` set (t_local_account_block d) = insert (a, b) (lab_key ` set (t_local_account_block d))"
    by force
  moreover have "d' = d" using True assms by (simp add: insert_local_block_def)
  ultimately show ?thesis by simp
next
  case False
  then show ?thesis using assms
    by (auto simp: insert_local_block_def bind_res_Inr_iff tbl_insert_Inr lab_key_def)
qed

lemma block_local_account_cases:
  assumes "block_local_account new_id now a b d = Inr d'"
  shows "a \<noteq> b" "find_local_account_by_id d b \<noteq> None"
    "lab_key ` set (t_local_account_block d') = insert (a, b) (lab_key ` set (t_local_account_block d))"
    "t_local_follow d' = tbl_delete (\<lambda>f. lf_key f = (b, a)) (tbl_delete (\<lambda>f. lf_key f = (a, b)) (t_local_follow d))"
    "d' = d\<lparr>t_local_account_block := t_local_account_block d', t_local_follow := t_local_follow d',
            t_list_local_member := t_list_local_member d'\<rparr>"
proof -
  obtain d1 where ok: "ensure_local_relation_target a b d = Inr ()"
    and d1: "insert_local_block new_id now a b d = Inr d1"
    and d': "d' = remove_local_account_from_owned_lists b a (remove_local_account_from_owned_lists a b
        (delete_local_follows b a (delete_local_follows a b d1)))"
    using assms by (auto simp: block_local_account_def bind_res_Inr_iff)
  show "a \<noteq> b" "find_local_account_by_id d b \<noteq> None"
    using ok by (auto simp: ensure_local_relation_target_def split: if_splits)
  have t: "d1 = d\<lparr>t_local_account_block := t_local_account_block d1\<rparr>"
      "lab_key ` set (t_local_account_block d1) = insert (a, b) (lab_key ` set (t_local_account_block d))"
    using insert_local_block_cases [OF d1] by auto
  have t1: "t_local_follow d1 = t_local_follow d" by (subst t(1)) simp
  show "lab_key ` set (t_local_account_block d') = insert (a, b) (lab_key ` set (t_local_account_block d))"
    using t by (simp add: d' delete_local_follows_def)
  show "t_local_follow d' = tbl_delete (\<lambda>f. lf_key f = (b, a)) (tbl_delete (\<lambda>f. lf_key f = (a, b)) (t_local_follow d))"
    by (simp add: d' delete_local_follows_def t1 lf_key_def)
  show "d' = d\<lparr>t_local_account_block := t_local_account_block d', t_local_follow := t_local_follow d',
            t_list_local_member := t_list_local_member d'\<rparr>"
    unfolding d' delete_local_follows_def remove_local_account_from_owned_lists_def
    by (subst t(1), simp)
qed

lemma local_linked_keys: "local_linked d p \<longleftrightarrow> (\<exists>(a, b) \<in> lf_key ` set (t_local_follow d). {a, b} = p)"
  by (auto simp: local_linked_def lf_key_def)

lemma local_blocked_keys:
  "local_blocked d p \<longleftrightarrow> (\<exists>(a, b) \<in> lab_key ` set (t_local_account_block d). {a, b} = p)"
  by (auto simp: local_blocked_def lab_key_def)

interpretation local_rel: severing_relation local_linked local_blocked local_link local_block
proof
  fix p d d' q
  show "\<not> local_blocked d p" if "local_link p d d'"
    using that follow_local_account_cases(1,2) by (auto simp: local_link_def local_accounts_are_blocked_iff)
  show "local_linked d q \<or> q = p" if link: "local_link p d d'" and lq: "local_linked d' q"
  proof -
    obtain new_id now a b sr nf row where p: "p = {a, b}"
      and f: "follow_local_account new_id now a b sr nf d = Inr (d', row)"
      using link by (auto simp: local_link_def)
    have "lf_key ` set (t_local_follow d') = insert (a, b) (lf_key ` set (t_local_follow d))"
      by (rule follow_write_cases(5) [OF follow_local_account_cases(3) [OF f]])
    then show ?thesis using lq unfolding local_linked_keys p by auto
  qed
  show "local_blocked d q" if "local_link p d d'" "local_blocked d' q"
  proof -
    have "d' = d\<lparr>t_local_follow := t_local_follow d'\<rparr>"
      using that(1) follow_write_cases(1) [OF follow_local_account_cases(3)] by (auto simp: local_link_def)
    then have "t_local_account_block d' = t_local_account_block d" by (metis db.ext_inject db.surjective db.update_convs(4))
    then show ?thesis using that(2) by (simp add: local_blocked_def)
  qed
  show "\<not> local_linked d' p" if "local_block p d d'"
    using that by (auto simp: local_block_def local_linked_def block_local_account_cases(4) lf_key_def doubleton_eq_iff)
  show "local_linked d q" if "local_block p d d'" "local_linked d' q"
    using that by (auto simp: local_block_def local_linked_def block_local_account_cases(4))
  show "local_blocked d q \<or> q = p" if block: "local_block p d d'" and bq: "local_blocked d' q"
  proof -
    obtain new_id now a b where p: "p = {a, b}" and f: "block_local_account new_id now a b d = Inr d'"
      using block by (auto simp: local_block_def)
    show ?thesis using bq unfolding local_blocked_keys block_local_account_cases(3) [OF f] p by auto
  qed
qed

subsection \<open>Relations with remote actors\<close>

definition rf_pair :: "remote_follow_row \<Rightarrow> uuid \<times> uuid" where
  "rf_pair f = (rf_local_account_id f, rf_remote_actor_id f)"

definition rlb_pair :: "remote_local_account_block_row \<Rightarrow> uuid \<times> uuid" where
  "rlb_pair b = (rlb_local_account_id b, rlb_remote_actor_id b)"

text \<open>Linked: an outbound or an inbound follow exists, requested or accepted, active or not.\<close>

definition remote_linked :: "db \<Rightarrow> uuid \<times> uuid \<Rightarrow> bool" where
  "remote_linked d p \<longleftrightarrow>
     p \<in> rg_key ` set (t_remote_following d) \<or> p \<in> rf_pair ` set (t_remote_follow d)"

definition remote_blocked :: "db \<Rightarrow> uuid \<times> uuid \<Rightarrow> bool" where
  "remote_blocked d p \<longleftrightarrow>
     p \<in> lrb_key ` set (t_local_remote_account_block d) \<or>
     p \<in> rlb_pair ` set (t_remote_local_account_block d)"

lemma local_remote_accounts_are_blocked_iff:
  "local_remote_accounts_are_blocked d a r \<longleftrightarrow> remote_blocked d (a, r)"
  by (auto simp: local_remote_accounts_are_blocked_def find_local_remote_account_block_def
      remote_blocked_def lrb_key_def rlb_key_def rlb_pair_def image_iff)

definition remote_link :: "uuid \<times> uuid \<Rightarrow> db \<Rightarrow> db \<Rightarrow> bool" where
  "remote_link p d d' \<longleftrightarrow>
     (\<exists>i j n now sr nf act job.
        create_remote_following_with_job i j n now (fst p) (snd p) act sr nf job d = Inr d') \<or>
     (\<exists>i j n now act js rj.
        upsert_processed_remote_follow_with_response_job i j n now (snd p) (fst p) act js rj d = Inr (d', True)) \<or>
     (\<exists>i now act js.
        upsert_processed_pending_remote_follow i now (snd p) (fst p) act js d = Inr (d', True))"

definition remote_block :: "uuid \<times> uuid \<Rightarrow> db \<Rightarrow> db \<Rightarrow> bool" where
  "remote_block p d d' \<longleftrightarrow>
     (\<exists>i j n now act job ins. block_remote_account i j n now (fst p) (snd p) act job d = Inr (d', ins)) \<or>
     (\<exists>i n act ins. process_remote_block i n (snd p) (fst p) act d = Inr (d', ins))"

text \<open>Enqueueing leaves every other table alone.\<close>

lemma enqueue_only_frame:
  assumes "enqueue_only i n job d = Inr d'"
  obtains jobs where "d' = d\<lparr>t_job := jobs\<rparr>"
proof -
  obtain r where "enqueue_job_on_connection i n job d = Inr (d', r)"
    using assms by (auto simp: enqueue_only_def enqueue_job_in_transaction_def bind_res_Inr_iff)
  then have "d' = d\<lparr>t_job := t_job d'\<rparr>" by (rule enqueue_frame(1))
  then show thesis by (rule that)
qed

lemma insert_response_job_frame:
  assumes "insert_response_job i n now rj d = Inr d'"
  obtains jobs where "d' = d\<lparr>t_job := jobs\<rparr>"
proof -
  have "\<exists>job. enqueue_only i n job d = Inr d'"
    using assms unfolding insert_response_job_def enqueue_only_def by blast
  then show thesis using that by (auto elim: enqueue_only_frame)
qed

lemma upsert_follow_row_cases:
  assumes "upsert_follow_row now row d = Inr d'"
  obtains t where "d' = d\<lparr>t_remote_follow := t\<rparr>"
    and "rf_pair ` set t = insert (rf_pair row) (rf_pair ` set (t_remote_follow d))"
proof -
  let ?m = "\<lambda>f. f\<lparr>rf_activity_id := rf_activity_id row, rf_activity := rf_activity row,
      rf_state := rf_state row, rf_updated_at := now\<rparr>"
  obtain t where up: "tbl_upsert rf_same_pair rf_conflict ?m row (t_remote_follow d) = Inr t"
    and d': "d' = d\<lparr>t_remote_follow := t\<rparr>"
    using assms by (auto simp: upsert_follow_row_def bind_res_Inr_iff)
  have "rf_pair ` set t = insert (rf_pair row) (rf_pair ` set (t_remote_follow d))"
  proof (cases "list_ex (rf_same_pair row) (t_remote_follow d)")
    case False
    then show ?thesis using up by (auto simp: tbl_upsert_def tbl_insert_Inr)
  next
    case True
    then have t: "t = tbl_update (rf_same_pair row) ?m (t_remote_follow d)"
      using up by (auto simp: tbl_upsert_def split: if_splits)
    have "rf_pair ` set t = rf_pair ` set (t_remote_follow d)"
      unfolding t tbl_update_def set_map image_image
      by (rule image_cong) (simp_all add: rf_pair_def)
    moreover obtain f where "f \<in> set (t_remote_follow d)" "rf_pair f = rf_pair row"
      using True by (auto simp: list_ex_iff rf_same_pair_def rf_key_def rf_pair_def)
    ultimately show ?thesis by (metis image_eqI insert_absorb)
  qed
  then show thesis using d' by (rule that [rotated])
qed

lemma create_remote_following_cases:
  assumes "create_remote_following i n a r act sr nf d = Inr d'"
  shows "d' = d\<lparr>t_remote_following := t_remote_following d @ [new_following_row i n a r act sr nf]\<rparr>"
  using assms by (auto simp: create_remote_following_def bind_res_Inr_iff tbl_insert_Inr)

lemma rg_key_update:
  assumes "\<And>r. rg_key (f r) = rg_key r"
  shows "rg_key ` set (tbl_update p f t) = rg_key ` set t"
  unfolding tbl_update_def set_map image_image by (rule image_cong) (simp_all add: assms)

lemma rg_key_new [simp]: "rg_key (new_following_row i n a r act sr nf) = (a, r)"
  by (simp add: new_following_row_def rg_key_def)

lemma create_with_job_cases:
  assumes "create_remote_following_with_job i j n now a r act sr nf job d = Inr d'"
  obtains t jobs where "\<not> remote_blocked d (a, r)"
    and "d' = d\<lparr>t_remote_following := t, t_job := jobs\<rparr>"
    and "rg_key ` set t = insert (a, r) (rg_key ` set (t_remote_following d))"
proof -
  have nb: "\<not> local_remote_accounts_are_blocked d a r"
    using assms by (auto simp: create_remote_following_with_job_def split: if_splits)
  then have nb': "\<not> remote_blocked d (a, r)" by (simp add: local_remote_accounts_are_blocked_iff)
  let ?find = "List.find (\<lambda>g. rg_local_account_id g = a \<and> rg_remote_actor_id g = r) (t_remote_following d)"
  show thesis
  proof (cases ?find)
    case None
    then obtain d1 where d1: "create_remote_following i n a r act sr nf d = Inr d1"
      and d': "enqueue_only j n job d1 = Inr d'"
      using assms nb by (auto simp: create_remote_following_with_job_def bind_res_Inr_iff)
    obtain jobs where "d' = d1\<lparr>t_job := jobs\<rparr>" using d' by (rule enqueue_only_frame)
    then have "d' = d\<lparr>t_remote_following :=
        t_remote_following d @ [new_following_row i n a r act sr nf], t_job := jobs\<rparr>"
      using create_remote_following_cases [OF d1] by simp
    then show thesis by (rule that [OF nb']) simp
  next
    case (Some g)
    then have "g \<in> set (t_remote_following d)" "rg_key g = (a, r)"
      by (auto dest!: find_Some_mem simp: rg_key_def)
    then have old: "insert (a, r) (rg_key ` set (t_remote_following d)) = rg_key ` set (t_remote_following d)"
      by force
    show thesis
    proof (cases "rg_deactivated_at g = None")
      case True
      let ?t = "tbl_update (\<lambda>r. rg_id r = rg_id g) (\<lambda>r. r\<lparr>rg_show_reblogs := sr, rg_notify := nf,
          rg_updated_at := now\<rparr>) (t_remote_following d)"
      have "d' = d\<lparr>t_remote_following := ?t\<rparr>"
        using assms nb Some True by (simp add: create_remote_following_with_job_def)
      then have eq: "d' = d\<lparr>t_remote_following := ?t, t_job := t_job d\<rparr>" by (cases d) simp
      have "rg_key ` set ?t = rg_key ` set (t_remote_following d)"
        by (rule rg_key_update) (simp add: rg_key_def)
      then have "rg_key ` set ?t = insert (a, r) (rg_key ` set (t_remote_following d))"
        using old by (rule trans [OF _ sym])
      with nb' eq show thesis by (rule that)
    next
      case False
      then obtain t where
          t: "t = tbl_update (\<lambda>r. rg_id r = rg_id g)
             (\<lambda>r. r\<lparr>rg_activity_id := act, rg_state := Pending, rg_show_reblogs := sr,
               rg_notify := nf, rg_deactivated_at := None, rg_updated_at := now\<rparr>) (t_remote_following d)"
        and d': "enqueue_only j n job (d\<lparr>t_remote_following := t\<rparr>) = Inr d'"
        using assms nb Some
        by (auto simp: create_remote_following_with_job_def bind_res_Inr_iff tbl_update_checked_def
            split: if_splits)
      obtain jobs where eq: "d' = d\<lparr>t_remote_following := t\<rparr>\<lparr>t_job := jobs\<rparr>"
        using d' by (rule enqueue_only_frame)
      have "rg_key ` set t = rg_key ` set (t_remote_following d)"
        unfolding t by (rule rg_key_update) (simp add: rg_key_def)
      then have "rg_key ` set t = insert (a, r) (rg_key ` set (t_remote_following d))"
        using old by (rule trans [OF _ sym])
      with nb' eq show thesis by (rule that)
    qed
  qed
qed

text \<open>An accepted inbound follow adds its pair, which is not blocked.\<close>

lemma inbound_follow_cases:
  assumes "upsert_processed_remote_follow_with_response_job i j n now r a act js rj d = Inr (d', True) \<or>
    upsert_processed_pending_remote_follow i now r a act js d = Inr (d', True)"
  obtains t jobs where "\<not> remote_blocked d (a, r)"
    and "d' = d\<lparr>t_remote_follow := t, t_job := jobs\<rparr>"
    and "rf_pair ` set t = insert (a, r) (rf_pair ` set (t_remote_follow d))"
  using assms
proof
  assume up: "upsert_processed_remote_follow_with_response_job i j n now r a act js rj d = Inr (d', True)"
  let ?row = "\<lparr> rf_id = i, rf_remote_actor_id = r, rf_local_account_id = a, rf_activity_id = act,
      rf_activity = js, rf_state = Accepted, rf_created_at = now, rf_updated_at = now \<rparr>"
  obtain d1 where nb: "\<not> local_remote_accounts_are_blocked d a r"
    and d1: "upsert_follow_row now ?row d = Inr d1" and d': "insert_response_job j n now rj d1 = Inr d'"
    using up by (auto simp: upsert_processed_remote_follow_with_response_job_def bind_res_Inr_iff
        split: if_splits)
  obtain t where t: "d1 = d\<lparr>t_remote_follow := t\<rparr>"
      "rf_pair ` set t = insert (rf_pair ?row) (rf_pair ` set (t_remote_follow d))"
    using d1 by (rule upsert_follow_row_cases)
  obtain jobs where "d' = d1\<lparr>t_job := jobs\<rparr>" using d' by (rule insert_response_job_frame)
  then have eq: "d' = d\<lparr>t_remote_follow := t, t_job := jobs\<rparr>" using t(1) by simp
  show thesis
    by (rule that [OF _ eq]) (use nb t(2) in \<open>simp_all add: local_remote_accounts_are_blocked_iff rf_pair_def\<close>)
next
  assume up: "upsert_processed_pending_remote_follow i now r a act js d = Inr (d', True)"
  let ?row = "\<lparr> rf_id = i, rf_remote_actor_id = r, rf_local_account_id = a, rf_activity_id = act,
      rf_activity = js, rf_state = Pending, rf_created_at = now, rf_updated_at = now \<rparr>"
  have nb: "\<not> local_remote_accounts_are_blocked d a r" and d1: "upsert_follow_row now ?row d = Inr d'"
    using up by (auto simp: upsert_processed_pending_remote_follow_def bind_res_Inr_iff split: if_splits)
  obtain t where t: "d' = d\<lparr>t_remote_follow := t\<rparr>"
      "rf_pair ` set t = insert (rf_pair ?row) (rf_pair ` set (t_remote_follow d))"
    using d1 by (rule upsert_follow_row_cases)
  have eq: "d' = d\<lparr>t_remote_follow := t, t_job := t_job d\<rparr>" using t(1) by (cases d) simp
  show thesis
    by (rule that [OF _ eq]) (use nb t(2) in \<open>simp_all add: local_remote_accounts_are_blocked_iff rf_pair_def\<close>)
qed

lemma remote_link_cases:
  assumes "remote_link p d d'"
  shows "\<not> remote_blocked d p" and "remote_linked d' q \<Longrightarrow> remote_linked d q \<or> q = p"
    and "remote_blocked d' q \<longleftrightarrow> remote_blocked d q"
proof -
  obtain a r where p: "p = (a, r)" by (cases p)
  consider (out) i j n now sr nf act job where
      "create_remote_following_with_job i j n now a r act sr nf job d = Inr d'"
    | (inb) i j n now act js rj where
      "upsert_processed_remote_follow_with_response_job i j n now r a act js rj d = Inr (d', True) \<or>
       upsert_processed_pending_remote_follow i now r a act js d = Inr (d', True)"
    using assms unfolding remote_link_def p fst_conv snd_conv by blast
  then have "\<not> remote_blocked d p \<and> (remote_linked d' q \<longrightarrow> remote_linked d q \<or> q = p) \<and>
      (remote_blocked d' q \<longleftrightarrow> remote_blocked d q)"
  proof cases
    case out
    then obtain t jobs where "\<not> remote_blocked d (a, r)"
        and d': "d' = d\<lparr>t_remote_following := t, t_job := jobs\<rparr>"
        and t: "rg_key ` set t = insert (a, r) (rg_key ` set (t_remote_following d))"
      by (rule create_with_job_cases)
    then show ?thesis by (auto simp: p d' t remote_linked_def remote_blocked_def)
  next
    case inb
    then obtain t jobs where "\<not> remote_blocked d (a, r)"
        and d': "d' = d\<lparr>t_remote_follow := t, t_job := jobs\<rparr>"
        and t: "rf_pair ` set t = insert (a, r) (rf_pair ` set (t_remote_follow d))"
      by (rule inbound_follow_cases)
    then show ?thesis by (auto simp: p d' t remote_linked_def remote_blocked_def)
  qed
  then show "\<not> remote_blocked d p" "remote_linked d' q \<Longrightarrow> remote_linked d q \<or> q = p"
    "remote_blocked d' q \<longleftrightarrow> remote_blocked d q" by auto
qed

lemma insert_remote_block_cases:
  assumes "insert_remote_block i now a r act d = Inr (d', ins)"
  obtains t where "d' = d\<lparr>t_local_remote_account_block := t\<rparr>"
    and "lrb_key ` set t = insert (a, r) (lrb_key ` set (t_local_remote_account_block d))"
    and "ins \<longleftrightarrow> (a, r) \<notin> lrb_key ` set (t_local_remote_account_block d)"
proof -
  let ?row = "\<lparr> lrb_id = i, lrb_local_account_id = a, lrb_remote_actor_id = r,
      lrb_activity_id = act, lrb_created_at = now, lrb_updated_at = now \<rparr>"
  obtain t where t: "tbl_insert_unless lrb_same_pair lrb_conflict ?row
      (t_local_remote_account_block d) = Inr (t, ins)" "d' = d\<lparr>t_local_remote_account_block := t\<rparr>"
    using assms by (auto simp: insert_remote_block_def bind_res_Inr_iff split: if_splits)
  have key: "lrb_key ?row = (a, r)" by (simp add: lrb_key_def)
  have ex: "(\<exists>x \<in> set (t_local_remote_account_block d). lrb_same_pair ?row x) \<longleftrightarrow>
      (a, r) \<in> lrb_key ` set (t_local_remote_account_block d)"
    unfolding lrb_same_pair_def key image_iff by simp
  have "lrb_key ` set t = insert (a, r) (lrb_key ` set (t_local_remote_account_block d)) \<and>
      (ins \<longleftrightarrow> (a, r) \<notin> lrb_key ` set (t_local_remote_account_block d))"
    using t(1) key unfolding tbl_insert_unless_Inr ex by (auto split: if_splits)
  then show thesis using that [OF t(2)] by blast
qed

lemma block_remote_account_cases:
  assumes "block_remote_account i j n now a r act job d = Inr (d', ins)"
  shows "find_remote_actor_by_id d r \<noteq> None"
    and "lrb_key ` set (t_local_remote_account_block d') =
           insert (a, r) (lrb_key ` set (t_local_remote_account_block d))"
    and "ins \<longleftrightarrow> (a, r) \<notin> lrb_key ` set (t_local_remote_account_block d)"
    and "\<exists>tb jobs. d' = dismiss_notifications now
           (\<lambda>n. ln_account_id n = a \<and> ln_remote_actor_id n = Some r)
           (delete_remote_follows a r (remove_remote_account_from_owned_lists a r
             (delete_followings a r (d\<lparr>t_local_remote_account_block := tb\<rparr>))))\<lparr>t_job := jobs\<rparr>"
proof -
  obtain d1 where d1: "insert_remote_block i now a r act d = Inr (d1, ins)"
    and ex: "find_remote_actor_by_id d r \<noteq> None"
    and rest: "(let d = delete_followings a r d1; d = remove_remote_account_from_owned_lists a r d;
              d = delete_remote_follows a r d;
              d = dismiss_notifications now
                    (\<lambda>n. ln_account_id n = a \<and> ln_remote_actor_id n = Some r) d
          in if ins then bind_res (enqueue_only j n job d) (\<lambda>d. Inr (d, True))
             else Inr (d, False)) = Inr (d', ins)"
    using assms by (auto simp: block_remote_account_def bind_res_Inr_iff Let_def split: if_splits)
  let ?D = "dismiss_notifications now (\<lambda>n. ln_account_id n = a \<and> ln_remote_actor_id n = Some r)
      (delete_remote_follows a r (remove_remote_account_from_owned_lists a r (delete_followings a r d1)))"
  have "\<exists>jobs. d' = ?D\<lparr>t_job := jobs\<rparr>"
  proof (cases ins)
    case True
    then have "enqueue_only j n job ?D = Inr d'" using rest by (auto simp: Let_def bind_res_Inr_iff)
    then show ?thesis by (rule enqueue_only_frame) blast
  next
    case False
    then have "d' = ?D" using rest by (auto simp: Let_def)
    then have "d' = ?D\<lparr>t_job := t_job ?D\<rparr>" by simp
    then show ?thesis by blast
  qed
  then obtain jobs where d': "d' = ?D\<lparr>t_job := jobs\<rparr>" by blast
  obtain t where t: "d1 = d\<lparr>t_local_remote_account_block := t\<rparr>"
    "lrb_key ` set t = insert (a, r) (lrb_key ` set (t_local_remote_account_block d))"
    "ins \<longleftrightarrow> (a, r) \<notin> lrb_key ` set (t_local_remote_account_block d)"
    using d1 by (rule insert_remote_block_cases)
  show "find_remote_actor_by_id d r \<noteq> None" by (rule ex)
  show "ins \<longleftrightarrow> (a, r) \<notin> lrb_key ` set (t_local_remote_account_block d)" by (rule t(3))
  show "lrb_key ` set (t_local_remote_account_block d') =
           insert (a, r) (lrb_key ` set (t_local_remote_account_block d))"
    using t(2) by (simp add: d' t(1) dismiss_notifications_def delete_remote_follows_def delete_followings_def)
  show "\<exists>tb jobs. d' = dismiss_notifications now
           (\<lambda>n. ln_account_id n = a \<and> ln_remote_actor_id n = Some r)
           (delete_remote_follows a r (remove_remote_account_from_owned_lists a r
             (delete_followings a r (d\<lparr>t_local_remote_account_block := tb\<rparr>))))\<lparr>t_job := jobs\<rparr>"
    using d' unfolding t(1) by blast
qed

lemma process_remote_block_cases:
  assumes "process_remote_block i n r a act d = Inr (d', ins)"
  shows "\<exists>tb. d' = dismiss_notifications n
           (\<lambda>n. ln_account_id n = a \<and> ln_remote_actor_id n = Some r)
           (remove_remote_account_from_owned_lists a r
             (delete_followings a r (delete_remote_follows a r (d\<lparr>t_remote_local_account_block := tb\<rparr>)))) \<and>
         rlb_pair ` set tb = (if ins then insert (a, r) else id) (rlb_pair ` set (t_remote_local_account_block d))"
proof -
  let ?row = "\<lparr> rlb_id = i, rlb_remote_actor_id = r, rlb_local_account_id = a,
      rlb_activity_id = act, rlb_created_at = n, rlb_updated_at = n \<rparr>"
  obtain tb where tb: "tbl_insert_nothing rlb_conflict ?row (t_remote_local_account_block d) = (tb, ins)"
    and d': "d' = dismiss_notifications n
           (\<lambda>n. ln_account_id n = a \<and> ln_remote_actor_id n = Some r)
           (remove_remote_account_from_owned_lists a r
             (delete_followings a r (delete_remote_follows a r (d\<lparr>t_remote_local_account_block := tb\<rparr>))))"
    using assms
    by (cases "tbl_insert_nothing rlb_conflict ?row (t_remote_local_account_block d)")
       (auto simp: process_remote_block_def Let_def split: if_splits)
  have "rlb_pair ?row = (a, r)" by (simp add: rlb_pair_def)
  then have "rlb_pair ` set tb =
      (if ins then insert (a, r) else id) (rlb_pair ` set (t_remote_local_account_block d))"
    using tb by (auto simp: tbl_insert_nothing_def split: if_splits)
  then show ?thesis using d' by blast
qed

lemmas severing_defs = dismiss_notifications_def delete_remote_follows_def delete_followings_def

lemma remote_block_cases:
  assumes "remote_block p d d'"
  shows "\<not> remote_linked d' p" and "remote_linked d' q \<Longrightarrow> remote_linked d q"
    and "remote_blocked d' q \<Longrightarrow> remote_blocked d q \<or> q = p"
proof -
  obtain a r where p: "p = (a, r)" by (cases p)
  have tables: "t_remote_following d' = tbl_delete (\<lambda>g. rg_key g = (a, r)) (t_remote_following d) \<and>
      t_remote_follow d' = tbl_delete (\<lambda>f. rf_pair f = (a, r)) (t_remote_follow d) \<and>
      (remote_blocked d' q \<longrightarrow> remote_blocked d q \<or> q = p)"
    using assms [unfolded remote_block_def p fst_conv snd_conv]
  proof (elim disjE exE)
    fix i j n now act job ins
    assume blk: "block_remote_account i j n now a r act job d = Inr (d', ins)"
    obtain tb jobs where d': "d' = dismiss_notifications now
           (\<lambda>n. ln_account_id n = a \<and> ln_remote_actor_id n = Some r)
           (delete_remote_follows a r (remove_remote_account_from_owned_lists a r
             (delete_followings a r (d\<lparr>t_local_remote_account_block := tb\<rparr>))))\<lparr>t_job := jobs\<rparr>"
      using block_remote_account_cases(4) [OF blk] by blast
    have "t_remote_local_account_block d' = t_remote_local_account_block d"
      by (simp add: d' severing_defs)
    then show ?thesis
      using block_remote_account_cases(2) [OF blk]
      by (auto simp: remote_blocked_def p d' severing_defs rg_key_def rf_pair_def)
  next
    fix i n act ins
    assume "process_remote_block i n r a act d = Inr (d', ins)"
    then obtain tb where d': "d' = dismiss_notifications n
           (\<lambda>n. ln_account_id n = a \<and> ln_remote_actor_id n = Some r)
           (remove_remote_account_from_owned_lists a r
             (delete_followings a r (delete_remote_follows a r (d\<lparr>t_remote_local_account_block := tb\<rparr>))))"
      and tb: "rlb_pair ` set tb = (if ins then insert (a, r) else id) (rlb_pair ` set (t_remote_local_account_block d))"
      using process_remote_block_cases by blast
    show ?thesis
      using tb by (auto simp: p remote_blocked_def d' severing_defs rg_key_def rf_pair_def split: if_splits)
  qed
  then show "\<not> remote_linked d' p" "remote_linked d' q \<Longrightarrow> remote_linked d q"
    "remote_blocked d' q \<Longrightarrow> remote_blocked d q \<or> q = p"
    by (auto simp: remote_linked_def p)
qed

interpretation remote_rel: severing_relation remote_linked remote_blocked remote_link remote_block
  by unfold_locales (blast dest: remote_link_cases remote_block_cases)+

end
