(* ===== verification/Roosty_List_Invariants.thy ===== *)
theory Roosty_List_Invariants
  imports Roosty_Relation_Invariants
begin

text \<open>
  List memberships rest on follows: every local member of a list is followed by the owner of
  the list, and for every remote member the owner has an outbound follow that has not been
  deactivated (requested or accepted), unless the actor is in the set \<open>E\<close> of those that ended
  the follow themselves. The lemmas show it for each operation that changes a list, a
  membership or a follow.
\<close>

definition owns :: "db \<Rightarrow> uuid \<Rightarrow> uuid \<Rightarrow> bool" where
  "owns d owner list_id \<longleftrightarrow>
     (\<exists>l \<in> set (t_local_list d). ll_id l = list_id \<and> ll_account_id l = owner)"

definition wants_remote :: "db \<Rightarrow> uuid \<Rightarrow> uuid \<Rightarrow> bool" where
  "wants_remote d a r \<longleftrightarrow>
     (\<exists>g \<in> set (t_remote_following d). rg_key g = (a, r) \<and> rg_deactivated_at g = None)"

definition list_members_ok :: "uuid set \<Rightarrow> db \<Rightarrow> bool" where
  "list_members_ok E d \<longleftrightarrow>
     (\<forall>m \<in> set (t_list_local_member d).
        \<exists>owner. owns d owner (llm_list_id m) \<and> follows_locally d owner (llm_account_id m)) \<and>
     (\<forall>m \<in> set (t_list_remote_member d).
        \<exists>owner. owns d owner (lrem_list_id m) \<and>
          (lrem_remote_actor_id m \<in> E \<or> wants_remote d owner (lrem_remote_actor_id m)))"

lemma owns_iff:
  "owns d o' x \<longleftrightarrow> (x, o') \<in> (\<lambda>l. (ll_id l, ll_account_id l)) ` set (t_local_list d)"
  by (auto simp: owns_def image_iff)

lemma owned_list_ids_iff [simp]: "l \<in> set (owned_list_ids d owner) \<longleftrightarrow> owns d owner l"
  by (auto simp: owned_list_ids_def owns_def)

lemma list_members_ok_mono:
  assumes "list_members_ok E d"
    and "\<And>m. m \<in> set (t_list_local_member d') \<Longrightarrow> m \<in> set (t_list_local_member d)"
    and "\<And>m. m \<in> set (t_list_remote_member d') \<Longrightarrow> m \<in> set (t_list_remote_member d)"
    and "\<And>m owner. m \<in> set (t_list_local_member d') \<Longrightarrow> owns d owner (llm_list_id m) \<Longrightarrow>
           follows_locally d owner (llm_account_id m) \<Longrightarrow>
           owns d' owner (llm_list_id m) \<and> follows_locally d' owner (llm_account_id m)"
    and "\<And>m owner. m \<in> set (t_list_remote_member d') \<Longrightarrow> owns d owner (lrem_list_id m) \<Longrightarrow>
           wants_remote d owner (lrem_remote_actor_id m) \<Longrightarrow>
           wants_remote d' owner (lrem_remote_actor_id m)"
    and "\<And>m owner. m \<in> set (t_list_remote_member d') \<Longrightarrow> owns d owner (lrem_list_id m) \<Longrightarrow>
           owns d' owner (lrem_list_id m)"
  shows "list_members_ok E d'"
  using assms unfolding list_members_ok_def by meson

lemma list_members_ok_cong:
  assumes "t_local_list d' = t_local_list d" and "t_local_follow d' = t_local_follow d"
    and "t_remote_following d' = t_remote_following d"
    and "t_list_local_member d' = t_list_local_member d"
    and "t_list_remote_member d' = t_list_remote_member d"
  shows "list_members_ok E d' \<longleftrightarrow> list_members_ok E d"
  using assms by (simp add: list_members_ok_def owns_def follows_locally_def wants_remote_def)

text \<open>Severing follows is harmless when the memberships that rest on them go with them.\<close>

lemma list_members_ok_unlink:
  assumes "list_members_ok E d" and "t_local_list d' = t_local_list d"
    and "t_remote_following d' = t_remote_following d"
    and "t_list_remote_member d' = t_list_remote_member d"
    and "\<And>m. m \<in> set (t_list_local_member d') \<Longrightarrow> m \<in> set (t_list_local_member d) \<and>
           (\<forall>x y. (x, y) \<in> P \<longrightarrow> \<not> (llm_account_id m = y \<and> owns d x (llm_list_id m)))"
    and "\<And>x y. follows_locally d x y \<Longrightarrow> (x, y) \<notin> P \<Longrightarrow> follows_locally d' x y"
  shows "list_members_ok E d'"
proof (rule list_members_ok_mono [OF assms(1)])
  fix m owner
  assume "m \<in> set (t_list_local_member d')" "owns d owner (llm_list_id m)"
    "follows_locally d owner (llm_account_id m)"
  then show "owns d' owner (llm_list_id m) \<and> follows_locally d' owner (llm_account_id m)"
    using assms(2,5,6) by (auto simp: owns_def)
qed (use assms in \<open>auto simp: owns_def wants_remote_def\<close>)

lemma list_members_ok_unlink_remote:
  assumes "list_members_ok E d" and "t_local_list d' = t_local_list d"
    and "t_local_follow d' = t_local_follow d"
    and "t_list_local_member d' = t_list_local_member d"
    and "\<And>m. m \<in> set (t_list_remote_member d') \<Longrightarrow> m \<in> set (t_list_remote_member d) \<and>
           (\<forall>x y. (x, y) \<in> P \<longrightarrow> \<not> (lrem_remote_actor_id m = y \<and> owns d x (lrem_list_id m)))"
    and "\<And>x y. wants_remote d x y \<Longrightarrow> (x, y) \<notin> P \<Longrightarrow> wants_remote d' x y"
  shows "list_members_ok E d'"
proof (rule list_members_ok_mono [OF assms(1)])
  fix m owner
  assume "m \<in> set (t_list_remote_member d')" "owns d owner (lrem_list_id m)"
    "wants_remote d owner (lrem_remote_actor_id m)"
  then show "wants_remote d' owner (lrem_remote_actor_id m)"
    using assms(2,5,6) by (auto simp: owns_def)
qed (use assms in \<open>auto simp: owns_def follows_locally_def\<close>)

subsection \<open>Local operations\<close>

lemma follow_write_list_ok:
  assumes "follow_write new_id now a b sr nf d = Inr (d', row)" and "list_members_ok E d"
  shows "list_members_ok E d'"
proof -
  have d': "d' = d\<lparr>t_local_follow := t_local_follow d'\<rparr>" by (rule follow_write_cases(1) [OF assms(1)])
  have same: "t_local_list d' = t_local_list d" "t_remote_following d' = t_remote_following d"
    "t_list_local_member d' = t_list_local_member d" "t_list_remote_member d' = t_list_remote_member d"
    by (subst d', simp)+
  have "follows_locally d' x y" if "follows_locally d x y" for x y
    using that follow_write_cases(5) [OF assms(1)] unfolding follows_locally_def
    by (metis image_eqI image_iff insertCI)
  then show ?thesis
    by (intro list_members_ok_mono [OF assms(2)]) (simp_all add: same owns_def wants_remote_def)
qed

lemma unfollow_list_ok:
  assumes "list_members_ok E d"
  shows "list_members_ok E (unfollow_local_account a b d)"
proof (rule list_members_ok_unlink [OF assms, where P = "{(a, b)}"])
  let ?d' = "unfollow_local_account a b d"
  have "t_local_follow ?d' = tbl_delete (\<lambda>r. lf_key r = (a, b)) (t_local_follow d)"
    by (auto simp: unfollow_local_account_def Let_def find_local_follow_def find_None_all
        dest: find_Some_mem intro: tbl_delete_id [symmetric] split: option.splits)
  then show "follows_locally ?d' x y" if "follows_locally d x y" "(x, y) \<notin> {(a, b)}" for x y
    using that by (auto simp: follows_locally_def)
qed (auto simp: unfollow_local_account_def Let_def remove_local_account_from_owned_lists_def
       split: option.splits)

lemma block_local_account_shape:
  assumes "block_local_account new_id now a b d = Inr d'"
  obtains tb where "d' = remove_local_account_from_owned_lists b a (remove_local_account_from_owned_lists a b
        (delete_local_follows b a (delete_local_follows a b (d\<lparr>t_local_account_block := tb\<rparr>))))"
proof -
  obtain d1 where d1: "insert_local_block new_id now a b d = Inr d1"
    and d': "d' = remove_local_account_from_owned_lists b a (remove_local_account_from_owned_lists a b
        (delete_local_follows b a (delete_local_follows a b d1)))"
    using assms by (auto simp: block_local_account_def bind_res_Inr_iff)
  have "d1 = d\<lparr>t_local_account_block := t_local_account_block d1\<rparr>"
    using insert_local_block_cases [OF d1] by blast
  then show thesis using d' that by metis
qed

lemma block_local_list_ok:
  assumes "block_local_account new_id now a b d = Inr d'" and "list_members_ok E d"
  shows "list_members_ok E d'"
proof -
  obtain tb where d': "d' = remove_local_account_from_owned_lists b a (remove_local_account_from_owned_lists a b
        (delete_local_follows b a (delete_local_follows a b (d\<lparr>t_local_account_block := tb\<rparr>))))"
    using assms(1) by (rule block_local_account_shape)
  show ?thesis
  proof (rule list_members_ok_unlink [OF assms(2), where P = "{(a, b), (b, a)}"])
    show "follows_locally d' x y" if "follows_locally d x y" "(x, y) \<notin> {(a, b), (b, a)}" for x y
      using that by (auto simp: d' follows_locally_def delete_local_follows_def lf_key_def)
  qed (auto simp: d' remove_local_account_from_owned_lists_def delete_local_follows_def owns_def)
qed

subsection \<open>Lists\<close>

lemma create_list_ok:
  assumes "create_local_list i n a title policy ex d = Inr (d', row)" and "list_members_ok E d"
  shows "list_members_ok E d'"
proof -
  obtain l where "d' = d\<lparr>t_local_list := t_local_list d @ [l]\<rparr>"
    using assms(1) by (auto simp: create_local_list_def Let_def bind_res_Inr_iff tbl_insert_Inr split: if_splits)
  then show ?thesis
    by (intro list_members_ok_mono [OF assms(2)]) (auto simp: owns_def follows_locally_def wants_remote_def)
qed

lemma update_list_ok:
  assumes "update_local_list now a i title policy ex d = Inr (d', res)" and "list_members_ok E d"
  shows "list_members_ok E d'"
proof (cases "find_owned_local_list d a i")
  case None
  then show ?thesis using assms by (simp add: update_local_list_def)
next
  case (Some l)
  let ?f = "\<lambda>r. r\<lparr>ll_title := title, ll_replies_policy := policy, ll_exclusive := ex, ll_updated_at := now\<rparr>"
  have key: "owns (d\<lparr>t_local_list := tbl_update p ?f (t_local_list d)\<rparr>) o' x \<longleftrightarrow> owns d o' x" for p o' x
  proof -
    have "(\<lambda>l. (ll_id l, ll_account_id l)) ` set (tbl_update p ?f (t_local_list d)) =
        (\<lambda>l. (ll_id l, ll_account_id l)) ` set (t_local_list d)"
      unfolding tbl_update_def set_map image_image by (rule image_cong) simp_all
    then show ?thesis by (simp add: owns_iff)
  qed
  then show ?thesis
    using Some assms(1) by (intro list_members_ok_mono [OF assms(2)])
      (auto simp: update_local_list_def Let_def follows_locally_def wants_remote_def split: if_splits)
qed

lemma delete_list_ok:
  assumes "list_members_ok E d"
  shows "list_members_ok E (fst (delete_local_list a i d))"
  by (rule list_members_ok_mono [OF assms])
     (auto simp: delete_local_list_def Let_def owns_def follows_locally_def wants_remote_def)

lemma insert_list_members_cases:
  assumes "insert_list_members n l lf pairs d = Inr d'"
  shows "\<exists>ml mr. d' = d\<lparr>t_list_local_member := t_list_local_member d @ ml,
             t_list_remote_member := t_list_remote_member d @ mr\<rparr> \<and>
           (\<forall>m \<in> set ml. llm_list_id m = l \<and> llm_account_id m \<in> lf \<and> llm_account_id m \<in> snd ` set pairs) \<and>
           (\<forall>m \<in> set mr. lrem_list_id m = l \<and> lrem_remote_actor_id m \<notin> lf \<and>
              lrem_remote_actor_id m \<in> snd ` set pairs)"
  using assms
proof (induction pairs arbitrary: d)
  case Nil
  then show ?case by (intro exI [of _ "[]"]) (cases d, simp)
next
  case (Cons p pairs)
  obtain x i where p: "p = (x, i)" by (cases p)
  show ?case
  proof (cases "i \<in> lf")
    case True
    let ?r = "\<lparr> llm_id = x, llm_list_id = l, llm_account_id = i, llm_created_at = n \<rparr>"
    have rest: "insert_list_members n l lf pairs (d\<lparr>t_list_local_member := t_list_local_member d @ [?r]\<rparr>) = Inr d'"
      using Cons.prems True by (auto simp: p bind_res_Inr_iff tbl_insert_Inr)
    from Cons.IH [OF this] obtain ml mr where
      "d' = d\<lparr>t_list_local_member := t_list_local_member d @ ?r # ml,
             t_list_remote_member := t_list_remote_member d @ mr\<rparr>"
      "\<forall>m \<in> set ml. llm_list_id m = l \<and> llm_account_id m \<in> lf \<and> llm_account_id m \<in> snd ` set pairs"
      "\<forall>m \<in> set mr. lrem_list_id m = l \<and> lrem_remote_actor_id m \<notin> lf \<and> lrem_remote_actor_id m \<in> snd ` set pairs"
      by auto
    then show ?thesis using True by (intro exI [of _ "?r # ml"] exI [of _ mr]) (auto simp: p)
  next
    case False
    let ?r = "\<lparr> lrem_id = x, lrem_list_id = l, lrem_remote_actor_id = i, lrem_created_at = n \<rparr>"
    have rest: "insert_list_members n l lf pairs (d\<lparr>t_list_remote_member := t_list_remote_member d @ [?r]\<rparr>) = Inr d'"
      using Cons.prems False by (auto simp: p bind_res_Inr_iff tbl_insert_Inr)
    from Cons.IH [OF this] obtain ml mr where
      "d' = d\<lparr>t_list_local_member := t_list_local_member d @ ml,
             t_list_remote_member := t_list_remote_member d @ ?r # mr\<rparr>"
      "\<forall>m \<in> set ml. llm_list_id m = l \<and> llm_account_id m \<in> lf \<and> llm_account_id m \<in> snd ` set pairs"
      "\<forall>m \<in> set mr. lrem_list_id m = l \<and> lrem_remote_actor_id m \<notin> lf \<and> lrem_remote_actor_id m \<in> snd ` set pairs"
      by auto
    then show ?thesis using False by (intro exI [of _ ml] exI [of _ "?r # mr"]) (auto simp: p)
  qed
qed

lemma find_owned_owns: "find_owned_local_list d a l \<noteq> None \<longleftrightarrow> owns d a l"
  by (auto simp: find_owned_local_list_def owns_def)

lemma add_list_accounts_ok:
  assumes "add_local_list_accounts nid n a l ids d = Inr (d', r)" and "list_members_ok E d"
  shows "list_members_ok E d'"
proof (cases "r = Added")
  case False
  then have "d' = d" using assms(1)
    by (auto simp: add_local_list_accounts_def Let_def bind_res_Inr_iff split: if_splits)
  then show ?thesis using assms(2) by simp
next
  case True
  let ?ids = "remdups ids"
  let ?lf = "lf_followed_account_id ` {f \<in> set (t_local_follow d). lf_follower_account_id f = a \<and>
      lf_followed_account_id f \<in> set ?ids}"
  let ?rf = "rg_remote_actor_id ` {g \<in> set (t_remote_following d). rg_local_account_id g = a \<and>
      rg_remote_actor_id g \<in> set ?ids \<and> rg_state g = Accepted \<and> rg_deactivated_at g = None}"
  have own: "owns d a l"
    and foll: "\<not> list_ex (\<lambda>i. i \<notin> ?lf \<and> i \<notin> ?rf) ?ids"
    and ins: "insert_list_members n l ?lf (map (\<lambda>i. (nid i, i)) ?ids) d = Inr d'"
    using assms(1) True
    by (auto simp: add_local_list_accounts_def Let_def bind_res_Inr_iff find_owned_owns [symmetric]
        split: if_splits)
  obtain ml mr where d': "d' = d\<lparr>t_list_local_member := t_list_local_member d @ ml,
             t_list_remote_member := t_list_remote_member d @ mr\<rparr>"
    and ml: "\<forall>m \<in> set ml. llm_list_id m = l \<and> llm_account_id m \<in> ?lf"
    and mr: "\<forall>m \<in> set mr. lrem_list_id m = l \<and> lrem_remote_actor_id m \<notin> ?lf \<and>
              lrem_remote_actor_id m \<in> set ?ids"
    using insert_list_members_cases [OF ins] by fastforce
  have lf: "follows_locally d a i" if "i \<in> ?lf" for i
    using that by (auto simp: follows_locally_def lf_key_def)
  have rf: "wants_remote d a i" if "i \<notin> ?lf" "i \<in> set ?ids" for i
  proof -
    have "i \<in> ?rf" using foll that by (auto simp: list_ex_iff)
    then show ?thesis by (auto simp: wants_remote_def rg_key_def)
  qed
  have "owns d' o' x \<longleftrightarrow> owns d o' x" "follows_locally d' o' x \<longleftrightarrow> follows_locally d o' x"
    "wants_remote d' o' x \<longleftrightarrow> wants_remote d o' x" for o' x
    by (simp_all add: d' owns_def follows_locally_def wants_remote_def)
  moreover have "\<forall>m \<in> set ml. owns d a (llm_list_id m) \<and> follows_locally d a (llm_account_id m)"
  proof
    fix m assume m: "m \<in> set ml"
    then have "follows_locally d a (llm_account_id m)" using ml
      by (intro lf) (drule (1) bspec, elim conjE, assumption)
    then show "owns d a (llm_list_id m) \<and> follows_locally d a (llm_account_id m)"
      using ml m own by simp
  qed
  moreover have "\<forall>m \<in> set mr. owns d a (lrem_list_id m) \<and> wants_remote d a (lrem_remote_actor_id m)"
  proof
    fix m assume m: "m \<in> set mr"
    then have "wants_remote d a (lrem_remote_actor_id m)"
      using mr by (intro rf) (drule (1) bspec, elim conjE, assumption)+
    then show "owns d a (lrem_list_id m) \<and> wants_remote d a (lrem_remote_actor_id m)"
      using mr m own by simp
  qed
  ultimately show ?thesis
    using assms(2) unfolding list_members_ok_def by (simp add: d' ball_Un) blast
qed

lemma remove_list_accounts_ok:
  assumes "list_members_ok E d"
  shows "list_members_ok E (fst (remove_local_list_accounts a l ids d))"
  by (rule list_members_ok_mono [OF assms])
     (auto simp: remove_local_list_accounts_def owns_def follows_locally_def wants_remote_def
       split: if_splits)

subsection \<open>Remote operations\<close>

lemma wants_remote_update:
  assumes "\<And>g. rg_key (f g) = rg_key g" and "\<And>g. rg_deactivated_at g = None \<Longrightarrow> rg_deactivated_at (f g) = None"
    and "wants_remote d x y"
  shows "\<exists>g \<in> set (tbl_update p f (t_remote_following d)). rg_key g = (x, y) \<and> rg_deactivated_at g = None"
proof -
  obtain g where g: "g \<in> set (t_remote_following d)" "rg_key g = (x, y)" "rg_deactivated_at g = None"
    using assms(3) by (auto simp: wants_remote_def)
  have "(if p g then f g else g) \<in> set (tbl_update p f (t_remote_following d))"
    using g(1) by (auto simp: tbl_update_def)
  moreover have "rg_key (if p g then f g else g) = (x, y) \<and> rg_deactivated_at (if p g then f g else g) = None"
    using g(2,3) assms(1,2) by simp
  ultimately show ?thesis by blast
qed

text \<open>Operations that only add outbound follows or change their state.\<close>

lemma list_members_ok_more_follows:
  assumes "list_members_ok E d" and "d' = d\<lparr>t_remote_following := t, t_job := jobs\<rparr>"
    and "\<And>x y. wants_remote d x y \<Longrightarrow> \<exists>g \<in> set t. rg_key g = (x, y) \<and> rg_deactivated_at g = None"
  shows "list_members_ok E d'"
  by (rule list_members_ok_mono [OF assms(1)])
     (use assms(3) in \<open>auto simp: assms(2) owns_def follows_locally_def wants_remote_def\<close>)

lemma create_with_job_shape:
  assumes "create_remote_following_with_job i j n now a r act sr nf job d = Inr d'"
  obtains t jobs where "d' = d\<lparr>t_remote_following := t, t_job := jobs\<rparr>"
    and "\<And>x y. wants_remote d x y \<Longrightarrow> \<exists>g \<in> set t. rg_key g = (x, y) \<and> rg_deactivated_at g = None"
    and "tbl_ok rg_conflict (t_remote_following d) \<Longrightarrow> tbl_ok rg_conflict t"
proof -
  let ?find = "List.find (\<lambda>g. rg_local_account_id g = a \<and> rg_remote_actor_id g = r) (t_remote_following d)"
  have nb: "\<not> local_remote_accounts_are_blocked d a r"
    using assms by (auto simp: create_remote_following_with_job_def split: if_splits)
  show thesis
  proof (cases ?find)
    case None
    then obtain d1 where d1: "create_remote_following i n a r act sr nf d = Inr d1"
      and d': "enqueue_only j n job d1 = Inr d'"
      using assms nb by (auto simp: create_remote_following_with_job_def bind_res_Inr_iff)
    obtain jobs where "d' = d1\<lparr>t_job := jobs\<rparr>" using d' by (rule enqueue_only_frame)
    then have eq: "d' = d\<lparr>t_remote_following := t_remote_following d @ [new_following_row i n a r act sr nf],
        t_job := jobs\<rparr>"
      using create_remote_following_cases [OF d1] by simp
    have ok: "tbl_ok rg_conflict (t_remote_following d @ [new_following_row i n a r act sr nf])"
      if "tbl_ok rg_conflict (t_remote_following d)"
      using d1 that rg_tbl.ok_insert [of "new_following_row i n a r act sr nf" "t_remote_following d"]
      by (auto simp: create_remote_following_def bind_res_Inr_iff tbl_insert_Inr)
    show thesis
    proof (rule that [OF eq _ ok])
      show "\<exists>g \<in> set (t_remote_following d @ [new_following_row i n a r act sr nf]).
          rg_key g = (x, y) \<and> rg_deactivated_at g = None" if "wants_remote d x y" for x y
        using that by (auto simp: wants_remote_def)
    qed
  next
    case (Some g)
    show thesis
    proof (cases "rg_deactivated_at g = None")
      case True
      let ?f = "\<lambda>r. r\<lparr>rg_show_reblogs := sr, rg_notify := nf, rg_updated_at := now\<rparr>"
      let ?t = "tbl_update (\<lambda>r. rg_id r = rg_id g) ?f (t_remote_following d)"
      have "d' = d\<lparr>t_remote_following := ?t\<rparr>"
        using assms nb Some True by (simp add: create_remote_following_with_job_def)
      then have eq: "d' = d\<lparr>t_remote_following := ?t, t_job := t_job d\<rparr>" by (cases d) simp
      show thesis
      proof (rule that [OF eq])
        show "\<exists>g \<in> set ?t. rg_key g = (x, y) \<and> rg_deactivated_at g = None" if "wants_remote d x y" for x y
          by (rule wants_remote_update [OF _ _ that]) (simp_all add: rg_key_def)
        show "tbl_ok rg_conflict ?t" if "tbl_ok rg_conflict (t_remote_following d)"
          by (rule rg_tbl.ok_update_same_keys [OF that]) (simp add: rg_conflict_def rg_key_def)
      qed
    next
      case False
      let ?f = "\<lambda>r. r\<lparr>rg_activity_id := act, rg_state := Pending, rg_show_reblogs := sr,
               rg_notify := nf, rg_deactivated_at := None, rg_updated_at := now\<rparr>"
      obtain t where up: "tbl_update_checked rg_conflict (\<lambda>r. rg_id r = rg_id g) ?f (t_remote_following d) = Inr t"
        and d': "enqueue_only j n job (d\<lparr>t_remote_following := t\<rparr>) = Inr d'"
        using assms nb Some False by (auto simp: create_remote_following_with_job_def bind_res_Inr_iff)
      then have t: "t = tbl_update (\<lambda>r. rg_id r = rg_id g) ?f (t_remote_following d)"
        by (auto simp: tbl_update_checked_def split: if_splits)
      obtain jobs where eq: "d' = d\<lparr>t_remote_following := t\<rparr>\<lparr>t_job := jobs\<rparr>"
        using d' by (rule enqueue_only_frame)
      show thesis
      proof (rule that [OF eq])
        show "\<exists>g \<in> set t. rg_key g = (x, y) \<and> rg_deactivated_at g = None" if "wants_remote d x y" for x y
          unfolding t by (rule wants_remote_update [OF _ _ that]) (simp_all add: rg_key_def)
        show "tbl_ok rg_conflict t" if "tbl_ok rg_conflict (t_remote_following d)"
          by (rule rg_tbl.ok_update_checked [OF up that]) (simp add: rg_conflict_def)
      qed
    qed
  qed
qed

lemma accept_following_list_ok:
  assumes "list_members_ok E d"
  shows "list_members_ok E (fst (accept_remote_following n r act d))"
proof -
  let ?p = "\<lambda>g. rg_remote_actor_id g = r \<and> rg_activity_id g = act"
  let ?f = "\<lambda>g. g\<lparr>rg_state := Accepted, rg_updated_at := n\<rparr>"
  have "\<exists>g \<in> set (tbl_update ?p ?f (t_remote_following d)). rg_key g = (x, y) \<and> rg_deactivated_at g = None"
    if "wants_remote d x y" for x y
    by (rule wants_remote_update [OF _ _ that]) (simp_all add: rg_key_def)
  then show ?thesis
    by (intro list_members_ok_mono [OF assms])
       (simp_all add: accept_remote_following_def Let_def owns_def follows_locally_def wants_remote_def)
qed

lemma delete_following_list_ok:
  assumes "list_members_ok E d" and "tbl_ok rg_conflict (t_remote_following d)"
    and "delete_remote_following a r d = (d', res)"
  shows "list_members_ok E d'"
proof (cases res)
  case None
  then show ?thesis
    using assms(1,3) by (auto simp: delete_remote_following_def Let_def split: option.splits)
next
  case (Some g)
  have g: "g \<in> set (t_remote_following d)" "rg_key g = (a, r)"
    and d': "d' = (remove_remote_account_from_owned_lists a r d)
        \<lparr>t_remote_following := tbl_delete (\<lambda>x. rg_id x = rg_id g) (t_remote_following d)\<rparr>"
    using assms(3) Some
    by (auto simp: delete_remote_following_def Let_def rg_key_def dest!: find_Some_mem split: option.splits)
  show ?thesis
  proof (rule list_members_ok_unlink_remote [OF assms(1), where P = "{(a, r)}"])
    show "wants_remote d' x y" if w: "wants_remote d x y" and ne: "(x, y) \<notin> {(a, r)}" for x y
    proof -
      obtain h where h: "h \<in> set (t_remote_following d)" "rg_key h = (x, y)" "rg_deactivated_at h = None"
        using w by (auto simp: wants_remote_def)
      have "rg_id h \<noteq> rg_id g"
        using rg_tbl.conflict_eq [OF assms(2) h(1) g(1)] h(2) g(2) ne by (auto simp: rg_conflict_def)
      then show ?thesis using h by (auto simp: d' wants_remote_def)
    qed
  qed (auto simp: d' remove_remote_account_from_owned_lists_def)
qed

text \<open>Any operation that severs all follows with one actor and drops the memberships.\<close>

lemma sever_remote_list_ok:
  assumes "list_members_ok E d" and "t_local_list d' = t_local_list d"
    and "t_local_follow d' = t_local_follow d" and "t_list_local_member d' = t_list_local_member d"
    and "t_list_remote_member d' =
      tbl_delete (\<lambda>m. lrem_remote_actor_id m = r \<and> owns d a (lrem_list_id m)) (t_list_remote_member d)"
    and "t_remote_following d' = tbl_delete (\<lambda>g. rg_key g = (a, r)) (t_remote_following d)"
  shows "list_members_ok E d'"
  by (rule list_members_ok_unlink_remote [OF assms(1-4), where P = "{(a, r)}"])
     (auto simp: assms(5,6) wants_remote_def)

lemma block_remote_list_ok:
  assumes "block_remote_account i j n now a r act job d = Inr (d', ins)" and "list_members_ok E d"
  shows "list_members_ok E d'"
proof -
  obtain tb jobs where d': "d' = dismiss_notifications now
           (\<lambda>n. ln_account_id n = a \<and> ln_remote_actor_id n = Some r)
           (delete_remote_follows a r (remove_remote_account_from_owned_lists a r
             (delete_followings a r (d\<lparr>t_local_remote_account_block := tb\<rparr>))))\<lparr>t_job := jobs\<rparr>"
    using block_remote_account_cases(4) [OF assms(1)] by blast
  show ?thesis
    by (rule sever_remote_list_ok [OF assms(2), where a = a and r = r])
       (simp_all add: d' severing_defs remove_remote_account_from_owned_lists_def owns_def rg_key_def)
qed

lemma process_block_list_ok:
  assumes "process_remote_block i n r a act d = Inr (d', ins)" and "list_members_ok E d"
  shows "list_members_ok E d'"
proof -
  obtain tb where d': "d' = dismiss_notifications n
           (\<lambda>n. ln_account_id n = a \<and> ln_remote_actor_id n = Some r)
           (remove_remote_account_from_owned_lists a r
             (delete_followings a r (delete_remote_follows a r (d\<lparr>t_remote_local_account_block := tb\<rparr>))))"
    using process_remote_block_cases [OF assms(1)] by blast
  show ?thesis
    by (rule sever_remote_list_ok [OF assms(2), where a = a and r = r])
       (simp_all add: d' severing_defs remove_remote_account_from_owned_lists_def owns_def rg_key_def)
qed

subsection \<open>Actor moves\<close>

lemma copy_memberships_mem:
  assumes "copy_memberships nid target ms t = Inr t'" and "m \<in> set t'"
  shows "m \<in> set t \<or> lrem_remote_actor_id m = target \<and> lrem_list_id m \<in> lrem_list_id ` set ms"
  using assms
proof (induction ms arbitrary: t)
  case (Cons x ms)
  let ?r = "\<lparr> lrem_id = nid (lrem_id x), lrem_list_id = lrem_list_id x,
      lrem_remote_actor_id = target, lrem_created_at = lrem_created_at x \<rparr>"
  obtain t1 b where t1: "tbl_insert_unless lrem_same_member lrem_conflict ?r t = Inr (t1, b)"
    and rest: "copy_memberships nid target ms t1 = Inr t'"
    using Cons.prems(1) by (auto simp: bind_res_Inr_iff)
  have "set t1 \<subseteq> insert ?r (set t)" using t1 by (auto simp: tbl_insert_unless_Inr split: if_splits)
  then show ?case using Cons.IH [OF rest Cons.prems(2)] by auto
qed simp

lemma move_target_cases:
  assumes "move_target i j n f target allow tf d = Inr d1"
  obtains t jobs where "d1 = d\<lparr>t_remote_following := t, t_job := jobs\<rparr>"
    and "set (t_remote_following d) \<subseteq> set t"
    and "rg_key ` set t \<subseteq> (if allow then insert (rg_local_account_id f, target) else id) (rg_key ` set (t_remote_following d))"
    and "allow \<longrightarrow> (\<exists>g \<in> set t. rg_key g = (rg_local_account_id f, target) \<and> rg_deactivated_at g = None)"
    and "tbl_ok rg_conflict (t_remote_following d) \<longrightarrow> tbl_ok rg_conflict t"
proof (cases "allow \<and> find_remote_following d (rg_local_account_id f) target = None")
  case False
  then have d1: "d1 = d" using assms unfolding move_target_def if_not_P [OF False] by simp
  have "\<exists>g \<in> set (t_remote_following d). rg_key g = (rg_local_account_id f, target) \<and> rg_deactivated_at g = None"
    if "allow"
    using False that by (auto simp: find_remote_following_def rg_key_def)
  then show thesis by (intro that [of "t_job d" "t_remote_following d"]) (auto simp: d1)
next
  case True
  let ?a = "rg_local_account_id f"
  obtain act job d2 where
      c: "create_remote_following i n ?a target act (rg_show_reblogs f) (rg_notify f) d = Inr d2"
    and e: "enqueue_only j n job d2 = Inr d1"
    using assms True by (auto simp: move_target_def bind_res_Inr_iff split: option.splits)
  let ?r = "new_following_row i n ?a target act (rg_show_reblogs f) (rg_notify f)"
  obtain jobs where "d1 = d2\<lparr>t_job := jobs\<rparr>" using e by (rule enqueue_only_frame)
  then have eq: "d1 = d\<lparr>t_remote_following := t_remote_following d @ [?r], t_job := jobs\<rparr>"
    using create_remote_following_cases [OF c] by simp
  have ok: "tbl_ok rg_conflict (t_remote_following d @ [?r])" if "tbl_ok rg_conflict (t_remote_following d)"
    using c that rg_tbl.ok_insert [of ?r "t_remote_following d"]
    by (auto simp: create_remote_following_def bind_res_Inr_iff tbl_insert_Inr)
  have "rg_deactivated_at ?r = None" by (simp add: new_following_row_def)
  then show thesis by (intro that [OF eq]) (use True ok in auto)
qed

lemma migrate_cases:
  assumes "migrate_remote_following_for_actor_move i nid j1 j2 n now f target allow tf undo d = Inr (d', True)"
  obtains source t m jobs where
    "source \<in> set (t_remote_following d)"
    and "rg_key source = (rg_local_account_id f, rg_remote_actor_id f)"
    and "d' = d\<lparr>t_list_remote_member :=
          tbl_delete (\<lambda>x. lrem_remote_actor_id x = rg_remote_actor_id f \<and>
                          owns d (rg_local_account_id f) (lrem_list_id x)) m,
        t_remote_following := tbl_update (\<lambda>r. rg_id r = rg_id source)
          (\<lambda>r. r\<lparr>rg_deactivated_at := Some now, rg_updated_at := now\<rparr>) t, t_job := jobs\<rparr>"
    and "set (t_remote_following d) \<subseteq> set t"
    and "rg_key ` set t \<subseteq> (if allow then insert (rg_local_account_id f, target) else id) (rg_key ` set (t_remote_following d))"
    and "allow \<longrightarrow> (\<exists>g \<in> set t. rg_key g = (rg_local_account_id f, target) \<and> rg_deactivated_at g = None)"
    and "tbl_ok rg_conflict (t_remote_following d) \<longrightarrow> tbl_ok rg_conflict t"
    and "\<forall>x \<in> set m. x \<in> set (t_list_remote_member d) \<or>
           allow \<and> lrem_remote_actor_id x = target \<and> owns d (rg_local_account_id f) (lrem_list_id x)"
proof -
  let ?a = "rg_local_account_id f" and ?s = "rg_remote_actor_id f"
  let ?deact = "\<lambda>src d. d\<lparr>t_remote_following := tbl_update (\<lambda>r. rg_id r = rg_id src)
      (\<lambda>r. r\<lparr>rg_deactivated_at := Some now, rg_updated_at := now\<rparr>) (t_remote_following d)\<rparr>"
  obtain source d1 d2 where
      src: "List.find (\<lambda>g. rg_local_account_id g = ?a \<and> rg_remote_actor_id g = ?s \<and>
             rg_activity_id g = rg_activity_id f \<and> rg_state g = Accepted \<and> rg_deactivated_at g = None)
             (t_remote_following d) = Some source"
    and d1: "move_target i j1 n f target allow tf d = Inr d1"
    and d2: "move_memberships nid f target allow d1 = Inr d2"
    and e: "enqueue_only j2 n undo (?deact source (remove_remote_account_from_owned_lists ?a ?s d2)) = Inr d'"
    using assms
    by (auto simp: migrate_remote_following_for_actor_move_def Let_def bind_res_Inr_iff
        split: option.splits if_splits)
  have s: "source \<in> set (t_remote_following d)" "rg_key source = (?a, ?s)"
    using find_Some_mem [OF src] by (auto simp: rg_key_def)
  obtain t jobs1 where t: "d1 = d\<lparr>t_remote_following := t, t_job := jobs1\<rparr>"
      "set (t_remote_following d) \<subseteq> set t"
      "rg_key ` set t \<subseteq> (if allow then insert (?a, target) else id) (rg_key ` set (t_remote_following d))"
      "allow \<longrightarrow> (\<exists>g \<in> set t. rg_key g = (?a, target) \<and> rg_deactivated_at g = None)"
      "tbl_ok rg_conflict (t_remote_following d) \<longrightarrow> tbl_ok rg_conflict t"
    using d1 by (rule move_target_cases)
  obtain m where m: "d2 = d1\<lparr>t_list_remote_member := m\<rparr>"
    "\<forall>x \<in> set m. x \<in> set (t_list_remote_member d) \<or>
           allow \<and> lrem_remote_actor_id x = target \<and> owns d ?a (lrem_list_id x)"
  proof (cases allow)
    case True
    then obtain m where c: "copy_memberships nid target
               (filter (\<lambda>m. lrem_remote_actor_id m = ?s \<and> lrem_list_id m \<in> set (owned_list_ids d1 ?a))
                 (t_list_remote_member d1)) (t_list_remote_member d1) = Inr m"
        and eq: "d2 = d1\<lparr>t_list_remote_member := m\<rparr>"
      using d2 by (auto simp: move_memberships_def bind_res_Inr_iff)
    have own: "owns d1 ?a l \<longleftrightarrow> owns d ?a l" for l by (simp add: t(1) owns_def)
    have "x \<in> set (t_list_remote_member d) \<or>
        allow \<and> lrem_remote_actor_id x = target \<and> owns d ?a (lrem_list_id x)" if "x \<in> set m" for x
      using copy_memberships_mem [OF c that] True by (auto simp: own) (simp_all add: t(1))
    then show thesis by (intro that [OF eq] ballI)
  next
    case False
    then have "d2 = d1" using d2 by (simp add: move_memberships_def)
    moreover have "t_list_remote_member d = t_list_remote_member d1" by (simp add: t(1))
    ultimately have "d2 = d1\<lparr>t_list_remote_member := t_list_remote_member d\<rparr>" by simp
    then show thesis by (rule that) simp
  qed
  obtain jobs where d': "d' = (?deact source (remove_remote_account_from_owned_lists ?a ?s d2))\<lparr>t_job := jobs\<rparr>"
    using e by (rule enqueue_only_frame)
  have own: "owns d2 ?a l \<longleftrightarrow> owns d ?a l" for l by (simp add: t(1) m(1) owns_def)
  have "d' = d\<lparr>t_list_remote_member :=
          tbl_delete (\<lambda>x. lrem_remote_actor_id x = ?s \<and> owns d ?a (lrem_list_id x)) m,
        t_remote_following := tbl_update (\<lambda>r. rg_id r = rg_id source)
          (\<lambda>r. r\<lparr>rg_deactivated_at := Some now, rg_updated_at := now\<rparr>) t, t_job := jobs\<rparr>"
    unfolding d' remove_remote_account_from_owned_lists_def owned_list_ids_iff own
    by (simp add: t(1) m(1))
  then show thesis by (rule that [OF s _ t(2-5) m(2)])
qed

lemma migrate_list_ok:
  assumes "migrate_remote_following_for_actor_move i nid j1 j2 n now f target allow tf undo d = Inr (d', True)"
    and "list_members_ok E d" and "tbl_ok rg_conflict (t_remote_following d)"
  shows "list_members_ok E d'" and "tbl_ok rg_conflict (t_remote_following d')"
proof -
  let ?a = "rg_local_account_id f" and ?s = "rg_remote_actor_id f"
  let ?f = "\<lambda>r. r\<lparr>rg_deactivated_at := Some now, rg_updated_at := now\<rparr>"
  obtain source t m jobs where src: "source \<in> set (t_remote_following d)" "rg_key source = (?a, ?s)"
    and d': "d' = d\<lparr>t_list_remote_member :=
          tbl_delete (\<lambda>x. lrem_remote_actor_id x = ?s \<and> owns d ?a (lrem_list_id x)) m,
        t_remote_following := tbl_update (\<lambda>r. rg_id r = rg_id source) ?f t, t_job := jobs\<rparr>"
    and sub: "set (t_remote_following d) \<subseteq> set t"
    and new: "allow \<longrightarrow> (\<exists>g \<in> set t. rg_key g = (?a, target) \<and> rg_deactivated_at g = None)"
    and ok: "tbl_ok rg_conflict (t_remote_following d) \<longrightarrow> tbl_ok rg_conflict t"
    and m: "\<forall>x \<in> set m. x \<in> set (t_list_remote_member d) \<or>
           allow \<and> lrem_remote_actor_id x = target \<and> owns d ?a (lrem_list_id x)"
    using assms(1) by (rule migrate_cases) blast
  have tok: "tbl_ok rg_conflict t" by (rule ok [rule_format, OF assms(3)])
  show "tbl_ok rg_conflict (t_remote_following d')"
    using rg_tbl.ok_update_same_keys [OF tok, of ?f] by (simp add: d' rg_conflict_def rg_key_def)
  have keep: "wants_remote d' x y"
    if g: "g \<in> set t" "rg_key g = (x, y)" "rg_deactivated_at g = None" and ne: "(x, y) \<noteq> (?a, ?s)" for g x y
  proof -
    have st: "source \<in> set t" using src(1) sub by blast
    have "rg_id g \<noteq> rg_id source"
      using rg_tbl.conflict_eq [OF tok g(1) st] g(2) src(2) ne by (auto simp: rg_conflict_def)
    then show ?thesis using g by (auto simp: d' wants_remote_def set_tbl_update)
  qed
  have same: "owns d' o' l \<longleftrightarrow> owns d o' l" "follows_locally d' o' y \<longleftrightarrow> follows_locally d o' y" for o' l y
    by (simp_all add: d' owns_def follows_locally_def)
  have "\<exists>owner. owns d owner (lrem_list_id x) \<and>
      (lrem_remote_actor_id x \<in> E \<or> wants_remote d' owner (lrem_remote_actor_id x))"
    if x: "x \<in> set m" "\<not> (lrem_remote_actor_id x = ?s \<and> owns d ?a (lrem_list_id x))" for x
    using bspec [OF m x(1)]
  proof (elim disjE conjE)
    assume "x \<in> set (t_list_remote_member d)"
    then obtain owner where o': "owns d owner (lrem_list_id x)"
        "lrem_remote_actor_id x \<in> E \<or> wants_remote d owner (lrem_remote_actor_id x)"
      using assms(2) by (auto simp: list_members_ok_def)
    show ?thesis
    proof (cases "lrem_remote_actor_id x \<in> E")
      case True
      then show ?thesis using o' by blast
    next
      case False
      then obtain g where "g \<in> set t" "rg_key g = (owner, lrem_remote_actor_id x)" "rg_deactivated_at g = None"
        using sub o'(2) by (auto simp: wants_remote_def)
      then show ?thesis using keep x(2) o'(1) by blast
    qed
  next
    assume "allow" "lrem_remote_actor_id x = target" "owns d ?a (lrem_list_id x)"
    then show ?thesis using new keep x(2) by blast
  qed
  then show "list_members_ok E d'"
    using assms(2) unfolding list_members_ok_def same by (auto simp: d')
qed

subsection \<open>Suspended accounts and actors\<close>

lemma sever_list_ok:
  assumes "list_members_ok E d"
  shows "list_members_ok E (sever_lists i (sever_relations i d))"
proof -
  let ?d = "sever_lists i (sever_relations i d)"
  have owned: "set (map ll_id (filter (\<lambda>l. ll_account_id l = i) (t_local_list d))) = {l. owns d i l}"
    by (auto simp: owns_def)
  have own: "owns ?d o' l" if "owns d o' l" "\<not> owns d i l" for o' l
    using that by (auto simp: owns_def sever_lists_def sever_relations_def Let_def)
  have other: "o' \<noteq> i" if "owns d o' l" "\<not> owns d i l" for o' l
    using that by auto
  have local: "m \<in> set (t_list_local_member d) \<and> llm_account_id m \<noteq> i \<and> \<not> owns d i (llm_list_id m)"
    if "m \<in> set (t_list_local_member ?d)" for m
    using that unfolding sever_lists_def Let_def by (auto simp: owned sever_relations_def simp del: set_map)
  have remote: "m \<in> set (t_list_remote_member d) \<and> \<not> owns d i (lrem_list_id m)"
    if "m \<in> set (t_list_remote_member ?d)" for m
    using that unfolding sever_lists_def Let_def by (auto simp: owned sever_relations_def simp del: set_map)
  have follows: "follows_locally ?d x y" if "follows_locally d x y" "x \<noteq> i" "y \<noteq> i" for x y
    using that by (auto simp: follows_locally_def sever_lists_def sever_relations_def Let_def lf_key_def)
  have wants: "wants_remote ?d x y" if "wants_remote d x y" "x \<noteq> i" for x y
    using that by (auto simp: wants_remote_def sever_lists_def sever_relations_def Let_def rg_key_def)
  show ?thesis
    by (rule list_members_ok_mono [OF assms]) (use local remote own other follows wants in blast)+
qed

lemma purge_cache_list_ok:
  assumes "list_members_ok E d"
  shows "list_members_ok E (purge_remote_actor_cache now i d)"
  by (rule list_members_ok_unlink_remote [OF assms, where P = "UNIV \<times> {i}"])
     (auto simp: purge_remote_actor_cache_def dismiss_notifications_def wants_remote_def rg_key_def)

text \<open>What the actor's own side ends without the lists: the actor joins the exceptions.\<close>

lemma list_members_ok_ended:
  assumes "list_members_ok E d" and "t_local_list d' = t_local_list d"
    and "t_local_follow d' = t_local_follow d"
    and "t_list_local_member d' = t_list_local_member d"
    and "t_list_remote_member d' = t_list_remote_member d"
    and "\<And>x y. wants_remote d x y \<Longrightarrow> y \<noteq> r \<Longrightarrow> wants_remote d' x y"
  shows "list_members_ok (insert r E) d'"
  using assms unfolding list_members_ok_def owns_def follows_locally_def by simp blast

lemma reject_list_ended:
  assumes "list_members_ok E d"
  shows "list_members_ok (insert r E) (fst (reject_remote_following r act d))"
  by (rule list_members_ok_ended [OF assms])
     (auto simp: reject_remote_following_def Let_def wants_remote_def rg_key_def)

lemma actor_delete_list_ended:
  assumes "list_members_ok E d"
  shows "list_members_ok (insert r E) (delete_actor_relations ids now r d)"
  by (rule list_members_ok_ended [OF assms])
     (auto simp: delete_actor_relations_def retire_jobs_def wants_remote_def rg_key_def)

end
