(* ===== verification/Roosty_Relation_Steps.thy ===== *)
theory Roosty_Relation_Steps
  imports Roosty_List_Invariants
begin

text \<open>
  Every operation on follows, blocks, mutes and lists as one step relation. A step is one
  committed transaction, or the statements of one on these tables where the transaction goes on
  elsewhere (the suspension of an account or an actor); operations that fail leave the database as
  it was, and operations that leave these tables alone are one more step.
\<close>

definition same_relations :: "db \<Rightarrow> db \<Rightarrow> bool" where
  "same_relations d d' \<longleftrightarrow>
     t_local_follow d' = t_local_follow d \<and> t_local_account_block d' = t_local_account_block d \<and>
     t_remote_follow d' = t_remote_follow d \<and> t_remote_following d' = t_remote_following d \<and>
     t_local_remote_account_block d' = t_local_remote_account_block d \<and>
     t_remote_local_account_block d' = t_remote_local_account_block d \<and>
     t_local_list d' = t_local_list d \<and> t_list_local_member d' = t_list_local_member d \<and>
     t_list_remote_member d' = t_list_remote_member d"

inductive relation_step :: "db \<Rightarrow> db \<Rightarrow> bool" where
  follow: "follow_local_account i now a b sr nf d = Inr (d', row) \<Longrightarrow> relation_step d d'"
| unfollow: "relation_step d (unfollow_local_account a b d)"
| block: "block_local_account i now a b d = Inr d' \<Longrightarrow> relation_step d d'"
| unblock: "relation_step d (unblock_local_account a b d)"
| mute: "mute_local_account i now a b nf dur d = Inr (d', mrow) \<Longrightarrow> relation_step d d'"
| unmute: "relation_step d (unmute_local_account a b d)"
| create_list: "create_local_list i n a title policy ex d = Inr (d', l) \<Longrightarrow> relation_step d d'"
| update_list: "update_local_list now a i title policy ex d = Inr (d', lres) \<Longrightarrow> relation_step d d'"
| delete_list: "relation_step d (fst (delete_local_list a i d))"
| add_members: "add_local_list_accounts nid n a i ids d = Inr (d', res) \<Longrightarrow> relation_step d d'"
| remove_members: "relation_step d (fst (remove_local_list_accounts a i ids d))"
| inbound_accept: "upsert_processed_remote_follow_with_response_job i j n now r a act js rj d = Inr (d', ok) \<Longrightarrow>
    relation_step d d'"
| inbound_pending: "upsert_processed_pending_remote_follow i now r a act js d = Inr (d', ok) \<Longrightarrow>
    relation_step d d'"
| approve: "accept_remote_follow_with_response_job j n now a r act rj d = Inr (d', ok) \<Longrightarrow>
    relation_step d d'"
| refuse: "delete_remote_follow_with_response_job j n now a r act rj d = Inr (d', ok) \<Longrightarrow>
    relation_step d d'"
| undo_follow: "relation_step d (fst (process_remote_undo_follow r act d))"
| outbound: "create_remote_following_with_job i j n now a r act sr nf job d = Inr d' \<Longrightarrow>
    relation_step d d'"
| accepted: "relation_step d (fst (accept_remote_following n r act d))"
| unfollow_remote: "delete_remote_following_with_job j n a r job d = Inr (d', grow) \<Longrightarrow>
    relation_step d d'"
| move: "migrate_one i nid j1 j2 n now allowed suspended prepared undo g target d = Inr (d', moved) \<Longrightarrow>
    relation_step d d'"
| block_remote: "block_remote_account i j n now a r act job d = Inr (d', ok) \<Longrightarrow> relation_step d d'"
| unblock_remote: "unblock_remote_account j n a r job d = Inr (d', ok) \<Longrightarrow> relation_step d d'"
| mute_remote: "mute_remote_account i now a r nf dur d = Inr (d', mrrow) \<Longrightarrow> relation_step d d'"
| unmute_remote: "relation_step d (unmute_remote_account a r d)"
| blocked_by: "process_remote_block i n r a act d = Inr (d', ok) \<Longrightarrow> relation_step d d'"
| unblocked_by: "relation_step d (fst (process_remote_undo_block r a act d))"
| suspend: "relation_step d (fst (reconcile_suspended_remote_domains ids now domains d))"
| suspend_local: "relation_step d (sever_lists i (sever_relations i d))"
| suspend_actor: "relation_step d (purge_remote_actor_cache now i d)"
| elsewhere: "same_relations d d' \<Longrightarrow> relation_step d d'"

text \<open>
  Two operations are kept apart, the two by which a remote actor ends a follow from its own side:
  its \<open>Reject\<close> of an outbound follow, and its deletion. They do not maintain list memberships.
\<close>

inductive end_step :: "uuid \<Rightarrow> db \<Rightarrow> db \<Rightarrow> bool" for r where
  rejected: "end_step r d (fst (reject_remote_following r act d))"
| deleted: "end_step r d (delete_actor_relations ids now r d)"

definition any_step :: "db \<Rightarrow> db \<Rightarrow> bool" where
  "any_step d d' \<longleftrightarrow> relation_step d d' \<or> (\<exists>r. end_step r d d')"

text \<open>The same steps with the set of the actors that have ended a follow so far.\<close>

inductive tracked_step :: "db \<times> uuid set \<Rightarrow> db \<times> uuid set \<Rightarrow> bool" where
  kept: "relation_step d d' \<Longrightarrow> tracked_step (d, E) (d', E)"
| ended: "end_step r d d' \<Longrightarrow> tracked_step (d, E) (d', insert r E)"

definition relation_init :: "db \<Rightarrow> bool" where
  "relation_init d \<longleftrightarrow>
     t_local_follow d = [] \<and> t_local_account_block d = [] \<and> t_remote_follow d = [] \<and>
     t_remote_following d = [] \<and> t_local_remote_account_block d = [] \<and>
     t_remote_local_account_block d = [] \<and> t_local_list d = [] \<and>
     t_list_local_member d = [] \<and> t_list_remote_member d = []"

definition tracked_init :: "db \<times> uuid set \<Rightarrow> bool" where
  "tracked_init s \<longleftrightarrow> relation_init (fst s) \<and> snd s = {}"

subsection \<open>Follows and blocks stay apart\<close>

definition relations_separated :: "db \<Rightarrow> bool" where
  "relations_separated d \<longleftrightarrow> local_rel.separated d \<and> remote_rel.separated d"

text \<open>Steps that only shrink the tables of follows and blocks.\<close>

definition rel_shrinks :: "db \<Rightarrow> db \<Rightarrow> bool" where
  "rel_shrinks d d' \<longleftrightarrow>
     lf_key ` set (t_local_follow d') \<subseteq> lf_key ` set (t_local_follow d) \<and>
     lab_key ` set (t_local_account_block d') \<subseteq> lab_key ` set (t_local_account_block d) \<and>
     rg_key ` set (t_remote_following d') \<subseteq> rg_key ` set (t_remote_following d) \<and>
     rf_pair ` set (t_remote_follow d') \<subseteq> rf_pair ` set (t_remote_follow d) \<and>
     lrb_key ` set (t_local_remote_account_block d') \<subseteq> lrb_key ` set (t_local_remote_account_block d) \<and>
     rlb_pair ` set (t_remote_local_account_block d') \<subseteq> rlb_pair ` set (t_remote_local_account_block d)"

lemma bex_mono: "S \<subseteq> T \<Longrightarrow> \<exists>x \<in> S. P x \<Longrightarrow> \<exists>x \<in> T. P x"
  by blast

lemma rel_shrinks_local: "rel_shrinks d d' \<Longrightarrow> local_rel.shrinks d d'"
  unfolding rel_shrinks_def local_rel.shrinks_def local_linked_keys local_blocked_keys
  by (elim conjE, intro conjI allI impI) (erule (1) bex_mono)+

lemma rel_shrinks_remote: "rel_shrinks d d' \<Longrightarrow> remote_rel.shrinks d d'"
  unfolding rel_shrinks_def remote_rel.shrinks_def remote_linked_def remote_blocked_def
  by (elim conjE, intro conjI allI impI) (erule disjE, (drule (1) subsetD, simp)+)+

lemma shrinks_keeps: "rel_shrinks d d' \<Longrightarrow> relations_separated d \<Longrightarrow> relations_separated d'"
  using rel_shrinks_local rel_shrinks_remote local_rel.shrinks_separated remote_rel.shrinks_separated
  unfolding relations_separated_def by blast

lemma separated_cong_local:
  assumes "t_local_follow d' = t_local_follow d" and "t_local_account_block d' = t_local_account_block d"
  shows "local_rel.separated d' \<longleftrightarrow> local_rel.separated d"
  by (simp add: local_rel.separated_def local_linked_def local_blocked_def assms)

lemma separated_cong_remote:
  assumes "t_remote_follow d' = t_remote_follow d" and "t_remote_following d' = t_remote_following d"
    and "t_local_remote_account_block d' = t_local_remote_account_block d"
    and "t_remote_local_account_block d' = t_remote_local_account_block d"
  shows "remote_rel.separated d' \<longleftrightarrow> remote_rel.separated d"
  by (simp add: remote_rel.separated_def remote_linked_def remote_blocked_def assms)

lemma local_step_keeps:
  assumes "local_link p d d' \<or> local_block p d d'" and "relations_separated d"
    and "t_remote_follow d' = t_remote_follow d" and "t_remote_following d' = t_remote_following d"
    and "t_local_remote_account_block d' = t_local_remote_account_block d"
    and "t_remote_local_account_block d' = t_remote_local_account_block d"
  shows "relations_separated d'"
  using assms(1,2) local_rel.link_separated local_rel.block_separated
    separated_cong_remote [OF assms(3-6)]
  unfolding relations_separated_def by blast

lemma remote_step_keeps:
  assumes "remote_link p d d' \<or> remote_block p d d'" and "relations_separated d"
    and "t_local_follow d' = t_local_follow d" and "t_local_account_block d' = t_local_account_block d"
  shows "relations_separated d'"
  using assms(1,2) remote_rel.link_separated remote_rel.block_separated
    separated_cong_local [OF assms(3,4)]
  unfolding relations_separated_def by blast

subsection \<open>Each operation\<close>

lemma unfollow_shrinks: "rel_shrinks d (unfollow_local_account a b d)"
  by (auto simp: rel_shrinks_def unfollow_local_account_def Let_def split: option.splits)

lemma unblock_shrinks: "rel_shrinks d (unblock_local_account a b d)"
  by (auto simp: rel_shrinks_def unblock_local_account_def split: option.splits)

lemma mute_tables:
  assumes "mute_local_account i now a b nf dur d = Inr (d', row)"
  obtains t where "d' = d\<lparr>t_local_account_mute := t\<rparr>"
  using assms
  by (cases "List.find (\<lambda>m. lam_key m = (a, b)) (t_local_account_mute d)")
     (auto simp: mute_local_account_def bind_res_Inr_iff Let_def)

lemma mute_remote_tables:
  assumes "mute_remote_account i now a r nf dur d = Inr (d', row)"
  obtains t where "d' = d\<lparr>t_local_remote_account_mute := t\<rparr>"
  using assms
  by (cases "List.find (\<lambda>m. lrm_key m = (a, r)) (t_local_remote_account_mute d)")
     (auto simp: mute_remote_account_def bind_res_Inr_iff Let_def split: if_splits)

lemma unmute_tables: "\<exists>t. unmute_local_account a b d = d\<lparr>t_local_account_mute := t\<rparr>"
proof (cases "List.find (\<lambda>m. lam_key m = (a, b)) (t_local_account_mute d)")
  case None
  then have "unmute_local_account a b d = d\<lparr>t_local_account_mute := t_local_account_mute d\<rparr>"
    by (simp add: unmute_local_account_def)
  then show ?thesis by blast
qed (auto simp: unmute_local_account_def)

lemma update_list_tables:
  assumes "update_local_list now a i title policy ex d = Inr (d', res)"
  obtains t where "d' = d\<lparr>t_local_list := t\<rparr>"
proof (cases "find_owned_local_list d a i")
  case None
  then have "d' = d\<lparr>t_local_list := t_local_list d\<rparr>"
    using assms by (simp add: update_local_list_def)
  then show ?thesis by (rule that)
next
  case (Some l)
  then show ?thesis using assms that by (auto simp: update_local_list_def Let_def split: if_splits)
qed

lemma create_list_tables:
  assumes "create_local_list i n a title policy ex d = Inr (d', l)"
  obtains t where "d' = d\<lparr>t_local_list := t\<rparr>"
  using assms by (auto simp: create_local_list_def Let_def bind_res_Inr_iff split: if_splits)

lemma add_members_tables:
  assumes "add_local_list_accounts nid n a i ids d = Inr (d', res)"
  obtains t u where "d' = d\<lparr>t_list_local_member := t, t_list_remote_member := u\<rparr>"
proof (cases "res = Added")
  case False
  then have "d' = d" using assms
    by (auto simp: add_local_list_accounts_def Let_def bind_res_Inr_iff split: if_splits)
  then have "d' = d\<lparr>t_list_local_member := t_list_local_member d, t_list_remote_member := t_list_remote_member d\<rparr>"
    by simp
  then show thesis by (rule that)
next
  case True
  then obtain lf pairs where "insert_list_members n i lf pairs d = Inr d'"
    using assms by (auto simp: add_local_list_accounts_def Let_def bind_res_Inr_iff split: if_splits)
  then show thesis using insert_list_members_cases that by blast
qed

lemma approve_tables:
  assumes "accept_remote_follow_with_response_job j n now a r act rj d = Inr (d', ok)"
  obtains t jobs where "d' = d\<lparr>t_remote_follow := t, t_job := jobs\<rparr>"
    and "rf_pair ` set t = rf_pair ` set (t_remote_follow d)"
proof (cases "List.find (pending_request a r act) (t_remote_follow d)")
  case None
  then have "d' = d" using assms by (auto simp: accept_remote_follow_with_response_job_def)
  then have "d' = d\<lparr>t_remote_follow := t_remote_follow d, t_job := t_job d\<rparr>" by simp
  then show thesis by (rule that) simp
next
  case (Some f)
  let ?t = "tbl_update (\<lambda>r. rf_id r = rf_id f) (\<lambda>r. r\<lparr>rf_state := Accepted, rf_updated_at := now\<rparr>)
      (t_remote_follow d)"
  have "insert_response_job j n now rj (d\<lparr>t_remote_follow := ?t\<rparr>) = Inr d'"
    using assms Some by (auto simp: accept_remote_follow_with_response_job_def bind_res_Inr_iff)
  then obtain jobs where eq: "d' = d\<lparr>t_remote_follow := ?t\<rparr>\<lparr>t_job := jobs\<rparr>"
    by (rule insert_response_job_frame)
  have "rf_pair ` set ?t = rf_pair ` set (t_remote_follow d)"
    unfolding tbl_update_def set_map image_image by (rule image_cong) (simp_all add: rf_pair_def)
  with eq show thesis by (rule that)
qed

lemma refuse_tables:
  assumes "delete_remote_follow_with_response_job j n now a r act rj d = Inr (d', ok)"
  obtains t jobs where "d' = d\<lparr>t_remote_follow := t, t_job := jobs\<rparr>"
    and "set t \<subseteq> set (t_remote_follow d)"
proof (cases "List.find (pending_request a r act) (t_remote_follow d)")
  case None
  then have "d' = d" using assms by (auto simp: delete_remote_follow_with_response_job_def)
  then have "d' = d\<lparr>t_remote_follow := t_remote_follow d, t_job := t_job d\<rparr>" by simp
  then show thesis by (rule that) simp
next
  case (Some f)
  let ?t = "tbl_delete (\<lambda>r. rf_id r = rf_id f) (t_remote_follow d)"
  have "insert_response_job j n now rj (d\<lparr>t_remote_follow := ?t\<rparr>) = Inr d'"
    using assms Some by (auto simp: delete_remote_follow_with_response_job_def bind_res_Inr_iff)
  then obtain jobs where "d' = d\<lparr>t_remote_follow := ?t\<rparr>\<lparr>t_job := jobs\<rparr>"
    by (rule insert_response_job_frame)
  then show thesis by (rule that) auto
qed

lemma unfollow_remote_tables:
  assumes "delete_remote_following_with_job j n a r job d = Inr (d', res)"
  obtains d1 jobs where "delete_remote_following a r d = (d1, res)" and "d' = d1\<lparr>t_job := jobs\<rparr>"
proof -
  obtain d1 res1 where d1: "delete_remote_following a r d = (d1, res1)"
    by (cases "delete_remote_following a r d")
  show thesis
  proof (cases res1)
    case None
    then have "d' = d1" "res = None" using assms d1 by (auto simp: delete_remote_following_with_job_def)
    then have "d' = d1\<lparr>t_job := t_job d1\<rparr>" by simp
    with d1 show thesis using that None \<open>res = None\<close> by blast
  next
    case (Some g)
    then have e: "enqueue_only j n job d1 = Inr d'" and "res = Some g"
      using assms d1 by (auto simp: delete_remote_following_with_job_def bind_res_Inr_iff)
    obtain jobs where "d' = d1\<lparr>t_job := jobs\<rparr>" using e by (rule enqueue_only_frame)
    with d1 show thesis using that Some \<open>res = Some g\<close> by blast
  qed
qed

lemma delete_following_tables:
  assumes "delete_remote_following a r d = (d1, res)"
  obtains t u where "d1 = d\<lparr>t_list_remote_member := u, t_remote_following := t\<rparr>"
    and "set t \<subseteq> set (t_remote_following d)"
    and "tbl_ok rg_conflict (t_remote_following d) \<longrightarrow> tbl_ok rg_conflict t"
proof (cases "List.find (\<lambda>g. rg_local_account_id g = a \<and> rg_remote_actor_id g = r) (t_remote_following d)")
  case None
  then have "d1 = d" using assms by (simp add: delete_remote_following_def)
  then have "d1 = d\<lparr>t_list_remote_member := t_list_remote_member d, t_remote_following := t_remote_following d\<rparr>"
    by simp
  then show thesis by (rule that) simp_all
next
  case (Some g)
  let ?t = "tbl_delete (\<lambda>r. rg_id r = rg_id g) (t_remote_following d)"
  let ?u = "t_list_remote_member (remove_remote_account_from_owned_lists a r d)"
  have "d1 = d\<lparr>t_list_remote_member := ?u, t_remote_following := ?t\<rparr>"
    using assms Some
    by (simp add: delete_remote_following_def Let_def remove_remote_account_from_owned_lists_def)
  then show thesis by (rule that) (auto intro: rg_tbl.ok_delete)
qed

lemma unblock_remote_tables:
  assumes "unblock_remote_account j n a r job d = Inr (d', ok)"
  obtains t jobs where "d' = d\<lparr>t_local_remote_account_block := t, t_job := jobs\<rparr>"
    and "set t \<subseteq> set (t_local_remote_account_block d)"
proof -
  let ?t = "tbl_delete (\<lambda>b. lrb_key b = (a, r)) (t_local_remote_account_block d)"
  let ?d = "d\<lparr>t_local_remote_account_block := ?t\<rparr>"
  consider "d' = ?d" | "enqueue_only j n job ?d = Inr d'"
    using assms by (auto simp: unblock_remote_account_def Let_def bind_res_Inr_iff split: if_splits)
  then show thesis
  proof cases
    case 1
    then have "d' = d\<lparr>t_local_remote_account_block := ?t, t_job := t_job d\<rparr>" by (cases d) simp
    then show thesis by (rule that) auto
  next
    case 2
    then obtain jobs where "d' = ?d\<lparr>t_job := jobs\<rparr>" by (rule enqueue_only_frame)
    then show thesis by (rule that) auto
  qed
qed

lemma reconcile_tables:
  obtains S where "t_remote_follow (fst (reconcile_suspended_remote_domains ids now ds d)) =
      tbl_delete (\<lambda>f. rf_remote_actor_id f \<in> S) (t_remote_follow d)"
    and "t_remote_following (fst (reconcile_suspended_remote_domains ids now ds d)) =
      tbl_delete (\<lambda>g. rg_remote_actor_id g \<in> S) (t_remote_following d)"
    and "t_list_remote_member (fst (reconcile_suspended_remote_domains ids now ds d)) =
      tbl_delete (\<lambda>m. lrem_remote_actor_id m \<in> S) (t_list_remote_member d)"
    and "\<And>t. t \<in> {t_local_follow} \<Longrightarrow> t (fst (reconcile_suspended_remote_domains ids now ds d)) = t d"
    and "t_local_account_block (fst (reconcile_suspended_remote_domains ids now ds d)) = t_local_account_block d"
    and "t_local_remote_account_block (fst (reconcile_suspended_remote_domains ids now ds d)) = t_local_remote_account_block d"
    and "t_remote_local_account_block (fst (reconcile_suspended_remote_domains ids now ds d)) = t_remote_local_account_block d"
    and "t_local_list (fst (reconcile_suspended_remote_domains ids now ds d)) = t_local_list d"
    and "t_list_local_member (fst (reconcile_suspended_remote_domains ids now ds d)) = t_list_local_member d"
proof -
  let ?A = "map ra_id (filter (\<lambda>a. domain_covered ds (ra_domain a)) (t_remote_actor d))"
  show thesis
  proof (cases "ds = [] \<or> ?A = []")
    case True
    then have "fst (reconcile_suspended_remote_domains ids now ds d) = d"
      by (auto simp: reconcile_suspended_remote_domains_def)
    then show thesis by (intro that [of "{}"]) (simp_all add: tbl_delete_def)
  next
    case False
    then show thesis
      by (intro that [of "set ?A"])
         (simp_all add: reconcile_suspended_remote_domains_def Let_def retire_jobs_def dismiss_notifications_def)
  qed
qed

lemma reconcile_shrinks: "rel_shrinks d (fst (reconcile_suspended_remote_domains ids now ds d))"
  by (rule reconcile_tables [of ids now ds d]) (auto simp: rel_shrinks_def)

lemma reconcile_list_ok:
  assumes "list_members_ok E d"
  shows "list_members_ok E (fst (reconcile_suspended_remote_domains ids now ds d))"
proof (rule reconcile_tables [of ids now ds d])
  fix S
  let ?d = "fst (reconcile_suspended_remote_domains ids now ds d)"
  assume t: "t_remote_following ?d = tbl_delete (\<lambda>g. rg_remote_actor_id g \<in> S) (t_remote_following d)"
    "t_list_remote_member ?d = tbl_delete (\<lambda>m. lrem_remote_actor_id m \<in> S) (t_list_remote_member d)"
    "\<And>t. t \<in> {t_local_follow} \<Longrightarrow> t ?d = t d"
    "t_local_list ?d = t_local_list d" "t_list_local_member ?d = t_list_local_member d"
  show ?thesis
    by (rule list_members_ok_unlink_remote [OF assms, where P = "UNIV \<times> S"])
       (auto simp: t wants_remote_def rg_key_def)
qed

definition move_allowed :: "bool \<Rightarrow> bool \<Rightarrow> remote_following_row \<Rightarrow> remote_actor_row \<Rightarrow> db \<Rightarrow> bool" where
  "move_allowed allowed suspended g target d \<longleftrightarrow>
     allowed \<and> ra_deleted_at target = None \<and> ra_suspended_at target = None \<and> \<not> suspended \<and>
     \<not> local_remote_accounts_are_blocked d (rg_local_account_id g) (ra_id target)"

lemma migrate_one_cases:
  assumes "migrate_one i nid j1 j2 n now allowed suspended prepared undo g target d = Inr (d', moved)"
  obtains (unmoved) "\<not> moved" "d' = d"
  | (moved) tf where "moved" "migrate_remote_following_for_actor_move i nid j1 j2 n now g (ra_id target)
      (move_allowed allowed suspended g target d) tf undo d = Inr (d', True)"
proof -
  obtain tf where m: "migrate_remote_following_for_actor_move i nid j1 j2 n now g (ra_id target)
      (move_allowed allowed suspended g target d) tf undo d = Inr (d', moved)"
    using assms unfolding migrate_one_def Let_def move_allowed_def by blast
  show thesis
  proof (cases moved)
    case True
    then show thesis using m by (intro moved) auto
  next
    case False
    then have "d' = d" using m
      by (auto simp: migrate_remote_following_for_actor_move_def bind_res_Inr_iff Let_def
          split: option.splits if_splits)
    then show thesis using False by (rule unmoved [rotated])
  qed
qed

lemma migrate_one_keeps:
  assumes "migrate_one i nid j1 j2 n now allowed suspended prepared undo g target d = Inr (d', moved)"
    and "relations_separated d"
  shows "relations_separated d'"
  using assms(1)
proof (cases rule: migrate_one_cases)
  case unmoved
  then show ?thesis using assms(2) by simp
next
  case (moved tf)
  let ?a = "rg_local_account_id g" and ?allow = "move_allowed allowed suspended g target d"
  obtain source t m jobs where "source \<in> set (t_remote_following d)"
    and "rg_key source = (?a, rg_remote_actor_id g)"
    and d': "d' = d\<lparr>t_list_remote_member :=
          tbl_delete (\<lambda>x. lrem_remote_actor_id x = rg_remote_actor_id g \<and> owns d ?a (lrem_list_id x)) m,
        t_remote_following := tbl_update (\<lambda>r. rg_id r = rg_id source)
          (\<lambda>r. r\<lparr>rg_deactivated_at := Some now, rg_updated_at := now\<rparr>) t, t_job := jobs\<rparr>"
    and "set (t_remote_following d) \<subseteq> set t"
    and keys: "rg_key ` set t \<subseteq> (if ?allow then insert (?a, ra_id target) else id) (rg_key ` set (t_remote_following d))"
    and "?allow \<longrightarrow> (\<exists>h \<in> set t. rg_key h = (?a, ra_id target) \<and> rg_deactivated_at h = None)"
    and "tbl_ok rg_conflict (t_remote_following d) \<longrightarrow> tbl_ok rg_conflict t"
    and "\<forall>x \<in> set m. x \<in> set (t_list_remote_member d) \<or>
           ?allow \<and> lrem_remote_actor_id x = ra_id target \<and> owns d ?a (lrem_list_id x)"
    using moved(2) by (rule migrate_cases)
  have "rg_key ` set (t_remote_following d') = rg_key ` set t"
    using rg_key_update [of "\<lambda>r. r\<lparr>rg_deactivated_at := Some now, rg_updated_at := now\<rparr>"]
    by (simp add: d' rg_key_def)
  moreover have "?allow \<Longrightarrow> \<not> remote_blocked d (?a, ra_id target)"
    by (simp add: move_allowed_def local_remote_accounts_are_blocked_iff)
  ultimately have "remote_linked d q \<or> \<not> remote_blocked d q" if "remote_linked d' q" for q
    using that keys by (auto simp: remote_linked_def d' split: if_splits)
  then have "remote_rel.separated d'"
    using assms(2) unfolding relations_separated_def
    by (intro remote_rel.guarded_separated [of d' d]) (auto simp: d' remote_blocked_def)
  then show ?thesis using assms(2) separated_cong_local [of d' d] by (simp add: relations_separated_def d')
qed

subsection \<open>The invariants\<close>

named_theorems separation_kept \<open>operations that keep follows and blocks apart\<close>

lemma follow_separation [separation_kept]:
  assumes follow: "follow_local_account i now a b sr nf d = Inr (d', row)"
    "relations_separated d"
  shows "relations_separated d'"
proof -
  note follow
  have d': "d' = d\<lparr>t_local_follow := t_local_follow d'\<rparr>"
    by (rule follow_write_cases(1) [OF follow_local_account_cases(3) [OF follow(1)]])
  have "local_link {a, b} d d'" using follow(1) unfolding local_link_def by blast
  then show ?thesis
    using follow(2) by (intro local_step_keeps [where d = d and d' = d']) (blast | subst d', simp)+
qed

lemma block_separation [separation_kept]:
  assumes block: "block_local_account i now a b d = Inr d'"
    "relations_separated d"
  shows "relations_separated d'"
proof -
  note block
  note d' = block_local_account_cases(5) [OF block(1)]
  have "local_block {a, b} d d'" using block(1) unfolding local_block_def by blast
  then show ?thesis
    using block(2) by (intro local_step_keeps [where d = d and d' = d']) (blast | subst d', simp)+
qed

lemma unfollow_separation [separation_kept]:
  assumes unfollow: "relations_separated d"
  shows "relations_separated (unfollow_local_account a b d)"
proof -
  note unfollow
  then show ?thesis using shrinks_keeps unfollow_shrinks by blast
qed

lemma unblock_separation [separation_kept]:
  assumes unblock: "relations_separated d"
  shows "relations_separated (unblock_local_account a b d)"
proof -
  note unblock
  then show ?thesis using shrinks_keeps unblock_shrinks by blast
qed

lemma mute_separation [separation_kept]:
  assumes mute: "mute_local_account i now a b nf dur d = Inr (d', mrow)"
    "relations_separated d"
  shows "relations_separated d'"
proof -
  note mute
  from mute(1) obtain t where "d' = d\<lparr>t_local_account_mute := t\<rparr>" by (rule mute_tables)
  then show ?thesis using mute(2) shrinks_keeps [of d d'] by (auto simp: rel_shrinks_def)
qed

lemma unmute_separation [separation_kept]:
  assumes unmute: "relations_separated d"
  shows "relations_separated (unmute_local_account a b d)"
proof -
  note unmute
  then show ?thesis
    using unmute_tables [of a b d] shrinks_keeps [of d "unmute_local_account a b d"]
    by (auto simp: rel_shrinks_def)
qed

lemma create_list_separation [separation_kept]:
  assumes create_list: "create_local_list i n a title policy ex d = Inr (d', l)"
    "relations_separated d"
  shows "relations_separated d'"
proof -
  note create_list
  from create_list(1) obtain t where "d' = d\<lparr>t_local_list := t\<rparr>" by (rule create_list_tables)
  then show ?thesis using create_list(2) shrinks_keeps [of d d'] by (auto simp: rel_shrinks_def)
qed

lemma update_list_separation [separation_kept]:
  assumes update_list: "update_local_list now a i title policy ex d = Inr (d', res)"
    "relations_separated d"
  shows "relations_separated d'"
proof -
  from update_list(1) obtain t where "d' = d\<lparr>t_local_list := t\<rparr>" by (rule update_list_tables)
  then show ?thesis using update_list(2) shrinks_keeps [of d d'] by (auto simp: rel_shrinks_def)
qed

lemma delete_list_separation [separation_kept]:
  assumes delete_list: "relations_separated d"
  shows "relations_separated (fst (delete_local_list a i d))"
proof -
  note delete_list
  then show ?thesis
    using shrinks_keeps [of d "fst (delete_local_list a i d)"]
    by (auto simp: rel_shrinks_def delete_local_list_def Let_def)
qed

lemma add_members_separation [separation_kept]:
  assumes add_members: "add_local_list_accounts nid n a i ids d = Inr (d', res)"
    "relations_separated d"
  shows "relations_separated d'"
proof -
  note add_members
  from add_members(1) obtain t u where "d' = d\<lparr>t_list_local_member := t, t_list_remote_member := u\<rparr>"
    by (rule add_members_tables)
  then show ?thesis using add_members(2) shrinks_keeps [of d d'] by (auto simp: rel_shrinks_def)
qed

lemma remove_members_separation [separation_kept]:
  assumes remove_members: "relations_separated d"
  shows "relations_separated (fst (remove_local_list_accounts a i ids d))"
proof -
  note remove_members
  then show ?thesis
    using shrinks_keeps [of d "fst (remove_local_list_accounts a i ids d)"]
    by (auto simp: rel_shrinks_def remove_local_list_accounts_def)
qed

lemma inbound_accept_separation [separation_kept]:
  assumes inbound_accept: "upsert_processed_remote_follow_with_response_job i j n now r a act js rj d = Inr (d', ok)"
    "relations_separated d"
  shows "relations_separated d'"
proof -
  note inbound_accept
  show ?thesis
  proof (cases ok)
    case True
    then have "remote_link (a, r) d d'" using inbound_accept(1) unfolding remote_link_def by auto
    moreover obtain t jobs where "d' = d\<lparr>t_remote_follow := t, t_job := jobs\<rparr>"
      using disjI1 [OF inbound_accept(1) [unfolded eqTrueI [OF True]]] by (rule inbound_follow_cases)
    ultimately show ?thesis using inbound_accept(2) remote_step_keeps [of "(a, r)" d d'] by simp
  next
    case False
    then show ?thesis using inbound_accept
      by (auto simp: upsert_processed_remote_follow_with_response_job_def bind_res_Inr_iff split: if_splits)
  qed
qed

lemma inbound_pending_separation [separation_kept]:
  assumes inbound_pending: "upsert_processed_pending_remote_follow i now r a act js d = Inr (d', ok)"
    "relations_separated d"
  shows "relations_separated d'"
proof -
  note inbound_pending
  show ?thesis
  proof (cases ok)
    case True
    then have "remote_link (a, r) d d'" using inbound_pending(1) unfolding remote_link_def by auto
    moreover obtain t jobs where "d' = d\<lparr>t_remote_follow := t, t_job := jobs\<rparr>"
      using disjI2 [OF inbound_pending(1) [unfolded eqTrueI [OF True]]] by (rule inbound_follow_cases)
    ultimately show ?thesis using inbound_pending(2) remote_step_keeps [of "(a, r)" d d'] by simp
  next
    case False
    then show ?thesis using inbound_pending
      by (auto simp: upsert_processed_pending_remote_follow_def bind_res_Inr_iff split: if_splits)
  qed
qed

lemma approve_separation [separation_kept]:
  assumes approve: "accept_remote_follow_with_response_job j n now a r act rj d = Inr (d', ok)"
    "relations_separated d"
  shows "relations_separated d'"
proof -
  note approve
  from approve(1) obtain t jobs where "d' = d\<lparr>t_remote_follow := t, t_job := jobs\<rparr>"
    "rf_pair ` set t = rf_pair ` set (t_remote_follow d)" by (rule approve_tables)
  then show ?thesis using approve(2) shrinks_keeps [of d d'] by (auto simp: rel_shrinks_def)
qed

lemma refuse_separation [separation_kept]:
  assumes refuse: "delete_remote_follow_with_response_job j n now a r act rj d = Inr (d', ok)"
    "relations_separated d"
  shows "relations_separated d'"
proof -
  note refuse
  from refuse(1) obtain t jobs where "d' = d\<lparr>t_remote_follow := t, t_job := jobs\<rparr>"
    "set t \<subseteq> set (t_remote_follow d)" by (rule refuse_tables)
  then show ?thesis using refuse(2) shrinks_keeps [of d d'] by (auto simp: rel_shrinks_def)
qed

lemma undo_follow_separation [separation_kept]:
  assumes undo_follow: "relations_separated d"
  shows "relations_separated (fst (process_remote_undo_follow r act d))"
proof -
  note undo_follow
  then show ?thesis
    using shrinks_keeps [of d "fst (process_remote_undo_follow r act d)"]
    by (auto simp: rel_shrinks_def process_remote_undo_follow_def)
qed

lemma outbound_separation [separation_kept]:
  assumes outbound: "create_remote_following_with_job i j n now a r act sr nf job d = Inr d'"
    "relations_separated d"
  shows "relations_separated d'"
proof -
  note outbound
  have "remote_link (a, r) d d'" using outbound(1) unfolding remote_link_def by auto
  moreover from outbound(1) obtain t jobs where "d' = d\<lparr>t_remote_following := t, t_job := jobs\<rparr>"
    by (rule create_with_job_cases)
  ultimately show ?thesis using outbound(2) remote_step_keeps [of "(a, r)" d d'] by simp
qed

lemma accepted_separation [separation_kept]:
  assumes accepted: "relations_separated d"
  shows "relations_separated (fst (accept_remote_following n r act d))"
proof -
  note accepted
  have "rg_key ` set (t_remote_following (fst (accept_remote_following n r act d))) =
      rg_key ` set (t_remote_following d)"
    by (simp add: accept_remote_following_def Let_def) (rule rg_key_update, simp add: rg_key_def)
  then have "rel_shrinks d (fst (accept_remote_following n r act d))"
    unfolding rel_shrinks_def by (simp add: accept_remote_following_def Let_def)
  then show ?thesis using accepted by (rule shrinks_keeps)
qed

lemma unfollow_remote_separation [separation_kept]:
  assumes unfollow_remote: "delete_remote_following_with_job j n a r job d = Inr (d', grow)"
    "relations_separated d"
  shows "relations_separated d'"
proof -
  note unfollow_remote
  from unfollow_remote(1) obtain d1 jobs where d1: "delete_remote_following a r d = (d1, grow)"
    and d': "d' = d1\<lparr>t_job := jobs\<rparr>" by (rule unfollow_remote_tables)
  from d1 obtain t u where "d1 = d\<lparr>t_list_remote_member := u, t_remote_following := t\<rparr>"
    "set t \<subseteq> set (t_remote_following d)" by (rule delete_following_tables)
  then show ?thesis using unfollow_remote(2) d' shrinks_keeps [of d d'] by (auto simp: rel_shrinks_def)
qed

lemma move_separation [separation_kept]:
  assumes move: "migrate_one i nid j1 j2 n now allowed suspended prepared undo g target d = Inr (d', moved)"
    "relations_separated d"
  shows "relations_separated d'"
proof -
  note move
  then show ?thesis by (rule migrate_one_keeps)
qed

lemma block_remote_separation [separation_kept]:
  assumes block_remote: "block_remote_account i j n now a r act job d = Inr (d', ok)"
    "relations_separated d"
  shows "relations_separated d'"
proof -
  note block_remote
  have "remote_block (a, r) d d'" using block_remote(1) unfolding remote_block_def by auto
  then show ?thesis
    using block_remote(2) remote_step_keeps [of "(a, r)" d d'] block_remote_account_cases(4) [OF block_remote(1)]
    by (auto simp: severing_defs)
qed

lemma unblock_remote_separation [separation_kept]:
  assumes unblock_remote: "unblock_remote_account j n a r job d = Inr (d', ok)"
    "relations_separated d"
  shows "relations_separated d'"
proof -
  note unblock_remote
  from unblock_remote(1) obtain t jobs where "d' = d\<lparr>t_local_remote_account_block := t, t_job := jobs\<rparr>"
    "set t \<subseteq> set (t_local_remote_account_block d)" by (rule unblock_remote_tables)
  then show ?thesis using unblock_remote(2) shrinks_keeps [of d d'] by (auto simp: rel_shrinks_def)
qed

lemma mute_remote_separation [separation_kept]:
  assumes mute_remote: "mute_remote_account i now a r nf dur d = Inr (d', mrrow)"
    "relations_separated d"
  shows "relations_separated d'"
proof -
  note mute_remote
  from mute_remote(1) obtain t where "d' = d\<lparr>t_local_remote_account_mute := t\<rparr>" by (rule mute_remote_tables)
  then show ?thesis using mute_remote(2) shrinks_keeps [of d d'] by (auto simp: rel_shrinks_def)
qed

lemma unmute_remote_separation [separation_kept]:
  assumes unmute_remote: "relations_separated d"
  shows "relations_separated (unmute_remote_account a r d)"
proof -
  note unmute_remote
  then show ?thesis
    using shrinks_keeps [of d "unmute_remote_account a r d"]
    by (auto simp: rel_shrinks_def unmute_remote_account_def)
qed

lemma blocked_by_separation [separation_kept]:
  assumes blocked_by: "process_remote_block i n r a act d = Inr (d', ok)"
    "relations_separated d"
  shows "relations_separated d'"
proof -
  note blocked_by
  have "remote_block (a, r) d d'" using blocked_by(1) unfolding remote_block_def by auto
  then show ?thesis
    using blocked_by(2) remote_step_keeps [of "(a, r)" d d'] process_remote_block_cases [OF blocked_by(1)]
    by (auto simp: severing_defs)
qed

lemma unblocked_by_separation [separation_kept]:
  assumes unblocked_by: "relations_separated d"
  shows "relations_separated (fst (process_remote_undo_block r a act d))"
proof -
  note unblocked_by
  then show ?thesis
    using shrinks_keeps [of d "fst (process_remote_undo_block r a act d)"]
    by (auto simp: rel_shrinks_def process_remote_undo_block_def Let_def)
qed

lemma suspend_separation [separation_kept]:
  assumes suspend: "relations_separated d"
  shows "relations_separated (fst (reconcile_suspended_remote_domains ids now domains d))"
proof -
  note suspend
  then show ?thesis using shrinks_keeps reconcile_shrinks by blast
qed

lemma suspend_local_separation [separation_kept]:
  assumes "relations_separated d"
  shows "relations_separated (sever_lists i (sever_relations i d))"
  by (rule shrinks_keeps [OF _ assms]) (auto simp: rel_shrinks_def sever_lists_def sever_relations_def Let_def)

lemma suspend_actor_separation [separation_kept]:
  assumes "relations_separated d"
  shows "relations_separated (purge_remote_actor_cache now i d)"
  by (rule shrinks_keeps [OF _ assms])
     (auto simp: rel_shrinks_def purge_remote_actor_cache_def dismiss_notifications_def)

lemma elsewhere_separation [separation_kept]:
  assumes "same_relations d d'" and "relations_separated d"
  shows "relations_separated d'"
  by (rule shrinks_keeps [OF _ assms(2)]) (use assms(1) in \<open>simp add: rel_shrinks_def same_relations_def\<close>)

lemma relation_step_keeps: "relation_step d d' \<Longrightarrow> relations_separated d \<Longrightarrow> relations_separated d'"
  by (induction rule: relation_step.induct) (auto intro: separation_kept)

lemma end_step_shrinks: "end_step r d d' \<Longrightarrow> rel_shrinks d d'"
  by (induction rule: end_step.induct)
     (auto simp: rel_shrinks_def reject_remote_following_def delete_actor_relations_def retire_jobs_def Let_def)

lemma any_step_keeps: "any_step d d' \<Longrightarrow> relations_separated d \<Longrightarrow> relations_separated d'"
  unfolding any_step_def using relation_step_keeps end_step_shrinks shrinks_keeps by blast

interpretation rel_sys: invariant_system relation_init any_step relations_separated
proof
  show "relations_separated d" if "relation_init d" for d
    using that
    by (simp add: relation_init_def relations_separated_def local_rel.separated_def remote_rel.separated_def
        local_linked_def remote_linked_def)
qed (rule any_step_keeps)

text \<open>List memberships, up to the actors that have ended a follow themselves.\<close>

definition lists_inv :: "uuid set \<Rightarrow> db \<Rightarrow> bool" where
  "lists_inv E d \<longleftrightarrow> list_members_ok E d \<and> tbl_ok rg_conflict (t_remote_following d)"

lemma lists_inv_cong:
  assumes "t_local_list d' = t_local_list d" and "t_local_follow d' = t_local_follow d"
    and "t_remote_following d' = t_remote_following d"
    and "t_list_local_member d' = t_list_local_member d"
    and "t_list_remote_member d' = t_list_remote_member d"
  shows "lists_inv E d' \<longleftrightarrow> lists_inv E d"
  using list_members_ok_cong [OF assms] by (simp add: lists_inv_def assms(3))

lemma lists_inv_local:
  assumes "list_members_ok E d \<Longrightarrow> list_members_ok E d'" and "lists_inv E d"
    and "t_remote_following d' = t_remote_following d"
  shows "lists_inv E d'"
  using assms by (simp add: lists_inv_def)

named_theorems lists_kept \<open>operations that keep list memberships resting on follows\<close>

lemma follow_lists [lists_kept]:
  assumes "follow_local_account i now a b sr nf d = Inr (d', row)" "lists_inv E d"
  shows "lists_inv E d'"
proof (rule lists_inv_local [OF _ assms(2)])
  note w = follow_local_account_cases(3) [OF assms(1)]
  show "list_members_ok E d \<Longrightarrow> list_members_ok E d'" by (rule follow_write_list_ok [OF w])
  show "t_remote_following d' = t_remote_following d" by (subst follow_write_cases(1) [OF w]) simp
qed

lemma unfollow_lists [lists_kept]: "lists_inv E d \<Longrightarrow> lists_inv E (unfollow_local_account a b d)"
proof -
  assume "lists_inv E d"
  moreover have "t_remote_following (unfollow_local_account a b d) = t_remote_following d"
    by (simp add: unfollow_local_account_def Let_def split: option.split)
  ultimately show ?thesis using unfollow_list_ok by (simp add: lists_inv_def)
qed

lemma block_lists [lists_kept]:
  assumes "block_local_account i now a b d = Inr d'" "lists_inv E d"
  shows "lists_inv E d'"
proof (rule lists_inv_local [OF _ assms(2)])
  show "list_members_ok E d \<Longrightarrow> list_members_ok E d'" by (rule block_local_list_ok [OF assms(1)])
  show "t_remote_following d' = t_remote_following d"
    by (subst block_local_account_cases(5) [OF assms(1)]) simp
qed

lemma unblock_lists [lists_kept]: "lists_inv E d \<Longrightarrow> lists_inv E (unblock_local_account a b d)"
  using lists_inv_cong [of "unblock_local_account a b d" d]
  by (simp add: unblock_local_account_def split: option.splits)

lemma mute_lists [lists_kept]:
  assumes "mute_local_account i now a b nf dur d = Inr (d', row)" "lists_inv E d"
  shows "lists_inv E d'"
  using assms(1) by (rule mute_tables) (use assms(2) lists_inv_cong [of d' d] in simp)

lemma unmute_lists [lists_kept]: "lists_inv E d \<Longrightarrow> lists_inv E (unmute_local_account a b d)"
  using unmute_tables [of a b d] lists_inv_cong [of "unmute_local_account a b d" d] by auto

lemma create_list_lists [lists_kept]:
  assumes "create_local_list i n a title policy ex d = Inr (d', l)" "lists_inv E d"
  shows "lists_inv E d'"
proof (rule lists_inv_local [OF _ assms(2)])
  show "list_members_ok E d \<Longrightarrow> list_members_ok E d'" by (rule create_list_ok [OF assms(1)])
  from assms(1) show "t_remote_following d' = t_remote_following d" by (rule create_list_tables) simp
qed

lemma update_list_lists [lists_kept]:
  assumes "update_local_list now a i title policy ex d = Inr (d', res)" "lists_inv E d"
  shows "lists_inv E d'"
proof (rule lists_inv_local [OF _ assms(2)])
  show "list_members_ok E d \<Longrightarrow> list_members_ok E d'" by (rule update_list_ok [OF assms(1)])
  from assms(1) show "t_remote_following d' = t_remote_following d" by (rule update_list_tables) simp
qed

lemma delete_list_lists [lists_kept]: "lists_inv E d \<Longrightarrow> lists_inv E (fst (delete_local_list a i d))"
proof -
  assume "lists_inv E d"
  moreover have "t_remote_following (fst (delete_local_list a i d)) = t_remote_following d"
    by (simp add: delete_local_list_def Let_def)
  ultimately show ?thesis using delete_list_ok by (simp add: lists_inv_def)
qed

lemma add_members_lists [lists_kept]:
  assumes "add_local_list_accounts nid n a i ids d = Inr (d', res)" "lists_inv E d"
  shows "lists_inv E d'"
proof (rule lists_inv_local [OF _ assms(2)])
  show "list_members_ok E d \<Longrightarrow> list_members_ok E d'" by (rule add_list_accounts_ok [OF assms(1)])
  from assms(1) show "t_remote_following d' = t_remote_following d" by (rule add_members_tables) simp
qed

lemma remove_members_lists [lists_kept]:
  "lists_inv E d \<Longrightarrow> lists_inv E (fst (remove_local_list_accounts a i ids d))"
proof -
  assume "lists_inv E d"
  moreover have "t_remote_following (fst (remove_local_list_accounts a i ids d)) = t_remote_following d"
    by (simp add: remove_local_list_accounts_def)
  ultimately show ?thesis using remove_list_accounts_ok by (simp add: lists_inv_def)
qed

lemma inbound_tables:
  assumes "upsert_processed_remote_follow_with_response_job i j n now r a act js rj d = Inr (d', ok) \<or>
    upsert_processed_pending_remote_follow i now r a act js d = Inr (d', ok)"
  obtains t jobs where "d' = d\<lparr>t_remote_follow := t, t_job := jobs\<rparr>"
proof (cases ok)
  case True
  then show thesis using inbound_follow_cases [of i j n now r a act js rj d d'] assms that by metis
next
  case False
  then have "d' = d" using assms
    by (auto simp: upsert_processed_remote_follow_with_response_job_def
        upsert_processed_pending_remote_follow_def bind_res_Inr_iff split: if_splits)
  then have "d' = d\<lparr>t_remote_follow := t_remote_follow d, t_job := t_job d\<rparr>" by simp
  then show thesis by (rule that)
qed

lemma inbound_accept_lists [lists_kept]:
  assumes "upsert_processed_remote_follow_with_response_job i j n now r a act js rj d = Inr (d', ok)" "lists_inv E d"
  shows "lists_inv E d'"
  using disjI1 [OF assms(1)] by (rule inbound_tables) (use assms(2) lists_inv_cong [of d' d] in simp)

lemma inbound_pending_lists [lists_kept]:
  assumes "upsert_processed_pending_remote_follow i now r a act js d = Inr (d', ok)" "lists_inv E d"
  shows "lists_inv E d'"
  using disjI2 [OF assms(1)] by (rule inbound_tables) (use assms(2) lists_inv_cong [of d' d] in simp)

lemma approve_lists [lists_kept]:
  assumes "accept_remote_follow_with_response_job j n now a r act rj d = Inr (d', ok)" "lists_inv E d"
  shows "lists_inv E d'"
  using assms(1) by (rule approve_tables) (use assms(2) lists_inv_cong [of d' d] in simp)

lemma refuse_lists [lists_kept]:
  assumes "delete_remote_follow_with_response_job j n now a r act rj d = Inr (d', ok)" "lists_inv E d"
  shows "lists_inv E d'"
  using assms(1) by (rule refuse_tables) (use assms(2) lists_inv_cong [of d' d] in simp)

lemma undo_follow_lists [lists_kept]: "lists_inv E d \<Longrightarrow> lists_inv E (fst (process_remote_undo_follow r act d))"
  using lists_inv_cong [of "fst (process_remote_undo_follow r act d)" d]
  by (simp add: process_remote_undo_follow_def)

lemma outbound_lists [lists_kept]:
  assumes "create_remote_following_with_job i j n now a r act sr nf job d = Inr d'" "lists_inv E d"
  shows "lists_inv E d'"
  using assms(1)
proof (rule create_with_job_shape)
  fix t jobs
  assume d': "d' = d\<lparr>t_remote_following := t, t_job := jobs\<rparr>"
    and w: "\<And>x y. wants_remote d x y \<Longrightarrow> \<exists>g \<in> set t. rg_key g = (x, y) \<and> rg_deactivated_at g = None"
    and ok: "tbl_ok rg_conflict (t_remote_following d) \<Longrightarrow> tbl_ok rg_conflict t"
  have "list_members_ok E d'"
    by (rule list_members_ok_more_follows [OF _ d' w]) (use assms(2) in \<open>simp_all add: lists_inv_def\<close>)
  then show ?thesis using assms(2) ok by (simp add: lists_inv_def d')
qed

lemma accepted_lists [lists_kept]: "lists_inv E d \<Longrightarrow> lists_inv E (fst (accept_remote_following n r act d))"
  unfolding lists_inv_def
proof (elim conjE, intro conjI)
  assume "tbl_ok rg_conflict (t_remote_following d)"
  then show "tbl_ok rg_conflict (t_remote_following (fst (accept_remote_following n r act d)))"
    unfolding accept_remote_following_def Let_def
    by (simp, intro rg_tbl.ok_update_same_keys) (simp_all add: rg_conflict_def rg_key_def)
qed (rule accept_following_list_ok)

lemma unfollow_remote_lists [lists_kept]:
  assumes "delete_remote_following_with_job j n a r job d = Inr (d', grow)" "lists_inv E d"
  shows "lists_inv E d'"
  using assms(1)
proof (rule unfollow_remote_tables)
  fix d1 jobs
  assume d1: "delete_remote_following a r d = (d1, grow)" and d': "d' = d1\<lparr>t_job := jobs\<rparr>"
  have "list_members_ok E d1" using delete_following_list_ok [OF _ _ d1] assms(2) by (simp add: lists_inv_def)
  moreover have "tbl_ok rg_conflict (t_remote_following d1)"
    using d1 by (rule delete_following_tables) (use assms(2) in \<open>simp add: lists_inv_def\<close>)
  ultimately show ?thesis using lists_inv_cong [of d' d1] by (simp add: d' lists_inv_def)
qed

lemma move_lists [lists_kept]:
  assumes "migrate_one i nid j1 j2 n now allowed suspended prepared undo g target d = Inr (d', moved)" "lists_inv E d"
  shows "lists_inv E d'"
  using assms(1)
  by (cases rule: migrate_one_cases) (use assms(2) migrate_list_ok in \<open>auto simp: lists_inv_def\<close>)

lemma block_remote_lists [lists_kept]:
  assumes "block_remote_account i j n now a r act job d = Inr (d', ok)" "lists_inv E d"
  shows "lists_inv E d'"
proof -
  have "t_remote_following d' = tbl_delete (\<lambda>g. rg_local_account_id g = a \<and> rg_remote_actor_id g = r) (t_remote_following d)"
    using block_remote_account_cases(4) [OF assms(1)] by (auto simp: severing_defs)
  then show ?thesis
    using assms(2) block_remote_list_ok [OF assms(1)] rg_tbl.ok_delete by (simp add: lists_inv_def)
qed

lemma unblock_remote_lists [lists_kept]:
  assumes "unblock_remote_account j n a r job d = Inr (d', ok)" "lists_inv E d"
  shows "lists_inv E d'"
  using assms(1) by (rule unblock_remote_tables) (use assms(2) lists_inv_cong [of d' d] in simp)

lemma mute_remote_lists [lists_kept]:
  assumes "mute_remote_account i now a r nf dur d = Inr (d', row)" "lists_inv E d"
  shows "lists_inv E d'"
  using assms(1) by (rule mute_remote_tables) (use assms(2) lists_inv_cong [of d' d] in simp)

lemma unmute_remote_lists [lists_kept]: "lists_inv E d \<Longrightarrow> lists_inv E (unmute_remote_account a r d)"
  using lists_inv_cong [of "unmute_remote_account a r d" d] by (simp add: unmute_remote_account_def)

lemma blocked_by_lists [lists_kept]:
  assumes "process_remote_block i n r a act d = Inr (d', ok)" "lists_inv E d"
  shows "lists_inv E d'"
proof -
  have "t_remote_following d' = tbl_delete (\<lambda>g. rg_local_account_id g = a \<and> rg_remote_actor_id g = r) (t_remote_following d)"
    using process_remote_block_cases [OF assms(1)] by (auto simp: severing_defs)
  then show ?thesis
    using assms(2) process_block_list_ok [OF assms(1)] rg_tbl.ok_delete by (simp add: lists_inv_def)
qed

lemma unblocked_by_lists [lists_kept]:
  "lists_inv E d \<Longrightarrow> lists_inv E (fst (process_remote_undo_block r a act d))"
  using lists_inv_cong [of "fst (process_remote_undo_block r a act d)" d]
  by (simp add: process_remote_undo_block_def Let_def)

lemma suspend_lists [lists_kept]:
  "lists_inv E d \<Longrightarrow> lists_inv E (fst (reconcile_suspended_remote_domains ids now ds d))"
  unfolding lists_inv_def
proof (elim conjE, intro conjI)
  assume "tbl_ok rg_conflict (t_remote_following d)"
  then show "tbl_ok rg_conflict (t_remote_following (fst (reconcile_suspended_remote_domains ids now ds d)))"
    by (rule_tac reconcile_tables [of ids now ds d]) (simp add: rg_tbl.ok_delete)
qed (rule reconcile_list_ok)

lemma suspend_local_lists [lists_kept]:
  "lists_inv E d \<Longrightarrow> lists_inv E (sever_lists i (sever_relations i d))"
proof -
  assume "lists_inv E d"
  moreover have "t_remote_following (sever_lists i (sever_relations i d)) =
      tbl_delete (\<lambda>r. rg_local_account_id r = i) (t_remote_following d)"
    by (simp add: sever_lists_def sever_relations_def Let_def)
  ultimately show ?thesis using sever_list_ok rg_tbl.ok_delete by (simp add: lists_inv_def)
qed

lemma suspend_actor_lists [lists_kept]:
  "lists_inv E d \<Longrightarrow> lists_inv E (purge_remote_actor_cache now i d)"
proof -
  assume "lists_inv E d"
  moreover have "t_remote_following (purge_remote_actor_cache now i d) =
      tbl_delete (\<lambda>r. rg_remote_actor_id r = i) (t_remote_following d)"
    by (simp add: purge_remote_actor_cache_def dismiss_notifications_def)
  ultimately show ?thesis using purge_cache_list_ok rg_tbl.ok_delete by (simp add: lists_inv_def)
qed

lemma elsewhere_lists [lists_kept]:
  assumes "same_relations d d'" and "lists_inv E d"
  shows "lists_inv E d'"
  using assms lists_inv_cong [of d' d E] by (simp add: same_relations_def)

lemma relation_step_lists: "relation_step d d' \<Longrightarrow> lists_inv E d \<Longrightarrow> lists_inv E d'"
  by (induction rule: relation_step.induct) (auto intro: lists_kept)

lemma end_step_lists: "end_step r d d' \<Longrightarrow> lists_inv E d \<Longrightarrow> lists_inv (insert r E) d'"
proof (induction rule: end_step.induct)
  case (rejected d act)
  then show ?case
    using reject_list_ended [of E d r act] rg_tbl.ok_delete
    by (simp add: lists_inv_def reject_remote_following_def Let_def)
next
  case (deleted d ids now)
  then show ?case
    using actor_delete_list_ended [of E d r ids now] rg_tbl.ok_delete
    by (simp add: lists_inv_def delete_actor_relations_def retire_jobs_def)
qed

definition tracked_inv :: "db \<times> uuid set \<Rightarrow> bool" where
  "tracked_inv s \<longleftrightarrow> lists_inv (snd s) (fst s)"

interpretation list_sys: invariant_system tracked_init tracked_step tracked_inv
proof
  show "tracked_inv s" if "tracked_init s" for s
    using that by (simp add: tracked_init_def relation_init_def tracked_inv_def lists_inv_def list_members_ok_def)
  show "tracked_inv t" if "tracked_step s t" "tracked_inv s" for s t
    using that by (induction rule: tracked_step.induct)
      (simp_all add: tracked_inv_def relation_step_lists end_step_lists)
qed

end
