(* ===== verification/Roosty_Relation_Properties.thy ===== *)
theory Roosty_Relation_Properties
  imports Roosty_Relation_Steps
begin

text \<open>
  The properties of follows, blocks, mutes, lists and the inbox register: invariants of every
  reachable state, what each operation promises on its own, agreement of the bulk queries
  with the pointwise ones, and the places where the code keeps less than it means to.
\<close>

subsection \<open>Sample rows\<close>

text \<open>Rows the witnesses use.\<close>

definition demo_account :: "uuid \<Rightarrow> local_account_row" where
  "demo_account i = \<lparr> la_id = i, la_username = utext ''u'', la_email = utext ''u@x'', la_password_hash = ''h'',
     la_is_admin = False, la_display_name = [], la_note = [], la_locked = False, la_bot = False,
     la_discoverable = True, la_indexable = True, la_default_visibility = Public,
     la_default_sensitive = False, la_default_language = None,
     la_default_quote_policy = QuotePublic, la_profile_fields = JArr [],
     la_avatar_file_path = None, la_header_file_path = None, la_limited_at = None,
     la_suspended_at = None, la_data_purged_at = None, la_last_status_at = None,
     la_created_at = 0, la_updated_at = 0 \<rparr>"

definition demo_actor :: "uuid \<Rightarrow> uuid option \<Rightarrow> remote_actor_row" where
  "demo_actor i moved = \<lparr> ra_id = i, ra_activitypub_id = ''https://r/u'', ra_username = ''u'',
     ra_domain = ''r'', ra_invalid_handle = False, ra_actor_type = Person, ra_display_name = [],
     ra_summary = [], ra_emojis = JArr [], ra_inbox_url = ''https://r/i'',
     ra_shared_inbox_url = None, ra_followers_url = None, ra_featured_url = None,
     ra_featured_tags_url = None, ra_public_key_id = ''k'', ra_public_key_pem = ''p'',
     ra_fetched_at = 0, ra_expires_at = 0, ra_profile_created_at = None, ra_deleted_at = None,
     ra_moved_to_remote_actor_id = moved, ra_limited_at = None, ra_suspended_at = None,
     ra_data_purged_at = None, ra_discoverable = None, ra_indexable = False,
     ra_last_status_at = None, ra_created_at = 0, ra_updated_at = 0 \<rparr>"

definition demo_world :: db where
  "demo_world = empty_db\<lparr>t_local_account := [demo_account 1, demo_account 2],
     t_remote_actor := [demo_actor 8 None, demo_actor 9 (Some 8)]\<rparr>"

lemma demo_rows [simp]: "la_id (demo_account i) = i" "ra_id (demo_actor i m) = i"
  "ra_moved_to_remote_actor_id (demo_actor i m) = m" "ra_deleted_at (demo_actor i m) = None"
  "ra_suspended_at (demo_actor i m) = None" "ra_domain (demo_actor i m) = ''r''"
  by (simp_all add: demo_account_def demo_actor_def)

lemma demo_world_init: "relation_init demo_world"
  by (simp add: relation_init_def demo_world_def empty_db_def)

definition demo_block :: local_account_block_row where
  "demo_block = \<lparr> lab_id = 5, lab_account_id = 1, lab_target_account_id = 2, lab_created_at = 7,
     lab_updated_at = 7 \<rparr>"

lemmas demo_block_ops =
  block_local_account_def ensure_local_relation_target_def insert_local_block_def
  local_account_blocks_def find_local_account_by_id_def demo_world_def demo_block_def empty_db_def
  lab_key_def remove_local_account_from_owned_lists_def delete_local_follows_def tbl_delete_def
  tbl_insert_def with_fk_def fk_local_def owned_list_ids_def

lemma demo_blocked: "block_local_account 5 7 1 2 demo_world = Inr (demo_world\<lparr>t_local_account_block := [demo_block]\<rparr>)"
  by (simp add: demo_block_ops)

subsection \<open>Invariants\<close>

text \<open>
  C6: Whatever sequence of operations has run, in any order, no follow crosses a block. Two
  local accounts of which one blocks the other do not follow each other, and between a local
  account and a remote actor with a block in either direction there is no outbound follow, no
  accepted inbound follow and no pending follow request.
\<close>

theorem follows_respect_blocks:
  assumes "reachable relation_init any_step d"
  shows "(local_accounts_are_blocked d a b \<longrightarrow>
            local_follow_relationship d a b = None \<and> local_follow_relationship d b a = None) \<and>
         (local_remote_accounts_are_blocked d a r \<longrightarrow>
            find_remote_following d a r = None \<and> \<not> remote_actor_follows_local_account d r a \<and>
            r \<notin> rf_remote_actor_id ` set (pending_remote_follows d a))"
proof -
  have sep: "local_rel.separated d" "remote_rel.separated d"
    using rel_sys.reachable_inv [OF assms] by (simp_all add: relations_separated_def)
  have "local_follow_relationship d x y = None" if "local_blocked d {x, y}" for x y
    using local_rel.separated_not_both [OF sep(1) that]
    by (auto simp: local_linked_keys local_follow_relationship_def find_local_follow_def
        find_None_all image_iff)
  moreover have "find_remote_following d a r = None \<and> \<not> remote_actor_follows_local_account d r a \<and>
      r \<notin> rf_remote_actor_id ` set (pending_remote_follows d a)" if "remote_blocked d (a, r)"
    using remote_rel.separated_not_both [OF sep(2) that]
    by (auto simp: remote_linked_def find_remote_following_def remote_actor_follows_local_account_def
        pending_remote_follows_def find_None_all list_ex_iff rg_key_def rf_pair_def image_iff)
  ultimately show ?thesis
    by (simp add: local_accounts_are_blocked_iff local_remote_accounts_are_blocked_iff insert_commute)
qed

theorem follows_respect_blocks_witness:
  "local_accounts_are_blocked (demo_world\<lparr>t_local_account_block := [demo_block]\<rparr>) 1 2 \<and>
   local_follow_relationship (demo_world\<lparr>t_local_account_block := [demo_block]\<rparr>) 1 2 = None"
proof -
  let ?d = "demo_world\<lparr>t_local_account_block := [demo_block]\<rparr>"
  have "any_step demo_world ?d" using relation_step.block [OF demo_blocked] by (simp add: any_step_def)
  then have "reachable relation_init any_step ?d"
    by (rule reach_step [OF reach_init [of relation_init, OF demo_world_init]])
  then have "local_accounts_are_blocked ?d 1 2 \<longrightarrow> local_follow_relationship ?d 1 2 = None"
    using follows_respect_blocks by blast
  moreover have "local_accounts_are_blocked ?d 1 2"
    by (simp add: local_accounts_are_blocked_def demo_block_def)
  ultimately show ?thesis by simp
qed

text \<open>
  C7: List memberships rest on follows. In every reachable state, whatever operations have run, a
  local member of a list is followed by the owner of the list; and for a remote member the owner
  has an outbound follow that has not been deactivated, unless that very actor has ended follows
  from its own side, by a \<open>Reject\<close> or by its deletion: the two operations that leave the
  memberships behind.
\<close>

theorem list_members_are_followed:
  assumes "reachable tracked_init tracked_step (d, ended)"
  shows "(\<forall>m \<in> set (t_list_local_member d). \<exists>owner.
            find_owned_local_list d owner (llm_list_id m) \<noteq> None \<and>
            local_follow_relationship d owner (llm_account_id m) \<noteq> None) \<and>
         (\<forall>m \<in> set (t_list_remote_member d). \<exists>owner.
            find_owned_local_list d owner (lrem_list_id m) \<noteq> None \<and>
            (find_remote_following d owner (lrem_remote_actor_id m) \<noteq> None \<or>
             lrem_remote_actor_id m \<in> ended))"
proof -
  have ok: "list_members_ok ended d"
    using list_sys.reachable_inv [OF assms] by (simp add: lists_inv_def tracked_inv_def)
  have "find_remote_following d o' r \<noteq> None \<longleftrightarrow> wants_remote d o' r" for o' r
    by (auto simp: find_remote_following_def wants_remote_def rg_key_def)
  moreover have "local_follow_relationship d o' a \<noteq> None \<longleftrightarrow> follows_locally d o' a" for o' a
    by (auto simp: local_follow_relationship_def find_local_follow_def follows_locally_def)
  ultimately show ?thesis
    using ok by (simp add: list_members_ok_def find_owned_owns disj_commute del: not_None_eq)
qed

definition demo_follow :: local_follow_row where
  "demo_follow = \<lparr> lf_id = 11, lf_follower_account_id = 1, lf_followed_account_id = 2,
     lf_show_reblogs = True, lf_notify = False, lf_created_at = 7, lf_updated_at = 7 \<rparr>"

definition demo_list :: local_list_row where
  "demo_list = \<lparr> ll_id = 20, ll_account_id = 1, ll_title = [76], ll_replies_policy = RepliesList,
     ll_exclusive = False, ll_created_at = 7, ll_updated_at = 7 \<rparr>"

definition demo_listed :: db where
  "demo_listed = demo_world\<lparr>t_local_follow := [demo_follow], t_local_list := [demo_list],
     t_list_local_member := [\<lparr> llm_id = 32, llm_list_id = 20, llm_account_id = 2, llm_created_at = 7 \<rparr>]\<rparr>"

lemma demo_follow_run:
  "follow_local_account 11 7 1 2 True False demo_world =
     Inr (demo_world\<lparr>t_local_follow := [demo_follow]\<rparr>, demo_follow)"
  by (simp add: follow_local_account_def follow_checks_def follow_write_def find_local_follow_def
      demo_world_def empty_db_def local_accounts_are_blocked_def find_local_account_by_id_def
      fk_local_def tbl_insert_def demo_follow_def with_fk_def Let_def)

lemma demo_list_run:
  "create_local_list 20 7 1 [76] RepliesList False (demo_world\<lparr>t_local_follow := [demo_follow]\<rparr>) =
     Inr (demo_world\<lparr>t_local_follow := [demo_follow], t_local_list := [demo_list]\<rparr>, demo_list)"
  by (simp add: create_local_list_def list_title_ok_def demo_world_def empty_db_def fk_local_def
      tbl_insert_def demo_list_def with_fk_def Let_def)

lemma demo_member_run:
  "add_local_list_accounts (\<lambda>i. i + 30) 7 1 20 [2]
     (demo_world\<lparr>t_local_follow := [demo_follow], t_local_list := [demo_list]\<rparr>) =
   Inr (demo_listed, Added)"
  by (simp add: add_local_list_accounts_def find_owned_local_list_def demo_list_def demo_follow_def
      demo_world_def empty_db_def demo_listed_def Let_def rows_affected_def fk_local_def with_fk_def
      tbl_insert_def Collect_conv_if image_iff)

lemma demo_listed_reachable: "reachable tracked_init tracked_step (demo_listed, {})"
proof -
  have "tracked_init (demo_world, {})" using demo_world_init by (simp add: tracked_init_def)
  then show ?thesis
    by (rule reach_step [OF reach_step [OF reach_step [OF reach_init [of tracked_init]]]])
       (rule tracked_step.kept, rule relation_step.follow [OF demo_follow_run] relation_step.create_list [OF demo_list_run]
         relation_step.add_members [OF demo_member_run])+
qed

theorem list_members_are_followed_witness:
  "t_list_local_member demo_listed \<noteq> [] \<and>
   (\<exists>owner. find_owned_local_list demo_listed owner 20 \<noteq> None \<and>
      local_follow_relationship demo_listed owner 2 \<noteq> None)"
  using list_members_are_followed [OF demo_listed_reachable] by (simp add: demo_listed_def)

subsection \<open>Where list memberships outlive the follow\<close>

lemma find_owned_None: "find_owned_local_list d a l = None \<longleftrightarrow> \<not> owns d a l"
  using find_owned_owns by blast

text \<open>
  A remote \<open>Reject\<close> removes the follow and leaves every list membership in place, so
  that the list goes on holding an account its owner does not follow. Unfollowing the same
  actor takes it off every list of the owner.
\<close>

lemma rejected_follow_stays_listed:
  assumes "g \<in> set (t_remote_following d)" and "rg_key g = (a, r)"
    and "tbl_ok rg_conflict (t_remote_following d)"
  shows "let rejected = fst (reject_remote_following r (rg_activity_id g) d);
             unfollowed = fst (delete_remote_following a r d)
         in find_remote_following rejected a r = None \<and>
            t_list_remote_member rejected = t_list_remote_member d \<and>
            find_remote_following unfollowed a r = None \<and>
            (\<forall>m \<in> set (t_list_remote_member unfollowed).
               lrem_remote_actor_id m = r \<longrightarrow> find_owned_local_list d a (lrem_list_id m) = None)"
proof -
  have uniq: "h = g" if "h \<in> set (t_remote_following d)" "rg_local_account_id h = a" "rg_remote_actor_id h = r" for h
    using rg_tbl.key_unique [OF assms(3) that(1) assms(1)] that(2,3) assms(2) by (simp add: rg_key_def)
  have g: "rg_local_account_id g = a" "rg_remote_actor_id g = r" using assms(2) by (simp_all add: rg_key_def)
  let ?p = "\<lambda>g. rg_local_account_id g = a \<and> rg_remote_actor_id g = r"
  obtain h where h: "List.find ?p (t_remote_following d) = Some h"
    using assms(1) g by (cases "List.find ?p (t_remote_following d)") (auto simp: find_None_all)
  have "h = g" using find_Some_mem [OF h] by (intro uniq) simp_all
  then have del: "delete_remote_following a r d =
      ((remove_remote_account_from_owned_lists a r d)\<lparr>t_remote_following :=
         tbl_delete (\<lambda>x. rg_id x = rg_id g) (t_remote_following d)\<rparr>, Some g)"
    using h by (simp add: delete_remote_following_def remove_remote_account_from_owned_lists_def)
  have left: "\<forall>x \<in> set (t_remote_following d). x \<noteq> g \<longrightarrow> rg_local_account_id x = a \<longrightarrow> rg_remote_actor_id x \<noteq> r"
    using uniq by blast
  have "find_remote_following (fst (reject_remote_following r (rg_activity_id g) d)) a r = None"
    using left g by (auto simp: reject_remote_following_def Let_def find_remote_following_def find_None_all)
  moreover have "find_remote_following (fst (delete_remote_following a r d)) a r = None"
    using left unfolding del by (auto simp: find_remote_following_def find_None_all)
  moreover have "\<forall>m \<in> set (t_list_remote_member (fst (delete_remote_following a r d))).
      lrem_remote_actor_id m = r \<longrightarrow> find_owned_local_list d a (lrem_list_id m) = None"
    unfolding del by (auto simp: remove_remote_account_from_owned_lists_def find_owned_None)
  ultimately show ?thesis
    by (simp add: Let_def reject_remote_following_def)
qed

definition demo_following :: "uuid \<Rightarrow> instant option \<Rightarrow> remote_following_row" where
  "demo_following r gone = (new_following_row r 7 1 r (if r = 9 then ''act'' else ''old'') True False)
     \<lparr>rg_state := Accepted, rg_deactivated_at := gone\<rparr>"

definition demo_remote_listed :: db where
  "demo_remote_listed = demo_world\<lparr>t_remote_following := [demo_following 9 None],
     t_local_list := [demo_list],
     t_list_remote_member := [\<lparr> lrem_id = 33, lrem_list_id = 20, lrem_remote_actor_id = 9,
       lrem_created_at = 7 \<rparr>]\<rparr>"

subsection \<open>Blocks\<close>

text \<open>
  C8: A successful block of \<open>b\<close> by \<open>a\<close> works in both directions at once: each account is
  hidden from the other at any time, neither may notify the other, the follows between the two
  are gone and cannot be made again, and every other follow is as it was.
\<close>

theorem block_cuts_both_ways:
  assumes "block_local_account i now a b d = Inr d'"
  shows "local_accounts_are_blocked d' a b \<and> local_accounts_are_blocked d' b a \<and>
         local_account_is_hidden_for_viewer t d' a b \<and> local_account_is_hidden_for_viewer t d' b a \<and>
         \<not> local_account_allows_notification t d' a b \<and> \<not> local_account_allows_notification t d' b a \<and>
         local_follow_relationship d' a b = None \<and> local_follow_relationship d' b a = None \<and>
         follow_local_account j now' a b sr nf d' = Inl (AccountRelationship FollowBlocked) \<and>
         (\<exists>e. follow_local_account j now' b a sr nf d' = Inl e) \<and>
         filter (\<lambda>f. lf_key f \<notin> {(a, b), (b, a)}) (t_local_follow d) = t_local_follow d'"
proof -
  note cases = block_local_account_cases [OF assms]
  have "(a, b) \<in> lab_key ` set (t_local_account_block d')" using cases(3) by simp
  then have "local_blocked d' {a, b}" by (force simp: local_blocked_keys)
  then have blocked: "local_accounts_are_blocked d' a b" "local_accounts_are_blocked d' b a"
    using cases(1) by (auto simp: local_accounts_are_blocked_iff insert_commute)
  have "t_local_account d' = t_local_account d" by (subst cases(5)) simp
  then have "find_local_account_by_id d' b \<noteq> None"
    using cases(2) by (simp add: find_local_account_by_id_def)
  then have refused: "follow_local_account j now' a b sr nf d' = Inl (AccountRelationship FollowBlocked)"
    "\<exists>e. follow_local_account j now' b a sr nf d' = Inl e"
    using cases(1) blocked by (simp_all add: follow_local_account_def follow_checks_def)
  have rest: "filter (\<lambda>f. lf_key f \<notin> {(a, b), (b, a)}) (t_local_follow d) = t_local_follow d'"
    unfolding cases(4) tbl_delete_def by (auto intro: filter_cong)
  have gone: "local_follow_relationship d' a b = None" "local_follow_relationship d' b a = None"
    by (auto simp: local_follow_relationship_def find_local_follow_def find_None_all cases(4))
  show ?thesis
    using blocked refused rest gone
    by (simp add: local_account_is_hidden_for_viewer_def local_account_allows_notification_def)
qed

theorem block_cuts_both_ways_witness:
  "follow_local_account 11 9 1 2 True False (demo_world\<lparr>t_local_account_block := [demo_block]\<rparr>) =
     Inl (AccountRelationship FollowBlocked)"
  using block_cuts_both_ways [OF demo_blocked, of _ 11 9 True False] by simp

text \<open>
  Nothing serializes the checks of a follow against a block by the other side: when
  \<open>b\<close> blocks \<open>a\<close> between the checks and the write of \<open>a\<close>'s follow, the write goes through
  and leaves a follow across the block.
\<close>

lemma follow_races_with_block:
  assumes "follow_checks a b d = Inr ()" and "fk_local d a"
    and "block_local_account i now b a d = Inr d1"
    and "j \<notin> lf_id ` set (t_local_follow d1)"
  shows "\<exists>d2 row. follow_write j now' a b sr nf d1 = Inr (d2, row) \<and>
           local_accounts_are_blocked d2 a b \<and> local_follow_relationship d2 a b \<noteq> None"
proof -
  note cases = block_local_account_cases [OF assms(3)]
  have "t_local_account d1 = t_local_account d" by (subst cases(5)) simp
  moreover have "fk_local d b"
    using assms(1) by (auto simp: follow_checks_ok fk_local_def find_local_account_by_id_def list_ex_iff)
  ultimately have fk: "fk_local d1 a \<and> fk_local d1 b" using assms(2) by (simp add: fk_local_def)
  have gone: "\<forall>f \<in> set (t_local_follow d1). lf_key f \<noteq> (a, b)" by (simp add: cases(4))
  then have none: "find_local_follow d1 a b = None" by (simp add: find_local_follow_def find_None_all)
  define row where "row = \<lparr> lf_id = j, lf_follower_account_id = a, lf_followed_account_id = b,
    lf_show_reblogs = sr, lf_notify = nf, lf_created_at = now', lf_updated_at = now' \<rparr>"
  have "tbl_insert lf_conflict row (t_local_follow d1) = Inr (t_local_follow d1 @ [row])"
    using gone assms(4) by (auto simp: tbl_insert_Inr lf_conflict_def row_def lf_key_def image_iff)
  then have written: "follow_write j now' a b sr nf d1 = Inr (d1\<lparr>t_local_follow := t_local_follow d1 @ [row]\<rparr>, row)"
    using fk by (simp add: follow_write_def none row_def with_fk_def Let_def)
  have "(b, a) \<in> lab_key ` set (t_local_account_block d1)" using cases(3) by simp
  then have "local_accounts_are_blocked (d1\<lparr>t_local_follow := t_local_follow d1 @ [row]\<rparr>) a b"
    using cases(1) by (auto simp: local_accounts_are_blocked_def lab_key_def)
  moreover have "local_follow_relationship (d1\<lparr>t_local_follow := t_local_follow d1 @ [row]\<rparr>) a b \<noteq> None"
    by (simp add: local_follow_relationship_def find_local_follow_def row_def lf_key_def)
  ultimately show ?thesis using written by blast
qed

end
