(* ===== verification/Roosty_Query_Properties.thy ===== *)
theory Roosty_Query_Properties
  imports Roosty_Relation_Properties
begin

text \<open>
  Properties of the queries over relations (visibility of muted and blocked accounts, bulk
  queries, collections, list pages), of the activities a remote actor may send, and of the
  inbox replay register.
\<close>

subsection \<open>Mutes\<close>

lemma mute_local_account_row:
  assumes "mute_local_account i now a b nf dur d = Inr (d', row)"
    and "tbl_ok lam_conflict (t_local_account_mute d)"
  shows "mute_expiry now dur = Inr (lam_expires_at row) \<and> lam_notifications row = nf \<and>
    lam_key row = (a, b) \<and> row \<in> set (t_local_account_mute d') \<and>
    (\<forall>m \<in> set (t_local_account_mute d'). lam_key m = (a, b) \<longrightarrow> m = row) \<and>
    t_local_account_block d' = t_local_account_block d"
proof -
  let ?k = "\<lambda>m. lam_key m = (a, b)"
  obtain e where e: "mute_expiry now dur = Inr e"
    using assms(1) by (auto simp: mute_local_account_def bind_res_Inr_iff)
  have ensure: "ensure_local_relation_target a b d = Inr ()"
    using assms(1) by (auto simp: mute_local_account_def bind_res_Inr_iff)
  let ?upd = "\<lambda>r. r\<lparr>lam_notifications := nf, lam_expires_at := e, lam_updated_at := now\<rparr>"
  show ?thesis
  proof (cases "List.find ?k (t_local_account_mute d)")
    case None
    let ?row = "\<lparr> lam_id = i, lam_account_id = a, lam_target_account_id = b, lam_notifications = nf,
      lam_expires_at = e, lam_created_at = now, lam_updated_at = now \<rparr>"
    have d': "d' = d\<lparr>t_local_account_mute := t_local_account_mute d @ [?row]\<rparr>" and row: "row = ?row"
      using assms(1) unfolding mute_local_account_def ensure e
      by (auto simp: None bind_res_Inr_iff tbl_insert_Inr Let_def)
    have "\<forall>m \<in> set (t_local_account_mute d). \<not> ?k m" using None by (simp add: find_None_all)
    then show ?thesis using e by (auto simp: d' row lam_key_def)
  next
    case (Some m)
    then have m: "m \<in> set (t_local_account_mute d)" "?k m" using find_Some_mem by fast+
    have same: "x = m" if "x \<in> set (t_local_account_mute d)" "?k x" for x
      using lam_tbl.key_unique [OF assms(2) that(1) m(1)] that(2) m(2) by simp
    have d': "d' = d\<lparr>t_local_account_mute := tbl_update (\<lambda>r. lam_key r = lam_key m) ?upd (t_local_account_mute d)\<rparr>"
      and row: "row = ?upd m"
      using assms(1) unfolding mute_local_account_def ensure e by (simp_all add: Some Let_def)
    have "lam_key row = (a, b)" using m(2) by (simp add: row lam_key_def)
    moreover have "row \<in> set (t_local_account_mute d')" using m by (auto simp: d' row set_tbl_update)
    moreover have "\<forall>x \<in> set (t_local_account_mute d'). ?k x \<longrightarrow> x = row"
    proof (intro ballI impI)
      fix x assume "x \<in> set (t_local_account_mute d')" and k: "?k x"
      then consider "x \<in> set (t_local_account_mute d)" "lam_key x \<noteq> lam_key m"
        | y where "y \<in> set (t_local_account_mute d)" "lam_key y = lam_key m" "x = ?upd y"
        by (auto simp: d' set_tbl_update)
      then show "x = row"
      proof cases
        case 1 then show ?thesis using k m(2) by simp
      next
        case 2
        then have "y = m" by (intro same) (simp_all add: m(2))
        then show ?thesis using 2(3) row by simp
      qed
    qed
    moreover have "mute_expiry now dur = Inr (lam_expires_at row)" "lam_notifications row = nf"
      using e by (simp_all add: row)
    moreover have "t_local_account_block d' = t_local_account_block d" by (simp add: d')
    ultimately show ?thesis by blast
  qed
qed

text \<open>
  A mute lasts exactly as long as requested. Until its expiry (for ever, when the
  duration is zero) the muted account is hidden from its owner, and its notifications are
  withheld when the owner asked for that; from the expiry on neither holds, unless a block
  hides the account anyway.
\<close>

lemma mute_lasts_until_expiry:
  assumes "mute_local_account i now a b nf dur d = Inr (d', row)"
    and "tbl_ok lam_conflict (t_local_account_mute d)"
    and "\<not> local_accounts_are_blocked d a b"
  shows "(local_account_is_hidden_for_viewer t d' a b \<longleftrightarrow> dur = 0 \<or> t < now + seconds (int dur)) \<and>
         (local_account_allows_notification t d' a b \<longleftrightarrow>
            \<not> (nf \<and> (dur = 0 \<or> t < now + seconds (int dur))))"
proof -
  note mute = mute_local_account_row [OF assms(1,2)]
  let ?e = "lam_expires_at row"
  have e: "mute_expiry now dur = Inr ?e" using mute by blast
  have blocked: "\<not> local_accounts_are_blocked d' a b"
  proof -
    have "t_local_account_block d' = t_local_account_block d" using mute by blast
    then show ?thesis using assms(3) by (simp add: local_accounts_are_blocked_iff local_blocked_def)
  qed
  have life: "unexpired t ?e \<longleftrightarrow> dur = 0 \<or> t < now + seconds (int dur)"
    using e by (auto simp: mute_expiry_def checked_add_seconds_def unexpired_def bind_res_Inr_iff split: if_splits option.splits)
  have "active_local_account_mute t d' a b = (if unexpired t ?e then Some row else None)"
  proof (cases "unexpired t ?e")
    case True
    then obtain m where m: "active_local_account_mute t d' a b = Some m"
      using mute by (cases "active_local_account_mute t d' a b")
        (auto simp: active_local_account_mute_def find_None_all)
    then have "m = row" using mute find_Some_mem unfolding active_local_account_mute_def by fast
    then show ?thesis using m True by simp
  next
    case False
    then show ?thesis using mute by (auto simp: active_local_account_mute_def find_None_all)
  qed
  then show ?thesis
    using blocked life mute
    by (simp add: local_account_is_hidden_for_viewer_def local_account_allows_notification_def)
qed

text \<open>
  A mute duration is accepted when the expiry stays within the year 9999. Durations past
  the range of \<open>i64\<close> are refused as invalid input, and the remaining ones, which the handler
  does not refuse, make the addition of the duration panic; from the epoch on this holds of
  every duration between 253402300800 seconds and \<open>i64::MAX\<close>.
\<close>

lemma mute_duration_bounds:
  shows "(mute_expiry now dur = Inl (InvalidInput ''mute duration is too large'') \<longleftrightarrow> i64_max < int dur) \<and>
    ((\<exists>e. mute_expiry now dur = Inr e) \<longleftrightarrow> int dur \<le> i64_max \<and> (dur \<noteq> 0 \<longrightarrow> now + seconds (int dur) \<le> max_instant)) \<and>
    (0 \<le> now \<and> 253402300800 \<le> dur \<and> int dur \<le> i64_max \<longrightarrow> (\<exists>s. mute_expiry now dur = Inl (Panic s)))"
  by (auto simp: mute_expiry_def checked_add_seconds_def i64_max_def max_instant_def seconds_def)

subsection \<open>Bulk queries\<close>

text \<open>
  The bulk queries that filter timelines agree with the pointwise decisions: an account
  is among the hidden identifiers exactly when it is hidden for the viewer, each identifier is
  listed once and in order, and the batched block query returns exactly the requested actors
  with a block in either direction. The table of local blocks has no row of an account with
  itself, as its check constraint demands.
\<close>

lemma bulk_hidden_agrees:
  assumes "\<forall>b \<in> set (t_local_account_block d). lab_account_id b \<noteq> lab_target_account_id b"
  shows "(x \<in> set (hidden_local_account_ids_for_account now d v) \<longleftrightarrow>
            local_account_is_hidden_for_viewer now d v x) \<and>
         (x \<in> set (hidden_remote_actor_ids_for_account now d v) \<longleftrightarrow>
            remote_account_is_hidden_for_viewer now d v x) \<and>
         distinct (hidden_local_account_ids_for_account now d v) \<and>
         distinct (hidden_remote_actor_ids_for_account now d v) \<and>
         blocked_remote_actor_ids_for_local_account d v rs =
           {r \<in> set rs. local_remote_accounts_are_blocked d v r}"
proof -
  have "x \<in> set (blocked_local_account_ids_for_account d v) \<longleftrightarrow> local_accounts_are_blocked d v x"
    using assms by (auto simp: blocked_local_account_ids_for_account_def local_accounts_are_blocked_def image_iff)
  then have "x \<in> set (hidden_local_account_ids_for_account now d v) \<longleftrightarrow>
      local_account_is_hidden_for_viewer now d v x"
    by (auto simp: hidden_local_account_ids_for_account_def local_account_is_hidden_for_viewer_def
        active_local_account_mute_def lam_key_def image_iff)
  moreover have "x \<in> set (hidden_remote_actor_ids_for_account now d v) \<longleftrightarrow>
      remote_account_is_hidden_for_viewer now d v x"
    by (auto simp: hidden_remote_actor_ids_for_account_def remote_account_is_hidden_for_viewer_def
        find_local_remote_account_block_def active_local_remote_account_mute_def lrb_key_def
        lrm_key_def image_iff)
  moreover have "blocked_remote_actor_ids_for_local_account d v rs =
      {r \<in> set rs. local_remote_accounts_are_blocked d v r}"
    by (auto simp: blocked_remote_actor_ids_for_local_account_def local_remote_accounts_are_blocked_def
        find_local_remote_account_block_def lrb_key_def rlb_key_def image_iff)
  ultimately show ?thesis
    by (simp add: hidden_local_account_ids_for_account_def hidden_remote_actor_ids_for_account_def)
qed

subsection \<open>Activities of remote actors\<close>

lemma filter_tbl_update:
  assumes "\<And>r. p r \<Longrightarrow> \<not> q r \<and> \<not> q (f r)"
  shows "filter q (tbl_update p f t) = filter q t"
  using assms by (induction t) (auto simp: tbl_update_def)

lemma filter_tbl_delete:
  assumes "\<And>r. p r \<Longrightarrow> \<not> q r"
  shows "filter q (tbl_delete p t) = filter q t"
  using assms by (induction t) (auto simp: tbl_delete_def)

text \<open>
  What a remote actor says about follows and blocks touches its own rows only: accepting
  or rejecting an outbound follow, undoing or deleting an inbound follow, and undoing a block,
  whatever activity identity the message names, leave the rows of every other actor as they
  are, in their order.
\<close>

lemma peer_activities_touch_own_rows:
  "let mine = \<lambda>g. rg_remote_actor_id g = r; theirs = \<lambda>f. rf_remote_actor_id f = r;
       blocks = \<lambda>b. rlb_remote_actor_id b = r \<and> rlb_local_account_id b = a
   in filter (\<lambda>g. \<not> mine g) (t_remote_following (fst (accept_remote_following n r act d))) =
        filter (\<lambda>g. \<not> mine g) (t_remote_following d) \<and>
      filter (\<lambda>g. \<not> mine g) (t_remote_following (fst (reject_remote_following r act d))) =
        filter (\<lambda>g. \<not> mine g) (t_remote_following d) \<and>
      filter (\<lambda>f. \<not> theirs f) (t_remote_follow (fst (process_remote_undo_follow r act d))) =
        filter (\<lambda>f. \<not> theirs f) (t_remote_follow d) \<and>
      filter (\<lambda>f. \<not> theirs f) (t_remote_follow (delete_remote_follow_by_activity r act d)) =
        filter (\<lambda>f. \<not> theirs f) (t_remote_follow d) \<and>
      filter (\<lambda>b. \<not> blocks b) (t_remote_local_account_block (fst (process_remote_undo_block r a act d))) =
        filter (\<lambda>b. \<not> blocks b) (t_remote_local_account_block d)"
  unfolding accept_remote_following_def reject_remote_following_def process_remote_undo_follow_def
    delete_remote_follow_by_activity_def process_remote_undo_block_def Let_def
  by (simp, intro conjI; rule filter_tbl_update filter_tbl_delete; simp)

definition inbox_marker :: "instant \<Rightarrow> inbox_activity_metadata \<Rightarrow> processed_inbox_activity_row" where
  "inbox_marker now m = \<lparr> pia_activity_id = iam_activity_id m, pia_remote_actor_id = iam_remote_actor_id m,
    pia_payload_digest = Some (iam_payload_digest m), pia_activity_type = Some (iam_activity_type m),
    pia_outcome = Some (iam_outcome m), pia_processed_at = now \<rparr>"

lemma register_known:
  assumes "\<exists>e \<in> set (t_processed_inbox_activity d). pia_activity_id e = iam_activity_id m"
  shows "register_inbox_activity now m d =
    (case classify_inbox_activity m d of
       None \<Rightarrow> Inl (InvalidInput ''inbox replay marker disappeared'') | Some r \<Rightarrow> Inr (d, r))"
proof -
  have "list_ex (pia_conflict (inbox_marker now m)) (t_processed_inbox_activity d)"
    using assms by (simp add: list_ex_iff pia_conflict_def inbox_marker_def) metis
  then show ?thesis
    unfolding register_inbox_activity_def inbox_marker_def [symmetric] Let_def
    by (simp add: tbl_insert_nothing_def)
qed

lemma register_unknown:
  assumes "\<forall>e \<in> set (t_processed_inbox_activity d). pia_activity_id e \<noteq> iam_activity_id m"
  shows "register_inbox_activity now m d =
    (if fk_remote d (iam_remote_actor_id m)
     then Inr (d\<lparr>t_processed_inbox_activity := t_processed_inbox_activity d @ [inbox_marker now m]\<rparr>, New)
     else Inl (Database ForeignKeyViolation))"
proof -
  have "\<not> list_ex (pia_conflict (inbox_marker now m)) (t_processed_inbox_activity d)"
    using assms by (auto simp: list_ex_iff pia_conflict_def inbox_marker_def)
  then show ?thesis
    unfolding register_inbox_activity_def inbox_marker_def [symmetric] Let_def
    by (simp add: tbl_insert_nothing_def)
qed

lemma find_append_new:
  "(\<forall>x \<in> set t. \<not> p x) \<Longrightarrow> List.find p (t @ [r]) = (if p r then Some r else None)"
  by (induction t) auto

text \<open>
  An inbox activity is new once. The first registration of an identity stores its marker;
  registering the same activity again is a duplicate, and a message that reuses the identity
  with another actor, body or type is a conflict. A registration that is not new changes
  nothing, and no marker is ever overwritten.
\<close>

lemma inbox_activity_is_new_once:
  assumes "register_inbox_activity now m d = Inr (d', res)"
  shows "(res = New \<longleftrightarrow> (\<forall>e \<in> set (t_processed_inbox_activity d). pia_activity_id e \<noteq> iam_activity_id m)) \<and>
         set (t_processed_inbox_activity d) \<subseteq> set (t_processed_inbox_activity d') \<and>
         (res \<noteq> New \<longrightarrow> d' = d) \<and>
         (res = New \<longrightarrow>
            register_inbox_activity now' m d' = Inr (d', Duplicate) \<and>
            (\<forall>m'. iam_activity_id m' = iam_activity_id m \<and>
               (iam_remote_actor_id m' \<noteq> iam_remote_actor_id m \<or>
                iam_payload_digest m' \<noteq> iam_payload_digest m \<or>
                iam_activity_type m' \<noteq> iam_activity_type m) \<longrightarrow>
               register_inbox_activity now' m' d' = Inr (d', Conflict)))"
proof (cases "\<exists>e \<in> set (t_processed_inbox_activity d). pia_activity_id e = iam_activity_id m")
  case True
  then have "d' = d \<and> classify_inbox_activity m d = Some res"
    using assms unfolding register_known [OF True] by (auto split: option.splits)
  moreover have "classify_inbox_activity m d \<noteq> Some New"
    by (auto simp: classify_inbox_activity_def split: option.splits)
  ultimately show ?thesis using True by auto
next
  case False
  have new: "res = New" and d': "d' = d\<lparr>t_processed_inbox_activity := t_processed_inbox_activity d @ [inbox_marker now m]\<rparr>"
    using assms register_unknown [of d m now] False by (auto split: if_splits)
  have found: "List.find (\<lambda>r. pia_activity_id r = iam_activity_id m) (t_processed_inbox_activity d') = Some (inbox_marker now m)"
    using False by (simp add: d' find_append_new inbox_marker_def)
  have known: "\<exists>e \<in> set (t_processed_inbox_activity d'). pia_activity_id e = iam_activity_id m"
    by (simp add: d' inbox_marker_def)
  have "register_inbox_activity now' m d' = Inr (d', Duplicate)"
    unfolding register_known [OF known] classify_inbox_activity_def found by (simp add: inbox_marker_def)
  moreover have "register_inbox_activity now' m' d' = Inr (d', Conflict)"
    if "iam_activity_id m' = iam_activity_id m" "iam_remote_actor_id m' \<noteq> iam_remote_actor_id m \<or>
      iam_payload_digest m' \<noteq> iam_payload_digest m \<or> iam_activity_type m' \<noteq> iam_activity_type m" for m'
  proof -
    have "\<exists>e \<in> set (t_processed_inbox_activity d'). pia_activity_id e = iam_activity_id m'"
      using known that(1) by simp
    from register_known [OF this] show ?thesis
      unfolding classify_inbox_activity_def that(1) found using that(2) by (auto simp: inbox_marker_def)
  qed
  moreover have "set (t_processed_inbox_activity d) \<subseteq> set (t_processed_inbox_activity d')" by (auto simp: d')
  ultimately show ?thesis using new False by blast
qed

subsection \<open>Domain suspension\<close>

lemma payload_targets_mono:
  assumes "payload_targets [x] p" and "x \<in> set xs"
  shows "payload_targets xs p"
proof -
  have str: "(case j of JStr s \<Rightarrow> s = x | _ \<Rightarrow> False) \<longrightarrow> (case j of JStr s \<Rightarrow> s \<in> set xs | _ \<Rightarrow> False)" for j
    using assms(2) by (cases j) auto
  have elems: "list_ex (\<lambda>j. case j of JStr s \<Rightarrow> s = x | _ \<Rightarrow> False) js \<longrightarrow>
      list_ex (\<lambda>j. case j of JStr s \<Rightarrow> s \<in> set xs | _ \<Rightarrow> False) js" for js
    unfolding list_ex_iff using str by meson
  have keys: "list_ex (\<lambda>(k, _). k \<in> set [x]) fs \<longrightarrow> list_ex (\<lambda>(k, _). k \<in> set xs) fs" for fs :: "(string \<times> json) list"
    using assms(2) by (induction fs) auto
  show ?thesis
  proof (cases "json_field ''remote_actor_ids'' p")
    case None
    then show ?thesis using assms str by (auto simp: payload_targets_def split: option.splits json.splits)
  next
    case (Some j)
    show ?thesis
    proof (cases "case json_field ''remote_actor_id'' p of Some (JStr s) \<Rightarrow> s \<in> set [x] | _ \<Rightarrow> False")
      case True
      then have "case json_field ''remote_actor_id'' p of Some (JStr s) \<Rightarrow> s \<in> set xs | _ \<Rightarrow> False"
        using assms(2) by (auto split: option.splits json.splits)
      then show ?thesis by (simp add: payload_targets_def)
    next
      case False
      then show ?thesis
        using assms Some elems keys by (cases j) (simp_all add: payload_targets_def)
    qed
  qed
qed

text \<open>
  Reconciling a suspension cuts off exactly the suspended domains and their subdomains:
  afterwards no follow in either direction and no list membership involves one of their
  actors, no open job names one as its recipient, and the relations of every other actor are
  as they were.
\<close>

lemma suspension_cuts_off_domain:
  assumes "domains \<noteq> []"
  shows "let d' = fst (reconcile_suspended_remote_domains id_string now domains d);
             gone = {ra_id a |a. a \<in> set (t_remote_actor d) \<and>
               (\<exists>b \<in> set domains. ra_domain a = b \<or> (\<exists>p. ra_domain a = p @ ''.'' @ b))}
         in t_remote_follow d' = filter (\<lambda>f. rf_remote_actor_id f \<notin> gone) (t_remote_follow d) \<and>
            t_remote_following d' = filter (\<lambda>g. rg_remote_actor_id g \<notin> gone) (t_remote_following d) \<and>
            t_list_remote_member d' = filter (\<lambda>m. lrem_remote_actor_id m \<notin> gone) (t_list_remote_member d) \<and>
            (\<forall>j \<in> set (t_job d'). job_completed_at j = None \<longrightarrow>
               (\<forall>a \<in> gone. \<not> payload_targets [id_string a] (job_payload j)))"
proof -
  define ids where "ids = map ra_id (filter (\<lambda>a. domain_covered domains (ra_domain a)) (t_remote_actor d))"
  have gone: "{ra_id a |a. a \<in> set (t_remote_actor d) \<and>
    (\<exists>b \<in> set domains. ra_domain a = b \<or> (\<exists>p. ra_domain a = p @ ''.'' @ b))} = set ids"
    by (auto simp: domain_covered_iff ids_def)
  have mono: "payload_targets (map id_string ids) p" if "a \<in> set ids" "payload_targets [id_string a] p" for a p
    using payload_targets_mono [OF that(2)] that(1) by simp
  let ?d = "fst (reconcile_suspended_remote_domains id_string now domains d)"
  show ?thesis
  proof (cases "ids = []")
    case True
    then show ?thesis
      unfolding Let_def gone reconcile_suspended_remote_domains_def ids_def [symmetric] by simp
  next
    case False
    have tables: "t_remote_follow ?d = tbl_delete (\<lambda>f. rf_remote_actor_id f \<in> set ids) (t_remote_follow d)"
      "t_remote_following ?d = tbl_delete (\<lambda>g. rg_remote_actor_id g \<in> set ids) (t_remote_following d)"
      "t_list_remote_member ?d = tbl_delete (\<lambda>m. lrem_remote_actor_id m \<in> set ids) (t_list_remote_member d)"
      "t_job ?d = tbl_update (\<lambda>j. job_completed_at j = None \<and> payload_targets (map id_string ids) (job_payload j))
         (retire_job now (Some (utext ''remote domain suspended''))) (t_job d)"
      using assms False unfolding reconcile_suspended_remote_domains_def ids_def [symmetric] Let_def
      by (simp_all add: retire_jobs_def dismiss_notifications_def)
    have "\<not> payload_targets [id_string a] (job_payload j)"
      if "j \<in> set (t_job ?d)" "job_completed_at j = None" "a \<in> set ids" for j a
      using that(1,2) mono [OF that(3)] unfolding tables(4)
      by (auto simp: set_tbl_update retire_job_def release_def)
    then show ?thesis
      unfolding Let_def gone tables(1-3) tbl_delete_def by simp
  qed
qed

subsection \<open>Collections\<close>

definition follower_entries :: "db \<Rightarrow> uuid \<Rightarrow> follow_collection_entry list" where
  "follower_entries d account =
     all_entries d (filter (\<lambda>f. lf_followed_account_id f = account) (t_local_follow d))
       (filter (\<lambda>f. rf_local_account_id f = account \<and> rf_state f = Accepted) (t_remote_follow d))
       (\<lambda>f. (lf_id f, lf_follower_account_id f)) (\<lambda>f. (rf_id f, rf_remote_actor_id f))"

text \<open>
  C9: A client that follows the \<open>max_id\<close> cursor from page to page, with any page size of at least
  one, as long as a page says that there are more, comes to the last page after at most as many
  pages as there are followers (after one page when there are none), and has then seen every
  local and remote follower exactly once, newest first. The first page says that there are more
  exactly when there are more followers than it may hold.
\<close>

theorem followers_walk_is_complete:
  assumes "distinct (map fce_id (follower_entries d account))"
    and "0 < limit" and "limit < u64_max" and "max 1 (length (follower_entries d account)) \<le> pages"
  shows "walk_pages pages (\<lambda>cursor. followers_for_local_account d account limit cursor) no_cursor =
           Some (order_by_desc fce_id (follower_entries d account)) \<and>
         (cp_has_more (followers_for_local_account d account limit no_cursor) \<longleftrightarrow>
            limit < length (follower_entries d account))"
  using follow_collection_walk [OF _ assms(2,3)] assms(1,4)
  unfolding followers_for_local_account_def follower_entries_def
  by (simp add: follow_collection_page_spec(2) del: walk_pages.simps)

theorem followers_walk_is_complete_witness:
  "\<exists>shown. walk_pages 1 (\<lambda>cursor. followers_for_local_account demo_listed 2 1 cursor) no_cursor = Some shown \<and>
     length shown = 1"
proof -
  have one: "follower_entries demo_listed 2 = [\<lparr> fce_id = 11, fce_account = CLocal (demo_account 1) \<rparr>]"
    by (simp add: follower_entries_def all_entries_def local_entries_def remote_entries_def
        demo_listed_def demo_follow_def demo_world_def empty_db_def find_local_account_by_id_def
        List.map_filter_simps)
  have "walk_pages 1 (\<lambda>cursor. followers_for_local_account demo_listed 2 1 cursor) no_cursor =
      Some (order_by_desc fce_id (follower_entries demo_listed 2))"
    by (rule conjunct1 [OF followers_walk_is_complete]) (simp_all add: one u64_max_def)
  then show ?thesis by (simp add: one order_by_desc_def)
qed

lemma length_map_filter_le: "length (List.map_filter f xs) \<le> length xs"
  by (simp add: List.map_filter_def)

lemma match_relationships_ids: "fce_id ` set (match_relationships rs m) \<subseteq> fst ` set rs"
proof (induction rs arbitrary: m)
  case (Cons p rs)
  obtain i a where p: "p = (i, a)" by (cases p)
  show ?case
    using Cons.IH by (cases "List.find (\<lambda>acc. la_id acc = a) m") (auto simp: p)
qed simp

lemma following_entry_remote:
  assumes "g \<in> set (t_remote_following d)" and "rg_local_account_id g = a" and "rg_state g = Accepted"
    and "find_remote_actor_by_id d (rg_remote_actor_id g) = Some actor"
    and "length (t_local_follow d) + length (t_remote_following d) \<le> limit"
  shows "\<lparr> fce_id = rg_id g, fce_account = CRemote actor \<rparr> \<in> set (cp_items (following_for_local_account d a limit no_cursor))"
proof -
  let ?ls = "filter (\<lambda>f. lf_follower_account_id f = a) (t_local_follow d)"
    and ?rs = "filter (\<lambda>g. rg_local_account_id g = a \<and> rg_state g = Accepted) (t_remote_following d)"
  let ?es = "all_entries d ?ls ?rs (\<lambda>f. (lf_id f, lf_followed_account_id f)) (\<lambda>g. (rg_id g, rg_remote_actor_id g))"
  have "length ?es \<le> length ?ls + length ?rs"
    unfolding all_entries_def local_entries_def remote_entries_def length_append
    by (intro add_mono length_map_filter_le)
  also have "\<dots> \<le> limit"
    using assms(5) by (meson add_mono length_filter_le order_trans)
  finally have "take limit (order_by_desc fce_id ?es) = order_by_desc fce_id ?es" by simp
  then have items: "cp_items (following_for_local_account d a limit no_cursor) = order_by_desc fce_id ?es"
    unfolding following_for_local_account_def follow_collection_page_spec(1) by simp
  have "\<lparr> fce_id = rg_id g, fce_account = CRemote actor \<rparr> \<in> set (remote_entries d no_cursor (\<lambda>g. (rg_id g, rg_remote_actor_id g)) ?rs)"
    using assms(1-4) by (force simp: remote_entries_def List.map_filter_def image_iff)
  then show ?thesis by (simp add: items all_entries_def)
qed

text \<open>
  The collection of followed accounts does not leave out follows that an actor move has
  deactivated: such an actor is still listed as followed, while the lookup of the same
  relation answers that there is no follow, and the follower collection of the actor does not
  have the relation.
\<close>

lemma deactivated_follow_is_listed:
  assumes "g \<in> set (t_remote_following d)" and "rg_key g = (a, r)" and "rg_state g = Accepted"
    and "rg_deactivated_at g \<noteq> None" and "tbl_ok rg_conflict (t_remote_following d)"
    and "find_remote_actor_by_id d r = Some actor"
    and "length (t_local_follow d) + length (t_remote_following d) \<le> limit"
  shows "\<lparr> fce_id = rg_id g, fce_account = CRemote actor \<rparr> \<in>
           set (cp_items (following_for_local_account d a limit no_cursor)) \<and>
         find_remote_following d a r = None \<and>
         rg_id g \<notin> fce_id ` set (cp_items (followers_for_remote_account d r limit cursor))"
proof -
  have g: "rg_local_account_id g = a" "rg_remote_actor_id g = r" using assms(2) by (simp_all add: rg_key_def)
  have uniq: "h = g" if "h \<in> set (t_remote_following d)" "rg_key h = (a, r)" for h
    using rg_tbl.key_unique [OF assms(5) that(1) assms(1)] that(2) assms(2) by simp
  have "find_remote_following d a r = None"
    using uniq assms(4) by (auto simp: find_remote_following_def find_None_all rg_key_def)
  moreover have "rg_id g \<notin> fce_id ` set (cp_items (followers_for_remote_account d r limit cursor))"
  proof
    let ?rows = "filter (\<lambda>g. rg_remote_actor_id g = r \<and> rg_state g = Accepted \<and> rg_deactivated_at g = None)
      (t_remote_following d)"
    assume "rg_id g \<in> fce_id ` set (cp_items (followers_for_remote_account d r limit cursor))"
    then have "rg_id g \<in> fst ` set (map (\<lambda>g. (rg_id g, rg_local_account_id g)) (fst (query_page rg_id cursor limit ?rows)))"
      unfolding followers_for_remote_account_def local_relationship_collection_page_def
      using match_relationships_ids by (fastforce simp: split_beta Let_def)
    then obtain h where h: "h \<in> set (t_remote_following d)" "rg_deactivated_at h = None" "rg_id h = rg_id g"
      by (auto simp: query_page_def trim_to_page_eq dest!: in_set_takeD)
    then show False
      using rg_tbl.conflict_eq [OF assms(5) h(1) assms(1)] assms(4) by (simp add: rg_conflict_def)
  qed
  ultimately show ?thesis
    using following_entry_remote [OF assms(1) g(1) assms(3) _ assms(7), of actor] assms(6) g(2) by simp
qed

subsection \<open>Actor moves\<close>

text \<open>
  When the follower already has a deactivated follow of the actor moved to (it had moved
  away before and now moves back), moving the follow fails: the lookup that decides whether
  to insert ignores deactivated rows, and the unique index on the pair does not.
\<close>

lemma moving_back_fails:
  assumes "g \<in> set (t_remote_following d)" and "rg_state g = Accepted" and "rg_deactivated_at g = None"
    and "find_remote_actor_by_id d (rg_remote_actor_id g) = Some actor"
    and "ra_moved_to_remote_actor_id actor = Some target"
    and "old \<in> set (t_remote_following d)" and "rg_key old = (rg_local_account_id g, target)"
    and "rg_deactivated_at old \<noteq> None" and "tbl_ok rg_conflict (t_remote_following d)"
  shows "migrate_remote_following_for_actor_move i nid j1 j2 n now g target True (Some follow) undo d =
           Inl (Database UniqueViolation)"
proof -
  let ?p = "\<lambda>h. rg_local_account_id h = rg_local_account_id g \<and> rg_remote_actor_id h = rg_remote_actor_id g \<and>
    rg_activity_id h = rg_activity_id g \<and> rg_state h = Accepted \<and> rg_deactivated_at h = None"
  obtain source where source: "List.find ?p (t_remote_following d) = Some source"
    using assms(1-3) by (cases "List.find ?p (t_remote_following d)") (auto simp: find_None_all)
  have "h = old" if "h \<in> set (t_remote_following d)" "rg_key h = (rg_local_account_id g, target)" for h
    using rg_tbl.key_unique [OF assms(9) that(1) assms(6)] that(2) assms(7) by simp
  then have none: "find_remote_following d (rg_local_account_id g) target = None"
    using assms(8) by (auto simp: find_remote_following_def find_None_all rg_key_def)
  have "\<exists>x \<in> set (t_remote_following d). rg_conflict (new_following_row i n (rg_local_account_id g) target act sr nf) x" for act sr nf
    using assms(6,7) by (intro bexI [of _ old]) (simp_all add: rg_conflict_def)
  then have "create_remote_following i n (rg_local_account_id g) target act sr nf d = Inl (Database UniqueViolation)" for act sr nf
    by (simp add: create_remote_following_def tbl_insert_def list_ex_iff with_fk_def)
  then show ?thesis
    unfolding migrate_remote_following_for_actor_move_def source
    using assms(4,5) by (cases follow) (simp add: move_target_def none)
qed

subsection \<open>List pages\<close>

lemma sort_key_map: "sort_key k (map f xs) = map f (sort_key (\<lambda>x. k (f x)) xs)"
proof -
  have ins: "insort_key k (f x) (map f ys) = map f (insort_key (\<lambda>x. k (f x)) x ys)" for x ys
    by (induction ys) auto
  show ?thesis by (induction xs) (simp_all add: ins)
qed

lemma order_by_desc_map: "order_by_desc k (map f xs) = map f (order_by_desc (\<lambda>x. k (f x)) xs)"
  by (simp add: order_by_desc_def sort_key_map)

lemma strict_sorted_eq:
  assumes "sorted_wrt (\<lambda>a b. k b < (k a :: uuid)) xs" and "sorted_wrt (\<lambda>a b. k b < k a) ys" and "set xs = set ys"
  shows "xs = ys"
proof -
  have "sorted_wrt (<) (rev (map k zs)) \<and> inj_on k (set zs)" if "sorted_wrt (\<lambda>a b. k b < k a) zs" for zs
  proof
    show "sorted_wrt (<) (rev (map k zs))" using that by (simp add: sorted_wrt_map sorted_wrt_rev)
    then have "distinct (map k zs)" by (simp add: strict_sorted_iff)
    then show "inj_on k (set zs)" by (simp add: distinct_map)
  qed
  then have "rev (map k xs) = rev (map k ys)" "inj_on k (set xs)"
    using assms strict_sorted_equal [of "rev (map k xs)" "rev (map k ys)"] by (auto simp: )
  then show ?thesis using assms(3) by (simp add: inj_on_map_eq_map)
qed

lemma take_filter_mem: "y \<in> set (take k xs) \<Longrightarrow> P y \<Longrightarrow> y \<in> set (take k (filter P xs))"
proof (induction xs arbitrary: k)
  case (Cons x xs)
  show ?case
  proof (cases k)
    case (Suc m)
    have "set (take m (filter P xs)) \<subseteq> set (take (Suc m) (filter P xs))"
      by (rule set_take_subset_set_take) simp
    then show ?thesis using Cons Suc by auto
  qed (use Cons.prems in simp)
qed simp

lemma take_filter_all: "\<forall>y \<in> set (take m xs). P y \<Longrightarrow> take m (filter P xs) = take m xs"
proof (induction xs arbitrary: m)
  case (Cons x xs)
  then show ?case by (cases m) auto
qed simp

lemma merge_top:
  fixes k :: "'a \<Rightarrow> uuid" and n :: nat and as bs :: "'a list"
  assumes "distinct (map k (as @ bs))"
  defines "X \<equiv> order_by_desc k (take (Suc n) (order_by_desc k as) @ take (Suc n) (order_by_desc k bs))"
    and "Y \<equiv> order_by_desc k (as @ bs)"
  shows "take n X = take n Y" and "n < length X \<longleftrightarrow> n < length Y"
proof -
  let ?s = "\<lambda>a b. k b < k a"
  let ?top = "take (Suc n) (order_by_desc k as) @ take (Suc n) (order_by_desc k bs)"
  have Y: "sorted_wrt ?s Y" unfolding Y_def by (rule order_by_desc_strict [OF assms(1)])
  have dist: "distinct (map k as)" "distinct (map k bs)" using assms(1) by simp_all
  have sub: "set ?top \<subseteq> set (as @ bs)" by (auto dest: in_set_takeD)
  have "distinct ?top"
    using assms(1) by (fastforce simp: distinct_map order_by_desc_def dest!: in_set_takeD)
  moreover have "inj_on k (set ?top)" using assms(1) sub by (meson distinct_map inj_on_subset)
  ultimately have "distinct (map k ?top)" unfolding distinct_map by blast
  then have X: "sorted_wrt ?s X" unfolding X_def by (rule order_by_desc_strict)
  have "order_by_desc k as = filter (\<lambda>y. y \<in> set as) Y" "order_by_desc k bs = filter (\<lambda>y. y \<in> set bs) Y"
    using Y order_by_desc_strict dist by (auto intro!: strict_sorted_eq sorted_wrt_filter simp: Y_def)
  then have "y \<in> set X" if "y \<in> set (take (Suc n) Y)" for y
  proof -
    assume o: "order_by_desc k as = filter (\<lambda>y. y \<in> set as) Y" "order_by_desc k bs = filter (\<lambda>y. y \<in> set bs) Y"
    have "y \<in> set as \<or> y \<in> set bs" using in_set_takeD [OF that] by (simp add: Y_def)
    then have "y \<in> set ?top"
      using take_filter_mem [OF that, of "\<lambda>y. y \<in> set as"] take_filter_mem [OF that, of "\<lambda>y. y \<in> set bs"]
      unfolding o by auto
    then show ?thesis by (simp add: X_def)
  qed
  moreover have "X = filter (\<lambda>y. y \<in> set X) Y"
    using X Y sub by (intro strict_sorted_eq sorted_wrt_filter) (auto simp: X_def Y_def)
  ultimately have eq: "take (Suc n) X = take (Suc n) Y" using take_filter_all by metis
  then have "take n (take (Suc n) X) = take n (take (Suc n) Y)" by simp
  then show "take n X = take n Y" by (simp add: min_def)
  have "n < length zs \<longleftrightarrow> length (take (Suc n) zs) = Suc n" for zs :: "'a list" by auto
  then show "n < length X \<longleftrightarrow> n < length Y" using eq by metis
qed

text \<open>
  A page of list members is read from two tables, each with its own limit, and merged
  afterwards. It holds the first entries of all local and remote members in cursor order, as
  a single query over both would give them, and reports that more follow exactly when some
  do. Entries whose account no longer exists are left out of the page.
\<close>

lemma list_page_is_top_of_union:
  assumes "find_owned_local_list d owner list_id \<noteq> None" and "n < u64_max"
    and "distinct (map list_member_cursor (list_references d list_id None cursor))"
  shows "\<exists>page. local_list_accounts d owner list_id (Some n) cursor = Some page \<and>
    (let all = list_references d list_id None cursor in
       cp_items page = List.map_filter (list_member_account d) (take n all) \<and>
       cp_first_cursor page = first_of list_member_cursor (take n all) \<and>
       cp_last_cursor page = last_of list_member_cursor (take n all) \<and>
       cp_has_more page = (n < length all))"
proof -
  let ?c = "\<lambda>idf r. collection_cursor_matches (idf r) cursor"
  define ls where "ls = map (\<lambda>m. LocalMember (llm_id m) (llm_account_id m))
    (filter (?c llm_id) (filter (\<lambda>m. llm_list_id m = list_id) (t_list_local_member d)))"
  define rs where "rs = map (\<lambda>m. RemoteMember (lrem_id m) (lrem_remote_actor_id m))
    (filter (?c lrem_id) (filter (\<lambda>m. lrem_list_id m = list_id) (t_list_remote_member d)))"
  let ?k = list_member_cursor
  have q: "page_query_limit n = Suc n" using assms(2) by (simp add: page_query_limit_def)
  have limited: "list_references d list_id (Some n) cursor =
      order_by_desc ?k (take (Suc n) (order_by_desc ?k ls) @ take (Suc n) (order_by_desc ?k rs))"
    by (simp add: list_references_def Let_def limited_def q ls_def rs_def order_by_desc_map take_map)
  have all: "list_references d list_id None cursor = order_by_desc ?k (order_by_desc ?k ls @ order_by_desc ?k rs)"
    by (simp add: list_references_def Let_def limited_def ls_def rs_def order_by_desc_map)
  have dist: "distinct (map ?k (ls @ rs))"
    using assms(3) unfolding all distinct_order_by_desc by (simp add: distinct_order_by_desc)
  have "list_references d list_id None cursor = order_by_desc ?k (ls @ rs)"
    unfolding all
    by (rule strict_sorted_eq) (auto intro!: order_by_desc_strict simp: distinct_order_by_desc dist [simplified])
  then show ?thesis
    using merge_top [OF dist, of n, folded limited] assms(1)
    by (auto simp: local_list_accounts_def Let_def limited_def)
qed

end
