(* ===== verification/Roosty_Polls.thy ===== *)
theory Roosty_Polls
  imports Roosty_Lists Roosty_Jobs "HOL-Library.List_Lexorder"
begin

text \<open>
  Polls (\<^verbatim>\<open>src/crates/db/src/polls.rs\<close>): validation, creation with the expiration job,
  scheduled polls, voting under an exclusive lock, edits, remote refreshes, and expiration
  with its notifications. Every operation runs in a transaction its caller commits on success,
  so a failure leaves the database as it was.

  Deleting an option deletes its votes, and deleting a poll deletes both: the foreign keys of
  \<^verbatim>\<open>m20260701_000077_create_polls.rs\<close> cascade. \<open>graphemes\<close> counts grapheme clusters
  (the \<^verbatim>\<open>unicode-segmentation\<close> crate) and \<open>id_string\<close> is \<open>Uuid::to_string\<close>. The
  clock readings of one operation are one instant. Additions on counters wrap, as they do in
  release builds, and the check constraints refuse a negative counter.
\<close>

subsection \<open>Integer conversions\<close>

definition wrap_i64 :: "int \<Rightarrow> int" where
  "wrap_i64 x = (x + 9223372036854775808) mod 18446744073709551616 - 9223372036854775808"

definition u64_as_i64 :: "nat \<Rightarrow> int" where
  "u64_as_i64 n = wrap_i64 (int n)"

definition i64_as_u64 :: "int \<Rightarrow> nat" where
  "i64_as_u64 x = nat (x mod 18446744073709551616)"

definition i32_as_u32 :: "int \<Rightarrow> nat" where
  "i32_as_u32 x = nat (x mod 4294967296)"

text \<open>Decimal notation, \<open>Display\<close> of integers.\<close>

fun show_nat :: "nat \<Rightarrow> string" where
  "show_nat n = (if n < 10 then [char_of (48 + n)] else show_nat (n div 10) @ [char_of (48 + n mod 10)])"

definition show_int :: "int \<Rightarrow> string" where
  "show_int x = (if x < 0 then ''-'' @ show_nat (nat (- x)) else show_nat (nat x))"

definition unix_timestamp_nanos :: "instant \<Rightarrow> int" where
  "unix_timestamp_nanos t = t * 1000"

subsection \<open>Types\<close>

definition min_poll_expiration_seconds :: int where "min_poll_expiration_seconds = 300"
definition max_poll_expiration_seconds :: int where "max_poll_expiration_seconds = 2629746"
definition max_poll_options :: nat where "max_poll_options = 4"
definition max_poll_option_graphemes :: nat where "max_poll_option_graphemes = 50"

datatype poll_status = LocalPoll uuid | RemotePoll uuid

record poll_option =
  po_position :: nat
  po_title :: ustring
  po_votes_count :: nat

record status_poll =
  pl_id :: uuid
  pl_status :: poll_status
  pl_multiple :: bool
  pl_hide_totals :: bool
  pl_expires_at :: "instant option"
  pl_closed_at :: "instant option"
  pl_voters_count :: "nat option"
  pl_options :: "poll_option list"
  pl_updated_at :: instant

definition poll_expired :: "status_poll \<Rightarrow> instant \<Rightarrow> bool" where
  "poll_expired p now \<longleftrightarrow>
     pl_closed_at p \<noteq> None \<or> (case pl_expires_at p of None \<Rightarrow> False | Some e \<Rightarrow> e \<le> now)"

definition poll_votes_count :: "status_poll \<Rightarrow> nat" where
  "poll_votes_count p = sum_list (map po_votes_count (pl_options p)) mod 18446744073709551616"

record new_status_poll =
  nsp_options :: "ustring list"
  nsp_expires_in :: int
  nsp_multiple :: bool
  nsp_hide_totals :: bool

record remote_status_poll =
  rsp_options :: "(ustring \<times> nat) list"
  rsp_multiple :: bool
  rsp_expires_at :: "instant option"
  rsp_closed_at :: "instant option"
  rsp_voters_count :: "nat option"

record poll_viewer_state =
  pvs_voted :: bool
  pvs_own_votes :: "nat list"

datatype poll_vote_error =
    VoteNotFound
  | VoteExpired
  | AlreadyVoted
  | InvalidChoice
  | MultipleChoices
  | VoteDatabase roosty_error
  | VoteSeaOrm db_err

definition vote_result :: "'a result \<Rightarrow> poll_vote_error + 'a" where
  "vote_result r =
     (case r of Inl (Database e) \<Rightarrow> Inl (VoteSeaOrm e) | Inl e \<Rightarrow> Inl (VoteDatabase e) | Inr x \<Rightarrow> Inr x)"

record poll_expiration =
  pe_poll :: status_poll
  pe_notifications :: "local_notification_row list"
  pe_newly_expired :: bool
  pe_next_attempt_at :: "instant option"

subsection \<open>Validation\<close>

definition validate_poll :: "(ustring \<Rightarrow> nat) \<Rightarrow> new_status_poll \<Rightarrow> unit result" where
  "validate_poll graphemes input =
     (if \<not> (2 \<le> length (nsp_options input) \<and> length (nsp_options input) \<le> max_poll_options)
      then Inl (InvalidInput ''polls require between 2 and 4 options'')
      else if \<not> (min_poll_expiration_seconds \<le> nsp_expires_in input \<and>
                 nsp_expires_in input \<le> max_poll_expiration_seconds)
      then Inl (InvalidInput ''poll expiration must be between 300 and 2629746 seconds'')
      else
        let normalized = map trim (nsp_options input)
        in if list_ex (\<lambda>t. t = [] \<or> max_poll_option_graphemes < graphemes t) normalized
           then Inl (InvalidInput ''poll options must contain between 1 and 50 characters'')
           else if length (sort_dedup normalized) \<noteq> length normalized
           then Inl (InvalidInput ''poll options must be unique'')
           else Inr ())"

subsection \<open>Reading polls\<close>

definition poll_options_of :: "db \<Rightarrow> uuid \<Rightarrow> status_poll_option_row list" where
  "poll_options_of d poll_id =
     tbl_order spo_position (filter (\<lambda>o'. spo_poll_id o' = poll_id) (t_status_poll_option d))"

definition hydrate_poll :: "db \<Rightarrow> status_poll_row \<Rightarrow> status_poll result" where
  "hydrate_poll d p =
     (let options = map (\<lambda>o'. \<lparr> po_position = i32_as_u32 (spo_position o'), po_title = spo_title o',
                                po_votes_count = i64_as_u64 (spo_votes_count o') \<rparr>)
                      (poll_options_of d (sp_id p));
          make = (\<lambda>status. \<lparr> pl_id = sp_id p, pl_status = status, pl_multiple = sp_multiple p,
                     pl_hide_totals = sp_hide_totals p, pl_expires_at = sp_expires_at p,
                     pl_closed_at = sp_closed_at p,
                     pl_voters_count = map_option i64_as_u64 (sp_voters_count p),
                     pl_options = options, pl_updated_at = sp_updated_at p \<rparr>)
      in case (sp_local_status_id p, sp_remote_status_id p) of
           (Some i, None) \<Rightarrow> Inr (make (LocalPoll i))
         | (None, Some i) \<Rightarrow> Inr (make (RemotePoll i))
         | _ \<Rightarrow> Inl (InvalidInput ''stored poll status reference is invalid''))"

definition find_poll_row :: "db \<Rightarrow> uuid \<Rightarrow> status_poll_row option" where
  "find_poll_row d poll_id = List.find (\<lambda>p. sp_id p = poll_id) (t_status_poll d)"

definition find_poll_by_id :: "db \<Rightarrow> uuid \<Rightarrow> status_poll option result" where
  "find_poll_by_id d poll_id =
     (case find_poll_row d poll_id of
        None \<Rightarrow> Inr None
      | Some p \<Rightarrow> bind_res (hydrate_poll d p) (\<lambda>x. Inr (Some x)))"

definition find_poll_for_status :: "db \<Rightarrow> poll_status \<Rightarrow> status_poll option result" where
  "find_poll_for_status d status =
     (case List.find (\<lambda>p. case status of
                        LocalPoll i \<Rightarrow> sp_local_status_id p = Some i
                      | RemotePoll i \<Rightarrow> sp_remote_status_id p = Some i) (t_status_poll d) of
        None \<Rightarrow> Inr None
      | Some p \<Rightarrow> bind_res (hydrate_poll d p) (\<lambda>x. Inr (Some x)))"

definition found_poll :: "string \<Rightarrow> status_poll option \<Rightarrow> status_poll result" where
  "found_poll message r = (case r of None \<Rightarrow> Inl (InvalidInput message) | Some p \<Rightarrow> Inr p)"

definition poll_author :: "db \<Rightarrow> uuid \<Rightarrow> uuid option" where
  "poll_author d poll_id =
     (case find_poll_row d poll_id of
        None \<Rightarrow> None
      | Some p \<Rightarrow>
          (case sp_local_status_id p of
             None \<Rightarrow> None
           | Some i \<Rightarrow> map_option ls_account_id (List.find (\<lambda>s. ls_id s = i) (t_local_status d))))"

definition poll_viewer_state :: "db \<Rightarrow> uuid \<Rightarrow> uuid \<Rightarrow> poll_viewer_state" where
  "poll_viewer_state d poll_id account =
     (let own_votes = remdups_adj (map (\<lambda>v. i32_as_u32 (spv_choice_position v))
            (tbl_order spv_choice_position
              (filter (\<lambda>v. spv_poll_id v = poll_id \<and> spv_local_account_id v = Some account)
                (t_status_poll_vote d))))
      in \<lparr> pvs_voted = (poll_author d poll_id = Some account \<or> own_votes \<noteq> []),
           pvs_own_votes = own_votes \<rparr>)"

definition local_poll_remote_voter_ids :: "db \<Rightarrow> uuid \<Rightarrow> uuid list" where
  "local_poll_remote_voter_ids d poll_id =
     sort_dedup (List.map_filter spv_remote_actor_id
       (filter (\<lambda>v. spv_poll_id v = poll_id \<and> spv_remote_actor_id v \<noteq> None) (t_status_poll_vote d)))"

subsection \<open>Jobs\<close>

definition poll_payload :: "(uuid \<Rightarrow> string) \<Rightarrow> uuid \<Rightarrow> json" where
  "poll_payload id_string poll_id = JObj [(''poll_id'', JStr (id_string poll_id))]"

definition enqueue_poll_expiration ::
  "(uuid \<Rightarrow> string) \<Rightarrow> uuid \<Rightarrow> instant \<Rightarrow> uuid \<Rightarrow> instant \<Rightarrow> db \<Rightarrow> db result" where
  "enqueue_poll_expiration id_string job_new_id pg_now poll_id run_after d =
     bind_res
       (enqueue_job_in_transaction job_new_id pg_now
         \<lparr> nj_kind = PollExpiration, nj_payload = poll_payload id_string poll_id,
           nj_deduplication_key =
             Some (id_string poll_id @ '':'' @ show_int (unix_timestamp_nanos run_after)),
           nj_run_after = run_after \<rparr> d)
       (\<lambda>(d', _). Inr d')"

definition enqueue_poll_update ::
  "(uuid \<Rightarrow> string) \<Rightarrow> uuid \<Rightarrow> instant \<Rightarrow> uuid \<Rightarrow> instant \<Rightarrow> db \<Rightarrow> db result" where
  "enqueue_poll_update id_string job_new_id pg_now poll_id run_after d =
     bind_res
       (enqueue_job_in_transaction job_new_id pg_now
         \<lparr> nj_kind = PollUpdate, nj_payload = poll_payload id_string poll_id,
           nj_deduplication_key = Some (id_string poll_id), nj_run_after = run_after \<rparr> d)
       (\<lambda>(d', _). Inr (reschedule_jobs (\<lambda>j. min (job_run_after j) run_after)
          (\<lambda>j. job_kind j = job_kind_as_str PollUpdate \<and>
               job_deduplication_key j = Some (id_string poll_id)) d'))"

subsection \<open>Options\<close>

definition delete_poll_options :: "uuid \<Rightarrow> db \<Rightarrow> db" where
  "delete_poll_options poll_id d =
     (let gone = map spo_key (filter (\<lambda>o'. spo_poll_id o' = poll_id) (t_status_poll_option d))
      in d\<lparr>t_status_poll_option :=
             tbl_delete (\<lambda>o'. spo_poll_id o' = poll_id) (t_status_poll_option d),
           t_status_poll_vote :=
             tbl_delete (\<lambda>v. (spv_poll_id v, spv_choice_position v) \<in> set gone)
               (t_status_poll_vote d)\<rparr>)"

fun insert_poll_options ::
  "uuid \<Rightarrow> nat \<Rightarrow> (ustring \<times> nat) list \<Rightarrow> status_poll_option_row list \<Rightarrow>
     db_err + status_poll_option_row list" where
  "insert_poll_options poll_id position [] t = Inr t"
| "insert_poll_options poll_id position ((title, votes) # rest) t =
     (if u32_as_i32 position < 0 \<or> u64_as_i64 votes < 0 then Inl CheckViolation
      else bind_res
        (tbl_insert spo_conflict
          \<lparr> spo_poll_id = poll_id, spo_position = u32_as_i32 position, spo_title = trim title,
            spo_votes_count = u64_as_i64 votes \<rparr> t)
        (insert_poll_options poll_id (Suc position) rest))"

definition replace_options :: "uuid \<Rightarrow> (ustring \<times> nat) list \<Rightarrow> db \<Rightarrow> db result" where
  "replace_options poll_id options d =
     (let d' = delete_poll_options poll_id d
      in bind_res (db_result (insert_poll_options poll_id 0 options (t_status_poll_option d')))
           (\<lambda>t. Inr (d'\<lparr>t_status_poll_option := t\<rparr>)))"

subsection \<open>Creation\<close>

definition fk_local_status :: "db \<Rightarrow> uuid \<Rightarrow> bool" where
  "fk_local_status d i \<longleftrightarrow> list_ex (\<lambda>s. ls_id s = i) (t_local_status d)"

definition fk_remote_status :: "db \<Rightarrow> uuid \<Rightarrow> bool" where
  "fk_remote_status d i \<longleftrightarrow> list_ex (\<lambda>s. rs_id s = i) (t_remote_status d)"

definition create_local_poll ::
  "(ustring \<Rightarrow> nat) \<Rightarrow> (uuid \<Rightarrow> string) \<Rightarrow> uuid \<Rightarrow> uuid \<Rightarrow> instant \<Rightarrow> instant \<Rightarrow> uuid \<Rightarrow>
     new_status_poll \<Rightarrow> db \<Rightarrow> (db \<times> status_poll) result" where
  "create_local_poll graphemes id_string poll_id job_new_id pg_now now status_id input d =
     bind_res (validate_poll graphemes input) (\<lambda>_.
     bind_res (checked_add_seconds now (nsp_expires_in input)) (\<lambda>expires_at.
     bind_res
       (with_fk (fk_local_status d status_id)
         (tbl_insert sp_conflict
           \<lparr> sp_id = poll_id, sp_local_status_id = Some status_id, sp_remote_status_id = None,
             sp_multiple = nsp_multiple input, sp_hide_totals = nsp_hide_totals input,
             sp_expires_at = Some expires_at, sp_closed_at = None, sp_notifications_sent_at = None,
             sp_voters_count = Some 0, sp_created_at = now, sp_updated_at = now \<rparr>
           (t_status_poll d)))
       (\<lambda>polls.
     bind_res (replace_options poll_id (map (\<lambda>t. (t, 0)) (nsp_options input)) (d\<lparr>t_status_poll := polls\<rparr>))
       (\<lambda>d.
     bind_res (enqueue_poll_expiration id_string job_new_id pg_now poll_id expires_at d) (\<lambda>d.
     bind_res (find_poll_by_id d poll_id) (\<lambda>r.
     bind_res (found_poll ''created poll was not found'' r) (\<lambda>poll. Inr (d, poll))))))))"

subsection \<open>Scheduled polls\<close>

fun insert_scheduled_options ::
  "uuid \<Rightarrow> nat \<Rightarrow> ustring list \<Rightarrow> scheduled_status_poll_option_row list \<Rightarrow>
     db_err + scheduled_status_poll_option_row list" where
  "insert_scheduled_options status_id position [] t = Inr t"
| "insert_scheduled_options status_id position (title # rest) t =
     (if u32_as_i32 position < 0 then Inl CheckViolation
      else bind_res
        (tbl_insert sspo_conflict
          \<lparr> sspo_scheduled_status_id = status_id, sspo_position = u32_as_i32 position,
            sspo_title = trim title \<rparr> t)
        (insert_scheduled_options status_id (Suc position) rest))"

text \<open>\<open>status_exists\<close> says that the scheduled status the rows refer to is stored.\<close>

definition create_scheduled_poll ::
  "(ustring \<Rightarrow> nat) \<Rightarrow> bool \<Rightarrow> uuid \<Rightarrow> new_status_poll \<Rightarrow> db \<Rightarrow> db result" where
  "create_scheduled_poll graphemes status_exists status_id input d =
     bind_res (validate_poll graphemes input) (\<lambda>_.
     bind_res
       (with_fk status_exists
         (tbl_insert ssp_conflict
           \<lparr> ssp_scheduled_status_id = status_id, ssp_multiple = nsp_multiple input,
             ssp_hide_totals = nsp_hide_totals input, ssp_expires_in = nsp_expires_in input \<rparr>
           (t_scheduled_status_poll d)))
       (\<lambda>polls.
     bind_res
       (db_result (insert_scheduled_options status_id 0 (nsp_options input)
         (t_scheduled_status_poll_option d)))
       (\<lambda>options. Inr (d\<lparr>t_scheduled_status_poll := polls,
                          t_scheduled_status_poll_option := options\<rparr>))))"

definition scheduled_poll :: "db \<Rightarrow> uuid \<Rightarrow> new_status_poll option" where
  "scheduled_poll d status_id =
     (case List.find (\<lambda>p. ssp_scheduled_status_id p = status_id) (t_scheduled_status_poll d) of
        None \<Rightarrow> None
      | Some p \<Rightarrow>
          Some \<lparr> nsp_options = map sspo_title (tbl_order sspo_position
                   (filter (\<lambda>o'. sspo_scheduled_status_id o' = status_id)
                     (t_scheduled_status_poll_option d))),
                 nsp_expires_in = ssp_expires_in p, nsp_multiple = ssp_multiple p,
                 nsp_hide_totals = ssp_hide_totals p \<rparr>)"

subsection \<open>Voting\<close>

definition poll_open :: "instant \<Rightarrow> status_poll_row \<Rightarrow> bool" where
  "poll_open now p \<longleftrightarrow>
     \<not> (sp_closed_at p \<noteq> None \<or> (case sp_expires_at p of None \<Rightarrow> False | Some e \<Rightarrow> e \<le> now))"

definition votes_of ::
  "uuid option \<Rightarrow> uuid option \<Rightarrow> uuid \<Rightarrow> db \<Rightarrow> poll_vote_error + status_poll_vote_row list" where
  "votes_of local_account remote_actor poll_id d =
     (case (local_account, remote_actor) of
        (Some a, None) \<Rightarrow>
          Inr (filter (\<lambda>v. spv_poll_id v = poll_id \<and> spv_local_account_id v = Some a) (t_status_poll_vote d))
      | (None, Some r) \<Rightarrow>
          Inr (filter (\<lambda>v. spv_poll_id v = poll_id \<and> spv_remote_actor_id v = Some r) (t_status_poll_vote d))
      | _ \<Rightarrow> Inl (VoteDatabase (InvalidInput ''poll voter identity is invalid'')))"

text \<open>One iteration of the loop over the choices: the vote row, and the option's counter.\<close>

definition cast_vote ::
  "(nat \<Rightarrow> uuid) \<Rightarrow> instant \<Rightarrow> uuid \<Rightarrow> uuid option \<Rightarrow> uuid option \<Rightarrow> string option \<Rightarrow> nat \<Rightarrow> db \<Rightarrow>
     poll_vote_error + db" where
  "cast_vote new_id now poll_id local_account remote_actor activitypub_id choice d =
     bind_res
       (vote_result (with_fk
         ((case local_account of None \<Rightarrow> True | Some a \<Rightarrow> fk_local d a) \<and>
          (case remote_actor of None \<Rightarrow> True | Some r \<Rightarrow> fk_remote d r))
         (tbl_insert spv_conflict
           \<lparr> spv_id = new_id choice, spv_poll_id = poll_id, spv_choice_position = u32_as_i32 choice,
             spv_local_account_id = local_account, spv_remote_actor_id = remote_actor,
             spv_activitypub_id = activitypub_id, spv_created_at = now \<rparr> (t_status_poll_vote d))))
       (\<lambda>votes.
          case List.find (\<lambda>o'. spo_key o' = (poll_id, u32_as_i32 choice)) (t_status_poll_option d) of
            None \<Rightarrow> Inl InvalidChoice
          | Some o' \<Rightarrow>
              if wrap_i64 (spo_votes_count o' + 1) < 0 then Inl (VoteSeaOrm CheckViolation)
              else Inr (d\<lparr>t_status_poll_option := tbl_update (\<lambda>r. spo_key r = spo_key o')
                            (\<lambda>r. r\<lparr>spo_votes_count := wrap_i64 (spo_votes_count o' + 1)\<rparr>)
                            (t_status_poll_option d),
                          t_status_poll_vote := votes\<rparr>))"

fun cast_votes ::
  "(nat \<Rightarrow> uuid) \<Rightarrow> instant \<Rightarrow> uuid \<Rightarrow> uuid option \<Rightarrow> uuid option \<Rightarrow> string option \<Rightarrow> nat list \<Rightarrow> db \<Rightarrow>
     poll_vote_error + db" where
  "cast_votes new_id now poll_id local_account remote_actor activitypub_id [] d = Inr d"
| "cast_votes new_id now poll_id local_account remote_actor activitypub_id (c # cs) d =
     bind_res (cast_vote new_id now poll_id local_account remote_actor activitypub_id c d)
       (cast_votes new_id now poll_id local_account remote_actor activitypub_id cs)"

definition count_voter :: "bool \<Rightarrow> instant \<Rightarrow> status_poll_row \<Rightarrow> status_poll_row" where
  "count_voter first now p =
     p\<lparr>sp_voters_count := (if first then map_option (\<lambda>n. wrap_i64 (n + 1)) (sp_voters_count p)
                           else sp_voters_count p),
       sp_updated_at := now\<rparr>"

definition vote_checks ::
  "instant \<Rightarrow> uuid \<Rightarrow> uuid option \<Rightarrow> uuid option \<Rightarrow> nat list \<Rightarrow> db \<Rightarrow>
     poll_vote_error + status_poll_row \<times> status_poll_vote_row list \<times> nat list" where
  "vote_checks now poll_id local_account remote_actor choices d =
     (case find_poll_row d poll_id of
        None \<Rightarrow> Inl VoteNotFound
      | Some p \<Rightarrow>
          if \<not> poll_open now p then Inl VoteExpired
          else
            let choices = sort_dedup choices
            in if choices = [] then Inl InvalidChoice
               else if \<not> sp_multiple p \<and> length choices \<noteq> 1 then Inl MultipleChoices
               else bind_res (votes_of local_account remote_actor poll_id d) (\<lambda>existing.
                 if existing \<noteq> [] \<and> (local_account \<noteq> None \<or> \<not> sp_multiple p) then Inl AlreadyVoted
                 else if list_ex (\<lambda>c. \<not> list_ex (\<lambda>o'. spo_position o' = u32_as_i32 c)
                           (filter (\<lambda>o'. spo_poll_id o' = poll_id) (t_status_poll_option d))) choices
                 then Inl InvalidChoice
                 else if list_ex (\<lambda>c. list_ex (\<lambda>v. spv_choice_position v = u32_as_i32 c) existing) choices
                 then Inl AlreadyVoted
                 else Inr (p, existing, choices)))"

definition vote ::
  "(nat \<Rightarrow> uuid) \<Rightarrow> instant \<Rightarrow> uuid \<Rightarrow> uuid option \<Rightarrow> uuid option \<Rightarrow> nat list \<Rightarrow> string option \<Rightarrow> db \<Rightarrow>
     poll_vote_error + db \<times> status_poll" where
  "vote new_id now poll_id local_account remote_actor choices activitypub_id d =
     bind_res (vote_checks now poll_id local_account remote_actor choices d)
       (\<lambda>(p, existing, choices).
     bind_res (cast_votes new_id now poll_id local_account remote_actor activitypub_id choices d)
       (\<lambda>d.
          let p' = count_voter (existing = []) now p
          in if (case sp_voters_count p' of None \<Rightarrow> False | Some n \<Rightarrow> n < 0)
             then Inl (VoteSeaOrm CheckViolation)
             else
               let d = d\<lparr>t_status_poll := tbl_update (\<lambda>r. sp_id r = sp_id p)
                           (count_voter (existing = []) now) (t_status_poll d)\<rparr>
               in bind_res (vote_result (find_poll_by_id d poll_id))
                    (\<lambda>r. case r of None \<Rightarrow> Inl VoteNotFound | Some poll \<Rightarrow> Inr (d, poll))))"

definition vote_in_poll ::
  "(nat \<Rightarrow> uuid) \<Rightarrow> instant \<Rightarrow> uuid \<Rightarrow> uuid \<Rightarrow> nat list \<Rightarrow> db \<Rightarrow> poll_vote_error + db \<times> status_poll" where
  "vote_in_poll new_id now poll_id account choices d =
     vote new_id now poll_id (Some account) None choices None d"

definition record_remote_poll_vote ::
  "(nat \<Rightarrow> uuid) \<Rightarrow> instant \<Rightarrow> uuid \<Rightarrow> uuid \<Rightarrow> nat \<Rightarrow> string \<Rightarrow> db \<Rightarrow> poll_vote_error + db \<times> status_poll" where
  "record_remote_poll_vote new_id now poll_id actor choice activitypub_id d =
     vote new_id now poll_id None (Some actor) [choice] (Some activitypub_id) d"

subsection \<open>Edits and refreshes\<close>

definition delete_poll :: "uuid \<Rightarrow> db \<Rightarrow> db" where
  "delete_poll poll_id d =
     d\<lparr>t_status_poll := tbl_delete (\<lambda>p. sp_id p = poll_id) (t_status_poll d),
       t_status_poll_option := tbl_delete (\<lambda>o'. spo_poll_id o' = poll_id) (t_status_poll_option d),
       t_status_poll_vote := tbl_delete (\<lambda>v. spv_poll_id v = poll_id) (t_status_poll_vote d)\<rparr>"

definition delete_poll_votes :: "uuid \<Rightarrow> db \<Rightarrow> db" where
  "delete_poll_votes poll_id d =
     d\<lparr>t_status_poll_vote := tbl_delete (\<lambda>v. spv_poll_id v = poll_id) (t_status_poll_vote d)\<rparr>"

definition edit_poll_row :: "bool \<Rightarrow> instant \<Rightarrow> instant \<Rightarrow> new_status_poll \<Rightarrow> status_poll_row \<Rightarrow> status_poll_row" where
  "edit_poll_row changed now expires_at input p =
     p\<lparr>sp_multiple := nsp_multiple input, sp_hide_totals := nsp_hide_totals input,
       sp_expires_at := Some expires_at, sp_closed_at := None, sp_notifications_sent_at := None,
       sp_voters_count := (if changed then Some 0 else sp_voters_count p), sp_updated_at := now\<rparr>"

definition local_poll_changed :: "new_status_poll \<Rightarrow> status_poll_row \<Rightarrow> db \<Rightarrow> bool" where
  "local_poll_changed input p d \<longleftrightarrow>
     sp_multiple p \<noteq> nsp_multiple input \<or>
     map spo_title (poll_options_of d (sp_id p)) \<noteq> map trim (nsp_options input)"

definition replace_local_poll ::
  "(ustring \<Rightarrow> nat) \<Rightarrow> (uuid \<Rightarrow> string) \<Rightarrow> uuid \<Rightarrow> uuid \<Rightarrow> instant \<Rightarrow> instant \<Rightarrow> uuid \<Rightarrow>
     new_status_poll option \<Rightarrow> db \<Rightarrow> (db \<times> status_poll option) result" where
  "replace_local_poll graphemes id_string new_poll_id job_new_id pg_now now status_id input d =
     (let existing = List.find (\<lambda>p. sp_local_status_id p = Some status_id) (t_status_poll d)
      in case input of
           None \<Rightarrow> Inr (case existing of None \<Rightarrow> d | Some p \<Rightarrow> delete_poll (sp_id p) d, None)
         | Some input \<Rightarrow>
             bind_res (validate_poll graphemes input) (\<lambda>_.
             bind_res (checked_add_seconds now (nsp_expires_in input)) (\<lambda>expires_at.
               case existing of
                 None \<Rightarrow>
                   bind_res (create_local_poll graphemes id_string new_poll_id job_new_id pg_now now
                               status_id input d) (\<lambda>(d, poll). Inr (d, Some poll))
               | Some p \<Rightarrow>
                   let changed = local_poll_changed input p d
                   in bind_res
                        (if changed
                         then replace_options (sp_id p) (map (\<lambda>t. (t, 0)) (nsp_options input))
                                (delete_poll_votes (sp_id p) d)
                         else Inr d)
                        (\<lambda>d.
                      bind_res
                        (enqueue_poll_expiration id_string job_new_id pg_now (sp_id p) expires_at
                          (d\<lparr>t_status_poll := tbl_update (\<lambda>r. sp_id r = sp_id p)
                               (edit_poll_row changed now expires_at input) (t_status_poll d)\<rparr>))
                        (\<lambda>d. bind_res (find_poll_by_id d (sp_id p)) (\<lambda>r. Inr (d, r)))))))"

definition five_minutes :: int where "five_minutes = 300"

definition remote_poll_row :: "instant \<Rightarrow> remote_status_poll \<Rightarrow> status_poll_row \<Rightarrow> status_poll_row" where
  "remote_poll_row now input p =
     p\<lparr>sp_multiple := rsp_multiple input, sp_expires_at := rsp_expires_at input,
       sp_closed_at := rsp_closed_at input,
       sp_voters_count := map_option u64_as_i64 (rsp_voters_count input), sp_updated_at := now\<rparr>"

definition or_else :: "'a option \<Rightarrow> 'a option \<Rightarrow> 'a option" where
  "or_else x y = (case x of None \<Rightarrow> y | Some a \<Rightarrow> Some a)"

definition store_remote_poll ::
  "uuid \<Rightarrow> instant \<Rightarrow> uuid \<Rightarrow> remote_status_poll \<Rightarrow> db \<Rightarrow> (db \<times> uuid) result" where
  "store_remote_poll new_poll_id now status_id input d =
     (case List.find (\<lambda>p. sp_remote_status_id p = Some status_id) (t_status_poll d) of
        Some p \<Rightarrow>
          let changed = sp_multiple p \<noteq> rsp_multiple input \<or>
                map spo_title (poll_options_of d (sp_id p)) \<noteq> map fst (rsp_options input);
              d = (if changed then delete_poll_votes (sp_id p) d else d)
          in bind_res (replace_options (sp_id p) (rsp_options input) d) (\<lambda>d.
               if (case rsp_voters_count input of None \<Rightarrow> False | Some n \<Rightarrow> u64_as_i64 n < 0)
               then Inl (Database CheckViolation)
               else Inr (d\<lparr>t_status_poll := tbl_update (\<lambda>r. sp_id r = sp_id p)
                             (remote_poll_row now input) (t_status_poll d)\<rparr>, sp_id p))
      | None \<Rightarrow>
          if (case rsp_voters_count input of None \<Rightarrow> False | Some n \<Rightarrow> u64_as_i64 n < 0)
          then Inl (Database CheckViolation)
          else bind_res
                 (with_fk (fk_remote_status d status_id)
                   (tbl_insert sp_conflict
                     \<lparr> sp_id = new_poll_id, sp_local_status_id = None,
                       sp_remote_status_id = Some status_id, sp_multiple = rsp_multiple input,
                       sp_hide_totals = False, sp_expires_at = rsp_expires_at input,
                       sp_closed_at = rsp_closed_at input, sp_notifications_sent_at = None,
                       sp_voters_count = map_option u64_as_i64 (rsp_voters_count input),
                       sp_created_at = now, sp_updated_at = now \<rparr> (t_status_poll d)))
                 (\<lambda>polls. bind_res (replace_options new_poll_id (rsp_options input)
                                    (d\<lparr>t_status_poll := polls\<rparr>))
                   (\<lambda>d. Inr (d, new_poll_id))))"

definition upsert_remote_poll ::
  "(uuid \<Rightarrow> string) \<Rightarrow> uuid \<Rightarrow> uuid \<Rightarrow> instant \<Rightarrow> instant \<Rightarrow> uuid \<Rightarrow> remote_status_poll \<Rightarrow> db \<Rightarrow>
     (db \<times> status_poll) result" where
  "upsert_remote_poll id_string new_poll_id job_new_id pg_now now status_id input d =
     (if length (rsp_options input) < 2 \<or> 500 < length (rsp_options input)
      then Inl (InvalidInput ''remote poll option count is invalid'')
      else
        bind_res (store_remote_poll new_poll_id now status_id input d) (\<lambda>(d, poll_id).
        bind_res
          (case or_else (rsp_closed_at input) (rsp_expires_at input) of
             None \<Rightarrow> Inr d
           | Some e \<Rightarrow>
               bind_res (checked_add_seconds e five_minutes) (\<lambda>run_after.
                 enqueue_poll_expiration id_string job_new_id pg_now poll_id run_after d))
          (\<lambda>d.
        bind_res (find_poll_by_id d poll_id) (\<lambda>r.
        bind_res (found_poll ''remote poll was not found'' r) (\<lambda>poll. Inr (d, poll))))))"

subsection \<open>Expiration\<close>

text \<open>
  Inserting a notification that is not filtered enqueues one delivery job per push
  subscription of the account (\<open>after_save\<close> in
  \<^verbatim>\<open>src/crates/db/src/entity/local_notification.rs\<close>). \<open>before_save\<close> groups
  follows, favourites and reblogs only, so a poll notification has no group.
\<close>

fun enqueue_push_jobs ::
  "(uuid \<Rightarrow> string) \<Rightarrow> (uuid \<Rightarrow> uuid) \<Rightarrow> instant \<Rightarrow> uuid \<Rightarrow> push_subscription_row list \<Rightarrow>
     job_row list \<Rightarrow> db_err + job_row list" where
  "enqueue_push_jobs id_string job_new_id pg_now notification_id [] jobs = Inr jobs"
| "enqueue_push_jobs id_string job_new_id pg_now notification_id (s # ss) jobs =
     bind_res
       (tbl_insert_unless job_dedup_conflict job_conflict
         (new_job_row (job_new_id (ps_id s)) pg_now
           \<lparr> nj_kind = WebPushDelivery,
             nj_payload = JObj [(''notification_id'', JStr (id_string notification_id)),
                                (''subscription_id'', JStr (id_string (ps_id s)))],
             nj_deduplication_key =
               Some (id_string notification_id @ '':'' @ id_string (ps_id s)),
             nj_run_after = pg_now \<rparr>) jobs)
       (\<lambda>(jobs, _). enqueue_push_jobs id_string job_new_id pg_now notification_id ss jobs)"

definition insert_local_notification ::
  "(uuid \<Rightarrow> string) \<Rightarrow> (uuid \<Rightarrow> uuid) \<Rightarrow> instant \<Rightarrow> local_notification_row \<Rightarrow> db \<Rightarrow> db result" where
  "insert_local_notification id_string job_new_id pg_now n d =
     bind_res
       (with_fk (fk_local d (ln_account_id n)) (tbl_insert ln_conflict n (t_local_notification d)))
       (\<lambda>t.
          let d = d\<lparr>t_local_notification := t\<rparr>
          in if ln_filtered n then Inr d
             else bind_res
                    (db_result (enqueue_push_jobs id_string job_new_id pg_now (ln_id n)
                      (filter (\<lambda>s. ps_account_id s = ln_account_id n) (t_push_subscription d)) (t_job d)))
                    (\<lambda>jobs. Inr (d\<lparr>t_job := jobs\<rparr>)))"

text \<open>The status a poll belongs to: author, remote author, local and remote status.\<close>

type_synonym poll_origin = "uuid option \<times> uuid option \<times> uuid option \<times> uuid option"

definition poll_origin :: "status_poll_row \<Rightarrow> db \<Rightarrow> poll_origin result" where
  "poll_origin p d =
     (case (sp_local_status_id p, sp_remote_status_id p) of
        (Some i, None) \<Rightarrow>
          (case List.find (\<lambda>s. ls_id s = i) (t_local_status d) of
             None \<Rightarrow> Inl (InvalidInput ''poll status is missing'')
           | Some s \<Rightarrow> Inr (Some (ls_account_id s), None, Some i, None))
      | (None, Some i) \<Rightarrow>
          (case List.find (\<lambda>s. rs_id s = i) (t_remote_status d) of
             None \<Rightarrow> Inl (InvalidInput ''poll status is missing'')
           | Some s \<Rightarrow> Inr (None, Some (rs_remote_actor_id s), None, Some i))
      | _ \<Rightarrow> Inl (InvalidInput ''stored poll status reference is invalid''))"

definition poll_notification ::
  "(uuid \<Rightarrow> uuid) \<Rightarrow> instant \<Rightarrow> poll_origin \<Rightarrow> uuid \<Rightarrow> local_notification_row" where
  "poll_notification new_id now origin account =
     (case origin of (author, remote_actor, status, remote_status) \<Rightarrow>
        \<lparr> ln_id = new_id account, ln_account_id = account, ln_notification_type = NPoll,
          ln_actor_account_id = author, ln_remote_actor_id = remote_actor, ln_status_id = status,
          ln_remote_status_id = remote_status, ln_group_id = None, ln_filtered = False,
          ln_notification_request_id = None, ln_report_id = None, ln_created_at = now,
          ln_dismissed_at = None \<rparr>)"

fun notify_recipients ::
  "(uuid \<Rightarrow> string) \<Rightarrow> (uuid \<Rightarrow> uuid) \<Rightarrow> (uuid \<Rightarrow> uuid \<Rightarrow> uuid) \<Rightarrow> instant \<Rightarrow> instant \<Rightarrow> poll_origin \<Rightarrow>
     uuid list \<Rightarrow> db \<Rightarrow> (db \<times> local_notification_row list) result" where
  "notify_recipients id_string new_id job_new_id pg_now now origin [] d = Inr (d, [])"
| "notify_recipients id_string new_id job_new_id pg_now now origin (a # as) d =
     (let n = poll_notification new_id now origin a
      in bind_res (insert_local_notification id_string (job_new_id a) pg_now n d) (\<lambda>d.
         bind_res (notify_recipients id_string new_id job_new_id pg_now now origin as d)
           (\<lambda>(d, ns). Inr (d, n # ns))))"

definition poll_recipients :: "poll_origin \<Rightarrow> uuid \<Rightarrow> db \<Rightarrow> uuid list" where
  "poll_recipients origin poll_id d =
     sort_dedup
       (List.map_filter spv_local_account_id
          (filter (\<lambda>v. spv_poll_id v = poll_id \<and> spv_local_account_id v \<noteq> None) (t_status_poll_vote d)) @
        (case fst origin of None \<Rightarrow> [] | Some author \<Rightarrow> [author]))"

definition close_poll_row :: "instant \<Rightarrow> status_poll_row \<Rightarrow> status_poll_row" where
  "close_poll_row now p =
     p\<lparr>sp_closed_at := or_else (or_else (sp_closed_at p) (or_else (sp_closed_at p) (sp_expires_at p))) (Some now),
       sp_notifications_sent_at := Some now, sp_updated_at := now\<rparr>"

definition expire_poll ::
  "(uuid \<Rightarrow> string) \<Rightarrow> (uuid \<Rightarrow> uuid) \<Rightarrow> (uuid \<Rightarrow> uuid \<Rightarrow> uuid) \<Rightarrow> instant \<Rightarrow> instant \<Rightarrow> uuid \<Rightarrow> db \<Rightarrow>
     (db \<times> poll_expiration option) result" where
  "expire_poll id_string new_id job_new_id pg_now now poll_id d =
     (case find_poll_row d poll_id of
        None \<Rightarrow> Inr (d, None)
      | Some p \<Rightarrow>
          let due_at = or_else (sp_closed_at p) (sp_expires_at p);
              unchanged = (\<lambda>next. bind_res (hydrate_poll d p) (\<lambda>poll.
                Inr (d, Some \<lparr> pe_poll = poll, pe_notifications = [], pe_newly_expired = False,
                               pe_next_attempt_at = next \<rparr>)))
          in if (case due_at of None \<Rightarrow> False | Some t \<Rightarrow> now < t) then unchanged due_at
             else if sp_notifications_sent_at p \<noteq> None then unchanged None
             else
               bind_res (poll_origin p d) (\<lambda>origin.
               bind_res (notify_recipients id_string new_id job_new_id pg_now now origin
                           (poll_recipients origin poll_id d) d) (\<lambda>(d, notifications).
               let d = d\<lparr>t_status_poll := tbl_update (\<lambda>r. sp_id r = sp_id p) (close_poll_row now)
                           (t_status_poll d)\<rparr>
               in bind_res (find_poll_by_id d poll_id) (\<lambda>r.
                  bind_res (found_poll ''expired poll was not found'' r) (\<lambda>poll.
                    Inr (d, Some \<lparr> pe_poll = poll, pe_notifications = notifications,
                                   pe_newly_expired = True, pe_next_attempt_at = None \<rparr>))))))"

end
