(* ===== verification/Roosty_Poll_Invariants.thy ===== *)
theory Roosty_Poll_Invariants
  imports Roosty_Polls
begin

text \<open>
  The invariant of the poll tables: counters of locally authored polls agree with the stored
  votes, votes refer to stored options and options to stored polls, each vote has one voter,
  and a voter of a single-choice poll has one vote. Every operation on polls keeps it.
\<close>

subsection \<open>The invariant\<close>

definition voter_of :: "status_poll_vote_row \<Rightarrow> uuid option \<times> uuid option" where
  "voter_of v = (spv_local_account_id v, spv_remote_actor_id v)"

definition vote_key :: "status_poll_vote_row \<Rightarrow> uuid \<times> int" where
  "vote_key v = (spv_poll_id v, spv_choice_position v)"

definition votes_for :: "status_poll_vote_row list \<Rightarrow> uuid \<times> int \<Rightarrow> nat" where
  "votes_for vs k = length (filter (\<lambda>v. vote_key v = k) vs)"

definition poll_voters :: "status_poll_vote_row list \<Rightarrow> uuid \<Rightarrow> (uuid option \<times> uuid option) set" where
  "poll_voters vs poll_id = voter_of ` {v \<in> set vs. spv_poll_id v = poll_id}"

definition in_i64 :: "int \<Rightarrow> bool" where
  "in_i64 n \<longleftrightarrow> 0 \<le> n \<and> n \<le> i64_max"

definition one_voter :: "status_poll_vote_row \<Rightarrow> bool" where
  "one_voter v \<longleftrightarrow> (spv_local_account_id v = None) \<noteq> (spv_remote_actor_id v = None)"

definition is_local_poll :: "status_poll_row list \<Rightarrow> uuid \<Rightarrow> bool" where
  "is_local_poll ps i \<longleftrightarrow> (\<exists>p \<in> set ps. sp_id p = i \<and> sp_local_status_id p \<noteq> None)"

text \<open>Tables, references and option counters.\<close>

definition tallies_ok ::
  "status_poll_row list \<Rightarrow> status_poll_option_row list \<Rightarrow> status_poll_vote_row list \<Rightarrow> bool" where
  "tallies_ok ps os vs \<longleftrightarrow>
     tbl_ok sp_conflict ps \<and> tbl_ok spo_conflict os \<and> tbl_ok spv_conflict vs \<and>
     (\<forall>o' \<in> set os. spo_poll_id o' \<in> sp_id ` set ps) \<and>
     (\<forall>v \<in> set vs. vote_key v \<in> spo_key ` set os \<and> one_voter v) \<and>
     (\<forall>o' \<in> set os. in_i64 (spo_votes_count o') \<and>
        (is_local_poll ps (spo_poll_id o') \<longrightarrow> spo_votes_count o' = int (votes_for vs (spo_key o'))))"

text \<open>Voter counters and ballots.\<close>

definition ballots_ok :: "status_poll_row \<Rightarrow> status_poll_vote_row list \<Rightarrow> bool" where
  "ballots_ok p vs \<longleftrightarrow>
     (case sp_voters_count p of None \<Rightarrow> True | Some n \<Rightarrow> in_i64 n) \<and>
     (sp_local_status_id p \<noteq> None \<longrightarrow>
        sp_voters_count p = Some (int (card (poll_voters vs (sp_id p))))) \<and>
     (\<not> sp_multiple p \<longrightarrow>
        (\<forall>v \<in> set vs. \<forall>w \<in> set vs. spv_poll_id v = sp_id p \<and> spv_poll_id w = sp_id p \<and>
           voter_of v = voter_of w \<longrightarrow> v = w))"

definition one_status :: "status_poll_row \<Rightarrow> bool" where
  "one_status p \<longleftrightarrow> (sp_local_status_id p = None) \<noteq> (sp_remote_status_id p = None)"

definition polls_ok :: "db \<Rightarrow> bool" where
  "polls_ok d \<longleftrightarrow>
     tallies_ok (t_status_poll d) (t_status_poll_option d) (t_status_poll_vote d) \<and>
     (\<forall>p \<in> set (t_status_poll d). one_status p \<and> ballots_ok p (t_status_poll_vote d))"

lemma polls_okD:
  assumes "polls_ok d"
  shows "tbl_ok sp_conflict (t_status_poll d)" "tbl_ok spo_conflict (t_status_poll_option d)"
    "tbl_ok spv_conflict (t_status_poll_vote d)"
    "tallies_ok (t_status_poll d) (t_status_poll_option d) (t_status_poll_vote d)"
    "p \<in> set (t_status_poll d) \<Longrightarrow> ballots_ok p (t_status_poll_vote d)"
    "p \<in> set (t_status_poll d) \<Longrightarrow> one_status p"
  using assms by (auto simp: polls_ok_def tallies_ok_def)

lemma polls_ok_cong:
  assumes "t_status_poll d' = t_status_poll d" and "t_status_poll_option d' = t_status_poll_option d"
    and "t_status_poll_vote d' = t_status_poll_vote d"
  shows "polls_ok d' \<longleftrightarrow> polls_ok d"
  by (simp add: polls_ok_def assms)

lemma poll_unique:
  assumes "tbl_ok sp_conflict ps" and "p \<in> set ps" and "q \<in> set ps" and "sp_id p = sp_id q"
  shows "p = q"
  by (rule sp_tbl.key_unique [OF assms])

lemma ballots_ok_alt:
  "ballots_ok p vs \<longleftrightarrow>
     (let ws = filter (\<lambda>v. spv_poll_id v = sp_id p) vs in
       (case sp_voters_count p of None \<Rightarrow> True | Some n \<Rightarrow> in_i64 n) \<and>
       (sp_local_status_id p \<noteq> None \<longrightarrow> sp_voters_count p = Some (int (card (voter_of ` set ws)))) \<and>
       (\<not> sp_multiple p \<longrightarrow> (\<forall>v \<in> set ws. \<forall>w \<in> set ws. voter_of v = voter_of w \<longrightarrow> v = w)))"
  unfolding ballots_ok_def poll_voters_def Let_def set_filter by blast

lemma ballots_ok_cong:
  "filter (\<lambda>v. spv_poll_id v = sp_id p) vs = filter (\<lambda>v. spv_poll_id v = sp_id p) ws \<Longrightarrow>
     ballots_ok p vs \<longleftrightarrow> ballots_ok p ws"
  unfolding ballots_ok_alt by simp

subsection \<open>Wrapping counters\<close>

lemma wrap_i64_id: "- 9223372036854775808 \<le> x \<Longrightarrow> x \<le> i64_max \<Longrightarrow> wrap_i64 x = x"
  by (simp add: wrap_i64_def i64_max_def)

lemma wrap_i64_succ:
  assumes "in_i64 n" and "\<not> wrap_i64 (n + 1) < 0"
  shows "wrap_i64 (n + 1) = n + 1 \<and> in_i64 (n + 1)"
proof (cases "n = i64_max")
  case True
  then have "wrap_i64 (n + 1) < 0" by (simp add: wrap_i64_def i64_max_def)
  then show ?thesis using assms(2) by simp
next
  case False
  then have "n + 1 \<le> i64_max" using assms(1) by (simp add: in_i64_def)
  then show ?thesis using assms(1) wrap_i64_id [of "n + 1"] by (simp add: in_i64_def)
qed

lemma u64_as_i64_in: "\<not> u64_as_i64 n < 0 \<Longrightarrow> in_i64 (u64_as_i64 n)"
  by (simp add: u64_as_i64_def wrap_i64_def in_i64_def i64_max_def)

lemma u64_as_i64_zero [simp]: "u64_as_i64 0 = 0"
  by (simp add: u64_as_i64_def wrap_i64_def)

subsection \<open>Replacing options\<close>

lemma insert_poll_options_rows:
  assumes "insert_poll_options i k opts t = Inr t'"
  shows "\<exists>rows. t' = t @ rows \<and> map spo_title rows = map (trim \<circ> fst) opts \<and>
    (tbl_ok spo_conflict t \<longrightarrow> tbl_ok spo_conflict t') \<and>
    (\<forall>r \<in> set rows. spo_poll_id r = i \<and> in_i64 (spo_votes_count r) \<and>
       ((\<forall>x \<in> set opts. snd x = 0) \<longrightarrow> spo_votes_count r = 0))"
  using assms
proof (induction opts arbitrary: k t)
  case (Cons x opts)
  obtain title votes where x: "x = (title, votes)" by (cases x)
  let ?r = "\<lparr> spo_poll_id = i, spo_position = u32_as_i32 k, spo_title = trim title,
            spo_votes_count = u64_as_i64 votes \<rparr>"
  have ins: "tbl_insert spo_conflict ?r t = Inr (t @ [?r])" and votes: "\<not> u64_as_i64 votes < 0"
    and rest: "insert_poll_options i (Suc k) opts (t @ [?r]) = Inr t'"
    using Cons.prems by (auto simp: x bind_res_Inr_iff tbl_insert_Inr split: if_splits)
  obtain rows where rows: "t' = (t @ [?r]) @ rows" "map spo_title rows = map (trim \<circ> fst) opts"
    "tbl_ok spo_conflict (t @ [?r]) \<longrightarrow> tbl_ok spo_conflict t'"
    "\<forall>r \<in> set rows. spo_poll_id r = i \<and> in_i64 (spo_votes_count r) \<and>
       ((\<forall>x \<in> set opts. snd x = 0) \<longrightarrow> spo_votes_count r = 0)"
    using Cons.IH [OF rest] by blast
  have "t' = t @ (?r # rows)" using rows(1) by simp
  moreover have "tbl_ok spo_conflict t \<longrightarrow> tbl_ok spo_conflict t'"
    using rows(3) spo_tbl.ok_insert [OF ins] by blast
  ultimately show ?case
    using rows(2,4) u64_as_i64_in [OF votes] by (intro exI [of _ "?r # rows"]) (auto simp: x)
qed simp

lemma replace_options_cases:
  assumes "replace_options i opts d = Inr d'"
    and "tallies_ok (t_status_poll d) (t_status_poll_option d) (t_status_poll_vote d) \<or>
         (\<forall>v \<in> set (t_status_poll_vote d). spv_poll_id v = i \<longrightarrow> vote_key v \<in> spo_key ` set (t_status_poll_option d))"
  obtains rows where "d' = d\<lparr>t_status_poll_option := tbl_delete (\<lambda>o'. spo_poll_id o' = i) (t_status_poll_option d) @ rows,
      t_status_poll_vote := tbl_delete (\<lambda>v. spv_poll_id v = i) (t_status_poll_vote d)\<rparr>"
    and "map spo_title rows = map (trim \<circ> fst) opts"
    and "tbl_ok spo_conflict (t_status_poll_option d) \<longrightarrow>
      tbl_ok spo_conflict (tbl_delete (\<lambda>o'. spo_poll_id o' = i) (t_status_poll_option d) @ rows)"
    and "\<forall>r \<in> set rows. spo_poll_id r = i \<and> in_i64 (spo_votes_count r) \<and>
       ((\<forall>x \<in> set opts. snd x = 0) \<longrightarrow> spo_votes_count r = 0)"
proof -
  let ?os = "tbl_delete (\<lambda>o'. spo_poll_id o' = i) (t_status_poll_option d)"
  have refs: "\<forall>v \<in> set (t_status_poll_vote d). spv_poll_id v = i \<longrightarrow> vote_key v \<in> spo_key ` set (t_status_poll_option d)"
    using assms(2) by (auto simp: tallies_ok_def)
  have "(spv_poll_id v, spv_choice_position v) \<in> set (map spo_key (filter (\<lambda>o'. spo_poll_id o' = i) (t_status_poll_option d))) \<longleftrightarrow>
      spv_poll_id v = i" if "v \<in> set (t_status_poll_vote d)" for v
    using refs that by (force simp: vote_key_def spo_key_def image_iff)
  then have del: "delete_poll_options i d = d\<lparr>t_status_poll_option := ?os,
      t_status_poll_vote := tbl_delete (\<lambda>v. spv_poll_id v = i) (t_status_poll_vote d)\<rparr>"
    by (simp add: delete_poll_options_def Let_def tbl_delete_def cong: filter_cong)
  obtain t' where t': "insert_poll_options i 0 opts ?os = Inr t'"
    and d': "d' = (delete_poll_options i d)\<lparr>t_status_poll_option := t'\<rparr>"
    using assms(1) by (auto simp: replace_options_def Let_def bind_res_Inr_iff del)
  obtain rows where rows: "t' = ?os @ rows" "map spo_title rows = map (trim \<circ> fst) opts"
    "tbl_ok spo_conflict ?os \<longrightarrow> tbl_ok spo_conflict t'"
    "\<forall>r \<in> set rows. spo_poll_id r = i \<and> in_i64 (spo_votes_count r) \<and>
       ((\<forall>x \<in> set opts. snd x = 0) \<longrightarrow> spo_votes_count r = 0)"
    using insert_poll_options_rows [OF t'] by blast
  show thesis
    by (rule that [of rows]) (use rows spo_tbl.ok_delete in \<open>auto simp: d' del\<close>)
qed

text \<open>Fresh options and no votes: what replacing the options of one poll leaves.\<close>

lemma tallies_ok_replaced:
  assumes "tallies_ok ps os vs" and "tbl_ok sp_conflict ps'" and "i \<in> sp_id ` set ps'"
    and "sp_id ` set ps \<subseteq> sp_id ` set ps'"
    and "\<And>j. j \<noteq> i \<Longrightarrow> is_local_poll ps' j \<longleftrightarrow> is_local_poll ps j"
    and "tbl_ok spo_conflict (tbl_delete (\<lambda>o'. spo_poll_id o' = i) os @ rows)"
    and "\<forall>r \<in> set rows. spo_poll_id r = i \<and> in_i64 (spo_votes_count r)"
    and "is_local_poll ps' i \<longrightarrow> (\<forall>r \<in> set rows. spo_votes_count r = 0)"
  shows "tallies_ok ps' (tbl_delete (\<lambda>o'. spo_poll_id o' = i) os @ rows) (tbl_delete (\<lambda>v. spv_poll_id v = i) vs)"
proof -
  have zero: "votes_for (tbl_delete (\<lambda>v. spv_poll_id v = i) vs) (i, k) = 0" for k
    by (auto simp: votes_for_def tbl_delete_def filter_empty_conv vote_key_def)
  have same: "votes_for (tbl_delete (\<lambda>v. spv_poll_id v = i) vs) (j, k) = votes_for vs (j, k)" if "j \<noteq> i" for j k
    using that by (auto simp: votes_for_def tbl_delete_def vote_key_def intro: arg_cong [of _ _ length] filter_cong)
  show ?thesis
    unfolding tallies_ok_def
  proof (intro conjI ballI impI)
    fix o' assume o: "o' \<in> set (tbl_delete (\<lambda>o'. spo_poll_id o' = i) os @ rows)"
    show "spo_poll_id o' \<in> sp_id ` set ps'"
      using o assms(1,3,4,7) by (auto simp: tallies_ok_def)
    show "in_i64 (spo_votes_count o')" using o assms(1,7) by (auto simp: tallies_ok_def)
    assume loc: "is_local_poll ps' (spo_poll_id o')"
    show "spo_votes_count o' = int (votes_for (tbl_delete (\<lambda>v. spv_poll_id v = i) vs) (spo_key o'))"
    proof (cases "spo_poll_id o' = i")
      case True
      then have "o' \<in> set rows" using o by auto
      then show ?thesis using True loc assms(8) zero by (auto simp: spo_key_def)
    next
      case False
      then have "o' \<in> set os" using o assms(7) by auto
      then show ?thesis using assms(1) False loc assms(5) same by (auto simp: tallies_ok_def spo_key_def)
    qed
  next
    fix v assume v: "v \<in> set (tbl_delete (\<lambda>v. spv_poll_id v = i) vs)"
    then have "vote_key v \<in> spo_key ` set os" and v': "one_voter v" "spv_poll_id v \<noteq> i"
      using assms(1) by (auto simp: tallies_ok_def)
    then show "vote_key v \<in> spo_key ` set (tbl_delete (\<lambda>o'. spo_poll_id o' = i) os @ rows)"
      by (force simp: vote_key_def spo_key_def image_iff)
    show "one_voter v" by (rule v')
  next
    show "tbl_ok spv_conflict (tbl_delete (\<lambda>v. spv_poll_id v = i) vs)"
      using assms(1) by (auto simp: tallies_ok_def intro: spv_tbl.ok_delete)
  qed (use assms(2,6) in simp_all)
qed

subsection \<open>Voting\<close>

definition new_vote ::
  "(nat \<Rightarrow> uuid) \<Rightarrow> instant \<Rightarrow> uuid \<Rightarrow> uuid option \<Rightarrow> uuid option \<Rightarrow> string option \<Rightarrow> nat \<Rightarrow> status_poll_vote_row" where
  "new_vote new_id now poll_id l r ap c =
     \<lparr> spv_id = new_id c, spv_poll_id = poll_id, spv_choice_position = u32_as_i32 c,
       spv_local_account_id = l, spv_remote_actor_id = r, spv_activitypub_id = ap, spv_created_at = now \<rparr>"

lemma new_vote_simps [simp]:
  "spv_poll_id (new_vote new_id now i l r ap c) = i"
  "spv_choice_position (new_vote new_id now i l r ap c) = u32_as_i32 c"
  "spv_local_account_id (new_vote new_id now i l r ap c) = l"
  "spv_remote_actor_id (new_vote new_id now i l r ap c) = r"
  "vote_key (new_vote new_id now i l r ap c) = (i, u32_as_i32 c)"
  "voter_of (new_vote new_id now i l r ap c) = (l, r)"
  by (simp_all add: new_vote_def vote_key_def voter_of_def)

lemma vote_result_Inr [simp]: "vote_result m = Inr x \<longleftrightarrow> m = Inr x"
  by (auto simp: vote_result_def split: sum.splits roosty_error.splits)

lemma cast_vote_cases:
  assumes "cast_vote new_id now i l r ap c d = Inr d'"
  obtains o' where "d' = d\<lparr>t_status_poll_option := tbl_update (\<lambda>x. spo_key x = (i, u32_as_i32 c))
        (\<lambda>x. x\<lparr>spo_votes_count := wrap_i64 (spo_votes_count o' + 1)\<rparr>) (t_status_poll_option d),
      t_status_poll_vote := t_status_poll_vote d @ [new_vote new_id now i l r ap c]\<rparr>"
    and "o' \<in> set (t_status_poll_option d)" and "spo_key o' = (i, u32_as_i32 c)"
    and "\<not> wrap_i64 (spo_votes_count o' + 1) < 0"
    and "tbl_insert spv_conflict (new_vote new_id now i l r ap c) (t_status_poll_vote d) =
      Inr (t_status_poll_vote d @ [new_vote new_id now i l r ap c])"
proof -
  let ?p = "\<lambda>o'. spo_key o' = (i, u32_as_i32 c)"
  obtain o' where o: "List.find ?p (t_status_poll_option d) = Some o'"
    using assms unfolding cast_vote_def by (cases "List.find ?p (t_status_poll_option d)") (auto simp: bind_res_Inr_iff)
  note mem = find_Some_mem [OF o]
  have "tbl_insert spv_conflict (new_vote new_id now i l r ap c) (t_status_poll_vote d) =
      Inr (t_status_poll_vote d @ [new_vote new_id now i l r ap c])"
    using assms unfolding cast_vote_def new_vote_def [symmetric] by (auto simp: bind_res_Inr_iff tbl_insert_Inr)
  moreover from this have "\<not> wrap_i64 (spo_votes_count o' + 1) < 0 \<and> d' = d\<lparr>t_status_poll_option := tbl_update ?p
        (\<lambda>x. x\<lparr>spo_votes_count := wrap_i64 (spo_votes_count o' + 1)\<rparr>) (t_status_poll_option d),
      t_status_poll_vote := t_status_poll_vote d @ [new_vote new_id now i l r ap c]\<rparr>"
    using assms mem unfolding cast_vote_def new_vote_def [symmetric]
    by (auto simp: bind_res_Inr_iff o split: if_splits)
  ultimately show thesis using mem that by blast
qed

lemma cast_vote_tallies:
  assumes "cast_vote new_id now i l r ap c d = Inr d'"
    and "tallies_ok (t_status_poll d) (t_status_poll_option d) (t_status_poll_vote d)"
    and "(l = None) \<noteq> (r = None)"
  shows "tallies_ok (t_status_poll d') (t_status_poll_option d') (t_status_poll_vote d')"
    and "d' = d\<lparr>t_status_poll_option := t_status_poll_option d',
      t_status_poll_vote := t_status_poll_vote d @ [new_vote new_id now i l r ap c]\<rparr>"
proof -
  let ?k = "(i, u32_as_i32 c)" and ?v = "new_vote new_id now i l r ap c"
  let ?os = "t_status_poll_option d" and ?vs = "t_status_poll_vote d"
  obtain o' where d': "d' = d\<lparr>t_status_poll_option := tbl_update (\<lambda>x. spo_key x = ?k)
        (\<lambda>x. x\<lparr>spo_votes_count := wrap_i64 (spo_votes_count o' + 1)\<rparr>) ?os,
      t_status_poll_vote := ?vs @ [?v]\<rparr>"
    and o: "o' \<in> set ?os" "spo_key o' = ?k" "\<not> wrap_i64 (spo_votes_count o' + 1) < 0"
    and ins: "tbl_insert spv_conflict ?v ?vs = Inr (?vs @ [?v])"
    using assms(1) by (rule cast_vote_cases)
  then show "d' = d\<lparr>t_status_poll_option := t_status_poll_option d', t_status_poll_vote := ?vs @ [?v]\<rparr>" by simp
  let ?f = "\<lambda>x. x\<lparr>spo_votes_count := wrap_i64 (spo_votes_count o' + 1)\<rparr>"
  have key: "spo_key (?f x) = spo_key x" for x by (simp add: spo_key_def)
  have os': "t_status_poll_option d' = tbl_update (\<lambda>x. spo_key x = ?k) ?f ?os" by (simp add: d')
  have keys: "spo_key ` set (tbl_update (\<lambda>x. spo_key x = ?k) ?f ?os) = spo_key ` set ?os"
    unfolding tbl_update_def set_map image_image by (rule image_cong) (simp_all add: key)
  have same: "x = o'" if "x \<in> set ?os" "spo_key x = ?k" for x
    using spo_tbl.key_unique [of ?os x o'] assms(2) that o(1,2) by (simp add: tallies_ok_def)
  have succ: "wrap_i64 (spo_votes_count o' + 1) = spo_votes_count o' + 1 \<and> in_i64 (spo_votes_count o' + 1)"
    using wrap_i64_succ [OF _ o(3)] assms(2) o(1) by (simp add: tallies_ok_def)
  have count: "votes_for (?vs @ [?v]) k = votes_for ?vs k + (if k = ?k then 1 else 0)" for k
    by (auto simp: votes_for_def)
  show "tallies_ok (t_status_poll d') (t_status_poll_option d') (t_status_poll_vote d')"
    unfolding tallies_ok_def
  proof (intro conjI ballI impI)
    show "tbl_ok spo_conflict (t_status_poll_option d')"
      unfolding os' using assms(2)
      by (intro spo_tbl.ok_update_same_keys) (auto simp: tallies_ok_def spo_conflict_def key)
    show "tbl_ok spv_conflict (t_status_poll_vote d')"
      using spv_tbl.ok_insert [OF ins] assms(2) by (simp add: d' tallies_ok_def)
    show "tbl_ok sp_conflict (t_status_poll d')" using assms(2) by (simp add: d' tallies_ok_def)
  next
    fix x assume "x \<in> set (t_status_poll_option d')"
    then consider (old) "x \<in> set ?os" "spo_key x \<noteq> ?k" | (upd) "x = ?f o'"
      using same by (auto simp: os' set_tbl_update)
    note cases = this
    have poll: "spo_poll_id x \<in> spo_poll_id ` set ?os"
      using cases o(1) by cases auto
    then show "spo_poll_id x \<in> sp_id ` set (t_status_poll d')"
      using assms(2) by (auto simp: d' tallies_ok_def)
    from cases show "in_i64 (spo_votes_count x)"
      by cases (use assms(2) succ in \<open>auto simp: tallies_ok_def\<close>)
    assume loc: "is_local_poll (t_status_poll d') (spo_poll_id x)"
    from cases show "spo_votes_count x = int (votes_for (t_status_poll_vote d') (spo_key x))"
    proof cases
      case old
      then show ?thesis using assms(2) loc count by (auto simp: d' tallies_ok_def)
    next
      case upd
      then have "is_local_poll (t_status_poll d) (spo_poll_id o')" using loc by (simp add: d')
      then have "spo_votes_count o' = int (votes_for ?vs ?k)"
        using assms(2) o(1,2) by (auto simp: tallies_ok_def)
      then show ?thesis using succ count o(2) upd by (simp add: d' spo_key_def)
    qed
  next
    fix v assume "v \<in> set (t_status_poll_vote d')"
    then have "v \<in> set ?vs \<or> v = ?v" by (auto simp: d')
    moreover have "?k \<in> spo_key ` set ?os" using o(1,2) by force
    ultimately show "vote_key v \<in> spo_key ` set (t_status_poll_option d')"
      unfolding os' keys using assms(2) by (auto simp: tallies_ok_def)
    show "one_voter v" using \<open>v \<in> set ?vs \<or> v = ?v\<close> assms(2,3) by (auto simp: tallies_ok_def one_voter_def)
  qed
qed

lemma cast_votes_tallies:
  assumes "cast_votes new_id now i l r ap cs d = Inr d'"
    and "tallies_ok (t_status_poll d) (t_status_poll_option d) (t_status_poll_vote d)"
    and "(l = None) \<noteq> (r = None)"
  shows "tallies_ok (t_status_poll d') (t_status_poll_option d') (t_status_poll_vote d') \<and>
    d' = d\<lparr>t_status_poll_option := t_status_poll_option d',
      t_status_poll_vote := t_status_poll_vote d @ map (new_vote new_id now i l r ap) cs\<rparr>"
  using assms(1,2)
proof (induction cs arbitrary: d)
  case (Cons c cs)
  then obtain d1 where d1: "cast_vote new_id now i l r ap c d = Inr d1"
    and rest: "cast_votes new_id now i l r ap cs d1 = Inr d'" by (auto simp: bind_res_Inr_iff)
  note one = cast_vote_tallies [OF d1 Cons.prems(2) assms(3)]
  have IH: "tallies_ok (t_status_poll d') (t_status_poll_option d') (t_status_poll_vote d')"
    "d' = d1\<lparr>t_status_poll_option := t_status_poll_option d',
      t_status_poll_vote := t_status_poll_vote d1 @ map (new_vote new_id now i l r ap) cs\<rparr>"
    using Cons.IH [OF rest one(1)] by blast+
  have "d' = d\<lparr>t_status_poll_option := t_status_poll_option d',
      t_status_poll_vote := t_status_poll_vote d @ map (new_vote new_id now i l r ap) (c # cs)\<rparr>"
    by (subst IH(2), subst one(2), subst one(2)) simp
  then show ?case using IH(1) by blast
qed simp

lemma vote_checks_ok:
  assumes "vote_checks now i l r choices d = Inr (p, existing, cs)"
  shows "find_poll_row d i = Some p" "poll_open now p" "cs = sort_dedup choices" "cs \<noteq> []"
    "(l = None) \<noteq> (r = None)"
    "existing = filter (\<lambda>v. spv_poll_id v = i \<and>
       (if l \<noteq> None then spv_local_account_id v = l else spv_remote_actor_id v = r)) (t_status_poll_vote d)"
    "\<not> sp_multiple p \<longrightarrow> existing = [] \<and> length cs = 1"
    "l \<noteq> None \<longrightarrow> existing = []"
proof -
  obtain p' where row: "find_poll_row d i = Some p'"
    using assms by (cases "find_poll_row d i") (simp_all add: vote_checks_def)
  have opened: "poll_open now p'" and nonempty: "sort_dedup choices \<noteq> []"
    and single: "\<not> (\<not> sp_multiple p' \<and> length (sort_dedup choices) \<noteq> 1)"
    using assms by (auto simp: vote_checks_def row Let_def split: if_splits)
  obtain e where e: "votes_of l r i d = Inr e"
    using assms opened nonempty single
    by (cases "votes_of l r i d") (auto simp: vote_checks_def row Let_def split: if_splits)
  have "p = p' \<and> existing = e \<and> cs = sort_dedup choices \<and> \<not> (e \<noteq> [] \<and> (l \<noteq> None \<or> \<not> sp_multiple p'))"
    using assms opened nonempty single unfolding vote_checks_def row e Let_def
    by (simp del: not_None_eq split: if_splits)
  then show "find_poll_row d i = Some p" "poll_open now p" "cs = sort_dedup choices" "cs \<noteq> []"
    "\<not> sp_multiple p \<longrightarrow> existing = [] \<and> length cs = 1" "l \<noteq> None \<longrightarrow> existing = []"
    using row opened nonempty single by auto
  have "existing = e" using \<open>p = p' \<and> existing = e \<and> _\<close> by blast
  then show "(l = None) \<noteq> (r = None)"
    "existing = filter (\<lambda>v. spv_poll_id v = i \<and>
       (if l \<noteq> None then spv_local_account_id v = l else spv_remote_actor_id v = r)) (t_status_poll_vote d)"
    using e by (auto simp: votes_of_def split: option.splits)
qed

text \<open>What a successful ballot does to the poll tables.\<close>

lemma vote_cases:
  assumes "vote new_id now i l r choices ap d = Inr (d', poll)" and "polls_ok d"
  obtains p existing os where "vote_checks now i l r choices d = Inr (p, existing, sort_dedup choices)"
    and "d' = d\<lparr>t_status_poll := tbl_update (\<lambda>q. sp_id q = i) (count_voter (existing = []) now) (t_status_poll d),
      t_status_poll_option := os,
      t_status_poll_vote := t_status_poll_vote d @ map (new_vote new_id now i l r ap) (sort_dedup choices)\<rparr>"
    and "tallies_ok (t_status_poll d) os (t_status_poll_vote d')"
    and "\<not> (case sp_voters_count (count_voter (existing = []) now p) of None \<Rightarrow> False | Some n \<Rightarrow> n < 0)"
proof -
  obtain p existing cs d1 where checks: "vote_checks now i l r choices d = Inr (p, existing, cs)"
    and d1: "cast_votes new_id now i l r ap cs d = Inr d1"
    and nn: "\<not> (case sp_voters_count (count_voter (existing = []) now p) of None \<Rightarrow> False | Some n \<Rightarrow> n < 0)"
    and d': "d' = d1\<lparr>t_status_poll := tbl_update (\<lambda>r. sp_id r = sp_id p) (count_voter (existing = []) now) (t_status_poll d1)\<rparr>"
    using assms(1)
    by (auto simp: vote_def bind_res_Inr_iff Let_def split: if_splits option.splits)
  note ok = vote_checks_ok [OF checks]
  have p: "sp_id p = i" using ok(1) find_Some_mem by (fastforce simp: find_poll_row_def)
  note cast = cast_votes_tallies [OF d1 polls_okD(4) [OF assms(2)] ok(5)]
  then have d1': "d1 = d\<lparr>t_status_poll_option := t_status_poll_option d1,
      t_status_poll_vote := t_status_poll_vote d @ map (new_vote new_id now i l r ap) cs\<rparr>" by blast
  have polls: "t_status_poll d1 = t_status_poll d" by (subst d1') simp
  have "d' = d\<lparr>t_status_poll := tbl_update (\<lambda>q. sp_id q = i) (count_voter (existing = []) now) (t_status_poll d),
      t_status_poll_option := t_status_poll_option d1,
      t_status_poll_vote := t_status_poll_vote d @ map (new_vote new_id now i l r ap) cs\<rparr>"
    unfolding d' p polls by (subst d1') simp
  moreover have "tallies_ok (t_status_poll d) (t_status_poll_option d1) (t_status_poll_vote d')"
    using cast polls by (simp add: d')
  ultimately show thesis using that checks nn ok(3) by blast
qed

lemma update_polls_ids:
  assumes "\<And>p. sp_id (f p) = sp_id p" and "\<And>p. sp_local_status_id (f p) = sp_local_status_id p"
  shows "sp_id ` set (tbl_update q f ps) = sp_id ` set ps"
    and "is_local_poll (tbl_update q f ps) j \<longleftrightarrow> is_local_poll ps j"
proof -
  show "sp_id ` set (tbl_update q f ps) = sp_id ` set ps"
    unfolding tbl_update_def set_map image_image by (rule image_cong) (simp_all add: assms)
  have "(\<lambda>p. (sp_id p, sp_local_status_id p)) ` set (tbl_update q f ps) = (\<lambda>p. (sp_id p, sp_local_status_id p)) ` set ps"
    unfolding tbl_update_def set_map image_image by (rule image_cong) (simp_all add: assms)
  moreover have "is_local_poll xs j \<longleftrightarrow> (\<exists>x \<in> (\<lambda>p. (sp_id p, sp_local_status_id p)) ` set xs. fst x = j \<and> snd x \<noteq> None)" for xs
    by (simp add: is_local_poll_def)
  ultimately show "is_local_poll (tbl_update q f ps) j \<longleftrightarrow> is_local_poll ps j" by (simp only:)
qed

lemma update_polls_ok:
  assumes "tbl_ok sp_conflict ps" and "\<And>p. sp_id (f p) = sp_id p"
    and "\<And>p. sp_local_status_id (f p) = sp_local_status_id p"
    and "\<And>p. sp_remote_status_id (f p) = sp_remote_status_id p"
  shows "tbl_ok sp_conflict (tbl_update q f ps)"
  using assms(1) by (rule sp_tbl.ok_update_same_keys) (simp add: sp_conflict_def assms(2-4))

lemma tallies_ok_update_polls:
  assumes "tallies_ok ps os vs" and "\<And>p. sp_id (f p) = sp_id p"
    and "\<And>p. sp_local_status_id (f p) = sp_local_status_id p"
    and "\<And>p. sp_remote_status_id (f p) = sp_remote_status_id p"
  shows "tallies_ok (tbl_update q f ps) os vs"
  using assms(1) update_polls_ok [of ps f q, OF _ assms(2-4)]
  by (simp add: tallies_ok_def update_polls_ids [OF assms(2,3)])

lemma poll_voters_Cons:
  "poll_voters (v # vs) i = (if spv_poll_id v = i then insert (voter_of v) (poll_voters vs i) else poll_voters vs i)"
  by (auto simp: poll_voters_def)

lemma poll_voters_append:
  "poll_voters (vs @ ws) i = poll_voters vs i \<union> poll_voters ws i"
  by (auto simp: poll_voters_def)

lemma poll_voters_new:
  "poll_voters (map (new_vote new_id now i l r ap) cs) j = (if j = i \<and> cs \<noteq> [] then {(l, r)} else {})"
proof (induction cs)
  case (Cons c cs)
  then show ?case by (cases "j = i") (auto simp: poll_voters_Cons split: if_splits)
qed (simp add: poll_voters_def)

lemma finite_poll_voters [simp]: "finite (poll_voters vs i)"
  by (simp add: poll_voters_def)

lemma vote_keeps_polls_ok:
  assumes "vote new_id now i l r choices ap d = Inr (d', poll)" and "polls_ok d"
  shows "polls_ok d'"
proof -
  let ?vs = "t_status_poll_vote d" and ?new = "map (new_vote new_id now i l r ap) (sort_dedup choices)"
  obtain p existing os where checks: "vote_checks now i l r choices d = Inr (p, existing, sort_dedup choices)"
    and d': "d' = d\<lparr>t_status_poll := tbl_update (\<lambda>q. sp_id q = i) (count_voter (existing = []) now) (t_status_poll d),
      t_status_poll_option := os, t_status_poll_vote := ?vs @ ?new\<rparr>"
    and tallies: "tallies_ok (t_status_poll d) os (t_status_poll_vote d')"
    and nn: "\<not> (case sp_voters_count (count_voter (existing = []) now p) of None \<Rightarrow> False | Some n \<Rightarrow> n < 0)"
    using assms by (rule vote_cases)
  note ok = vote_checks_ok [OF checks]
  have p: "p \<in> set (t_status_poll d)" "sp_id p = i"
    using ok(1) find_Some_mem by (fastforce simp: find_poll_row_def)+
  have tallies': "tallies_ok (t_status_poll d') (t_status_poll_option d') (t_status_poll_vote d')"
    using tallies_ok_update_polls [OF tallies, of "count_voter (existing = []) now"]
    by (simp add: d' count_voter_def)
  have voter: "(l, r) \<in> poll_voters ?vs i \<longleftrightarrow> existing \<noteq> []"
  proof -
    have one: "one_voter v" if "v \<in> set ?vs" for v
      using polls_okD(4) [OF assms(2)] that by (simp add: tallies_ok_def)
    have "v \<in> set existing \<longleftrightarrow> v \<in> set ?vs \<and> spv_poll_id v = i \<and> voter_of v = (l, r)" for v
      using ok(5) one [of v] unfolding ok(6) by (cases "l = None") (auto simp: voter_of_def one_voter_def)
    moreover have "existing \<noteq> [] \<longleftrightarrow> (\<exists>v. v \<in> set existing)" by (cases existing) auto
    ultimately show ?thesis by (simp add: poll_voters_def image_iff) metis
  qed
  have ball: "ballots_ok q (?vs @ ?new)" if "q \<in> set (t_status_poll d)" "sp_id q \<noteq> i" for q
    using polls_okD(5) [OF assms(2) that(1)] that(2) ballots_ok_cong [of q "?vs @ ?new" ?vs]
    by (simp add: filter_empty_conv)
  have old: "ballots_ok p ?vs" by (rule polls_okD(5) [OF assms(2) p(1)])
  have "ballots_ok (count_voter (existing = []) now p) (?vs @ ?new)"
    unfolding ballots_ok_def
  proof (intro conjI impI ballI)
    have range: "in_i64 n \<and> (existing = [] \<longrightarrow> wrap_i64 (n + 1) = n + 1 \<and> in_i64 (n + 1))"
      if "sp_voters_count p = Some n" for n
      using old nn that wrap_i64_succ [of n] by (auto simp: ballots_ok_def count_voter_def)
    show "case sp_voters_count (count_voter (existing = []) now p) of None \<Rightarrow> True | Some n \<Rightarrow> in_i64 n"
      using range by (auto simp: count_voter_def split: option.split)
    assume "sp_local_status_id (count_voter (existing = []) now p) \<noteq> None"
    then have n: "sp_voters_count p = Some (int (card (poll_voters ?vs i)))"
      using old p(2) by (simp add: ballots_ok_def count_voter_def)
    show "sp_voters_count (count_voter (existing = []) now p) =
        Some (int (card (poll_voters (?vs @ ?new) (sp_id (count_voter (existing = []) now p)))))"
      using n range [OF n] voter ok(4)
      by (auto simp: count_voter_def p(2) poll_voters_append poll_voters_new insert_absorb)
  next
    fix v w assume single: "\<not> sp_multiple (count_voter (existing = []) now p)"
      and mem: "v \<in> set (?vs @ ?new)" "w \<in> set (?vs @ ?new)"
      and same: "spv_poll_id v = sp_id (count_voter (existing = []) now p) \<and>
        spv_poll_id w = sp_id (count_voter (existing = []) now p) \<and> voter_of v = voter_of w"
    have e: "existing = []" "length (sort_dedup choices) = 1" using ok(7) single by (auto simp: count_voter_def)
    then obtain c where c: "sort_dedup choices = [c]" by (auto simp: length_Suc_conv)
    have polls: "spv_poll_id v = i" "spv_poll_id w = i" using same p(2) by (simp_all add: count_voter_def)
    have notin: "voter_of u \<noteq> (l, r)" if "u \<in> set ?vs" "spv_poll_id u = i" for u
      using voter e that by (force simp: poll_voters_def)
    have "v = w" if "v \<in> set ?vs" "w \<in> set ?vs"
      using old single same polls that by (auto simp: ballots_ok_def count_voter_def)
    then show "v = w" using mem c polls same notin [of v] notin [of w] by auto
  qed
  then have "\<forall>q \<in> set (t_status_poll d'). ballots_ok q (t_status_poll_vote d')"
    using ball poll_unique [OF polls_okD(1) [OF assms(2)] _ p(1)] p(2) by (auto simp: d' set_tbl_update)
  moreover have "\<forall>q \<in> set (t_status_poll d'). one_status q"
    using polls_okD(6) [OF assms(2)] by (auto simp: d' set_tbl_update one_status_def count_voter_def)
  ultimately show ?thesis using tallies' by (simp add: polls_ok_def)
qed

subsection \<open>Creating, editing and refreshing\<close>

lemma enqueue_poll_expiration_frame:
  assumes "enqueue_poll_expiration ids j n i t d = Inr d'"
  shows "t_status_poll d' = t_status_poll d" "t_status_poll_option d' = t_status_poll_option d"
    "t_status_poll_vote d' = t_status_poll_vote d" "t_local_notification d' = t_local_notification d"
    "t_local_status d' = t_local_status d" "t_local_account d' = t_local_account d"
  using assms by (auto simp: enqueue_poll_expiration_def enqueue_job_in_transaction_def
      enqueue_job_on_connection_def Let_def bind_res_Inr_iff)

lemma filter_delete_votes:
  "j \<noteq> i \<Longrightarrow> filter (\<lambda>v. spv_poll_id v = j) (tbl_delete (\<lambda>v. spv_poll_id v = i) vs) = filter (\<lambda>v. spv_poll_id v = j) vs"
  by (auto simp: tbl_delete_def intro: filter_cong)

lemma ballots_ok_no_votes:
  assumes "case sp_voters_count p of None \<Rightarrow> True | Some n \<Rightarrow> in_i64 n"
    and "sp_local_status_id p \<noteq> None \<longrightarrow> sp_voters_count p = Some 0"
    and "\<forall>v \<in> set vs. spv_poll_id v \<noteq> sp_id p"
  shows "ballots_ok p vs"
proof -
  have "filter (\<lambda>v. spv_poll_id v = sp_id p) vs = []" using assms(3) by (simp add: filter_empty_conv)
  then show ?thesis using assms(1,2) by (simp add: ballots_ok_alt Let_def)
qed

text \<open>A poll whose options have been replaced: its votes are gone and its counters restart.\<close>

lemma polls_ok_replaced:
  assumes "polls_ok d" and "replace_options i opts b = Inr d1"
    and "t_status_poll_option b = t_status_poll_option d \<and>
      (t_status_poll_vote b = t_status_poll_vote d \<or>
       t_status_poll_vote b = tbl_delete (\<lambda>v. spv_poll_id v = i) (t_status_poll_vote d))"
    and "tbl_ok sp_conflict ps'" and "p \<in> set ps'" and "sp_id p = i"
    and "set ps' \<subseteq> insert p (set (t_status_poll d))" and "sp_id ` set (t_status_poll d) \<subseteq> sp_id ` set ps'"
    and "is_local_poll ps' i \<longrightarrow> (\<forall>x \<in> set opts. snd x = 0)"
    and "case sp_voters_count p of None \<Rightarrow> True | Some n \<Rightarrow> in_i64 n"
    and "sp_local_status_id p \<noteq> None \<longrightarrow> sp_voters_count p = Some 0"
    and "d' = d1\<lparr>t_status_poll := ps'\<rparr>" and "one_status p"
  shows "polls_ok d'"
proof -
  let ?os = "t_status_poll_option d" and ?vs = "t_status_poll_vote d"
  have tallies: "tallies_ok (t_status_poll d) ?os ?vs" by (rule polls_okD(4) [OF assms(1)])
  have refs: "\<forall>v \<in> set (t_status_poll_vote b). spv_poll_id v = i \<longrightarrow> vote_key v \<in> spo_key ` set (t_status_poll_option b)"
    using tallies assms(3) by (auto simp: tallies_ok_def)
  obtain rows where d1: "d1 = b\<lparr>t_status_poll_option := tbl_delete (\<lambda>o'. spo_poll_id o' = i) (t_status_poll_option b) @ rows,
      t_status_poll_vote := tbl_delete (\<lambda>v. spv_poll_id v = i) (t_status_poll_vote b)\<rparr>"
    and rows: "tbl_ok spo_conflict (t_status_poll_option b) \<longrightarrow>
        tbl_ok spo_conflict (tbl_delete (\<lambda>o'. spo_poll_id o' = i) (t_status_poll_option b) @ rows)"
      "\<forall>r \<in> set rows. spo_poll_id r = i \<and> in_i64 (spo_votes_count r) \<and>
         ((\<forall>x \<in> set opts. snd x = 0) \<longrightarrow> spo_votes_count r = 0)"
    by (rule replace_options_cases [OF assms(2) disjI2 [OF refs]])
  have tables: "t_status_poll d' = ps'" "t_status_poll_option d' = tbl_delete (\<lambda>o'. spo_poll_id o' = i) ?os @ rows"
    "t_status_poll_vote d' = tbl_delete (\<lambda>v. spv_poll_id v = i) ?vs"
    using assms(3) by (auto simp: assms(12) d1 tbl_delete_def)
  have loc: "is_local_poll ps' j \<longleftrightarrow> is_local_poll (t_status_poll d) j" if "j \<noteq> i" for j
  proof
    show "is_local_poll ps' j \<Longrightarrow> is_local_poll (t_status_poll d) j"
      using assms(6,7) that by (auto simp: is_local_poll_def)
    assume "is_local_poll (t_status_poll d) j"
    then obtain q where q: "q \<in> set (t_status_poll d)" "sp_id q = j" "sp_local_status_id q \<noteq> None"
      by (auto simp: is_local_poll_def)
    then obtain q' where q': "q' \<in> set ps'" "sp_id q' = j" using assms(8) by force
    then have "q' \<in> set (t_status_poll d)" using assms(6,7) that by auto
    then have "q' = q" using poll_unique [OF polls_okD(1) [OF assms(1)]] q(1,2) q'(2) by simp
    then show "is_local_poll ps' j" using q q' by (auto simp: is_local_poll_def)
  qed
  have "tallies_ok ps' (tbl_delete (\<lambda>o'. spo_poll_id o' = i) ?os @ rows) (tbl_delete (\<lambda>v. spv_poll_id v = i) ?vs)"
    using rows assms(3,5,6,9) polls_okD(2) [OF assms(1)]
    by (intro tallies_ok_replaced [OF tallies assms(4) _ assms(8) loc]) auto
  moreover have "ballots_ok q (tbl_delete (\<lambda>v. spv_poll_id v = i) ?vs)" if "q \<in> set ps'" for q
  proof (cases "sp_id q = i")
    case True
    then have "q = p" using poll_unique [OF assms(4) that assms(5)] assms(6) by simp
    then show ?thesis using assms(6,10,11) by (intro ballots_ok_no_votes) auto
  next
    case False
    then have "q \<in> set (t_status_poll d)" using assms(6,7) that by auto
    then show ?thesis
      using polls_okD(5) [OF assms(1)] ballots_ok_cong [OF filter_delete_votes [OF False]] by blast
  qed
  moreover have "one_status q" if "q \<in> set ps'" for q
    using that assms(7,13) polls_okD(6) [OF assms(1)] by auto
  ultimately show ?thesis by (simp add: polls_ok_def tables)
qed

lemma create_keeps_polls_ok:
  assumes "create_local_poll gr ids i j n now s input d = Inr (d', poll)" and "polls_ok d"
  shows "polls_ok d'"
proof -
  obtain e where e: "checked_add_seconds now (nsp_expires_in input) = Inr e"
    using assms(1) by (auto simp: create_local_poll_def bind_res_Inr_iff)
  define row where "row = \<lparr> sp_id = i, sp_local_status_id = Some s, sp_remote_status_id = None,
    sp_multiple = nsp_multiple input, sp_hide_totals = nsp_hide_totals input,
    sp_expires_at = Some e, sp_closed_at = None, sp_notifications_sent_at = None,
    sp_voters_count = Some 0, sp_created_at = now, sp_updated_at = now \<rparr>"
  obtain d1 where ins: "tbl_insert sp_conflict row (t_status_poll d) = Inr (t_status_poll d @ [row])"
    and d1: "replace_options i (map (\<lambda>t. (t, 0)) (nsp_options input)) (d\<lparr>t_status_poll := t_status_poll d @ [row]\<rparr>) = Inr d1"
    and d': "enqueue_poll_expiration ids j n i e d1 = Inr d'"
    using assms(1) unfolding create_local_poll_def e row_def [symmetric]
    by (auto simp: bind_res_Inr_iff tbl_insert_Inr e row_def [symmetric])
  have "t_status_poll d1 = t_status_poll d @ [row]"
    using d1 by (auto simp: replace_options_def Let_def bind_res_Inr_iff delete_poll_options_def)
  then have d1': "d1 = d1\<lparr>t_status_poll := t_status_poll d @ [row]\<rparr>" by simp
  have "tbl_ok sp_conflict (t_status_poll d @ [row])" by (rule sp_tbl.ok_insert [OF ins polls_okD(1) [OF assms(2)]])
  then have "polls_ok d1"
    by (intro polls_ok_replaced [OF assms(2) d1 _ _ _ _ _ _ _ _ _ d1', of row])
       (auto simp: row_def in_i64_def i64_max_def one_status_def)
  then show ?thesis using polls_ok_cong [of d' d1] enqueue_poll_expiration_frame [OF d'] by simp
qed

lemma delete_keeps_polls_ok:
  assumes "polls_ok d"
  shows "polls_ok (delete_poll i d)"
proof -
  let ?ps = "t_status_poll d" and ?os = "t_status_poll_option d" and ?vs = "t_status_poll_vote d"
  have t: "tallies_ok ?ps ?os ?vs" by (rule polls_okD(4) [OF assms])
  have count: "votes_for (tbl_delete (\<lambda>v. spv_poll_id v = i) ?vs) (j, k) = votes_for ?vs (j, k)" if "j \<noteq> i" for j k
    using that by (auto simp: votes_for_def tbl_delete_def vote_key_def intro: arg_cong [of _ _ length] filter_cong)
  have "tallies_ok (tbl_delete (\<lambda>p. sp_id p = i) ?ps) (tbl_delete (\<lambda>o'. spo_poll_id o' = i) ?os)
      (tbl_delete (\<lambda>v. spv_poll_id v = i) ?vs)"
    unfolding tallies_ok_def
  proof (intro conjI ballI impI)
    show "tbl_ok sp_conflict (tbl_delete (\<lambda>p. sp_id p = i) ?ps)"
      "tbl_ok spo_conflict (tbl_delete (\<lambda>o'. spo_poll_id o' = i) ?os)"
      "tbl_ok spv_conflict (tbl_delete (\<lambda>v. spv_poll_id v = i) ?vs)"
      using t by (auto simp: tallies_ok_def intro: sp_tbl.ok_delete spo_tbl.ok_delete spv_tbl.ok_delete)
  next
    fix o' assume o: "o' \<in> set (tbl_delete (\<lambda>o'. spo_poll_id o' = i) ?os)"
    then show "spo_poll_id o' \<in> sp_id ` set (tbl_delete (\<lambda>p. sp_id p = i) ?ps)" and "in_i64 (spo_votes_count o')"
      using t by (force simp: tallies_ok_def)+
    assume "is_local_poll (tbl_delete (\<lambda>p. sp_id p = i) ?ps) (spo_poll_id o')"
    then have "is_local_poll ?ps (spo_poll_id o')" by (auto simp: is_local_poll_def)
    then show "spo_votes_count o' = int (votes_for (tbl_delete (\<lambda>v. spv_poll_id v = i) ?vs) (spo_key o'))"
      using o t count by (auto simp: tallies_ok_def spo_key_def)
  next
    fix v assume "v \<in> set (tbl_delete (\<lambda>v. spv_poll_id v = i) ?vs)"
    then show "vote_key v \<in> spo_key ` set (tbl_delete (\<lambda>o'. spo_poll_id o' = i) ?os)" and "one_voter v"
      using t by (force simp: tallies_ok_def vote_key_def spo_key_def image_iff)+
  qed
  moreover have "ballots_ok p (tbl_delete (\<lambda>v. spv_poll_id v = i) ?vs)" if "p \<in> set ?ps" "sp_id p \<noteq> i" for p
    using polls_okD(5) [OF assms that(1)] ballots_ok_cong [OF filter_delete_votes [OF that(2)]] by blast
  ultimately show ?thesis using polls_okD(6) [OF assms] by (simp add: polls_ok_def delete_poll_def)
qed

text \<open>Changes of a poll row that touch neither its identity nor its counters.\<close>

lemma update_row_keeps_polls_ok:
  assumes "polls_ok d" and "t_status_poll d' = tbl_update q f (t_status_poll d)"
    and "t_status_poll_option d' = t_status_poll_option d" and "t_status_poll_vote d' = t_status_poll_vote d"
    and "\<And>p. sp_id (f p) = sp_id p" and "\<And>p. sp_local_status_id (f p) = sp_local_status_id p"
    and "\<And>p. sp_remote_status_id (f p) = sp_remote_status_id p"
    and "\<And>p. p \<in> set (t_status_poll d) \<Longrightarrow> q p \<Longrightarrow> sp_multiple (f p) = sp_multiple p"
    and "\<And>p. sp_voters_count (f p) = sp_voters_count p"
  shows "polls_ok d'"
proof -
  have "tallies_ok (t_status_poll d') (t_status_poll_option d') (t_status_poll_vote d')"
    unfolding assms(2-4) by (rule tallies_ok_update_polls [OF polls_okD(4) [OF assms(1)] assms(5-7)])
  moreover have "ballots_ok (f p) (t_status_poll_vote d)" if "p \<in> set (t_status_poll d)" "q p" for p
    using polls_okD(5) [OF assms(1) that(1)] assms(8) [OF that] by (simp add: ballots_ok_alt assms(5,6,9))
  moreover have "one_status (f p)" if "p \<in> set (t_status_poll d)" for p
    using polls_okD(6) [OF assms(1) that] by (simp add: one_status_def assms(6,7))
  ultimately show ?thesis
    using polls_okD(5,6) [OF assms(1)] by (auto simp: polls_ok_def assms(2,4) set_tbl_update)
qed

text \<open>Replacing the row of a poll by one with the same identity.\<close>

lemma replaced_row_table:
  assumes "tbl_ok sp_conflict ps" and "p \<in> set ps" and "\<And>p. sp_id (f p) = sp_id p"
    and "\<And>p. sp_local_status_id (f p) = sp_local_status_id p"
    and "\<And>p. sp_remote_status_id (f p) = sp_remote_status_id p"
  defines "ps' \<equiv> tbl_update (\<lambda>r. sp_id r = sp_id p) f ps"
  shows "tbl_ok sp_conflict ps'" and "f p \<in> set ps'" and "set ps' \<subseteq> insert (f p) (set ps)"
    and "sp_id ` set ps \<subseteq> sp_id ` set ps'" and "is_local_poll ps' i \<longleftrightarrow> is_local_poll ps i"
proof -
  show "tbl_ok sp_conflict ps'" unfolding ps'_def by (rule update_polls_ok [OF assms(1,3-5)])
  show "f p \<in> set ps'" using assms(2) by (auto simp: ps'_def set_tbl_update)
  show "set ps' \<subseteq> insert (f p) (set ps)"
    using poll_unique [OF assms(1) _ assms(2)] by (auto simp: ps'_def set_tbl_update)
  show "sp_id ` set ps \<subseteq> sp_id ` set ps'" "is_local_poll ps' i \<longleftrightarrow> is_local_poll ps i"
    unfolding ps'_def using update_polls_ids [OF assms(3,4)] by simp_all
qed

lemma local_poll_is_local:
  assumes "List.find (\<lambda>p. sp_local_status_id p = Some s) ps = Some p"
  shows "p \<in> set ps" and "sp_local_status_id p = Some s"
  using find_Some_mem [OF assms] by auto

lemma edit_keeps_polls_ok:
  assumes "replace_local_poll gr ids i j n now s input d = Inr (d', poll)" and "polls_ok d"
  shows "polls_ok d'"
proof (cases input)
  case None
  then show ?thesis
    using assms delete_keeps_polls_ok by (auto simp: replace_local_poll_def split: option.splits)
next
  case (Some inp)
  let ?find = "List.find (\<lambda>p. sp_local_status_id p = Some s) (t_status_poll d)"
  show ?thesis
  proof (cases ?find)
    case None
    then show ?thesis
      using assms create_keeps_polls_ok by (auto simp: replace_local_poll_def Some bind_res_Inr_iff)
  next
    case (Some p)
    note p = local_poll_is_local [OF Some]
    let ?ch = "local_poll_changed inp p d"
    obtain e d1 where d1: "(if ?ch then replace_options (sp_id p) (map (\<lambda>t. (t, 0)) (nsp_options inp))
          (delete_poll_votes (sp_id p) d) else Inr d) = Inr d1"
      and d': "enqueue_poll_expiration ids j n (sp_id p) e
          (d1\<lparr>t_status_poll := tbl_update (\<lambda>r. sp_id r = sp_id p) (edit_poll_row ?ch now e inp) (t_status_poll d1)\<rparr>) = Inr d'"
      using assms(1) by (auto simp: replace_local_poll_def \<open>input = Some inp\<close> Some bind_res_Inr_iff Let_def)
    let ?d2 = "d1\<lparr>t_status_poll := tbl_update (\<lambda>r. sp_id r = sp_id p) (edit_poll_row ?ch now e inp) (t_status_poll d1)\<rparr>"
    have "polls_ok ?d2"
    proof (cases ?ch)
      case True
      have d1': "replace_options (sp_id p) (map (\<lambda>t. (t, 0)) (nsp_options inp)) (delete_poll_votes (sp_id p) d) = Inr d1"
        using d1 True by simp
      have "t_status_poll d1 = t_status_poll d"
        using d1' by (auto simp: replace_options_def Let_def bind_res_Inr_iff delete_poll_options_def delete_poll_votes_def)
      then have d2: "?d2 = d1\<lparr>t_status_poll := tbl_update (\<lambda>r. sp_id r = sp_id p) (edit_poll_row ?ch now e inp) (t_status_poll d)\<rparr>"
        by simp
      note tab = replaced_row_table [OF polls_okD(1) [OF assms(2)] p(1), of "edit_poll_row ?ch now e inp"]
      show ?thesis
        by (rule polls_ok_replaced [OF assms(2) d1' _ tab(1,2) _ tab(3,4) _ _ _ d2])
           (use polls_okD(6) [OF assms(2) p(1)] in
             \<open>auto simp: edit_poll_row_def delete_poll_votes_def True in_i64_def i64_max_def one_status_def\<close>)
    next
      case False
      then have "d1 = d" using d1 by simp
      then show ?thesis
        using False poll_unique [OF polls_okD(1) [OF assms(2)] _ p(1)]
        by (intro update_row_keeps_polls_ok [OF assms(2), of _ "\<lambda>r. sp_id r = sp_id p" "edit_poll_row ?ch now e inp"])
           (auto simp: edit_poll_row_def local_poll_changed_def)
    qed
    then show ?thesis using polls_ok_cong [of d' ?d2] enqueue_poll_expiration_frame [OF d'] by simp
  qed
qed

lemma store_remote_keeps_polls_ok:
  assumes "store_remote_poll i now s input d = Inr (d', k)" and "polls_ok d"
  shows "polls_ok d'"
proof -
  have count: "case map_option u64_as_i64 (rsp_voters_count input) of None \<Rightarrow> True | Some n \<Rightarrow> in_i64 n"
    if "\<not> (case rsp_voters_count input of None \<Rightarrow> False | Some n \<Rightarrow> u64_as_i64 n < 0)"
    using that u64_as_i64_in by (auto split: option.splits)
  show ?thesis
  proof (cases "List.find (\<lambda>p. sp_remote_status_id p = Some s) (t_status_poll d)")
    case None
    define row where "row = \<lparr> sp_id = i, sp_local_status_id = None, sp_remote_status_id = Some s,
      sp_multiple = rsp_multiple input, sp_hide_totals = False, sp_expires_at = rsp_expires_at input,
      sp_closed_at = rsp_closed_at input, sp_notifications_sent_at = None,
      sp_voters_count = map_option u64_as_i64 (rsp_voters_count input), sp_created_at = now, sp_updated_at = now \<rparr>"
    have ins: "tbl_insert sp_conflict row (t_status_poll d) = Inr (t_status_poll d @ [row])"
      and d1: "replace_options i (rsp_options input) (d\<lparr>t_status_poll := t_status_poll d @ [row]\<rparr>) = Inr d'"
      and nn: "\<not> (case rsp_voters_count input of None \<Rightarrow> False | Some n \<Rightarrow> u64_as_i64 n < 0)"
      using assms(1) unfolding store_remote_poll_def None row_def [symmetric]
      by (auto simp: bind_res_Inr_iff tbl_insert_Inr row_def [symmetric] split: if_splits)
    have "t_status_poll d' = t_status_poll d @ [row]"
      using d1 by (auto simp: replace_options_def Let_def bind_res_Inr_iff delete_poll_options_def)
    then have d': "d' = d'\<lparr>t_status_poll := t_status_poll d @ [row]\<rparr>" by simp
    have ok: "tbl_ok sp_conflict (t_status_poll d @ [row])" by (rule sp_tbl.ok_insert [OF ins polls_okD(1) [OF assms(2)]])
    have remote: "\<not> is_local_poll (t_status_poll d @ [row]) i"
    proof
      assume "is_local_poll (t_status_poll d @ [row]) i"
      then obtain q where q: "q \<in> set (t_status_poll d @ [row])" "sp_id q = i" "sp_local_status_id q \<noteq> None"
        unfolding is_local_poll_def by blast
      have "q = row" by (rule poll_unique [OF ok q(1)]) (simp_all add: q(2) row_def)
      then show False using q(3) by (simp add: row_def)
    qed
    show ?thesis
      by (rule polls_ok_replaced [OF assms(2) d1 _ ok _ _ _ _ _ _ _ d', of row])
         (use count [OF nn] remote in \<open>auto simp: row_def one_status_def\<close>)
  next
    case (Some p)
    then have p: "p \<in> set (t_status_poll d)" "sp_remote_status_id p = Some s" using find_Some_mem by fast+
    obtain b d1 where b: "b = d \<or> b = delete_poll_votes (sp_id p) d"
      and d1: "replace_options (sp_id p) (rsp_options input) b = Inr d1"
      and d': "d' = d1\<lparr>t_status_poll := tbl_update (\<lambda>r. sp_id r = sp_id p) (remote_poll_row now input) (t_status_poll d1)\<rparr>"
      and nn: "\<not> (case rsp_voters_count input of None \<Rightarrow> False | Some n \<Rightarrow> u64_as_i64 n < 0)"
      using assms(1) unfolding store_remote_poll_def Some Let_def
      by (auto simp: bind_res_Inr_iff split: if_splits)
    have "t_status_poll d1 = t_status_poll d"
      using d1 b by (auto simp: replace_options_def Let_def bind_res_Inr_iff delete_poll_options_def delete_poll_votes_def)
    then have d2: "d' = d1\<lparr>t_status_poll := tbl_update (\<lambda>r. sp_id r = sp_id p) (remote_poll_row now input) (t_status_poll d)\<rparr>"
      using d' by simp
    have loc: "sp_local_status_id p = None" using polls_okD(6) [OF assms(2) p(1)] p(2) by (simp add: one_status_def)
    let ?f = "remote_poll_row now input"
    have keys: "sp_id (?f q) = sp_id q" "sp_local_status_id (?f q) = sp_local_status_id q"
      "sp_remote_status_id (?f q) = sp_remote_status_id q" for q by (simp_all add: remote_poll_row_def)
    note tab = replaced_row_table [OF polls_okD(1) [OF assms(2)] p(1), of ?f, OF keys]
    have remote: "\<not> is_local_poll (t_status_poll d) (sp_id p)"
    proof
      assume "is_local_poll (t_status_poll d) (sp_id p)"
      then obtain q where q: "q \<in> set (t_status_poll d)" "sp_id q = sp_id p" "sp_local_status_id q \<noteq> None"
        unfolding is_local_poll_def by blast
      have "q = p" by (rule poll_unique [OF polls_okD(1) [OF assms(2)] q(1) p(1) q(2)])
      then show False using q(3) loc by simp
    qed
    show ?thesis
    proof (rule polls_ok_replaced [OF assms(2) d1 _ tab(1,2) _ tab(3,4) _ _ _ d2])
      show "t_status_poll_option b = t_status_poll_option d \<and> (t_status_poll_vote b = t_status_poll_vote d \<or>
        t_status_poll_vote b = tbl_delete (\<lambda>v. spv_poll_id v = sp_id p) (t_status_poll_vote d))"
        using b by (auto simp: delete_poll_votes_def)
      show "sp_id (?f p) = sp_id p" by (rule keys)
      show "one_status (?f p)" "sp_local_status_id (?f p) \<noteq> None \<longrightarrow> sp_voters_count (?f p) = Some 0"
        using loc p(2) by (simp_all add: one_status_def keys)
      show "case sp_voters_count (?f p) of None \<Rightarrow> True | Some n \<Rightarrow> in_i64 n"
        using count [OF nn] by (simp add: remote_poll_row_def)
      show "is_local_poll (tbl_update (\<lambda>r. sp_id r = sp_id p) ?f (t_status_poll d)) (sp_id p) \<longrightarrow>
          (\<forall>x \<in> set (rsp_options input). snd x = 0)"
        using remote tab(5) by simp
    qed
  qed
qed

lemma refresh_keeps_polls_ok:
  assumes "upsert_remote_poll ids i j n now s input d = Inr (d', poll)" and "polls_ok d"
  shows "polls_ok d'"
proof -
  obtain d1 k where d1: "store_remote_poll i now s input d = Inr (d1, k)"
    and d': "(case or_else (rsp_closed_at input) (rsp_expires_at input) of None \<Rightarrow> Inr d1
       | Some e \<Rightarrow> bind_res (checked_add_seconds e five_minutes) (\<lambda>t. enqueue_poll_expiration ids j n k t d1)) = Inr d'"
    using assms(1) by (auto simp: upsert_remote_poll_def bind_res_Inr_iff split: if_splits)
  have "d' = d1 \<or> (\<exists>t. enqueue_poll_expiration ids j n k t d1 = Inr d')"
    using d' by (auto simp: bind_res_Inr_iff split: option.splits)
  then show ?thesis
    using store_remote_keeps_polls_ok [OF d1 assms(2)] polls_ok_cong [of d' d1] enqueue_poll_expiration_frame
    by metis
qed

subsection \<open>Expiration\<close>

lemma insert_notification_cases:
  assumes "insert_local_notification ids jn n x d = Inr d'"
  obtains jobs where "d' = d\<lparr>t_local_notification := t_local_notification d @ [x], t_job := jobs\<rparr>"
    and "\<forall>y \<in> set (t_local_notification d). \<not> ln_conflict x y"
proof -
  have "\<forall>y \<in> set (t_local_notification d). \<not> ln_conflict x y"
    using assms by (auto simp: insert_local_notification_def bind_res_Inr_iff tbl_insert_Inr)
  moreover have "\<exists>jobs. d' = d\<lparr>t_local_notification := t_local_notification d @ [x], t_job := jobs\<rparr>"
    using assms
    by (auto simp: insert_local_notification_def bind_res_Inr_iff tbl_insert_Inr Let_def split: if_splits
        intro: exI [of _ "t_job d"])
  ultimately show thesis using that by blast
qed

lemma notify_recipients_cases:
  assumes "notify_recipients ids new_id jn n now origin as d = Inr (d', ns)"
  shows "ns = map (poll_notification new_id now origin) as \<and>
    (\<exists>jobs. d' = d\<lparr>t_local_notification := t_local_notification d @ ns, t_job := jobs\<rparr>)"
  using assms
proof (induction as arbitrary: d ns)
  case Nil
  then show ?case by (auto intro: exI [of _ "t_job d"])
next
  case (Cons a as)
  let ?x = "poll_notification new_id now origin a"
  obtain d1 ms where d1: "insert_local_notification ids (jn a) n ?x d = Inr d1"
    and rest: "notify_recipients ids new_id jn n now origin as d1 = Inr (d', ms)" and ns: "ns = ?x # ms"
    using Cons.prems by (auto simp: Let_def bind_res_Inr_iff)
  obtain jobs where d1': "d1 = d\<lparr>t_local_notification := t_local_notification d @ [?x], t_job := jobs\<rparr>"
    using d1 by (rule insert_notification_cases)
  from Cons.IH [OF rest] show ?case by (auto simp: ns d1')
qed

text \<open>The two outcomes of an expiration: nothing changes, or the poll is closed.\<close>

lemma expire_poll_cases:
  assumes "expire_poll ids new_id jn n now i d = Inr (d', res)"
  obtains (absent) "find_poll_row d i = None" "d' = d" "res = None"
  | (unchanged) p e where "find_poll_row d i = Some p" "d' = d" "res = Some e" "\<not> pe_newly_expired e"
      "pe_notifications e = []"
      "(\<exists>t. or_else (sp_closed_at p) (sp_expires_at p) = Some t \<and> now < t \<and> pe_next_attempt_at e = Some t) \<or>
       sp_notifications_sent_at p \<noteq> None \<and> pe_next_attempt_at e = None"
  | (expired) p e origin jobs where "find_poll_row d i = Some p" "res = Some e" "pe_newly_expired e"
      "sp_notifications_sent_at p = None" "poll_origin p d = Inr origin"
      "\<not> (case or_else (sp_closed_at p) (sp_expires_at p) of None \<Rightarrow> False | Some t \<Rightarrow> now < t)"
      "pe_notifications e = map (poll_notification new_id now origin) (poll_recipients origin i d)"
      "d' = d\<lparr>t_local_notification := t_local_notification d @ pe_notifications e, t_job := jobs,
         t_status_poll := tbl_update (\<lambda>r. sp_id r = i) (close_poll_row now) (t_status_poll d)\<rparr>"
proof (cases "find_poll_row d i")
  case None
  with assms have "d' = d" "res = None" by (simp_all add: expire_poll_def)
  then show thesis by (rule absent [OF None])
next
  case (Some p)
  then have pid: "sp_id p = i" using find_Some_mem by (fastforce simp: find_poll_row_def)
  let ?due = "or_else (sp_closed_at p) (sp_expires_at p)"
  show thesis
  proof (cases "case ?due of None \<Rightarrow> False | Some t \<Rightarrow> now < t")
    case True
    then obtain t where t: "?due = Some t" "now < t" by (auto split: option.splits)
    obtain e where e: "d' = d" "res = Some e" "\<not> pe_newly_expired e" "pe_notifications e = []"
        "pe_next_attempt_at e = Some t"
      using assms t by (auto simp: expire_poll_def Some bind_res_Inr_iff Let_def)
    show thesis by (rule unchanged [OF Some e(1-4)]) (use t e(5) in blast)
  next
    case due: False
    show thesis
    proof (cases "sp_notifications_sent_at p")
      case (Some t)
      then obtain e where e: "d' = d" "res = Some e" "\<not> pe_newly_expired e" "pe_notifications e = []"
          "pe_next_attempt_at e = None"
        using assms due by (auto simp: expire_poll_def \<open>find_poll_row d i = Some p\<close> Let_def bind_res_Inr_iff)
      show thesis by (rule unchanged [OF \<open>find_poll_row d i = Some p\<close> e(1-4)]) (use Some e(5) in blast)
    next
      case None
      obtain origin d1 ns e where o: "poll_origin p d = Inr origin"
        and d1: "notify_recipients ids new_id jn n now origin (poll_recipients origin i d) d = Inr (d1, ns)"
        and d': "d' = d1\<lparr>t_status_poll := tbl_update (\<lambda>r. sp_id r = sp_id p) (close_poll_row now) (t_status_poll d1)\<rparr>"
        and e: "res = Some e" "pe_newly_expired e" "pe_notifications e = ns"
        using assms due None by (auto simp: expire_poll_def Some Let_def bind_res_Inr_iff)
      obtain jobs where "d1 = d\<lparr>t_local_notification := t_local_notification d @ ns, t_job := jobs\<rparr>"
        and "ns = map (poll_notification new_id now origin) (poll_recipients origin i d)"
        using notify_recipients_cases [OF d1] by blast
      then show thesis using expired [OF Some e(1,2) None o due] d' e(3) pid by simp
    qed
  qed
qed

lemma expire_keeps_polls_ok:
  assumes "expire_poll ids new_id jn n now i d = Inr (d', res)" and "polls_ok d"
  shows "polls_ok d'"
  using assms(1)
proof (cases rule: expire_poll_cases)
  case (expired p e origin jobs)
  then show ?thesis
    by (intro update_row_keeps_polls_ok [OF assms(2), of _ "\<lambda>r. sp_id r = i" "close_poll_row now"])
       (simp_all add: close_poll_row_def)
qed (use assms(2) in simp_all)

subsection \<open>Steps\<close>

inductive poll_step :: "(ustring \<Rightarrow> nat) \<Rightarrow> (uuid \<Rightarrow> string) \<Rightarrow> db \<Rightarrow> db \<Rightarrow> bool"
  for graphemes :: "ustring \<Rightarrow> nat" and id_string :: "uuid \<Rightarrow> string" where
  create: "create_local_poll graphemes id_string i j n now s input d = Inr (d', poll) \<Longrightarrow>
    poll_step graphemes id_string d d'"
| vote_local: "vote_in_poll new_id now i a choices d = Inr (d', poll) \<Longrightarrow> poll_step graphemes id_string d d'"
| vote_remote: "record_remote_poll_vote new_id now i r c ap d = Inr (d', poll) \<Longrightarrow>
    poll_step graphemes id_string d d'"
| edit: "replace_local_poll graphemes id_string i j n now s change d = Inr (d', edited) \<Longrightarrow>
    poll_step graphemes id_string d d'"
| refresh: "upsert_remote_poll id_string i j n now s question d = Inr (d', poll) \<Longrightarrow>
    poll_step graphemes id_string d d'"
| expire: "expire_poll id_string nid jn n now i d = Inr (d', result) \<Longrightarrow> poll_step graphemes id_string d d'"
| elsewhere: "t_status_poll d' = t_status_poll d \<Longrightarrow> t_status_poll_option d' = t_status_poll_option d \<Longrightarrow>
    t_status_poll_vote d' = t_status_poll_vote d \<Longrightarrow> poll_step graphemes id_string d d'"

definition poll_init :: "db \<Rightarrow> bool" where
  "poll_init d \<longleftrightarrow> t_status_poll d = [] \<and> t_status_poll_option d = [] \<and> t_status_poll_vote d = []"

interpretation poll_sys: invariant_system poll_init "poll_step graphemes id_string" polls_ok
  for graphemes id_string
proof
  show "polls_ok d" if "poll_init d" for d
    using that by (simp add: poll_init_def polls_ok_def tallies_ok_def)
  show "polls_ok d'" if "poll_step graphemes id_string d d'" "polls_ok d" for d d'
    using that
  proof (cases rule: poll_step.cases)
    case elsewhere
    then show ?thesis using that(2) polls_ok_cong by blast
  qed (auto intro: create_keeps_polls_ok vote_keeps_polls_ok edit_keeps_polls_ok refresh_keeps_polls_ok
      expire_keeps_polls_ok simp: vote_in_poll_def record_remote_poll_vote_def)
qed

end
