(* ===== verification/Roosty_Poll_Properties.thy ===== *)
theory Roosty_Poll_Properties
  imports Roosty_Relation_Properties Roosty_Poll_Invariants
begin

text \<open>
  The properties of polls: what validation accepts, that displayed results count the stored
  ballots in every reachable state, that a voter has one ballot, that expiration notifies
  exactly once, that scheduled polls are read back as written, and two places where an edit or
  a refresh loses what the code means to keep.
\<close>

subsection \<open>Sample polls\<close>

definition demo_status :: local_status_row where
  "demo_status = \<lparr> ls_id = 70, ls_account_id = 1, ls_content = [], ls_visibility = Public,
     ls_sensitive = False, ls_spoiler_text = [], ls_language = None, ls_in_reply_to_id = None,
     ls_in_reply_to_remote_status_id = None, ls_conversation_id = None, ls_created_at = 0,
     ls_updated_at = 0, ls_deleted_at = None, ls_quote_approval_policy = QuotePublic \<rparr>"

definition demo_question :: new_status_poll where
  "demo_question = \<lparr> nsp_options = [[97], [32, 98, 32]], nsp_expires_in = 300, nsp_multiple = False,
     nsp_hide_totals = False \<rparr>"

definition poll_world :: db where
  "poll_world = demo_world\<lparr>t_local_status := [demo_status]\<rparr>"

definition demo_poll_row :: status_poll_row where
  "demo_poll_row = \<lparr> sp_id = 80, sp_local_status_id = Some 70, sp_remote_status_id = None,
     sp_multiple = False, sp_hide_totals = False, sp_expires_at = Some 300000000, sp_closed_at = None,
     sp_notifications_sent_at = None, sp_voters_count = Some 0, sp_created_at = 0, sp_updated_at = 0 \<rparr>"

definition demo_polled :: "job_row list \<Rightarrow> db" where
  "demo_polled jobs = poll_world\<lparr>t_status_poll := [demo_poll_row],
     t_status_poll_option :=
       [\<lparr> spo_poll_id = 80, spo_position = 0, spo_title = [97], spo_votes_count = 0 \<rparr>,
        \<lparr> spo_poll_id = 80, spo_position = 1, spo_title = [98], spo_votes_count = 0 \<rparr>],
     t_job := jobs\<rparr>"

subsection \<open>Validation\<close>

text \<open>
  A poll is accepted exactly when it has two to four options, expires after five minutes
  to one month, and its trimmed titles are nonempty, at most fifty grapheme clusters long and
  pairwise different.
\<close>

lemma validate_poll_iff:
  "validate_poll graphemes input = Inr () \<longleftrightarrow>
     length (nsp_options input) \<in> {2..4} \<and> nsp_expires_in input \<in> {300..2629746} \<and>
     list_all (\<lambda>t. trim t \<noteq> [] \<and> graphemes (trim t) \<le> 50) (nsp_options input) \<and>
     distinct (map trim (nsp_options input))"
proof -
  have titles: "list_ex (\<lambda>t. t = [] \<or> 50 < graphemes t) (map trim ts) \<longleftrightarrow>
      \<not> list_all (\<lambda>t. trim t \<noteq> [] \<and> graphemes (trim t) \<le> 50) ts" for ts
    by (induction ts) (auto simp: not_le)
  show ?thesis
    unfolding validate_poll_def Let_def sort_dedup_unique_length max_poll_options_def
      min_poll_expiration_seconds_def max_poll_expiration_seconds_def max_poll_option_graphemes_def titles
    by auto
qed

lemma demo_trim [simp]: "trim [97] = [97]" "trim [32, 98, 32] = [98]" "trim [98] = [98]"
  by (simp_all add: trim_def trim_start_def trim_end_def is_whitespace_def)

lemma demo_valid: "validate_poll length demo_question = Inr ()"
  by (simp add: validate_poll_def demo_question_def Let_def length_sort_dedup max_poll_options_def
      min_poll_expiration_seconds_def max_poll_expiration_seconds_def max_poll_option_graphemes_def)

lemma enqueue_poll_expiration_first:
  "t_job d = [] \<Longrightarrow> \<exists>row. enqueue_poll_expiration ids j n i t d = Inr (d\<lparr>t_job := [row]\<rparr>)"
  by (auto simp: enqueue_poll_expiration_def enqueue_job_in_transaction_def enqueue_job_on_connection_def
      tbl_upsert_def tbl_insert_def Let_def intro: exI)

lemmas demo_polled_defs = demo_polled_def poll_world_def demo_status_def demo_poll_row_def demo_world_def empty_db_def

lemma demo_created:
  "\<exists>row poll. create_local_poll length ids 80 90 0 0 70 demo_question poll_world = Inr (demo_polled [row], poll)"
proof -
  obtain row where row: "enqueue_poll_expiration ids 90 0 80 300000000 (demo_polled []) = Inr (demo_polled [row])"
    using enqueue_poll_expiration_first [of "demo_polled []" ids 90 0 80 300000000] by (auto simp: demo_polled_def)
  have time: "checked_add_seconds 0 (nsp_expires_in demo_question) = Inr 300000000"
    by (simp add: checked_add_seconds_def seconds_def max_instant_def demo_question_def)
  have ins: "with_fk (fk_local_status poll_world 70) (tbl_insert sp_conflict demo_poll_row (t_status_poll poll_world)) =
      Inr [demo_poll_row]"
    by (simp add: with_fk_def fk_local_status_def tbl_insert_def demo_polled_defs)
  have opts: "replace_options 80 (map (\<lambda>t. (t, 0)) (nsp_options demo_question))
      (poll_world\<lparr>t_status_poll := [demo_poll_row]\<rparr>) = Inr (demo_polled [])"
    by (simp add: replace_options_def delete_poll_options_def demo_question_def tbl_delete_def tbl_insert_def
        spo_conflict_def spo_key_def demo_polled_defs)
  obtain poll where "find_poll_by_id (demo_polled [row]) 80 = Inr (Some poll)"
    by (simp add: find_poll_by_id_def find_poll_row_def hydrate_poll_def demo_polled_def demo_poll_row_def)
  moreover have "nsp_multiple demo_question = False" "nsp_hide_totals demo_question = False"
    by (simp_all add: demo_question_def)
  ultimately have "create_local_poll length ids 80 90 0 0 70 demo_question poll_world = Inr (demo_polled [row], poll)"
    by (simp add: create_local_poll_def demo_valid time row found_poll_def ins [unfolded demo_poll_row_def]
        opts [unfolded demo_poll_row_def])
  then show ?thesis by blast
qed

subsection \<open>Results\<close>

lemma i64_as_u64_of_nat: "in_i64 (int n) \<Longrightarrow> i64_as_u64 (int n) = n"
  by (simp add: i64_as_u64_def in_i64_def i64_max_def)

lemma sum_by_key:
  "distinct ks \<Longrightarrow>
     (\<Sum>k \<leftarrow> ks. length (filter (\<lambda>v. f v = k) vs)) = length (filter (\<lambda>v. f v \<in> set ks) vs)"
proof (induction ks)
  case (Cons k ks)
  have "length (filter (\<lambda>v. f v \<in> set (k # ks)) vs) =
      length (filter (\<lambda>v. f v = k) vs) + length (filter (\<lambda>v. f v \<in> set ks) vs)" if "k \<notin> set ks"
    using that by (induction vs) auto
  then show ?case using Cons by simp
qed simp

lemma find_poll_for_status_local:
  assumes "find_poll_for_status d (LocalPoll s) = Inr (Some poll)"
  obtains p where "p \<in> set (t_status_poll d)" "sp_local_status_id p = Some s" "hydrate_poll d p = Inr poll"
proof -
  let ?q = "\<lambda>p. sp_local_status_id p = Some s"
  obtain p where p: "List.find ?q (t_status_poll d) = Some p" "hydrate_poll d p = Inr poll"
    using assms by (cases "List.find ?q (t_status_poll d)") (simp_all add: find_poll_for_status_def bind_res_Inr_iff)
  then show thesis using find_Some_mem [OF p(1)] by (intro that) simp_all
qed

lemma hydrate_poll_fields:
  assumes "hydrate_poll d p = Inr poll"
  shows "pl_id poll = sp_id p" "pl_multiple poll = sp_multiple p" "pl_expires_at poll = sp_expires_at p"
    "pl_closed_at poll = sp_closed_at p" "pl_voters_count poll = map_option i64_as_u64 (sp_voters_count p)"
    "map po_votes_count (pl_options poll) = map (i64_as_u64 \<circ> spo_votes_count) (poll_options_of d (sp_id p))"
  using assms by (auto simp: hydrate_poll_def Let_def split: option.splits)

lemma poll_options_of_mem: "o' \<in> set (poll_options_of d i) \<longleftrightarrow> o' \<in> set (t_status_poll_option d) \<and> spo_poll_id o' = i"
  by (auto simp: poll_options_of_def)

lemma poll_options_of_keys:
  assumes "polls_ok d"
  shows "distinct (map spo_key (poll_options_of d i))"
    and "v \<in> set (t_status_poll_vote d) \<Longrightarrow> vote_key v \<in> spo_key ` set (poll_options_of d i) \<longleftrightarrow> spv_poll_id v = i"
proof -
  let ?os = "filter (\<lambda>o'. spo_poll_id o' = i) (t_status_poll_option d)"
  have "distinct (map spo_key ?os)"
    using tbl_ok_filter [OF polls_okD(2) [OF assms]] by (rule spo_tbl.key_distinct)
  then have "distinct ?os" "inj_on spo_key (set ?os)" by (simp_all add: distinct_map)
  then show "distinct (map spo_key (poll_options_of d i))"
    by (simp add: poll_options_of_def tbl_order_def distinct_map)
  assume "v \<in> set (t_status_poll_vote d)"
  then have "vote_key v \<in> spo_key ` set (t_status_poll_option d)"
    using polls_okD(4) [OF assms] by (simp add: tallies_ok_def)
  then show "vote_key v \<in> spo_key ` set (poll_options_of d i) \<longleftrightarrow> spv_poll_id v = i"
    by (force simp: poll_options_of_mem vote_key_def spo_key_def)
qed

lemma poll_voters_empty: "poll_voters [] i = {}"
  by (simp add: poll_voters_def)

lemma at_most_one: "distinct xs \<Longrightarrow> (\<And>x y. x \<in> set xs \<Longrightarrow> y \<in> set xs \<Longrightarrow> x = y) \<Longrightarrow> length xs \<le> 1"
  using card_le_Suc0_iff_eq [of "set xs"] by (auto simp: distinct_card)

lemma voted_if_own_votes: "pvs_own_votes (poll_viewer_state d i a) \<noteq> [] \<Longrightarrow> pvs_voted (poll_viewer_state d i a)"
  by (simp add: poll_viewer_state_def Let_def)

lemma find_poll_row_update:
  assumes "t_status_poll d' = tbl_update (\<lambda>q. sp_id q = i) f (t_status_poll d)" and "\<And>p. sp_id (f p) = sp_id p"
  shows "find_poll_row d' i = map_option f (find_poll_row d i)"
proof -
  have "List.find (\<lambda>p. sp_id p = i) (tbl_update (\<lambda>q. sp_id q = i) f ps) = map_option f (List.find (\<lambda>p. sp_id p = i) ps)" for ps
    by (induction ps) (auto simp: tbl_update_def assms(2))
  then show ?thesis by (simp add: find_poll_row_def assms(1))
qed

lemma vote_result_not_expired [simp]: "vote_result x \<noteq> Inl VoteExpired"
  by (auto simp: vote_result_def split: sum.splits roosty_error.splits)

lemma cast_votes_not_expired [simp]: "cast_votes new_id now i l r ap cs d \<noteq> Inl VoteExpired"
  by (induction cs arbitrary: d) (auto simp: cast_vote_def bind_res_Inl_iff split: option.splits if_splits)

lemma single_choice_voters:
  assumes "polls_ok d" and "p \<in> set (t_status_poll d)" and "\<not> sp_multiple p"
  shows "card (poll_voters (t_status_poll_vote d) (sp_id p)) =
    length (filter (\<lambda>v. spv_poll_id v = sp_id p) (t_status_poll_vote d))"
proof -
  let ?vs = "filter (\<lambda>v. spv_poll_id v = sp_id p) (t_status_poll_vote d)"
  have "inj_on voter_of (set ?vs)"
    using polls_okD(5) [OF assms(1,2)] assms(3) by (auto simp: ballots_ok_alt Let_def inj_on_def)
  moreover have "distinct ?vs"
    using spv_tbl.key_distinct [OF tbl_ok_filter [OF polls_okD(3) [OF assms(1)]]] by (simp add: distinct_map)
  moreover have "poll_voters (t_status_poll_vote d) (sp_id p) = voter_of ` set ?vs" by (simp add: poll_voters_def)
  ultimately show ?thesis by (simp only: card_image distinct_card)
qed

text \<open>
  C10: In every reachable state the results shown for a poll of a local status are the stored
  ballots: each option shows its number of votes, the number of voters is the number of
  distinct voters, the total is the number of votes (as long as it fits 64 bits), and in a
  single-choice poll there are as many votes as voters.
\<close>

theorem poll_results_count_ballots:
  assumes "reachable poll_init (poll_step graphemes id_string) d"
    and "find_poll_for_status d (LocalPoll status_id) = Inr (Some poll)"
  shows "map po_votes_count (pl_options poll) =
      map (\<lambda>o'. votes_for (t_status_poll_vote d) (spo_key o')) (poll_options_of d (pl_id poll)) \<and>
    pl_voters_count poll = Some (card (poll_voters (t_status_poll_vote d) (pl_id poll))) \<and>
    sum_list (map po_votes_count (pl_options poll)) =
      length (filter (\<lambda>v. spv_poll_id v = pl_id poll) (t_status_poll_vote d)) \<and>
    (length (t_status_poll_vote d) \<le> u64_max \<longrightarrow>
       poll_votes_count poll = sum_list (map po_votes_count (pl_options poll))) \<and>
    (\<not> pl_multiple poll \<longrightarrow> pl_voters_count poll = Some (sum_list (map po_votes_count (pl_options poll))))"
proof -
  let ?vs = "t_status_poll_vote d"
  have ok: "polls_ok d" using assms(1) by (rule poll_sys.reachable_inv)
  obtain p where p: "p \<in> set (t_status_poll d)" "sp_local_status_id p = Some status_id" "hydrate_poll d p = Inr poll"
    using assms(2) by (rule find_poll_for_status_local)
  note f = hydrate_poll_fields [OF p(3)]
  let ?os = "poll_options_of d (sp_id p)"
  have "i64_as_u64 (spo_votes_count o') = votes_for ?vs (spo_key o')" if "o' \<in> set ?os" for o'
    using that polls_okD(4) [OF ok] p(1,2) i64_as_u64_of_nat [of "votes_for ?vs (spo_key o')"]
    by (auto simp: poll_options_of_mem tallies_ok_def is_local_poll_def)
  then have options: "map po_votes_count (pl_options poll) = map (\<lambda>o'. votes_for ?vs (spo_key o')) ?os"
    by (simp add: f)
  have voters: "pl_voters_count poll = Some (card (poll_voters ?vs (sp_id p)))"
    using polls_okD(5) [OF ok p(1)] p(2) by (auto simp: f ballots_ok_def intro: i64_as_u64_of_nat)
  have "sum_list (map po_votes_count (pl_options poll)) = (\<Sum>k \<leftarrow> map spo_key ?os. length (filter (\<lambda>v. vote_key v = k) ?vs))"
    by (simp add: options votes_for_def comp_def)
  also have "\<dots> = length (filter (\<lambda>v. spv_poll_id v = sp_id p) ?vs)"
    unfolding sum_by_key [OF poll_options_of_keys(1) [OF ok]] set_map
    using poll_options_of_keys(2) [OF ok] by (simp cong: filter_cong)
  finally have total: "sum_list (map po_votes_count (pl_options poll)) = length (filter (\<lambda>v. spv_poll_id v = sp_id p) ?vs)" .
  moreover have "poll_votes_count poll = length (filter (\<lambda>v. spv_poll_id v = sp_id p) ?vs)" if "length ?vs \<le> u64_max"
    using order_trans [OF length_filter_le [of "\<lambda>v. spv_poll_id v = sp_id p"] that] by (simp add: poll_votes_count_def total u64_max_def)
  ultimately show ?thesis
    unfolding f(1,2) using options voters single_choice_voters [OF ok p(1)] by simp
qed

lemma poll_world_reachable: "reachable poll_init (poll_step length ids) poll_world"
  by (rule reach_init) (simp add: poll_init_def demo_polled_defs)

text \<open>The sample poll after account 2 has chosen the second option.\<close>

definition demo_voted :: "job_row list \<Rightarrow> db" where
  "demo_voted jobs = (demo_polled jobs)\<lparr>
     t_status_poll := [demo_poll_row\<lparr>sp_voters_count := Some 1, sp_updated_at := 5\<rparr>],
     t_status_poll_option :=
       [\<lparr> spo_poll_id = 80, spo_position = 0, spo_title = [97], spo_votes_count = 0 \<rparr>,
        \<lparr> spo_poll_id = 80, spo_position = 1, spo_title = [98], spo_votes_count = 1 \<rparr>],
     t_status_poll_vote := [new_vote (\<lambda>_. 60) 5 80 (Some 2) None None 1]\<rparr>"

lemma demo_vote: "\<exists>poll. vote_in_poll (\<lambda>_. 60) 5 80 2 [1] (demo_polled jobs) = Inr (demo_voted jobs, poll)"
proof -
  let ?d = "demo_polled jobs"
  have checks: "vote_checks 5 80 (Some 2) None [1] ?d = Inr (demo_poll_row, [], [1])"
    by (simp add: vote_checks_def find_poll_row_def poll_open_def sort_dedup_def votes_of_def demo_polled_defs)
  have fk: "fk_local ?d 2" by (simp add: fk_local_def demo_polled_defs)
  have cast: "cast_votes (\<lambda>_. 60) 5 80 (Some 2) None None [1] ?d =
      Inr ((demo_voted jobs)\<lparr>t_status_poll := [demo_poll_row]\<rparr>)"
    using fk by (simp add: cast_vote_def with_fk_def tbl_insert_def spo_key_def tbl_update_def wrap_i64_def new_vote_def
        demo_voted_def demo_polled_defs vote_result_def)
  have upd: "(demo_voted jobs)\<lparr>t_status_poll := tbl_update (\<lambda>r. sp_id r = sp_id demo_poll_row)
      (count_voter True 5) [demo_poll_row]\<rparr> = demo_voted jobs"
    by (simp add: demo_voted_def tbl_update_def count_voter_def demo_poll_row_def wrap_i64_def)
  obtain poll where "find_poll_by_id (demo_voted jobs) 80 = Inr (Some poll)"
    by (simp add: find_poll_by_id_def find_poll_row_def hydrate_poll_def demo_voted_def demo_poll_row_def)
  then have "vote_in_poll (\<lambda>_. 60) 5 80 2 [1] ?d = Inr (demo_voted jobs, poll)"
    using upd unfolding vote_in_poll_def vote_def checks bind_res_simps prod.case cast Let_def
    by (simp add: vote_result_def) (simp add: count_voter_def demo_poll_row_def wrap_i64_def)
  then show ?thesis by blast
qed

lemma demo_voted_reachable: "\<exists>row. reachable poll_init (poll_step length show_nat) (demo_voted [row])"
proof -
  obtain row poll where "create_local_poll length show_nat 80 90 0 0 70 demo_question poll_world =
      Inr (demo_polled [row], poll)" using demo_created by blast
  then have "reachable poll_init (poll_step length show_nat) (demo_polled [row])"
    by (rule reach_step [OF poll_world_reachable poll_step.create])
  then have "reachable poll_init (poll_step length show_nat) (demo_voted [row])"
    using demo_vote [of "[row]"] by (auto intro: reach_step poll_step.vote_local)
  then show ?thesis ..
qed

lemma demo_voted_shown: "\<exists>poll. find_poll_for_status (demo_voted jobs) (LocalPoll 70) = Inr (Some poll) \<and>
    find_poll_by_id (demo_voted jobs) 80 = Inr (Some poll) \<and> pl_id poll = 80 \<and> \<not> pl_multiple poll"
  by (simp add: find_poll_for_status_def find_poll_by_id_def find_poll_row_def hydrate_poll_def demo_voted_def
      demo_poll_row_def)

theorem poll_results_count_ballots_witness:
  "\<exists>row poll. find_poll_for_status (demo_voted [row]) (LocalPoll 70) = Inr (Some poll) \<and>
     pl_voters_count poll = Some 1 \<and> poll_votes_count poll = 1"
proof -
  obtain row where r: "reachable poll_init (poll_step length show_nat) (demo_voted [row])"
    using demo_voted_reachable by blast
  obtain poll where shown: "find_poll_for_status (demo_voted [row]) (LocalPoll 70) = Inr (Some poll)"
    and poll: "pl_id poll = 80" "\<not> pl_multiple poll" using demo_voted_shown by blast
  have "poll_votes_count poll = 1 \<and> pl_voters_count poll = Some 1"
    using poll_results_count_ballots [OF r shown, THEN conjunct2] poll
    by (simp add: demo_voted_def poll_voters_Cons poll_voters_empty u64_max_def)
  then show ?thesis using shown by blast
qed

subsection \<open>Ballots\<close>

text \<open>
  In every reachable state a single-choice poll holds at most one vote of each local
  account and of each remote actor, so no viewer is shown more than one own choice.
\<close>

lemma single_choice_one_ballot:
  assumes "reachable poll_init (poll_step graphemes id_string) d"
    and "find_poll_by_id d poll_id = Inr (Some poll)" and "\<not> pl_multiple poll"
  shows "length (filter (\<lambda>v. spv_poll_id v = poll_id \<and> spv_local_account_id v = Some account)
        (t_status_poll_vote d)) \<le> 1 \<and>
    length (filter (\<lambda>v. spv_poll_id v = poll_id \<and> spv_remote_actor_id v = Some actor)
        (t_status_poll_vote d)) \<le> 1 \<and>
    length (pvs_own_votes (poll_viewer_state d poll_id account)) \<le> 1"
proof -
  have ok: "polls_ok d" using assms(1) by (rule poll_sys.reachable_inv)
  obtain p where p: "find_poll_row d poll_id = Some p" "hydrate_poll d p = Inr poll"
    using assms(2) by (auto simp: find_poll_by_id_def bind_res_Inr_iff split: option.splits)
  then have mem: "p \<in> set (t_status_poll d)" "sp_id p = poll_id"
    using find_Some_mem by (fastforce simp: find_poll_row_def)+
  let ?vs = "t_status_poll_vote d"
  have eq: "v = w" if "v \<in> set ?vs" "w \<in> set ?vs" "spv_poll_id v = poll_id" "spv_poll_id w = poll_id"
      "voter_of v = voter_of w" for v w
    using polls_okD(5) [OF ok mem(1)] assms(3) hydrate_poll_fields(2) [OF p(2)] that mem(2)
    by (auto simp: ballots_ok_def)
  have voter: "one_voter v" if "v \<in> set ?vs" for v
    using polls_okD(4) [OF ok] that by (simp add: tallies_ok_def)
  have dist: "distinct ?vs"
    using spv_tbl.key_distinct [OF polls_okD(3) [OF ok]] by (simp add: distinct_map)
  have one: "length (filter P ?vs) \<le> 1" if "\<And>v w. v \<in> set ?vs \<Longrightarrow> w \<in> set ?vs \<Longrightarrow> P v \<Longrightarrow> P w \<Longrightarrow> v = w" for P
    using that dist by (intro at_most_one) auto
  have "voter_of v = (Some account, None)" if "v \<in> set ?vs" "spv_local_account_id v = Some account" for v
    using voter [OF that(1)] that(2) by (auto simp: voter_of_def one_voter_def)
  then have a: "length (filter (\<lambda>v. spv_poll_id v = poll_id \<and> spv_local_account_id v = Some account) ?vs) \<le> 1"
    using eq by (intro one) simp
  have "voter_of v = (None, Some actor)" if "v \<in> set ?vs" "spv_remote_actor_id v = Some actor" for v
    using voter [OF that(1)] that(2) by (auto simp: voter_of_def one_voter_def)
  then have "length (filter (\<lambda>v. spv_poll_id v = poll_id \<and> spv_remote_actor_id v = Some actor) ?vs) \<le> 1"
    using eq by (intro one) simp
  moreover have "length (pvs_own_votes (poll_viewer_state d poll_id account)) \<le> 1"
    using a by (auto simp: poll_viewer_state_def Let_def tbl_order_def intro!: order_trans [OF remdups_adj_length])
  ultimately show ?thesis using a by blast
qed

lemma stored_vote_refused:
  assumes "v \<in> set (t_status_poll_vote d)" and "spv_poll_id v = poll_id \<and> spv_local_account_id v = Some account"
  shows "vote_in_poll new_id now poll_id account choices d \<in>
    {Inl VoteNotFound, Inl VoteExpired, Inl InvalidChoice, Inl MultipleChoices, Inl AlreadyVoted}"
proof -
  have "filter (\<lambda>v. spv_poll_id v = poll_id \<and> spv_local_account_id v = Some account) (t_status_poll_vote d) \<noteq> []"
    using assms by (auto simp: filter_empty_conv)
  then show ?thesis
    by (auto simp: vote_in_poll_def vote_def vote_checks_def votes_of_def Let_def split: option.splits)
qed

text \<open>
  C11: A ballot that is accepted is shown to its voter with exactly the chosen options, and the
  same account cannot vote in the poll again, whatever it chooses, in the state reached and in
  every state in which a vote of the account in this poll is still stored. (An edit of a local
  poll and a refresh of a remote one may drop the stored votes; then it can.)
\<close>

theorem ballot_is_recorded_once:
  assumes "reachable poll_init (poll_step graphemes id_string) d"
    and "vote_in_poll new_id now poll_id account choices d = Inr (d', poll)"
    and "list_all (\<lambda>c. c < 4294967296) choices"
  shows "pvs_voted (poll_viewer_state d' poll_id account) \<and>
    set (pvs_own_votes (poll_viewer_state d' poll_id account)) = set choices \<and>
    vote_in_poll new_id' now' poll_id account choices' d' \<in>
      {Inl VoteExpired, Inl InvalidChoice, Inl MultipleChoices, Inl AlreadyVoted} \<and>
    (\<forall>d2 v. v \<in> set (t_status_poll_vote d2) \<and> spv_poll_id v = poll_id \<and> spv_local_account_id v = Some account \<longrightarrow>
       vote_in_poll new_id' now' poll_id account choices' d2 \<in>
         {Inl VoteNotFound, Inl VoteExpired, Inl InvalidChoice, Inl MultipleChoices, Inl AlreadyVoted})"
proof -
  have ok: "polls_ok d" using assms(1) by (rule poll_sys.reachable_inv)
  let ?new = "map (new_vote new_id now poll_id (Some account) None None) (sort_dedup choices)"
  let ?mine = "\<lambda>v. spv_poll_id v = poll_id \<and> spv_local_account_id v = Some account"
  obtain p existing os where checks: "vote_checks now poll_id (Some account) None choices d = Inr (p, existing, sort_dedup choices)"
    and d': "d' = d\<lparr>t_status_poll := tbl_update (\<lambda>q. sp_id q = poll_id) (count_voter (existing = []) now) (t_status_poll d),
      t_status_poll_option := os, t_status_poll_vote := t_status_poll_vote d @ ?new\<rparr>"
    using vote_cases [OF assms(2) [unfolded vote_in_poll_def] ok] by metis
  note c = vote_checks_ok [OF checks]
  have mine: "filter ?mine (t_status_poll_vote d') = ?new"
    using c(6,8) by (simp add: d' filter_id_conv)
  have "i32_as_u32 (u32_as_i32 x) = x" if "x \<in> set choices" for x
    using assms(3) that by (auto simp: i32_as_u32_def u32_as_i32_def Let_def list_all_iff)
  then have own: "set (pvs_own_votes (poll_viewer_state d' poll_id account)) = set choices"
    by (simp add: poll_viewer_state_def mine image_image)
  have voted: "pvs_voted (poll_viewer_state d' poll_id account)"
    using own c(4) by (intro voted_if_own_votes) auto
  obtain q where q: "find_poll_row d' poll_id = Some q"
    using find_poll_row_update [of d' poll_id "count_voter (existing = []) now" d] c(1)
    by (auto simp: d' count_voter_def)
  have "votes_of (Some account) None poll_id d' = Inr ?new" by (simp add: votes_of_def mine)
  then have "vote_in_poll new_id' now' poll_id account choices' d' \<in>
      {Inl VoteExpired, Inl InvalidChoice, Inl MultipleChoices, Inl AlreadyVoted}"
    using c(4) by (auto simp: vote_in_poll_def vote_def vote_checks_def q Let_def)
  moreover have "vote_in_poll new_id' now' poll_id account choices' d2 \<in>
      {Inl VoteNotFound, Inl VoteExpired, Inl InvalidChoice, Inl MultipleChoices, Inl AlreadyVoted}"
    if "v \<in> set (t_status_poll_vote d2)" "?mine v" for d2 v
    using that by (rule stored_vote_refused)
  ultimately show ?thesis using own voted by blast
qed

theorem ballot_is_recorded_once_witness:
  "\<exists>row. pvs_own_votes (poll_viewer_state (demo_voted [row]) 80 2) \<noteq> [] \<and>
     vote_in_poll (\<lambda>_. 61) 6 80 2 [0] (demo_voted [row]) \<in>
       {Inl VoteExpired, Inl InvalidChoice, Inl MultipleChoices, Inl AlreadyVoted}"
proof -
  obtain row poll where "create_local_poll length show_nat 80 90 0 0 70 demo_question poll_world =
      Inr (demo_polled [row], poll)" using demo_created by blast
  then have r: "reachable poll_init (poll_step length show_nat) (demo_polled [row])"
    by (rule reach_step [OF poll_world_reachable poll_step.create])
  obtain shown where v: "vote_in_poll (\<lambda>_. 60) 5 80 2 [1] (demo_polled [row]) = Inr (demo_voted [row], shown)"
    using demo_vote by blast
  have "set (pvs_own_votes (poll_viewer_state (demo_voted [row]) 80 2)) = {1}"
    using ballot_is_recorded_once [OF r v] by simp
  then show ?thesis using ballot_is_recorded_once [OF r v] by (intro exI [of _ row]) auto
qed

text \<open>
  A vote is refused as expired exactly when the poll, as it is shown, has expired.
\<close>

lemma expired_exactly_when_shown:
  assumes "find_poll_by_id d poll_id = Inr (Some poll)"
  shows "vote_in_poll new_id now poll_id account choices d = Inl VoteExpired \<longleftrightarrow> poll_expired poll now"
proof -
  obtain p where p: "find_poll_row d poll_id = Some p" "hydrate_poll d p = Inr poll"
    using assms by (auto simp: find_poll_by_id_def bind_res_Inr_iff split: option.splits)
  have "poll_open now p \<longleftrightarrow> \<not> poll_expired poll now"
    using hydrate_poll_fields [OF p(2)] by (auto simp: poll_open_def poll_expired_def)
  then show ?thesis
    by (auto simp: vote_in_poll_def vote_def vote_checks_def p Let_def bind_res_Inl_iff votes_of_def
        split: if_splits option.splits)
qed

end
