(* ===== verification/Roosty_Poll_Lifecycle.thy ===== *)
theory Roosty_Poll_Lifecycle
  imports Roosty_Poll_Properties
begin

text \<open>
  Properties of a poll's life after the vote: expiration and its notifications, edits after
  expiration, refreshes of remote polls, and scheduled polls.
\<close>

subsection \<open>Expiration\<close>

lemma notify_recipients_no_conflict:
  assumes "notify_recipients ids new_id jn n now origin as d = Inr r" and "a \<in> set as"
    and "y \<in> set (t_local_notification d)"
  shows "\<not> ln_conflict (poll_notification new_id now origin a) y"
  using assms
proof (induction as arbitrary: d r)
  case (Cons b bs)
  obtain d1 ms where d1: "insert_local_notification ids (jn b) n (poll_notification new_id now origin b) d = Inr d1"
    and rest: "notify_recipients ids new_id jn n now origin bs d1 = Inr ms"
    using Cons.prems(1) by (auto simp: Let_def bind_res_Inr_iff)
  obtain jobs where d1': "d1 = d\<lparr>t_local_notification := t_local_notification d @ [poll_notification new_id now origin b],
      t_job := jobs\<rparr>" and new: "\<forall>y \<in> set (t_local_notification d). \<not> ln_conflict (poll_notification new_id now origin b) y"
    using d1 by (rule insert_notification_cases)
  show ?case
  proof (cases "a = b")
    case True
    then show ?thesis using new Cons.prems(3) by blast
  next
    case False
    then show ?thesis using Cons.IH [OF rest] Cons.prems(2,3) by (simp add: d1')
  qed
qed simp

lemma expire_poll_no_conflict:
  assumes "expire_poll ids new_id jn n now i d = Inr (d', Some e)" and "pe_newly_expired e"
    and "find_poll_row d i = Some p" and "poll_origin p d = Inr origin"
    and "a \<in> set (poll_recipients origin i d)" and "y \<in> set (t_local_notification d)"
  shows "\<not> ln_conflict (poll_notification new_id now origin a) y"
proof -
  obtain r where "notify_recipients ids new_id jn n now origin (poll_recipients origin i d) d = Inr r"
    using assms(1-4) by (auto simp: expire_poll_def Let_def bind_res_Inr_iff split: if_splits)
  then show ?thesis using assms(5,6) by (rule notify_recipients_no_conflict)
qed

lemma expire_poll_newly:
  assumes "expire_poll ids new_id jn n now i d = Inr (d', Some e)" and "pe_newly_expired e"
  obtains p origin jobs where "find_poll_row d i = Some p" "sp_notifications_sent_at p = None"
    "poll_origin p d = Inr origin"
    "pe_notifications e = map (poll_notification new_id now origin) (poll_recipients origin i d)"
    "d' = d\<lparr>t_local_notification := t_local_notification d @ pe_notifications e, t_job := jobs,
       t_status_poll := tbl_update (\<lambda>r. sp_id r = i) (close_poll_row now) (t_status_poll d)\<rparr>"
  using assms(1)
proof (cases rule: expire_poll_cases)
  case (expired p e' origin jobs)
  then show thesis using that [of p origin jobs] by simp
qed (use assms(2) in simp_all)

lemma poll_origin_author:
  assumes "find_poll_row d i = Some p" and "poll_origin p d = Inr origin"
  shows "fst origin = poll_author d i"
  using assms by (auto simp: poll_origin_def poll_author_def split: option.splits)

lemma poll_recipients_mem:
  "a \<in> set (poll_recipients origin i d) \<longleftrightarrow>
     (\<exists>v \<in> set (t_status_poll_vote d). spv_poll_id v = i \<and> spv_local_account_id v = Some a) \<or> fst origin = Some a"
  by (force simp: poll_recipients_def List.map_filter_def image_iff split: option.splits)

lemma poll_notification_fields [simp]:
  "ln_account_id (poll_notification new_id now origin a) = a"
  "ln_notification_type (poll_notification new_id now origin a) = NPoll"
  by (simp_all add: poll_notification_def split: prod.splits)

lemma poll_origin_hydrates:
  "poll_origin p d = Inr origin \<Longrightarrow> sp_local_status_id q = sp_local_status_id p \<Longrightarrow>
     sp_remote_status_id q = sp_remote_status_id p \<Longrightarrow> \<exists>poll. hydrate_poll e q = Inr poll"
  by (auto simp: poll_origin_def hydrate_poll_def Let_def split: option.splits)

lemma expire_again:
  assumes "find_poll_row d i = Some p" and "sp_notifications_sent_at p \<noteq> None" and "hydrate_poll d p = Inr poll"
  shows "\<exists>e. expire_poll ids new_id jn n now i d = Inr (d, Some e) \<and> \<not> pe_newly_expired e \<and> pe_notifications e = []"
  using assms by (auto simp: expire_poll_def Let_def)

text \<open>
  C12: When a poll expires, each local account that voted and the local author get one
  notification, nobody else gets one, and the notifications are stored. Processing the same
  expiration again, at any time, changes nothing and notifies nobody.
\<close>

theorem expiration_notifies_once:
  assumes "expire_poll id_string new_id job_new_id pg_now now poll_id d = Inr (d', Some e)"
    and "pe_newly_expired e"
  shows "distinct (map ln_account_id (pe_notifications e)) \<and>
    set (map ln_account_id (pe_notifications e)) =
      {a. \<exists>v \<in> set (t_status_poll_vote d). spv_poll_id v = poll_id \<and> spv_local_account_id v = Some a} \<union>
      {a. poll_author d poll_id = Some a} \<and>
    t_local_notification d' = t_local_notification d @ pe_notifications e \<and>
    (\<exists>e2. expire_poll id_string' new_id' job_new_id' pg_now' now' poll_id d' = Inr (d', Some e2) \<and>
       \<not> pe_newly_expired e2 \<and> pe_notifications e2 = [])"
proof -
  obtain p origin jobs where p: "find_poll_row d poll_id = Some p" and o: "poll_origin p d = Inr origin"
    and ns: "pe_notifications e = map (poll_notification new_id now origin) (poll_recipients origin poll_id d)"
    and d': "d' = d\<lparr>t_local_notification := t_local_notification d @ pe_notifications e, t_job := jobs,
       t_status_poll := tbl_update (\<lambda>r. sp_id r = poll_id) (close_poll_row now) (t_status_poll d)\<rparr>"
    using assms by (rule expire_poll_newly)
  have accounts: "map ln_account_id (pe_notifications e) = poll_recipients origin poll_id d"
    by (simp add: ns comp_def)
  have "find_poll_row d' poll_id = Some (close_poll_row now p)"
    using find_poll_row_update [of d' poll_id "close_poll_row now" d] p by (simp add: d' close_poll_row_def)
  moreover obtain poll where "hydrate_poll d' (close_poll_row now p) = Inr poll"
    using poll_origin_hydrates [OF o, of "close_poll_row now p" d'] by (auto simp: close_poll_row_def)
  ultimately have "\<exists>e2. expire_poll id_string' new_id' job_new_id' pg_now' now' poll_id d' = Inr (d', Some e2) \<and>
       \<not> pe_newly_expired e2 \<and> pe_notifications e2 = []"
    by (intro expire_again) (simp_all add: close_poll_row_def)
  moreover have "distinct (poll_recipients origin poll_id d)" by (simp add: poll_recipients_def)
  ultimately show ?thesis
    unfolding accounts using poll_origin_author [OF p o] by (auto simp: poll_recipients_mem d')
qed

text \<open>The sample poll after its expiration: accounts 1 (author) and 2 (voter) are notified.\<close>

definition demo_new_id :: "uuid \<Rightarrow> uuid" where "demo_new_id a = 100 + a"

definition demo_notification :: "uuid \<Rightarrow> local_notification_row" where
  "demo_notification a = poll_notification demo_new_id 300000000 (Some 1, None, Some 70, None) a"

definition demo_expired :: "job_row list \<Rightarrow> db" where
  "demo_expired jobs = (demo_voted jobs)\<lparr>
     t_local_notification := [demo_notification 1, demo_notification 2],
     t_status_poll := [close_poll_row 300000000 (demo_poll_row\<lparr>sp_voters_count := Some 1, sp_updated_at := 5\<rparr>)]\<rparr>"

lemmas demo_voted_defs = demo_voted_def demo_polled_defs

lemma demo_origin: "poll_origin (demo_poll_row\<lparr>sp_voters_count := Some 1, sp_updated_at := 5\<rparr>) (demo_voted jobs) =
    Inr (Some 1, None, Some 70, None)"
  by (simp add: poll_origin_def demo_voted_defs)

lemma demo_expire:
  "\<exists>e. expire_poll show_nat demo_new_id (\<lambda>a b. a) 0 300000000 80 (demo_voted jobs) = Inr (demo_expired jobs, Some e) \<and>
     pe_newly_expired e \<and> pe_notifications e = [demo_notification 1, demo_notification 2]"
proof -
  let ?d = "demo_voted jobs" and ?o = "(Some 1, None, Some 70, None) :: poll_origin"
  let ?p = "demo_poll_row\<lparr>sp_voters_count := Some 1, sp_updated_at := 5\<rparr>"
  have p: "find_poll_row ?d 80 = Some ?p" by (simp add: find_poll_row_def demo_voted_def demo_poll_row_def)
  have recipients: "poll_recipients ?o 80 ?d = [1, 2]"
    by (simp add: poll_recipients_def demo_voted_def List.map_filter_simps sort_dedup_def)
  have notify: "notify_recipients show_nat demo_new_id (\<lambda>a b. a) 0 300000000 ?o [1, 2] ?d =
      Inr (?d\<lparr>t_local_notification := [demo_notification 1, demo_notification 2]\<rparr>,
        [demo_notification 1, demo_notification 2])"
    by (simp add: insert_local_notification_def with_fk_def fk_local_def tbl_insert_def poll_notification_def
        demo_notification_def demo_new_id_def ln_conflict_def Let_def demo_voted_defs)
  obtain poll where "find_poll_by_id (demo_expired jobs) 80 = Inr (Some poll)"
    by (simp add: find_poll_by_id_def find_poll_row_def hydrate_poll_def demo_expired_def demo_voted_def
        demo_poll_row_def close_poll_row_def)
  moreover have "?d\<lparr>t_local_notification := [demo_notification 1, demo_notification 2],
      t_status_poll := tbl_update (\<lambda>r. sp_id r = sp_id ?p) (close_poll_row 300000000) (t_status_poll ?d)\<rparr> = demo_expired jobs"
    by (simp add: demo_expired_def demo_voted_def tbl_update_def)
  moreover have "or_else (sp_closed_at ?p) (sp_expires_at ?p) = Some 300000000" "sp_notifications_sent_at ?p = None"
    by (simp_all add: demo_poll_row_def or_else_def)
  ultimately show ?thesis
    unfolding expire_poll_def p option.case Let_def demo_origin bind_res_simps recipients notify prod.case
    by (simp add: found_poll_def)
qed

theorem expiration_notifies_once_witness:
  "\<exists>d' e e2. expire_poll show_nat demo_new_id (\<lambda>a b. a) 0 300000000 80 (demo_voted []) = Inr (d', Some e) \<and>
     map ln_account_id (pe_notifications e) = [1, 2] \<and>
     expire_poll show_nat demo_new_id (\<lambda>a b. a) 0 300000001 80 d' = Inr (d', Some e2) \<and> pe_notifications e2 = []"
proof -
  obtain e where e: "expire_poll show_nat demo_new_id (\<lambda>a b. a) 0 300000000 80 (demo_voted []) = Inr (demo_expired [], Some e)"
    "pe_newly_expired e" "pe_notifications e = [demo_notification 1, demo_notification 2]"
    using demo_expire by blast
  then have accounts: "map ln_account_id (pe_notifications e) = [1, 2]" by (simp add: demo_notification_def)
  obtain e2 where "expire_poll show_nat demo_new_id (\<lambda>a b. a) 0 300000001 80 (demo_expired []) =
      Inr (demo_expired [], Some e2)" "pe_notifications e2 = []"
    using expiration_notifies_once [OF e(1,2), where id_string' = show_nat and new_id' = demo_new_id and
        job_new_id' = "\<lambda>a b. a" and pg_now' = 0 and now' = 300000001] by blast
  then show ?thesis
    using e(1) accounts by (intro exI [of _ "demo_expired []"] exI [of _ e] exI [of _ e2]) simp
qed

subsection \<open>Editing an expired poll\<close>

lemma replace_options_frame:
  assumes "replace_options i opts d = Inr d'"
  shows "t_status_poll d' = t_status_poll d" "t_local_notification d' = t_local_notification d"
    "t_local_status d' = t_local_status d"
  using assms by (auto simp: replace_options_def Let_def bind_res_Inr_iff delete_poll_options_def)

lemma edit_existing_poll:
  assumes "replace_local_poll gr ids j k n now s (Some input) d = Inr (d', r)"
    and "List.find (\<lambda>p. sp_local_status_id p = Some s) (t_status_poll d) = Some p"
  obtains ch e where "checked_add_seconds now (nsp_expires_in input) = Inr e"
    "t_status_poll d' = tbl_update (\<lambda>r. sp_id r = sp_id p) (edit_poll_row ch now e input) (t_status_poll d)"
    "t_local_notification d' = t_local_notification d" "t_local_status d' = t_local_status d"
proof -
  let ?ch = "local_poll_changed input p d"
  obtain e d1 where e: "checked_add_seconds now (nsp_expires_in input) = Inr e"
    and d1: "(if ?ch then replace_options (sp_id p) (map (\<lambda>t. (t, 0)) (nsp_options input))
        (delete_poll_votes (sp_id p) d) else Inr d) = Inr d1"
    and d': "enqueue_poll_expiration ids k n (sp_id p) e
        (d1\<lparr>t_status_poll := tbl_update (\<lambda>r. sp_id r = sp_id p) (edit_poll_row ?ch now e input) (t_status_poll d1)\<rparr>) = Inr d'"
    using assms(1) by (auto simp: replace_local_poll_def assms(2) bind_res_Inr_iff Let_def)
  have "t_status_poll d1 = t_status_poll d \<and> t_local_notification d1 = t_local_notification d \<and>
      t_local_status d1 = t_local_status d"
    using d1 by (auto simp: delete_poll_votes_def dest: replace_options_frame split: if_splits)
  then show thesis using e enqueue_poll_expiration_frame [OF d'] by (intro that) simp_all
qed

text \<open>
  Editing a poll that has expired opens it again, but its second expiration always
  fails: the author's notification of the first one is still stored, and notifications are
  unique per account, kind, author and status.
\<close>

lemma edited_poll_never_expires_again:
  assumes "reachable poll_init (poll_step graphemes id_string) d"
    and "find_poll_row d poll_id = Some p" and "sp_local_status_id p = Some status_id"
    and "expire_poll id_string new_id job_new_id pg_now now poll_id d = Inr (d1, Some e)" and "pe_newly_expired e"
    and "replace_local_poll graphemes id_string i j pg_now1 now1 status_id (Some input) d1 = Inr (d2, edited)"
    and "now1 + seconds (nsp_expires_in input) \<le> now2"
  shows "\<exists>err. expire_poll id_string new_id2 job_new_id2 pg_now2 now2 poll_id d2 = Inl err"
proof (rule ccontr)
  have ok: "polls_ok d1"
    using expire_keeps_polls_ok [OF assms(4)] poll_sys.reachable_inv [OF assms(1)] by blast
  obtain origin jobs where o: "poll_origin p d = Inr origin"
    and ns: "pe_notifications e = map (poll_notification new_id now origin) (poll_recipients origin poll_id d)"
    and d1: "d1 = d\<lparr>t_local_notification := t_local_notification d @ pe_notifications e, t_job := jobs,
       t_status_poll := tbl_update (\<lambda>r. sp_id r = poll_id) (close_poll_row now) (t_status_poll d)\<rparr>"
    using expire_poll_newly [OF assms(4,5)] assms(2) by (metis option.inject)
  obtain author where author: "origin = (Some author, None, Some status_id, None)"
    "\<exists>s. List.find (\<lambda>s. ls_id s = status_id) (t_local_status d) = Some s \<and> ls_account_id s = author"
    using o assms(3) by (auto simp: poll_origin_def split: option.splits)
  have row1: "find_poll_row d1 poll_id = Some (close_poll_row now p)"
    using find_poll_row_update [of d1 poll_id "close_poll_row now" d] assms(2) by (simp add: d1 close_poll_row_def)
  then have mem1: "close_poll_row now p \<in> set (t_status_poll d1)" "sp_id (close_poll_row now p) = poll_id"
    using find_Some_mem by (fastforce simp: find_poll_row_def)+
  have "List.find (\<lambda>q. sp_local_status_id q = Some status_id) (t_status_poll d1) \<noteq> None"
    unfolding find_not_None using assms(3) by (intro bexI [OF _ mem1(1)]) (simp add: close_poll_row_def)
  then obtain q where q: "List.find (\<lambda>q. sp_local_status_id q = Some status_id) (t_status_poll d1) = Some q" by blast
  have "q = close_poll_row now p"
    using find_Some_mem [OF q] mem1(1) assms(3) sp_tbl.conflict_eq [OF polls_okD(1) [OF ok]]
    by (simp add: sp_conflict_def sql_eq_def close_poll_row_def)
  then have qi: "sp_id q = poll_id" using mem1(2) by simp
  obtain ch ex where ex: "checked_add_seconds now1 (nsp_expires_in input) = Inr ex"
    and rows: "t_status_poll d2 = tbl_update (\<lambda>r. sp_id r = sp_id q) (edit_poll_row ch now1 ex input) (t_status_poll d1)"
    and frame: "t_local_notification d2 = t_local_notification d1" "t_local_status d2 = t_local_status d1"
    using edit_existing_poll [OF assms(6) q] by metis
  let ?p2 = "edit_poll_row ch now1 ex input (close_poll_row now p)"
  have row2: "find_poll_row d2 poll_id = Some ?p2"
    using find_poll_row_update [OF rows [unfolded qi]] row1 by (simp add: edit_poll_row_def)
  have o2: "poll_origin ?p2 d2 = Inr origin"
    using o assms(3) by (auto simp: poll_origin_def edit_poll_row_def close_poll_row_def frame d1 simp del: find_ex_Some
        split: option.splits)
  assume "\<nexists>err. expire_poll id_string new_id2 job_new_id2 pg_now2 now2 poll_id d2 = Inl err"
  then obtain d3 res where again: "expire_poll id_string new_id2 job_new_id2 pg_now2 now2 poll_id d2 = Inr (d3, res)"
    by (metis prod.exhaust sumE)
  then obtain e2 where e2: "res = Some e2" "pe_newly_expired e2"
  proof (cases rule: expire_poll_cases)
    case (unchanged q e2)
    then show thesis
      using row2 ex assms(7) by (auto simp: edit_poll_row_def or_else_def checked_add_seconds_def split: if_splits)
  qed (use row2 that in simp_all)
  let ?y = "poll_notification new_id now origin author"
  have "?y \<in> set (t_local_notification d2)"
    by (auto simp: frame d1 ns poll_recipients_mem author)
  moreover have "author \<in> set (poll_recipients origin poll_id d2)" by (simp add: poll_recipients_mem author)
  ultimately have "\<not> ln_conflict (poll_notification new_id2 now2 origin author) ?y"
    using expire_poll_no_conflict [OF again [unfolded e2(1)] e2(2) row2 o2] by blast
  then show False by (simp add: ln_conflict_def poll_notification_def author sql_eq_def)
qed

lemma demo_edit:
  "\<exists>d2 r. replace_local_poll length show_nat 81 91 0 400000000 70 (Some demo_question) (demo_expired []) = Inr (d2, r)"
proof -
  let ?p = "close_poll_row 300000000 (demo_poll_row\<lparr>sp_voters_count := Some 1, sp_updated_at := 5\<rparr>)"
  let ?d = "demo_expired []"
  have find: "List.find (\<lambda>p. sp_local_status_id p = Some 70) (t_status_poll ?d) = Some ?p"
    by (simp add: demo_expired_def close_poll_row_def demo_poll_row_def)
  have same: "\<not> local_poll_changed demo_question ?p ?d"
    by (simp add: local_poll_changed_def poll_options_of_def demo_expired_def demo_voted_def demo_question_def
        demo_poll_row_def close_poll_row_def tbl_order_def)
  have time: "checked_add_seconds 400000000 (nsp_expires_in demo_question) = Inr 700000000"
    by (simp add: checked_add_seconds_def seconds_def max_instant_def demo_question_def)
  let ?e = "?d\<lparr>t_status_poll := tbl_update (\<lambda>r. sp_id r = sp_id ?p)
      (edit_poll_row False 400000000 700000000 demo_question) (t_status_poll ?d)\<rparr>"
  have rows: "t_status_poll ?e = [edit_poll_row False 400000000 700000000 demo_question ?p]"
    by (simp add: demo_expired_def tbl_update_def)
  obtain row where row: "enqueue_poll_expiration show_nat 91 0 (sp_id ?p) 700000000 ?e = Inr (?e\<lparr>t_job := [row]\<rparr>)"
    using enqueue_poll_expiration_first [of ?e show_nat 91 0 "sp_id ?p" 700000000]
    by (auto simp: demo_expired_def demo_voted_def demo_polled_def)
  have "\<exists>r. find_poll_by_id (?e\<lparr>t_job := [row]\<rparr>) (sp_id ?p) = Inr r"
    using rows by (simp add: find_poll_by_id_def find_poll_row_def hydrate_poll_def demo_poll_row_def close_poll_row_def
        edit_poll_row_def)
  then obtain r where "find_poll_by_id (?e\<lparr>t_job := [row]\<rparr>) (sp_id ?p) = Inr r" by blast
  then have "replace_local_poll length show_nat 81 91 0 400000000 70 (Some demo_question) ?d = Inr (?e\<lparr>t_job := [row]\<rparr>, r)"
    unfolding replace_local_poll_def Let_def option.case demo_valid bind_res_simps time find if_not_P [OF same] row
    using same row by simp
  then show ?thesis by blast
qed

subsection \<open>Refreshing a remote poll\<close>

lemma store_remote_clears_votes:
  assumes "store_remote_poll i now s input d = Inr (d', k)" and "polls_ok d"
    and "List.find (\<lambda>p. sp_remote_status_id p = Some s) (t_status_poll d) = Some p"
  shows "k = sp_id p \<and> t_status_poll_vote d' = tbl_delete (\<lambda>v. spv_poll_id v = k) (t_status_poll_vote d)"
proof -
  define ch where "ch = (sp_multiple p \<noteq> rsp_multiple input \<or>
      map spo_title (poll_options_of d (sp_id p)) \<noteq> map fst (rsp_options input))"
  define b where "b = (if ch then delete_poll_votes (sp_id p) d else d)"
  obtain d1 where d1: "replace_options (sp_id p) (rsp_options input) b = Inr d1" and k: "k = sp_id p"
    and d': "t_status_poll_vote d' = t_status_poll_vote d1"
    using assms(1) unfolding store_remote_poll_def assms(3) Let_def option.case ch_def [symmetric] b_def [symmetric]
    by (auto simp: bind_res_Inr_iff split: if_splits)
  have refs: "\<forall>v \<in> set (t_status_poll_vote b). spv_poll_id v = sp_id p \<longrightarrow> vote_key v \<in> spo_key ` set (t_status_poll_option b)"
    using polls_okD(4) [OF assms(2)] by (auto simp: b_def delete_poll_votes_def tallies_ok_def)
  have "t_status_poll_vote d1 = tbl_delete (\<lambda>v. spv_poll_id v = sp_id p) (t_status_poll_vote b)"
    by (rule replace_options_cases [OF d1 disjI2 [OF refs]]) simp
  then show ?thesis by (auto simp: k d' b_def delete_poll_votes_def tbl_delete_def)
qed

text \<open>
  Every refresh of a known remote poll deletes all votes stored for it, also a refresh
  that changes neither the options nor the kind of choice: afterwards no local account is
  shown as having voted, and none is notified when the poll expires.
\<close>

lemma refresh_drops_local_votes:
  assumes "reachable poll_init (poll_step graphemes id_string) d"
    and "List.find (\<lambda>p. sp_remote_status_id p = Some status_id) (t_status_poll d) = Some p"
    and "upsert_remote_poll id_string i j pg_now now status_id input d = Inr (d', poll)"
  shows "pvs_own_votes (poll_viewer_state d' (sp_id p) account) = [] \<and>
    (fst origin = None \<longrightarrow> poll_recipients origin (sp_id p) d' = [])"
proof -
  have ok: "polls_ok d" using assms(1) by (rule poll_sys.reachable_inv)
  obtain d1 k where d1: "store_remote_poll i now status_id input d = Inr (d1, k)"
    and d': "(case or_else (rsp_closed_at input) (rsp_expires_at input) of None \<Rightarrow> Inr d1
       | Some e \<Rightarrow> bind_res (checked_add_seconds e five_minutes) (\<lambda>t. enqueue_poll_expiration id_string j pg_now k t d1)) = Inr d'"
    using assms(3) by (auto simp: upsert_remote_poll_def bind_res_Inr_iff split: if_splits)
  have "t_status_poll_vote d' = t_status_poll_vote d1"
    using d' enqueue_poll_expiration_frame(3) by (auto simp: bind_res_Inr_iff split: option.splits)
  then have "\<forall>v \<in> set (t_status_poll_vote d'). spv_poll_id v \<noteq> sp_id p"
    using store_remote_clears_votes [OF d1 ok assms(2)] by auto
  then show ?thesis
    by (auto simp: poll_viewer_state_def poll_recipients_def filter_empty_conv tbl_order_def List.map_filter_def)
qed

text \<open>A remote poll without end, a local vote in it, and a refresh with the same options.\<close>

definition demo_remote_status :: remote_status_row where
  "demo_remote_status = \<lparr> rs_id = 75, rs_activitypub_id = ''https://r/s'', rs_remote_actor_id = 8, rs_content = [],
     rs_visibility = Public, rs_published_at = 0, rs_updated_at = 0, rs_deleted_at = None, rs_in_reply_to = None,
     rs_in_reply_to_local_status_id = None, rs_in_reply_to_remote_status_id = None, rs_conversation_id = None,
     rs_object = JNull, rs_created_at = 0, rs_quote_automatic_policy = JArr [], rs_quote_manual_policy = JArr [] \<rparr>"

definition demo_remote_question :: remote_status_poll where
  "demo_remote_question = \<lparr> rsp_options = [([97], 3), ([98], 4)], rsp_multiple = False, rsp_expires_at = None,
     rsp_closed_at = None, rsp_voters_count = Some 7 \<rparr>"

definition demo_remote_row :: "int \<Rightarrow> instant \<Rightarrow> status_poll_row" where
  "demo_remote_row n t = \<lparr> sp_id = 82, sp_local_status_id = None, sp_remote_status_id = Some 75, sp_multiple = False,
     sp_hide_totals = False, sp_expires_at = None, sp_closed_at = None, sp_notifications_sent_at = None,
     sp_voters_count = Some n, sp_created_at = 0, sp_updated_at = t \<rparr>"

definition demo_remote_db :: "int \<Rightarrow> instant \<Rightarrow> int \<Rightarrow> status_poll_vote_row list \<Rightarrow> db" where
  "demo_remote_db n t m votes = demo_world\<lparr>t_remote_status := [demo_remote_status], t_status_poll := [demo_remote_row n t],
     t_status_poll_option :=
       [\<lparr> spo_poll_id = 82, spo_position = 0, spo_title = [97], spo_votes_count = 3 \<rparr>,
        \<lparr> spo_poll_id = 82, spo_position = 1, spo_title = [98], spo_votes_count = m \<rparr>],
     t_status_poll_vote := votes\<rparr>"

lemmas demo_remote_defs = demo_remote_db_def demo_remote_row_def demo_remote_question_def demo_world_def empty_db_def

lemma demo_remote_find:
  "\<exists>poll. find_poll_by_id (demo_remote_db n t m votes) 82 = Inr (Some poll)"
  by (simp add: find_poll_by_id_def find_poll_row_def hydrate_poll_def demo_remote_defs)

lemma demo_counts [simp]: "u64_as_i64 3 = 3" "u64_as_i64 4 = 4" "u64_as_i64 7 = 7"
  by (simp_all add: u64_as_i64_def wrap_i64_def)

lemma demo_remote_created:
  "\<exists>poll. upsert_remote_poll show_nat 82 92 0 0 75 demo_remote_question
     (demo_world\<lparr>t_remote_status := [demo_remote_status]\<rparr>) = Inr (demo_remote_db 7 0 4 [], poll)"
proof -
  obtain poll where poll: "find_poll_by_id (demo_remote_db 7 0 4 []) 82 = Inr (Some poll)"
    using demo_remote_find by blast
  have "store_remote_poll 82 0 75 demo_remote_question (demo_world\<lparr>t_remote_status := [demo_remote_status]\<rparr>) =
      Inr (demo_remote_db 7 0 4 [], 82)"
    by (simp add: store_remote_poll_def with_fk_def fk_remote_status_def tbl_insert_def replace_options_def
        delete_poll_options_def tbl_delete_def spo_conflict_def spo_key_def trim_id is_whitespace_def demo_remote_defs
        demo_remote_status_def)
  then have "upsert_remote_poll show_nat 82 92 0 0 75 demo_remote_question
      (demo_world\<lparr>t_remote_status := [demo_remote_status]\<rparr>) = Inr (demo_remote_db 7 0 4 [], poll)"
    unfolding upsert_remote_poll_def using poll by (simp add: found_poll_def demo_remote_question_def or_else_def)
  then show ?thesis by blast
qed

lemma demo_remote_refreshed:
  "\<exists>poll. upsert_remote_poll show_nat 83 93 0 9 75 demo_remote_question
     (demo_remote_db 8 5 5 [new_vote (\<lambda>_. 60) 5 82 (Some 2) None None 1]) = Inr (demo_remote_db 7 9 4 [], poll)"
proof -
  obtain poll where poll: "find_poll_by_id (demo_remote_db 7 9 4 []) 82 = Inr (Some poll)"
    using demo_remote_find by blast
  have "store_remote_poll 83 9 75 demo_remote_question (demo_remote_db 8 5 5 [new_vote (\<lambda>_. 60) 5 82 (Some 2) None None 1]) =
      Inr (demo_remote_db 7 9 4 [], 82)"
    by (simp add: store_remote_poll_def tbl_insert_def replace_options_def poll_options_of_def tbl_order_def
        delete_poll_options_def tbl_delete_def spo_conflict_def spo_key_def trim_id is_whitespace_def demo_remote_defs
        tbl_update_def remote_poll_row_def image_Collect conj_disj_distribR ex_disj_distrib)
  then have "upsert_remote_poll show_nat 83 93 0 9 75 demo_remote_question
      (demo_remote_db 8 5 5 [new_vote (\<lambda>_. 60) 5 82 (Some 2) None None 1]) = Inr (demo_remote_db 7 9 4 [], poll)"
    unfolding upsert_remote_poll_def using poll by (simp add: found_poll_def demo_remote_question_def or_else_def)
  then show ?thesis by blast
qed

lemma demo_remote_voted:
  "\<exists>poll. vote_in_poll (\<lambda>_. 60) 5 82 2 [1] (demo_remote_db 7 0 4 []) =
     Inr (demo_remote_db 8 5 5 [new_vote (\<lambda>_. 60) 5 82 (Some 2) None None 1], poll)"
proof -
  let ?d = "demo_remote_db 7 0 4 []" and ?d' = "demo_remote_db 8 5 5 [new_vote (\<lambda>_. 60) 5 82 (Some 2) None None 1]"
  have checks: "vote_checks 5 82 (Some 2) None [1] ?d = Inr (demo_remote_row 7 0, [], [1])"
    by (simp add: vote_checks_def find_poll_row_def poll_open_def sort_dedup_def votes_of_def demo_remote_defs)
  have "fk_local ?d 2" by (simp add: fk_local_def demo_remote_defs)
  then have cast: "cast_votes (\<lambda>_. 60) 5 82 (Some 2) None None [1] ?d = Inr (?d'\<lparr>t_status_poll := [demo_remote_row 7 0]\<rparr>)"
    by (simp add: cast_vote_def with_fk_def tbl_insert_def spo_key_def tbl_update_def wrap_i64_def new_vote_def
        demo_remote_defs vote_result_def)
  have upd: "?d'\<lparr>t_status_poll := tbl_update (\<lambda>r. sp_id r = sp_id (demo_remote_row 7 0)) (count_voter True 5)
      [demo_remote_row 7 0]\<rparr> = ?d'"
    by (simp add: demo_remote_db_def demo_remote_row_def tbl_update_def count_voter_def wrap_i64_def)
  obtain poll where "find_poll_by_id ?d' 82 = Inr (Some poll)" using demo_remote_find by blast
  then have "vote_in_poll (\<lambda>_. 60) 5 82 2 [1] ?d = Inr (?d', poll)"
    using upd unfolding vote_in_poll_def vote_def checks bind_res_simps prod.case cast Let_def
    by (simp add: vote_result_def) (simp add: count_voter_def demo_remote_row_def wrap_i64_def)
  then show ?thesis by blast
qed

subsection \<open>Scheduled polls\<close>

definition scheduled_rows :: "uuid \<Rightarrow> nat \<Rightarrow> ustring list \<Rightarrow> scheduled_status_poll_option_row list" where
  "scheduled_rows s k titles =
     map (\<lambda>(j, t). \<lparr> sspo_scheduled_status_id = s, sspo_position = int j, sspo_title = trim t \<rparr>) (enumerate k titles)"

lemma insert_scheduled_rows:
  assumes "k + length titles < 2147483648"
    and "\<forall>r \<in> set t. sspo_scheduled_status_id r = s \<longrightarrow> sspo_position r < int k"
  shows "insert_scheduled_options s k titles t = Inr (t @ scheduled_rows s k titles)"
  using assms
proof (induction titles arbitrary: k t)
  case (Cons a titles)
  let ?r = "\<lparr> sspo_scheduled_status_id = s, sspo_position = int k, sspo_title = trim a \<rparr>"
  have "\<forall>r \<in> set t. \<not> sspo_conflict ?r r"
    using Cons.prems(2) by (fastforce simp: sspo_conflict_def)
  then have "tbl_insert sspo_conflict ?r t = Inr (t @ [?r])" by (simp add: tbl_insert_Inr)
  moreover have "insert_scheduled_options s (Suc k) titles (t @ [?r]) = Inr ((t @ [?r]) @ scheduled_rows s (Suc k) titles)"
    using Cons.prems by (intro Cons.IH) (auto simp: less_Suc_eq_le dest: less_imp_le)
  ultimately show ?case using Cons.prems(1) by (simp add: scheduled_rows_def)
qed (simp add: scheduled_rows_def)

lemma scheduled_rows_titles:
  "map sspo_title (scheduled_rows s k titles) = map trim titles"
  "map sspo_position (scheduled_rows s k titles) = map int [k..<k + length titles]"
  "r \<in> set (scheduled_rows s k titles) \<Longrightarrow> sspo_scheduled_status_id r = s"
proof -
  show "map sspo_title (scheduled_rows s k titles) = map trim titles"
    by (induction titles arbitrary: k) (simp_all add: scheduled_rows_def)
  have "map sspo_position (scheduled_rows s k titles) = map int (map fst (enumerate k titles))"
    by (simp add: scheduled_rows_def comp_def case_prod_beta del: map_fst_enumerate)
  then show "map sspo_position (scheduled_rows s k titles) = map int [k..<k + length titles]"
    unfolding map_fst_enumerate .
  show "r \<in> set (scheduled_rows s k titles) \<Longrightarrow> sspo_scheduled_status_id r = s"
    by (auto simp: scheduled_rows_def)
qed

lemma find_appended: "\<forall>x \<in> set t. f x \<noteq> k \<Longrightarrow> f r = k \<Longrightarrow> List.find (\<lambda>x. f x = k) (t @ [r]) = Some r"
  by (induction t) auto

lemma validate_poll_bounds: "validate_poll graphemes input = Inr () \<Longrightarrow> length (nsp_options input) \<le> 4"
  by (simp add: validate_poll_def max_poll_options_def split: if_splits)

lemma validate_trimmed:
  "validate_poll graphemes (input\<lparr>nsp_options := map trim (nsp_options input)\<rparr>) = validate_poll graphemes input"
  by (simp add: validate_poll_def Let_def comp_def)

text \<open>
  The poll of a scheduled status is read back as it was submitted, with its titles
  trimmed, and is still valid when the status is published.
\<close>

lemma scheduled_poll_roundtrip:
  assumes "validate_poll graphemes input = Inr ()"
    and "\<forall>p \<in> set (t_scheduled_status_poll d). ssp_scheduled_status_id p \<noteq> status_id"
    and "\<forall>r \<in> set (t_scheduled_status_poll_option d). sspo_scheduled_status_id r \<noteq> status_id"
  shows "\<exists>d' stored. create_scheduled_poll graphemes True status_id input d = Inr d' \<and>
    scheduled_poll d' status_id = Some stored \<and>
    stored = input\<lparr>nsp_options := map trim (nsp_options input)\<rparr> \<and> validate_poll graphemes stored = Inr ()"
proof -
  let ?p = "\<lparr> ssp_scheduled_status_id = status_id, ssp_multiple = nsp_multiple input,
      ssp_hide_totals = nsp_hide_totals input, ssp_expires_in = nsp_expires_in input \<rparr>"
  let ?rows = "scheduled_rows status_id 0 (nsp_options input)"
  let ?d = "d\<lparr>t_scheduled_status_poll := t_scheduled_status_poll d @ [?p],
      t_scheduled_status_poll_option := t_scheduled_status_poll_option d @ ?rows\<rparr>"
  have poll: "tbl_insert ssp_conflict ?p (t_scheduled_status_poll d) = Inr (t_scheduled_status_poll d @ [?p])"
    using assms(2) by (auto simp: tbl_insert_Inr ssp_conflict_def)
  have opts: "insert_scheduled_options status_id 0 (nsp_options input) (t_scheduled_status_poll_option d) =
      Inr (t_scheduled_status_poll_option d @ ?rows)"
    using validate_poll_bounds [OF assms(1)] assms(3) by (intro insert_scheduled_rows) auto
  have created: "create_scheduled_poll graphemes True status_id input d = Inr ?d"
    by (simp add: create_scheduled_poll_def assms(1) with_fk_def poll opts)
  have none: "filter (\<lambda>o'. sspo_scheduled_status_id o' = status_id) (t_scheduled_status_poll_option d) = []"
    using assms(3) by (simp add: filter_empty_conv)
  have own: "filter (\<lambda>o'. sspo_scheduled_status_id o' = status_id) ?rows = ?rows"
    using scheduled_rows_titles(3) by (simp add: filter_id_conv)
  have sorted: "tbl_order sspo_position ?rows = ?rows"
    unfolding tbl_order_def by (rule sort_key_id_if_sorted) (simp add: scheduled_rows_titles(2) sorted_map)
  have "List.find (\<lambda>p. ssp_scheduled_status_id p = status_id) (t_scheduled_status_poll d @ [?p]) = Some ?p"
    using assms(2) by (rule find_appended) simp
  then have "scheduled_poll ?d status_id = Some (input\<lparr>nsp_options := map trim (nsp_options input)\<rparr>)"
    by (simp add: scheduled_poll_def none own sorted scheduled_rows_titles(1))
  then show ?thesis using created validate_trimmed [of graphemes input] assms(1) by auto
qed

end
