(* ===== verification/Roosty_Worker.thy ===== *)
theory Roosty_Worker
  imports Roosty_Jobs
begin

text \<open>
  The durable worker (\<^verbatim>\<open>src/crates/server/src/main.rs\<close>): claiming one job, dispatching it
  by kind, and recording its outcome; the loop around it, the pool of loops, and the loop that
  drains expired jobs. Also the outcome rules of remote media jobs
  (\<^verbatim>\<open>src/crates/server/src/media.rs\<close>), the classification of delivery responses
  (\<^verbatim>\<open>src/crates/server/src/federation.rs\<close>), and the operator's input checks.

  The functions the dispatch calls are the fields of \<open>handlers\<close>, so the model holds for all
  of them. Each maps the payload and the database to the new database and its result. The texts
  of database, parser and HTTP status values come from third-party crates and are arguments, as
  is \<open>parse_uuid\<close>.
\<close>

subsection \<open>Error texts\<close>

record displays =
  dsp_db_err :: "db_err \<Rightarrow> string"
  dsp_parse_error :: string
  dsp_status_code :: "nat \<Rightarrow> string"

primrec account_relationship_error_to_string :: "account_relationship_error \<Rightarrow> string" where
  "account_relationship_error_to_string SelfFollow = ''accounts cannot follow themselves''"
| "account_relationship_error_to_string FollowTargetNotFound = ''followed account does not exist''"
| "account_relationship_error_to_string FollowBlocked = ''follow is blocked by an account relationship''"
| "account_relationship_error_to_string SelfModeration = ''accounts cannot moderate themselves''"
| "account_relationship_error_to_string ModerationTargetNotFound = ''target account does not exist''"

text \<open>A panic is not an error value; the text beside it is the message of the unwinding.\<close>

primrec roosty_error_to_string :: "displays \<Rightarrow> roosty_error \<Rightarrow> string" where
  "roosty_error_to_string dsp (Configuration s) = ''configuration error: '' @ s"
| "roosty_error_to_string dsp (Database e) = ''database error: '' @ dsp_db_err dsp e"
| "roosty_error_to_string dsp (FederationDiscovery s) = ''federation policy rejects remote domain '' @ s"
| "roosty_error_to_string dsp (AccountRelationship e) = account_relationship_error_to_string e"
| "roosty_error_to_string dsp (InvalidInput s) = ''invalid input: '' @ s"
| "roosty_error_to_string dsp StatusVisibilityParse = ''invalid status visibility: '' @ dsp_parse_error dsp"
| "roosty_error_to_string dsp (Io s) = ''io error: '' @ s"
| "roosty_error_to_string dsp (Serialization s) = ''serialization error: '' @ s"
| "roosty_error_to_string dsp (NotImplemented s) = ''operation is not implemented yet: '' @ s"
| "roosty_error_to_string dsp (Panic s) = ''panicked: '' @ s"

fun starts_with :: "string \<Rightarrow> string \<Rightarrow> bool" where
  "starts_with s [] \<longleftrightarrow> True"
| "starts_with [] (p # ps) \<longleftrightarrow> False"
| "starts_with (c # s) (p # ps) \<longleftrightarrow> c = p \<and> starts_with s ps"

subsection \<open>Permanent failures\<close>

definition permanent_fetch_failure :: "string \<Rightarrow> roosty_error" where
  "permanent_fetch_failure reason = InvalidInput (''permanent federation fetch failure: '' @ reason)"

definition is_success :: "nat \<Rightarrow> bool" where
  "is_success status \<longleftrightarrow> 200 \<le> status \<and> status < 300"

definition classify_delivery_status :: "displays \<Rightarrow> nat \<Rightarrow> unit result" where
  "classify_delivery_status dsp status =
     (if is_success status then Inr ()
      else if status \<in> set [400, 401, 403, 404, 405, 410]
      then Inl (InvalidInput
             (''permanent federation delivery failure: remote inbox returned '' @ dsp_status_code dsp status))
      else Inl (InvalidInput (''remote inbox returned '' @ dsp_status_code dsp status)))"

record worker_config =
  wc_displays :: displays
  wc_federation_delivery_max_age :: int
  wc_remote_media_cache_ttl :: int

definition is_federation_job :: "claimed_job \<Rightarrow> bool" where
  "is_federation_job job \<longleftrightarrow> starts_with (job_kind_as_str (cj_kind job)) ''federation_''"

definition permanent_failure :: "worker_config \<Rightarrow> instant \<Rightarrow> claimed_job \<Rightarrow> roosty_error \<Rightarrow> bool" where
  "permanent_failure cfg now job error \<longleftrightarrow>
     is_federation_job job \<and>
     (job_has_exceeded_max_age now (cj_created_at job) (wc_federation_delivery_max_age cfg) \<or>
      starts_with (roosty_error_to_string (wc_displays cfg) error) ''permanent federation delivery failure:'' \<or>
      starts_with (roosty_error_to_string (wc_displays cfg) error) ''permanent federation fetch failure:'')"

definition permanent_media_failure :: "worker_config \<Rightarrow> instant \<Rightarrow> claimed_job \<Rightarrow> roosty_error \<Rightarrow> bool" where
  "permanent_media_failure cfg now job error \<longleftrightarrow>
     job_has_exceeded_max_age now (cj_created_at job) (wc_federation_delivery_max_age cfg) \<or>
     starts_with (roosty_error_to_string (wc_displays cfg) error) ''permanent federation fetch failure:''"

text \<open>
  Recording the outcome of a claimed job, shared by both callers. A panic unwinds past the
  match, so nothing is recorded.
\<close>

definition finish_job ::
  "worker_config \<Rightarrow> (roosty_error \<Rightarrow> bool) \<Rightarrow> instant \<Rightarrow> instant \<Rightarrow> claimed_job \<Rightarrow> unit result \<Rightarrow> db \<Rightarrow>
     db \<times> unit result" where
  "finish_job cfg permanent now pg_now job outcome d =
     (case outcome of
        Inr _ \<Rightarrow> (fst (mark_job_completed pg_now job d), Inr ())
      | Inl (Panic s) \<Rightarrow> (d, Inl (Panic s))
      | Inl error \<Rightarrow>
          let text = utext (roosty_error_to_string (wc_displays cfg) error)
          in if permanent error then (fst (mark_job_permanently_failed pg_now job text d), Inr ())
             else (case mark_job_failed now job text d of
                     Inl e \<Rightarrow> (d, Inl e)
                   | Inr (d', _) \<Rightarrow> (d', Inr ())))"

subsection \<open>Dispatch\<close>

type_synonym handler = "json \<Rightarrow> db \<Rightarrow> db \<times> unit result"

record handlers =
  h_deliver_follow_response :: handler
  h_deliver_status_activity :: handler
  h_deliver_quote_activity :: handler
  h_deliver_follow_activity :: handler
  h_deliver_favourite_activity :: handler
  h_deliver_reblog_activity :: handler
  h_deliver_actor_update :: handler
  h_deliver_moderation_activity :: handler
  h_fetch_remote_media :: handler
  h_refresh_remote_featured :: handler
  h_refresh_remote_featured_tags :: handler
  h_resolve_remote_status_thread :: handler
  h_fetch_remote_status_replies :: handler
  h_fetch_remote_status_reply :: handler
  h_push_deliver :: "json \<Rightarrow> db \<Rightarrow> db \<times> (string + unit)"
  h_merge_notification_requests :: "uuid \<Rightarrow> db \<Rightarrow> db \<times> unit result"
  h_cleanup_notification_requests :: "uuid \<Rightarrow> db \<Rightarrow> db \<times> unit result"
  h_purge_suspended_local_account :: "uuid \<Rightarrow> db \<Rightarrow> (db \<times> string list) result"
  h_reconcile_federation_domain_block :: "uuid \<Rightarrow> db \<Rightarrow> db result"
  h_publish_scheduled_status :: handler
  h_expire_poll_job :: handler
  h_publish_poll_update_job :: handler
  h_deliver_poll_vote :: handler
  h_maintain_trends :: "db \<Rightarrow> db \<times> bool result"
  h_prune_preview_cards :: "instant \<Rightarrow> db \<Rightarrow> db \<times> string list result"
  h_refresh_account_suggestion_scores :: "db \<Rightarrow> db \<times> unit result"
  h_fetch_preview_card :: "json \<Rightarrow> nat \<Rightarrow> db \<Rightarrow> db \<times> unit result"
  h_backfill_preview_cards :: "db \<Rightarrow> db \<times> bool result"
  h_maintain_actor_keys :: "db \<Rightarrow> db \<times> unit result"
  h_migrate_remote_actor_relationships :: "json \<Rightarrow> uuid \<Rightarrow> db \<Rightarrow> db \<times> unit result"
  h_parse_uuid :: "string \<Rightarrow> uuid option"
  h_id_string :: "uuid \<Rightarrow> string"

text \<open>An arm either gives the value of \<open>result\<close>, or leaves the function early by \<open>?\<close>.\<close>

datatype arm_end = ArmResult "unit result" | EarlyReturn roosty_error

definition payload_str :: "string \<Rightarrow> json \<Rightarrow> string option" where
  "payload_str k payload = (case json_field k payload of Some (JStr s) \<Rightarrow> Some s | _ \<Rightarrow> None)"

definition arm_result :: "db \<times> unit result \<Rightarrow> db \<times> arm_end" where
  "arm_result r = (fst r, ArmResult (snd r))"

definition enqueue_continuation ::
  "handlers \<Rightarrow> uuid \<Rightarrow> instant \<Rightarrow> instant \<Rightarrow> job_kind \<Rightarrow> string \<Rightarrow> claimed_job \<Rightarrow> db \<Rightarrow> db \<times> arm_end" where
  "enqueue_continuation hs new_id pg_now now kind prefix job d =
     (case enqueue_job new_id pg_now kind (JObj []) (Some (prefix @ h_id_string hs (cj_id job))) now d of
        Inl e \<Rightarrow> (d, ArmResult (Inl e))
      | Inr (d', _) \<Rightarrow> (d', ArmResult (Inr ())))"

definition notification_request_arm ::
  "handlers \<Rightarrow> string \<Rightarrow> (uuid \<Rightarrow> db \<Rightarrow> db \<times> unit result) \<Rightarrow> json \<Rightarrow> db \<Rightarrow> db \<times> arm_end" where
  "notification_request_arm hs name run payload d =
     (case payload_str ''account_id'' payload of
        None \<Rightarrow> (d, EarlyReturn (InvalidInput (name @ '' job account_id is missing'')))
      | Some s \<Rightarrow>
          (case h_parse_uuid hs s of
             None \<Rightarrow> (d, ArmResult (Inl (InvalidInput (name @ '' job account_id is invalid''))))
           | Some i \<Rightarrow> arm_result (run i d)))"

definition account_purge_arm :: "handlers \<Rightarrow> json \<Rightarrow> db \<Rightarrow> db \<times> arm_end" where
  "account_purge_arm hs payload d =
     (case payload_str ''account_id'' payload of
        None \<Rightarrow> (d, EarlyReturn (InvalidInput ''account purge job account_id is missing''))
      | Some s \<Rightarrow>
          (case h_parse_uuid hs s of
             None \<Rightarrow> (d, EarlyReturn (InvalidInput ''account purge job account_id is invalid''))
           | Some i \<Rightarrow>
               (case h_purge_suspended_local_account hs i d of
                  Inl e \<Rightarrow> (d, EarlyReturn e)
                | Inr (d', _) \<Rightarrow> (d', ArmResult (Inr ())))))"

definition domain_reconcile_arm :: "handlers \<Rightarrow> json \<Rightarrow> db \<Rightarrow> db \<times> arm_end" where
  "domain_reconcile_arm hs payload d =
     (case payload_str ''domain_block_id'' payload of
        None \<Rightarrow> (d, EarlyReturn (InvalidInput ''domain reconciliation job domain_block_id is missing''))
      | Some s \<Rightarrow>
          (case h_parse_uuid hs s of
             None \<Rightarrow> (d, EarlyReturn (InvalidInput ''domain reconciliation job domain_block_id is invalid''))
           | Some i \<Rightarrow>
               (case h_reconcile_federation_domain_block hs i d of
                  Inl e \<Rightarrow> (d, EarlyReturn e)
                | Inr d' \<Rightarrow> (d', ArmResult (Inr ())))))"

definition trend_maintenance_arm ::
  "worker_config \<Rightarrow> handlers \<Rightarrow> uuid \<Rightarrow> instant \<Rightarrow> instant \<Rightarrow> claimed_job \<Rightarrow> db \<Rightarrow> db \<times> arm_end" where
  "trend_maintenance_arm cfg hs new_id pg_now now job d =
     (case h_maintain_trends hs d of
        (d, Inl e) \<Rightarrow> (d, EarlyReturn e)
      | (d, Inr has_more) \<Rightarrow>
          if has_more
          then enqueue_continuation hs new_id pg_now now TrendMaintenance ''trend-refresh-continuation:'' job d
          else (case h_prune_preview_cards hs (now - wc_remote_media_cache_ttl cfg) d of
                  (d, Inl e) \<Rightarrow> (d, EarlyReturn e)
                | (d, Inr _) \<Rightarrow> (d, ArmResult (Inr ()))))"

definition preview_backfill_arm ::
  "handlers \<Rightarrow> uuid \<Rightarrow> instant \<Rightarrow> instant \<Rightarrow> claimed_job \<Rightarrow> db \<Rightarrow> db \<times> arm_end" where
  "preview_backfill_arm hs new_id pg_now now job d =
     (case h_backfill_preview_cards hs d of
        (d, Inl e) \<Rightarrow> (d, EarlyReturn e)
      | (d, Inr has_more) \<Rightarrow>
          if has_more
          then enqueue_continuation hs new_id pg_now now PreviewCardBackfill ''preview-card-backfill:'' job d
          else (d, ArmResult (Inr ())))"

definition dispatch ::
  "worker_config \<Rightarrow> handlers \<Rightarrow> uuid \<Rightarrow> instant \<Rightarrow> instant \<Rightarrow> claimed_job \<Rightarrow> db \<Rightarrow> db \<times> arm_end" where
  "dispatch cfg hs new_id pg_now now job d =
     (let payload = cj_payload job; call = (\<lambda>h. arm_result (h payload d))
      in case cj_kind job of
           FederationFollowResponse \<Rightarrow> call (h_deliver_follow_response hs)
         | FederationStatusDelivery \<Rightarrow> call (h_deliver_status_activity hs)
         | FederationQuoteDelivery \<Rightarrow> call (h_deliver_quote_activity hs)
         | FederationFollowDelivery \<Rightarrow> call (h_deliver_follow_activity hs)
         | FederationFavouriteDelivery \<Rightarrow> call (h_deliver_favourite_activity hs)
         | FederationReblogDelivery \<Rightarrow> call (h_deliver_reblog_activity hs)
         | FederationActorUpdateDelivery \<Rightarrow> call (h_deliver_actor_update hs)
         | FederationModerationDelivery \<Rightarrow> call (h_deliver_moderation_activity hs)
         | FederationRemoteMediaFetch \<Rightarrow> (d, ArmResult (Inr ()))
         | FederationFeaturedRefresh \<Rightarrow> call (h_refresh_remote_featured hs)
         | FederationFeaturedTagsRefresh \<Rightarrow> call (h_refresh_remote_featured_tags hs)
         | FederationThreadResolve \<Rightarrow> call (h_resolve_remote_status_thread hs)
         | FederationRepliesFetch \<Rightarrow> call (h_fetch_remote_status_replies hs)
         | FederationReplyFetch \<Rightarrow> call (h_fetch_remote_status_reply hs)
         | WebPushDelivery \<Rightarrow>
             (case h_push_deliver hs payload d of
                (d, Inl text) \<Rightarrow> (d, ArmResult (Inl (Configuration text)))
              | (d, Inr _) \<Rightarrow> (d, ArmResult (Inr ())))
         | NotificationRequestMerge \<Rightarrow>
             notification_request_arm hs ''notification merge'' (h_merge_notification_requests hs) payload d
         | NotificationRequestCleanup \<Rightarrow>
             notification_request_arm hs ''notification cleanup'' (h_cleanup_notification_requests hs) payload d
         | AccountPurge \<Rightarrow> account_purge_arm hs payload d
         | DomainModerationReconcile \<Rightarrow> domain_reconcile_arm hs payload d
         | ScheduledStatusPublish \<Rightarrow> call (h_publish_scheduled_status hs)
         | PollExpiration \<Rightarrow> call (h_expire_poll_job hs)
         | PollUpdate \<Rightarrow> call (h_publish_poll_update_job hs)
         | FederationPollVoteDelivery \<Rightarrow> call (h_deliver_poll_vote hs)
         | TrendMaintenance \<Rightarrow> trend_maintenance_arm cfg hs new_id pg_now now job d
         | AccountSuggestionMaintenance \<Rightarrow> arm_result (h_refresh_account_suggestion_scores hs d)
         | PreviewCardFetch \<Rightarrow> arm_result (h_fetch_preview_card hs payload (cj_attempts job) d)
         | PreviewCardBackfill \<Rightarrow> preview_backfill_arm hs new_id pg_now now job d
         | ActorKeyMaintenance \<Rightarrow> arm_result (h_maintain_actor_keys hs d)
         | RemoteActorMigration \<Rightarrow>
             arm_result (h_migrate_remote_actor_relationships hs payload (cj_id job) d))"

subsection \<open>One iteration\<close>

text \<open>What an iteration reads from its surroundings: clocks, fresh identifiers, locked rows.\<close>

record iteration_env =
  ie_locked :: "uuid \<Rightarrow> bool"
  ie_now :: instant
  ie_pg_now :: instant
  ie_claim_id :: uuid
  ie_new_id :: uuid
  ie_finish_now :: instant
  ie_finish_pg_now :: instant

definition claim_ttl :: int where "claim_ttl = seconds 300"

definition execute_claimed_remote_media_job ::
  "worker_config \<Rightarrow> handlers \<Rightarrow> instant \<Rightarrow> instant \<Rightarrow> claimed_job \<Rightarrow> db \<Rightarrow> db \<times> unit result" where
  "execute_claimed_remote_media_job cfg hs now pg_now job d =
     (case h_fetch_remote_media hs (cj_payload job) d of
        (d, outcome) \<Rightarrow> finish_job cfg (permanent_media_failure cfg now job) now pg_now job outcome d)"

definition worker_iteration ::
  "worker_config \<Rightarrow> handlers \<Rightarrow> string \<Rightarrow> iteration_env \<Rightarrow> db \<Rightarrow> db \<times> bool result" where
  "worker_iteration cfg hs worker_id env d =
     (case claim_due_job (ie_locked env) (ie_now env) (ie_pg_now env) (ie_claim_id env) worker_id claim_ttl d of
        (d, Inl e) \<Rightarrow> (d, Inl e)
      | (d, Inr None) \<Rightarrow> (d, Inr False)
      | (d, Inr (Some job)) \<Rightarrow>
          if cj_kind job = FederationRemoteMediaFetch
          then (case execute_claimed_remote_media_job cfg hs (ie_finish_now env) (ie_finish_pg_now env) job d of
                  (d, r) \<Rightarrow> (d, bind_res r (\<lambda>_. Inr True)))
          else (case dispatch cfg hs (ie_new_id env) (ie_pg_now env) (ie_now env) job d of
                  (d, EarlyReturn e) \<Rightarrow> (d, Inl e)
                | (d, ArmResult outcome) \<Rightarrow>
                    (case finish_job cfg (permanent_failure cfg (ie_finish_now env) job)
                            (ie_finish_now env) (ie_finish_pg_now env) job outcome d of
                       (d, r) \<Rightarrow> (d, bind_res r (\<lambda>_. Inr True)))))"

subsection \<open>The loop and the pool\<close>

text \<open>
  \<open>worker_loop\<close> over the environments of its iterations: it goes on until a shutdown is
  requested or an iteration fails. The list of environments bounds the observed run;
  \<open>None\<close> says that the loop is still running at its end.
\<close>

fun worker_loop ::
  "worker_config \<Rightarrow> handlers \<Rightarrow> string \<Rightarrow> (bool \<times> iteration_env) list \<Rightarrow> db \<Rightarrow> db \<times> unit result option" where
  "worker_loop cfg hs worker_id [] d = (d, None)"
| "worker_loop cfg hs worker_id ((shutdown, env) # envs) d =
     (if shutdown then (d, Some (Inr ()))
      else case worker_iteration cfg hs worker_id env d of
             (d, Inl e) \<Rightarrow> (d, Some (Inl e))
           | (d, Inr _) \<Rightarrow> worker_loop cfg hs worker_id envs d)"

text \<open>
  \<open>worker_pool\<close> waits for its tasks in the order in which they end and returns the first
  failure; the tasks that are still running are then dropped.
\<close>

fun join_workers :: "unit result list \<Rightarrow> unit result" where
  "join_workers [] = Inr ()"
| "join_workers (r # rs) = bind_res r (\<lambda>_. join_workers rs)"

subsection \<open>Retention\<close>

definition job_cleanup_batch_size :: nat where "job_cleanup_batch_size = 1000"

record cleanup_env =
  ce_shutdown :: bool
  ce_locked :: "uuid \<Rightarrow> bool"
  ce_now :: instant

text \<open>
  The inner loop of \<open>job_cleanup_loop\<close>: batches until one is not full, an error, or a
  shutdown. It ends because every full batch removes rows.
\<close>

function drain_expired_jobs ::
  "(nat \<Rightarrow> cleanup_env) \<Rightarrow> int \<Rightarrow> int \<Rightarrow> nat \<Rightarrow> nat \<times> nat \<Rightarrow> db \<Rightarrow> db \<times> nat \<times> nat" where
  "drain_expired_jobs env sr pr k (s, f) d =
     (if ce_shutdown (env k) then (d, s, f)
      else case cleanup_expired_jobs (ce_locked (env k)) (ce_now (env k)) sr pr job_cleanup_batch_size d of
             Inl e \<Rightarrow> (d, s, f)
           | Inr (d', out) \<Rightarrow>
               if job_cleanup_total out < job_cleanup_batch_size
               then (d', s + jco_successful out, f + jco_permanently_failed out)
               else drain_expired_jobs env sr pr (Suc k)
                      (s + jco_successful out, f + jco_permanently_failed out) d')"
  by pat_completeness auto

lemma cleanup_removes:
  assumes "cleanup_expired_jobs locked now sr pr n d = Inr (d', out)"
  shows "length (t_job d) = length (t_job d') + job_cleanup_total out"
proof -
  have count: "rows_affected p xs + rows_affected (\<lambda>j. \<not> p j) xs = length xs" for p and xs :: "job_row list"
    using sum_length_filter_compl [of p xs] by (simp add: rows_affected_def)
  show ?thesis
    using assms length_tbl_delete [of "t_job d"] count [of "\<lambda>j. job_permanently_failed_at j = None"]
    by (auto simp: cleanup_expired_jobs_def Let_def job_cleanup_total_def split: if_splits)
qed

termination drain_expired_jobs
proof (relation "measure (\<lambda>(env, sr, pr, k, acc, d). length (t_job d))")
  fix env :: "nat \<Rightarrow> cleanup_env" and sr pr :: int and k s f :: nat and d d' :: db and x out
  assume "cleanup_expired_jobs (ce_locked (env k)) (ce_now (env k)) sr pr job_cleanup_batch_size d = Inr x"
    and "(d', out) = x" and "\<not> job_cleanup_total out < job_cleanup_batch_size"
  then show "((env, sr, pr, Suc k, (s + jco_successful out, f + jco_permanently_failed out), d'),
      (env, sr, pr, k, (s, f), d)) \<in> measure (\<lambda>(env, sr, pr, k, acc, d). length (t_job d))"
    using cleanup_removes [of "ce_locked (env k)" "ce_now (env k)" sr pr job_cleanup_batch_size d d' out]
    by (auto simp: job_cleanup_batch_size_def)
qed simp

subsection \<open>Operator input\<close>

definition validate_username :: "ustring \<Rightarrow> unit result" where
  "validate_username username =
     (if str_len username < 2 \<or> 30 < str_len username \<or>
         \<not> list_all (\<lambda>c. is_ascii_alphanumeric c \<or> c = 95) username
      then Inl (InvalidInput ''username must be 2-30 ASCII letters, numbers, or underscores'')
      else Inr ())"

definition validate_email :: "ustring \<Rightarrow> unit result" where
  "validate_email email =
     (if 64 \<notin> set email \<or> trim email \<noteq> email
      then Inl (InvalidInput ''email must contain @ and must not contain surrounding whitespace'')
      else Inr ())"

end
