(* ===== verification/Roosty_Worker_Properties.thy ===== *)
theory Roosty_Worker_Properties
  imports Roosty_Worker Roosty_Job_Properties
begin

text \<open>
  The properties of the worker: a job whose handler returns is settled; a handler that leaves
  the dispatch early is not, and ends the worker; the marker of permanent federation failures
  never matches; and draining expired jobs ends with none left.
\<close>

subsection \<open>Outcomes\<close>

lemma no_lease_after_update:
  assumes "\<And>j. job_claim_id (f j) = None" and "j \<in> set (tbl_update (holds_lease c) f t)"
  shows "\<not> holds_lease c j"
  using assms by (auto simp: set_tbl_update holds_lease_def)

lemma finish_job_error:
  assumes "finish_job cfg permanent now pg_now job (Inl e) d = (d', Inr ())"
  shows "(if permanent e
      then (fst (mark_job_permanently_failed pg_now job (utext (roosty_error_to_string (wc_displays cfg) e)) d), Inr ())
      else case mark_job_failed now job (utext (roosty_error_to_string (wc_displays cfg) e)) d of
             Inl e \<Rightarrow> (d, Inl e) | Inr (d', _) \<Rightarrow> (d', Inr ())) = (d', Inr ())"
  using assms by (cases e) (auto simp: finish_job_def Let_def simp del: roosty_error_to_string.simps split: if_splits)

lemma finish_job_settles:
  assumes "finish_job cfg permanent now pg_now job outcome d = (d', Inr ())" and "j \<in> set (t_job d')"
  shows "\<not> holds_lease job j"
proof (cases outcome)
  case (Inr u)
  then have "j \<in> set (tbl_update (holds_lease job) (\<lambda>j. release (j\<lparr>job_completed_at := Some pg_now\<rparr>)) (t_job d))"
    using assms by (auto simp: finish_job_def mark_job_completed_def)
  then show ?thesis by (rule no_lease_after_update [rotated]) simp
next
  case (Inl e)
  let ?text = "utext (roosty_error_to_string (wc_displays cfg) e)"
  note run = finish_job_error [OF assms(1) [unfolded Inl]]
  show ?thesis
  proof (cases "permanent e")
    case True
    then have "j \<in> set (tbl_update (holds_lease job) (\<lambda>j. release (j\<lparr>job_last_error := Some ?text,
        job_completed_at := Some pg_now, job_permanently_failed_at := Some pg_now\<rparr>)) (t_job d))"
      using assms run by (auto simp: mark_job_permanently_failed_def)
    then show ?thesis by (rule no_lease_after_update [rotated]) simp
  next
    case False
    then have "j \<in> set (tbl_update (holds_lease job) (\<lambda>j. release (j\<lparr>job_attempts := job_attempts j + 1,
        job_last_error := Some ?text, job_run_after := next_retry_at now (cj_attempts job)\<rparr>)) (t_job d))"
      using assms run by (auto simp: mark_job_failed_def Let_def split: sum.splits if_splits)
    then show ?thesis by (rule no_lease_after_update [rotated]) simp
  qed
qed

lemma finish_job_rows:
  assumes "finish_job cfg permanent now pg_now job outcome d = (d', Inr ())"
  shows "\<exists>f. t_job d' = tbl_update (holds_lease job) f (t_job d)"
proof (cases outcome)
  case (Inr u)
  then show ?thesis using assms by (auto simp: finish_job_def mark_job_completed_def)
next
  case (Inl e)
  show ?thesis
    using finish_job_error [OF assms [unfolded Inl]]
    by (cases "permanent e")
       (auto simp: mark_job_permanently_failed_def mark_job_failed_def Let_def split: sum.splits if_splits)
qed

lemma held_row_updated:
  assumes "j \<in> set (t_job d)"
  shows "holds_lease c j \<Longrightarrow> f j \<in> set (tbl_update (holds_lease c) f (t_job d))"
    and "\<not> holds_lease c j \<Longrightarrow> j \<in> set (tbl_update (holds_lease c) f (t_job d))"
  using assms by (auto simp: set_tbl_update)

text \<open>
  C13: When the dispatch of a claimed job gives a result, an iteration that succeeds has
  settled the claim: no job is leased under it any more, and every other job is as the dispatch
  left it. On success the job is recorded as completed at the finishing time; a failure outside
  of federation is never given up: the error, one more attempt and the time of the retry are
  recorded.
\<close>

theorem iteration_settles_job:
  assumes "claim_due_job (ie_locked env) (ie_now env) (ie_pg_now env) (ie_claim_id env) worker_id claim_ttl d =
      (d1, Inr (Some job))"
    and "cj_kind job \<noteq> FederationRemoteMediaFetch"
    and "dispatch cfg hs (ie_new_id env) (ie_pg_now env) (ie_now env) job d1 = (d2, ArmResult outcome)"
    and "worker_iteration cfg hs worker_id env d = (d3, Inr found)"
  shows "found \<and> (\<forall>j. j \<in> set (t_job d3) \<longrightarrow> \<not> holds_lease job j) \<and>
    (\<forall>j. j \<in> set (t_job d2) \<and> \<not> holds_lease job j \<longrightarrow> j \<in> set (t_job d3)) \<and>
    (outcome = Inr () \<longrightarrow> (\<forall>j. j \<in> set (t_job d2) \<and> holds_lease job j \<longrightarrow>
       (\<exists>k. k \<in> set (t_job d3) \<and> job_id k = job_id j \<and> job_completed_at k = Some (ie_finish_pg_now env) \<and>
          job_claim_id k = None \<and> job_permanently_failed_at k = job_permanently_failed_at j))) \<and>
    (\<forall>e. outcome = Inl e \<and> \<not> is_federation_job job \<longrightarrow> (\<forall>j. j \<in> set (t_job d2) \<and> holds_lease job j \<longrightarrow>
       (\<exists>k. k \<in> set (t_job d3) \<and> job_id k = job_id j \<and> job_completed_at k = job_completed_at j \<and>
          job_permanently_failed_at k = job_permanently_failed_at j \<and> job_claim_id k = None \<and>
          job_attempts k = job_attempts j + 1 \<and>
          job_last_error k = Some (utext (roosty_error_to_string (wc_displays cfg) e)) \<and>
          job_run_after k = next_retry_at (ie_finish_now env) (cj_attempts job))))"
proof -
  let ?finish = "finish_job cfg (permanent_failure cfg (ie_finish_now env) job) (ie_finish_now env)
      (ie_finish_pg_now env) job outcome d2"
  have fin: "?finish = (d3, Inr ())" and found: "found"
    using assms by (auto simp: worker_iteration_def bind_res_Inr_iff split: prod.splits)
  have done_rows: "t_job d3 = tbl_update (holds_lease job) (\<lambda>j. release (j\<lparr>job_completed_at := Some (ie_finish_pg_now env)\<rparr>)) (t_job d2)"
    if "outcome = Inr ()"
    using fin that by (auto simp: finish_job_def mark_job_completed_def)
  have failed_rows: "t_job d3 = tbl_update (holds_lease job) (\<lambda>j. release (j\<lparr>job_attempts := job_attempts j + 1,
      job_last_error := Some (utext (roosty_error_to_string (wc_displays cfg) e)),
      job_run_after := next_retry_at (ie_finish_now env) (cj_attempts job)\<rparr>)) (t_job d2)"
    if err: "outcome = Inl e" and local: "\<not> is_federation_job job" for e
  proof -
    obtain t where "mark_job_failed (ie_finish_now env) job (utext (roosty_error_to_string (wc_displays cfg) e)) d2 = Inr (d3, t)"
      using finish_job_error [OF fin [unfolded err]] local by (auto simp: permanent_failure_def split: sum.splits)
    then show ?thesis by (auto simp: mark_job_failed_def Let_def split: if_splits)
  qed
  have other: "j \<in> set (t_job d3)" if "j \<in> set (t_job d2)" "\<not> holds_lease job j" for j
    using finish_job_rows [OF fin] that by (auto simp: set_tbl_update)
  have "\<exists>k. k \<in> set (t_job d3) \<and> job_id k = job_id j \<and> job_completed_at k = Some (ie_finish_pg_now env) \<and>
      job_claim_id k = None \<and> job_permanently_failed_at k = job_permanently_failed_at j"
    if "outcome = Inr ()" "j \<in> set (t_job d2)" "holds_lease job j" for j
    using held_row_updated(1) [OF that(2,3), of "\<lambda>j. release (j\<lparr>job_completed_at := Some (ie_finish_pg_now env)\<rparr>)"]
    by (intro exI, unfold done_rows [OF that(1)], intro conjI) (assumption | simp)+
  moreover have "\<exists>k. k \<in> set (t_job d3) \<and> job_id k = job_id j \<and> job_completed_at k = job_completed_at j \<and>
      job_permanently_failed_at k = job_permanently_failed_at j \<and> job_claim_id k = None \<and>
      job_attempts k = job_attempts j + 1 \<and>
      job_last_error k = Some (utext (roosty_error_to_string (wc_displays cfg) e)) \<and>
      job_run_after k = next_retry_at (ie_finish_now env) (cj_attempts job)"
    if "outcome = Inl e" "\<not> is_federation_job job" "j \<in> set (t_job d2)" "holds_lease job j" for e j
    using held_row_updated(1) [OF that(3,4), of "\<lambda>j. release (j\<lparr>job_attempts := job_attempts j + 1,
      job_last_error := Some (utext (roosty_error_to_string (wc_displays cfg) e)),
      job_run_after := next_retry_at (ie_finish_now env) (cj_attempts job)\<rparr>)"]
    by (intro exI, unfold failed_rows [OF that(1,2)], intro conjI) (assumption | simp)+
  ultimately show ?thesis using finish_job_settles [OF fin] found other by blast
qed

text \<open>Handlers and a configuration for the witnesses: everything succeeds and changes nothing.\<close>

definition demo_handlers :: handlers where
  "demo_handlers =
     (let ok = (\<lambda>_ d. (d, Inr ()))
      in \<lparr> h_deliver_follow_response = ok, h_deliver_status_activity = ok, h_deliver_quote_activity = ok,
           h_deliver_follow_activity = ok, h_deliver_favourite_activity = ok, h_deliver_reblog_activity = ok,
           h_deliver_actor_update = ok, h_deliver_moderation_activity = ok, h_fetch_remote_media = ok,
           h_refresh_remote_featured = ok, h_refresh_remote_featured_tags = ok,
           h_resolve_remote_status_thread = ok, h_fetch_remote_status_replies = ok,
           h_fetch_remote_status_reply = ok, h_push_deliver = (\<lambda>_ d. (d, Inr ())),
           h_merge_notification_requests = (\<lambda>_ d. (d, Inr ())),
           h_cleanup_notification_requests = (\<lambda>_ d. (d, Inr ())),
           h_purge_suspended_local_account = (\<lambda>_ d. Inr (d, [])),
           h_reconcile_federation_domain_block = (\<lambda>_ d. Inr d), h_publish_scheduled_status = ok,
           h_expire_poll_job = ok, h_publish_poll_update_job = ok, h_deliver_poll_vote = ok,
           h_maintain_trends = (\<lambda>d. (d, Inr False)), h_prune_preview_cards = (\<lambda>_ d. (d, Inr [])),
           h_refresh_account_suggestion_scores = (\<lambda>d. (d, Inr ())),
           h_fetch_preview_card = (\<lambda>_ _ d. (d, Inr ())), h_backfill_preview_cards = (\<lambda>d. (d, Inr False)),
           h_maintain_actor_keys = (\<lambda>d. (d, Inr ())),
           h_migrate_remote_actor_relationships = (\<lambda>_ _ d. (d, Inr ())),
           h_parse_uuid = (\<lambda>s. if s = ''1'' then Some 1 else None), h_id_string = (\<lambda>_. ''1'') \<rparr>)"

definition demo_config :: worker_config where
  "demo_config =
     \<lparr> wc_displays = \<lparr> dsp_db_err = (\<lambda>_. ''failed''), dsp_parse_error = ''unknown variant'', dsp_status_code = (\<lambda>_. ''410 Gone'') \<rparr>,
       wc_federation_delivery_max_age = seconds 604800, wc_remote_media_cache_ttl = seconds 86400 \<rparr>"

definition demo_env :: iteration_env where
  "demo_env = \<lparr> ie_locked = (\<lambda>_. False), ie_now = 5, ie_pg_now = 5, ie_claim_id = 7, ie_new_id = 9,
     ie_finish_now = 6, ie_finish_pg_now = 6 \<rparr>"

lemma demo_claim_by_worker:
  "claim_due_job (ie_locked demo_env) (ie_now demo_env) (ie_pg_now demo_env) (ie_claim_id demo_env) ''w'' claim_ttl demo_db =
     (demo_leased, Inr (Some demo_claim))"
  by code_simp

theorem iteration_settles_job_witness:
  "\<exists>d3 k. worker_iteration demo_config demo_handlers ''w'' demo_env demo_db = (d3, Inr True) \<and>
     k \<in> set (t_job d3) \<and> job_id k = 1 \<and> job_completed_at k = Some 6"
proof -
  have arm: "dispatch demo_config demo_handlers (ie_new_id demo_env) (ie_pg_now demo_env) (ie_now demo_env) demo_claim demo_leased =
      (demo_leased, ArmResult (Inr ()))"
    by (simp add: dispatch_def demo_claim_def demo_handlers_def arm_result_def Let_def)
  have kind: "cj_kind demo_claim \<noteq> FederationRemoteMediaFetch" by (simp add: demo_claim_def)
  obtain d3 where run: "worker_iteration demo_config demo_handlers ''w'' demo_env demo_db = (d3, Inr True)"
    using kind by (simp add: worker_iteration_def demo_claim_by_worker arm finish_job_def)
  let ?j = "lock_job 5 ''w'' 7 demo_row"
  have "?j \<in> set (t_job demo_leased)" "holds_lease demo_claim ?j" "job_id ?j = 1" "ie_finish_pg_now demo_env = 6"
    by (simp_all add: demo_leased_def holds_lease_def demo_claim_def demo_row_def demo_env_def)
  then show ?thesis
    using iteration_settles_job [OF demo_claim_by_worker kind arm run] run by metis
qed

subsection \<open>Permanent federation failures\<close>

lemma error_text_not_permanent:
  "\<not> starts_with (roosty_error_to_string dsp e) (''permanent federation '' @ rest)"
proof (cases e)
  case (AccountRelationship r)
  then show ?thesis by (cases r) simp_all
qed simp_all

text \<open>
  A delivery that the remote inbox refuses for good is retried like any other failure
  until the job reaches its maximum age: the text of every error starts with the name of its
  kind, so the marker the worker looks for at its start is never found.
\<close>

lemma refused_delivery_is_retried:
  assumes "status \<in> set [400, 401, 403, 404, 405, 410]"
    and "classify_delivery_status (wc_displays cfg) status = Inl e"
    and "\<not> job_has_exceeded_max_age now (cj_created_at job) (wc_federation_delivery_max_age cfg)"
    and "\<not> list_ex (\<lambda>j. holds_lease job j \<and> job_attempts j = i32_max) (t_job d)"
  shows "\<exists>d' t. finish_job cfg (permanent_failure cfg now job) now pg_now job (Inl e) d = (d', Inr ()) \<and>
    mark_job_failed now job (utext (roosty_error_to_string (wc_displays cfg) e)) d = Inr (d', t) \<and>
    (\<forall>j. j \<in> set (t_job d) \<and> holds_lease job j \<longrightarrow>
       (\<exists>k. k \<in> set (t_job d') \<and> job_id k = job_id j \<and> job_permanently_failed_at k = job_permanently_failed_at j \<and>
          job_run_after k = next_retry_at now (cj_attempts job) \<and> job_attempts k = job_attempts j + 1))"
proof -
  obtain s where e: "e = InvalidInput s" using assms(1,2) by (auto simp: classify_delivery_status_def split: if_splits)
  let ?text = "utext (roosty_error_to_string (wc_displays cfg) e)"
  let ?f = "\<lambda>j. release (j\<lparr>job_attempts := job_attempts j + 1, job_last_error := Some ?text,
      job_run_after := next_retry_at now (cj_attempts job)\<rparr>)"
  have retry: "\<not> permanent_failure cfg now job e"
    using assms(3) error_text_not_permanent [of "wc_displays cfg" e "''delivery failure:''"]
      error_text_not_permanent [of "wc_displays cfg" e "''fetch failure:''"]
    by (simp add: permanent_failure_def)
  obtain d' t where failed: "mark_job_failed now job ?text d = Inr (d', t)"
    and rows: "t_job d' = tbl_update (holds_lease job) ?f (t_job d)"
    using assms(4) by (simp add: mark_job_failed_def Let_def)
  have "?f j \<in> set (t_job d')" if "j \<in> set (t_job d)" "holds_lease job j" for j
    using that by (auto simp: rows set_tbl_update)
  then show ?thesis
    using failed retry unfolding e
    by (intro exI [of _ d'] exI [of _ t]) (force simp: finish_job_def simp del: roosty_error_to_string.simps)
qed

definition demo_delivery :: claimed_job where
  "demo_delivery = demo_claim\<lparr>cj_kind := FederationStatusDelivery\<rparr>"

subsection \<open>Handlers that leave early\<close>

text \<open>
  When a handler leaves the dispatch early, with a missing identifier in the payload or
  with a failing statement, the iteration and the loop end with the error and the first such
  end ends the pool. Nothing is recorded for the job: it stays leased with the same number of
  attempts, and once the lease has expired it is due again, for the next worker to end on.
\<close>

lemma early_return_ends_worker:
  assumes "reachable job_init job_step (d, u)"
    and "claim_due_job (ie_locked env) (ie_now env) (ie_pg_now env) (ie_claim_id env) worker_id claim_ttl d =
      (d1, Inr (Some job))"
    and "cj_kind job \<noteq> FederationRemoteMediaFetch"
    and "dispatch cfg hs (ie_new_id env) (ie_pg_now env) (ie_now env) job d1 = (d1, EarlyReturn e)"
  shows "worker_loop cfg hs worker_id ((False, env) # envs) d = (d1, Some (Inl e)) \<and>
    join_workers (Inl e # others) = Inl e \<and>
    (\<exists>j. j \<in> set (t_job d1) \<and> holds_lease job j \<and> job_attempts j = int (cj_attempts job) \<and>
       (\<forall>now' pg_now'. ie_pg_now env \<le> pg_now' \<and> ie_pg_now env < now' - claim_ttl \<longrightarrow>
          job_due pg_now' (now' - claim_ttl) j))"
proof -
  have inv: "job_inv u d"
    using job_sys.reachable_inv [OF assms(1)] by (simp add: job_sys_inv_def)
  obtain j where j: "j \<in> set (t_job d)" "job_due (ie_pg_now env) (ie_now env - claim_ttl) j" "job = claim_of (ie_claim_id env) j"
    "d1 = d\<lparr>t_job := tbl_update (\<lambda>k. k = j) (lock_job (ie_pg_now env) worker_id (ie_claim_id env)) (t_job d)\<rparr>"
    using claim_due_job_cases [OF inv assms(2)] by auto
  let ?k = "lock_job (ie_pg_now env) worker_id (ie_claim_id env) j"
  have "?k \<in> set (t_job d1)" using j(1) by (auto simp: j(4) set_tbl_update)
  moreover have "holds_lease job ?k" by (simp add: holds_lease_def j(3))
  moreover have "job_attempts ?k = int (cj_attempts job)"
    using job_invD(2) [OF inv j(1)] by (simp add: j(3) claim_of_def job_row_ok_def lock_job_def)
  moreover have "job_due pg_now' (now' - claim_ttl) ?k"
    if "ie_pg_now env \<le> pg_now'" "ie_pg_now env < now' - claim_ttl" for now' pg_now'
    using that j(2) by (simp add: job_due_def lock_job_def)
  moreover have "worker_loop cfg hs worker_id ((False, env) # envs) d = (d1, Some (Inl e))"
    using assms(2-4) by (simp add: worker_iteration_def)
  ultimately show ?thesis by (intro conjI) auto
qed

text \<open>A purge job without an account identifier.\<close>

definition poison_row :: job_row where
  "poison_row = new_job_row 1 0 \<lparr> nj_kind = AccountPurge, nj_payload = JObj [], nj_deduplication_key = None, nj_run_after = 0 \<rparr>"

definition poison_db :: db where "poison_db = empty_db\<lparr>t_job := [poison_row]\<rparr>"

definition poison_claim :: claimed_job where
  "poison_claim = \<lparr> cj_id = 1, cj_claim_id = 7, cj_kind = AccountPurge, cj_payload = JObj [], cj_attempts = 0, cj_created_at = 0 \<rparr>"

lemma poison_reachable: "reachable job_init job_step (poison_db, {})"
proof (rule reach_step [OF demo_init])
  have "enqueue_job_on_connection 1 0 \<lparr> nj_kind = AccountPurge, nj_payload = JObj [], nj_deduplication_key = None,
      nj_run_after = 0 \<rparr> empty_db = Inr (poison_db, 1)"
    by (simp add: enqueue_job_on_connection_def tbl_upsert_def tbl_insert_def poison_db_def poison_row_def
        empty_db_def Let_def)
  then show "job_step (empty_db, {}) (poison_db, {})" by (rule job_step.enqueue)
qed

subsection \<open>Draining expired jobs\<close>

lemma cleanup_last_batch:
  assumes "cleanup_expired_jobs (\<lambda>_. False) now sr pr b d = Inr (d', out)" and "job_inv u d"
  defines "el \<equiv> retention_elapsed (now - sr) (now - pr)"
  shows "tbl_delete el (t_job d') = tbl_delete el (t_job d) \<and>
    (job_cleanup_total out < b \<longrightarrow> t_job d' = tbl_delete el (t_job d))"
proof -
  let ?xs = "tbl_order (\<lambda>j. (finished_at j, job_id j)) (filter el (t_job d))"
  let ?p = "\<lambda>j. job_id j \<in> set (map job_id (take b ?xs))"
  have t': "t_job d' = tbl_delete ?p (t_job d)"
    using assms(1) by (auto simp: cleanup_expired_jobs_def Let_def el_def split: if_splits)
  have el: "el j" if j: "j \<in> set (t_job d)" "?p j" for j
  proof -
    obtain k where k: "k \<in> set (take b ?xs)" "job_id k = job_id j" using j(2) by auto
    then have mem: "k \<in> set (t_job d)" "el k" by (auto dest!: in_set_takeD)
    have "k = j" by (rule job_tbl.key_unique [OF job_invD(1) [OF assms(2)] mem(1) j(1) k(2)])
    then show ?thesis using mem(2) by simp
  qed
  have same: "tbl_delete el (t_job d') = tbl_delete el (t_job d)"
    unfolding t' tbl_delete_def filter_filter by (rule filter_cong [OF refl]) (use el in blast)
  moreover have "t_job d' = tbl_delete el (t_job d)" if "job_cleanup_total out < b"
  proof -
    have dist: "distinct (map job_id (t_job d))" by (rule job_tbl.key_distinct [OF job_invD(1) [OF assms(2)]])
    have "length (take b ?xs) = card (set (take b ?xs))"
      using dist by (simp add: tbl_order_def distinct_map distinct_card)
    also have "\<dots> \<le> card (set (filter ?p (t_job d)))"
      by (intro card_mono) (auto dest: in_set_takeD)
    also have "\<dots> \<le> length (filter ?p (t_job d))" by (rule card_length)
    also have "\<dots> = job_cleanup_total out"
      using cleanup_removes [OF assms(1)] length_tbl_delete [of "t_job d" ?p] by (simp add: t')
    finally have "length (take b ?xs) < b" using that by simp
    then have all: "take b ?xs = ?xs" by simp
    have "?p j" if "j \<in> set (t_job d)" "el j" for j using that unfolding all by auto
    then show ?thesis unfolding t' tbl_delete_def by (intro filter_cong [OF refl]) (use el in blast)
  qed
  ultimately show ?thesis by blast
qed

text \<open>
  Draining expired jobs ends, and when nothing else holds or changes the rows it has
  deleted exactly the jobs past their retention and counted every one of them, however many
  batches that takes.
\<close>

lemma drain_removes_expired_jobs:
  assumes "reachable job_init job_step (d, u)" and "0 < sr" and "0 < pr"
    and "env = (\<lambda>k. \<lparr> ce_shutdown = False, ce_locked = (\<lambda>_. False), ce_now = now \<rparr>)"
    and "drain_expired_jobs env sr pr k (s, f) d = (d', s', f')"
  shows "t_job d' = tbl_delete (retention_elapsed (now - sr) (now - pr)) (t_job d) \<and>
    s' + f' = s + f + rows_affected (retention_elapsed (now - sr) (now - pr)) (t_job d)"
proof -
  let ?el = "retention_elapsed (now - sr) (now - pr)"
  have inv: "job_inv u d"
    using job_sys.reachable_inv [OF assms(1)] by (simp add: job_sys_inv_def)
  have drained: "t_job d' = tbl_delete ?el (t_job d) \<and> s' + f' + length (t_job d') = s + f + length (t_job d)"
    using inv assms(5)
  proof (induction "length (t_job d)" arbitrary: d k s f rule: less_induct)
    case less
    obtain d1 out where batch: "cleanup_expired_jobs (\<lambda>_. False) now sr pr job_cleanup_batch_size d = Inr (d1, out)"
      using assms(2,3) by (simp add: cleanup_expired_jobs_def Let_def job_cleanup_batch_size_def i64_max_def)
    note step = cleanup_removes [OF batch] cleanup_last_batch [OF batch less.prems(1)]
    let ?s = "s + jco_successful out" and ?f = "f + jco_permanently_failed out"
    show ?case
    proof (cases "job_cleanup_total out < job_cleanup_batch_size")
      case True
      then show ?thesis using less.prems(2) step by (auto simp: assms(4) batch job_cleanup_total_def)
    next
      case False
      then have rest: "drain_expired_jobs env sr pr (Suc k) (?s, ?f) d1 = (d', s', f')"
        using less.prems(2) by (simp add: assms(4) batch)
      have "length (t_job d1) < length (t_job d)"
        using step(1) False by (simp add: job_cleanup_batch_size_def)
      from less.hyps [OF this cleanup_inv [OF batch less.prems(1)] rest] show ?thesis
        using step by (auto simp: job_cleanup_total_def)
    qed
  qed
  then have "s' + f' + length (tbl_delete ?el (t_job d)) = s + f + length (t_job d)"
    unfolding drained [THEN conjunct1, symmetric] by blast
  then show ?thesis
    using drained length_tbl_delete [of "t_job d" ?el] unfolding rows_affected_def by linarith
qed

text \<open>
  An operator may create exactly the usernames of two to thirty ASCII letters, digits and
  underscores; the limits count characters, although the code counts bytes.
\<close>

lemma validate_username_iff:
  "validate_username username = Inr () \<longleftrightarrow>
     length username \<in> {2..30} \<and>
     list_all (\<lambda>c. c \<in> {48..57} \<union> {65..90} \<union> {97..122} \<union> {95}) username"
proof -
  have chars: "list_all (\<lambda>c. is_ascii_alphanumeric c \<or> c = 95) s \<longleftrightarrow>
      list_all (\<lambda>c. c \<in> {48..57} \<union> {65..90} \<union> {97..122} \<union> {95}) s" for s
    by (induction s) (auto simp: is_ascii_alphanumeric_def)
  have "str_len s = length s" if "list_all (\<lambda>c. is_ascii_alphanumeric c \<or> c = 95) s" for s
    using that by (induction s) (auto simp: str_len_def utf8_len_def is_ascii_alphanumeric_def)
  then show ?thesis
    unfolding validate_username_def chars [symmetric]
    by (cases "list_all (\<lambda>c. is_ascii_alphanumeric c \<or> c = 95) username") auto
qed

end
