(* ===== verification/Roosty_Net.thy ===== *)
theory Roosty_Net
  imports Roosty_Text "HOL-Library.Word"
begin

text \<open>
  Network addresses: the checks that keep outgoing requests on the public internet
  (\<^verbatim>\<open>src/crates/web-push/src/endpoint.rs\<close> for push endpoints and
  \<open>is_unsafe_address\<close> of \<^verbatim>\<open>src/crates/server/src/federation/discovery.rs\<close> for
  federation), and the client address behind trusted proxies
  (\<^verbatim>\<open>src/crates/server/src/client_address.rs\<close>).

  Addresses are machine words. A parsed URL (the \<^verbatim>\<open>url\<close> crate) is a record of the parts
  the code reads. Parsing and printing addresses, CIDR membership (the \<^verbatim>\<open>ipnet\<close> crate) and
  DNS resolution are arguments.
\<close>

unbundle bit_operations_syntax

subsection \<open>Addresses of the standard library\<close>

type_synonym ipv4_addr = "32 word"
type_synonym ipv6_addr = "128 word"

datatype ip_addr = V4 ipv4_addr | V6 ipv6_addr

definition octet :: "nat \<Rightarrow> ipv4_addr \<Rightarrow> nat" where
  "octet i ip = unat (drop_bit (24 - 8 * i) ip) mod 256"

definition segment :: "nat \<Rightarrow> ipv6_addr \<Rightarrow> 16 word" where
  "segment i ip = ucast (drop_bit (112 - 16 * i) ip)"

definition to_ipv4_mapped :: "ipv6_addr \<Rightarrow> ipv4_addr option" where
  "to_ipv4_mapped ip = (if drop_bit 32 ip = 0xFFFF then Some (ucast ip) else None)"

definition v4_is_private :: "ipv4_addr \<Rightarrow> bool" where
  "v4_is_private ip \<longleftrightarrow>
     octet 0 ip = 10 \<or> octet 0 ip = 172 \<and> 16 \<le> octet 1 ip \<and> octet 1 ip \<le> 31 \<or>
     octet 0 ip = 192 \<and> octet 1 ip = 168"

definition v4_is_loopback :: "ipv4_addr \<Rightarrow> bool" where
  "v4_is_loopback ip \<longleftrightarrow> octet 0 ip = 127"

definition v4_is_link_local :: "ipv4_addr \<Rightarrow> bool" where
  "v4_is_link_local ip \<longleftrightarrow> octet 0 ip = 169 \<and> octet 1 ip = 254"

definition v4_is_multicast :: "ipv4_addr \<Rightarrow> bool" where
  "v4_is_multicast ip \<longleftrightarrow> 224 \<le> octet 0 ip \<and> octet 0 ip \<le> 239"

definition v4_is_documentation :: "ipv4_addr \<Rightarrow> bool" where
  "v4_is_documentation ip \<longleftrightarrow>
     octet 0 ip = 192 \<and> octet 1 ip = 0 \<and> octet 2 ip = 2 \<or>
     octet 0 ip = 198 \<and> octet 1 ip = 51 \<and> octet 2 ip = 100 \<or>
     octet 0 ip = 203 \<and> octet 1 ip = 0 \<and> octet 2 ip = 113"

definition v6_is_unique_local :: "ipv6_addr \<Rightarrow> bool" where
  "v6_is_unique_local ip \<longleftrightarrow> segment 0 ip AND 0xFE00 = 0xFC00"

definition v6_is_unicast_link_local :: "ipv6_addr \<Rightarrow> bool" where
  "v6_is_unicast_link_local ip \<longleftrightarrow> segment 0 ip AND 0xFFC0 = 0xFE80"

definition v6_is_multicast :: "ipv6_addr \<Rightarrow> bool" where
  "v6_is_multicast ip \<longleftrightarrow> segment 0 ip AND 0xFF00 = 0xFF00"

subsection \<open>Push endpoints\<close>

definition is_public_v4 :: "ipv4_addr \<Rightarrow> bool" where
  "is_public_v4 ip =
     (let a = octet 0 ip; b = octet 1 ip; c = octet 2 ip
      in \<not> (a = 0 \<or> a = 10 \<or> a = 127
            \<or> (a = 100 \<and> 64 \<le> b \<and> b \<le> 127)
            \<or> (a = 169 \<and> b = 254)
            \<or> (a = 172 \<and> 16 \<le> b \<and> b \<le> 31)
            \<or> (a = 192 \<and> b = 0 \<and> c = 0)
            \<or> (a = 192 \<and> b = 0 \<and> c = 2)
            \<or> (a = 192 \<and> b = 168)
            \<or> (a = 198 \<and> (b = 18 \<or> b = 19))
            \<or> (a = 198 \<and> b = 51 \<and> c = 100)
            \<or> (a = 203 \<and> b = 0 \<and> c = 113)
            \<or> 224 \<le> a))"

definition is_public_v6 :: "ipv6_addr \<Rightarrow> bool" where
  "is_public_v6 ip =
     (case to_ipv4_mapped ip of
        Some v4 \<Rightarrow> is_public_v4 v4
      | None \<Rightarrow>
          \<not> (ip = 0 \<or> ip = 1
             \<or> segment 0 ip AND 0xFE00 = 0xFC00
             \<or> segment 0 ip AND 0xFFC0 = 0xFE80
             \<or> segment 0 ip AND 0xFF00 = 0xFF00
             \<or> (segment 0 ip = 0x2001 \<and> segment 1 ip = 0x0DB8)))"

primrec is_public :: "ip_addr \<Rightarrow> bool" where
  "is_public (V4 ip) = is_public_v4 ip"
| "is_public (V6 ip) = is_public_v6 ip"

datatype url_host = Domain string | Ipv4Host ipv4_addr | Ipv6Host ipv6_addr

record url =
  url_scheme :: string
  url_username :: string
  url_password :: "string option"
  url_host :: "url_host option"
  url_host_str :: "string option"
  url_port_or_known_default :: "nat option"

datatype web_push_error =
    InvalidEndpoint string
  | UnsafeEndpoint
  | UnresolvedEndpoint
  | InvalidSubscriberKey
  | InvalidAuthSecret
  | InvalidVapidKey
  | PayloadTooLarge
  | Encryption
  | VapidSigning
  | Http string

definition validate_url :: "url \<Rightarrow> web_push_error + unit" where
  "validate_url u =
     (if url_scheme u \<noteq> ''https'' then Inl (InvalidEndpoint ''HTTPS is required'')
      else if url_username u \<noteq> '''' \<or> url_password u \<noteq> None
      then Inl (InvalidEndpoint ''credentials are not permitted'')
      else case url_host u of
             Some (Domain _) \<Rightarrow> Inr ()
           | Some (Ipv4Host ip) \<Rightarrow> if is_public (V4 ip) then Inr () else Inl UnsafeEndpoint
           | Some (Ipv6Host ip) \<Rightarrow> if is_public (V6 ip) then Inr () else Inl UnsafeEndpoint
           | None \<Rightarrow> Inl (InvalidEndpoint ''host is missing''))"

type_synonym socket_addr = "ip_addr \<times> nat"

definition validate_resolved :: "socket_addr list \<Rightarrow> web_push_error + unit" where
  "validate_resolved addresses =
     (if addresses = [] then Inl UnresolvedEndpoint
      else if list_ex (\<lambda>a. \<not> is_public (fst a)) addresses then Inl UnsafeEndpoint
      else Inr ())"

text \<open>\<open>lookup_host\<close> is the resolver: no answer is an error.\<close>

definition resolve_public ::
  "(string \<Rightarrow> nat \<Rightarrow> socket_addr list option) \<Rightarrow> url \<Rightarrow> web_push_error + socket_addr list" where
  "resolve_public lookup_host u =
     bind_res (validate_url u) (\<lambda>_.
       case url_host_str u of
         None \<Rightarrow> Inl (InvalidEndpoint ''host is missing'')
       | Some host \<Rightarrow>
           let port = (case url_port_or_known_default u of None \<Rightarrow> 443 | Some p \<Rightarrow> p)
           in case lookup_host host port of
                None \<Rightarrow> Inl UnresolvedEndpoint
              | Some addresses \<Rightarrow> bind_res (validate_resolved addresses) (\<lambda>_. Inr addresses))"

subsection \<open>Federation\<close>

primrec is_unsafe_address :: "ip_addr \<Rightarrow> bool" where
  "is_unsafe_address (V4 ip) \<longleftrightarrow>
     v4_is_private ip \<or> v4_is_loopback ip \<or> v4_is_link_local ip \<or> ip = 0 \<or>
     v4_is_multicast ip \<or> ip = 0xFFFFFFFF \<or> v4_is_documentation ip \<or>
     (octet 0 ip = 198 \<and> (octet 1 ip = 18 \<or> octet 1 ip = 19)) \<or> octet 0 ip = 0"
| "is_unsafe_address (V6 ip) \<longleftrightarrow>
     ip = 1 \<or> ip = 0 \<or> v6_is_unique_local ip \<or> v6_is_unicast_link_local ip \<or> v6_is_multicast ip"

subsection \<open>Client addresses\<close>

primrec normalize :: "ip_addr \<Rightarrow> ip_addr" where
  "normalize (V4 ip) = V4 ip"
| "normalize (V6 ip) = (case to_ipv4_mapped ip of None \<Rightarrow> V6 ip | Some v4 \<Rightarrow> V4 v4)"

definition is_trusted :: "('net \<Rightarrow> ip_addr \<Rightarrow> bool) \<Rightarrow> ip_addr \<Rightarrow> 'net list \<Rightarrow> bool" where
  "is_trusted net_contains address trusted_proxies \<longleftrightarrow>
     list_ex (\<lambda>n. net_contains n address) trusted_proxies"

definition resolve ::
  "(ustring \<Rightarrow> ip_addr option) \<Rightarrow> ('net \<Rightarrow> ip_addr \<Rightarrow> bool) \<Rightarrow> ip_addr \<Rightarrow> ustring option \<Rightarrow> 'net list \<Rightarrow>
     ip_addr" where
  "resolve parse_ip net_contains peer forwarded_for trusted_proxies =
     (let peer = normalize peer
      in if \<not> is_trusted net_contains peer trusted_proxies then peer
         else case forwarded_for of
                None \<Rightarrow> peer
              | Some v \<Rightarrow>
                  let parts = map trim (split_char 44 v)
                  in if parts = [] \<or> 32 < length parts then peer
                     else case those (map (\<lambda>p. map_option normalize (parse_ip p)) parts) of
                            None \<Rightarrow> peer
                          | Some chain \<Rightarrow>
                              (case List.find (\<lambda>a. \<not> is_trusted net_contains a trusted_proxies) (rev chain) of
                                 None \<Rightarrow> peer
                               | Some a \<Rightarrow> a))"

text \<open>
  \<open>ipv6_network\<close> is the network address of an IPv6 prefix, absent for a prefix length over
  128, and \<open>show_ip\<close> the text of an address.
\<close>

definition group ::
  "(ipv6_addr \<Rightarrow> nat \<Rightarrow> ipv6_addr option) \<Rightarrow> (ip_addr \<Rightarrow> string) \<Rightarrow> ip_addr \<Rightarrow> nat \<Rightarrow> string" where
  "group ipv6_network show_ip address ipv6_prefix_length =
     (case normalize address of
        V4 ip \<Rightarrow> show_ip (V4 ip)
      | V6 ip \<Rightarrow>
          (case ipv6_network ip ipv6_prefix_length of
             None \<Rightarrow> show_ip (V6 ip)
           | Some net \<Rightarrow> show_ip (V6 net)))"

subsection \<open>CIDR blocks\<close>

definition in_block :: "ipv4_addr \<times> nat \<Rightarrow> ipv4_addr \<Rightarrow> bool" where
  "in_block b ip \<longleftrightarrow> drop_bit (32 - snd b) ip = drop_bit (32 - snd b) (fst b)"

lemma in_block_unat:
  "in_block b ip \<longleftrightarrow> unat ip div 2 ^ (32 - snd b) = unat (fst b) div 2 ^ (32 - snd b)"
proof -
  have "in_block b ip \<longleftrightarrow> unat (drop_bit (32 - snd b) ip) = unat (drop_bit (32 - snd b) (fst b))"
    unfolding in_block_def by (rule word_unat_eq_iff)
  then show ?thesis by (simp only: unat_drop_bit_eq drop_bit_eq_div [where 'a = nat])
qed

lemma octet_unat: "octet i ip = unat ip div 2 ^ (24 - 8 * i) mod 256"
  by (simp only: octet_def unat_drop_bit_eq drop_bit_eq_div [where 'a = nat])

lemma octet_0: "octet 0 ip = unat ip div 16777216"
proof -
  have "unat ip < 4294967296" using unsigned_less [of ip] by simp
  then show ?thesis by (simp add: octet_unat)
qed

lemma octet_1: "octet 1 ip = unat ip div 65536 mod 256"
  by (simp add: octet_unat)

lemma octet_2: "octet 2 ip = unat ip div 256 mod 256"
  by (simp add: octet_unat)

lemmas octets = octet_0 octet_1 octet_2

definition reserved_blocks :: "(ipv4_addr \<times> nat) list" where
  "reserved_blocks =
     [(0x00000000, 8), (0x0A000000, 8), (0x7F000000, 8), (0x64400000, 10), (0xA9FE0000, 16),
      (0xAC100000, 12), (0xC0000000, 24), (0xC0000200, 24), (0xC0A80000, 16), (0xC6120000, 15),
      (0xC6336400, 24), (0xCB007100, 24), (0xE0000000, 3)]"

text \<open>The blocks longer than eight bits, on the first two octets of an address.\<close>

lemma block_split:
  fixes q :: nat
  shows "q div 64 = 4 * (q div 256) + q mod 256 div 64" "q div 16 = 16 * (q div 256) + q mod 256 div 16"
    "q div 2 = 128 * (q div 256) + q mod 256 div 2" "q = 256 * (q div 256) + q mod 256"
proof -
  have "(256 * a + b) div 64 = 4 * a + b div 64" "(256 * a + b) div 16 = 16 * a + b div 16"
    "(256 * a + b) div 2 = 128 * a + b div 2" for a b :: nat
    by presburger+
  from this [of "q div 256" "q mod 256"]
  show "q div 64 = 4 * (q div 256) + q mod 256 div 64" "q div 16 = 16 * (q div 256) + q mod 256 div 16"
    "q div 2 = 128 * (q div 256) + q mod 256 div 2" by simp_all
  show "q = 256 * (q div 256) + q mod 256" by simp
qed

lemma digit_unique: "c < n \<Longrightarrow> c' < n \<Longrightarrow> n * a + c = n * a' + c' \<longleftrightarrow> a = a' \<and> c = c'" for n :: nat
  by (metis add.commute div_mult_self4 div_less mod_mult_self2 mod_less add_0 less_nat_zero_code)

lemma div_eq_iff_range: "0 < n \<Longrightarrow> m div n = q \<longleftrightarrow> q * n \<le> m \<and> m < Suc q * n" for m n q :: nat
  by (metis div_less_iff_less_mult less_Suc_eq_le less_eq_div_iff_mult_less_eq order.antisym order_refl)

lemma block_arith:
  fixes a b :: nat
  assumes "b < 256"
  shows "4 * a + b div 64 = 401 \<longleftrightarrow> a = 100 \<and> 64 \<le> b \<and> b \<le> 127"
    and "16 * a + b div 16 = 2753 \<longleftrightarrow> a = 172 \<and> 16 \<le> b \<and> b \<le> 31"
    and "128 * a + b div 2 = 25353 \<longleftrightarrow> a = 198 \<and> (b = 18 \<or> b = 19)"
    and "256 * a + b = 43518 \<longleftrightarrow> a = 169 \<and> b = 254"
    and "256 * a + b = 49320 \<longleftrightarrow> a = 192 \<and> b = 168"
proof -
  have "b div 64 < 4" "b div 16 < 16" "b div 2 < 128"
    by (rule less_mult_imp_div_less, simp add: assms)+
  moreover have "b div 64 = 1 \<longleftrightarrow> 64 \<le> b \<and> b \<le> 127" "b div 16 = 1 \<longleftrightarrow> 16 \<le> b \<and> b \<le> 31"
    "b div 2 = 9 \<longleftrightarrow> b = 18 \<or> b = 19"
    by (auto simp: div_eq_iff_range)
  ultimately show "4 * a + b div 64 = 401 \<longleftrightarrow> a = 100 \<and> 64 \<le> b \<and> b \<le> 127"
    "16 * a + b div 16 = 2753 \<longleftrightarrow> a = 172 \<and> 16 \<le> b \<and> b \<le> 31"
    "128 * a + b div 2 = 25353 \<longleftrightarrow> a = 198 \<and> (b = 18 \<or> b = 19)"
    using digit_unique [of "b div 64" 4 1 a 100] digit_unique [of "b div 16" 16 1 a 172]
      digit_unique [of "b div 2" 128 9 a 198] by simp_all
  show "256 * a + b = 43518 \<longleftrightarrow> a = 169 \<and> b = 254" "256 * a + b = 49320 \<longleftrightarrow> a = 192 \<and> b = 168"
    using digit_unique [of b 256 254 a 169] digit_unique [of b 256 168 a 192] assms by simp_all
qed

lemma div_chain:
  fixes x :: nat
  shows "x div 16777216 = x div 256 div 256 div 256" "x div 65536 = x div 256 div 256"
    "x div 4194304 = x div 256 div 256 div 64" "x div 1048576 = x div 256 div 256 div 16"
    "x div 131072 = x div 256 div 256 div 2" "x div 536870912 = x div 256 div 256 div 256 div 32"
  by (simp_all add: div_mult2_eq [symmetric])

text \<open>
  The octet tests of the push endpoint check are membership in the special-purpose blocks.
\<close>

lemma reserved_block_octets:
  shows "in_block (0x00000000, 8) ip \<longleftrightarrow> octet 0 ip = 0"
    and "in_block (0x0A000000, 8) ip \<longleftrightarrow> octet 0 ip = 10"
    and "in_block (0x7F000000, 8) ip \<longleftrightarrow> octet 0 ip = 127"
    and "in_block (0x64400000, 10) ip \<longleftrightarrow> octet 0 ip = 100 \<and> 64 \<le> octet 1 ip \<and> octet 1 ip \<le> 127"
    and "in_block (0xA9FE0000, 16) ip \<longleftrightarrow> octet 0 ip = 169 \<and> octet 1 ip = 254"
    and "in_block (0xAC100000, 12) ip \<longleftrightarrow> octet 0 ip = 172 \<and> 16 \<le> octet 1 ip \<and> octet 1 ip \<le> 31"
    and "in_block (0xC0000000, 24) ip \<longleftrightarrow> octet 0 ip = 192 \<and> octet 1 ip = 0 \<and> octet 2 ip = 0"
    and "in_block (0xC0000200, 24) ip \<longleftrightarrow> octet 0 ip = 192 \<and> octet 1 ip = 0 \<and> octet 2 ip = 2"
    and "in_block (0xC0A80000, 16) ip \<longleftrightarrow> octet 0 ip = 192 \<and> octet 1 ip = 168"
    and "in_block (0xC6120000, 15) ip \<longleftrightarrow> octet 0 ip = 198 \<and> (octet 1 ip = 18 \<or> octet 1 ip = 19)"
    and "in_block (0xC6336400, 24) ip \<longleftrightarrow> octet 0 ip = 198 \<and> octet 1 ip = 51 \<and> octet 2 ip = 100"
    and "in_block (0xCB007100, 24) ip \<longleftrightarrow> octet 0 ip = 203 \<and> octet 1 ip = 0 \<and> octet 2 ip = 113"
    and "in_block (0xE0000000, 3) ip \<longleftrightarrow> 224 \<le> octet 0 ip"
proof -
  define q where "q = unat ip div 256 div 256"
  define c where "c = unat ip div 256"
  note blocks = in_block_unat octet_0 octet_1 octet_2
  have q: "unat ip div 256 div 256 = q" and c: "unat ip div 256 = c" by (simp_all add: q_def c_def)
  have cq: "c div 256 = q" by (simp add: q_def c_def)
  have "c = 256 * (256 * (q div 256) + q mod 256) + c mod 256" by (simp add: q_def c_def)
  then have three: "c = 256 * (256 * A + B) + C \<longleftrightarrow> q div 256 = A \<and> q mod 256 = B \<and> c mod 256 = C"
    if "B < 256" "C < 256" for A B C
    using that digit_unique [of "c mod 256" 256 C "256 * (q div 256) + q mod 256" "256 * A + B"]
      digit_unique [of "q mod 256" 256 B "q div 256" A] by simp
  have "unat ip < 4294967296" using unsigned_less [of ip] by simp
  then have "q div 256 < 256" by (simp add: q_def div_mult2_eq [symmetric] div_less_iff_less_mult)
  show "in_block (0x00000000, 8) ip \<longleftrightarrow> octet 0 ip = 0" "in_block (0x0A000000, 8) ip \<longleftrightarrow> octet 0 ip = 10"
    "in_block (0x7F000000, 8) ip \<longleftrightarrow> octet 0 ip = 127"
    unfolding blocks by simp_all
  show "in_block (0x64400000, 10) ip \<longleftrightarrow> octet 0 ip = 100 \<and> 64 \<le> octet 1 ip \<and> octet 1 ip \<le> 127"
    using block_arith(1) [of "q mod 256" "q div 256"] block_split(1) [of q] unfolding blocks by (simp add: div_chain q)
  show "in_block (0xAC100000, 12) ip \<longleftrightarrow> octet 0 ip = 172 \<and> 16 \<le> octet 1 ip \<and> octet 1 ip \<le> 31"
    using block_arith(2) [of "q mod 256" "q div 256"] block_split(2) [of q] unfolding blocks by (simp add: div_chain q)
  show "in_block (0xC6120000, 15) ip \<longleftrightarrow> octet 0 ip = 198 \<and> (octet 1 ip = 18 \<or> octet 1 ip = 19)"
    using block_arith(3) [of "q mod 256" "q div 256"] block_split(3) [of q] unfolding blocks by (simp add: div_chain q)
  show "in_block (0xA9FE0000, 16) ip \<longleftrightarrow> octet 0 ip = 169 \<and> octet 1 ip = 254"
    "in_block (0xC0A80000, 16) ip \<longleftrightarrow> octet 0 ip = 192 \<and> octet 1 ip = 168"
    using block_arith(4,5) [of "q mod 256" "q div 256"] unfolding blocks by (simp_all add: div_chain q)
  show "in_block (0xC0000000, 24) ip \<longleftrightarrow> octet 0 ip = 192 \<and> octet 1 ip = 0 \<and> octet 2 ip = 0"
    "in_block (0xC0000200, 24) ip \<longleftrightarrow> octet 0 ip = 192 \<and> octet 1 ip = 0 \<and> octet 2 ip = 2"
    "in_block (0xC6336400, 24) ip \<longleftrightarrow> octet 0 ip = 198 \<and> octet 1 ip = 51 \<and> octet 2 ip = 100"
    "in_block (0xCB007100, 24) ip \<longleftrightarrow> octet 0 ip = 203 \<and> octet 1 ip = 0 \<and> octet 2 ip = 113"
    using three [of 0 0 192] three [of 0 2 192] three [of 51 100 198] three [of 0 113 203]
    unfolding blocks by (simp_all add: div_chain c cq)
  show "in_block (0xE0000000, 3) ip \<longleftrightarrow> 224 \<le> octet 0 ip"
    using \<open>q div 256 < 256\<close> unfolding blocks by (simp add: div_chain q div_eq_iff_range)
qed

lemma is_public_v4_blocks: "is_public_v4 ip \<longleftrightarrow> (\<forall>b \<in> set reserved_blocks. \<not> in_block b ip)"
  unfolding is_public_v4_def Let_def reserved_blocks_def list.set ball_simps reserved_block_octets
  by (simp only: de_Morgan_disj simp_thms)

subsection \<open>The two checks compared\<close>

lemma unsafe_v4_is_reserved: "is_unsafe_address (V4 ip) \<Longrightarrow> \<not> is_public (V4 ip)"
proof -
  have "octet 0 (0 :: 32 word) = 0" "octet 0 (0xFFFFFFFF :: 32 word) = 255"
    by (simp_all add: octet_def)
  moreover assume "is_unsafe_address (V4 ip)"
  ultimately show "\<not> is_public (V4 ip)"
    unfolding is_unsafe_address.simps is_public.simps is_public_v4_def v4_is_private_def v4_is_loopback_def
      v4_is_link_local_def v4_is_multicast_def v4_is_documentation_def Let_def
    by (elim disjE conjE) simp_all
qed

definition ipv4_mapped :: "ipv4_addr \<Rightarrow> ipv6_addr" where
  "ipv4_mapped ip = push_bit 32 0xFFFF OR ucast ip"

lemma drop_bit_mapped: "32 \<le> n \<Longrightarrow> drop_bit n (ipv4_mapped ip) = drop_bit n 0xFFFF00000000"
proof -
  assume n: "32 \<le> n"
  have "drop_bit n (ucast ip :: 128 word) = 0"
    by (rule bit_word_eqI) (use n in \<open>auto simp: bit_simps dest: bit_imp_le_length\<close>)
  then show ?thesis by (simp add: ipv4_mapped_def)
qed

lemma ipv4_mapped_props:
  shows "to_ipv4_mapped (ipv4_mapped ip) = Some ip" and "segment 0 (ipv4_mapped ip) = 0"
    and "ipv4_mapped ip \<noteq> 0" and "ipv4_mapped ip \<noteq> 1"
proof -
  have d: "drop_bit 32 (ipv4_mapped ip) = 0xFFFF" by (simp add: drop_bit_mapped)
  have "ucast (ipv4_mapped ip) = ip"
    by (rule bit_word_eqI) (simp add: ipv4_mapped_def bit_simps del: push_bit_numeral)
  then show "to_ipv4_mapped (ipv4_mapped ip) = Some ip" using d by (simp add: to_ipv4_mapped_def)
  show "segment 0 (ipv4_mapped ip) = 0" by (simp add: segment_def drop_bit_mapped)
  show "ipv4_mapped ip \<noteq> 0" "ipv4_mapped ip \<noteq> 1" using d by auto
qed

lemma mapped_never_unsafe: "\<not> is_unsafe_address (V6 (ipv4_mapped ip))"
  using ipv4_mapped_props [of ip]
  by (simp add: v6_is_unique_local_def v6_is_unicast_link_local_def v6_is_multicast_def)

lemma mapped_public_iff: "is_public (V6 (ipv4_mapped ip)) \<longleftrightarrow> is_public (V4 ip)"
  by (simp add: is_public_v6_def ipv4_mapped_props)

end
