(* ===== verification/Roosty_Domain_Policy.thy ===== *)
theory Roosty_Domain_Policy
  imports Roosty_Remote Roosty_Net
begin

text \<open>
  Federation domain rules (\<^verbatim>\<open>src/crates/db/src/lib.rs\<close>, lines 1219-1454): normalizing a
  domain, the suffixes that can cover it, the effective policy, and the administrator's
  operations on rules; and the check every outgoing federation request passes,
  \<open>validate_remote_url\<close> of \<^verbatim>\<open>src/crates/server/src/federation/discovery.rs\<close>.

  \<open>host_parse\<close> is \<open>Host::parse\<close> of the \<^verbatim>\<open>url\<close> crate, \<open>parse_ip\<close> the address
  parser of the standard library and \<open>lookup_host\<close> the resolver.
\<close>

subsection \<open>Domains\<close>

definition ascii_lower :: "char \<Rightarrow> char" where
  "ascii_lower c = (let n = of_char c :: nat in if 65 \<le> n \<and> n \<le> 90 then char_of (n + 32) else c)"

definition to_ascii_lowercase :: "string \<Rightarrow> string" where
  "to_ascii_lowercase s = map ascii_lower s"

definition trim_end_dots :: "ustring \<Rightarrow> ustring" where
  "trim_end_dots s = rev (dropWhile (\<lambda>c. c = 46) (rev s))"

definition normalize_federation_domain ::
  "(ustring \<Rightarrow> url_host option) \<Rightarrow> ustring \<Rightarrow> string result" where
  "normalize_federation_domain host_parse domain =
     (case host_parse (trim_end_dots (trim domain)) of
        Some (Domain domain) \<Rightarrow>
          if CHR ''.'' \<in> set domain \<and> CHR ''*'' \<notin> set domain then Inr (to_ascii_lowercase domain)
          else Inl (InvalidInput ''domain must be a public DNS name'')
      | _ \<Rightarrow> Inl (InvalidInput ''domain must be a public DNS name''))"

fun split_dots :: "string \<Rightarrow> string list" where
  "split_dots [] = [[]]"
| "split_dots (c # s) =
     (if c = CHR ''.'' then [] # split_dots s
      else case split_dots s of [] \<Rightarrow> [[c]] | w # ws \<Rightarrow> (c # w) # ws)"

fun join_dots :: "string list \<Rightarrow> string" where
  "join_dots [] = []"
| "join_dots [w] = w"
| "join_dots (w # ws) = w @ ''.'' @ join_dots ws"

definition federation_domain_suffixes ::
  "(ustring \<Rightarrow> url_host option) \<Rightarrow> ustring \<Rightarrow> string list result" where
  "federation_domain_suffixes host_parse domain =
     bind_res (normalize_federation_domain host_parse domain) (\<lambda>domain.
       let labels = split_dots domain
       in Inr (map (\<lambda>i. join_dots (drop i labels)) [0..<length labels - 1]))"

subsection \<open>The effective policy\<close>

fun severity_rank :: "domain_block_severity \<Rightarrow> nat" where
  "severity_rank Noop = 0"
| "severity_rank Silence = 1"
| "severity_rank Suspend = 2"

definition max_severity :: "domain_block_severity \<Rightarrow> domain_block_severity \<Rightarrow> domain_block_severity" where
  "max_severity a b = (if severity_rank a \<le> severity_rank b then b else a)"

record federation_domain_policy =
  fdp_severity :: domain_block_severity
  fdp_reject_media :: bool
  fdp_reject_reports :: bool

definition default_policy :: federation_domain_policy where
  "default_policy = \<lparr> fdp_severity = Noop, fdp_reject_media = False, fdp_reject_reports = False \<rparr>"

definition policy_is_suspended :: "federation_domain_policy \<Rightarrow> bool" where
  "policy_is_suspended p \<longleftrightarrow> fdp_severity p = Suspend"

definition policy_is_limited :: "federation_domain_policy \<Rightarrow> bool" where
  "policy_is_limited p \<longleftrightarrow> severity_rank Silence \<le> severity_rank (fdp_severity p)"

definition add_rule :: "federation_domain_policy \<Rightarrow> federation_domain_block_row \<Rightarrow> federation_domain_policy" where
  "add_rule p r =
     \<lparr> fdp_severity = max_severity (fdp_severity p) (fdb_severity r),
       fdp_reject_media = (fdp_reject_media p \<or> fdb_reject_media r),
       fdp_reject_reports = (fdp_reject_reports p \<or> fdb_reject_reports r) \<rparr>"

definition federation_domain_policy ::
  "(ustring \<Rightarrow> url_host option) \<Rightarrow> db \<Rightarrow> ustring \<Rightarrow> federation_domain_policy result" where
  "federation_domain_policy host_parse d domain =
     bind_res (federation_domain_suffixes host_parse domain) (\<lambda>suffixes.
       Inr (foldl add_rule default_policy
              (filter (\<lambda>r. fdb_domain r \<in> set suffixes) (t_federation_domain_block d))))"

definition hidden_federation_domains :: "db \<Rightarrow> string list" where
  "hidden_federation_domains d =
     map fdb_domain (filter (\<lambda>r. fdb_severity r \<in> set [Silence, Suspend]) (t_federation_domain_block d))"

subsection \<open>Administration of rules\<close>

definition list_federation_domain_blocks ::
  "db \<Rightarrow> nat \<Rightarrow> uuid option \<Rightarrow> federation_domain_block_row list" where
  "list_federation_domain_blocks d limit max_id =
     take (min limit 201)
       (rev (tbl_order fdb_id
         (filter (\<lambda>r. case max_id of None \<Rightarrow> True | Some m \<Rightarrow> fdb_id r < m) (t_federation_domain_block d))))"

definition find_federation_domain_block :: "db \<Rightarrow> uuid \<Rightarrow> federation_domain_block_row option" where
  "find_federation_domain_block d i = List.find (\<lambda>r. fdb_id r = i) (t_federation_domain_block d)"

record new_federation_domain_block =
  nfb_domain :: ustring
  nfb_severity :: domain_block_severity
  nfb_reject_media :: bool
  nfb_reject_reports :: bool
  nfb_private_comment :: "ustring option"
  nfb_public_comment :: "ustring option"
  nfb_obfuscate :: bool

text \<open>The check constraint on the domain column.\<close>

definition fdb_check :: "string \<Rightarrow> bool" where
  "fdb_check domain \<longleftrightarrow>
     domain = to_ascii_lowercase domain \<and> domain \<noteq> [] \<and>
     list_all (\<lambda>c. c \<notin> set ''/@:*'' \<and> \<not> is_whitespace (of_char c)) domain"

definition create_federation_domain_block ::
  "(ustring \<Rightarrow> url_host option) \<Rightarrow> uuid \<Rightarrow> instant \<Rightarrow> new_federation_domain_block \<Rightarrow> db \<Rightarrow>
     (db \<times> federation_domain_block_row) result" where
  "create_federation_domain_block host_parse new_id now input d =
     bind_res (normalize_federation_domain host_parse (nfb_domain input)) (\<lambda>domain.
       if list_ex (\<lambda>r. fdb_domain r = domain) (t_federation_domain_block d)
       then Inl (InvalidInput ''domain is already blocked'')
       else
         let r = \<lparr> fdb_id = new_id, fdb_domain = domain, fdb_severity = nfb_severity input,
                   fdb_reject_media = nfb_reject_media input,
                   fdb_reject_reports = nfb_reject_reports input,
                   fdb_private_comment = nfb_private_comment input,
                   fdb_public_comment = nfb_public_comment input,
                   fdb_obfuscate = nfb_obfuscate input, fdb_created_at = now, fdb_updated_at = now \<rparr>
         in if \<not> fdb_check domain then Inl (Database CheckViolation)
            else bind_res (db_result (tbl_insert fdb_conflict r (t_federation_domain_block d)))
                   (\<lambda>t. Inr (d\<lparr>t_federation_domain_block := t\<rparr>, r)))"

record federation_domain_block_update =
  fbu_severity :: "domain_block_severity option"
  fbu_reject_media :: "bool option"
  fbu_reject_reports :: "bool option"
  fbu_private_comment :: "ustring option option"
  fbu_public_comment :: "ustring option option"
  fbu_obfuscate :: "bool option"

definition set_if_some :: "'a option \<Rightarrow> 'a \<Rightarrow> 'a" where
  "set_if_some v old = (case v of None \<Rightarrow> old | Some x \<Rightarrow> x)"

definition apply_block_update ::
  "instant \<Rightarrow> federation_domain_block_update \<Rightarrow> federation_domain_block_row \<Rightarrow> federation_domain_block_row" where
  "apply_block_update now u r =
     r\<lparr>fdb_severity := set_if_some (fbu_severity u) (fdb_severity r),
       fdb_reject_media := set_if_some (fbu_reject_media u) (fdb_reject_media r),
       fdb_reject_reports := set_if_some (fbu_reject_reports u) (fdb_reject_reports r),
       fdb_private_comment := set_if_some (fbu_private_comment u) (fdb_private_comment r),
       fdb_public_comment := set_if_some (fbu_public_comment u) (fdb_public_comment r),
       fdb_obfuscate := set_if_some (fbu_obfuscate u) (fdb_obfuscate r),
       fdb_updated_at := now\<rparr>"

definition update_federation_domain_block ::
  "instant \<Rightarrow> uuid \<Rightarrow> federation_domain_block_update \<Rightarrow> db \<Rightarrow>
     (db \<times> federation_domain_block_row) result" where
  "update_federation_domain_block now i u d =
     (case find_federation_domain_block d i of
        None \<Rightarrow> Inl (InvalidInput ''domain block does not exist'')
      | Some r \<Rightarrow>
          Inr (d\<lparr>t_federation_domain_block :=
                  tbl_update (\<lambda>x. fdb_id x = i) (apply_block_update now u) (t_federation_domain_block d)\<rparr>,
               apply_block_update now u r))"

definition delete_federation_domain_block ::
  "uuid \<Rightarrow> db \<Rightarrow> db \<times> federation_domain_block_row option" where
  "delete_federation_domain_block i d =
     (case find_federation_domain_block d i of
        None \<Rightarrow> (d, None)
      | Some r \<Rightarrow>
          (d\<lparr>t_federation_domain_block := tbl_delete (\<lambda>x. fdb_id x = i) (t_federation_domain_block d)\<rparr>, Some r))"

subsection \<open>Outgoing requests\<close>

definition federation_domain_is_allowed :: "string list \<Rightarrow> string \<Rightarrow> bool" where
  "federation_domain_is_allowed allowed_domains domain \<longleftrightarrow>
     list_ex (\<lambda>a. a = ''*'' \<or> a = to_ascii_lowercase domain) allowed_domains"

definition validate_remote_url ::
  "(ustring \<Rightarrow> url_host option) \<Rightarrow> (string \<Rightarrow> ip_addr option) \<Rightarrow> (string \<Rightarrow> nat \<Rightarrow> socket_addr list option) \<Rightarrow>
     string list \<Rightarrow> db \<Rightarrow> url \<Rightarrow> socket_addr result" where
  "validate_remote_url host_parse parse_ip lookup_host allowed_domains d u =
     (if url_scheme u \<noteq> ''https'' \<or> url_username u \<noteq> '''' \<or> url_password u \<noteq> None
      then Inl (InvalidInput ''remote URL must be an unauthenticated HTTPS URL'')
      else case url_host_str u of
        None \<Rightarrow> Inl (InvalidInput ''remote URL has no host'')
      | Some host \<Rightarrow>
          let host = to_ascii_lowercase host
          in bind_res
               (if \<not> federation_domain_is_allowed allowed_domains host then Inr True
                else bind_res (federation_domain_policy host_parse d (utext host))
                       (\<lambda>p. Inr (policy_is_suspended p)))
               (\<lambda>rejected.
                  if rejected then Inl (FederationDiscovery host)
                  else if parse_ip host \<noteq> None
                  then Inl (InvalidInput ''literal IP addresses are not permitted for federation'')
                  else case url_port_or_known_default u of
                    None \<Rightarrow> Inl (InvalidInput ''remote URL has no port'')
                  | Some port \<Rightarrow>
                      (case lookup_host host port of
                         None \<Rightarrow> Inl (InvalidInput ''remote domain could not be resolved'')
                       | Some [] \<Rightarrow> Inl (InvalidInput ''remote domain resolves to a non-public address'')
                       | Some (a # as') \<Rightarrow>
                           if list_ex (\<lambda>x. is_unsafe_address (fst x)) (a # as')
                           then Inl (InvalidInput ''remote domain resolves to a non-public address'')
                           else Inr a)))"

subsection \<open>Suffixes and covered domains\<close>

lemma split_dots_ne [simp]: "split_dots s \<noteq> []"
  by (induction s) (auto split: list.splits)

lemma join_split_dots: "join_dots (split_dots s) = s"
proof (induction s)
  case (Cons c s)
  obtain w ws where ws: "split_dots s = w # ws" by (cases "split_dots s") auto
  then show ?case using Cons.IH by (cases ws) auto
qed simp

lemma label_no_dot: "w \<in> set (split_dots s) \<Longrightarrow> CHR ''.'' \<notin> set w"
  by (induction s arbitrary: w) (fastforce split: if_splits list.splits)+

lemma join_dots_dot: "(\<And>w. w \<in> set ws \<Longrightarrow> CHR ''.'' \<notin> set w) \<Longrightarrow> CHR ''.'' \<in> set (join_dots ws) \<longleftrightarrow> 2 \<le> length ws"
  by (induction ws rule: join_dots.induct) auto

definition later_suffixes :: "string list \<Rightarrow> string set" where
  "later_suffixes labels = {join_dots (drop (Suc i) labels) | i. Suc i < length labels}"

lemma later_suffixes_Cons:
  "ws \<noteq> [] \<Longrightarrow> later_suffixes (w # ws) = insert (join_dots ws) (later_suffixes ws)"
proof -
  assume "ws \<noteq> []"
  have "later_suffixes (w # ws) = {join_dots (drop i ws) | i. i < length ws}"
    by (auto simp: later_suffixes_def)
  also have "\<dots> = insert (join_dots ws) (later_suffixes ws)"
    unfolding later_suffixes_def
  proof (intro equalityI subsetI)
    fix x assume "x \<in> {join_dots (drop i ws) | i. i < length ws}"
    then obtain i where "x = join_dots (drop i ws)" "i < length ws" by blast
    then show "x \<in> insert (join_dots ws) {join_dots (drop (Suc i) ws) | i. Suc i < length ws}"
      by (cases i) auto
  next
    fix x assume "x \<in> insert (join_dots ws) {join_dots (drop (Suc i) ws) | i. Suc i < length ws}"
    then show "x \<in> {join_dots (drop i ws) | i. i < length ws}"
      using \<open>ws \<noteq> []\<close> by (auto intro: exI [of _ 0])
  qed
  finally show ?thesis .
qed

lemma later_suffixes_iff: "x \<in> later_suffixes (split_dots s) \<longleftrightarrow> (\<exists>p. s = p @ ''.'' @ x)"
proof (induction s)
  case Nil
  then show ?case by (simp add: later_suffixes_def)
next
  case (Cons c s)
  show ?case
  proof (cases "c = CHR ''.''")
    case True
    have "x \<in> later_suffixes (split_dots (c # s)) \<longleftrightarrow> x = s \<or> (\<exists>p. s = p @ ''.'' @ x)"
      using True Cons.IH by (simp add: later_suffixes_Cons join_split_dots)
    also have "\<dots> \<longleftrightarrow> (\<exists>p. c # s = p @ ''.'' @ x)"
      using True by (auto simp: Cons_eq_append_conv)
    finally show ?thesis .
  next
    case False
    obtain w ws where ws: "split_dots s = w # ws" by (cases "split_dots s") auto
    have "later_suffixes (split_dots (c # s)) = later_suffixes (split_dots s)"
      using False ws by (simp add: later_suffixes_def)
    then show ?thesis using Cons.IH False by (auto simp: Cons_eq_append_conv)
  qed
qed

lemma suffix_list_iff:
  "x \<in> set (map (\<lambda>i. join_dots (drop i (split_dots s))) [0..<length (split_dots s) - 1]) \<longleftrightarrow>
     CHR ''.'' \<in> set x \<and> (s = x \<or> (\<exists>p. s = p @ ''.'' @ x))"
proof -
  let ?l = "split_dots s"
  have dot: "CHR ''.'' \<in> set (join_dots (drop i ?l)) \<longleftrightarrow> 2 \<le> length ?l - i" for i
    using join_dots_dot [of "drop i ?l"] label_no_dot [of _ s] by (auto dest: in_set_dropD)
  have "x \<in> set (map (\<lambda>i. join_dots (drop i ?l)) [0..<length ?l - 1]) \<longleftrightarrow>
          (\<exists>i. x = join_dots (drop i ?l) \<and> 2 \<le> length ?l - i)"
    by auto
  also have "\<dots> \<longleftrightarrow> (\<exists>i. x = join_dots (drop i ?l) \<and> i < length ?l) \<and> CHR ''.'' \<in> set x"
    using dot by fastforce
  also have "(\<exists>i. x = join_dots (drop i ?l) \<and> i < length ?l) \<longleftrightarrow> x = s \<or> x \<in> later_suffixes ?l"
  proof
    assume "\<exists>i. x = join_dots (drop i ?l) \<and> i < length ?l"
    then obtain i where "x = join_dots (drop i ?l)" "i < length ?l" by blast
    then show "x = s \<or> x \<in> later_suffixes ?l"
      by (cases i) (auto simp: join_split_dots later_suffixes_def)
  next
    assume "x = s \<or> x \<in> later_suffixes ?l"
    then show "\<exists>i. x = join_dots (drop i ?l) \<and> i < length ?l"
      by (auto simp: later_suffixes_def join_split_dots intro: exI [of _ 0])
  qed
  finally show ?thesis using later_suffixes_iff by auto
qed

lemma severity_rank_max: "severity_rank (max_severity a b) = max (severity_rank a) (severity_rank b)"
  by (simp add: max_severity_def)

lemma severity_rank_ge:
  "2 \<le> severity_rank a \<longleftrightarrow> a = Suspend" "Suc 0 \<le> severity_rank a \<longleftrightarrow> a \<in> {Silence, Suspend}"
  by (cases a; simp)+

lemma fold_rules:
  "k \<le> severity_rank (fdp_severity (foldl add_rule p rs)) \<longleftrightarrow>
     k \<le> severity_rank (fdp_severity p) \<or> (\<exists>r \<in> set rs. k \<le> severity_rank (fdb_severity r))"
  "fdp_reject_media (foldl add_rule p rs) \<longleftrightarrow> fdp_reject_media p \<or> (\<exists>r \<in> set rs. fdb_reject_media r)"
  "fdp_reject_reports (foldl add_rule p rs) \<longleftrightarrow> fdp_reject_reports p \<or> (\<exists>r \<in> set rs. fdb_reject_reports r)"
proof (induction rs arbitrary: p)
  case (Cons r rs)
  case 1
  show ?case
    using Cons.IH(1) [of "add_rule p r"] by (auto simp: add_rule_def severity_rank_max)
  case 2
  show ?case using Cons.IH(2) [of "add_rule p r"] by (auto simp: add_rule_def)
  case 3
  show ?case using Cons.IH(3) [of "add_rule p r"] by (auto simp: add_rule_def)
qed simp_all

end
