(* ===== verification/Roosty_Net_Properties.thy ===== *)
theory Roosty_Net_Properties
  imports Roosty_Domain_Policy
begin

text \<open>
  Properties of the network checks: push endpoints stay public, federation requests accept
  IPv4-mapped addresses, domain rules cover subdomains, and forged forwarding headers do not
  choose the client address.
\<close>

subsection \<open>Push endpoints\<close>

definition outside_reserved :: "ip_addr \<Rightarrow> bool" where
  "outside_reserved ip =
     (case ip of
        V4 a \<Rightarrow> (\<forall>b \<in> set reserved_blocks. \<not> in_block b a)
      | V6 a \<Rightarrow>
          (case to_ipv4_mapped a of
             Some v \<Rightarrow> (\<forall>b \<in> set reserved_blocks. \<not> in_block b v)
           | None \<Rightarrow> a \<noteq> 0 \<and> a \<noteq> 1 \<and> \<not> v6_is_unique_local a \<and> \<not> v6_is_unicast_link_local a \<and>
                     \<not> v6_is_multicast a))"

lemma is_public_outside: "is_public ip \<Longrightarrow> outside_reserved ip"
  by (cases ip)
     (auto simp: outside_reserved_def is_public_v4_blocks is_public_v6_def v6_is_unique_local_def
       v6_is_unicast_link_local_def v6_is_multicast_def split: option.splits)

text \<open>
  C18: a push endpoint is only contacted when its URL is HTTPS without credentials and every
  address it resolves to is public. For IPv4, also in its IPv4-mapped form, public means outside
  of the thirteen special-purpose CIDR blocks; the octet comparisons of the code are exactly
  these blocks, on 32-bit words.
\<close>

theorem push_endpoint_is_public:
  assumes "resolve_public lookup_host u = Inr addresses"
  shows "url_scheme u = ''https'' \<and> url_username u = '''' \<and> url_password u = None \<and> addresses \<noteq> [] \<and>
         (\<forall>a \<in> set addresses. outside_reserved (fst a)) \<and>
         (\<forall>ip. is_public (V4 ip) \<longleftrightarrow> (\<forall>b \<in> set reserved_blocks. \<not> in_block b ip))"
proof -
  have "validate_url u = Inr ()" "validate_resolved addresses = Inr ()"
    using assms by (auto simp: resolve_public_def bind_res_Inr_iff Let_def split: option.splits)
  then show ?thesis
    by (auto simp: validate_url_def validate_resolved_def list_ex_iff is_public_v4_blocks intro: is_public_outside
        split: if_splits)
qed

theorem push_endpoint_is_public_witness:
  "\<exists>u addresses. resolve_public (\<lambda>_ _. Some [(V4 0x01010101, 443)]) u = Inr addresses \<and>
     outside_reserved (fst (hd addresses))"
proof -
  let ?u = "\<lparr> url_scheme = ''https'', url_username = '''', url_password = None, url_host = Some (Domain ''p.example''),
              url_host_str = Some ''p.example'', url_port_or_known_default = Some 443 \<rparr>"
  have "is_public (V4 0x01010101)" by (simp add: is_public_v4_def octet_def Let_def)
  then have run: "resolve_public (\<lambda>_ _. Some [(V4 0x01010101, 443)]) ?u = Inr [(V4 0x01010101, 443)]"
    by (simp add: resolve_public_def validate_url_def validate_resolved_def Let_def)
  moreover have "outside_reserved (fst (hd [(V4 0x01010101, 443 :: nat)]))"
    using push_endpoint_is_public [OF run] by simp
  ultimately show ?thesis by blast
qed

subsection \<open>Federation requests\<close>

lemma validate_remote_url_lookup:
  assumes "validate_remote_url hp parse_ip (\<lambda>_ _. Some [a]) allowed d u = Inr a"
  shows "validate_remote_url hp parse_ip (\<lambda>_ _. Some [b]) allowed d u =
    (if is_unsafe_address (fst b) then Inl (InvalidInput ''remote domain resolves to a non-public address'') else Inr b)"
  using assms unfolding validate_remote_url_def Let_def bind_res_def
  by (auto split: if_splits option.splits sum.splits)

text \<open>
  The address check of federation requests refuses loopback and private IPv4 addresses,
  but not their IPv4-mapped IPv6 form. Take any URL that is accepted when its host resolves to some
  address \<open>a\<close>. When the host resolves to an unsafe IPv4 address the request is refused; when
  it resolves to the IPv4-mapped form of that address it is accepted, although the push endpoint
  check refuses both.
\<close>

lemma mapped_address_passes_federation:
  assumes "validate_remote_url host_parse parse_ip (\<lambda>_ _. Some [a]) allowed d u = Inr a"
    and "is_unsafe_address (V4 ip)"
  shows "validate_remote_url host_parse parse_ip (\<lambda>_ _. Some [(V4 ip, port)]) allowed d u =
           Inl (InvalidInput ''remote domain resolves to a non-public address'') \<and>
         validate_remote_url host_parse parse_ip (\<lambda>_ _. Some [(V6 (ipv4_mapped ip), port)]) allowed d u =
           Inr (V6 (ipv4_mapped ip), port) \<and>
         to_ipv4_mapped (ipv4_mapped ip) = Some ip \<and>
         \<not> is_public (V4 ip) \<and> \<not> is_public (V6 (ipv4_mapped ip))"
  using validate_remote_url_lookup [OF assms(1), of "(V4 ip, port)"]
    validate_remote_url_lookup [OF assms(1), of "(V6 (ipv4_mapped ip), port)"]
    mapped_never_unsafe [of ip] unsafe_v4_is_reserved [OF assms(2)] assms(2)
    ipv4_mapped_props(1) [of ip] mapped_public_iff [of ip]
  by (simp del: is_unsafe_address.simps is_public.simps)

subsection \<open>Domain rules\<close>

text \<open>
  C19: the effective policy of a domain combines exactly the rules whose domain is the
  normalized domain itself or one of its parent domains. It suspends the domain exactly when the
  domain is covered, in the sense of the suspension of cached actors, by the domains of the
  suspending rules; it limits it exactly when it is covered by a silencing or suspending rule; and it
  rejects media or reports exactly when a covering rule does. Rules are stored under normalized
  names, so each contains a dot.
\<close>

theorem domain_policy_covers_subdomains:
  assumes "normalize_federation_domain host_parse domain = Inr name"
    and "\<And>r. r \<in> set (t_federation_domain_block d) \<Longrightarrow> CHR ''.'' \<in> set (fdb_domain r)"
  shows "\<exists>p. federation_domain_policy host_parse d domain = Inr p \<and>
     (policy_is_suspended p \<longleftrightarrow>
        domain_covered (map fdb_domain (filter (\<lambda>r. fdb_severity r = Suspend) (t_federation_domain_block d))) name) \<and>
     (policy_is_limited p \<longleftrightarrow> domain_covered (hidden_federation_domains d) name) \<and>
     (fdp_reject_media p \<longleftrightarrow>
        domain_covered (map fdb_domain (filter fdb_reject_media (t_federation_domain_block d))) name) \<and>
     (fdp_reject_reports p \<longleftrightarrow>
        domain_covered (map fdb_domain (filter fdb_reject_reports (t_federation_domain_block d))) name)"
proof -
  let ?rs = "t_federation_domain_block d"
  define suffixes where "suffixes = map (\<lambda>i. join_dots (drop i (split_dots name))) [0..<length (split_dots name) - 1]"
  define covering where "covering = filter (\<lambda>r. fdb_domain r \<in> set suffixes) ?rs"
  define p where "p = foldl add_rule default_policy covering"
  have run: "federation_domain_policy host_parse d domain = Inr p"
    using assms(1)
    by (simp add: federation_domain_policy_def federation_domain_suffixes_def Let_def p_def covering_def suffixes_def)
  have cov: "domain_covered (map fdb_domain (filter q ?rs)) name \<longleftrightarrow> (\<exists>r \<in> set covering. q r)" for q
  proof -
    have "fdb_domain r \<in> set suffixes \<longleftrightarrow> name = fdb_domain r \<or> (\<exists>p. name = p @ ''.'' @ fdb_domain r)"
      if "r \<in> set ?rs" for r
      unfolding suffixes_def suffix_list_iff using assms(2) [OF that] by simp
    then show ?thesis unfolding domain_covered_iff covering_def by auto
  qed
  have "policy_is_suspended p \<longleftrightarrow> (\<exists>r \<in> set covering. fdb_severity r = Suspend)"
    using fold_rules(1) [of 2 default_policy covering]
    by (simp add: policy_is_suspended_def p_def severity_rank_ge) (simp add: default_policy_def)
  moreover have "policy_is_limited p \<longleftrightarrow> (\<exists>r \<in> set covering. fdb_severity r \<in> set [Silence, Suspend])"
    using fold_rules(1) [of "Suc 0" default_policy covering]
    by (simp add: policy_is_limited_def p_def severity_rank_ge) (simp add: default_policy_def)
  moreover have "fdp_reject_media p \<longleftrightarrow> (\<exists>r \<in> set covering. fdb_reject_media r)"
    "fdp_reject_reports p \<longleftrightarrow> (\<exists>r \<in> set covering. fdb_reject_reports r)"
    using fold_rules(2,3) [of default_policy covering] by (simp_all add: p_def default_policy_def)
  ultimately show ?thesis
    using run unfolding hidden_federation_domains_def cov by blast
qed

definition demo_rule :: "string \<Rightarrow> domain_block_severity \<Rightarrow> federation_domain_block_row" where
  "demo_rule name severity = \<lparr> fdb_id = 1, fdb_domain = name, fdb_severity = severity, fdb_reject_media = False,
     fdb_reject_reports = True, fdb_private_comment = None, fdb_public_comment = None, fdb_obfuscate = False,
     fdb_created_at = 0, fdb_updated_at = 0 \<rparr>"

theorem domain_policy_covers_subdomains_witness:
  "\<exists>host_parse p. federation_domain_policy host_parse
       (empty_db\<lparr>t_federation_domain_block := [demo_rule ''b.c'' Suspend]\<rparr>) (utext ''a.b.c'') = Inr p \<and>
     policy_is_suspended p"
proof -
  let ?hp = "\<lambda>_. Some (Domain ''a.b.c'')"
  let ?d = "empty_db\<lparr>t_federation_domain_block := [demo_rule ''b.c'' Suspend]\<rparr>"
  have norm: "normalize_federation_domain ?hp (utext ''a.b.c'') = Inr ''a.b.c''"
    by (simp add: normalize_federation_domain_def to_ascii_lowercase_def ascii_lower_def)
  have "CHR ''.'' \<in> set (fdb_domain r)" if "r \<in> set (t_federation_domain_block ?d)" for r
    using that by (simp add: demo_rule_def)
  from domain_policy_covers_subdomains [OF norm this] obtain p
    where p: "federation_domain_policy ?hp ?d (utext ''a.b.c'') = Inr p"
      and s: "policy_is_suspended p \<longleftrightarrow>
        domain_covered (map fdb_domain (filter (\<lambda>r. fdb_severity r = Suspend) (t_federation_domain_block ?d))) ''a.b.c''"
    by blast
  have "domain_covered [''b.c''] ''a.b.c''" by (simp add: domain_covered_iff)
  then have "policy_is_suspended p" using s by (simp add: demo_rule_def)
  then show ?thesis using p by blast
qed

subsection \<open>Client addresses\<close>

lemma those_append:
  "those (xs @ ys) = (case those xs of None \<Rightarrow> None | Some a \<Rightarrow> map_option (\<lambda>b. a @ b) (those ys))"
  by (induction xs; cases "those ys") (auto split: option.splits)

text \<open>
  C20: a client cannot choose the address it is limited by. When the peer is not a trusted
  proxy, the forwarding header is ignored. When it is, whatever text a client puts in front of the
  entries its proxies append, the result is either the rightmost entry among the appended ones that
  is no trusted proxy, or the peer itself (when the text is malformed or the chain too long).
\<close>

theorem forwarded_prefix_cannot_choose_client:
  assumes "those (map (\<lambda>p. map_option normalize (parse_ip p)) (map trim (split_char 44 appended))) = Some chain"
    and "List.find (\<lambda>x. \<not> is_trusted net_contains x trusted) (rev chain) = Some client"
  shows "(\<not> is_trusted net_contains (normalize peer) trusted \<longrightarrow>
            resolve parse_ip net_contains peer header trusted = normalize peer) \<and>
         resolve parse_ip net_contains peer (Some (forged @ 44 # appended)) trusted \<in> {client, normalize peer} \<and>
         (is_trusted net_contains (normalize peer) trusted \<and> length chain \<le> 32 \<longrightarrow>
            resolve parse_ip net_contains peer (Some appended) trusted = client)"
proof -
  let ?f = "\<lambda>p. map_option normalize (parse_ip p)"
  have len: "length (split_char 44 appended) = length chain" "split_char 44 appended \<noteq> []"
  proof -
    have "those xs = Some ys \<Longrightarrow> length xs = length ys" for xs :: "ip_addr option list" and ys
      by (induction xs arbitrary: ys) (auto split: option.splits)
    from this [OF assms(1)] show "length (split_char 44 appended) = length chain" by simp
    show "split_char 44 appended \<noteq> []" by simp
  qed
  have "those (map ?f (map trim (split_char 44 (forged @ 44 # appended)))) =
      (case those (map ?f (map trim (split_char 44 forged))) of None \<Rightarrow> None | Some a \<Rightarrow> Some (a @ chain))"
    using assms(1) by (simp add: split_char_append those_append split: option.splits)
  then have "resolve parse_ip net_contains peer (Some (forged @ 44 # appended)) trusted \<in> {client, normalize peer}"
    using assms(2) unfolding resolve_def Let_def by (auto simp: find_append split: option.splits)
  moreover have "is_trusted net_contains (normalize peer) trusted \<and> length chain \<le> 32 \<longrightarrow>
      resolve parse_ip net_contains peer (Some appended) trusted = client"
    using assms len by (simp add: resolve_def Let_def)
  ultimately show ?thesis by (simp add: resolve_def Let_def)
qed

theorem forwarded_prefix_cannot_choose_client_witness:
  "resolve (\<lambda>s. if s = utext ''b'' then Some (V4 2) else None) (\<lambda>n a. a = V4 n) (V4 1)
     (Some (utext ''junk'' @ 44 # utext '' b'')) [1] \<in> {V4 2, V4 1}"
proof -
  let ?p = "\<lambda>s. if s = utext ''b'' then Some (V4 2) else None"
  let ?c = "\<lambda>n a. a = V4 n"
  have "trim (utext '' b'') = utext ''b''"
    by (simp add: utext_def trim_def trim_start_def trim_end_def is_whitespace_def)
  moreover have "split_char 44 (utext '' b'') = [utext '' b'']" by (simp add: utext_def)
  ultimately have 1: "those (map (\<lambda>p. map_option normalize (?p p)) (map trim (split_char 44 (utext '' b'')))) = Some [V4 2]"
    by simp
  have 2: "List.find (\<lambda>x. \<not> is_trusted ?c x [1]) (rev [V4 2]) = Some (V4 2)" by (simp add: is_trusted_def)
  show ?thesis using forwarded_prefix_cannot_choose_client [OF 1 2, of "V4 1" None "utext ''junk''"] by simp
qed

end
