(* ===== verification/Roosty_Access.thy ===== *)
theory Roosty_Access
  imports Roosty_Remote
begin

text \<open>
  OAuth applications, authorization codes, access tokens, push subscriptions and the
  registration rate limit (\<^verbatim>\<open>src/crates/db/src/lib.rs\<close>, lines 7500-7745, 19889-20540 and
  20905-21000).

  The HMAC and SHA-256 primitives and the base64 encoding belong to third-party crates and are
  the fields of \<open>crypto\<close>; tokens drawn with \<open>random_token\<close> and identifiers drawn with
  \<open>Uuid::now_v7()\<close> are arguments. \<open>pg_now\<close> fills the columns that default to
  \<open>now()\<close>, and each reading of the process clock is an argument of its own.
\<close>

record crypto =
  cr_hmac :: "string \<Rightarrow> string \<Rightarrow> string + string"
  cr_sha256 :: "ustring \<Rightarrow> ustring"

definition secret_hash :: "crypto \<Rightarrow> string \<Rightarrow> string \<Rightarrow> string result" where
  "secret_hash cr pepper secret =
     (case cr_hmac cr pepper secret of Inl e \<Rightarrow> Inl (InvalidInput e) | Inr h \<Rightarrow> Inr h)"

definition pkce_s256_challenge :: "crypto \<Rightarrow> ustring \<Rightarrow> ustring" where
  "pkce_s256_challenge cr verifier = cr_sha256 cr verifier"

subsection \<open>Applications\<close>

record oauth_application =
  app_id :: uuid
  app_client_id :: string
  app_client_secret_hash :: string
  app_name :: ustring
  app_redirect_uri :: ustring
  app_scopes :: ustring
  app_website :: "ustring option"

definition oauth_application_from_model :: "oauth_application_row \<Rightarrow> oauth_application" where
  "oauth_application_from_model r =
     \<lparr> app_id = oap_id r, app_client_id = oap_client_id r, app_client_secret_hash = oap_client_secret_hash r,
       app_name = oap_name r, app_redirect_uri = oap_redirect_uri r, app_scopes = oap_scopes r,
       app_website = oap_website r \<rparr>"

definition create_oauth_application ::
  "crypto \<Rightarrow> uuid \<Rightarrow> string \<Rightarrow> string \<Rightarrow> instant \<Rightarrow> ustring \<Rightarrow> ustring \<Rightarrow> ustring \<Rightarrow> ustring option \<Rightarrow>
     string \<Rightarrow> db \<Rightarrow> (db \<times> oauth_application \<times> string) result" where
  "create_oauth_application cr new_id client_id client_secret pg_now name redirect_uri scopes website
     token_pepper d =
     bind_res (secret_hash cr token_pepper client_secret) (\<lambda>client_secret_hash.
     bind_res (db_result (tbl_insert oap_conflict
        \<lparr> oap_id = new_id, oap_client_id = client_id, oap_client_secret_hash = client_secret_hash,
          oap_name = name, oap_redirect_uri = redirect_uri, oap_scopes = scopes,
          oap_website = website, oap_created_at = pg_now \<rparr> (t_oauth_application d))) (\<lambda>t.
     Inr (d\<lparr>t_oauth_application := t\<rparr>,
          \<lparr> app_id = new_id, app_client_id = client_id, app_client_secret_hash = client_secret_hash,
            app_name = name, app_redirect_uri = redirect_uri, app_scopes = scopes,
            app_website = website \<rparr>, client_secret)))"

definition find_oauth_application_by_client_id :: "db \<Rightarrow> string \<Rightarrow> oauth_application option" where
  "find_oauth_application_by_client_id d client_id =
     map_option oauth_application_from_model
       (List.find (\<lambda>a. oap_client_id a = client_id) (t_oauth_application d))"

subsection \<open>Authorization codes\<close>

record new_authorization_code =
  nac_account_id :: uuid
  nac_application_id :: uuid
  nac_redirect_uri :: ustring
  nac_scopes :: ustring
  nac_code_challenge :: ustring
  nac_code_challenge_method :: pkce_code_challenge_method

definition fk_application :: "db \<Rightarrow> uuid \<Rightarrow> bool" where
  "fk_application d i \<longleftrightarrow> list_ex (\<lambda>a. oap_id a = i) (t_oauth_application d)"

definition create_authorization_code ::
  "crypto \<Rightarrow> uuid \<Rightarrow> string \<Rightarrow> instant \<Rightarrow> instant \<Rightarrow> string \<Rightarrow> new_authorization_code \<Rightarrow> db \<Rightarrow>
     (db \<times> string) result" where
  "create_authorization_code cr new_id code now pg_now token_pepper new_code d =
     bind_res (secret_hash cr token_pepper code) (\<lambda>code_hash.
     bind_res (checked_add_seconds now (5 * 60)) (\<lambda>expires_at.
     bind_res (with_fk (fk_local d (nac_account_id new_code) \<and> fk_application d (nac_application_id new_code))
       (tbl_insert oac_conflict
         \<lparr> oac_id = new_id, oac_code_hash = code_hash, oac_account_id = nac_account_id new_code,
           oac_application_id = nac_application_id new_code,
           oac_redirect_uri = nac_redirect_uri new_code, oac_scopes = nac_scopes new_code,
           oac_code_challenge = nac_code_challenge new_code,
           oac_code_challenge_method = nac_code_challenge_method new_code,
           oac_expires_at = expires_at, oac_consumed_at = None, oac_created_at = pg_now \<rparr>
         (t_oauth_authorization_code d))) (\<lambda>t.
     Inr (d\<lparr>t_oauth_authorization_code := t\<rparr>, code))))"

text \<open>
  Consuming a code is a \<open>SELECT\<close> of the unconsumed row followed by an \<open>UPDATE\<close> by
  primary key. The two statements are separate definitions, because another transaction can run
  between them.
\<close>

type_synonym code_grant = "uuid \<times> ustring \<times> ustring \<times> pkce_code_challenge_method"

definition find_unconsumed_code ::
  "db \<Rightarrow> string \<Rightarrow> uuid \<Rightarrow> ustring \<Rightarrow> oauth_authorization_code_row option" where
  "find_unconsumed_code d code_hash application_id redirect_uri =
     List.find (\<lambda>c. oac_code_hash c = code_hash \<and> oac_application_id c = application_id \<and>
                    oac_redirect_uri c = redirect_uri \<and> oac_consumed_at c = None)
       (t_oauth_authorization_code d)"

definition code_grant :: "oauth_authorization_code_row \<Rightarrow> code_grant" where
  "code_grant c =
     (oac_account_id c, oac_scopes c, oac_code_challenge c, oac_code_challenge_method c)"

text \<open>The active model sets one column; updating a row that is gone fails.\<close>

definition mark_code_consumed :: "instant \<Rightarrow> oauth_authorization_code_row \<Rightarrow> db \<Rightarrow> db result" where
  "mark_code_consumed now c d =
     (if list_ex (\<lambda>x. oac_id x = oac_id c) (t_oauth_authorization_code d)
      then Inr (d\<lparr>t_oauth_authorization_code :=
             tbl_update (\<lambda>x. oac_id x = oac_id c) (\<lambda>x. x\<lparr>oac_consumed_at := Some now\<rparr>)
               (t_oauth_authorization_code d)\<rparr>)
      else Inl (Database (RecordNotFound ''None of the records are updated'')))"

definition consume_authorization_code ::
  "crypto \<Rightarrow> instant \<Rightarrow> instant \<Rightarrow> string \<Rightarrow> string \<Rightarrow> uuid \<Rightarrow> ustring \<Rightarrow> db \<Rightarrow>
     (db \<times> code_grant option) result" where
  "consume_authorization_code cr now now' token_pepper code application_id redirect_uri d =
     bind_res (secret_hash cr token_pepper code) (\<lambda>code_hash.
       case find_unconsumed_code d code_hash application_id redirect_uri of
         None \<Rightarrow> Inr (d, None)
       | Some c \<Rightarrow>
           if oac_expires_at c \<le> now then Inr (d, None)
           else bind_res (mark_code_consumed now' c d) (\<lambda>d. Inr (d, Some (code_grant c))))"

subsection \<open>Access tokens\<close>

datatype oauth_token_type = Bearer

record oauth_access_token =
  tok_token :: string
  tok_token_type :: oauth_token_type
  tok_scope :: ustring
  tok_created_at :: int

definition unix_timestamp :: "instant \<Rightarrow> int" where
  "unix_timestamp t = t div 1000000"

definition create_access_token_for_subject ::
  "crypto \<Rightarrow> uuid \<Rightarrow> string \<Rightarrow> instant \<Rightarrow> string \<Rightarrow> uuid option \<Rightarrow> uuid \<Rightarrow> ustring \<Rightarrow> db \<Rightarrow>
     (db \<times> oauth_access_token) result" where
  "create_access_token_for_subject cr new_id token issued_at token_pepper account_id application_id scopes d =
     bind_res (secret_hash cr token_pepper token) (\<lambda>token_hash.
     bind_res (with_fk
         ((case account_id of None \<Rightarrow> True | Some a \<Rightarrow> fk_local d a) \<and> fk_application d application_id)
         (tbl_insert oat_conflict
           \<lparr> oat_id = new_id, oat_token_hash = token_hash, oat_account_id = account_id,
             oat_application_id = application_id, oat_scopes = scopes, oat_issued_at = issued_at,
             oat_expires_at = None, oat_revoked_at = None \<rparr> (t_oauth_access_token d))) (\<lambda>t.
     Inr (d\<lparr>t_oauth_access_token := t\<rparr>,
          \<lparr> tok_token = token, tok_token_type = Bearer, tok_scope = scopes,
            tok_created_at = unix_timestamp issued_at \<rparr>)))"

definition create_access_token ::
  "crypto \<Rightarrow> uuid \<Rightarrow> string \<Rightarrow> instant \<Rightarrow> string \<Rightarrow> uuid \<Rightarrow> uuid \<Rightarrow> ustring \<Rightarrow> db \<Rightarrow>
     (db \<times> oauth_access_token) result" where
  "create_access_token cr new_id token issued_at token_pepper account_id application_id scopes d =
     create_access_token_for_subject cr new_id token issued_at token_pepper (Some account_id)
       application_id scopes d"

definition create_application_access_token ::
  "crypto \<Rightarrow> uuid \<Rightarrow> string \<Rightarrow> instant \<Rightarrow> string \<Rightarrow> uuid \<Rightarrow> ustring \<Rightarrow> db \<Rightarrow>
     (db \<times> oauth_access_token) result" where
  "create_application_access_token cr new_id token issued_at token_pepper application_id scopes d =
     create_access_token_for_subject cr new_id token issued_at token_pepper None application_id scopes d"

definition find_active_token :: "instant \<Rightarrow> db \<Rightarrow> (oauth_access_token_row \<Rightarrow> bool) \<Rightarrow> string \<Rightarrow> oauth_access_token_row option" where
  "find_active_token now d extra token_hash =
     (case List.find (\<lambda>t. oat_token_hash t = token_hash \<and> extra t \<and> oat_revoked_at t = None)
             (t_oauth_access_token d) of
        None \<Rightarrow> None
      | Some t \<Rightarrow>
          if (case oat_expires_at t of None \<Rightarrow> False | Some e \<Rightarrow> e \<le> now) then None else Some t)"

definition find_unsuspended_account :: "db \<Rightarrow> uuid \<Rightarrow> local_account_row option" where
  "find_unsuspended_account d i =
     List.find (\<lambda>a. la_id a = i \<and> la_suspended_at a = None) (t_local_account d)"

definition find_account_by_access_token ::
  "crypto \<Rightarrow> instant \<Rightarrow> string \<Rightarrow> string \<Rightarrow> db \<Rightarrow> (local_account_row \<times> ustring) option result" where
  "find_account_by_access_token cr now token_pepper token d =
     bind_res (secret_hash cr token_pepper token) (\<lambda>token_hash.
       Inr (case find_active_token now d (\<lambda>_. True) token_hash of
              None \<Rightarrow> None
            | Some t \<Rightarrow>
                (case oat_account_id t of
                   None \<Rightarrow> None
                 | Some account_id \<Rightarrow>
                     map_option (\<lambda>a. (a, oat_scopes t)) (find_unsuspended_account d account_id))))"

record access_token_grant =
  atg_id :: uuid
  atg_account :: local_account_row
  atg_scopes :: ustring

definition find_access_token_grant ::
  "crypto \<Rightarrow> instant \<Rightarrow> string \<Rightarrow> string \<Rightarrow> db \<Rightarrow> access_token_grant option result" where
  "find_access_token_grant cr now token_pepper raw_token d =
     bind_res (secret_hash cr token_pepper raw_token) (\<lambda>token_hash.
       Inr (case find_active_token now d (\<lambda>_. True) token_hash of
              None \<Rightarrow> None
            | Some t \<Rightarrow>
                (case oat_account_id t of
                   None \<Rightarrow> None
                 | Some account_id \<Rightarrow>
                     (case find_unsuspended_account d account_id of
                        None \<Rightarrow> None
                      | Some a \<Rightarrow> Some \<lparr> atg_id = oat_id t, atg_account = a, atg_scopes = oat_scopes t \<rparr>))))"

record application_access_token_grant =
  aatg_id :: uuid
  aatg_application :: oauth_application
  aatg_scopes :: ustring

definition find_application_access_token_grant ::
  "crypto \<Rightarrow> instant \<Rightarrow> string \<Rightarrow> string \<Rightarrow> db \<Rightarrow> application_access_token_grant option result" where
  "find_application_access_token_grant cr now token_pepper raw_token d =
     bind_res (secret_hash cr token_pepper raw_token) (\<lambda>token_hash.
       Inr (case find_active_token now d (\<lambda>t. oat_account_id t = None) token_hash of
              None \<Rightarrow> None
            | Some t \<Rightarrow>
                (case List.find (\<lambda>a. oap_id a = oat_application_id t) (t_oauth_application d) of
                   None \<Rightarrow> None
                 | Some a \<Rightarrow>
                     Some \<lparr> aatg_id = oat_id t, aatg_application = oauth_application_from_model a,
                            aatg_scopes = oat_scopes t \<rparr>)))"

definition revoke_access_token ::
  "crypto \<Rightarrow> instant \<Rightarrow> string \<Rightarrow> string \<Rightarrow> db \<Rightarrow> db result" where
  "revoke_access_token cr now token_pepper token d =
     bind_res (secret_hash cr token_pepper token) (\<lambda>token_hash.
       Inr (case List.find (\<lambda>t. oat_token_hash t = token_hash) (t_oauth_access_token d) of
              None \<Rightarrow> d
            | Some t \<Rightarrow>
                d\<lparr>t_push_subscription :=
                     tbl_delete (\<lambda>s. ps_access_token_id s = oat_id t) (t_push_subscription d),
                  t_oauth_access_token :=
                     tbl_update (\<lambda>x. oat_id x = oat_id t) (\<lambda>x. x\<lparr>oat_revoked_at := Some now\<rparr>)
                       (t_oauth_access_token d)\<rparr>))"

subsection \<open>Push subscriptions\<close>

datatype push_subscription_encoding = EncLegacy | EncStandard

record push_alerts =
  al_mention :: bool
  al_favourite :: bool
  al_follow :: bool
  al_follow_request :: bool
  al_reblog :: bool
  al_status :: bool
  al_update :: bool
  al_quote :: bool
  al_quoted_update :: bool
  al_poll :: bool
  al_admin_report :: bool

primrec alerts_enabled :: "local_notification_type \<Rightarrow> push_alerts \<Rightarrow> bool" where
  "alerts_enabled NMention a = al_mention a"
| "alerts_enabled NFavourite a = al_favourite a"
| "alerts_enabled NFollow a = al_follow a"
| "alerts_enabled NFollowRequest a = al_follow_request a"
| "alerts_enabled NReblog a = al_reblog a"
| "alerts_enabled NStatus a = al_status a"
| "alerts_enabled NUpdate a = al_update a"
| "alerts_enabled NQuote a = al_quote a"
| "alerts_enabled NQuotedUpdate a = al_quoted_update a"
| "alerts_enabled NPoll a = al_poll a"
| "alerts_enabled NAdminReport a = al_admin_report a"

text \<open>
  The derived \<open>Serialize\<close> and \<open>Deserialize\<close> of \<open>PushAlerts\<close>: an object with
  one switch per notification type. A missing field is \<open>false\<close>, an unknown one is ignored
  and a value that is no boolean fails; an array is read by position.
\<close>

definition push_alerts_json :: "push_alerts \<Rightarrow> json" where
  "push_alerts_json a = JObj
     [(''mention'', JBool (al_mention a)), (''favourite'', JBool (al_favourite a)),
      (''follow'', JBool (al_follow a)), (''follow_request'', JBool (al_follow_request a)),
      (''reblog'', JBool (al_reblog a)), (''status'', JBool (al_status a)),
      (''update'', JBool (al_update a)), (''quote'', JBool (al_quote a)),
      (''quoted_update'', JBool (al_quoted_update a)), (''poll'', JBool (al_poll a)),
      (''admin.report'', JBool (al_admin_report a))]"

fun json_switch :: "json option \<Rightarrow> bool option" where
  "json_switch None = Some False"
| "json_switch (Some (JBool b)) = Some b"
| "json_switch (Some _) = None"

definition switch_at :: "json \<Rightarrow> string \<Rightarrow> nat \<Rightarrow> bool option" where
  "switch_at v name i =
     (case v of
        JObj members \<Rightarrow> json_switch (map_of members name)
      | JArr items \<Rightarrow>
          if 11 < length items then None
          else json_switch (if i < length items then Some (items ! i) else None)
      | _ \<Rightarrow> None)"

definition alerts_from_value :: "json \<Rightarrow> push_alerts option" where
  "alerts_from_value v =
     Option.bind (switch_at v ''mention'' 0) (\<lambda>mention.
     Option.bind (switch_at v ''favourite'' 1) (\<lambda>favourite.
     Option.bind (switch_at v ''follow'' 2) (\<lambda>follow.
     Option.bind (switch_at v ''follow_request'' 3) (\<lambda>follow_request.
     Option.bind (switch_at v ''reblog'' 4) (\<lambda>reblog.
     Option.bind (switch_at v ''status'' 5) (\<lambda>status.
     Option.bind (switch_at v ''update'' 6) (\<lambda>update.
     Option.bind (switch_at v ''quote'' 7) (\<lambda>quote.
     Option.bind (switch_at v ''quoted_update'' 8) (\<lambda>quoted_update.
     Option.bind (switch_at v ''poll'' 9) (\<lambda>poll.
     Option.bind (switch_at v ''admin.report'' 10) (\<lambda>admin_report.
     Some \<lparr> al_mention = mention, al_favourite = favourite, al_follow = follow,
            al_follow_request = follow_request, al_reblog = reblog, al_status = status,
            al_update = update, al_quote = quote, al_quoted_update = quoted_update,
            al_poll = poll, al_admin_report = admin_report \<rparr>)))))))))))"

record push_subscription =
  psb_id :: uuid
  psb_access_token_id :: uuid
  psb_account_id :: uuid
  psb_endpoint :: string
  psb_p256dh :: "nat list"
  psb_auth :: "nat list"
  psb_encoding :: push_subscription_encoding
  psb_policy :: push_policy
  psb_alerts :: push_alerts
  psb_access_token_ciphertext :: "nat list"
  psb_access_token_nonce :: "nat list"

text \<open>\<open>serde_error\<close> is the text of serde's error for a stored value.\<close>

definition push_subscription_from_model ::
  "(json \<Rightarrow> string) \<Rightarrow> push_subscription_row \<Rightarrow> push_subscription result" where
  "push_subscription_from_model serde_error s =
     (case alerts_from_value (ps_alerts s) of
        None \<Rightarrow> Inl (InvalidInput (''stored push alerts are invalid: '' @ serde_error (ps_alerts s)))
      | Some alerts \<Rightarrow>
          Inr \<lparr> psb_id = ps_id s, psb_access_token_id = ps_access_token_id s,
                psb_account_id = ps_account_id s, psb_endpoint = ps_endpoint s,
                psb_p256dh = ps_p256dh s, psb_auth = ps_auth s,
                psb_encoding = (if ps_standard s then EncStandard else EncLegacy),
                psb_policy = ps_policy s, psb_alerts = alerts,
                psb_access_token_ciphertext = ps_access_token_ciphertext s,
                psb_access_token_nonce = ps_access_token_nonce s \<rparr>)"

definition find_push_subscription :: "db \<Rightarrow> uuid \<Rightarrow> push_subscription_row option" where
  "find_push_subscription d access_token_id =
     List.find (\<lambda>s. ps_access_token_id s = access_token_id) (t_push_subscription d)"

definition push_subscription_for_access_token ::
  "(json \<Rightarrow> string) \<Rightarrow> db \<Rightarrow> uuid \<Rightarrow> push_subscription option result" where
  "push_subscription_for_access_token serde_error d access_token_id =
     (case find_push_subscription d access_token_id of
        None \<Rightarrow> Inr None
      | Some s \<Rightarrow> bind_res (push_subscription_from_model serde_error s) (\<lambda>p. Inr (Some p)))"

record new_push_subscription =
  nps_access_token_id :: uuid
  nps_account_id :: uuid
  nps_endpoint :: string
  nps_p256dh :: "nat list"
  nps_auth :: "nat list"
  nps_encoding :: push_subscription_encoding
  nps_policy :: push_policy
  nps_alerts :: push_alerts
  nps_access_token_ciphertext :: "nat list"
  nps_access_token_nonce :: "nat list"

definition push_row_checks :: "push_subscription_row \<Rightarrow> bool" where
  "push_row_checks s \<longleftrightarrow>
     length (ps_p256dh s) = 65 \<and> length (ps_auth s) = 16 \<and> length (ps_access_token_nonce s) = 12"

definition new_push_row :: "uuid \<Rightarrow> instant \<Rightarrow> new_push_subscription \<Rightarrow> push_subscription_row" where
  "new_push_row new_id now input =
     \<lparr> ps_id = new_id, ps_access_token_id = nps_access_token_id input,
       ps_account_id = nps_account_id input, ps_endpoint = nps_endpoint input,
       ps_p256dh = nps_p256dh input, ps_auth = nps_auth input,
       ps_standard = (nps_encoding input = EncStandard), ps_policy = nps_policy input,
       ps_alerts = push_alerts_json (nps_alerts input),
       ps_access_token_ciphertext = nps_access_token_ciphertext input,
       ps_access_token_nonce = nps_access_token_nonce input,
       ps_created_at = now, ps_updated_at = now \<rparr>"

definition merge_push_row :: "push_subscription_row \<Rightarrow> push_subscription_row \<Rightarrow> push_subscription_row" where
  "merge_push_row new old =
     old\<lparr>ps_account_id := ps_account_id new, ps_endpoint := ps_endpoint new,
         ps_p256dh := ps_p256dh new, ps_auth := ps_auth new, ps_standard := ps_standard new,
         ps_policy := ps_policy new, ps_alerts := ps_alerts new,
         ps_access_token_ciphertext := ps_access_token_ciphertext new,
         ps_access_token_nonce := ps_access_token_nonce new, ps_updated_at := ps_updated_at new\<rparr>"

definition fk_access_token :: "db \<Rightarrow> uuid \<Rightarrow> bool" where
  "fk_access_token d i \<longleftrightarrow> list_ex (\<lambda>t. oat_id t = i) (t_oauth_access_token d)"

definition upsert_push_subscription ::
  "(json \<Rightarrow> string) \<Rightarrow> uuid \<Rightarrow> instant \<Rightarrow> new_push_subscription \<Rightarrow> db \<Rightarrow>
     (db \<times> push_subscription) result" where
  "upsert_push_subscription serde_error new_id now input d =
     (let new = new_push_row new_id now input
      in if \<not> push_row_checks new then Inl (Database CheckViolation)
         else
           bind_res (with_fk
              (fk_access_token d (nps_access_token_id input) \<and> fk_local d (nps_account_id input))
              (tbl_upsert (\<lambda>a b. ps_access_token_id a = ps_access_token_id b) ps_conflict
                (merge_push_row new) new (t_push_subscription d))) (\<lambda>t.
           let d = d\<lparr>t_push_subscription := t\<rparr>
           in case find_push_subscription d (nps_access_token_id input) of
                None \<Rightarrow> Inl (InvalidInput ''push subscription disappeared after upsert'')
              | Some s \<Rightarrow>
                  bind_res (push_subscription_from_model serde_error s) (\<lambda>p. Inr (d, p))))"

definition update_push_subscription ::
  "(json \<Rightarrow> string) \<Rightarrow> instant \<Rightarrow> uuid \<Rightarrow> push_alerts \<Rightarrow> push_policy \<Rightarrow> db \<Rightarrow>
     (db \<times> push_subscription option) result" where
  "update_push_subscription serde_error now access_token_id alerts policy d =
     (case find_push_subscription d access_token_id of
        None \<Rightarrow> Inr (d, None)
      | Some s \<Rightarrow>
          let f = (\<lambda>x. x\<lparr>ps_alerts := push_alerts_json alerts, ps_policy := policy, ps_updated_at := now\<rparr>)
          in bind_res (push_subscription_from_model serde_error (f s)) (\<lambda>p.
             Inr (d\<lparr>t_push_subscription :=
                      tbl_update (\<lambda>x. ps_id x = ps_id s) f (t_push_subscription d)\<rparr>, Some p)))"

definition delete_push_subscription :: "uuid \<Rightarrow> db \<Rightarrow> db \<times> bool" where
  "delete_push_subscription access_token_id d =
     (d\<lparr>t_push_subscription :=
          tbl_delete (\<lambda>s. ps_access_token_id s = access_token_id) (t_push_subscription d)\<rparr>,
      0 < rows_affected (\<lambda>s. ps_access_token_id s = access_token_id) (t_push_subscription d))"

definition delete_push_subscription_by_id :: "uuid \<Rightarrow> db \<Rightarrow> db" where
  "delete_push_subscription_by_id i d =
     d\<lparr>t_push_subscription := tbl_delete (\<lambda>s. ps_id s = i) (t_push_subscription d)\<rparr>"

definition push_delivery ::
  "(json \<Rightarrow> string) \<Rightarrow> db \<Rightarrow> uuid \<Rightarrow> uuid \<Rightarrow>
     (local_notification_row \<times> push_subscription) option result" where
  "push_delivery serde_error d notification_id subscription_id =
     (case List.find (\<lambda>n. ln_id n = notification_id) (t_local_notification d) of
        None \<Rightarrow> Inr None
      | Some n \<Rightarrow>
          (case List.find (\<lambda>s. ps_id s = subscription_id \<and> ps_account_id s = ln_account_id n)
                  (t_push_subscription d) of
             None \<Rightarrow> Inr None
           | Some s \<Rightarrow>
               bind_res (push_subscription_from_model serde_error s) (\<lambda>p. Inr (Some (n, p)))))"

definition push_policy_allows :: "db \<Rightarrow> local_notification_row \<Rightarrow> push_policy \<Rightarrow> bool" where
  "push_policy_allows d n policy =
     (case policy of
        PushAll \<Rightarrow> True
      | PushNone \<Rightarrow> False
      | PushFollowed \<Rightarrow>
          (case (ln_actor_account_id n, ln_remote_actor_id n) of
             (Some actor, None) \<Rightarrow>
               find_local_follow d (ln_account_id n) actor \<noteq> None
           | (None, Some actor) \<Rightarrow>
               list_ex (\<lambda>r. rg_local_account_id r = ln_account_id n \<and> rg_remote_actor_id r = actor \<and>
                            rg_state r = Accepted \<and> rg_deactivated_at r = None)
                 (t_remote_following d)
           | _ \<Rightarrow> False)
      | PushFollower \<Rightarrow>
          (case (ln_actor_account_id n, ln_remote_actor_id n) of
             (Some actor, None) \<Rightarrow>
               find_local_follow d actor (ln_account_id n) \<noteq> None
           | (None, Some actor) \<Rightarrow> remote_actor_follows_local_account d actor (ln_account_id n)
           | _ \<Rightarrow> False))"

end
