(* ===== verification/Roosty_Auth.thy ===== *)
theory Roosty_Auth
  imports Roosty_Access
begin

text \<open>
  Sign-in and the OAuth endpoints (\<^verbatim>\<open>src/crates/server/src/auth.rs\<close>): signed session
  cookies, password login and change, application registration, authorization, the token
  endpoint with its two grants, and revocation.

  A handler maps the database to the new database and its answer. It opens one transaction per
  block of statements, and returning early drops an uncommitted transaction, so the database is
  then unchanged. The \<^verbatim>\<open>argon2\<close>, \<^verbatim>\<open>percent-encoding\<close>, \<^verbatim>\<open>url\<close> and
  \<^verbatim>\<open>uuid\<close> crates are arguments, collected in \<open>auth_env\<close>, as are drawn tokens and
  identifiers. Cookie headers are lists of characters codes like other user text.
\<close>

record auth_env =
  ae_crypto :: crypto
  ae_token_pepper :: string
  ae_session_secret :: string
  ae_verify_password :: "ustring \<Rightarrow> string \<Rightarrow> bool result"
  ae_hash_password :: "ustring \<Rightarrow> string result"
  ae_percent_decode :: "ustring \<Rightarrow> ustring option"
  ae_url_error :: "ustring \<Rightarrow> string option"
  ae_show_uuid :: "uuid \<Rightarrow> ustring"
  ae_parse_uuid :: "ustring \<Rightarrow> uuid option"

subsection \<open>Session cookies\<close>

definition session_cookie_name :: ustring where
  "session_cookie_name = utext ''roosty_session''"

definition sign :: "auth_env \<Rightarrow> ustring \<Rightarrow> ustring result" where
  "sign e payload =
     (case cr_hmac (ae_crypto e) (ae_session_secret e) (map char_of payload) of
        Inl err \<Rightarrow> Inl (InvalidInput err)
      | Inr h \<Rightarrow> Inr (utext h))"

fun show_digits :: "nat \<Rightarrow> ustring" where
  "show_digits n = (if n < 10 then [48 + n] else show_digits (n div 10) @ [48 + n mod 10])"

definition show_i64 :: "int \<Rightarrow> ustring" where
  "show_i64 x = (if x < 0 then 45 # show_digits (nat (- x)) else show_digits (nat x))"

text \<open>\<open>str::parse::<i64>\<close>: an optional sign, then digits, within the range.\<close>

definition is_digit :: "nat \<Rightarrow> bool" where
  "is_digit c \<longleftrightarrow> 48 \<le> c \<and> c \<le> 57"

definition digits_value :: "ustring \<Rightarrow> nat" where
  "digits_value s = foldl (\<lambda>acc c. acc * 10 + (c - 48)) 0 s"

definition parse_i64 :: "ustring \<Rightarrow> int option" where
  "parse_i64 s =
     (let (neg, ds) = (case s of [] \<Rightarrow> (False, []) | c # cs \<Rightarrow>
                         if c = 45 then (True, cs) else if c = 43 then (False, cs) else (False, s));
          v = (if neg then - int (digits_value ds) else int (digits_value ds))
      in if ds = [] \<or> \<not> list_all is_digit ds then None
         else if - i64_max - 1 \<le> v \<and> v \<le> i64_max then Some v else None)"

definition session_payload :: "auth_env \<Rightarrow> instant \<Rightarrow> uuid \<Rightarrow> ustring" where
  "session_payload e now account_id =
     ae_show_uuid e account_id @ [46] @ show_i64 (unix_timestamp (now + seconds (7 * 86400)))"

definition session_cookie :: "auth_env \<Rightarrow> instant \<Rightarrow> uuid \<Rightarrow> ustring result" where
  "session_cookie e now account_id =
     bind_res (checked_add_seconds now (7 * 86400)) (\<lambda>_.
     bind_res (sign e (session_payload e now account_id)) (\<lambda>signature.
       Inr (session_cookie_name @ utext ''='' @ session_payload e now account_id @ [46] @ signature @
            utext ''; Path=/; Max-Age=604800; HttpOnly; Secure; SameSite=Lax'')))"

definition parse_session_cookie :: "auth_env \<Rightarrow> instant \<Rightarrow> ustring \<Rightarrow> uuid option result" where
  "parse_session_cookie e now value =
     (case split_char 46 value of
        [p0, p1, p2] \<Rightarrow>
          bind_res (sign e (p0 @ [46] @ p1)) (\<lambda>signature.
            if signature \<noteq> p2 then Inr None
            else case parse_i64 p1 of
                   None \<Rightarrow> Inr None
                 | Some expires_at \<Rightarrow>
                     if expires_at \<le> unix_timestamp now then Inr None
                     else Inr (ae_parse_uuid e p0))
      | _ \<Rightarrow> Inr None)"

definition cookie_values :: "ustring \<Rightarrow> ustring list" where
  "cookie_values header =
     map snd (filter (\<lambda>x. fst x = session_cookie_name)
       (List.map_filter (\<lambda>part. split_once 61 (trim part)) (split_char 59 header)))"

definition account_id_from_session :: "auth_env \<Rightarrow> instant \<Rightarrow> ustring option \<Rightarrow> uuid option result" where
  "account_id_from_session e now cookie_header =
     (case cookie_header of
        None \<Rightarrow> Inr None
      | Some header \<Rightarrow>
          (case cookie_values header of
             [] \<Rightarrow> Inr None
           | value # _ \<Rightarrow> parse_session_cookie e now value))"

text \<open>The token administrator forms carry, derived from the session.\<close>

definition csrf_token_from_session :: "auth_env \<Rightarrow> instant \<Rightarrow> ustring option \<Rightarrow> ustring option result" where
  "csrf_token_from_session e now cookie_header =
     (case cookie_header of
        None \<Rightarrow> Inr None
      | Some header \<Rightarrow>
          (case cookie_values header of
             [] \<Rightarrow> Inr None
           | value # _ \<Rightarrow>
               bind_res (parse_session_cookie e now value) (\<lambda>account.
                 if account = None then Inr None
                 else bind_res (sign e (utext ''admin-csrf.'' @ value)) (\<lambda>t. Inr (Some t)))))"

definition validate_csrf_token :: "auth_env \<Rightarrow> instant \<Rightarrow> ustring option \<Rightarrow> ustring \<Rightarrow> bool result" where
  "validate_csrf_token e now cookie_header submitted =
     bind_res (csrf_token_from_session e now cookie_header) (\<lambda>t. Inr (t = Some submitted))"

subsection \<open>Answers\<close>

datatype password_change_result =
    PasswordChanged | ConfirmationMismatch | TooShort | CurrentPasswordIncorrect | ChangeFailed | VerificationFailed

datatype auth_response =
    OAuthError nat string string
  | ServerError roosty_error
  | RedirectLogin
  | LoggedIn ustring ustring
  | LoginRefused ustring
  | PasswordResult password_change_result
  | AppCreated oauth_application string
  | OutOfBand "string option"
  | Callback ustring "string option" "ustring option"
  | TokenIssued oauth_access_token
  | Revoked

definition server_error :: "db \<Rightarrow> roosty_error \<Rightarrow> db \<times> auth_response" where
  "server_error d e = (d, ServerError e)"

subsection \<open>Passwords\<close>

definition sanitize_next :: "ustring option \<Rightarrow> ustring" where
  "sanitize_next next' =
     (let n = (case next' of None \<Rightarrow> utext ''/'' | Some n \<Rightarrow> n)
      in if is_prefix (utext ''/'') n \<and> \<not> is_prefix (utext ''//'') n then n else utext ''/'')"

definition find_local_account_by_login :: "db \<Rightarrow> ustring \<Rightarrow> local_account_row option" where
  "find_local_account_by_login d login =
     List.find (\<lambda>a. la_username a = login \<or> la_email a = login) (t_local_account d)"

definition login :: "auth_env \<Rightarrow> instant \<Rightarrow> ustring \<Rightarrow> ustring \<Rightarrow> ustring option \<Rightarrow> db \<Rightarrow> auth_response" where
  "login e now login' password next' d =
     (let n = sanitize_next next'
      in case find_local_account_by_login d login' of
           None \<Rightarrow> LoginRefused n
         | Some account \<Rightarrow>
             if la_suspended_at account \<noteq> None then LoginRefused n
             else case ae_verify_password e password (la_password_hash account) of
                    Inl err \<Rightarrow> ServerError err
                  | Inr False \<Rightarrow> LoginRefused n
                  | Inr True \<Rightarrow>
                      (case session_cookie e now (la_id account) of
                         Inl err \<Rightarrow> ServerError err
                       | Inr cookie \<Rightarrow> LoggedIn cookie n))"

definition validated_password_hash ::
  "auth_env \<Rightarrow> string \<Rightarrow> ustring \<Rightarrow> ustring \<Rightarrow> ustring \<Rightarrow> password_change_result + string" where
  "validated_password_hash e current_hash current password confirmation =
     (if password \<noteq> confirmation then Inl ConfirmationMismatch
      else if length password < 8 then Inl TooShort
      else case ae_verify_password e current current_hash of
             Inr True \<Rightarrow> (case ae_hash_password e password of Inl _ \<Rightarrow> Inl ChangeFailed | Inr h \<Rightarrow> Inr h)
           | Inr False \<Rightarrow> Inl CurrentPasswordIncorrect
           | Inl _ \<Rightarrow> Inl VerificationFailed)"

definition update_local_account_password_hash_by_id ::
  "instant \<Rightarrow> uuid \<Rightarrow> string \<Rightarrow> db \<Rightarrow> db result" where
  "update_local_account_password_hash_by_id now account_id password_hash d =
     (if \<not> list_ex (\<lambda>a. la_id a = account_id) (t_local_account d)
      then Inl (InvalidInput ''local account does not exist'')
      else Inr (d\<lparr>t_local_account :=
             tbl_update (\<lambda>a. la_id a = account_id)
               (\<lambda>a. a\<lparr>la_password_hash := password_hash, la_updated_at := now\<rparr>) (t_local_account d)\<rparr>))"

definition change_password ::
  "auth_env \<Rightarrow> instant \<Rightarrow> ustring option \<Rightarrow> ustring \<Rightarrow> ustring \<Rightarrow> ustring \<Rightarrow> db \<Rightarrow> db \<times> auth_response" where
  "change_password e now cookie_header current password confirmation d =
     (case account_id_from_session e now cookie_header of
        Inl err \<Rightarrow> server_error d err
      | Inr None \<Rightarrow> (d, RedirectLogin)
      | Inr (Some account_id) \<Rightarrow>
          (case find_local_account_by_id d account_id of
             None \<Rightarrow> (d, RedirectLogin)
           | Some account \<Rightarrow>
               (case validated_password_hash e (la_password_hash account) current password confirmation of
                  Inl r \<Rightarrow> (d, PasswordResult r)
                | Inr h \<Rightarrow>
                    (case update_local_account_password_hash_by_id now account_id h d of
                       Inl err \<Rightarrow> server_error d err
                     | Inr d' \<Rightarrow> (d', PasswordResult PasswordChanged)))))"

subsection \<open>Applications\<close>

definition optional_non_empty :: "ustring option \<Rightarrow> ustring option" where
  "optional_non_empty v =
     (case v of None \<Rightarrow> None | Some s \<Rightarrow> if trim s = [] then None else Some (trim s))"

record create_app_form =
  caf_client_name :: ustring
  caf_redirect_uris :: ustring
  caf_scopes :: "ustring option"
  caf_website :: "ustring option"

definition register_app ::
  "auth_env \<Rightarrow> uuid \<Rightarrow> string \<Rightarrow> string \<Rightarrow> instant \<Rightarrow> create_app_form \<Rightarrow> db \<Rightarrow> db \<times> auth_response" where
  "register_app e new_id client_id client_secret pg_now form d =
     (if trim (caf_client_name form) = [] \<or> trim (caf_redirect_uris form) = []
      then (d, OAuthError 400 ''invalid_request'' ''missing client metadata'')
      else
        let scopes = (case caf_scopes form of None \<Rightarrow> utext ''read write follow push'' | Some s \<Rightarrow> s)
        in case create_oauth_application (ae_crypto e) new_id client_id client_secret pg_now
                  (caf_client_name form) (caf_redirect_uris form) scopes (caf_website form)
                  (ae_token_pepper e) d of
             Inl err \<Rightarrow> server_error d err
           | Inr (d', app, secret) \<Rightarrow> (d', AppCreated app secret))"

subsection \<open>Authorization\<close>

datatype oauth_response_type = ResponseCode | ResponseOther
datatype pkce_method = MethodS256 | MethodOther
datatype authorization_decision = Approve | Deny

record authorize_params =
  ap_response_type :: oauth_response_type
  ap_client_id :: string
  ap_redirect_uri :: ustring
  ap_scope :: "ustring option"
  ap_state :: "ustring option"
  ap_code_challenge :: "ustring option"
  ap_code_challenge_method :: "pkce_method option"

definition oob_redirect_uri :: ustring where
  "oob_redirect_uri = utext ''urn:ietf:wg:oauth:2.0:oob''"

definition matching_redirect_uri :: "auth_env \<Rightarrow> ustring \<Rightarrow> ustring \<Rightarrow> ustring option" where
  "matching_redirect_uri e registered requested =
     List.find (\<lambda>u. u = requested \<or> ae_percent_decode e u = Some requested)
       (map trim (str_lines registered))"

datatype authorize_request_error = InvalidRequest string | InvalidClient string

definition validate_authorize_request ::
  "auth_env \<Rightarrow> db \<Rightarrow> authorize_params \<Rightarrow> authorize_request_error + oauth_application \<times> ustring" where
  "validate_authorize_request e d params =
     (if ap_response_type params \<noteq> ResponseCode
      then Inl (InvalidRequest ''unsupported authorization request'')
      else if optional_non_empty (ap_code_challenge params) \<noteq> None \<and>
              (case ap_code_challenge_method params of None \<Rightarrow> MethodS256 | Some m \<Rightarrow> m) \<noteq> MethodS256
      then Inl (InvalidRequest ''PKCE S256 is required'')
      else case find_oauth_application_by_client_id d (ap_client_id params) of
             None \<Rightarrow> Inl (InvalidClient ''unknown client'')
           | Some app \<Rightarrow>
               (case matching_redirect_uri e (app_redirect_uri app) (ap_redirect_uri params) of
                  None \<Rightarrow> Inl (InvalidRequest ''redirect_uri mismatch'')
                | Some redirect_uri \<Rightarrow> Inr (app, redirect_uri)))"

definition authorize_error_response :: "authorize_request_error \<Rightarrow> auth_response" where
  "authorize_error_response err =
     (case err of
        InvalidRequest s \<Rightarrow> OAuthError 400 ''invalid_request'' s
      | InvalidClient s \<Rightarrow> OAuthError 400 ''invalid_client'' s)"

text \<open>\<open>None\<close> as the code is a denied authorization.\<close>

definition authorization_callback_redirect ::
  "auth_env \<Rightarrow> ustring \<Rightarrow> string option \<Rightarrow> ustring option \<Rightarrow> auth_response" where
  "authorization_callback_redirect e redirect_uri code state =
     (case ae_url_error e redirect_uri of
        Some err \<Rightarrow> ServerError (InvalidInput (''registered OAuth redirect URI is invalid: '' @ err))
      | None \<Rightarrow> Callback redirect_uri code state)"

definition authorize ::
  "auth_env \<Rightarrow> uuid \<Rightarrow> string \<Rightarrow> instant \<Rightarrow> instant \<Rightarrow> ustring option \<Rightarrow> authorize_params \<Rightarrow>
     authorization_decision \<Rightarrow> db \<Rightarrow> db \<times> auth_response" where
  "authorize e new_id fresh_code now pg_now cookie_header params decision d =
     (case account_id_from_session e now cookie_header of
        Inl err \<Rightarrow> server_error d err
      | Inr None \<Rightarrow> (d, RedirectLogin)
      | Inr (Some account_id) \<Rightarrow>
          if find_local_account_by_id d account_id = None then (d, RedirectLogin)
          else case validate_authorize_request e d params of
            Inl err \<Rightarrow> (d, authorize_error_response err)
          | Inr (app, redirect_uri) \<Rightarrow>
              if decision = Deny
              then (d, if redirect_uri = oob_redirect_uri then OutOfBand None
                       else authorization_callback_redirect e redirect_uri None (ap_state params))
              else
                let scope = (case ap_scope params of None \<Rightarrow> app_scopes app | Some s \<Rightarrow> s);
                    challenge = (case optional_non_empty (ap_code_challenge params) of None \<Rightarrow> [] | Some c \<Rightarrow> c);
                    method = (if challenge = [] then PkceNone else PkceS256)
                in case create_authorization_code (ae_crypto e) new_id fresh_code now pg_now (ae_token_pepper e)
                          \<lparr> nac_account_id = account_id, nac_application_id = app_id app,
                            nac_redirect_uri = redirect_uri, nac_scopes = scope,
                            nac_code_challenge = challenge, nac_code_challenge_method = method \<rparr> d of
                     Inl err \<Rightarrow> server_error d err
                   | Inr (d', code) \<Rightarrow>
                       (d', if redirect_uri = oob_redirect_uri then OutOfBand (Some code)
                            else authorization_callback_redirect e redirect_uri (Some code) (ap_state params)))"

subsection \<open>Tokens\<close>

datatype oauth_grant_type = GrantAuthorizationCode | GrantClientCredentials | GrantOther

record token_form =
  tf_grant_type :: oauth_grant_type
  tf_code :: "string option"
  tf_client_id :: string
  tf_client_secret :: "string option"
  tf_redirect_uri :: "ustring option"
  tf_code_verifier :: "ustring option"
  tf_scope :: "ustring option"

definition scope_covers :: "ustring \<Rightarrow> ustring \<Rightarrow> bool" where
  "scope_covers granted requested \<longleftrightarrow>
     granted = requested \<or>
     (granted = utext ''read'' \<or> granted = utext ''write'') \<and>
     (case strip_prefix granted requested of None \<Rightarrow> False | Some suffix \<Rightarrow> is_prefix (utext '':'') suffix)"

definition client_credentials_scopes :: "ustring option \<Rightarrow> ustring \<Rightarrow> string + ustring" where
  "client_credentials_scopes requested registered =
     (let requested = split_whitespace (case requested of None \<Rightarrow> utext ''read'' | Some s \<Rightarrow> s)
      in if requested = [] then Inl ''scope must not be empty''
         else
           let registered = split_whitespace registered
           in if list_ex (\<lambda>r. \<not> list_ex (\<lambda>s. scope_covers s r) registered) requested
              then Inl ''requested scope exceeds the application's registered scopes''
              else Inr (join (utext '' '') requested))"

definition pkce_rejected :: "crypto \<Rightarrow> ustring \<Rightarrow> pkce_code_challenge_method \<Rightarrow> ustring option \<Rightarrow> bool" where
  "pkce_rejected cr challenge method verifier \<longleftrightarrow>
     challenge \<noteq> [] \<and>
     (method \<noteq> PkceS256 \<or>
      (case verifier of None \<Rightarrow> True | Some v \<Rightarrow> pkce_s256_challenge cr v \<noteq> challenge))"

text \<open>What one request draws: an identifier, a token and two clock readings.\<close>

record token_draws =
  td_id :: uuid
  td_token :: string
  td_now :: instant
  td_consumed_now :: instant
  td_issued_now :: instant

text \<open>
  The end of the code exchange: a wrong verifier leaves the code consumed, a failure to insert the
  token rolls everything back.
\<close>

definition issue_code_token ::
  "auth_env \<Rightarrow> token_draws \<Rightarrow> oauth_application \<Rightarrow> token_form \<Rightarrow> code_grant \<Rightarrow> db \<Rightarrow> db \<Rightarrow> db \<times> auth_response" where
  "issue_code_token e w app form grant before d =
     (case grant of (account_id, scopes, challenge, method) \<Rightarrow>
        if pkce_rejected (ae_crypto e) challenge method (tf_code_verifier form)
        then (d, OAuthError 400 ''invalid_grant'' ''invalid PKCE verifier'')
        else case create_access_token (ae_crypto e) (td_id w) (td_token w) (td_issued_now w)
                    (ae_token_pepper e) account_id (app_id app) scopes d of
               Inl err \<Rightarrow> server_error before err
             | Inr (d', token) \<Rightarrow> (d', TokenIssued token))"

definition authorization_code_grant ::
  "auth_env \<Rightarrow> token_draws \<Rightarrow> oauth_application \<Rightarrow> token_form \<Rightarrow> db \<Rightarrow> db \<times> auth_response" where
  "authorization_code_grant e w app form d =
     (case tf_code form of
        None \<Rightarrow> (d, OAuthError 400 ''invalid_request'' ''code is required'')
      | Some code \<Rightarrow>
          (case tf_redirect_uri form of
             None \<Rightarrow> (d, OAuthError 400 ''invalid_request'' ''redirect_uri is required'')
           | Some requested \<Rightarrow>
               (case matching_redirect_uri e (app_redirect_uri app) requested of
                  None \<Rightarrow> (d, OAuthError 400 ''invalid_grant'' ''redirect_uri mismatch'')
                | Some redirect_uri \<Rightarrow>
                    (case consume_authorization_code (ae_crypto e) (td_now w) (td_consumed_now w)
                            (ae_token_pepper e) code (app_id app) redirect_uri d of
                       Inl err \<Rightarrow> server_error d err
                     | Inr (_, None) \<Rightarrow> (d, OAuthError 400 ''invalid_grant'' ''invalid authorization code'')
                     | Inr (d', Some grant) \<Rightarrow> issue_code_token e w app form grant d d'))))"

definition client_credentials_grant ::
  "auth_env \<Rightarrow> token_draws \<Rightarrow> oauth_application \<Rightarrow> token_form \<Rightarrow> db \<Rightarrow> db \<times> auth_response" where
  "client_credentials_grant e w app form d =
     (case client_credentials_scopes (tf_scope form) (app_scopes app) of
        Inl description \<Rightarrow> (d, OAuthError 400 ''invalid_scope'' description)
      | Inr scopes \<Rightarrow>
          (case create_application_access_token (ae_crypto e) (td_id w) (td_token w) (td_issued_now w)
                  (ae_token_pepper e) (app_id app) scopes d of
             Inl err \<Rightarrow> server_error d err
           | Inr (d', token) \<Rightarrow> (d', TokenIssued token)))"

definition token :: "auth_env \<Rightarrow> token_draws \<Rightarrow> token_form \<Rightarrow> db \<Rightarrow> db \<times> auth_response" where
  "token e w form d =
     (case find_oauth_application_by_client_id d (tf_client_id form) of
        None \<Rightarrow> (d, OAuthError 400 ''invalid_client'' ''unknown client'')
      | Some app \<Rightarrow>
          (case (case tf_client_secret form of
                   Some secret \<Rightarrow>
                     (case secret_hash (ae_crypto e) (ae_token_pepper e) secret of
                        Inl err \<Rightarrow> Some (ServerError err)
                      | Inr h \<Rightarrow>
                          if h \<noteq> app_client_secret_hash app
                          then Some (OAuthError 401 ''invalid_client'' ''invalid client secret'') else None)
                 | None \<Rightarrow>
                     if tf_grant_type form = GrantClientCredentials
                     then Some (OAuthError 401 ''invalid_client'' ''client_secret is required'') else None) of
             Some refusal \<Rightarrow> (d, refusal)
           | None \<Rightarrow>
               (case tf_grant_type form of
                  GrantClientCredentials \<Rightarrow> client_credentials_grant e w app form d
                | GrantAuthorizationCode \<Rightarrow> authorization_code_grant e w app form d
                | GrantOther \<Rightarrow> (d, OAuthError 400 ''unsupported_grant_type'' ''unsupported grant_type''))))"

definition revoke :: "auth_env \<Rightarrow> instant \<Rightarrow> string \<Rightarrow> db \<Rightarrow> db \<times> auth_response" where
  "revoke e now token' d =
     (case revoke_access_token (ae_crypto e) now (ae_token_pepper e) token' d of
        Inl err \<Rightarrow> server_error d err
      | Inr d' \<Rightarrow> (d', Revoked))"

end
