(* ===== verification/Roosty_Registration.thy ===== *)
theory Roosty_Registration
  imports Roosty_Access Roosty_Net "HOL-Library.List_Lexorder"
begin

text \<open>
  Account creation: inserting local accounts (\<^verbatim>\<open>src/crates/db/src/lib.rs\<close>, lines
  750-890), the registration rate limit (lines 20400-20540) and the public registration
  endpoint (\<^verbatim>\<open>src/crates/server/src/registration.rs\<close> and
  \<^verbatim>\<open>account_validation.rs\<close>).

  The rate limit check holds an advisory lock on the client key until its transaction commits,
  so two checks for one client never interleave, and one check is one step of the model. Instants
  are bounded: leaving the range of the \<^verbatim>\<open>time\<close> crate panics.
\<close>

subsection \<open>Accounts\<close>

definition ensure_local_account_available :: "db \<Rightarrow> ustring \<Rightarrow> ustring \<Rightarrow> unit result" where
  "ensure_local_account_available d username email =
     (if list_ex (\<lambda>a. la_username a = username) (t_local_account d)
      then Inl (InvalidInput ''username is already in use'')
      else if list_ex (\<lambda>a. la_email a = email) (t_local_account d)
      then Inl (InvalidInput ''email is already in use'')
      else Inr ())"

text \<open>The columns the insert leaves out take the defaults of the migrations.\<close>

definition new_account_row ::
  "uuid \<Rightarrow> instant \<Rightarrow> ustring \<Rightarrow> ustring \<Rightarrow> string \<Rightarrow> bool \<Rightarrow> local_account_row" where
  "new_account_row new_id pg_now username email password_hash is_admin =
     \<lparr> la_id = new_id, la_username = username, la_email = email, la_password_hash = password_hash,
       la_is_admin = is_admin, la_display_name = [], la_note = [], la_locked = False, la_bot = False,
       la_discoverable = True, la_indexable = False, la_default_visibility = Public,
       la_default_sensitive = False, la_default_language = Some ''en'',
       la_default_quote_policy = QuoteFollowers, la_profile_fields = JArr [],
       la_avatar_file_path = None, la_header_file_path = None, la_limited_at = None,
       la_suspended_at = None, la_data_purged_at = None, la_last_status_at = None,
       la_created_at = pg_now, la_updated_at = pg_now \<rparr>"

definition default_notification_policy :: "uuid \<Rightarrow> instant \<Rightarrow> local_notification_policy_row" where
  "default_notification_policy account_id now =
     \<lparr> lnp_account_id = account_id, lnp_for_not_following = PolicyAccept,
       lnp_for_not_followers = PolicyAccept, lnp_for_new_accounts = PolicyAccept,
       lnp_for_private_mentions = PolicyFilter, lnp_for_limited_accounts = PolicyFilter,
       lnp_updated_at = now \<rparr>"

definition insert_local_account ::
  "uuid \<Rightarrow> instant \<Rightarrow> instant \<Rightarrow> ustring \<Rightarrow> ustring \<Rightarrow> string \<Rightarrow> bool \<Rightarrow> db \<Rightarrow> (db \<times> uuid) result" where
  "insert_local_account new_id now pg_now username email password_hash is_admin d =
     bind_res (ensure_local_account_available d username email) (\<lambda>_.
       let (t, inserted) = tbl_insert_nothing la_conflict
             (new_account_row new_id pg_now username email password_hash is_admin) (t_local_account d)
       in if \<not> inserted
          then bind_res (ensure_local_account_available d username email)
                 (\<lambda>_. Inl (InvalidInput ''account is already in use''))
          else
            let d = d\<lparr>t_local_account := t\<rparr>
            in bind_res (with_fk (fk_local d new_id)
                   (tbl_insert lnp_conflict (default_notification_policy new_id now)
                     (t_local_notification_policy d)))
                 (\<lambda>t. Inr (d\<lparr>t_local_notification_policy := t\<rparr>, new_id)))"

definition create_local_account_in_transaction ::
  "uuid \<Rightarrow> instant \<Rightarrow> instant \<Rightarrow> ustring \<Rightarrow> ustring \<Rightarrow> string \<Rightarrow> db \<Rightarrow> (db \<times> uuid) result" where
  "create_local_account_in_transaction new_id now pg_now username email password_hash d =
     insert_local_account new_id now pg_now username email password_hash False d"

definition create_admin_account_in_transaction ::
  "uuid \<Rightarrow> instant \<Rightarrow> instant \<Rightarrow> ustring \<Rightarrow> ustring \<Rightarrow> string \<Rightarrow> db \<Rightarrow> (db \<times> uuid) result" where
  "create_admin_account_in_transaction new_id now pg_now username email password_hash d =
     insert_local_account new_id now pg_now username email password_hash True d"

definition create_bootstrap_admin ::
  "uuid \<Rightarrow> instant \<Rightarrow> instant \<Rightarrow> ustring \<Rightarrow> ustring \<Rightarrow> string \<Rightarrow> db \<Rightarrow> (db \<times> uuid) result" where
  "create_bootstrap_admin new_id now pg_now username email password_hash d =
     (if length (t_local_account d) \<noteq> 0
      then Inl (InvalidInput ''bootstrap is only allowed before local accounts exist'')
      else insert_local_account new_id now pg_now username email password_hash True d)"

subsection \<open>The rate limit\<close>

datatype registration_rate_limit_policy = Burst | Daily

record registration_rate_limit_result =
  rrl_allowed :: bool
  rrl_policy :: registration_rate_limit_policy
  rrl_limit :: nat
  rrl_remaining :: nat
  rrl_reset_at :: instant

record registration_rate_limit_settings =
  rrs_burst_limit :: nat
  rrs_burst_window :: int
  rrs_daily_limit :: nat
  rrs_daily_window :: int

definition min_instant :: instant where
  "min_instant = - 377705116800000000"

definition checked_instant :: "instant \<Rightarrow> instant result" where
  "checked_instant t =
     (if min_instant \<le> t \<and> t \<le> max_instant then Inr t
      else Inl (Panic ''resulting value is out of range''))"

text \<open>Subtraction on \<open>u64\<close>, which wraps in release builds.\<close>

definition u64_sub :: "nat \<Rightarrow> nat \<Rightarrow> nat" where
  "u64_sub a b = nat ((int a - int b) mod 18446744073709551616)"

definition rate_limit_client_id :: "crypto \<Rightarrow> string \<Rightarrow> string \<Rightarrow> string result" where
  "rate_limit_client_id cr token_pepper client_group =
     secret_hash cr token_pepper (''registration-rate-limit'' @ [char_of (0 :: nat)] @ client_group)"

definition cleanup_attempts :: "instant \<Rightarrow> registration_attempt_row list \<Rightarrow> registration_attempt_row list" where
  "cleanup_attempts cutoff t =
     (let ids = map rat_id (take 100 (tbl_order (\<lambda>r. (rat_attempted_at r, rat_id r))
                  (filter (\<lambda>r. rat_attempted_at r \<le> cutoff) t)))
      in tbl_delete (\<lambda>r. rat_id r \<in> set ids) t)"

definition client_attempts :: "string \<Rightarrow> instant \<Rightarrow> registration_attempt_row list \<Rightarrow> instant list" where
  "client_attempts client_id cutoff t =
     map rat_attempted_at (tbl_order rat_attempted_at
       (filter (\<lambda>r. rat_client_id r = client_id \<and> cutoff < rat_attempted_at r) t))"

text \<open>The decision of the check, given the attempts of the last day and the two reset times.\<close>

definition rate_limited ::
  "registration_rate_limit_settings \<Rightarrow> nat \<Rightarrow> nat \<Rightarrow> instant \<Rightarrow> instant \<Rightarrow> registration_rate_limit_result" where
  "rate_limited s burst_attempts daily_attempts burst_reset daily_reset =
     (let burst_blocked = (rrs_burst_limit s \<le> burst_attempts);
          daily_blocked = (rrs_daily_limit s \<le> daily_attempts)
      in if daily_blocked \<and> (\<not> burst_blocked \<or> burst_reset \<le> daily_reset)
         then \<lparr> rrl_allowed = False, rrl_policy = Daily, rrl_limit = rrs_daily_limit s,
                rrl_remaining = 0, rrl_reset_at = daily_reset \<rparr>
         else \<lparr> rrl_allowed = False, rrl_policy = Burst, rrl_limit = rrs_burst_limit s,
                rrl_remaining = 0, rrl_reset_at = burst_reset \<rparr>)"

definition rate_allowed ::
  "registration_rate_limit_settings \<Rightarrow> nat \<Rightarrow> nat \<Rightarrow> instant \<Rightarrow> instant \<Rightarrow> registration_rate_limit_result" where
  "rate_allowed s burst_attempts daily_attempts burst_reset daily_reset =
     (let burst_remaining = u64_sub (u64_sub (rrs_burst_limit s) burst_attempts) 1;
          daily_remaining = u64_sub (u64_sub (rrs_daily_limit s) daily_attempts) 1
      in if daily_remaining < burst_remaining
         then \<lparr> rrl_allowed = True, rrl_policy = Daily, rrl_limit = rrs_daily_limit s,
                rrl_remaining = daily_remaining, rrl_reset_at = daily_reset \<rparr>
         else \<lparr> rrl_allowed = True, rrl_policy = Burst, rrl_limit = rrs_burst_limit s,
                rrl_remaining = burst_remaining, rrl_reset_at = burst_reset \<rparr>)"

definition rate_decision ::
  "uuid \<Rightarrow> string \<Rightarrow> instant \<Rightarrow> registration_rate_limit_settings \<Rightarrow> nat \<Rightarrow> nat \<Rightarrow> instant \<Rightarrow> instant \<Rightarrow>
     registration_attempt_row list \<Rightarrow> db \<Rightarrow> (db \<times> registration_rate_limit_result) result" where
  "rate_decision new_id client_id now s burst_attempts daily_attempts burst_reset daily_reset t d =
     (if rrs_burst_limit s \<le> burst_attempts \<or> rrs_daily_limit s \<le> daily_attempts
      then Inr (d\<lparr>t_registration_attempt := t\<rparr>,
                rate_limited s burst_attempts daily_attempts burst_reset daily_reset)
      else
        bind_res (db_result (tbl_insert rat_conflict
           \<lparr> rat_id = new_id, rat_client_id = client_id, rat_attempted_at = now \<rparr> t)) (\<lambda>t.
        Inr (d\<lparr>t_registration_attempt := t\<rparr>,
             rate_allowed s burst_attempts daily_attempts burst_reset daily_reset)))"

definition check_registration_rate_limit ::
  "crypto \<Rightarrow> uuid \<Rightarrow> string \<Rightarrow> string \<Rightarrow> instant \<Rightarrow> registration_rate_limit_settings \<Rightarrow> db \<Rightarrow>
     (db \<times> registration_rate_limit_result) result" where
  "check_registration_rate_limit cr new_id token_pepper client_group now s d =
     bind_res (rate_limit_client_id cr token_pepper client_group) (\<lambda>client_id.
     bind_res (checked_instant (now - rrs_daily_window s)) (\<lambda>daily_cutoff.
     let t = cleanup_attempts daily_cutoff (t_registration_attempt d);
         attempts = client_attempts client_id daily_cutoff t
     in
     bind_res (if attempts = [] then Inr now else checked_instant (now - rrs_burst_window s)) (\<lambda>burst_cutoff.
     let burst = filter (\<lambda>a. burst_cutoff < a) attempts
     in
     bind_res (checked_instant (now + rrs_burst_window s)) (\<lambda>burst_default.
     bind_res (case burst of [] \<Rightarrow> Inr burst_default | a # _ \<Rightarrow> checked_instant (a + rrs_burst_window s)) (\<lambda>burst_reset.
     bind_res (checked_instant (now + rrs_daily_window s)) (\<lambda>daily_default.
     bind_res (case attempts of [] \<Rightarrow> Inr daily_default | a # _ \<Rightarrow> checked_instant (a + rrs_daily_window s)) (\<lambda>daily_reset.
     rate_decision new_id client_id now s (length burst) (length attempts) burst_reset daily_reset t d)))))))"

subsection \<open>Input validation\<close>

definition account_username :: "ustring \<Rightarrow> string + unit" where
  "account_username username =
     (if str_len username < 2 \<or> 30 < str_len username \<or>
         \<not> list_all (\<lambda>c. is_ascii_alphanumeric c \<or> c = 95) username
      then Inl ''must be 2-30 ASCII letters, numbers, or underscores''
      else Inr ())"

definition account_email :: "ustring \<Rightarrow> string + unit" where
  "account_email email =
     (if 64 \<notin> set email \<or> trim email \<noteq> email
      then Inl ''must contain @ and must not contain surrounding whitespace''
      else Inr ())"

record registration_request =
  rq_username :: ustring
  rq_email :: ustring
  rq_password :: ustring
  rq_agreement :: bool
  rq_locale :: ustring

type_synonym field_error = "string \<times> string"

text \<open>\<open>ValidationDetails\<close> is a sorted map from fields to their errors.\<close>

type_synonym validation_details = "(string \<times> field_error list) list"

fun field_error :: "validation_details \<Rightarrow> string \<Rightarrow> string \<Rightarrow> string \<Rightarrow> validation_details" where
  "field_error [] field error description = [(field, [(error, description)])]"
| "field_error ((f, es) # details) field error description =
     (if f = field then (f, es @ [(error, description)]) # details
      else if utext field < utext f then (field, [(error, description)]) # (f, es) # details
      else (f, es) # field_error details field error description)"

definition validate_registration :: "registration_request \<Rightarrow> validation_details" where
  "validate_registration r =
     (let details = [];
          details =
            (if rq_username r = [] then field_error details ''username'' ''ERR_BLANK'' ''can't be blank''
             else case account_username (rq_username r) of
                    Inl reason \<Rightarrow> field_error details ''username'' ''ERR_INVALID'' reason
                  | Inr _ \<Rightarrow> details);
          details =
            (if rq_email r = [] then field_error details ''email'' ''ERR_BLANK'' ''can't be blank''
             else case account_email (rq_email r) of
                    Inl reason \<Rightarrow> field_error details ''email'' ''ERR_INVALID'' reason
                  | Inr _ \<Rightarrow> details);
          details =
            (if rq_password r = [] then field_error details ''password'' ''ERR_BLANK'' ''can't be blank''
             else if length (rq_password r) < 8
             then field_error details ''password'' ''ERR_TOO_SHORT'' ''must be at least 8 characters''
             else details);
          details =
            (if \<not> rq_agreement r then field_error details ''agreement'' ''ERR_ACCEPTED'' ''must be accepted''
             else details)
      in if trim (rq_locale r) = [] then field_error details ''locale'' ''ERR_BLANK'' ''can't be blank''
         else details)"

definition taken_details :: "string \<Rightarrow> validation_details" where
  "taken_details reason =
     field_error [] (if contains_sub (utext ''email'') (utext reason) then ''email'' else ''username'')
       ''ERR_TAKEN'' ''has already been taken''"

subsection \<open>The registration endpoint\<close>

datatype registration_mode = RegClosed | RegOpen | RegApproval

datatype registration_error =
    RegInvalidToken
  | RegistrationsClosed
  | RegInsufficientScope
  | RateLimited registration_rate_limit_result
  | RegValidation validation_details
  | RegInternal roosty_error

definition reg_result :: "'a result \<Rightarrow> registration_error + 'a" where
  "reg_result r = (case r of Inl e \<Rightarrow> Inl (RegInternal e) | Inr x \<Rightarrow> Inr x)"

definition write_accounts_scope :: "ustring \<Rightarrow> bool" where
  "write_accounts_scope scope \<longleftrightarrow> scope = utext ''write'' \<or> scope = utext ''write:accounts''"

record registration_config =
  rc_crypto :: crypto
  rc_token_pepper :: string
  rc_mode :: registration_mode
  rc_limits :: registration_rate_limit_settings
  rc_hash_password :: "ustring \<Rightarrow> string result"

text \<open>
  The identifiers, tokens and clock readings one request draws. The readings of the process
  clock are one instant.
\<close>

record registration_draws =
  rd_attempt_id :: uuid
  rd_account_id :: uuid
  rd_token_id :: uuid
  rd_token :: string
  rd_now :: instant
  rd_pg_now :: instant

text \<open>
  The request: a read of the application's token, the rate limit in a transaction of its own,
  then the account and its first token in one transaction. A failed transaction leaves the
  database as it was before it, and a refused attempt still counts, because the second
  transaction is committed first.
\<close>

definition create_registered_account ::
  "registration_config \<Rightarrow> registration_draws \<Rightarrow> oauth_application \<Rightarrow> registration_request \<Rightarrow> db \<Rightarrow>
     registration_error + db \<times> oauth_access_token" where
  "create_registered_account cfg w app r d =
     bind_res (reg_result (rc_hash_password cfg (rq_password r))) (\<lambda>password_hash.
       case create_local_account_in_transaction (rd_account_id w) (rd_now w) (rd_pg_now w)
              (rq_username r) (rq_email r) password_hash d of
         Inl (InvalidInput reason) \<Rightarrow> Inl (RegValidation (taken_details reason))
       | Inl e \<Rightarrow> Inl (RegInternal e)
       | Inr (d, account_id) \<Rightarrow>
           reg_result (create_access_token (rc_crypto cfg) (rd_token_id w) (rd_token w) (rd_now w)
             (rc_token_pepper cfg) account_id (app_id app) (app_scopes app) d))"

definition register_account ::
  "registration_config \<Rightarrow> registration_draws \<Rightarrow> string \<Rightarrow> string option \<Rightarrow> registration_request \<Rightarrow> db \<Rightarrow>
     db \<times> (registration_error + oauth_access_token)" where
  "register_account cfg w client_group bearer r d =
     (case bearer of
        None \<Rightarrow> (d, Inl RegInvalidToken)
      | Some raw_token \<Rightarrow>
          (case find_application_access_token_grant (rc_crypto cfg) (rd_now w) (rc_token_pepper cfg) raw_token d of
             Inl e \<Rightarrow> (d, Inl (RegInternal e))
           | Inr None \<Rightarrow> (d, Inl RegInvalidToken)
           | Inr (Some grant) \<Rightarrow>
               if \<not> list_ex write_accounts_scope (split_whitespace (aatg_scopes grant))
               then (d, Inl RegInsufficientScope)
               else if rc_mode cfg \<noteq> RegOpen then (d, Inl RegistrationsClosed)
               else (case check_registration_rate_limit (rc_crypto cfg) (rd_attempt_id w) (rc_token_pepper cfg)
                            client_group (rd_now w) (rc_limits cfg) d of
                       Inl e \<Rightarrow> (d, Inl (RegInternal e))
                     | Inr (d, result) \<Rightarrow>
                         if \<not> rrl_allowed result then (d, Inl (RateLimited result))
                         else
                           let details = validate_registration r
                           in if details \<noteq> [] then (d, Inl (RegValidation details))
                              else (case create_registered_account cfg w (aatg_application grant) r d of
                                      Inl e \<Rightarrow> (d, Inl e)
                                    | Inr (d, token) \<Rightarrow> (d, Inr token)))))"

end
