(* ===== verification/Roosty_Registration_Properties.thy ===== *)
theory Roosty_Registration_Properties
  imports Roosty_Registration
begin

text \<open>
  The registration rate limit as a step relation with a log of the attempts it allowed, the
  invariant that no client exceeds its limits in any window, and what a successful registration
  leaves behind.
\<close>

subsection \<open>Allowed attempts over time\<close>

record rate_state =
  rts_db :: db
  rts_clock :: instant
  rts_log :: "(string \<times> instant) list"

inductive rate_step :: "crypto \<Rightarrow> string \<Rightarrow> registration_rate_limit_settings \<Rightarrow> rate_state \<Rightarrow> rate_state \<Rightarrow> bool"
  for cr token_pepper cfg where
  attempt: "rate_step cr token_pepper cfg s
      \<lparr> rts_db = d, rts_clock = now,
        rts_log = (if rrl_allowed result then [(client_id, now)] else []) @ rts_log s \<rparr>"
  if "rts_clock s \<le> now"
    and "rate_limit_client_id cr token_pepper client_group = Inr client_id"
    and "check_registration_rate_limit cr new_id token_pepper client_group now cfg (rts_db s) = Inr (d, result)"
| elsewhere: "rate_step cr token_pepper cfg s (s\<lparr>rts_db := d\<rparr>)"
  if "t_registration_attempt d = t_registration_attempt (rts_db s)"

inductive_cases rate_stepE: "rate_step cr token_pepper cfg s t"

definition rate_init :: "rate_state \<Rightarrow> bool" where
  "rate_init s \<longleftrightarrow> t_registration_attempt (rts_db s) = [] \<and> rts_log s = []"

definition logged_after :: "string \<Rightarrow> instant \<Rightarrow> (string \<times> instant) list \<Rightarrow> nat" where
  "logged_after c k attempts = length (filter (\<lambda>x. fst x = c \<and> k < snd x) attempts)"

definition logged_within :: "string \<Rightarrow> int \<Rightarrow> instant \<Rightarrow> (string \<times> instant) list \<Rightarrow> nat" where
  "logged_within c w t attempts = length (filter (\<lambda>x. fst x = c \<and> t - w < snd x \<and> snd x \<le> t) attempts)"

definition stored_after :: "string \<Rightarrow> instant \<Rightarrow> registration_attempt_row list \<Rightarrow> nat" where
  "stored_after c k t = length (filter (\<lambda>r. rat_client_id r = c \<and> k < rat_attempted_at r) t)"

definition window_ok :: "int \<Rightarrow> nat \<Rightarrow> (string \<times> instant) list \<Rightarrow> bool" where
  "window_ok w limit attempts \<longleftrightarrow> (\<forall>c t. logged_within c w t attempts \<le> limit)"

definition rate_inv :: "registration_rate_limit_settings \<Rightarrow> rate_state \<Rightarrow> bool" where
  "rate_inv cfg s \<longleftrightarrow>
     tbl_ok rat_conflict (t_registration_attempt (rts_db s)) \<and>
     (\<forall>c k. rts_clock s - rrs_daily_window cfg \<le> k \<longrightarrow>
        logged_after c k (rts_log s) \<le> stored_after c k (t_registration_attempt (rts_db s))) \<and>
     window_ok (rrs_burst_window cfg) (rrs_burst_limit cfg) (rts_log s) \<and>
     window_ok (rrs_daily_window cfg) (rrs_daily_limit cfg) (rts_log s)"

lemma length_filter_mono:
  "(\<And>x. x \<in> set xs \<Longrightarrow> p x \<Longrightarrow> q x) \<Longrightarrow> length (filter p xs) \<le> length (filter q xs)"
  by (induction xs) (auto intro: le_SucI)

lemma window_ok_Cons:
  assumes "window_ok w limit attempts" and "logged_after c (now - w) attempts < limit"
  shows "window_ok w limit ((c, now) # attempts)"
  unfolding window_ok_def
proof (intro allI)
  fix c' t
  show "logged_within c' w t ((c, now) # attempts) \<le> limit"
  proof (cases "c = c' \<and> t - w < now \<and> now \<le> t")
    case True
    have "logged_within c' w t attempts \<le> logged_after c (now - w) attempts"
      unfolding logged_within_def logged_after_def
      by (rule length_filter_mono) (use True in auto)
    then show ?thesis using assms(2) True by (simp add: logged_within_def)
  next
    case False
    then have "logged_within c' w t ((c, now) # attempts) = logged_within c' w t attempts"
      by (auto simp: logged_within_def)
    then show ?thesis using assms(1) by (simp add: window_ok_def)
  qed
qed

lemma length_client_attempts: "length (client_attempts c k t) = stored_after c k t"
  by (simp add: client_attempts_def stored_after_def tbl_order_def)

lemma length_burst_attempts:
  assumes "k \<le> k'"
  shows "length (filter (\<lambda>a. k' < a) (client_attempts c k t)) = stored_after c k' t"
proof -
  have "length (filter (\<lambda>a. k' < a) (client_attempts c k t)) =
      length (filter (\<lambda>r. k' < rat_attempted_at r)
        (sort_key rat_attempted_at (filter (\<lambda>r. rat_client_id r = c \<and> k < rat_attempted_at r) t)))"
    by (simp add: client_attempts_def tbl_order_def filter_map o_def)
  also have "\<dots> = length (filter (\<lambda>r. k' < rat_attempted_at r) (filter (\<lambda>r. rat_client_id r = c \<and> k < rat_attempted_at r) t))"
    by (simp only: filter_sort length_sort)
  also have "filter (\<lambda>r. k' < rat_attempted_at r) (filter (\<lambda>r. rat_client_id r = c \<and> k < rat_attempted_at r) t) =
      filter (\<lambda>r. rat_client_id r = c \<and> k' < rat_attempted_at r) t"
    using assms by (auto intro: filter_cong)
  finally show ?thesis by (simp add: stored_after_def)
qed

lemma stored_after_antimono: "k \<le> k' \<Longrightarrow> stored_after c k' t \<le> stored_after c k t"
  unfolding stored_after_def by (rule length_filter_mono) auto

lemma stored_after_append [simp]: "stored_after c k (t @ u) = stored_after c k t + stored_after c k u"
  by (simp add: stored_after_def)

lemma checked_instant_Inr:
  "checked_instant x = Inr y \<longleftrightarrow> y = x \<and> min_instant \<le> x \<and> x \<le> max_instant"
  by (auto simp: checked_instant_def)

lemma check_rate_limit_decision:
  assumes "check_registration_rate_limit cr new_id token_pepper client_group now cfg d = Inr (d', result)"
    and "rate_limit_client_id cr token_pepper client_group = Inr c"
  defines "t \<equiv> cleanup_attempts (now - rrs_daily_window cfg) (t_registration_attempt d)"
  defines "attempts \<equiv> client_attempts c (now - rrs_daily_window cfg) t"
  defines "burst \<equiv> filter (\<lambda>a. now - rrs_burst_window cfg < a) attempts"
  obtains br dr where
    "rate_decision new_id c now cfg (length burst) (length attempts) br dr t d = Inr (d', result)"
proof -
  from assms(1) obtain k br dr where
    k: "(if attempts = [] then Inr now else checked_instant (now - rrs_burst_window cfg)) = Inr k"
    and run: "rate_decision new_id c now cfg (length (filter (\<lambda>a. k < a) attempts)) (length attempts) br dr t d =
      Inr (d', result)"
    unfolding check_registration_rate_limit_def assms(2) bind_res_simps Let_def bind_res_Inr_iff
      checked_instant_Inr [of "now - rrs_daily_window cfg"] attempts_def t_def by blast
  have "filter (\<lambda>a. k < a) attempts = burst"
    using k by (auto simp: burst_def checked_instant_Inr split: if_splits)
  then show thesis using run by (intro that [of br dr]) simp
qed

lemma check_rate_limit_cases:
  assumes "check_registration_rate_limit cr new_id token_pepper client_group now cfg d = Inr (d', result)"
    and "rate_limit_client_id cr token_pepper client_group = Inr c"
    and "rrs_burst_window cfg \<le> rrs_daily_window cfg"
  defines "t \<equiv> cleanup_attempts (now - rrs_daily_window cfg) (t_registration_attempt d)"
  shows "\<not> rrl_allowed result \<and> t_registration_attempt d' = t \<or>
    rrl_allowed result \<and>
    tbl_insert rat_conflict \<lparr> rat_id = new_id, rat_client_id = c, rat_attempted_at = now \<rparr> t =
      Inr (t_registration_attempt d') \<and>
    stored_after c (now - rrs_burst_window cfg) t < rrs_burst_limit cfg \<and>
    stored_after c (now - rrs_daily_window cfg) t < rrs_daily_limit cfg"
proof -
  from check_rate_limit_decision [OF assms(1,2)] obtain br dr where
    "rate_decision new_id c now cfg (stored_after c (now - rrs_burst_window cfg) t)
       (stored_after c (now - rrs_daily_window cfg) t) br dr t d = Inr (d', result)"
    using assms(3) by (auto simp: length_burst_attempts length_client_attempts t_def)
  then show ?thesis
    by (auto simp: rate_decision_def bind_res_Inr_iff rate_limited_def rate_allowed_def Let_def split: if_splits)
qed

lemma cleanup_attempts_mem:
  assumes "tbl_ok rat_conflict t" and "cutoff < rat_attempted_at r" and "r \<in> set t"
  shows "rat_id r \<notin> set (map rat_id (take 100 (tbl_order (\<lambda>r. (rat_attempted_at r, rat_id r))
           (filter (\<lambda>r. rat_attempted_at r \<le> cutoff) t))))"
proof
  assume "rat_id r \<in> set (map rat_id (take 100 (tbl_order (\<lambda>r. (rat_attempted_at r, rat_id r))
           (filter (\<lambda>r. rat_attempted_at r \<le> cutoff) t))))"
  then obtain r' where "rat_id r' = rat_id r" "r' \<in> set (filter (\<lambda>r. rat_attempted_at r \<le> cutoff) t)"
    using set_take_subset [of 100] by fastforce
  then show False using rat_tbl.key_unique [OF assms(1), of r' r] assms(2,3) by auto
qed

lemma stored_after_cleanup:
  assumes "tbl_ok rat_conflict t" and "cutoff \<le> k"
  shows "stored_after c k (cleanup_attempts cutoff t) = stored_after c k t"
proof -
  have "filter (\<lambda>r. rat_client_id r = c \<and> k < rat_attempted_at r) (cleanup_attempts cutoff t) =
      filter (\<lambda>r. rat_client_id r = c \<and> k < rat_attempted_at r) t"
    unfolding cleanup_attempts_def Let_def tbl_delete_def filter_filter
    by (rule filter_cong [OF refl])
      (use cleanup_attempts_mem [OF assms(1)] assms(2) in \<open>meson order_le_less_trans\<close>)
  then show ?thesis by (simp add: stored_after_def)
qed

lemma rate_inv_init: "rate_init s \<Longrightarrow> rate_inv cfg s"
  by (simp add: rate_init_def rate_inv_def logged_after_def window_ok_def logged_within_def)

lemma rate_inv_step:
  assumes "rate_step cr token_pepper cfg s s'" and "rrs_burst_window cfg \<le> rrs_daily_window cfg" and "rate_inv cfg s"
  shows "rate_inv cfg s'"
  using assms(1)
proof (cases rule: rate_step.cases)
  case (attempt now client_group client_id new_id d result)
  let ?t = "t_registration_attempt (rts_db s)" and ?k = "now - rrs_daily_window cfg"
  let ?clean = "cleanup_attempts ?k ?t"
  have ok: "tbl_ok rat_conflict ?t" using assms(3) by (simp add: rate_inv_def)
  have ok': "tbl_ok rat_conflict ?clean"
    unfolding cleanup_attempts_def Let_def by (rule rat_tbl.ok_delete [OF ok])
  have le: "logged_after c k (rts_log s) \<le> stored_after c k ?clean" if "?k \<le> k" for c k
    using assms(3) attempt(2) that stored_after_cleanup [OF ok that, of c]
    by (simp add: rate_inv_def)
  from check_rate_limit_cases [OF attempt(4,3) assms(2)]
  consider (refused) "\<not> rrl_allowed result" "t_registration_attempt d = ?clean"
    | (allowed) "rrl_allowed result"
      "tbl_insert rat_conflict \<lparr> rat_id = new_id, rat_client_id = client_id, rat_attempted_at = now \<rparr> ?clean =
         Inr (t_registration_attempt d)"
      "stored_after client_id (now - rrs_burst_window cfg) ?clean < rrs_burst_limit cfg"
      "stored_after client_id ?k ?clean < rrs_daily_limit cfg"
    by blast
  then show ?thesis
  proof cases
    case refused
    then show ?thesis using assms(3) attempt(1) ok' le by (simp add: rate_inv_def)
  next
    case allowed
    have "logged_after client_id (now - rrs_burst_window cfg) (rts_log s) < rrs_burst_limit cfg"
      "logged_after client_id ?k (rts_log s) < rrs_daily_limit cfg"
      using le [of "now - rrs_burst_window cfg" client_id] le [of ?k client_id] allowed(3,4) assms(2) by simp_all
    then have "window_ok (rrs_burst_window cfg) (rrs_burst_limit cfg) ((client_id, now) # rts_log s)"
      "window_ok (rrs_daily_window cfg) (rrs_daily_limit cfg) ((client_id, now) # rts_log s)"
      using assms(3) window_ok_Cons by (auto simp: rate_inv_def)
    moreover have "t_registration_attempt d = ?clean @ [\<lparr> rat_id = new_id, rat_client_id = client_id, rat_attempted_at = now \<rparr>]"
      using allowed(2) by (simp add: tbl_insert_Inr)
    then have "logged_after c k ((client_id, now) # rts_log s) \<le> stored_after c k (t_registration_attempt d)"
      if "?k \<le> k" for c k
      using le [OF that, of c] by (simp add: logged_after_def stored_after_def)
    moreover have "tbl_ok rat_conflict (t_registration_attempt d)" by (rule rat_tbl.ok_insert [OF allowed(2) ok'])
    ultimately show ?thesis using allowed(1) attempt(1) by (simp add: rate_inv_def)
  qed
next
  case (elsewhere d)
  then show ?thesis using assms(3) by (simp add: rate_inv_def)
qed

interpretation rate_sys: invariant_system rate_init "rate_step cr token_pepper cfg"
  "\<lambda>s. rrs_burst_window cfg \<le> rrs_daily_window cfg \<longrightarrow> rate_inv cfg s"
  by unfold_locales (use rate_inv_init rate_inv_step in blast)+

text \<open>
  C16: no client exceeds its registration limits. Whatever requests are made, at clocks that do
  not go back, and whatever else happens to the database outside of the attempt table, every
  window of the burst length holds at most the burst limit of allowed attempts of one client, and
  every window of the daily length at most the daily limit, although each check deletes up to a
  hundred expired attempts of all clients. The daily window is at least the burst window, as the
  configuration requires.
\<close>

theorem registration_attempts_are_limited:
  assumes "reachable rate_init (rate_step cr token_pepper cfg) s"
    and "rrs_burst_window cfg \<le> rrs_daily_window cfg"
  shows "length (filter (\<lambda>x. fst x = client \<and> t - rrs_burst_window cfg < snd x \<and> snd x \<le> t) (rts_log s)) \<le>
           rrs_burst_limit cfg \<and>
         length (filter (\<lambda>x. fst x = client \<and> t - rrs_daily_window cfg < snd x \<and> snd x \<le> t) (rts_log s)) \<le>
           rrs_daily_limit cfg"
  using rate_sys.reachable_inv [OF assms(1)] assms(2)
  by (simp add: rate_inv_def window_ok_def logged_within_def)

definition demo_crypto :: crypto where
  "demo_crypto = \<lparr> cr_hmac = (\<lambda>k s. Inr (k @ s)), cr_sha256 = (\<lambda>v. v) \<rparr>"

definition demo_limits :: registration_rate_limit_settings where
  "demo_limits = \<lparr> rrs_burst_limit = 1, rrs_burst_window = 10, rrs_daily_limit = 2, rrs_daily_window = 50 \<rparr>"

lemma demo_first_attempt:
  "\<exists>c d result. rate_limit_client_id demo_crypto [] [] = Inr c \<and>
     check_registration_rate_limit demo_crypto 1 [] [] 5 demo_limits empty_db = Inr (d, result) \<and>
     rrl_allowed result"
  by (simp add: check_registration_rate_limit_def rate_limit_client_id_def secret_hash_def demo_crypto_def
      checked_instant_def demo_limits_def min_instant_def max_instant_def cleanup_attempts_def client_attempts_def
      empty_db_def tbl_order_def tbl_delete_def rate_decision_def tbl_insert_def rate_allowed_def Let_def u64_sub_def)

theorem registration_attempts_are_limited_witness:
  "\<exists>s c. reachable rate_init (rate_step demo_crypto [] demo_limits) s \<and> rts_log s = [(c, 5)] \<and>
     length (filter (\<lambda>x. fst x = c \<and> 8 - rrs_burst_window demo_limits < snd x \<and> snd x \<le> 8) (rts_log s)) \<le>
       rrs_burst_limit demo_limits"
proof -
  let ?s = "\<lparr> rts_db = empty_db, rts_clock = 0, rts_log = [] \<rparr>"
  obtain c d result where c: "rate_limit_client_id demo_crypto [] [] = Inr c"
    and run: "check_registration_rate_limit demo_crypto 1 [] [] 5 demo_limits (rts_db ?s) = Inr (d, result)"
    and ok: "rrl_allowed result" using demo_first_attempt by auto
  let ?t = "\<lparr> rts_db = d, rts_clock = 5, rts_log = (if rrl_allowed result then [(c, 5)] else []) @ rts_log ?s \<rparr>"
  have "rate_step demo_crypto [] demo_limits ?s ?t"
    by (rule rate_step.attempt [OF _ c run]) simp
  moreover have "rate_init ?s" by (simp add: rate_init_def empty_db_def)
  ultimately have reach: "reachable rate_init (rate_step demo_crypto [] demo_limits) ?t"
    by (blast intro: reachable.intros)
  have "rrs_burst_window demo_limits \<le> rrs_daily_window demo_limits" by (simp add: demo_limits_def)
  from registration_attempts_are_limited [OF reach this, of c 8] ok reach show ?thesis
    by (intro exI [of _ ?t] exI [of _ c]) simp
qed

subsection \<open>The answer of the rate limit\<close>

lemma u64_sub_exact: "b \<le> a \<Longrightarrow> a < 18446744073709551616 \<Longrightarrow> u64_sub a b = a - b"
  by (simp add: u64_sub_def of_nat_diff [symmetric] del: of_nat_diff)

text \<open>
  C17: the answer of the rate limit check is exact. With fewer stored attempts than both
  limits in the two windows the attempt is allowed and recorded, and the remaining number is the
  smaller of what is left of the two limits after this attempt, computed without wrapping around.
  Otherwise it is refused with nothing remaining, and no attempt is recorded.
\<close>

theorem rate_limit_answer_is_exact:
  assumes "check_registration_rate_limit cr new_id token_pepper client_group now cfg d = Inr (d', result)"
    and "rate_limit_client_id cr token_pepper client_group = Inr c"
    and "rrs_burst_window cfg \<le> rrs_daily_window cfg"
    and "rrs_burst_limit cfg < 18446744073709551616" and "rrs_daily_limit cfg < 18446744073709551616"
  shows "let t = cleanup_attempts (now - rrs_daily_window cfg) (t_registration_attempt d);
             b = stored_after c (now - rrs_burst_window cfg) t; a = stored_after c (now - rrs_daily_window cfg) t
         in (rrl_allowed result \<longleftrightarrow> b < rrs_burst_limit cfg \<and> a < rrs_daily_limit cfg) \<and>
            rrl_remaining result = min (rrs_burst_limit cfg - b - 1) (rrs_daily_limit cfg - a - 1) \<and>
            t_registration_attempt d' = t @ (if rrl_allowed result
              then [\<lparr> rat_id = new_id, rat_client_id = c, rat_attempted_at = now \<rparr>] else [])"
proof -
  define t where "t = cleanup_attempts (now - rrs_daily_window cfg) (t_registration_attempt d)"
  define b where "b = stored_after c (now - rrs_burst_window cfg) t"
  define a where "a = stored_after c (now - rrs_daily_window cfg) t"
  from check_rate_limit_decision [OF assms(1,2)] obtain br dr where
    dec: "rate_decision new_id c now cfg b a br dr t d = Inr (d', result)"
    using assms(3) by (auto simp: length_burst_attempts length_client_attempts t_def b_def a_def)
  have "u64_sub (u64_sub (rrs_burst_limit cfg) b) 1 = rrs_burst_limit cfg - b - 1" if "b < rrs_burst_limit cfg"
    using that assms(4) by (simp add: u64_sub_exact)
  moreover have "u64_sub (u64_sub (rrs_daily_limit cfg) a) 1 = rrs_daily_limit cfg - a - 1" if "a < rrs_daily_limit cfg"
    using that assms(5) by (simp add: u64_sub_exact)
  ultimately show ?thesis
    using dec unfolding t_def [symmetric] b_def [symmetric] a_def [symmetric] Let_def
    by (auto simp: rate_decision_def bind_res_Inr_iff rate_limited_def rate_allowed_def Let_def tbl_insert_Inr
        split: if_splits)
qed

theorem rate_limit_answer_is_exact_witness:
  "\<exists>c d result. rate_limit_client_id demo_crypto [] [] = Inr c \<and>
     check_registration_rate_limit demo_crypto 1 [] [] 5 demo_limits empty_db = Inr (d, result) \<and>
     rrl_allowed result \<and> rrl_remaining result = 0"
proof -
  obtain c d result where run: "rate_limit_client_id demo_crypto [] [] = Inr c"
    "check_registration_rate_limit demo_crypto 1 [] [] 5 demo_limits empty_db = Inr (d, result)"
    "rrl_allowed result" using demo_first_attempt by blast
  have "rrl_remaining result = 0"
    using rate_limit_answer_is_exact [OF run(2,1)] by (simp add: demo_limits_def Let_def)
  then show ?thesis using run by blast
qed

subsection \<open>Successful registrations\<close>

lemma find_fresh_last: "(\<And>x. x \<in> set t \<Longrightarrow> \<not> p x) \<Longrightarrow> p r \<Longrightarrow> List.find p (t @ [r]) = Some r"
  by (induction t) auto

lemma create_access_token_resolves:
  assumes "create_access_token cr new_id token issued_at pepper account_id application_id scopes d = Inr (d', tok)"
    and "find_unsuspended_account d account_id = Some account"
  shows "tok_token tok = token \<and> tok_scope tok = scopes \<and> t_local_account d' = t_local_account d \<and>
    find_account_by_access_token cr now pepper token d' = Inr (Some (account, scopes))"
proof -
  obtain h where h: "secret_hash cr pepper token = Inr h"
    using assms(1)
    by (auto simp: create_access_token_def create_access_token_for_subject_def bind_res_Inr_iff)
  define r where "r = \<lparr> oat_id = new_id, oat_token_hash = h, oat_account_id = Some account_id,
    oat_application_id = application_id, oat_scopes = scopes, oat_issued_at = issued_at,
    oat_expires_at = None, oat_revoked_at = None \<rparr>"
  have d': "d' = d\<lparr>t_oauth_access_token := t_oauth_access_token d @ [r]\<rparr>" "tok_token tok = token" "tok_scope tok = scopes"
    and fresh: "\<And>x. x \<in> set (t_oauth_access_token d) \<Longrightarrow> \<not> oat_conflict r x"
    using assms(1) h
    by (auto simp: create_access_token_def create_access_token_for_subject_def bind_res_Inr_iff tbl_insert_Inr r_def)
  have "List.find (\<lambda>t. oat_token_hash t = h \<and> True \<and> oat_revoked_at t = None) (t_oauth_access_token d @ [r]) = Some r"
    using fresh by (intro find_fresh_last) (auto simp: oat_conflict_def r_def)
  then have "find_active_token now d' (\<lambda>_. True) h = Some r"
    by (simp add: find_active_token_def d' r_def)
  moreover have "find_unsuspended_account d' account_id = Some account"
    using assms(2) by (simp add: d' find_unsuspended_account_def)
  ultimately show ?thesis using d' h by (simp add: find_account_by_access_token_def r_def)
qed

lemma insert_local_account_Inr:
  assumes "insert_local_account new_id now pg_now username email password_hash is_admin d = Inr (d', i)"
  defines "a \<equiv> new_account_row new_id pg_now username email password_hash is_admin"
  shows "i = new_id" and "t_local_account d' = t_local_account d @ [a]"
    and "\<And>x. x \<in> set (t_local_account d) \<Longrightarrow>
           la_id x \<noteq> new_id \<and> la_username x \<noteq> username \<and> la_email x \<noteq> email"
proof -
  have "\<forall>x \<in> set (t_local_account d). \<not> la_conflict a x" and r: "i = new_id \<and> t_local_account d' = t_local_account d @ [a]"
    using assms(1) unfolding insert_local_account_def a_def
    by (auto simp: bind_res_Inr_iff Let_def tbl_insert_nothing_def list_ex_iff split: prod.splits if_splits)
  then show "\<And>x. x \<in> set (t_local_account d) \<Longrightarrow> la_id x \<noteq> new_id \<and> la_username x \<noteq> username \<and> la_email x \<noteq> email"
    by (auto simp: la_conflict_def a_def new_account_row_def)
  show "i = new_id" "t_local_account d' = t_local_account d @ [a]" using r by blast+
qed

lemma check_rate_limit_accounts:
  assumes "check_registration_rate_limit cr new_id token_pepper client_group now cfg d = Inr (d', result)"
  shows "t_local_account d' = t_local_account d"
proof -
  obtain c where "rate_limit_client_id cr token_pepper client_group = Inr c"
    using assms by (cases "rate_limit_client_id cr token_pepper client_group") (simp_all add: check_registration_rate_limit_def)
  then show ?thesis
    by (rule check_rate_limit_decision [OF assms]) (auto simp: rate_decision_def bind_res_Inr_iff split: if_splits)
qed

lemma register_account_success:
  assumes "register_account cfg w client_group bearer r d = (d', Inr tok)"
  obtains grant :: application_access_token_grant and d1 where "rc_mode cfg = RegOpen" and "validate_registration r = []"
    and "t_local_account d1 = t_local_account d"
    and "create_registered_account cfg w (aatg_application grant) r d1 = Inr (d', tok)"
proof -
  obtain raw_token where b: "bearer = Some raw_token"
    using assms by (cases bearer) (simp_all add: register_account_def)
  obtain grant where g: "find_application_access_token_grant (rc_crypto cfg) (rd_now w) (rc_token_pepper cfg) raw_token d = Inr (Some grant)"
    using assms b by (auto simp: register_account_def split: sum.splits option.splits)
  have m: "list_ex write_accounts_scope (split_whitespace (aatg_scopes grant))" "rc_mode cfg = RegOpen"
    using assms b g by (simp_all add: register_account_def split: if_splits)
  obtain d1 result where c: "check_registration_rate_limit (rc_crypto cfg) (rd_attempt_id w) (rc_token_pepper cfg)
      client_group (rd_now w) (rc_limits cfg) d = Inr (d1, result)"
    using assms b g m by (auto simp: register_account_def split: sum.splits)
  have "rrl_allowed result" "validate_registration r = []"
    "create_registered_account cfg w (aatg_application grant) r d1 = Inr (d', tok)"
    using assms b g m c by (simp_all add: register_account_def Let_def split: if_splits sum.splits prod.splits)
  then show thesis using m(2) check_rate_limit_accounts [OF c] that by blast
qed

text \<open>
  A successful registration creates exactly one account, for a user name and email that no
  account had, without administrator rights, only while registration is open and for valid
  input; and the token it answers with signs that account in, with the scopes the answer names.
\<close>

lemma registration_signs_in:
  assumes "register_account cfg w client_group bearer r d = (d', Inr tok)"
  shows "\<exists>account. rc_mode cfg = RegOpen \<and> validate_registration r = [] \<and>
     t_local_account d' = t_local_account d @ [account] \<and> la_username account = rq_username r \<and>
     la_email account = rq_email r \<and> \<not> la_is_admin account \<and>
     (\<forall>x \<in> set (t_local_account d). la_username x \<noteq> rq_username r \<and> la_email x \<noteq> rq_email r) \<and>
     find_account_by_access_token (rc_crypto cfg) now (rc_token_pepper cfg) (tok_token tok) d' =
       Inr (Some (account, tok_scope tok))"
proof -
  obtain grant :: application_access_token_grant and d1 where open': "rc_mode cfg = RegOpen" "validate_registration r = []"
    and d1: "t_local_account d1 = t_local_account d"
    and run: "create_registered_account cfg w (aatg_application grant) r d1 = Inr (d', tok)"
    by (rule register_account_success [OF assms])
  obtain h d2 i where ins: "insert_local_account (rd_account_id w) (rd_now w) (rd_pg_now w) (rq_username r) (rq_email r) h False d1 =
      Inr (d2, i)"
    and tok: "create_access_token (rc_crypto cfg) (rd_token_id w) (rd_token w) (rd_now w) (rc_token_pepper cfg) i
      (app_id (aatg_application grant)) (app_scopes (aatg_application grant)) d2 = Inr (d', tok)"
    using run unfolding create_registered_account_def create_local_account_in_transaction_def
    by (auto simp: bind_res_Inr_iff reg_result_def split: sum.splits roosty_error.splits)
  let ?a = "new_account_row (rd_account_id w) (rd_pg_now w) (rq_username r) (rq_email r) h False"
  note new = insert_local_account_Inr [OF ins]
  have "find_unsuspended_account d2 i = Some ?a"
    unfolding find_unsuspended_account_def new(2)
    using new(1,3) by (intro find_fresh_last) (auto simp: new_account_row_def)
  from create_access_token_resolves [OF tok this, of now]
  show ?thesis using open' d1 new(2,3) by (intro exI [of _ ?a]) (auto simp: new_account_row_def)
qed

definition demo_registration_config :: registration_config where
  "demo_registration_config = \<lparr> rc_crypto = demo_crypto, rc_token_pepper = [], rc_mode = RegOpen,
     rc_limits = demo_limits, rc_hash_password = (\<lambda>_. Inr ''hash'') \<rparr>"

definition demo_draws :: registration_draws where
  "demo_draws = \<lparr> rd_attempt_id = 1, rd_account_id = 2, rd_token_id = 3, rd_token = ''t'', rd_now = 5, rd_pg_now = 5 \<rparr>"

definition demo_request :: registration_request where
  "demo_request = \<lparr> rq_username = utext ''ann'', rq_email = utext ''a@b'', rq_password = utext ''password'',
     rq_agreement = True, rq_locale = utext ''en'' \<rparr>"

definition demo_apps :: db where
  "demo_apps = empty_db\<lparr>
     t_oauth_application := [\<lparr> oap_id = 7, oap_client_id = ''c'', oap_client_secret_hash = ''s'', oap_name = [],
        oap_redirect_uri = [], oap_scopes = utext ''read'', oap_website = None, oap_created_at = 0 \<rparr>],
     t_oauth_access_token := [\<lparr> oat_id = 8, oat_token_hash = ''app'', oat_account_id = None, oat_application_id = 7,
        oat_scopes = utext ''write'', oat_issued_at = 0, oat_expires_at = None, oat_revoked_at = None \<rparr>]\<rparr>"

lemmas demo_registration_defs =
  demo_registration_config_def demo_draws_def demo_request_def demo_apps_def demo_crypto_def demo_limits_def

lemma demo_registration_valid: "validate_registration demo_request = []"
  by (simp add: validate_registration_def demo_request_def account_username_def account_email_def utext_def
      str_len_def utf8_len_def is_ascii_alphanumeric_def trim_def trim_start_def trim_end_def is_whitespace_def Let_def)

end
