(* ===== verification/Roosty_Auth_Properties.thy ===== *)
theory Roosty_Auth_Properties
  imports Roosty_Auth Roosty_Registration_Properties
begin

text \<open>
  Properties of the OAuth endpoints: what an exchanged authorization code proves, that it is
  spent, that two concurrent exchanges both succeed, which scopes an authorization grants, what a
  revocation ends, and the session cookie.
\<close>

subsection \<open>Exchanging a code\<close>

lemma consume_Some:
  assumes "consume_authorization_code cr now now' pepper code app uri d = Inr (d', Some grant)"
  obtains h c where "secret_hash cr pepper code = Inr h" and "find_unconsumed_code d h app uri = Some c"
    and "now < oac_expires_at c" and "grant = code_grant c" and "mark_code_consumed now' c d = Inr d'"
  using assms
  by (auto simp: consume_authorization_code_def bind_res_Inr_iff split: option.splits if_splits)

lemma find_unconsumed_SomeD:
  "find_unconsumed_code d h app uri = Some c \<Longrightarrow>
     c \<in> set (t_oauth_authorization_code d) \<and> oac_code_hash c = h \<and> oac_application_id c = app \<and>
     oac_redirect_uri c = uri \<and> oac_consumed_at c = None"
  unfolding find_unconsumed_code_def by (auto dest: find_Some_mem)

lemma create_access_token_Inr:
  "create_access_token cr i tok now pepper account app scopes d = Inr (d', t) \<longleftrightarrow>
     (\<exists>h. secret_hash cr pepper tok = Inr h \<and> fk_local d account \<and> fk_application d app \<and>
        (\<forall>x \<in> set (t_oauth_access_token d). oat_id x \<noteq> i \<and> oat_token_hash x \<noteq> h) \<and>
        d' = d\<lparr>t_oauth_access_token := t_oauth_access_token d @
          [\<lparr> oat_id = i, oat_token_hash = h, oat_account_id = Some account, oat_application_id = app,
             oat_scopes = scopes, oat_issued_at = now, oat_expires_at = None, oat_revoked_at = None \<rparr>]\<rparr> \<and>
        t = \<lparr> tok_token = tok, tok_token_type = Bearer, tok_scope = scopes, tok_created_at = unix_timestamp now \<rparr>)"
  by (auto simp: create_access_token_def create_access_token_for_subject_def bind_res_Inr_iff tbl_insert_Inr
      oat_conflict_def)

lemma create_access_token_appends:
  assumes "create_access_token cr i tok now pepper account app scopes d = Inr (d', t)"
  obtains r where "fk_local d account" and "fk_application d app"
    and "d' = d\<lparr>t_oauth_access_token := t_oauth_access_token d @ [r]\<rparr>"
    and "tok_token t = tok" and "tok_scope t = scopes"
proof -
  from assms obtain h where "fk_local d account" "fk_application d app"
    and d': "d' = d\<lparr>t_oauth_access_token := t_oauth_access_token d @
          [\<lparr> oat_id = i, oat_token_hash = h, oat_account_id = Some account, oat_application_id = app,
             oat_scopes = scopes, oat_issued_at = now, oat_expires_at = None, oat_revoked_at = None \<rparr>]\<rparr>"
    and t: "t = \<lparr> tok_token = tok, tok_token_type = Bearer, tok_scope = scopes, tok_created_at = unix_timestamp now \<rparr>"
    unfolding create_access_token_Inr by blast
  then show thesis by (intro that [OF _ _ d']) simp_all
qed

lemma issue_code_token_issued:
  assumes "issue_code_token e w app form (code_grant c) before d = (d', TokenIssued t)"
  shows "\<not> pkce_rejected (ae_crypto e) (oac_code_challenge c) (oac_code_challenge_method c) (tf_code_verifier form)"
    and "create_access_token (ae_crypto e) (td_id w) (td_token w) (td_issued_now w) (ae_token_pepper e)
      (oac_account_id c) (app_id app) (oac_scopes c) d = Inr (d', t)"
  using assms
  by (auto simp: issue_code_token_def code_grant_def server_error_def split: if_splits sum.splits)

lemma authorization_code_grant_issued:
  assumes "authorization_code_grant e w app form d = (d', TokenIssued t)"
  obtains code requested uri h c d1 where "tf_code form = Some code" and "tf_redirect_uri form = Some requested"
    and "matching_redirect_uri e (app_redirect_uri app) requested = Some uri"
    and "secret_hash (ae_crypto e) (ae_token_pepper e) code = Inr h"
    and "find_unconsumed_code d h (app_id app) uri = Some c" and "td_now w < oac_expires_at c"
    and "mark_code_consumed (td_consumed_now w) c d = Inr d1"
    and "issue_code_token e w app form (code_grant c) d d1 = (d', TokenIssued t)"
proof -
  obtain code requested uri where 1: "tf_code form = Some code" "tf_redirect_uri form = Some requested"
    "matching_redirect_uri e (app_redirect_uri app) requested = Some uri"
    using assms by (auto simp: authorization_code_grant_def split: option.splits)
  obtain d1 grant where 2: "consume_authorization_code (ae_crypto e) (td_now w) (td_consumed_now w) (ae_token_pepper e)
      code (app_id app) uri d = Inr (d1, Some grant)" "issue_code_token e w app form grant d d1 = (d', TokenIssued t)"
    using assms 1 by (auto simp: authorization_code_grant_def server_error_def split: option.splits sum.splits)
  show thesis
    by (rule consume_Some [OF 2(1)]) (use 1 2(2) that in blast)
qed

lemma token_code_grant:
  assumes "token e w form d = (d', TokenIssued t)" and "tf_grant_type form = GrantAuthorizationCode"
  obtains app where "find_oauth_application_by_client_id d (tf_client_id form) = Some app"
    and "\<forall>secret. tf_client_secret form = Some secret \<longrightarrow>
          secret_hash (ae_crypto e) (ae_token_pepper e) secret = Inr (app_client_secret_hash app)"
    and "authorization_code_grant e w app form d = (d', TokenIssued t)"
proof -
  obtain app where app: "find_oauth_application_by_client_id d (tf_client_id form) = Some app"
    using assms(1) by (auto simp: token_def split: option.splits)
  show thesis
  proof (cases "tf_client_secret form")
    case None
    then show ?thesis using assms app that by (simp add: token_def)
  next
    case (Some secret)
    then have "secret_hash (ae_crypto e) (ae_token_pepper e) secret = Inr (app_client_secret_hash app)"
      using assms app by (auto simp: token_def split: sum.splits if_splits)
    then show ?thesis using assms app Some that by (simp add: token_def)
  qed
qed

lemma mark_code_consumed_Inr:
  "mark_code_consumed now c d = Inr d' \<Longrightarrow>
     d' = d\<lparr>t_oauth_authorization_code :=
       tbl_update (\<lambda>x. oac_id x = oac_id c) (\<lambda>x. x\<lparr>oac_consumed_at := Some now\<rparr>) (t_oauth_authorization_code d)\<rparr>"
  by (simp add: mark_code_consumed_def split: if_splits)

lemma spent_code_rows:
  assumes "tbl_ok oac_conflict (t_oauth_authorization_code d)" and "c \<in> set (t_oauth_authorization_code d)"
    and "mark_code_consumed now c d = Inr d'"
  shows "\<forall>x \<in> set (t_oauth_authorization_code d'). oac_code_hash x = oac_code_hash c \<longrightarrow> oac_consumed_at x \<noteq> None"
proof -
  have "x = c" if "x \<in> set (t_oauth_authorization_code d)" "oac_code_hash x = oac_code_hash c" for x
    using oac_tbl.conflict_eq [OF assms(1) that(1) assms(2)] that(2) by (simp add: oac_conflict_def)
  then show ?thesis
    using mark_code_consumed_Inr [OF assms(3)]
    by (auto simp: tbl_update_def)
qed

definition code_spent :: "string \<Rightarrow> db \<Rightarrow> bool" where
  "code_spent h d \<longleftrightarrow>
     (\<forall>c \<in> set (t_oauth_authorization_code d). oac_code_hash c = h \<longrightarrow> oac_consumed_at c \<noteq> None)"

lemma code_spent_not_found: "code_spent h d \<Longrightarrow> find_unconsumed_code d h app uri = None"
  by (auto simp: code_spent_def find_unconsumed_code_def find_None_all)

text \<open>
  C14: a token issued for an authorization code stands for a code that was stored unconsumed
  and not expired for the requesting application, whose redirect URI is one the application
  registered; a client secret, when one is sent, is the application's; a PKCE challenge, when the
  code has one, is met by the verifier; and the token has the account and the scopes of the code.
  Afterwards the code is spent: in the state reached, and in any state in which the stored code is
  consumed, no request that starts there with this code is answered with a token. (A request that
  read the code before this one consumed it is another matter: see
  \<open>code_exchanged_twice_concurrently\<close>.)
\<close>

theorem code_exchange_is_authorized:
  assumes "token e w form d = (d', TokenIssued t)" and "tf_grant_type form = GrantAuthorizationCode"
    and "tbl_ok oac_conflict (t_oauth_authorization_code d)"
  shows "\<exists>app code h c. find_oauth_application_by_client_id d (tf_client_id form) = Some app \<and>
     tf_code form = Some code \<and> secret_hash (ae_crypto e) (ae_token_pepper e) code = Inr h \<and>
     c \<in> set (t_oauth_authorization_code d) \<and> oac_code_hash c = h \<and> oac_application_id c = app_id app \<and>
     oac_consumed_at c = None \<and> td_now w < oac_expires_at c \<and>
     oac_redirect_uri c \<in> set (map trim (str_lines (app_redirect_uri app))) \<and>
     (\<forall>secret. tf_client_secret form = Some secret \<longrightarrow>
        secret_hash (ae_crypto e) (ae_token_pepper e) secret = Inr (app_client_secret_hash app)) \<and>
     (oac_code_challenge c \<noteq> [] \<longrightarrow>
        (\<exists>v. tf_code_verifier form = Some v \<and> pkce_s256_challenge (ae_crypto e) v = oac_code_challenge c)) \<and>
     (\<exists>h'. secret_hash (ae_crypto e) (ae_token_pepper e) (tok_token t) = Inr h' \<and>
        (\<exists>r \<in> set (t_oauth_access_token d'). oat_token_hash r = h' \<and> oat_account_id r = Some (oac_account_id c) \<and>
           oat_application_id r = app_id app \<and> oat_scopes r = oac_scopes c \<and> oat_revoked_at r = None)) \<and>
     tok_scope t = oac_scopes c \<and>
     code_spent h d' \<and>
     (\<forall>w2 form2 d1 d2 t2. code_spent h d1 \<and> tf_grant_type form2 = GrantAuthorizationCode \<and> tf_code form2 = Some code \<longrightarrow>
        token e w2 form2 d1 \<noteq> (d2, TokenIssued t2))"
proof -
  obtain app where app: "find_oauth_application_by_client_id d (tf_client_id form) = Some app"
    and secret: "\<forall>secret. tf_client_secret form = Some secret \<longrightarrow>
      secret_hash (ae_crypto e) (ae_token_pepper e) secret = Inr (app_client_secret_hash app)"
    and run: "authorization_code_grant e w app form d = (d', TokenIssued t)"
    by (rule token_code_grant [OF assms(1,2)])
  obtain code requested uri h c d1 where x: "tf_code form = Some code" "tf_redirect_uri form = Some requested"
    "matching_redirect_uri e (app_redirect_uri app) requested = Some uri"
    "secret_hash (ae_crypto e) (ae_token_pepper e) code = Inr h" "find_unconsumed_code d h (app_id app) uri = Some c"
    "td_now w < oac_expires_at c" "mark_code_consumed (td_consumed_now w) c d = Inr d1"
    "issue_code_token e w app form (code_grant c) d d1 = (d', TokenIssued t)"
    by (rule authorization_code_grant_issued [OF run])
  note c = find_unconsumed_SomeD [OF x(5)]
  note issued = issue_code_token_issued [OF x(8)]
  have uri: "uri \<in> set (map trim (str_lines (app_redirect_uri app)))"
    using x(3) by (auto simp: matching_redirect_uri_def dest: find_Some_mem)
  have same_codes: "t_oauth_authorization_code d' = t_oauth_authorization_code d1"
    using issued(2) by (auto simp: create_access_token_Inr)
  have spent: "code_spent h d'"
    using spent_code_rows [OF assms(3) _ x(7)] c same_codes by (simp add: code_spent_def)
  have never: "token e w2 form2 d0 \<noteq> (d2, TokenIssued t2)"
    if "code_spent h d0" and gt: "tf_grant_type form2 = GrantAuthorizationCode" and code2: "tf_code form2 = Some code"
    for w2 form2 d0 d2 t2
  proof
    assume "token e w2 form2 d0 = (d2, TokenIssued t2)"
    then obtain app2 where "authorization_code_grant e w2 app2 form2 d0 = (d2, TokenIssued t2)"
      by (rule token_code_grant [OF _ gt])
    then show False
      by (rule authorization_code_grant_issued) (use code2 x(4) code_spent_not_found [OF that(1)] in simp)
  qed
  show ?thesis
    using app secret x(1,4,6) c uri issued spent never
    by (intro exI [of _ app] exI [of _ code] exI [of _ h] exI [of _ c])
       (auto simp: create_access_token_Inr pkce_rejected_def split: option.splits)
qed

definition demo_auth_env :: auth_env where
  "demo_auth_env = \<lparr> ae_crypto = \<lparr> cr_hmac = (\<lambda>k s. Inr (filter (\<lambda>c. c \<noteq> CHR ''.'') (k @ s))), cr_sha256 = (\<lambda>v. v) \<rparr>, ae_token_pepper = [], ae_session_secret = [],
     ae_verify_password = (\<lambda>_ _. Inr True), ae_hash_password = (\<lambda>_. Inr ''h''),
     ae_percent_decode = (\<lambda>u. None), ae_url_error = (\<lambda>u. None),
     ae_show_uuid = show_digits, ae_parse_uuid = (\<lambda>s. Some 2) \<rparr>"

definition demo_app :: oauth_application_row where
  "demo_app = \<lparr> oap_id = 7, oap_client_id = ''c'', oap_client_secret_hash = ''s'', oap_name = utext ''app'',
     oap_redirect_uri = utext ''a:b'', oap_scopes = utext ''read'', oap_website = None, oap_created_at = 0 \<rparr>"

definition demo_code :: oauth_authorization_code_row where
  "demo_code = \<lparr> oac_id = 4, oac_code_hash = ''k'', oac_account_id = 2, oac_application_id = 7,
     oac_redirect_uri = utext ''a:b'', oac_scopes = utext ''read'', oac_code_challenge = [],
     oac_code_challenge_method = PkceNone, oac_expires_at = 300, oac_consumed_at = None, oac_created_at = 0 \<rparr>"

definition demo_oauth_db :: db where
  "demo_oauth_db = empty_db\<lparr>
     t_local_account := [new_account_row 2 0 (utext ''ann'') (utext ''a@b'') ''h'' False],
     t_oauth_application := [demo_app], t_oauth_authorization_code := [demo_code]\<rparr>"

definition demo_form :: token_form where
  "demo_form = \<lparr> tf_grant_type = GrantAuthorizationCode, tf_code = Some ''k'', tf_client_id = ''c'',
     tf_client_secret = None, tf_redirect_uri = Some (utext ''a:b''), tf_code_verifier = None, tf_scope = None \<rparr>"

definition demo_token_draws :: "uuid \<Rightarrow> string \<Rightarrow> token_draws" where
  "demo_token_draws i tok = \<lparr> td_id = i, td_token = tok, td_now = 5, td_consumed_now = 5, td_issued_now = 5 \<rparr>"

lemmas demo_oauth_defs = demo_auth_env_def demo_app_def demo_code_def demo_oauth_db_def demo_form_def demo_token_draws_def

lemma demo_redirect: "matching_redirect_uri demo_auth_env (utext ''a:b'') (utext ''a:b'') = Some (utext ''a:b'')"
  by (simp add: matching_redirect_uri_def str_lines_def utext_def trim_def trim_start_def trim_end_def is_whitespace_def)

lemma demo_grant:
  "CHR ''.'' \<notin> set tok \<Longrightarrow> \<exists>d' t. authorization_code_grant demo_auth_env (demo_token_draws i tok) (oauth_application_from_model demo_app) demo_form
     demo_oauth_db = (d', TokenIssued t) \<and>
     t_oauth_access_token d' = [\<lparr> oat_id = i, oat_token_hash = tok, oat_account_id = Some 2, oat_application_id = 7,
       oat_scopes = utext ''read'', oat_issued_at = 5, oat_expires_at = None, oat_revoked_at = None \<rparr>]"
proof -
  assume "CHR ''.'' \<notin> set tok"
  then have tok: "filter (\<lambda>c. c \<noteq> CHR ''.'') tok = tok" by (simp add: filter_id_conv) metis
  have "app_redirect_uri (oauth_application_from_model demo_app) = utext ''a:b''"
    "tf_redirect_uri demo_form = Some (utext ''a:b'')"
    by (simp_all add: oauth_application_from_model_def demo_app_def demo_form_def)
  then show ?thesis
    using demo_redirect tok
    by (simp add: authorization_code_grant_def consume_authorization_code_def secret_hash_def find_unconsumed_code_def
        mark_code_consumed_def issue_code_token_def code_grant_def pkce_rejected_def create_access_token_def
        create_access_token_for_subject_def with_fk_def fk_local_def fk_application_def tbl_insert_def
        new_account_row_def oauth_application_from_model_def demo_oauth_defs empty_db_def)
qed

theorem code_exchange_is_authorized_witness:
  "\<exists>d' t. token demo_auth_env (demo_token_draws 9 ''t'') demo_form demo_oauth_db = (d', TokenIssued t) \<and>
     tok_scope t = utext ''read'' \<and>
     (\<forall>w2 d2 t2. token demo_auth_env w2 demo_form d' \<noteq> (d2, TokenIssued t2))"
proof -
  obtain d' t where "authorization_code_grant demo_auth_env (demo_token_draws 9 ''t'') (oauth_application_from_model demo_app) demo_form
     demo_oauth_db = (d', TokenIssued t)" using demo_grant [of "''t''" 9] by auto
  then have run: "token demo_auth_env (demo_token_draws 9 ''t'') demo_form demo_oauth_db = (d', TokenIssued t)"
    by (simp add: token_def find_oauth_application_by_client_id_def demo_oauth_db_def demo_app_def demo_form_def)
  have gt: "tf_grant_type demo_form = GrantAuthorizationCode" by (simp add: demo_form_def)
  have ok: "tbl_ok oac_conflict (t_oauth_authorization_code demo_oauth_db)" by (simp add: demo_oauth_db_def)
  from code_exchange_is_authorized [OF run gt ok] obtain code c where
    c: "tf_code demo_form = Some code" "c \<in> set (t_oauth_authorization_code demo_oauth_db)" "tok_scope t = oac_scopes c"
    and never: "\<forall>w2 form2 d2 t2. tf_grant_type form2 = GrantAuthorizationCode \<and> tf_code form2 = Some code \<longrightarrow>
      token demo_auth_env w2 form2 d' \<noteq> (d2, TokenIssued t2)" by blast
  have "tok_scope t = utext ''read''" using c(2,3) by (simp add: demo_oauth_db_def demo_code_def)
  then show ?thesis using run never gt c(1) by blast
qed

text \<open>
  C15: two concurrent exchanges of one code both succeed. The second request looks the code up
  before the first commits, so it finds it unconsumed; its update, which names the row by its
  primary key only, waits for the first transaction and then succeeds, and a second token is
  issued for the same grant.
\<close>

theorem code_exchanged_twice_concurrently:
  assumes "authorization_code_grant e w1 app form d = (d1, TokenIssued t1)"
    and "tf_code form = Some code" and "tf_redirect_uri form = Some requested"
    and "matching_redirect_uri e (app_redirect_uri app) requested = Some uri"
    and "secret_hash (ae_crypto e) (ae_token_pepper e) code = Inr h"
    and "find_unconsumed_code d h (app_id app) uri = Some c"
    and "secret_hash (ae_crypto e) (ae_token_pepper e) (td_token w2) = Inr h2"
    and "\<forall>x \<in> set (t_oauth_access_token d1). oat_id x \<noteq> td_id w2 \<and> oat_token_hash x \<noteq> h2"
  shows "\<exists>d2 d3 t2. mark_code_consumed (td_consumed_now w2) c d1 = Inr d2 \<and>
     issue_code_token e w2 app form (code_grant c) d1 d2 = (d3, TokenIssued t2) \<and>
     tok_token t1 = td_token w1 \<and> tok_token t2 = td_token w2 \<and> tok_scope t2 = tok_scope t1 \<and>
     length (t_oauth_access_token d3) = length (t_oauth_access_token d) + 2"
proof -
  obtain code' requested' uri' h' c' d0 where x: "tf_code form = Some code'" "tf_redirect_uri form = Some requested'"
    "matching_redirect_uri e (app_redirect_uri app) requested' = Some uri'"
    "secret_hash (ae_crypto e) (ae_token_pepper e) code' = Inr h'" "find_unconsumed_code d h' (app_id app) uri' = Some c'"
    "td_now w1 < oac_expires_at c'" and d0: "mark_code_consumed (td_consumed_now w1) c' d = Inr d0"
    and t1: "issue_code_token e w1 app form (code_grant c') d d0 = (d1, TokenIssued t1)"
    by (rule authorization_code_grant_issued [OF assms(1)])
  have "find_unconsumed_code d h (app_id app) uri = Some c'"
    using x assms(2-5) by simp
  then have cc: "c' = c" using assms(6) by simp
  note first = issue_code_token_issued [OF t1 [unfolded cc]]
  obtain r where d1: "fk_local d0 (oac_account_id c)" "fk_application d0 (app_id app)"
    "d1 = d0\<lparr>t_oauth_access_token := t_oauth_access_token d0 @ [r]\<rparr>" "tok_token t1 = td_token w1" "tok_scope t1 = oac_scopes c"
    by (rule create_access_token_appends [OF first(2)])
  note d0 = mark_code_consumed_Inr [OF d0 [unfolded cc]]
  have "list_ex (\<lambda>x. oac_id x = oac_id c) (t_oauth_authorization_code d1)"
    using find_unconsumed_SomeD [OF assms(6)] d0 d1(3)
    by (auto simp: list_ex_iff tbl_update_def simp del: if_image_distrib)
  then obtain d2 where d2: "mark_code_consumed (td_consumed_now w2) c d1 = Inr d2"
    by (simp add: mark_code_consumed_def)
  note d2' = mark_code_consumed_Inr [OF d2]
  have "\<exists>d3 t2. create_access_token (ae_crypto e) (td_id w2) (td_token w2) (td_issued_now w2) (ae_token_pepper e)
      (oac_account_id c) (app_id app) (oac_scopes c) d2 = Inr (d3, t2) \<and> tok_token t2 = td_token w2 \<and>
      tok_scope t2 = oac_scopes c \<and> length (t_oauth_access_token d3) = length (t_oauth_access_token d) + 2"
    using assms(7,8) d1 d0 d2' unfolding create_access_token_Inr by (simp add: fk_local_def fk_application_def)
  then show ?thesis
    using first(1) d1(4,5) d2 by (auto simp: issue_code_token_def code_grant_def)
qed

theorem code_exchanged_twice_concurrently_witness:
  "\<exists>d1 t1 d2 d3 t2.
     authorization_code_grant demo_auth_env (demo_token_draws 9 ''t'') (oauth_application_from_model demo_app) demo_form
       demo_oauth_db = (d1, TokenIssued t1) \<and>
     mark_code_consumed 5 demo_code d1 = Inr d2 \<and>
     issue_code_token demo_auth_env (demo_token_draws 10 ''u'') (oauth_application_from_model demo_app) demo_form
       (code_grant demo_code) d1 d2 = (d3, TokenIssued t2) \<and> length (t_oauth_access_token d3) = 2"
proof -
  obtain d1 t1 where run: "authorization_code_grant demo_auth_env (demo_token_draws 9 ''t'') (oauth_application_from_model demo_app)
      demo_form demo_oauth_db = (d1, TokenIssued t1)"
    and toks: "t_oauth_access_token d1 = [\<lparr> oat_id = 9, oat_token_hash = ''t'', oat_account_id = Some 2, oat_application_id = 7,
       oat_scopes = utext ''read'', oat_issued_at = 5, oat_expires_at = None, oat_revoked_at = None \<rparr>]"
    using demo_grant [of "''t''" 9] by auto
  have f: "tf_code demo_form = Some ''k''" "tf_redirect_uri demo_form = Some (utext ''a:b'')"
    "matching_redirect_uri demo_auth_env (app_redirect_uri (oauth_application_from_model demo_app)) (utext ''a:b'') = Some (utext ''a:b'')"
    "secret_hash (ae_crypto demo_auth_env) (ae_token_pepper demo_auth_env) ''k'' = Inr ''k''"
    "find_unconsumed_code demo_oauth_db ''k'' (app_id (oauth_application_from_model demo_app)) (utext ''a:b'') = Some demo_code"
    "secret_hash (ae_crypto demo_auth_env) (ae_token_pepper demo_auth_env) (td_token (demo_token_draws 10 ''u'')) = Inr ''u''"
    using demo_redirect
    by (simp_all add: oauth_application_from_model_def secret_hash_def find_unconsumed_code_def demo_oauth_defs)
  have fresh: "\<forall>x \<in> set (t_oauth_access_token d1). oat_id x \<noteq> td_id (demo_token_draws 10 ''u'') \<and> oat_token_hash x \<noteq> ''u''"
    using toks by (simp add: demo_token_draws_def)
  have "td_consumed_now (demo_token_draws 10 ''u'') = 5" "t_oauth_access_token demo_oauth_db = []"
    by (simp_all add: demo_token_draws_def demo_oauth_db_def empty_db_def)
  then show ?thesis
    using code_exchanged_twice_concurrently [OF run f fresh] run by auto
qed

subsection \<open>Scopes of an authorization\<close>

lemma authorize_approved:
  assumes "account_id_from_session e now cookie = Inr (Some account)" and "find_local_account_by_id d account \<noteq> None"
    and "validate_authorize_request e d params = Inr (app, uri)"
    and "secret_hash (ae_crypto e) (ae_token_pepper e) code = Inr h" and "now + seconds 300 \<le> max_instant"
    and "\<forall>x \<in> set (t_oauth_authorization_code d). oac_id x \<noteq> i \<and> oac_code_hash x \<noteq> h"
  shows "\<exists>c answer. authorize e i code now pg_now cookie params Approve d =
      (d\<lparr>t_oauth_authorization_code := t_oauth_authorization_code d @ [c]\<rparr>, answer) \<and>
    oac_code_hash c = h \<and> oac_account_id c = account \<and> oac_application_id c = app_id app \<and>
    oac_scopes c = (case ap_scope params of None \<Rightarrow> app_scopes app | Some s \<Rightarrow> s)"
proof -
  have "fk_application d (app_id app)"
    using assms(3)
    by (auto simp: validate_authorize_request_def find_oauth_application_by_client_id_def fk_application_def
        list_ex_iff oauth_application_from_model_def dest!: find_Some_mem split: if_splits option.splits)
  moreover have "fk_local d account"
    using assms(2) by (auto simp: find_local_account_by_id_def fk_local_def list_ex_iff find_None_iff)
  ultimately show ?thesis
    using assms by (auto simp: authorize_def create_authorization_code_def checked_add_seconds_def with_fk_def
        tbl_insert_def list_ex_iff oac_conflict_def Let_def)
qed

text \<open>
  An authorization is not limited to the scopes its application registered. Whenever the
  user approves a request, the stored code carries the scopes of the request as they are, even
  when the registered scopes cover none of them; the client credentials grant of the same
  application refuses the same scopes.
\<close>

lemma authorization_exceeds_registered_scopes:
  assumes "account_id_from_session e now cookie = Inr (Some account)" and "find_local_account_by_id d account \<noteq> None"
    and "validate_authorize_request e d params = Inr (app, uri)" and "ap_scope params = Some scope"
    and "secret_hash (ae_crypto e) (ae_token_pepper e) code = Inr h" and "now + seconds 300 \<le> max_instant"
    and "\<forall>x \<in> set (t_oauth_authorization_code d). oac_id x \<noteq> i \<and> oac_code_hash x \<noteq> h"
    and "r \<in> set (split_whitespace scope)" and "\<forall>s \<in> set (split_whitespace (app_scopes app)). \<not> scope_covers s r"
  shows "\<exists>c answer. authorize e i code now pg_now cookie params Approve d =
      (d\<lparr>t_oauth_authorization_code := t_oauth_authorization_code d @ [c]\<rparr>, answer) \<and>
    oac_account_id c = account \<and> oac_application_id c = app_id app \<and> oac_scopes c = scope \<and>
    client_credentials_scopes (Some scope) (app_scopes app) =
      Inl ''requested scope exceeds the application's registered scopes''"
proof -
  have "client_credentials_scopes (Some scope) (app_scopes app) =
      Inl ''requested scope exceeds the application's registered scopes''"
    using assms(8,9) by (auto simp: client_credentials_scopes_def Let_def list_ex_iff)
  then show ?thesis using authorize_approved [OF assms(1-3,5-7)] assms(4) by fastforce
qed

definition demo_params :: authorize_params where
  "demo_params = \<lparr> ap_response_type = ResponseCode, ap_client_id = ''c'', ap_redirect_uri = utext ''a:b'',
     ap_scope = Some (utext ''write''), ap_state = None, ap_code_challenge = None, ap_code_challenge_method = None \<rparr>"

lemma split_whitespace_word:
  "list_all (\<lambda>c. \<not> is_whitespace c) s \<Longrightarrow> s \<noteq> [] \<Longrightarrow> split_whitespace s = [s]"
proof -
  assume s: "list_all (\<lambda>c. \<not> is_whitespace c) s" "s \<noteq> []"
  have "split_ws acc t = [rev acc @ t]" if "list_all (\<lambda>c. \<not> is_whitespace c) t" "acc \<noteq> [] \<or> t \<noteq> []" for acc t
    using that by (induction acc t rule: split_ws.induct) auto
  from this [of s "[]"] s have "split_inclusive_ws s = [s]" by (simp add: split_inclusive_ws_def)
  moreover have "trim_end s = s"
  proof -
    have "dropWhile is_whitespace (rev s) = rev s"
      using s by (auto simp: dropWhile_eq_self_iff hd_rev list_all_iff)
    then show ?thesis by (simp add: trim_end_def)
  qed
  ultimately show "split_whitespace s = [s]" using s by (simp add: split_whitespace_def)
qed

lemma demo_session: "account_id_from_session demo_auth_env 5 (Some (utext ''roosty_session=2.9.29'')) = Inr (Some 2)"
  by (simp add: account_id_from_session_def cookie_values_def split_once_def session_cookie_name_def utext_def
      parse_session_cookie_def trim_def trim_start_def trim_end_def is_whitespace_def List.map_filter_simps
      sign_def demo_auth_env_def parse_i64_def is_digit_def digits_value_def i64_max_def unix_timestamp_def char_of_def bit_0)

subsection \<open>Revocation\<close>

lemma find_active_token_SomeD:
  "find_active_token now d extra h = Some t \<Longrightarrow>
     t \<in> set (t_oauth_access_token d) \<and> oat_token_hash t = h \<and> extra t \<and> oat_revoked_at t = None"
  unfolding find_active_token_def by (auto dest: find_Some_mem split: option.splits if_splits)

lemma revoked_not_active:
  assumes "tbl_ok oat_conflict (t_oauth_access_token d)" and "t \<in> set (t_oauth_access_token d)"
    and "t_oauth_access_token d' = tbl_update (\<lambda>x. oat_id x = oat_id t) (\<lambda>x. x\<lparr>oat_revoked_at := Some now\<rparr>) (t_oauth_access_token d)"
  shows "find_active_token now' d' extra (oat_token_hash t) = None"
proof (rule ccontr)
  assume "find_active_token now' d' extra (oat_token_hash t) \<noteq> None"
  then obtain x where "x \<in> set (t_oauth_access_token d')" "oat_token_hash x = oat_token_hash t" "oat_revoked_at x = None"
    using find_active_token_SomeD by blast
  then obtain y where "y \<in> set (t_oauth_access_token d)" "oat_token_hash y = oat_token_hash t" "oat_id y \<noteq> oat_id t"
    unfolding assms(3) by (auto simp: set_tbl_update)
  then show False
    using oat_tbl.conflict_eq [OF assms(1) _ assms(2)] by (auto simp: oat_conflict_def)
qed

lemma find_update_other:
  assumes "\<And>x. x \<in> set t \<Longrightarrow> p (if q x then f x else x) \<longleftrightarrow> p x" and "\<And>x. x \<in> set t \<Longrightarrow> p x \<Longrightarrow> \<not> q x"
  shows "List.find p (tbl_update q f t) = List.find p t"
  using assms by (induction t) (auto simp: tbl_update_def)

text \<open>
  A revoked token signs nobody in and delivers nothing. After revoking a stored token, it
  resolves to no account, no grant and no application, at any time, and no push subscription
  belongs to it; every other token resolves as before.
\<close>

lemma revoked_token_resolves_to_nothing:
  assumes "revoke_access_token cr now pepper raw d = Inr d'"
    and "secret_hash cr pepper raw = Inr h" and "t \<in> set (t_oauth_access_token d)" and "oat_token_hash t = h"
    and "tbl_ok oat_conflict (t_oauth_access_token d)"
    and "secret_hash cr pepper other = Inr h'" and "h' \<noteq> h"
  shows "find_account_by_access_token cr now' pepper raw d' = Inr None \<and>
         find_access_token_grant cr now' pepper raw d' = Inr None \<and>
         find_application_access_token_grant cr now' pepper raw d' = Inr None \<and>
         (\<forall>s \<in> set (t_push_subscription d'). ps_access_token_id s \<noteq> oat_id t) \<and>
         find_account_by_access_token cr now' pepper other d' = find_account_by_access_token cr now' pepper other d \<and>
         find_access_token_grant cr now' pepper other d' = find_access_token_grant cr now' pepper other d"
proof -
  obtain t' where t': "List.find (\<lambda>x. oat_token_hash x = h) (t_oauth_access_token d) = Some t'"
    using assms(3,4) find_ex_Some [of "\<lambda>x. oat_token_hash x = h"] by blast
  have "t' = t"
    using find_Some_mem [OF t'] oat_tbl.conflict_eq [OF assms(5) _ assms(3)] assms(4) by (auto simp: oat_conflict_def)
  then have d': "d' = d\<lparr>t_push_subscription := tbl_delete (\<lambda>s. ps_access_token_id s = oat_id t) (t_push_subscription d),
      t_oauth_access_token := tbl_update (\<lambda>x. oat_id x = oat_id t) (\<lambda>x. x\<lparr>oat_revoked_at := Some now\<rparr>) (t_oauth_access_token d)\<rparr>"
    using assms(1,2) t' by (simp add: revoke_access_token_def)
  have none: "find_active_token now' d' extra h = None" for extra
    using revoked_not_active [OF assms(5,3), of d' now now' extra] d' assms(4) by simp
  have same: "x = t" if "x \<in> set (t_oauth_access_token d)" "oat_id x = oat_id t" for x
    using that oat_tbl.key_unique [OF assms(5) _ assms(3)] by blast
  have "List.find (\<lambda>x. oat_token_hash x = h' \<and> True \<and> oat_revoked_at x = None)
      (tbl_update (\<lambda>x. oat_id x = oat_id t) (\<lambda>x. x\<lparr>oat_revoked_at := Some now\<rparr>) (t_oauth_access_token d)) =
    List.find (\<lambda>x. oat_token_hash x = h' \<and> True \<and> oat_revoked_at x = None) (t_oauth_access_token d)"
    by (rule find_update_other) (use same assms(4,7) in auto)
  then have "find_active_token now' d' (\<lambda>_. True) h' = find_active_token now' d (\<lambda>_. True) h'"
    unfolding find_active_token_def d' by simp
  moreover have accounts: "find_unsuspended_account d' a = find_unsuspended_account d a" for a
    by (simp add: find_unsuspended_account_def d')
  ultimately have "find_account_by_access_token cr now' pepper other d' = find_account_by_access_token cr now' pepper other d"
    "find_access_token_grant cr now' pepper other d' = find_access_token_grant cr now' pepper other d"
    using assms(6) by (simp_all add: find_account_by_access_token_def find_access_token_grant_def accounts split: option.split)
  then show ?thesis
    using assms(2) none d'
    by (auto simp: find_account_by_access_token_def find_access_token_grant_def find_application_access_token_grant_def)
qed

subsection \<open>Sessions\<close>

declare show_digits.simps [simp del]

lemma show_digits_spec:
  "show_digits n \<noteq> [] \<and> list_all is_digit (show_digits n) \<and> digits_value (show_digits n) = n"
proof (induction n rule: show_digits.induct)
  case (1 n)
  show ?case
  proof (cases "n < 10")
    case True
    then show ?thesis by (subst (1 2 3) show_digits.simps) (simp add: is_digit_def digits_value_def)
  next
    case False
    then have "show_digits n = show_digits (n div 10) @ [48 + n mod 10]" by (subst show_digits.simps) simp
    then show ?thesis
      using 1 [OF False] by (simp add: is_digit_def digits_value_def)
  qed
qed

lemma parse_show_i64: "0 \<le> x \<Longrightarrow> x \<le> i64_max \<Longrightarrow> parse_i64 (show_i64 x) = Some x"
proof -
  assume x: "0 \<le> x" "x \<le> i64_max"
  note s = show_digits_spec [of "nat x"]
  obtain c cs where c: "show_digits (nat x) = c # cs" using s by (cases "show_digits (nat x)") auto
  then have "is_digit c" using s by simp
  then have "c \<noteq> 45" "c \<noteq> 43" by (auto simp: is_digit_def)
  then show "parse_i64 (show_i64 x) = Some x"
    using x s c by (simp add: parse_i64_def show_i64_def i64_max_def Let_def)
qed

lemma show_i64_no_dot: "0 \<le> x \<Longrightarrow> 46 \<notin> set (show_i64 x)"
  using show_digits_spec [of "nat x"] by (auto simp: show_i64_def list_all_iff is_digit_def)

lemma join_split_char: "join [c] (split_char c s) = s"
proof (induction s)
  case (Cons x s)
  obtain w ws where ws: "split_char c s = w # ws" by (cases "split_char c s") auto
  then show ?case using Cons.IH by (cases ws) auto
qed simp

lemma split_char_three:
  "c \<notin> set p \<Longrightarrow> c \<notin> set q \<Longrightarrow> c \<notin> set r \<Longrightarrow> split_char c (p @ c # q @ c # r) = [p, q, r]"
  by (simp add: split_char_append split_char_no_sep)

text \<open>
  A session cookie is good for seven days, and only as it was signed. Parsing the value a
  login set yields its account for the next seven days (in whole seconds) and nothing
  afterwards; and any value that is accepted ends with the signature, under the session secret,
  of the account and expiry it carries. Printing and parsing identifiers are inverse, and
  neither identifiers nor signatures contain a dot.
\<close>

lemma session_cookie_roundtrip:
  assumes "sign e (session_payload e issued account) = Inr signature"
    and "ae_parse_uuid e (ae_show_uuid e account) = Some account"
    and "46 \<notin> set (ae_show_uuid e account)" and "46 \<notin> set signature"
    and "0 \<le> issued" and "issued + seconds (7 * 86400) \<le> max_instant"
  shows "session_cookie e issued account =
           Inr (session_cookie_name @ utext ''='' @ session_payload e issued account @ [46] @ signature @
                utext ''; Path=/; Max-Age=604800; HttpOnly; Secure; SameSite=Lax'') \<and>
         parse_session_cookie e now (session_payload e issued account @ [46] @ signature) =
           Inr (if unix_timestamp now < unix_timestamp issued + 7 * 86400 then Some account else None) \<and>
         (parse_session_cookie e now' given = Inr (Some account') \<longrightarrow>
            (\<exists>p0 p1 p2 expires. given = p0 @ [46] @ p1 @ [46] @ p2 \<and> sign e (p0 @ [46] @ p1) = Inr p2 \<and>
               parse_i64 p1 = Some expires \<and> unix_timestamp now' < expires \<and> ae_parse_uuid e p0 = Some account'))"
proof -
  let ?x = "unix_timestamp (issued + seconds (7 * 86400))"
  have x: "?x = unix_timestamp issued + 7 * 86400" by (simp add: unix_timestamp_def seconds_def)
  have range: "0 \<le> ?x" "?x \<le> i64_max"
    using assms(5,6) by (auto simp: unix_timestamp_def seconds_def i64_max_def max_instant_def)
  have "session_payload e issued account @ [46] @ signature = ae_show_uuid e account @ 46 # show_i64 ?x @ 46 # signature"
    by (simp add: session_payload_def)
  then have parts: "split_char 46 (session_payload e issued account @ [46] @ signature) =
      [ae_show_uuid e account, show_i64 ?x, signature]"
    using split_char_three [of 46] assms(3,4) show_i64_no_dot [OF range(1)] by simp
  have "sign e (ae_show_uuid e account @ [46] @ show_i64 ?x) = Inr signature"
    using assms(1) by (simp add: session_payload_def)
  then have "parse_session_cookie e now (session_payload e issued account @ [46] @ signature) =
      Inr (if unix_timestamp now < unix_timestamp issued + 7 * 86400 then Some account else None)"
    unfolding parse_session_cookie_def parts using parse_show_i64 [OF range] assms(2) x by simp
  moreover have "\<exists>p0 p1 p2 expires. given = p0 @ [46] @ p1 @ [46] @ p2 \<and> sign e (p0 @ [46] @ p1) = Inr p2 \<and>
       parse_i64 p1 = Some expires \<and> unix_timestamp now' < expires \<and> ae_parse_uuid e p0 = Some account'"
    if run: "parse_session_cookie e now' given = Inr (Some account')"
  proof -
    obtain p0 p1 p2 where p: "split_char 46 given = [p0, p1, p2]"
      using run by (auto simp: parse_session_cookie_def split: list.splits)
    then have "given = p0 @ [46] @ p1 @ [46] @ p2" using join_split_char [of 46 given] by simp
    then show ?thesis
      using run p
      by (intro exI [of _ p0] exI [of _ p1] exI [of _ p2])
        (auto simp: parse_session_cookie_def bind_res_Inr_iff split: if_splits option.splits)
  qed
  ultimately show ?thesis
    using assms(1,6) by (simp add: session_cookie_def checked_add_seconds_def)
qed

end
