(* ===== verification/Roosty_Notifications.thy ===== *)
theory Roosty_Notifications
  imports Roosty_Polls Roosty_Registration
begin

text \<open>
  Notifications and the policies that filter them (\<^verbatim>\<open>src/crates/db/src/lib.rs\<close>, lines
  6988-7230, 9559-10888 and 15326-15457, and the hooks of
  \<^verbatim>\<open>src/crates/db/src/entity/local_notification.rs\<close>).

  A notification is shown, held back or dropped. A notification that is held back is stored as
  \<open>filtered\<close>; mentions and quotes open a request of their sender, which collects what the
  sender sent before. Accepting a request permits its sender for the future and leaves the
  release of what is held to a job (\<open>merge_notification_requests\<close>); dismissing it leaves the
  removal to another (\<open>cleanup_notification_requests\<close>).

  The identifiers and clock readings one call draws are the fields of \<open>note_draws\<close>;
  \<open>nd_pg_now\<close> is the clock of the database, which is the same instant within a transaction.
\<close>

record note_draws =
  nd_id_string :: "uuid \<Rightarrow> string"
  nd_notification_id :: uuid
  nd_group_id :: uuid
  nd_request_id :: uuid
  nd_job_id :: "uuid \<Rightarrow> uuid"
  nd_now :: instant
  nd_pg_now :: instant

datatype notification_actor = ActorLocal uuid | ActorRemote uuid

fun actor_local :: "notification_actor \<Rightarrow> uuid option" where
  "actor_local (ActorLocal a) = Some a"
| "actor_local (ActorRemote a) = None"

fun actor_remote :: "notification_actor \<Rightarrow> uuid option" where
  "actor_remote (ActorLocal a) = None"
| "actor_remote (ActorRemote a) = Some a"

subsection \<open>Storing a notification\<close>

text \<open>
  \<open>before_save\<close> joins follows, favourites and boosts of the same target into a group that
  is kept for twelve hours.
\<close>

definition group_target :: "local_notification_row \<Rightarrow> (string \<times> uuid) option" where
  "group_target n =
     (case ln_notification_type n of
        NFollow \<Rightarrow> Some (''account'', ln_account_id n)
      | NFavourite \<Rightarrow>
          (case ln_status_id n of
             Some i \<Rightarrow> Some (''local_status'', i)
           | None \<Rightarrow> map_option (\<lambda>i. (''remote_status'', i)) (ln_remote_status_id n))
      | NReblog \<Rightarrow>
          (case ln_status_id n of
             Some i \<Rightarrow> Some (''local_status'', i)
           | None \<Rightarrow> map_option (\<lambda>i. (''remote_status'', i)) (ln_remote_status_id n))
      | _ \<Rightarrow> None)"

definition merge_group :: "uuid \<Rightarrow> instant \<Rightarrow> notification_group_state_row \<Rightarrow> notification_group_state_row" where
  "merge_group candidate pg_now g =
     (if pg_now - seconds (12 * 3600) < ngs_started_at g then g\<lparr>ngs_updated_at := pg_now\<rparr>
      else g\<lparr>ngs_group_id := candidate, ngs_started_at := pg_now, ngs_updated_at := pg_now\<rparr>)"

definition assign_group :: "note_draws \<Rightarrow> local_notification_row \<Rightarrow> db \<Rightarrow> (db \<times> local_notification_row) result" where
  "assign_group w n d =
     (case group_target n of
        None \<Rightarrow> Inr (d, n)
      | Some (kind, target) \<Rightarrow>
          (let g = \<lparr> ngs_account_id = ln_account_id n, ngs_notification_type = ln_notification_type n,
                     ngs_target_kind = kind, ngs_target_id = target, ngs_group_id = nd_group_id w,
                     ngs_started_at = nd_pg_now w, ngs_updated_at = nd_pg_now w \<rparr>
           in bind_res (with_fk (fk_local d (ln_account_id n))
                (tbl_upsert ngs_conflict ngs_conflict (merge_group (nd_group_id w) (nd_pg_now w)) g
                  (t_notification_group_state d))) (\<lambda>t.
              let group = (case List.find (ngs_conflict g) t of Some x \<Rightarrow> ngs_group_id x | None \<Rightarrow> nd_group_id w)
              in Inr (d\<lparr>t_notification_group_state := t\<rparr>, n\<lparr>ln_group_id := Some group\<rparr>))))"

definition ln_check :: "local_notification_row \<Rightarrow> bool" where
  "ln_check n \<longleftrightarrow>
     ((ln_actor_account_id n = None) \<noteq> (ln_remote_actor_id n = None)) \<and>
     (if ln_notification_type n \<in> {NFollow, NFollowRequest}
      then ln_status_id n = None \<and> ln_remote_status_id n = None \<and> ln_report_id n = None
      else if ln_notification_type n = NAdminReport
      then ln_status_id n = None \<and> ln_remote_status_id n = None \<and> ln_report_id n \<noteq> None
      else ((ln_status_id n = None) \<noteq> (ln_remote_status_id n = None)) \<and> ln_report_id n = None)"

definition fk_opt :: "(uuid \<Rightarrow> bool) \<Rightarrow> uuid option \<Rightarrow> bool" where
  "fk_opt fk x \<longleftrightarrow> (case x of None \<Rightarrow> True | Some i \<Rightarrow> fk i)"

definition fk_request :: "db \<Rightarrow> uuid \<Rightarrow> bool" where
  "fk_request d i \<longleftrightarrow> list_ex (\<lambda>r. nrq_id r = i) (t_notification_request d)"

definition ln_fk :: "db \<Rightarrow> local_notification_row \<Rightarrow> bool" where
  "ln_fk d n \<longleftrightarrow>
     fk_opt (fk_local d) (ln_actor_account_id n) \<and> fk_opt (fk_remote d) (ln_remote_actor_id n) \<and>
     fk_opt (fk_local_status d) (ln_status_id n) \<and> fk_opt (fk_remote_status d) (ln_remote_status_id n) \<and>
     fk_opt (fk_request d) (ln_notification_request_id n)"

definition store_notification ::
  "note_draws \<Rightarrow> local_notification_row \<Rightarrow> db \<Rightarrow> (db \<times> local_notification_row) result" where
  "store_notification w n d =
     bind_res (assign_group w n d) (\<lambda>(d, n).
       if \<not> ln_check n then Inl (Database CheckViolation)
       else if \<not> ln_fk d n then
         bind_res (insert_local_notification (nd_id_string w) (nd_job_id w) (nd_pg_now w) n d)
           (\<lambda>_. Inl (Database ForeignKeyViolation))
       else bind_res (insert_local_notification (nd_id_string w) (nd_job_id w) (nd_pg_now w) n d)
              (\<lambda>d. Inr (d, n)))"

text \<open>The row every notifying function inserts; \<open>before_save\<close> fills in the group.\<close>

definition notification_row ::
  "note_draws \<Rightarrow> uuid \<Rightarrow> local_notification_type \<Rightarrow> notification_actor \<Rightarrow> uuid option \<Rightarrow> uuid option \<Rightarrow>
     bool \<Rightarrow> uuid option \<Rightarrow> local_notification_row" where
  "notification_row w account kind actor status remote_status filtered request =
     \<lparr> ln_id = nd_notification_id w, ln_account_id = account, ln_notification_type = kind,
       ln_actor_account_id = actor_local actor, ln_remote_actor_id = actor_remote actor,
       ln_status_id = status, ln_remote_status_id = remote_status, ln_group_id = None,
       ln_filtered = filtered, ln_notification_request_id = request, ln_report_id = None,
       ln_created_at = nd_now w, ln_dismissed_at = None \<rparr>"

definition notify_local_account ::
  "note_draws \<Rightarrow> uuid \<Rightarrow> local_notification_type \<Rightarrow> uuid \<Rightarrow> uuid option \<Rightarrow> db \<Rightarrow>
     (db \<times> local_notification_row) result" where
  "notify_local_account w account kind actor status d =
     (if account = actor then Inl (InvalidInput ''accounts cannot notify themselves'')
      else case List.find (\<lambda>n. ln_account_id n = account \<and> ln_notification_type n = kind \<and>
                   ln_actor_account_id n = Some actor \<and> ln_status_id n = status) (t_local_notification d) of
             Some existing \<Rightarrow> Inr (d, existing)
           | None \<Rightarrow> store_notification w (notification_row w account kind (ActorLocal actor) status None False None) d)"

subsection \<open>Policies\<close>

definition notification_policy ::
  "instant \<Rightarrow> uuid \<Rightarrow> db \<Rightarrow> (db \<times> local_notification_policy_row) result" where
  "notification_policy now account d =
     (case List.find (\<lambda>p. lnp_account_id p = account) (t_local_notification_policy d) of
        Some p \<Rightarrow> Inr (d, p)
      | None \<Rightarrow>
          bind_res (with_fk (fk_local d account)
            (tbl_insert lnp_conflict (default_notification_policy account now) (t_local_notification_policy d)))
            (\<lambda>t. Inr (d\<lparr>t_local_notification_policy := t\<rparr>, default_notification_policy account now)))"

record notification_policy_update =
  npu_for_not_following :: "notification_policy_action option"
  npu_for_not_followers :: "notification_policy_action option"
  npu_for_new_accounts :: "notification_policy_action option"
  npu_for_private_mentions :: "notification_policy_action option"
  npu_for_limited_accounts :: "notification_policy_action option"

definition or_keep :: "'a option \<Rightarrow> 'a \<Rightarrow> 'a" where
  "or_keep new old = (case new of Some x \<Rightarrow> x | None \<Rightarrow> old)"

definition updated_policy ::
  "instant \<Rightarrow> notification_policy_update \<Rightarrow> local_notification_policy_row \<Rightarrow> local_notification_policy_row" where
  "updated_policy now u p =
     p\<lparr>lnp_for_not_following := or_keep (npu_for_not_following u) (lnp_for_not_following p),
       lnp_for_not_followers := or_keep (npu_for_not_followers u) (lnp_for_not_followers p),
       lnp_for_new_accounts := or_keep (npu_for_new_accounts u) (lnp_for_new_accounts p),
       lnp_for_private_mentions := or_keep (npu_for_private_mentions u) (lnp_for_private_mentions p),
       lnp_for_limited_accounts := or_keep (npu_for_limited_accounts u) (lnp_for_limited_accounts p),
       lnp_updated_at := now\<rparr>"

definition update_notification_policy ::
  "instant \<Rightarrow> uuid \<Rightarrow> notification_policy_update \<Rightarrow> db \<Rightarrow> (db \<times> local_notification_policy_row) result" where
  "update_notification_policy now account u d =
     (case List.find (\<lambda>p. lnp_account_id p = account) (t_local_notification_policy d) of
        None \<Rightarrow> Inl (InvalidInput ''notification policy does not exist'')
      | Some p \<Rightarrow>
          Inr (d\<lparr>t_local_notification_policy :=
                  tbl_update (\<lambda>x. lnp_account_id x = account) (updated_policy now u)
                    (t_local_notification_policy d)\<rparr>, updated_policy now u p))"

fun action_rank :: "notification_policy_action \<Rightarrow> nat" where
  "action_rank PolicyAccept = 0"
| "action_rank PolicyFilter = 1"
| "action_rank PolicyDrop = 2"

text \<open>\<open>max_by_key\<close> keeps the last of the largest elements.\<close>

fun strongest_notification_policy_action :: "notification_policy_action list \<Rightarrow> notification_policy_action" where
  "strongest_notification_policy_action [] = PolicyAccept"
| "strongest_notification_policy_action (a # as) =
     foldl (\<lambda>best b. if action_rank best \<le> action_rank b then b else best) a as"

text \<open>
  The recursive query of \<open>recipient_started_private_thread\<close>. An ancestor is a pair of a
  local and a remote status; its key is the local one if there is one, and a key that is already
  on the path is not visited again. The depth is bounded by 100. Statuses are looked up whether
  deleted or not, and mentions whether still active or not, as in the query.
\<close>

type_synonym thread_node = "uuid option \<times> uuid option"

definition thread_key :: "thread_node \<Rightarrow> (uuid + uuid) option" where
  "thread_key n =
     (case n of (Some l, _) \<Rightarrow> Some (Inl l) | (None, Some r) \<Rightarrow> Some (Inr r) | (None, None) \<Rightarrow> None)"

definition thread_parents :: "db \<Rightarrow> thread_node \<Rightarrow> thread_node list" where
  "thread_parents d n =
     map (\<lambda>s. (ls_in_reply_to_id s, ls_in_reply_to_remote_status_id s))
       (filter (\<lambda>s. fst n = Some (ls_id s)) (t_local_status d)) @
     map (\<lambda>s. (rs_in_reply_to_local_status_id s, rs_in_reply_to_remote_status_id s))
       (filter (\<lambda>s. snd n = Some (rs_id s)) (t_remote_status d))"

primrec thread_ancestors :: "nat \<Rightarrow> db \<Rightarrow> (uuid + uuid) list \<Rightarrow> thread_node \<Rightarrow> thread_node list" where
  "thread_ancestors 0 d path n = [n]"
| "thread_ancestors (Suc k) d path n =
     n # concat (map (\<lambda>m. case thread_key m of
                            None \<Rightarrow> []
                          | Some key \<Rightarrow> if key \<in> set path then [] else thread_ancestors k d (path @ [key]) m)
                  (thread_parents d n))"

definition mentions_actor :: "db \<Rightarrow> uuid \<Rightarrow> notification_actor \<Rightarrow> bool" where
  "mentions_actor d status actor =
     (case actor of
        ActorLocal a \<Rightarrow> list_ex (\<lambda>m. slm_status_id m = status \<and> slm_account_id m = a) (t_status_local_mention d)
      | ActorRemote a \<Rightarrow>
          list_ex (\<lambda>m. srm_status_id m = status \<and> srm_remote_actor_id m = a) (t_status_remote_mention d))"

definition recipient_started_private_thread ::
  "db \<Rightarrow> uuid \<Rightarrow> notification_actor \<Rightarrow> uuid option \<Rightarrow> uuid option \<Rightarrow> bool" where
  "recipient_started_private_thread d recipient actor local_parent remote_parent =
     (case thread_key (local_parent, remote_parent) of
        None \<Rightarrow> False
      | Some key \<Rightarrow>
          list_ex (\<lambda>n. list_ex (\<lambda>s. fst n = Some (ls_id s) \<and> ls_account_id s = recipient \<and>
                        ls_visibility s = Direct \<and> mentions_actor d (ls_id s) actor) (t_local_status d))
            (thread_ancestors 100 d [key] (local_parent, remote_parent)))"

definition days :: "int \<Rightarrow> int" where
  "days n = seconds (n * 86400)"

text \<open>Which rules of a policy apply to senders the recipient does not follow.\<close>

definition stranger_rules ::
  "local_notification_policy_row \<Rightarrow> bool \<Rightarrow> bool \<Rightarrow> bool \<Rightarrow> notification_policy_action list" where
  "stranger_rules p is_new private_mention is_limited =
     (if is_new then [lnp_for_new_accounts p] else []) @
     (if private_mention then [lnp_for_private_mentions p] else []) @
     (if is_limited then [lnp_for_limited_accounts p] else [])"

definition local_notification_policy_action ::
  "instant \<Rightarrow> uuid \<Rightarrow> uuid \<Rightarrow> local_notification_type \<Rightarrow> uuid option \<Rightarrow> db \<Rightarrow>
     (db \<times> notification_policy_action) result" where
  "local_notification_policy_action now recipient actor kind status_id d =
     (if list_ex (\<lambda>p. npm_account_id p = recipient \<and> npm_actor_account_id p = Some actor)
           (t_notification_permission d)
      then Inr (d, PolicyAccept)
      else bind_res (notification_policy now recipient d) (\<lambda>(d, policy).
        case List.find (\<lambda>a. la_id a = actor) (t_local_account d) of
          None \<Rightarrow> Inl (InvalidInput ''notification actor does not exist'')
        | Some a \<Rightarrow>
            bind_res (case status_id of
                        None \<Rightarrow> Inr None
                      | Some i \<Rightarrow>
                          (case List.find (\<lambda>s. ls_id s = i) (t_local_status d) of
                             None \<Rightarrow> Inl (InvalidInput ''notification status does not exist'')
                           | Some s \<Rightarrow> Inr (Some s))) (\<lambda>status.
              let follows = find_local_follow d recipient actor \<noteq> None;
                  actor_follow = find_local_follow d actor recipient;
                  private_mention = (kind = NMention \<and>
                    (case status of
                       None \<Rightarrow> False
                     | Some s \<Rightarrow> ls_visibility s = Direct \<and>
                         \<not> recipient_started_private_thread d recipient (ActorLocal actor)
                              (ls_in_reply_to_id s) (ls_in_reply_to_remote_status_id s)));
                  recent = (case actor_follow of None \<Rightarrow> False | Some f \<Rightarrow> now - days 3 < lf_created_at f)
              in Inr (d, strongest_notification_policy_action
                   ((if follows then [] else [lnp_for_not_following policy]) @
                    (if actor_follow = None then [lnp_for_not_followers policy] else []) @
                    (if follows then []
                     else stranger_rules policy (now - days 30 < la_created_at a) private_mention
                            (la_limited_at a \<noteq> None)) @
                    (if recent then [lnp_for_not_followers policy] else []))))))"

definition remote_notification_policy_action ::
  "instant \<Rightarrow> uuid \<Rightarrow> uuid \<Rightarrow> local_notification_type \<Rightarrow> uuid option \<Rightarrow> db \<Rightarrow>
     (db \<times> notification_policy_action) result" where
  "remote_notification_policy_action now recipient actor kind status_id d =
     (if list_ex (\<lambda>p. npm_account_id p = recipient \<and> npm_remote_actor_id p = Some actor)
           (t_notification_permission d)
      then Inr (d, PolicyAccept)
      else bind_res (notification_policy now recipient d) (\<lambda>(d, policy).
        case List.find (\<lambda>a. ra_id a = actor) (t_remote_actor d) of
          None \<Rightarrow> Inl (InvalidInput ''remote notification actor does not exist'')
        | Some a \<Rightarrow>
            bind_res (case status_id of
                        None \<Rightarrow> Inr None
                      | Some i \<Rightarrow>
                          (case List.find (\<lambda>s. rs_id s = i) (t_remote_status d) of
                             None \<Rightarrow> Inl (InvalidInput ''remote notification status does not exist'')
                           | Some s \<Rightarrow> Inr (Some s))) (\<lambda>status.
              let follows = list_ex (\<lambda>f. rg_local_account_id f = recipient \<and> rg_remote_actor_id f = actor \<and>
                              rg_state f = Accepted \<and> rg_deactivated_at f = None) (t_remote_following d);
                  actor_follow = List.find (\<lambda>f. rf_remote_actor_id f = actor \<and>
                              rf_local_account_id f = recipient \<and> rf_state f = Accepted) (t_remote_follow d);
                  private_mention = (kind = NMention \<and>
                    (case status of
                       None \<Rightarrow> False
                     | Some s \<Rightarrow> rs_visibility s = Direct \<and>
                         \<not> recipient_started_private_thread d recipient (ActorRemote actor)
                              (rs_in_reply_to_local_status_id s) (rs_in_reply_to_remote_status_id s)));
                  no_old_follow = (case actor_follow of None \<Rightarrow> True | Some f \<Rightarrow> now - days 3 < rf_created_at f);
                  created = (case ra_profile_created_at a of Some t \<Rightarrow> t | None \<Rightarrow> ra_created_at a)
              in Inr (d, strongest_notification_policy_action
                   ((if follows then [] else [lnp_for_not_following policy]) @
                    (if no_old_follow then [lnp_for_not_followers policy] else []) @
                    (if follows then []
                     else stranger_rules policy (now - days 30 < created) private_mention
                            (ra_limited_at a \<noteq> None)))))))"

subsection \<open>Requests\<close>

definition of_actor :: "uuid \<Rightarrow> notification_actor \<Rightarrow> local_notification_row \<Rightarrow> bool" where
  "of_actor account actor n \<longleftrightarrow>
     ln_account_id n = account \<and>
     (case actor of ActorLocal a \<Rightarrow> ln_actor_account_id n = Some a | ActorRemote a \<Rightarrow> ln_remote_actor_id n = Some a)"

definition request_of :: "uuid \<Rightarrow> notification_actor \<Rightarrow> local_notification_request_row \<Rightarrow> bool" where
  "request_of account actor r \<longleftrightarrow>
     nrq_account_id r = account \<and>
     (case actor of ActorLocal a \<Rightarrow> nrq_actor_account_id r = Some a | ActorRemote a \<Rightarrow> nrq_remote_actor_id r = Some a)"

definition new_request_row ::
  "note_draws \<Rightarrow> uuid \<Rightarrow> notification_actor \<Rightarrow> uuid \<Rightarrow> local_notification_request_row" where
  "new_request_row w account actor status =
     \<lparr> nrq_id = nd_request_id w, nrq_account_id = account, nrq_actor_account_id = actor_local actor,
       nrq_remote_actor_id = actor_remote actor,
       nrq_last_status_id = (case actor of ActorLocal _ \<Rightarrow> Some status | ActorRemote _ \<Rightarrow> None),
       nrq_last_remote_status_id = (case actor of ActorLocal _ \<Rightarrow> None | ActorRemote _ \<Rightarrow> Some status),
       nrq_state = ReqPending, nrq_created_at = nd_pg_now w, nrq_updated_at = nd_pg_now w \<rparr>"

definition merge_request ::
  "instant \<Rightarrow> local_notification_request_row \<Rightarrow> local_notification_request_row \<Rightarrow> local_notification_request_row" where
  "merge_request pg_now new r =
     r\<lparr>nrq_last_status_id := nrq_last_status_id new,
       nrq_last_remote_status_id := nrq_last_remote_status_id new, nrq_updated_at := pg_now\<rparr>"

definition request_fk :: "db \<Rightarrow> local_notification_request_row \<Rightarrow> bool" where
  "request_fk d r \<longleftrightarrow>
     fk_local d (nrq_account_id r) \<and> fk_opt (fk_local d) (nrq_actor_account_id r) \<and>
     fk_opt (fk_remote d) (nrq_remote_actor_id r) \<and> fk_opt (fk_local_status d) (nrq_last_status_id r) \<and>
     fk_opt (fk_remote_status d) (nrq_last_remote_status_id r)"

definition adopt_notifications ::
  "uuid \<Rightarrow> notification_actor \<Rightarrow> uuid \<Rightarrow> local_notification_row list \<Rightarrow> local_notification_row list" where
  "adopt_notifications account actor request t =
     tbl_update (\<lambda>n. of_actor account actor n \<and> ln_filtered n \<and> ln_notification_request_id n = None)
       (\<lambda>n. n\<lparr>ln_notification_request_id := Some request\<rparr>) t"

definition upsert_notification_request ::
  "note_draws \<Rightarrow> uuid \<Rightarrow> notification_actor \<Rightarrow> uuid \<Rightarrow> db \<Rightarrow> (db \<times> uuid) result" where
  "upsert_notification_request w account actor status d =
     (let new = new_request_row w account actor status;
          request = (case List.find (nrq_active_conflict new) (t_notification_request d) of
                       Some r \<Rightarrow> nrq_id r | None \<Rightarrow> nd_request_id w)
      in bind_res (with_fk (request_fk d new)
           (tbl_upsert nrq_active_conflict nrq_conflict (merge_request (nd_pg_now w) new) new
             (t_notification_request d))) (\<lambda>t.
         Inr (d\<lparr>t_notification_request := t,
                t_local_notification := adopt_notifications account actor request (t_local_notification d)\<rparr>,
              request)))"

definition active_notification_request_id :: "db \<Rightarrow> uuid \<Rightarrow> notification_actor \<Rightarrow> uuid option" where
  "active_notification_request_id d account actor =
     map_option nrq_id (List.find (\<lambda>r. request_of account actor r \<and> nrq_active r) (t_notification_request d))"

subsection \<open>Notifying\<close>

text \<open>
  What the notifying functions do once the policy has spoken: a dropped notification is not
  stored, one that is held back is stored under the request of its sender, and
  \<open>opens_request\<close> says whether it opens or renews that request.
\<close>

definition store_by_policy ::
  "note_draws \<Rightarrow> uuid \<Rightarrow> local_notification_type \<Rightarrow> notification_actor \<Rightarrow> uuid option \<Rightarrow> uuid option \<Rightarrow>
     uuid option \<Rightarrow> db \<times> notification_policy_action \<Rightarrow> (db \<times> local_notification_row option) result" where
  "store_by_policy w account kind actor status remote_status opens_request decision =
     (case decision of (d, action) \<Rightarrow>
        if action = PolicyDrop then Inr (d, None)
        else bind_res
          (if action = PolicyFilter
           then (case opens_request of
                   Some s \<Rightarrow> bind_res (upsert_notification_request w account actor s d) (\<lambda>(d, r). Inr (d, Some r))
                 | None \<Rightarrow> Inr (d, active_notification_request_id d account actor))
           else Inr (d, None)) (\<lambda>(d, request).
          bind_res (store_notification w
             (notification_row w account kind actor status remote_status (action = PolicyFilter) request) d)
             (\<lambda>(d, n). Inr (d, Some n))))"

definition filterable :: "local_notification_type \<Rightarrow> bool" where
  "filterable kind \<longleftrightarrow> kind \<in> {NMention, NReblog, NFollow, NFollowRequest, NFavourite, NQuote}"

definition notify_local_account_with_policy ::
  "note_draws \<Rightarrow> uuid \<Rightarrow> local_notification_type \<Rightarrow> uuid \<Rightarrow> uuid option \<Rightarrow> db \<Rightarrow>
     (db \<times> local_notification_row option) result" where
  "notify_local_account_with_policy w account kind actor status d =
     (if account = actor \<or> \<not> local_account_allows_notification (nd_now w) d account actor then Inr (d, None)
      else if \<not> filterable kind then
        bind_res (notify_local_account w account kind actor status d) (\<lambda>(d, n). Inr (d, Some n))
      else case List.find (\<lambda>n. ln_account_id n = account \<and> ln_notification_type n = kind \<and>
                   ln_actor_account_id n = Some actor \<and> ln_status_id n = status) (t_local_notification d) of
             Some existing \<Rightarrow> Inr (d, Some existing)
           | None \<Rightarrow>
               bind_res (local_notification_policy_action (nd_now w) account actor kind status d)
                 (store_by_policy w account kind (ActorLocal actor) status None
                    (if kind \<in> {NMention, NQuote} then status else None)))"

text \<open>Mentions and quotes report a notification only when it is shown.\<close>

definition shown_only :: "db \<times> local_notification_row option \<Rightarrow> db \<times> local_notification_row option" where
  "shown_only r = (fst r, Option.bind (snd r) (\<lambda>n. if ln_filtered n then None else Some n))"

definition notify_local_status_event ::
  "local_notification_type \<Rightarrow> note_draws \<Rightarrow> uuid \<Rightarrow> uuid \<Rightarrow> uuid \<Rightarrow> db \<Rightarrow>
     (db \<times> local_notification_row option) result" where
  "notify_local_status_event kind w account actor status d =
     (if account = actor \<or> \<not> local_account_allows_notification (nd_now w) d account actor then Inr (d, None)
      else case List.find (\<lambda>n. ln_account_id n = account \<and> ln_notification_type n = kind \<and>
                   ln_actor_account_id n = Some actor \<and> ln_status_id n = Some status) (t_local_notification d) of
             Some existing \<Rightarrow> Inr (shown_only (d, Some existing))
           | None \<Rightarrow>
               bind_res (local_notification_policy_action (nd_now w) account actor kind (Some status) d)
                 (\<lambda>r. bind_res (store_by_policy w account kind (ActorLocal actor) (Some status) None (Some status) r)
                        (\<lambda>r. Inr (shown_only r))))"

definition notify_local_status_mention where
  "notify_local_status_mention = notify_local_status_event NMention"

definition notify_local_status_quote where
  "notify_local_status_quote = notify_local_status_event NQuote"

definition notify_remote_status_event ::
  "local_notification_type \<Rightarrow> note_draws \<Rightarrow> uuid \<Rightarrow> uuid \<Rightarrow> uuid \<Rightarrow> db \<Rightarrow>
     (db \<times> local_notification_row option) result" where
  "notify_remote_status_event kind w account actor remote_status d =
     (if \<not> remote_account_allows_notification (nd_now w) d account actor then Inr (d, None)
      else case List.find (\<lambda>n. ln_account_id n = account \<and> ln_notification_type n = kind \<and>
                   ln_remote_actor_id n = Some actor \<and> ln_remote_status_id n = Some remote_status)
                   (t_local_notification d) of
             Some existing \<Rightarrow> Inr (shown_only (d, Some existing))
           | None \<Rightarrow>
               bind_res (remote_notification_policy_action (nd_now w) account actor kind (Some remote_status) d)
                 (\<lambda>r. bind_res (store_by_policy w account kind (ActorRemote actor) None (Some remote_status)
                          (Some remote_status) r)
                        (\<lambda>r. Inr (shown_only r))))"

definition notify_remote_status_mention where
  "notify_remote_status_mention = notify_remote_status_event NMention"

definition notify_remote_actor_quote where
  "notify_remote_actor_quote = notify_remote_status_event NQuote"

definition notify_remote_actor_follow ::
  "note_draws \<Rightarrow> uuid \<Rightarrow> uuid \<Rightarrow> local_notification_type \<Rightarrow> db \<Rightarrow> (db \<times> local_notification_row option) result" where
  "notify_remote_actor_follow w account actor kind d =
     (if \<not> remote_account_allows_notification (nd_now w) d account actor then Inr (d, None)
      else if kind \<notin> {NFollow, NFollowRequest} then Inl (InvalidInput ''remote actor notification type is invalid'')
      else if list_ex (\<lambda>n. ln_account_id n = account \<and> ln_notification_type n = kind \<and>
                ln_remote_actor_id n = Some actor \<and> ln_status_id n = None \<and> ln_remote_status_id n = None)
                (t_local_notification d) then Inr (d, None)
      else bind_res (remote_notification_policy_action (nd_now w) account actor kind None d)
             (store_by_policy w account kind (ActorRemote actor) None None None))"

definition notify_remote_actor_favourite ::
  "note_draws \<Rightarrow> uuid \<Rightarrow> uuid \<Rightarrow> uuid \<Rightarrow> db \<Rightarrow> (db \<times> local_notification_row option) result" where
  "notify_remote_actor_favourite w account actor status d =
     (case List.find (\<lambda>n. ln_account_id n = account \<and> ln_notification_type n = NFavourite \<and>
             ln_remote_actor_id n = Some actor \<and> ln_status_id n = Some status) (t_local_notification d) of
        Some existing \<Rightarrow> Inr (d, Some existing)
      | None \<Rightarrow>
          if \<not> remote_account_allows_notification (nd_now w) d account actor then Inr (d, None)
          else bind_res (remote_notification_policy_action (nd_now w) account actor NFavourite None d)
                 (store_by_policy w account NFavourite (ActorRemote actor) (Some status) None None))"

definition notify_remote_actor_reblog ::
  "note_draws \<Rightarrow> uuid \<Rightarrow> uuid \<Rightarrow> uuid \<Rightarrow> db \<Rightarrow> (db \<times> local_notification_row option) result" where
  "notify_remote_actor_reblog w account actor status d =
     (if \<not> remote_account_allows_notification (nd_now w) d account actor then Inr (d, None)
      else if list_ex (\<lambda>n. ln_account_id n = account \<and> ln_notification_type n = NReblog \<and>
             ln_remote_actor_id n = Some actor \<and> ln_status_id n = Some status) (t_local_notification d)
           then Inr (d, None)
      else bind_res (remote_notification_policy_action (nd_now w) account actor NReblog None d)
             (store_by_policy w account NReblog (ActorRemote actor) (Some status) None None))"

subsection \<open>Reading and dismissing\<close>

definition shown_notification :: "uuid \<Rightarrow> local_notification_row \<Rightarrow> bool" where
  "shown_notification account n \<longleftrightarrow>
     ln_account_id n = account \<and> ln_dismissed_at n = None \<and> \<not> ln_filtered n"

record notification_filter =
  nf_include_types :: "local_notification_type list"
  nf_exclude_types :: "local_notification_type list"
  nf_account_id :: "uuid option"
  nf_include_filtered :: bool

definition filter_accepts :: "uuid list \<Rightarrow> notification_filter \<Rightarrow> uuid \<Rightarrow> local_notification_row \<Rightarrow> bool" where
  "filter_accepts hidden f account n \<longleftrightarrow>
     ln_account_id n = account \<and> ln_dismissed_at n = None \<and>
     (nf_include_filtered f \<or> \<not> ln_filtered n) \<and>
     (case ln_remote_actor_id n of None \<Rightarrow> True | Some a \<Rightarrow> a \<notin> set hidden) \<and>
     (nf_include_types f = [] \<or> ln_notification_type n \<in> set (nf_include_types f)) \<and>
     (nf_exclude_types f = [] \<or> ln_notification_type n \<notin> set (nf_exclude_types f)) \<and>
     (case nf_account_id f of
        None \<Rightarrow> True
      | Some a \<Rightarrow> ln_actor_account_id n = Some a \<or> ln_remote_actor_id n = Some a)"

definition local_notifications_for_account ::
  "instant \<Rightarrow> db \<Rightarrow> uuid \<Rightarrow> nat \<Rightarrow> collection_cursor \<Rightarrow> notification_filter \<Rightarrow>
     local_notification_row collection_page" where
  "local_notifications_for_account now d account limit cursor f =
     (let (rows, has_more) = query_page ln_id cursor limit
            (filter (filter_accepts (hidden_remote_actor_ids_for_account now d account) f account)
               (t_local_notification d))
      in \<lparr> cp_items = rows, cp_first_cursor = first_of ln_id rows, cp_last_cursor = last_of ln_id rows,
           cp_has_more = has_more \<rparr>)"

definition find_local_notification_for_account :: "db \<Rightarrow> uuid \<Rightarrow> uuid \<Rightarrow> local_notification_row option" where
  "find_local_notification_for_account d account i =
     List.find (\<lambda>n. ln_id n = i \<and> shown_notification account n) (t_local_notification d)"

definition dismiss_rows :: "instant \<Rightarrow> (local_notification_row \<Rightarrow> bool) \<Rightarrow> db \<Rightarrow> db" where
  "dismiss_rows now p d =
     d\<lparr>t_local_notification := tbl_update p (\<lambda>n. n\<lparr>ln_dismissed_at := Some now\<rparr>) (t_local_notification d)\<rparr>"

definition dismiss_local_notification :: "instant \<Rightarrow> uuid \<Rightarrow> uuid \<Rightarrow> db \<Rightarrow> db \<times> bool" where
  "dismiss_local_notification now account i d =
     (case find_local_notification_for_account d account i of
        None \<Rightarrow> (d, False)
      | Some n \<Rightarrow> (dismiss_rows now (\<lambda>x. ln_id x = ln_id n) d, True))"

definition clear_local_notifications :: "instant \<Rightarrow> uuid \<Rightarrow> db \<Rightarrow> db" where
  "clear_local_notifications now account d =
     foldl (\<lambda>d n. dismiss_rows now (\<lambda>x. ln_id x = ln_id n) d) d
       (filter (shown_notification account) (t_local_notification d))"

definition notification_unread_count :: "db \<Rightarrow> uuid \<Rightarrow> uuid option \<Rightarrow> nat" where
  "notification_unread_count d account since_id =
     length (filter (\<lambda>n. shown_notification account n \<and>
                (case since_id of None \<Rightarrow> True | Some s \<Rightarrow> s < ln_id n)) (t_local_notification d))"

text \<open>
  Groups are addressed by a key: the type and group of notifications that were joined, or the
  identifier of a single one. \<open>parse_uuid\<close> is the parser of the \<^verbatim>\<open>uuid\<close> crate.
\<close>

definition parse_notification_group_key ::
  "(ustring \<Rightarrow> uuid option) \<Rightarrow> ustring \<Rightarrow> (local_notification_type option \<times> uuid) option" where
  "parse_notification_group_key parse_uuid key =
     (case strip_prefix (utext ''ungrouped-'') key of
        Some i \<Rightarrow> map_option (\<lambda>i. (None, i)) (parse_uuid i)
      | None \<Rightarrow>
          (case strip_prefix (utext ''favourite-'') key of
             Some i \<Rightarrow> map_option (\<lambda>i. (Some NFavourite, i)) (parse_uuid i)
           | None \<Rightarrow>
               (case strip_prefix (utext ''follow-'') key of
                  Some i \<Rightarrow> map_option (\<lambda>i. (Some NFollow, i)) (parse_uuid i)
                | None \<Rightarrow>
                    (case strip_prefix (utext ''reblog-'') key of
                       Some i \<Rightarrow> map_option (\<lambda>i. (Some NReblog, i)) (parse_uuid i)
                     | None \<Rightarrow> None))))"

definition in_group :: "local_notification_type option \<Rightarrow> uuid \<Rightarrow> local_notification_row \<Rightarrow> bool" where
  "in_group kind i n \<longleftrightarrow>
     (case kind of
        Some k \<Rightarrow> ln_notification_type n = k \<and> ln_group_id n = Some i
      | None \<Rightarrow> ln_id n = i)"

definition notifications_in_group ::
  "(ustring \<Rightarrow> uuid option) \<Rightarrow> instant \<Rightarrow> db \<Rightarrow> uuid \<Rightarrow> ustring \<Rightarrow> local_notification_row list" where
  "notifications_in_group parse_uuid now d account key =
     (case parse_notification_group_key parse_uuid key of
        None \<Rightarrow> []
      | Some (kind, i) \<Rightarrow>
          (let hidden = hidden_remote_actor_ids_for_account now d account
           in order_by_desc ln_id
                (filter (\<lambda>n. shown_notification account n \<and> in_group kind i n \<and>
                     (case ln_remote_actor_id n of None \<Rightarrow> True | Some a \<Rightarrow> a \<notin> set hidden))
                   (t_local_notification d))))"

definition dismiss_notification_group ::
  "(ustring \<Rightarrow> uuid option) \<Rightarrow> instant \<Rightarrow> instant \<Rightarrow> uuid \<Rightarrow> ustring \<Rightarrow> db \<Rightarrow> db \<times> bool" where
  "dismiss_notification_group parse_uuid now now' account key d =
     (let rows = notifications_in_group parse_uuid now d account key
      in if rows = [] then (d, False)
         else (dismiss_rows now' (\<lambda>n. ln_id n \<in> set (map ln_id rows)) d, True))"

subsection \<open>Answering requests\<close>

record notification_request =
  nr_id :: uuid
  nr_account_id :: uuid
  nr_actor :: notification_actor
  nr_last_status_id :: "uuid option"
  nr_last_remote_status_id :: "uuid option"
  nr_notifications_count :: nat
  nr_created_at :: instant
  nr_updated_at :: instant

definition notification_request_from_row ::
  "db \<Rightarrow> local_notification_request_row \<Rightarrow> notification_request result" where
  "notification_request_from_row d r =
     bind_res (case (nrq_actor_account_id r, nrq_remote_actor_id r) of
                 (Some i, None) \<Rightarrow> Inr (ActorLocal i)
               | (None, Some i) \<Rightarrow> Inr (ActorRemote i)
               | _ \<Rightarrow> Inl (InvalidInput ''stored notification request actor is invalid'')) (\<lambda>actor.
       Inr \<lparr> nr_id = nrq_id r, nr_account_id = nrq_account_id r, nr_actor = actor,
             nr_last_status_id = nrq_last_status_id r, nr_last_remote_status_id = nrq_last_remote_status_id r,
             nr_notifications_count =
               length (filter (\<lambda>n. ln_notification_request_id n = Some (nrq_id r)) (t_local_notification d)),
             nr_created_at = nrq_created_at r, nr_updated_at = nrq_updated_at r \<rparr>)"

definition notification_requests_for_account ::
  "db \<Rightarrow> uuid \<Rightarrow> nat \<Rightarrow> collection_cursor \<Rightarrow> notification_request collection_page result" where
  "notification_requests_for_account d account limit cursor =
     (let (rows, has_more) = query_page nrq_id cursor limit
            (filter (\<lambda>r. nrq_account_id r = account \<and> nrq_state r = ReqPending) (t_notification_request d))
      in bind_res (map_res (notification_request_from_row d) rows) (\<lambda>items.
           Inr \<lparr> cp_items = items, cp_first_cursor = first_of nrq_id rows, cp_last_cursor = last_of nrq_id rows,
                 cp_has_more = has_more \<rparr>))"

definition notification_request_summary :: "db \<Rightarrow> uuid \<Rightarrow> nat \<times> nat" where
  "notification_request_summary d account =
     (length (filter (\<lambda>r. nrq_account_id r = account \<and> nrq_state r = ReqPending) (t_notification_request d)),
      length (filter (\<lambda>n. ln_account_id n = account \<and> ln_filtered n \<and> ln_dismissed_at n = None)
        (t_local_notification d)))"

definition find_notification_request_for_account ::
  "db \<Rightarrow> uuid \<Rightarrow> uuid \<Rightarrow> notification_request option result" where
  "find_notification_request_for_account d account request =
     (case List.find (\<lambda>r. nrq_id r = request \<and> nrq_account_id r = account \<and> nrq_state r = ReqPending)
             (t_notification_request d) of
        None \<Rightarrow> Inr None
      | Some r \<Rightarrow> bind_res (notification_request_from_row d r) (\<lambda>x. Inr (Some x)))"

definition pending_requests :: "db \<Rightarrow> uuid \<Rightarrow> uuid list \<Rightarrow> local_notification_request_row list" where
  "pending_requests d account request_ids =
     filter (\<lambda>r. nrq_account_id r = account \<and> nrq_state r = ReqPending \<and>
                 (request_ids = [] \<or> nrq_id r \<in> set request_ids)) (t_notification_request d)"

definition permission_row :: "(uuid \<Rightarrow> uuid) \<Rightarrow> instant \<Rightarrow> uuid \<Rightarrow> local_notification_request_row \<Rightarrow>
    local_notification_permission_row" where
  "permission_row new_id pg_now account r =
     \<lparr> npm_id = new_id (nrq_id r), npm_account_id = account, npm_actor_account_id = nrq_actor_account_id r,
       npm_remote_actor_id = (if nrq_actor_account_id r \<noteq> None then None else nrq_remote_actor_id r),
       npm_created_at = pg_now \<rparr>"

text \<open>
  The insertion of a permission passes over an existing one; the accepting account and the
  sender exist, as a request of them does.
\<close>

fun grant_permissions ::
  "(uuid \<Rightarrow> uuid) \<Rightarrow> instant \<Rightarrow> uuid \<Rightarrow> local_notification_request_row list \<Rightarrow>
     local_notification_permission_row list \<Rightarrow> local_notification_permission_row list result" where
  "grant_permissions new_id pg_now account [] t = Inr t"
| "grant_permissions new_id pg_now account (r # rs) t =
     (if nrq_actor_account_id r = None \<and> nrq_remote_actor_id r = None
      then Inl (InvalidInput ''notification request actor is invalid'')
      else bind_res (db_result (tbl_insert_unless npm_pair_conflict npm_conflict
                (permission_row new_id pg_now account r) t))
             (\<lambda>(t, _). grant_permissions new_id pg_now account rs t))"

definition set_request_state ::
  "instant \<Rightarrow> notification_request_state \<Rightarrow> uuid list \<Rightarrow> local_notification_request_row list \<Rightarrow>
     local_notification_request_row list" where
  "set_request_state now state ids t =
     tbl_update (\<lambda>r. nrq_id r \<in> set ids) (\<lambda>r. r\<lparr>nrq_state := state, nrq_updated_at := now\<rparr>) t"

definition request_job :: "job_kind \<Rightarrow> string \<Rightarrow> (uuid \<Rightarrow> string) \<Rightarrow> instant \<Rightarrow> uuid \<Rightarrow> new_job" where
  "request_job kind prefix id_string now account =
     \<lparr> nj_kind = kind, nj_payload = JObj [(''account_id'', JStr (id_string account))],
       nj_deduplication_key = Some (prefix @ id_string account), nj_run_after = now \<rparr>"

record answer_draws =
  ad_id_string :: "uuid \<Rightarrow> string"
  ad_permission_id :: "uuid \<Rightarrow> uuid"
  ad_job_id :: uuid
  ad_now :: instant
  ad_pg_now :: instant

definition accept_notification_requests ::
  "answer_draws \<Rightarrow> uuid \<Rightarrow> uuid list \<Rightarrow> db \<Rightarrow> (db \<times> bool) result" where
  "accept_notification_requests w account request_ids d =
     (let requests = pending_requests d account request_ids
      in if requests = [] \<or> (request_ids \<noteq> [] \<and> length requests \<noteq> length request_ids) then Inr (d, False)
         else bind_res (grant_permissions (ad_permission_id w) (ad_pg_now w) account requests
                (t_notification_permission d)) (\<lambda>permissions.
           bind_res (enqueue_only (ad_job_id w) (ad_pg_now w)
               (request_job NotificationRequestMerge ''notification-request-merge:'' (ad_id_string w) (ad_now w) account)
               (d\<lparr>t_notification_permission := permissions,
                  t_notification_request := set_request_state (ad_now w) ReqMerging (map nrq_id requests)
                    (t_notification_request d)\<rparr>)) (\<lambda>d. Inr (d, True))))"

definition dismiss_notification_requests ::
  "answer_draws \<Rightarrow> uuid \<Rightarrow> uuid list \<Rightarrow> db \<Rightarrow> (db \<times> bool) result" where
  "dismiss_notification_requests w account request_ids d =
     (let requests = pending_requests d account request_ids
      in if requests = [] \<or> (request_ids \<noteq> [] \<and> length requests \<noteq> length request_ids) then Inr (d, False)
         else bind_res (enqueue_only (ad_job_id w) (ad_pg_now w)
               (request_job NotificationRequestCleanup ''notification-request-cleanup:'' (ad_id_string w) (ad_now w) account)
               (d\<lparr>t_notification_request := set_request_state (ad_now w) ReqDismissed (map nrq_id requests)
                    (t_notification_request d)\<rparr>)) (\<lambda>d. Inr (d, True)))"

definition notification_requests_merged :: "db \<Rightarrow> uuid \<Rightarrow> bool" where
  "notification_requests_merged d account \<longleftrightarrow>
     \<not> list_ex (\<lambda>r. nrq_account_id r = account \<and> nrq_state r = ReqMerging) (t_notification_request d)"

definition requests_in_state :: "notification_request_state \<Rightarrow> db \<Rightarrow> uuid \<Rightarrow> uuid list" where
  "requests_in_state state d account =
     map nrq_id (filter (\<lambda>r. nrq_account_id r = account \<and> nrq_state r = state) (t_notification_request d))"

text \<open>
  Deleting a request clears the references to it that are left (\<open>ON DELETE SET NULL\<close>).
\<close>

definition of_requests :: "uuid list \<Rightarrow> local_notification_row \<Rightarrow> bool" where
  "of_requests ids n \<longleftrightarrow> (case ln_notification_request_id n of None \<Rightarrow> False | Some i \<Rightarrow> i \<in> set ids)"

definition delete_requests :: "uuid list \<Rightarrow> db \<Rightarrow> db" where
  "delete_requests ids d =
     d\<lparr>t_notification_request := tbl_delete (\<lambda>r. nrq_id r \<in> set ids) (t_notification_request d),
       t_local_notification := tbl_update (of_requests ids) (\<lambda>n. n\<lparr>ln_notification_request_id := None\<rparr>)
         (t_local_notification d)\<rparr>"

definition merge_notification_requests :: "uuid \<Rightarrow> db \<Rightarrow> db" where
  "merge_notification_requests account d =
     (let ids = requests_in_state ReqMerging d account
      in if ids = [] then d
         else delete_requests ids
           (d\<lparr>t_local_notification := tbl_update (of_requests ids)
                (\<lambda>n. n\<lparr>ln_filtered := False, ln_notification_request_id := None\<rparr>) (t_local_notification d)\<rparr>))"

definition cleanup_notification_requests :: "uuid \<Rightarrow> db \<Rightarrow> db" where
  "cleanup_notification_requests account d =
     (let ids = requests_in_state ReqDismissed d account
      in if ids = [] then d
         else delete_requests ids
           (d\<lparr>t_local_notification := tbl_delete (of_requests ids) (t_local_notification d)\<rparr>))"

end
