(* ===== verification/Roosty_Interactions.thy ===== *)
theory Roosty_Interactions
  imports Roosty_Notifications
begin

text \<open>
  Favourites, bookmarks and boosts: who may see a status, the rows the interactions store, the
  counters behind the trends, and the API operation that combines them
  (\<^verbatim>\<open>src/crates/db/src/lib.rs\<close>, lines 5048-5184 and 16720-18150, and
  \<^verbatim>\<open>src/crates/server/src/statuses.rs\<close>, lines 3433-3790).

  Operations that run in the transaction of their caller return the new database or an error.
  Some open a transaction but send their statements to the connection they were given, so that
  each statement takes effect by itself; these return the database they leave behind together
  with the result.
\<close>

subsection \<open>Visibility\<close>

definition find_local_status_by_id :: "db \<Rightarrow> uuid \<Rightarrow> local_status_row option" where
  "find_local_status_by_id d i =
     List.find (\<lambda>s. ls_id s = i \<and> ls_deleted_at s = None) (t_local_status d)"

definition find_remote_status_by_id :: "db \<Rightarrow> uuid \<Rightarrow> remote_status_row option" where
  "find_remote_status_by_id d i =
     List.find (\<lambda>s. rs_id s = i \<and> rs_deleted_at s = None) (t_remote_status d)"

definition remote_status_local_recipients :: "db \<Rightarrow> uuid \<Rightarrow> uuid list" where
  "remote_status_local_recipients d i =
     map rslr_account_id (filter (\<lambda>r. rslr_remote_status_id r = i) (t_remote_status_local_recipient d))"

definition local_status_local_recipients :: "db \<Rightarrow> uuid \<Rightarrow> uuid list" where
  "local_status_local_recipients d i =
     map slr_account_id (filter (\<lambda>r. slr_status_id r = i) (t_status_local_recipient d))"

definition local_status_visible_to_account :: "db \<Rightarrow> local_status_row \<Rightarrow> uuid \<Rightarrow> bool" where
  "local_status_visible_to_account d s account =
     (if ls_visibility s \<in> {Public, Unlisted} \<or> ls_account_id s = account then True
      else if ls_visibility s = Private \<and>
              list_ex (\<lambda>f. lf_follower_account_id f = account \<and> lf_followed_account_id f = ls_account_id s)
                (t_local_follow d) then True
      else if ls_visibility s \<noteq> Private \<and> ls_visibility s \<noteq> Direct then False
      else list_ex (\<lambda>r. slr_status_id r = ls_id s \<and> slr_account_id r = account) (t_status_local_recipient d))"

definition remote_status_visible_to_account :: "db \<Rightarrow> remote_status_row \<Rightarrow> uuid \<Rightarrow> bool" where
  "remote_status_visible_to_account d s account =
     (if find_local_remote_account_block d account (rs_remote_actor_id s) \<noteq> None then False
      else if rs_visibility s \<in> {Public, Unlisted} then True
      else if rs_visibility s = Private \<and>
              list_ex (\<lambda>f. rg_local_account_id f = account \<and> rg_remote_actor_id f = rs_remote_actor_id s \<and>
                           rg_state f = Accepted \<and> rg_deactivated_at f = None) (t_remote_following d) then True
      else if rs_visibility s \<noteq> Private \<and> rs_visibility s \<noteq> Direct then False
      else list_ex (\<lambda>r. rslr_remote_status_id r = rs_id s \<and> rslr_account_id r = account)
             (t_remote_status_local_recipient d))"

definition can_view_status :: "local_status_row \<Rightarrow> uuid option \<Rightarrow> bool" where
  "can_view_status s viewer \<longleftrightarrow> ls_visibility s \<in> {Public, Unlisted} \<or> viewer = Some (ls_account_id s)"

definition status_visible_to_viewer :: "db \<Rightarrow> local_status_row \<Rightarrow> uuid option \<Rightarrow> bool" where
  "status_visible_to_viewer d s viewer =
     (case viewer of
        None \<Rightarrow> can_view_status s None
      | Some v \<Rightarrow>
          if v \<noteq> ls_account_id s \<and> local_accounts_are_blocked d v (ls_account_id s) then False
          else if can_view_status s (Some v) then True
          else local_status_visible_to_account d s v)"

definition visible_status_for_account :: "db \<Rightarrow> uuid \<Rightarrow> uuid \<Rightarrow> local_status_row option" where
  "visible_status_for_account d status account =
     (case find_local_status_by_id d status of
        Some s \<Rightarrow> if status_visible_to_viewer d s (Some account) then Some s else None
      | None \<Rightarrow> None)"

subsection \<open>Trend counters\<close>

datatype trend_target = TrendLocalStatus uuid | TrendRemoteStatus uuid | TrendTag uuid

fun persisted :: "trend_target \<Rightarrow> string \<times> uuid" where
  "persisted (TrendLocalStatus i) = (''local_status'', i)"
| "persisted (TrendRemoteStatus i) = (''remote_status'', i)"
| "persisted (TrendTag i) = (''tag'', i)"

definition mark_trend_dirty :: "instant \<Rightarrow> string \<Rightarrow> uuid \<Rightarrow> db \<Rightarrow> db result" where
  "mark_trend_dirty pg_now kind target d =
     bind_res (db_result (tbl_upsert tdy_conflict tdy_conflict (\<lambda>r. r\<lparr>tdy_touched_at := pg_now\<rparr>)
         \<lparr> tdy_kind = kind, tdy_target_id = target, tdy_touched_at = pg_now \<rparr> (t_trend_dirty d)))
       (\<lambda>t. Inr (d\<lparr>t_trend_dirty := t\<rparr>))"

text \<open>
  The counters are \<^verbatim>\<open>bigint\<close> columns: a sum beyond their range fails. Nothing is stored for a
  status that does not exist, because the inserted row is selected from its table.
\<close>

definition metric_key :: "trend_target \<Rightarrow> uuid option \<times> uuid option" where
  "metric_key target =
     (case target of
        TrendLocalStatus i \<Rightarrow> (Some i, None) | TrendRemoteStatus i \<Rightarrow> (None, Some i) | TrendTag _ \<Rightarrow> (None, None))"

definition published_at :: "db \<Rightarrow> trend_target \<Rightarrow> instant option" where
  "published_at d target =
     (case target of
        TrendLocalStatus i \<Rightarrow> map_option ls_created_at (List.find (\<lambda>s. ls_id s = i) (t_local_status d))
      | TrendRemoteStatus i \<Rightarrow> map_option rs_published_at (List.find (\<lambda>s. rs_id s = i) (t_remote_status d))
      | TrendTag _ \<Rightarrow> None)"

definition fits_bigint :: "int \<Rightarrow> bool" where
  "fits_bigint x \<longleftrightarrow> - i64_max - 1 \<le> x \<and> x \<le> i64_max"

definition new_metric :: "instant \<Rightarrow> uuid option \<times> uuid option \<Rightarrow> instant \<Rightarrow> int \<Rightarrow> int \<Rightarrow> status_trend_metric_row" where
  "new_metric pg_now key p f b =
     \<lparr> stm_local_status_id = fst key, stm_remote_status_id = snd key, stm_favourites_count = max f 0,
       stm_reblogs_count = max b 0, stm_published_at = p, stm_score = 0, stm_expires_at = None, stm_updated_at = pg_now \<rparr>"

definition changed_metric :: "instant \<Rightarrow> instant \<Rightarrow> int \<Rightarrow> int \<Rightarrow> status_trend_metric_row \<Rightarrow> status_trend_metric_row" where
  "changed_metric pg_now p f b r =
     r\<lparr>stm_favourites_count := max (stm_favourites_count r + f) 0,
       stm_reblogs_count := max (stm_reblogs_count r + b) 0, stm_published_at := p, stm_updated_at := pg_now\<rparr>"

definition bump_metric ::
  "instant \<Rightarrow> uuid option \<times> uuid option \<Rightarrow> instant \<Rightarrow> int \<Rightarrow> int \<Rightarrow> status_trend_metric_row list \<Rightarrow>
     status_trend_metric_row list result" where
  "bump_metric pg_now key published fav reb t =
     (if list_ex (\<lambda>r. stm_key r = key \<and>
           \<not> (fits_bigint (stm_favourites_count r + fav) \<and> fits_bigint (stm_reblogs_count r + reb))) t
      then Inl (Database NumericOutOfRange)
      else db_result (tbl_upsert stm_conflict stm_conflict (changed_metric pg_now published fav reb)
             (new_metric pg_now key published fav reb) t))"

definition adjust_status_trend :: "instant \<Rightarrow> trend_target \<Rightarrow> int \<Rightarrow> int \<Rightarrow> db \<Rightarrow> db result" where
  "adjust_status_trend pg_now target fav reb d =
     (case target of
        TrendTag _ \<Rightarrow> Inl (InvalidInput ''tag is not a status trend target'')
      | _ \<Rightarrow>
          bind_res
            (case published_at d target of
               None \<Rightarrow> Inr d
             | Some p \<Rightarrow>
                 bind_res (bump_metric pg_now (metric_key target) p fav reb (t_status_trend_metric d))
                   (\<lambda>t. Inr (d\<lparr>t_status_trend_metric := t\<rparr>)))
            (mark_trend_dirty pg_now (fst (persisted target)) (snd (persisted target))))"

subsection \<open>Favourites\<close>

text \<open>What one call draws: the identifier of the new row, and the two clocks.\<close>

record draws =
  dr_id :: uuid
  dr_now :: instant
  dr_pg_now :: instant

definition insert_ignoring :: "bool \<Rightarrow> 'r conflict \<Rightarrow> 'r \<Rightarrow> 'r list \<Rightarrow> ('r list \<times> bool) result" where
  "insert_ignoring fk conflict r t =
     (let (t', inserted) = tbl_insert_nothing conflict r t in with_fk (fk \<or> \<not> inserted) (Inr (t', inserted)))"

definition favourite_local_status :: "draws \<Rightarrow> uuid \<Rightarrow> uuid \<Rightarrow> db \<Rightarrow> db result" where
  "favourite_local_status w account status d =
     (if list_ex (\<lambda>r. lsf_key r = (account, status)) (t_local_status_favourite d) then Inr d
      else bind_res (with_fk (fk_local d account \<and> fk_local_status d status)
             (tbl_insert lsf_conflict
               \<lparr> lsf_id = dr_id w, lsf_account_id = account, lsf_status_id = status, lsf_created_at = dr_now w \<rparr>
               (t_local_status_favourite d)))
             (\<lambda>t. adjust_status_trend (dr_pg_now w) (TrendLocalStatus status) 1 0 (d\<lparr>t_local_status_favourite := t\<rparr>)))"

definition unfavourite_local_status :: "draws \<Rightarrow> uuid \<Rightarrow> uuid \<Rightarrow> db \<Rightarrow> db result" where
  "unfavourite_local_status w account status d =
     (if list_ex (\<lambda>r. lsf_key r = (account, status)) (t_local_status_favourite d)
      then adjust_status_trend (dr_pg_now w) (TrendLocalStatus status) (-1) 0
             (d\<lparr>t_local_status_favourite :=
                  tbl_delete (\<lambda>r. lsf_key r = (account, status)) (t_local_status_favourite d)\<rparr>)
      else Inr d)"

definition remote_favourite_row :: "draws \<Rightarrow> uuid \<Rightarrow> uuid \<Rightarrow> string \<Rightarrow> remote_status_favourite_row" where
  "remote_favourite_row w actor status activity_id =
     \<lparr> rsf_id = dr_id w, rsf_remote_actor_id = actor, rsf_local_status_id = status,
       rsf_activity_id = activity_id, rsf_created_at = dr_now w \<rparr>"

text \<open>The effect of a statement that fails on its own connection is what came before it.\<close>

definition after_result :: "db \<Rightarrow> db result \<Rightarrow> 'a \<Rightarrow> db \<times> 'a result" where
  "after_result before r x = (case r of Inl e \<Rightarrow> (before, Inl e) | Inr d \<Rightarrow> (d, Inr x))"

definition favourite_local_status_by_remote_actor ::
  "draws \<Rightarrow> uuid \<Rightarrow> uuid \<Rightarrow> string \<Rightarrow> db \<Rightarrow> db \<times> bool result" where
  "favourite_local_status_by_remote_actor w actor status activity_id d =
     (if list_ex (\<lambda>r. rsf_remote_actor_id r = actor \<and> rsf_local_status_id r = status) (t_remote_status_favourite d)
      then (d, Inr False)
      else case with_fk (fk_remote d actor \<and> fk_local_status d status)
             (tbl_insert rsf_conflict (remote_favourite_row w actor status activity_id) (t_remote_status_favourite d)) of
        Inl e \<Rightarrow> (d, Inl e)
      | Inr t \<Rightarrow>
          (let d = d\<lparr>t_remote_status_favourite := t\<rparr>
           in after_result d (adjust_status_trend (dr_pg_now w) (TrendLocalStatus status) 1 0 d) True))"

definition process_remote_like ::
  "note_draws \<Rightarrow> draws \<Rightarrow> uuid \<Rightarrow> uuid \<Rightarrow> string \<Rightarrow> uuid \<Rightarrow> db \<Rightarrow> (db \<times> local_notification_row option) result" where
  "process_remote_like nw w actor status activity_id recipient d =
     (if local_remote_accounts_are_blocked d recipient actor then Inr (d, None)
      else bind_res (insert_ignoring (fk_remote d actor \<and> fk_local_status d status) rsf_conflict
             (remote_favourite_row w actor status activity_id) (t_remote_status_favourite d)) (\<lambda>(t, inserted).
        let d = d\<lparr>t_remote_status_favourite := t\<rparr>
        in if \<not> inserted then Inr (d, None)
           else bind_res (adjust_status_trend (dr_pg_now w) (TrendLocalStatus status) 1 0 d) (\<lambda>d.
             if remote_account_allows_notification (nd_now nw) d recipient actor
             then notify_remote_actor_favourite nw recipient actor status d
             else Inr (d, None))))"

definition remote_like :: "db \<Rightarrow> uuid \<Rightarrow> string \<Rightarrow> remote_status_favourite_row option" where
  "remote_like d actor activity_id =
     List.find (\<lambda>r. rsf_remote_actor_id r = actor \<and> rsf_activity_id r = activity_id) (t_remote_status_favourite d)"

definition delete_remote_like :: "uuid \<Rightarrow> db \<Rightarrow> db" where
  "delete_remote_like i d =
     d\<lparr>t_remote_status_favourite := tbl_delete (\<lambda>r. rsf_id r = i) (t_remote_status_favourite d)\<rparr>"

definition unfavourite_local_status_by_remote_actor ::
  "draws \<Rightarrow> uuid \<Rightarrow> string \<Rightarrow> db \<Rightarrow> db \<times> bool result" where
  "unfavourite_local_status_by_remote_actor w actor activity_id d =
     (case remote_like d actor activity_id of
        None \<Rightarrow> (d, Inr False)
      | Some r \<Rightarrow>
          (let d = delete_remote_like (rsf_id r) d
           in after_result d (adjust_status_trend (dr_pg_now w) (TrendLocalStatus (rsf_local_status_id r)) (-1) 0 d) True))"

definition process_remote_undo_like :: "draws \<Rightarrow> uuid \<Rightarrow> string \<Rightarrow> db \<Rightarrow> (db \<times> bool) result" where
  "process_remote_undo_like w actor original d =
     (case remote_like d actor original of
        None \<Rightarrow> Inr (d, True)
      | Some r \<Rightarrow>
          bind_res (adjust_status_trend (dr_pg_now w) (TrendLocalStatus (rsf_local_status_id r)) (-1) 0
              (delete_remote_like (rsf_id r) d)) (\<lambda>d. Inr (d, True)))"

definition find_remote_status_favourite :: "db \<Rightarrow> uuid \<Rightarrow> uuid \<Rightarrow> local_remote_status_favourite_row option" where
  "find_remote_status_favourite d account status =
     List.find (\<lambda>r. lrf_local_account_id r = account \<and> lrf_remote_status_id r = status) (t_local_remote_status_favourite d)"

definition is_remote_status_favourited :: "db \<Rightarrow> uuid \<Rightarrow> uuid \<Rightarrow> bool" where
  "is_remote_status_favourited d account status \<longleftrightarrow> find_remote_status_favourite d account status \<noteq> None"

definition is_local_status_favourited :: "db \<Rightarrow> uuid \<Rightarrow> uuid \<Rightarrow> bool" where
  "is_local_status_favourited d account status \<longleftrightarrow>
     list_ex (\<lambda>r. lsf_key r = (account, status)) (t_local_status_favourite d)"

definition outbound_favourite_row :: "draws \<Rightarrow> uuid \<Rightarrow> uuid \<Rightarrow> string \<Rightarrow> local_remote_status_favourite_row" where
  "outbound_favourite_row w account status activity_id =
     \<lparr> lrf_id = dr_id w, lrf_local_account_id = account, lrf_remote_status_id = status,
       lrf_activity_id = activity_id, lrf_created_at = dr_now w \<rparr>"

definition favourite_remote_status :: "draws \<Rightarrow> uuid \<Rightarrow> uuid \<Rightarrow> string \<Rightarrow> db \<Rightarrow> db \<times> unit result" where
  "favourite_remote_status w account status activity_id d =
     (if is_remote_status_favourited d account status then (d, Inr ())
      else case with_fk (fk_local d account \<and> fk_remote_status d status)
             (tbl_insert lrf_conflict (outbound_favourite_row w account status activity_id)
               (t_local_remote_status_favourite d)) of
        Inl e \<Rightarrow> (d, Inl e)
      | Inr t \<Rightarrow>
          (let d = d\<lparr>t_local_remote_status_favourite := t\<rparr>
           in after_result d (adjust_status_trend (dr_pg_now w) (TrendRemoteStatus status) 1 0 d) ()))"

definition favourite_remote_status_with_job ::
  "draws \<Rightarrow> uuid \<Rightarrow> uuid \<Rightarrow> uuid \<Rightarrow> string \<Rightarrow> new_job \<Rightarrow> db \<Rightarrow> db result" where
  "favourite_remote_status_with_job w job_new_id account status activity_id job d =
     bind_res (insert_ignoring (fk_local d account \<and> fk_remote_status d status) lrf_conflict
         (outbound_favourite_row w account status activity_id) (t_local_remote_status_favourite d)) (\<lambda>(t, inserted).
       let d = d\<lparr>t_local_remote_status_favourite := t\<rparr>
       in bind_res (if inserted then adjust_status_trend (dr_pg_now w) (TrendRemoteStatus status) 1 0 d else Inr d)
            (enqueue_only job_new_id (dr_pg_now w) job))"

definition delete_outbound_favourite :: "uuid \<Rightarrow> db \<Rightarrow> db" where
  "delete_outbound_favourite i d =
     d\<lparr>t_local_remote_status_favourite := tbl_delete (\<lambda>r. lrf_id r = i) (t_local_remote_status_favourite d)\<rparr>"

definition unfavourite_remote_status ::
  "draws \<Rightarrow> uuid \<Rightarrow> uuid \<Rightarrow> db \<Rightarrow> db \<times> local_remote_status_favourite_row option result" where
  "unfavourite_remote_status w account status d =
     (case find_remote_status_favourite d account status of
        None \<Rightarrow> (d, Inr None)
      | Some r \<Rightarrow>
          (let d = delete_outbound_favourite (lrf_id r) d
           in after_result d (adjust_status_trend (dr_pg_now w) (TrendRemoteStatus status) (-1) 0 d) (Some r)))"

definition unfavourite_remote_status_with_job ::
  "draws \<Rightarrow> uuid \<Rightarrow> uuid \<Rightarrow> uuid \<Rightarrow> new_job \<Rightarrow> db \<Rightarrow> (db \<times> local_remote_status_favourite_row option) result" where
  "unfavourite_remote_status_with_job w job_new_id account status job d =
     (case find_remote_status_favourite d account status of
        None \<Rightarrow> Inr (d, None)
      | Some r \<Rightarrow>
          bind_res (adjust_status_trend (dr_pg_now w) (TrendRemoteStatus status) (-1) 0
              (delete_outbound_favourite (lrf_id r) d)) (\<lambda>d.
            bind_res (enqueue_only job_new_id (dr_pg_now w) job d) (\<lambda>d. Inr (d, Some r))))"

definition count_local_favourites :: "db \<Rightarrow> uuid \<Rightarrow> nat" where
  "count_local_favourites d status =
     rows_affected (\<lambda>r. lsf_status_id r = status) (t_local_status_favourite d) +
     rows_affected (\<lambda>r. rsf_local_status_id r = status) (t_remote_status_favourite d)"

subsection \<open>Bookmarks\<close>

definition is_local_status_bookmarked :: "db \<Rightarrow> uuid \<Rightarrow> uuid \<Rightarrow> bool" where
  "is_local_status_bookmarked d account status \<longleftrightarrow>
     list_ex (\<lambda>r. lsb_key r = (account, status)) (t_local_status_bookmark d)"

definition bookmark_local_status :: "draws \<Rightarrow> uuid \<Rightarrow> uuid \<Rightarrow> db \<Rightarrow> db result" where
  "bookmark_local_status w account status d =
     (if is_local_status_bookmarked d account status then Inr d
      else bind_res (with_fk (fk_local d account \<and> fk_local_status d status)
             (tbl_insert lsb_conflict
               \<lparr> lsb_id = dr_id w, lsb_account_id = account, lsb_status_id = status, lsb_created_at = dr_now w \<rparr>
               (t_local_status_bookmark d)))
             (\<lambda>t. Inr (d\<lparr>t_local_status_bookmark := t\<rparr>)))"

definition unbookmark_local_status :: "uuid \<Rightarrow> uuid \<Rightarrow> db \<Rightarrow> db" where
  "unbookmark_local_status account status d =
     d\<lparr>t_local_status_bookmark := tbl_delete (\<lambda>r. lsb_key r = (account, status)) (t_local_status_bookmark d)\<rparr>"

subsection \<open>Boosts\<close>

text \<open>The projections of boost rows have the columns of the rows.\<close>

definition find_local_reblog :: "db \<Rightarrow> uuid \<Rightarrow> uuid \<Rightarrow> local_status_reblog_row option" where
  "find_local_reblog d account status =
     List.find (\<lambda>r. lsr_key r = (account, status)) (t_local_status_reblog d)"

definition is_local_status_reblogged :: "db \<Rightarrow> uuid \<Rightarrow> uuid \<Rightarrow> bool" where
  "is_local_status_reblogged d account status \<longleftrightarrow> find_local_reblog d account status \<noteq> None"

definition reblog_local_status :: "draws \<Rightarrow> uuid \<Rightarrow> uuid \<Rightarrow> db \<Rightarrow> (db \<times> local_status_reblog_row) result" where
  "reblog_local_status w account status d =
     (case find_local_reblog d account status of
        Some r \<Rightarrow> Inr (d, r)
      | None \<Rightarrow>
          (let row = \<lparr> lsr_id = dr_id w, lsr_account_id = account, lsr_status_id = status, lsr_created_at = dr_now w \<rparr>
           in bind_res (with_fk (fk_local d account \<and> fk_local_status d status)
                  (tbl_insert lsr_conflict row (t_local_status_reblog d))) (\<lambda>t.
                bind_res (adjust_status_trend (dr_pg_now w) (TrendLocalStatus status) 0 1 (d\<lparr>t_local_status_reblog := t\<rparr>))
                  (\<lambda>d. Inr (d, row)))))"

definition unreblog_local_status ::
  "draws \<Rightarrow> uuid \<Rightarrow> uuid \<Rightarrow> db \<Rightarrow> (db \<times> local_status_reblog_row option) result" where
  "unreblog_local_status w account status d =
     (case find_local_reblog d account status of
        None \<Rightarrow> Inr (d, None)
      | Some r \<Rightarrow>
          bind_res (adjust_status_trend (dr_pg_now w) (TrendLocalStatus status) 0 (-1)
              (d\<lparr>t_local_status_reblog :=
                   tbl_delete (\<lambda>r. lsr_key r = (account, status)) (t_local_status_reblog d)\<rparr>))
            (\<lambda>d. Inr (d, Some r)))"

definition find_remote_status_reblog :: "db \<Rightarrow> uuid \<Rightarrow> uuid \<Rightarrow> local_remote_status_reblog_row option" where
  "find_remote_status_reblog d account status =
     List.find (\<lambda>r. lrr_local_account_id r = account \<and> lrr_remote_status_id r = status) (t_local_remote_status_reblog d)"

definition is_remote_status_reblogged :: "db \<Rightarrow> uuid \<Rightarrow> uuid \<Rightarrow> bool" where
  "is_remote_status_reblogged d account status \<longleftrightarrow> find_remote_status_reblog d account status \<noteq> None"

definition reblog_remote_status ::
  "draws \<Rightarrow> uuid \<Rightarrow> uuid \<Rightarrow> string \<Rightarrow> db \<Rightarrow> (db \<times> local_remote_status_reblog_row) result" where
  "reblog_remote_status w account status activity_id d =
     (case find_remote_status_reblog d account status of
        Some r \<Rightarrow> Inr (d, r)
      | None \<Rightarrow>
          (let row = \<lparr> lrr_id = dr_id w, lrr_local_account_id = account, lrr_remote_status_id = status,
                       lrr_activity_id = activity_id, lrr_created_at = dr_now w \<rparr>
           in bind_res (with_fk (fk_local d account \<and> fk_remote_status d status)
                  (tbl_insert lrr_conflict row (t_local_remote_status_reblog d))) (\<lambda>t.
                bind_res (adjust_status_trend (dr_pg_now w) (TrendRemoteStatus status) 0 1
                    (d\<lparr>t_local_remote_status_reblog := t\<rparr>)) (\<lambda>d. Inr (d, row)))))"

definition reblog_remote_status_with_job ::
  "draws \<Rightarrow> uuid \<Rightarrow> uuid \<Rightarrow> uuid \<Rightarrow> string \<Rightarrow> new_job \<Rightarrow> db \<Rightarrow> (db \<times> local_remote_status_reblog_row) result" where
  "reblog_remote_status_with_job w job_new_id account status activity_id job d =
     bind_res (reblog_remote_status w account status activity_id d) (\<lambda>(d, r).
       bind_res (enqueue_only job_new_id (dr_pg_now w) job d) (\<lambda>d. Inr (d, r)))"

definition delete_outbound_reblog :: "uuid \<Rightarrow> db \<Rightarrow> db" where
  "delete_outbound_reblog i d =
     d\<lparr>t_local_remote_status_reblog := tbl_delete (\<lambda>r. lrr_id r = i) (t_local_remote_status_reblog d)\<rparr>"

definition unreblog_remote_status ::
  "draws \<Rightarrow> uuid \<Rightarrow> uuid \<Rightarrow> db \<Rightarrow> db \<times> local_remote_status_reblog_row option result" where
  "unreblog_remote_status w account status d =
     (case find_remote_status_reblog d account status of
        None \<Rightarrow> (d, Inr None)
      | Some r \<Rightarrow>
          (let d = delete_outbound_reblog (lrr_id r) d
           in after_result d (adjust_status_trend (dr_pg_now w) (TrendRemoteStatus status) 0 (-1) d) (Some r)))"

definition unreblog_remote_status_with_job ::
  "draws \<Rightarrow> uuid \<Rightarrow> uuid \<Rightarrow> uuid \<Rightarrow> new_job \<Rightarrow> db \<Rightarrow> (db \<times> local_remote_status_reblog_row option) result" where
  "unreblog_remote_status_with_job w job_new_id account status job d =
     (case find_remote_status_reblog d account status of
        None \<Rightarrow> Inr (d, None)
      | Some r \<Rightarrow>
          bind_res (adjust_status_trend (dr_pg_now w) (TrendRemoteStatus status) 0 (-1)
              (delete_outbound_reblog (lrr_id r) d)) (\<lambda>d.
            bind_res (enqueue_only job_new_id (dr_pg_now w) job d) (\<lambda>d. Inr (d, Some r))))"

datatype remote_status_reblog_target = ReblogLocal uuid | ReblogRemote uuid

fun reblog_trend_target :: "remote_status_reblog_target \<Rightarrow> trend_target" where
  "reblog_trend_target (ReblogLocal i) = TrendLocalStatus i"
| "reblog_trend_target (ReblogRemote i) = TrendRemoteStatus i"

fun reblog_columns :: "remote_status_reblog_target \<Rightarrow> uuid option \<times> uuid option" where
  "reblog_columns (ReblogLocal i) = (Some i, None)"
| "reblog_columns (ReblogRemote i) = (None, Some i)"

record remote_status_reblog =
  rb_id :: uuid
  rb_remote_actor_id :: uuid
  rb_target :: remote_status_reblog_target
  rb_activity_id :: string
  rb_created_at :: instant

definition remote_status_reblog_from_model :: "remote_status_reblog_row \<Rightarrow> remote_status_reblog option" where
  "remote_status_reblog_from_model r =
     map_option (\<lambda>target. \<lparr> rb_id = rsr_id r, rb_remote_actor_id = rsr_remote_actor_id r, rb_target = target,
                            rb_activity_id = rsr_activity_id r, rb_created_at = rsr_created_at r \<rparr>)
       (case (rsr_local_status_id r, rsr_remote_status_id r) of
          (Some i, None) \<Rightarrow> Some (ReblogLocal i)
        | (None, Some i) \<Rightarrow> Some (ReblogRemote i)
        | _ \<Rightarrow> None)"

text \<open>
  \<open>column_eq\<close> is the condition that the query builder makes of \<open>Column.eq(value)\<close> on a
  nullable column, for the stored and the given value.
\<close>

definition reblog_status_by_remote_actor ::
  "(uuid option \<Rightarrow> uuid option \<Rightarrow> bool) \<Rightarrow> draws \<Rightarrow> uuid \<Rightarrow> remote_status_reblog_target \<Rightarrow> string \<Rightarrow> db \<Rightarrow>
     (db \<times> bool) result" where
  "reblog_status_by_remote_actor column_eq w actor target activity_id d =
     (let (local_status, remote_status) = reblog_columns target
      in if list_ex (\<lambda>r. rsr_remote_actor_id r = actor \<and> column_eq (rsr_local_status_id r) local_status \<and>
              column_eq (rsr_remote_status_id r) remote_status) (t_remote_status_reblog d)
         then Inr (d, False)
         else bind_res (with_fk (fk_remote d actor \<and> fk_opt (fk_local_status d) local_status \<and>
                  fk_opt (fk_remote_status d) remote_status)
                (tbl_insert rsr_conflict
                  \<lparr> rsr_id = dr_id w, rsr_remote_actor_id = actor, rsr_local_status_id = local_status,
                    rsr_remote_status_id = remote_status, rsr_activity_id = activity_id, rsr_created_at = dr_now w \<rparr>
                  (t_remote_status_reblog d))) (\<lambda>t.
              bind_res (adjust_status_trend (dr_pg_now w) (reblog_trend_target target) 0 1
                  (d\<lparr>t_remote_status_reblog := t\<rparr>)) (\<lambda>d. Inr (d, True))))"

definition remote_announce :: "db \<Rightarrow> uuid \<Rightarrow> string \<Rightarrow> remote_status_reblog_row option" where
  "remote_announce d actor activity_id =
     List.find (\<lambda>r. rsr_remote_actor_id r = actor \<and> rsr_activity_id r = activity_id) (t_remote_status_reblog d)"

definition find_remote_status_reblog_by_activity_id :: "db \<Rightarrow> uuid \<Rightarrow> string \<Rightarrow> remote_status_reblog option" where
  "find_remote_status_reblog_by_activity_id d actor activity_id =
     Option.bind (remote_announce d actor activity_id) remote_status_reblog_from_model"

definition delete_remote_announce :: "uuid \<Rightarrow> db \<Rightarrow> db" where
  "delete_remote_announce i d =
     d\<lparr>t_remote_status_reblog := tbl_delete (\<lambda>r. rsr_id r = i) (t_remote_status_reblog d)\<rparr>"

definition unreblog_status_by_remote_actor ::
  "draws \<Rightarrow> uuid \<Rightarrow> string \<Rightarrow> db \<Rightarrow> db \<times> remote_status_reblog option result" where
  "unreblog_status_by_remote_actor w actor activity_id d =
     (case remote_announce d actor activity_id of
        None \<Rightarrow> (d, Inr None)
      | Some r \<Rightarrow>
          (case remote_status_reblog_from_model r of
             None \<Rightarrow> (d, Inr None)
           | Some b \<Rightarrow>
               (let d = delete_remote_announce (rsr_id r) d
                in after_result d (adjust_status_trend (dr_pg_now w) (reblog_trend_target (rb_target b)) 0 (-1) d) (Some b))))"

definition process_remote_undo_reblog ::
  "draws \<Rightarrow> uuid \<Rightarrow> string \<Rightarrow> db \<Rightarrow> (db \<times> remote_status_reblog option) result" where
  "process_remote_undo_reblog w actor original d =
     (let model = remote_announce d actor original;
          reblog = Option.bind model remote_status_reblog_from_model;
          d = (case model of None \<Rightarrow> d | Some r \<Rightarrow> delete_remote_announce (rsr_id r) d)
      in bind_res (case reblog of
                     None \<Rightarrow> Inr d
                   | Some b \<Rightarrow> adjust_status_trend (dr_pg_now w) (reblog_trend_target (rb_target b)) 0 (-1) d)
           (\<lambda>d. Inr (d, reblog)))"

definition count_local_reblogs :: "db \<Rightarrow> uuid \<Rightarrow> nat" where
  "count_local_reblogs d status =
     rows_affected (\<lambda>r. lsr_status_id r = status) (t_local_status_reblog d) +
     rows_affected (\<lambda>r. rsr_local_status_id r = Some status) (t_remote_status_reblog d)"

subsection \<open>Collections\<close>

definition active_statuses_by_id :: "db \<Rightarrow> uuid list \<Rightarrow> local_status_row list" where
  "active_statuses_by_id d ids = List.map_filter (find_local_status_by_id d) ids"

definition status_page :: "('r \<Rightarrow> uuid) \<Rightarrow> ('r \<Rightarrow> uuid) \<Rightarrow> nat \<Rightarrow> collection_cursor \<Rightarrow> db \<Rightarrow> 'r list \<Rightarrow>
    local_status_row collection_page" where
  "status_page idf status limit cursor d candidates =
     (let (rows, has_more) = query_page idf cursor limit candidates
      in \<lparr> cp_items = active_statuses_by_id d (map status rows), cp_first_cursor = first_of idf rows,
           cp_last_cursor = last_of idf rows, cp_has_more = has_more \<rparr>)"

definition local_favourites_for_account ::
  "db \<Rightarrow> uuid \<Rightarrow> nat \<Rightarrow> collection_cursor \<Rightarrow> local_status_row collection_page" where
  "local_favourites_for_account d account limit cursor =
     status_page lsf_id lsf_status_id limit cursor d
       (filter (\<lambda>r. lsf_account_id r = account) (t_local_status_favourite d))"

definition local_bookmarks_for_account ::
  "db \<Rightarrow> uuid \<Rightarrow> nat \<Rightarrow> collection_cursor \<Rightarrow> local_status_row collection_page" where
  "local_bookmarks_for_account d account limit cursor =
     status_page lsb_id lsb_status_id limit cursor d
       (filter (\<lambda>r. lsb_account_id r = account) (t_local_status_bookmark d))"

datatype favourite_status = FavouriteLocal local_status_row | FavouriteRemote remote_status_row

text \<open>The rows of one of the merged queries: its newest, one more than the page holds.\<close>

definition newest_rows :: "('r \<Rightarrow> uuid) \<Rightarrow> nat \<Rightarrow> collection_cursor \<Rightarrow> 'r list \<Rightarrow> 'r list" where
  "newest_rows idf limit cursor rows =
     take (page_query_limit limit) (order_by_desc idf (apply_collection_cursor idf cursor rows))"

definition favourites_for_account ::
  "db \<Rightarrow> uuid \<Rightarrow> nat \<Rightarrow> collection_cursor \<Rightarrow> favourite_status collection_page" where
  "favourites_for_account d account limit cursor =
     (let local = newest_rows lsf_id limit cursor
            (filter (\<lambda>r. lsf_account_id r = account) (t_local_status_favourite d));
          remote = newest_rows lrf_id limit cursor
            (filter (\<lambda>r. lrf_local_account_id r = account) (t_local_remote_status_favourite d));
          entries =
            List.map_filter (\<lambda>r. map_option (\<lambda>s. (lsf_id r, FavouriteLocal s))
              (find_local_status_by_id d (lsf_status_id r))) local @
            List.map_filter (\<lambda>r. map_option (\<lambda>s. (lrf_id r, FavouriteRemote s))
              (find_remote_status_by_id d (lrf_remote_status_id r))) remote;
          (entries, has_more) = trim_to_page (order_by_desc fst entries) limit
      in \<lparr> cp_items = map snd entries, cp_first_cursor = first_of fst entries,
           cp_last_cursor = last_of fst entries, cp_has_more = has_more \<rparr>)"

datatype interaction_actor_id = InteractionLocal uuid | InteractionRemote uuid

datatype status_interaction_account = AccountLocal local_account_row | AccountRemote remote_actor_row

text \<open>Each account is taken out of its map when it is used.\<close>

fun take_accounts ::
  "local_account_row list \<Rightarrow> remote_actor_row list \<Rightarrow> interaction_actor_id list \<Rightarrow> status_interaction_account list" where
  "take_accounts local remote [] = []"
| "take_accounts local remote (InteractionLocal i # rest) =
     (case List.find (\<lambda>a. la_id a = i) local of
        None \<Rightarrow> take_accounts local remote rest
      | Some a \<Rightarrow> AccountLocal a # take_accounts (filter (\<lambda>a. la_id a \<noteq> i) local) remote rest)"
| "take_accounts local remote (InteractionRemote i # rest) =
     (case List.find (\<lambda>a. ra_id a = i) remote of
        None \<Rightarrow> take_accounts local remote rest
      | Some a \<Rightarrow> AccountRemote a # take_accounts local (filter (\<lambda>a. ra_id a \<noteq> i) remote) rest)"

definition local_ids :: "interaction_actor_id list \<Rightarrow> uuid list" where
  "local_ids actors = List.map_filter (\<lambda>a. case a of InteractionLocal i \<Rightarrow> Some i | InteractionRemote _ \<Rightarrow> None) actors"

definition remote_ids :: "interaction_actor_id list \<Rightarrow> uuid list" where
  "remote_ids actors = List.map_filter (\<lambda>a. case a of InteractionLocal _ \<Rightarrow> None | InteractionRemote i \<Rightarrow> Some i) actors"

definition interaction_accounts_page ::
  "db \<Rightarrow> (uuid \<times> interaction_actor_id) list \<Rightarrow> nat \<Rightarrow> status_interaction_account collection_page" where
  "interaction_accounts_page d entries limit =
     (let (entries, has_more) = trim_to_page (order_by_desc fst entries) limit;
          actors = map snd entries
      in \<lparr> cp_items = take_accounts (local_accounts_by_id d (local_ids actors))
                        (remote_actors_by_id d (remote_ids actors)) actors,
           cp_first_cursor = first_of fst entries, cp_last_cursor = last_of fst entries, cp_has_more = has_more \<rparr>)"

datatype status_interaction_target = InteractionLocalStatus uuid | InteractionRemoteStatus uuid

definition favourited_by_for_status ::
  "db \<Rightarrow> status_interaction_target \<Rightarrow> nat \<Rightarrow> collection_cursor \<Rightarrow> status_interaction_account collection_page" where
  "favourited_by_for_status d target limit cursor =
     interaction_accounts_page d
       (case target of
          InteractionLocalStatus i \<Rightarrow>
            map (\<lambda>r. (lsf_id r, InteractionLocal (lsf_account_id r)))
              (newest_rows lsf_id limit cursor (filter (\<lambda>r. lsf_status_id r = i) (t_local_status_favourite d))) @
            map (\<lambda>r. (rsf_id r, InteractionRemote (rsf_remote_actor_id r)))
              (newest_rows rsf_id limit cursor (filter (\<lambda>r. rsf_local_status_id r = i) (t_remote_status_favourite d)))
        | InteractionRemoteStatus i \<Rightarrow>
            map (\<lambda>r. (lrf_id r, InteractionLocal (lrf_local_account_id r)))
              (newest_rows lrf_id limit cursor
                (filter (\<lambda>r. lrf_remote_status_id r = i) (t_local_remote_status_favourite d)))) limit"

definition reblogged_by_for_status ::
  "db \<Rightarrow> status_interaction_target \<Rightarrow> nat \<Rightarrow> collection_cursor \<Rightarrow> status_interaction_account collection_page" where
  "reblogged_by_for_status d target limit cursor =
     interaction_accounts_page d
       (case target of
          InteractionLocalStatus i \<Rightarrow>
            map (\<lambda>r. (lsr_id r, InteractionLocal (lsr_account_id r)))
              (newest_rows lsr_id limit cursor (filter (\<lambda>r. lsr_status_id r = i) (t_local_status_reblog d))) @
            map (\<lambda>r. (rsr_id r, InteractionRemote (rsr_remote_actor_id r)))
              (newest_rows rsr_id limit cursor (filter (\<lambda>r. rsr_local_status_id r = Some i) (t_remote_status_reblog d)))
        | InteractionRemoteStatus i \<Rightarrow>
            map (\<lambda>r. (lrr_id r, InteractionLocal (lrr_local_account_id r)))
              (newest_rows lrr_id limit cursor
                (filter (\<lambda>r. lrr_remote_status_id r = i) (t_local_remote_status_reblog d))) @
            map (\<lambda>r. (rsr_id r, InteractionRemote (rsr_remote_actor_id r)))
              (newest_rows rsr_id limit cursor (filter (\<lambda>r. rsr_remote_status_id r = Some i) (t_remote_status_reblog d))))
       limit"

definition local_reblogged_by_for_status ::
  "db \<Rightarrow> uuid \<Rightarrow> nat \<Rightarrow> collection_cursor \<Rightarrow> local_account_row collection_page" where
  "local_reblogged_by_for_status d status limit cursor =
     (let (rows, has_more) = query_page lsr_id cursor limit
            (filter (\<lambda>r. lsr_status_id r = status) (t_local_status_reblog d))
      in \<lparr> cp_items = local_accounts_by_id d (map lsr_account_id rows), cp_first_cursor = first_of lsr_id rows,
           cp_last_cursor = last_of lsr_id rows, cp_has_more = has_more \<rparr>)"

definition local_reblogs_for_status :: "db \<Rightarrow> uuid \<Rightarrow> local_status_reblog_row list" where
  "local_reblogs_for_status d status = filter (\<lambda>r. lsr_status_id r = status) (t_local_status_reblog d)"

definition find_local_reblog_by_id :: "db \<Rightarrow> uuid \<Rightarrow> local_status_reblog_row option" where
  "find_local_reblog_by_id d i = List.find (\<lambda>r. lsr_id r = i) (t_local_status_reblog d)"

subsection \<open>Federated deliveries\<close>

text \<open>
  What the preparation of deliveries reads from its surroundings: the address of a local actor
  (the configured base address, joined by the \<^verbatim>\<open>url\<close> crate), the textual form of
  identifiers, the identifiers drawn for the activity and the job, and \<open>fe_prove\<close>, which
  attaches the integrity proof with the key of the account or fails
  (\<open>prove_local_activity\<close>).
\<close>

record fed_env =
  fe_actor_url :: "ustring \<Rightarrow> string"
  fe_id_string :: "uuid \<Rightarrow> string"
  fe_activity :: uuid
  fe_job_id :: uuid
  fe_now :: instant
  fe_prove :: "uuid \<Rightarrow> json \<Rightarrow> json result"

definition activitystreams_context :: string where
  "activitystreams_context = ''https://www.w3.org/ns/activitystreams''"

definition find_or :: "string \<Rightarrow> 'a option \<Rightarrow> 'a result" where
  "find_or message x = (case x of None \<Rightarrow> Inl (InvalidInput message) | Some a \<Rightarrow> Inr a)"

definition delivery_job :: "job_kind \<Rightarrow> fed_env \<Rightarrow> uuid \<Rightarrow> uuid \<Rightarrow> json \<Rightarrow> string \<Rightarrow> new_job" where
  "delivery_job kind e account actor activity activity_id =
     \<lparr> nj_kind = kind,
       nj_payload = JObj [(''local_account_id'', JStr (fe_id_string e account)),
                          (''remote_actor_id'', JStr (fe_id_string e actor)), (''activity'', activity)],
       nj_deduplication_key = Some activity_id, nj_run_after = fe_now e \<rparr>"

definition activity_json :: "string \<Rightarrow> string \<Rightarrow> string \<Rightarrow> json \<Rightarrow> json" where
  "activity_json i kind actor object =
     JObj [(''@context'', JStr activitystreams_context), (''id'', JStr i), (''type'', JStr kind), (''actor'', JStr actor),
           (''object'', object)]"

definition undone_json :: "string \<Rightarrow> string \<Rightarrow> string \<Rightarrow> string \<Rightarrow> json" where
  "undone_json i kind actor object =
     JObj [(''id'', JStr i), (''type'', JStr kind), (''actor'', JStr actor), (''object'', JStr object)]"

definition prepare_remote_favourite :: "fed_env \<Rightarrow> db \<Rightarrow> uuid \<Rightarrow> remote_status_row \<Rightarrow> (string \<times> new_job) result" where
  "prepare_remote_favourite e d account s =
     bind_res (find_or ''local favourite actor does not exist'' (find_local_account_by_id d account)) (\<lambda>local.
     bind_res (find_or ''remote status author does not exist'' (find_remote_actor_by_id d (rs_remote_actor_id s))) (\<lambda>remote.
       let actor = fe_actor_url e (la_username local);
           i = actor @ ''#like-'' @ fe_id_string e (fe_activity e)
       in bind_res (fe_prove e account (activity_json i ''Like'' actor (JStr (rs_activitypub_id s)))) (\<lambda>activity.
            Inr (i, delivery_job FederationFavouriteDelivery e account (ra_id remote) activity i))))"

definition prepare_remote_unfavourite :: "fed_env \<Rightarrow> db \<Rightarrow> local_remote_status_favourite_row \<Rightarrow> new_job result" where
  "prepare_remote_unfavourite e d f =
     bind_res (find_or ''local favourite actor does not exist'' (find_local_account_by_id d (lrf_local_account_id f))) (\<lambda>local.
     bind_res (find_or ''remote favourite status does not exist'' (find_remote_status_by_id d (lrf_remote_status_id f))) (\<lambda>s.
     bind_res (find_or ''remote status author does not exist'' (find_remote_actor_by_id d (rs_remote_actor_id s))) (\<lambda>remote.
       let actor = fe_actor_url e (la_username local);
           i = actor @ ''#undo-like-'' @ fe_id_string e (fe_activity e);
           like = undone_json (lrf_activity_id f) ''Like'' actor (rs_activitypub_id s)
       in bind_res (fe_prove e (lrf_local_account_id f) (activity_json i ''Undo'' actor like)) (\<lambda>activity.
            Inr (delivery_job FederationFavouriteDelivery e (lrf_local_account_id f) (ra_id remote) activity i)))))"

definition prepare_remote_reblog :: "fed_env \<Rightarrow> db \<Rightarrow> uuid \<Rightarrow> remote_status_row \<Rightarrow> (string \<times> new_job) result" where
  "prepare_remote_reblog e d account s =
     bind_res (find_or ''local boost actor does not exist'' (find_local_account_by_id d account)) (\<lambda>local.
     bind_res (find_or ''remote boost status author does not exist'' (find_remote_actor_by_id d (rs_remote_actor_id s))) (\<lambda>remote.
       let actor = fe_actor_url e (la_username local);
           i = actor @ ''#announce-'' @ fe_id_string e (fe_activity e)
       in bind_res (fe_prove e account (activity_json i ''Announce'' actor (JStr (rs_activitypub_id s)))) (\<lambda>activity.
            Inr (i, delivery_job FederationReblogDelivery e account (ra_id remote) activity i))))"

definition prepare_remote_unreblog :: "fed_env \<Rightarrow> db \<Rightarrow> local_remote_status_reblog_row \<Rightarrow> new_job result" where
  "prepare_remote_unreblog e d r =
     bind_res (find_or ''local boost actor does not exist'' (find_local_account_by_id d (lrr_local_account_id r))) (\<lambda>local.
     bind_res (find_or ''remote boosted status does not exist'' (find_remote_status_by_id d (lrr_remote_status_id r))) (\<lambda>s.
     bind_res (find_or ''remote boost status author does not exist'' (find_remote_actor_by_id d (rs_remote_actor_id s))) (\<lambda>remote.
       let actor = fe_actor_url e (la_username local);
           i = actor @ ''#undo-announce-'' @ fe_id_string e (fe_activity e);
           announce = undone_json (lrr_activity_id r) ''Announce'' actor (rs_activitypub_id s)
       in bind_res (fe_prove e (lrr_local_account_id r) (activity_json i ''Undo'' actor announce)) (\<lambda>activity.
            Inr (delivery_job FederationReblogDelivery e (lrr_local_account_id r) (ra_id remote) activity i)))))"

subsection \<open>The collection actions of the API\<close>

text \<open>
  A response is represented by the status it shows; a boost shows the boosted status inside of
  the boost. The rendering of the other fields is not modelled.
\<close>

datatype status_response =
    ShownLocal local_status_row
  | ShownRemote remote_status_row
  | ShownBoost uuid status_response

datatype collection_action = ActFavourite | ActUnfavourite | ActBookmark | ActUnbookmark | ActReblog | ActUnreblog

datatype api_error =
    ApiBadRequest string
  | ApiNotFound string
  | ApiInternal roosty_error

datatype committed_status_event =
    EventUpdate status_response "uuid list"
  | EventDelete uuid status_visibility "uuid list"

record pending_status_notification =
  psn_account_id :: uuid
  psn_notification_type :: local_notification_type
  psn_status_id :: uuid

record status_collection_outcome =
  sco_response :: status_response
  sco_notifications :: "pending_status_notification list"
  sco_stream_events :: "committed_status_event list"

definition api :: "'a result \<Rightarrow> api_error + 'a" where
  "api r = (case r of Inl e \<Rightarrow> Inl (ApiInternal e) | Inr x \<Rightarrow> Inr x)"

definition bind_api :: "api_error + 'a \<Rightarrow> ('a \<Rightarrow> api_error + 'b) \<Rightarrow> api_error + 'b" where
  "bind_api x f = (case x of Inl e \<Rightarrow> Inl e | Inr a \<Rightarrow> f a)"

definition or_not_found :: "'a option \<Rightarrow> api_error + 'a" where
  "or_not_found x = (case x of None \<Rightarrow> Inl (ApiNotFound ''Record not found'') | Some a \<Rightarrow> Inr a)"

definition reblog_response :: "db \<Rightarrow> local_status_reblog_row \<Rightarrow> uuid option \<Rightarrow> status_response option" where
  "reblog_response d r viewer =
     (case find_local_status_by_id d (lsr_status_id r) of
        None \<Rightarrow> None
      | Some s \<Rightarrow>
          if \<not> status_visible_to_viewer d s viewer then None
          else if find_local_account_by_id d (lsr_account_id r) = None then None
          else Some (ShownBoost (lsr_id r) (ShownLocal s)))"

definition local_remote_reblog_response :: "db \<Rightarrow> local_remote_status_reblog_row \<Rightarrow> status_response option" where
  "local_remote_reblog_response d r =
     (case find_remote_status_by_id d (lrr_remote_status_id r) of
        None \<Rightarrow> None
      | Some s \<Rightarrow>
          if find_local_account_by_id d (lrr_local_account_id r) = None then None
          else Some (ShownBoost (lrr_id r) (ShownRemote s)))"

definition filter_stream_recipients :: "instant \<Rightarrow> db \<Rightarrow> uuid \<Rightarrow> uuid list \<Rightarrow> uuid list" where
  "filter_stream_recipients now d author recipients =
     filter (\<lambda>r. \<not> local_account_is_hidden_for_viewer now d r author) recipients"

definition reblog_stream_recipients :: "instant \<Rightarrow> db \<Rightarrow> uuid \<Rightarrow> uuid list" where
  "reblog_stream_recipients now d account =
     filter_stream_recipients now d account (local_follower_ids_for_account d account False)"

definition outcome :: "status_response \<Rightarrow> status_collection_outcome" where
  "outcome r = \<lparr> sco_response = r, sco_notifications = [], sco_stream_events = [] \<rparr>"

text \<open>Persists a favourite of a remote status with its delivery (the function of this name of the API).\<close>

definition api_favourite_remote_status :: "fed_env \<Rightarrow> draws \<Rightarrow> uuid \<Rightarrow> remote_status_row \<Rightarrow> db \<Rightarrow> db result" where
  "api_favourite_remote_status e w account s d =
     (if is_remote_status_favourited d account (rs_id s) then Inr d
      else bind_res (prepare_remote_favourite e d account s) (\<lambda>(activity_id, job).
             favourite_remote_status_with_job w (fe_job_id e) account (rs_id s) activity_id job d))"

definition remote_collection_action ::
  "fed_env \<Rightarrow> draws \<Rightarrow> uuid \<Rightarrow> remote_status_row \<Rightarrow> collection_action \<Rightarrow> db \<Rightarrow>
     api_error + db \<times> status_collection_outcome" where
  "remote_collection_action e w account s action d =
     (case action of
        ActFavourite \<Rightarrow>
          bind_api (api (api_favourite_remote_status e w account s d)) (\<lambda>d. Inr (d, outcome (ShownRemote s)))
      | ActUnfavourite \<Rightarrow>
          bind_api (case find_remote_status_favourite d account (rs_id s) of
                      None \<Rightarrow> Inr d
                    | Some f \<Rightarrow>
                        bind_api (api (prepare_remote_unfavourite e d f)) (\<lambda>job.
                          bind_api (api (unfavourite_remote_status_with_job w (fe_job_id e) account (rs_id s) job d))
                            (\<lambda>(d, _). Inr d)))
            (\<lambda>d. Inr (d, outcome (ShownRemote s)))
      | ActReblog \<Rightarrow>
          bind_api (if is_remote_status_reblogged d account (rs_id s)
                    then api (reblog_remote_status w account (rs_id s) '''' d)
                    else bind_api (api (prepare_remote_reblog e d account s)) (\<lambda>(activity_id, job).
                           api (reblog_remote_status_with_job w (fe_job_id e) account (rs_id s) activity_id job d)))
            (\<lambda>(d, r).
              bind_api (or_not_found (local_remote_reblog_response d r)) (\<lambda>response.
                Inr (d, \<lparr> sco_response = response, sco_notifications = [],
                          sco_stream_events = [EventUpdate response (reblog_stream_recipients (dr_now w) d account)] \<rparr>)))
      | ActUnreblog \<Rightarrow>
          bind_api (case find_remote_status_reblog d account (rs_id s) of
                      None \<Rightarrow> Inr (d, [])
                    | Some r \<Rightarrow>
                        bind_api (api (prepare_remote_unreblog e d r)) (\<lambda>job.
                          bind_api (api (unreblog_remote_status_with_job w (fe_job_id e) account (rs_id s) job d))
                            (\<lambda>(d, _). Inr (d, [EventDelete (lrr_id r) Unlisted (reblog_stream_recipients (dr_now w) d account)]))))
            (\<lambda>(d, events). Inr (d, \<lparr> sco_response = ShownRemote s, sco_notifications = [], sco_stream_events = events \<rparr>))
      | ActBookmark \<Rightarrow> Inl (ApiNotFound ''Record not found'')
      | ActUnbookmark \<Rightarrow> Inl (ApiNotFound ''Record not found''))"

definition pending_notifications ::
  "uuid \<Rightarrow> local_status_row \<Rightarrow> collection_action \<Rightarrow> pending_status_notification list" where
  "pending_notifications account s action =
     (if ls_account_id s = account then []
      else case action of
             ActFavourite \<Rightarrow>
               [\<lparr> psn_account_id = ls_account_id s, psn_notification_type = NFavourite, psn_status_id = ls_id s \<rparr>]
           | ActReblog \<Rightarrow>
               [\<lparr> psn_account_id = ls_account_id s, psn_notification_type = NReblog, psn_status_id = ls_id s \<rparr>]
           | _ \<Rightarrow> [])"

definition local_collection_action ::
  "draws \<Rightarrow> uuid \<Rightarrow> local_status_row \<Rightarrow> collection_action \<Rightarrow> db \<Rightarrow>
     api_error + db \<times> status_collection_outcome" where
  "local_collection_action w account s action d =
     (let notifications = pending_notifications account s action;
          shown = (\<lambda>d. Inr (d, \<lparr> sco_response = ShownLocal s, sco_notifications = notifications, sco_stream_events = [] \<rparr>))
      in case action of
           ActReblog \<Rightarrow>
             bind_api (api (reblog_local_status w account (ls_id s) d)) (\<lambda>(d, r).
               bind_api (or_not_found (reblog_response d r (Some account))) (\<lambda>response.
                 Inr (d, \<lparr> sco_response = response, sco_notifications = notifications,
                           sco_stream_events = [EventUpdate response (reblog_stream_recipients (dr_now w) d account)] \<rparr>)))
         | ActUnreblog \<Rightarrow>
             bind_api (api (unreblog_local_status w account (ls_id s) d)) (\<lambda>(d, removed).
               Inr (d, \<lparr> sco_response = ShownLocal s, sco_notifications = notifications,
                         sco_stream_events =
                           (case removed of
                              None \<Rightarrow> []
                            | Some r \<Rightarrow> [EventDelete (lsr_id r) Direct (reblog_stream_recipients (dr_now w) d account)]) \<rparr>))
         | ActFavourite \<Rightarrow> bind_api (api (favourite_local_status w account (ls_id s) d)) shown
         | ActUnfavourite \<Rightarrow> bind_api (api (unfavourite_local_status w account (ls_id s) d)) shown
         | ActBookmark \<Rightarrow> bind_api (api (bookmark_local_status w account (ls_id s) d)) shown
         | ActUnbookmark \<Rightarrow> shown (unbookmark_local_status account (ls_id s) d))"

definition boosting :: "collection_action \<Rightarrow> bool" where
  "boosting action \<longleftrightarrow> action \<in> {ActReblog, ActUnreblog}"

definition status_collection_action ::
  "fed_env \<Rightarrow> draws \<Rightarrow> uuid \<Rightarrow> uuid \<Rightarrow> collection_action \<Rightarrow> db \<Rightarrow>
     api_error + db \<times> status_collection_outcome" where
  "status_collection_action e w account status action d =
     (case visible_status_for_account d status account of
        None \<Rightarrow>
          bind_api (or_not_found (find_remote_status_by_id d status)) (\<lambda>s.
            if \<not> remote_status_visible_to_account d s account then Inl (ApiNotFound ''Record not found'')
            else if rs_visibility s = Private \<and> boosting action
            then Inl (ApiBadRequest ''private statuses cannot be boosted'')
            else remote_collection_action e w account s action d)
      | Some s \<Rightarrow>
          if ls_visibility s = Private \<and> ls_account_id s \<noteq> account \<and> boosting action
          then Inl (ApiBadRequest ''private statuses cannot be boosted'')
          else local_collection_action w account s action d)"

text \<open>
  The notifications are created after the commit, each in a transaction of its own; one that
  fails is logged and left out.
\<close>

definition create_and_stream_notification ::
  "note_draws \<Rightarrow> uuid \<Rightarrow> local_notification_type \<Rightarrow> uuid \<Rightarrow> uuid option \<Rightarrow> db \<Rightarrow>
     (db \<times> local_notification_row option) result" where
  "create_and_stream_notification nw account kind actor status d =
     (if account = actor then Inr (d, None)
      else bind_res (notify_local_account_with_policy nw account kind actor status d) (\<lambda>(d, n).
             Inr (d, Option.bind n (\<lambda>n. if ln_filtered n then None else Some n))))"

definition status_collection_action_with_database ::
  "fed_env \<Rightarrow> draws \<Rightarrow> note_draws \<Rightarrow> uuid \<Rightarrow> uuid \<Rightarrow> collection_action \<Rightarrow> db \<Rightarrow>
     db \<times> (api_error + status_collection_outcome)" where
  "status_collection_action_with_database e w nw account status action d =
     (case status_collection_action e w account status action d of
        Inl err \<Rightarrow> (d, Inl err)
      | Inr (d, out) \<Rightarrow>
          (foldl (\<lambda>d n. case create_and_stream_notification nw (psn_account_id n) (psn_notification_type n) account
                               (Some (psn_status_id n)) d of
                          Inl _ \<Rightarrow> d | Inr (d, _) \<Rightarrow> d) d (sco_notifications out),
           Inr out))"

end
