(* ===== verification/Roosty_Notification_Invariants.thy ===== *)
theory Roosty_Notification_Invariants
  imports Roosty_Notifications Roosty_Poll_Invariants Roosty_Relation_Properties
begin

text \<open>
  The invariant of notifications and the requests that hold them back, and that every operation
  on them keeps it.

  The three tables involved are compared by the pair of recipient and sender
  (\<open>note_pair\<close>, \<open>req_pair\<close>, \<open>perm_pair\<close>).
\<close>

type_synonym sender_pair = "uuid \<times> uuid option \<times> uuid option"

definition pair_of :: "uuid \<Rightarrow> notification_actor \<Rightarrow> sender_pair" where
  "pair_of account actor = (account, actor_local actor, actor_remote actor)"

definition note_pair :: "local_notification_row \<Rightarrow> sender_pair" where
  "note_pair n = (ln_account_id n, ln_actor_account_id n, ln_remote_actor_id n)"

definition req_pair :: "local_notification_request_row \<Rightarrow> sender_pair" where
  "req_pair r = (nrq_account_id r, nrq_actor_account_id r, nrq_remote_actor_id r)"

definition perm_pair :: "local_notification_permission_row \<Rightarrow> sender_pair" where
  "perm_pair p = (npm_account_id p, npm_actor_account_id p, npm_remote_actor_id p)"

text \<open>Exactly one of the two senders is given, as the check constraints demand.\<close>

fun one_sender :: "sender_pair \<Rightarrow> bool" where
  "one_sender (_, l, r) \<longleftrightarrow> (l = None) \<noteq> (r = None)"

lemma one_sender_pair_of [simp]: "one_sender (pair_of account actor)"
  by (cases actor) (simp_all add: pair_of_def)

text \<open>
  The invariant, on the tables of notifications, requests and permissions. Of requests: a
  permitted sender has none pending. Of a notification: under a request it is held back, and the
  request is of its recipient and sender; held back without one, its sender has neither an
  active request nor a permission.
\<close>

definition requests_ok ::
  "local_notification_request_row list \<Rightarrow> local_notification_permission_row list \<Rightarrow> bool" where
  "requests_ok rs ps \<longleftrightarrow>
     tbl_ok nrq_conflict rs \<and>
     (\<forall>r \<in> set rs. one_sender (req_pair r)) \<and> (\<forall>p \<in> set ps. one_sender (perm_pair p)) \<and>
     (\<forall>r \<in> set rs. nrq_state r = ReqPending \<longrightarrow> req_pair r \<notin> perm_pair ` set ps)"

definition active_pairs :: "local_notification_request_row list \<Rightarrow> sender_pair set" where
  "active_pairs rs = req_pair ` {r \<in> set rs. nrq_active r}"

definition note_ok ::
  "local_notification_request_row list \<Rightarrow> local_notification_permission_row list \<Rightarrow>
     local_notification_row \<Rightarrow> bool" where
  "note_ok rs ps n \<longleftrightarrow>
     one_sender (note_pair n) \<and>
     (case ln_notification_request_id n of
        Some q \<Rightarrow> ln_filtered n \<and> (\<exists>r \<in> set rs. nrq_id r = q \<and> req_pair r = note_pair n)
      | None \<Rightarrow> ln_filtered n \<longrightarrow> note_pair n \<notin> active_pairs rs \<and> note_pair n \<notin> perm_pair ` set ps)"

definition held_ok ::
  "local_notification_row list \<Rightarrow> local_notification_request_row list \<Rightarrow>
     local_notification_permission_row list \<Rightarrow> bool" where
  "held_ok ns rs ps \<longleftrightarrow> requests_ok rs ps \<and> (\<forall>n \<in> set ns. note_ok rs ps n)"

definition notifications_ok :: "db \<Rightarrow> bool" where
  "notifications_ok d \<longleftrightarrow>
     held_ok (t_local_notification d) (t_notification_request d) (t_notification_permission d)"

lemma of_actor_iff: "one_sender (note_pair n) \<Longrightarrow> of_actor account actor n \<longleftrightarrow> note_pair n = pair_of account actor"
  by (cases actor) (auto simp: of_actor_def note_pair_def pair_of_def)

lemma request_of_iff: "one_sender (req_pair r) \<Longrightarrow> request_of account actor r \<longleftrightarrow> req_pair r = pair_of account actor"
  by (cases actor) (auto simp: request_of_def req_pair_def pair_of_def)

lemma active_conflict_iff:
  "one_sender (req_pair a) \<Longrightarrow> one_sender (req_pair b) \<Longrightarrow>
     nrq_active_conflict a b \<longleftrightarrow> nrq_active a \<and> nrq_active b \<and> req_pair a = req_pair b"
  by (auto simp: nrq_active_conflict_def req_pair_def sql_eq_def)

lemma perm_conflict_iff:
  "one_sender (perm_pair a) \<Longrightarrow> one_sender (perm_pair b) \<Longrightarrow> npm_pair_conflict a b \<longleftrightarrow> perm_pair a = perm_pair b"
  by (auto simp: npm_pair_conflict_def perm_pair_def sql_eq_def)

subsection \<open>What the statements do to the invariant\<close>

lemma mem_tbl_update: "x \<in> set (tbl_update p f t) \<longleftrightarrow> (\<exists>r \<in> set t. x = (if p r then f r else r))"
  unfolding tbl_update_def set_map image_iff ..

lemma note_ok_cong:
  "note_pair m = note_pair n \<Longrightarrow> ln_filtered m = ln_filtered n \<Longrightarrow>
     ln_notification_request_id m = ln_notification_request_id n \<Longrightarrow> note_ok rs ps m \<longleftrightarrow> note_ok rs ps n"
  by (simp add: note_ok_def split: option.split)

lemma held_ok_add: "held_ok ns rs ps \<Longrightarrow> note_ok rs ps n \<Longrightarrow> held_ok (ns @ [n]) rs ps"
  by (auto simp: held_ok_def)

lemma held_ok_update:
  assumes "held_ok ns rs ps" and "\<And>n. n \<in> set ns \<Longrightarrow> p n \<Longrightarrow> note_ok rs ps n \<Longrightarrow> note_ok rs ps (f n)"
  shows "held_ok (tbl_update p f ns) rs ps"
  using assms by (auto simp: held_ok_def set_tbl_update)

lemma held_ok_subset: "held_ok ns rs ps \<Longrightarrow> set ms \<subseteq> set ns \<Longrightarrow> held_ok ms rs ps"
  by (auto simp: held_ok_def)

text \<open>Opening or renewing the request of a sender who is not permitted.\<close>

lemma upsert_request_cases:
  assumes "tbl_upsert nrq_active_conflict nrq_conflict (merge_request now new) new rs = Inr rs'"
    and "requests_ok rs ps" and "one_sender (req_pair new)" and "nrq_state new = ReqPending"
  obtains
    (renewed) r where "r \<in> set rs" "nrq_active r" "req_pair r = req_pair new"
      "List.find (nrq_active_conflict new) rs = Some r"
      "rs' = tbl_update (nrq_active_conflict new) (merge_request now new) rs"
  | (opened) "req_pair new \<notin> active_pairs rs" "List.find (nrq_active_conflict new) rs = None" "rs' = rs @ [new]"
      "\<forall>x \<in> set rs. \<not> nrq_conflict new x"
proof (cases "list_ex (nrq_active_conflict new) rs")
  case True
  then obtain r where r: "List.find (nrq_active_conflict new) rs = Some r"
    by (metis find_ex_Some list_ex_iff)
  then have "r \<in> set rs" "nrq_active_conflict new r" using find_Some_mem [OF r] by auto
  moreover then have "nrq_active r" "req_pair r = req_pair new"
    using assms(2,3) active_conflict_iff [of new r] by (auto simp: requests_ok_def)
  ultimately show ?thesis
    using renewed [OF _ _ _ r] True assms(1) by (auto simp: tbl_upsert_def split: if_splits)
next
  case False
  have "req_pair new \<notin> active_pairs rs"
  proof
    assume "req_pair new \<in> active_pairs rs"
    then obtain r where "r \<in> set rs" "nrq_active r" "req_pair r = req_pair new" by (auto simp: active_pairs_def)
    then have "nrq_active_conflict new r"
      using assms active_conflict_iff [of new r] by (auto simp: requests_ok_def nrq_active_def)
    then show False using False \<open>r \<in> set rs\<close> by (auto simp: list_ex_iff)
  qed
  then show ?thesis
    using opened False assms(1) by (auto simp: tbl_upsert_def tbl_insert_Inr find_None_all list_ex_iff)
qed

lemma merge_request_simps [simp]:
  "nrq_id (merge_request now new r) = nrq_id r" "req_pair (merge_request now new r) = req_pair r"
  "nrq_state (merge_request now new r) = nrq_state r" "nrq_active (merge_request now new r) = nrq_active r"
  by (simp_all add: merge_request_def req_pair_def nrq_active_def)

lemma nrq_conflict_cong:
  "nrq_id a = nrq_id a' \<Longrightarrow> req_pair a = req_pair a' \<Longrightarrow> nrq_active a = nrq_active a' \<Longrightarrow>
   nrq_id b = nrq_id b' \<Longrightarrow> req_pair b = req_pair b' \<Longrightarrow> nrq_active b = nrq_active b' \<Longrightarrow>
     nrq_conflict a b \<longleftrightarrow> nrq_conflict a' b'"
  by (simp add: nrq_conflict_def nrq_active_conflict_def req_pair_def)

lemma renew_requests:
  "requests_ok rs ps \<Longrightarrow> requests_ok (tbl_update p (merge_request now new) rs) ps"
proof -
  assume ok: "requests_ok rs ps"
  have "tbl_ok nrq_conflict (tbl_update p (merge_request now new) rs)"
  proof (rule nrq_tbl.ok_update)
    show "tbl_ok nrq_conflict rs" using ok by (simp add: requests_ok_def)
    show "nrq_conflict a b" if "nrq_conflict (merge_request now new a) (if p b then merge_request now new b else b)" for a b
      using that nrq_conflict_cong [of "merge_request now new a" a "if p b then merge_request now new b else b" b] by simp
  qed
  then show ?thesis using ok by (auto simp: requests_ok_def set_tbl_update)
qed

lemma renew_pairs: "active_pairs (tbl_update p (merge_request now new) rs) = active_pairs rs"
proof -
  let ?f = "\<lambda>r. if p r then merge_request now new r else r"
  have "{r \<in> set (tbl_update p (merge_request now new) rs). nrq_active r} = ?f ` {r \<in> set rs. nrq_active r}"
    unfolding tbl_update_def set_map by (safe; simp split: if_splits; blast?)
  moreover have "req_pair (?f r) = req_pair r" for r by simp
  ultimately show ?thesis by (simp add: active_pairs_def image_image del: if_image_distrib)
qed

lemma open_requests:
  assumes "requests_ok rs ps" and "\<forall>x \<in> set rs. \<not> nrq_conflict new x" and "one_sender (req_pair new)"
    and "req_pair new \<notin> perm_pair ` set ps"
  shows "requests_ok (rs @ [new]) ps"
proof -
  have "tbl_insert nrq_conflict new rs = Inr (rs @ [new])" using assms(2) by (simp add: tbl_insert_Inr)
  then have "tbl_ok nrq_conflict (rs @ [new])"
    using assms(1) nrq_tbl.ok_insert by (auto simp: requests_ok_def)
  then show ?thesis using assms by (auto simp: requests_ok_def)
qed

lemma note_ok_mono:
  assumes "note_ok rs ps n" and "active_pairs rs' \<subseteq> insert P (active_pairs rs)"
    and "\<And>r. r \<in> set rs \<Longrightarrow> \<exists>r' \<in> set rs'. nrq_id r' = nrq_id r \<and> req_pair r' = req_pair r"
    and "ln_filtered n \<Longrightarrow> ln_notification_request_id n = None \<Longrightarrow> note_pair n \<noteq> P"
  shows "note_ok rs' ps n"
proof (cases "ln_notification_request_id n")
  case None
  then show ?thesis using assms(1,2,4) by (auto simp: note_ok_def)
next
  case (Some q)
  then obtain r where r: "r \<in> set rs" "nrq_id r = q" "req_pair r = note_pair n" "ln_filtered n" "one_sender (note_pair n)"
    using assms(1) by (auto simp: note_ok_def)
  obtain r' where "r' \<in> set rs'" "nrq_id r' = q" "req_pair r' = note_pair n"
    using assms(3) [OF r(1)] r(2,3) by auto
  then show ?thesis using Some r(4,5) by (auto simp: note_ok_def)
qed

lemma note_pair_request [simp]: "note_pair (n\<lparr>ln_notification_request_id := q\<rparr>) = note_pair n"
  by (simp add: note_pair_def)

lemma adopt_ok:
  assumes "held_ok ns rs ps" and "requests_ok rs' ps" and "active_pairs rs' = insert (pair_of account actor) (active_pairs rs)"
    and old: "\<And>r. r \<in> set rs \<Longrightarrow> \<exists>r' \<in> set rs'. nrq_id r' = nrq_id r \<and> req_pair r' = req_pair r"
    and new: "\<exists>r \<in> set rs'. nrq_id r = q \<and> req_pair r = pair_of account actor"
  shows "held_ok (adopt_notifications account actor q ns) rs' ps"
proof -
  have "note_ok rs' ps m" if m: "m \<in> set (adopt_notifications account actor q ns)" for m
  proof -
    let ?p = "\<lambda>n. of_actor account actor n \<and> ln_filtered n \<and> ln_notification_request_id n = None"
    obtain n where n: "n \<in> set ns" "m = (if ?p n then n\<lparr>ln_notification_request_id := Some q\<rparr> else n)"
      using m unfolding adopt_notifications_def mem_tbl_update by blast
    have ok: "note_ok rs ps n" using assms(1) n(1) by (simp add: held_ok_def)
    then have pair: "of_actor account actor n \<longleftrightarrow> note_pair n = pair_of account actor"
      by (intro of_actor_iff) (simp add: note_ok_def)
    show ?thesis
    proof (cases "?p n")
      case True
      then have "note_pair n = pair_of account actor" "ln_filtered n" using pair by auto
      moreover have "one_sender (note_pair n)" using ok by (simp add: note_ok_def)
      ultimately show ?thesis
        using True n(2) new by (simp add: note_ok_def)
    next
      case False
      then have "m = n" using n(2) by simp
      moreover have "note_ok rs' ps n"
        using note_ok_mono [OF ok, of rs' "pair_of account actor"] assms(3) old False pair by auto
      ultimately show ?thesis by simp
    qed
  qed
  then show ?thesis using assms(2) by (simp add: held_ok_def)
qed

lemma upsert_request_ok:
  assumes "upsert_notification_request w account actor s d = Inr (d', q)" and "notifications_ok d"
    and "pair_of account actor \<notin> perm_pair ` set (t_notification_permission d)"
  shows "notifications_ok d'" and "t_notification_permission d' = t_notification_permission d" and "t_job d' = t_job d"
    and "\<exists>r \<in> set (t_notification_request d'). nrq_id r = q \<and> req_pair r = pair_of account actor \<and> nrq_active r"
proof -
  let ?new = "new_request_row w account actor s"
  let ?rs = "t_notification_request d"
  have new: "req_pair ?new = pair_of account actor" "nrq_state ?new = ReqPending" "nrq_active ?new" "nrq_id ?new = nd_request_id w"
    by (simp_all add: new_request_row_def req_pair_def pair_of_def nrq_active_def)
  have sender: "one_sender (req_pair ?new)" by (simp add: new)
  have ok: "requests_ok ?rs (t_notification_permission d)" using assms(2) by (simp add: notifications_ok_def held_ok_def)
  obtain rs' where up: "tbl_upsert nrq_active_conflict nrq_conflict (merge_request (nd_pg_now w) ?new) ?new ?rs = Inr rs'"
    and d': "d' = d\<lparr>t_notification_request := rs',
      t_local_notification := adopt_notifications account actor q (t_local_notification d)\<rparr>"
    and q: "q = (case List.find (nrq_active_conflict ?new) ?rs of Some r \<Rightarrow> nrq_id r | None \<Rightarrow> nd_request_id w)"
    using assms(1) unfolding upsert_notification_request_def Let_def by (auto simp: bind_res_Inr_iff)
  show same: "t_notification_permission d' = t_notification_permission d" "t_job d' = t_job d" by (simp_all add: d')
  have goal: "notifications_ok d' \<and>
    (\<exists>r \<in> set (t_notification_request d'). nrq_id r = q \<and> req_pair r = pair_of account actor \<and> nrq_active r)"
    using up ok sender new(2)
  proof (cases rule: upsert_request_cases)
    case (renewed r)
    let ?f = "\<lambda>x. if nrq_active_conflict ?new x then merge_request (nd_pg_now w) ?new x else x"
    have mem: "?f x \<in> set rs'" if "x \<in> set ?rs" for x
      using that renewed(5) mem_tbl_update by (metis (no_types, lifting))
    have req: "nrq_id (?f r) = q" "req_pair (?f r) = pair_of account actor" "nrq_active (?f r)"
      using renewed(2,3,4) q new(1) by simp_all
    have pairs: "active_pairs rs' = insert (pair_of account actor) (active_pairs ?rs)"
    proof -
      have "req_pair r \<in> active_pairs ?rs" using renewed(1,2) by (auto simp: active_pairs_def)
      then show ?thesis unfolding renewed(5) renew_pairs using renewed(3) new(1) by (simp add: insert_absorb)
    qed
    have "held_ok (adopt_notifications account actor q (t_local_notification d)) rs' (t_notification_permission d)"
    proof (rule adopt_ok [OF _ _ pairs])
      show "requests_ok rs' (t_notification_permission d)" unfolding renewed(5) by (rule renew_requests [OF ok])
      show "\<exists>r' \<in> set rs'. nrq_id r' = nrq_id x \<and> req_pair r' = req_pair x" if "x \<in> set ?rs" for x
        by (rule bexI [OF _ mem [OF that]]) simp
      show "\<exists>r \<in> set rs'. nrq_id r = q \<and> req_pair r = pair_of account actor"
        using req mem [OF renewed(1)] by blast
    qed (use assms(2) in \<open>simp add: notifications_ok_def\<close>)
    then show ?thesis using req mem [OF renewed(1)] by (auto simp: notifications_ok_def d')
  next
    case opened
    have pairs: "active_pairs rs' = insert (pair_of account actor) (active_pairs ?rs)"
    proof -
      have "req_pair ?new \<in> active_pairs (?rs @ [?new])" unfolding active_pairs_def using new(3) by (intro imageI) simp
      then have "active_pairs (?rs @ [?new]) = insert (req_pair ?new) (active_pairs ?rs)"
        by (auto simp: active_pairs_def)
      then show ?thesis using opened(3) new(1) by simp
    qed
    have "held_ok (adopt_notifications account actor q (t_local_notification d)) rs' (t_notification_permission d)"
    proof (rule adopt_ok [OF _ _ pairs])
      show "requests_ok rs' (t_notification_permission d)"
        unfolding opened(3) using open_requests [OF ok opened(4)] new(1) assms(3) by simp
    qed (use assms(2) opened(2,3) q new in \<open>auto simp: notifications_ok_def\<close>)
    then show ?thesis using new opened(2,3) q by (auto simp: notifications_ok_def d')
  qed
  then show "notifications_ok d'"
    "\<exists>r \<in> set (t_notification_request d'). nrq_id r = q \<and> req_pair r = pair_of account actor \<and> nrq_active r"
    by blast+
qed

lemma assign_group_cases:
  assumes "assign_group w n d = Inr (d1, n1)"
  obtains t g where "d1 = d\<lparr>t_notification_group_state := t\<rparr>" and "n1 = n\<lparr>ln_group_id := g\<rparr>"
proof (cases "group_target n")
  case None
  then show thesis
    using assms that [of "t_notification_group_state d" "ln_group_id n"] by (simp add: assign_group_def)
next
  case (Some k)
  then show thesis
    using assms that by (cases k) (auto simp: assign_group_def Let_def bind_res_Inr_iff)
qed

lemma insert_filtered_jobs:
  "insert_local_notification ids jn now n d = Inr d' \<Longrightarrow> ln_filtered n \<Longrightarrow> t_job d' = t_job d"
  by (auto simp: insert_local_notification_def bind_res_Inr_iff Let_def)

lemma store_notification_cases:
  assumes "store_notification w n d = Inr (d', n')"
  obtains t g jobs where
    "d' = d\<lparr>t_notification_group_state := t, t_local_notification := t_local_notification d @ [n'], t_job := jobs\<rparr>"
    and "n' = n\<lparr>ln_group_id := g\<rparr>" and "ln_check n'" and "ln_filtered n \<Longrightarrow> jobs = t_job d"
    and "\<forall>y \<in> set (t_local_notification d). \<not> ln_conflict n' y"
proof -
  obtain d1 n1 where 1: "assign_group w n d = Inr (d1, n1)"
    using assms by (cases "assign_group w n d") (auto simp: store_notification_def)
  have 2: "ln_check n1" "insert_local_notification (nd_id_string w) (nd_job_id w) (nd_pg_now w) n1 d1 = Inr d'" "n' = n1"
    using assms by (auto simp: store_notification_def 1 bind_res_Inr_iff split: if_splits)
  obtain t g where g: "d1 = d\<lparr>t_notification_group_state := t\<rparr>" "n1 = n\<lparr>ln_group_id := g\<rparr>"
    using assign_group_cases [OF 1] by blast
  obtain jobs where j: "d' = d1\<lparr>t_local_notification := t_local_notification d1 @ [n1], t_job := jobs\<rparr>"
    "\<forall>y \<in> set (t_local_notification d1). \<not> ln_conflict n1 y"
    using insert_notification_cases [OF 2(2)] by blast
  have "jobs = t_job d" if "ln_filtered n"
    using insert_filtered_jobs [OF 2(2)] that g j(1) by simp
  then show thesis using that [where t = t and g = g and jobs = jobs] g j 2(1,3) by simp
qed

lemma notification_row_simps [simp]:
  "note_pair (notification_row w account kind actor s rs f q) = pair_of account actor"
  "note_pair ((notification_row w account kind actor s rs f q)\<lparr>ln_group_id := g\<rparr>) = pair_of account actor"
  "ln_filtered (notification_row w account kind actor s rs f q) = f"
  "ln_notification_request_id (notification_row w account kind actor s rs f q) = q"
  by (simp_all add: notification_row_def note_pair_def pair_of_def)

lemma case_err_iff:
  "(case x of None \<Rightarrow> Inl e | Some a \<Rightarrow> f a) = Inr y \<longleftrightarrow> (\<exists>a. x = Some a \<and> f a = Inr y)"
  by (cases x) auto

text \<open>The policy reads and may create a policy row; nothing else.\<close>

lemma notification_policy_frame:
  assumes "notification_policy now account d = Inr (d', p)"
  obtains t where "d' = d\<lparr>t_local_notification_policy := t\<rparr>"
proof -
  have "\<exists>t. d' = d\<lparr>t_local_notification_policy := t\<rparr>"
  proof (cases "List.find (\<lambda>p. lnp_account_id p = account) (t_local_notification_policy d)")
    case None
    then show ?thesis using assms by (auto simp: notification_policy_def bind_res_Inr_iff)
  next
    case (Some p')
    then show ?thesis
      using assms by (intro exI [of _ "t_local_notification_policy d"]) (simp add: notification_policy_def)
  qed
  then show thesis using that by blast
qed

lemma permission_iff:
  assumes "\<forall>p \<in> set ps. one_sender (perm_pair p)"
  shows "list_ex (\<lambda>p. npm_account_id p = account \<and> npm_actor_account_id p = Some a) ps \<longleftrightarrow>
           pair_of account (ActorLocal a) \<in> perm_pair ` set ps"
    and "list_ex (\<lambda>p. npm_account_id p = account \<and> npm_remote_actor_id p = Some a) ps \<longleftrightarrow>
           pair_of account (ActorRemote a) \<in> perm_pair ` set ps"
  using assms by (fastforce simp: list_ex_iff pair_of_def perm_pair_def image_iff)+

lemma local_policy_action_cases:
  assumes "local_notification_policy_action now account actor kind s d = Inr (d', action)"
    and "notifications_ok d"
  obtains t where "d' = d\<lparr>t_local_notification_policy := t\<rparr>"
    and "action \<noteq> PolicyAccept \<Longrightarrow> pair_of account (ActorLocal actor) \<notin> perm_pair ` set (t_notification_permission d)"
proof -
  have senders: "\<forall>p \<in> set (t_notification_permission d). one_sender (perm_pair p)"
    using assms(2) by (simp add: notifications_ok_def held_ok_def requests_ok_def)
  show thesis
  proof (cases "pair_of account (ActorLocal actor) \<in> perm_pair ` set (t_notification_permission d)")
    case True
    then show thesis
      using assms(1) permission_iff(1) [OF senders, of account actor] that [of "t_local_notification_policy d"]
      by (simp add: local_notification_policy_action_def)
  next
    case False
    obtain d1 p where 1: "notification_policy now account d = Inr (d1, p)"
      and rest: "d' = d1"
      using assms(1) False permission_iff(1) [OF senders, of account actor]
      by (auto simp: local_notification_policy_action_def bind_res_Inr_iff Let_def case_err_iff simp del: find_ex_Some)
    show thesis using notification_policy_frame [OF 1] that False rest by metis
  qed
qed

lemma remote_policy_action_cases:
  assumes "remote_notification_policy_action now account actor kind s d = Inr (d', action)"
    and "notifications_ok d"
  obtains t where "d' = d\<lparr>t_local_notification_policy := t\<rparr>"
    and "action \<noteq> PolicyAccept \<Longrightarrow> pair_of account (ActorRemote actor) \<notin> perm_pair ` set (t_notification_permission d)"
proof -
  have senders: "\<forall>p \<in> set (t_notification_permission d). one_sender (perm_pair p)"
    using assms(2) by (simp add: notifications_ok_def held_ok_def requests_ok_def)
  show thesis
  proof (cases "pair_of account (ActorRemote actor) \<in> perm_pair ` set (t_notification_permission d)")
    case True
    then show thesis
      using assms(1) permission_iff(2) [OF senders, of account actor] that [of "t_local_notification_policy d"]
      by (simp add: remote_notification_policy_action_def)
  next
    case False
    obtain d1 p where 1: "notification_policy now account d = Inr (d1, p)"
      and rest: "d' = d1"
      using assms(1) False permission_iff(2) [OF senders, of account actor]
      by (auto simp: remote_notification_policy_action_def bind_res_Inr_iff Let_def case_err_iff simp del: find_ex_Some)
    show thesis using notification_policy_frame [OF 1] that False rest by metis
  qed
qed

subsection \<open>The notifying functions\<close>

text \<open>What the policy decided about a sender, as far as the invariant is concerned.\<close>

definition decided :: "db \<Rightarrow> sender_pair \<Rightarrow> db \<times> notification_policy_action \<Rightarrow> bool" where
  "decided d pair r \<longleftrightarrow>
     notifications_ok (fst r) \<and> t_job (fst r) = t_job d \<and> t_local_notification (fst r) = t_local_notification d \<and>
     (snd r \<noteq> PolicyAccept \<longrightarrow> pair \<notin> perm_pair ` set (t_notification_permission (fst r)))"

lemma local_policy_decided:
  assumes "local_notification_policy_action now account actor kind s d = Inr r" and "notifications_ok d"
  shows "decided d (pair_of account (ActorLocal actor)) r"
proof -
  obtain d' action where r: "r = (d', action)" by (cases r)
  obtain t where t: "d' = d\<lparr>t_local_notification_policy := t\<rparr>"
    "action \<noteq> PolicyAccept \<Longrightarrow> pair_of account (ActorLocal actor) \<notin> perm_pair ` set (t_notification_permission d)"
    using local_policy_action_cases [OF assms(1) [unfolded r] assms(2)] by metis
  then show ?thesis using assms(2) by (simp add: decided_def r notifications_ok_def)
qed

lemma remote_policy_decided:
  assumes "remote_notification_policy_action now account actor kind s d = Inr r" and "notifications_ok d"
  shows "decided d (pair_of account (ActorRemote actor)) r"
proof -
  obtain d' action where r: "r = (d', action)" by (cases r)
  obtain t where t: "d' = d\<lparr>t_local_notification_policy := t\<rparr>"
    "action \<noteq> PolicyAccept \<Longrightarrow> pair_of account (ActorRemote actor) \<notin> perm_pair ` set (t_notification_permission d)"
    using remote_policy_action_cases [OF assms(1) [unfolded r] assms(2)] by metis
  then show ?thesis using assms(2) by (simp add: decided_def r notifications_ok_def)
qed

lemma active_request_Some:
  assumes "active_notification_request_id d account actor = Some q" and "\<forall>r \<in> set (t_notification_request d). one_sender (req_pair r)"
  shows "\<exists>r \<in> set (t_notification_request d). nrq_id r = q \<and> req_pair r = pair_of account actor \<and> nrq_active r"
proof -
  obtain r where r: "List.find (\<lambda>r. request_of account actor r \<and> nrq_active r) (t_notification_request d) = Some r" "nrq_id r = q"
    using assms(1) by (auto simp: active_notification_request_id_def)
  then show ?thesis using find_Some_mem [OF r(1)] request_of_iff [of r account actor] assms(2) by blast
qed

lemma active_request_None:
  assumes "active_notification_request_id d account actor = None" and "\<forall>r \<in> set (t_notification_request d). one_sender (req_pair r)"
  shows "pair_of account actor \<notin> active_pairs (t_notification_request d)"
proof
  assume "pair_of account actor \<in> active_pairs (t_notification_request d)"
  then obtain r where r: "r \<in> set (t_notification_request d)" "nrq_active r" "req_pair r = pair_of account actor"
    by (auto simp: active_pairs_def)
  then have "request_of account actor r" using request_of_iff assms(2) by blast
  then show False using assms(1) r by (auto simp: active_notification_request_id_def find_None_all)
qed

text \<open>
  A notification that is stored keeps the invariant, and one that is held back is silent: it
  changes no job.
\<close>

lemma store_row_ok:
  assumes "store_notification w (notification_row w account kind actor s rst f q) d = Inr (d', n)"
    and "notifications_ok d"
    and "note_ok (t_notification_request d) (t_notification_permission d)
           (notification_row w account kind actor s rst f q)"
  shows "notifications_ok d'" and "ln_filtered n = f" and "f \<Longrightarrow> t_job d' = t_job d"
proof -
  let ?row = "notification_row w account kind actor s rst f q"
  obtain t g jobs where d': "d' = d\<lparr>t_notification_group_state := t, t_local_notification := t_local_notification d @ [n], t_job := jobs\<rparr>"
    and n: "n = ?row\<lparr>ln_group_id := g\<rparr>" and silent: "ln_filtered ?row \<Longrightarrow> jobs = t_job d"
    using store_notification_cases [OF assms(1)] by metis
  have "note_ok (t_notification_request d) (t_notification_permission d) n"
    using assms(3) note_ok_cong [of n ?row] n by (simp add: note_pair_def)
  then show "notifications_ok d'"
    using held_ok_add assms(2) by (simp add: notifications_ok_def d')
  show "ln_filtered n = f" by (simp add: n)
  show "f \<Longrightarrow> t_job d' = t_job d" using silent by (simp add: d')
qed

lemma note_ok_row:
  "note_ok rs ps (notification_row w account kind actor s rst f q) \<longleftrightarrow>
     (case q of
        Some q \<Rightarrow> f \<and> (\<exists>r \<in> set rs. nrq_id r = q \<and> req_pair r = pair_of account actor)
      | None \<Rightarrow> f \<longrightarrow> pair_of account actor \<notin> active_pairs rs \<and> pair_of account actor \<notin> perm_pair ` set ps)"
  by (simp add: note_ok_def split: option.split)

lemma store_by_policy_ok:
  assumes "store_by_policy w account kind actor s rst opens r = Inr (d', x)" and "decided d (pair_of account actor) r"
  shows "notifications_ok d'"
    and "(\<forall>n. x = Some n \<longrightarrow> ln_filtered n) \<longrightarrow> t_job d' = t_job d"
proof -
  obtain d0 action where r: "r = (d0, action)" by (cases r)
  have ok: "notifications_ok d0" "t_job d0 = t_job d"
    and pair: "action \<noteq> PolicyAccept \<Longrightarrow> pair_of account actor \<notin> perm_pair ` set (t_notification_permission d0)"
    using assms(2) by (auto simp: decided_def r)
  have senders: "\<forall>r \<in> set (t_notification_request d0). one_sender (req_pair r)"
    using ok(1) by (simp add: notifications_ok_def held_ok_def requests_ok_def)
  have "notifications_ok d' \<and> ((\<forall>n. x = Some n \<longrightarrow> ln_filtered n) \<longrightarrow> t_job d' = t_job d)"
  proof (cases action)
    case PolicyDrop
    then show ?thesis using assms(1) ok by (simp add: store_by_policy_def r)
  next
    case PolicyAccept
    then obtain n where n: "store_notification w (notification_row w account kind actor s rst False None) d0 = Inr (d', n)" "x = Some n"
      using assms(1) by (auto simp: store_by_policy_def r bind_res_Inr_iff)
    show ?thesis using store_row_ok [OF n(1) ok(1)] n(2) by (simp add: note_ok_row)
  next
    case PolicyFilter
    then have free: "pair_of account actor \<notin> perm_pair ` set (t_notification_permission d0)" using pair by simp
    show ?thesis
    proof (cases opens)
      case None
      let ?q = "active_notification_request_id d0 account actor"
      obtain n where n: "store_notification w (notification_row w account kind actor s rst True ?q) d0 = Inr (d', n)" "x = Some n"
        using assms(1) PolicyFilter None by (auto simp: store_by_policy_def r bind_res_Inr_iff)
      have "note_ok (t_notification_request d0) (t_notification_permission d0) (notification_row w account kind actor s rst True ?q)"
        unfolding note_ok_row
        using active_request_None [OF _ senders, of account actor]
          active_request_Some [OF _ senders, of account actor] free
        by (auto split: option.split)
      then show ?thesis using store_row_ok [OF n(1) ok(1)] n(2) ok(2) by simp
    next
      case (Some o')
      obtain d1 q n where 1: "upsert_notification_request w account actor o' d0 = Inr (d1, q)"
        and n: "store_notification w (notification_row w account kind actor s rst True (Some q)) d1 = Inr (d', n)" "x = Some n"
        using assms(1) PolicyFilter Some by (auto simp: store_by_policy_def r bind_res_Inr_iff)
      note up = upsert_request_ok [OF 1 ok(1) free]
      have "note_ok (t_notification_request d1) (t_notification_permission d1) (notification_row w account kind actor s rst True (Some q))"
        unfolding note_ok_row using up(4) by auto
      then show ?thesis using store_row_ok [OF n(1) up(1)] n(2) up(3) ok(2) by simp
    qed
  qed
  then show "notifications_ok d'" "(\<forall>n. x = Some n \<longrightarrow> ln_filtered n) \<longrightarrow> t_job d' = t_job d" by auto
qed

subsection \<open>Answers\<close>

lemma set_request_state_mem:
  "x \<in> set (set_request_state now st ids rs) \<longleftrightarrow>
     (\<exists>r \<in> set rs. x = (if nrq_id r \<in> set ids then r\<lparr>nrq_state := st, nrq_updated_at := now\<rparr> else r))"
  unfolding set_request_state_def mem_tbl_update ..

lemma still_pending:
  assumes "x \<in> set (set_request_state now st ids rs)" and "nrq_state x = ReqPending" and "st \<noteq> ReqPending"
  shows "x \<in> set rs" and "nrq_id x \<notin> set ids"
proof -
  obtain r where r: "r \<in> set rs" "x = (if nrq_id r \<in> set ids then r\<lparr>nrq_state := st, nrq_updated_at := now\<rparr> else r)"
    using assms(1) unfolding set_request_state_mem by blast
  have "nrq_id r \<notin> set ids" using assms(2,3) r(2) by (cases "nrq_id r \<in> set ids") simp_all
  then show "x \<in> set rs" "nrq_id x \<notin> set ids" using r by simp_all
qed

lemma request_state_simps [simp]:
  "req_pair (r\<lparr>nrq_state := st, nrq_updated_at := now\<rparr>) = req_pair r"
  "nrq_active (r\<lparr>nrq_state := st, nrq_updated_at := now\<rparr>) \<longleftrightarrow> st \<noteq> ReqDismissed"
  by (simp_all add: req_pair_def nrq_active_def)

text \<open>Moving pending requests on keeps the indexes: no request becomes active that was not.\<close>

lemma request_state_ok:
  assumes "tbl_ok nrq_conflict rs" and "\<And>r. r \<in> set rs \<Longrightarrow> nrq_id r \<in> set ids \<Longrightarrow> nrq_active r"
  shows "tbl_ok nrq_conflict (set_request_state now st ids rs)"
  unfolding set_request_state_def
proof (rule nrq_tbl.ok_update [OF assms(1)])
  let ?f = "\<lambda>r. r\<lparr>nrq_state := st, nrq_updated_at := now\<rparr>"
  fix a b
  assume a: "a \<in> set rs" "b \<in> set rs" "nrq_id a \<in> set ids"
    "nrq_conflict (?f a) (if nrq_id b \<in> set ids then ?f b else b)"
  have "nrq_active a" using assms(2) a(1,3) by blast
  moreover have "nrq_active b" if "nrq_active (if nrq_id b \<in> set ids then ?f b else b)"
    using that assms(2) a(2) by (auto split: if_splits)
  ultimately show "nrq_conflict a b"
    using a(4) by (auto simp: nrq_conflict_def nrq_active_conflict_def split: if_splits)
qed

lemma request_state_pairs:
  assumes "\<And>r. r \<in> set rs \<Longrightarrow> nrq_id r \<in> set ids \<Longrightarrow> nrq_active r"
  shows "active_pairs (set_request_state now st ids rs) \<subseteq> active_pairs rs"
  using assms by (auto simp: active_pairs_def set_request_state_mem split: if_splits)

lemma request_state_notes:
  assumes "\<forall>n \<in> set ns. note_ok rs ps n" and "\<And>r. r \<in> set rs \<Longrightarrow> nrq_id r \<in> set ids \<Longrightarrow> nrq_active r"
  shows "\<forall>n \<in> set ns. note_ok (set_request_state now st ids rs) ps n"
proof
  fix n assume "n \<in> set ns"
  then have ok: "note_ok rs ps n" using assms(1) by blast
  show "note_ok (set_request_state now st ids rs) ps n"
  proof (cases "ln_notification_request_id n")
    case None
    then show ?thesis using ok request_state_pairs [of rs ids, OF assms(2)] by (auto simp: note_ok_def)
  next
    case (Some q)
    then obtain r where r: "r \<in> set rs" "nrq_id r = q" "req_pair r = note_pair n" using ok by (auto simp: note_ok_def)
    let ?r = "if nrq_id r \<in> set ids then r\<lparr>nrq_state := st, nrq_updated_at := now\<rparr> else r"
    have "?r \<in> set (set_request_state now st ids rs)" unfolding set_request_state_mem using r(1) by blast
    moreover have "nrq_id ?r = q" "req_pair ?r = note_pair n" using r by simp_all
    ultimately have "\<exists>x \<in> set (set_request_state now st ids rs). nrq_id x = q \<and> req_pair x = note_pair n" by blast
    then show ?thesis using ok Some by (simp add: note_ok_def)
  qed
qed

lemma pending_requests_mem:
  "r \<in> set (pending_requests d account ids) \<Longrightarrow>
     r \<in> set (t_notification_request d) \<and> nrq_account_id r = account \<and> nrq_state r = ReqPending"
  by (simp add: pending_requests_def)

lemma pending_ids_active:
  assumes "tbl_ok nrq_conflict (t_notification_request d)" and "r \<in> set (t_notification_request d)"
    and "nrq_id r \<in> set (map nrq_id (pending_requests d account ids))"
  shows "r \<in> set (pending_requests d account ids)" and "nrq_active r"
proof -
  obtain x where x: "x \<in> set (pending_requests d account ids)" "nrq_id x = nrq_id r" using assms(3) by auto
  then have "x = r" using nrq_tbl.key_unique [OF assms(1) _ assms(2) x(2)] pending_requests_mem [OF x(1)] by simp
  then show "r \<in> set (pending_requests d account ids)" "nrq_active r"
    using x(1) pending_requests_mem [OF x(1)] by (auto simp: nrq_active_def)
qed

text \<open>Permissions that are granted are those of the accepted requests.\<close>

lemma grant_permissions_pairs:
  assumes "grant_permissions new_id now account rs ps = Inr ps'"
    and "\<And>r. r \<in> set rs \<Longrightarrow> one_sender (req_pair r) \<and> nrq_account_id r = account"
    and "\<forall>p \<in> set ps. one_sender (perm_pair p)"
  shows "perm_pair ` set ps' = perm_pair ` set ps \<union> req_pair ` set rs \<and> (\<forall>p \<in> set ps'. one_sender (perm_pair p))"
  using assms
proof (induction rs arbitrary: ps)
  case (Cons r rs)
  let ?p = "permission_row new_id now account r"
  have p: "perm_pair ?p = req_pair r" "one_sender (req_pair r)"
    using Cons.prems(2) [of r] by (auto simp: permission_row_def perm_pair_def req_pair_def)
  obtain t b where t: "tbl_insert_unless npm_pair_conflict npm_conflict ?p ps = Inr (t, b)"
    and rest: "grant_permissions new_id now account rs t = Inr ps'"
    using Cons.prems(1) by (auto simp: bind_res_Inr_iff split: if_splits)
  have pairs: "perm_pair ` set t = insert (req_pair r) (perm_pair ` set ps)"
  proof (cases "\<exists>x \<in> set ps. npm_pair_conflict ?p x")
    case True
    then obtain x where x: "x \<in> set ps" "npm_pair_conflict ?p x" by blast
    have "perm_pair x = perm_pair ?p"
      using x p Cons.prems(3) perm_conflict_iff [of ?p x] by simp
    then have "req_pair r \<in> perm_pair ` set ps" using x(1) p(1) by (metis image_eqI)
    moreover have "t = ps" using t True by (simp add: tbl_insert_unless_Inr)
    ultimately show ?thesis by (simp add: insert_absorb)
  next
    case False
    then have "t = ps @ [?p]" using t by (simp add: tbl_insert_unless_Inr split: if_splits)
    then show ?thesis using p(1) by simp
  qed
  have "\<forall>p \<in> set t. one_sender (perm_pair p)"
    using pairs p(2) Cons.prems(3) by (metis (no_types, lifting) image_eqI image_iff insert_iff)
  then show ?case using Cons.IH [OF rest] Cons.prems(2) pairs by auto
qed simp

lemma dismiss_requests_ok:
  assumes "dismiss_notification_requests w account ids d = Inr (d', b)" and "notifications_ok d"
  shows "notifications_ok d'"
proof (cases b)
  case False
  then show ?thesis
    using assms by (auto simp: dismiss_notification_requests_def Let_def bind_res_Inr_iff split: if_splits)
next
  case True
  let ?ids = "map nrq_id (pending_requests d account ids)"
  let ?rs = "set_request_state (ad_now w) ReqDismissed ?ids (t_notification_request d)"
  have "enqueue_only (ad_job_id w) (ad_pg_now w)
      (request_job NotificationRequestCleanup ''notification-request-cleanup:'' (ad_id_string w) (ad_now w) account)
      (d\<lparr>t_notification_request := ?rs\<rparr>) = Inr d'"
    using assms(1) True by (auto simp: dismiss_notification_requests_def Let_def bind_res_Inr_iff split: if_splits)
  then obtain jobs where d': "d' = d\<lparr>t_notification_request := ?rs, t_job := jobs\<rparr>"
    using enqueue_only_frame by metis
  have ok: "requests_ok (t_notification_request d) (t_notification_permission d)"
    "\<forall>n \<in> set (t_local_notification d). note_ok (t_notification_request d) (t_notification_permission d) n"
    using assms(2) by (auto simp: notifications_ok_def held_ok_def)
  have active: "nrq_active r" if "r \<in> set (t_notification_request d)" "nrq_id r \<in> set ?ids" for r
    using pending_ids_active(2) ok(1) that unfolding requests_ok_def by blast
  have "tbl_ok nrq_conflict ?rs"
    by (rule request_state_ok [OF _ active]) (use ok(1) in \<open>simp_all add: requests_ok_def\<close>)
  moreover have "one_sender (req_pair r)" if "r \<in> set ?rs" for r
    using that ok(1) by (auto simp: set_request_state_mem requests_ok_def)
  ultimately have "requests_ok ?rs (t_notification_permission d)"
    using ok(1) still_pending [of _ _ ReqDismissed] unfolding requests_ok_def by blast
  moreover have "\<forall>n \<in> set (t_local_notification d). note_ok ?rs (t_notification_permission d) n"
    by (rule request_state_notes [OF ok(2) active])
  ultimately show ?thesis by (simp add: notifications_ok_def held_ok_def d')
qed

text \<open>
  Acceptance: the accepted senders become permitted, and none of them has a held notification
  outside of a request, because their requests were active.
\<close>

lemma accept_requests_cases:
  assumes "accept_notification_requests w account ids d = Inr (d', True)" and "notifications_ok d"
  obtains jobs ps where
    "d' = d\<lparr>t_notification_permission := ps,
        t_notification_request := set_request_state (ad_now w) ReqMerging (map nrq_id (pending_requests d account ids))
          (t_notification_request d), t_job := jobs\<rparr>"
    and "perm_pair ` set ps = perm_pair ` set (t_notification_permission d) \<union> req_pair ` set (pending_requests d account ids)"
    and "\<forall>p \<in> set ps. one_sender (perm_pair p)"
    and "pending_requests d account ids \<noteq> []"
proof -
  let ?rs = "pending_requests d account ids"
  obtain ps where ps: "grant_permissions (ad_permission_id w) (ad_pg_now w) account ?rs (t_notification_permission d) = Inr ps"
    and q: "enqueue_only (ad_job_id w) (ad_pg_now w)
      (request_job NotificationRequestMerge ''notification-request-merge:'' (ad_id_string w) (ad_now w) account)
      (d\<lparr>t_notification_permission := ps, t_notification_request := set_request_state (ad_now w) ReqMerging (map nrq_id ?rs)
          (t_notification_request d)\<rparr>) = Inr d'" and ne: "?rs \<noteq> []"
    using assms(1) by (auto simp: accept_notification_requests_def Let_def bind_res_Inr_iff split: if_splits)
  obtain jobs where d': "d' = d\<lparr>t_notification_permission := ps,
        t_notification_request := set_request_state (ad_now w) ReqMerging (map nrq_id ?rs)
          (t_notification_request d), t_job := jobs\<rparr>"
    using enqueue_only_frame [OF q] by metis
  have "one_sender (req_pair r) \<and> nrq_account_id r = account" if "r \<in> set ?rs" for r
    using pending_requests_mem [OF that] assms(2) by (simp add: notifications_ok_def held_ok_def requests_ok_def)
  moreover have "\<forall>p \<in> set (t_notification_permission d). one_sender (perm_pair p)"
    using assms(2) by (simp add: notifications_ok_def held_ok_def requests_ok_def)
  ultimately show thesis using grant_permissions_pairs [OF ps] that [OF d'] ne by blast
qed

lemma accept_requests_ok:
  assumes "accept_notification_requests w account ids d = Inr (d', b)" and "notifications_ok d"
  shows "notifications_ok d'"
proof (cases b)
  case False
  then show ?thesis
    using assms by (auto simp: accept_notification_requests_def Let_def bind_res_Inr_iff split: if_splits)
next
  case True
  let ?rs = "t_notification_request d" and ?pend = "pending_requests d account ids"
  let ?rs' = "set_request_state (ad_now w) ReqMerging (map nrq_id ?pend) ?rs"
  obtain jobs ps where d': "d' = d\<lparr>t_notification_permission := ps, t_notification_request := ?rs', t_job := jobs\<rparr>"
    and ps: "perm_pair ` set ps = perm_pair ` set (t_notification_permission d) \<union> req_pair ` set ?pend"
      "\<forall>p \<in> set ps. one_sender (perm_pair p)"
    using accept_requests_cases [OF _ assms(2)] assms(1) True by metis
  have ok: "requests_ok ?rs (t_notification_permission d)"
    "\<forall>n \<in> set (t_local_notification d). note_ok ?rs (t_notification_permission d) n"
    using assms(2) by (auto simp: notifications_ok_def held_ok_def)
  have tbl: "tbl_ok nrq_conflict ?rs" using ok(1) by (simp add: requests_ok_def)
  have active: "nrq_active r" if "r \<in> set ?rs" "nrq_id r \<in> set (map nrq_id ?pend)" for r
    using pending_ids_active(2) [OF tbl] that by blast
  have merging: "nrq_state x \<noteq> ReqPending" if m: "x \<in> set ?rs'" "req_pair x \<in> req_pair ` set ?pend" for x
  proof
    assume p: "nrq_state x = ReqPending"
    then have x: "x \<in> set ?rs" "nrq_id x \<notin> set (map nrq_id ?pend)"
      using still_pending [OF m(1)] by simp_all
    obtain r where r: "r \<in> set ?pend" "req_pair r = req_pair x" using m(2) by auto
    have "nrq_active_conflict x r"
      using r x p ok(1) pending_requests_mem [OF r(1)] active_conflict_iff [of x r]
      by (simp add: requests_ok_def nrq_active_def)
    then have "x = r"
      using nrq_tbl.conflict_eq [OF tbl x(1)] pending_requests_mem [OF r(1)] by (simp add: nrq_conflict_def)
    then show False using x(2) r(1) by simp
  qed
  have "requests_ok ?rs' ps"
    unfolding requests_ok_def
  proof (intro conjI ballI impI)
    show "tbl_ok nrq_conflict ?rs'" by (rule request_state_ok [OF tbl active])
    show "one_sender (req_pair r)" if "r \<in> set ?rs'" for r
      using that ok(1) by (auto simp: set_request_state_mem requests_ok_def)
    show "one_sender (perm_pair p)" if "p \<in> set ps" for p using ps(2) that by blast
    show "req_pair x \<notin> perm_pair ` set ps" if x: "x \<in> set ?rs'" "nrq_state x = ReqPending" for x
    proof -
      have "x \<in> set ?rs" using still_pending [OF x] by simp
      then have "req_pair x \<notin> perm_pair ` set (t_notification_permission d)" using ok(1) x(2) by (simp add: requests_ok_def)
      then show ?thesis using merging [OF x(1)] x(2) ps(1) by blast
    qed
  qed
  moreover have "note_ok ?rs' ps n" if n: "n \<in> set (t_local_notification d)" for n
  proof -
    have "\<forall>n \<in> set (t_local_notification d). note_ok ?rs' (t_notification_permission d) n"
      by (rule request_state_notes [OF ok(2) active])
    then have 1: "note_ok ?rs' (t_notification_permission d) n" using n by blast
    have "note_pair n \<notin> req_pair ` set ?pend" if "ln_notification_request_id n = None" "ln_filtered n"
    proof -
      have "note_pair n \<notin> active_pairs ?rs" using bspec [OF ok(2) n] that by (simp add: note_ok_def)
      then show ?thesis
        using pending_requests_mem unfolding active_pairs_def nrq_active_def by fastforce
    qed
    then show ?thesis using 1 ps(1) by (auto simp: note_ok_def split: option.splits)
  qed
  ultimately show ?thesis by (simp add: notifications_ok_def held_ok_def d')
qed

lemma delete_requests_keeps:
  assumes "requests_ok rs ps"
  shows "requests_ok (tbl_delete (\<lambda>r. nrq_id r \<in> set ids) rs) ps"
    and "note_ok rs ps n \<Longrightarrow> \<not> of_requests ids n \<Longrightarrow> note_ok (tbl_delete (\<lambda>r. nrq_id r \<in> set ids) rs) ps n"
proof -
  show "requests_ok (tbl_delete (\<lambda>r. nrq_id r \<in> set ids) rs) ps"
    using assms nrq_tbl.ok_delete by (simp add: requests_ok_def)
  have "active_pairs (tbl_delete (\<lambda>r. nrq_id r \<in> set ids) rs) \<subseteq> active_pairs rs"
    by (auto simp: active_pairs_def)
  then show "note_ok (tbl_delete (\<lambda>r. nrq_id r \<in> set ids) rs) ps n" if "note_ok rs ps n" "\<not> of_requests ids n"
    using that by (auto simp: note_ok_def of_requests_def split: option.splits)
qed

text \<open>Nothing refers to a request when it is deleted: the jobs release or delete what it held.\<close>

lemma delete_requests_eq:
  assumes "\<And>n. n \<in> set (t_local_notification d) \<Longrightarrow> \<not> of_requests ids n"
  shows "delete_requests ids d = d\<lparr>t_notification_request := tbl_delete (\<lambda>r. nrq_id r \<in> set ids) (t_notification_request d)\<rparr>"
  using assms by (simp add: delete_requests_def tbl_update_id)

lemma merge_requests_eq:
  "merge_notification_requests account d =
     (let ids = requests_in_state ReqMerging d account
      in if ids = [] then d
         else d\<lparr>t_local_notification := tbl_update (of_requests ids)
                  (\<lambda>n. n\<lparr>ln_filtered := False, ln_notification_request_id := None\<rparr>) (t_local_notification d),
                t_notification_request := tbl_delete (\<lambda>r. nrq_id r \<in> set ids) (t_notification_request d)\<rparr>)"
proof -
  let ?ids = "requests_in_state ReqMerging d account"
  have "\<not> of_requests ?ids n" if n: "n \<in> set (tbl_update (of_requests ?ids)
      (\<lambda>n. n\<lparr>ln_filtered := False, ln_notification_request_id := None\<rparr>) (t_local_notification d))" for n
  proof -
    obtain m where m: "n = (if of_requests ?ids m then m\<lparr>ln_filtered := False, ln_notification_request_id := None\<rparr> else m)"
      using n unfolding mem_tbl_update by blast
    show ?thesis by (cases "of_requests ?ids m") (simp_all add: m of_requests_def)
  qed
  then show ?thesis
    using delete_requests_eq [of "d\<lparr>t_local_notification := tbl_update (of_requests ?ids)
        (\<lambda>n. n\<lparr>ln_filtered := False, ln_notification_request_id := None\<rparr>) (t_local_notification d)\<rparr>" ?ids]
    by (simp add: merge_notification_requests_def Let_def)
qed

lemma cleanup_requests_eq:
  "cleanup_notification_requests account d =
     (let ids = requests_in_state ReqDismissed d account
      in if ids = [] then d
         else d\<lparr>t_local_notification := tbl_delete (of_requests ids) (t_local_notification d),
                t_notification_request := tbl_delete (\<lambda>r. nrq_id r \<in> set ids) (t_notification_request d)\<rparr>)"
  using delete_requests_eq [of "d\<lparr>t_local_notification := tbl_delete (of_requests (requests_in_state ReqDismissed d account))
      (t_local_notification d)\<rparr>" "requests_in_state ReqDismissed d account"]
  by (simp add: cleanup_notification_requests_def Let_def)

lemma merge_requests_ok: "notifications_ok d \<Longrightarrow> notifications_ok (merge_notification_requests account d)"
proof -
  assume ok: "notifications_ok d"
  let ?ids = "requests_in_state ReqMerging d account"
  let ?rs = "tbl_delete (\<lambda>r. nrq_id r \<in> set ?ids) (t_notification_request d)" and ?ps = "t_notification_permission d"
  let ?f = "\<lambda>n. n\<lparr>ln_filtered := False, ln_notification_request_id := None\<rparr>"
  have rs: "requests_ok (t_notification_request d) ?ps" using ok by (simp add: notifications_ok_def held_ok_def)
  have "note_ok ?rs ?ps m" if m: "m \<in> set (tbl_update (of_requests ?ids) ?f (t_local_notification d))" for m
  proof -
    obtain n where n: "n \<in> set (t_local_notification d)" "m = (if of_requests ?ids n then ?f n else n)"
      using m unfolding mem_tbl_update by blast
    have old: "note_ok (t_notification_request d) ?ps n" using ok n(1) by (simp add: notifications_ok_def held_ok_def)
    then show ?thesis
      using delete_requests_keeps(2) [OF rs old] n(2) by (cases "of_requests ?ids n") (simp_all add: note_ok_def note_pair_def)
  qed
  then have "held_ok (tbl_update (of_requests ?ids) ?f (t_local_notification d)) ?rs ?ps"
    using delete_requests_keeps(1) [OF rs] by (simp add: held_ok_def)
  then show "notifications_ok (merge_notification_requests account d)"
    using ok by (simp add: merge_requests_eq Let_def notifications_ok_def)
qed

lemma cleanup_requests_ok: "notifications_ok d \<Longrightarrow> notifications_ok (cleanup_notification_requests account d)"
  using delete_requests_keeps [where rs = "t_notification_request d" and ps = "t_notification_permission d"
      and ids = "requests_in_state ReqDismissed d account"]
  by (simp add: cleanup_requests_eq Let_def notifications_ok_def held_ok_def)

lemma dismiss_rows_ok: "notifications_ok d \<Longrightarrow> notifications_ok (dismiss_rows now p d)"
  unfolding notifications_ok_def dismiss_rows_def
  by (simp, erule held_ok_update) (subst note_ok_cong; simp add: note_pair_def)

lemma clear_ok: "notifications_ok d \<Longrightarrow> notifications_ok (clear_local_notifications now account d)"
proof -
  have "notifications_ok (foldl (\<lambda>d n. dismiss_rows now (\<lambda>x. ln_id x = ln_id n) d) d ns)" if "notifications_ok d" for ns
    using that by (induction ns arbitrary: d) (simp_all add: dismiss_rows_ok)
  then show "notifications_ok d \<Longrightarrow> notifications_ok (clear_local_notifications now account d)"
    by (simp add: clear_local_notifications_def)
qed

subsection \<open>Steps\<close>

text \<open>
  The operations that notify, with the notification they report, and all operations on the
  notification tables. Clock readings, identifiers and arguments are arbitrary, and so is what
  happens to the other tables in between.
\<close>

inductive notify_step :: "db \<Rightarrow> db \<Rightarrow> local_notification_row option \<Rightarrow> bool" where
  with_policy: "notify_local_account_with_policy w account kind actor s d = Inr (d', x) \<Longrightarrow> filterable kind \<Longrightarrow> notify_step d d' x"
| local_mention: "notify_local_status_mention w account actor s d = Inr (d', x) \<Longrightarrow> notify_step d d' x"
| local_quote: "notify_local_status_quote w account actor s d = Inr (d', x) \<Longrightarrow> notify_step d d' x"
| remote_mention: "notify_remote_status_mention w account actor s d = Inr (d', x) \<Longrightarrow> notify_step d d' x"
| remote_quote: "notify_remote_actor_quote w account actor s d = Inr (d', x) \<Longrightarrow> notify_step d d' x"
| remote_follow: "notify_remote_actor_follow w account actor kind d = Inr (d', x) \<Longrightarrow> notify_step d d' x"
| remote_favourite: "notify_remote_actor_favourite w account actor s d = Inr (d', x) \<Longrightarrow> notify_step d d' x"
| remote_reblog: "notify_remote_actor_reblog w account actor s d = Inr (d', x) \<Longrightarrow> notify_step d d' x"

inductive note_step :: "db \<Rightarrow> db \<Rightarrow> bool" where
  notify: "notify_step d d' x \<Longrightarrow> note_step d d'"
| unfiltered: "notify_local_account w account kind actor s d = Inr (d', n) \<Longrightarrow> note_step d d'"
| read_policy: "notification_policy now account d = Inr (d', p) \<Longrightarrow> note_step d d'"
| change_policy: "update_notification_policy now account u d = Inr (d', p) \<Longrightarrow> note_step d d'"
| dismiss: "dismiss_local_notification now account i d = (d', b) \<Longrightarrow> note_step d d'"
| clear: "clear_local_notifications now account d = d' \<Longrightarrow> note_step d d'"
| dismiss_group: "dismiss_notification_group parse_uuid now now' account key d = (d', b) \<Longrightarrow> note_step d d'"
| accept: "accept_notification_requests v account ids d = Inr (d', b) \<Longrightarrow> note_step d d'"
| dismiss_requests: "dismiss_notification_requests v account ids d = Inr (d', b) \<Longrightarrow> note_step d d'"
| merge: "merge_notification_requests account d = d' \<Longrightarrow> note_step d d'"
| cleanup: "cleanup_notification_requests account d = d' \<Longrightarrow> note_step d d'"
| elsewhere: "t_local_notification d' = t_local_notification d \<Longrightarrow> t_notification_request d' = t_notification_request d \<Longrightarrow>
    t_notification_permission d' = t_notification_permission d \<Longrightarrow> note_step d d'"

definition note_init :: "db \<Rightarrow> bool" where
  "note_init d \<longleftrightarrow>
     t_local_notification d = [] \<and> t_notification_request d = [] \<and> t_notification_permission d = []"

text \<open>
  A notifying function keeps the invariant, and when it reports no notification or one that is
  held back, no job is added.
\<close>

definition silent_unless_shown :: "db \<Rightarrow> db \<Rightarrow> local_notification_row option \<Rightarrow> bool" where
  "silent_unless_shown d d' x \<longleftrightarrow> (\<forall>n. x = Some n \<longrightarrow> ln_filtered n) \<longrightarrow> t_job d' = t_job d"

lemma store_decided:
  assumes "bind_res m (store_by_policy w account kind actor s rst opens) = Inr (d', x)"
    and "\<And>r. m = Inr r \<Longrightarrow> decided d (pair_of account actor) r"
  shows "notifications_ok d' \<and> silent_unless_shown d d' x"
proof -
  obtain r where r: "m = Inr r" "store_by_policy w account kind actor s rst opens r = Inr (d', x)"
    using assms(1) by (auto simp: bind_res_Inr_iff)
  show ?thesis using store_by_policy_ok [OF r(2) assms(2) [OF r(1)]] unfolding silent_unless_shown_def by blast
qed

lemma store_shown_decided:
  assumes "bind_res m (\<lambda>r. bind_res (store_by_policy w account kind actor s rst opens r) (\<lambda>r. Inr (shown_only r))) = Inr (d', x)"
    and "\<And>r. m = Inr r \<Longrightarrow> decided d (pair_of account actor) r"
  shows "notifications_ok d' \<and> silent_unless_shown d d' x"
proof -
  obtain r q where r: "m = Inr r" "store_by_policy w account kind actor s rst opens r = Inr q" "shown_only q = (d', x)"
    using assms(1) by (auto simp: bind_res_Inr_iff)
  obtain y where y: "q = (d', y)" using r(3) by (cases q) (simp add: shown_only_def)
  have x: "x = snd (shown_only (d', y))" using r(3) y by simp
  have "bind_res m (store_by_policy w account kind actor s rst opens) = Inr (d', y)" using r(1,2) y by simp
  then have ok: "notifications_ok d' \<and> silent_unless_shown d d' y" using store_decided assms(2) by blast
  have shown: "x = y" if "y = Some n" "\<not> ln_filtered n" for n
    using that x by (simp add: shown_only_def)
  have "(\<forall>n. x = Some n \<longrightarrow> ln_filtered n) \<Longrightarrow> (\<forall>n. y = Some n \<longrightarrow> ln_filtered n)"
    using shown by metis
  then show ?thesis using ok unfolding silent_unless_shown_def by blast
qed

lemma unchanged_ok: "notifications_ok d \<Longrightarrow> notifications_ok d \<and> silent_unless_shown d d x"
  by (simp add: silent_unless_shown_def)

lemma local_event_ok:
  assumes "notify_local_status_event kind w account actor s d = Inr (d', x)" and "notifications_ok d"
  shows "notifications_ok d' \<and> silent_unless_shown d d' x"
proof (cases "account = actor \<or> \<not> local_account_allows_notification (nd_now w) d account actor")
  case True
  then show ?thesis using assms(1) unchanged_ok [OF assms(2)] by (auto simp: notify_local_status_event_def)
next
  case False
  let ?find = "List.find (\<lambda>n. ln_account_id n = account \<and> ln_notification_type n = kind \<and> ln_actor_account_id n = Some actor \<and> ln_status_id n = Some s) (t_local_notification d)"
  show ?thesis
  proof (cases ?find)
    case (Some n)
    then have "d' = d" using assms(1) False by (simp add: notify_local_status_event_def shown_only_def)
    then show ?thesis using unchanged_ok [OF assms(2)] by simp
  next
    case None
    have "bind_res (local_notification_policy_action (nd_now w) account actor kind (Some s) d)
      (\<lambda>r. bind_res (store_by_policy w account kind (ActorLocal actor) (Some s) None (Some s) r) (\<lambda>r. Inr (shown_only r))) = Inr (d', x)"
      using assms(1) False None by (simp add: notify_local_status_event_def)
    then show ?thesis by (rule store_shown_decided [OF _ local_policy_decided [OF _ assms(2)]])
  qed
qed

lemma remote_event_ok:
  assumes "notify_remote_status_event kind w account actor s d = Inr (d', x)" and "notifications_ok d"
  shows "notifications_ok d' \<and> silent_unless_shown d d' x"
proof (cases "\<not> remote_account_allows_notification (nd_now w) d account actor")
  case True
  then show ?thesis using assms(1) unchanged_ok [OF assms(2)] by (auto simp: notify_remote_status_event_def)
next
  case False
  let ?find = "List.find (\<lambda>n. ln_account_id n = account \<and> ln_notification_type n = kind \<and> ln_remote_actor_id n = Some actor \<and> ln_remote_status_id n = Some s) (t_local_notification d)"
  show ?thesis
  proof (cases ?find)
    case (Some n)
    then have "d' = d" using assms(1) False by (simp add: notify_remote_status_event_def shown_only_def)
    then show ?thesis using unchanged_ok [OF assms(2)] by simp
  next
    case None
    have "bind_res (remote_notification_policy_action (nd_now w) account actor kind (Some s) d)
      (\<lambda>r. bind_res (store_by_policy w account kind (ActorRemote actor) None (Some s) (Some s) r) (\<lambda>r. Inr (shown_only r))) = Inr (d', x)"
      using assms(1) False None by (simp add: notify_remote_status_event_def)
    then show ?thesis by (rule store_shown_decided [OF _ remote_policy_decided [OF _ assms(2)]])
  qed
qed


lemma with_policy_ok:
  assumes "notify_local_account_with_policy w account kind actor s d = Inr (d', x)" and "filterable kind" and "notifications_ok d"
  shows "notifications_ok d' \<and> silent_unless_shown d d' x"
proof (cases "account = actor \<or> \<not> local_account_allows_notification (nd_now w) d account actor")
  case True
  then show ?thesis using assms(1) unchanged_ok [OF assms(3)] by (auto simp: notify_local_account_with_policy_def)
next
  case False
  let ?find = "List.find (\<lambda>n. ln_account_id n = account \<and> ln_notification_type n = kind \<and>
    ln_actor_account_id n = Some actor \<and> ln_status_id n = s) (t_local_notification d)"
  show ?thesis
  proof (cases ?find)
    case (Some n)
    then have "d' = d" using assms(1,2) False by (simp add: notify_local_account_with_policy_def)
    then show ?thesis using unchanged_ok [OF assms(3)] by simp
  next
    case None
    have "bind_res (local_notification_policy_action (nd_now w) account actor kind s d)
      (store_by_policy w account kind (ActorLocal actor) s None (if kind \<in> {NMention, NQuote} then s else None)) = Inr (d', x)"
      using assms(1,2) False None by (simp add: notify_local_account_with_policy_def)
    then show ?thesis by (rule store_decided [OF _ local_policy_decided [OF _ assms(3)]])
  qed
qed

lemma remote_follow_ok:
  assumes "notify_remote_actor_follow w account actor kind d = Inr (d', x)" and "notifications_ok d"
  shows "notifications_ok d' \<and> silent_unless_shown d d' x"
proof -
  consider (same) "d' = d" | (store) "bind_res (remote_notification_policy_action (nd_now w) account actor kind None d)
      (store_by_policy w account kind (ActorRemote actor) None None None) = Inr (d', x)"
    using assms(1) by (auto simp: notify_remote_actor_follow_def split: if_splits)
  then show ?thesis
  proof cases
    case same then show ?thesis using unchanged_ok [OF assms(2)] by simp
  next
    case store then show ?thesis by (rule store_decided [OF _ remote_policy_decided [OF _ assms(2)]])
  qed
qed

lemma remote_reblog_ok:
  assumes "notify_remote_actor_reblog w account actor s d = Inr (d', x)" and "notifications_ok d"
  shows "notifications_ok d' \<and> silent_unless_shown d d' x"
proof -
  consider (same) "d' = d" | (store) "bind_res (remote_notification_policy_action (nd_now w) account actor NReblog None d)
      (store_by_policy w account NReblog (ActorRemote actor) (Some s) None None) = Inr (d', x)"
    using assms(1) by (auto simp: notify_remote_actor_reblog_def split: if_splits)
  then show ?thesis
  proof cases
    case same then show ?thesis using unchanged_ok [OF assms(2)] by simp
  next
    case store then show ?thesis by (rule store_decided [OF _ remote_policy_decided [OF _ assms(2)]])
  qed
qed

lemma remote_favourite_ok:
  assumes "notify_remote_actor_favourite w account actor s d = Inr (d', x)" and "notifications_ok d"
  shows "notifications_ok d' \<and> silent_unless_shown d d' x"
proof (cases "List.find (\<lambda>n. ln_account_id n = account \<and> ln_notification_type n = NFavourite \<and>
    ln_remote_actor_id n = Some actor \<and> ln_status_id n = Some s) (t_local_notification d)")
  case (Some n)
  then have "d' = d" using assms(1) by (simp add: notify_remote_actor_favourite_def)
  then show ?thesis using unchanged_ok [OF assms(2)] by simp
next
  case None
  then consider (same) "d' = d" | (store) "bind_res (remote_notification_policy_action (nd_now w) account actor NFavourite None d)
      (store_by_policy w account NFavourite (ActorRemote actor) (Some s) None None) = Inr (d', x)"
    using assms(1) by (auto simp: notify_remote_actor_favourite_def split: if_splits)
  then show ?thesis
  proof cases
    case same then show ?thesis using unchanged_ok [OF assms(2)] by simp
  next
    case store then show ?thesis by (rule store_decided [OF _ remote_policy_decided [OF _ assms(2)]])
  qed
qed

lemma notify_step_ok:
  "notify_step d d' x \<Longrightarrow> notifications_ok d \<Longrightarrow> notifications_ok d' \<and> silent_unless_shown d d' x"
proof (induction rule: notify_step.induct)
  case with_policy then show ?case by (rule with_policy_ok)
next
  case local_mention then show ?case unfolding notify_local_status_mention_def by (rule local_event_ok)
next
  case local_quote then show ?case unfolding notify_local_status_quote_def by (rule local_event_ok)
next
  case remote_mention then show ?case unfolding notify_remote_status_mention_def by (rule remote_event_ok)
next
  case remote_quote then show ?case unfolding notify_remote_actor_quote_def by (rule remote_event_ok)
next
  case remote_follow then show ?case by (rule remote_follow_ok)
next
  case remote_favourite then show ?case by (rule remote_favourite_ok)
next
  case remote_reblog then show ?case by (rule remote_reblog_ok)
qed

lemma unfiltered_ok:
  assumes "notify_local_account w account kind actor s d = Inr (d', n)" and "notifications_ok d"
  shows "notifications_ok d'"
proof (cases "List.find (\<lambda>n. ln_account_id n = account \<and> ln_notification_type n = kind \<and>
    ln_actor_account_id n = Some actor \<and> ln_status_id n = s) (t_local_notification d)")
  case (Some m)
  then show ?thesis using assms by (simp add: notify_local_account_def split: if_splits)
next
  case None
  then have "store_notification w (notification_row w account kind (ActorLocal actor) s None False None) d = Inr (d', n)"
    using assms(1) by (simp add: notify_local_account_def split: if_splits)
  then show ?thesis using store_row_ok(1) [OF _ assms(2)] by (simp add: note_ok_row)
qed

lemma policy_ops_ok:
  "notification_policy now account d = Inr (d', p) \<Longrightarrow> notifications_ok d \<Longrightarrow> notifications_ok d'"
  "update_notification_policy now account u d = Inr (d', p) \<Longrightarrow> notifications_ok d \<Longrightarrow> notifications_ok d'"
proof -
  assume p: "notification_policy now account d = Inr (d', p)" "notifications_ok d"
  obtain t where "d' = d\<lparr>t_local_notification_policy := t\<rparr>" using notification_policy_frame [OF p(1)] by blast
  then show "notifications_ok d'" using p(2) by (simp add: notifications_ok_def)
next
  assume "update_notification_policy now account u d = Inr (d', p)" "notifications_ok d"
  then show "notifications_ok d'"
    by (auto simp: update_notification_policy_def notifications_ok_def case_err_iff)
qed

subsection \<open>Every reachable state\<close>

lemma note_step_ok: "note_step d d' \<Longrightarrow> notifications_ok d \<Longrightarrow> notifications_ok d'"
proof (induction rule: note_step.induct)
  case notify then show ?case using notify_step_ok by blast
next
  case unfiltered then show ?case by (rule unfiltered_ok)
next
  case read_policy then show ?case by (rule policy_ops_ok)
next
  case change_policy then show ?case by (rule policy_ops_ok)
next
  case (dismiss now account i d d' b)
  then show ?case using dismiss_rows_ok by (auto simp: dismiss_local_notification_def split: option.splits)
next
  case clear then show ?case using clear_ok by blast
next
  case (dismiss_group parse_uuid now now' account key d d' b)
  then show ?case using dismiss_rows_ok by (auto simp: dismiss_notification_group_def Let_def split: if_splits)
next
  case accept then show ?case by (rule accept_requests_ok)
next
  case dismiss_requests then show ?case by (rule dismiss_requests_ok)
next
  case merge then show ?case using merge_requests_ok by blast
next
  case cleanup then show ?case using cleanup_requests_ok by blast
next
  case elsewhere then show ?case by (simp add: notifications_ok_def)
qed

interpretation note_sys: invariant_system note_init note_step notifications_ok
proof
  show "notifications_ok d" if "note_init d" for d
    using that by (simp add: note_init_def notifications_ok_def held_ok_def requests_ok_def)
qed (rule note_step_ok)

text \<open>
  The notifying functions write the tables of notifications, groups, requests, policies and jobs.
  Whatever a projection of the database reads from the other tables is the same afterwards.
\<close>

locale notification_frame =
  fixes view :: "db \<Rightarrow> 'v"
  assumes view_notifications: "view (d\<lparr>t_local_notification := n\<rparr>) = view d"
    and view_groups: "view (d\<lparr>t_notification_group_state := g\<rparr>) = view d"
    and view_requests: "view (d\<lparr>t_notification_request := r\<rparr>) = view d"
    and view_policies: "view (d\<lparr>t_local_notification_policy := p\<rparr>) = view d"
    and view_jobs: "view (d\<lparr>t_job := j\<rparr>) = view d"
begin

lemmas views = view_notifications view_groups view_requests view_policies view_jobs

lemma policy_view: "notification_policy now account d = Inr (d', p) \<Longrightarrow> view d' = view d"
  using notification_policy_frame [of now account d d' p] views by metis

lemma policy_action_view:
  assumes "local_notification_policy_action now account actor kind s d = Inr (d', a) \<or>
    remote_notification_policy_action now account actor kind s d = Inr (d', a)"
  shows "view d' = view d"
proof -
  have "d' = d \<or> (\<exists>p. notification_policy now account d = Inr (d', p))"
    using assms
    by (auto simp: local_notification_policy_action_def remote_notification_policy_action_def bind_res_Inr_iff Let_def
        case_err_iff simp del: find_ex_Some split: if_splits)
  then show ?thesis using policy_view by blast
qed

lemma upsert_request_view: "upsert_notification_request w account actor s d = Inr (d', q) \<Longrightarrow> view d' = view d"
  by (auto simp: upsert_notification_request_def Let_def bind_res_Inr_iff views)

lemma store_notification_view: "store_notification w row d = Inr (d', n) \<Longrightarrow> view d' = view d"
  using store_notification_cases [of w row d d' n] views by metis

lemma store_by_policy_view:
  assumes "store_by_policy w account kind actor s rst opens r = Inr (d', x)"
  shows "view d' = view (fst r)"
proof -
  obtain d0 action where r: "r = (d0, action)" by (cases r)
  show ?thesis
    using assms
    by (auto simp: store_by_policy_def r bind_res_Inr_iff dest!: store_notification_view upsert_request_view
        split: if_splits option.splits)
qed

lemmas decision_view = store_by_policy_view policy_action_view [OF disjI1] policy_action_view [OF disjI2]

lemma status_event_view:
  "notify_local_status_event kind w account actor s d = Inr (d', x) \<Longrightarrow> view d' = view d"
  "notify_remote_status_event kind w account actor s d = Inr (d', x) \<Longrightarrow> view d' = view d"
  by (auto simp: notify_local_status_event_def notify_remote_status_event_def bind_res_Inr_iff shown_only_def
      dest!: decision_view split: if_splits option.splits)

lemma notify_view: "notify_local_account w account kind actor s d = Inr (d', n) \<Longrightarrow> view d' = view d"
  by (auto simp: notify_local_account_def dest!: store_notification_view split: if_splits option.splits)

lemma with_policy_view: "notify_local_account_with_policy w account kind actor s d = Inr (d', x) \<Longrightarrow> view d' = view d"
  by (auto simp: notify_local_account_with_policy_def bind_res_Inr_iff dest!: decision_view notify_view
      split: if_splits option.splits)

lemma remote_actor_view:
  "notify_remote_actor_follow w account actor kind d = Inr (d', x) \<Longrightarrow> view d' = view d"
  "notify_remote_actor_favourite w account actor s d = Inr (d', x) \<Longrightarrow> view d' = view d"
  "notify_remote_actor_reblog w account actor s d = Inr (d', x) \<Longrightarrow> view d' = view d"
  by (auto simp: notify_remote_actor_follow_def notify_remote_actor_favourite_def notify_remote_actor_reblog_def
      bind_res_Inr_iff dest!: decision_view split: if_splits option.splits)

lemma notify_step_view: "notify_step d d' x \<Longrightarrow> view d' = view d"
  by (induction rule: notify_step.induct)
     (auto simp: notify_local_status_mention_def notify_local_status_quote_def notify_remote_status_mention_def
       notify_remote_actor_quote_def dest: status_event_view with_policy_view remote_actor_view)

lemma enqueue_view: "enqueue_only i now job d = Inr d' \<Longrightarrow> view d' = view d"
  using enqueue_only_frame [of i now job d d'] views by metis

end

text \<open>In particular permissions are not touched by them.\<close>

interpretation perms_frame: notification_frame t_notification_permission
  by unfold_locales simp_all

definition permitted :: "db \<Rightarrow> sender_pair set" where
  "permitted d = perm_pair ` set (t_notification_permission d)"

lemma foldl_dismiss_perms:
  "t_notification_permission (foldl (\<lambda>d n. dismiss_rows now (p n) d) d ns) = t_notification_permission d"
  by (induction ns arbitrary: d) (simp_all add: dismiss_rows_def)

lemma note_step_permits: "note_step d d' \<Longrightarrow> notifications_ok d \<Longrightarrow> permitted d \<subseteq> permitted d'"
proof (induction rule: note_step.induct)
  case notify then show ?case using perms_frame.notify_step_view by (simp add: permitted_def)
next
  case (unfiltered w account kind actor s d d' n)
  then show ?case using perms_frame.notify_view by (simp add: permitted_def)
next
  case read_policy then show ?case using perms_frame.policy_view by (simp add: permitted_def)
next
  case (change_policy now account u d d' p)
  then show ?case by (auto simp: update_notification_policy_def permitted_def case_err_iff)
next
  case (dismiss now account i d d' b)
  then show ?case by (auto simp: dismiss_local_notification_def dismiss_rows_def permitted_def split: option.splits)
next
  case (clear now account d d')
  then show ?case by (auto simp: clear_local_notifications_def permitted_def foldl_dismiss_perms)
next
  case (dismiss_group parse_uuid now now' account key d d' b)
  then show ?case by (auto simp: dismiss_notification_group_def dismiss_rows_def permitted_def Let_def split: if_splits)
next
  case (accept v account ids d d' b)
  show ?case
  proof (cases b)
    case True
    then show ?thesis using accept_requests_cases [OF _ accept(2)] accept(1) unfolding permitted_def by force
  next
    case False
    then show ?thesis
      using accept(1) by (auto simp: accept_notification_requests_def Let_def bind_res_Inr_iff split: if_splits)
  qed
next
  case (dismiss_requests v account ids d d' b)
  then show ?case
    by (auto simp: dismiss_notification_requests_def Let_def bind_res_Inr_iff permitted_def elim!: enqueue_only_frame split: if_splits)
next
  case (merge account d d')
  then show ?case by (auto simp: merge_requests_eq Let_def permitted_def)
next
  case (cleanup account d d')
  then show ?case by (auto simp: cleanup_requests_eq Let_def permitted_def)
next
  case elsewhere then show ?case by (simp add: permitted_def)
qed

lemma note_run_permits:
  "note_step\<^sup>*\<^sup>* d d' \<Longrightarrow> notifications_ok d \<Longrightarrow> permitted d \<subseteq> permitted d' \<and> notifications_ok d'"
  by (induction rule: rtranclp_induct) (use note_step_permits note_step_ok in blast)+

text \<open>Of a permitted sender nothing is held back after the merge but what a dismissed request holds.\<close>

lemma merged_is_shown:
  assumes "notifications_ok d" and "n \<in> set (t_local_notification (merge_notification_requests account d))"
    and "note_pair n \<in> permitted d" and "ln_account_id n = account" and "ln_filtered n"
  shows "\<exists>r \<in> set (t_notification_request d). ln_notification_request_id n = Some (nrq_id r) \<and> nrq_state r = ReqDismissed"
proof -
  let ?ids = "requests_in_state ReqMerging d account"
  have n: "n \<in> set (t_local_notification d) \<and> \<not> of_requests ?ids n"
  proof (cases "?ids = []")
    case True
    then show ?thesis using assms(2) by (simp add: merge_requests_eq of_requests_def split: option.split)
  next
    case False
    then have "n \<in> set (tbl_update (of_requests ?ids) (\<lambda>n. n\<lparr>ln_filtered := False, ln_notification_request_id := None\<rparr>)
        (t_local_notification d))"
      using assms(2) by (simp add: merge_requests_eq Let_def)
    then obtain m where "m \<in> set (t_local_notification d)"
      "n = (if of_requests ?ids m then m\<lparr>ln_filtered := False, ln_notification_request_id := None\<rparr> else m)"
      unfolding mem_tbl_update by blast
    then show ?thesis using assms(5) by (cases "of_requests ?ids m") simp_all
  qed
  have ok: "note_ok (t_notification_request d) (t_notification_permission d) n"
    "requests_ok (t_notification_request d) (t_notification_permission d)"
    using assms(1) n by (auto simp: notifications_ok_def held_ok_def)
  then obtain q where q: "ln_notification_request_id n = Some q"
    using assms(3,5) by (cases "ln_notification_request_id n") (auto simp: note_ok_def permitted_def)
  then obtain r where r: "r \<in> set (t_notification_request d)" "nrq_id r = q" "req_pair r = note_pair n"
    using ok(1) by (auto simp: note_ok_def)
  have "nrq_state r \<noteq> ReqPending" using ok(2) r assms(3) by (auto simp: requests_ok_def permitted_def)
  moreover have "nrq_account_id r = account" using r(3) assms(4) by (simp add: req_pair_def note_pair_def)
  then have "nrq_state r \<noteq> ReqMerging"
    using n q r by (auto simp: of_requests_def requests_in_state_def)
  ultimately show ?thesis using q r by (cases "nrq_state r") auto
qed

end
