(* ===== verification/Roosty_Notification_Properties.thy ===== *)
theory Roosty_Notification_Properties
  imports Roosty_Notification_Invariants
begin

text \<open>
  What holds of notifications and the requests that hold them back: that stored requests are
  well formed, that an accepted sender is heard, that what is held back stays silent, and how an
  acceptance can get lost.
\<close>

subsection \<open>A recipient with a held mention\<close>

text \<open>Actor 8 sends account 1 a direct status, and the default policy holds the mention back.\<close>

definition demo_direct :: remote_status_row where
  "demo_direct = \<lparr> rs_id = 75, rs_activitypub_id = ''https://r/s'', rs_remote_actor_id = 8, rs_content = [],
     rs_visibility = Direct, rs_published_at = 0, rs_updated_at = 0, rs_deleted_at = None, rs_in_reply_to = None,
     rs_in_reply_to_local_status_id = None, rs_in_reply_to_remote_status_id = None, rs_conversation_id = None,
     rs_object = JNull, rs_created_at = 0, rs_quote_automatic_policy = JArr [], rs_quote_manual_policy = JArr [] \<rparr>"

definition note_world :: db where
  "note_world = demo_world\<lparr>t_remote_status := [demo_direct],
     t_local_notification_policy := [default_notification_policy 1 0]\<rparr>"

definition demo_note_draws :: note_draws where
  "demo_note_draws = \<lparr> nd_id_string = (\<lambda>_. ''u''), nd_notification_id = 40, nd_group_id = 41, nd_request_id = 42,
     nd_job_id = (\<lambda>i. i), nd_now = 0, nd_pg_now = 0 \<rparr>"

definition demo_request :: local_notification_request_row where
  "demo_request = new_request_row demo_note_draws 1 (ActorRemote 8) 75"

definition demo_note :: local_notification_row where
  "demo_note = notification_row demo_note_draws 1 NMention (ActorRemote 8) None (Some 75) True (Some 42)"

definition demo_held :: db where
  "demo_held = note_world\<lparr>t_notification_request := [demo_request], t_local_notification := [demo_note]\<rparr>"

lemmas demo_held_defs = demo_held_def demo_note_def demo_request_def demo_note_draws_def note_world_def demo_world_def
  demo_direct_def default_notification_policy_def empty_db_def new_request_row_def notification_row_def

lemma demo_allowed: "remote_account_allows_notification 0 note_world 1 8"
  by (simp add: remote_account_allows_notification_def local_remote_accounts_are_blocked_def
      find_local_remote_account_block_def active_local_remote_account_mute_def
      demo_held_defs)

lemma demo_filtered:
  "remote_notification_policy_action 0 1 8 NMention (Some 75) note_world = Inr (note_world, PolicyFilter)"
  by (simp add: remote_notification_policy_action_def notification_policy_def stranger_rules_def days_def seconds_def
      recipient_started_private_thread_def thread_key_def demo_held_defs demo_actor_def)

lemma demo_stored:
  "store_by_policy demo_note_draws 1 NMention (ActorRemote 8) None (Some 75) (Some 75) (note_world, PolicyFilter)
     = Inr (demo_held, Some demo_note)"
  by (simp add: store_by_policy_def upsert_notification_request_def store_notification_def assign_group_def
      insert_local_notification_def group_target_def ln_check_def ln_fk_def fk_opt_def fk_request_def request_fk_def
      fk_remote_def fk_local_def fk_remote_status_def adopt_notifications_def tbl_update_def with_fk_def db_result_def tbl_upsert_def tbl_insert_def demo_held_defs)

lemma demo_mention: "notify_remote_status_mention demo_note_draws 1 8 75 note_world = Inr (demo_held, None)"
proof -
  have "nd_now demo_note_draws = 0" "t_local_notification note_world = []" "ln_filtered demo_note"
    by (simp_all add: demo_held_defs)
  then show ?thesis
    using demo_allowed demo_filtered demo_stored
    by (simp add: notify_remote_status_mention_def notify_remote_status_event_def shown_only_def)
qed

lemma demo_held_reachable: "reachable note_init note_step demo_held"
proof -
  have "note_init note_world" by (simp add: note_init_def note_world_def demo_world_def empty_db_def)
  moreover have "note_step note_world demo_held"
    by (rule note_step.notify [OF notify_step.remote_mention [OF demo_mention]])
  ultimately show ?thesis by (blast intro: reachable.intros)
qed

text \<open>Account 1 accepts the request, with and without a merge job that a worker holds.\<close>

definition demo_answer :: answer_draws where
  "demo_answer = \<lparr> ad_id_string = (\<lambda>_. ''u''), ad_permission_id = (\<lambda>_. 43), ad_job_id = 44, ad_now = 1, ad_pg_now = 1 \<rparr>"

definition demo_merge_job :: "uuid option \<Rightarrow> job_row" where
  "demo_merge_job claim = (new_job_row 44 1 (request_job NotificationRequestMerge ''notification-request-merge:''
     (\<lambda>_. ''u'') 1 1))\<lparr>job_claim_id := claim\<rparr>"

definition demo_accepted :: "job_row list \<Rightarrow> db" where
  "demo_accepted jobs = demo_held\<lparr>t_job := jobs,
     t_notification_permission := [permission_row (\<lambda>_. 43) 1 1 demo_request],
     t_notification_request := [demo_request\<lparr>nrq_state := ReqMerging, nrq_updated_at := 1\<rparr>]\<rparr>"

lemmas demo_accepted_defs = demo_accepted_def demo_answer_def demo_merge_job_def new_job_row_def request_job_def
  permission_row_def job_conflict_def job_dedup_conflict_def job_active_key_def npm_conflict_def npm_pair_conflict_def

lemma demo_pending: "pending_requests (demo_held\<lparr>t_job := jobs\<rparr>) 1 [42] = [demo_request]"
  by (simp add: pending_requests_def demo_held_defs)

lemma demo_accept:
  "accept_notification_requests demo_answer 1 [42] (demo_held\<lparr>t_job := []\<rparr>) = Inr (demo_accepted [demo_merge_job None], True)"
  "accept_notification_requests demo_answer 1 [42] (demo_held\<lparr>t_job := [demo_merge_job (Some 45)]\<rparr>)
     = Inr (demo_accepted [demo_merge_job (Some 45)], True)"
  by (simp_all add: accept_notification_requests_def pending_requests_def Let_def enqueue_only_def enqueue_job_in_transaction_def
      enqueue_job_on_connection_def tbl_insert_unless_def tbl_upsert_def tbl_update_def tbl_insert_def db_result_def
      set_request_state_def demo_accepted_defs demo_held_defs)

subsection \<open>Properties\<close>

lemma query_page_subset: "query_page idf cursor limit rows = (page, rest) \<Longrightarrow> set page \<subseteq> set rows"
  by (auto simp: query_page_def trim_to_page_eq dest!: in_set_takeD)

lemma accept_enqueues:
  assumes "accept_notification_requests w account ids d = Inr (d1, True)"
  shows "\<exists>j \<in> set (t_job d1). job_kind j = ''notification_request_merge'' \<and> job_completed_at j = None \<and>
            job_deduplication_key j = Some (''notification-request-merge:'' @ ad_id_string w account)"
  using assms
  by (auto simp: accept_notification_requests_def Let_def bind_res_Inr_iff enqueue_only_def enqueue_job_in_transaction_def
      job_dedup_conflict_def job_active_key_def new_job_row_def request_job_def sql_eq_def
      dest!: enqueue_cases split: if_splits option.splits)

lemma accept_keeps_jobs:
  assumes "accept_notification_requests w account ids d = Inr (d1, True)" and "j \<in> set (t_job d)"
    and "job_dedup_conflict (new_job_row (ad_job_id w) (ad_pg_now w)
      (request_job NotificationRequestMerge ''notification-request-merge:'' (ad_id_string w) (ad_now w) account)) j"
  shows "t_job d1 = t_job d"
  using assms
  by (auto simp: accept_notification_requests_def Let_def bind_res_Inr_iff enqueue_only_def enqueue_job_in_transaction_def
      job_conflict_def dest!: enqueue_cases split: if_splits)

lemma request_converts:
  assumes "one_sender (req_pair r)"
  shows "\<exists>x. notification_request_from_row d r = Inr x"
  using assms
  by (cases "nrq_actor_account_id r"; cases "nrq_remote_actor_id r") (auto simp: notification_request_from_row_def req_pair_def)

text \<open>
  C21: what the tables hold is what their readers expect. In every reachable state a
  notification under a request is held back and the request has the same recipient and the same
  sender, and every stored request names exactly one sender, so that listing the requests of an
  account never runs into the error of an invalid stored sender.
\<close>

theorem stored_requests_are_well_formed:
  assumes "reachable note_init note_step d"
  shows "(\<forall>n \<in> set (t_local_notification d). \<forall>q. ln_notification_request_id n = Some q \<longrightarrow>
            ln_filtered n \<and> (\<exists>r \<in> set (t_notification_request d). nrq_id r = q \<and> nrq_account_id r = ln_account_id n \<and>
              nrq_actor_account_id r = ln_actor_account_id n \<and> nrq_remote_actor_id r = ln_remote_actor_id n)) \<and>
         (\<exists>page. notification_requests_for_account d account limit cursor = Inr page)"
proof (intro conjI ballI allI impI)
  have ok: "notifications_ok d" by (rule note_sys.reachable_inv [OF assms])
  fix n q assume n: "n \<in> set (t_local_notification d)" "ln_notification_request_id n = Some q"
  have "note_ok (t_notification_request d) (t_notification_permission d) n"
    using ok n(1) by (simp add: notifications_ok_def held_ok_def)
  then show "ln_filtered n" "\<exists>r \<in> set (t_notification_request d). nrq_id r = q \<and> nrq_account_id r = ln_account_id n \<and>
      nrq_actor_account_id r = ln_actor_account_id n \<and> nrq_remote_actor_id r = ln_remote_actor_id n"
    using n(2) by (auto simp: note_ok_def note_pair_def req_pair_def)
next
  have "one_sender (req_pair r)" if "r \<in> set (t_notification_request d)" for r
    using note_sys.reachable_inv [OF assms] that by (simp add: notifications_ok_def held_ok_def requests_ok_def)
  then have "\<exists>x. notification_request_from_row d r = Inr x" if "r \<in> set (t_notification_request d)" for r
    using that request_converts by blast
  moreover obtain rows rest where rows: "query_page nrq_id cursor limit
      (filter (\<lambda>r. nrq_account_id r = account \<and> nrq_state r = ReqPending) (t_notification_request d)) = (rows, rest)"
    by (cases "query_page nrq_id cursor limit
      (filter (\<lambda>r. nrq_account_id r = account \<and> nrq_state r = ReqPending) (t_notification_request d))")
  moreover have "set rows \<subseteq> set (t_notification_request d)" using query_page_subset [OF rows] by auto
  ultimately have "\<exists>xs. map_res (notification_request_from_row d) rows = Inr xs" using map_res_Inr by blast
  then show "\<exists>page. notification_requests_for_account d account limit cursor = Inr page"
    by (auto simp: notification_requests_for_account_def rows)
qed

theorem stored_requests_are_well_formed_witness:
  "demo_note \<in> set (t_local_notification demo_held) \<and> ln_notification_request_id demo_note = Some 42 \<and> ln_filtered demo_note \<and>
   (\<exists>r \<in> set (t_notification_request demo_held). nrq_id r = 42 \<and> nrq_account_id r = 1 \<and> nrq_remote_actor_id r = Some 8) \<and>
   (\<exists>page. notification_requests_for_account demo_held 1 20 \<lparr> cc_max_id = None, cc_since_id = None, cc_min_id = None \<rparr> = Inr page)"
proof -
  have "demo_note \<in> set (t_local_notification demo_held)" "ln_notification_request_id demo_note = Some 42"
    "ln_account_id demo_note = 1" "ln_remote_actor_id demo_note = Some 8"
    by (simp_all add: demo_held_defs)
  then show ?thesis
    using stored_requests_are_well_formed [OF demo_held_reachable, of 1 20 "\<lparr> cc_max_id = None, cc_since_id = None, cc_min_id = None \<rparr>"]
    by metis
qed

text \<open>
  C22: an accepted sender is heard. Suppose that an account accepts requests, among them \<open>r\<close>,
  and that the merge job runs, whatever else happened to notifications, requests and policies
  before it did. Then everything stored from the sender of \<open>r\<close> is shown, except for what an
  earlier, dismissed request still holds until its cleanup; the policy accepts what the sender
  sends next; and the acceptance left an uncompleted merge job in the queue.
\<close>

theorem accepted_sender_is_heard:
  assumes "reachable note_init note_step d"
    and "accept_notification_requests w account ids d = Inr (d1, True)"
    and "r \<in> set (pending_requests d account ids)"
    and "note_step\<^sup>*\<^sup>* d1 d2"
  shows "(\<forall>n \<in> set (t_local_notification (merge_notification_requests account d2)).
            note_pair n = req_pair r \<and> ln_filtered n \<longrightarrow>
              (\<exists>q \<in> set (t_notification_request d2). ln_notification_request_id n = Some (nrq_id q) \<and> nrq_state q = ReqDismissed)) \<and>
         (\<forall>a kind s now. nrq_actor_account_id r = Some a \<longrightarrow>
            local_notification_policy_action now account a kind s d2 = Inr (d2, PolicyAccept)) \<and>
         (\<forall>a kind s now. nrq_remote_actor_id r = Some a \<longrightarrow>
            remote_notification_policy_action now account a kind s d2 = Inr (d2, PolicyAccept)) \<and>
         (\<exists>j \<in> set (t_job d1). job_kind j = ''notification_request_merge'' \<and> job_completed_at j = None \<and>
            job_deduplication_key j = Some (''notification-request-merge:'' @ ad_id_string w account))"
proof -
  have ok: "notifications_ok d" by (rule note_sys.reachable_inv [OF assms(1)])
  obtain jobs ps where d1: "d1 = d\<lparr>t_notification_permission := ps,
        t_notification_request := set_request_state (ad_now w) ReqMerging (map nrq_id (pending_requests d account ids))
          (t_notification_request d), t_job := jobs\<rparr>"
    and ps: "perm_pair ` set ps = perm_pair ` set (t_notification_permission d) \<union> req_pair ` set (pending_requests d account ids)"
    using accept_requests_cases [OF assms(2) ok] by metis
  have "req_pair r \<in> permitted d1" using assms(3) ps by (simp add: permitted_def d1)
  moreover have "notifications_ok d1" by (rule accept_requests_ok [OF assms(2) ok])
  ultimately have r: "req_pair r \<in> permitted d2" "notifications_ok d2" using note_run_permits [OF assms(4)] by auto
  have account: "nrq_account_id r = account" using pending_requests_mem [OF assms(3)] by simp
  show ?thesis
  proof (intro conjI ballI allI impI)
    fix n assume n: "n \<in> set (t_local_notification (merge_notification_requests account d2))"
      "note_pair n = req_pair r \<and> ln_filtered n"
    then have "ln_account_id n = account" using account by (simp add: note_pair_def req_pair_def)
    then show "\<exists>q \<in> set (t_notification_request d2). ln_notification_request_id n = Some (nrq_id q) \<and> nrq_state q = ReqDismissed"
      using merged_is_shown [OF r(2) n(1)] n(2) r(1) by simp
  next
    fix a kind s now assume "nrq_actor_account_id r = Some a"
    then have "list_ex (\<lambda>p. npm_account_id p = account \<and> npm_actor_account_id p = Some a) (t_notification_permission d2)"
      using r(1) account by (auto simp: permitted_def perm_pair_def req_pair_def list_ex_iff)
    then show "local_notification_policy_action now account a kind s d2 = Inr (d2, PolicyAccept)"
      by (simp add: local_notification_policy_action_def)
  next
    fix a kind s now assume "nrq_remote_actor_id r = Some a"
    then have "list_ex (\<lambda>p. npm_account_id p = account \<and> npm_remote_actor_id p = Some a) (t_notification_permission d2)"
      using r(1) account by (auto simp: permitted_def perm_pair_def req_pair_def list_ex_iff)
    then show "remote_notification_policy_action now account a kind s d2 = Inr (d2, PolicyAccept)"
      by (simp add: remote_notification_policy_action_def)
  next
    show "\<exists>j \<in> set (t_job d1). job_kind j = ''notification_request_merge'' \<and> job_completed_at j = None \<and>
            job_deduplication_key j = Some (''notification-request-merge:'' @ ad_id_string w account)"
      by (rule accept_enqueues [OF assms(2)])
  qed
qed

theorem accepted_sender_is_heard_witness:
  "accept_notification_requests demo_answer 1 [42] demo_held = Inr (demo_accepted [demo_merge_job None], True) \<and>
   (\<forall>kind s now. remote_notification_policy_action now 1 8 kind s (demo_accepted [demo_merge_job None]) =
      Inr (demo_accepted [demo_merge_job None], PolicyAccept))"
proof -
  have "demo_held\<lparr>t_job := []\<rparr> = demo_held" "nrq_remote_actor_id demo_request = Some 8" by (simp_all add: demo_held_defs)
  then show ?thesis
    using accepted_sender_is_heard [OF demo_held_reachable, of demo_answer 1 "[42]" "demo_accepted [demo_merge_job None]" demo_request
        "demo_accepted [demo_merge_job None]"] demo_accept(1) demo_pending [of "[]"]
    by simp
qed

text \<open>
  C23: what is held back stays silent. When one of the notifying functions reports no notification,
  or one that is held back, no job was queued: in particular no push message. And a notification
  that is held back is on no page of notifications unless the client asks for these, is not found
  by its identifier, is in no group and does not count as unread.
\<close>

theorem held_back_is_silent:
  assumes "reachable note_init note_step d" and "notify_step d d' x" and "\<And>n. x = Some n \<Longrightarrow> ln_filtered n"
    and "m \<in> set (t_local_notification d')" and "ln_filtered m"
  shows "t_job d' = t_job d \<and>
    (\<not> nf_include_filtered f \<longrightarrow> m \<notin> set (cp_items (local_notifications_for_account now d' account limit cursor f))) \<and>
    find_local_notification_for_account d' account i \<noteq> Some m \<and>
    m \<notin> set (notifications_in_group parse_uuid now d' account key) \<and>
    notification_unread_count d' account since =
      notification_unread_count (d'\<lparr>t_local_notification := filter (\<lambda>n. \<not> ln_filtered n) (t_local_notification d')\<rparr>) account since"
proof (intro conjI impI)
  show "t_job d' = t_job d"
    using notify_step_ok [OF assms(2) note_sys.reachable_inv [OF assms(1)]] assms(3) unfolding silent_unless_shown_def by blast
  show "m \<notin> set (cp_items (local_notifications_for_account now d' account limit cursor f))" if "\<not> nf_include_filtered f"
    using that assms(5) query_page_subset [of ln_id cursor limit
        "filter (filter_accepts (hidden_remote_actor_ids_for_account now d' account) f account) (t_local_notification d')"]
    by (auto simp: local_notifications_for_account_def filter_accepts_def split: prod.splits)
  show "find_local_notification_for_account d' account i \<noteq> Some m"
    using assms(5) by (auto simp: find_local_notification_for_account_def shown_notification_def dest: find_Some_mem)
  show "m \<notin> set (notifications_in_group parse_uuid now d' account key)"
    using assms(5) by (auto simp: notifications_in_group_def shown_notification_def Let_def split: option.splits)
  show "notification_unread_count d' account since =
      notification_unread_count (d'\<lparr>t_local_notification := filter (\<lambda>n. \<not> ln_filtered n) (t_local_notification d')\<rparr>) account since"
    by (simp add: notification_unread_count_def shown_notification_def) (metis (mono_tags, lifting))
qed

theorem held_back_is_silent_witness:
  "t_job demo_held = t_job note_world \<and> find_local_notification_for_account demo_held 1 40 \<noteq> Some demo_note"
proof -
  have w: "reachable note_init note_step note_world"
    by (rule reachable.intros(1)) (simp add: note_init_def note_world_def demo_world_def empty_db_def)
  show ?thesis
    using held_back_is_silent [OF w notify_step.remote_mention [OF demo_mention], of demo_note] by (simp add: demo_held_defs)
qed

text \<open>
  C24: an acceptance while the merge job runs is lost. The merge job of an account has one
  deduplication key, which a job keeps until it is completed. When requests are accepted while a
  worker holds the job, after its handler has collected the requests, no job is added; the worker
  then completes the one it holds. The accepted requests stay in the state of being merged, and
  there is no job left that would merge them.
\<close>

theorem acceptance_during_merge_is_lost:
  assumes "tbl_ok job_conflict (t_job d)" and "notifications_ok d"
    and "j \<in> set (t_job d)" and "job_kind j = ''notification_request_merge''" and "job_completed_at j = None"
    and "job_deduplication_key j = Some (''notification-request-merge:'' @ ad_id_string w account)"
    and "holds_lease c j"
    and "accept_notification_requests w account ids d = Inr (d1, True)"
    and "mark_job_completed now c d1 = (d2, True)"
  shows "\<not> notification_requests_merged d2 account \<and>
    (\<forall>k \<in> set (t_job d2). job_kind k = ''notification_request_merge'' \<and>
       job_deduplication_key k = Some (''notification-request-merge:'' @ ad_id_string w account) \<longrightarrow> job_completed_at k \<noteq> None)"
proof -
  let ?new = "request_job NotificationRequestMerge ''notification-request-merge:'' (ad_id_string w) (ad_now w) account"
  have conflict: "job_dedup_conflict (new_job_row (ad_job_id w) (ad_pg_now w) ?new) k \<longleftrightarrow>
      job_kind k = ''notification_request_merge'' \<and> job_completed_at k = None \<and>
      job_deduplication_key k = Some (''notification-request-merge:'' @ ad_id_string w account)" for k
    by (auto simp: job_dedup_conflict_def job_active_key_def new_job_row_def request_job_def sql_eq_def split: option.splits)
  obtain jobs ps where d1: "d1 = d\<lparr>t_notification_permission := ps,
        t_notification_request := set_request_state (ad_now w) ReqMerging (map nrq_id (pending_requests d account ids))
          (t_notification_request d), t_job := jobs\<rparr>" and ne: "pending_requests d account ids \<noteq> []"
    using accept_requests_cases [OF assms(8) assms(2)] by metis
  have jobs: "t_job d1 = t_job d"
    by (rule accept_keeps_jobs [OF assms(8,3)]) (simp add: conflict assms)
  have d2: "t_job d2 = tbl_update (holds_lease c) (\<lambda>j. release (j\<lparr>job_completed_at := Some now\<rparr>)) (t_job d)"
    "t_notification_request d2 = t_notification_request d1"
    using assms(9) by (auto simp: mark_job_completed_def jobs)
  show ?thesis
  proof (intro conjI ballI impI)
    obtain r where r: "r \<in> set (pending_requests d account ids)" using ne by (cases "pending_requests d account ids") auto
    then have "r\<lparr>nrq_state := ReqMerging, nrq_updated_at := ad_now w\<rparr> \<in> set (t_notification_request d2)"
      using pending_requests_mem [OF r] by (auto simp: d2 d1 set_request_state_mem)
    then show "\<not> notification_requests_merged d2 account"
      using pending_requests_mem [OF r] by (force simp: notification_requests_merged_def list_ex_iff)
  next
    fix k assume k: "k \<in> set (t_job d2)" "job_kind k = ''notification_request_merge'' \<and>
       job_deduplication_key k = Some (''notification-request-merge:'' @ ad_id_string w account)"
    show "job_completed_at k \<noteq> None"
    proof
      assume open_job: "job_completed_at k = None"
      obtain m where m: "m \<in> set (t_job d)" "k = (if holds_lease c m then release (m\<lparr>job_completed_at := Some now\<rparr>) else m)"
        using k(1) unfolding d2 mem_tbl_update by blast
      have free: "k \<in> set (t_job d) \<and> \<not> holds_lease c k"
        using m open_job by (cases "holds_lease c m") (simp_all add: release_def)
      moreover have "job_conflict k j"
        using k(2) open_job assms(4-6) by (simp add: job_conflict_def job_dedup_conflict_def job_active_key_def)
      ultimately have "k = j" using job_tbl.conflict_eq [OF assms(1)] assms(3) by blast
      then show False using free assms(7) by simp
    qed
  qed
qed

theorem acceptance_during_merge_is_lost_witness:
  "\<exists>c d2. mark_job_completed 2 c (demo_accepted [demo_merge_job (Some 45)]) = (d2, True) \<and> \<not> notification_requests_merged d2 1"
proof -
  let ?d = "demo_held\<lparr>t_job := [demo_merge_job (Some 45)]\<rparr>"
  let ?c = "\<lparr> cj_id = 44, cj_claim_id = 45, cj_kind = NotificationRequestMerge, cj_payload = JNull, cj_attempts = 0,
    cj_created_at = 1 \<rparr>"
  have lease: "holds_lease ?c (demo_merge_job (Some 45))" by (simp add: holds_lease_def demo_accepted_defs)
  obtain d2 where d2: "mark_job_completed 2 ?c (demo_accepted [demo_merge_job (Some 45)]) = (d2, True)"
    using lease by (simp add: mark_job_completed_def rows_affected_def demo_accepted_def)
  have ok: "notifications_ok ?d"
    using note_sys.reachable_inv [OF demo_held_reachable] by (simp add: notifications_ok_def)
  have "\<not> notification_requests_merged d2 1"
    using acceptance_during_merge_is_lost [of ?d "demo_merge_job (Some 45)" demo_answer 1 ?c "[42]"
        "demo_accepted [demo_merge_job (Some 45)]" 2 d2] ok lease d2 demo_accept(2)
    by (simp add: demo_merge_job_def demo_answer_def new_job_row_def request_job_def)
  then show ?thesis using d2 by blast
qed

end
