(* ===== verification/Roosty_Interaction_Invariants.thy ===== *)
theory Roosty_Interaction_Invariants
  imports Roosty_Interactions Roosty_Notification_Properties "HOL-Library.Multiset"
begin

text \<open>
  The invariant of favourites and boosts: the trend counters agree with the stored interactions,
  and every operation keeps them so.
\<close>

subsection \<open>Counting\<close>

text \<open>Removing the row of a key removes exactly that row.\<close>

context keyed_table
begin

lemma mset_delete_key:
  assumes "tbl_ok conflict t" and "r \<in> set t"
  shows "mset t = add_mset r (mset (tbl_delete (\<lambda>x. key x = key r) t))"
  using assms
proof (induction t)
  case (Cons a t)
  show ?case
  proof (cases "key a = key r")
    case True
    then have "a = r" using key_unique [OF Cons.prems(1), of a r] Cons.prems(2) by simp
    moreover have "tbl_delete (\<lambda>x. key x = key r) t = t"
      using Cons.prems(1) \<open>a = r\<close> key_conflict [of r] by (intro tbl_delete_id) auto
    ultimately show ?thesis by (simp add: tbl_delete_def)
  next
    case False
    then have "r \<in> set t" using Cons.prems(2) by auto
    then show ?thesis using Cons False by (simp add: tbl_delete_def)
  qed
qed simp

end

text \<open>The targets of the stored interactions, one for each row.\<close>

definition announce_target :: "remote_status_reblog_row \<Rightarrow> trend_target" where
  "announce_target r =
     (case rsr_local_status_id r of
        Some i \<Rightarrow> TrendLocalStatus i
      | None \<Rightarrow> (case rsr_remote_status_id r of Some i \<Rightarrow> TrendRemoteStatus i | None \<Rightarrow> TrendTag 0))"

definition favourites :: "db \<Rightarrow> trend_target multiset" where
  "favourites d =
     image_mset (\<lambda>r. TrendLocalStatus (lsf_status_id r)) (mset (t_local_status_favourite d)) +
     image_mset (\<lambda>r. TrendLocalStatus (rsf_local_status_id r)) (mset (t_remote_status_favourite d)) +
     image_mset (\<lambda>r. TrendRemoteStatus (lrf_remote_status_id r)) (mset (t_local_remote_status_favourite d))"

definition boosts :: "db \<Rightarrow> trend_target multiset" where
  "boosts d =
     image_mset (\<lambda>r. TrendLocalStatus (lsr_status_id r)) (mset (t_local_status_reblog d)) +
     image_mset (\<lambda>r. TrendRemoteStatus (lrr_remote_status_id r)) (mset (t_local_remote_status_reblog d)) +
     image_mset announce_target (mset (t_remote_status_reblog d))"

definition metric :: "db \<Rightarrow> trend_target \<Rightarrow> status_trend_metric_row option" where
  "metric d target = List.find (\<lambda>r. stm_key r = metric_key target) (t_status_trend_metric d)"

definition counted_favourites :: "db \<Rightarrow> trend_target \<Rightarrow> int" where
  "counted_favourites d target = (case metric d target of None \<Rightarrow> 0 | Some r \<Rightarrow> stm_favourites_count r)"

definition counted_boosts :: "db \<Rightarrow> trend_target \<Rightarrow> int" where
  "counted_boosts d target = (case metric d target of None \<Rightarrow> 0 | Some r \<Rightarrow> stm_reblogs_count r)"

fun is_status :: "trend_target \<Rightarrow> bool" where
  "is_status (TrendTag _) \<longleftrightarrow> False"
| "is_status _ \<longleftrightarrow> True"

lemma metric_key_inj: "is_status a \<Longrightarrow> is_status b \<Longrightarrow> metric_key a = metric_key b \<longleftrightarrow> a = b"
  by (cases a; cases b) (auto simp: metric_key_def)

text \<open>The exact counters, and what keeps them so.\<close>

definition counters_exact :: "db \<Rightarrow> bool" where
  "counters_exact d \<longleftrightarrow>
     (\<forall>target. is_status target \<longrightarrow>
        counted_favourites d target = int (count (favourites d) target) \<and>
        counted_boosts d target = int (count (boosts d) target))"

definition interaction_tables_ok :: "db \<Rightarrow> bool" where
  "interaction_tables_ok d \<longleftrightarrow>
     tbl_ok lsf_conflict (t_local_status_favourite d) \<and> tbl_ok rsf_conflict (t_remote_status_favourite d) \<and>
     tbl_ok lrf_conflict (t_local_remote_status_favourite d) \<and> tbl_ok lsr_conflict (t_local_status_reblog d) \<and>
     tbl_ok lrr_conflict (t_local_remote_status_reblog d) \<and> tbl_ok rsr_conflict (t_remote_status_reblog d) \<and>
     (\<forall>r \<in> set (t_remote_status_reblog d). remote_status_reblog_from_model r \<noteq> None)"

definition interactions_ok :: "db \<Rightarrow> bool" where
  "interactions_ok d \<longleftrightarrow>
     interaction_tables_ok d \<and> tbl_ok stm_conflict (t_status_trend_metric d) \<and> counters_exact d \<and>
     (\<forall>target \<in># favourites d + boosts d. is_status target \<and> published_at d target \<noteq> None)"

lemma announce_target_eq:
  "remote_status_reblog_from_model r = Some b \<Longrightarrow> announce_target r = reblog_trend_target (rb_target b)"
  by (auto simp: remote_status_reblog_from_model_def announce_target_def split: option.splits)

lemma reblog_target_is_status [simp]: "is_status (reblog_trend_target t)"
  by (cases t) simp_all

subsection \<open>Adjusting\<close>

lemma find_tbl_update:
  assumes "\<And>r. key (f r) = key r"
  shows "List.find (\<lambda>r. key r = k) (tbl_update p f t) =
    map_option (\<lambda>r. if p r then f r else r) (List.find (\<lambda>r. key r = k) t)"
  by (induction t) (simp_all add: tbl_update_def assms)

lemma metric_keys [simp]: "stm_key (new_metric pg_now key p f b) = key" "stm_key (changed_metric pg_now p f b r) = stm_key r"
  by (simp_all add: stm_key_def new_metric_def changed_metric_def)

lemma bump_metric_cases:
  assumes "bump_metric pg_now key p f b t = Inr t'" and "tbl_ok stm_conflict t"
  shows "tbl_ok stm_conflict t'"
    and "List.find (\<lambda>r. stm_key r = k) t' =
      (if k \<noteq> key then List.find (\<lambda>r. stm_key r = k) t
       else Some (case List.find (\<lambda>r. stm_key r = key) t of
                    None \<Rightarrow> new_metric pg_now key p f b | Some r \<Rightarrow> changed_metric pg_now p f b r))"
proof -
  let ?new = "new_metric pg_now key p f b" and ?merge = "changed_metric pg_now p f b"
  have up: "tbl_upsert stm_conflict stm_conflict ?merge ?new t = Inr t'"
    using assms(1) by (simp add: bump_metric_def split: if_splits)
  show "tbl_ok stm_conflict t'"
    by (rule stm_tbl.ok_upsert [OF up assms(2)]) (simp_all add: stm_conflict_def)
  show "List.find (\<lambda>r. stm_key r = k) t' =
      (if k \<noteq> key then List.find (\<lambda>r. stm_key r = k) t
       else Some (case List.find (\<lambda>r. stm_key r = key) t of None \<Rightarrow> ?new | Some r \<Rightarrow> ?merge r))"
  proof (cases "List.find (\<lambda>r. stm_key r = key) t")
    case None
    then have "\<not> list_ex (stm_conflict ?new) t"
      by (auto simp: find_None_iff list_ex_iff stm_conflict_def)
    then have "t' = t @ [?new]" using up by (simp add: tbl_upsert_def tbl_insert_Inr)
    then show ?thesis using None by (auto simp: find_append split: option.split)
  next
    case (Some r)
    then have "list_ex (stm_conflict ?new) t"
      using find_Some_mem [OF Some] by (auto simp: list_ex_iff stm_conflict_def)
    then have "t' = tbl_update (stm_conflict ?new) ?merge t" using up by (auto simp: tbl_upsert_def split: if_splits)
    moreover have "stm_conflict ?new x \<longleftrightarrow> stm_key x = key" for x by (auto simp: stm_conflict_def)
    ultimately show ?thesis
      using Some find_tbl_update [of stm_key ?merge k "stm_conflict ?new" t]
      by (cases "List.find (\<lambda>r. stm_key r = k) t") (auto dest: find_Some_mem)
  qed
qed

text \<open>
  The effect of adjusting the counters of a status that exists: the counters of that status
  change by the given amounts, not below zero, and nothing else of the counters does.
\<close>

lemma adjust_frame:
  assumes "adjust_status_trend pg_now target f b d = Inr d'"
  obtains ms ds where "d' = d\<lparr>t_status_trend_metric := ms, t_trend_dirty := ds\<rparr>"
proof -
  have "\<exists>ms ds. d' = d\<lparr>t_status_trend_metric := ms, t_trend_dirty := ds\<rparr>"
  proof (cases "published_at d target")
    case None
    then obtain ds where "d' = d\<lparr>t_trend_dirty := ds\<rparr>"
      using assms by (auto simp: adjust_status_trend_def mark_trend_dirty_def bind_res_Inr_iff split: trend_target.splits)
    then show ?thesis by (intro exI [of _ "t_status_trend_metric d"]) auto
  next
    case (Some p)
    then show ?thesis
      using assms by (auto simp: adjust_status_trend_def mark_trend_dirty_def bind_res_Inr_iff split: trend_target.splits)
  qed
  then show thesis using that by blast
qed

lemma adjust_counters:
  assumes "adjust_status_trend pg_now target f b d = Inr d'" and "is_status target" and "published_at d target \<noteq> None"
    and "tbl_ok stm_conflict (t_status_trend_metric d)"
  shows "tbl_ok stm_conflict (t_status_trend_metric d')"
    and "is_status x \<Longrightarrow> counted_favourites d' x =
           (if x = target then max (counted_favourites d x + f) 0 else counted_favourites d x)"
    and "is_status x \<Longrightarrow> counted_boosts d' x =
           (if x = target then max (counted_boosts d x + b) 0 else counted_boosts d x)"
proof -
  obtain p where p: "published_at d target = Some p" using assms(3) by blast
  obtain ms where ms: "bump_metric pg_now (metric_key target) p f b (t_status_trend_metric d) = Inr ms"
    "t_status_trend_metric d' = ms"
    using assms(1,2) p
    by (auto simp: adjust_status_trend_def mark_trend_dirty_def bind_res_Inr_iff split: trend_target.splits)
  note bump = bump_metric_cases [OF ms(1) assms(4)]
  show "tbl_ok stm_conflict (t_status_trend_metric d')" using bump(1) ms(2) by simp
  have m: "metric d' x = (if x = target then Some (case metric d target of
        None \<Rightarrow> new_metric pg_now (metric_key target) p f b | Some r \<Rightarrow> changed_metric pg_now p f b r) else metric d x)"
    if "is_status x"
    using bump(2) [of "metric_key x"] metric_key_inj [OF that assms(2)] by (simp add: metric_def ms(2))
  show "is_status x \<Longrightarrow> counted_favourites d' x =
           (if x = target then max (counted_favourites d x + f) 0 else counted_favourites d x)"
    using m by (auto simp: counted_favourites_def new_metric_def changed_metric_def split: option.splits)
  show "is_status x \<Longrightarrow> counted_boosts d' x =
           (if x = target then max (counted_boosts d x + b) 0 else counted_boosts d x)"
    using m by (auto simp: counted_boosts_def new_metric_def changed_metric_def split: option.splits)
qed

text \<open>
  One interaction: a row is added or removed and the counters are adjusted by as much.
\<close>

definition same_elsewhere :: "db \<Rightarrow> db \<Rightarrow> bool" where
  "same_elsewhere d d' \<longleftrightarrow>
     t_status_trend_metric d' = t_status_trend_metric d \<and> t_local_status d' = t_local_status d \<and>
     t_remote_status d' = t_remote_status d"

lemma published_at_cong: "same_elsewhere d d' \<Longrightarrow> published_at d' = published_at d"
  by (rule ext) (simp add: same_elsewhere_def published_at_def split: trend_target.split)

lemma adjusted_ok:
  assumes "adjust_status_trend pg_now target f b d1 = Inr d2" and "interactions_ok d" and "interaction_tables_ok d1"
    and "same_elsewhere d d1" and "is_status target" and "published_at d target \<noteq> None"
    and "\<And>x. int (count (favourites d1) x) = int (count (favourites d) x) + (if x = target then f else 0)"
    and "\<And>x. int (count (boosts d1) x) = int (count (boosts d) x) + (if x = target then b else 0)"
  shows "interactions_ok d2"
proof -
  obtain ms ds where d2: "d2 = d1\<lparr>t_status_trend_metric := ms, t_trend_dirty := ds\<rparr>"
    using adjust_frame [OF assms(1)] by blast
  have rows: "favourites d2 = favourites d1" "boosts d2 = boosts d1" "interaction_tables_ok d2" "published_at d2 = published_at d"
    using assms(3) published_at_cong [OF assms(4)]
    by (auto simp: d2 favourites_def boosts_def interaction_tables_ok_def published_at_def fun_eq_iff split: trend_target.splits)
  have d1: "counted_favourites d1 = counted_favourites d" "counted_boosts d1 = counted_boosts d"
    using assms(4) by (simp_all add: same_elsewhere_def counted_favourites_def counted_boosts_def metric_def fun_eq_iff)
  have "tbl_ok stm_conflict (t_status_trend_metric d1)"
    using assms(2,4) by (simp add: interactions_ok_def same_elsewhere_def)
  note adj = adjust_counters [OF assms(1,5) _ this, unfolded published_at_cong [OF assms(4)], OF assms(6)]
  have exact: "counted_favourites d x = int (count (favourites d) x)" "counted_boosts d x = int (count (boosts d) x)"
    if "is_status x" for x
    using assms(2) that by (auto simp: interactions_ok_def counters_exact_def)
  have "counters_exact d2"
    unfolding counters_exact_def
  proof (intro allI impI conjI)
    fix x assume x: "is_status x"
    show "counted_favourites d2 x = int (count (favourites d2) x)"
      using adj(2) [OF x] exact(1) [OF x] assms(7) [of x] by (auto simp: rows d1)
    show "counted_boosts d2 x = int (count (boosts d2) x)"
      using adj(3) [OF x] exact(2) [OF x] assms(8) [of x] by (auto simp: rows d1)
  qed
  moreover have "is_status x \<and> published_at d x \<noteq> None" if "x \<in># favourites d1 + boosts d1" for x
  proof (cases "x = target")
    case False
    then have "x \<in># favourites d + boosts d"
      using that assms(7) [of x] assms(8) [of x] by (auto simp: not_in_iff) (metis not_in_iff)+
    then show ?thesis using assms(2) by (simp add: interactions_ok_def)
  qed (use assms(5,6) in simp)
  ultimately show ?thesis using adj(1) rows by (simp add: interactions_ok_def)
qed

lemma favourite_added:
  assumes "adjust_status_trend pg_now target 1 0 d1 = Inr d2" and "interactions_ok d" and "interaction_tables_ok d1"
    and "same_elsewhere d d1" and "is_status target" and "published_at d target \<noteq> None"
    and "favourites d1 = add_mset target (favourites d)" and "boosts d1 = boosts d"
  shows "interactions_ok d2"
  by (rule adjusted_ok [OF assms(1-6)]) (simp_all add: assms(7,8))

lemma boost_added:
  assumes "adjust_status_trend pg_now target 0 1 d1 = Inr d2" and "interactions_ok d" and "interaction_tables_ok d1"
    and "same_elsewhere d d1" and "is_status target" and "published_at d target \<noteq> None"
    and "favourites d1 = favourites d" and "boosts d1 = add_mset target (boosts d)"
  shows "interactions_ok d2"
  by (rule adjusted_ok [OF assms(1-6)]) (simp_all add: assms(7,8))

lemma stored_target:
  "interactions_ok d \<Longrightarrow> target \<in># favourites d + boosts d \<Longrightarrow> is_status target \<and> published_at d target \<noteq> None"
  by (simp add: interactions_ok_def)

lemma favourite_removed:
  assumes "adjust_status_trend pg_now target (-1) 0 d1 = Inr d2" and "interactions_ok d" and "interaction_tables_ok d1"
    and "same_elsewhere d d1" and "favourites d = add_mset target (favourites d1)" and "boosts d1 = boosts d"
  shows "interactions_ok d2"
proof -
  have "is_status target \<and> published_at d target \<noteq> None" by (rule stored_target [OF assms(2)]) (simp add: assms(5))
  then show ?thesis by (intro adjusted_ok [OF assms(1-4)]) (auto simp: assms(5,6))
qed

lemma boost_removed:
  assumes "adjust_status_trend pg_now target 0 (-1) d1 = Inr d2" and "interactions_ok d" and "interaction_tables_ok d1"
    and "same_elsewhere d d1" and "favourites d1 = favourites d" and "boosts d = add_mset target (boosts d1)"
  shows "interactions_ok d2"
proof -
  have "is_status target \<and> published_at d target \<noteq> None" by (rule stored_target [OF assms(2)]) (simp add: assms(6))
  then show ?thesis by (intro adjusted_ok [OF assms(1-4)]) (auto simp: assms(5,6))
qed

lemma fk_published:
  "fk_local_status d i \<Longrightarrow> published_at d (TrendLocalStatus i) \<noteq> None"
  "fk_remote_status d i \<Longrightarrow> published_at d (TrendRemoteStatus i) \<noteq> None"
  by (auto simp: fk_local_status_def fk_remote_status_def published_at_def list_ex_iff find_None_iff)

lemmas interaction_defs = interaction_tables_ok_def same_elsewhere_def favourites_def boosts_def

subsection \<open>The operations\<close>

lemma favourite_local_ok:
  assumes "favourite_local_status w account status d = Inr d'" and "interactions_ok d"
  shows "interactions_ok d'"
proof (cases "list_ex (\<lambda>r. lsf_key r = (account, status)) (t_local_status_favourite d)")
  case True
  then show ?thesis using assms by (simp add: favourite_local_status_def)
next
  case False
  then obtain t where t: "fk_local_status d status"
    "tbl_insert lsf_conflict \<lparr> lsf_id = dr_id w, lsf_account_id = account, lsf_status_id = status, lsf_created_at = dr_now w \<rparr>
       (t_local_status_favourite d) = Inr t"
    "adjust_status_trend (dr_pg_now w) (TrendLocalStatus status) 1 0 (d\<lparr>t_local_status_favourite := t\<rparr>) = Inr d'"
    using assms(1) by (auto simp: favourite_local_status_def bind_res_Inr_iff)
  show ?thesis
    using lsf_tbl.ok_insert [OF t(2)] t(2) assms(2)
    by (intro favourite_added [OF t(3) assms(2) _ _ _ fk_published(1) [OF t(1)]])
       (simp_all add: interactions_ok_def interaction_defs tbl_insert_Inr)
qed

lemma unfavourite_local_ok:
  assumes "unfavourite_local_status w account status d = Inr d'" and "interactions_ok d"
  shows "interactions_ok d'"
proof (cases "\<exists>r \<in> set (t_local_status_favourite d). lsf_key r = (account, status)")
  case False
  then show ?thesis using assms by (auto simp: unfavourite_local_status_def list_ex_iff)
next
  case True
  then obtain r where r: "r \<in> set (t_local_status_favourite d)" "lsf_key r = (account, status)" by blast
  have ok: "tbl_ok lsf_conflict (t_local_status_favourite d)" using assms(2) by (simp add: interactions_ok_def interaction_tables_ok_def)
  have adj: "adjust_status_trend (dr_pg_now w) (TrendLocalStatus status) (-1) 0
      (d\<lparr>t_local_status_favourite := tbl_delete (\<lambda>r. lsf_key r = (account, status)) (t_local_status_favourite d)\<rparr>) = Inr d'"
    using assms(1) True by (auto simp: unfavourite_local_status_def list_ex_iff)
  show ?thesis
    using lsf_tbl.ok_delete [OF ok] lsf_tbl.mset_delete_key [OF ok r(1)] r(2) assms(2)
    by (intro favourite_removed [OF adj assms(2)]) (auto simp: interactions_ok_def interaction_defs lsf_key_def)
qed

text \<open>What the invariant reads of the database.\<close>

definition interaction_view where
  "interaction_view d =
     (t_local_status_favourite d, t_remote_status_favourite d, t_local_remote_status_favourite d, t_local_status_reblog d,
      t_local_remote_status_reblog d, t_remote_status_reblog d, t_status_trend_metric d, t_local_status d, t_remote_status d)"

interpretation interaction_frame: notification_frame interaction_view
  by unfold_locales (simp_all add: interaction_view_def)

lemma interactions_ok_view:
  assumes "interaction_view d' = interaction_view d"
  shows "interactions_ok d' \<longleftrightarrow> interactions_ok d"
proof -
  have "published_at d' = published_at d"
    using assms by (auto simp: fun_eq_iff published_at_def interaction_view_def split: trend_target.split)
  then show ?thesis
    using assms
    by (simp add: interactions_ok_def counters_exact_def interaction_view_def interaction_tables_ok_def
        favourites_def boosts_def counted_favourites_def counted_boosts_def metric_def)
qed

lemma insert_ignoring_Inr:
  "insert_ignoring fk c r t = Inr (t', b) \<longleftrightarrow>
     (if \<exists>x \<in> set t. c r x then t' = t \<and> \<not> b else fk \<and> t' = t @ [r] \<and> b)"
  by (auto simp: insert_ignoring_def tbl_insert_nothing_def list_ex_iff split: if_splits)

lemma add_remote_favourite:
  assumes "interactions_ok d" and "\<forall>x \<in> set (t_remote_status_favourite d). \<not> rsf_conflict r x"
    and "fk_local_status d (rsf_local_status_id r)"
    and "adjust_status_trend pg_now (TrendLocalStatus (rsf_local_status_id r)) 1 0
           (d\<lparr>t_remote_status_favourite := t_remote_status_favourite d @ [r]\<rparr>) = Inr d'"
  shows "interactions_ok d'"
proof -
  have "tbl_insert rsf_conflict r (t_remote_status_favourite d) = Inr (t_remote_status_favourite d @ [r])"
    using assms(2) by (simp add: tbl_insert_Inr)
  then show ?thesis
    using rsf_tbl.ok_insert assms(1)
    by (intro favourite_added [OF assms(4,1) _ _ _ fk_published(1) [OF assms(3)]])
       (auto simp: interactions_ok_def interaction_defs)
qed

lemma remote_like_ok:
  assumes "process_remote_like nw w actor status activity_id recipient d = Inr (d', x)" and "interactions_ok d"
  shows "interactions_ok d'"
proof (cases "local_remote_accounts_are_blocked d recipient actor")
  case True
  then show ?thesis using assms by (simp add: process_remote_like_def)
next
  case False
  let ?row = "remote_favourite_row w actor status activity_id"
  show ?thesis
  proof (cases "\<exists>y \<in> set (t_remote_status_favourite d). rsf_conflict ?row y")
    case True
    then have "d' = d" using assms(1) False by (auto simp: process_remote_like_def bind_res_Inr_iff insert_ignoring_Inr)
    then show ?thesis using assms(2) by simp
  next
    case free: False
    then obtain d1 where d1: "fk_local_status d status"
      "adjust_status_trend (dr_pg_now w) (TrendLocalStatus status) 1 0
         (d\<lparr>t_remote_status_favourite := t_remote_status_favourite d @ [?row]\<rparr>) = Inr d1"
      "d' = d1 \<or> notify_remote_actor_favourite nw recipient actor status d1 = Inr (d', x)"
      using assms(1) False
      by (auto simp: process_remote_like_def bind_res_Inr_iff insert_ignoring_Inr split: if_splits)
    have "interactions_ok d1"
      using add_remote_favourite [OF assms(2), of ?row "dr_pg_now w" d1] free d1(1,2) by (simp add: remote_favourite_row_def)
    then show ?thesis using d1(3) interaction_frame.remote_actor_view(2) interactions_ok_view by blast
  qed
qed

text \<open>The operations whose statements take effect one by one, as far as they succeed.\<close>

lemma after_result_Inr: "after_result before r x = (d', Inr y) \<longleftrightarrow> r = Inr d' \<and> y = x"
  by (auto simp: after_result_def split: sum.splits)

lemma favourite_by_remote_ok:
  assumes "favourite_local_status_by_remote_actor w actor status activity_id d = (d', Inr b)" and "interactions_ok d"
  shows "interactions_ok d'"
proof (cases "list_ex (\<lambda>r. rsf_remote_actor_id r = actor \<and> rsf_local_status_id r = status) (t_remote_status_favourite d)")
  case True
  then show ?thesis using assms by (simp add: favourite_local_status_by_remote_actor_def)
next
  case False
  let ?row = "remote_favourite_row w actor status activity_id"
  have "fk_local_status d status" "\<forall>x \<in> set (t_remote_status_favourite d). \<not> rsf_conflict ?row x"
    "adjust_status_trend (dr_pg_now w) (TrendLocalStatus status) 1 0
       (d\<lparr>t_remote_status_favourite := t_remote_status_favourite d @ [?row]\<rparr>) = Inr d'"
    using assms(1) False
    by (auto simp: favourite_local_status_by_remote_actor_def Let_def after_result_Inr tbl_insert_Inr split: sum.splits)
  then show ?thesis
    using add_remote_favourite [OF assms(2), of ?row "dr_pg_now w" d'] by (simp add: remote_favourite_row_def)
qed

lemma remove_remote_favourite:
  assumes "interactions_ok d" and "remote_like d actor activity_id = Some r"
    and "adjust_status_trend pg_now (TrendLocalStatus (rsf_local_status_id r)) (-1) 0 (delete_remote_like (rsf_id r) d) = Inr d'"
  shows "interactions_ok d'"
proof -
  have r: "r \<in> set (t_remote_status_favourite d)" using find_Some_mem [OF assms(2) [unfolded remote_like_def]] by simp
  have ok: "tbl_ok rsf_conflict (t_remote_status_favourite d)" using assms(1) by (simp add: interactions_ok_def interaction_tables_ok_def)
  show ?thesis
    using rsf_tbl.ok_delete [OF ok] rsf_tbl.mset_delete_key [OF ok r] assms(1)
    by (intro favourite_removed [OF assms(3,1)]) (auto simp: interactions_ok_def interaction_defs delete_remote_like_def)
qed

lemma undo_like_ok:
  assumes "process_remote_undo_like w actor original d = Inr (d', b)" and "interactions_ok d"
  shows "interactions_ok d'"
  using assms remove_remote_favourite [OF assms(2), of actor original]
  by (auto simp: process_remote_undo_like_def bind_res_Inr_iff split: option.splits)

lemma unfavourite_by_remote_ok:
  assumes "unfavourite_local_status_by_remote_actor w actor activity_id d = (d', Inr b)" and "interactions_ok d"
  shows "interactions_ok d'"
  using assms remove_remote_favourite [OF assms(2), of actor activity_id]
  by (auto simp: unfavourite_local_status_by_remote_actor_def Let_def after_result_Inr split: option.splits)

lemma add_outbound_favourite:
  assumes "interactions_ok d" and "\<forall>x \<in> set (t_local_remote_status_favourite d). \<not> lrf_conflict r x"
    and "fk_remote_status d (lrf_remote_status_id r)"
    and "adjust_status_trend pg_now (TrendRemoteStatus (lrf_remote_status_id r)) 1 0
           (d\<lparr>t_local_remote_status_favourite := t_local_remote_status_favourite d @ [r]\<rparr>) = Inr d'"
  shows "interactions_ok d'"
proof -
  have "tbl_insert lrf_conflict r (t_local_remote_status_favourite d) = Inr (t_local_remote_status_favourite d @ [r])"
    using assms(2) by (simp add: tbl_insert_Inr)
  then show ?thesis
    using lrf_tbl.ok_insert assms(1)
    by (intro favourite_added [OF assms(4,1) _ _ _ fk_published(2) [OF assms(3)]])
       (auto simp: interactions_ok_def interaction_defs)
qed

lemma remove_outbound_favourite:
  assumes "interactions_ok d" and "find_remote_status_favourite d account status = Some r"
    and "adjust_status_trend pg_now (TrendRemoteStatus status) (-1) 0 (delete_outbound_favourite (lrf_id r) d) = Inr d'"
  shows "interactions_ok d'"
proof -
  have r: "r \<in> set (t_local_remote_status_favourite d)" "lrf_remote_status_id r = status"
    using find_Some_mem [OF assms(2) [unfolded find_remote_status_favourite_def]] by simp_all
  have ok: "tbl_ok lrf_conflict (t_local_remote_status_favourite d)" using assms(1) by (simp add: interactions_ok_def interaction_tables_ok_def)
  show ?thesis
    using lrf_tbl.ok_delete [OF ok] lrf_tbl.mset_delete_key [OF ok r(1)] r(2) assms(1)
    by (intro favourite_removed [OF assms(3,1)]) (auto simp: interactions_ok_def interaction_defs delete_outbound_favourite_def)
qed

lemma favourite_remote_ok:
  assumes "favourite_remote_status w account status activity_id d = (d', Inr b)" and "interactions_ok d"
  shows "interactions_ok d'"
proof (cases "is_remote_status_favourited d account status")
  case True
  then show ?thesis using assms by (simp add: favourite_remote_status_def)
next
  case False
  let ?row = "outbound_favourite_row w account status activity_id"
  have "fk_remote_status d status" "\<forall>x \<in> set (t_local_remote_status_favourite d). \<not> lrf_conflict ?row x"
    "adjust_status_trend (dr_pg_now w) (TrendRemoteStatus status) 1 0
       (d\<lparr>t_local_remote_status_favourite := t_local_remote_status_favourite d @ [?row]\<rparr>) = Inr d'"
    using assms(1) False
    by (auto simp: favourite_remote_status_def Let_def after_result_Inr tbl_insert_Inr split: sum.splits)
  then show ?thesis
    using add_outbound_favourite [OF assms(2), of ?row "dr_pg_now w" d'] by (simp add: outbound_favourite_row_def)
qed

lemma favourite_with_job_ok:
  assumes "favourite_remote_status_with_job w i account status activity_id job d = Inr d'" and "interactions_ok d"
  shows "interactions_ok d'"
proof -
  let ?row = "outbound_favourite_row w account status activity_id"
  obtain d1 where d1: "enqueue_only i (dr_pg_now w) job d1 = Inr d'"
    "d1 = d \<or> (\<forall>x \<in> set (t_local_remote_status_favourite d). \<not> lrf_conflict ?row x) \<and> fk_remote_status d status \<and>
      adjust_status_trend (dr_pg_now w) (TrendRemoteStatus status) 1 0
       (d\<lparr>t_local_remote_status_favourite := t_local_remote_status_favourite d @ [?row]\<rparr>) = Inr d1"
    using assms(1)
    by (auto simp: favourite_remote_status_with_job_def bind_res_Inr_iff insert_ignoring_Inr Let_def split: if_splits)
  have "interactions_ok d1"
    using d1(2) assms(2) add_outbound_favourite [OF assms(2), of ?row "dr_pg_now w" d1]
    by (auto simp: outbound_favourite_row_def)
  then show ?thesis using interaction_frame.enqueue_view [OF d1(1)] interactions_ok_view by blast
qed

lemma unfavourite_remote_ok:
  assumes "unfavourite_remote_status w account status d = (d', Inr b)" and "interactions_ok d"
  shows "interactions_ok d'"
  using assms remove_outbound_favourite [OF assms(2), of account status]
  by (auto simp: unfavourite_remote_status_def Let_def after_result_Inr split: option.splits)

lemma unfavourite_with_job_ok:
  assumes "unfavourite_remote_status_with_job w i account status job d = Inr (d', b)" and "interactions_ok d"
  shows "interactions_ok d'"
proof (cases "find_remote_status_favourite d account status")
  case None
  then show ?thesis using assms by (simp add: unfavourite_remote_status_with_job_def)
next
  case (Some r)
  then obtain d1 where d1: "adjust_status_trend (dr_pg_now w) (TrendRemoteStatus status) (-1) 0
      (delete_outbound_favourite (lrf_id r) d) = Inr d1" "enqueue_only i (dr_pg_now w) job d1 = Inr d'"
    using assms(1) by (auto simp: unfavourite_remote_status_with_job_def bind_res_Inr_iff)
  show ?thesis
    using remove_outbound_favourite [OF assms(2) Some d1(1)] interaction_frame.enqueue_view [OF d1(2)] interactions_ok_view by blast
qed

lemma reblog_local_ok:
  assumes "reblog_local_status w account status d = Inr (d', r)" and "interactions_ok d"
  shows "interactions_ok d'"
proof (cases "find_local_reblog d account status")
  case (Some b)
  then show ?thesis using assms by (simp add: reblog_local_status_def)
next
  case None
  let ?row = "\<lparr> lsr_id = dr_id w, lsr_account_id = account, lsr_status_id = status, lsr_created_at = dr_now w \<rparr>"
  obtain t where t: "fk_local_status d status" "tbl_insert lsr_conflict ?row (t_local_status_reblog d) = Inr t"
    "adjust_status_trend (dr_pg_now w) (TrendLocalStatus status) 0 1 (d\<lparr>t_local_status_reblog := t\<rparr>) = Inr d'"
    using assms(1) None by (auto simp: reblog_local_status_def Let_def bind_res_Inr_iff)
  show ?thesis
    using lsr_tbl.ok_insert [OF t(2)] t(2) assms(2)
    by (intro boost_added [OF t(3) assms(2) _ _ _ fk_published(1) [OF t(1)]])
       (simp_all add: interactions_ok_def interaction_defs tbl_insert_Inr)
qed

lemma unreblog_local_ok:
  assumes "unreblog_local_status w account status d = Inr (d', x)" and "interactions_ok d"
  shows "interactions_ok d'"
proof (cases "find_local_reblog d account status")
  case None
  then show ?thesis using assms by (simp add: unreblog_local_status_def)
next
  case (Some r)
  then have r: "r \<in> set (t_local_status_reblog d)" "lsr_key r = (account, status)"
    using find_Some_mem [OF Some [unfolded find_local_reblog_def]] by simp_all
  have ok: "tbl_ok lsr_conflict (t_local_status_reblog d)" using assms(2) by (simp add: interactions_ok_def interaction_tables_ok_def)
  have adj: "adjust_status_trend (dr_pg_now w) (TrendLocalStatus status) 0 (-1)
      (d\<lparr>t_local_status_reblog := tbl_delete (\<lambda>r. lsr_key r = (account, status)) (t_local_status_reblog d)\<rparr>) = Inr d'"
    using assms(1) Some by (auto simp: unreblog_local_status_def bind_res_Inr_iff)
  show ?thesis
    using lsr_tbl.ok_delete [OF ok] lsr_tbl.mset_delete_key [OF ok r(1)] r(2) assms(2)
    by (intro boost_removed [OF adj assms(2)]) (auto simp: interactions_ok_def interaction_defs lsr_key_def)
qed

lemma reblog_remote_ok:
  assumes "reblog_remote_status w account status activity_id d = Inr (d', r)" and "interactions_ok d"
  shows "interactions_ok d'"
proof (cases "find_remote_status_reblog d account status")
  case (Some b)
  then show ?thesis using assms by (simp add: reblog_remote_status_def)
next
  case None
  let ?row = "\<lparr> lrr_id = dr_id w, lrr_local_account_id = account, lrr_remote_status_id = status,
    lrr_activity_id = activity_id, lrr_created_at = dr_now w \<rparr>"
  obtain t where t: "fk_remote_status d status" "tbl_insert lrr_conflict ?row (t_local_remote_status_reblog d) = Inr t"
    "adjust_status_trend (dr_pg_now w) (TrendRemoteStatus status) 0 1 (d\<lparr>t_local_remote_status_reblog := t\<rparr>) = Inr d'"
    using assms(1) None by (auto simp: reblog_remote_status_def Let_def bind_res_Inr_iff)
  show ?thesis
    using lrr_tbl.ok_insert [OF t(2)] t(2) assms(2)
    by (intro boost_added [OF t(3) assms(2) _ _ _ fk_published(2) [OF t(1)]])
       (simp_all add: interactions_ok_def interaction_defs tbl_insert_Inr)
qed

lemma remove_outbound_reblog:
  assumes "interactions_ok d" and "find_remote_status_reblog d account status = Some r"
    and "adjust_status_trend pg_now (TrendRemoteStatus status) 0 (-1) (delete_outbound_reblog (lrr_id r) d) = Inr d'"
  shows "interactions_ok d'"
proof -
  have r: "r \<in> set (t_local_remote_status_reblog d)" "lrr_remote_status_id r = status"
    using find_Some_mem [OF assms(2) [unfolded find_remote_status_reblog_def]] by simp_all
  have ok: "tbl_ok lrr_conflict (t_local_remote_status_reblog d)" using assms(1) by (simp add: interactions_ok_def interaction_tables_ok_def)
  show ?thesis
    using lrr_tbl.ok_delete [OF ok] lrr_tbl.mset_delete_key [OF ok r(1)] r(2) assms(1)
    by (intro boost_removed [OF assms(3,1)]) (auto simp: interactions_ok_def interaction_defs delete_outbound_reblog_def)
qed

lemma reblog_with_job_ok:
  assumes "reblog_remote_status_with_job w i account status activity_id job d = Inr (d', r)" and "interactions_ok d"
  shows "interactions_ok d'"
proof -
  obtain d1 where d1: "reblog_remote_status w account status activity_id d = Inr (d1, r)" "enqueue_only i (dr_pg_now w) job d1 = Inr d'"
    using assms(1) by (auto simp: reblog_remote_status_with_job_def bind_res_Inr_iff)
  show ?thesis
    using reblog_remote_ok [OF d1(1) assms(2)] interaction_frame.enqueue_view [OF d1(2)] interactions_ok_view by blast
qed

lemma unreblog_remote_ok:
  assumes "unreblog_remote_status w account status d = (d', Inr x)" and "interactions_ok d"
  shows "interactions_ok d'"
  using assms remove_outbound_reblog [OF assms(2), of account status]
  by (auto simp: unreblog_remote_status_def Let_def after_result_Inr split: option.splits)

lemma unreblog_with_job_ok:
  assumes "unreblog_remote_status_with_job w i account status job d = Inr (d', x)" and "interactions_ok d"
  shows "interactions_ok d'"
proof (cases "find_remote_status_reblog d account status")
  case None
  then show ?thesis using assms by (simp add: unreblog_remote_status_with_job_def)
next
  case (Some r)
  then obtain d1 where d1: "adjust_status_trend (dr_pg_now w) (TrendRemoteStatus status) 0 (-1)
      (delete_outbound_reblog (lrr_id r) d) = Inr d1" "enqueue_only i (dr_pg_now w) job d1 = Inr d'"
    using assms(1) by (auto simp: unreblog_remote_status_with_job_def bind_res_Inr_iff)
  show ?thesis
    using remove_outbound_reblog [OF assms(2) Some d1(1)] interaction_frame.enqueue_view [OF d1(2)] interactions_ok_view by blast
qed

lemma announce_ok:
  assumes "reblog_status_by_remote_actor column_eq w actor target activity_id d = Inr (d', b)" and "interactions_ok d"
  shows "interactions_ok d'"
proof -
  obtain ls rs where cols: "reblog_columns target = (ls, rs)" by (cases "reblog_columns target")
  let ?row = "\<lparr> rsr_id = dr_id w, rsr_remote_actor_id = actor, rsr_local_status_id = ls,
     rsr_remote_status_id = rs, rsr_activity_id = activity_id, rsr_created_at = dr_now w \<rparr>"
  consider "d' = d" | t where "fk_opt (fk_local_status d) ls" "fk_opt (fk_remote_status d) rs"
      "tbl_insert rsr_conflict ?row (t_remote_status_reblog d) = Inr t"
      "adjust_status_trend (dr_pg_now w) (reblog_trend_target target) 0 1 (d\<lparr>t_remote_status_reblog := t\<rparr>) = Inr d'"
    using assms(1) by (auto simp: reblog_status_by_remote_actor_def Let_def cols bind_res_Inr_iff split: if_splits)
  then show ?thesis
  proof cases
    case 1 then show ?thesis using assms(2) by simp
  next
    case (2 t)
    have "published_at d (reblog_trend_target target) \<noteq> None"
      using 2(1,2) cols fk_published by (cases target) (auto simp: fk_opt_def)
    moreover have "announce_target ?row = reblog_trend_target target" "remote_status_reblog_from_model ?row \<noteq> None"
      using cols by (cases target; auto simp: announce_target_def remote_status_reblog_from_model_def)+
    ultimately show ?thesis
      using rsr_tbl.ok_insert [OF 2(3)] 2(3) assms(2)
      by (intro boost_added [OF 2(4) assms(2)]) (auto simp: interactions_ok_def interaction_defs tbl_insert_Inr)
  qed
qed

lemma remove_announce:
  assumes "interactions_ok d" and "remote_announce d actor activity_id = Some r"
    and "remote_status_reblog_from_model r = Some b"
    and "adjust_status_trend pg_now (reblog_trend_target (rb_target b)) 0 (-1) (delete_remote_announce (rsr_id r) d) = Inr d'"
  shows "interactions_ok d'"
proof -
  have r: "r \<in> set (t_remote_status_reblog d)"
    using find_Some_mem [OF assms(2) [unfolded remote_announce_def]] by simp
  have ok: "tbl_ok rsr_conflict (t_remote_status_reblog d)" using assms(1) by (simp add: interactions_ok_def interaction_tables_ok_def)
  show ?thesis
    using rsr_tbl.ok_delete [OF ok] rsr_tbl.mset_delete_key [OF ok r] announce_target_eq [OF assms(3)] assms(1)
    by (intro boost_removed [OF assms(4,1)]) (auto simp: interactions_ok_def interaction_defs delete_remote_announce_def)
qed

lemma undo_announce_ok:
  assumes "process_remote_undo_reblog w actor original d = Inr (d', x)" and "interactions_ok d"
  shows "interactions_ok d'"
proof (cases "remote_announce d actor original")
  case None
  then show ?thesis using assms by (simp add: process_remote_undo_reblog_def)
next
  case (Some r)
  have "r \<in> set (t_remote_status_reblog d)" using find_Some_mem [OF Some [unfolded remote_announce_def]] by simp
  then obtain b where b: "remote_status_reblog_from_model r = Some b"
    using assms(2) by (auto simp: interactions_ok_def interaction_tables_ok_def)
  then show ?thesis
    using assms(1) remove_announce [OF assms(2) Some b] Some
    by (auto simp: process_remote_undo_reblog_def Let_def bind_res_Inr_iff)
qed

lemma unannounce_ok:
  assumes "unreblog_status_by_remote_actor w actor activity_id d = (d', Inr x)" and "interactions_ok d"
  shows "interactions_ok d'"
  using assms remove_announce [OF assms(2), of actor activity_id]
  by (auto simp: unreblog_status_by_remote_actor_def Let_def after_result_Inr split: option.splits)

subsection \<open>Every reachable state\<close>

text \<open>
  The interactions, by local accounts through the API and by remote actors through the inbox, and
  everything else that leaves the interaction tables alone and does not take statuses away.
\<close>

inductive interaction_step :: "db \<Rightarrow> db \<Rightarrow> bool" where
  api_action: "status_collection_action_with_database e w nw account status action d = (d', Inr out) \<Longrightarrow> interaction_step d d'"
| inbox_like: "process_remote_like nw w actor status activity_id recipient d = Inr (d', x) \<Longrightarrow> interaction_step d d'"
| inbox_undo_like: "process_remote_undo_like w actor original d = Inr (d', b) \<Longrightarrow> interaction_step d d'"
| inbox_announce: "reblog_status_by_remote_actor column_eq w actor target activity_id d = Inr (d', b) \<Longrightarrow> interaction_step d d'"
| inbox_undo_announce: "process_remote_undo_reblog w actor original d = Inr (d', r) \<Longrightarrow> interaction_step d d'"
| like_direct: "favourite_local_status_by_remote_actor w actor status activity_id d = (d', Inr b) \<Longrightarrow> interaction_step d d'"
| unlike_direct: "unfavourite_local_status_by_remote_actor w actor activity_id d = (d', Inr b) \<Longrightarrow> interaction_step d d'"
| favourite_direct: "favourite_remote_status w account status activity_id d = (d', Inr u) \<Longrightarrow> interaction_step d d'"
| unfavourite_direct: "unfavourite_remote_status w account status d = (d', Inr f) \<Longrightarrow> interaction_step d d'"
| unreblog_direct: "unreblog_remote_status w account status d = (d', Inr s) \<Longrightarrow> interaction_step d d'"
| unannounce_direct: "unreblog_status_by_remote_actor w actor activity_id d = (d', Inr r) \<Longrightarrow> interaction_step d d'"
| elsewhere: "ls_id ` set (t_local_status d) \<subseteq> ls_id ` set (t_local_status d') \<Longrightarrow>
    rs_id ` set (t_remote_status d) \<subseteq> rs_id ` set (t_remote_status d') \<Longrightarrow>
    interaction_view (d'\<lparr>t_local_status := t_local_status d, t_remote_status := t_remote_status d\<rparr>) = interaction_view d \<Longrightarrow>
    interaction_step d d'"

lemma bind_api_Inr [simp]: "bind_api x f = Inr y \<longleftrightarrow> (\<exists>a. x = Inr a \<and> f a = Inr y)"
  by (cases x) (auto simp: bind_api_def)

lemma api_Inr [simp]: "api r = Inr y \<longleftrightarrow> r = Inr y"
  by (cases r) (auto simp: api_def)

lemma bookmark_view:
  "bookmark_local_status w account status d = Inr d' \<Longrightarrow> interaction_view d' = interaction_view d"
  "interaction_view (unbookmark_local_status account status d) = interaction_view d"
  by (auto simp: bookmark_local_status_def unbookmark_local_status_def interaction_view_def bind_res_Inr_iff split: if_splits)

lemma local_action_ok:
  assumes "local_collection_action w account s action d = Inr (d', out)" and "interactions_ok d"
  shows "interactions_ok d'"
proof (cases action)
  case ActBookmark
  then have "bookmark_local_status w account (ls_id s) d = Inr d'"
    using assms(1) by (auto simp: local_collection_action_def Let_def)
  then show ?thesis using assms(2) bookmark_view(1) interactions_ok_view by blast
next
  case ActUnbookmark
  then have "d' = unbookmark_local_status account (ls_id s) d"
    using assms(1) by (auto simp: local_collection_action_def Let_def)
  then show ?thesis using assms(2) bookmark_view(2) interactions_ok_view by blast
qed (use assms favourite_local_ok unfavourite_local_ok reblog_local_ok unreblog_local_ok in
      \<open>auto simp: local_collection_action_def Let_def\<close>)

lemma api_favourite_ok:
  "api_favourite_remote_status e w account s d = Inr d' \<Longrightarrow> interactions_ok d \<Longrightarrow> interactions_ok d'"
  using favourite_with_job_ok by (auto simp: api_favourite_remote_status_def bind_res_Inr_iff split: if_splits)

lemma remote_action_ok:
  assumes "remote_collection_action e w account s action d = Inr (d', out)" and "interactions_ok d"
  shows "interactions_ok d'"
proof (cases action)
  case ActFavourite
  then show ?thesis using assms api_favourite_ok by (auto simp: remote_collection_action_def)
next
  case ActUnfavourite
  then show ?thesis
    using assms unfavourite_with_job_ok by (auto simp: remote_collection_action_def split: option.splits)
next
  case ActReblog
  then show ?thesis
    using assms reblog_remote_ok reblog_with_job_ok by (auto simp: remote_collection_action_def split: if_splits)
next
  case ActUnreblog
  then show ?thesis
    using assms unreblog_with_job_ok by (auto simp: remote_collection_action_def split: option.splits)
qed (use assms in \<open>auto simp: remote_collection_action_def\<close>)

lemma collection_action_ok:
  "status_collection_action e w account status action d = Inr (d', out) \<Longrightarrow> interactions_ok d \<Longrightarrow> interactions_ok d'"
  using local_action_ok remote_action_ok
  by (auto simp: status_collection_action_def split: option.splits if_splits)

lemma create_notification_view:
  "create_and_stream_notification nw account kind actor s d = Inr (d', n) \<Longrightarrow> interaction_view d' = interaction_view d"
  by (auto simp: create_and_stream_notification_def bind_res_Inr_iff dest: interaction_frame.with_policy_view split: if_splits)

lemma notifications_view:
  "interaction_view (foldl (\<lambda>d n. case create_and_stream_notification nw (psn_account_id n) (psn_notification_type n) account
      (Some (psn_status_id n)) d of Inl _ \<Rightarrow> d | Inr (d, _) \<Rightarrow> d) d ns) = interaction_view d"
proof (induction ns arbitrary: d)
  case (Cons n ns)
  then show ?case
    using create_notification_view
    by (cases "create_and_stream_notification nw (psn_account_id n) (psn_notification_type n) account (Some (psn_status_id n)) d") auto
qed simp

lemma api_action_ok:
  assumes "status_collection_action_with_database e w nw account status action d = (d', Inr out)" and "interactions_ok d"
  shows "interactions_ok d'"
proof -
  obtain d1 where d1: "status_collection_action e w account status action d = Inr (d1, out)"
    "interaction_view d' = interaction_view d1"
    using assms(1) notifications_view
    by (auto simp: status_collection_action_with_database_def split: sum.splits prod.splits)
  then show ?thesis using collection_action_ok [OF d1(1) assms(2)] interactions_ok_view by blast
qed

lemma published_iff:
  "(\<exists>p. published_at d (TrendLocalStatus i) = Some p) \<longleftrightarrow> i \<in> ls_id ` set (t_local_status d)"
  "(\<exists>p. published_at d (TrendRemoteStatus i) = Some p) \<longleftrightarrow> i \<in> rs_id ` set (t_remote_status d)"
  by (force simp: published_at_def image_iff)+

lemma elsewhere_ok:
  assumes "ls_id ` set (t_local_status d) \<subseteq> ls_id ` set (t_local_status d')"
    and "rs_id ` set (t_remote_status d) \<subseteq> rs_id ` set (t_remote_status d')"
    and "interaction_view (d'\<lparr>t_local_status := t_local_status d, t_remote_status := t_remote_status d\<rparr>) = interaction_view d"
    and "interactions_ok d"
  shows "interactions_ok d'"
proof -
  have "\<exists>p. published_at d' x = Some p" if "\<exists>p. published_at d x = Some p" for x
  proof (cases x)
    case (TrendTag i)
    then show ?thesis using that by (simp add: published_at_def)
  qed (use that assms(1,2) in \<open>auto simp only: published_iff\<close>)
  then show ?thesis
    using assms(3,4)
    by (auto simp: interactions_ok_def counters_exact_def interaction_view_def interaction_tables_ok_def
        favourites_def boosts_def counted_favourites_def counted_boosts_def metric_def)
qed

lemma interaction_step_ok: "interaction_step d d' \<Longrightarrow> interactions_ok d \<Longrightarrow> interactions_ok d'"
proof (induction rule: interaction_step.induct)
  case api_action then show ?case by (rule api_action_ok)
next
  case inbox_like then show ?case by (rule remote_like_ok)
next
  case inbox_undo_like then show ?case by (rule undo_like_ok)
next
  case inbox_announce then show ?case by (rule announce_ok)
next
  case inbox_undo_announce then show ?case by (rule undo_announce_ok)
next
  case like_direct then show ?case by (rule favourite_by_remote_ok)
next
  case unlike_direct then show ?case by (rule unfavourite_by_remote_ok)
next
  case favourite_direct then show ?case by (rule favourite_remote_ok)
next
  case unfavourite_direct then show ?case by (rule unfavourite_remote_ok)
next
  case unreblog_direct then show ?case by (rule unreblog_remote_ok)
next
  case unannounce_direct then show ?case by (rule unannounce_ok)
next
  case elsewhere then show ?case by (rule elsewhere_ok)
qed

definition interaction_init :: "db \<Rightarrow> bool" where
  "interaction_init d \<longleftrightarrow>
     t_local_status_favourite d = [] \<and> t_remote_status_favourite d = [] \<and> t_local_remote_status_favourite d = [] \<and>
     t_local_status_reblog d = [] \<and> t_local_remote_status_reblog d = [] \<and> t_remote_status_reblog d = [] \<and>
     t_status_trend_metric d = []"

interpretation interaction_sys: invariant_system interaction_init interaction_step interactions_ok
proof
  show "interactions_ok d" if "interaction_init d" for d
    using that
    by (simp add: interaction_init_def interactions_ok_def interaction_tables_ok_def counters_exact_def favourites_def
        boosts_def counted_favourites_def counted_boosts_def metric_def)
qed (rule interaction_step_ok)

end
