(* ===== verification/Roosty_Interaction_Properties.thy ===== *)
theory Roosty_Interaction_Properties
  imports Roosty_Interaction_Invariants
begin

text \<open>
  What holds of favourites, bookmarks and boosts: who sees a status, that the trend counters
  agree with the stored interactions in every reachable state, that undoing restores, that remote
  actors touch only what is theirs, and where the code falls short: direct statuses can be
  boosted to followers, a repeated announcement fails, and a page of favourites can hide the rest.
\<close>

subsection \<open>A small server\<close>

text \<open>
  Account 1 has written status 70, addressed to account 2, whom account 3 follows. Account 2
  favourites and boosts it.
\<close>

definition demo_post :: "status_visibility \<Rightarrow> instant option \<Rightarrow> local_status_row" where
  "demo_post v deleted = \<lparr> ls_id = 70, ls_account_id = 1, ls_content = [], ls_visibility = v,
     ls_sensitive = False, ls_spoiler_text = [], ls_language = None, ls_in_reply_to_id = None,
     ls_in_reply_to_remote_status_id = None, ls_conversation_id = None, ls_created_at = 0,
     ls_updated_at = 0, ls_deleted_at = deleted, ls_quote_approval_policy = QuotePublic \<rparr>"

definition direct_world :: db where
  "direct_world = demo_world\<lparr>t_local_account := [demo_account 1, demo_account 2, demo_account 3],
     t_local_status := [demo_post Direct None],
     t_status_local_recipient := [\<lparr> slr_status_id = 70, slr_account_id = 2, slr_created_at = 0 \<rparr>],
     t_local_follow := [\<lparr> lf_id = 50, lf_follower_account_id = 3, lf_followed_account_id = 2, lf_show_reblogs = True,
       lf_notify = False, lf_created_at = 0, lf_updated_at = 0 \<rparr>]\<rparr>"

definition demo_draws :: draws where
  "demo_draws = \<lparr> dr_id = 60, dr_now = 0, dr_pg_now = 0 \<rparr>"

definition demo_fed_env :: fed_env where
  "demo_fed_env = \<lparr> fe_actor_url = (\<lambda>_. ''https://l/users/u''), fe_id_string = (\<lambda>_. ''u''), fe_activity = 61, fe_job_id = 62,
     fe_now = 0, fe_prove = (\<lambda>_ a. Inr a) \<rparr>"

lemmas direct_world_defs = direct_world_def demo_post_def demo_draws_def demo_world_def empty_db_def

lemmas adjust_eval = adjust_status_trend_def published_at_def bump_metric_def mark_trend_dirty_def tbl_upsert_def tbl_insert_def
  tbl_update_def metric_key_def db_result_def with_fk_def fk_local_def fk_local_status_def

lemma demo_boost:
  "\<exists>d'. reblog_local_status demo_draws 2 70 direct_world =
     Inr (d', \<lparr> lsr_id = 60, lsr_account_id = 2, lsr_status_id = 70, lsr_created_at = 0 \<rparr>) \<and>
     t_local_status d' = t_local_status direct_world \<and> t_local_account d' = t_local_account direct_world \<and>
     t_local_account_block d' = [] \<and> t_status_local_recipient d' = t_status_local_recipient direct_world"
  by (simp add: reblog_local_status_def find_local_reblog_def Let_def adjust_eval direct_world_defs)

lemma demo_favourite: "\<exists>d'. favourite_local_status demo_draws 2 70 direct_world = Inr d'"
  by (simp add: favourite_local_status_def adjust_eval direct_world_defs)

lemma direct_world_init: "interaction_init direct_world"
  by (simp add: interaction_init_def direct_world_defs)

lemma demo_direct_visible: "visible_status_for_account direct_world 70 2 = Some (demo_post Direct None)"
  by (simp add: visible_status_for_account_def find_local_status_by_id_def status_visible_to_viewer_def can_view_status_def
      local_accounts_are_blocked_def local_status_visible_to_account_def direct_world_defs)

lemma demo_action:
  "\<exists>d' out. status_collection_action demo_fed_env demo_draws 2 70 ActReblog direct_world = Inr (d', out)"
proof -
  obtain d' where d': "reblog_local_status demo_draws 2 70 direct_world =
      Inr (d', \<lparr> lsr_id = 60, lsr_account_id = 2, lsr_status_id = 70, lsr_created_at = 0 \<rparr>)"
    "t_local_status d' = t_local_status direct_world" "t_local_account d' = t_local_account direct_world"
    "t_local_account_block d' = []" "t_status_local_recipient d' = t_status_local_recipient direct_world"
    using demo_boost by blast
  have "\<exists>x. reblog_response d' \<lparr> lsr_id = 60, lsr_account_id = 2, lsr_status_id = 70, lsr_created_at = 0 \<rparr> (Some 2) = Some x"
    using d'(2-5)
    by (simp add: reblog_response_def find_local_status_by_id_def status_visible_to_viewer_def can_view_status_def
        local_accounts_are_blocked_def local_status_visible_to_account_def find_local_account_by_id_def direct_world_defs)
  then show ?thesis
    using d'(1) demo_direct_visible
    by (auto simp: status_collection_action_def local_collection_action_def bind_api_def api_def or_not_found_def demo_post_def)
qed

subsection \<open>Counters\<close>

lemma count_rows: "count (image_mset f (mset t)) x = rows_affected (\<lambda>r. f r = x) t"
  by (induction t) (auto simp: rows_affected_def)

lemma rows_affected_false: "rows_affected (\<lambda>r. False) t = 0"
  by (simp add: rows_affected_def)

lemma announce_is_local:
  "\<forall>r \<in> set t. remote_status_reblog_from_model r \<noteq> None \<Longrightarrow>
     rows_affected (\<lambda>r. announce_target r = TrendLocalStatus i) t = rows_affected (\<lambda>r. rsr_local_status_id r = Some i) t"
  "\<forall>r \<in> set t. remote_status_reblog_from_model r \<noteq> None \<Longrightarrow>
     rows_affected (\<lambda>r. announce_target r = TrendRemoteStatus i) t = rows_affected (\<lambda>r. rsr_remote_status_id r = Some i) t"
  unfolding rows_affected_def
  by (rule arg_cong [where f = length], rule filter_cong, rule refl,
      auto simp: announce_target_def remote_status_reblog_from_model_def split: option.splits)+

text \<open>
  C25: the trend counters are exact. In every state that the interactions of local accounts and
  remote actors lead to, the counters of a local status are what \<open>count_local_favourites\<close> and
  \<open>count_local_reblogs\<close> count, and those of a remote status are the numbers of its stored
  favourites and boosts.
\<close>

theorem trend_counters_are_exact:
  assumes "reachable interaction_init interaction_step d"
  shows "counted_favourites d (TrendLocalStatus i) = int (count_local_favourites d i) \<and>
    counted_boosts d (TrendLocalStatus i) = int (count_local_reblogs d i) \<and>
    counted_favourites d (TrendRemoteStatus j) =
      int (rows_affected (\<lambda>r. lrf_remote_status_id r = j) (t_local_remote_status_favourite d)) \<and>
    counted_boosts d (TrendRemoteStatus j) =
      int (rows_affected (\<lambda>r. lrr_remote_status_id r = j) (t_local_remote_status_reblog d) +
           rows_affected (\<lambda>r. rsr_remote_status_id r = Some j) (t_remote_status_reblog d))"
proof -
  have ok: "interactions_ok d" by (rule interaction_sys.reachable_inv [OF assms])
  then have exact: "counted_favourites d x = int (count (favourites d) x)" "counted_boosts d x = int (count (boosts d) x)"
    if "is_status x" for x
    using that by (auto simp: interactions_ok_def counters_exact_def)
  have "\<forall>r \<in> set (t_remote_status_reblog d). remote_status_reblog_from_model r \<noteq> None"
    using ok by (simp add: interactions_ok_def interaction_tables_ok_def)
  then show ?thesis
    using exact [of "TrendLocalStatus i"] exact [of "TrendRemoteStatus j"] announce_is_local
    by (simp add: favourites_def boosts_def count_rows count_local_favourites_def count_local_reblogs_def rows_affected_false)
qed

theorem trend_counters_are_exact_witness:
  "\<exists>d. interaction_step direct_world d \<and> counted_boosts d (TrendLocalStatus 70) = int (count_local_reblogs d 70)"
proof -
  obtain d' out where act: "status_collection_action demo_fed_env demo_draws 2 70 ActReblog direct_world = Inr (d', out)"
    using demo_action by blast
  obtain d where "status_collection_action_with_database demo_fed_env demo_draws demo_note_draws 2 70 ActReblog direct_world = (d, Inr out)"
    using act by (simp add: status_collection_action_with_database_def)
  then have step: "interaction_step direct_world d" by (rule interaction_step.api_action)
  then have "reachable interaction_init interaction_step d"
    using reachable.intros direct_world_init by metis
  then show ?thesis using trend_counters_are_exact [of d 70] step by blast
qed

subsection \<open>Visibility\<close>

text \<open>
  Who sees a local status. A viewer sees it exactly if the viewer is the author, or no block
  stands between them and the status is public or unlisted, or followers-only and the viewer
  follows the author, or followers-only or direct and addressed to the viewer.
\<close>

lemma local_visibility:
  "status_visible_to_viewer d s (Some v) \<longleftrightarrow>
     v = ls_account_id s \<or>
     \<not> local_accounts_are_blocked d v (ls_account_id s) \<and>
     (case ls_visibility s of
        Public \<Rightarrow> True
      | Unlisted \<Rightarrow> True
      | Private \<Rightarrow>
          (\<exists>f \<in> set (t_local_follow d). lf_follower_account_id f = v \<and> lf_followed_account_id f = ls_account_id s) \<or>
          v \<in> set (local_status_local_recipients d (ls_id s))
      | Direct \<Rightarrow> v \<in> set (local_status_local_recipients d (ls_id s)))"
  by (cases "ls_visibility s")
     (auto simp: status_visible_to_viewer_def can_view_status_def local_status_visible_to_account_def list_ex_iff
       local_status_local_recipients_def)

subsection \<open>Boosting direct statuses\<close>

lemma upsert_key_succeeds:
  assumes "\<And>a b. c a b \<longleftrightarrow> key a = key b" and "\<And>r. key (merge r) = key r"
  shows "\<exists>t'. tbl_upsert c c merge r t = Inr t'"
  by (cases "list_ex (c r) t") (auto simp: tbl_upsert_def tbl_insert_def list_ex_iff assms)

lemma mark_dirty_succeeds: "\<exists>ds. mark_trend_dirty pg_now kind target d = Inr (d\<lparr>t_trend_dirty := ds\<rparr>)"
proof -
  obtain t where "tbl_upsert tdy_conflict tdy_conflict (\<lambda>r. r\<lparr>tdy_touched_at := pg_now\<rparr>)
      \<lparr> tdy_kind = kind, tdy_target_id = target, tdy_touched_at = pg_now \<rparr> (t_trend_dirty d) = Inr t"
    using upsert_key_succeeds [where c = tdy_conflict and key = tdy_key and merge = "\<lambda>r. r\<lparr>tdy_touched_at := pg_now\<rparr>"
        and r = "\<lparr> tdy_kind = kind, tdy_target_id = target, tdy_touched_at = pg_now \<rparr>" and t = "t_trend_dirty d"]
    by (auto simp: tdy_conflict_def tdy_key_def)
  then show ?thesis by (intro exI [of _ t]) (simp add: mark_trend_dirty_def)
qed

lemma bump_succeeds:
  assumes "\<And>r. r \<in> set t \<Longrightarrow> stm_key r = key \<Longrightarrow> fits_bigint (stm_favourites_count r + f) \<and> fits_bigint (stm_reblogs_count r + b)"
  shows "\<exists>t'. bump_metric pg_now key p f b t = Inr t'"
proof -
  have "\<exists>t'. tbl_upsert stm_conflict stm_conflict (changed_metric pg_now p f b) (new_metric pg_now key p f b) t = Inr t'"
    by (rule upsert_key_succeeds [where key = stm_key]) (simp_all add: stm_conflict_def)
  then show ?thesis using assms by (auto simp: bump_metric_def list_ex_iff)
qed

lemma adjust_succeeds:
  assumes "is_status target" and "\<And>r. metric d target = Some r \<Longrightarrow> fits_bigint (stm_favourites_count r + f) \<and> fits_bigint (stm_reblogs_count r + b)"
    and "tbl_ok stm_conflict (t_status_trend_metric d)"
  shows "\<exists>d'. adjust_status_trend pg_now target f b d = Inr d'"
proof -
  have range: "fits_bigint (stm_favourites_count r + f) \<and> fits_bigint (stm_reblogs_count r + b)"
    if "r \<in> set (t_status_trend_metric d)" "stm_key r = metric_key target" for r
    using assms(2) stm_tbl.find_key [OF assms(3)] that by (auto simp: metric_def)
  show ?thesis
  proof (cases "published_at d target")
    case None
    then show ?thesis
      using assms(1) mark_dirty_succeeds [of pg_now "fst (persisted target)" "snd (persisted target)" d]
      by (cases target) (auto simp: adjust_status_trend_def)
  next
    case (Some p)
    obtain ms where "bump_metric pg_now (metric_key target) p f b (t_status_trend_metric d) = Inr ms"
      using bump_succeeds range by blast
    then show ?thesis
      using assms(1) Some mark_dirty_succeeds [of pg_now "fst (persisted target)" "snd (persisted target)" "d\<lparr>t_status_trend_metric := ms\<rparr>"]
      by (cases target) (auto simp: adjust_status_trend_def)
  qed
qed

lemma reblog_event:
  assumes "status_collection_action e w account status ActReblog d = Inr (d', out)"
    and "visible_status_for_account d status account = Some s"
  obtains r where "sco_stream_events out = [EventUpdate (sco_response out) (reblog_stream_recipients (dr_now w) d' account)]"
    and "reblog_local_status w account (ls_id s) d = Inr (d', r)" and "reblog_response d' r (Some account) = Some (sco_response out)"
  using assms
  by (auto simp: status_collection_action_def local_collection_action_def Let_def or_not_found_def
      split: if_splits option.splits)

lemma reblog_local_frame:
  assumes "reblog_local_status w account status d = Inr (d', r)"
  shows "t_local_status d' = t_local_status d \<and> t_local_follow d' = t_local_follow d \<and>
    t_local_account_block d' = t_local_account_block d \<and> t_local_account_mute d' = t_local_account_mute d \<and>
    t_local_account d' = t_local_account d \<and> t_status_local_recipient d' = t_status_local_recipient d \<and>
    lsr_status_id r = status"
proof (cases "find_local_reblog d account status")
  case (Some b)
  then show ?thesis
    using assms find_Some_mem [OF Some [unfolded find_local_reblog_def]] by (simp add: reblog_local_status_def lsr_key_def)
next
  case None
  obtain t where t: "adjust_status_trend (dr_pg_now w) (TrendLocalStatus status) 0 1 (d\<lparr>t_local_status_reblog := t\<rparr>) = Inr d'"
    "lsr_status_id r = status"
    using assms None by (auto simp: reblog_local_status_def Let_def bind_res_Inr_iff)
  obtain ms ds where "d' = d\<lparr>t_local_status_reblog := t, t_status_trend_metric := ms, t_trend_dirty := ds\<rparr>"
    using adjust_frame [OF t(1)] by metis
  then show ?thesis using t(2) by simp
qed

lemma stream_recipients_cong:
  "t_local_follow d' = t_local_follow d \<Longrightarrow> t_local_account_block d' = t_local_account_block d \<Longrightarrow>
   t_local_account_mute d' = t_local_account_mute d \<Longrightarrow>
     reblog_stream_recipients now d' account = reblog_stream_recipients now d account"
  by (simp add: reblog_stream_recipients_def filter_stream_recipients_def local_follower_ids_for_account_def
      local_account_is_hidden_for_viewer_def local_accounts_are_blocked_def active_local_account_mute_def)

lemma reblog_local_succeeds:
  assumes "interactions_ok d" and "fk_local d account" and "fk_local_status d status"
    and "\<forall>r \<in> set (t_local_status_reblog d). lsr_id r \<noteq> dr_id w"
    and "\<And>m. metric d (TrendLocalStatus status) = Some m \<Longrightarrow>
           fits_bigint (stm_favourites_count m) \<and> fits_bigint (stm_reblogs_count m + 1)"
  shows "\<exists>d' r. reblog_local_status w account status d = Inr (d', r) \<and> lsr_account_id r = account \<and> lsr_status_id r = status"
proof (cases "find_local_reblog d account status")
  case (Some r)
  then show ?thesis
    using find_Some_mem [OF Some [unfolded find_local_reblog_def]]
    by (auto simp: reblog_local_status_def lsr_key_def)
next
  case None
  let ?row = "\<lparr> lsr_id = dr_id w, lsr_account_id = account, lsr_status_id = status, lsr_created_at = dr_now w \<rparr>"
  have "tbl_insert lsr_conflict ?row (t_local_status_reblog d) = Inr (t_local_status_reblog d @ [?row])"
    using None assms(4) by (auto simp: tbl_insert_Inr lsr_conflict_def find_local_reblog_def find_None_all lsr_key_def)
  moreover obtain d' where "adjust_status_trend (dr_pg_now w) (TrendLocalStatus status) 0 1
      (d\<lparr>t_local_status_reblog := t_local_status_reblog d @ [?row]\<rparr>) = Inr d'"
    using adjust_succeeds [of "TrendLocalStatus status" "d\<lparr>t_local_status_reblog := t_local_status_reblog d @ [?row]\<rparr>" 0 1 "dr_pg_now w"]
      assms(1,5) by (auto simp: interactions_ok_def metric_def)
  ultimately show ?thesis
    using None assms(2,3) by (auto simp: reblog_local_status_def Let_def with_fk_def)
qed

text \<open>
  C26: a direct status can be boosted to people it was not addressed to. When somebody who sees a
  direct status boosts it, the boost is not refused: it succeeds, in every reachable state in
  which the account exists, the drawn identifier is new and the counter of boosts is not at its
  maximum. The event for the home streams carries the status, and it goes to every follower of the
  booster who wants boosts and has not muted or blocked the booster, although such a follower does
  not see the status.
\<close>

theorem direct_status_is_streamed_to_followers:
  assumes "reachable interaction_init interaction_step d"
    and "find_local_status_by_id d status = Some s" and "ls_visibility s = Direct"
    and "status_visible_to_viewer d s (Some account)" and "find_local_account_by_id d account \<noteq> None"
    and "\<forall>r \<in> set (t_local_status_reblog d). lsr_id r \<noteq> dr_id w"
    and "\<And>m. metric d (TrendLocalStatus status) = Some m \<Longrightarrow>
           fits_bigint (stm_favourites_count m) \<and> fits_bigint (stm_reblogs_count m + 1)"
    and "f \<in> set (local_follower_ids_for_account d account False)" and "\<not> local_account_is_hidden_for_viewer (dr_now w) d f account"
    and "f \<noteq> ls_account_id s" and "f \<notin> set (local_status_local_recipients d (ls_id s))"
  shows "\<exists>d' out i recipients. status_collection_action e w account status ActReblog d = Inr (d', out) \<and>
    EventUpdate (ShownBoost i (ShownLocal s)) recipients \<in> set (sco_stream_events out) \<and> f \<in> set recipients \<and>
    \<not> status_visible_to_viewer d s (Some f)"
proof -
  have vis: "visible_status_for_account d status account = Some s"
    using assms(2,4) by (simp add: visible_status_for_account_def)
  have id: "ls_id s = status" and s: "s \<in> set (t_local_status d)"
    using find_Some_mem [OF assms(2) [unfolded find_local_status_by_id_def]] by simp_all
  have fk: "fk_local d account" "fk_local_status d status"
    using assms(5) s id by (auto simp: fk_local_def fk_local_status_def find_local_account_by_id_def list_ex_iff)
  obtain d' r where r: "reblog_local_status w account status d = Inr (d', r)" "lsr_account_id r = account" "lsr_status_id r = status"
    using reblog_local_succeeds [OF interaction_sys.reachable_inv [OF assms(1)] fk assms(6,7)] by blast
  note frame = reblog_local_frame [OF r(1)]
  have same: "t_local_follow d' = t_local_follow d" "t_local_account_block d' = t_local_account_block d"
    "t_status_local_recipient d' = t_status_local_recipient d" using frame by simp_all
  have "status_visible_to_viewer d' s (Some account) \<longleftrightarrow> status_visible_to_viewer d s (Some account)"
    unfolding status_visible_to_viewer_def can_view_status_def local_status_visible_to_account_def
      local_accounts_are_blocked_def same ..
  moreover have "find_local_status_by_id d' status = Some s" "find_local_account_by_id d' account \<noteq> None"
    using frame assms(2,5) by (simp_all add: find_local_status_by_id_def find_local_account_by_id_def)
  ultimately have "reblog_response d' r (Some account) = Some (ShownBoost (lsr_id r) (ShownLocal s))"
    using assms(4) by (simp add: reblog_response_def r(2,3))
  then have act: "\<exists>out. status_collection_action e w account status ActReblog d = Inr (d', out) \<and>
      sco_stream_events out = [EventUpdate (ShownBoost (lsr_id r) (ShownLocal s)) (reblog_stream_recipients (dr_now w) d' account)]"
    using vis assms(3) r(1) id
    by (simp add: status_collection_action_def local_collection_action_def bind_api_def api_def or_not_found_def)
  have "f \<in> set (reblog_stream_recipients (dr_now w) d' account)"
    using frame assms(8,9) stream_recipients_cong [of d' d "dr_now w" account]
    by (simp add: reblog_stream_recipients_def filter_stream_recipients_def)
  moreover have "\<not> status_visible_to_viewer d s (Some f)"
    using assms(3,10,11) by (simp add: local_visibility)
  ultimately show ?thesis using act by fastforce
qed

theorem direct_status_is_streamed_to_followers_witness:
  "\<exists>d' out i recipients. status_collection_action demo_fed_env demo_draws 2 70 ActReblog direct_world = Inr (d', out) \<and>
     EventUpdate (ShownBoost i (ShownLocal (demo_post Direct None))) recipients \<in> set (sco_stream_events out) \<and>
     3 \<in> set recipients \<and> \<not> status_visible_to_viewer direct_world (demo_post Direct None) (Some 3)"
proof (rule direct_status_is_streamed_to_followers)
  show "reachable interaction_init interaction_step direct_world"
    using reach_init direct_world_init by metis
  show "find_local_status_by_id direct_world 70 = Some (demo_post Direct None)"
    "status_visible_to_viewer direct_world (demo_post Direct None) (Some 2)"
    using demo_direct_visible by (auto simp: visible_status_for_account_def split: option.splits if_splits)
qed (simp_all add: local_follower_ids_for_account_def local_account_is_hidden_for_viewer_def local_accounts_are_blocked_def
      active_local_account_mute_def local_status_local_recipients_def find_local_account_by_id_def metric_def direct_world_defs)

text \<open>
  A repeated announcement fails. \<open>reblog_status_by_remote_actor\<close> is documented to return
  \<open>False\<close> for a boost that exists. Its query compares the column of the other kind of status
  with a missing value, and a comparison with \<open>NULL\<close> holds of no row. So it does not find the
  boost, and inserting it again violates the unique index.
\<close>

lemma repeated_announce_fails:
  assumes "\<And>x. \<not> column_eq x None"
    and "r \<in> set (t_remote_status_reblog d)" and "rsr_remote_actor_id r = actor"
    and "(rsr_local_status_id r, rsr_remote_status_id r) = reblog_columns target"
  shows "reblog_status_by_remote_actor column_eq w actor target activity_id d = Inl (Database UniqueViolation)"
proof -
  obtain ls rs where cols: "reblog_columns target = (ls, rs)" "ls = None \<or> rs = None" "sql_eq ls ls \<or> sql_eq rs rs"
    by (cases target) simp_all
  have none: "\<not> list_ex (\<lambda>r. rsr_remote_actor_id r = actor \<and> column_eq (rsr_local_status_id r) ls \<and>
      column_eq (rsr_remote_status_id r) rs) (t_remote_status_reblog d)"
    using cols(2) assms(1) by (auto simp: list_ex_iff)
  have "list_ex (rsr_conflict \<lparr> rsr_id = dr_id w, rsr_remote_actor_id = actor, rsr_local_status_id = ls,
      rsr_remote_status_id = rs, rsr_activity_id = activity_id, rsr_created_at = dr_now w \<rparr>) (t_remote_status_reblog d)"
    unfolding list_ex_iff using assms(2-4) cols(1,3) by (intro bexI [of _ r]) (auto simp: rsr_conflict_def)
  then show ?thesis
    using none by (simp add: reblog_status_by_remote_actor_def cols(1) tbl_insert_def with_fk_def)
qed

subsection \<open>Undoing\<close>

text \<open>After a counter was raised, it can be lowered again.\<close>

lemma adjust_range:
  assumes "adjust_status_trend pg_now target 1 0 d = Inr d'" and "is_status target" and "published_at d target \<noteq> None"
    and "tbl_ok stm_conflict (t_status_trend_metric d)" and "metric d' target = Some r"
  shows "fits_bigint (stm_favourites_count r - 1) \<and> fits_bigint (stm_reblogs_count r)"
proof -
  obtain p where p: "published_at d target = Some p" using assms(3) by blast
  obtain ms where ms: "bump_metric pg_now (metric_key target) p 1 0 (t_status_trend_metric d) = Inr ms"
    "t_status_trend_metric d' = ms"
    using assms(1,2) p
    by (auto simp: adjust_status_trend_def mark_trend_dirty_def bind_res_Inr_iff split: trend_target.splits)
  have r: "r = (case metric d target of None \<Rightarrow> new_metric pg_now (metric_key target) p 1 0 | Some r \<Rightarrow> changed_metric pg_now p 1 0 r)"
    using bump_metric_cases(2) [OF ms(1) assms(4), of "metric_key target"] assms(5) ms(2) by (simp add: metric_def)
  show ?thesis
  proof (cases "metric d target")
    case None
    then show ?thesis using r by (simp add: new_metric_def fits_bigint_def i64_max_def)
  next
    case (Some m)
    then have "m \<in> set (t_status_trend_metric d)" "stm_key m = metric_key target"
      using find_Some_mem [OF Some [unfolded metric_def]] by simp_all
    then have "fits_bigint (stm_favourites_count m + 1) \<and> fits_bigint (stm_reblogs_count m)"
      using ms(1) by (auto simp: bump_metric_def list_ex_iff split: if_splits)
    then show ?thesis using r Some by (auto simp: changed_metric_def fits_bigint_def i64_max_def)
  qed
qed

text \<open>
  Favouriting can be repeated and undone. Favouriting a status once more changes nothing, and
  unfavouriting succeeds and gives back the favourites and the count there were before.
\<close>

lemma favourite_is_undone:
  assumes "reachable interaction_init interaction_step d" and "\<not> is_local_status_favourited d account status"
    and "favourite_local_status w account status d = Inr d1"
  shows "favourite_local_status w' account status d1 = Inr d1 \<and>
    (\<exists>d2. unfavourite_local_status w'' account status d1 = Inr d2 \<and>
       t_local_status_favourite d2 = t_local_status_favourite d \<and>
       counted_favourites d2 (TrendLocalStatus status) = counted_favourites d (TrendLocalStatus status))"
proof -
  have ok: "interactions_ok d" "interactions_ok d1"
    using interaction_sys.reachable_inv [OF assms(1)] favourite_local_ok [OF assms(3)] by blast+
  let ?row = "\<lparr> lsf_id = dr_id w, lsf_account_id = account, lsf_status_id = status, lsf_created_at = dr_now w \<rparr>"
  let ?d0 = "d\<lparr>t_local_status_favourite := t_local_status_favourite d @ [?row]\<rparr>"
  have free: "\<not> list_ex (\<lambda>r. lsf_key r = (account, status)) (t_local_status_favourite d)"
    using assms(2) by (simp add: is_local_status_favourited_def)
  have t: "fk_local_status d status" "adjust_status_trend (dr_pg_now w) (TrendLocalStatus status) 1 0 ?d0 = Inr d1"
    using assms(3) free by (auto simp: favourite_local_status_def bind_res_Inr_iff tbl_insert_Inr)
  obtain ms ds where d1: "d1 = ?d0\<lparr>t_status_trend_metric := ms, t_trend_dirty := ds\<rparr>"
    using adjust_frame [OF t(2)] by blast
  have here: "list_ex (\<lambda>r. lsf_key r = (account, status)) (t_local_status_favourite d1)"
    by (simp add: d1 lsf_key_def)
  have restored: "tbl_delete (\<lambda>r. lsf_key r = (account, status)) (t_local_status_favourite d1) = t_local_status_favourite d"
  proof -
    have "filter (\<lambda>r. lsf_key r \<noteq> (account, status)) (t_local_status_favourite d) = t_local_status_favourite d"
      using free by (auto simp: list_ex_iff intro: filter_True)
    then show ?thesis by (simp add: d1 lsf_key_def tbl_delete_def)
  qed
  have same: "published_at ?d0 = published_at d" by (rule published_at_cong) (simp add: same_elsewhere_def)
  have pub: "published_at ?d0 (TrendLocalStatus status) \<noteq> None" using fk_published(1) [OF t(1)] same by simp
  have stm: "tbl_ok stm_conflict (t_status_trend_metric ?d0)" "tbl_ok stm_conflict (t_status_trend_metric d1)"
    using ok by (simp_all add: interactions_ok_def)
  let ?e = "d1\<lparr>t_local_status_favourite := t_local_status_favourite d\<rparr>"
  have "fits_bigint (stm_favourites_count r + (-1)) \<and> fits_bigint (stm_reblogs_count r + 0)"
    if "metric ?e (TrendLocalStatus status) = Some r" for r
    using adjust_range [OF t(2) _ pub stm(1), of r] that by (simp add: metric_def)
  then obtain d2 where d2: "adjust_status_trend (dr_pg_now w'') (TrendLocalStatus status) (-1) 0 ?e = Inr d2"
    using adjust_succeeds [of "TrendLocalStatus status" ?e "-1" 0 "dr_pg_now w''"] stm(2) by auto
  then have undo: "unfavourite_local_status w'' account status d1 = Inr d2"
    using here restored by (simp add: unfavourite_local_status_def)
  obtain ms' ds' where "d2 = ?e\<lparr>t_status_trend_metric := ms', t_trend_dirty := ds'\<rparr>" using adjust_frame [OF d2] by blast
  then have rows: "t_local_status_favourite d2 = t_local_status_favourite d" "favourites d2 = favourites d"
    by (simp_all add: d1 favourites_def)
  have "interactions_ok d2" by (rule unfavourite_local_ok [OF undo ok(2)])
  then have "counted_favourites d2 (TrendLocalStatus status) = counted_favourites d (TrendLocalStatus status)"
    using ok(1) rows(2) by (simp add: interactions_ok_def counters_exact_def)
  then show ?thesis using undo rows(1) here by (auto simp: favourite_local_status_def)
qed

text \<open>
  A remote actor undoes what it names, and only of its own. Undoing a like or an
  announcement takes away the stored interaction of this actor with this activity identifier and
  leaves all others in place.
\<close>

lemma undo_removes_what_it_names:
  assumes "reachable interaction_init interaction_step d"
    and "process_remote_undo_like w actor original d = Inr (d1, b)"
    and "process_remote_undo_reblog w' actor original d = Inr (d2, x)"
  shows "set (t_remote_status_favourite d1) =
      {r \<in> set (t_remote_status_favourite d). \<not> (rsf_remote_actor_id r = actor \<and> rsf_activity_id r = original)} \<and>
    set (t_remote_status_reblog d2) =
      {r \<in> set (t_remote_status_reblog d). \<not> (rsr_remote_actor_id r = actor \<and> rsr_activity_id r = original)}"
proof
  have ok: "tbl_ok rsf_conflict (t_remote_status_favourite d)" "tbl_ok rsr_conflict (t_remote_status_reblog d)"
    using interaction_sys.reachable_inv [OF assms(1)] by (simp_all add: interactions_ok_def interaction_tables_ok_def)
  show "set (t_remote_status_favourite d1) =
      {r \<in> set (t_remote_status_favourite d). \<not> (rsf_remote_actor_id r = actor \<and> rsf_activity_id r = original)}"
  proof (cases "remote_like d actor original")
    case None
    then have "d1 = d" using assms(2) by (simp add: process_remote_undo_like_def)
    then show ?thesis using None [unfolded remote_like_def find_None_all] by auto
  next
    case (Some r)
    then have r: "r \<in> set (t_remote_status_favourite d)" "rsf_remote_actor_id r = actor \<and> rsf_activity_id r = original"
      using find_Some_mem [OF Some [unfolded remote_like_def]] by simp_all
    obtain e where e: "adjust_status_trend (dr_pg_now w) (TrendLocalStatus (rsf_local_status_id r)) (-1) 0
        (delete_remote_like (rsf_id r) d) = Inr e" "d1 = e"
      using assms(2) Some by (auto simp: process_remote_undo_like_def bind_res_Inr_iff)
    obtain ms ds where "d1 = (delete_remote_like (rsf_id r) d)\<lparr>t_status_trend_metric := ms, t_trend_dirty := ds\<rparr>"
      using adjust_frame [OF e(1)] e(2) by metis
    then have "set (t_remote_status_favourite d1) = {x \<in> set (t_remote_status_favourite d). rsf_id x \<noteq> rsf_id r}"
      by (auto simp: delete_remote_like_def)
    moreover have "rsf_id x = rsf_id r \<longleftrightarrow> rsf_remote_actor_id x = actor \<and> rsf_activity_id x = original"
      if "x \<in> set (t_remote_status_favourite d)" for x
      using rsf_tbl.conflict_eq [OF ok(1) that r(1)] r(2) by (auto simp: rsf_conflict_def)
    ultimately show ?thesis by auto
  qed
  show "set (t_remote_status_reblog d2) =
      {r \<in> set (t_remote_status_reblog d). \<not> (rsr_remote_actor_id r = actor \<and> rsr_activity_id r = original)}"
  proof (cases "remote_announce d actor original")
    case None
    then have "d2 = d" using assms(3) by (simp add: process_remote_undo_reblog_def)
    then show ?thesis using None [unfolded remote_announce_def find_None_all] by auto
  next
    case (Some r)
    then have r: "r \<in> set (t_remote_status_reblog d)" "rsr_remote_actor_id r = actor \<and> rsr_activity_id r = original"
      using find_Some_mem [OF Some [unfolded remote_announce_def]] by simp_all
    have "t_remote_status_reblog d2 = t_remote_status_reblog (delete_remote_announce (rsr_id r) d)"
      using assms(3) Some
      by (auto simp: process_remote_undo_reblog_def Let_def bind_res_Inr_iff elim!: adjust_frame split: option.splits)
    then have "set (t_remote_status_reblog d2) = {x \<in> set (t_remote_status_reblog d). rsr_id x \<noteq> rsr_id r}"
      by (auto simp: delete_remote_announce_def)
    moreover have "rsr_id x = rsr_id r \<longleftrightarrow> rsr_remote_actor_id x = actor \<and> rsr_activity_id x = original"
      if "x \<in> set (t_remote_status_reblog d)" for x
      using rsr_tbl.conflict_eq [OF ok(2) that r(1)] r(2) by (auto simp: rsr_conflict_def)
    ultimately show ?thesis by auto
  qed
qed

subsection \<open>Pages of favourites\<close>

lemma length_map_filter_less:
  assumes "x \<in> set xs" and "f x = None"
  shows "length (List.map_filter f xs) < length xs"
  using length_filter_less [of x xs "\<lambda>x. f x \<noteq> None"] assms by (simp add: List.map_filter_def)

text \<open>
  A deleted status hides the favourites behind it. The page of favourites is filled from the
  newest rows, one more than fit on it, so that a surplus row shows that there are more. Deleted
  statuses are dropped before the surplus is looked for. When one of these rows is of a deleted
  status and the account has favourited no remote status, the page says that it is the last one,
  however many favourites follow; the page of \<open>local_favourites_for_account\<close> says that there
  are more.
\<close>

lemma deleted_favourite_ends_the_list:
  assumes "limit < u64_max" and "filter (\<lambda>r. lrf_local_account_id r = account) (t_local_remote_status_favourite d) = []"
    and "rows = filter (\<lambda>r. lsf_account_id r = account) (t_local_status_favourite d)"
    and "r \<in> set (newest_rows lsf_id limit cursor rows)" and "find_local_status_by_id d (lsf_status_id r) = None"
    and "limit < length (apply_collection_cursor lsf_id cursor rows)"
  shows "\<not> cp_has_more (favourites_for_account d account limit cursor) \<and>
    cp_has_more (local_favourites_for_account d account limit cursor)"
proof
  let ?entry = "\<lambda>r. map_option (\<lambda>s. (lsf_id r, FavouriteLocal s)) (find_local_status_by_id d (lsf_status_id r))"
  let ?entries = "List.map_filter ?entry (newest_rows lsf_id limit cursor rows)"
  have "length ?entries < length (newest_rows lsf_id limit cursor rows)"
    by (rule length_map_filter_less [OF assms(4)]) (simp add: assms(5))
  also have "length (newest_rows lsf_id limit cursor rows) \<le> Suc limit"
    using assms(1) by (simp add: newest_rows_def page_query_limit_def)
  finally have "\<not> limit < length ?entries" by simp
  moreover have "favourites_for_account d account limit cursor =
      (let (entries, more) = trim_to_page (order_by_desc fst ?entries) limit
       in \<lparr> cp_items = map snd entries, cp_first_cursor = first_of fst entries, cp_last_cursor = last_of fst entries,
            cp_has_more = more \<rparr>)"
    using assms(2,3) by (simp add: favourites_for_account_def newest_rows_def [where rows = "[]"] apply_collection_cursor_def
        order_by_desc_def List.map_filter_def Let_def)
  ultimately show "\<not> cp_has_more (favourites_for_account d account limit cursor)"
    by (simp add: trim_to_page_eq order_by_desc_def)
  have "limit < length (order_by_desc lsf_id (filter (\<lambda>r. collection_cursor_matches (lsf_id r) cursor) rows))"
    using assms(6) by (simp add: order_by_desc_def)
  then show "cp_has_more (local_favourites_for_account d account limit cursor)"
    using query_page_eq [OF assms(1), of lsf_id cursor rows] assms(3)
    by (simp add: local_favourites_for_account_def status_page_def Let_def)
qed

end
