(* ===== verification/Roosty_Streaming.thy ===== *)
theory Roosty_Streaming
  imports Roosty_Text Roosty_Schema
begin

text \<open>
  Streaming (\<^verbatim>\<open>src/crates/server/src/streaming.rs\<close>, the sessions of
  \<^verbatim>\<open>src/crates/server/src/compat.rs\<close>, and the log of
  \<^verbatim>\<open>src/crates/db/src/lib.rs\<close>, lines 132-185 and 637-745).

  An event is sent to the subscribers of the process that publishes it, and through a log in the
  database to those of the other processes. The sequence number of a log row is drawn when the row
  is inserted; other processes see the row when its transaction commits. A process keeps the number of
  the last row it has read and reads what comes after it whenever it is notified.

  The payload is the text the event was serialized to. Serialization of events does not fail
  (\<^verbatim>\<open>serde_json\<close> fails on maps with keys that are not strings, which there are none of).
\<close>

subsection \<open>Events\<close>

datatype streaming_event_type =
  EvUpdate | EvStatusUpdate | EvNotification | EvConversation | EvDelete | EvNotificationsMerged

datatype streaming_event_kind =
  KindUpdate | KindStatusUpdate | KindNotification | KindConversation | KindDelete | KindNotificationsMerged

fun kind_of_type :: "streaming_event_type \<Rightarrow> streaming_event_kind" where
  "kind_of_type EvUpdate = KindUpdate"
| "kind_of_type EvStatusUpdate = KindStatusUpdate"
| "kind_of_type EvNotification = KindNotification"
| "kind_of_type EvConversation = KindConversation"
| "kind_of_type EvDelete = KindDelete"
| "kind_of_type EvNotificationsMerged = KindNotificationsMerged"

fun type_of_kind :: "streaming_event_kind \<Rightarrow> streaming_event_type" where
  "type_of_kind KindUpdate = EvUpdate"
| "type_of_kind KindStatusUpdate = EvStatusUpdate"
| "type_of_kind KindNotification = EvNotification"
| "type_of_kind KindConversation = EvConversation"
| "type_of_kind KindDelete = EvDelete"
| "type_of_kind KindNotificationsMerged = EvNotificationsMerged"

datatype streaming_status_origin = OriginLocal | OriginRemote

record streaming_event =
  se_event :: streaming_event_type
  se_payload :: ustring
  se_account_id :: uuid
  se_user_recipient_ids :: "uuid list"
  se_notification_recipient_ids :: "uuid list"
  se_visibility :: status_visibility
  se_status_origin :: streaming_status_origin
  se_has_media :: bool

text \<open>A status that is streamed, as far as it matters here: its serialization and its attachments.\<close>

record streamed_status =
  sst_json :: ustring
  sst_media_attachments :: "json list"

definition serialized_status_has_media :: "streamed_status \<Rightarrow> bool" where
  "serialized_status_has_media s \<longleftrightarrow> sst_media_attachments s \<noteq> []"

definition streaming_update_message ::
  "streamed_status \<Rightarrow> uuid \<Rightarrow> status_visibility \<Rightarrow> uuid list \<Rightarrow> streaming_status_origin \<Rightarrow> streaming_event" where
  "streaming_update_message s author visibility recipients origin =
     \<lparr> se_event = EvUpdate, se_payload = sst_json s, se_account_id = author, se_user_recipient_ids = recipients,
       se_notification_recipient_ids = [], se_visibility = visibility, se_status_origin = origin,
       se_has_media = serialized_status_has_media s \<rparr>"

definition streaming_status_update_message ::
  "streamed_status \<Rightarrow> uuid \<Rightarrow> status_visibility \<Rightarrow> uuid list \<Rightarrow> uuid list \<Rightarrow> streaming_status_origin \<Rightarrow>
     streaming_event" where
  "streaming_status_update_message s author visibility recipients notified origin =
     \<lparr> se_event = EvStatusUpdate, se_payload = sst_json s, se_account_id = author, se_user_recipient_ids = recipients,
       se_notification_recipient_ids = notified, se_visibility = visibility, se_status_origin = origin,
       se_has_media = serialized_status_has_media s \<rparr>"

definition private_event :: "streaming_event_type \<Rightarrow> ustring \<Rightarrow> uuid \<Rightarrow> streaming_event" where
  "private_event kind payload recipient =
     \<lparr> se_event = kind, se_payload = payload, se_account_id = recipient, se_user_recipient_ids = [],
       se_notification_recipient_ids = [], se_visibility = Direct, se_status_origin = OriginLocal, se_has_media = False \<rparr>"

definition streaming_notification_message where
  "streaming_notification_message payload recipient = private_event EvNotification payload recipient"

definition streaming_conversation_message where
  "streaming_conversation_message payload recipient = private_event EvConversation payload recipient"

definition notifications_merged_message where
  "notifications_merged_message recipient = private_event EvNotificationsMerged (utext ''{}'') recipient"

definition streaming_delete_message ::
  "ustring \<Rightarrow> uuid \<Rightarrow> status_visibility \<Rightarrow> uuid list \<Rightarrow> streaming_status_origin \<Rightarrow> bool \<Rightarrow> streaming_event" where
  "streaming_delete_message status author visibility recipients origin has_media =
     \<lparr> se_event = EvDelete, se_payload = status, se_account_id = author, se_user_recipient_ids = recipients,
       se_notification_recipient_ids = [], se_visibility = visibility, se_status_origin = origin, se_has_media = has_media \<rparr>"

text \<open>\<open>publish_home_update\<close>: what boosts are announced with.\<close>

definition home_update_message :: "streamed_status \<Rightarrow> uuid \<Rightarrow> uuid list \<Rightarrow> streaming_event" where
  "home_update_message s author recipients = streaming_update_message s author Unlisted recipients OriginLocal"

subsection \<open>Channels and sessions\<close>

datatype streaming_channel =
    ChUser | ChUserNotification | ChDirect | ChPublic | ChPublicMedia | ChPublicLocal | ChPublicLocalMedia
  | ChPublicRemote | ChPublicRemoteMedia

definition channel_names :: "(string \<times> streaming_channel) list" where
  "channel_names =
     [(''user'', ChUser), (''user:notification'', ChUserNotification), (''direct'', ChDirect), (''public'', ChPublic),
      (''public:media'', ChPublicMedia), (''public:local'', ChPublicLocal), (''public:local:media'', ChPublicLocalMedia),
      (''public:remote'', ChPublicRemote), (''public:remote:media'', ChPublicRemoteMedia)]"

definition channel_from_str :: "ustring \<Rightarrow> streaming_channel option" where
  "channel_from_str name = map_of (map (\<lambda>(n, c). (utext n, c)) channel_names) name"

fun is_visible_to_stream :: "streaming_event \<Rightarrow> uuid \<Rightarrow> streaming_channel \<Rightarrow> bool" where
  "is_visible_to_stream e account ChUser \<longleftrightarrow>
     se_event e \<noteq> EvConversation \<and>
     (se_account_id e = account \<or> account \<in> set (se_user_recipient_ids e) \<or>
      account \<in> set (se_notification_recipient_ids e))"
| "is_visible_to_stream e account ChUserNotification \<longleftrightarrow>
     se_event e = EvNotification \<and> se_account_id e = account \<or>
     se_event e = EvStatusUpdate \<and> account \<in> set (se_notification_recipient_ids e)"
| "is_visible_to_stream e account ChDirect \<longleftrightarrow> se_event e = EvConversation \<and> se_account_id e = account"
| "is_visible_to_stream e account ChPublic \<longleftrightarrow> se_visibility e = Public"
| "is_visible_to_stream e account ChPublicMedia \<longleftrightarrow> se_visibility e = Public \<and> se_has_media e"
| "is_visible_to_stream e account ChPublicLocal \<longleftrightarrow> se_visibility e = Public \<and> se_status_origin e = OriginLocal"
| "is_visible_to_stream e account ChPublicLocalMedia \<longleftrightarrow>
     se_visibility e = Public \<and> se_status_origin e = OriginLocal \<and> se_has_media e"
| "is_visible_to_stream e account ChPublicRemote \<longleftrightarrow> se_visibility e = Public \<and> se_status_origin e = OriginRemote"
| "is_visible_to_stream e account ChPublicRemoteMedia \<longleftrightarrow>
     se_visibility e = Public \<and> se_status_origin e = OriginRemote \<and> se_has_media e"

definition matching_streams :: "streaming_event \<Rightarrow> uuid \<Rightarrow> ustring list \<Rightarrow> ustring list" where
  "matching_streams e account streams =
     filter (\<lambda>s. case channel_from_str s of None \<Rightarrow> False | Some c \<Rightarrow> is_visible_to_stream e account c) streams"

record socket_message =
  sm_stream :: "ustring list"
  sm_event :: streaming_event_type
  sm_payload :: ustring

definition to_socket_message :: "streaming_event \<Rightarrow> uuid \<Rightarrow> ustring list \<Rightarrow> socket_message option" where
  "to_socket_message e account streams =
     (let matching = matching_streams e account streams
      in if matching = [] then None
         else Some \<lparr> sm_stream = matching, sm_event = se_event e, sm_payload = se_payload e \<rparr>)"

datatype streaming_control_action = CtlSubscribe | CtlUnsubscribe | CtlOther

definition initial_streams :: "ustring option \<Rightarrow> ustring list" where
  "initial_streams stream = (case stream of None \<Rightarrow> [utext ''user''] | Some s \<Rightarrow> [s])"

definition update_stream_subscription ::
  "streaming_control_action option \<Rightarrow> ustring option \<Rightarrow> ustring list \<Rightarrow> ustring list" where
  "update_stream_subscription action stream streams =
     (case map_option trim stream of
        None \<Rightarrow> streams
      | Some s \<Rightarrow>
          if s = [] then streams
          else
            let streams = (case action of
                             Some CtlSubscribe \<Rightarrow> if s \<in> set streams then streams else streams @ [s]
                           | Some CtlUnsubscribe \<Rightarrow> filter (\<lambda>x. x \<noteq> s) streams
                           | _ \<Rightarrow> streams)
            in if streams = [] then [utext ''user''] else streams)"

subsection \<open>The log\<close>

record streaming_event_row =
  sev_sequence :: int
  sev_origin_process_id :: uuid
  sev_event_kind :: streaming_event_kind
  sev_payload :: ustring
  sev_account_id :: uuid
  sev_recipient_ids :: json
  sev_notification_recipient_ids :: json
  sev_visibility :: status_visibility
  sev_status_origin :: streaming_status_origin
  sev_has_media :: bool
  sev_created_at :: instant

record new_streaming_event =
  nse_origin_process_id :: uuid
  nse_kind :: streaming_event_kind
  nse_payload :: ustring
  nse_account_id :: uuid
  nse_recipient_ids :: "uuid list"
  nse_notification_recipient_ids :: "uuid list"
  nse_visibility :: status_visibility
  nse_status_origin :: streaming_status_origin
  nse_has_media :: bool

record retained_event =
  rse_sequence :: int
  rse_origin_process_id :: uuid
  rse_kind :: streaming_event_kind
  rse_payload :: ustring
  rse_account_id :: uuid
  rse_recipient_ids :: "uuid list"
  rse_notification_recipient_ids :: "uuid list"
  rse_visibility :: status_visibility
  rse_status_origin :: streaming_status_origin
  rse_has_media :: bool

definition to_persisted :: "streaming_event \<Rightarrow> uuid \<Rightarrow> new_streaming_event" where
  "to_persisted e origin =
     \<lparr> nse_origin_process_id = origin, nse_kind = kind_of_type (se_event e), nse_payload = se_payload e,
       nse_account_id = se_account_id e, nse_recipient_ids = se_user_recipient_ids e,
       nse_notification_recipient_ids = se_notification_recipient_ids e, nse_visibility = se_visibility e,
       nse_status_origin = se_status_origin e, nse_has_media = se_has_media e \<rparr>"

definition from_retained :: "retained_event \<Rightarrow> streaming_event" where
  "from_retained r =
     \<lparr> se_event = type_of_kind (rse_kind r), se_payload = rse_payload r, se_account_id = rse_account_id r,
       se_user_recipient_ids = rse_recipient_ids r, se_notification_recipient_ids = rse_notification_recipient_ids r,
       se_visibility = rse_visibility r, se_status_origin = rse_status_origin r, se_has_media = rse_has_media r \<rparr>"

text \<open>
  Recipients are stored as a JSON array of identifiers; \<open>id_string\<close> and \<open>parse_uuid\<close> are
  the textual form of the \<^verbatim>\<open>uuid\<close> crate and its parser.
\<close>

definition ids_json :: "(uuid \<Rightarrow> string) \<Rightarrow> uuid list \<Rightarrow> json" where
  "ids_json id_string ids = JArr (map (\<lambda>i. JStr (id_string i)) ids)"

primrec ids_from_json :: "(string \<Rightarrow> uuid option) \<Rightarrow> json list \<Rightarrow> uuid list option" where
  "ids_from_json parse_uuid [] = Some []"
| "ids_from_json parse_uuid (j # js) =
     (case j of
        JStr s \<Rightarrow> Option.bind (parse_uuid s) (\<lambda>i. map_option (\<lambda>is. i # is) (ids_from_json parse_uuid js))
      | _ \<Rightarrow> None)"

definition vec_from_json :: "(string \<Rightarrow> uuid option) \<Rightarrow> json \<Rightarrow> uuid list option" where
  "vec_from_json parse_uuid j = (case j of JArr js \<Rightarrow> ids_from_json parse_uuid js | _ \<Rightarrow> None)"

definition streaming_row :: "(uuid \<Rightarrow> string) \<Rightarrow> int \<Rightarrow> instant \<Rightarrow> new_streaming_event \<Rightarrow> streaming_event_row" where
  "streaming_row id_string sequence now n =
     \<lparr> sev_sequence = sequence, sev_origin_process_id = nse_origin_process_id n, sev_event_kind = nse_kind n,
       sev_payload = nse_payload n, sev_account_id = nse_account_id n,
       sev_recipient_ids = ids_json id_string (nse_recipient_ids n),
       sev_notification_recipient_ids = ids_json id_string (nse_notification_recipient_ids n),
       sev_visibility = nse_visibility n, sev_status_origin = nse_status_origin n, sev_has_media = nse_has_media n,
       sev_created_at = now \<rparr>"

definition retained_streaming_event :: "(string \<Rightarrow> uuid option) \<Rightarrow> streaming_event_row \<Rightarrow> retained_event result" where
  "retained_streaming_event parse_uuid r =
     (case vec_from_json parse_uuid (sev_recipient_ids r) of
        None \<Rightarrow> Inl (InvalidInput ''invalid streaming recipients'')
      | Some recipients \<Rightarrow>
          (case vec_from_json parse_uuid (sev_notification_recipient_ids r) of
             None \<Rightarrow> Inl (InvalidInput ''invalid streaming notification recipients'')
           | Some notified \<Rightarrow>
               Inr \<lparr> rse_sequence = sev_sequence r, rse_origin_process_id = sev_origin_process_id r,
                     rse_kind = sev_event_kind r, rse_payload = sev_payload r, rse_account_id = sev_account_id r,
                     rse_recipient_ids = recipients, rse_notification_recipient_ids = notified,
                     rse_visibility = sev_visibility r, rse_status_origin = sev_status_origin r,
                     rse_has_media = sev_has_media r \<rparr>))"

text \<open>The log: the generator of the identity column, open transactions, and committed rows.\<close>

record streaming_log =
  lg_next :: int
  lg_open :: "streaming_event_row list"
  lg_rows :: "streaming_event_row list"

definition insert_streaming_event ::
  "(uuid \<Rightarrow> string) \<Rightarrow> instant \<Rightarrow> new_streaming_event \<Rightarrow> streaming_log \<Rightarrow> streaming_log" where
  "insert_streaming_event id_string now n l =
     l\<lparr>lg_next := lg_next l + 1, lg_open := lg_open l @ [streaming_row id_string (lg_next l) now n]\<rparr>"

definition commit_streaming_event :: "int \<Rightarrow> streaming_log \<Rightarrow> streaming_log" where
  "commit_streaming_event sequence l =
     l\<lparr>lg_open := filter (\<lambda>r. sev_sequence r \<noteq> sequence) (lg_open l),
       lg_rows := lg_rows l @ filter (\<lambda>r. sev_sequence r = sequence) (lg_open l)\<rparr>"

definition rollback_streaming_event :: "int \<Rightarrow> streaming_log \<Rightarrow> streaming_log" where
  "rollback_streaming_event sequence l = l\<lparr>lg_open := filter (\<lambda>r. sev_sequence r \<noteq> sequence) (lg_open l)\<rparr>"

text \<open>\<open>publish_streaming_event\<close> without interference: the insertion and its commit.\<close>

definition publish_streaming_event ::
  "(uuid \<Rightarrow> string) \<Rightarrow> instant \<Rightarrow> new_streaming_event \<Rightarrow> streaming_log \<Rightarrow> streaming_log \<times> int" where
  "publish_streaming_event id_string now n l =
     (commit_streaming_event (lg_next l) (insert_streaming_event id_string now n l), lg_next l)"

definition latest_streaming_event_sequence :: "streaming_log \<Rightarrow> int" where
  "latest_streaming_event_sequence l = (if lg_rows l = [] then 0 else Max (sev_sequence ` set (lg_rows l)))"

definition streaming_events_after ::
  "(string \<Rightarrow> uuid option) \<Rightarrow> streaming_log \<Rightarrow> int \<Rightarrow> retained_event list result" where
  "streaming_events_after parse_uuid l sequence =
     map_res (retained_streaming_event parse_uuid)
       (sort_key sev_sequence (filter (\<lambda>r. sequence < sev_sequence r) (lg_rows l)))"

definition delete_streaming_events_before :: "instant \<Rightarrow> streaming_log \<Rightarrow> streaming_log \<times> nat" where
  "delete_streaming_events_before cutoff l =
     (l\<lparr>lg_rows := tbl_delete (\<lambda>r. sev_created_at r < cutoff) (lg_rows l)\<rparr>,
      rows_affected (\<lambda>r. sev_created_at r < cutoff) (lg_rows l))"

subsection \<open>Processes\<close>

text \<open>
  What a process has sent to its own subscribers, with the sequence number for what it took from
  the log; the events that wait for being written to the log (at most 1024; further ones are
  dropped); and the number of the last row it has read.
\<close>

record streaming_process =
  pr_id :: uuid
  pr_sequence :: int
  pr_sent :: "(int option \<times> streaming_event) list"
  pr_queue :: "new_streaming_event list"

definition publish :: "streaming_event \<Rightarrow> streaming_process \<Rightarrow> streaming_process" where
  "publish e p =
     p\<lparr>pr_sent := pr_sent p @ [(None, e)],
       pr_queue := (if length (pr_queue p) < 1024 then pr_queue p @ [to_persisted e (pr_id p)] else pr_queue p)\<rparr>"

definition initialize_listener :: "uuid \<Rightarrow> streaming_log \<Rightarrow> streaming_process" where
  "initialize_listener i l =
     \<lparr> pr_id = i, pr_sequence = latest_streaming_event_sequence l, pr_sent = [], pr_queue = [] \<rparr>"

definition deliver_one :: "streaming_process \<Rightarrow> retained_event \<Rightarrow> streaming_process" where
  "deliver_one p r =
     (let p = p\<lparr>pr_sequence := rse_sequence r\<rparr>
      in if rse_origin_process_id r = pr_id p then p
         else p\<lparr>pr_sent := pr_sent p @ [(Some (rse_sequence r), from_retained r)]\<rparr>)"

definition deliver_after ::
  "(string \<Rightarrow> uuid option) \<Rightarrow> streaming_log \<Rightarrow> streaming_process \<Rightarrow> streaming_process result" where
  "deliver_after parse_uuid l p =
     bind_res (streaming_events_after parse_uuid l (pr_sequence p)) (\<lambda>rs. Inr (foldl deliver_one p rs))"

end
