(* ===== verification/Roosty_Streaming_Properties.thy ===== *)
theory Roosty_Streaming_Properties
  imports Roosty_Streaming
begin

text \<open>
  What streaming delivers: processes that publish, write to the log, commit and read as a step
  relation, with theorems on what reaches whom.
\<close>

subsection \<open>Reading the log\<close>

text \<open>
  The textual form of an identifier is read back by the parser. Then an event that was written
  to the log is read back as it was.
\<close>

lemma ids_roundtrip:
  assumes "\<And>i. parse_uuid (id_string i) = Some i"
  shows "vec_from_json parse_uuid (ids_json id_string ids) = Some ids"
proof -
  have "ids_from_json parse_uuid (map (\<lambda>i. JStr (id_string i)) ids) = Some ids"
    by (induction ids) (simp_all add: assms)
  then show ?thesis by (simp add: vec_from_json_def ids_json_def)
qed

definition retained_of :: "int \<Rightarrow> uuid \<Rightarrow> streaming_event \<Rightarrow> retained_event" where
  "retained_of k origin e =
     \<lparr> rse_sequence = k, rse_origin_process_id = origin, rse_kind = kind_of_type (se_event e),
       rse_payload = se_payload e, rse_account_id = se_account_id e, rse_recipient_ids = se_user_recipient_ids e,
       rse_notification_recipient_ids = se_notification_recipient_ids e, rse_visibility = se_visibility e,
       rse_status_origin = se_status_origin e, rse_has_media = se_has_media e \<rparr>"

lemma type_of_kind_of_type [simp]: "type_of_kind (kind_of_type t) = t"
  by (cases t) simp_all

lemma retained_of_simps [simp]:
  "rse_sequence (retained_of k i e) = k" "rse_origin_process_id (retained_of k i e) = i" "from_retained (retained_of k i e) = e"
  by (simp_all add: retained_of_def from_retained_def)

lemma streaming_row_simps [simp]:
  "sev_sequence (streaming_row id_string k now n) = k"
  "sev_origin_process_id (streaming_row id_string k now (to_persisted e i)) = i"
  by (simp_all add: streaming_row_def to_persisted_def)

lemma event_roundtrip:
  assumes "\<And>i. parse_uuid (id_string i) = Some i"
  shows "retained_streaming_event parse_uuid (streaming_row id_string k now (to_persisted e i)) = Inr (retained_of k i e)"
  by (simp add: retained_streaming_event_def streaming_row_def to_persisted_def retained_of_def ids_roundtrip [OF assms])

lemma foldl_deliver:
  "foldl deliver_one p rs =
     p\<lparr>pr_sequence := (if rs = [] then pr_sequence p else rse_sequence (last rs)),
       pr_sent := pr_sent p @ map (\<lambda>r. (Some (rse_sequence r), from_retained r))
         (filter (\<lambda>r. rse_origin_process_id r \<noteq> pr_id p) rs)\<rparr>"
  by (induction rs arbitrary: p) (simp_all add: deliver_one_def Let_def)

text \<open>The rows that a reader with cursor \<open>k\<close> finds, in the order in which it finds them.\<close>

definition unread :: "streaming_log \<Rightarrow> int \<Rightarrow> streaming_event_row list" where
  "unread l k = sort_key sev_sequence (filter (\<lambda>r. k < sev_sequence r) (lg_rows l))"

lemma set_unread [simp]: "set (unread l k) = {r \<in> set (lg_rows l). k < sev_sequence r}"
  by (auto simp: unread_def)

lemma unread_strict:
  assumes "distinct (map sev_sequence (lg_rows l))"
  shows "sorted_wrt (<) (map sev_sequence (unread l k))"
proof -
  have "distinct (map sev_sequence (filter (\<lambda>r. k < sev_sequence r) (lg_rows l)))"
    using assms by (rule distinct_map_filter)
  then have "distinct (map sev_sequence (unread l k))"
    unfolding unread_def by (simp add: distinct_map)
  moreover have "sorted (map sev_sequence (unread l k))" by (simp add: unread_def)
  ultimately show ?thesis by (simp add: strict_sorted_iff)
qed

subsection \<open>Processes and the log\<close>

record stream_state =
  ss_log :: streaming_log
  ss_procs :: "uuid \<Rightarrow> streaming_process option"

text \<open>
  The steps of the system. A process publishes at any time; its single publication task writes the
  oldest waiting event when its previous transaction has ended; transactions commit or are lost
  in any order; a process reads after a notification or a reconnect, which may be at any time;
  any process deletes expired rows. Identifiers of processes are fresh.
\<close>

inductive stream_step :: "(uuid \<Rightarrow> string) \<Rightarrow> (string \<Rightarrow> uuid option) \<Rightarrow> stream_state \<Rightarrow> stream_state \<Rightarrow> bool"
  for id_string parse_uuid where
  start: "ss_procs s i = None \<Longrightarrow>
    stream_step id_string parse_uuid s (s\<lparr>ss_procs := (ss_procs s)(i \<mapsto> initialize_listener i (ss_log s))\<rparr>)"
| publish: "ss_procs s i = Some p \<Longrightarrow>
    stream_step id_string parse_uuid s (s\<lparr>ss_procs := (ss_procs s)(i \<mapsto> publish e p)\<rparr>)"
| log_event: "ss_procs s i = Some p \<Longrightarrow> pr_queue p = n # ns \<Longrightarrow>
    (\<And>r. r \<in> set (lg_open (ss_log s)) \<Longrightarrow> sev_origin_process_id r \<noteq> i) \<Longrightarrow>
    stream_step id_string parse_uuid s
      (s\<lparr>ss_log := insert_streaming_event id_string now n (ss_log s), ss_procs := (ss_procs s)(i \<mapsto> p\<lparr>pr_queue := ns\<rparr>)\<rparr>)"
| commit: "stream_step id_string parse_uuid s (s\<lparr>ss_log := commit_streaming_event k (ss_log s)\<rparr>)"
| rollback: "stream_step id_string parse_uuid s (s\<lparr>ss_log := rollback_streaming_event k (ss_log s)\<rparr>)"
| deliver: "ss_procs s i = Some p \<Longrightarrow> deliver_after parse_uuid (ss_log s) p = Inr p' \<Longrightarrow>
    stream_step id_string parse_uuid s (s\<lparr>ss_procs := (ss_procs s)(i \<mapsto> p')\<rparr>)"
| cleanup: "stream_step id_string parse_uuid s (s\<lparr>ss_log := fst (delete_streaming_events_before cutoff (ss_log s))\<rparr>)"

definition stream_init :: "stream_state \<Rightarrow> bool" where
  "stream_init s \<longleftrightarrow> lg_next (ss_log s) = 1 \<and> lg_open (ss_log s) = [] \<and> lg_rows (ss_log s) = [] \<and> ss_procs s = Map.empty"

definition published :: "stream_state \<Rightarrow> uuid \<Rightarrow> streaming_event \<Rightarrow> bool" where
  "published s i e \<longleftrightarrow> (\<exists>p. ss_procs s i = Some p \<and> (None, e) \<in> set (pr_sent p))"

definition sequences :: "streaming_process \<Rightarrow> int list" where
  "sequences p = List.map_filter fst (pr_sent p)"

definition log_rows :: "streaming_log \<Rightarrow> streaming_event_row list" where
  "log_rows l = lg_open l @ lg_rows l"

definition row_ok :: "(uuid \<Rightarrow> string) \<Rightarrow> (uuid \<Rightarrow> streaming_event \<Rightarrow> bool) \<Rightarrow> int \<Rightarrow> streaming_event_row \<Rightarrow> bool" where
  "row_ok id_string pub next r \<longleftrightarrow> sev_sequence r < next \<and>
     (\<exists>now i e. r = streaming_row id_string (sev_sequence r) now (to_persisted e i) \<and> pub i e)"

definition proc_ok :: "(uuid \<Rightarrow> streaming_event \<Rightarrow> bool) \<Rightarrow> streaming_log \<Rightarrow> uuid \<Rightarrow> streaming_process \<Rightarrow> bool" where
  "proc_ok pub l i p \<longleftrightarrow> pr_id p = i \<and> pr_sequence p < lg_next l \<and>
     (\<forall>n \<in> set (pr_queue p). \<exists>e. n = to_persisted e i \<and> pub i e) \<and>
     sorted_wrt (<) (sequences p) \<and>
     (\<forall>k e. (Some k, e) \<in> set (pr_sent p) \<longrightarrow>
        k \<le> pr_sequence p \<and> k \<notin> sev_sequence ` set (lg_open l) \<and> (\<exists>j. j \<noteq> i \<and> pub j e))"

definition stream_ok :: "(uuid \<Rightarrow> string) \<Rightarrow> stream_state \<Rightarrow> bool" where
  "stream_ok id_string s \<longleftrightarrow> 0 < lg_next (ss_log s) \<and> distinct (map sev_sequence (log_rows (ss_log s))) \<and>
     (\<forall>r \<in> set (log_rows (ss_log s)). row_ok id_string (published s) (lg_next (ss_log s)) r) \<and>
     (\<forall>i p. ss_procs s i = Some p \<longrightarrow> proc_ok (published s) (ss_log s) i p)"

subsection \<open>The invariant\<close>

lemma row_ok_mono:
  "row_ok id_string pub n r \<Longrightarrow> (\<And>i e. pub i e \<Longrightarrow> pub' i e) \<Longrightarrow> n \<le> n' \<Longrightarrow> row_ok id_string pub' n' r"
  unfolding row_ok_def by (meson order.strict_trans2)

lemma proc_ok_mono:
  assumes "proc_ok pub l i p" and "\<And>i e. pub i e \<Longrightarrow> pub' i e" and "lg_next l \<le> lg_next l'"
    and "\<And>r. r \<in> set (lg_open l') \<Longrightarrow> r \<in> set (lg_open l) \<or> lg_next l \<le> sev_sequence r"
  shows "proc_ok pub' l' i p"
proof -
  have "k \<notin> sev_sequence ` set (lg_open l')" if "k \<notin> sev_sequence ` set (lg_open l)" "k < lg_next l" for k
    using that assms(4) by force
  moreover have "k < lg_next l" if "(Some k, e) \<in> set (pr_sent p)" for k e
    using assms(1) that unfolding proc_ok_def by (meson order.strict_trans1)
  ultimately show ?thesis using assms(1-3) unfolding proc_ok_def by (meson order.strict_trans2)
qed

text \<open>
  A step keeps the invariant if it shows no event twice, adds only rows of published events under new
  numbers, and leaves the processes it changes in order.
\<close>

lemma stream_ok_step:
  assumes "stream_ok id_string s"
    and pub: "\<And>i e. published s i e \<Longrightarrow> published t i e"
    and log: "lg_next (ss_log s) \<le> lg_next (ss_log t)" "distinct (map sev_sequence (log_rows (ss_log t)))"
    and rows: "\<And>r. r \<in> set (log_rows (ss_log t)) \<Longrightarrow> r \<in> set (log_rows (ss_log s)) \<or>
      row_ok id_string (published t) (lg_next (ss_log t)) r"
    and op: "\<And>r. r \<in> set (lg_open (ss_log t)) \<Longrightarrow> r \<in> set (lg_open (ss_log s)) \<or> lg_next (ss_log s) \<le> sev_sequence r"
    and procs: "\<And>i p. ss_procs t i = Some p \<Longrightarrow> ss_procs s i = Some p \<or> proc_ok (published t) (ss_log t) i p"
  shows "stream_ok id_string t"
proof -
  have "row_ok id_string (published t) (lg_next (ss_log t)) r" if "r \<in> set (log_rows (ss_log t))" for r
    using rows [OF that] assms(1) row_ok_mono [of id_string "published s" _ r "published t", OF _ pub log(1)]
    by (auto simp: stream_ok_def)
  moreover have "proc_ok (published t) (ss_log t) i p" if "ss_procs t i = Some p" for i p
    using procs [OF that] assms(1) proc_ok_mono [of "published s" "ss_log s" i p "published t" "ss_log t", OF _ pub log(1) op]
    by (auto simp: stream_ok_def)
  ultimately show ?thesis using assms(1) log by (auto simp: stream_ok_def)
qed

lemma published_update:
  assumes "ss_procs s i = Some p" and "set (pr_sent p) \<subseteq> set (pr_sent q)" and "published s j e"
  shows "published (s\<lparr>ss_log := l, ss_procs := (ss_procs s)(i \<mapsto> q)\<rparr>) j e"
  using assms by (auto simp: published_def)

lemma sequences_append: "sequences (p\<lparr>pr_sent := pr_sent p @ xs\<rparr>) = sequences p @ List.map_filter fst xs"
  by (simp add: sequences_def List.map_filter_def)

lemma sequences_cong: "pr_sent p = pr_sent q \<Longrightarrow> sequences p = sequences q"
  by (simp add: sequences_def)

lemma sequences_le:
  "proc_ok pub l i p \<Longrightarrow> k \<in> set (sequences p) \<Longrightarrow> k \<le> pr_sequence p"
  by (auto simp: proc_ok_def sequences_def List.map_filter_def)

lemma proc_ok_sent:
  "proc_ok pub l i p \<Longrightarrow> (Some k, e) \<in> set (pr_sent p) \<Longrightarrow> k \<notin> sev_sequence ` set (lg_open l) \<and> (\<exists>j. j \<noteq> i \<and> pub j e)"
  unfolding proc_ok_def by blast

lemma log_ok_commit:
  assumes "distinct (map sev_sequence (log_rows l))"
  shows "distinct (map sev_sequence (log_rows (commit_streaming_event k l)))"
    and "distinct (map sev_sequence (log_rows (rollback_streaming_event k l)))"
    and "distinct (map sev_sequence (log_rows (fst (delete_streaming_events_before cutoff l))))"
proof -
  have d: "distinct (map sev_sequence (lg_open l))" "distinct (map sev_sequence (lg_rows l))"
    "sev_sequence ` set (lg_open l) \<inter> sev_sequence ` set (lg_rows l) = {}"
    using assms by (simp_all add: log_rows_def)
  then show "distinct (map sev_sequence (log_rows (rollback_streaming_event k l)))"
    "distinct (map sev_sequence (log_rows (fst (delete_streaming_events_before cutoff l))))"
    by (auto simp: log_rows_def rollback_streaming_event_def delete_streaming_events_before_def tbl_delete_def
        distinct_map_filter)
  show "distinct (map sev_sequence (log_rows (commit_streaming_event k l)))"
    using d by (auto simp: log_rows_def commit_streaming_event_def distinct_map_filter)
qed

lemma latest_below:
  assumes "\<forall>r \<in> set (lg_rows l). sev_sequence r < n" and "0 < n"
  shows "latest_streaming_event_sequence l < n"
  using assms by (simp add: latest_streaming_event_sequence_def)

lemma deliver_after_spec:
  assumes parse: "\<And>i. parse_uuid (id_string i) = Some i" and "stream_ok id_string s"
  obtains rs where
    "deliver_after parse_uuid (ss_log s) p = Inr (foldl deliver_one p rs)"
    and "map rse_sequence rs = map sev_sequence (unread (ss_log s) (pr_sequence p))"
    and "\<And>x. x \<in> set rs \<longleftrightarrow> (\<exists>r e. r \<in> set (unread (ss_log s) (pr_sequence p)) \<and> published s (sev_origin_process_id r) e \<and>
        retained_streaming_event parse_uuid r = Inr x \<and> x = retained_of (sev_sequence r) (sev_origin_process_id r) e)"
proof -
  let ?rows = "unread (ss_log s) (pr_sequence p)"
  have "\<exists>e. published s (sev_origin_process_id r) e \<and>
      retained_streaming_event parse_uuid r = Inr (retained_of (sev_sequence r) (sev_origin_process_id r) e)" if "r \<in> set ?rows" for r
  proof -
    have "row_ok id_string (published s) (lg_next (ss_log s)) r"
      using assms(2) that by (simp add: stream_ok_def log_rows_def)
    then obtain now i e where r: "r = streaming_row id_string (sev_sequence r) now (to_persisted e i)" "published s i e"
      unfolding row_ok_def by blast
    then have "sev_origin_process_id r = i" by (metis streaming_row_simps(2))
    then show ?thesis using event_roundtrip [OF parse] r by metis
  qed
  then obtain f where f: "\<And>r. r \<in> set ?rows \<Longrightarrow> published s (sev_origin_process_id r) (f r) \<and>
      retained_streaming_event parse_uuid r = Inr (retained_of (sev_sequence r) (sev_origin_process_id r) (f r))"
    by metis
  let ?rs = "map (\<lambda>r. retained_of (sev_sequence r) (sev_origin_process_id r) (f r)) ?rows"
  have "map_res (retained_streaming_event parse_uuid) ?rows = Inr ?rs"
    by (rule map_res_map) (use f in blast)
  then have "deliver_after parse_uuid (ss_log s) p = Inr (foldl deliver_one p ?rs)"
    by (simp add: deliver_after_def streaming_events_after_def unread_def)
  moreover have "map rse_sequence ?rs = map sev_sequence ?rows" by simp
  moreover have "x \<in> set ?rs \<longleftrightarrow> (\<exists>r e. r \<in> set ?rows \<and> published s (sev_origin_process_id r) e \<and>
        retained_streaming_event parse_uuid r = Inr x \<and> x = retained_of (sev_sequence r) (sev_origin_process_id r) e)" for x
  proof
    assume "x \<in> set ?rs"
    then obtain r where "r \<in> set ?rows" "x = retained_of (sev_sequence r) (sev_origin_process_id r) (f r)" by auto
    then show "\<exists>r e. r \<in> set ?rows \<and> published s (sev_origin_process_id r) e \<and>
        retained_streaming_event parse_uuid r = Inr x \<and> x = retained_of (sev_sequence r) (sev_origin_process_id r) e"
      using f by blast
  next
    assume "\<exists>r e. r \<in> set ?rows \<and> published s (sev_origin_process_id r) e \<and>
        retained_streaming_event parse_uuid r = Inr x \<and> x = retained_of (sev_sequence r) (sev_origin_process_id r) e"
    then obtain r where r: "r \<in> set ?rows" "retained_streaming_event parse_uuid r = Inr x" by blast
    then have "x = retained_of (sev_sequence r) (sev_origin_process_id r) (f r)" using f by force
    then show "x \<in> set ?rs" using r(1) by auto
  qed
  ultimately show thesis by (rule that)
qed

lemma deliver_proc_ok:
  assumes parse: "\<And>i. parse_uuid (id_string i) = Some i" and ok: "stream_ok id_string s"
    and p: "ss_procs s i = Some p" and "deliver_after parse_uuid (ss_log s) p = Inr p'"
  shows "proc_ok (published s) (ss_log s) i p'" and "set (pr_sent p) \<subseteq> set (pr_sent p')"
proof -
  obtain rs where d: "deliver_after parse_uuid (ss_log s) p = Inr (foldl deliver_one p rs)"
    and seqs: "map rse_sequence rs = map sev_sequence (unread (ss_log s) (pr_sequence p))"
    and rs: "\<And>x. x \<in> set rs \<longleftrightarrow> (\<exists>r e. r \<in> set (unread (ss_log s) (pr_sequence p)) \<and> published s (sev_origin_process_id r) e \<and>
        retained_streaming_event parse_uuid r = Inr x \<and> x = retained_of (sev_sequence r) (sev_origin_process_id r) e)"
    by (rule deliver_after_spec [OF parse ok, of p]) (rule that)
  have p': "p' = foldl deliver_one p rs" using d assms(4) by simp
  let ?new = "filter (\<lambda>r. rse_origin_process_id r \<noteq> i) rs"
  have okp: "proc_ok (published s) (ss_log s) i p" using ok p by (simp add: stream_ok_def)
  have strict: "sorted_wrt (<) (map rse_sequence rs)"
    using ok by (simp add: seqs unread_strict stream_ok_def log_rows_def)
  have later: "pr_sequence p < rse_sequence x \<and> rse_sequence x < lg_next (ss_log s) \<and>
      rse_sequence x \<notin> sev_sequence ` set (lg_open (ss_log s)) \<and> published s (rse_origin_process_id x) (from_retained x)"
    if mem: "x \<in> set rs" for x
  proof -
    obtain r e where r: "r \<in> set (lg_rows (ss_log s))" "pr_sequence p < sev_sequence r" "published s (sev_origin_process_id r) e"
      "x = retained_of (sev_sequence r) (sev_origin_process_id r) e"
      using mem by (auto simp: rs)
    then show ?thesis using ok by (auto simp: stream_ok_def log_rows_def row_ok_def)
  qed
  have upto: "rse_sequence x \<le> rse_sequence (last rs)" if "x \<in> set rs" for x
    using strict that by (cases rs rule: rev_cases) (auto simp: sorted_wrt_append order_less_imp_le)
  have fields: "pr_id p' = i" "pr_queue p' = pr_queue p" "pr_sequence p' = (if rs = [] then pr_sequence p else rse_sequence (last rs))"
    "pr_sent p' = pr_sent p @ map (\<lambda>r. (Some (rse_sequence r), from_retained r)) ?new"
    using okp by (simp_all add: p' foldl_deliver proc_ok_def)
  then show "set (pr_sent p) \<subseteq> set (pr_sent p')" by auto
  have grows: "pr_sequence p \<le> pr_sequence p'" "pr_sequence p' < lg_next (ss_log s)"
    using later okp fields(3) by (auto simp: proc_ok_def order_less_imp_le)
  have "sequences p' = sequences p @ map rse_sequence ?new"
    unfolding sequences_def fields(4) by (simp add: List.map_filter_def comp_def)
  moreover have "sorted_wrt (<) (map rse_sequence ?new)"
    using strict by (metis (no_types, lifting) sorted_wrt_filter sorted_wrt_map)
  moreover have "k < k'" if "k \<in> set (sequences p)" "k' \<in> set (map rse_sequence ?new)" for k k'
    using sequences_le [OF okp that(1)] later that(2) by fastforce
  ultimately have "sorted_wrt (<) (sequences p')" using okp by (simp add: sorted_wrt_append proc_ok_def)
  moreover have "k \<le> pr_sequence p' \<and> k \<notin> sev_sequence ` set (lg_open (ss_log s)) \<and> (\<exists>j. j \<noteq> i \<and> published s j e)"
    if sent: "(Some k, e) \<in> set (pr_sent p')" for k e
  proof (cases "(Some k, e) \<in> set (pr_sent p)")
    case True
    then show ?thesis using okp grows(1) unfolding proc_ok_def by (meson order.trans)
  next
    case False
    then obtain x where "x \<in> set ?new" "k = rse_sequence x" "e = from_retained x" using sent fields(4) by auto
    moreover from this have "rs \<noteq> []" by auto
    ultimately show ?thesis using later [of x] upto [of x] fields(3) by auto
  qed
  ultimately show "proc_ok (published s) (ss_log s) i p'"
    using okp fields(1,2) grows(2) unfolding proc_ok_def by simp
qed

lemma publish_ok:
  assumes ok: "stream_ok id_string s" and p: "ss_procs s i = Some p"
  shows "stream_ok id_string (s\<lparr>ss_procs := (ss_procs s)(i \<mapsto> publish e p)\<rparr>)"
proof (rule stream_ok_step [OF ok])
  let ?t = "s\<lparr>ss_procs := (ss_procs s)(i \<mapsto> publish e p)\<rparr>"
  show pub: "published ?t j x" if "published s j x" for j x
    using that p by (auto simp: published_def publish_def)
  have "published ?t i e" by (simp add: published_def publish_def)
  moreover have "proc_ok (published ?t) (ss_log s) i p"
    using ok p proc_ok_mono [of "published s" "ss_log s" i p "published ?t" "ss_log s", OF _ pub] by (simp add: stream_ok_def)
  moreover have "sequences (publish e p) = sequences p" by (simp add: sequences_def publish_def List.map_filter_def)
  ultimately have "proc_ok (published ?t) (ss_log s) i (publish e p)" unfolding proc_ok_def by (auto simp: publish_def)
  then show "ss_procs s j = Some q \<or> proc_ok (published ?t) (ss_log ?t) j q" if "ss_procs ?t j = Some q" for j q
    using that by (auto split: if_splits)
qed (use ok in \<open>simp_all add: stream_ok_def\<close>)

lemma log_event_ok:
  assumes ok: "stream_ok id_string s" and p: "ss_procs s i = Some p" "pr_queue p = n # ns"
  shows "stream_ok id_string
    (s\<lparr>ss_log := insert_streaming_event id_string now n (ss_log s), ss_procs := (ss_procs s)(i \<mapsto> p\<lparr>pr_queue := ns\<rparr>)\<rparr>)"
    (is "stream_ok _ ?t")
proof (rule stream_ok_step [OF ok])
  show pub: "published ?t j x" if "published s j x" for j x
    using published_update [OF p(1) _ that, of "p\<lparr>pr_queue := ns\<rparr>"] by simp
  have okp: "proc_ok (published s) (ss_log s) i p" using ok p(1) by (simp add: stream_ok_def)
  then obtain e where n: "n = to_persisted e i" "published s i e" using p(2) by (auto simp: proc_ok_def)
  let ?r = "streaming_row id_string (lg_next (ss_log s)) now n"
  have log: "ss_log ?t = (ss_log s)\<lparr>lg_next := lg_next (ss_log s) + 1, lg_open := lg_open (ss_log s) @ [?r]\<rparr>"
    by (simp add: insert_streaming_event_def)
  have fresh: "sev_sequence r < lg_next (ss_log s)" if "r \<in> set (log_rows (ss_log s))" for r
    using ok that by (simp add: stream_ok_def row_ok_def)
  then show "distinct (map sev_sequence (log_rows (ss_log ?t)))"
    using ok unfolding log by (force simp: stream_ok_def log_rows_def)
  show "lg_next (ss_log s) \<le> lg_next (ss_log ?t)" by (simp add: log)
  have "row_ok id_string (published ?t) (lg_next (ss_log ?t)) ?r"
    unfolding row_ok_def log using n pub by (simp add: n(1)) blast
  then show "r \<in> set (log_rows (ss_log s)) \<or> row_ok id_string (published ?t) (lg_next (ss_log ?t)) r"
    if "r \<in> set (log_rows (ss_log ?t))" for r
    using that by (auto simp: log log_rows_def)
  show new: "r \<in> set (lg_open (ss_log s)) \<or> lg_next (ss_log s) \<le> sev_sequence r" if "r \<in> set (lg_open (ss_log ?t))" for r
    using that by (auto simp: log)
  have "proc_ok (published ?t) (ss_log ?t) i p"
    by (rule proc_ok_mono [OF okp pub _ new]) (simp_all add: log)
  then have "proc_ok (published ?t) (ss_log ?t) i (p\<lparr>pr_queue := ns\<rparr>)"
    using p(2) sequences_cong [of "p\<lparr>pr_queue := ns\<rparr>" p] unfolding proc_ok_def by auto
  then show "ss_procs s j = Some q \<or> proc_ok (published ?t) (ss_log ?t) j q" if "ss_procs ?t j = Some q" for j q
    using that by (auto split: if_splits)
qed

lemma log_only_ok:
  assumes ok: "stream_ok id_string s" and "lg_next l = lg_next (ss_log s)" and "distinct (map sev_sequence (log_rows l))"
    and "set (log_rows l) \<subseteq> set (log_rows (ss_log s))" and "set (lg_open l) \<subseteq> set (lg_open (ss_log s))"
  shows "stream_ok id_string (s\<lparr>ss_log := l\<rparr>)"
  by (rule stream_ok_step [OF ok]) (use assms in \<open>auto simp: published_def\<close>)

lemma log_shrinks:
  assumes "stream_ok id_string s"
  shows "stream_ok id_string (s\<lparr>ss_log := commit_streaming_event k (ss_log s)\<rparr>)"
    and "stream_ok id_string (s\<lparr>ss_log := rollback_streaming_event k (ss_log s)\<rparr>)"
    and "stream_ok id_string (s\<lparr>ss_log := fst (delete_streaming_events_before cutoff (ss_log s))\<rparr>)"
proof -
  have d: "distinct (map sev_sequence (log_rows (ss_log s)))" using assms by (simp add: stream_ok_def)
  show "stream_ok id_string (s\<lparr>ss_log := commit_streaming_event k (ss_log s)\<rparr>)"
    by (rule log_only_ok [OF assms _ log_ok_commit(1) [OF d]]) (auto simp: commit_streaming_event_def log_rows_def)
  show "stream_ok id_string (s\<lparr>ss_log := rollback_streaming_event k (ss_log s)\<rparr>)"
    by (rule log_only_ok [OF assms _ log_ok_commit(2) [OF d]]) (auto simp: rollback_streaming_event_def log_rows_def)
  show "stream_ok id_string (s\<lparr>ss_log := fst (delete_streaming_events_before cutoff (ss_log s))\<rparr>)"
    by (rule log_only_ok [OF assms _ log_ok_commit(3) [OF d]])
      (auto simp: delete_streaming_events_before_def tbl_delete_def log_rows_def)
qed

lemma start_ok:
  assumes ok: "stream_ok id_string s" and i: "ss_procs s i = None"
  shows "stream_ok id_string (s\<lparr>ss_procs := (ss_procs s)(i \<mapsto> initialize_listener i (ss_log s))\<rparr>)" (is "stream_ok _ ?t")
proof (rule stream_ok_step [OF ok])
  have "latest_streaming_event_sequence (ss_log s) < lg_next (ss_log s)"
    using ok by (intro latest_below) (auto simp: stream_ok_def row_ok_def log_rows_def)
  then show "ss_procs s j = Some q \<or> proc_ok (published ?t) (ss_log ?t) j q" if "ss_procs ?t j = Some q" for j q
    using that by (auto simp: proc_ok_def initialize_listener_def sequences_def List.map_filter_def split: if_splits)
  show "published ?t j e" if "published s j e" for j e
    using that i by (auto simp: published_def)
qed (use ok in \<open>simp_all add: stream_ok_def\<close>)

lemma stream_step_ok:
  assumes "stream_step id_string parse_uuid s t" and parse: "\<And>i. parse_uuid (id_string i) = Some i" and "stream_ok id_string s"
  shows "stream_ok id_string t"
  using assms
proof (induction rule: stream_step.induct)
  case (deliver s i p p')
  have ok: "proc_ok (published s) (ss_log s) i p'" and sent: "set (pr_sent p) \<subseteq> set (pr_sent p')"
    using deliver_proc_ok [OF parse deliver.prems(2) deliver.hyps] by blast+
  let ?t = "s\<lparr>ss_procs := (ss_procs s)(i \<mapsto> p')\<rparr>"
  have pub: "published ?t j e" if "published s j e" for j e
    using published_update [OF deliver.hyps(1) sent that, of "ss_log s"] by simp
  have "proc_ok (published ?t) (ss_log s) i p'"
    by (rule proc_ok_mono [OF ok pub]) simp_all
  then have "ss_procs s j = Some q \<or> proc_ok (published ?t) (ss_log ?t) j q" if "ss_procs ?t j = Some q" for j q
    using that by (auto split: if_splits)
  then show ?case
    by (intro stream_ok_step [OF deliver.prems(2) pub]) (use deliver.prems(2) in \<open>simp_all add: stream_ok_def\<close>)
qed (simp_all add: start_ok publish_ok log_event_ok log_shrinks)

interpretation stream_sys: invariant_system stream_init "stream_step id_string parse_uuid"
  "\<lambda>s. (\<forall>i. parse_uuid (id_string i) = Some i) \<longrightarrow> stream_ok id_string s" for id_string parse_uuid
proof unfold_locales
  show "(\<forall>i. parse_uuid (id_string i) = Some i) \<longrightarrow> stream_ok id_string s" if "stream_init s" for s
    using that by (simp add: stream_init_def stream_ok_def log_rows_def)
qed (use stream_step_ok in blast)

subsection \<open>What a reader has seen\<close>

text \<open>A process has sent every retained row of others between \<open>c\<close> and its cursor.\<close>

definition sent_row :: "(string \<Rightarrow> uuid option) \<Rightarrow> streaming_process \<Rightarrow> streaming_event_row \<Rightarrow> bool" where
  "sent_row parse_uuid p r \<longleftrightarrow>
     (\<exists>x. retained_streaming_event parse_uuid r = Inr x \<and> (Some (sev_sequence r), from_retained x) \<in> set (pr_sent p))"

definition caught_up :: "(string \<Rightarrow> uuid option) \<Rightarrow> int \<Rightarrow> streaming_log \<Rightarrow> streaming_process \<Rightarrow> bool" where
  "caught_up parse_uuid c l p \<longleftrightarrow> c \<le> pr_sequence p \<and>
     (\<forall>r \<in> set (lg_rows l). c < sev_sequence r \<and> sev_sequence r \<le> pr_sequence p \<and> sev_origin_process_id r \<noteq> pr_id p \<longrightarrow>
        sent_row parse_uuid p r)"

text \<open>No reader is ahead of a row whose transaction has not ended.\<close>

definition no_overtaking :: "stream_state \<Rightarrow> bool" where
  "no_overtaking s \<longleftrightarrow>
     (\<forall>i p. ss_procs s i = Some p \<longrightarrow> (\<forall>r \<in> set (lg_open (ss_log s)). pr_sequence p < sev_sequence r))"

lemma sent_row_mono: "sent_row parse_uuid p r \<Longrightarrow> set (pr_sent p) \<subseteq> set (pr_sent q) \<Longrightarrow> sent_row parse_uuid q r"
  unfolding sent_row_def by blast

lemma deliver_sends:
  assumes parse: "\<And>i. parse_uuid (id_string i) = Some i" and ok: "stream_ok id_string s"
  obtains p' where "deliver_after parse_uuid (ss_log s) p = Inr p'" and "pr_id p' = pr_id p"
    and "pr_sequence p \<le> pr_sequence p'" and "set (pr_sent p) \<subseteq> set (pr_sent p')"
    and "\<And>r. r \<in> set (lg_rows (ss_log s)) \<Longrightarrow> pr_sequence p < sev_sequence r \<Longrightarrow> sev_origin_process_id r \<noteq> pr_id p \<Longrightarrow>
      sent_row parse_uuid p' r"
    and "\<And>k. k \<in> set (sequences p') \<Longrightarrow> k \<in> set (sequences p) \<or> pr_sequence p < k"
proof -
  obtain rs where d: "deliver_after parse_uuid (ss_log s) p = Inr (foldl deliver_one p rs)"
    and rs: "\<And>x. x \<in> set rs \<longleftrightarrow> (\<exists>r e. r \<in> set (unread (ss_log s) (pr_sequence p)) \<and> published s (sev_origin_process_id r) e \<and>
        retained_streaming_event parse_uuid r = Inr x \<and> x = retained_of (sev_sequence r) (sev_origin_process_id r) e)"
    by (rule deliver_after_spec [OF parse ok, of p]) (rule that)
  let ?p = "foldl deliver_one p rs"
  have newer: "pr_sequence p < rse_sequence x" if "x \<in> set rs" for x using that by (auto simp: rs)
  have "sent_row parse_uuid ?p r"
    if r: "r \<in> set (lg_rows (ss_log s))" "pr_sequence p < sev_sequence r" "sev_origin_process_id r \<noteq> pr_id p" for r
  proof -
    have "row_ok id_string (published s) (lg_next (ss_log s)) r" using ok r(1) by (simp add: stream_ok_def log_rows_def)
    then obtain now i e where e: "r = streaming_row id_string (sev_sequence r) now (to_persisted e i)" "published s i e"
      unfolding row_ok_def by blast
    then have i: "sev_origin_process_id r = i" by (metis streaming_row_simps(2))
    let ?x = "retained_of (sev_sequence r) i e"
    have x: "retained_streaming_event parse_uuid r = Inr ?x" using event_roundtrip [OF parse] e(1) by metis
    then have "?x \<in> set rs" using rs r(1,2) e(2) i by auto
    then show ?thesis using x r(3) i unfolding sent_row_def by (force simp: foldl_deliver)
  qed
  moreover have "k \<in> set (sequences p) \<or> pr_sequence p < k" if "k \<in> set (sequences ?p)" for k
    using that newer by (auto simp: foldl_deliver sequences_def List.map_filter_def)
  moreover have "pr_sequence p \<le> pr_sequence ?p" using newer by (auto simp: foldl_deliver order_less_imp_le)
  ultimately show thesis using that [OF d] by (simp add: foldl_deliver)
qed

lemma caught_up_mono:
  assumes "caught_up parse_uuid c l p" and "pr_sequence q = pr_sequence p" "pr_id q = pr_id p" "set (pr_sent p) \<subseteq> set (pr_sent q)"
    and "\<And>r. r \<in> set (lg_rows l') \<Longrightarrow> r \<in> set (lg_rows l) \<or> pr_sequence p < sev_sequence r"
  shows "caught_up parse_uuid c l' q"
  using assms sent_row_mono [OF _ assms(4)] unfolding caught_up_def by fastforce

lemma caught_up_step:
  assumes "stream_step id_string parse_uuid s t" and parse: "\<And>i. parse_uuid (id_string i) = Some i"
    and "stream_ok id_string s" and "no_overtaking s" and "ss_procs s i = Some p" and "caught_up parse_uuid c (ss_log s) p"
  shows "\<exists>q. ss_procs t i = Some q \<and> caught_up parse_uuid c (ss_log t) q"
  using assms
proof (induction rule: stream_step.induct)
  case (deliver s j q q')
  show ?case
  proof (cases "j = i")
    case True
    obtain p' where d: "deliver_after parse_uuid (ss_log s) p = Inr p'" "pr_id p' = pr_id p" "pr_sequence p \<le> pr_sequence p'"
        "set (pr_sent p) \<subseteq> set (pr_sent p')"
      and new: "\<And>r. r \<in> set (lg_rows (ss_log s)) \<Longrightarrow> pr_sequence p < sev_sequence r \<Longrightarrow> sev_origin_process_id r \<noteq> pr_id p \<Longrightarrow>
        sent_row parse_uuid p' r"
      by (rule deliver_sends [OF parse deliver.prems(2), of p]) (rule that)
    have "caught_up parse_uuid c (ss_log s) p'"
      using deliver.prems(5) d(2,3) new sent_row_mono [OF _ d(4)] unfolding caught_up_def by (metis not_le order.trans)
    then show ?thesis using True d(1) deliver.hyps deliver.prems(4) by simp
  next
    case False
    then show ?thesis using deliver.prems by simp
  qed
next
  case (commit s k)
  have "caught_up parse_uuid c (commit_streaming_event k (ss_log s)) p"
    by (rule caught_up_mono [OF commit.prems(5)])
      (use commit.prems(3,4) in \<open>auto simp: commit_streaming_event_def no_overtaking_def\<close>)
  then show ?case using commit.prems by simp
next
  case (publish s j q e)
  then show ?case by (auto simp: publish_def intro: caught_up_mono)
next
  case (log_event s j q n ns now)
  then show ?case by (auto simp: insert_streaming_event_def intro: caught_up_mono)
next
  case (rollback s k)
  then show ?case by (auto simp: rollback_streaming_event_def intro: caught_up_mono)
next
  case (cleanup s cutoff)
  then show ?case by (auto simp: delete_streaming_events_before_def tbl_delete_def intro: caught_up_mono)
qed auto

lemma passed_over_step:
  assumes "stream_step id_string parse_uuid s t" and parse: "\<And>i. parse_uuid (id_string i) = Some i"
    and "stream_ok id_string s" and "ss_procs s i = Some p" and "k \<le> pr_sequence p" and "k \<notin> set (sequences p)"
  shows "\<exists>q. ss_procs t i = Some q \<and> k \<le> pr_sequence q \<and> k \<notin> set (sequences q)"
  using assms
proof (induction rule: stream_step.induct)
  case (deliver s j q q')
  show ?case
  proof (cases "j = i")
    case True
    obtain p' where d: "deliver_after parse_uuid (ss_log s) p = Inr p'" "pr_sequence p \<le> pr_sequence p'"
      and new: "\<And>k. k \<in> set (sequences p') \<Longrightarrow> k \<in> set (sequences p) \<or> pr_sequence p < k"
      by (rule deliver_sends [OF parse deliver.prems(2), of p]) (rule that)
    then show ?thesis using True deliver.hyps deliver.prems(3-5) by fastforce
  next
    case False
    then show ?thesis using deliver.prems by simp
  qed
qed (auto simp: publish_def sequences_def List.map_filter_def)

subsection \<open>A run\<close>

text \<open>
  Processes 1, 2 and 3. Process 1 publishes and writes its event, process 2 does the same and commits
  first, and process 3 reads before process 1 commits.
\<close>

definition demo_id_string :: "uuid \<Rightarrow> string" where
  "demo_id_string i = replicate i (CHR ''x'')"

definition demo_parse :: "string \<Rightarrow> uuid option" where
  "demo_parse s = Some (length s)"

lemma demo_parse_id: "demo_parse (demo_id_string i) = Some i"
  by (simp add: demo_parse_def demo_id_string_def)

definition demo_proc :: "uuid \<Rightarrow> int \<Rightarrow> (int option \<times> streaming_event) list \<Rightarrow> new_streaming_event list \<Rightarrow> streaming_process" where
  "demo_proc i k sent queue = \<lparr> pr_id = i, pr_sequence = k, pr_sent = sent, pr_queue = queue \<rparr>"

definition demo_sevent :: "uuid \<Rightarrow> streaming_event" where
  "demo_sevent a = notifications_merged_message a"

definition demo_srow :: "int \<Rightarrow> uuid \<Rightarrow> streaming_event_row" where
  "demo_srow k i = streaming_row demo_id_string k 0 (to_persisted (demo_sevent 9) i)"

definition demo_stream ::
  "int \<Rightarrow> streaming_event_row list \<Rightarrow> streaming_event_row list \<Rightarrow> (uuid \<rightharpoonup> streaming_process) \<Rightarrow> stream_state" where
  "demo_stream n op rows procs = \<lparr> ss_log = \<lparr> lg_next = n, lg_open = op, lg_rows = rows \<rparr>, ss_procs = procs \<rparr>"

abbreviation demo_step :: "stream_state \<Rightarrow> stream_state \<Rightarrow> bool" where
  "demo_step \<equiv> stream_step demo_id_string demo_parse"

definition demo_started :: stream_state where
  "demo_started = demo_stream 1 [] [] [1 \<mapsto> demo_proc 1 0 [] [], 2 \<mapsto> demo_proc 2 0 [] [], 3 \<mapsto> demo_proc 3 0 [] []]"

definition demo_first :: stream_state where
  "demo_first = demo_stream 2 [demo_srow 1 1] []
     [1 \<mapsto> demo_proc 1 0 [(None, demo_sevent 9)] [], 2 \<mapsto> demo_proc 2 0 [] [], 3 \<mapsto> demo_proc 3 0 [] []]"

definition demo_overtaken :: stream_state where
  "demo_overtaken = demo_stream 3 [demo_srow 1 1] [demo_srow 2 2]
     [1 \<mapsto> demo_proc 1 0 [(None, demo_sevent 9)] [], 2 \<mapsto> demo_proc 2 0 [(None, demo_sevent 9)] [],
      3 \<mapsto> demo_proc 3 2 [(Some 2, demo_sevent 9)] []]"

definition demo_committed :: stream_state where
  "demo_committed = demo_overtaken\<lparr>ss_log := \<lparr> lg_next = 3, lg_open = [], lg_rows = [demo_srow 2 2, demo_srow 1 1] \<rparr>\<rparr>"

lemmas demo_stream_defs = demo_started_def demo_first_def demo_overtaken_def demo_committed_def demo_stream_def demo_proc_def

lemma demo_srow_simps [simp]: "sev_sequence (demo_srow k i) = k" "sev_origin_process_id (demo_srow k i) = i"
  by (simp_all add: demo_srow_def)

lemma demo_start_steps: "reachable stream_init demo_step demo_started"
proof -
  let ?p = "\<lambda>i. demo_proc i 0 [] []"
  have start: "reachable stream_init demo_step (demo_stream 1 [] [] (m(i \<mapsto> ?p i)))"
    if "reachable stream_init demo_step (demo_stream 1 [] [] m)" "m i = None" for m i
    using stream_step.start [of "demo_stream 1 [] [] m" i] that
    by (intro reach_step [OF that(1)])
      (simp add: demo_stream_def initialize_listener_def latest_streaming_event_sequence_def demo_proc_def)
  have "reachable stream_init demo_step (demo_stream 1 [] [] Map.empty)"
    by (rule reach_init) (simp add: stream_init_def demo_stream_def)
  from start [OF start [OF start [OF this]], of 1 2 3] show ?thesis by (simp add: demo_started_def)
qed

text \<open>A process publishes the event and writes it.\<close>

lemma demo_publish_steps:
  assumes "procs i = Some (demo_proc i 0 [] [])" and "\<And>r. r \<in> set op \<Longrightarrow> sev_origin_process_id r \<noteq> i"
  shows "demo_step\<^sup>*\<^sup>* (demo_stream n op rows procs)
    (demo_stream (n + 1) (op @ [demo_srow n i]) rows (procs(i \<mapsto> demo_proc i 0 [(None, demo_sevent 9)] [])))"
proof -
  let ?q = "publish (demo_sevent 9) (demo_proc i 0 [] [])"
  have "demo_step (demo_stream n op rows procs) (demo_stream n op rows (procs(i \<mapsto> ?q)))"
    using stream_step.publish [of "demo_stream n op rows procs" i "demo_proc i 0 [] []"] assms(1)
    by (simp add: demo_stream_def)
  moreover have "demo_step (demo_stream n op rows (procs(i \<mapsto> ?q)))
    (demo_stream (n + 1) (op @ [demo_srow n i]) rows (procs(i \<mapsto> demo_proc i 0 [(None, demo_sevent 9)] [])))"
    using stream_step.log_event [of "demo_stream n op rows (procs(i \<mapsto> ?q))" i ?q "to_persisted (demo_sevent 9) i" "[]"
        demo_id_string demo_parse 0] assms(2)
    by (simp add: demo_stream_def publish_def demo_proc_def insert_streaming_event_def demo_srow_def)
  ultimately show ?thesis by simp
qed

lemma demo_commit_step: "demo_step (demo_stream n op rows procs)
    (demo_stream n (filter (\<lambda>r. sev_sequence r \<noteq> k) op) (rows @ filter (\<lambda>r. sev_sequence r = k) op) procs)"
  using stream_step.commit [of demo_id_string demo_parse "demo_stream n op rows procs" k]
  by (simp add: demo_stream_def commit_streaming_event_def)

lemma demo_retained: "retained_streaming_event demo_parse (demo_srow k i) = Inr (retained_of k i (demo_sevent 9))"
  unfolding demo_srow_def by (rule event_roundtrip) (rule demo_parse_id)

lemma demo_read:
  "deliver_after demo_parse \<lparr> lg_next = n, lg_open = op, lg_rows = [demo_srow 2 2] \<rparr> (demo_proc 3 0 [] []) =
     Inr (demo_proc 3 2 [(Some 2, demo_sevent 9)] [])"
  "deliver_after demo_parse \<lparr> lg_next = n, lg_open = op, lg_rows = [demo_srow 2 2, demo_srow 1 1] \<rparr>
     (demo_proc 3 2 [(Some 2, demo_sevent 9)] []) = Inr (demo_proc 3 2 [(Some 2, demo_sevent 9)] [])"
  "deliver_after demo_parse \<lparr> lg_next = n, lg_open = op, lg_rows = [demo_srow 1 1] \<rparr> (demo_proc 3 0 [] []) =
     Inr (demo_proc 3 1 [(Some 1, demo_sevent 9)] [])"
  by (simp_all add: deliver_after_def streaming_events_after_def demo_retained deliver_one_def demo_proc_def Let_def)

lemma demo_first_run: "demo_step\<^sup>*\<^sup>* demo_started demo_first"
  using demo_publish_steps [of "ss_procs demo_started" 1 "[]" 1 "[]"]
  by (simp add: demo_stream_defs fun_upd_twist)

lemma demo_overtaken_run: "demo_step\<^sup>*\<^sup>* demo_first demo_overtaken"
proof -
  let ?m = "(ss_procs demo_first)(2 \<mapsto> demo_proc 2 0 [(None, demo_sevent 9)] [])"
  have first: "demo_first = demo_stream 2 [demo_srow 1 1] [] (ss_procs demo_first)" by (simp add: demo_stream_defs)
  have "demo_step\<^sup>*\<^sup>* demo_first (demo_stream 3 [demo_srow 1 1, demo_srow 2 2] [] ?m)"
    using demo_publish_steps [of "ss_procs demo_first" 2 "[demo_srow 1 1]" 2 "[]"] first by (simp add: demo_stream_defs)
  moreover have "demo_step (demo_stream 3 [demo_srow 1 1, demo_srow 2 2] [] ?m) (demo_stream 3 [demo_srow 1 1] [demo_srow 2 2] ?m)"
    using demo_commit_step [of 3 "[demo_srow 1 1, demo_srow 2 2]" "[]" ?m 2] by simp
  moreover have "demo_step (demo_stream 3 [demo_srow 1 1] [demo_srow 2 2] ?m) demo_overtaken"
    using stream_step.deliver [of "demo_stream 3 [demo_srow 1 1] [demo_srow 2 2] ?m" 3 "demo_proc 3 0 [] []" demo_parse
        "demo_proc 3 2 [(Some 2, demo_sevent 9)] []" demo_id_string] demo_read(1)
    by (simp add: demo_stream_defs fun_upd_twist)
  ultimately show ?thesis by (meson rtranclp.rtrancl_into_rtrancl)
qed

lemma reachable_run: "step\<^sup>*\<^sup>* s t \<Longrightarrow> reachable init step s \<Longrightarrow> reachable init step t"
  by (induction rule: rtranclp_induct) (auto intro: reach_step)

lemma demo_overtaken_reachable: "reachable stream_init demo_step demo_overtaken"
  by (rule reachable_run [OF demo_overtaken_run reachable_run [OF demo_first_run demo_start_steps]])

lemma demo_committed_step: "demo_step demo_overtaken demo_committed"
  using demo_commit_step [of 3 "[demo_srow 1 1]" "[demo_srow 2 2]" "ss_procs demo_overtaken" 1]
  by (simp add: demo_stream_defs)

subsection \<open>Properties\<close>

text \<open>
  C27: what is delivered was published, and at most once. In every reachable state the sequence
  numbers of what a process took from the log are strictly increasing, and each of those events
  is, field by field, one that another process published: nothing is invented, altered on its way
  through the log, delivered twice or sent back to where it came from.
\<close>

theorem delivered_events_were_published:
  assumes "\<And>i. parse_uuid (id_string i) = Some i"
    and "reachable stream_init (stream_step id_string parse_uuid) s" and "ss_procs s i = Some p"
  shows "sorted_wrt (<) (sequences p) \<and>
    (\<forall>k e. (Some k, e) \<in> set (pr_sent p) \<longrightarrow>
       (\<exists>j q. j \<noteq> i \<and> ss_procs s j = Some q \<and> (None, e) \<in> set (pr_sent q)))"
proof -
  have "proc_ok (published s) (ss_log s) i p"
    using stream_sys.reachable_inv [OF assms(2)] assms(1,3) by (simp add: stream_ok_def)
  then show ?thesis unfolding proc_ok_def published_def by metis
qed

theorem delivered_events_were_published_witness:
  "ss_procs demo_overtaken 3 = Some (demo_proc 3 2 [(Some 2, demo_sevent 9)] []) \<and>
   (\<exists>j q. j \<noteq> 3 \<and> ss_procs demo_overtaken j = Some q \<and> (None, demo_sevent 9) \<in> set (pr_sent q))"
proof -
  have p: "ss_procs demo_overtaken 3 = Some (demo_proc 3 2 [(Some 2, demo_sevent 9)] [])" by (simp add: demo_stream_defs)
  then show ?thesis
    using delivered_events_were_published [OF demo_parse_id demo_overtaken_reachable p] by (simp add: demo_proc_def)
qed

text \<open>
  C28: nothing is lost while no reader is ahead of an open transaction. If a process had cursor
  \<open>pr_sequence p\<close> and since then no process's cursor has passed a row that was still uncommitted,
  then reading the log succeeds, and after it every retained row of another process beyond
  that cursor has been sent to the subscribers, with the content of the row.
\<close>

theorem ordered_log_loses_nothing:
  assumes "\<And>i. parse_uuid (id_string i) = Some i"
    and "reachable stream_init (stream_step id_string parse_uuid) s" and "no_overtaking s" and "ss_procs s i = Some p"
    and "(\<lambda>s t. stream_step id_string parse_uuid s t \<and> no_overtaking t)\<^sup>*\<^sup>* s t"
  shows "\<exists>q q'. ss_procs t i = Some q \<and> deliver_after parse_uuid (ss_log t) q = Inr q' \<and>
    (\<forall>r \<in> set (lg_rows (ss_log t)). pr_sequence p < sev_sequence r \<and> sev_origin_process_id r \<noteq> i \<longrightarrow>
       (\<exists>x. retained_streaming_event parse_uuid r = Inr x \<and> (Some (sev_sequence r), from_retained x) \<in> set (pr_sent q')))"
proof -
  let ?c = "pr_sequence p"
  have okp: "stream_ok id_string s" using stream_sys.reachable_inv [OF assms(2)] assms(1) by blast
  have "stream_ok id_string t \<and> no_overtaking t \<and> (\<exists>q. ss_procs t i = Some q \<and> caught_up parse_uuid ?c (ss_log t) q)"
    using assms(5)
  proof (induction rule: rtranclp_induct)
    case base
    then show ?case using okp assms(3,4) by (auto simp: caught_up_def)
  next
    case (step t u)
    then show ?case
      using stream_step_ok [OF _ assms(1)] caught_up_step [OF _ assms(1)] by meson
  qed
  then obtain q where ok: "stream_ok id_string t" and q: "ss_procs t i = Some q" "caught_up parse_uuid ?c (ss_log t) q" by blast
  obtain q' where d: "deliver_after parse_uuid (ss_log t) q = Inr q'" "set (pr_sent q) \<subseteq> set (pr_sent q')"
    and new: "\<And>r. r \<in> set (lg_rows (ss_log t)) \<Longrightarrow> pr_sequence q < sev_sequence r \<Longrightarrow> sev_origin_process_id r \<noteq> pr_id q \<Longrightarrow>
      sent_row parse_uuid q' r"
    by (rule deliver_sends [OF assms(1) ok, of q]) (rule that)
  have "pr_id q = i" using ok q(1) by (simp add: stream_ok_def proc_ok_def)
  then have "sent_row parse_uuid q' r"
    if "r \<in> set (lg_rows (ss_log t))" "?c < sev_sequence r" "sev_origin_process_id r \<noteq> i" for r
    using that q(2) new sent_row_mono [OF _ d(2)] unfolding caught_up_def by (metis not_le)
  then show ?thesis using q(1) d(1) unfolding sent_row_def by blast
qed

lemma demo_in_order: "(\<lambda>s t. demo_step s t \<and> no_overtaking t)\<^sup>*\<^sup>* demo_first
    (demo_stream 2 [] [demo_srow 1 1] (ss_procs demo_first))"
proof -
  have "demo_step demo_first (demo_stream 2 [] [demo_srow 1 1] (ss_procs demo_first))"
    using demo_commit_step [of 2 "[demo_srow 1 1]" "[]" "ss_procs demo_first" 1] by (simp add: demo_stream_defs)
  then show ?thesis by (intro r_into_rtranclp) (simp add: no_overtaking_def demo_stream_def)
qed

theorem ordered_log_loses_nothing_witness:
  "\<exists>q'. deliver_after demo_parse \<lparr> lg_next = 2, lg_open = [], lg_rows = [demo_srow 1 1] \<rparr> (demo_proc 3 0 [] []) = Inr q' \<and>
     (Some 1, demo_sevent 9) \<in> set (pr_sent q')"
proof -
  have "no_overtaking demo_first" by (simp add: no_overtaking_def demo_stream_defs)
  moreover have p: "ss_procs demo_first 3 = Some (demo_proc 3 0 [] [])" by (simp add: demo_stream_defs)
  moreover have "reachable stream_init demo_step demo_first" by (rule reachable_run [OF demo_first_run demo_start_steps])
  ultimately show ?thesis
    using ordered_log_loses_nothing [OF demo_parse_id _ _ p demo_in_order]
    by (simp add: demo_retained demo_stream_def p) (simp add: demo_proc_def)
qed

text \<open>
  C29: an event that is overtaken is lost. The number of a log row is drawn when it is inserted, but
  transactions commit in any order. If a process has read past the number of a row that is not
  committed yet, then that process never delivers it, whatever happens afterwards: when the row
  commits and its notification arrives, the process asks only for rows after its cursor.
\<close>

theorem overtaken_event_is_lost:
  assumes "\<And>i. parse_uuid (id_string i) = Some i"
    and "reachable stream_init (stream_step id_string parse_uuid) s" and "ss_procs s i = Some p"
    and "r \<in> set (lg_open (ss_log s))" and "sev_sequence r \<le> pr_sequence p"
    and "(stream_step id_string parse_uuid)\<^sup>*\<^sup>* s t" and "ss_procs t i = Some q"
  shows "(Some (sev_sequence r), e) \<notin> set (pr_sent q)"
proof -
  have ok: "stream_ok id_string s" using stream_sys.reachable_inv [OF assms(2)] assms(1) by blast
  then have "proc_ok (published s) (ss_log s) i p" using assms(3) by (simp add: stream_ok_def)
  then have "sev_sequence r \<notin> set (sequences p)"
    using assms(4) proc_ok_sent by (fastforce simp: sequences_def List.map_filter_def)
  with assms(6) have "stream_ok id_string t \<and>
      (\<exists>q. ss_procs t i = Some q \<and> sev_sequence r \<le> pr_sequence q \<and> sev_sequence r \<notin> set (sequences q))"
  proof (induction rule: rtranclp_induct)
    case base
    then show ?case using ok assms(3,5) by blast
  next
    case (step t u)
    then show ?case using stream_step_ok [OF _ assms(1)] passed_over_step [OF _ assms(1)] by meson
  qed
  then show ?thesis using assms(7) by (force simp: sequences_def List.map_filter_def)
qed

theorem overtaken_event_is_lost_witness:
  "demo_srow 1 1 \<in> set (lg_rows (ss_log demo_committed)) \<and>
   deliver_after demo_parse (ss_log demo_committed) (demo_proc 3 2 [(Some 2, demo_sevent 9)] []) =
     Inr (demo_proc 3 2 [(Some 2, demo_sevent 9)] []) \<and>
   (\<forall>e. (Some 1, e) \<notin> set (pr_sent (demo_proc 3 2 [(Some 2, demo_sevent 9)] [])))"
proof -
  have p: "ss_procs demo_overtaken 3 = Some (demo_proc 3 2 [(Some 2, demo_sevent 9)] [])"
    "ss_procs demo_committed 3 = Some (demo_proc 3 2 [(Some 2, demo_sevent 9)] [])" by (simp_all add: demo_stream_defs)
  have "demo_srow 1 1 \<in> set (lg_open (ss_log demo_overtaken))" "demo_srow 1 1 \<in> set (lg_rows (ss_log demo_committed))"
    by (simp_all add: demo_stream_defs)
  then show ?thesis
    using overtaken_event_is_lost [OF demo_parse_id demo_overtaken_reachable p(1), of "demo_srow 1 1" demo_committed]
      p(2) demo_committed_step demo_read(2) [of 3 "[]"]
    by (auto simp: demo_committed_def demo_proc_def)
qed

text \<open>
  C30: streaming shows an event to its audience only. Whatever a session of any process shows, in
  any reachable state and for any set of subscribed names, is the payload of an event that some
  process published; if the event is not public, the account is its owner, one of its recipients or
  one of those notified, and the names it is shown under are subscribed personal streams. A name
  that is no stream shows nothing, not even a public event.
\<close>

theorem streamed_to_audience_only:
  assumes "\<And>i. parse_uuid (id_string i) = Some i"
    and "reachable stream_init (stream_step id_string parse_uuid) s" and "ss_procs s i = Some p"
    and "(k, e) \<in> set (pr_sent p)" and "to_socket_message e account streams = Some m"
  shows "(\<exists>j. published s j e) \<and> sm_payload m = se_payload e \<and> sm_event m = se_event e \<and>
    set (sm_stream m) \<subseteq> set streams \<and> None \<notin> channel_from_str ` set (sm_stream m) \<and>
    (se_visibility e = Public \<or>
     account \<in> insert (se_account_id e) (set (se_user_recipient_ids e) \<union> set (se_notification_recipient_ids e)) \<and>
     channel_from_str ` set (sm_stream m) \<subseteq> {Some ChUser, Some ChUserNotification, Some ChDirect})"
proof -
  have "proc_ok (published s) (ss_log s) i p"
    using stream_sys.reachable_inv [OF assms(2)] assms(1,3) by (simp add: stream_ok_def)
  then have "\<exists>j. published s j e"
    using assms(3,4) proc_ok_sent [of "published s" "ss_log s" i p _ e] unfolding published_def by (cases k) blast+
  moreover have m: "sm_payload m = se_payload e" "sm_event m = se_event e" "sm_stream m = matching_streams e account streams"
    "matching_streams e account streams \<noteq> []"
    using assms(5) by (auto simp: to_socket_message_def Let_def split: if_splits)
  moreover have shown: "\<exists>c. channel_from_str x = Some c \<and> is_visible_to_stream e account c" if "x \<in> set (sm_stream m)" for x
    using that by (auto simp: m(3) matching_streams_def split: option.splits)
  have personal: "c \<in> {ChUser, ChUserNotification, ChDirect} \<and>
      account \<in> insert (se_account_id e) (set (se_user_recipient_ids e) \<union> set (se_notification_recipient_ids e))"
    if "is_visible_to_stream e account c" "se_visibility e \<noteq> Public" for c
    using that by (cases c) auto
  obtain x where "x \<in> set (sm_stream m)" using m(3,4) by (metis list.set_intros(1) neq_Nil_conv)
  then have "se_visibility e = Public \<or>
     account \<in> insert (se_account_id e) (set (se_user_recipient_ids e) \<union> set (se_notification_recipient_ids e)) \<and>
     channel_from_str ` set (sm_stream m) \<subseteq> {Some ChUser, Some ChUserNotification, Some ChDirect}"
    using shown personal by fastforce
  moreover have "set (sm_stream m) \<subseteq> set streams" by (auto simp: m(3) matching_streams_def)
  moreover have "None \<notin> channel_from_str ` set (sm_stream m)" using shown by fastforce
  ultimately show ?thesis by blast
qed

theorem streamed_to_audience_only_witness:
  "to_socket_message (demo_sevent 9) 9 [utext ''user'', utext ''public''] =
     Some \<lparr> sm_stream = [utext ''user''], sm_event = EvNotificationsMerged, sm_payload = utext ''{}'' \<rparr> \<and>
   (9::uuid) \<in> insert (se_account_id (demo_sevent 9)) (set (se_user_recipient_ids (demo_sevent 9)) \<union>
     set (se_notification_recipient_ids (demo_sevent 9)))"
proof -
  have msg: "to_socket_message (demo_sevent 9) 9 [utext ''user'', utext ''public''] =
     Some \<lparr> sm_stream = [utext ''user''], sm_event = EvNotificationsMerged, sm_payload = utext ''{}'' \<rparr>"
    by (simp add: to_socket_message_def matching_streams_def channel_from_str_def channel_names_def utext_def
        demo_sevent_def notifications_merged_message_def private_event_def)
  have p: "ss_procs demo_overtaken 3 = Some (demo_proc 3 2 [(Some 2, demo_sevent 9)] [])" by (simp add: demo_stream_defs)
  have "(Some 2, demo_sevent 9) \<in> set (pr_sent (demo_proc 3 2 [(Some 2, demo_sevent 9)] []))" by (simp add: demo_proc_def)
  from streamed_to_audience_only [OF demo_parse_id demo_overtaken_reachable p this msg] msg
  show ?thesis by (simp add: demo_sevent_def notifications_merged_message_def private_event_def)
qed

end
