(* ===== verification/Roosty_Reports.thy ===== *)
theory Roosty_Reports
  imports Roosty_Interactions
begin

text \<open>
  Instance rules and moderation reports (\<^verbatim>\<open>src/crates/db/src/reports.rs\<close>), the audit log of
  administrators (\<^verbatim>\<open>src/crates/db/src/lib.rs\<close>, lines 21075-21212) and the endpoints of
  \<^verbatim>\<open>src/crates/server/src/reports.rs\<close> with the authorization of
  \<^verbatim>\<open>src/crates/server/src/admin.rs\<close>.

  The tables of this component stand beside the database of the others in \<open>moderation\<close>. Rule
  mutations lock the table of rules, so that they are not interleaved.
\<close>

subsection \<open>Rows\<close>

datatype report_category = CatSpam | CatLegal | CatViolation | CatOther

datatype report_account = ReportLocal uuid | ReportRemote uuid

datatype report_status = EvidenceLocal uuid | EvidenceRemote uuid

record instance_rule_row =
  ir_id :: uuid
  ir_text :: ustring
  ir_position :: int
  ir_created_at :: instant
  ir_updated_at :: instant
  ir_discarded_at :: "instant option"

record moderation_report_row =
  mo_id :: uuid
  mo_source_local_account_id :: "uuid option"
  mo_source_remote_actor_id :: "uuid option"
  mo_target_local_account_id :: "uuid option"
  mo_target_remote_actor_id :: "uuid option"
  mo_category :: report_category
  mo_comment :: ustring
  mo_forwarded :: bool
  mo_activitypub_id :: "string option"
  mo_assigned_account_id :: "uuid option"
  mo_action_taken_by_account_id :: "uuid option"
  mo_action_taken_at :: "instant option"
  mo_created_at :: instant
  mo_updated_at :: instant

record moderation_report_status_row =
  mrs_report_id :: uuid
  mrs_position :: int
  mrs_local_status_id :: "uuid option"
  mrs_remote_status_id :: "uuid option"

record moderation_report_rule_row =
  mrr_report_id :: uuid
  mrr_position :: int
  mrr_rule_id :: "uuid option"
  mrr_rule_text :: ustring

datatype admin_audit_source = AuditWeb | AuditApi | AuditCli

datatype admin_audit_action =
    AccountCreate | AccountResetPassword | AccountLimit | AccountUnlimit | AccountSuspend | AccountUnsuspend | AccountPurge
  | DomainBlockCreate | DomainBlockUpdate | DomainBlockDelete
  | InstanceRuleCreate | InstanceRuleUpdate | InstanceRuleDelete | InstanceRuleReorder
  | ReportUpdate | ReportAssign | ReportUnassign | ReportResolve | ReportReopen

datatype admin_audit_target_kind = TargetLocalAccount | TargetRemoteActor | TargetFederationDomain | TargetInstanceRule | TargetReport

record admin_audit_log_row =
  aal_id :: uuid
  aal_actor_account_id :: "uuid option"
  aal_source :: admin_audit_source
  aal_action :: admin_audit_action
  aal_target_kind :: admin_audit_target_kind
  aal_target_id :: string
  aal_metadata :: json
  aal_created_at :: instant

record moderation =
  m_db :: db
  t_instance_rule :: "instance_rule_row list"
  t_moderation_report :: "moderation_report_row list"
  t_report_status :: "moderation_report_status_row list"
  t_report_rule :: "moderation_report_rule_row list"
  t_admin_audit_log :: "admin_audit_log_row list"

definition ir_active :: "instance_rule_row \<Rightarrow> bool" where
  "ir_active r \<longleftrightarrow> ir_discarded_at r = None"

definition ir_conflict :: "instance_rule_row \<Rightarrow> instance_rule_row \<Rightarrow> bool" where
  "ir_conflict a b \<longleftrightarrow> ir_id a = ir_id b \<or> ir_active a \<and> ir_active b \<and> ir_position a = ir_position b"

definition ir_check :: "instance_rule_row \<Rightarrow> bool" where
  "ir_check r \<longleftrightarrow> ir_text r \<noteq> [] \<and> length (ir_text r) \<le> 300 \<and> 0 \<le> ir_position r"

definition mo_conflict :: "moderation_report_row \<Rightarrow> moderation_report_row \<Rightarrow> bool" where
  "mo_conflict a b \<longleftrightarrow> mo_id a = mo_id b \<or> sql_eq (mo_activitypub_id a) (mo_activitypub_id b)"

definition mrs_conflict :: "moderation_report_status_row \<Rightarrow> moderation_report_status_row \<Rightarrow> bool" where
  "mrs_conflict a b \<longleftrightarrow> mrs_report_id a = mrs_report_id b \<and>
     (mrs_position a = mrs_position b \<or> sql_eq (mrs_local_status_id a) (mrs_local_status_id b) \<or>
      sql_eq (mrs_remote_status_id a) (mrs_remote_status_id b))"

definition mrr_conflict :: "moderation_report_rule_row \<Rightarrow> moderation_report_rule_row \<Rightarrow> bool" where
  "mrr_conflict a b \<longleftrightarrow> mrr_report_id a = mrr_report_id b \<and>
     (mrr_position a = mrr_position b \<or> sql_eq (mrr_rule_id a) (mrr_rule_id b))"

definition aal_conflict :: "admin_audit_log_row \<Rightarrow> admin_audit_log_row \<Rightarrow> bool" where
  "aal_conflict a b \<longleftrightarrow> aal_id a = aal_id b"

interpretation instance_rule: unique_table ir_conflict
  by unfold_locales (auto simp: ir_conflict_def)

interpretation moderation_report: keyed_table mo_conflict mo_id
  by unfold_locales (auto simp: mo_conflict_def sql_eq_sym)

interpretation report_status: unique_table mrs_conflict
  by unfold_locales (auto simp: mrs_conflict_def sql_eq_sym)

interpretation report_rule: unique_table mrr_conflict
  by unfold_locales (auto simp: mrr_conflict_def sql_eq_sym)

interpretation admin_audit_log: keyed_table aal_conflict aal_id
  by unfold_locales (simp_all add: aal_conflict_def)

subsection \<open>Instance rules\<close>

definition sat_add_i32 :: "int \<Rightarrow> int \<Rightarrow> int" where
  "sat_add_i32 a b = max (- i32_max - 1) (min i32_max (a + b))"

definition validate_rule_text :: "ustring \<Rightarrow> unit result" where
  "validate_rule_text text =
     (let length = length (trim text)
      in if length = 0 \<or> length > 300
         then Inl (InvalidInput ''instance rule text must contain between 1 and 300 characters'')
         else Inr ())"

definition list_instance_rules :: "moderation \<Rightarrow> instance_rule_row list" where
  "list_instance_rules m = tbl_order ir_position (filter ir_active (t_instance_rule m))"

definition next_position :: "moderation \<Rightarrow> int" where
  "next_position m =
     (case sort_key (\<lambda>r. - ir_position r) (filter ir_active (t_instance_rule m)) of
        [] \<Rightarrow> 0
      | r # _ \<Rightarrow> sat_add_i32 (ir_position r) 1)"

definition create_instance_rule ::
  "uuid \<Rightarrow> instant \<Rightarrow> ustring \<Rightarrow> moderation \<Rightarrow> (moderation \<times> instance_rule_row) result" where
  "create_instance_rule new_id pg_now text m =
     bind_res (validate_rule_text text) (\<lambda>_.
       let r = \<lparr> ir_id = new_id, ir_text = trim text, ir_position = next_position m, ir_created_at = pg_now,
                 ir_updated_at = pg_now, ir_discarded_at = None \<rparr>
       in if \<not> ir_check r then Inl (Database CheckViolation)
          else bind_res (db_result (tbl_insert ir_conflict r (t_instance_rule m))) (\<lambda>t.
                 Inr (m\<lparr>t_instance_rule := t\<rparr>, r)))"

definition find_active_rule :: "moderation \<Rightarrow> uuid \<Rightarrow> instance_rule_row option" where
  "find_active_rule m i = List.find (\<lambda>r. ir_id r = i \<and> ir_active r) (t_instance_rule m)"

definition change_rule ::
  "(instance_rule_row \<Rightarrow> instance_rule_row) \<Rightarrow> uuid \<Rightarrow> moderation \<Rightarrow> moderation \<times> instance_rule_row option" where
  "change_rule f i m =
     (case find_active_rule m i of
        None \<Rightarrow> (m, None)
      | Some r \<Rightarrow> (m\<lparr>t_instance_rule := tbl_update (\<lambda>x. ir_id x = i) f (t_instance_rule m)\<rparr>, Some (f r)))"

definition update_instance_rule ::
  "instant \<Rightarrow> uuid \<Rightarrow> ustring \<Rightarrow> moderation \<Rightarrow> (moderation \<times> instance_rule_row option) result" where
  "update_instance_rule now i text m =
     bind_res (validate_rule_text text) (\<lambda>_.
       Inr (change_rule (\<lambda>r. r\<lparr>ir_text := trim text, ir_updated_at := now\<rparr>) i m))"

definition discard_instance_rule :: "instant \<Rightarrow> uuid \<Rightarrow> moderation \<Rightarrow> moderation \<times> instance_rule_row option" where
  "discard_instance_rule now i m = change_rule (\<lambda>r. r\<lparr>ir_discarded_at := Some now, ir_updated_at := now\<rparr>) i m"

text \<open>One step of the loops of \<open>reorder_instance_rules\<close>, and a loop with the index of its step.\<close>

definition place_rule ::
  "(instance_rule_row \<Rightarrow> instance_rule_row) \<Rightarrow> int \<Rightarrow> uuid \<Rightarrow> instance_rule_row list \<Rightarrow> instance_rule_row list result" where
  "place_rule touch position i t =
     (if \<not> list_ex (\<lambda>r. ir_id r = i) t then Inl (InvalidInput ''instance rule was not found'')
      else if position < 0 then Inl (Database CheckViolation)
      else db_result (tbl_update_checked ir_conflict (\<lambda>r. ir_id r = i) (\<lambda>r. touch (r\<lparr>ir_position := position\<rparr>)) t))"

fun place_rules ::
  "(nat \<Rightarrow> instance_rule_row \<Rightarrow> instance_rule_row) \<Rightarrow> (nat \<Rightarrow> int) \<Rightarrow> nat \<Rightarrow> uuid list \<Rightarrow> instance_rule_row list \<Rightarrow>
     instance_rule_row list result" where
  "place_rules touch position n [] t = Inr t"
| "place_rules touch position n (i # is) t =
     bind_res (place_rule (touch n) (position n) i t) (\<lambda>t. place_rules touch position (Suc n) is t)"

definition reorder_instance_rules ::
  "(nat \<Rightarrow> instant) \<Rightarrow> uuid list \<Rightarrow> moderation \<Rightarrow> (moderation \<times> instance_rule_row list) result" where
  "reorder_instance_rules now ordered_ids m =
     (let expected = sort (map ir_id (list_instance_rules m)); supplied = sort ordered_ids
      in if expected \<noteq> supplied
         then Inl (InvalidInput ''rule order must contain every active rule exactly once'')
         else
           bind_res (place_rules (\<lambda>_ r. r) (\<lambda>n. sat_add_i32 1000000 (u32_as_i32 n)) 0 ordered_ids (t_instance_rule m)) (\<lambda>t.
           bind_res (place_rules (\<lambda>n r. r\<lparr>ir_updated_at := now n\<rparr>) u32_as_i32 0 ordered_ids t) (\<lambda>t.
             let m = m\<lparr>t_instance_rule := t\<rparr>
             in Inr (m, list_instance_rules m))))"

subsection \<open>Reports\<close>

record report_rule =
  rr_id :: "uuid option"
  rr_text :: ustring

record moderation_report =
  mr_id :: uuid
  mr_source :: report_account
  mr_target :: report_account
  mr_category :: report_category
  mr_comment :: ustring
  mr_forwarded :: bool
  mr_activitypub_id :: "string option"
  mr_assigned_account_id :: "uuid option"
  mr_action_taken_by_account_id :: "uuid option"
  mr_action_taken_at :: "instant option"
  mr_statuses :: "report_status list"
  mr_rules :: "report_rule list"
  mr_created_at :: instant
  mr_updated_at :: instant

record new_moderation_report =
  nmr_source :: report_account
  nmr_target :: report_account
  nmr_category :: report_category
  nmr_comment :: ustring
  nmr_forwarded :: bool
  nmr_activitypub_id :: "string option"
  nmr_statuses :: "report_status list"
  nmr_rule_ids :: "uuid list"

record report_list_options =
  rlo_resolved :: "bool option"
  rlo_source_account_id :: "uuid option"
  rlo_target_account_id :: "uuid option"
  rlo_max_id :: "uuid option"
  rlo_since_id :: "uuid option"
  rlo_min_id :: "uuid option"
  rlo_limit :: nat

fun report_account_columns :: "report_account \<Rightarrow> uuid option \<times> uuid option" where
  "report_account_columns (ReportLocal i) = (Some i, None)"
| "report_account_columns (ReportRemote i) = (None, Some i)"

fun report_account_of :: "uuid option \<Rightarrow> uuid option \<Rightarrow> report_account result" where
  "report_account_of (Some i) None = Inr (ReportLocal i)"
| "report_account_of None (Some i) = Inr (ReportRemote i)"
| "report_account_of _ _ = Inl (InvalidInput ''report account reference is inconsistent'')"

fun report_status_columns :: "report_status \<Rightarrow> uuid option \<times> uuid option" where
  "report_status_columns (EvidenceLocal i) = (Some i, None)"
| "report_status_columns (EvidenceRemote i) = (None, Some i)"

definition active_rule_snapshots :: "moderation \<Rightarrow> uuid list \<Rightarrow> (uuid option \<times> ustring) list result" where
  "active_rule_snapshots m ids =
     map_res (\<lambda>i. case find_active_rule m i of
                     None \<Rightarrow> Inl (InvalidInput ''instance rule was not found'')
                   | Some r \<Rightarrow> Inr (Some i, ir_text r)) ids"

fun insert_report_statuses ::
  "db \<Rightarrow> uuid \<Rightarrow> nat \<Rightarrow> report_status list \<Rightarrow> moderation_report_status_row list \<Rightarrow> moderation_report_status_row list result" where
  "insert_report_statuses d report n [] t = Inr t"
| "insert_report_statuses d report n (s # ss) t =
     (let (local, remote) = report_status_columns s
      in bind_res (with_fk (fk_opt (fk_local_status d) local \<and> fk_opt (fk_remote_status d) remote)
             (tbl_insert mrs_conflict \<lparr> mrs_report_id = report, mrs_position = u32_as_i32 n, mrs_local_status_id = local,
                mrs_remote_status_id = remote \<rparr> t)) (\<lambda>t.
           insert_report_statuses d report (Suc n) ss t))"

text \<open>\<open>replace_report_rule_snapshots\<close> inserts; its callers delete what was there.\<close>

fun insert_rule_snapshots ::
  "instance_rule_row list \<Rightarrow> uuid \<Rightarrow> nat \<Rightarrow> (uuid option \<times> ustring) list \<Rightarrow> moderation_report_rule_row list \<Rightarrow>
     moderation_report_rule_row list result" where
  "insert_rule_snapshots rules report n [] t = Inr t"
| "insert_rule_snapshots rules report n ((i, text) # rs) t =
     bind_res (with_fk (fk_opt (\<lambda>i. list_ex (\<lambda>r. ir_id r = i) rules) i)
         (tbl_insert mrr_conflict \<lparr> mrr_report_id = report, mrr_position = u32_as_i32 n, mrr_rule_id = i, mrr_rule_text = text \<rparr> t))
       (\<lambda>t. insert_rule_snapshots rules report (Suc n) rs t)"

definition status_reference :: "moderation_report_status_row \<Rightarrow> report_status option" where
  "status_reference r =
     (case mrs_local_status_id r of
        Some i \<Rightarrow> Some (EvidenceLocal i)
      | None \<Rightarrow> map_option EvidenceRemote (mrs_remote_status_id r))"

definition hydrate_report :: "moderation \<Rightarrow> moderation_report_row \<Rightarrow> moderation_report result" where
  "hydrate_report m r =
     bind_res (report_account_of (mo_source_local_account_id r) (mo_source_remote_actor_id r)) (\<lambda>source.
     bind_res (report_account_of (mo_target_local_account_id r) (mo_target_remote_actor_id r)) (\<lambda>target.
       Inr \<lparr> mr_id = mo_id r, mr_source = source, mr_target = target, mr_category = mo_category r, mr_comment = mo_comment r,
             mr_forwarded = mo_forwarded r, mr_activitypub_id = mo_activitypub_id r,
             mr_assigned_account_id = mo_assigned_account_id r,
             mr_action_taken_by_account_id = mo_action_taken_by_account_id r, mr_action_taken_at = mo_action_taken_at r,
             mr_statuses = List.map_filter status_reference
               (filter (\<lambda>x. mrs_report_id x = mo_id r) (tbl_order mrs_position (t_report_status m))),
             mr_rules = map (\<lambda>x. \<lparr> rr_id = mrr_rule_id x, rr_text = mrr_rule_text x \<rparr>)
               (filter (\<lambda>x. mrr_report_id x = mo_id r) (tbl_order mrr_position (t_report_rule m))),
             mr_created_at = mo_created_at r, mr_updated_at = mo_updated_at r \<rparr>))"

definition hydrate_reports :: "moderation \<Rightarrow> moderation_report_row list \<Rightarrow> moderation_report list result" where
  "hydrate_reports m rows = map_res (hydrate_report m) rows"

definition find_moderation_report :: "moderation \<Rightarrow> uuid \<Rightarrow> moderation_report option result" where
  "find_moderation_report m i =
     (case List.find (\<lambda>r. mo_id r = i) (t_moderation_report m) of
        None \<Rightarrow> Inr None
      | Some r \<Rightarrow> bind_res (hydrate_reports m [r]) (\<lambda>rs. Inr (if rs = [] then None else Some (last rs))))"

definition new_report_row :: "uuid \<Rightarrow> instant \<Rightarrow> new_moderation_report \<Rightarrow> moderation_report_row" where
  "new_report_row new_id pg_now input =
     (let (source_local, source_remote) = report_account_columns (nmr_source input);
          (target_local, target_remote) = report_account_columns (nmr_target input)
      in \<lparr> mo_id = new_id, mo_source_local_account_id = source_local, mo_source_remote_actor_id = source_remote,
           mo_target_local_account_id = target_local, mo_target_remote_actor_id = target_remote,
           mo_category = nmr_category input, mo_comment = nmr_comment input, mo_forwarded = nmr_forwarded input,
           mo_activitypub_id = nmr_activitypub_id input, mo_assigned_account_id = None,
           mo_action_taken_by_account_id = None, mo_action_taken_at = None, mo_created_at = pg_now, mo_updated_at = pg_now \<rparr>)"

definition mo_fk :: "db \<Rightarrow> moderation_report_row \<Rightarrow> bool" where
  "mo_fk d r \<longleftrightarrow> fk_opt (fk_local d) (mo_source_local_account_id r) \<and> fk_opt (fk_remote d) (mo_source_remote_actor_id r) \<and>
     fk_opt (fk_local d) (mo_target_local_account_id r) \<and> fk_opt (fk_remote d) (mo_target_remote_actor_id r) \<and>
     fk_opt (fk_local d) (mo_assigned_account_id r) \<and> fk_opt (fk_local d) (mo_action_taken_by_account_id r)"

definition violation_without_rule :: "report_category \<Rightarrow> 'a list \<Rightarrow> unit result" where
  "violation_without_rule category rules =
     (if category = CatViolation \<and> rules = []
      then Inl (InvalidInput ''violation reports require at least one instance rule'') else Inr ())"

definition create_moderation_report ::
  "uuid \<Rightarrow> instant \<Rightarrow> new_moderation_report \<Rightarrow> moderation \<Rightarrow> (moderation \<times> moderation_report) result" where
  "create_moderation_report new_id pg_now input m =
     (if length (nmr_comment input) > 1000
      then Inl (InvalidInput ''report comment must not exceed 1000 characters'')
      else
        bind_res (active_rule_snapshots m (nmr_rule_ids input)) (\<lambda>rules.
        bind_res (violation_without_rule (nmr_category input) rules) (\<lambda>_.
        bind_res (with_fk (mo_fk (m_db m) (new_report_row new_id pg_now input))
            (tbl_insert mo_conflict (new_report_row new_id pg_now input) (t_moderation_report m))) (\<lambda>reports.
        bind_res (insert_report_statuses (m_db m) new_id 0 (nmr_statuses input) (t_report_status m)) (\<lambda>statuses.
        bind_res (insert_rule_snapshots (t_instance_rule m) new_id 0 rules (t_report_rule m)) (\<lambda>snapshots.
          let m = m\<lparr>t_moderation_report := reports, t_report_status := statuses, t_report_rule := snapshots\<rparr>
          in bind_res (find_moderation_report m new_id) (\<lambda>found.
               case found of
                 None \<Rightarrow> Inl (InvalidInput ''created report was not found'')
               | Some r \<Rightarrow> Inr (m, r))))))))"

definition report_matches :: "report_list_options \<Rightarrow> moderation_report_row \<Rightarrow> bool" where
  "report_matches o' r \<longleftrightarrow>
     (case rlo_resolved o' of None \<Rightarrow> True | Some resolved \<Rightarrow> resolved = (mo_action_taken_at r \<noteq> None)) \<and>
     (case rlo_source_account_id o' of None \<Rightarrow> True
        | Some i \<Rightarrow> mo_source_local_account_id r = Some i \<or> mo_source_remote_actor_id r = Some i) \<and>
     (case rlo_target_account_id o' of None \<Rightarrow> True
        | Some i \<Rightarrow> mo_target_local_account_id r = Some i \<or> mo_target_remote_actor_id r = Some i) \<and>
     (case rlo_max_id o' of None \<Rightarrow> True | Some i \<Rightarrow> mo_id r < i) \<and>
     (case rlo_since_id o' of None \<Rightarrow> True | Some i \<Rightarrow> i < mo_id r) \<and>
     (case rlo_min_id o' of None \<Rightarrow> True | Some i \<Rightarrow> i < mo_id r)"

definition clamp :: "nat \<Rightarrow> nat \<Rightarrow> nat \<Rightarrow> nat" where
  "clamp lo hi n = (if n < lo then lo else if n > hi then hi else n)"

definition list_moderation_reports :: "moderation \<Rightarrow> report_list_options \<Rightarrow> moderation_report list result" where
  "list_moderation_reports m o' =
     hydrate_reports m (take (clamp 1 200 (rlo_limit o'))
       (order_by_desc mo_id (filter (report_matches o') (t_moderation_report m))))"

definition change_report ::
  "(moderation_report_row \<Rightarrow> moderation_report_row) \<Rightarrow> uuid \<Rightarrow> moderation \<Rightarrow> moderation" where
  "change_report f i m = m\<lparr>t_moderation_report := tbl_update (\<lambda>r. mo_id r = i) f (t_moderation_report m)\<rparr>"

definition stored_report :: "moderation \<Rightarrow> uuid \<Rightarrow> moderation_report_row option" where
  "stored_report m i = List.find (\<lambda>r. mo_id r = i) (t_moderation_report m)"

definition update_moderation_report ::
  "instant \<Rightarrow> uuid \<Rightarrow> report_category \<Rightarrow> uuid list \<Rightarrow> moderation \<Rightarrow> (moderation \<times> moderation_report option) result" where
  "update_moderation_report now i category rule_ids m =
     (case stored_report m i of
        None \<Rightarrow> Inr (m, None)
      | Some r \<Rightarrow>
          bind_res (active_rule_snapshots m rule_ids) (\<lambda>rules.
          bind_res (violation_without_rule category rules) (\<lambda>_.
            let m = change_report (\<lambda>r. r\<lparr>mo_category := category, mo_updated_at := now\<rparr>) i m
            in bind_res (insert_rule_snapshots (t_instance_rule m) i 0 rules
                   (tbl_delete (\<lambda>x. mrr_report_id x = i) (t_report_rule m))) (\<lambda>snapshots.
                 let m = m\<lparr>t_report_rule := snapshots\<rparr>
                 in bind_res (find_moderation_report m i) (\<lambda>found. Inr (m, found))))))"

definition assign_moderation_report ::
  "instant \<Rightarrow> uuid \<Rightarrow> uuid option \<Rightarrow> moderation \<Rightarrow> (moderation \<times> moderation_report option) result" where
  "assign_moderation_report now i assignee m =
     (case stored_report m i of
        None \<Rightarrow> Inr (m, None)
      | Some r \<Rightarrow>
          if \<not> fk_opt (fk_local (m_db m)) assignee then Inl (Database ForeignKeyViolation)
          else
            let m = change_report (\<lambda>r. r\<lparr>mo_assigned_account_id := assignee, mo_updated_at := now\<rparr>) i m
            in bind_res (find_moderation_report m i) (\<lambda>found. Inr (m, found)))"

definition set_moderation_report_resolved ::
  "instant \<Rightarrow> uuid \<Rightarrow> uuid option \<Rightarrow> moderation \<Rightarrow> (moderation \<times> moderation_report option) result" where
  "set_moderation_report_resolved now i actor m =
     (case stored_report m i of
        None \<Rightarrow> Inr (m, None)
      | Some r \<Rightarrow>
          if \<not> fk_opt (fk_local (m_db m)) actor then Inl (Database ForeignKeyViolation)
          else
            let m = change_report (\<lambda>r. r\<lparr>mo_action_taken_by_account_id := actor,
                  mo_action_taken_at := map_option (\<lambda>_. now) actor, mo_updated_at := now\<rparr>) i m
            in bind_res (find_moderation_report m i) (\<lambda>found. Inr (m, found)))"

subsection \<open>The audit log and administrators\<close>

definition insert_admin_audit_entry ::
  "uuid \<Rightarrow> instant \<Rightarrow> uuid option \<Rightarrow> admin_audit_source \<Rightarrow> admin_audit_action \<Rightarrow> admin_audit_target_kind \<Rightarrow> string \<Rightarrow>
     json \<Rightarrow> moderation \<Rightarrow> moderation result" where
  "insert_admin_audit_entry new_id pg_now actor source action target_kind target_id metadata m =
     bind_res (with_fk (fk_opt (fk_local (m_db m)) actor)
         (tbl_insert aal_conflict
            \<lparr> aal_id = new_id, aal_actor_account_id = actor, aal_source = source, aal_action = action,
              aal_target_kind = target_kind, aal_target_id = target_id, aal_metadata = metadata, aal_created_at = pg_now \<rparr>
            (t_admin_audit_log m))) (\<lambda>t. Inr (m\<lparr>t_admin_audit_log := t\<rparr>))"

definition list_admin_audit_entries :: "moderation \<Rightarrow> nat \<Rightarrow> uuid option \<Rightarrow> admin_audit_log_row list" where
  "list_admin_audit_entries m limit max_id =
     take (min limit 100) (order_by_desc aal_id
       (filter (\<lambda>r. case max_id of None \<Rightarrow> True | Some i \<Rightarrow> aal_id r < i) (t_admin_audit_log m)))"

record admin_account =
  ada_id :: uuid
  ada_username :: ustring
  ada_domain :: "string option"
  ada_is_admin :: bool
  ada_limited :: bool
  ada_suspended :: bool
  ada_data_purged_at :: "instant option"

text \<open>The account as administrators see it, less its mail address, its display name and its date.\<close>

definition find_admin_account_by_id :: "db \<Rightarrow> uuid \<Rightarrow> admin_account option" where
  "find_admin_account_by_id d i =
     (case find_local_account_by_id d i of
        Some a \<Rightarrow> Some \<lparr> ada_id = la_id a, ada_username = la_username a, ada_domain = None, ada_is_admin = la_is_admin a, ada_limited = (la_limited_at a \<noteq> None),
                         ada_suspended = (la_suspended_at a \<noteq> None), ada_data_purged_at = la_data_purged_at a \<rparr>
      | None \<Rightarrow>
          (case find_remote_actor_by_id d i of
             None \<Rightarrow> None
           | Some a \<Rightarrow>
               if ra_deleted_at a = None
               then Some \<lparr> ada_id = ra_id a, ada_username = utext (ra_username a), ada_domain = Some (ra_domain a), ada_is_admin = False, ada_limited = (ra_limited_at a \<noteq> None),
                           ada_suspended = (ra_suspended_at a \<noteq> None), ada_data_purged_at = ra_data_purged_at a \<rparr>
               else None))"

text \<open>\<open>split_ascii_whitespace\<close>: the words between blanks, tabs, line feeds, form feeds and carriage returns.\<close>

definition is_ascii_whitespace :: "nat \<Rightarrow> bool" where
  "is_ascii_whitespace c \<longleftrightarrow> c \<in> {9, 10, 12, 13, 32}"

fun ascii_pieces :: "ustring \<Rightarrow> ustring \<Rightarrow> ustring list" where
  "ascii_pieces acc [] = [rev acc]"
| "ascii_pieces acc (c # s) = (if is_ascii_whitespace c then rev acc # ascii_pieces [] s else ascii_pieces (c # acc) s)"

definition split_ascii_whitespace :: "ustring \<Rightarrow> ustring list" where
  "split_ascii_whitespace s = filter (\<lambda>w. w \<noteq> []) (ascii_pieces [] s)"

datatype admin_permission =
    ReadAll | ReadAccounts | ReadDomainBlocks | ReadReports | WriteAccounts | WriteDomainBlocks | WriteReports

definition allows_scope :: "admin_permission \<Rightarrow> ustring \<Rightarrow> bool" where
  "allows_scope permission scope \<longleftrightarrow> scope \<in> set (map utext
     (case permission of
        ReadAll \<Rightarrow> [''admin:read'']
      | ReadAccounts \<Rightarrow> [''admin:read'', ''admin:read:accounts'']
      | ReadDomainBlocks \<Rightarrow> [''admin:read'', ''admin:read:domain_blocks'']
      | ReadReports \<Rightarrow> [''admin:read'', ''admin:read:reports'']
      | WriteAccounts \<Rightarrow> [''admin:write'', ''admin:write:accounts'']
      | WriteDomainBlocks \<Rightarrow> [''admin:write'', ''admin:write:domain_blocks'']
      | WriteReports \<Rightarrow> [''admin:write'', ''admin:write:reports'']))"

datatype report_api_error =
    ReportForbidden string
  | ReportInvalid string
  | ReportNotFound
  | ReportInternal roosty_error

definition require_admin :: "access_token_grant \<Rightarrow> admin_permission \<Rightarrow> report_api_error + uuid" where
  "require_admin token permission =
     (if \<not> la_is_admin (atg_account token) then Inl (ReportForbidden ''This action is not allowed'')
      else if \<not> list_ex (allows_scope permission) (split_ascii_whitespace (atg_scopes token))
      then Inl (ReportForbidden ''This action requires an administrator OAuth scope'')
      else Inr (la_id (atg_account token)))"

definition report_admin :: "access_token_grant \<Rightarrow> bool \<Rightarrow> report_api_error + uuid" where
  "report_admin token writes = require_admin token (if writes then WriteReports else ReadReports)"

text \<open>\<open>From<RoostyError>\<close> of the error of these endpoints, and the question mark operator.\<close>

definition report_err :: "'a result \<Rightarrow> report_api_error + 'a" where
  "report_err r =
     (case r of
        Inl (InvalidInput reason) \<Rightarrow> Inl (ReportInvalid reason)
      | Inl e \<Rightarrow> Inl (ReportInternal e)
      | Inr x \<Rightarrow> Inr x)"

definition bind_report :: "report_api_error + 'a \<Rightarrow> ('a \<Rightarrow> report_api_error + 'b) \<Rightarrow> report_api_error + 'b" where
  "bind_report x f = (case x of Inl e \<Rightarrow> Inl e | Inr a \<Rightarrow> f a)"

definition or_report_not_found :: "'a option \<Rightarrow> report_api_error + 'a" where
  "or_report_not_found x = (case x of None \<Rightarrow> Inl ReportNotFound | Some a \<Rightarrow> Inr a)"

text \<open>What one request draws and reads: identifiers, clocks, and texts as JSON strings.\<close>

record report_draws =
  rd_report_id :: uuid
  rd_rule_id :: uuid
  rd_audit_id :: uuid
  rd_note :: "uuid \<Rightarrow> note_draws"
  rd_now :: instant
  rd_nows :: "nat \<Rightarrow> instant"
  rd_pg_now :: instant
  rd_id_string :: "uuid \<Rightarrow> string"
  rd_text_json :: "ustring \<Rightarrow> json"

subsection \<open>Filing a report\<close>

record create_report_form =
  crf_account_id :: uuid
  crf_status_ids :: "uuid list"
  crf_collection_ids :: "uuid list"
  crf_comment :: ustring
  crf_forward :: bool
  crf_category :: "string option"
  crf_rule_ids :: "uuid list"

definition has_scope :: "access_token_grant \<Rightarrow> string \<Rightarrow> string \<Rightarrow> bool" where
  "has_scope token broad specific \<longleftrightarrow>
     list_ex (\<lambda>s. s = utext broad \<or> s = utext specific) (split_ascii_whitespace (atg_scopes token))"

definition category_names :: "(string \<times> report_category) list" where
  "category_names = [(''spam'', CatSpam), (''legal'', CatLegal), (''violation'', CatViolation), (''other'', CatOther)]"

definition report_category_of :: "string option \<Rightarrow> bool \<Rightarrow> report_api_error + report_category" where
  "report_category_of value has_rules =
     (if has_rules then Inr CatViolation
      else case value of
             None \<Rightarrow> Inr CatOther
           | Some name \<Rightarrow>
               (case map_of category_names name of
                  Some c \<Rightarrow> Inr c
                | None \<Rightarrow> Inl (ReportInvalid ''category must be spam, legal, violation, or other'')))"

definition report_target :: "db \<Rightarrow> uuid \<Rightarrow> report_account option" where
  "report_target d i =
     (if find_local_account_by_id d i \<noteq> None then Some (ReportLocal i)
      else map_option (\<lambda>_. ReportRemote i) (find_remote_actor_by_id d i))"

definition report_evidence :: "db \<Rightarrow> uuid \<Rightarrow> report_account \<Rightarrow> uuid \<Rightarrow> report_status result" where
  "report_evidence d reporter target i =
     (case target of
        ReportLocal t \<Rightarrow>
          bind_res (find_or ''status was not found'' (find_local_status_by_id d i)) (\<lambda>s.
            if ls_account_id s \<noteq> t \<or> \<not> status_visible_to_viewer d s (Some reporter)
            then Inl (InvalidInput ''status does not belong to the reported account'') else Inr (EvidenceLocal i))
      | ReportRemote t \<Rightarrow>
          bind_res (find_or ''status was not found'' (find_remote_status_by_id d i)) (\<lambda>s.
            if rs_remote_actor_id s \<noteq> t \<or> \<not> remote_status_visible_to_account d s reporter
            then Inl (InvalidInput ''status does not belong to the reported account'') else Inr (EvidenceRemote i)))"

fun validate_report_statuses :: "db \<Rightarrow> uuid \<Rightarrow> report_account \<Rightarrow> uuid list \<Rightarrow> uuid list \<Rightarrow> report_status list result" where
  "validate_report_statuses d reporter target seen [] = Inr []"
| "validate_report_statuses d reporter target seen (i # is) =
     (if i \<in> set seen then Inl (InvalidInput ''status_ids contains a duplicate'')
      else bind_res (report_evidence d reporter target i) (\<lambda>s.
           bind_res (validate_report_statuses d reporter target (i # seen) is) (\<lambda>ss. Inr (s # ss))))"

definition flag_object :: "db \<Rightarrow> uuid \<Rightarrow> report_status \<Rightarrow> json result" where
  "flag_object d actor s =
     (case s of
        EvidenceRemote i \<Rightarrow>
          bind_res (find_or ''reported status does not exist'' (find_remote_status_by_id d i)) (\<lambda>r.
            if rs_remote_actor_id r \<noteq> actor then Inl (InvalidInput ''reported status belongs to another account'')
            else Inr (JStr (rs_activitypub_id r)))
      | EvidenceLocal _ \<Rightarrow> Inl (InvalidInput ''a remote report cannot contain a local status''))"

definition prepare_report_flag ::
  "fed_env \<Rightarrow> (ustring \<Rightarrow> json) \<Rightarrow> db \<Rightarrow> uuid \<Rightarrow> uuid \<Rightarrow> report_status list \<Rightarrow> ustring \<Rightarrow> new_job result" where
  "prepare_report_flag e text_json d account actor statuses comment =
     bind_res (find_or ''reporting account does not exist'' (find_local_account_by_id d account)) (\<lambda>local.
     bind_res (find_or ''reported account does not exist'' (find_remote_actor_by_id d actor)) (\<lambda>remote.
       let url = fe_actor_url e (la_username local);
           i = url @ ''#flag-'' @ fe_id_string e (fe_activity e)
       in bind_res (map_res (flag_object d actor) statuses) (\<lambda>objects.
          bind_res (fe_prove e account
              (JObj [(''@context'', JStr activitystreams_context), (''id'', JStr i), (''type'', JStr ''Flag''), (''actor'', JStr url),
                     (''object'', JArr (JStr (ra_activitypub_id remote) # objects)), (''content'', text_json comment)])) (\<lambda>activity.
            Inr (delivery_job FederationModerationDelivery e account actor activity i)))))"

definition admin_report_row :: "note_draws \<Rightarrow> uuid \<Rightarrow> moderation_report \<Rightarrow> local_notification_row" where
  "admin_report_row w administrator report =
     (notification_row w administrator NAdminReport
        (case mr_source report of ReportLocal i \<Rightarrow> ActorLocal i | ReportRemote i \<Rightarrow> ActorRemote i) None None False None)
       \<lparr>ln_report_id := Some (mr_id report)\<rparr>"

fun notify_each :: "(uuid \<Rightarrow> note_draws) \<Rightarrow> moderation_report \<Rightarrow> uuid list \<Rightarrow> db \<Rightarrow> (db \<times> local_notification_row list) result" where
  "notify_each draws report [] d = Inr (d, [])"
| "notify_each draws report (a # as) d =
     bind_res (store_notification (draws a) (admin_report_row (draws a) a report) d) (\<lambda>(d, n).
     bind_res (notify_each draws report as d) (\<lambda>(d, ns). Inr (d, n # ns)))"

definition administrators :: "db \<Rightarrow> uuid list" where
  "administrators d = map la_id (filter (\<lambda>a. la_is_admin a \<and> la_suspended_at a = None) (t_local_account d))"

text \<open>The report is one that the same transaction has stored, so that the foreign key of the notifications holds.\<close>

definition notify_administrators_of_report ::
  "(uuid \<Rightarrow> note_draws) \<Rightarrow> moderation_report \<Rightarrow> db \<Rightarrow> (db \<times> local_notification_row list) result" where
  "notify_administrators_of_report draws report d = notify_each draws report (administrators d) d"

definition client_report_response :: "db \<Rightarrow> moderation_report \<Rightarrow> moderation_report result" where
  "client_report_response d report =
     (case mr_target report of
        ReportLocal i \<Rightarrow> bind_res (find_or ''report target was not found'' (find_local_account_by_id d i)) (\<lambda>_. Inr report)
      | ReportRemote i \<Rightarrow> bind_res (find_or ''report target was not found'' (find_remote_actor_by_id d i)) (\<lambda>_. Inr report))"

definition report_delivery ::
  "fed_env \<Rightarrow> report_draws \<Rightarrow> uuid \<Rightarrow> report_account \<Rightarrow> report_status list \<Rightarrow> create_report_form \<Rightarrow> db \<Rightarrow> new_job option result" where
  "report_delivery e w reporter target statuses form d =
     (if crf_forward form
      then (case target of
              ReportRemote i \<Rightarrow>
                bind_res (prepare_report_flag e (rd_text_json w) d reporter i statuses (crf_comment form)) (\<lambda>job. Inr (Some job))
            | ReportLocal _ \<Rightarrow> Inr None)
      else Inr None)"

definition file_report ::
  "fed_env \<Rightarrow> report_draws \<Rightarrow> uuid \<Rightarrow> report_account \<Rightarrow> report_status list \<Rightarrow> report_category \<Rightarrow> create_report_form \<Rightarrow>
     moderation \<Rightarrow> (moderation \<times> moderation_report \<times> local_notification_row list) result" where
  "file_report e w reporter target statuses category form m =
     bind_res (report_delivery e w reporter target statuses form (m_db m)) (\<lambda>delivery.
     bind_res (create_moderation_report (rd_report_id w) (rd_pg_now w)
         \<lparr> nmr_source = ReportLocal reporter, nmr_target = target, nmr_category = category, nmr_comment = crf_comment form,
           nmr_forwarded = (delivery \<noteq> None), nmr_activitypub_id = None, nmr_statuses = statuses,
           nmr_rule_ids = crf_rule_ids form \<rparr> m) (\<lambda>(m, report).
     bind_res (notify_administrators_of_report (rd_note w) report (m_db m)) (\<lambda>(d, notifications).
     bind_res (case delivery of None \<Rightarrow> Inr d | Some job \<Rightarrow> enqueue_only (fe_job_id e) (rd_pg_now w) job d) (\<lambda>d.
     bind_res (client_report_response d report) (\<lambda>response.
       Inr (m\<lparr>m_db := d\<rparr>, response, notifications))))))"

definition create_report ::
  "fed_env \<Rightarrow> report_draws \<Rightarrow> access_token_grant \<Rightarrow> create_report_form \<Rightarrow> moderation \<Rightarrow>
     report_api_error + moderation \<times> moderation_report \<times> local_notification_row list" where
  "create_report e w token form m =
     (let reporter = la_id (atg_account token); d = m_db m
      in if \<not> has_scope token ''write'' ''write:reports'' then Inl (ReportForbidden ''This action requires write:reports'')
         else if crf_collection_ids form \<noteq> [] then Inl (ReportInvalid ''Reporting collections is not supported'')
         else if length (crf_comment form) > 1000 then Inl (ReportInvalid ''Comment is too long (maximum is 1000 characters)'')
         else
           case report_target d (crf_account_id form) of
             None \<Rightarrow> Inl (ReportInvalid ''Account does not exist'')
           | Some target \<Rightarrow>
               if target = ReportLocal reporter then Inl (ReportInvalid ''You cannot report your own account'')
               else
                 bind_report (report_err (validate_report_statuses d reporter target [] (crf_status_ids form))) (\<lambda>statuses.
                 bind_report (report_category_of (crf_category form) (crf_rule_ids form \<noteq> [])) (\<lambda>category.
                   report_err (file_report e w reporter target statuses category form m))))"

subsection \<open>Administration of reports\<close>

text \<open>
  The response of an administrator's request: the report, its accounts, and the evidence that is
  still there. An account that cannot be shown fails the whole response.
\<close>

record admin_report_view =
  arp_report :: moderation_report
  arp_account :: admin_account
  arp_target_account :: admin_account
  arp_assigned_account :: "admin_account option"
  arp_action_taken_by_account :: "admin_account option"
  arp_statuses :: "status_response list"

definition report_admin_account :: "db \<Rightarrow> report_account \<Rightarrow> admin_account result" where
  "report_admin_account d account =
     find_or ''report account was not found''
       (find_admin_account_by_id d (case account of ReportLocal i \<Rightarrow> i | ReportRemote i \<Rightarrow> i))"

definition optional_admin_account :: "db \<Rightarrow> uuid option \<Rightarrow> admin_account option result" where
  "optional_admin_account d i =
     (case i of None \<Rightarrow> Inr None | Some i \<Rightarrow> bind_res (report_admin_account d (ReportLocal i)) (\<lambda>a. Inr (Some a)))"

definition shown_evidence :: "db \<Rightarrow> report_status \<Rightarrow> status_response option" where
  "shown_evidence d s =
     (case s of
        EvidenceLocal i \<Rightarrow>
          (case find_local_status_by_id d i of
             None \<Rightarrow> None
           | Some r \<Rightarrow> if find_local_account_by_id d (ls_account_id r) = None then None else Some (ShownLocal r))
      | EvidenceRemote i \<Rightarrow> map_option ShownRemote (find_remote_status_by_id d i))"

definition admin_report_response :: "db \<Rightarrow> moderation_report \<Rightarrow> admin_report_view result" where
  "admin_report_response d r =
     bind_res (report_admin_account d (mr_source r)) (\<lambda>account.
     bind_res (report_admin_account d (mr_target r)) (\<lambda>target.
     bind_res (optional_admin_account d (mr_assigned_account_id r)) (\<lambda>assigned.
     bind_res (optional_admin_account d (mr_action_taken_by_account_id r)) (\<lambda>taken_by.
       Inr \<lparr> arp_report = r, arp_account = account, arp_target_account = target, arp_assigned_account = assigned,
             arp_action_taken_by_account = taken_by, arp_statuses = List.map_filter (shown_evidence d) (mr_statuses r) \<rparr>))))"

record admin_report_query =
  arq_resolved :: "bool option"
  arq_account_id :: "uuid option"
  arq_target_account_id :: "uuid option"
  arq_max_id :: "uuid option"
  arq_since_id :: "uuid option"
  arq_min_id :: "uuid option"
  arq_limit :: "nat option"

text \<open>The page and, for the link header, where the next page starts.\<close>

definition admin_reports ::
  "access_token_grant \<Rightarrow> admin_report_query \<Rightarrow> moderation \<Rightarrow>
     report_api_error + admin_report_view list \<times> uuid option" where
  "admin_reports token q m =
     bind_report (require_admin token ReadReports) (\<lambda>_.
       let limit = clamp 1 200 (case arq_limit q of None \<Rightarrow> 40 | Some n \<Rightarrow> n)
       in bind_report (report_err (list_moderation_reports m
              \<lparr> rlo_resolved = arq_resolved q, rlo_source_account_id = arq_account_id q,
                rlo_target_account_id = arq_target_account_id q, rlo_max_id = arq_max_id q, rlo_since_id = arq_since_id q,
                rlo_min_id = arq_min_id q, rlo_limit = min (limit + 1) u64_max \<rparr>)) (\<lambda>reports.
            let has_more = length reports > limit; reports = take limit reports;
                next = (if has_more \<and> reports \<noteq> [] then Some (mr_id (last reports)) else None)
            in bind_report (report_err (map_res (admin_report_response (m_db m)) reports)) (\<lambda>body. Inr (body, next))))"

definition admin_report_by_id :: "uuid \<Rightarrow> moderation \<Rightarrow> report_api_error + admin_report_view" where
  "admin_report_by_id i m =
     bind_report (report_err (find_moderation_report m i)) (\<lambda>found.
     bind_report (or_report_not_found found) (\<lambda>r. report_err (admin_report_response (m_db m) r)))"

definition admin_report :: "access_token_grant \<Rightarrow> uuid \<Rightarrow> moderation \<Rightarrow> report_api_error + admin_report_view" where
  "admin_report token i m = bind_report (require_admin token ReadReports) (\<lambda>_. admin_report_by_id i m)"

definition audit_rule ::
  "report_draws \<Rightarrow> uuid \<Rightarrow> admin_audit_action \<Rightarrow> instance_rule_row \<Rightarrow> moderation \<Rightarrow> moderation result" where
  "audit_rule w actor action r m =
     insert_admin_audit_entry (rd_audit_id w) (rd_pg_now w) (Some actor) AuditApi action TargetInstanceRule
       (rd_id_string w (ir_id r)) (JObj [(''text'', rd_text_json w (ir_text r))]) m"

definition audit_report ::
  "report_draws \<Rightarrow> uuid \<Rightarrow> admin_audit_action \<Rightarrow> uuid \<Rightarrow> json \<Rightarrow> moderation \<Rightarrow> moderation result" where
  "audit_report w actor action report metadata m =
     insert_admin_audit_entry (rd_audit_id w) (rd_pg_now w) (Some actor) AuditApi action TargetReport
       (rd_id_string w report) metadata m"

text \<open>What the endpoints that change a report share: the change, its audit entry, and the response before the commit.\<close>

definition change_audited ::
  "report_draws \<Rightarrow> uuid \<Rightarrow> admin_audit_action \<Rightarrow> uuid \<Rightarrow> json \<Rightarrow> (moderation \<times> moderation_report option) result \<Rightarrow>
     report_api_error + moderation \<times> admin_report_view" where
  "change_audited w actor action report metadata changed =
     bind_report (report_err changed) (\<lambda>(m, found).
     bind_report (or_report_not_found found) (\<lambda>r.
     bind_report (report_err (audit_report w actor action report metadata m)) (\<lambda>m.
     bind_report (report_err (admin_report_response (m_db m) r)) (\<lambda>response. Inr (m, response)))))"

definition category_name :: "report_category \<Rightarrow> string" where
  "category_name c = (case c of CatSpam \<Rightarrow> ''spam'' | CatLegal \<Rightarrow> ''legal'' | CatViolation \<Rightarrow> ''violation'' | CatOther \<Rightarrow> ''other'')"

definition update_admin_report ::
  "report_draws \<Rightarrow> access_token_grant \<Rightarrow> uuid \<Rightarrow> string option \<Rightarrow> uuid list \<Rightarrow> moderation \<Rightarrow>
     report_api_error + moderation \<times> admin_report_view" where
  "update_admin_report w token report category rule_ids m =
     bind_report (report_admin token True) (\<lambda>actor.
     bind_report (report_category_of category (rule_ids \<noteq> [])) (\<lambda>category.
       change_audited w actor ReportUpdate report
         (JObj [(''category'', JStr (category_name category)), (''rule_ids'', JArr (map (\<lambda>i. JStr (rd_id_string w i)) rule_ids))])
         (update_moderation_report (rd_now w) report category rule_ids m)))"

definition mutate_assignment ::
  "report_draws \<Rightarrow> access_token_grant \<Rightarrow> uuid \<Rightarrow> bool \<Rightarrow> moderation \<Rightarrow> report_api_error + moderation \<times> admin_report_view" where
  "mutate_assignment w token report assign m =
     bind_report (report_admin token True) (\<lambda>actor.
       change_audited w actor (if assign then ReportAssign else ReportUnassign) report (JObj [])
         (assign_moderation_report (rd_now w) report (if assign then Some actor else None) m))"

definition mutate_resolution ::
  "report_draws \<Rightarrow> access_token_grant \<Rightarrow> uuid \<Rightarrow> bool \<Rightarrow> moderation \<Rightarrow> report_api_error + moderation \<times> admin_report_view" where
  "mutate_resolution w token report resolved m =
     bind_report (report_admin token True) (\<lambda>actor.
       change_audited w actor (if resolved then ReportResolve else ReportReopen) report (JObj [])
         (set_moderation_report_resolved (rd_now w) report (if resolved then Some actor else None) m))"

text \<open>
  Deleting a status that a report holds as evidence. What \<open>delete_reported_status\<close> of
  \<^verbatim>\<open>statuses.rs\<close> does to the status, its conversation and its federation belongs to the statuses,
  which are not modelled: it is the argument \<open>deletion\<close>, any change of the database that says
  whether the status was there. The tables of this theory are out of its reach.
\<close>

definition evidence_id :: "report_status \<Rightarrow> uuid" where
  "evidence_id s = (case s of EvidenceLocal i \<Rightarrow> i | EvidenceRemote i \<Rightarrow> i)"

definition remove_report_status ::
  "(report_status \<Rightarrow> db \<Rightarrow> (db \<times> bool) result) \<Rightarrow> uuid \<Rightarrow> uuid \<Rightarrow> moderation \<Rightarrow> moderation option result" where
  "remove_report_status deletion report status m =
     bind_res (find_moderation_report m report) (\<lambda>found.
       case Option.bind found (\<lambda>r. List.find (\<lambda>s. evidence_id s = status) (mr_statuses r)) of
         None \<Rightarrow> Inr None
       | Some reference \<Rightarrow>
           bind_res (deletion reference (m_db m)) (\<lambda>(d, was_there).
             Inr (if was_there then Some (m\<lparr>m_db := d\<rparr>) else None)))"

definition delete_report_status ::
  "report_draws \<Rightarrow> access_token_grant \<Rightarrow> (report_status \<Rightarrow> db \<Rightarrow> (db \<times> bool) result) \<Rightarrow> uuid \<Rightarrow> uuid \<Rightarrow> moderation \<Rightarrow>
     report_api_error + moderation" where
  "delete_report_status w token deletion report status m =
     bind_report (report_admin token True) (\<lambda>actor.
     bind_report (report_err (remove_report_status deletion report status m)) (\<lambda>removed.
     bind_report (or_report_not_found removed) (\<lambda>m.
       report_err (audit_report w actor ReportUpdate report (JObj [(''removed_status_id'', JStr (rd_id_string w status))]) m))))"

subsection \<open>Administration of rules\<close>

definition admin_instance_rules :: "access_token_grant \<Rightarrow> moderation \<Rightarrow> report_api_error + instance_rule_row list" where
  "admin_instance_rules token m = bind_report (report_admin token False) (\<lambda>_. Inr (list_instance_rules m))"

definition api_create_instance_rule ::
  "report_draws \<Rightarrow> access_token_grant \<Rightarrow> ustring \<Rightarrow> moderation \<Rightarrow> report_api_error + moderation \<times> instance_rule_row" where
  "api_create_instance_rule w token text m =
     bind_report (report_admin token True) (\<lambda>actor.
     bind_report (report_err (create_instance_rule (rd_rule_id w) (rd_pg_now w) text m)) (\<lambda>(m, r).
     bind_report (report_err (audit_rule w actor InstanceRuleCreate r m)) (\<lambda>m. Inr (m, r))))"

definition api_update_instance_rule ::
  "report_draws \<Rightarrow> access_token_grant \<Rightarrow> uuid \<Rightarrow> ustring \<Rightarrow> moderation \<Rightarrow> report_api_error + moderation \<times> instance_rule_row" where
  "api_update_instance_rule w token i text m =
     bind_report (report_admin token True) (\<lambda>actor.
     bind_report (report_err (update_instance_rule (rd_now w) i text m)) (\<lambda>(m, found).
     bind_report (or_report_not_found found) (\<lambda>r.
     bind_report (report_err (audit_rule w actor InstanceRuleUpdate r m)) (\<lambda>m. Inr (m, r)))))"

definition delete_instance_rule ::
  "report_draws \<Rightarrow> access_token_grant \<Rightarrow> uuid \<Rightarrow> moderation \<Rightarrow> report_api_error + moderation \<times> instance_rule_row" where
  "delete_instance_rule w token i m =
     bind_report (report_admin token True) (\<lambda>actor.
     let (m, found) = discard_instance_rule (rd_now w) i m
     in bind_report (or_report_not_found found) (\<lambda>r.
        bind_report (report_err (audit_rule w actor InstanceRuleDelete r m)) (\<lambda>m. Inr (m, r))))"

definition api_reorder_instance_rules ::
  "report_draws \<Rightarrow> access_token_grant \<Rightarrow> uuid list \<Rightarrow> moderation \<Rightarrow> report_api_error + moderation \<times> instance_rule_row list" where
  "api_reorder_instance_rules w token rule_ids m =
     bind_report (report_admin token True) (\<lambda>actor.
     bind_report (report_err (reorder_instance_rules (rd_nows w) rule_ids m)) (\<lambda>(m, rules).
     bind_report (report_err (insert_admin_audit_entry (rd_audit_id w) (rd_pg_now w) (Some actor) AuditApi InstanceRuleReorder
         TargetInstanceRule ''all'' (JObj [(''rule_ids'', JArr (map (\<lambda>i. JStr (rd_id_string w i)) rule_ids))]) m)) (\<lambda>m.
       Inr (m, rules))))"

end
