(* ===== verification/Roosty_Administration.thy ===== *)
theory Roosty_Administration
  imports Roosty_Reports Roosty_Auth "HOL-Library.List_Lexorder" "HOL-Library.Char_ord"
begin

text \<open>
  Actions on accounts: limits, suspension and its consequences, the purge of suspended accounts
  (\<^verbatim>\<open>db/src/lib.rs\<close>), and the requests and commands of administrators that lead to them, with
  their audit entries (\<^verbatim>\<open>server/src/admin.rs\<close>).
\<close>

subsection \<open>Tables\<close>

text \<open>
  Three more tables take part: media attachments, scheduled statuses and the preview cards of
  statuses, with the columns that the operations read.
\<close>

record media_attachment_row =
  ma_id :: uuid
  ma_account_id :: uuid
  ma_status_id :: "uuid option"
  ma_scheduled_status_id :: "uuid option"
  ma_file_path :: string
  ma_preview_file_path :: "string option"

record scheduled_status_row =
  sst_id :: uuid
  sst_account_id :: uuid

record status_preview_card_row =
  spc_id :: uuid
  spc_local_status_id :: "uuid option"
  spc_remote_status_id :: "uuid option"
  spc_preview_card_id :: uuid

record administration =
  ad_mod :: moderation
  t_media_attachment :: "media_attachment_row list"
  t_scheduled_status :: "scheduled_status_row list"
  t_status_preview_card :: "status_preview_card_row list"

abbreviation ad_db :: "administration \<Rightarrow> db" where
  "ad_db a \<equiv> m_db (ad_mod a)"

definition with_db :: "(db \<Rightarrow> db) \<Rightarrow> administration \<Rightarrow> administration" where
  "with_db f a = a\<lparr>ad_mod := (ad_mod a)\<lparr>m_db := f (ad_db a)\<rparr>\<rparr>"

definition with_db_res :: "(db \<Rightarrow> db result) \<Rightarrow> administration \<Rightarrow> administration result" where
  "with_db_res f a = bind_res (f (ad_db a)) (\<lambda>d. Inr (with_db (\<lambda>_. d) a))"

lemma ad_db_with_db [simp]: "ad_db (with_db f a) = f (ad_db a)"
  by (simp add: with_db_def)

lemma with_db_simps [simp]:
  "t_media_attachment (with_db f a) = t_media_attachment a" "t_scheduled_status (with_db f a) = t_scheduled_status a"
  "t_status_preview_card (with_db f a) = t_status_preview_card a"
  "t_report_status (ad_mod (with_db f a)) = t_report_status (ad_mod a)"
  "t_admin_audit_log (ad_mod (with_db f a)) = t_admin_audit_log (ad_mod a)"
  "t_moderation_report (ad_mod (with_db f a)) = t_moderation_report (ad_mod a)"
  by (simp_all add: with_db_def)

subsection \<open>Trends of an account\<close>

text \<open>
  \<^verbatim>\<open>INSERT ... SELECT ... ON CONFLICT DO UPDATE\<close>: PostgreSQL refuses a statement that would update
  one row twice, so the selected keys have to be distinct.
\<close>

fun mark_each :: "instant \<Rightarrow> string \<Rightarrow> uuid list \<Rightarrow> db \<Rightarrow> db result" where
  "mark_each pg_now kind [] d = Inr d"
| "mark_each pg_now kind (i # is) d = bind_res (mark_trend_dirty pg_now kind i d) (\<lambda>d. mark_each pg_now kind is d)"

definition mark_selected :: "instant \<Rightarrow> string \<Rightarrow> uuid list \<Rightarrow> db \<Rightarrow> db result" where
  "mark_selected pg_now kind targets d =
     (if distinct targets then mark_each pg_now kind targets d else Inl (Database CardinalityViolation))"

definition account_statuses :: "bool \<Rightarrow> uuid \<Rightarrow> db \<Rightarrow> uuid list" where
  "account_statuses local account d =
     (if local then map ls_id (filter (\<lambda>s. ls_account_id s = account) (t_local_status d))
      else map rs_id (filter (\<lambda>s. rs_remote_actor_id s = account) (t_remote_status d)))"

text \<open>The cards of the account's statuses, once for each status that has the card.\<close>

definition account_cards :: "bool \<Rightarrow> uuid \<Rightarrow> administration \<Rightarrow> uuid list" where
  "account_cards local account a =
     map spc_preview_card_id
       (filter (\<lambda>r. case (if local then spc_local_status_id r else spc_remote_status_id r) of
                      None \<Rightarrow> False
                    | Some i \<Rightarrow> i \<in> set (account_statuses local account (ad_db a))) (t_status_preview_card a))"

definition mark_account_status_trends_dirty :: "instant \<Rightarrow> bool \<Rightarrow> uuid \<Rightarrow> administration \<Rightarrow> administration result" where
  "mark_account_status_trends_dirty pg_now local account a =
     with_db_res (\<lambda>d.
       bind_res (mark_selected pg_now (if local then ''local_status'' else ''remote_status'') (account_statuses local account d) d)
         (\<lambda>d. mark_selected pg_now ''link'' (account_cards local account a) d)) a"

subsection \<open>Limits\<close>

definition set_local_account_limited_by_id ::
  "instant \<Rightarrow> instant \<Rightarrow> uuid \<Rightarrow> bool \<Rightarrow> administration \<Rightarrow> administration result" where
  "set_local_account_limited_by_id now pg_now i limit_on a =
     (if find_local_account_by_id (ad_db a) i = None then Inr a
      else mark_account_status_trends_dirty pg_now True i
             (with_db (\<lambda>d. d\<lparr>t_local_account := tbl_update (\<lambda>r. la_id r = i)
                (\<lambda>r. r\<lparr>la_limited_at := (if limit_on then Some now else None)\<rparr>) (t_local_account d)\<rparr>) a))"

definition set_remote_actor_limited_by_id ::
  "instant \<Rightarrow> instant \<Rightarrow> uuid \<Rightarrow> bool \<Rightarrow> administration \<Rightarrow> administration result" where
  "set_remote_actor_limited_by_id now pg_now i limit_on a =
     (if find_remote_actor_by_id (ad_db a) i = None then Inr a
      else mark_account_status_trends_dirty pg_now False i
             (with_db (\<lambda>d. d\<lparr>t_remote_actor := tbl_update (\<lambda>r. ra_id r = i)
                (\<lambda>r. r\<lparr>ra_limited_at := (if limit_on then Some now else None)\<rparr>) (t_remote_actor d)\<rparr>) a))"

subsection \<open>Suspension\<close>

text \<open>
  \<open>sever_local_account_relationships\<close>, statement by statement: relations and lists with their
  members (\<open>sever_relations\<close> and \<open>sever_lists\<close>), scheduled statuses (with their polls; their
  media stay, without an owner), access tokens and notifications.
\<close>

definition delete_scheduled_statuses :: "uuid \<Rightarrow> administration \<Rightarrow> administration" where
  "delete_scheduled_statuses i a =
     (let gone = map sst_id (filter (\<lambda>s. sst_account_id s = i) (t_scheduled_status a))
      in with_db (\<lambda>d. d\<lparr>
           t_scheduled_status_poll := tbl_delete (\<lambda>p. ssp_scheduled_status_id p \<in> set gone) (t_scheduled_status_poll d),
           t_scheduled_status_poll_option := tbl_delete (\<lambda>p. sspo_scheduled_status_id p \<in> set gone) (t_scheduled_status_poll_option d)\<rparr>)
         (a\<lparr>t_scheduled_status := tbl_delete (\<lambda>s. sst_account_id s = i) (t_scheduled_status a),
            t_media_attachment := tbl_update (\<lambda>m. case ma_scheduled_status_id m of None \<Rightarrow> False | Some s \<Rightarrow> s \<in> set gone)
              (\<lambda>m. m\<lparr>ma_scheduled_status_id := None\<rparr>) (t_media_attachment a)\<rparr>))"

definition revoke_tokens :: "instant \<Rightarrow> uuid \<Rightarrow> db \<Rightarrow> db" where
  "revoke_tokens now i d = d\<lparr>t_oauth_access_token :=
     tbl_update (\<lambda>t. oat_account_id t = Some i \<and> oat_revoked_at t = None) (\<lambda>t. t\<lparr>oat_revoked_at := Some now\<rparr>)
       (t_oauth_access_token d)\<rparr>"

definition sever_local_account_relationships :: "instant \<Rightarrow> uuid \<Rightarrow> administration \<Rightarrow> administration" where
  "sever_local_account_relationships now i a =
     with_db (\<lambda>d. dismiss_notifications now (\<lambda>n. ln_account_id n = i \<or> ln_actor_account_id n = Some i) (revoke_tokens now i d))
       (delete_scheduled_statuses i (with_db (\<lambda>d. sever_lists i (sever_relations i d)) a))"

text \<open>
  What one request of an administrator draws and reads: identifiers, clocks, the temporary
  password and its hash, and the texts of identifiers and strings.
\<close>

record admin_draws =
  aw_now :: instant
  aw_pg_now :: instant
  aw_account_id :: uuid
  aw_audit_id :: uuid
  aw_resolve_id :: uuid
  aw_purge_job_id :: uuid
  aw_delivery_job_id :: "nat \<Rightarrow> uuid"
  aw_password :: ustring
  aw_hash_password :: "ustring \<Rightarrow> string result"
  aw_id_string :: "uuid \<Rightarrow> string"
  aw_text_json :: "ustring \<Rightarrow> json"
  aw_federation_enabled :: bool
  aw_fed :: fed_env

definition purge_job :: "admin_draws \<Rightarrow> uuid \<Rightarrow> new_job" where
  "purge_job w i = \<lparr> nj_kind = job_kind.AccountPurge,
     nj_payload = JObj [(''account_id'', JStr (aw_id_string w i)), (''origin'', JStr ''local'')],
     nj_deduplication_key = Some (''account-purge:'' @ aw_id_string w i), nj_run_after = aw_now w + days 30 \<rparr>"

definition suspend_local_account :: "admin_draws \<Rightarrow> local_account_row \<Rightarrow> bool \<Rightarrow> administration \<Rightarrow> administration result" where
  "suspend_local_account w account suspended a =
     (let i = la_id account; now = aw_now w;
          a = with_db (\<lambda>d. d\<lparr>t_local_account := tbl_update (\<lambda>r. la_id r = i)
                (\<lambda>r. r\<lparr>la_suspended_at := (if suspended then Some now else None)\<rparr>) (t_local_account d)\<rparr>) a
      in bind_res
           (if suspended \<and> la_suspended_at account = None
            then with_db_res (\<lambda>d. bind_res (enqueue_job_on_connection (aw_purge_job_id w) (aw_pg_now w) (purge_job w i) d) (\<lambda>(d, _). Inr d))
                   (sever_local_account_relationships now i a)
            else if \<not> suspended then Inr (with_db (cancel_account_purge (aw_id_string w i) now) a)
            else Inr a) (\<lambda>a. mark_account_status_trends_dirty (aw_pg_now w) True i a))"

definition suspend_remote_actor :: "admin_draws \<Rightarrow> remote_actor_row \<Rightarrow> bool \<Rightarrow> administration \<Rightarrow> administration result" where
  "suspend_remote_actor w actor suspended a =
     (let i = ra_id actor; now = aw_now w;
          a = with_db (\<lambda>d. d\<lparr>t_remote_actor := tbl_update (\<lambda>r. ra_id r = i)
                (\<lambda>r. r\<lparr>ra_suspended_at := (if suspended then Some now else None),
                        ra_data_purged_at := (if suspended then Some now else ra_data_purged_at r)\<rparr>) (t_remote_actor d)\<rparr>) a;
          a = (if suspended then with_db (purge_remote_actor_cache now i) a else a)
      in mark_account_status_trends_dirty (aw_pg_now w) False i a)"

definition set_account_suspended_by_id ::
  "admin_draws \<Rightarrow> uuid \<Rightarrow> bool \<Rightarrow> administration \<Rightarrow> (administration \<times> bool) result" where
  "set_account_suspended_by_id w i suspended a =
     (case find_local_account_by_id (ad_db a) i of
        Some account \<Rightarrow> bind_res (suspend_local_account w account suspended a) (\<lambda>a. Inr (a, True))
      | None \<Rightarrow>
          (case find_remote_actor_by_id (ad_db a) i of
             Some actor \<Rightarrow> bind_res (suspend_remote_actor w actor suspended a) (\<lambda>a. Inr (a, True))
           | None \<Rightarrow> Inr (a, False)))"

subsection \<open>Purge\<close>

text \<open>
  Deleting statuses, with what the foreign keys of the other tables ask for: their interactions,
  mentions, recipients, notifications, polls, counters and cards go with them, references from
  replies, media and notification requests are cleared. The reference from the evidence of a
  report is cleared too, and the table's check, that evidence refers to one status, is applied
  to the row that is left.
\<close>

definition mrs_check :: "moderation_report_status_row \<Rightarrow> bool" where
  "mrs_check r \<longleftrightarrow> (mrs_local_status_id r = None) \<noteq> (mrs_remote_status_id r = None)"

definition opt_in :: "'a option \<Rightarrow> 'a list \<Rightarrow> bool" where
  "opt_in x xs \<longleftrightarrow> (case x of None \<Rightarrow> False | Some v \<Rightarrow> v \<in> set xs)"

definition delete_status_rows :: "uuid list \<Rightarrow> db \<Rightarrow> db" where
  "delete_status_rows gone d =
     (let polls = map sp_id (filter (\<lambda>p. opt_in (sp_local_status_id p) gone) (t_status_poll d))
      in d\<lparr>
        t_local_status := tbl_update (\<lambda>s. opt_in (ls_in_reply_to_id s) gone) (\<lambda>s. s\<lparr>ls_in_reply_to_id := None\<rparr>)
          (tbl_delete (\<lambda>s. ls_id s \<in> set gone) (t_local_status d)),
        t_remote_status := tbl_update (\<lambda>s. opt_in (rs_in_reply_to_local_status_id s) gone)
          (\<lambda>s. s\<lparr>rs_in_reply_to_local_status_id := None\<rparr>) (t_remote_status d),
        t_notification_request := tbl_update (\<lambda>r. opt_in (nrq_last_status_id r) gone)
          (\<lambda>r. r\<lparr>nrq_last_status_id := None\<rparr>) (t_notification_request d),
        t_local_notification := tbl_delete (\<lambda>n. opt_in (ln_status_id n) gone) (t_local_notification d),
        t_local_status_favourite := tbl_delete (\<lambda>r. lsf_status_id r \<in> set gone) (t_local_status_favourite d),
        t_local_status_bookmark := tbl_delete (\<lambda>r. lsb_status_id r \<in> set gone) (t_local_status_bookmark d),
        t_local_status_reblog := tbl_delete (\<lambda>r. lsr_status_id r \<in> set gone) (t_local_status_reblog d),
        t_remote_status_favourite := tbl_delete (\<lambda>r. rsf_local_status_id r \<in> set gone) (t_remote_status_favourite d),
        t_remote_status_reblog := tbl_delete (\<lambda>r. opt_in (rsr_local_status_id r) gone) (t_remote_status_reblog d),
        t_status_remote_mention := tbl_delete (\<lambda>r. srm_status_id r \<in> set gone) (t_status_remote_mention d),
        t_status_local_mention := tbl_delete (\<lambda>r. slm_status_id r \<in> set gone) (t_status_local_mention d),
        t_status_local_recipient := tbl_delete (\<lambda>r. slr_status_id r \<in> set gone) (t_status_local_recipient d),
        t_status_trend_metric := tbl_delete (\<lambda>r. opt_in (stm_local_status_id r) gone) (t_status_trend_metric d),
        t_status_poll := tbl_delete (\<lambda>p. sp_id p \<in> set polls) (t_status_poll d),
        t_status_poll_option := tbl_delete (\<lambda>p. spo_poll_id p \<in> set polls) (t_status_poll_option d),
        t_status_poll_vote := tbl_delete (\<lambda>v. spv_poll_id v \<in> set polls) (t_status_poll_vote d)\<rparr>)"

definition clear_evidence :: "uuid list \<Rightarrow> moderation_report_status_row list \<Rightarrow> moderation_report_status_row list result" where
  "clear_evidence gone t =
     (let t' = tbl_update (\<lambda>r. opt_in (mrs_local_status_id r) gone) (\<lambda>r. r\<lparr>mrs_local_status_id := None\<rparr>) t
      in if list_ex (\<lambda>r. opt_in (mrs_local_status_id r) gone \<and> \<not> mrs_check (r\<lparr>mrs_local_status_id := None\<rparr>)) t
         then Inl (Database CheckViolation) else Inr t')"

definition delete_local_statuses :: "uuid list \<Rightarrow> administration \<Rightarrow> administration result" where
  "delete_local_statuses gone a =
     bind_res (clear_evidence gone (t_report_status (ad_mod a))) (\<lambda>evidence.
       Inr (with_db (delete_status_rows gone)
         (a\<lparr>ad_mod := (ad_mod a)\<lparr>t_report_status := evidence\<rparr>,
            t_media_attachment := tbl_update (\<lambda>m. opt_in (ma_status_id m) gone) (\<lambda>m. m\<lparr>ma_status_id := None\<rparr>) (t_media_attachment a),
            t_status_preview_card := tbl_delete (\<lambda>r. opt_in (spc_local_status_id r) gone) (t_status_preview_card a)\<rparr>)))"

definition media_paths :: "local_account_row \<Rightarrow> media_attachment_row list \<Rightarrow> string list" where
  "media_paths account media =
     concat (map (\<lambda>m. ma_file_path m # (case ma_preview_file_path m of None \<Rightarrow> [] | Some p \<Rightarrow> [p]))
       (filter (\<lambda>m. ma_account_id m = la_id account) media)) @
     (case la_avatar_file_path account of None \<Rightarrow> [] | Some p \<Rightarrow> [p]) @
     (case la_header_file_path account of None \<Rightarrow> [] | Some p \<Rightarrow> [p])"

definition purge_suspended_local_account ::
  "instant \<Rightarrow> uuid \<Rightarrow> administration \<Rightarrow> (administration \<times> string list) result" where
  "purge_suspended_local_account now i a =
     (case find_local_account_by_id (ad_db a) i of
        None \<Rightarrow> Inr (a, [])
      | Some account \<Rightarrow>
          if la_suspended_at account = None \<or> la_data_purged_at account \<noteq> None then Inr (a, [])
          else
            bind_res (delete_local_statuses (account_statuses True i (ad_db a)) a) (\<lambda>a'.
              Inr (with_db (\<lambda>d. d\<lparr>t_local_account := tbl_update (\<lambda>r. la_id r = i)
                     (\<lambda>r. r\<lparr>la_display_name := [], la_note := [], la_profile_fields := JArr [], la_avatar_file_path := None,
                            la_header_file_path := None, la_data_purged_at := Some now\<rparr>) (t_local_account d)\<rparr>)
                     (a'\<lparr>t_media_attachment := tbl_delete (\<lambda>m. ma_account_id m = i) (t_media_attachment a')\<rparr>),
                   media_paths account (t_media_attachment a))))"

subsection \<open>Delivery to followers\<close>

text \<open>
  \<open>delivery_groups\<close>: one group for each inbox, sorted. Sorting by the identifier first and then
  by the inbox is the lexicographic order, as the sort is stable.
\<close>

definition delivery_inbox :: "remote_actor_row \<Rightarrow> string" where
  "delivery_inbox r = (case ra_shared_inbox_url r of Some u \<Rightarrow> u | None \<Rightarrow> ra_inbox_url r)"

definition delivery_groups :: "remote_actor_row list \<Rightarrow> bool \<Rightarrow> (string \<times> uuid list) list" where
  "delivery_groups recipients personal_inbox =
     (if personal_inbox
      then sort_key fst (sort_key (\<lambda>g. hd (snd g)) (map (\<lambda>r. (ra_inbox_url r, [ra_id r])) recipients))
      else map (\<lambda>u. (u, sort (map ra_id (filter (\<lambda>r. delivery_inbox r = u) recipients))))
             (sort (remdups (map delivery_inbox recipients))))"

definition accepted_remote_follower_ids :: "db \<Rightarrow> uuid \<Rightarrow> uuid list" where
  "accepted_remote_follower_ids d account =
     map rf_remote_actor_id (filter (\<lambda>r. rf_local_account_id r = account \<and> rf_state r = Accepted) (t_remote_follow d))"

definition accepted_remote_followers :: "db \<Rightarrow> uuid \<Rightarrow> remote_actor_row list" where
  "accepted_remote_followers d account =
     filter (\<lambda>r. ra_id r \<in> set (accepted_remote_follower_ids d account)) (t_remote_actor d)"

definition actor_update_job :: "fed_env \<Rightarrow> uuid \<Rightarrow> json \<Rightarrow> string \<Rightarrow> string \<times> uuid list \<Rightarrow> uuid \<Rightarrow> new_job" where
  "actor_update_job e account activity activity_id g first =
     \<lparr> nj_kind = FederationActorUpdateDelivery,
       nj_payload = JObj [(''local_account_id'', JStr (fe_id_string e account)), (''remote_actor_id'', JStr (fe_id_string e first)),
         (''remote_actor_ids'', JArr (map (\<lambda>i. JStr (fe_id_string e i)) (snd g))), (''inbox_url'', JStr (fst g)), (''activity'', activity)],
       nj_deduplication_key = Some (activity_id @ '':'' @ fst g), nj_run_after = fe_now e \<rparr>"

fun enqueue_groups ::
  "(nat \<Rightarrow> uuid) \<Rightarrow> instant \<Rightarrow> fed_env \<Rightarrow> uuid \<Rightarrow> json \<Rightarrow> string \<Rightarrow> nat \<Rightarrow> (string \<times> uuid list) list \<Rightarrow> db \<Rightarrow> db result" where
  "enqueue_groups new_id pg_now e account activity activity_id n [] d = Inr d"
| "enqueue_groups new_id pg_now e account activity activity_id n (g # gs) d =
     (case snd g of
        [] \<Rightarrow> enqueue_groups new_id pg_now e account activity activity_id (Suc n) gs d
      | first # _ \<Rightarrow>
          bind_res (enqueue_only (new_id n) pg_now (actor_update_job e account activity activity_id g first) d) (\<lambda>d.
            enqueue_groups new_id pg_now e account activity activity_id (Suc n) gs d))"

definition enqueue_actor_delete_in_transaction :: "admin_draws \<Rightarrow> local_account_row \<Rightarrow> db \<Rightarrow> db result" where
  "enqueue_actor_delete_in_transaction w account d =
     (let e = aw_fed w; actor = fe_actor_url e (la_username account);
          activity_id = actor @ ''#delete-'' @ fe_id_string e (fe_activity e)
      in if \<not> aw_federation_enabled w then Inr d
         else
           bind_res (fe_prove e (la_id account)
               (JObj [(''@context'', JStr activitystreams_context), (''id'', JStr activity_id), (''type'', JStr ''Delete''),
                      (''actor'', JStr actor), (''to'', JArr [JStr ''https://www.w3.org/ns/activitystreams#Public'']),
                      (''object'', JStr actor)])) (\<lambda>activity.
             enqueue_groups (aw_delivery_job_id w) (aw_pg_now w) e (la_id account) activity activity_id 0
               (delivery_groups (accepted_remote_followers d (la_id account)) False) d))"

subsection \<open>Actions of administrators\<close>

text \<open>
  The actor is missing for commands of the operator. Each action and its audit entry are one
  transaction.
\<close>

definition count_active_admin_accounts :: "db \<Rightarrow> nat" where
  "count_active_admin_accounts d = length (filter (\<lambda>r. la_is_admin r \<and> la_suspended_at r = None) (t_local_account d))"

definition audit_entry ::
  "admin_draws \<Rightarrow> uuid \<Rightarrow> uuid option \<Rightarrow> admin_audit_source \<Rightarrow> admin_audit_action \<Rightarrow> admin_audit_target_kind \<Rightarrow> uuid \<Rightarrow> json \<Rightarrow>
     administration \<Rightarrow> administration result" where
  "audit_entry w entry_id actor source action kind target metadata a =
     bind_res (insert_admin_audit_entry entry_id (aw_pg_now w) actor source action kind (aw_id_string w target) metadata (ad_mod a))
       (\<lambda>m. Inr (a\<lparr>ad_mod := m\<rparr>))"

definition account_metadata :: "admin_draws \<Rightarrow> admin_account \<Rightarrow> json" where
  "account_metadata w account =
     JObj [(''username'', aw_text_json w (ada_username account)),
           (''domain'', case ada_domain account of None \<Rightarrow> JNull | Some s \<Rightarrow> JStr s)]"

definition account_kind :: "admin_account \<Rightarrow> admin_audit_target_kind" where
  "account_kind account = (if ada_domain account = None then TargetLocalAccount else TargetRemoteActor)"

definition admin_validate :: "string \<Rightarrow> string + unit \<Rightarrow> unit result" where
  "admin_validate field r = (case r of Inl reason \<Rightarrow> Inl (InvalidInput (field @ '' '' @ reason)) | Inr x \<Rightarrow> Inr x)"

definition admin_create_local_account ::
  "admin_draws \<Rightarrow> uuid option \<Rightarrow> admin_audit_source \<Rightarrow> ustring \<Rightarrow> ustring \<Rightarrow> bool \<Rightarrow> administration \<Rightarrow>
     (administration \<times> admin_account \<times> ustring) result" where
  "admin_create_local_account w actor source username email is_admin a =
     bind_res (admin_validate ''username'' (account_username username)) (\<lambda>_.
     bind_res (admin_validate ''email'' (account_email email)) (\<lambda>_.
     bind_res (aw_hash_password w (aw_password w)) (\<lambda>password_hash.
     bind_res ((if is_admin then create_admin_account_in_transaction else create_local_account_in_transaction)
         (aw_account_id w) (aw_now w) (aw_pg_now w) username email password_hash (ad_db a)) (\<lambda>(d, i).
     bind_res (audit_entry w (aw_audit_id w) actor source AccountCreate TargetLocalAccount i
         (JObj [(''username'', aw_text_json w username), (''is_admin'', JBool is_admin)]) (with_db (\<lambda>_. d) a)) (\<lambda>a.
     bind_res (find_or ''created account was not found'' (find_admin_account_by_id (ad_db a) i)) (\<lambda>account.
       Inr (a, account, aw_password w)))))))"

definition reset_local_password_in_transaction ::
  "admin_draws \<Rightarrow> uuid option \<Rightarrow> admin_audit_source \<Rightarrow> uuid \<Rightarrow> administration \<Rightarrow>
     (administration \<times> admin_account \<times> ustring) result" where
  "reset_local_password_in_transaction w actor source i a =
     bind_res (aw_hash_password w (aw_password w)) (\<lambda>password_hash.
     bind_res (with_db_res (update_local_account_password_hash_by_id (aw_now w) i password_hash) a) (\<lambda>a.
     bind_res (find_or ''local account does not exist'' (find_local_account_by_id (ad_db a) i)) (\<lambda>local.
     bind_res (audit_entry w (aw_audit_id w) actor source AccountResetPassword TargetLocalAccount i
         (JObj [(''username'', aw_text_json w (la_username local))]) a) (\<lambda>a.
     bind_res (find_or ''reset account was not found'' (find_admin_account_by_id (ad_db a) i)) (\<lambda>account.
       Inr (a, account, aw_password w))))))"

definition set_account_limited_in_transaction ::
  "admin_draws \<Rightarrow> uuid option \<Rightarrow> admin_audit_source \<Rightarrow> uuid \<Rightarrow> bool \<Rightarrow> administration \<Rightarrow> (administration \<times> admin_account) result" where
  "set_account_limited_in_transaction w actor source i limit_on a =
     bind_res (find_or ''account does not exist'' (find_admin_account_by_id (ad_db a) i)) (\<lambda>existing.
     bind_res ((if ada_domain existing \<noteq> None then set_remote_actor_limited_by_id else set_local_account_limited_by_id)
         (aw_now w) (aw_pg_now w) i limit_on a) (\<lambda>a.
     bind_res (audit_entry w (aw_audit_id w) actor source (if limit_on then AccountLimit else AccountUnlimit) (account_kind existing) i
         (account_metadata w existing) a) (\<lambda>a.
     bind_res (find_or ''updated account was not found'' (find_admin_account_by_id (ad_db a) i)) (\<lambda>account.
       Inr (a, account)))))"

text \<open>
  The checks before a suspension, and what follows once they have passed: the announcement to the
  remote followers, the suspension and its audit entry.
\<close>

definition suspension_checks :: "uuid \<Rightarrow> uuid \<Rightarrow> bool \<Rightarrow> db \<Rightarrow> admin_account result" where
  "suspension_checks actor i suspended d =
     (if suspended \<and> actor = i then Inl (InvalidInput ''administrators cannot suspend themselves'')
      else
        bind_res (find_or ''account does not exist'' (find_admin_account_by_id d i)) (\<lambda>existing.
          if suspended \<and> ada_is_admin existing \<and> count_active_admin_accounts d \<le> 1
          then Inl (InvalidInput ''the final active administrator cannot be suspended'')
          else if \<not> suspended \<and> ada_domain existing = None \<and> ada_data_purged_at existing \<noteq> None
          then Inl (InvalidInput ''an account cannot be unsuspended after its data was purged'')
          else Inr existing))"

definition apply_suspension ::
  "admin_draws \<Rightarrow> uuid \<Rightarrow> admin_audit_source \<Rightarrow> uuid \<Rightarrow> bool \<Rightarrow> admin_account \<Rightarrow> administration \<Rightarrow> (administration \<times> admin_account) result" where
  "apply_suspension w actor source i suspended existing a =
     bind_res
       (if suspended \<and> \<not> ada_suspended existing \<and> ada_domain existing = None
        then bind_res (find_or ''account does not exist'' (find_local_account_by_id (ad_db a) i)) (\<lambda>local.
               with_db_res (enqueue_actor_delete_in_transaction w local) a)
        else Inr a) (\<lambda>a.
     bind_res (set_account_suspended_by_id w i suspended a) (\<lambda>(a, found).
     bind_res (find_or ''account does not exist'' (if found then find_admin_account_by_id (ad_db a) i else None)) (\<lambda>account.
     bind_res (audit_entry w (aw_audit_id w) (Some actor) source (if suspended then AccountSuspend else AccountUnsuspend)
         (account_kind account) i (account_metadata w account) a) (\<lambda>a. Inr (a, account)))))"

definition set_account_suspended_in_transaction ::
  "admin_draws \<Rightarrow> uuid \<Rightarrow> admin_audit_source \<Rightarrow> uuid \<Rightarrow> bool \<Rightarrow> administration \<Rightarrow> (administration \<times> admin_account) result" where
  "set_account_suspended_in_transaction w actor source i suspended a =
     bind_res (suspension_checks actor i suspended (ad_db a)) (\<lambda>existing. apply_suspension w actor source i suspended existing a)"

subsection \<open>Requests\<close>

datatype admin_api_error =
    AdminAuthorization report_api_error
  | AdminNotFound string
  | AdminForbidden string
  | AdminUnprocessable string
  | AdminInternal roosty_error

definition admin_err :: "'a result \<Rightarrow> admin_api_error + 'a" where
  "admin_err r =
     (case r of
        Inl (InvalidInput reason) \<Rightarrow> Inl (AdminUnprocessable reason)
      | Inl e \<Rightarrow> Inl (AdminInternal e)
      | Inr x \<Rightarrow> Inr x)"

definition bind_admin :: "admin_api_error + 'a \<Rightarrow> ('a \<Rightarrow> admin_api_error + 'b) \<Rightarrow> admin_api_error + 'b" where
  "bind_admin x f = (case x of Inl e \<Rightarrow> Inl e | Inr a \<Rightarrow> f a)"

definition authorized :: "access_token_grant \<Rightarrow> admin_permission \<Rightarrow> admin_api_error + uuid" where
  "authorized grant permission = (case require_admin grant permission of Inl e \<Rightarrow> Inl (AdminAuthorization e) | Inr i \<Rightarrow> Inr i)"

definition or_record_not_found :: "'a option \<Rightarrow> admin_api_error + 'a" where
  "or_record_not_found x = (case x of None \<Rightarrow> Inl (AdminNotFound ''Record not found'') | Some a \<Rightarrow> Inr a)"

definition unsupported_action :: "admin_api_error + 'a" where
  "unsupported_action = Inl (AdminUnprocessable ''Only none, silence, and suspend actions are supported'')"

definition account_action_for_report ::
  "admin_draws \<Rightarrow> uuid \<Rightarrow> uuid \<Rightarrow> uuid \<Rightarrow> string \<Rightarrow> administration \<Rightarrow> admin_api_error + administration" where
  "account_action_for_report w actor i report_id action_type a =
     bind_admin (admin_err (find_moderation_report (ad_mod a) report_id)) (\<lambda>found.
     bind_admin (or_record_not_found found) (\<lambda>report.
       if (case mr_target report of ReportLocal t \<Rightarrow> t | ReportRemote t \<Rightarrow> t) \<noteq> i
       then Inl (AdminUnprocessable ''Report target does not match account'')
       else
         bind_admin
           (if action_type = ''silence''
            then admin_err (bind_res (set_account_limited_in_transaction w (Some actor) AuditApi i True a) (\<lambda>(a, _). Inr a))
            else if action_type = ''suspend''
            then admin_err (bind_res (set_account_suspended_in_transaction w actor AuditApi i True a) (\<lambda>(a, _). Inr a))
            else if action_type = ''none''
            then bind_admin (or_record_not_found (find_admin_account_by_id (ad_db a) i)) (\<lambda>_. Inr a)
            else unsupported_action) (\<lambda>a.
         bind_admin (admin_err (set_moderation_report_resolved (aw_now w) report_id (Some actor) (ad_mod a))) (\<lambda>(m, _).
           admin_err (audit_entry w (aw_resolve_id w) (Some actor) AuditApi ReportResolve TargetReport report_id
             (JObj [(''account_id'', JStr (aw_id_string w i)), (''action'', JStr action_type)]) (a\<lparr>ad_mod := m\<rparr>))))))"

definition account_action ::
  "admin_draws \<Rightarrow> access_token_grant \<Rightarrow> uuid \<Rightarrow> string \<Rightarrow> uuid option \<Rightarrow> administration \<Rightarrow> admin_api_error + administration" where
  "account_action w grant i action_type report_id a =
     bind_admin (authorized grant WriteAccounts) (\<lambda>actor.
       case report_id of
         Some r \<Rightarrow> account_action_for_report w actor i r action_type a
       | None \<Rightarrow>
           if action_type = ''silence''
           then admin_err (bind_res (set_account_limited_in_transaction w (Some actor) AuditApi i True a) (\<lambda>(a, _). Inr a))
           else if action_type = ''suspend''
           then admin_err (bind_res (set_account_suspended_in_transaction w actor AuditApi i True a) (\<lambda>(a, _). Inr a))
           else if action_type = ''none'' then Inr a
           else unsupported_action)"

definition unsuspend_account ::
  "admin_draws \<Rightarrow> access_token_grant \<Rightarrow> uuid \<Rightarrow> administration \<Rightarrow> admin_api_error + administration \<times> admin_account" where
  "unsuspend_account w grant i a =
     bind_admin (authorized grant WriteAccounts) (\<lambda>actor.
       admin_err (set_account_suspended_in_transaction w actor AuditApi i False a))"

text \<open>The paths are those of the files that are removed after the commit.\<close>

definition delete_suspended_account ::
  "admin_draws \<Rightarrow> access_token_grant \<Rightarrow> uuid \<Rightarrow> administration \<Rightarrow> admin_api_error + administration \<times> string list" where
  "delete_suspended_account w grant i a =
     bind_admin (authorized grant WriteAccounts) (\<lambda>actor.
     bind_admin (or_record_not_found (find_admin_account_by_id (ad_db a) i)) (\<lambda>account.
       if \<not> ada_suspended account then Inl (AdminForbidden ''Account is not suspended'')
       else
         bind_admin (admin_err (if ada_domain account = None then purge_suspended_local_account (aw_now w) i a else Inr (a, []))) (\<lambda>(a, paths).
         bind_admin (admin_err (audit_entry w (aw_audit_id w) (Some actor) AuditApi admin_audit_action.AccountPurge (account_kind account) i
             (account_metadata w account) a)) (\<lambda>a. Inr (a, paths)))))"

definition create_account ::
  "admin_draws \<Rightarrow> access_token_grant \<Rightarrow> ustring \<Rightarrow> ustring \<Rightarrow> bool \<Rightarrow> administration \<Rightarrow>
     admin_api_error + administration \<times> admin_account \<times> ustring" where
  "create_account w grant username email is_admin a =
     bind_admin (authorized grant WriteAccounts) (\<lambda>actor.
       admin_err (admin_create_local_account w (Some actor) AuditApi username email is_admin a))"

definition reset_password ::
  "admin_draws \<Rightarrow> access_token_grant \<Rightarrow> uuid \<Rightarrow> administration \<Rightarrow> admin_api_error + administration \<times> admin_account \<times> ustring" where
  "reset_password w grant i a =
     bind_admin (authorized grant WriteAccounts) (\<lambda>actor.
     bind_admin (or_record_not_found (find_admin_account_by_id (ad_db a) i)) (\<lambda>_.
       admin_err (reset_local_password_in_transaction w (Some actor) AuditApi i a)))"

definition admin_account_request :: "access_token_grant \<Rightarrow> uuid \<Rightarrow> administration \<Rightarrow> admin_api_error + admin_account" where
  "admin_account_request grant i a =
     bind_admin (authorized grant ReadAccounts) (\<lambda>_. or_record_not_found (find_admin_account_by_id (ad_db a) i))"

definition audit_log_request ::
  "access_token_grant \<Rightarrow> nat option \<Rightarrow> uuid option \<Rightarrow> administration \<Rightarrow> admin_api_error + admin_audit_log_row list" where
  "audit_log_request grant limit max_id a =
     bind_admin (authorized grant ReadAll) (\<lambda>_.
       Inr (list_admin_audit_entries (ad_mod a) (clamp 1 100 (case limit of None \<Rightarrow> 40 | Some n \<Rightarrow> n)) max_id))"

end
