(* ===== verification/Roosty_Web_Admin.thy ===== *)
theory Roosty_Web_Admin
  imports Roosty_Administration Roosty_Domain_Policy Roosty_Worker
begin

text \<open>
  The remaining ways to administer the server: the requests on federation domain rules
  (\<^verbatim>\<open>server/src/admin.rs\<close>, 573-688), the forms of the administrator's web pages
  (\<^verbatim>\<open>server/src/web.rs\<close>, 1417-1822), and the commands of the operator (\<^verbatim>\<open>server/src/main.rs\<close>,
  226-287). They change the same tables as the requests of \<^verbatim>\<open>reports.rs\<close> and \<^verbatim>\<open>admin.rs\<close>, mostly
  through the same functions, and write their own audit entries.
\<close>

definition with_db_val :: "(db \<Rightarrow> (db \<times> 'x) result) \<Rightarrow> administration \<Rightarrow> (administration \<times> 'x) result" where
  "with_db_val f a = bind_res (f (ad_db a)) (\<lambda>(d, x). Inr (with_db (\<lambda>_. d) a, x))"

subsection \<open>Federation domain rules\<close>

definition severity_name :: "domain_block_severity \<Rightarrow> string" where
  "severity_name s = (case s of Noop \<Rightarrow> ''noop'' | Silence \<Rightarrow> ''silence'' | Suspend \<Rightarrow> ''suspend'')"

definition parse_severity :: "string \<Rightarrow> domain_block_severity option" where
  "parse_severity name = map_of [(''noop'', Noop), (''silence'', Silence), (''suspend'', Suspend)] name"

definition audit_domain_block ::
  "admin_draws \<Rightarrow> uuid \<Rightarrow> admin_audit_source \<Rightarrow> admin_audit_action \<Rightarrow> federation_domain_block_row \<Rightarrow> administration \<Rightarrow>
     administration result" where
  "audit_domain_block w actor source action block a =
     audit_entry w (aw_audit_id w) (Some actor) source action TargetFederationDomain (fdb_id block)
       (JObj [(''domain'', JStr (fdb_domain block)), (''severity'', JStr (severity_name (fdb_severity block)))]) a"

definition enqueue_domain_reconciliation ::
  "admin_draws \<Rightarrow> uuid \<Rightarrow> federation_domain_block_row \<Rightarrow> administration \<Rightarrow> administration result" where
  "enqueue_domain_reconciliation w new_job_id block a =
     with_db_res (enqueue_only new_job_id (aw_pg_now w)
       \<lparr> nj_kind = DomainModerationReconcile,
         nj_payload = JObj [(''domain_block_id'', JStr (aw_id_string w (fdb_id block)))],
         nj_deduplication_key = Some (''domain-moderation:'' @ aw_id_string w (fdb_id block)),
         nj_run_after = aw_now w \<rparr>) a"

definition create_domain_block ::
  "(ustring \<Rightarrow> url_host option) \<Rightarrow> uuid \<Rightarrow> uuid \<Rightarrow> admin_draws \<Rightarrow> access_token_grant \<Rightarrow> new_federation_domain_block \<Rightarrow>
     administration \<Rightarrow> admin_api_error + administration \<times> federation_domain_block_row" where
  "create_domain_block host_parse new_id new_job_id w grant input a =
     bind_admin (authorized grant WriteDomainBlocks) (\<lambda>actor.
     bind_admin (admin_err (with_db_val (create_federation_domain_block host_parse new_id (aw_now w) input) a)) (\<lambda>(a, block).
     bind_admin (admin_err (audit_domain_block w actor AuditApi DomainBlockCreate block a)) (\<lambda>a.
     bind_admin (admin_err (enqueue_domain_reconciliation w new_job_id block a)) (\<lambda>a. Inr (a, block)))))"

definition update_domain_block ::
  "uuid \<Rightarrow> admin_draws \<Rightarrow> access_token_grant \<Rightarrow> uuid \<Rightarrow> federation_domain_block_update \<Rightarrow> administration \<Rightarrow>
     admin_api_error + administration \<times> federation_domain_block_row" where
  "update_domain_block new_job_id w grant i update a =
     bind_admin (authorized grant WriteDomainBlocks) (\<lambda>actor.
     bind_admin (or_record_not_found (find_federation_domain_block (ad_db a) i)) (\<lambda>_.
     bind_admin (admin_err (with_db_val (update_federation_domain_block (aw_now w) i update) a)) (\<lambda>(a, block).
     bind_admin (admin_err (audit_domain_block w actor AuditApi DomainBlockUpdate block a)) (\<lambda>a.
     bind_admin (admin_err (enqueue_domain_reconciliation w new_job_id block a)) (\<lambda>a. Inr (a, block))))))"

definition delete_domain_block ::
  "admin_draws \<Rightarrow> access_token_grant \<Rightarrow> uuid \<Rightarrow> administration \<Rightarrow> admin_api_error + administration" where
  "delete_domain_block w grant i a =
     bind_admin (authorized grant WriteDomainBlocks) (\<lambda>actor.
     bind_admin (admin_err (with_db_val (\<lambda>d. Inr (delete_federation_domain_block i d)) a)) (\<lambda>(a, found).
     bind_admin (or_record_not_found found) (\<lambda>block.
       admin_err (audit_domain_block w actor AuditApi DomainBlockDelete block a))))"

subsection \<open>Forms of the web pages\<close>

datatype web_admin_error =
    WebUnauthorized
  | WebForbidden string
  | WebNotFound
  | WebUnprocessable string
  | WebInternal roosty_error

definition web_err :: "'a result \<Rightarrow> web_admin_error + 'a" where
  "web_err r =
     (case r of
        Inl (InvalidInput reason) \<Rightarrow> Inl (WebUnprocessable reason)
      | Inl e \<Rightarrow> Inl (WebInternal e)
      | Inr x \<Rightarrow> Inr x)"

definition bind_web :: "web_admin_error + 'a \<Rightarrow> ('a \<Rightarrow> web_admin_error + 'b) \<Rightarrow> web_admin_error + 'b" where
  "bind_web x f = (case x of Inl e \<Rightarrow> Inl e | Inr a \<Rightarrow> f a)"

definition or_web_not_found :: "'a option \<Rightarrow> web_admin_error + 'a" where
  "or_web_not_found x = (case x of None \<Rightarrow> Inl WebNotFound | Some a \<Rightarrow> Inr a)"

text \<open>What every form request brings: the cookies and the token of the form, and the clock they are read at.\<close>

record web_form =
  wf_env :: auth_env
  wf_now :: instant
  wf_cookie_header :: "ustring option"
  wf_csrf_token :: ustring

text \<open>
  The account of the session has to be an administrator's. The check asks for nothing else: a
  suspended administrator whose session has not expired passes it.
\<close>

definition authenticated_admin_form :: "web_form \<Rightarrow> db \<Rightarrow> web_admin_error + uuid" where
  "authenticated_admin_form f d =
     bind_web (web_err (validate_csrf_token (wf_env f) (wf_now f) (wf_cookie_header f) (wf_csrf_token f))) (\<lambda>valid.
       if \<not> valid then Inl (WebForbidden ''invalid CSRF token'')
       else
         bind_web (web_err (account_id_from_session (wf_env f) (wf_now f) (wf_cookie_header f))) (\<lambda>session.
           case session of
             None \<Rightarrow> Inl WebUnauthorized
           | Some i \<Rightarrow>
               (case find_local_account_by_id d i of
                  None \<Rightarrow> Inl (WebForbidden ''administrator privileges are required'')
                | Some account \<Rightarrow>
                    if la_is_admin account then Inr (la_id account)
                    else Inl (WebForbidden ''administrator privileges are required''))))"

definition create_admin_account ::
  "web_form \<Rightarrow> admin_draws \<Rightarrow> ustring \<Rightarrow> ustring \<Rightarrow> bool \<Rightarrow> administration \<Rightarrow>
     web_admin_error + administration \<times> admin_account \<times> ustring" where
  "create_admin_account f w username email is_admin a =
     bind_web (authenticated_admin_form f (ad_db a)) (\<lambda>actor.
       web_err (admin_create_local_account w (Some actor) AuditWeb username email is_admin a))"

definition limit_admin_account ::
  "web_form \<Rightarrow> admin_draws \<Rightarrow> uuid \<Rightarrow> bool \<Rightarrow> administration \<Rightarrow> web_admin_error + administration \<times> admin_account" where
  "limit_admin_account f w i limit_on a =
     bind_web (authenticated_admin_form f (ad_db a)) (\<lambda>actor.
       web_err (set_account_limited_in_transaction w (Some actor) AuditWeb i limit_on a))"

text \<open>One form suspends and lifts: it asks for the opposite of what is stored.\<close>

definition suspend_admin_account ::
  "web_form \<Rightarrow> admin_draws \<Rightarrow> uuid \<Rightarrow> administration \<Rightarrow> web_admin_error + administration \<times> admin_account" where
  "suspend_admin_account f w i a =
     bind_web (authenticated_admin_form f (ad_db a)) (\<lambda>actor.
     bind_web (or_web_not_found (find_admin_account_by_id (ad_db a) i)) (\<lambda>account.
       web_err (set_account_suspended_in_transaction w actor AuditWeb i (\<not> ada_suspended account) a)))"

definition reset_admin_password ::
  "web_form \<Rightarrow> admin_draws \<Rightarrow> uuid \<Rightarrow> administration \<Rightarrow> web_admin_error + administration \<times> admin_account \<times> ustring" where
  "reset_admin_password f w i a =
     bind_web (authenticated_admin_form f (ad_db a)) (\<lambda>actor.
     bind_web (or_web_not_found (find_admin_account_by_id (ad_db a) i)) (\<lambda>_.
       web_err (reset_local_password_in_transaction w (Some actor) AuditWeb i a)))"

definition nonempty :: "ustring \<Rightarrow> ustring option" where
  "nonempty s = (if trim s = [] then None else Some s)"

record domain_block_form =
  dbf_domain :: ustring
  dbf_severity :: string
  dbf_reject_media :: bool
  dbf_reject_reports :: bool
  dbf_private_comment :: ustring
  dbf_public_comment :: ustring
  dbf_obfuscate :: bool
  dbf_operation :: "string option"

definition form_severity :: "domain_block_form \<Rightarrow> web_admin_error + domain_block_severity" where
  "form_severity form =
     (case parse_severity (dbf_severity form) of None \<Rightarrow> Inl (WebUnprocessable ''invalid value'') | Some s \<Rightarrow> Inr s)"

definition create_admin_domain_block ::
  "(ustring \<Rightarrow> url_host option) \<Rightarrow> uuid \<Rightarrow> uuid \<Rightarrow> web_form \<Rightarrow> admin_draws \<Rightarrow> domain_block_form \<Rightarrow> administration \<Rightarrow>
     web_admin_error + administration" where
  "create_admin_domain_block host_parse new_id new_job_id f w form a =
     bind_web (authenticated_admin_form f (ad_db a)) (\<lambda>actor.
     bind_web (form_severity form) (\<lambda>severity.
     bind_web (web_err (with_db_val (create_federation_domain_block host_parse new_id (aw_now w)
         \<lparr> nfb_domain = dbf_domain form, nfb_severity = severity, nfb_reject_media = dbf_reject_media form,
           nfb_reject_reports = dbf_reject_reports form, nfb_private_comment = nonempty (dbf_private_comment form),
           nfb_public_comment = nonempty (dbf_public_comment form), nfb_obfuscate = dbf_obfuscate form \<rparr>) a)) (\<lambda>(a, block).
     bind_web (web_err (audit_domain_block w actor AuditWeb DomainBlockCreate block a)) (\<lambda>a.
       web_err (enqueue_domain_reconciliation w new_job_id block a)))))"

definition update_admin_domain_block ::
  "uuid \<Rightarrow> web_form \<Rightarrow> admin_draws \<Rightarrow> uuid \<Rightarrow> domain_block_form \<Rightarrow> administration \<Rightarrow> web_admin_error + administration" where
  "update_admin_domain_block new_job_id f w i form a =
     bind_web (authenticated_admin_form f (ad_db a)) (\<lambda>actor.
       if dbf_operation form = Some ''delete''
       then
         bind_web (web_err (with_db_val (\<lambda>d. Inr (delete_federation_domain_block i d)) a)) (\<lambda>(a, found).
         bind_web (or_web_not_found found) (\<lambda>block. web_err (audit_domain_block w actor AuditWeb DomainBlockDelete block a)))
       else
         bind_web (form_severity form) (\<lambda>severity.
         bind_web (web_err (with_db_val (update_federation_domain_block (aw_now w) i
             \<lparr> fbu_severity = Some severity, fbu_reject_media = Some (dbf_reject_media form),
               fbu_reject_reports = Some (dbf_reject_reports form),
               fbu_private_comment = Some (nonempty (dbf_private_comment form)),
               fbu_public_comment = Some (nonempty (dbf_public_comment form)), fbu_obfuscate = Some (dbf_obfuscate form) \<rparr>) a)) (\<lambda>(a, block).
         bind_web (web_err (audit_domain_block w actor AuditWeb DomainBlockUpdate block a)) (\<lambda>a.
           web_err (enqueue_domain_reconciliation w new_job_id block a)))))"

subsection \<open>Forms for rules and reports\<close>

definition with_mod :: "administration \<Rightarrow> web_admin_error + moderation \<Rightarrow> web_admin_error + administration" where
  "with_mod a r = (case r of Inl e \<Rightarrow> Inl e | Inr m \<Rightarrow> Inr (a\<lparr>ad_mod := m\<rparr>))"

datatype instance_rule_operation = RuleSave | RuleDelete | RuleUp | RuleDown

datatype report_operation = OpAssign | OpResolve | OpReopen

definition audit_web :: "report_draws \<Rightarrow> uuid \<Rightarrow> admin_audit_action \<Rightarrow> admin_audit_target_kind \<Rightarrow> uuid \<Rightarrow> json \<Rightarrow> moderation \<Rightarrow> moderation result" where
  "audit_web w actor action kind target metadata m =
     insert_admin_audit_entry (rd_audit_id w) (rd_pg_now w) (Some actor) AuditWeb action kind (rd_id_string w target) metadata m"

definition audit_web_rule :: "report_draws \<Rightarrow> uuid \<Rightarrow> admin_audit_action \<Rightarrow> instance_rule_row \<Rightarrow> moderation \<Rightarrow> moderation result" where
  "audit_web_rule w actor action r m =
     audit_web w actor action TargetInstanceRule (ir_id r) (JObj [(''text'', rd_text_json w (ir_text r))]) m"

definition create_admin_instance_rule ::
  "web_form \<Rightarrow> report_draws \<Rightarrow> ustring \<Rightarrow> administration \<Rightarrow> web_admin_error + administration" where
  "create_admin_instance_rule f w body a =
     bind_web (authenticated_admin_form f (ad_db a)) (\<lambda>actor.
       with_mod a
         (bind_web (web_err (create_instance_rule (rd_rule_id w) (rd_pg_now w) body (ad_mod a))) (\<lambda>(m, r).
            web_err (audit_web_rule w actor InstanceRuleCreate r m))))"

text \<open>\<open>ids.swap(index, destination)\<close>: the neighbour above or below, or the rule itself at the end of the list.\<close>

fun position_of :: "uuid \<Rightarrow> uuid list \<Rightarrow> nat option" where
  "position_of i [] = None"
| "position_of i (j # js) = (if i = j then Some 0 else map_option Suc (position_of i js))"

definition swap_at :: "nat \<Rightarrow> nat \<Rightarrow> uuid list \<Rightarrow> uuid list" where
  "swap_at n k ids = ids[n := ids ! k, k := ids ! n]"

definition moved_rule :: "bool \<Rightarrow> uuid \<Rightarrow> uuid list \<Rightarrow> uuid list option" where
  "moved_rule up i ids =
     map_option (\<lambda>n. swap_at n (if up then n - 1 else min (n + 1) (length ids - 1)) ids) (position_of i ids)"

definition move_rule :: "report_draws \<Rightarrow> uuid \<Rightarrow> bool \<Rightarrow> uuid \<Rightarrow> moderation \<Rightarrow> web_admin_error + moderation" where
  "move_rule w actor up i m =
     bind_web (or_web_not_found (moved_rule up i (map ir_id (list_instance_rules m)))) (\<lambda>ids.
     bind_web (web_err (reorder_instance_rules (rd_nows w) ids m)) (\<lambda>(m, _).
       web_err (audit_web w actor InstanceRuleReorder TargetInstanceRule i
         (JObj [(''rule_ids'', JArr (map (\<lambda>i. JStr (rd_id_string w i)) ids))]) m)))"

definition update_admin_instance_rule ::
  "web_form \<Rightarrow> report_draws \<Rightarrow> uuid \<Rightarrow> instance_rule_operation \<Rightarrow> ustring \<Rightarrow> administration \<Rightarrow> web_admin_error + administration" where
  "update_admin_instance_rule f w i operation body a =
     bind_web (authenticated_admin_form f (ad_db a)) (\<lambda>actor.
       with_mod a
         (case operation of
            RuleUp \<Rightarrow> move_rule w actor True i (ad_mod a)
          | RuleDown \<Rightarrow> move_rule w actor False i (ad_mod a)
          | RuleDelete \<Rightarrow>
              (let (m, found) = discard_instance_rule (rd_now w) i (ad_mod a)
               in bind_web (or_web_not_found found) (\<lambda>r. web_err (audit_web_rule w actor InstanceRuleDelete r m)))
          | RuleSave \<Rightarrow>
              bind_web (web_err (update_instance_rule (rd_now w) i body (ad_mod a))) (\<lambda>(m, found).
              bind_web (or_web_not_found found) (\<lambda>r. web_err (audit_web_rule w actor InstanceRuleUpdate r m)))))"

definition report_change ::
  "report_operation \<Rightarrow> instant \<Rightarrow> uuid \<Rightarrow> uuid \<Rightarrow> moderation \<Rightarrow> (moderation \<times> moderation_report option) result" where
  "report_change operation now report actor m =
     (case operation of
        OpAssign \<Rightarrow> assign_moderation_report now report (Some actor) m
      | OpResolve \<Rightarrow> set_moderation_report_resolved now report (Some actor) m
      | OpReopen \<Rightarrow> set_moderation_report_resolved now report None m)"

definition report_change_action :: "report_operation \<Rightarrow> admin_audit_action" where
  "report_change_action operation =
     (case operation of OpAssign \<Rightarrow> ReportAssign | OpResolve \<Rightarrow> ReportResolve | OpReopen \<Rightarrow> ReportReopen)"

definition web_update_admin_report ::
  "web_form \<Rightarrow> report_draws \<Rightarrow> uuid \<Rightarrow> report_operation \<Rightarrow> administration \<Rightarrow> web_admin_error + administration" where
  "web_update_admin_report f w report operation a =
     bind_web (authenticated_admin_form f (ad_db a)) (\<lambda>actor.
       with_mod a
         (bind_web (web_err (report_change operation (rd_now w) report actor (ad_mod a))) (\<lambda>(m, found).
          bind_web (or_web_not_found found) (\<lambda>_.
            web_err (audit_web w actor (report_change_action operation) TargetReport report (JObj []) m)))))"

definition delete_admin_report_status ::
  "web_form \<Rightarrow> report_draws \<Rightarrow> (report_status \<Rightarrow> db \<Rightarrow> (db \<times> bool) result) \<Rightarrow> uuid \<Rightarrow> uuid \<Rightarrow> administration \<Rightarrow>
     web_admin_error + administration" where
  "delete_admin_report_status f w deletion report status a =
     bind_web (authenticated_admin_form f (ad_db a)) (\<lambda>actor.
       with_mod a
         (bind_web (web_err (remove_report_status deletion report status (ad_mod a))) (\<lambda>removed.
          bind_web (or_web_not_found removed) (\<lambda>m.
            web_err (audit_web w actor ReportUpdate TargetReport report
              (JObj [(''removed_status_id'', JStr (rd_id_string w status))]) m)))))"

subsection \<open>Commands of the operator\<close>

definition find_local_account_by_username :: "db \<Rightarrow> ustring \<Rightarrow> local_account_row option" where
  "find_local_account_by_username d username = List.find (\<lambda>r. la_username r = username) (t_local_account d)"

definition create_user ::
  "admin_draws \<Rightarrow> ustring \<Rightarrow> ustring \<Rightarrow> bool \<Rightarrow> administration \<Rightarrow> (administration \<times> admin_account \<times> ustring) result" where
  "create_user w username email admin a = admin_create_local_account w None AuditCli username email admin a"

definition operator_reset_password ::
  "admin_draws \<Rightarrow> ustring \<Rightarrow> administration \<Rightarrow> (administration \<times> admin_account \<times> ustring) result" where
  "operator_reset_password w username a =
     bind_res (validate_username username) (\<lambda>_.
     bind_res (find_or ''local account does not exist'' (find_local_account_by_username (ad_db a) username)) (\<lambda>account.
       reset_local_password_in_transaction w None AuditCli (la_id account) a))"

text \<open>\<open>@user\<close> and \<open>user\<close> name a local account, \<open>user@domain\<close> a cached remote actor.\<close>

definition split_once_at :: "ustring \<Rightarrow> (ustring \<times> ustring) option" where
  "split_once_at s = (if 64 \<in> set s then Some (takeWhile (\<lambda>c. c \<noteq> 64) s, tl (dropWhile (\<lambda>c. c \<noteq> 64) s)) else None)"

definition named_account :: "ustring \<Rightarrow> db \<Rightarrow> uuid option" where
  "named_account name d =
     (let name = dropWhile (\<lambda>c. c = 64) (trim name)
      in case split_once_at name of
           Some (username, domain) \<Rightarrow>
             map_option ra_id (List.find (\<lambda>r. utext (ra_username r) = username \<and> utext (ra_domain r) = domain) (t_remote_actor d))
         | None \<Rightarrow> map_option la_id (find_local_account_by_username d name))"

definition operator_set_account_limited ::
  "admin_draws \<Rightarrow> ustring \<Rightarrow> bool \<Rightarrow> administration \<Rightarrow> (administration \<times> admin_account) result" where
  "operator_set_account_limited w name limit_on a =
     bind_res (find_or ''local or cached remote account does not exist'' (named_account name (ad_db a))) (\<lambda>i.
       set_account_limited_in_transaction w None AuditCli i limit_on a)"

end
