(* ===== verification/Roosty_Report_Properties.thy ===== *)
theory Roosty_Report_Properties
  imports Roosty_Reports Roosty_Relation_Properties
begin

text \<open>
  Properties of instance rules and moderation reports.
\<close>

subsection \<open>Placing rules\<close>

text \<open>What the loop makes of one row.\<close>

fun placed ::
  "(nat \<Rightarrow> instance_rule_row \<Rightarrow> instance_rule_row) \<Rightarrow> (nat \<Rightarrow> int) \<Rightarrow> nat \<Rightarrow> uuid list \<Rightarrow> instance_rule_row \<Rightarrow> instance_rule_row" where
  "placed touch position n [] r = r"
| "placed touch position n (i # is) r =
     placed touch position (Suc n) is (if ir_id r = i then touch n (r\<lparr>ir_position := position n\<rparr>) else r)"

definition keeps_place :: "(nat \<Rightarrow> instance_rule_row \<Rightarrow> instance_rule_row) \<Rightarrow> bool" where
  "keeps_place touch \<longleftrightarrow> (\<forall>n r. ir_id (touch n r) = ir_id r \<and> ir_position (touch n r) = ir_position r \<and>
     ir_discarded_at (touch n r) = ir_discarded_at r \<and> ir_text (touch n r) = ir_text r)"

lemma keeps_placeD [simp]:
  assumes "keeps_place touch"
  shows "ir_id (touch n r) = ir_id r" "ir_position (touch n r) = ir_position r"
    "ir_discarded_at (touch n r) = ir_discarded_at r" "ir_text (touch n r) = ir_text r"
  using assms by (simp_all add: keeps_place_def)

lemma placed_keeps:
  assumes "keeps_place touch"
  shows "ir_id (placed touch position n is r) = ir_id r \<and> ir_text (placed touch position n is r) = ir_text r \<and>
    ir_discarded_at (placed touch position n is r) = ir_discarded_at r"
  by (induction "is" arbitrary: n r) (simp_all add: keeps_placeD [OF assms])

lemma placed_other: "ir_id r \<notin> set is \<Longrightarrow> placed touch position n is r = r"
  by (induction "is" arbitrary: n) simp_all

lemma placed_position:
  assumes "keeps_place touch" and "distinct is" and "k < length is" and "ir_id r = is ! k"
  shows "ir_position (placed touch position n is r) = position (n + k)"
  using assms(2-4)
proof (induction "is" arbitrary: n k r)
  case (Cons i "is")
  show ?case
  proof (cases k)
    case 0
    then have "ir_id (touch n (r\<lparr>ir_position := position n\<rparr>)) \<notin> set is"
      using Cons.prems keeps_placeD(1) [OF assms(1)] by simp
    then show ?thesis using 0 Cons.prems(3) keeps_placeD(2) [OF assms(1)] by (simp add: placed_other)
  next
    case (Suc j)
    then have "ir_id r \<noteq> i" using Cons.prems by (auto simp: in_set_conv_nth)
    then show ?thesis using Suc Cons.IH [of j r "Suc n"] Cons.prems by simp
  qed
qed simp

lemma place_rules_ok:
  assumes "keeps_place touch" and "distinct is" and "distinct (map ir_id t)" and "set is \<subseteq> ir_id ` set t"
    and "\<And>k. n \<le> k \<Longrightarrow> k < n + length is \<Longrightarrow> 0 \<le> position k"
    and "inj_on position {n..<n + length is}"
    and "\<And>r k. r \<in> set t \<Longrightarrow> ir_active r \<Longrightarrow> n \<le> k \<Longrightarrow> k < n + length is \<Longrightarrow> ir_position r \<noteq> position k"
  shows "place_rules touch position n is t = Inr (map (placed touch position n is) t)"
  using assms(2-)
proof (induction "is" arbitrary: n t)
  case (Cons i "is")
  let ?f = "\<lambda>r. touch n (r\<lparr>ir_position := position n\<rparr>)"
  let ?t = "tbl_update (\<lambda>r. ir_id r = i) ?f t"
  have keep: "ir_id (?f r) = ir_id r" "ir_position (?f r) = position n" "ir_active (?f r) = ir_active r" for r
    using keeps_placeD [OF assms(1)] by (simp_all add: ir_active_def)
  have "\<not> list_ex (\<lambda>x. ir_id x = i \<and> list_ex (\<lambda>y. ir_id y \<noteq> i \<and> ir_conflict (?f x) y) t) t"
  proof
    assume "list_ex (\<lambda>x. ir_id x = i \<and> list_ex (\<lambda>y. ir_id y \<noteq> i \<and> ir_conflict (?f x) y) t) t"
    then obtain x y where "ir_id x = i" "y \<in> set t" "ir_id y \<noteq> i" "ir_conflict (?f x) y" by (auto simp: list_ex_iff)
    then have "ir_active y" "ir_position y = position n" using keep [of x] by (auto simp: ir_conflict_def)
    then show False using Cons.prems(6) [of y n] \<open>y \<in> set t\<close> by simp
  qed
  moreover have "list_ex (\<lambda>r. ir_id r = i) t" using Cons.prems(3) by (auto simp: list_ex_iff)
  ultimately have "place_rule (touch n) (position n) i t = Inr ?t"
    using Cons.prems(4) [of n] by (simp add: place_rule_def tbl_update_checked_def)
  moreover have "place_rules touch position (Suc n) is ?t = Inr (map (placed touch position (Suc n) is) ?t)"
  proof (rule Cons.IH)
    show "distinct is" using Cons.prems(1) by simp
    have "map ir_id ?t = map ir_id t" using keep(1) by (simp add: tbl_update_def comp_def)
    then show "distinct (map ir_id ?t)" "set is \<subseteq> ir_id ` set ?t"
      using Cons.prems(2,3) by (metis, metis insert_subset list.set(2) list.set_map)
    show "inj_on position {Suc n..<Suc n + length is}" using Cons.prems(5) by (rule inj_on_subset) auto
    show "0 \<le> position k" if "Suc n \<le> k" "k < Suc n + length is" for k using Cons.prems(4) [of k] that by simp
    show "ir_position r \<noteq> position k" if "r \<in> set ?t" "ir_active r" "Suc n \<le> k" "k < Suc n + length is" for r k
    proof -
      have "position n \<noteq> position k" using inj_onD [OF Cons.prems(5), of n k] that(3,4) by auto
      then show ?thesis using that Cons.prems(6) [of _ k] keep by (auto simp: set_tbl_update)
    qed
  qed
  ultimately show ?case by (simp add: tbl_update_def comp_def)
next
  case Nil
  have "placed touch position n [] = id" for n by (simp add: fun_eq_iff)
  then show ?case by simp
qed

lemma distinct_map_ir_id: "tbl_ok ir_conflict t \<Longrightarrow> distinct (map ir_id t)"
  by (induction t) (auto simp: ir_conflict_def)

lemma sort_eq_iff:
  fixes xs ys :: "'a::linorder list"
  assumes "distinct xs"
  shows "sort xs = sort ys \<longleftrightarrow> distinct ys \<and> set ys = set xs"
proof
  assume "sort xs = sort ys"
  then show "distinct ys \<and> set ys = set xs" using assms by (metis distinct_sort set_sort)
next
  assume "distinct ys \<and> set ys = set xs"
  then show "sort xs = sort ys" using assms by (intro sorted_distinct_set_unique) auto
qed

text \<open>The order in which rows are listed is the order of the positions they were given.\<close>

lemma ids_by_position:
  assumes "distinct (map ir_id t)" and "ir_id ` set t = set is" and "distinct is"
    and "\<And>r k. r \<in> set t \<Longrightarrow> k < length is \<Longrightarrow> ir_id r = is ! k \<Longrightarrow> ir_position r = int k"
  shows "map ir_id (sort_key ir_position t) = is"
proof -
  let ?l = "sort_key ir_position t"
  have index: "\<exists>k < length is. ir_id r = is ! k \<and> ir_position r = int k" if "r \<in> set t" for r
    using assms(2,4) that by (metis image_eqI in_set_conv_nth)
  have "inj_on ir_position (set t)"
  proof (rule inj_onI)
    fix x y assume xy: "x \<in> set t" "y \<in> set t" "ir_position x = ir_position y"
    then have "ir_id x = ir_id y" using index by (metis of_nat_eq_iff)
    then show "x = y" using assms(1) xy(1,2) by (simp add: distinct_map inj_on_def)
  qed
  then have "distinct (map ir_position ?l)" using assms(1) by (simp add: distinct_map)
  moreover have "set (map ir_position ?l) = set (map int [0..<length is])"
  proof -
    have "int k \<in> ir_position ` set t" if k: "k < length is" for k
    proof -
      obtain r where "r \<in> set t" "ir_id r = is ! k" using assms(2) nth_mem [OF k] by (metis imageE)
      then show ?thesis using assms(4) [of r k] k by (metis image_eqI)
    qed
    then have "set (map int [0..<length is]) \<subseteq> ir_position ` set t" by auto
    moreover have "ir_position ` set t \<subseteq> set (map int [0..<length is])" using index by force
    ultimately show ?thesis by simp
  qed
  moreover have "sorted (map int [0..<length is])" "distinct (map int [0..<length is])"
    by (simp_all add: sorted_map distinct_map sorted_wrt_iff_nth_less)
  ultimately have positions: "map ir_position ?l = map int [0..<length is]"
    by (intro sorted_distinct_set_unique) simp_all
  have "ir_id r = is ! nat (ir_position r)" if "r \<in> set t" for r using index [OF that] by auto
  then have "map ir_id ?l = map (\<lambda>p. is ! nat p) (map ir_position ?l)" by (simp add: comp_def)
  also have "\<dots> = is" unfolding positions by (simp add: comp_def map_nth)
  finally show ?thesis .
qed

lemma active_placed:
  assumes "keeps_place touch"
  shows "filter ir_active (map (placed touch position n is) t) = map (placed touch position n is) (filter ir_active t)"
proof -
  have "ir_active (placed touch position n is r) = ir_active r" for r
    using placed_keeps [OF assms] by (simp add: ir_active_def)
  then show ?thesis by (simp add: filter_map comp_def)
qed

lemma placed_all:
  assumes "keeps_place touch" and "distinct is" and "ir_id ` {r \<in> set t. ir_active r} \<subseteq> set is"
    and "r \<in> set (map (placed touch position 0 is) t)" and "ir_active r"
  shows "\<exists>k < length is. ir_id r = is ! k \<and> ir_position r = position k"
proof -
  obtain x where x: "x \<in> set t" "r = placed touch position 0 is x" using assms(4) by (auto simp del: placed.simps)
  then have "ir_active x" "ir_id r = ir_id x" using assms(5) placed_keeps [OF assms(1)] by (simp_all add: ir_active_def)
  then have "ir_id x \<in> set is" using x(1) assms(3) by auto
  then obtain k where "k < length is" "ir_id x = is ! k" by (metis in_set_conv_nth)
  then show ?thesis using placed_position [OF assms(1,2), of k x position 0] x(2) \<open>ir_id r = ir_id x\<close> by auto
qed

lemma active_rules_bound:
  assumes "tbl_ok ir_conflict t" and "\<forall>r \<in> set t. ir_active r \<longrightarrow> 0 \<le> ir_position r \<and> ir_position r < 1000000"
    and "distinct ids" and "set ids = ir_id ` {r \<in> set t. ir_active r}"
  shows "length ids \<le> 1000000"
proof -
  let ?a = "{r \<in> set t. ir_active r}"
  have "inj_on ir_position ?a"
    using assms(1) by (auto simp: inj_on_def ir_conflict_def dest: instance_rule.conflict_eq)
  moreover have "inj_on ir_id ?a" using distinct_map_ir_id [OF assms(1)] by (auto simp: distinct_map inj_on_def)
  ultimately have "length ids = card (ir_position ` ?a)" using assms(3,4) by (metis card_image distinct_card)
  also have "\<dots> \<le> card {0..<1000000::int}" using assms(2) by (intro card_mono) auto
  finally show ?thesis by simp
qed

text \<open>The two passes: every active rule goes to a position above a million, and from there to its place.\<close>

definition moved_aside :: "uuid list \<Rightarrow> instance_rule_row list \<Rightarrow> instance_rule_row list" where
  "moved_aside ids t = map (placed (\<lambda>_ r. r) (\<lambda>n. sat_add_i32 1000000 (u32_as_i32 n)) 0 ids) t"

definition moved_in :: "(nat \<Rightarrow> instant) \<Rightarrow> uuid list \<Rightarrow> instance_rule_row list \<Rightarrow> instance_rule_row list" where
  "moved_in now ids t = map (placed (\<lambda>n r. r\<lparr>ir_updated_at := now n\<rparr>) u32_as_i32 0 ids) t"

lemma keeps_place_passes: "keeps_place (\<lambda>_ r. r)" "keeps_place (\<lambda>n r. r\<lparr>ir_updated_at := now n\<rparr>)"
  by (simp_all add: keeps_place_def)

lemma moved_ids:
  "map ir_id (moved_aside ids t) = map ir_id t" "map ir_id (moved_in now ids t) = map ir_id t"
  "filter ir_active (moved_aside ids t) = moved_aside ids (filter ir_active t)"
  "filter ir_active (moved_in now ids t) = moved_in now ids (filter ir_active t)"
  "map (\<lambda>r. (ir_id r, ir_text r, ir_discarded_at r)) (moved_aside ids t) = map (\<lambda>r. (ir_id r, ir_text r, ir_discarded_at r)) t"
  "map (\<lambda>r. (ir_id r, ir_text r, ir_discarded_at r)) (moved_in now ids t) = map (\<lambda>r. (ir_id r, ir_text r, ir_discarded_at r)) t"
  using placed_keeps [OF keeps_place_passes(1)] placed_keeps [OF keeps_place_passes(2)]
    active_placed [OF keeps_place_passes(1)] active_placed [OF keeps_place_passes(2)]
  by (simp_all add: moved_aside_def moved_in_def)

lemma active_ids: "ir_id ` {r \<in> set t. ir_active r} = set (map ir_id (filter ir_active t))"
  by simp

lemma reorder_passes:
  assumes ok: "tbl_ok ir_conflict t" and bounds: "\<forall>r \<in> set t. ir_active r \<longrightarrow> 0 \<le> ir_position r \<and> ir_position r < 1000000"
    and dist: "distinct ids" and ids: "set ids = ir_id ` {r \<in> set t. ir_active r}"
  shows "place_rules (\<lambda>_ r. r) (\<lambda>n. sat_add_i32 1000000 (u32_as_i32 n)) 0 ids t = Inr (moved_aside ids t)" (is ?first)
    and "place_rules (\<lambda>n r. r\<lparr>ir_updated_at := now n\<rparr>) u32_as_i32 0 ids (moved_aside ids t) =
      Inr (moved_in now ids (moved_aside ids t))" (is ?second)
    and "map ir_id (sort_key ir_position (filter ir_active (moved_in now ids (moved_aside ids t)))) = ids" (is ?order)
proof -
  have len: "length ids \<le> 1000000" by (rule active_rules_bound [OF ok bounds dist ids])
  have p: "sat_add_i32 1000000 (u32_as_i32 k) = 1000000 + int k" "u32_as_i32 k = int k" if "k < length ids" for k
    using that len by (simp_all add: sat_add_i32_def i32_max_def)
  have unique: "distinct (map ir_id t)" using ok by (rule distinct_map_ir_id)
  show ?first
    unfolding moved_aside_def
  proof (rule place_rules_ok [OF keeps_place_passes(1) dist unique])
    show "set ids \<subseteq> ir_id ` set t" using ids by auto
    show "ir_position r \<noteq> sat_add_i32 1000000 (u32_as_i32 k)" if "r \<in> set t" "ir_active r" "0 \<le> k" "k < 0 + length ids" for r k
    proof -
      have "ir_position r < 1000000" using bounds that(1,2) by blast
      then show ?thesis using p(1) [of k] that(4) by simp
    qed
  qed (use p in \<open>auto simp: inj_on_def\<close>)
  have aside: "\<exists>k < length ids. ir_id r = ids ! k \<and> ir_position r = 1000000 + int k"
    if "r \<in> set (moved_aside ids t)" "ir_active r" for r
  proof -
    have "ir_id ` {r \<in> set t. ir_active r} \<subseteq> set ids" using ids by simp
    from placed_all [OF keeps_place_passes(1) dist this that(1) [unfolded moved_aside_def] that(2)]
    show ?thesis using p(1) by metis
  qed
  have aside_ids: "ir_id ` {r \<in> set (moved_aside ids t). ir_active r} = set ids"
    unfolding active_ids moved_ids(3) moved_ids(1) using ids by simp
  show ?second
    unfolding moved_in_def
  proof (rule place_rules_ok [OF keeps_place_passes(2) dist])
    show "distinct (map ir_id (moved_aside ids t))" using unique moved_ids(1) by metis
    show "set ids \<subseteq> ir_id ` set (moved_aside ids t)" using aside_ids by auto
    show "ir_position r \<noteq> u32_as_i32 k" if "r \<in> set (moved_aside ids t)" "ir_active r" "0 \<le> k" "k < 0 + length ids" for r k
      using aside [OF that(1,2)] that(4) p(2) len by auto
  qed (use p(2) in \<open>auto simp: inj_on_def\<close>)
  show ?order
  proof (rule ids_by_position [OF _ _ dist])
    let ?l = "filter ir_active (moved_in now ids (moved_aside ids t))"
    have same: "map ir_id ?l = map ir_id (filter ir_active t)" by (simp only: moved_ids)
    then show "distinct (map ir_id ?l)" using unique by (simp add: distinct_map_filter)
    show "ir_id ` set ?l = set ids" using arg_cong [OF same, of set] unfolding ids by (simp only: set_map set_filter)
    show "ir_position r = int k" if "r \<in> set ?l" "k < length ids" "ir_id r = ids ! k" for r k
    proof -
      have "r \<in> set (moved_in now ids (moved_aside ids t))" "ir_active r" using that(1) by simp_all
      from placed_all [OF keeps_place_passes(2) dist _ this(1) [unfolded moved_in_def] this(2)]
      obtain j where "j < length ids" "ir_id r = ids ! j" "ir_position r = u32_as_i32 j"
        using aside_ids by (metis order_refl)
      then show ?thesis using that(2,3) dist p(2) by (simp add: nth_eq_iff_index_eq)
    qed
  qed
qed

text \<open>
  C31: reordering rules does what it is asked to, or nothing. Positions of active rules are unique in the
  table, and rules change their positions one by one, so the new order is reached through
  positions that no rule uses. As long as positions are below a million, the request succeeds
  exactly for the lists that name every active rule once; then the rules are listed in that order, and
  identities, texts and retired rules are as they were.
\<close>

theorem reorder_sets_the_order:
  assumes "tbl_ok ir_conflict (t_instance_rule m)"
    and "\<forall>r \<in> set (t_instance_rule m). ir_active r \<longrightarrow> 0 \<le> ir_position r \<and> ir_position r < 1000000"
  shows "if distinct ids \<and> set ids = ir_id ` set (list_instance_rules m)
    then \<exists>m' rules. reorder_instance_rules now ids m = Inr (m', rules) \<and> rules = list_instance_rules m' \<and> map ir_id rules = ids \<and>
      map (\<lambda>r. (ir_id r, ir_text r, ir_discarded_at r)) (t_instance_rule m') =
        map (\<lambda>r. (ir_id r, ir_text r, ir_discarded_at r)) (t_instance_rule m) \<and> m' = m\<lparr>t_instance_rule := t_instance_rule m'\<rparr>
    else reorder_instance_rules now ids m = Inl (InvalidInput ''rule order must contain every active rule exactly once'')"
proof -
  have ids: "distinct (map ir_id (list_instance_rules m))"
    using distinct_map_ir_id [OF assms(1)] by (simp add: list_instance_rules_def tbl_order_def distinct_map inj_on_def)
  show ?thesis
  proof (cases "distinct ids \<and> set ids = ir_id ` set (list_instance_rules m)")
    case True
    then have "distinct ids" "set ids = ir_id ` {r \<in> set (t_instance_rule m). ir_active r}"
      by (auto simp: list_instance_rules_def)
    note passes = reorder_passes(1) [OF assms this] reorder_passes(2,3) [OF assms this, of now]
    let ?m = "m\<lparr>t_instance_rule := moved_in now ids (moved_aside ids (t_instance_rule m))\<rparr>"
    have "reorder_instance_rules now ids m = Inr (?m, list_instance_rules ?m)"
      using sort_eq_iff [OF ids, of ids] True passes(1,2) by (simp add: reorder_instance_rules_def Let_def)
    moreover have "map ir_id (list_instance_rules ?m) = ids"
      using passes(3) by (simp add: list_instance_rules_def tbl_order_def)
    moreover have "map (\<lambda>r. (ir_id r, ir_text r, ir_discarded_at r)) (t_instance_rule ?m) =
        map (\<lambda>r. (ir_id r, ir_text r, ir_discarded_at r)) (t_instance_rule m)"
      by (simp add: moved_ids)
    ultimately show ?thesis using True by auto
  next
    case False
    then show ?thesis using sort_eq_iff [OF ids, of ids] by (auto simp: reorder_instance_rules_def Let_def)
  qed
qed

definition demo_ir :: "uuid \<Rightarrow> int \<Rightarrow> instance_rule_row" where
  "demo_ir i position = \<lparr> ir_id = i, ir_text = utext ''Be kind'', ir_position = position, ir_created_at = 0, ir_updated_at = 0,
     ir_discarded_at = None \<rparr>"

definition demo_moderation :: "instance_rule_row list \<Rightarrow> moderation_report_row list \<Rightarrow> moderation" where
  "demo_moderation rules reports = \<lparr> m_db = empty_db, t_instance_rule = rules, t_moderation_report = reports, t_report_status = [],
     t_report_rule = [], t_admin_audit_log = [] \<rparr>"

theorem reorder_sets_the_order_witness:
  "\<exists>m'. reorder_instance_rules (\<lambda>_. 9) [2, 1] (demo_moderation [demo_ir 1 0, demo_ir 2 1] []) =
     Inr (m', list_instance_rules m') \<and> map ir_id (list_instance_rules m') = [2, 1]"
proof -
  let ?m = "demo_moderation [demo_ir 1 0, demo_ir 2 1] []"
  have "tbl_ok ir_conflict (t_instance_rule ?m)"
    "\<forall>r \<in> set (t_instance_rule ?m). ir_active r \<longrightarrow> 0 \<le> ir_position r \<and> ir_position r < 1000000"
    "distinct [2, 1 :: uuid] \<and> set [2, 1] = ir_id ` set (list_instance_rules ?m)"
    by (auto simp: demo_moderation_def demo_ir_def ir_conflict_def ir_active_def list_instance_rules_def)
  then show ?thesis using reorder_sets_the_order [of ?m "[2, 1]" "\<lambda>_. 9"] by auto
qed

subsection \<open>Filing and reading a report\<close>

lemma report_account_roundtrip:
  "report_account_columns a = (l, r) \<Longrightarrow> report_account_of l r = Inr a"
  by (cases a) auto

lemma status_columns_roundtrip:
  "report_status_columns s = (l, r) \<Longrightarrow>
     status_reference \<lparr> mrs_report_id = i, mrs_position = k, mrs_local_status_id = l, mrs_remote_status_id = r \<rparr> = Some s"
  by (cases s) (auto simp: status_reference_def)

lemma upt_Cons_eq: "[n..<Suc (n + k)] = n # [Suc n..<Suc (n + k)]"
  by (simp add: upt_conv_Cons del: upt_Suc)

text \<open>The rows that the loops append, with their positions.\<close>

lemma insert_report_statuses_rows:
  assumes "insert_report_statuses d i n ss t = Inr t'"
  obtains rows where "t' = t @ rows" and "map mrs_position rows = map u32_as_i32 [n..<n + length ss]"
    and "\<forall>r \<in> set rows. mrs_report_id r = i" and "List.map_filter status_reference rows = ss"
  using assms
proof (induction ss arbitrary: n t thesis)
  case Nil
  then show ?case by (simp add: List.map_filter_simps)
next
  case (Cons s ss)
  obtain l r where cols: "report_status_columns s = (l, r)" by (cases "report_status_columns s")
  let ?row = "\<lparr> mrs_report_id = i, mrs_position = u32_as_i32 n, mrs_local_status_id = l, mrs_remote_status_id = r \<rparr>"
  have "insert_report_statuses d i (Suc n) ss (t @ [?row]) = Inr t'"
    using Cons.prems(2) cols by (auto simp: bind_res_Inr_iff with_fk_Inr tbl_insert_Inr)
  then obtain rows where rows: "t' = (t @ [?row]) @ rows" "map mrs_position rows = map u32_as_i32 [Suc n..<Suc n + length ss]"
    "\<forall>r \<in> set rows. mrs_report_id r = i" "List.map_filter status_reference rows = ss"
    by (rule Cons.IH [rotated]) (rule that)
  show ?case
  proof (rule Cons.prems(1))
    show "t' = t @ (?row # rows)" using rows(1) by simp
    show "map mrs_position (?row # rows) = map u32_as_i32 [n..<n + length (s # ss)]"
      using rows(2) by (simp add: upt_Cons_eq del: upt_Suc)
    show "\<forall>r \<in> set (?row # rows). mrs_report_id r = i" using rows(3) by simp
    show "List.map_filter status_reference (?row # rows) = s # ss"
      using rows(4) status_columns_roundtrip [OF cols] by (simp add: List.map_filter_simps)
  qed
qed

lemma insert_rule_snapshots_rows:
  assumes "insert_rule_snapshots rules i n rs t = Inr t'"
  obtains rows where "t' = t @ rows" and "map mrr_position rows = map u32_as_i32 [n..<n + length rs]"
    and "\<forall>r \<in> set rows. mrr_report_id r = i" and "map (\<lambda>x. (mrr_rule_id x, mrr_rule_text x)) rows = rs"
  using assms
proof (induction rs arbitrary: n t thesis)
  case (Cons x rs)
  obtain k body where x: "x = (k, body)" by (cases x)
  let ?row = "\<lparr> mrr_report_id = i, mrr_position = u32_as_i32 n, mrr_rule_id = k, mrr_rule_text = body \<rparr>"
  have "insert_rule_snapshots rules i (Suc n) rs (t @ [?row]) = Inr t'"
    using Cons.prems(2) x by (auto simp: bind_res_Inr_iff with_fk_Inr tbl_insert_Inr)
  then obtain rows where rows: "t' = (t @ [?row]) @ rows" "map mrr_position rows = map u32_as_i32 [Suc n..<Suc n + length rs]"
    "\<forall>r \<in> set rows. mrr_report_id r = i" "map (\<lambda>x. (mrr_rule_id x, mrr_rule_text x)) rows = rs"
    by (rule Cons.IH [rotated]) (rule that)
  show ?case
    using rows x by (intro Cons.prems(1) [of "?row # rows"]) (simp_all add: upt_Cons_eq del: upt_Suc)
qed simp

text \<open>Reading the appended rows back in the order of their positions.\<close>

lemma read_appended:
  assumes "\<forall>x \<in> set t. owner x \<noteq> i" and "\<forall>x \<in> set rows. owner x = i"
    and "map position rows = map u32_as_i32 [0..<n]" and "n \<le> 2147483648"
  shows "filter (\<lambda>x. owner x = i) (tbl_order position (t @ rows)) = rows"
    and "j \<noteq> i \<Longrightarrow> filter (\<lambda>x. owner x = j) (tbl_order position (t @ rows)) = filter (\<lambda>x. owner x = j) (tbl_order position t)"
proof -
  have "map position rows = map int [0..<n]" unfolding assms(3) using assms(4) by simp
  then have "sorted (map position rows)" by (simp add: sorted_map sorted_wrt_iff_nth_less)
  then show "filter (\<lambda>x. owner x = i) (tbl_order position (t @ rows)) = rows"
    unfolding tbl_order_def filter_sort using assms(1,2) by (simp add: sort_key_id_if_sorted filter_empty_conv)
  show "filter (\<lambda>x. owner x = j) (tbl_order position (t @ rows)) = filter (\<lambda>x. owner x = j) (tbl_order position t)" if "j \<noteq> i"
    using assms(2) that unfolding tbl_order_def filter_sort by (simp add: filter_empty_conv)
qed

lemma new_report_row_simps [simp]:
  "mo_id (new_report_row i now input) = i" "mo_category (new_report_row i now input) = nmr_category input"
  "mo_comment (new_report_row i now input) = nmr_comment input" "mo_action_taken_at (new_report_row i now input) = None"
  "report_account_of (mo_source_local_account_id (new_report_row i now input)) (mo_source_remote_actor_id (new_report_row i now input)) =
     Inr (nmr_source input)"
  "report_account_of (mo_target_local_account_id (new_report_row i now input)) (mo_target_remote_actor_id (new_report_row i now input)) =
     Inr (nmr_target input)"
  by (auto simp: new_report_row_def Let_def report_account_roundtrip split: prod.split)

lemma find_report_eq:
  "find_moderation_report m i =
     (case stored_report m i of None \<Rightarrow> Inr None | Some r \<Rightarrow> bind_res (hydrate_report m r) (\<lambda>x. Inr (Some x)))"
  by (simp add: find_moderation_report_def stored_report_def hydrate_reports_def bind_res_def split: option.split sum.split)

lemma snapshots_spec:
  assumes "active_rule_snapshots m ids = Inr rules"
  shows "map fst rules = map Some ids" and "length rules = length ids"
proof -
  have "list_all2 (\<lambda>i x. fst x = Some i) ids rules"
    using map_res_nth [OF assms [unfolded active_rule_snapshots_def]]
    by (rule list_all2_mono) (auto split: option.splits)
  then show "map fst rules = map Some ids" "length rules = length ids"
    by (auto simp: list_all2_conv_all_nth intro: nth_equalityI)
qed

lemma create_report_cases:
  assumes "create_moderation_report i now input m = Inr (m', r)"
  obtains rules statuses snapshots where "active_rule_snapshots m (nmr_rule_ids input) = Inr rules"
    and "\<forall>x \<in> set (t_moderation_report m). mo_id x \<noteq> i"
    and "insert_report_statuses (m_db m) i 0 (nmr_statuses input) (t_report_status m) = Inr statuses"
    and "insert_rule_snapshots (t_instance_rule m) i 0 rules (t_report_rule m) = Inr snapshots"
    and "m' = m\<lparr>t_moderation_report := t_moderation_report m @ [new_report_row i now input], t_report_status := statuses,
      t_report_rule := snapshots\<rparr>"
    and "find_moderation_report m' i = Inr (Some r)" and "nmr_category input = CatViolation \<Longrightarrow> rules \<noteq> []"
proof -
  note defs = create_moderation_report_def bind_res_Inr_iff with_fk_Inr tbl_insert_Inr mo_conflict_def violation_without_rule_def Let_def
  obtain rules where rules: "active_rule_snapshots m (nmr_rule_ids input) = Inr rules"
    using assms by (cases "active_rule_snapshots m (nmr_rule_ids input)") (simp_all add: create_moderation_report_def split: if_splits)
  obtain statuses where statuses: "insert_report_statuses (m_db m) i 0 (nmr_statuses input) (t_report_status m) = Inr statuses"
    using assms by (cases "insert_report_statuses (m_db m) i 0 (nmr_statuses input) (t_report_status m)")
      (auto simp: defs split: if_splits)
  obtain snapshots where snapshots: "insert_rule_snapshots (t_instance_rule m) i 0 rules (t_report_rule m) = Inr snapshots"
    using assms rules by (cases "insert_rule_snapshots (t_instance_rule m) i 0 rules (t_report_rule m)")
      (auto simp: defs split: if_splits)
  show thesis
    by (rule that [OF rules _ statuses snapshots])
      (use assms rules statuses snapshots in \<open>auto simp: defs split: if_splits option.splits\<close>)
qed

text \<open>
  C32: a report is kept as it was filed. The report that filing returns is what reading finds; it has
  the accounts, the category and the comment of the input, its evidence in the order given, and
  the rules that were named, in their order. It reads the same whatever becomes of the rules
  afterwards, and no other report reads differently.
\<close>

theorem filed_report_is_kept:
  assumes "create_moderation_report i now input m = Inr (m', r)"
    and "\<forall>x \<in> set (t_report_status m). mrs_report_id x \<in> mo_id ` set (t_moderation_report m)"
    and "\<forall>x \<in> set (t_report_rule m). mrr_report_id x \<in> mo_id ` set (t_moderation_report m)"
    and "length (nmr_statuses input) \<le> 2147483648" and "length (nmr_rule_ids input) \<le> 2147483648"
  shows "(\<forall>rules. find_moderation_report (m'\<lparr>t_instance_rule := rules\<rparr>) i = Inr (Some r)) \<and>
    mr_source r = nmr_source input \<and> mr_target r = nmr_target input \<and> mr_category r = nmr_category input \<and>
    mr_comment r = nmr_comment input \<and> mr_action_taken_at r = None \<and> mr_statuses r = nmr_statuses input \<and>
    map rr_id (mr_rules r) = map Some (nmr_rule_ids input) \<and> (mr_category r = CatViolation \<longrightarrow> mr_rules r \<noteq> []) \<and>
    (\<forall>j. j \<noteq> i \<longrightarrow> find_moderation_report m' j = find_moderation_report m j)"
proof -
  obtain rules statuses snapshots where rules: "active_rule_snapshots m (nmr_rule_ids input) = Inr rules"
    and fresh: "\<forall>x \<in> set (t_moderation_report m). mo_id x \<noteq> i"
    and ins: "insert_report_statuses (m_db m) i 0 (nmr_statuses input) (t_report_status m) = Inr statuses"
      "insert_rule_snapshots (t_instance_rule m) i 0 rules (t_report_rule m) = Inr snapshots"
    and m': "m' = m\<lparr>t_moderation_report := t_moderation_report m @ [new_report_row i now input], t_report_status := statuses,
      t_report_rule := snapshots\<rparr>"
    and found: "find_moderation_report m' i = Inr (Some r)" and violation: "nmr_category input = CatViolation \<Longrightarrow> rules \<noteq> []"
    by (rule create_report_cases [OF assms(1)]) (rule that)
  obtain ss where ss: "statuses = t_report_status m @ ss" "map mrs_position ss = map u32_as_i32 [0..<length (nmr_statuses input)]"
    "\<forall>x \<in> set ss. mrs_report_id x = i" "List.map_filter status_reference ss = nmr_statuses input"
    using insert_report_statuses_rows [OF ins(1)] by (metis add_0)
  obtain rs where rs: "snapshots = t_report_rule m @ rs" "map mrr_position rs = map u32_as_i32 [0..<length rules]"
    "\<forall>x \<in> set rs. mrr_report_id x = i" "map (\<lambda>x. (mrr_rule_id x, mrr_rule_text x)) rs = rules"
    using insert_rule_snapshots_rows [OF ins(2)] by (metis add_0)
  have old: "\<forall>x \<in> set (t_report_status m). mrs_report_id x \<noteq> i" "\<forall>x \<in> set (t_report_rule m). mrr_report_id x \<noteq> i"
    using assms(2,3) fresh by force+
  have len: "length rules \<le> 2147483648" using snapshots_spec(2) [OF rules] assms(5) by simp
  note s = read_appended [OF old(1) ss(3,2) assms(4)] and q = read_appended [OF old(2) rs(3,2) len]
  have row: "stored_report m' i = Some (new_report_row i now input)"
    using fresh by (auto simp: stored_report_def m' find_append find_None_iff split: option.split dest!: find_Some_mem)
  then have r: "hydrate_report m' (new_report_row i now input) = Inr r"
    using found by (simp add: find_report_eq bind_res_Inr_iff)
  have "mr_source r = nmr_source input \<and> mr_target r = nmr_target input \<and> mr_category r = nmr_category input \<and>
      mr_comment r = nmr_comment input \<and> mr_action_taken_at r = None \<and> mr_statuses r = nmr_statuses input \<and>
      mr_rules r = map (\<lambda>x. \<lparr> rr_id = mrr_rule_id x, rr_text = mrr_rule_text x \<rparr>) rs"
    using r by (auto simp: hydrate_report_def m' ss(1,4) rs(1) s(1) q(1))
  moreover have "map mrr_rule_id rs = map Some (nmr_rule_ids input)"
    using snapshots_spec(1) [OF rules] rs(4) by (metis (no_types, lifting) map_map fst_conv comp_apply map_cong)
  moreover have "rs = [] \<Longrightarrow> rules = []" using rs(4) by auto
  moreover have "find_moderation_report m' j = find_moderation_report m j" if "j \<noteq> i" for j
    using that by (simp add: find_report_eq stored_report_def m' find_append hydrate_report_def ss(1) rs(1) s(2) q(2) split: option.split)
      (auto dest!: find_Some_mem simp: s(2) q(2) ss(1) rs(1))
  moreover have "find_moderation_report (m'\<lparr>t_instance_rule := rules'\<rparr>) i = Inr (Some r)" for rules'
    using row r by (simp add: find_report_eq stored_report_def hydrate_report_def)
  ultimately show ?thesis using violation by (auto simp: comp_def)
qed

text \<open>A server with a rule, where account 1 can report the remote actor 8.\<close>

definition demo_report :: new_moderation_report where
  "demo_report = \<lparr> nmr_source = ReportLocal 1, nmr_target = ReportRemote 8, nmr_category = CatViolation, nmr_comment = [],
     nmr_forwarded = False, nmr_activitypub_id = None, nmr_statuses = [], nmr_rule_ids = [2] \<rparr>"

definition demo_reported :: moderation where
  "demo_reported = (demo_moderation [demo_ir 1 0, demo_ir 2 1] [new_report_row 30 0 demo_report])
     \<lparr>m_db := demo_world,
      t_report_rule := [\<lparr> mrr_report_id = 30, mrr_position = 0, mrr_rule_id = Some 2, mrr_rule_text = utext ''Be kind'' \<rparr>]\<rparr>"

lemmas demo_report_eval = demo_moderation_def demo_ir_def demo_report_def demo_reported_def create_moderation_report_def
  active_rule_snapshots_def find_active_rule_def ir_active_def violation_without_rule_def with_fk_def mo_fk_def new_report_row_def
  tbl_insert_def fk_opt_def fk_local_def fk_remote_def find_moderation_report_def hydrate_reports_def hydrate_report_def tbl_order_def
  demo_world_def empty_db_def Let_def List.map_filter_simps

lemma demo_filed:
  "\<exists>r. create_moderation_report 30 0 demo_report ((demo_moderation [demo_ir 1 0, demo_ir 2 1] [])\<lparr>m_db := demo_world\<rparr>) =
     Inr (demo_reported, r)"
  by (simp add: demo_report_eval)

theorem filed_report_is_kept_witness:
  "\<exists>r. find_moderation_report (demo_reported\<lparr>t_instance_rule := []\<rparr>) 30 = Inr (Some r) \<and> map rr_id (mr_rules r) = [Some 2]"
proof -
  let ?m = "(demo_moderation [demo_ir 1 0, demo_ir 2 1] [])\<lparr>m_db := demo_world\<rparr>"
  obtain r where "create_moderation_report 30 0 demo_report ?m = Inr (demo_reported, r)" using demo_filed by blast
  from filed_report_is_kept [OF this] show ?thesis by (simp add: demo_moderation_def demo_report_def)
qed

subsection \<open>What moderators do\<close>

definition may_moderate :: "access_token_grant \<Rightarrow> bool" where
  "may_moderate token \<longleftrightarrow> la_is_admin (atg_account token) \<and>
     (\<exists>s \<in> set (split_ascii_whitespace (atg_scopes token)). s = utext ''admin:write'' \<or> s = utext ''admin:write:reports'')"

lemma bind_report_Inr: "bind_report x f = Inr y \<longleftrightarrow> (\<exists>a. x = Inr a \<and> f a = Inr y)"
  by (simp add: bind_report_def split: sum.split)

lemma report_err_Inr: "report_err x = Inr y \<longleftrightarrow> x = Inr y"
  by (auto simp: report_err_def split: sum.split roosty_error.split)

lemma or_report_not_found_Inr: "or_report_not_found x = Inr y \<longleftrightarrow> x = Some y"
  by (simp add: or_report_not_found_def split: option.split)

lemma report_admin_Inr: "report_admin token True = Inr actor \<longleftrightarrow> may_moderate token \<and> actor = la_id (atg_account token)"
  by (auto simp: report_admin_def require_admin_def may_moderate_def allows_scope_def list_ex_iff)

lemmas report_Inr = bind_report_Inr report_err_Inr or_report_not_found_Inr report_admin_Inr

text \<open>Every change of a moderator is one of the tables and one entry of the log.\<close>

definition audited :: "uuid \<Rightarrow> moderation \<Rightarrow> moderation \<Rightarrow> bool" where
  "audited actor m m' \<longleftrightarrow> (\<exists>row. t_admin_audit_log m' = t_admin_audit_log m @ [row] \<and> aal_actor_account_id row = Some actor)"

lemma insert_audit_Inr:
  assumes "insert_admin_audit_entry i now (Some actor) s a k t j m1 = Inr m'" and "t_admin_audit_log m1 = t_admin_audit_log m"
  shows "audited actor m m'"
  using assms by (auto simp: insert_admin_audit_entry_def bind_res_Inr_iff with_fk_Inr tbl_insert_Inr audited_def)

lemma log_kept:
  "update_moderation_report now i c ids m = Inr (m1, x) \<Longrightarrow> t_admin_audit_log m1 = t_admin_audit_log m"
  "assign_moderation_report now i a m = Inr (m1, x) \<Longrightarrow> t_admin_audit_log m1 = t_admin_audit_log m"
  "set_moderation_report_resolved now i a m = Inr (m1, x) \<Longrightarrow> t_admin_audit_log m1 = t_admin_audit_log m"
  "create_instance_rule i now s m = Inr (m1, r) \<Longrightarrow> t_admin_audit_log m1 = t_admin_audit_log m"
  "update_instance_rule now i s m = Inr (m1, y) \<Longrightarrow> t_admin_audit_log m1 = t_admin_audit_log m"
  "discard_instance_rule now i m = (m1, y) \<Longrightarrow> t_admin_audit_log m1 = t_admin_audit_log m"
  "reorder_instance_rules nows ids m = Inr (m1, rs) \<Longrightarrow> t_admin_audit_log m1 = t_admin_audit_log m"
  by (auto simp: update_moderation_report_def assign_moderation_report_def set_moderation_report_resolved_def create_instance_rule_def
      update_instance_rule_def discard_instance_rule_def reorder_instance_rules_def change_rule_def change_report_def Let_def
      bind_res_Inr_iff split: option.splits if_splits)

lemma change_audited_Inr:
  assumes "change_audited w actor a i j changed = Inr (m', v)" and "\<And>m1 x. changed = Inr (m1, x) \<Longrightarrow> t_admin_audit_log m1 = t_admin_audit_log m"
  shows "audited actor m m'"
  using assms(1) by (auto simp: change_audited_def report_Inr audit_report_def intro: insert_audit_Inr assms(2))

lemma filing_frame:
  assumes "create_report e w token form m = Inr (m', x)"
  shows "t_admin_audit_log m' = t_admin_audit_log m" and "t_instance_rule m' = t_instance_rule m"
    and "\<exists>r. t_moderation_report m' = t_moderation_report m @ [r]"
proof -
  obtain input m1 r d where filed: "create_moderation_report (rd_report_id w) (rd_pg_now w) input m = Inr (m1, r)" and m': "m' = m1\<lparr>m_db := d\<rparr>"
    using assms by (auto simp: create_report_def file_report_def report_Inr Let_def bind_res_Inr_iff split: if_splits option.splits)
  obtain statuses snapshots where "m1 = m\<lparr>t_moderation_report := t_moderation_report m @ [new_report_row (rd_report_id w) (rd_pg_now w) input],
      t_report_status := statuses, t_report_rule := snapshots\<rparr>"
    by (rule create_report_cases [OF filed]) (rule that)
  then show "t_admin_audit_log m' = t_admin_audit_log m" "t_instance_rule m' = t_instance_rule m"
    "\<exists>r. t_moderation_report m' = t_moderation_report m @ [r]" by (simp_all add: m')
qed

lemma report_handlers_audited:
  "update_admin_report w token report category rule_ids m = Inr (m', v) \<Longrightarrow>
     may_moderate token \<and> audited (la_id (atg_account token)) m m'"
  "mutate_assignment w token report assign m = Inr (m', v) \<Longrightarrow> may_moderate token \<and> audited (la_id (atg_account token)) m m'"
  "mutate_resolution w token report resolved m = Inr (m', v) \<Longrightarrow> may_moderate token \<and> audited (la_id (atg_account token)) m m'"
  unfolding update_admin_report_def mutate_assignment_def mutate_resolution_def bind_report_Inr report_admin_Inr
  by (elim exE conjE, simp, erule change_audited_Inr, erule log_kept)+

lemma rule_handlers_audited:
  "api_create_instance_rule w token body m = Inr (m', r) \<Longrightarrow> may_moderate token \<and> audited (la_id (atg_account token)) m m'"
  "api_update_instance_rule w token i body m = Inr (m', r) \<Longrightarrow> may_moderate token \<and> audited (la_id (atg_account token)) m m'"
  "delete_instance_rule w token i m = Inr (m', r) \<Longrightarrow> may_moderate token \<and> audited (la_id (atg_account token)) m m'"
  "api_reorder_instance_rules w token ids m = Inr (m', rs) \<Longrightarrow> may_moderate token \<and> audited (la_id (atg_account token)) m m'"
  unfolding api_create_instance_rule_def api_update_instance_rule_def delete_instance_rule_def api_reorder_instance_rules_def
    audit_rule_def report_Inr Let_def
  by (auto simp: report_Inr split: prod.splits intro!: insert_audit_Inr dest: log_kept)

lemma removed_report_status:
  "remove_report_status deletion report status m = Inr (Some m1) \<Longrightarrow> \<exists>d. m1 = m\<lparr>m_db := d\<rparr>"
  by (auto simp: remove_report_status_def bind_res_Inr_iff split: option.splits if_splits)

lemma removal_audited:
  assumes "delete_report_status w token deletion report status m = Inr m'"
  shows "may_moderate token \<and> audited (la_id (atg_account token)) m m'"
proof -
  obtain m1 where moderator: "may_moderate token" and m1: "remove_report_status deletion report status m = Inr (Some m1)"
    and entry: "insert_admin_audit_entry (rd_audit_id w) (rd_pg_now w) (Some (la_id (atg_account token))) AuditApi ReportUpdate TargetReport
      (rd_id_string w report) (JObj [(''removed_status_id'', JStr (rd_id_string w status))]) m1 = Inr m'"
    using assms unfolding delete_report_status_def report_Inr audit_report_def by blast
  then show ?thesis using insert_audit_Inr [OF entry] removed_report_status [OF m1] by auto
qed

definition demo_moderator :: access_token_grant where
  "demo_moderator = \<lparr> atg_id = 5, atg_account = (demo_account 1)\<lparr>la_is_admin := True\<rparr>, atg_scopes = utext ''admin:write'' \<rparr>"

definition demo_report_draws :: report_draws where
  "demo_report_draws = \<lparr> rd_report_id = 30, rd_rule_id = 31, rd_audit_id = 32, rd_note = (\<lambda>i. \<lparr> nd_id_string = (\<lambda>_. ''i''),
     nd_notification_id = i + 100, nd_group_id = i + 200, nd_request_id = i + 300, nd_job_id = (\<lambda>j. j + 400), nd_now = 5, nd_pg_now = 5 \<rparr>), rd_now = 5,
     rd_nows = (\<lambda>_. 5), rd_pg_now = 5, rd_id_string = (\<lambda>_. ''i''), rd_text_json = (\<lambda>_. JNull) \<rparr>"

definition demo_report_env :: fed_env where
  "demo_report_env = \<lparr> fe_actor_url = (\<lambda>_. ''https://l/users/u''), fe_id_string = (\<lambda>_. ''i''), fe_activity = 61, fe_job_id = 62,
     fe_now = 0, fe_prove = (\<lambda>_ a. Inr a) \<rparr>"

lemma demo_resolved:
  "\<exists>m' v. mutate_resolution demo_report_draws demo_moderator 30 True demo_reported = Inr (m', v)"
  by (simp add: mutate_resolution_def report_admin_def require_admin_def allows_scope_def split_ascii_whitespace_def
      is_ascii_whitespace_def utext_def demo_moderator_def demo_report_draws_def bind_report_def report_err_def
      or_report_not_found_def change_audited_def audit_report_def insert_admin_audit_entry_def set_moderation_report_resolved_def
      stored_report_def change_report_def tbl_update_def admin_report_response_def report_admin_account_def optional_admin_account_def
      find_admin_account_by_id_def find_local_account_by_id_def find_remote_actor_by_id_def find_or_def demo_report_eval)

subsection \<open>Reading reports\<close>

lemma hydrate_report_row:
  assumes "hydrate_report m r = Inr x"
  shows "mr_id x = mo_id r" and "report_account_of (mo_source_local_account_id r) (mo_source_remote_actor_id r) = Inr (mr_source x)"
    and "report_account_of (mo_target_local_account_id r) (mo_target_remote_actor_id r) = Inr (mr_target x)"
  using assms by (auto simp: hydrate_report_def bind_res_Inr_iff)

lemma map_res_ids:
  assumes "map_res f xs = Inr ys" and "\<And>x y. f x = Inr y \<Longrightarrow> k y = h x"
  shows "map k ys = map h xs"
  using map_res_nth [OF assms(1)] assms(2) by (induction rule: list_all2_induct) auto

text \<open>
  C34: what a page of reports shows. It shows the matching reports with the greatest identifiers,
  in descending order, as many as the limit allows. The link to the next page is given exactly
  when there are more, but never for the greatest limit, 200: the query for one report more is
  capped at 200 as well, so that the rest of the reports cannot be reached from that page.
\<close>

theorem report_pages:
  assumes "admin_reports token q m = Inr (page, next)"
    and "matching = order_by_desc mo_id (filter (report_matches
      \<lparr> rlo_resolved = arq_resolved q, rlo_source_account_id = arq_account_id q, rlo_target_account_id = arq_target_account_id q,
        rlo_max_id = arq_max_id q, rlo_since_id = arq_since_id q, rlo_min_id = arq_min_id q, rlo_limit = 0 \<rparr>) (t_moderation_report m))"
    and "limit = clamp 1 200 (case arq_limit q of None \<Rightarrow> 40 | Some n \<Rightarrow> n)"
  shows "map (mr_id \<circ> arp_report) page = map mo_id (take limit matching) \<and>
    (next = (if limit < 200 \<and> limit < length matching then Some (mo_id (matching ! (limit - 1))) else None)) \<and>
    (case arq_limit q of Some n \<Rightarrow> 200 \<le> n \<longrightarrow> next = None | None \<Rightarrow> True)"
proof -
  have limit: "1 \<le> limit" "limit \<le> 200" by (auto simp: assms(3) clamp_def)
  have same: "report_matches \<lparr> rlo_resolved = a, rlo_source_account_id = b, rlo_target_account_id = c, rlo_max_id = d, rlo_since_id = e,
      rlo_min_id = f, rlo_limit = n \<rparr> = report_matches \<lparr> rlo_resolved = a, rlo_source_account_id = b, rlo_target_account_id = c,
      rlo_max_id = d, rlo_since_id = e, rlo_min_id = f, rlo_limit = 0 \<rparr>" for a b c d e f n
    by (rule ext) (simp add: report_matches_def)
  have fetch: "clamp (Suc 0) 200 (min (Suc limit) u64_max) = Suc (min 199 limit)" using limit by (simp add: clamp_def u64_max_def)
  obtain reports where reports: "map_res (hydrate_report m) (take (Suc (min 199 limit)) matching) = Inr reports"
    and page: "map_res (admin_report_response (m_db m)) (take limit reports) = Inr page"
    and link: "next = (if length reports > limit \<and> take limit reports \<noteq> [] then Some (mr_id (last (take limit reports))) else None)"
    using assms(1) unfolding admin_reports_def list_moderation_reports_def hydrate_reports_def Let_def assms(3) [symmetric]
    by (auto simp: report_Inr fetch same [of _ _ _ _ _ _ "min (Suc limit) u64_max"] assms(2))
  have ids: "map mr_id reports = map mo_id (take (Suc (min 199 limit)) matching)"
    using map_res_ids [OF reports] hydrate_report_row(1) by blast
  then have len: "length reports = min (Suc (min 199 limit)) (length matching)" by (metis length_map length_take min.commute)
  have "map (mr_id \<circ> arp_report) page = map mr_id (take limit reports)"
    by (rule map_res_ids [OF page]) (auto simp: admin_report_response_def bind_res_Inr_iff)
  also have "\<dots> = take limit (map mo_id (take (Suc (min 199 limit)) matching))" by (simp add: take_map [symmetric] ids)
  finally have shown: "map (mr_id \<circ> arp_report) page = map mo_id (take limit matching)" using limit by (simp add: take_map min_def)
  have "mr_id (last (take limit reports)) = mo_id (matching ! (limit - 1))" if "limit < length reports"
  proof -
    have "take limit reports \<noteq> []" using that limit by auto
    from last_conv_nth [OF this] have "mr_id (last (take limit reports)) = map mr_id reports ! (limit - 1)"
      using that limit by simp
    then show ?thesis using that limit len by (simp add: ids)
  qed
  moreover have "length reports > limit \<and> take limit reports \<noteq> [] \<longleftrightarrow> limit < 200 \<and> limit < length matching"
    using len limit by auto
  ultimately have "next = (if limit < 200 \<and> limit < length matching then Some (mo_id (matching ! (limit - 1))) else None)"
    using link by auto
  moreover have "limit = 200" if "arq_limit q = Some n" "200 \<le> n" for n using that by (simp add: assms(3) clamp_def)
  ultimately show ?thesis using shown by (auto split: option.split)
qed

definition demo_reader :: access_token_grant where
  "demo_reader = demo_moderator\<lparr>atg_scopes := utext ''admin:read''\<rparr>"

definition demo_report_query :: "nat option \<Rightarrow> admin_report_query" where
  "demo_report_query limit = \<lparr> arq_resolved = None, arq_account_id = None, arq_target_account_id = None, arq_max_id = None,
     arq_since_id = None, arq_min_id = None, arq_limit = limit \<rparr>"

lemmas demo_reports_eval = require_admin_def allows_scope_def split_ascii_whitespace_def is_ascii_whitespace_def utext_def
  demo_reader_def demo_moderator_def demo_report_query_def bind_report_def report_err_def or_report_not_found_def
  admin_report_response_def report_admin_account_def optional_admin_account_def find_admin_account_by_id_def
  find_local_account_by_id_def find_remote_actor_by_id_def find_or_def list_moderation_reports_def clamp_def u64_max_def
  report_matches_def order_by_desc_def demo_report_eval

lemma demo_reports_page: "\<exists>v. admin_reports demo_reader (demo_report_query (Some 200)) demo_reported = Inr ([v], None)"
  by (simp add: admin_reports_def demo_reports_eval)

theorem report_pages_witness:
  "\<exists>page. admin_reports demo_reader (demo_report_query (Some 200)) demo_reported = Inr (page, None) \<and>
     map (mr_id \<circ> arp_report) page = [30]"
proof -
  obtain v where v: "admin_reports demo_reader (demo_report_query (Some 200)) demo_reported = Inr ([v], None)"
    using demo_reports_page by blast
  from report_pages [OF this refl refl] v show ?thesis
    by (auto simp: clamp_def report_matches_def demo_report_query_def demo_reported_def demo_moderation_def order_by_desc_def)
qed

subsection \<open>Reports about deleted actors\<close>

definition account_gone :: "db \<Rightarrow> uuid \<Rightarrow> bool" where
  "account_gone d i \<longleftrightarrow> find_local_account_by_id d i = None \<and>
     (case find_remote_actor_by_id d i of None \<Rightarrow> False | Some a \<Rightarrow> ra_deleted_at a \<noteq> None)"

definition report_frozen :: "moderation \<Rightarrow> uuid \<Rightarrow> bool" where
  "report_frozen m i \<longleftrightarrow> (\<exists>r a. stored_report m i = Some r \<and>
     (mo_source_remote_actor_id r = Some a \<or> mo_target_remote_actor_id r = Some a) \<and> account_gone (m_db m) a)"

lemma gone_account: "account_gone d a \<Longrightarrow> report_admin_account d (ReportRemote a) \<noteq> Inr v"
  by (auto simp: account_gone_def report_admin_account_def find_admin_account_by_id_def find_or_def split: option.splits)

lemma report_account_of_remote: "report_account_of l (Some a) = Inr x \<Longrightarrow> x = ReportRemote a"
  by (cases l) auto

lemma gone_response:
  assumes "hydrate_report m r = Inr x" and "account_gone d a"
    and "mo_source_remote_actor_id r = Some a \<or> mo_target_remote_actor_id r = Some a"
  shows "admin_report_response d x \<noteq> Inr v"
  using hydrate_report_row(2,3) [OF assms(1)] assms(2,3)
  by (auto simp: admin_report_response_def bind_res_Inr_iff gone_account dest!: report_account_of_remote)

lemma frozen_response:
  assumes "report_frozen m i" and "find_moderation_report m i = Inr (Some x)"
  shows "admin_report_response (m_db m) x \<noteq> Inr v"
  using assms gone_response by (auto simp: report_frozen_def find_report_eq bind_res_Inr_iff)

lemma frozen_change_report:
  assumes "report_frozen m i" and "\<And>r. mo_id (f r) = mo_id r \<and> mo_source_remote_actor_id (f r) = mo_source_remote_actor_id r \<and>
    mo_target_remote_actor_id (f r) = mo_target_remote_actor_id r"
  shows "report_frozen (change_report f i m) i"
proof -
  have "List.find (\<lambda>r. mo_id r = i) (tbl_update (\<lambda>r. mo_id r = i) f t) = map_option f (List.find (\<lambda>r. mo_id r = i) t)" for t
    using assms(2) by (induction t) (auto simp: tbl_update_def)
  then have "stored_report (change_report f i m) i = map_option f (stored_report m i)"
    by (simp add: stored_report_def change_report_def)
  then show ?thesis using assms unfolding report_frozen_def by (auto simp: change_report_def)
qed

lemma frozen_kept:
  assumes "report_frozen m i"
  shows "update_moderation_report now i c ids m = Inr (m1, Some x) \<Longrightarrow> report_frozen m1 i \<and> find_moderation_report m1 i = Inr (Some x)"
    and "assign_moderation_report now i a m = Inr (m1, Some x) \<Longrightarrow> report_frozen m1 i \<and> find_moderation_report m1 i = Inr (Some x)"
    and "set_moderation_report_resolved now i a m = Inr (m1, Some x) \<Longrightarrow> report_frozen m1 i \<and> find_moderation_report m1 i = Inr (Some x)"
  using frozen_change_report [OF assms, of "\<lambda>r. r\<lparr>mo_category := c, mo_updated_at := now\<rparr>"]
    frozen_change_report [OF assms, of "\<lambda>r. r\<lparr>mo_assigned_account_id := a, mo_updated_at := now\<rparr>"]
    frozen_change_report [OF assms, of "\<lambda>r. r\<lparr>mo_action_taken_by_account_id := a, mo_action_taken_at := map_option (\<lambda>_. now) a,
      mo_updated_at := now\<rparr>"]
  by (auto simp: update_moderation_report_def assign_moderation_report_def set_moderation_report_resolved_def Let_def bind_res_Inr_iff
      report_frozen_def stored_report_def split: option.splits if_splits)

lemma frozen_change_audited:
  assumes "\<And>m1 x. changed = Inr (m1, Some x) \<Longrightarrow> report_frozen m1 i \<and> find_moderation_report m1 i = Inr (Some x)"
  shows "change_audited w actor a i j changed \<noteq> Inr y"
proof
  assume "change_audited w actor a i j changed = Inr y"
  then obtain m1 x m2 v where "changed = Inr (m1, Some x)" "audit_report w actor a i j m1 = Inr m2"
    "admin_report_response (m_db m2) x = Inr v" by (auto simp: change_audited_def report_Inr)
  moreover from this have "m_db m2 = m_db m1"
    by (auto simp: audit_report_def insert_admin_audit_entry_def bind_res_Inr_iff)
  ultimately show False using assms frozen_response by metis
qed

lemma map_res_member: "map_res f xs = Inr ys \<Longrightarrow> y \<in> set ys \<Longrightarrow> \<exists>x \<in> set xs. f x = Inr y"
  by (induction xs arbitrary: ys) (auto simp: bind_res_Inr_iff)

lemma page_row:
  assumes "admin_reports token q m = Inr (page, next)" and "x \<in> set page"
  obtains row v where "row \<in> set (t_moderation_report m)" and "hydrate_report m row = Inr (arp_report x)"
    and "admin_report_response (m_db m) (arp_report x) = Inr v"
proof -
  obtain reports o' n where listed: "list_moderation_reports m o' = Inr reports"
    and page: "map_res (admin_report_response (m_db m)) (take n reports) = Inr page"
    using assms(1) unfolding admin_reports_def Let_def bind_report_Inr report_err_Inr by blast
  let ?rows = "take (clamp 1 200 (rlo_limit o')) (order_by_desc mo_id (filter (report_matches o') (t_moderation_report m)))"
  have reports: "map_res (hydrate_report m) ?rows = Inr reports" "set ?rows \<subseteq> set (t_moderation_report m)"
    using listed by (auto simp: list_moderation_reports_def hydrate_reports_def order_by_desc_def dest!: in_set_takeD)
  obtain rep where rep: "rep \<in> set (take n reports)" "admin_report_response (m_db m) rep = Inr x"
    using map_res_member [OF page assms(2)] by blast
  moreover have "arp_report x = rep" using rep(2) by (auto simp: admin_report_response_def bind_res_Inr_iff)
  moreover obtain row where "row \<in> set ?rows" "hydrate_report m row = Inr rep"
    using map_res_member [OF reports(1)] in_set_takeD [OF rep(1)] by blast
  ultimately show thesis using that reports(2) by blast
qed

text \<open>
  C35: a deleted actor freezes the reports about it for the clients of the reports API. Once the
  remote actor that made a report, or is reported, has deleted its account, no request to these
  endpoints reads the report, changes its category, assigns it or resolves it: the response fails
  because it looks for the account among those that are not deleted, and the change is rolled back
  with it. Nor is any page of reports answered that would show the report. (Only these endpoints
  render the report before they commit: the form of the web pages, \<open>web_update_admin_report\<close>, and
  an account action that names the report do not, and are not stopped by this.)
\<close>

theorem deleted_actor_freezes_reports:
  assumes "tbl_ok mo_conflict (t_moderation_report m)" and "r \<in> set (t_moderation_report m)" and "mo_id r = i"
    and "mo_source_remote_actor_id r = Some a \<or> mo_target_remote_actor_id r = Some a" and "account_gone (m_db m) a"
  shows "admin_report token i m \<noteq> Inr v \<and> update_admin_report w token i category rule_ids m \<noteq> Inr y \<and>
    mutate_assignment w token i assign m \<noteq> Inr y \<and> mutate_resolution w token i resolved m \<noteq> Inr y \<and>
    (admin_reports token q m = Inr (page, next) \<longrightarrow> i \<notin> set (map (mr_id \<circ> arp_report) page))"
proof -
  have "stored_report m i = Some r" using assms(1-3) moderation_report.find_key unfolding stored_report_def by blast
  then have frozen: "report_frozen m i" using assms(4,5) by (auto simp: report_frozen_def)
  have "admin_report token i m \<noteq> Inr v"
    using frozen_response [OF frozen] by (auto simp: admin_report_def admin_report_by_id_def report_Inr)
  moreover have "update_admin_report w token i category rule_ids m \<noteq> Inr y"
    unfolding update_admin_report_def using frozen_change_audited frozen_kept(1) [OF frozen] by (auto simp: report_Inr)
  moreover have "mutate_assignment w token i assign m \<noteq> Inr y"
    unfolding mutate_assignment_def using frozen_change_audited frozen_kept(2) [OF frozen] by (auto simp: report_Inr)
  moreover have "mutate_resolution w token i resolved m \<noteq> Inr y"
    unfolding mutate_resolution_def using frozen_change_audited frozen_kept(3) [OF frozen] by (auto simp: report_Inr)
  moreover have "i \<notin> set (map (mr_id \<circ> arp_report) page)" if page: "admin_reports token q m = Inr (page, next)"
  proof
    assume "i \<in> set (map (mr_id \<circ> arp_report) page)"
    then obtain x where x: "x \<in> set page" "mr_id (arp_report x) = i" by auto
    obtain row v where "row \<in> set (t_moderation_report m)" "hydrate_report m row = Inr (arp_report x)"
      "admin_report_response (m_db m) (arp_report x) = Inr v" by (rule page_row [OF page x(1)])
    moreover from this have "row = r" using moderation_report.key_unique [OF assms(1)] assms(2,3) x(2) hydrate_report_row(1) by metis
    ultimately show False using gone_response assms(4,5) by metis
  qed
  ultimately show ?thesis by blast
qed

definition demo_deleted :: moderation where
  "demo_deleted = demo_reported\<lparr>m_db := demo_world\<lparr>t_remote_actor := [(demo_actor 8 None)\<lparr>ra_deleted_at := Some 3\<rparr>]\<rparr>\<rparr>"

theorem deleted_actor_freezes_reports_witness:
  "account_gone (m_db demo_deleted) 8 \<and> (\<nexists>v. admin_report demo_reader 30 demo_deleted = Inr v) \<and>
   (\<nexists>y. mutate_resolution demo_report_draws demo_moderator 30 True demo_deleted = Inr y)"
proof -
  have gone: "account_gone (m_db demo_deleted) 8"
    by (simp add: account_gone_def demo_deleted_def demo_world_def find_local_account_by_id_def find_remote_actor_by_id_def empty_db_def)
  have "tbl_ok mo_conflict (t_moderation_report demo_deleted)"
    "new_report_row 30 0 demo_report \<in> set (t_moderation_report demo_deleted)"
    "mo_target_remote_actor_id (new_report_row 30 0 demo_report) = Some 8"
    by (simp_all add: demo_deleted_def demo_reported_def demo_moderation_def new_report_row_def demo_report_def)
  then show ?thesis
    using deleted_actor_freezes_reports [of demo_deleted "new_report_row 30 0 demo_report" 30 8] gone by auto
qed

end
