(* ===== verification/Roosty_Administration_Properties.thy ===== *)
theory Roosty_Administration_Properties
  imports Roosty_Administration Roosty_Report_Properties Roosty_Worker_Properties Roosty_Interaction_Properties
begin

text \<open>
  Properties of the actions of administrators: what a suspension cuts off and what takes it back,
  the accounts on which the actions fail, and how two suspensions can meet.
\<close>

subsection \<open>What the operations leave alone\<close>

lemma with_db_res_Inr: "with_db_res f a = Inr a' \<longleftrightarrow> (\<exists>d. f (ad_db a) = Inr d \<and> a' = with_db (\<lambda>_. d) a)"
  by (auto simp: with_db_res_def bind_res_Inr_iff)

lemma with_db_twice [simp]: "with_db f (with_db g a) = with_db (\<lambda>d. f (g d)) a"
  by (simp add: with_db_def)

lemma mark_trend_dirty_frame: "mark_trend_dirty pg_now kind i d = Inr d' \<Longrightarrow> \<exists>t. d' = d\<lparr>t_trend_dirty := t\<rparr>"
  by (auto simp: mark_trend_dirty_def bind_res_Inr_iff)

lemma mark_each_frame: "mark_each pg_now kind is d = Inr d' \<Longrightarrow> \<exists>t. d' = d\<lparr>t_trend_dirty := t\<rparr>"
proof (induction "is" arbitrary: d)
  case Nil
  then have "d' = d\<lparr>t_trend_dirty := t_trend_dirty d\<rparr>" by simp
  then show ?case by blast
next
  case (Cons i "is")
  then obtain d1 where d1: "mark_trend_dirty pg_now kind i d = Inr d1" "mark_each pg_now kind is d1 = Inr d'"
    by (auto simp: bind_res_Inr_iff)
  then show ?case using Cons.IH [OF d1(2)] mark_trend_dirty_frame [OF d1(1)] by auto
qed

lemma mark_selected_frame: "mark_selected pg_now kind is d = Inr d' \<Longrightarrow> \<exists>t. d' = d\<lparr>t_trend_dirty := t\<rparr>"
  by (auto simp: mark_selected_def mark_each_frame split: if_splits)

lemma mark_account_frame:
  assumes "mark_account_status_trends_dirty pg_now local i a = Inr a'"
  obtains t where "a' = with_db (\<lambda>d. d\<lparr>t_trend_dirty := t\<rparr>) a"
proof -
  obtain d1 d2 kind where marks: "mark_selected pg_now kind (account_statuses local i (ad_db a)) (ad_db a) = Inr d1"
    "mark_selected pg_now ''link'' (account_cards local i a) d1 = Inr d2" and a': "a' = with_db (\<lambda>_. d2) a"
    using assms by (auto simp: mark_account_status_trends_dirty_def with_db_res_Inr bind_res_Inr_iff)
  obtain t1 t2 where "d1 = (ad_db a)\<lparr>t_trend_dirty := t1\<rparr>" "d2 = d1\<lparr>t_trend_dirty := t2\<rparr>"
    using marks mark_selected_frame by meson
  then have "a' = with_db (\<lambda>d. d\<lparr>t_trend_dirty := t2\<rparr>) a" by (simp add: a' with_db_def)
  then show thesis by (rule that)
qed

lemma purge_job_frame:
  "enqueue_job_on_connection i now job d = Inr (d', x) \<Longrightarrow> \<exists>jobs. d' = d\<lparr>t_job := jobs\<rparr>"
  by (auto simp: enqueue_job_on_connection_def Let_def bind_res_Inr_iff)

lemma enqueue_groups_frame:
  "enqueue_groups new_id pg_now e account activity activity_id n gs d = Inr d' \<Longrightarrow> \<exists>jobs. d' = d\<lparr>t_job := jobs\<rparr>"
proof (induction gs arbitrary: n d)
  case Nil
  then have "d' = d\<lparr>t_job := t_job d\<rparr>" by simp
  then show ?case by blast
next
  case (Cons g gs)
  show ?case
  proof (cases "snd g")
    case Nil
    then show ?thesis using Cons by simp
  next
    case (Cons first rest)
    then obtain d1 where d1: "enqueue_only (new_id n) pg_now (actor_update_job e account activity activity_id g first) d = Inr d1"
      "enqueue_groups new_id pg_now e account activity activity_id (Suc n) gs d1 = Inr d'"
      using Cons.prems by (auto simp: bind_res_Inr_iff)
    obtain jobs where "d1 = d\<lparr>t_job := jobs\<rparr>" using enqueue_only_frame [OF d1(1)] by blast
    then show ?thesis using Cons.IH [OF d1(2)] by auto
  qed
qed

lemma actor_delete_frame:
  "enqueue_actor_delete_in_transaction w account d = Inr d' \<Longrightarrow> \<exists>jobs. d' = d\<lparr>t_job := jobs\<rparr>"
  unfolding enqueue_actor_delete_in_transaction_def Let_def
  by (auto simp: bind_res_Inr_iff dest: enqueue_groups_frame split: if_splits intro: exI [of _ "t_job d"])

lemma audit_entry_frame:
  assumes "audit_entry w n actor s x k i j a = Inr a'"
  obtains t where "a' = a\<lparr>ad_mod := (ad_mod a)\<lparr>t_admin_audit_log := t\<rparr>\<rparr>"
  using assms that by (auto simp: audit_entry_def insert_admin_audit_entry_def bind_res_Inr_iff)

subsection \<open>Results of requests\<close>

lemma bind_admin_Inr: "bind_admin x f = Inr y \<longleftrightarrow> (\<exists>a. x = Inr a \<and> f a = Inr y)"
  by (simp add: bind_admin_def split: sum.split)

lemma admin_err_Inr: "admin_err x = Inr y \<longleftrightarrow> x = Inr y"
  by (auto simp: admin_err_def split: sum.split roosty_error.split)

lemma or_record_not_found_Inr: "or_record_not_found x = Inr y \<longleftrightarrow> x = Some y"
  by (simp add: or_record_not_found_def split: option.split)

lemma unsupported_action_Inr: "unsupported_action \<noteq> Inr y"
  by (simp add: unsupported_action_def)

lemma find_or_Inr: "find_or e x = Inr y \<longleftrightarrow> x = Some y"
  by (simp add: find_or_def split: option.split)

lemmas admin_Inr = bind_admin_Inr admin_err_Inr or_record_not_found_Inr unsupported_action_Inr find_or_Inr bind_res_Inr_iff

lemma local_admin_account:
  assumes "find_admin_account_by_id d i = Some x"
  shows "ada_domain x = None \<longleftrightarrow> find_local_account_by_id d i \<noteq> None"
  using assms by (auto simp: find_admin_account_by_id_def split: option.splits if_splits)

subsection \<open>Accounts that repeat a link\<close>

definition shares_card :: "bool \<Rightarrow> uuid \<Rightarrow> administration \<Rightarrow> bool" where
  "shares_card local i a \<longleftrightarrow> (\<exists>p \<in> set (t_status_preview_card a). \<exists>q \<in> set (t_status_preview_card a).
     spc_id p \<noteq> spc_id q \<and> spc_preview_card_id p = spc_preview_card_id q \<and>
     opt_in (if local then spc_local_status_id p else spc_remote_status_id p) (account_statuses local i (ad_db a)) \<and>
     opt_in (if local then spc_local_status_id q else spc_remote_status_id q) (account_statuses local i (ad_db a)))"

lemma filter_two: "x \<in> set xs \<Longrightarrow> y \<in> set xs \<Longrightarrow> x \<noteq> y \<Longrightarrow> f x = f y \<Longrightarrow> \<not> distinct (map f xs)"
  by (auto simp: distinct_map inj_on_def)

lemma shared_card_marks_fail:
  assumes "shares_card local i a"
  shows "mark_account_status_trends_dirty pg_now local i a \<noteq> Inr a'"
proof -
  have "\<not> distinct (account_cards local i a)"
  proof -
    obtain p q where "p \<in> set (t_status_preview_card a)" "q \<in> set (t_status_preview_card a)" "p \<noteq> q"
      "spc_preview_card_id p = spc_preview_card_id q"
      "opt_in (if local then spc_local_status_id p else spc_remote_status_id p) (account_statuses local i (ad_db a))"
      "opt_in (if local then spc_local_status_id q else spc_remote_status_id q) (account_statuses local i (ad_db a))"
      using assms unfolding shares_card_def by metis
    then show ?thesis
      unfolding account_cards_def opt_in_def [symmetric] by (intro filter_two [of p _ q]) auto
  qed
  then show ?thesis by (auto simp: mark_account_status_trends_dirty_def with_db_res_Inr mark_selected_def bind_res_Inr_iff split: if_splits)
qed

lemma shares_card_frame:
  assumes "t_status_preview_card a' = t_status_preview_card a"
    and "account_statuses local i (ad_db a') = account_statuses local i (ad_db a)"
  shows "shares_card local i a' = shares_card local i a"
  by (simp add: shares_card_def assms)

lemma update_keeps_selected:
  assumes "\<And>r. g (f r) = g r" and "\<And>r. k (f r) = k r"
  shows "map k (filter (\<lambda>r. g r = i) (tbl_update p f t)) = map k (filter (\<lambda>r. g r = i) t)"
  using assms by (induction t) (auto simp: tbl_update_def)

lemma limit_fails:
  assumes "shares_card local i a" and "local = (find_local_account_by_id (ad_db a) i \<noteq> None)"
  shows "set_account_limited_in_transaction w actor src i b a \<noteq> Inr y"
proof
  assume "set_account_limited_in_transaction w actor src i b a = Inr y"
  then obtain existing a1 where existing: "find_admin_account_by_id (ad_db a) i = Some existing"
    and "(if ada_domain existing \<noteq> None then set_remote_actor_limited_by_id else set_local_account_limited_by_id)
      (aw_now w) (aw_pg_now w) i b a = Inr a1"
    by (auto simp: set_account_limited_in_transaction_def admin_Inr)
  moreover have "ada_domain existing = None \<longleftrightarrow> local" using local_admin_account [OF existing] assms(2) by simp
  moreover have "find_local_account_by_id (ad_db a) i = None \<Longrightarrow> find_remote_actor_by_id (ad_db a) i \<noteq> None"
    using existing by (auto simp: find_admin_account_by_id_def split: option.splits)
  ultimately obtain f where "mark_account_status_trends_dirty (aw_pg_now w) local i (with_db f a) = Inr a1"
    "account_statuses local i (f (ad_db a)) = account_statuses local i (ad_db a)"
    using assms(2) by (cases local)
      (auto simp: set_local_account_limited_by_id_def set_remote_actor_limited_by_id_def account_statuses_def split: if_splits)
  then show False using shared_card_marks_fail shares_card_frame [of "with_db f a" a] assms(1) by (metis ad_db_with_db with_db_simps(3))
qed

text \<open>The stages of a suspension: the account's row, its consequences, and the trends.\<close>

definition suspended_rows :: "instant \<Rightarrow> uuid \<Rightarrow> bool \<Rightarrow> administration \<Rightarrow> administration" where
  "suspended_rows now i suspended a =
     with_db (\<lambda>d. d\<lparr>t_local_account := tbl_update (\<lambda>r. la_id r = i)
       (\<lambda>r. r\<lparr>la_suspended_at := (if suspended then Some now else None)\<rparr>) (t_local_account d)\<rparr>) a"

lemma suspend_local_cases:
  assumes "suspend_local_account w account suspended a = Inr a'"
  obtains (suspend) jobs x t where "suspended" and "la_suspended_at account = None"
    and "enqueue_job_on_connection (aw_purge_job_id w) (aw_pg_now w) (purge_job w (la_id account))
      (ad_db (sever_local_account_relationships (aw_now w) (la_id account) (suspended_rows (aw_now w) (la_id account) True a))) = Inr (jobs, x)"
    and "a' = with_db (\<lambda>_. jobs\<lparr>t_trend_dirty := t\<rparr>)
      (sever_local_account_relationships (aw_now w) (la_id account) (suspended_rows (aw_now w) (la_id account) True a))"
    and "mark_account_status_trends_dirty (aw_pg_now w) True (la_id account) (with_db (\<lambda>_. jobs)
      (sever_local_account_relationships (aw_now w) (la_id account) (suspended_rows (aw_now w) (la_id account) True a))) = Inr a'"
  | (again) t where "suspended" and "la_suspended_at account \<noteq> None"
    and "a' = with_db (\<lambda>d. d\<lparr>t_trend_dirty := t\<rparr>) (suspended_rows (aw_now w) (la_id account) True a)"
    and "mark_account_status_trends_dirty (aw_pg_now w) True (la_id account) (suspended_rows (aw_now w) (la_id account) True a) = Inr a'"
  | (lift) t where "\<not> suspended"
    and "a' = with_db (\<lambda>d. (cancel_account_purge (aw_id_string w (la_id account)) (aw_now w) d)\<lparr>t_trend_dirty := t\<rparr>)
      (suspended_rows (aw_now w) (la_id account) False a)"
    and "mark_account_status_trends_dirty (aw_pg_now w) True (la_id account)
      (with_db (cancel_account_purge (aw_id_string w (la_id account)) (aw_now w)) (suspended_rows (aw_now w) (la_id account) False a)) = Inr a'"
proof -
  let ?i = "la_id account" and ?a = "suspended_rows (aw_now w) (la_id account) suspended a"
  let ?stage = "if suspended \<and> la_suspended_at account = None
        then with_db_res (\<lambda>d. bind_res (enqueue_job_on_connection (aw_purge_job_id w) (aw_pg_now w) (purge_job w ?i) d) (\<lambda>(d, _). Inr d))
               (sever_local_account_relationships (aw_now w) ?i ?a)
        else if \<not> suspended then Inr (with_db (cancel_account_purge (aw_id_string w ?i) (aw_now w)) ?a)
        else Inr ?a"
  have "suspend_local_account w account suspended a = bind_res ?stage (\<lambda>a. mark_account_status_trends_dirty (aw_pg_now w) True ?i a)"
    by (simp only: suspend_local_account_def suspended_rows_def Let_def)
  from assms [unfolded this bind_res_Inr_iff] obtain a1 where a1: "?stage = Inr a1"
    and mark: "mark_account_status_trends_dirty (aw_pg_now w) True ?i a1 = Inr a'" by blast
  obtain t where t: "a' = with_db (\<lambda>d. d\<lparr>t_trend_dirty := t\<rparr>) a1" by (rule mark_account_frame [OF mark])
  consider "suspended" "la_suspended_at account = None" | "suspended" "la_suspended_at account \<noteq> None" | "\<not> suspended" by blast
  then show thesis
  proof cases
    case 1
    then obtain jobs x where "enqueue_job_on_connection (aw_purge_job_id w) (aw_pg_now w) (purge_job w ?i)
        (ad_db (sever_local_account_relationships (aw_now w) ?i ?a)) = Inr (jobs, x)"
      "a1 = with_db (\<lambda>_. jobs) (sever_local_account_relationships (aw_now w) ?i ?a)"
      using a1 by (auto simp: with_db_res_Inr bind_res_Inr_iff)
    then show ?thesis using suspend [of jobs x t] 1 t mark by simp
  next
    case 2
    then have "a1 = ?a" using a1 by (auto split: if_splits)
    then show ?thesis using again [of t] 2 t mark by simp
  next
    case 3
    then have "a1 = with_db (cancel_account_purge (aw_id_string w ?i) (aw_now w)) ?a" using a1 by simp
    then show ?thesis using lift [of t] 3 t mark by simp
  qed
qed

lemma sever_frame:
  "t_status_preview_card (sever_local_account_relationships now i a) = t_status_preview_card a"
  "t_local_status (ad_db (sever_local_account_relationships now i a)) = t_local_status (ad_db a)"
  "t_local_account (ad_db (sever_local_account_relationships now i a)) = t_local_account (ad_db a)"
  "t_job (ad_db (sever_local_account_relationships now i a)) = t_job (ad_db a)"
  by (simp_all add: sever_local_account_relationships_def delete_scheduled_statuses_def sever_relations_def sever_lists_def
      revoke_tokens_def dismiss_notifications_def Let_def)

lemma suspended_rows_frame:
  "t_status_preview_card (suspended_rows now i s a) = t_status_preview_card a"
  "t_local_status (ad_db (suspended_rows now i s a)) = t_local_status (ad_db a)"
  "t_job (ad_db (suspended_rows now i s a)) = t_job (ad_db a)"
  by (simp_all add: suspended_rows_def)

lemma suspend_local_fails:
  assumes "shares_card True (la_id account) a"
  shows "suspend_local_account w account suspended a \<noteq> Inr a'"
proof
  have fails: "mark_account_status_trends_dirty pg_now True (la_id account) a1 \<noteq> Inr a2"
    if "t_status_preview_card a1 = t_status_preview_card a" "t_local_status (ad_db a1) = t_local_status (ad_db a)" for a1 a2 pg_now
    using that shared_card_marks_fail shares_card_frame [of a1 a] assms by (simp add: account_statuses_def)
  assume "suspend_local_account w account suspended a = Inr a'"
  then show False
  proof (cases rule: suspend_local_cases)
    case (suspend jobs x t)
    have "t_local_status jobs = t_local_status (ad_db a)"
      using purge_job_frame [OF suspend(3)] by (auto simp: sever_frame suspended_rows_frame)
    then show False using fails suspend(5) by (metis ad_db_with_db sever_frame(1) suspended_rows_frame(1) with_db_simps(3))
  next
    case (again t)
    then show False using fails by (metis suspended_rows_frame(1,2))
  next
    case (lift t)
    have "t_local_status (cancel_account_purge s n d) = t_local_status d" for s n d by (simp add: cancel_account_purge_def)
    then show False using fails lift(3) by (metis ad_db_with_db suspended_rows_frame(1,2) with_db_simps(3))
  qed
qed

lemma suspend_remote_stage:
  obtains f where "suspend_remote_actor w actor suspended a =
      mark_account_status_trends_dirty (aw_pg_now w) False (ra_id actor) (with_db f a)"
    and "t_local_account (f (ad_db a)) = t_local_account (ad_db a)"
    and "account_statuses False (ra_id actor) (f (ad_db a)) = account_statuses False (ra_id actor) (ad_db a)"
  by (cases suspended) (auto simp: suspend_remote_actor_def Let_def account_statuses_def purge_remote_actor_cache_def dismiss_notifications_def
      update_keeps_selected)

lemma suspend_remote_fails:
  assumes "shares_card False (ra_id actor) a"
  shows "suspend_remote_actor w actor suspended a \<noteq> Inr a'"
proof -
  obtain f where "suspend_remote_actor w actor suspended a =
      mark_account_status_trends_dirty (aw_pg_now w) False (ra_id actor) (with_db f a)"
    and "account_statuses False (ra_id actor) (f (ad_db a)) = account_statuses False (ra_id actor) (ad_db a)"
    by (rule suspend_remote_stage)
  then show ?thesis using shared_card_marks_fail shares_card_frame [of "with_db f a" a] assms by (metis ad_db_with_db with_db_simps(3))
qed

lemma suspension_fails:
  assumes "shares_card local i a" and "local = (find_local_account_by_id (ad_db a) i \<noteq> None)"
  shows "apply_suspension w actor src i s existing a \<noteq> Inr y"
proof
  assume "apply_suspension w actor src i s existing a = Inr y"
  then obtain a1 a2 found where first: "(if s \<and> \<not> ada_suspended existing \<and> ada_domain existing = None
        then bind_res (find_or ''account does not exist'' (find_local_account_by_id (ad_db a) i)) (\<lambda>local.
               with_db_res (enqueue_actor_delete_in_transaction w local) a)
        else Inr a) = Inr a1"
    and second: "set_account_suspended_by_id w i s a1 = Inr (a2, found)" and found: "found"
    by (auto simp: apply_suspension_def admin_Inr split: if_splits)
  have "\<exists>jobs. a1 = with_db (\<lambda>d. d\<lparr>t_job := jobs\<rparr>) a"
  proof (cases "a1 = a")
    case True
    then have "a1 = with_db (\<lambda>d. d\<lparr>t_job := t_job (ad_db a)\<rparr>) a" by (simp add: with_db_def)
    then show ?thesis by blast
  next
    case False
    then obtain account d where "enqueue_actor_delete_in_transaction w account (ad_db a) = Inr d" and a1: "a1 = with_db (\<lambda>_. d) a"
      using first by (auto simp: admin_Inr with_db_res_Inr split: if_splits)
    then obtain jobs where "d = (ad_db a)\<lparr>t_job := jobs\<rparr>" using actor_delete_frame by blast
    then have "a1 = with_db (\<lambda>d. d\<lparr>t_job := jobs\<rparr>) a" using a1 by (simp add: with_db_def)
    then show ?thesis by blast
  qed
  then obtain jobs where a1: "a1 = with_db (\<lambda>d. d\<lparr>t_job := jobs\<rparr>) a" by blast
  have same: "find_local_account_by_id (ad_db a1) i = find_local_account_by_id (ad_db a) i" "shares_card local i a1"
    using assms(1) shares_card_frame [of a1 a] by (auto simp: a1 find_local_account_by_id_def account_statuses_def)
  show False
  proof (cases local)
    case True
    then obtain account where "find_local_account_by_id (ad_db a1) i = Some account" using assms(2) same(1) by auto
    then show False using second suspend_local_fails [of account a1] same(2) True
      by (auto simp: set_account_suspended_by_id_def bind_res_Inr_iff find_local_account_by_id_def dest!: find_Some_mem)
  next
    case False
    then show False using second found assms(2) same suspend_remote_fails
      by (auto simp: set_account_suspended_by_id_def bind_res_Inr_iff find_remote_actor_by_id_def dest!: find_Some_mem split: option.splits)
  qed
qed

text \<open>
  C38: an account that repeats a link cannot be moderated. Once two statuses of an account have the
  same preview card, no request limits or suspends it, with or without a report, nor does the
  operator's command: the statement that marks the trends of the account's links names the card
  twice, and the database refuses it, so that the whole action is rolled back.
\<close>

theorem repeated_link_blocks_moderation:
  assumes "shares_card local i a" and "local = (find_local_account_by_id (ad_db a) i \<noteq> None)"
  shows "account_action w grant i ''silence'' report a \<noteq> Inr a' \<and> account_action w grant i ''suspend'' report a \<noteq> Inr a' \<and>
    set_account_limited_in_transaction w None AuditCli i True a \<noteq> Inr y"
  using limit_fails [OF assms] suspension_fails [OF assms]
  by (auto simp: account_action_def account_action_for_report_def set_account_suspended_in_transaction_def admin_Inr
      split: option.splits)

definition demo_linked :: local_status_row where
  "demo_linked = \<lparr> ls_id = 70, ls_account_id = 2, ls_content = [], ls_visibility = Public,
     ls_sensitive = False, ls_spoiler_text = [], ls_language = None, ls_in_reply_to_id = None,
     ls_in_reply_to_remote_status_id = None, ls_conversation_id = None, ls_created_at = 0,
     ls_updated_at = 0, ls_deleted_at = None, ls_quote_approval_policy = QuotePublic \<rparr>"

definition demo_admin_world :: administration where
  "demo_admin_world = \<lparr> ad_mod = demo_reported\<lparr>m_db := demo_world\<lparr>
       t_local_account := [(demo_account 1)\<lparr>la_is_admin := True\<rparr>, demo_account 2],
       t_local_status := [demo_linked, demo_linked\<lparr>ls_id := 71\<rparr>]\<rparr>\<rparr>,
     t_media_attachment = [], t_scheduled_status = [],
     t_status_preview_card =
       [\<lparr> spc_id = 80, spc_local_status_id = Some 70, spc_remote_status_id = None, spc_preview_card_id = 90 \<rparr>,
        \<lparr> spc_id = 81, spc_local_status_id = Some 71, spc_remote_status_id = None, spc_preview_card_id = 90 \<rparr>] \<rparr>"

definition demo_admin_draws :: admin_draws where
  "demo_admin_draws = \<lparr> aw_now = 5, aw_pg_now = 5, aw_account_id = 40, aw_audit_id = 41, aw_resolve_id = 42, aw_purge_job_id = 43,
     aw_delivery_job_id = (\<lambda>n. n + 100), aw_password = [], aw_hash_password = (\<lambda>_. Inr ''h''), aw_id_string = (\<lambda>_. ''i''),
     aw_text_json = (\<lambda>_. JNull), aw_federation_enabled = False, aw_fed = demo_report_env \<rparr>"

theorem repeated_link_blocks_moderation_witness:
  "shares_card True 2 demo_admin_world \<and>
   (\<nexists>a'. account_action demo_admin_draws demo_moderator 2 ''suspend'' None demo_admin_world = Inr a')"
proof -
  have "shares_card True 2 demo_admin_world" "find_local_account_by_id (ad_db demo_admin_world) 2 \<noteq> None"
    by (simp_all add: shares_card_def demo_admin_world_def account_statuses_def opt_in_def demo_linked_def find_local_account_by_id_def)
  then show ?thesis using repeated_link_blocks_moderation [of True 2 demo_admin_world demo_admin_draws demo_moderator None] by auto
qed

subsection \<open>Purging a reported account\<close>

text \<open>
  C39: a reported account cannot be purged. While a report holds a status of a suspended account as
  evidence, neither the purge job nor an administrator's request removes the account's data:
  deleting the status clears the evidence's reference, and the check of that table refuses a row
  without one. Without evidence the purge goes through, and leaves neither statuses nor media of
  the account.
\<close>

theorem reported_account_cannot_be_purged:
  assumes "find_local_account_by_id (ad_db a) i = Some account" and "la_suspended_at account \<noteq> None" and "la_data_purged_at account = None"
    and "\<forall>r \<in> set (t_report_status (ad_mod a)). mrs_check r"
  shows "if \<exists>r \<in> set (t_report_status (ad_mod a)). opt_in (mrs_local_status_id r) (account_statuses True i (ad_db a))
    then purge_suspended_local_account now i a = Inl (Database CheckViolation) \<and> delete_suspended_account w grant i a \<noteq> Inr y
    else \<exists>a' paths. purge_suspended_local_account now i a = Inr (a', paths) \<and> account_statuses True i (ad_db a') = [] \<and>
      (\<forall>m \<in> set (t_media_attachment a'). ma_account_id m \<noteq> i) \<and> t_report_status (ad_mod a') = t_report_status (ad_mod a)"
proof (cases "\<exists>r \<in> set (t_report_status (ad_mod a)). opt_in (mrs_local_status_id r) (account_statuses True i (ad_db a))")
  case True
  then have "list_ex (\<lambda>r. opt_in (mrs_local_status_id r) (account_statuses True i (ad_db a)) \<and> \<not> mrs_check (r\<lparr>mrs_local_status_id := None\<rparr>))
      (t_report_status (ad_mod a))"
    using assms(4) by (fastforce simp: list_ex_iff mrs_check_def opt_in_def split: option.splits)
  then have purge: "purge_suspended_local_account t i a = Inl (Database CheckViolation)" for t
    using assms(1-3) by (auto simp: purge_suspended_local_account_def delete_local_statuses_def clear_evidence_def Let_def)
  have "delete_suspended_account w grant i a \<noteq> Inr y"
    using purge assms(1) by (auto simp: delete_suspended_account_def admin_Inr find_admin_account_by_id_def)
  then show ?thesis using True purge by simp
next
  case False
  let ?gone = "account_statuses True i (ad_db a)"
  have kept: "tbl_update (\<lambda>r. opt_in (mrs_local_status_id r) ?gone) (\<lambda>r. r\<lparr>mrs_local_status_id := None\<rparr>) (t_report_status (ad_mod a)) =
      t_report_status (ad_mod a)"
    using False by (auto simp: tbl_update_def intro: map_idI)
  have "clear_evidence ?gone (t_report_status (ad_mod a)) = Inr (t_report_status (ad_mod a))"
    using False kept by (auto simp: clear_evidence_def Let_def list_ex_iff)
  moreover have "account_statuses True i (delete_status_rows ?gone (ad_db a)) = []"
    by (auto simp: account_statuses_def delete_status_rows_def Let_def filter_empty_conv tbl_update_def tbl_delete_def split: if_splits)
  ultimately show ?thesis using False assms(1-3)
    by (auto simp: purge_suspended_local_account_def delete_local_statuses_def account_statuses_def tbl_delete_def)
qed

definition demo_evidence :: administration where
  "demo_evidence = demo_admin_world\<lparr>ad_mod := (ad_mod demo_admin_world)\<lparr>
     m_db := (ad_db demo_admin_world)\<lparr>t_local_account := [(demo_account 2)\<lparr>la_suspended_at := Some 3\<rparr>]\<rparr>,
     t_report_status := [\<lparr> mrs_report_id = 30, mrs_position = 0, mrs_local_status_id = Some 70, mrs_remote_status_id = None \<rparr>]\<rparr>\<rparr>"

theorem reported_account_cannot_be_purged_witness:
  "purge_suspended_local_account 9 2 demo_evidence = Inl (Database CheckViolation) \<and>
   (\<exists>a' paths. purge_suspended_local_account 9 2 (demo_evidence\<lparr>ad_mod := (ad_mod demo_evidence)\<lparr>t_report_status := []\<rparr>\<rparr>) = Inr (a', paths))"
proof -
  let ?empty = "demo_evidence\<lparr>ad_mod := (ad_mod demo_evidence)\<lparr>t_report_status := []\<rparr>\<rparr>"
  have found: "find_local_account_by_id (ad_db demo_evidence) 2 = Some ((demo_account 2)\<lparr>la_suspended_at := Some 3\<rparr>)"
    and evidence: "\<exists>r \<in> set (t_report_status (ad_mod demo_evidence)).
      opt_in (mrs_local_status_id r) (account_statuses True 2 (ad_db demo_evidence))"
    and check: "\<forall>r \<in> set (t_report_status (ad_mod demo_evidence)). mrs_check r"
    by (simp_all add: demo_evidence_def demo_admin_world_def demo_linked_def find_local_account_by_id_def account_statuses_def opt_in_def
        mrs_check_def)
  have account: "la_suspended_at ((demo_account 2)\<lparr>la_suspended_at := Some 3\<rparr>) \<noteq> None"
    "la_data_purged_at ((demo_account 2)\<lparr>la_suspended_at := Some 3\<rparr>) = None" by (simp_all add: demo_account_def)
  have "purge_suspended_local_account 9 2 demo_evidence = Inl (Database CheckViolation)"
    using reported_account_cannot_be_purged [OF found account check, of 9] evidence by simp
  moreover have "find_local_account_by_id (ad_db ?empty) 2 = Some ((demo_account 2)\<lparr>la_suspended_at := Some 3\<rparr>)" using found by simp
  from reported_account_cannot_be_purged [OF this account, of 9]
  have "\<exists>a' paths. purge_suspended_local_account 9 2 ?empty = Inr (a', paths)" by auto
  ultimately show ?thesis by blast
qed

subsection \<open>What a suspension cuts off\<close>

text \<open>Nothing of the account is left in relations and lists, and none of its tokens is valid.\<close>

definition cut_off :: "uuid \<Rightarrow> db \<Rightarrow> bool" where
  "cut_off i d \<longleftrightarrow>
     (\<forall>r \<in> set (t_local_follow d). lf_follower_account_id r \<noteq> i \<and> lf_followed_account_id r \<noteq> i) \<and>
     (\<forall>r \<in> set (t_remote_follow d). rf_local_account_id r \<noteq> i) \<and> (\<forall>r \<in> set (t_remote_following d). rg_local_account_id r \<noteq> i) \<and>
     (\<forall>r \<in> set (t_local_list d). ll_account_id r \<noteq> i) \<and> (\<forall>r \<in> set (t_list_local_member d). llm_account_id r \<noteq> i) \<and>
     (\<forall>t \<in> set (t_oauth_access_token d). oat_account_id t = Some i \<longrightarrow> oat_revoked_at t \<noteq> None) \<and>
     (\<forall>n \<in> set (t_local_notification d). ln_account_id n = i \<or> ln_actor_account_id n = Some i \<longrightarrow> ln_dismissed_at n \<noteq> None)"

lemma severed_is_cut_off: "cut_off i (ad_db (sever_local_account_relationships now i a))"
  by (auto simp: cut_off_def sever_local_account_relationships_def delete_scheduled_statuses_def sever_relations_def sever_lists_def
      revoke_tokens_def dismiss_notifications_def Let_def tbl_delete_def tbl_update_def)

lemma cut_off_frame:
  "cut_off i (d\<lparr>t_job := jobs\<rparr>) = cut_off i d" "cut_off i (d\<lparr>t_trend_dirty := t\<rparr>) = cut_off i d"
  "cut_off i (d\<lparr>t_local_account := as\<rparr>) = cut_off i d" "cut_off i (cancel_account_purge s now d) = cut_off i d"
  by (simp_all add: cut_off_def cancel_account_purge_def)

text \<open>
  An open job with which the worker purges account \<open>i\<close>: the payload names it in a form that the
  worker's parser reads.
\<close>

definition names_account :: "(string \<Rightarrow> uuid option) \<Rightarrow> uuid \<Rightarrow> json \<Rightarrow> bool" where
  "names_account parse i payload \<longleftrightarrow> Option.bind (payload_str ''account_id'' payload) parse = Some i"

definition open_purge_job :: "job_row \<Rightarrow> bool" where
  "open_purge_job j \<longleftrightarrow> job_kind j = ''account_purge'' \<and> job_completed_at j = None"

definition purge_queued :: "(string \<Rightarrow> uuid option) \<Rightarrow> uuid \<Rightarrow> db \<Rightarrow> bool" where
  "purge_queued parse i d \<longleftrightarrow> (\<exists>j \<in> set (t_job d). open_purge_job j \<and> names_account parse i (job_payload j))"

lemma named_account_is_purged:
  "names_account (h_parse_uuid hs) i payload \<Longrightarrow>
     account_purge_arm hs payload d = (case h_purge_suspended_local_account hs i d of
       Inl e \<Rightarrow> (d, EarlyReturn e) | Inr (d', _) \<Rightarrow> (d', ArmResult (Inr ())))"
  by (auto simp: names_account_def account_purge_arm_def bind_eq_Some_conv)

text \<open>
  The open purge jobs are those that suspensions have queued, one key and one payload for each
  account.
\<close>

definition purge_row_ok :: "(uuid \<Rightarrow> string) \<Rightarrow> job_row \<Rightarrow> bool" where
  "purge_row_ok id_string j \<longleftrightarrow> open_purge_job j \<longrightarrow>
     (\<exists>k. job_deduplication_key j = Some (''account-purge:'' @ id_string k) \<and>
          json_field ''account_id'' (job_payload j) = Some (JStr (id_string k)))"

definition purge_jobs_ok :: "(uuid \<Rightarrow> string) \<Rightarrow> db \<Rightarrow> bool" where
  "purge_jobs_ok id_string d \<longleftrightarrow> (\<forall>j \<in> set (t_job d). purge_row_ok id_string j)"

lemma purge_jobs_frame [simp]:
  "purge_jobs_ok f (d\<lparr>t_trend_dirty := t\<rparr>) = purge_jobs_ok f d" "purge_queued p i (d\<lparr>t_trend_dirty := t\<rparr>) = purge_queued p i d"
  by (simp_all add: purge_jobs_ok_def purge_queued_def)

lemma purge_jobs_same:
  "t_job d' = t_job d \<Longrightarrow> purge_jobs_ok f d' = purge_jobs_ok f d"
  by (simp add: purge_jobs_ok_def)

lemma enqueue_keeps_purge_jobs:
  assumes "enqueue_job_on_connection n now job d = Inr (d', x)" and "purge_jobs_ok f d"
    and "purge_row_ok f (new_job_row n now job)"
  shows "purge_jobs_ok f d'"
  using enqueue_cases [OF assms(1)] assms(2,3) by (auto simp: purge_jobs_ok_def)

lemma enqueued_purge:
  assumes "enqueue_job_on_connection n now (purge_job w i) d = Inr (d', x)" and "purge_jobs_ok (aw_id_string w) d"
    and "\<And>k. parse (aw_id_string w k) = Some k"
  shows "purge_queued parse i d'" and "purge_jobs_ok (aw_id_string w) d'"
proof -
  let ?row = "new_job_row n now (purge_job w i)"
  have row: "open_purge_job ?row" "json_field ''account_id'' (job_payload ?row) = Some (JStr (aw_id_string w i))"
    "job_deduplication_key ?row = Some (''account-purge:'' @ aw_id_string w i)"
    by (simp_all add: open_purge_job_def new_job_row_def purge_job_def json_field_def)
  then have "purge_row_ok (aw_id_string w) ?row" unfolding purge_row_ok_def by blast
  then show "purge_jobs_ok (aw_id_string w) d'" by (rule enqueue_keeps_purge_jobs [OF assms(1,2)])
  show "purge_queued parse i d'"
    using enqueue_cases [OF assms(1)]
  proof (elim disjE conjE bexE)
    fix j
    assume j: "j \<in> set (t_job d)" "job_dedup_conflict ?row j" and d': "d' = d"
    then have key: "open_purge_job j" "job_deduplication_key j = Some (''account-purge:'' @ aw_id_string w i)"
      by (auto simp: job_dedup_conflict_def sql_eq_iff job_active_key_def new_job_row_def purge_job_def open_purge_job_def
          split: option.splits if_splits)
    then have "names_account parse i (job_payload j)"
      using assms(2,3) j(1) by (auto simp: purge_jobs_ok_def purge_row_ok_def names_account_def payload_str_def)
    then show ?thesis using key(1) j(1) unfolding purge_queued_def d' by blast
  next
    assume "d' = d\<lparr>t_job := t_job d @ [?row]\<rparr>"
    moreover have "names_account parse i (job_payload ?row)" using row(2) assms(3) by (simp add: names_account_def payload_str_def)
    ultimately show ?thesis using row(1) by (auto simp: purge_queued_def)
  qed
qed

lemma cancelled_purge:
  assumes "purge_jobs_ok id_string d" and "\<And>k. parse (id_string k) = Some k"
  shows "\<not> purge_queued parse i (cancel_account_purge (id_string i) now d)"
    and "purge_jobs_ok id_string (cancel_account_purge (id_string i) now d)"
proof -
  have "\<not> open_purge_job j" if "j \<in> set (t_job (cancel_account_purge (id_string i) now d))" "names_account parse i (job_payload j)" for j
    using that assms by (auto simp: cancel_account_purge_def tbl_update_def open_purge_job_def names_account_def payload_str_def
        purge_jobs_ok_def purge_row_ok_def split: if_splits)
  then show "\<not> purge_queued parse i (cancel_account_purge (id_string i) now d)" unfolding purge_queued_def by blast
  show "purge_jobs_ok id_string (cancel_account_purge (id_string i) now d)"
    using assms(1) by (auto simp: cancel_account_purge_def tbl_update_def purge_jobs_ok_def purge_row_ok_def open_purge_job_def)
qed

lemma option_bind_Some: "(case x of None \<Rightarrow> None | Some v \<Rightarrow> f v) = Some z \<longleftrightarrow> (\<exists>v. x = Some v \<and> f v = Some z)"
  by (cases x) auto

lemma cut_off_no_grant:
  assumes "cut_off i d" and "find_access_token_grant cr now token_pepper raw_token d = Inr (Some g)"
  shows "la_id (atg_account g) \<noteq> i"
proof -
  obtain hash t k where t: "find_active_token now d (\<lambda>_. True) hash = Some t" "oat_account_id t = Some k"
    and k: "find_unsuspended_account d k = Some (atg_account g)"
    using assms(2) by (auto simp: find_access_token_grant_def bind_res_Inr_iff option_bind_Some)
  have "t \<in> set (t_oauth_access_token d) \<and> oat_revoked_at t = None"
    using t(1) unfolding find_active_token_def by (auto dest!: find_Some_mem split: option.splits if_splits)
  then have "k \<noteq> i" using assms(1) t(2) unfolding cut_off_def by force
  then show ?thesis using k by (auto simp: find_unsuspended_account_def dest!: find_Some_mem)
qed

lemma find_updated:
  "(\<And>r. la_id (f r) = la_id r) \<Longrightarrow>
     List.find (\<lambda>r. la_id r = i) (tbl_update (\<lambda>r. la_id r = i) f t) = map_option f (List.find (\<lambda>r. la_id r = i) t)"
  by (induction t) (auto simp: tbl_update_def)

lemma find_suspended_row:
  "find_local_account_by_id (ad_db (suspended_rows now i s a)) i =
    map_option (\<lambda>r. r\<lparr>la_suspended_at := (if s then Some now else None)\<rparr>) (find_local_account_by_id (ad_db a) i)"
  by (simp add: find_local_account_by_id_def suspended_rows_def find_updated)

lemma find_local_frame:
  "t_local_account d' = t_local_account d \<Longrightarrow> find_local_account_by_id d' i = find_local_account_by_id d i"
  by (simp add: find_local_account_by_id_def)

lemma suspend_effect:
  assumes "set_account_suspended_by_id w i True a = Inr (a', found)" and "find_local_account_by_id (ad_db a) i = Some account"
    and "la_suspended_at account = None" and "purge_jobs_ok (aw_id_string w) (ad_db a)" and "\<And>k. parse (aw_id_string w k) = Some k"
  shows "find_local_account_by_id (ad_db a') i = Some (account\<lparr>la_suspended_at := Some (aw_now w)\<rparr>)"
    and "cut_off i (ad_db a')" and "purge_queued parse i (ad_db a')" and "purge_jobs_ok (aw_id_string w) (ad_db a')"
proof -
  have i: "la_id account = i" using assms(2) by (auto simp: find_local_account_by_id_def dest!: find_Some_mem)
  have "suspend_local_account w account True a = Inr a'"
    using assms(1,2) by (auto simp: set_account_suspended_by_id_def bind_res_Inr_iff)
  then have "find_local_account_by_id (ad_db a') i = Some (account\<lparr>la_suspended_at := Some (aw_now w)\<rparr>) \<and> cut_off i (ad_db a') \<and>
    purge_queued parse i (ad_db a') \<and> purge_jobs_ok (aw_id_string w) (ad_db a')"
  proof (cases rule: suspend_local_cases)
    case (suspend d1 x t)
    let ?a = "sever_local_account_relationships (aw_now w) i (suspended_rows (aw_now w) i True a)"
    obtain jobs where d1: "d1 = (ad_db ?a)\<lparr>t_job := jobs\<rparr>" using purge_job_frame [OF suspend(3)] by (auto simp: i)
    have a': "ad_db a' = d1\<lparr>t_trend_dirty := t\<rparr>" using suspend(4) by simp
    have "find_local_account_by_id (ad_db a') i = find_local_account_by_id (ad_db (suspended_rows (aw_now w) i True a)) i"
      by (rule find_local_frame) (simp add: a' d1 sever_frame)
    moreover have "cut_off i (ad_db a')" by (simp add: a' d1 cut_off_frame severed_is_cut_off)
    moreover have "purge_jobs_ok (aw_id_string w) (ad_db ?a)"
      using assms(4) by (simp add: purge_jobs_ok_def sever_frame suspended_rows_frame)
    then have "purge_queued parse i (ad_db a') \<and> purge_jobs_ok (aw_id_string w) (ad_db a')"
      using enqueued_purge [OF suspend(3) [unfolded i] _ assms(5)] by (simp add: a')
    ultimately show ?thesis using find_suspended_row assms(2) by simp
  qed (use assms(3) in simp_all)
  then show "find_local_account_by_id (ad_db a') i = Some (account\<lparr>la_suspended_at := Some (aw_now w)\<rparr>)"
    "cut_off i (ad_db a')" "purge_queued parse i (ad_db a')" "purge_jobs_ok (aw_id_string w) (ad_db a')" by blast+
qed

lemma lift_effect:
  assumes "set_account_suspended_by_id w i False a = Inr (a', found)" and "find_local_account_by_id (ad_db a) i = Some account"
    and "purge_jobs_ok (aw_id_string w) (ad_db a)" and "\<And>k. parse (aw_id_string w k) = Some k"
  shows "find_local_account_by_id (ad_db a') i = Some (account\<lparr>la_suspended_at := None\<rparr>)"
    and "cut_off j (ad_db a') = cut_off j (ad_db a)" and "\<not> purge_queued parse i (ad_db a')"
    and "purge_jobs_ok (aw_id_string w) (ad_db a')"
proof -
  have i: "la_id account = i" using assms(2) by (auto simp: find_local_account_by_id_def dest!: find_Some_mem)
  have "suspend_local_account w account False a = Inr a'"
    using assms(1,2) by (auto simp: set_account_suspended_by_id_def bind_res_Inr_iff)
  then have "\<exists>t. ad_db a' =
      (cancel_account_purge (aw_id_string w i) (aw_now w) (ad_db (suspended_rows (aw_now w) i False a)))\<lparr>t_trend_dirty := t\<rparr>"
  proof (cases rule: suspend_local_cases)
    case (lift t)
    show ?thesis unfolding lift(2) i ad_db_with_db by blast
  qed simp_all
  then obtain t where a': "ad_db a' =
      (cancel_account_purge (aw_id_string w i) (aw_now w) (ad_db (suspended_rows (aw_now w) i False a)))\<lparr>t_trend_dirty := t\<rparr>" ..
  have "find_local_account_by_id (ad_db a') i = find_local_account_by_id (ad_db (suspended_rows (aw_now w) i False a)) i"
    by (rule find_local_frame) (simp add: a' cancel_account_purge_def)
  then show "find_local_account_by_id (ad_db a') i = Some (account\<lparr>la_suspended_at := None\<rparr>)"
    using find_suspended_row assms(2) by simp
  show "cut_off j (ad_db a') = cut_off j (ad_db a)" by (simp add: a' cut_off_frame suspended_rows_def)
  have "purge_jobs_ok (aw_id_string w) (ad_db (suspended_rows (aw_now w) i False a))"
    using assms(3) by (simp add: purge_jobs_ok_def suspended_rows_frame)
  from cancelled_purge [OF this assms(4)] show "\<not> purge_queued parse i (ad_db a')" "purge_jobs_ok (aw_id_string w) (ad_db a')"
    by (simp_all add: a')
qed

text \<open>
  C37: a suspension cuts an account off, and lifting it gives the account back but nothing else.
  Suspending an active account marks it, removes every follow and list of it, dismisses its
  notifications, revokes its tokens, so that no token of any client is resolved to it, and leaves
  an open job with which the worker purges it. Lifting the suspension leaves no open job with which the
  worker would purge it, and the account is active again, but the relations are gone and the tokens
  stay revoked. Identifiers are written in one way, which the worker reads back, and the open
  purge jobs are those of suspensions, which both operations preserve.
\<close>

theorem suspension_cuts_off:
  assumes "set_account_suspended_by_id w i True a = Inr (a1, found)" and "find_local_account_by_id (ad_db a) i = Some account"
    and "la_suspended_at account = None"
    and "aw_id_string w' = aw_id_string w" and "\<And>k. h_parse_uuid hs (aw_id_string w k) = Some k"
    and "purge_jobs_ok (aw_id_string w) (ad_db a)"
  shows "find_local_account_by_id (ad_db a1) i = Some (account\<lparr>la_suspended_at := Some (aw_now w)\<rparr>) \<and> cut_off i (ad_db a1) \<and>
    purge_queued (h_parse_uuid hs) i (ad_db a1) \<and> purge_jobs_ok (aw_id_string w) (ad_db a1) \<and>
    (set_account_suspended_by_id w' i False a1 = Inr (a2, found') \<longrightarrow>
       find_local_account_by_id (ad_db a2) i = Some account \<and> cut_off i (ad_db a2) \<and>
       \<not> purge_queued (h_parse_uuid hs) i (ad_db a2) \<and> purge_jobs_ok (aw_id_string w) (ad_db a2) \<and>
       (find_access_token_grant cr now token_pepper raw_token (ad_db a2) = Inr (Some g) \<longrightarrow> la_id (atg_account g) \<noteq> i))"
proof -
  note s = suspend_effect [OF assms(1-3) assms(6,5)]
  have "account\<lparr>la_suspended_at := None\<rparr> = account" using assms(3) by (cases account) simp
  then have "find_local_account_by_id (ad_db a2) i = Some account \<and> cut_off i (ad_db a2) \<and>
      \<not> purge_queued (h_parse_uuid hs) i (ad_db a2) \<and> purge_jobs_ok (aw_id_string w) (ad_db a2)"
    if "set_account_suspended_by_id w' i False a1 = Inr (a2, found')"
    using lift_effect [OF that s(1), where parse = "h_parse_uuid hs"] s(2,4) assms(4,5) by simp
  then show ?thesis using s cut_off_no_grant by blast
qed

text \<open>The same server without the repeated link.\<close>

definition demo_quiet :: administration where
  "demo_quiet = demo_admin_world\<lparr>t_status_preview_card := []\<rparr>"

text \<open>Identifiers written in unary, and the parser that reads them.\<close>

definition demo_unary_draws :: admin_draws where
  "demo_unary_draws = demo_admin_draws\<lparr>aw_id_string := (\<lambda>k. replicate k (CHR ''i''))\<rparr>"

definition demo_unary_handlers :: handlers where
  "demo_unary_handlers = demo_handlers\<lparr>h_parse_uuid := (\<lambda>s. Some (length s))\<rparr>"

lemma demo_suspended:
  "\<exists>a1 a2. set_account_suspended_by_id demo_unary_draws 2 True demo_quiet = Inr (a1, True) \<and>
     set_account_suspended_by_id demo_unary_draws 2 False a1 = Inr (a2, True)"
  by (simp add: demo_quiet_def demo_admin_world_def demo_unary_draws_def demo_admin_draws_def demo_reported_def demo_moderation_def
      demo_world_def empty_db_def set_account_suspended_by_id_def suspend_local_account_def sever_local_account_relationships_def
      delete_scheduled_statuses_def sever_relations_def sever_lists_def revoke_tokens_def dismiss_notifications_def with_db_def
      with_db_res_def find_local_account_by_id_def demo_account_def demo_linked_def tbl_update_def tbl_delete_def
      enqueue_job_on_connection_def tbl_upsert_def tbl_insert_def mark_account_status_trends_dirty_def mark_selected_def
      mark_trend_dirty_def account_statuses_def account_cards_def db_result_def tdy_conflict_def tdy_key_def cancel_account_purge_def Let_def)

theorem suspension_cuts_off_witness:
  "\<exists>a1 a2. set_account_suspended_by_id demo_unary_draws 2 True demo_quiet = Inr (a1, True) \<and> cut_off 2 (ad_db a1) \<and>
     purge_queued (h_parse_uuid demo_unary_handlers) 2 (ad_db a1) \<and>
     set_account_suspended_by_id demo_unary_draws 2 False a1 = Inr (a2, True) \<and> cut_off 2 (ad_db a2) \<and>
     \<not> purge_queued (h_parse_uuid demo_unary_handlers) 2 (ad_db a2)"
proof -
  obtain a1 a2 where run: "set_account_suspended_by_id demo_unary_draws 2 True demo_quiet = Inr (a1, True)"
    "set_account_suspended_by_id demo_unary_draws 2 False a1 = Inr (a2, True)" using demo_suspended by (elim exE conjE)
  have account: "find_local_account_by_id (ad_db demo_quiet) 2 = Some (demo_account 2)" "la_suspended_at (demo_account 2) = None"
    by (simp_all add: demo_quiet_def demo_admin_world_def find_local_account_by_id_def demo_account_def)
  have parse: "h_parse_uuid demo_unary_handlers (aw_id_string demo_unary_draws k) = Some k" for k
    by (simp add: demo_unary_handlers_def demo_unary_draws_def)
  have "purge_jobs_ok (aw_id_string demo_unary_draws) (ad_db demo_quiet)"
    by (simp add: purge_jobs_ok_def demo_quiet_def demo_admin_world_def demo_world_def empty_db_def)
  from suspension_cuts_off [OF run(1) account refl parse this] run show ?thesis by blast
qed

subsection \<open>An active administrator remains\<close>

text \<open>What decides whether there is one: the accounts with their roles and suspensions.\<close>

abbreviation roles :: "db \<Rightarrow> (uuid \<times> bool \<times> bool) list" where
  "roles d \<equiv> map (\<lambda>r. (la_id r, la_is_admin r, la_suspended_at r = None)) (t_local_account d)"

definition active_admins :: "(uuid \<times> bool \<times> bool) list \<Rightarrow> uuid list" where
  "active_admins rs = map fst (filter (\<lambda>(_, admin, active). admin \<and> active) rs)"

lemma count_active: "count_active_admin_accounts d = length (active_admins (roles d))"
  by (simp add: count_active_admin_accounts_def active_admins_def filter_map comp_def)

definition administrators_ok :: "administration \<Rightarrow> bool" where
  "administrators_ok a \<longleftrightarrow> distinct (map fst (roles (ad_db a))) \<and> 0 < count_active_admin_accounts (ad_db a)"

definition suspend_role :: "uuid \<Rightarrow> bool \<Rightarrow> uuid \<times> bool \<times> bool \<Rightarrow> uuid \<times> bool \<times> bool" where
  "suspend_role i s = (\<lambda>(j, admin, active). (j, admin, if j = i then \<not> s else active))"

lemma roles_suspended: "roles (ad_db (suspended_rows now i s a)) = map (suspend_role i s) (roles (ad_db a))"
  by (auto simp: suspended_rows_def tbl_update_def suspend_role_def)

lemma fst_suspend_role [simp]: "fst (suspend_role i s x) = fst x"
  by (cases x) (simp add: suspend_role_def)

lemma active_admins_Cons [simp]:
  "active_admins [] = []" "active_admins ((j, admin, active) # rs) = (if admin \<and> active then [j] else []) @ active_admins rs"
  by (simp_all add: active_admins_def)

lemma active_suspended: "active_admins (map (suspend_role i True) rs) = filter (\<lambda>j. j \<noteq> i) (active_admins rs)"
proof (induction rs)
  case (Cons x rs)
  then show ?case by (cases x) (simp add: suspend_role_def)
qed simp

lemma active_lifted: "set (active_admins rs) \<subseteq> set (active_admins (map (suspend_role i False) rs))"
proof (induction rs)
  case (Cons x rs)
  then show ?case by (cases x) (auto simp: suspend_role_def)
qed simp

lemma suspend_by_id_roles:
  assumes "set_account_suspended_by_id w i s a = Inr (a', found)"
  shows "roles (ad_db a') = (if find_local_account_by_id (ad_db a) i = None then roles (ad_db a) else map (suspend_role i s) (roles (ad_db a)))"
proof (cases "find_local_account_by_id (ad_db a) i")
  case None
  show ?thesis
  proof (cases "find_remote_actor_by_id (ad_db a) i")
    case None
    then show ?thesis using assms \<open>find_local_account_by_id (ad_db a) i = None\<close> by (simp add: set_account_suspended_by_id_def)
  next
    case (Some actor)
    have "suspend_remote_actor w actor s a = Inr a'"
      using assms unfolding set_account_suspended_by_id_def Some \<open>find_local_account_by_id (ad_db a) i = None\<close>
      by (simp add: bind_res_Inr_iff)
    moreover obtain f where f: "suspend_remote_actor w actor s a =
        mark_account_status_trends_dirty (aw_pg_now w) False (ra_id actor) (with_db f a)"
      "t_local_account (f (ad_db a)) = t_local_account (ad_db a)" by (rule suspend_remote_stage)
    ultimately have mark: "mark_account_status_trends_dirty (aw_pg_now w) False (ra_id actor) (with_db f a) = Inr a'" by simp
    obtain t where "a' = with_db (\<lambda>d. d\<lparr>t_trend_dirty := t\<rparr>) (with_db f a)" by (rule mark_account_frame [OF mark])
    then show ?thesis using f(2) \<open>find_local_account_by_id (ad_db a) i = None\<close> by simp
  qed
next
  case (Some account)
  then have i: "la_id account = i" by (auto simp: find_local_account_by_id_def dest!: find_Some_mem)
  have "suspend_local_account w account s a = Inr a'"
    using assms Some by (auto simp: set_account_suspended_by_id_def bind_res_Inr_iff)
  then have "t_local_account (ad_db a') = t_local_account (ad_db (suspended_rows (aw_now w) i s a))"
  proof (cases rule: suspend_local_cases)
    case (suspend d1 x t)
    then show ?thesis using purge_job_frame [OF suspend(3)] by (auto simp: i sever_frame)
  qed (simp_all add: i cancel_account_purge_def)
  then show ?thesis using Some roles_suspended [of "aw_now w" i s a] by simp
qed

lemma administrators_frame:
  "roles (ad_db a') = roles (ad_db a) \<Longrightarrow> administrators_ok a' = administrators_ok a"
  by (simp only: administrators_ok_def count_active)

lemma update_keeps_roles:
  "(\<And>r. (la_id (f r), la_is_admin (f r), la_suspended_at (f r)) = (la_id r, la_is_admin r, la_suspended_at r)) \<Longrightarrow>
     map (\<lambda>r. (la_id r, la_is_admin r, la_suspended_at r = None)) (tbl_update p f t) =
     map (\<lambda>r. (la_id r, la_is_admin r, la_suspended_at r = None)) t"
  by (induction t) (auto simp: tbl_update_def)

lemma audit_roles: "audit_entry w n actor s x k i j a = Inr a' \<Longrightarrow> roles (ad_db a') = roles (ad_db a)"
  by (erule audit_entry_frame) simp

lemma mark_roles: "mark_account_status_trends_dirty pg_now l i a = Inr a' \<Longrightarrow> roles (ad_db a') = roles (ad_db a)"
  by (erule mark_account_frame) simp

lemma limit_roles:
  assumes "set_account_limited_in_transaction w actor src i b a = Inr (a', x)"
  shows "roles (ad_db a') = roles (ad_db a)"
proof -
  obtain f a1 where set: "(if f then set_remote_actor_limited_by_id else set_local_account_limited_by_id) (aw_now w) (aw_pg_now w) i b a = Inr a1"
    and "roles (ad_db a') = roles (ad_db a1)"
    using assms audit_roles unfolding set_account_limited_in_transaction_def admin_Inr by blast
  moreover have "roles (ad_db a1) = roles (ad_db a)"
    using set by (cases f) (auto simp: set_remote_actor_limited_by_id_def set_local_account_limited_by_id_def update_keeps_roles
        dest!: mark_roles split: if_splits)
  ultimately show ?thesis by simp
qed

lemma apply_suspension_roles:
  assumes "apply_suspension w actor src i s existing a = Inr (a', x)"
  shows "roles (ad_db a') = (if find_local_account_by_id (ad_db a) i = None then roles (ad_db a) else map (suspend_role i s) (roles (ad_db a)))"
proof -
  obtain a1 a2 found where first: "(if s \<and> \<not> ada_suspended existing \<and> ada_domain existing = None
        then bind_res (find_or ''account does not exist'' (find_local_account_by_id (ad_db a) i)) (\<lambda>local.
               with_db_res (enqueue_actor_delete_in_transaction w local) a)
        else Inr a) = Inr a1"
    and second: "set_account_suspended_by_id w i s a1 = Inr (a2, found)" and last: "roles (ad_db a') = roles (ad_db a2)"
    using assms audit_roles unfolding apply_suspension_def by (auto simp: admin_Inr)
  have accounts: "t_local_account (ad_db a1) = t_local_account (ad_db a)"
    using first by (auto simp: admin_Inr with_db_res_Inr dest!: actor_delete_frame split: if_splits)
  show ?thesis using suspend_by_id_roles [OF second] unfolding last find_local_frame [OF accounts] accounts .
qed

lemma other_remains:
  assumes "distinct xs" and "1 < length xs"
  shows "filter (\<lambda>j. j \<noteq> i) xs \<noteq> []"
proof -
  obtain x y zs where "xs = x # y # zs" using assms(2) by (cases xs; cases "tl xs") auto
  then show ?thesis using assms(1) by auto
qed

lemma suspension_keeps_administrators:
  assumes "set_account_suspended_in_transaction w actor src i s a = Inr (a', x)" and "administrators_ok a"
  shows "administrators_ok a'"
proof -
  let ?active = "active_admins (roles (ad_db a))"
  obtain existing where checks: "suspension_checks actor i s (ad_db a) = Inr existing"
    and "apply_suspension w actor src i s existing a = Inr (a', x)"
    using assms(1) by (auto simp: set_account_suspended_in_transaction_def bind_res_Inr_iff)
  note roles' = apply_suspension_roles [OF this(2)]
  have ids: "distinct (map fst (roles (ad_db a)))" and count: "0 < length ?active"
    using assms(2) by (auto simp: administrators_ok_def count_active comp_def)
  have "distinct (map fst (roles (ad_db a')))" using ids roles' by (auto simp: comp_def)
  moreover have "0 < length (active_admins (roles (ad_db a')))"
  proof (cases "s \<and> i \<in> set ?active")
    case True
    then obtain r where r: "r \<in> set (t_local_account (ad_db a))" "la_id r = i" "la_is_admin r"
      by (auto simp: active_admins_def)
    obtain account where account: "find_local_account_by_id (ad_db a) i = Some account"
      using r find_None_all [of "\<lambda>r. la_id r = i"] by (cases "find_local_account_by_id (ad_db a) i") (auto simp: find_local_account_by_id_def)
    then have "account \<in> set (t_local_account (ad_db a)) \<and> la_id account = i" by (auto simp: find_local_account_by_id_def dest!: find_Some_mem)
    then have "account = r" using r ids by (auto simp: distinct_map inj_on_def comp_def)
    then have two: "1 < length ?active"
      using checks True r account by (auto simp: suspension_checks_def admin_Inr find_admin_account_by_id_def count_active split: if_splits)
    have "distinct ?active" using ids unfolding active_admins_def by (rule distinct_map_filter)
    from other_remains [OF this two] have "filter (\<lambda>j. j \<noteq> i) ?active \<noteq> []" .
    then show ?thesis unfolding roles' using account True by (simp add: active_suspended del: map_map)
  next
    case False
    show ?thesis
    proof (cases s)
      case True
      then have "filter (\<lambda>j. j \<noteq> i) ?active = ?active" using False by (auto simp: filter_id_conv)
      then show ?thesis unfolding roles' using count True by (simp add: active_suspended del: map_map)
    next
      case False
      have "active_admins (map (suspend_role i False) (roles (ad_db a))) \<noteq> []"
        using count active_lifted [of "roles (ad_db a)" i] by force
      then show ?thesis unfolding roles' using False count by (simp del: map_map)
    qed
  qed
  ultimately show ?thesis by (simp add: administrators_ok_def count_active)
qed

lemma purge_roles:
  assumes "purge_suspended_local_account now i a = Inr (a', paths)"
  shows "roles (ad_db a') = roles (ad_db a)"
proof -
  have "t_local_account (delete_status_rows gone d) = t_local_account d" for gone d by (simp add: delete_status_rows_def Let_def)
  then show ?thesis
    using assms unfolding purge_suspended_local_account_def
    by (auto simp: bind_res_Inr_iff delete_local_statuses_def update_keeps_roles split: option.splits if_splits)
qed

lemma insert_account_roles:
  assumes "insert_local_account new_id now pg_now username email h admin d = Inr (d', i)"
  shows "roles d' = roles d @ [(new_id, admin, True)] \<and> new_id \<notin> set (map fst (roles d))"
  using assms
  by (auto simp: insert_local_account_def Let_def bind_res_Inr_iff tbl_insert_nothing_def new_account_row_def list_ex_iff la_conflict_def
      split: if_splits prod.splits)

lemma created_keeps_administrators:
  assumes "admin_create_local_account w actor src username email is_admin a = Inr (a', x)" and "administrators_ok a"
  shows "administrators_ok a'"
proof -
  obtain h d i where ins: "insert_local_account (aw_account_id w) (aw_now w) (aw_pg_now w) username email h is_admin (ad_db a) = Inr (d, i)"
    and eq: "roles (ad_db a') = roles d"
    using assms(1) by (auto simp: admin_create_local_account_def admin_Inr create_admin_account_in_transaction_def
        create_local_account_in_transaction_def dest!: audit_roles split: if_splits)
  have roles': "roles (ad_db a') = roles (ad_db a) @ [(aw_account_id w, is_admin, True)]"
    "aw_account_id w \<notin> set (map fst (roles (ad_db a)))" using insert_account_roles [OF ins] unfolding eq by blast+
  have "active_admins (xs @ ys) = active_admins xs @ active_admins ys" for xs ys by (simp add: active_admins_def)
  then show ?thesis using assms(2) roles' unfolding administrators_ok_def count_active by simp
qed

lemma reset_roles:
  assumes "reset_local_password_in_transaction w actor src i a = Inr (a', x)"
  shows "roles (ad_db a') = roles (ad_db a)"
  using assms
  by (auto simp: reset_local_password_in_transaction_def admin_Inr with_db_res_Inr update_local_account_password_hash_by_id_def
      update_keeps_roles dest!: audit_roles split: if_splits)

lemma find_local_ids: "find_local_account_by_id d i = None \<longleftrightarrow> i \<notin> fst ` set (roles d)"
  by (auto simp: find_local_account_by_id_def find_None_all image_image)

lemma active_row:
  assumes "distinct (map la_id (t_local_account d))" and "k \<in> set (active_admins (roles d))"
  shows "\<exists>r. find_local_account_by_id d k = Some r \<and> la_is_admin r \<and> la_suspended_at r = None"
proof -
  obtain r where r: "r \<in> set (t_local_account d)" "la_id r = k" "la_is_admin r" "la_suspended_at r = None"
    using assms(2) by (auto simp: active_admins_def)
  obtain s where s: "find_local_account_by_id d k = Some s"
    using r(1,2) find_None_all [of "\<lambda>r. la_id r = k"] by (cases "find_local_account_by_id d k") (auto simp: find_local_account_by_id_def)
  then have "s \<in> set (t_local_account d)" "la_id s = k" by (auto simp: find_local_account_by_id_def dest!: find_Some_mem)
  then have "s = r" using r(1,2) assms(1) by (auto simp: distinct_map inj_on_def)
  then show ?thesis using s r by blast
qed

text \<open>
  What lets a suspension of a local account go through on a server that does not federate: new
  identifiers, the unique keys of the queue, and no statuses or cards that are selected twice.
\<close>

definition suspension_ready :: "admin_draws \<Rightarrow> uuid \<Rightarrow> administration \<Rightarrow> bool" where
  "suspension_ready w i a \<longleftrightarrow> \<not> aw_federation_enabled w \<and> aw_audit_id w \<notin> aal_id ` set (t_admin_audit_log (ad_mod a)) \<and>
     aw_purge_job_id w \<notin> job_id ` set (t_job (ad_db a)) \<and> tbl_ok job_conflict (t_job (ad_db a)) \<and>
     distinct (account_statuses True i (ad_db a)) \<and> distinct (account_cards True i a)"

lemma account_cards_frame:
  assumes "t_status_preview_card a' = t_status_preview_card a" and "account_statuses local i (ad_db a') = account_statuses local i (ad_db a)"
  shows "account_cards local i a' = account_cards local i a"
  unfolding account_cards_def assms ..

lemma mark_each_succeeds: "\<exists>t. mark_each pg_now kind is d = Inr (d\<lparr>t_trend_dirty := t\<rparr>)"
proof (induction "is" arbitrary: d)
  case Nil
  have "mark_each pg_now kind [] d = Inr (d\<lparr>t_trend_dirty := t_trend_dirty d\<rparr>)" by simp
  then show ?case by blast
next
  case (Cons i "is")
  obtain t1 where t1: "mark_trend_dirty pg_now kind i d = Inr (d\<lparr>t_trend_dirty := t1\<rparr>)" using mark_dirty_succeeds by blast
  obtain t2 where "mark_each pg_now kind is (d\<lparr>t_trend_dirty := t1\<rparr>) = Inr (d\<lparr>t_trend_dirty := t1\<rparr>\<lparr>t_trend_dirty := t2\<rparr>)"
    using Cons.IH by blast
  then show ?case by (intro exI [of _ t2]) (simp add: t1)
qed

lemma mark_account_succeeds:
  assumes "distinct (account_statuses local i (ad_db a))" and "distinct (account_cards local i a)"
  shows "\<exists>t. mark_account_status_trends_dirty pg_now local i a = Inr (with_db (\<lambda>d. d\<lparr>t_trend_dirty := t\<rparr>) a)"
proof -
  let ?kind = "if local then ''local_status'' else ''remote_status''"
  obtain t1 where t1: "mark_each pg_now ?kind (account_statuses local i (ad_db a)) (ad_db a) = Inr ((ad_db a)\<lparr>t_trend_dirty := t1\<rparr>)"
    using mark_each_succeeds by blast
  obtain t2 where "mark_each pg_now ''link'' (account_cards local i a) ((ad_db a)\<lparr>t_trend_dirty := t1\<rparr>) =
      Inr ((ad_db a)\<lparr>t_trend_dirty := t1\<rparr>\<lparr>t_trend_dirty := t2\<rparr>)"
    using mark_each_succeeds by blast
  then show ?thesis
    by (intro exI [of _ t2]) (simp add: mark_account_status_trends_dirty_def with_db_res_def mark_selected_def assms t1 with_db_def)
qed

lemma enqueue_fresh_succeeds:
  assumes "tbl_ok job_conflict (t_job d)" and "n \<notin> job_id ` set (t_job d)"
  shows "\<exists>d' x. enqueue_job_on_connection n now job d = Inr (d', x)"
proof -
  let ?row = "new_job_row n now job"
  have same: "j\<lparr>job_deduplication_key := nj_deduplication_key job\<rparr> = j" if "job_dedup_conflict ?row j" for j
    using job_dedup_same_key [OF that] by (cases j) simp
  have "job_conflict j k \<Longrightarrow> job_dedup_conflict ?row j \<Longrightarrow> job_dedup_conflict ?row k" if "j \<in> set (t_job d)" "k \<in> set (t_job d)" for j k
    using job_tbl.conflict_eq [OF assms(1) that] by blast
  then have "\<exists>jobs. tbl_upsert job_dedup_conflict job_conflict (\<lambda>j. j\<lparr>job_deduplication_key := nj_deduplication_key job\<rparr>) ?row (t_job d) = Inr jobs"
    using assms(2) same by (auto simp: tbl_upsert_def tbl_insert_def list_ex_iff job_conflict_def new_job_row_def)
  then show ?thesis by (auto simp: enqueue_job_on_connection_def Let_def)
qed

lemma enqueue_keeps_keys:
  assumes "enqueue_job_on_connection n now job d = Inr (d', x)" and "tbl_ok job_conflict (t_job d)"
  shows "tbl_ok job_conflict (t_job d')" and "job_id ` set (t_job d') \<subseteq> insert n (job_id ` set (t_job d))"
    and "t_local_status d' = t_local_status d"
proof -
  let ?row = "new_job_row n now job"
  have "tbl_ok job_conflict (t_job d @ [?row])" if "\<forall>j \<in> set (t_job d). \<not> job_conflict ?row j"
    unfolding tbl_ok_append using that assms(2) job_tbl.conflict_sym by fastforce
  then show "tbl_ok job_conflict (t_job d')" using enqueue_cases [OF assms(1)] assms(2) by auto
  show "job_id ` set (t_job d') \<subseteq> insert n (job_id ` set (t_job d))" "t_local_status d' = t_local_status d"
    using enqueue_cases [OF assms(1)] by (auto simp: new_job_row_def)
qed

text \<open>What later suspensions need is kept.\<close>

definition suspension_frame :: "admin_draws \<Rightarrow> administration \<Rightarrow> administration \<Rightarrow> bool" where
  "suspension_frame w a a' \<longleftrightarrow> t_status_preview_card a' = t_status_preview_card a \<and> t_local_status (ad_db a') = t_local_status (ad_db a) \<and>
     tbl_ok job_conflict (t_job (ad_db a')) \<and> job_id ` set (t_job (ad_db a')) \<subseteq> insert (aw_purge_job_id w) (job_id ` set (t_job (ad_db a))) \<and>
     t_admin_audit_log (ad_mod a') = t_admin_audit_log (ad_mod a)"

lemma severed_rows_frame:
  "t_admin_audit_log (ad_mod (sever_local_account_relationships now i a)) = t_admin_audit_log (ad_mod a)"
  "t_admin_audit_log (ad_mod (suspended_rows now i s a)) = t_admin_audit_log (ad_mod a)"
  by (simp_all add: sever_local_account_relationships_def delete_scheduled_statuses_def suspended_rows_def Let_def with_db_def)

lemma suspend_stage_succeeds:
  assumes "suspension_ready w (la_id account) a" and "la_suspended_at account = None"
  shows "\<exists>a'. suspend_local_account w account True a = Inr a' \<and> suspension_frame w a a'"
proof -
  let ?i = "la_id account"
  let ?a = "sever_local_account_relationships (aw_now w) ?i (suspended_rows (aw_now w) ?i True a)"
  have jobs: "t_job (ad_db ?a) = t_job (ad_db a)" and statuses: "t_local_status (ad_db ?a) = t_local_status (ad_db a)"
    and cards: "t_status_preview_card ?a = t_status_preview_card a" by (simp_all add: sever_frame suspended_rows_frame)
  obtain d x where d: "enqueue_job_on_connection (aw_purge_job_id w) (aw_pg_now w) (purge_job w ?i) (ad_db ?a) = Inr (d, x)"
    using enqueue_fresh_succeeds assms(1) jobs unfolding suspension_ready_def by metis
  have job: "tbl_ok job_conflict (t_job d)" "job_id ` set (t_job d) \<subseteq> insert (aw_purge_job_id w) (job_id ` set (t_job (ad_db a)))"
    "t_local_status d = t_local_status (ad_db a)"
    using enqueue_keeps_keys [OF d] assms(1) by (simp_all add: suspension_ready_def jobs statuses)
  have same: "account_statuses True ?i d = account_statuses True ?i (ad_db a)" by (simp add: account_statuses_def job(3))
  have "account_cards True ?i (with_db (\<lambda>_. d) ?a) = account_cards True ?i a"
    by (rule account_cards_frame) (simp_all add: same cards)
  then have "distinct (account_statuses True ?i (ad_db (with_db (\<lambda>_. d) ?a)))" "distinct (account_cards True ?i (with_db (\<lambda>_. d) ?a))"
    using assms(1) same by (simp_all add: suspension_ready_def)
  from mark_account_succeeds [OF this, of "aw_pg_now w"] obtain t where t:
    "mark_account_status_trends_dirty (aw_pg_now w) True ?i (with_db (\<lambda>_. d) ?a) =
      Inr (with_db (\<lambda>d. d\<lparr>t_trend_dirty := t\<rparr>) (with_db (\<lambda>_. d) ?a))" ..
  have "suspend_local_account w account True a = Inr (with_db (\<lambda>_. d\<lparr>t_trend_dirty := t\<rparr>) ?a)"
    using t d assms(2) by (simp add: suspend_local_account_def Let_def with_db_res_def suspended_rows_def)
  moreover have "suspension_frame w a (with_db (\<lambda>_. d\<lparr>t_trend_dirty := t\<rparr>) ?a)"
    using job cards by (simp add: suspension_frame_def with_db_def severed_rows_frame [unfolded with_db_def])
  ultimately show ?thesis by blast
qed

lemma apply_suspension_succeeds:
  assumes "suspension_ready w i a" and "find_local_account_by_id (ad_db a) i = Some account" and "la_suspended_at account = None"
    and "find_local_account_by_id (ad_db a) actor \<noteq> None"
  shows "\<exists>a' v. apply_suspension w actor src i True existing a = Inr (a', v) \<and>
    (\<forall>w' k. suspension_ready w' k a \<longrightarrow> aw_audit_id w' \<noteq> aw_audit_id w \<longrightarrow> aw_purge_job_id w' \<noteq> aw_purge_job_id w \<longrightarrow> suspension_ready w' k a')"
proof -
  have i: "la_id account = i" using assms(2) by (auto simp: find_local_account_by_id_def dest!: find_Some_mem)
  obtain a1 where a1: "suspend_local_account w account True a = Inr a1" and frame: "suspension_frame w a a1"
    using suspend_stage_succeeds assms(1,3) i by blast
  have roles: "roles (ad_db a1) = map (suspend_role i True) (roles (ad_db a))"
    using suspend_by_id_roles [of w i True a a1 True] assms(2) a1 by (simp add: set_account_suspended_by_id_def)
  have found: "find_local_account_by_id (ad_db a1) k \<noteq> None" if "find_local_account_by_id (ad_db a) k \<noteq> None" for k
    using that roles unfolding find_local_ids by (force simp: image_image)
  obtain x where x: "find_admin_account_by_id (ad_db a1) i = Some x"
    using found [of i] assms(2) by (auto simp: find_admin_account_by_id_def)
  have fk: "fk_local (ad_db a1) actor"
    using found [OF assms(4)] by (auto simp: fk_local_def find_local_account_by_id_def list_ex_iff dest!: find_Some_mem)
  let ?row = "\<lparr> aal_id = aw_audit_id w, aal_actor_account_id = Some actor, aal_source = src, aal_action = AccountSuspend,
    aal_target_kind = account_kind x, aal_target_id = aw_id_string w i, aal_metadata = account_metadata w x, aal_created_at = aw_pg_now w \<rparr>"
  let ?a = "a1\<lparr>ad_mod := (ad_mod a1)\<lparr>t_admin_audit_log := t_admin_audit_log (ad_mod a1) @ [?row]\<rparr>\<rparr>"
  have "audit_entry w (aw_audit_id w) (Some actor) src AccountSuspend (account_kind x) i (account_metadata w x) a1 = Inr ?a"
    using frame assms(1) fk
    by (auto simp: audit_entry_def insert_admin_audit_entry_def with_fk_def fk_opt_def tbl_insert_def aal_conflict_def list_ex_iff
        suspension_frame_def suspension_ready_def)
  then have "apply_suspension w actor src i True existing a = Inr (?a, x)"
    using assms(1,2) a1 x
    by (simp add: apply_suspension_def suspension_ready_def enqueue_actor_delete_in_transaction_def Let_def find_or_def with_db_res_def
        with_db_def set_account_suspended_by_id_def)
  moreover have statuses: "account_statuses True k (ad_db ?a) = account_statuses True k (ad_db a)" for k
    using frame by (simp add: suspension_frame_def account_statuses_def)
  have "account_cards True k ?a = account_cards True k a" for k
    using frame statuses by (intro account_cards_frame) (simp_all add: suspension_frame_def)
  then have "suspension_ready w' k ?a"
    if "suspension_ready w' k a" "aw_audit_id w' \<noteq> aw_audit_id w" "aw_purge_job_id w' \<noteq> aw_purge_job_id w" for w' k
    using that frame statuses by (auto simp: suspension_ready_def suspension_frame_def)
  ultimately show ?thesis by blast
qed

text \<open>
  C40: two administrators can suspend each other. The checks of a suspension read without a lock.
  On a server that does not federate, with the last two active administrators \<open>x\<close> and \<open>y\<close>: when
  the transaction of \<open>y\<close> that suspends \<open>x\<close> has passed its checks, and the transaction of \<open>x\<close> that
  suspends \<open>y\<close> is run and committed before it goes on, then both succeed and no active
  administrator is left. This is one order of the two: when each has locked the row of its target
  before either writes its audit entry, which needs a lock on the row of its author, the
  database aborts one of them instead.
\<close>

theorem administrators_suspend_each_other:
  assumes "distinct (map la_id (t_local_account (ad_db a)))" and "set (active_admins (roles (ad_db a))) = {x, y}" and "x \<noteq> y"
    and "suspension_ready w y a" and "suspension_ready w' x a"
    and "aw_audit_id w' \<noteq> aw_audit_id w" and "aw_purge_job_id w' \<noteq> aw_purge_job_id w"
  shows "\<exists>ex a1 a2 u v. suspension_checks y x True (ad_db a) = Inr ex \<and>
    set_account_suspended_in_transaction w x src y True a = Inr (a1, u) \<and> apply_suspension w' y src' x True ex a1 = Inr (a2, v) \<and>
    count_active_admin_accounts (ad_db a2) = 0"
proof -
  have row: "\<exists>r. find_local_account_by_id (ad_db a) k = Some r \<and> la_is_admin r \<and> la_suspended_at r = None" if "k \<in> {x, y}" for k
    using that assms(2) active_row [OF assms(1)] by blast
  obtain rx ry where rx: "find_local_account_by_id (ad_db a) x = Some rx" "la_suspended_at rx = None"
    and ry: "find_local_account_by_id (ad_db a) y = Some ry" "la_suspended_at ry = None" using row by blast
  have two: "\<not> count_active_admin_accounts (ad_db a) \<le> 1"
    using assms(2,3) card_length [of "active_admins (roles (ad_db a))"] by (simp add: count_active)
  obtain ex ey where ex: "suspension_checks y x True (ad_db a) = Inr ex" and ey: "suspension_checks x y True (ad_db a) = Inr ey"
    using two rx ry assms(3) by (auto simp: suspension_checks_def find_admin_account_by_id_def find_or_def)
  obtain a1 u where a1: "apply_suspension w x src y True ey a = Inr (a1, u)" and ready: "suspension_ready w' x a1"
    using apply_suspension_succeeds [OF assms(4) ry, of x src ey] rx(1) assms(5-7) by auto
  have one: "roles (ad_db a1) = map (suspend_role y True) (roles (ad_db a))"
    using apply_suspension_roles [OF a1] ry(1) by simp
  have "map fst (roles (ad_db a1)) = map fst (roles (ad_db a))" unfolding one by (simp add: comp_def)
  then have ids: "distinct (map la_id (t_local_account (ad_db a1)))" using assms(1) by (simp add: comp_def)
  have "x \<in> set (active_admins (roles (ad_db a1)))" unfolding one active_suspended using assms(2,3) by simp
  then obtain r where r: "find_local_account_by_id (ad_db a1) x = Some r" "la_suspended_at r = None" using active_row [OF ids] by blast
  have "y \<in> fst ` set (roles (ad_db a1))" unfolding one using ry(1) find_local_ids [of "ad_db a" y] by (force simp: image_image)
  then have y1: "find_local_account_by_id (ad_db a1) y \<noteq> None" by (simp add: find_local_ids)
  obtain a2 v where a2: "apply_suspension w' y src' x True ex a1 = Inr (a2, v)"
    using apply_suspension_succeeds [OF ready r y1] by blast
  have "roles (ad_db a2) = map (suspend_role x True) (roles (ad_db a1))"
    using apply_suspension_roles [OF a2] r(1) by simp
  then have "active_admins (roles (ad_db a2)) = filter (\<lambda>j. j \<noteq> x) (filter (\<lambda>j. j \<noteq> y) (active_admins (roles (ad_db a))))"
    unfolding one by (simp add: active_suspended del: map_map)
  then have "count_active_admin_accounts (ad_db a2) = 0" using assms(2) by (auto simp: count_active filter_empty_conv)
  then show ?thesis using ex ey a1 a2 by (auto simp: set_account_suspended_in_transaction_def)
qed

definition demo_boot :: administration where
  "demo_boot = \<lparr> ad_mod = (demo_moderation [] [])\<lparr>m_db := empty_db\<lparr>t_local_account := [new_account_row 1 0 [] [] ''h'' True],
       t_local_notification_policy := [default_notification_policy 1 0]\<rparr>\<rparr>,
     t_media_attachment = [], t_scheduled_status = [], t_status_preview_card = [] \<rparr>"

definition demo_two :: administration where
  "demo_two = demo_boot\<lparr>ad_mod := (ad_mod demo_boot)\<lparr>m_db := empty_db\<lparr>
     t_local_account := [(demo_account 1)\<lparr>la_is_admin := True\<rparr>, (demo_account 2)\<lparr>la_is_admin := True\<rparr>]\<rparr>\<rparr>\<rparr>"

theorem administrators_suspend_each_other_witness:
  "\<exists>ex a1 a2 u v. suspension_checks 2 1 True (ad_db demo_two) = Inr ex \<and>
     set_account_suspended_in_transaction demo_admin_draws 1 AuditApi 2 True demo_two = Inr (a1, u) \<and>
     apply_suspension (demo_admin_draws\<lparr>aw_audit_id := 51, aw_purge_job_id := 52\<rparr>) 2 AuditApi 1 True ex a1 = Inr (a2, v) \<and>
     count_active_admin_accounts (ad_db a2) = 0"
proof -
  let ?w = "demo_admin_draws\<lparr>aw_audit_id := 51, aw_purge_job_id := 52\<rparr>"
  have ids: "distinct (map la_id (t_local_account (ad_db demo_two)))" and both: "set (active_admins (roles (ad_db demo_two))) = {1, 2}"
    by (simp_all add: demo_two_def demo_account_def insert_commute)
  have ready: "suspension_ready demo_admin_draws 2 demo_two" "suspension_ready ?w 1 demo_two"
    "aw_audit_id ?w \<noteq> aw_audit_id demo_admin_draws" "aw_purge_job_id ?w \<noteq> aw_purge_job_id demo_admin_draws"
    by (simp_all add: suspension_ready_def demo_admin_draws_def demo_two_def demo_boot_def demo_moderation_def empty_db_def
        account_statuses_def account_cards_def)
  show ?thesis using administrators_suspend_each_other [OF ids both _ ready] by simp
qed

end
