(* ===== verification/Roosty_Admin_Steps.thy ===== *)
theory Roosty_Admin_Steps
  imports Roosty_Web_Admin Roosty_Administration_Properties
begin

text \<open>
  What administrators and the operator do, in any order and by all ways: the requests of the
  API, the forms of the web pages and the commands of the operator. The first part follows who
  is an active administrator, the second what the audit log says of moderation.
\<close>

subsection \<open>Results of forms\<close>

lemma bind_web_Inr: "bind_web x f = Inr y \<longleftrightarrow> (\<exists>a. x = Inr a \<and> f a = Inr y)"
  by (simp add: bind_web_def split: sum.split)

lemma web_err_Inr: "web_err x = Inr y \<longleftrightarrow> x = Inr y"
  by (auto simp: web_err_def split: sum.split roosty_error.split)

lemma or_web_not_found_Inr: "or_web_not_found x = Inr y \<longleftrightarrow> x = Some y"
  by (simp add: or_web_not_found_def split: option.split)

lemma with_mod_Inr: "with_mod a r = Inr a' \<longleftrightarrow> (\<exists>m. r = Inr m \<and> a' = a\<lparr>ad_mod := m\<rparr>)"
  by (auto simp: with_mod_def split: sum.split)

lemmas web_Inr = bind_web_Inr web_err_Inr or_web_not_found_Inr with_mod_Inr

lemma authenticated_admin_Inr:
  assumes "authenticated_admin_form f d = Inr i"
  shows "\<exists>r. find_local_account_by_id d i = Some r \<and> la_is_admin r"
proof -
  obtain k r where "find_local_account_by_id d k = Some r" "la_is_admin r" "la_id r = i"
    using assms by (auto simp: authenticated_admin_form_def web_Inr split: if_splits option.splits)
  moreover from this(1) have "la_id r = k" by (auto simp: find_local_account_by_id_def dest!: find_Some_mem)
  ultimately show ?thesis by blast
qed

subsection \<open>An active administrator remains\<close>

text \<open>
  Everything that changes accounts: the requests, forms and commands, the job that purges a suspended
  account, and the registration of new accounts. Whatever else happens leaves the accounts, their
  roles and their suspensions alone.
\<close>

inductive admin_step :: "administration \<Rightarrow> administration \<Rightarrow> bool" where
  step_action: "account_action w grant i action_type report a = Inr a' \<Longrightarrow> admin_step a a'"
| step_unsuspend: "unsuspend_account w grant i a = Inr (a', x) \<Longrightarrow> admin_step a a'"
| step_purge: "delete_suspended_account w grant i a = Inr (a', paths) \<Longrightarrow> admin_step a a'"
| step_purge_job: "purge_suspended_local_account now i a = Inr (a', paths) \<Longrightarrow> admin_step a a'"
| step_create: "create_account w grant username email is_admin a = Inr (a', y) \<Longrightarrow> admin_step a a'"
| step_reset: "reset_password w grant i a = Inr (a', y) \<Longrightarrow> admin_step a a'"
| step_web_create: "create_admin_account f w username email is_admin a = Inr (a', y) \<Longrightarrow> admin_step a a'"
| step_web_limit: "limit_admin_account f w i limit_on a = Inr (a', x) \<Longrightarrow> admin_step a a'"
| step_web_suspend: "suspend_admin_account f w i a = Inr (a', x) \<Longrightarrow> admin_step a a'"
| step_web_reset: "reset_admin_password f w i a = Inr (a', y) \<Longrightarrow> admin_step a a'"
| step_operator_create: "create_user w username email is_admin a = Inr (a', y) \<Longrightarrow> admin_step a a'"
| step_operator_reset: "operator_reset_password w username a = Inr (a', y) \<Longrightarrow> admin_step a a'"
| step_operator_limit: "operator_set_account_limited w name limit_on a = Inr (a', x) \<Longrightarrow> admin_step a a'"
| step_register: "create_local_account_in_transaction new_id now pg_now username email h (ad_db a) = Inr (d, i) \<Longrightarrow>
    admin_step a (with_db (\<lambda>_. d) a)"
| step_elsewhere: "roles (ad_db a') = roles (ad_db a) \<Longrightarrow> admin_step a a'"

lemma bootstrap_gives_administrator:
  "create_bootstrap_admin new_id now pg_now username email h (ad_db a) = Inr (d, i) \<Longrightarrow> administrators_ok (with_db (\<lambda>_. d) a)"
  by (auto simp: create_bootstrap_admin_def administrators_ok_def count_active split: if_splits dest!: insert_account_roles)

lemma report_action_ok:
  assumes "account_action_for_report w actor i report action_type a = Inr a'" and "administrators_ok a"
  shows "administrators_ok a'"
proof -
  obtain a1 where a1: "administrators_ok a1" and eq: "roles (ad_db a') = roles (ad_db a1)"
    using assms
    by (auto simp: account_action_for_report_def admin_Inr set_moderation_report_resolved_def change_report_def Let_def
        dest!: audit_roles dest: suspension_keeps_administrators limit_roles [THEN administrators_frame] split: if_splits option.splits)
  show ?thesis unfolding administrators_frame [OF eq] by (rule a1)
qed

lemma admin_requests_ok:
  "account_action w grant i action_type report a = Inr a' \<Longrightarrow> administrators_ok a \<Longrightarrow> administrators_ok a'"
  "unsuspend_account w grant i a = Inr (a', x) \<Longrightarrow> administrators_ok a \<Longrightarrow> administrators_ok a'"
  "delete_suspended_account w grant i a = Inr (a', paths) \<Longrightarrow> administrators_ok a \<Longrightarrow> administrators_ok a'"
  "reset_password w grant i a = Inr (a', y) \<Longrightarrow> administrators_ok a \<Longrightarrow> administrators_ok a'"
  subgoal by (auto simp: account_action_def admin_Inr dest: report_action_ok suspension_keeps_administrators
        limit_roles [THEN administrators_frame] split: if_splits option.splits)
  subgoal by (auto simp: unsuspend_account_def admin_Inr dest: suspension_keeps_administrators)
  subgoal by (auto simp: delete_suspended_account_def admin_Inr dest!: audit_roles [THEN administrators_frame]
        dest: purge_roles [THEN administrators_frame] split: if_splits)
  subgoal by (auto simp: reset_password_def admin_Inr dest: reset_roles [THEN administrators_frame])
  done

lemma admin_step_ok: "admin_step a a' \<Longrightarrow> administrators_ok a \<Longrightarrow> administrators_ok a'"
proof (induction rule: admin_step.induct)
  case (step_register new_id now pg_now username email h a d i)
  then have "roles d = roles (ad_db a) @ [(new_id, False, True)] \<and> new_id \<notin> set (map fst (roles (ad_db a)))"
    unfolding create_local_account_in_transaction_def by (intro insert_account_roles)
  moreover have "active_admins (xs @ ys) = active_admins xs @ active_admins ys" for xs ys by (simp add: active_admins_def)
  ultimately show ?case using step_register(2) unfolding administrators_ok_def count_active by simp
next
  case (step_operator_reset w username a a' y)
  then show ?case by (auto simp: operator_reset_password_def admin_Inr dest: reset_roles [THEN administrators_frame])
next
  case (step_operator_limit w name limit_on a a' x)
  then show ?case by (auto simp: operator_set_account_limited_def admin_Inr dest: limit_roles [THEN administrators_frame])
next
  case (step_web_limit f w i limit_on a a' x)
  then show ?case by (auto simp: limit_admin_account_def web_Inr dest: limit_roles [THEN administrators_frame])
next
  case (step_web_reset f w i a a' y)
  then show ?case by (auto simp: reset_admin_password_def web_Inr dest: reset_roles [THEN administrators_frame])
next
  case (step_elsewhere a' a)
  then show ?case using administrators_frame by blast
qed (auto simp: create_account_def create_admin_account_def suspend_admin_account_def create_user_def admin_Inr web_Inr
    dest: admin_requests_ok created_keeps_administrators suspension_keeps_administrators purge_roles [THEN administrators_frame])

interpretation admin_sys: invariant_system administrators_ok admin_step administrators_ok
  by unfold_locales (auto intro: admin_step_ok)

text \<open>
  C36: once there is an active administrator, there is always one. From any state with an active
  administrator on, such as the one after \<open>create_bootstrap_admin\<close>, no sequence of requests,
  forms, commands, purges and registrations, one after another, leaves the server without an
  administrator who is not suspended.
\<close>

theorem active_administrator_remains:
  assumes "admin_step\<^sup>*\<^sup>* a b" and "distinct (map la_id (t_local_account (ad_db a)))" and "0 < count_active_admin_accounts (ad_db a)"
  shows "0 < count_active_admin_accounts (ad_db b)"
  using admin_sys.run_inv [OF assms(1)] assms(2,3) by (simp add: administrators_ok_def comp_def)

lemma demo_suspension_step: "\<exists>b. account_action demo_admin_draws demo_moderator 2 ''suspend'' None demo_two = Inr b"
proof -
  have ready: "suspension_ready demo_admin_draws 2 demo_two"
    by (simp add: suspension_ready_def demo_admin_draws_def demo_two_def demo_boot_def demo_moderation_def empty_db_def
        account_statuses_def account_cards_def)
  have found: "find_local_account_by_id (ad_db demo_two) 2 = Some ((demo_account 2)\<lparr>la_is_admin := True\<rparr>)"
    "la_suspended_at ((demo_account 2)\<lparr>la_is_admin := True\<rparr>) = None" "find_local_account_by_id (ad_db demo_two) 1 \<noteq> None"
    by (simp_all add: demo_two_def demo_account_def find_local_account_by_id_def)
  have "\<not> count_active_admin_accounts (ad_db demo_two) \<le> 1" by (simp add: count_active_admin_accounts_def demo_two_def demo_account_def)
  then obtain existing where "suspension_checks 1 2 True (ad_db demo_two) = Inr existing"
    using found(1) by (auto simp: suspension_checks_def find_admin_account_by_id_def find_or_def)
  then show ?thesis
    using apply_suspension_succeeds [OF ready found, of AuditApi existing]
    by (auto simp: account_action_def authorized_def require_admin_def allows_scope_def split_ascii_whitespace_def
        is_ascii_whitespace_def utext_def demo_moderator_def demo_account_def bind_admin_def admin_err_def
        set_account_suspended_in_transaction_def)
qed

theorem active_administrator_remains_witness:
  "\<exists>b. account_action demo_admin_draws demo_moderator 2 ''suspend'' None demo_two = Inr b \<and> 0 < count_active_admin_accounts (ad_db b)"
proof -
  obtain b where b: "account_action demo_admin_draws demo_moderator 2 ''suspend'' None demo_two = Inr b" using demo_suspension_step by blast
  then have "admin_step\<^sup>*\<^sup>* demo_two b" by (auto intro: admin_step.step_action)
  moreover have "distinct (map la_id (t_local_account (ad_db demo_two)))" "0 < count_active_admin_accounts (ad_db demo_two)"
    by (simp_all add: demo_two_def demo_account_def count_active_admin_accounts_def)
  ultimately show ?thesis using active_administrator_remains b by blast
qed

subsection \<open>The audit log of moderation\<close>

abbreviation entry_actors :: "admin_audit_log_row list \<Rightarrow> uuid option list" where
  "entry_actors rows \<equiv> map aal_actor_account_id rows"

text \<open>\<open>actors\<close> are those of the entries that the log has gained.\<close>

definition log_gains :: "uuid option list \<Rightarrow> administration \<Rightarrow> administration \<Rightarrow> bool" where
  "log_gains actors a a' \<longleftrightarrow>
     (\<exists>rows. t_admin_audit_log (ad_mod a') = t_admin_audit_log (ad_mod a) @ rows \<and> entry_actors rows = actors)"

text \<open>
  Requests on reports and on the rules of the server, with a token; the same changes through the
  forms of the web pages, by the account of the session.
\<close>

inductive report_request :: "access_token_grant \<Rightarrow> moderation \<Rightarrow> moderation \<Rightarrow> bool" for grant where
  "update_admin_report w grant report category rule_ids m = Inr (m', v) \<Longrightarrow> report_request grant m m'"
| "mutate_assignment w grant report assign m = Inr (m', v) \<Longrightarrow> report_request grant m m'"
| "mutate_resolution w grant report resolved m = Inr (m', v) \<Longrightarrow> report_request grant m m'"
| "delete_report_status w grant deletion report status m = Inr m' \<Longrightarrow> report_request grant m m'"
| "api_create_instance_rule w grant body m = Inr (m', r) \<Longrightarrow> report_request grant m m'"
| "api_update_instance_rule w grant i body m = Inr (m', r) \<Longrightarrow> report_request grant m m'"
| "delete_instance_rule w grant i m = Inr (m', r) \<Longrightarrow> report_request grant m m'"
| "api_reorder_instance_rules w grant ids m = Inr (m', rs) \<Longrightarrow> report_request grant m m'"

inductive moderation_form :: "uuid \<Rightarrow> administration \<Rightarrow> administration \<Rightarrow> bool" for i where
  "create_admin_instance_rule f w body a = Inr a' \<Longrightarrow> authenticated_admin_form f (ad_db a) = Inr i \<Longrightarrow> moderation_form i a a'"
| "update_admin_instance_rule f w rule operation body a = Inr a' \<Longrightarrow> authenticated_admin_form f (ad_db a) = Inr i \<Longrightarrow>
     moderation_form i a a'"
| "web_update_admin_report f w report change a = Inr a' \<Longrightarrow> authenticated_admin_form f (ad_db a) = Inr i \<Longrightarrow> moderation_form i a a'"
| "delete_admin_report_status f w deletion report status a = Inr a' \<Longrightarrow> authenticated_admin_form f (ad_db a) = Inr i \<Longrightarrow>
     moderation_form i a a'"

datatype moderation_event =
    Request admin_permission access_token_grant nat
  | Form uuid
  | Filed
  | Unrelated "uuid option list"

text \<open>
  An account action that names a report resolves it too, and needs the permission for accounts.
  Reports are filed by accounts of this server and by other servers. Whatever else happens may add
  entries to the log, but changes neither reports nor rules.
\<close>

inductive moderation_step :: "moderation_event \<Rightarrow> administration \<Rightarrow> administration \<Rightarrow> bool" where
  by_request: "report_request grant (ad_mod a) m \<Longrightarrow> moderation_step (Request WriteReports grant 1) a (a\<lparr>ad_mod := m\<rparr>)"
| by_account_action: "account_action w grant i action_type (Some report) a = Inr a' \<Longrightarrow>
    moderation_step (Request WriteAccounts grant (if action_type = ''none'' then 1 else 2)) a a'"
| by_form: "moderation_form i a a' \<Longrightarrow> moderation_step (Form i) a a'"
| filed: "create_report e w grant form (ad_mod a) = Inr (m, x) \<Longrightarrow> moderation_step Filed a (a\<lparr>ad_mod := m\<rparr>)"
| flagged: "create_moderation_report i now input (ad_mod a) = Inr (m, r) \<Longrightarrow> moderation_step Filed a (a\<lparr>ad_mod := m\<rparr>)"
| unrelated: "log_gains actors a a' \<Longrightarrow> t_instance_rule (ad_mod a') = t_instance_rule (ad_mod a) \<Longrightarrow>
    t_moderation_report (ad_mod a') = t_moderation_report (ad_mod a) \<Longrightarrow> moderation_step (Unrelated actors) a a'"

inductive moderation_run :: "administration \<Rightarrow> (administration \<times> moderation_event) list \<Rightarrow> administration \<Rightarrow> bool" for a where
  run_start: "moderation_run a [] a"
| run_step: "moderation_run a es b \<Longrightarrow> moderation_step e b c \<Longrightarrow> moderation_run a (es @ [(b, e)]) c"

fun event_actors :: "moderation_event \<Rightarrow> uuid option list" where
  "event_actors (Request permission grant n) = replicate n (Some (la_id (atg_account grant)))"
| "event_actors (Form i) = [Some i]"
| "event_actors Filed = []"
| "event_actors (Unrelated actors) = actors"

fun event_permitted :: "administration \<times> moderation_event \<Rightarrow> bool" where
  "event_permitted (a, Request permission grant n) \<longleftrightarrow> la_is_admin (atg_account grant) \<and>
     (\<exists>scope \<in> set (split_ascii_whitespace (atg_scopes grant)). allows_scope permission scope)"
| "event_permitted (a, Form i) \<longleftrightarrow> (\<exists>r. find_local_account_by_id (ad_db a) i = Some r \<and> la_is_admin r)"
| "event_permitted (a, Filed) \<longleftrightarrow> True"
| "event_permitted (a, Unrelated actors) \<longleftrightarrow> True"

fun by_moderator :: "moderation_event \<Rightarrow> bool" where
  "by_moderator (Request permission grant n) \<longleftrightarrow> True"
| "by_moderator (Form i) \<longleftrightarrow> True"
| "by_moderator Filed \<longleftrightarrow> False"
| "by_moderator (Unrelated actors) \<longleftrightarrow> False"

lemma log_gains_audited: "audited i (ad_mod a) m \<Longrightarrow> log_gains [Some i] a (a\<lparr>ad_mod := m\<rparr>)"
  by (auto simp: audited_def log_gains_def)

lemma log_gains_trans: "log_gains xs a b \<Longrightarrow> log_gains ys b c \<Longrightarrow> log_gains (xs @ ys) a c"
  by (auto simp: log_gains_def)

lemma log_gains_frame:
  "t_admin_audit_log (ad_mod b) = t_admin_audit_log (ad_mod a) \<Longrightarrow> log_gains xs b c = log_gains xs a c"
  by (simp add: log_gains_def)

lemma request_audited:
  "report_request grant m m' \<Longrightarrow> may_moderate grant \<and> audited (la_id (atg_account grant)) m m'"
  by (induction rule: report_request.induct; erule report_handlers_audited rule_handlers_audited removal_audited)

lemma audit_web_audited:
  "audit_web w i action kind target metadata m1 = Inr m' \<Longrightarrow> t_admin_audit_log m1 = t_admin_audit_log m \<Longrightarrow> audited i m m'"
  unfolding audit_web_def by (rule insert_audit_Inr)

lemma report_change_log: "report_change change now report actor m = Inr (m1, x) \<Longrightarrow> t_admin_audit_log m1 = t_admin_audit_log m"
  by (auto simp: report_change_def dest: log_kept split: report_operation.splits)

lemma moved_rule_audited: "move_rule w i up rule m = Inr m' \<Longrightarrow> audited i m m'"
  by (auto simp: move_rule_def web_Inr dest: log_kept intro: audit_web_audited)

lemma form_audited:
  assumes "moderation_form i a a'"
  shows "event_permitted (a, Form i) \<and> log_gains [Some i] a a'"
proof -
  obtain f m where "authenticated_admin_form f (ad_db a) = Inr i" and "audited i (ad_mod a) m" and "a' = a\<lparr>ad_mod := m\<rparr>"
    using assms
  proof (cases rule: moderation_form.cases)
    case (1 f w body)
    then show ?thesis using that [of f]
      by (auto simp: create_admin_instance_rule_def web_Inr audit_web_rule_def dest: log_kept audit_web_audited)
  next
    case (2 f w rule operation body)
    then show ?thesis using that [of f]
      by (cases operation)
        (auto simp: update_admin_instance_rule_def web_Inr audit_web_rule_def Let_def split: prod.splits
          dest: log_kept audit_web_audited moved_rule_audited)
  next
    case (3 f w report change)
    then show ?thesis using that [of f]
      by (auto simp: web_update_admin_report_def web_Inr dest: report_change_log audit_web_audited)
  next
    case (4 f w deletion report status)
    then obtain m1 m where "remove_report_status deletion report status (ad_mod a) = Inr (Some m1)"
      "audit_web w i ReportUpdate TargetReport report (JObj [(''removed_status_id'', JStr (rd_id_string w status))]) m1 = Inr m"
      "a' = a\<lparr>ad_mod := m\<rparr>" by (auto simp: delete_admin_report_status_def web_Inr)
    moreover from this(1) have "t_admin_audit_log m1 = t_admin_audit_log (ad_mod a)" using removed_report_status by fastforce
    ultimately show ?thesis using that [of f m] 4(2) audit_web_audited by blast
  qed
  then show ?thesis using authenticated_admin_Inr log_gains_audited by auto
qed

lemma audit_entry_gains: "audit_entry w n actor src x k i j a = Inr a' \<Longrightarrow> log_gains [actor] a a'"
  by (auto simp: audit_entry_def insert_admin_audit_entry_def bind_res_Inr_iff with_fk_Inr tbl_insert_Inr log_gains_def)

lemma mark_account_log:
  "mark_account_status_trends_dirty pg_now l i a = Inr a' \<Longrightarrow> t_admin_audit_log (ad_mod a') = t_admin_audit_log (ad_mod a)"
  by (erule mark_account_frame) simp

lemma limit_rows_log:
  "set_local_account_limited_by_id now pg_now i b a = Inr a' \<Longrightarrow> t_admin_audit_log (ad_mod a') = t_admin_audit_log (ad_mod a)"
  "set_remote_actor_limited_by_id now pg_now i b a = Inr a' \<Longrightarrow> t_admin_audit_log (ad_mod a') = t_admin_audit_log (ad_mod a)"
  unfolding set_remote_actor_limited_by_id_def set_local_account_limited_by_id_def
  by (cases "find_local_account_by_id (ad_db a) i"; simp; drule mark_account_log; simp)
    (cases "find_remote_actor_by_id (ad_db a) i"; simp; drule mark_account_log; simp)

lemma limit_gains:
  assumes "set_account_limited_in_transaction w actor src i b a = Inr (a', x)"
  shows "log_gains [actor] a a'"
proof -
  obtain e where e: "find_admin_account_by_id (ad_db a) i = Some e"
    using assms by (auto simp: set_account_limited_in_transaction_def admin_Inr)
  obtain a1 where limit: "(if ada_domain e \<noteq> None then set_remote_actor_limited_by_id else set_local_account_limited_by_id)
      (aw_now w) (aw_pg_now w) i b a = Inr a1"
    and entry: "log_gains [actor] a1 a'"
    using assms e unfolding set_account_limited_in_transaction_def by (auto simp: admin_Inr dest!: audit_entry_gains)
  have "t_admin_audit_log (ad_mod a1) = t_admin_audit_log (ad_mod a)"
    using limit limit_rows_log by (simp split: if_splits)
  from log_gains_frame [OF this] show ?thesis using entry by blast
qed

lemma suspend_by_id_log:
  assumes "set_account_suspended_by_id w i s a = Inr (a', found)"
  shows "t_admin_audit_log (ad_mod a') = t_admin_audit_log (ad_mod a)"
proof (cases "find_local_account_by_id (ad_db a) i")
  case None
  show ?thesis
  proof (cases "find_remote_actor_by_id (ad_db a) i")
    case None
    then show ?thesis using assms \<open>find_local_account_by_id (ad_db a) i = None\<close> by (simp add: set_account_suspended_by_id_def)
  next
    case (Some actor)
    have mark: "suspend_remote_actor w actor s a = Inr a'"
      using assms unfolding set_account_suspended_by_id_def Some \<open>find_local_account_by_id (ad_db a) i = None\<close>
      by (simp add: bind_res_Inr_iff)
    obtain f where "suspend_remote_actor w actor s a = mark_account_status_trends_dirty (aw_pg_now w) False (ra_id actor) (with_db f a)"
      by (rule suspend_remote_stage)
    then show ?thesis using mark mark_account_log by fastforce
  qed
next
  case (Some account)
  then have "suspend_local_account w account s a = Inr a'"
    using assms by (auto simp: set_account_suspended_by_id_def bind_res_Inr_iff)
  then show ?thesis by (cases rule: suspend_local_cases) (simp_all add: severed_rows_frame)
qed

lemma suspension_gains:
  assumes "set_account_suspended_in_transaction w actor src i s a = Inr (a', x)"
  shows "log_gains [Some actor] a a'"
proof -
  obtain e where e: "apply_suspension w actor src i s e a = Inr (a', x)"
    using assms by (auto simp: set_account_suspended_in_transaction_def bind_res_Inr_iff)
  obtain a1 a2 found where first: "(if s \<and> \<not> ada_suspended e \<and> ada_domain e = None
        then bind_res (find_or ''account does not exist'' (find_local_account_by_id (ad_db a) i)) (\<lambda>local.
               with_db_res (enqueue_actor_delete_in_transaction w local) a)
        else Inr a) = Inr a1"
    and second: "set_account_suspended_by_id w i s a1 = Inr (a2, found)" and entry: "log_gains [Some actor] a2 a'"
    using e unfolding apply_suspension_def by (auto simp: admin_Inr dest!: audit_entry_gains)
  have "t_admin_audit_log (ad_mod a1) = t_admin_audit_log (ad_mod a)" using first by (auto simp: admin_Inr with_db_res_Inr split: if_splits)
  then have "t_admin_audit_log (ad_mod a2) = t_admin_audit_log (ad_mod a)" using suspend_by_id_log [OF second] by simp
  from log_gains_frame [OF this] show ?thesis using entry by blast
qed

lemma account_action_gains:
  assumes "account_action w grant i action_type (Some report) a = Inr a'"
  shows "event_permitted (a, Request WriteAccounts grant n)"
    and "log_gains (replicate (if action_type = ''none'' then 1 else 2) (Some (la_id (atg_account grant)))) a a'"
proof -
  let ?actor = "la_id (atg_account grant)"
  show "event_permitted (a, Request WriteAccounts grant n)"
    using assms by (auto simp: account_action_def admin_Inr authorized_def require_admin_def list_ex_iff split: if_splits sum.splits)
  have "account_action_for_report w ?actor i report action_type a = Inr a'"
    using assms by (auto simp: account_action_def admin_Inr authorized_def require_admin_def split: if_splits sum.splits)
  then obtain a1 m y where first: "(if action_type = ''silence''
            then admin_err (bind_res (set_account_limited_in_transaction w (Some ?actor) AuditApi i True a) (\<lambda>(a, _). Inr a))
            else if action_type = ''suspend''
            then admin_err (bind_res (set_account_suspended_in_transaction w ?actor AuditApi i True a) (\<lambda>(a, _). Inr a))
            else if action_type = ''none''
            then bind_admin (or_record_not_found (find_admin_account_by_id (ad_db a) i)) (\<lambda>_. Inr a)
            else unsupported_action) = Inr a1"
    and change: "set_moderation_report_resolved (aw_now w) report (Some ?actor) (ad_mod a1) = Inr (m, y)"
    and entry: "log_gains [Some ?actor] (a1\<lparr>ad_mod := m\<rparr>) a'"
    unfolding account_action_for_report_def bind_admin_Inr admin_err_Inr
    using audit_entry_gains by (auto simp: bind_admin_Inr admin_err_Inr split: if_splits)
  have last: "log_gains [Some ?actor] a1 a'"
    using entry log_kept(3) [OF change] log_gains_frame [of "a1\<lparr>ad_mod := m\<rparr>" a1] by simp
  show "log_gains (replicate (if action_type = ''none'' then 1 else 2) (Some ?actor)) a a'"
  proof (cases "action_type = ''none''")
    case True
    then have "a1 = a" using first by (auto simp: admin_Inr)
    then show ?thesis using last True by simp
  next
    case False
    then have "log_gains [Some ?actor] a a1"
      using first limit_gains suspension_gains by (auto simp: admin_Inr split: if_splits)
    from log_gains_trans [OF this last] show ?thesis using False by (simp add: numeral_2_eq_2)
  qed
qed

lemma filed_frame:
  assumes "create_moderation_report i now input m = Inr (m', r)"
  shows "t_admin_audit_log m' = t_admin_audit_log m" and "t_instance_rule m' = t_instance_rule m"
    and "\<exists>r. t_moderation_report m' = t_moderation_report m @ [r]"
  by (rule create_report_cases [OF assms]; simp)+

lemma moderation_step_audited:
  "moderation_step e a a' \<Longrightarrow> event_permitted (a, e) \<and> log_gains (event_actors e) a a' \<and>
     (\<not> by_moderator e \<longrightarrow> t_instance_rule (ad_mod a') = t_instance_rule (ad_mod a) \<and>
        (\<exists>new. t_moderation_report (ad_mod a') = t_moderation_report (ad_mod a) @ new))"
proof (induction rule: moderation_step.induct)
  case (by_request grant a m)
  then show ?case using request_audited log_gains_audited by (auto simp: may_moderate_def allows_scope_def)
next
  case (by_account_action w grant i action_type report a a')
  then show ?case using account_action_gains by simp
next
  case (by_form i a a')
  then show ?case using form_audited by simp
next
  case (filed e w grant form a m x)
  then show ?case using filing_frame [OF filed] by (auto simp: log_gains_def)
next
  case (flagged i now input a m r)
  then show ?case using filed_frame [OF flagged] by (auto simp: log_gains_def)
next
  case (unrelated actors a a')
  then show ?case by simp
qed

text \<open>
  C33: moderation is audited. Through any run of requests, forms, filed reports and unrelated changes,
  the log only grows, and its new entries name, in order, who made each accepted change: a
  request on reports or rules and a form of the web pages leave one entry of their author, and
  an account action that names a report leaves one, or two when it limits or suspends the account.
  Each was permitted: the token belongs to an administrator and has a scope for writing reports, or
  accounts for account actions, and the session belongs to an administrator. Without such a change
  the rules stay as they are, and reports are only added.
\<close>

theorem moderation_is_audited:
  assumes "moderation_run a es b"
  shows "\<exists>rows. t_admin_audit_log (ad_mod b) = t_admin_audit_log (ad_mod a) @ rows \<and>
      entry_actors rows = concat (map (\<lambda>(s, e). event_actors e) es) \<and> list_all event_permitted es \<and>
      (list_ex (\<lambda>(s, e). by_moderator e) es \<or>
       t_instance_rule (ad_mod b) = t_instance_rule (ad_mod a) \<and>
       (\<exists>new. t_moderation_report (ad_mod b) = t_moderation_report (ad_mod a) @ new))"
  using assms
proof (induction rule: moderation_run.induct)
  case run_start
  then show ?case by simp
next
  case (run_step es b e c)
  obtain rows where rows: "t_admin_audit_log (ad_mod c) = t_admin_audit_log (ad_mod b) @ rows" "entry_actors rows = event_actors e"
    using moderation_step_audited [OF run_step(2)] by (auto simp: log_gains_def)
  then show ?case using run_step.IH moderation_step_audited [OF run_step(2)] by fastforce
qed

text \<open>Resolving a report of the small server, in a state with nothing but its moderation.\<close>

definition demo_office :: administration where
  "demo_office = \<lparr> ad_mod = demo_reported, t_media_attachment = [], t_scheduled_status = [], t_status_preview_card = [] \<rparr>"

theorem moderation_is_audited_witness:
  "\<exists>m v row. mutate_resolution demo_report_draws demo_moderator 30 True demo_reported = Inr (m, v) \<and>
     t_admin_audit_log m = t_admin_audit_log demo_reported @ [row] \<and> aal_actor_account_id row = Some 1"
proof -
  obtain m v where m: "mutate_resolution demo_report_draws demo_moderator 30 True demo_reported = Inr (m, v)" using demo_resolved by blast
  then have "moderation_step (Request WriteReports demo_moderator 1) demo_office (demo_office\<lparr>ad_mod := m\<rparr>)"
    by (intro by_request report_request.intros(3)) (simp add: demo_office_def)
  from run_step [OF run_start this] moderation_is_audited
  have "\<exists>rows. t_admin_audit_log m = t_admin_audit_log demo_reported @ rows \<and> entry_actors rows = [Some 1]"
    by (fastforce simp: demo_office_def demo_moderator_def demo_account_def)
  then show ?thesis using m by (auto simp: map_eq_Cons_conv)
qed

end
