(* ===== verification/Spec2Isabelle.thy ===== *)
theory Spec2Isabelle
  imports Roosty_Job_Properties Roosty_Query_Properties Roosty_Poll_Lifecycle Roosty_Worker_Properties
    Roosty_Net_Properties Roosty_Auth_Properties Roosty_Interaction_Properties Roosty_Streaming_Properties
    Roosty_Admin_Steps
begin

text \<open>
  A verification of Roosty, a fediverse server written in Rust: a Mastodon-compatible API over
  PostgreSQL, federating by ActivityPub.

  \<^bold>\<open>The program and its parts.\<close> \<^verbatim>\<open>src/crates/db/src\<close> holds the state and the
  operations on it: functions that run statements on a connection or inside of a transaction
  of their caller. \<^verbatim>\<open>src/crates/server/src\<close> calls them from HTTP handlers, from the
  inbox of remote servers and from a worker that runs durable jobs. Tables, unique indexes and
  foreign keys are set up by \<^verbatim>\<open>src/crates/migration/src\<close>, and
  \<^verbatim>\<open>src/crates/core/src\<close> has the error type, and \<^verbatim>\<open>src/crates/web-push/src\<close> delivers notifications. This development
  models the database core, the worker, registration, sign-in and OAuth, notifications, the
  interactions with statuses, streaming, reports, administration by API, web form and command line, and
  the checks that keep requests off internal hosts.

  \<^bold>\<open>How the state is modelled.\<close> The database is the record \<open>db\<close> of tables
  (\<open>Roosty_Schema\<close>); a table is the list of its rows in insertion order, a row is a record
  with the columns of its entity (\<^verbatim>\<open>src/crates/db/src/entity\<close>), and each table has a
  conflict relation that says which two rows its primary key and unique indexes exclude. A
  statement is one of the forms of \<open>Roosty_Prelude\<close>: insert, insert on conflict do nothing
  or update, update and delete by a predicate. Operations take and return the database; an
  error is a value of \<open>roosty_error\<close>, and as every writing operation runs in a transaction
  that is rolled back on an error, an error carries no new state (where the code runs
  statements outside of a transaction, the new state is returned beside the result). Clock
  readings and fresh identifiers are arguments, so theorems hold for any clock and any
  identifiers. Identifiers are natural numbers in the order of their bytes, instants are
  microseconds, PostgreSQL integers are integers with their bounds written out, and casts
  between widths wrap as in the source. Text that is only compared is a \<open>string\<close>, text whose
  characters matter is a list of code points.

  \<^bold>\<open>The theories.\<close>
  \<^item> \<open>Roosty_Prelude\<close>: results, statement forms, the interfaces \<open>unique_table\<close>,
    \<open>keyed_table\<close> (every table of the schema is an interpretation) and
    \<open>invariant_system\<close> (reachable states of a step relation keep an invariant).
  \<^item> \<open>Roosty_Text\<close>: trimming, splitting and searching of text.
  \<^item> \<open>Roosty_Schema\<close>: enumerations, entities, indexes.
  \<^item> \<open>Roosty_Jobs\<close>: the job queue (\<^verbatim>\<open>db/src/lib.rs\<close>, from \<open>enqueue_job\<close> to
    \<open>next_retry_at\<close>). \<open>Roosty_Job_Queue\<close>: its invariant, the interface
    \<open>lease_queue\<close> and the life cycle of a job. \<open>Roosty_Job_Properties\<close>: its theorems.
  \<^item> \<open>Roosty_Pagination\<close>, \<open>Roosty_Lists\<close>, \<open>Roosty_Relations\<close>, \<open>Roosty_Remote\<close>:
    pages, lists, follows, blocks and mutes of local accounts, and the same with remote actors,
    with moves, suspensions and the register of inbox activities (\<^verbatim>\<open>db/src/lib.rs\<close>).
    \<open>Roosty_Relation_Invariants\<close>, \<open>Roosty_List_Invariants\<close>, \<open>Roosty_Relation_Steps\<close>:
    that a block cuts every follow (the interface \<open>severing_relation\<close>, for local and for
    remote accounts), that list members are followed, and that every operation keeps both.
    \<open>Roosty_Relation_Properties\<close> and \<open>Roosty_Query_Properties\<close>: their theorems.
  \<^item> \<open>Roosty_Polls\<close>: \<^verbatim>\<open>db/src/polls.rs\<close>. \<open>Roosty_Poll_Invariants\<close>: counters agree with
    ballots, and every operation keeps that. \<open>Roosty_Poll_Properties\<close> and
    \<open>Roosty_Poll_Lifecycle\<close>: their theorems.
  \<^item> \<open>Roosty_Worker\<close>: \<open>worker_iteration\<close>, its loop and pool, the retention loop
    (\<^verbatim>\<open>server/src/main.rs\<close>), with the error texts of \<^verbatim>\<open>core/src/lib.rs\<close> and the
    classification of failures. \<open>Roosty_Worker_Properties\<close>: its theorems.
  \<^item> \<open>Roosty_Access\<close>: OAuth applications, authorization codes, access tokens and push
    subscriptions (\<^verbatim>\<open>db/src/lib.rs\<close>). \<open>Roosty_Auth\<close>: sessions, passwords and the OAuth
    endpoints (\<^verbatim>\<open>server/src/auth.rs\<close>). \<open>Roosty_Auth_Properties\<close>: their theorems.
  \<^item> \<open>Roosty_Registration\<close>: the creation of accounts, the registration rate limit
    (\<^verbatim>\<open>db/src/lib.rs\<close>) and the endpoint (\<^verbatim>\<open>server/src/registration.rs\<close>).
    \<open>Roosty_Registration_Properties\<close>: its theorems.
  \<^item> \<open>Roosty_Net\<close>: addresses as words, which of them are public
    (\<^verbatim>\<open>web-push/src/endpoint.rs\<close>, \<^verbatim>\<open>server/src/federation/discovery.rs\<close>) and the client
    behind proxies (\<^verbatim>\<open>server/src/client_address.rs\<close>). \<open>Roosty_Domain_Policy\<close>: rules for
    remote domains and the check of a remote URL. \<open>Roosty_Net_Properties\<close>: their theorems.
  \<^item> \<open>Roosty_Notifications\<close>: who is notified under which policy, requests of filtered senders and
    the jobs that merge and clean them up, groups, listing and dismissal (\<^verbatim>\<open>db/src/lib.rs\<close>,
    \<^verbatim>\<open>db/src/entity/local_notification.rs\<close>). \<open>Roosty_Notification_Invariants\<close>: that held
    back notifications and their requests belong together, through every operation, and the
    interface \<open>notification_frame\<close> (what notifying leaves alone).
    \<open>Roosty_Notification_Properties\<close>: their theorems.
  \<^item> \<open>Roosty_Interactions\<close>: visibility, favourites, bookmarks and boosts of local and remote
    statuses with the trend counters they adjust (\<^verbatim>\<open>db/src/lib.rs\<close>), the activities delivered for
    them (\<^verbatim>\<open>server/src/federation.rs\<close>) and the handler (\<^verbatim>\<open>server/src/statuses.rs\<close>).
    \<open>Roosty_Interaction_Invariants\<close>: counters are the numbers of stored rows, through every
    operation. \<open>Roosty_Interaction_Properties\<close>: their theorems.
  \<^item> \<open>Roosty_Streaming\<close>: events, channels, sessions (\<^verbatim>\<open>server/src/streaming.rs\<close>,
    \<^verbatim>\<open>server/src/compat.rs\<close>) and the log between processes (\<^verbatim>\<open>db/src/lib.rs\<close>).
    \<open>Roosty_Streaming_Properties\<close>: processes and log as a step relation, and its theorems.
  \<^item> \<open>Roosty_Reports\<close>: instance rules, moderation reports (\<^verbatim>\<open>db/src/reports.rs\<close>), the audit
    log (\<^verbatim>\<open>db/src/lib.rs\<close>), and their endpoints (\<^verbatim>\<open>server/src/reports.rs\<close>, with the authorization
    of administrators of \<^verbatim>\<open>server/src/admin.rs\<close>). \<open>Roosty_Report_Properties\<close>: their theorems.
  \<^item> \<open>Roosty_Administration\<close>: limits, suspension and purge of accounts (\<^verbatim>\<open>db/src/lib.rs\<close>), the
    announcement to followers (\<^verbatim>\<open>server/src/federation.rs\<close>) and the actions of administrators
    (\<^verbatim>\<open>server/src/admin.rs\<close>). Its state adds to the database the tables of reports, media, scheduled
    statuses and preview cards. \<open>Roosty_Administration_Properties\<close>: their theorems.
  \<^item> \<open>Roosty_Web_Admin\<close>: the requests on domain rules (\<^verbatim>\<open>server/src/admin.rs\<close>), the forms of the
    administrator's web pages (\<^verbatim>\<open>server/src/web.rs\<close>) and the commands of the operator
    (\<^verbatim>\<open>server/src/main.rs\<close>). \<open>Roosty_Admin_Steps\<close>: all ways to administer the server as step
    relations, and their theorems.

  \<^bold>\<open>What is shown.\<close> Of the job queue: an invariant of every reachable state, deduplication,
  that a claim takes the earliest due job and never a live lease, that a claim is settled at
  most once and a lost one has no effect, that steps refine the life cycle of a job and leave finished
  jobs alone, the retry
  schedule, retention, and what redaction of error texts keeps out. Of relations: no follow
  crosses a block, in every reachable state; list members are followed, but for the actors whose follow
  was ended from their side by a rejection or by the deletion of the actor; blocks and mutes do
  what they promise at every instant; bulk queries agree with the pointwise ones; what a
  remote actor says touches its own rows; an inbox activity is new once; walking through the
  pages of a collection ends and shows every entry once. Of polls: results are the stored
  ballots in every reachable state, a voter has one ballot, voting and showing agree on
  expiry, expiration notifies exactly once, scheduled polls are read back. Of the worker: a
  job whose handler returns is settled, and draining expired jobs ends with none left.
  Of access: a token issued for a code belongs to the account that approved it, with its scopes,
  its redirect and its PKCE proof; a revoked token resolves to nothing; a session cookie is good
  for its seven days and only as signed; in every window of time no client makes more attempts
  to register than the limits allow, and what the limit answers is exact; a registration leaves
  a token that signs the new account in. Of the network: which endpoints web push contacts, that
  a domain rule covers exactly the domain and its subdomains, and that forwarded addresses cannot
  be forged past a trusted proxy.
  Of notifications: stored requests are well formed in every reachable state, what a policy holds
  back is not shown, counted or pushed, and an accepted sender is heard. Of interactions: trend counters
  are exact in every reachable state, and undoing removes what it names. Of streaming: what is
  delivered was published by another process and is delivered at most once, nothing is lost
  while no reader is ahead of an open transaction, and an event reaches its audience only. Of
  reports: reordering rules gives the order asked for although positions are unique at every
  statement, a report reads as it was filed whatever becomes of the rules, every change of a
  moderator, by request or by form, is permitted and leaves its entries in the log, and what a page of
  reports shows. Of administration: once there is an active administrator one remains, a suspension
  cuts the account off and queues the purge that the worker runs, and lifting it leaves no such
  job and restores neither relations nor tokens.
  Theorems about what the code gets wrong are stated for all inputs as well; they are the
  properties of kind error, and the manifest names the lines.

  \<^bold>\<open>Bounds and fuel.\<close> Recursion is structural, with two exceptions. \<open>walk_pages\<close> takes
  fuel, and \<open>followers_walk_is_complete\<close> shows that as many pages as there
  are entries, and one if there are none, are enough; running out of fuel is the value None. The retention loop
  terminates by the number of stored jobs. \<open>worker_loop\<close> runs over the list of its
  iterations' surroundings and says whether it is still running at the end of them.

  \<^bold>\<open>What an operation is taken to be.\<close> In the step relations an operation is one step, as
  if transactions were serializable. Where the code takes no lock this is an idealization;
  \<open>follow_races_with_block\<close> and \<open>code_exchanged_twice_concurrently\<close> show the
  interleavings it leaves out for a follow and a block and for an authorization code, and
  \<open>administrators_suspend_each_other\<close> one for suspensions; row locks, and the deadlocks they cause in
  other interleavings, are not modelled. In the log of
  streaming, insertion and commit are steps of their own, as \<open>overtaken_event_is_lost\<close>
  depends on it.

  \<^bold>\<open>Parameters.\<close> Third-party code is an argument of the definitions that use it: grapheme
  counting, the text of a UUID and its parser, the texts of database, parser and HTTP status
  values, HMAC and SHA-256, password hashing, URL parsing and name resolution. The functions that run the jobs of each kind are fields of the record
  \<open>handlers\<close>; theorems about the worker hold for any of them. Deleting the status that a report
  names is an argument of the operations that do so.

  \<^bold>\<open>Not modelled.\<close> The creation, edits and timelines of statuses, ActivityPub parsing, signing
  and discovery are not modelled, nor the HTTP projections of the
  modelled operations (accounts, notifications, polls). HTTP, sockets, rendering, media files, cryptography, full
  text search and configuration are left out: they are input and output or rest on libraries. The
  migrations are modelled as far as they constrain the tables.
\<close>

end
